(* ===== verification/Prelude.thy ===== *)
theory Prelude
  imports Complex_Main
begin

text \<open>
  Prelude: the Python values, errors and library operations that the components share.

  \<^item> \<open>pyfloat\<close> is a Python float with its infinities and NaN (a finite float is a rational);
    \<open>pyval\<close> is what a \<^verbatim>\<open>Dict[str, Any]\<close> of the source holds (a Config V2 rule
    set, an attribution context, a log entry). A dictionary is an association list with
    string keys, read with \<open>dict_get\<close>; its order is the insertion order.
  \<^item> \<open>py_error\<close> has one constructor per exception class that the modelled code can raise, and
    \<open>'a res\<close> is \<open>py_error + 'a\<close>. \<open>bind_res\<close> sequences two fallible computations.
  \<^item> \<open>runtime\<close> holds what a call reads from its environment: the generated identifier, the
    clock readings (elapsed milliseconds as a float, as an integer, and rounded to two decimals
    as the log lines print them), and the library conversions that are parameters of the model
    (decimal text to float, age of an ISO-8601 timestamp in hours, and whether it is older than
    a number of hours).
  \<^item> \<open>store\<close> is the state of a service module: its in-memory set of idempotency keys and the
    log lines it has emitted, oldest first.
  Strings are lists of 8-bit characters: they stand for Python strings over Latin-1.
\<close>

section \<open>Floats and dynamic values\<close>

datatype pyfloat = Fin rat | PInf | NInf | NaN

fun flt :: "pyfloat \<Rightarrow> pyfloat \<Rightarrow> bool" where
  "flt (Fin a) (Fin b) = (a < b)"
| "flt (Fin a) PInf = True"
| "flt NInf (Fin b) = True"
| "flt NInf PInf = True"
| "flt _ _ = False"

fun feq :: "pyfloat \<Rightarrow> pyfloat \<Rightarrow> bool" where
  "feq (Fin a) (Fin b) = (a = b)"
| "feq PInf PInf = True"
| "feq NInf NInf = True"
| "feq _ _ = False"

definition fge :: "pyfloat \<Rightarrow> pyfloat \<Rightarrow> bool" where
  "fge x y \<longleftrightarrow> flt y x \<or> feq x y"

definition fgt :: "pyfloat \<Rightarrow> pyfloat \<Rightarrow> bool" where
  "fgt x y \<longleftrightarrow> flt y x"

lemma fge_Fin [simp]: "fge (Fin a) (Fin b) \<longleftrightarrow> b \<le> a"
  by (auto simp: fge_def)

lemma fgt_Fin [simp]: "fgt (Fin a) (Fin b) \<longleftrightarrow> b < a"
  by (simp add: fgt_def)

lemma fge_NaN [simp]: "\<not> fge NaN y" "\<not> fge x NaN"
  by (cases y; simp add: fge_def) (cases x; simp add: fge_def)

lemma fge_trans: "fge x y \<Longrightarrow> fge y z \<Longrightarrow> fge x z"
  by (cases x; cases y; cases z) (auto simp: fge_def)

datatype pyval =
    VNone
  | VBool bool
  | VInt int
  | VFloat pyfloat
  | VStr string
  | VList "pyval list"
  | VDict "(string \<times> pyval) list"

type_synonym pydict = "(string \<times> pyval) list"

text \<open>The number a value compares as: \<^verbatim>\<open>bool\<close> and \<^verbatim>\<open>int\<close> compare exactly with floats.\<close>

fun num_of :: "pyval \<Rightarrow> pyfloat option" where
  "num_of (VBool b) = Some (Fin (if b then 1 else 0))"
| "num_of (VInt n) = Some (Fin (of_int n))"
| "num_of (VFloat f) = Some f"
| "num_of _ = None"

definition is_num :: "pyval \<Rightarrow> bool" where
  "is_num v \<longleftrightarrow> num_of v \<noteq> None"

lemma is_num_simps [simp]:
  "is_num (VBool b)" "is_num (VInt n)" "is_num (VFloat f)"
  "\<not> is_num VNone" "\<not> is_num (VStr s)" "\<not> is_num (VList l)" "\<not> is_num (VDict d)"
  by (simp_all add: is_num_def)

lemma is_num_iff: "is_num v \<longleftrightarrow> (\<exists>f. num_of v = Some f)"
  by (auto simp: is_num_def)

fun truthy :: "pyval \<Rightarrow> bool" where
  "truthy VNone = False"
| "truthy (VBool b) = b"
| "truthy (VInt n) = (n \<noteq> 0)"
| "truthy (VFloat f) = (f \<noteq> Fin 0)"
| "truthy (VStr s) = (s \<noteq> [])"
| "truthy (VList l) = (l \<noteq> [])"
| "truthy (VDict d) = (d \<noteq> [])"

text \<open>Lists and dictionaries are not hashable: testing them for membership of a set raises.\<close>

fun hashable :: "pyval \<Rightarrow> bool" where
  "hashable (VList l) = False"
| "hashable (VDict d) = False"
| "hashable _ = True"

text \<open>\<^verbatim>\<open>bool(s)\<close> of an \<^verbatim>\<open>Optional[str]\<close>, and \<^verbatim>\<open>s or d\<close>.\<close>

fun given :: "string option \<Rightarrow> bool" where
  "given None = False"
| "given (Some s) = (s \<noteq> [])"

lemma given_iff: "given x \<longleftrightarrow> (\<exists>s. x = Some s \<and> s \<noteq> [])"
  by (cases x) auto

fun opt_val :: "string option \<Rightarrow> pyval" where
  "opt_val None = VNone"
| "opt_val (Some s) = VStr s"

definition str_list :: "string list \<Rightarrow> pyval" where
  "str_list xs = VList (map VStr xs)"

definition dict_get :: "pydict \<Rightarrow> string \<Rightarrow> pyval" where
  "dict_get d k = (case map_of d k of None \<Rightarrow> VNone | Some v \<Rightarrow> v)"

definition has_key :: "pydict \<Rightarrow> string \<Rightarrow> bool" where
  "has_key d k \<longleftrightarrow> k \<in> fst ` set d"

text \<open>\<^verbatim>\<open>d[k] = v\<close>: an existing key keeps its place.\<close>

fun dict_put :: "string \<Rightarrow> pyval \<Rightarrow> pydict \<Rightarrow> pydict" where
  "dict_put k v [] = [(k, v)]"
| "dict_put k v ((k', v') # d) = (if k = k' then (k, v) # d else (k', v') # dict_put k v d)"

lemma has_key_map_of: "has_key d k \<longleftrightarrow> map_of d k \<noteq> None"
  by (simp add: has_key_def map_of_eq_None_iff)

lemma dict_get_Nil [simp]: "dict_get [] k = VNone"
  by (simp add: dict_get_def)

lemma dict_get_Cons [simp]:
  "dict_get ((k, v) # d) k' = (if k = k' then v else dict_get d k')"
  by (simp add: dict_get_def)

lemma has_key_simps [simp]:
  "\<not> has_key [] k" "has_key ((k', v) # d) k \<longleftrightarrow> k' = k \<or> has_key d k"
  by (auto simp: has_key_def)

section \<open>Errors\<close>

datatype py_error = TypeError | ValueError | OverflowError | KeyError | StateViolationError
  | MultipleResultsFound

type_synonym 'a res = "py_error + 'a"

definition bind_res :: "'a res \<Rightarrow> ('a \<Rightarrow> 'b res) \<Rightarrow> 'b res" where
  "bind_res m f = (case m of Inl e \<Rightarrow> Inl e | Inr a \<Rightarrow> f a)"

lemma bind_res_simps [simp]:
  "bind_res (Inl e) f = Inl e" "bind_res (Inr a) f = f a"
  by (simp_all add: bind_res_def)

lemma bind_res_Inr_iff:
  "bind_res m f = Inr b \<longleftrightarrow> (\<exists>a. m = Inr a \<and> f a = Inr b)"
  by (cases m) auto

lemma bind_Inl_iff:
  "bind_res m f = Inl e \<longleftrightarrow> m = Inl e \<or> (\<exists>a. m = Inr a \<and> f a = Inl e)"
  by (cases m) auto

lemma bind_res_InrE:
  assumes "bind_res m f = Inr b"
  obtains a where "m = Inr a" and "f a = Inr b"
  using assms by (auto simp: bind_res_Inr_iff)

text \<open>
  \<^verbatim>\<open>try: ... except (ValueError, TypeError): d\<close>; other exceptions escape.
\<close>

definition tolerate :: "'a \<Rightarrow> 'a res \<Rightarrow> 'a res" where
  "tolerate d m = (case m of Inl e \<Rightarrow> if e \<in> {ValueError, TypeError} then Inr d else Inl e
     | Inr a \<Rightarrow> Inr a)"

lemma tolerate_simps [simp]:
  "tolerate d (Inr a) = Inr a" "tolerate d (Inl ValueError) = Inr d"
  "tolerate d (Inl TypeError) = Inr d" "tolerate d (Inl OverflowError) = Inl OverflowError"
  by (simp_all add: tolerate_def)

lemma tolerate_Inl: "tolerate d m = Inl e \<longleftrightarrow> m = Inl e \<and> e \<notin> {ValueError, TypeError}"
  by (auto simp: tolerate_def split: sum.splits)

text \<open>
  Ordering comparisons whose left operand is a number: a right operand that is no number
  raises \<^verbatim>\<open>TypeError\<close>.
\<close>

definition cmp_num :: "(pyfloat \<Rightarrow> pyfloat \<Rightarrow> bool) \<Rightarrow> pyfloat \<Rightarrow> pyval \<Rightarrow> bool res" where
  "cmp_num r x v = (case num_of v of None \<Rightarrow> Inl TypeError | Some y \<Rightarrow> Inr (r x y))"

abbreviation ge_val :: "pyfloat \<Rightarrow> pyval \<Rightarrow> bool res" where
  "ge_val \<equiv> cmp_num fge"

abbreviation gt_val :: "pyfloat \<Rightarrow> pyval \<Rightarrow> bool res" where
  "gt_val \<equiv> cmp_num fgt"

abbreviation lt_val :: "pyfloat \<Rightarrow> pyval \<Rightarrow> bool res" where
  "lt_val \<equiv> cmp_num flt"

lemma cmp_num_Some [simp]: "num_of v = Some y \<Longrightarrow> cmp_num r x v = Inr (r x y)"
  by (simp add: cmp_num_def)

lemma cmp_num_total: "is_num v \<Longrightarrow> \<exists>b. cmp_num r x v = Inr b"
  by (auto simp: cmp_num_def is_num_iff)

lemma cmp_num_Inl_iff: "cmp_num r x v = Inl e \<longleftrightarrow> \<not> is_num v \<and> e = TypeError"
  by (auto simp: cmp_num_def is_num_def split: option.splits)

text \<open>\<^verbatim>\<open>x is not None and ... x >= v\<close>: a guarded comparison of an optional number.\<close>

definition opt_cmp ::
  "(pyfloat \<Rightarrow> pyfloat \<Rightarrow> bool) \<Rightarrow> pyfloat option \<Rightarrow> pyval \<Rightarrow> bool res" where
  "opt_cmp r x v =
     (case x of None \<Rightarrow> Inr False
      | Some n \<Rightarrow> if v = VNone then Inr False else cmp_num r n v)"

definition num_or_none :: "pyval \<Rightarrow> bool" where
  "num_or_none v \<longleftrightarrow> v = VNone \<or> is_num v"

lemma opt_cmp_total: "num_or_none v \<Longrightarrow> \<exists>b. opt_cmp r x v = Inr b"
  by (auto simp: opt_cmp_def num_or_none_def cmp_num_total split: option.splits)

lemma opt_cmp_None [simp]: "opt_cmp r x VNone = Inr False" "opt_cmp r None v = Inr False"
  by (simp_all add: opt_cmp_def split: option.splits)

abbreviation of_nat_num :: "int \<Rightarrow> pyfloat" where
  "of_nat_num n \<equiv> Fin (of_int n)"

lemma flt_fge_trans: "flt x t \<Longrightarrow> fge x y \<Longrightarrow> flt y t"
  by (cases x; cases y; cases t) (auto simp: fge_def)

lemma fgt_fge_trans: "fgt x t \<Longrightarrow> fge y x \<Longrightarrow> fgt y t"
  by (cases x; cases y; cases t) (auto simp: fge_def fgt_def)

lemma fge_Fin_trans: "fge (of_nat_num m) t \<Longrightarrow> m \<le> n \<Longrightarrow> fge (of_nat_num n) t"
  by (cases t) (auto simp: fge_def intro: order_trans less_le_trans)

text \<open>
  An optional signal that is no better than another: \<open>r\<close> is the order of the given values, and a
  missing signal is below every given one.
\<close>

fun no_better :: "('a \<Rightarrow> 'a \<Rightarrow> bool) \<Rightarrow> 'a option \<Rightarrow> 'a option \<Rightarrow> bool" where
  "no_better r None x = True"
| "no_better r (Some x) (Some y) = r x y"
| "no_better r (Some x) None = False"

lemma opt_cmp_mono:
  assumes "no_better w x y" and "opt_cmp r x v = Inr True"
    and "\<And>a b t. r a t \<Longrightarrow> w a b \<Longrightarrow> r b t"
  shows "opt_cmp r y v = Inr True"
  using assms by (cases x; cases y; cases "num_of v") (auto simp: opt_cmp_def cmp_num_def split: if_split_asm)

section \<open>The Config V2 sentinel\<close>

abbreviation UNKNOWN_V0 :: string where
  "UNKNOWN_V0 \<equiv> ''UNKNOWN_V0''"

text \<open>\<^verbatim>\<open>None if v == UNKNOWN_V0 else v\<close>\<close>

definition known :: "pyval \<Rightarrow> pyval" where
  "known v = (if v = VStr UNKNOWN_V0 then VNone else v)"

lemma known_simps [simp]:
  "known (VStr UNKNOWN_V0) = VNone" "known VNone = VNone" "known (VInt n) = VInt n"
  "known (VFloat f) = VFloat f" "known (VBool b) = VBool b"
  by (simp_all add: known_def)

definition threshold_ok :: "pyval \<Rightarrow> bool" where
  "threshold_ok v \<longleftrightarrow> num_or_none (known v)"

lemma threshold_ok_simps [simp]:
  "threshold_ok (VStr UNKNOWN_V0)" "threshold_ok VNone" "threshold_ok (VInt n)"
  "threshold_ok (VFloat f)" "threshold_ok (VBool b)"
  by (simp_all add: threshold_ok_def num_or_none_def)

section \<open>Strings and conversions\<close>

definition upper_char :: "char \<Rightarrow> char" where
  "upper_char c = (let n = (of_char c :: nat) in if 97 \<le> n \<and> n \<le> 122 then char_of (n - 32) else c)"

definition lower_char :: "char \<Rightarrow> char" where
  "lower_char c = (let n = (of_char c :: nat) in if 65 \<le> n \<and> n \<le> 90 then char_of (n + 32) else c)"

text \<open>
  \<^verbatim>\<open>str.upper\<close> and \<^verbatim>\<open>str.lower\<close> on ASCII letters; the code applies them to
  its own threshold keys and to values it compares with ASCII words.
\<close>

definition upper :: "string \<Rightarrow> string" where
  "upper = map upper_char"

definition lower :: "string \<Rightarrow> string" where
  "lower = map lower_char"

lemma upper_simps [simp]: "upper [] = []" "upper (c # s) = upper_char c # upper s"
  by (simp_all add: upper_def)

lemma lower_simps [simp]: "lower [] = []" "lower (c # s) = lower_char c # lower s"
  by (simp_all add: lower_def)

definition digit_char :: "nat \<Rightarrow> char" where
  "digit_char d = char_of (48 + d)"

definition is_digit :: "char \<Rightarrow> bool" where
  "is_digit c \<longleftrightarrow> 48 \<le> (of_char c :: nat) \<and> (of_char c :: nat) \<le> 57"

definition digit_val :: "char \<Rightarrow> nat" where
  "digit_val c = of_char c - 48"

lemma digit_char_val [simp]:
  "d < 10 \<Longrightarrow> is_digit (digit_char d)" "d < 10 \<Longrightarrow> digit_val (digit_char d) = d"
  by (simp_all add: is_digit_def digit_val_def digit_char_def of_char_of)

text \<open>\<^verbatim>\<open>str(n)\<close>: the decimal text of an integer.\<close>

fun show_nat :: "nat \<Rightarrow> string" where
  "show_nat n = (if n < 10 then [digit_char n] else show_nat (n div 10) @ [digit_char (n mod 10)])"

declare show_nat.simps [simp del]

definition show_int :: "int \<Rightarrow> string" where
  "show_int z = (if z < 0 then ''-'' @ show_nat (nat (- z)) else show_nat (nat z))"

fun read_nat :: "nat \<Rightarrow> string \<Rightarrow> nat" where
  "read_nat acc [] = acc"
| "read_nat acc (c # cs) = read_nat (10 * acc + digit_val c) cs"

lemma read_nat_append: "read_nat acc (xs @ ys) = read_nat (read_nat acc xs) ys"
  by (induction xs arbitrary: acc) auto

lemma read_show_nat: "read_nat 0 (show_nat n) = n"
proof (induction n rule: show_nat.induct)
  case (1 n)
  then show ?case
    by (subst show_nat.simps) (auto simp: read_nat_append)
qed

lemma show_nat_digits: "\<forall>c \<in> set (show_nat n). is_digit c"
proof (induction n rule: show_nat.induct)
  case (1 n)
  then show ?case
    by (subst show_nat.simps) auto
qed

lemma show_nat_nonempty [simp]: "show_nat n \<noteq> []"
  by (subst show_nat.simps) simp

lemma show_nat_inj [simp]: "show_nat m = show_nat n \<longleftrightarrow> m = n"
  by (metis read_show_nat)

lemma show_nat_no_minus: "show_nat m \<noteq> CHR ''-'' # s"
proof
  assume "show_nat m = CHR ''-'' # s"
  then have "CHR ''-'' \<in> set (show_nat m)" by simp
  then have "is_digit CHR ''-''" using show_nat_digits by blast
  then show False by (simp add: is_digit_def)
qed

lemma show_int_inj [simp]: "show_int a = show_int b \<longleftrightarrow> a = b"
  using show_nat_no_minus show_nat_no_minus [THEN not_sym]
  by (auto simp: show_int_def)

lemma show_int_nonempty [simp]: "show_int z \<noteq> []"
  by (simp add: show_int_def)

lemma show_int_no_colon: "CHR '':'' \<notin> set (show_int z)"
proof
  assume "CHR '':'' \<in> set (show_int z)"
  then have "CHR '':'' \<in> set (show_nat (nat z)) \<union> set (show_nat (nat (- z)))"
    by (auto simp: show_int_def split: if_splits)
  then have "is_digit CHR '':''" using show_nat_digits by blast
  then show False by (simp add: is_digit_def)
qed

text \<open>
  \<^verbatim>\<open>int(v)\<close>: text is stripped of white space, may carry a sign and single underscores
  between digits, and has at most 4300 digits; a float is truncated towards zero.
\<close>

definition is_space :: "char \<Rightarrow> bool" where
  "is_space c = (let n = (of_char c :: nat) in
     9 \<le> n \<and> n \<le> 13 \<or> 28 \<le> n \<and> n \<le> 32 \<or> n = 133 \<or> n = 160)"

definition strip :: "string \<Rightarrow> string" where
  "strip s = rev (dropWhile is_space (rev (dropWhile is_space s)))"

fun parse_digits :: "bool \<Rightarrow> int \<Rightarrow> string \<Rightarrow> int option" where
  "parse_digits p acc [] = (if p then Some acc else None)"
| "parse_digits p acc (c # cs) =
     (if is_digit c then parse_digits True (10 * acc + int (digit_val c)) cs
      else if c = CHR ''_'' \<and> p then parse_digits False acc cs
      else None)"

definition parse_int :: "string \<Rightarrow> int option" where
  "parse_int s =
     (if length (filter is_digit s) > 4300 then None
      else case strip s of
          [] \<Rightarrow> None
        | c # cs \<Rightarrow>
            if c = CHR ''-'' then map_option uminus (parse_digits False 0 cs)
            else if c = CHR ''+'' then parse_digits False 0 cs
            else parse_digits False 0 (c # cs))"

definition trunc_rat :: "rat \<Rightarrow> int" where
  "trunc_rat q = (if q < 0 then - \<lfloor>- q\<rfloor> else \<lfloor>q\<rfloor>)"

fun py_int :: "pyval \<Rightarrow> int res" where
  "py_int (VBool b) = Inr (if b then 1 else 0)"
| "py_int (VInt n) = Inr n"
| "py_int (VFloat (Fin q)) = Inr (trunc_rat q)"
| "py_int (VFloat NaN) = Inl ValueError"
| "py_int (VFloat _) = Inl OverflowError"
| "py_int (VStr s) = (case parse_int s of None \<Rightarrow> Inl ValueError | Some n \<Rightarrow> Inr n)"
| "py_int _ = Inl TypeError"

text \<open>
  \<^verbatim>\<open>float(v)\<close>: an integer is rounded to 53 bits, half to even, and overflows above
  the largest double; the conversion of decimal text is a parameter.
\<close>

fun bitlen :: "nat \<Rightarrow> nat" where
  "bitlen n = (if n = 0 then 0 else Suc (bitlen (n div 2)))"

declare bitlen.simps [simp del]

definition round53 :: "nat \<Rightarrow> nat" where
  "round53 m =
     (let k = bitlen m - 53; q = m div 2 ^ k; r = m mod 2 ^ k; h = 2 ^ (k - 1)
      in if k = 0 then m
         else (if r > h \<or> (r = h \<and> odd q) then q + 1 else q) * 2 ^ k)"

definition float_of_int :: "int \<Rightarrow> pyfloat res" where
  "float_of_int n =
     (let m = round53 (nat \<bar>n\<bar>)
      in if 2 ^ 1024 \<le> m then Inl OverflowError
         else Inr (Fin (if n < 0 then - of_nat m else of_nat m)))"

fun py_float :: "(string \<Rightarrow> pyfloat option) \<Rightarrow> pyval \<Rightarrow> pyfloat res" where
  "py_float p (VBool b) = Inr (Fin (if b then 1 else 0))"
| "py_float p (VInt n) = float_of_int n"
| "py_float p (VFloat f) = Inr f"
| "py_float p (VStr s) = (case p s of None \<Rightarrow> Inl ValueError | Some f \<Rightarrow> Inr f)"
| "py_float p _ = Inl TypeError"

lemma py_int_errors: "py_int v = Inl e \<Longrightarrow> e \<in> {TypeError, ValueError, OverflowError}"
  by (induction v rule: py_int.induct) (auto split: option.splits)

lemma py_float_errors: "py_float p v = Inl e \<Longrightarrow> e \<in> {TypeError, ValueError, OverflowError}"
  by (induction p v rule: py_float.induct)
    (auto simp: float_of_int_def Let_def split: option.splits if_splits)

text \<open>\<^verbatim>\<open>sep.join(xs)\<close>\<close>

fun join :: "string \<Rightarrow> string list \<Rightarrow> string" where
  "join sep [] = []"
| "join sep [x] = x"
| "join sep (x # xs) = x @ sep @ join sep xs"

section \<open>The environment of a call and the state of a service module\<close>

record runtime =
  rt_uuid :: string
  rt_now_iso :: string
  rt_elapsed_ms :: pyfloat
  rt_duration_ms :: int
  rt_logged_ms :: pyfloat
  rt_float_of_text :: "string \<Rightarrow> pyfloat option"
  rt_age_hours :: "string \<Rightarrow> pyfloat res"
  rt_older_than :: "string \<Rightarrow> pyval \<Rightarrow> bool res"

definition sample_runtime :: "nat \<Rightarrow> runtime" where
  "sample_runtime n = \<lparr>rt_uuid = ''id-'' @ show_nat n, rt_now_iso = ''2026-01-05T09:00:00Z'',
     rt_elapsed_ms = Fin 1, rt_duration_ms = 1, rt_logged_ms = Fin 1,
     rt_float_of_text = (\<lambda>s. None),
     rt_age_hours = (\<lambda>s. Inl ValueError), rt_older_than = (\<lambda>s v. Inl ValueError)\<rparr>"

datatype log_line = LogJson string pydict | LogText string string

record store =
  keys :: "string set"
  events :: "log_line list"

definition empty_store :: store where
  "empty_store = \<lparr>keys = {}, events = []\<rparr>"

definition emit :: "log_line \<Rightarrow> store \<Rightarrow> store" where
  "emit l s = s\<lparr>events := events s @ [l]\<rparr>"

definition register :: "string option \<Rightarrow> store \<Rightarrow> store" where
  "register k s = (case k of None \<Rightarrow> s | Some x \<Rightarrow> s\<lparr>keys := insert x (keys s)\<rparr>)"

lemma emit_simps [simp]: "keys (emit l s) = keys s" "events (emit l s) = events s @ [l]"
  by (simp_all add: emit_def)

lemma register_simps [simp]:
  "keys (register k s) = set_option k \<union> keys s" "events (register k s) = events s"
  by (auto simp: register_def split: option.splits)

section \<open>Ordered lists of reason codes\<close>

text \<open>\<^verbatim>\<open>if c: codes.append(x)\<close>\<close>

definition code_if :: "bool \<Rightarrow> string \<Rightarrow> string list" where
  "code_if b x = (if b then [x] else [])"

lemma code_if_simps [simp]: "code_if True x = [x]" "code_if False x = []"
  by (simp_all add: code_if_def)

lemma code_if_Nil [simp]: "code_if b x = [] \<longleftrightarrow> \<not> b"
  by (simp add: code_if_def)

lemma in_code_if [simp]: "y \<in> set (code_if b x) \<longleftrightarrow> b \<and> y = x"
  by (cases b) simp_all

section \<open>Rule chains\<close>

text \<open>
  A rule of a long function body acts on the record \<open>'l\<close> of the local variables: it continues
  with the next rule, returns a result \<open>'a\<close>, or raises an exception that escapes; the latter two
  carry the log lines emitted so far.
\<close>

datatype ('a, 'l) outcome =
    Raise py_error "log_line list"
  | Return 'a "log_line list"
  | Continue 'l

fun followed_by :: "('a, 'l) outcome \<Rightarrow> ('l \<Rightarrow> ('a, 'l) outcome) \<Rightarrow> ('a, 'l) outcome" where
  "followed_by (Continue l) f = f l"
| "followed_by (Raise e lg) f = Raise e lg"
| "followed_by (Return a lg) f = Return a lg"

definition lift_res ::
  "'b res \<Rightarrow> log_line list \<Rightarrow> ('b \<Rightarrow> ('a, 'l) outcome) \<Rightarrow> ('a, 'l) outcome" where
  "lift_res m lg f = (case m of Inl e \<Rightarrow> Raise e lg | Inr a \<Rightarrow> f a)"

lemma lift_res_simps [simp]:
  "lift_res (Inl e) lg f = Raise e lg" "lift_res (Inr a) lg f = f a"
  by (simp_all add: lift_res_def)

lemma followed_by_Return:
  "followed_by m f = Return a lg \<longleftrightarrow> m = Return a lg \<or> (\<exists>l. m = Continue l \<and> f l = Return a lg)"
  by (cases m) auto

lemma followed_by_Continue:
  "followed_by m f = Continue l' \<longleftrightarrow> (\<exists>l. m = Continue l \<and> f l = Continue l')"
  by (cases m) auto

lemma followed_by_Raise:
  "followed_by m f = Raise e lg \<longleftrightarrow> m = Raise e lg \<or> (\<exists>l. m = Continue l \<and> f l = Raise e lg)"
  by (cases m) auto

lemma lift_res_Continue:
  "lift_res m l f = Continue l' \<longleftrightarrow> (\<exists>a. m = Inr a \<and> f a = Continue l')"
  by (cases m) simp_all

lemma lift_res_Return:
  "lift_res m l f = Return a lg \<longleftrightarrow> (\<exists>x. m = Inr x \<and> f x = Return a lg)"
  by (cases m) simp_all

lemma lift_res_Raise:
  "lift_res m l f = Raise e lg \<longleftrightarrow> (m = Inl e \<and> lg = l) \<or> (\<exists>x. m = Inr x \<and> f x = Raise e lg)"
  by (cases m) auto

end
