(* ===== verification/StateMachine.thy ===== *)
theory StateMachine
  imports Prelude
begin

text \<open>
  The outreach lifecycle of \<^verbatim>\<open>app/state_machine.py\<close>: the transition table, the
  check that raises, the check that answers, and the terminal test. The step relation
  \<open>lifecycle_step\<close> and its reflexive closure \<open>lifecycle_reaches\<close> say what sequences of
  allowed transitions can do; \<open>phase\<close> is the abstract progress measure of the lifecycle.
\<close>

section \<open>The table and its checks\<close>

definition TRANSITIONS :: "(string \<times> string list) list" where
  "TRANSITIONS =
    [(''ELIGIBLE'', [''QUEUED'', ''CLOSED'']),
     (''QUEUED'', [''CONTACTED'', ''CLOSED'']),
     (''CONTACTED'', [''NO_RESPONSE'', ''RESPONDED'', ''CLOSED'', ''INTERVENTION_REQUIRED'']),
     (''NO_RESPONSE'', [''RETRY'', ''CLOSED'', ''INTERVENTION_REQUIRED'']),
     (''RETRY'', [''CONTACTED'', ''CLOSED'', ''INTERVENTION_REQUIRED'']),
     (''RESPONDED'', [''ANALYZED'', ''RESOLVED'', ''CLOSED'', ''INTERVENTION_REQUIRED'']),
     (''ANALYZED'', [''INTERVENTION_REQUIRED'', ''RESOLVED'', ''CLOSED'']),
     (''INTERVENTION_REQUIRED'', [''RESOLVED'', ''CLOSED'']),
     (''RESOLVED'', [''CLOSED'']),
     (''CLOSED'', [])]"

definition TERMINAL :: "string list" where
  "TERMINAL = [''CLOSED'']"

text \<open>\<^verbatim>\<open>TRANSITIONS.get(from_state, set())\<close>\<close>

definition allowed :: "string \<Rightarrow> string list" where
  "allowed from_state = (case map_of TRANSITIONS from_state of None \<Rightarrow> [] | Some ts \<Rightarrow> ts)"

definition validate_transition :: "string \<Rightarrow> string \<Rightarrow> string \<Rightarrow> unit res" where
  "validate_transition from_state to_state trigger =
     (if to_state \<notin> set (allowed from_state) then Inl StateViolationError else Inr ())"

definition can_transition :: "string \<Rightarrow> string \<Rightarrow> bool" where
  "can_transition from_state to_state \<longleftrightarrow> to_state \<in> set (allowed from_state)"

definition is_terminal :: "string \<Rightarrow> bool" where
  "is_terminal state \<longleftrightarrow> state \<in> set TERMINAL"

definition known_states :: "string list" where
  "known_states = map fst TRANSITIONS"

lemma known_states_eq:
  "known_states =
    [''ELIGIBLE'', ''QUEUED'', ''CONTACTED'', ''NO_RESPONSE'', ''RETRY'', ''RESPONDED'',
     ''ANALYZED'', ''INTERVENTION_REQUIRED'', ''RESOLVED'', ''CLOSED'']"
  by (simp add: known_states_def TRANSITIONS_def)

lemma can_transition_known: "can_transition a b \<Longrightarrow> a \<in> set known_states \<and> b \<in> set known_states"
  by (auto simp: can_transition_def allowed_def TRANSITIONS_def known_states_eq split: if_splits)

section \<open>Steps, reachability and progress\<close>

inductive lifecycle_step :: "string \<Rightarrow> string \<Rightarrow> bool" where
  move: "can_transition a b \<Longrightarrow> lifecycle_step a b"

inductive_cases lifecycle_stepE [elim]: "lifecycle_step a b"
inductive_simps lifecycle_step_iff: "lifecycle_step a b"

inductive lifecycle_reaches :: "string \<Rightarrow> string \<Rightarrow> bool" where
  here: "lifecycle_reaches a a"
| onward: "lifecycle_reaches a b \<Longrightarrow> lifecycle_step b c \<Longrightarrow> lifecycle_reaches a c"

lemma lifecycle_reaches_trans:
  assumes "lifecycle_reaches b c" and "lifecycle_reaches a b"
  shows "lifecycle_reaches a c"
  using assms by (induction rule: lifecycle_reaches.induct) (auto intro: lifecycle_reaches.onward)

text \<open>
  The phases of a case: waiting to be contacted, the contact loop, a response, its analysis,
  an intervention, a resolution, closure. Only the contact loop stays within its phase.
\<close>

datatype phase = Waiting | Contacting | Responding | Analysing | Intervening | Resolving | Closing

fun phase_rank :: "phase \<Rightarrow> nat" where
  "phase_rank Waiting = 0"
| "phase_rank Contacting = 1"
| "phase_rank Responding = 2"
| "phase_rank Analysing = 3"
| "phase_rank Intervening = 4"
| "phase_rank Resolving = 5"
| "phase_rank Closing = 6"

lemma phase_rank_inj: "phase_rank p = phase_rank q \<Longrightarrow> p = q"
  by (cases p; cases q) auto

instantiation phase :: linorder
begin

definition less_eq_phase :: "phase \<Rightarrow> phase \<Rightarrow> bool" where
  "less_eq_phase p q \<longleftrightarrow> phase_rank p \<le> phase_rank q"

definition less_phase :: "phase \<Rightarrow> phase \<Rightarrow> bool" where
  "less_phase p q \<longleftrightarrow> phase_rank p < phase_rank q"

instance
  by standard (auto simp: less_eq_phase_def less_phase_def dest: phase_rank_inj)

end

definition phase_table :: "(string \<times> phase) list" where
  "phase_table =
    [(''ELIGIBLE'', Waiting), (''QUEUED'', Waiting), (''CONTACTED'', Contacting),
     (''NO_RESPONSE'', Contacting), (''RETRY'', Contacting), (''RESPONDED'', Responding),
     (''ANALYZED'', Analysing), (''INTERVENTION_REQUIRED'', Intervening),
     (''RESOLVED'', Resolving), (''CLOSED'', Closing)]"

definition phase_of :: "string \<Rightarrow> phase" where
  "phase_of s = (case map_of phase_table s of None \<Rightarrow> Closing | Some p \<Rightarrow> p)"

lemmas lifecycle_defs = can_transition_def allowed_def TRANSITIONS_def phase_of_def phase_table_def

lemma step_phase_mono: "lifecycle_step a b \<Longrightarrow> phase_of a \<le> phase_of b"
  by (auto simp: lifecycle_step_iff lifecycle_defs less_eq_phase_def split: if_splits)

lemma reaches_phase_mono: "lifecycle_reaches a b \<Longrightarrow> phase_of a \<le> phase_of b"
  by (induction rule: lifecycle_reaches.induct) (auto dest: step_phase_mono intro: order_trans)

lemma step_known: "lifecycle_step a b \<Longrightarrow> b \<in> set known_states \<and> a \<in> set known_states"
  using can_transition_known by auto

lemma reaches_known:
  "lifecycle_reaches a b \<Longrightarrow> a \<in> set known_states \<Longrightarrow> b \<in> set known_states"
  by (induction rule: lifecycle_reaches.induct) (auto dest: step_known)

lemma closed_stuck: "\<not> lifecycle_step ''CLOSED'' b"
  by (simp add: lifecycle_step_iff can_transition_def allowed_def TRANSITIONS_def)

lemma all_but_closed_can_close:
  "s \<in> set known_states \<Longrightarrow> s \<noteq> ''CLOSED'' \<Longrightarrow> lifecycle_step s ''CLOSED''"
  by (auto simp: known_states_eq lifecycle_step_iff can_transition_def allowed_def TRANSITIONS_def)

lemma reaches_from_closed: "lifecycle_reaches a b \<Longrightarrow> a = ''CLOSED'' \<Longrightarrow> b = ''CLOSED''"
  by (induction rule: lifecycle_reaches.induct) (auto simp: closed_stuck)

lemma validate_iff_can: "validate_transition a b trigger = Inr () \<longleftrightarrow> can_transition a b"
  by (simp add: validate_transition_def can_transition_def)

lemma terminal_iff_closed: "is_terminal t \<longleftrightarrow> t = ''CLOSED''"
  by (simp add: is_terminal_def TERMINAL_def)

lemma terminal_iff_stuck:
  assumes "t \<in> set known_states"
  shows "is_terminal t \<longleftrightarrow> (\<forall>u. \<not> can_transition t u)"
proof (cases "t = ''CLOSED''")
  case True
  then show ?thesis
    using closed_stuck by (simp add: terminal_iff_closed lifecycle_step_iff)
next
  case False
  with assms have "can_transition t ''CLOSED''"
    using all_but_closed_can_close by (simp add: lifecycle_step_iff)
  with False show ?thesis by (auto simp: terminal_iff_closed)
qed

lemma known_can_close:
  assumes "t \<in> set known_states"
  shows "lifecycle_reaches t ''CLOSED''"
proof (cases "t = ''CLOSED''")
  case True
  then show ?thesis by (simp add: lifecycle_reaches.here)
next
  case False
  with assms show ?thesis
    by (intro lifecycle_reaches.onward [OF lifecycle_reaches.here] all_but_closed_can_close)
qed

section \<open>Properties\<close>

text \<open>
  Along every sequence of allowed transitions from a state of the table, the case never
  returns to an earlier phase of the lifecycle (only the contact loop
  CONTACTED, NO_RESPONSE, RETRY repeats), every state it can be in can still be closed, and
  the states without a successor are exactly the terminal ones.
\<close>

theorem lifecycle_progress:
  assumes "s \<in> set known_states" and "lifecycle_reaches s t"
  shows "phase_of s \<le> phase_of t \<and> lifecycle_reaches t ''CLOSED''
    \<and> (is_terminal t \<longleftrightarrow> (\<forall>u. validate_transition t u trigger \<noteq> Inr ()))"
  using reaches_known [OF assms(2,1)] reaches_phase_mono [OF assms(2)]
  by (simp add: known_can_close terminal_iff_stuck validate_iff_can)

theorem lifecycle_progress_witness:
  "phase_of ''ELIGIBLE'' \<le> phase_of ''QUEUED'' \<and> lifecycle_reaches ''QUEUED'' ''CLOSED''"
proof -
  have "lifecycle_reaches ''ELIGIBLE'' ''QUEUED''"
    by (rule lifecycle_reaches.onward [OF lifecycle_reaches.here])
      (simp add: lifecycle_step_iff lifecycle_defs)
  moreover have "''ELIGIBLE'' \<in> set known_states"
    by (simp add: known_states_eq)
  ultimately show ?thesis
    using lifecycle_progress [of "''ELIGIBLE''" "''QUEUED''"] by blast
qed

end
