(* ===== verification/Repository.thy ===== *)
theory Repository
  imports StateMachine
begin

text \<open>
  The persistence layer: attribution fields, persistence records and the governance gate of
  \<^verbatim>\<open>app/repositories/_repository_types.py\<close> and
  \<^verbatim>\<open>_repository_helpers.py\<close>, the tables of \<^verbatim>\<open>app/models.py\<close> that the
  operations touch, and the four operations of \<^verbatim>\<open>app/repositories/repository.py\<close>
  over an explicit database state. The tables are lists of rows in insertion order; a session's
  \<^verbatim>\<open>add\<close> and \<^verbatim>\<open>flush\<close> are one update of that state. The locale \<open>append_only_table\<close> is the
  contract of an append-only table (FAD-4); it is interpreted for the three log tables.
\<close>

section \<open>Attribution and persistence records\<close>

record attribution_fields =
  af_correlation_id :: string
  af_execution_mode :: string
  af_execution_type :: string
  af_governance_scope :: string
  af_causation_id :: "string option"
  af_config_version_id :: "string option"
  af_orchestration_cycle_id :: "string option"
  af_origin_source :: "string option"
  af_origin_authority :: "string option"
  af_historical_config_version_id :: "string option"
  af_is_replay :: bool
  af_attribution_complete :: bool

record persistence_record =
  pr_persistence_id :: string
  pr_timestamp :: string
  pr_event :: string
  pr_table_name :: string
  pr_persistence_class :: string
  pr_correlation_id :: string
  pr_causation_id :: "string option"
  pr_execution_mode :: string
  pr_execution_type :: string
  pr_governance_scope :: string
  pr_is_replay :: bool
  pr_attribution_complete :: bool
  pr_outcome :: string
  pr_blocked :: bool
  pr_blocking_codes :: "string list"
  pr_blocking_reason :: "string option"
  pr_record_id :: "int option"
  pr_idempotency_key :: "string option"
  pr_duration_ms :: "int option"
  pr_rule_path_taken :: "string list"

definition repo_valid_execution_modes :: "string list" where
  "repo_valid_execution_modes =
    [''LIVE'', ''SHADOW'', ''REPLAY'', ''REGENERATION'', ''DEGRADED'', ''MAINTENANCE'']"

definition repo_valid_execution_types :: "string list" where
  "repo_valid_execution_types = [''original'', ''replay'', ''regeneration'', ''recovery'']"

definition repo_replay_execution_types :: "string list" where
  "repo_replay_execution_types = [''replay'', ''regeneration'']"

definition check_attribution_fields :: "attribution_fields \<Rightarrow> string list" where
  "check_attribution_fields a =
     code_if (af_correlation_id a = []) ''CORRELATION_ID_MISSING''
     @ (if af_execution_mode a = [] then [''EXECUTION_MODE_MISSING'']
        else code_if (af_execution_mode a \<notin> set repo_valid_execution_modes) ''INVALID_EXECUTION_MODE'')
     @ (if af_execution_type a = [] then [''EXECUTION_TYPE_MISSING'']
        else code_if (af_execution_type a \<notin> set repo_valid_execution_types) ''INVALID_EXECUTION_TYPE'')
     @ code_if (af_governance_scope a = []) ''GOVERNANCE_SCOPE_MISSING''"

definition check_attribution_complete :: "attribution_fields \<Rightarrow> bool" where
  "check_attribution_complete a \<longleftrightarrow>
     af_correlation_id a \<noteq> [] \<and> af_execution_mode a \<noteq> []
     \<and> af_execution_type a \<noteq> [] \<and> af_governance_scope a \<noteq> []"

definition check_finalized_protection :: "bool \<Rightarrow> string list" where
  "check_finalized_protection is_finalized = code_if is_finalized ''FINALIZED_MUTATION_BLOCKED''"

definition check_replay_live_overwrite :: "bool \<Rightarrow> bool \<Rightarrow> string list" where
  "check_replay_live_overwrite is_replay target_is_live =
     code_if (is_replay \<and> target_is_live) ''REPLAY_LIVE_OVERWRITE_BLOCKED''"

definition check_idempotency :: "string option \<Rightarrow> string set \<Rightarrow> string \<Rightarrow> string list" where
  "check_idempotency key st etype =
     (if \<not> given key then []
      else if etype \<in> set repo_replay_execution_types then []
      else code_if (the key \<in> st) ''IDEMPOTENCY_DUPLICATE'')"

definition governance_persistence_gate ::
  "attribution_fields \<Rightarrow> string option \<Rightarrow> string set \<Rightarrow> bool \<Rightarrow> bool \<Rightarrow> string list" where
  "governance_persistence_gate a key st is_finalized target_is_live =
     check_attribution_fields a
     @ check_finalized_protection is_finalized
     @ check_replay_live_overwrite (af_is_replay a) target_is_live
     @ check_idempotency key st (af_execution_type a)"

definition make_persistence_record ::
  "runtime \<Rightarrow> attribution_fields \<Rightarrow> string \<Rightarrow> string \<Rightarrow> string \<Rightarrow> bool \<Rightarrow> string list \<Rightarrow> string option
   \<Rightarrow> string \<Rightarrow> int option \<Rightarrow> string option \<Rightarrow> string list \<Rightarrow> persistence_record" where
  "make_persistence_record rt a event table_name cls blocked codes reason outcome rid key path =
    \<lparr>pr_persistence_id = rt_uuid rt, pr_timestamp = rt_now_iso rt, pr_event = event,
     pr_table_name = table_name, pr_persistence_class = cls,
     pr_correlation_id = af_correlation_id a, pr_causation_id = af_causation_id a,
     pr_execution_mode = af_execution_mode a, pr_execution_type = af_execution_type a,
     pr_governance_scope = af_governance_scope a, pr_is_replay = af_is_replay a,
     pr_attribution_complete = check_attribution_complete a,
     pr_outcome = outcome, pr_blocked = blocked, pr_blocking_codes = codes,
     pr_blocking_reason = reason, pr_record_id = rid, pr_idempotency_key = key,
     pr_duration_ms = Some (rt_duration_ms rt), pr_rule_path_taken = path\<rparr>"

fun opt_int :: "int option \<Rightarrow> pyval" where
  "opt_int None = VNone"
| "opt_int (Some n) = VInt n"

definition emit_persistence_log :: "persistence_record \<Rightarrow> log_line" where
  "emit_persistence_log r =
    (let is_warn = pr_blocked r
           \<or> pr_outcome r \<in> {''blocked'', ''finalized_protected'', ''duplicate_rejected''};
         level = (if is_warn then ''warning'' else ''info'')
     in LogJson level
      [(''timestamp'', VStr (pr_timestamp r)), (''level'', VStr level),
       (''service'', VStr ''repository_persistence''), (''event'', VStr (pr_event r)),
       (''persistence_id'', VStr (pr_persistence_id r)), (''table_name'', VStr (pr_table_name r)),
       (''persistence_class'', VStr (pr_persistence_class r)),
       (''correlation_id'', VStr (pr_correlation_id r)),
       (''causation_id'', opt_val (pr_causation_id r)),
       (''execution_mode'', VStr (pr_execution_mode r)),
       (''execution_type'', VStr (pr_execution_type r)),
       (''governance_scope'', VStr (pr_governance_scope r)),
       (''is_replay'', VBool (pr_is_replay r)),
       (''attribution_complete'', VBool (pr_attribution_complete r)),
       (''outcome'', VStr (pr_outcome r)), (''blocked'', VBool (pr_blocked r)),
       (''blocking_codes'', str_list (pr_blocking_codes r)),
       (''blocking_reason'', opt_val (pr_blocking_reason r)),
       (''record_id'', opt_int (pr_record_id r)),
       (''idempotency_key'', opt_val (pr_idempotency_key r)),
       (''duration_ms'', opt_int (pr_duration_ms r)),
       (''rule_path_taken'', str_list (pr_rule_path_taken r))])"

section \<open>The database\<close>

record tracking_row =
  tr_id :: int
  tr_user_id :: int
  tr_checkpoint_type :: string
  tr_state :: string
  tr_current_attempt :: int
  tr_last_contact_at :: "int option"
  tr_next_retry_at :: "int option"
  tr_correlation_id :: "string option"
  tr_execution_mode :: string
  tr_created_at :: int
  tr_updated_at :: int

record history_row =
  oh_id :: int
  oh_tracking_id :: int
  oh_user_id :: int
  oh_checkpoint_type :: string
  oh_attempt_number :: int
  oh_channel :: "string option"
  oh_action :: "string option"
  oh_execution_mode :: string
  oh_simulated_status :: string
  oh_payload :: "pydict option"
  oh_decision :: "string option"
  oh_state_before :: "string option"
  oh_state_after :: "string option"
  oh_correlation_id :: string
  oh_causation_id :: "string option"
  oh_config_version_id :: "string option"
  oh_execution_type :: string
  oh_governance_scope :: string
  oh_orchestration_cycle_id :: "string option"
  oh_origin_source :: "string option"
  oh_origin_authority :: "string option"
  oh_is_replay :: bool
  oh_attribution_complete :: bool
  oh_idempotency_key :: "string option"
  oh_replay_context :: "pydict option"

record transition_row =
  st_id :: int
  st_tracking_id :: int
  st_user_id :: int
  st_from_state :: string
  st_to_state :: string
  st_trigger :: string
  st_actor :: string
  st_meta :: "pydict option"
  st_correlation_id :: string
  st_causation_id :: "string option"
  st_config_version_id :: "string option"
  st_execution_mode :: string
  st_execution_type :: string
  st_governance_scope :: string
  st_origin_source :: "string option"
  st_origin_authority :: "string option"
  st_is_replay :: bool
  st_attribution_complete :: bool

record event_row =
  ev_id :: int
  ev_event_hash :: string
  ev_event_type :: pyval
  ev_user_id :: pyval
  ev_raw_payload :: "pydict option"
  ev_correlation_id :: string
  ev_execution_mode :: string
  ev_execution_type :: string
  ev_governance_scope :: string

record insight_row =
  ai_id :: int
  ai_user_id :: int
  ai_insight_type :: string
  ai_content_text :: "string option"
  ai_is_finalized :: bool
  ai_finalized_at :: "int option"

text \<open>
  The database and the module-level set of used outreach-history keys. \<open>db_now\<close> is the
  database clock, \<open>db_log\<close> the emitted persistence log.
\<close>

record database =
  db_tracking :: "tracking_row list"
  db_history :: "history_row list"
  db_transitions :: "transition_row list"
  db_events :: "event_row list"
  db_insights :: "insight_row list"
  db_history_keys :: "string set"
  db_now :: int
  db_log :: "log_line list"

text \<open>The value of an autoincrement column: above every used one.\<close>

definition fresh_id :: "int list \<Rightarrow> int" where
  "fresh_id ids = foldr max ids 0 + 1"

definition db_emit :: "persistence_record \<Rightarrow> database \<Rightarrow> database" where
  "db_emit r d = d\<lparr>db_log := db_log d @ [emit_persistence_log r]\<rparr>"

section \<open>The repository operations\<close>

definition append_outreach_history ::
  "runtime \<Rightarrow> history_row \<Rightarrow> attribution_fields \<Rightarrow> database
   \<Rightarrow> (history_row option \<times> persistence_record) \<times> database" where
  \<comment> \<open>the keyword arguments of the call are the fields of \<open>args\<close>; the attribution overrides
      the governance columns, as in the constructor call of the source\<close>
  "append_outreach_history rt args a d =
    (let key = oh_idempotency_key args;
         blocking_codes = governance_persistence_gate a key (db_history_keys d) False False
     in if blocking_codes \<noteq> [] then
          let r = make_persistence_record rt a ''outreach_history_append_blocked''
                    ''outreach_history'' ''append_only'' True blocking_codes
                    (Some (hd blocking_codes)) ''blocked'' None key [''RULE_0_GOVERNANCE_GATE'']
          in ((None, r), db_emit r d)
        else
          let row = args\<lparr>oh_id := fresh_id (map oh_id (db_history d)),
                oh_execution_mode := af_execution_mode a,
                oh_correlation_id := af_correlation_id a,
                oh_causation_id := af_causation_id a,
                oh_config_version_id := af_config_version_id a,
                oh_execution_type := af_execution_type a,
                oh_governance_scope := af_governance_scope a,
                oh_orchestration_cycle_id := af_orchestration_cycle_id a,
                oh_origin_source := af_origin_source a,
                oh_origin_authority := af_origin_authority a,
                oh_is_replay := af_is_replay a,
                oh_attribution_complete := check_attribution_complete a\<rparr>;
              d1 = (if given key \<and> af_execution_type a \<notin> set repo_replay_execution_types
                    then d\<lparr>db_history_keys := insert (the key) (db_history_keys d)\<rparr> else d);
              r = make_persistence_record rt a ''outreach_history_appended''
                    ''outreach_history'' ''append_only'' False [] None ''success''
                    (Some (oh_id row)) key [''RULE_0_GOVERNANCE_GATE'', ''RULE_1_APPEND_INSERT'']
          in ((Some row, r), db_emit r (d1\<lparr>db_history := db_history d1 @ [row]\<rparr>)))"

definition append_state_transition ::
  "runtime \<Rightarrow> int \<Rightarrow> int \<Rightarrow> string \<Rightarrow> string \<Rightarrow> string \<Rightarrow> attribution_fields \<Rightarrow> string
   \<Rightarrow> pydict option \<Rightarrow> database \<Rightarrow> (transition_row option \<times> persistence_record) \<times> database" where
  "append_state_transition rt tracking_id user_id from_state to_state trigger a actor meta d =
    (let blocking_codes = governance_persistence_gate a None {} False False
     in if blocking_codes \<noteq> [] then
          let r = make_persistence_record rt a ''state_transition_append_blocked''
                    ''state_transition_log'' ''append_only'' True blocking_codes
                    (Some (hd blocking_codes)) ''blocked'' None None [''RULE_0_GOVERNANCE_GATE'']
          in ((None, r), db_emit r d)
        else
          let row = \<lparr>st_id = fresh_id (map st_id (db_transitions d)),
                st_tracking_id = tracking_id, st_user_id = user_id, st_from_state = from_state,
                st_to_state = to_state, st_trigger = trigger, st_actor = actor, st_meta = meta,
                st_correlation_id = af_correlation_id a, st_causation_id = af_causation_id a,
                st_config_version_id = af_config_version_id a,
                st_execution_mode = af_execution_mode a, st_execution_type = af_execution_type a,
                st_governance_scope = af_governance_scope a,
                st_origin_source = af_origin_source a, st_origin_authority = af_origin_authority a,
                st_is_replay = af_is_replay a,
                st_attribution_complete = check_attribution_complete a\<rparr>;
              r = make_persistence_record rt a ''state_transition_appended''
                    ''state_transition_log'' ''append_only'' False [] None ''success''
                    (Some (st_id row)) None [''RULE_0_GOVERNANCE_GATE'', ''RULE_1_APPEND_INSERT'']
          in ((Some row, r), db_emit r (d\<lparr>db_transitions := db_transitions d @ [row]\<rparr>)))"

text \<open>The argument \<open>insight\<close> is the row object of the session; updating it updates its row.\<close>

definition protect_finalized_ai_insight ::
  "runtime \<Rightarrow> insight_row \<Rightarrow> attribution_fields \<Rightarrow> database
   \<Rightarrow> (insight_row \<times> persistence_record) \<times> database" where
  "protect_finalized_ai_insight rt insight a d =
    (let blocking_codes = governance_persistence_gate a None {} (ai_is_finalized insight) False
     in if blocking_codes \<noteq> [] then
          let r = make_persistence_record rt a ''ai_insight_finalize_protected''
                    ''ai_insights'' ''finalized_artifact'' True blocking_codes
                    (Some (hd blocking_codes)) ''finalized_protected'' (Some (ai_id insight)) None
                    [''RULE_0_GOVERNANCE_GATE'']
          in ((insight, r), db_emit r d)
        else
          let row = insight\<lparr>ai_is_finalized := True, ai_finalized_at := Some (db_now d)\<rparr>;
              r = make_persistence_record rt a ''ai_insight_finalized''
                    ''ai_insights'' ''finalized_artifact'' False [] None ''success''
                    (Some (ai_id insight)) None
                    [''RULE_0_GOVERNANCE_GATE'', ''RULE_1_FINALIZE_MARK'']
          in ((row, r), db_emit r
               (d\<lparr>db_insights := map (\<lambda>i. if ai_id i = ai_id insight then row else i) (db_insights d)\<rparr>)))"

text \<open>
  The module-level set \<^verbatim>\<open>_processed_events_idempotency_keys\<close> is never added to, so the
  gate is given the empty set.
\<close>

definition record_processed_event ::
  "runtime \<Rightarrow> string \<Rightarrow> pyval \<Rightarrow> pyval \<Rightarrow> attribution_fields \<Rightarrow> pydict option
   \<Rightarrow> database \<Rightarrow> (bool \<times> persistence_record) \<times> database" where
  "record_processed_event rt event_hash event_type user_id a raw_payload d =
    (let blocking_codes = governance_persistence_gate a (Some event_hash) {} False False;
         hard_blocks = filter (\<lambda>c. c \<noteq> ''IDEMPOTENCY_DUPLICATE'') blocking_codes
     in if hard_blocks \<noteq> [] then
          let r = make_persistence_record rt a ''processed_event_blocked''
                    ''processed_events'' ''idempotency_store'' True hard_blocks
                    (Some (hd hard_blocks)) ''blocked'' None (Some event_hash)
                    [''RULE_0_GOVERNANCE_GATE'']
          in ((False, r), db_emit r d)
        else if event_hash \<in> ev_event_hash ` set (db_events d) then
          let r = make_persistence_record rt a ''processed_event_duplicate_rejected''
                    ''processed_events'' ''idempotency_store'' False [''IDEMPOTENCY_DUPLICATE'']
                    (Some ''IDEMPOTENCY_DUPLICATE'') ''duplicate_rejected'' None (Some event_hash)
                    [''RULE_0_GOVERNANCE_GATE'', ''RULE_1_IDEMPOTENCY_CHECK'']
          in ((False, r), db_emit r d)
        else
          let row = \<lparr>ev_id = fresh_id (map ev_id (db_events d)), ev_event_hash = event_hash,
                ev_event_type = event_type, ev_user_id = user_id, ev_raw_payload = raw_payload,
                ev_correlation_id = af_correlation_id a, ev_execution_mode = af_execution_mode a,
                ev_execution_type = af_execution_type a,
                ev_governance_scope = af_governance_scope a\<rparr>;
              r = make_persistence_record rt a ''processed_event_recorded''
                    ''processed_events'' ''idempotency_store'' False [] None ''success''
                    (Some (ev_id row)) (Some event_hash)
                    [''RULE_0_GOVERNANCE_GATE'', ''RULE_1_IDEMPOTENCY_CHECK'', ''RULE_2_INSERT'']
          in ((True, r), db_emit r (d\<lparr>db_events := db_events d @ [row]\<rparr>)))"

end
