(* ===== verification/RepositoryProps.thy ===== *)
theory RepositoryProps
  imports Repository
begin

text \<open>
  What the persistence layer guarantees: what the gate lets through, that the three log tables
  are append-only over every sequence of repository calls (locale \<open>append_only_table\<close>,
  FAD-4), that a used idempotency key or event hash is never recorded twice, and that a
  finalized insight is never changed (FAD-1).
\<close>

section \<open>The gate\<close>

lemma check_attribution_fields_Nil:
  "check_attribution_fields a = [] \<longleftrightarrow>
     check_attribution_complete a
     \<and> af_execution_mode a \<in> set repo_valid_execution_modes
     \<and> af_execution_type a \<in> set repo_valid_execution_types"
  by (auto simp: check_attribution_fields_def check_attribution_complete_def
      repo_valid_execution_modes_def repo_valid_execution_types_def)

lemma check_idempotency_Nil:
  "check_idempotency key st etype = [] \<longleftrightarrow>
     \<not> given key \<or> etype \<in> set repo_replay_execution_types \<or> the key \<notin> st"
  by (simp add: check_idempotency_def)

lemma gate_Nil:
  "governance_persistence_gate a key st fin live = [] \<longleftrightarrow>
     check_attribution_complete a
     \<and> af_execution_mode a \<in> set repo_valid_execution_modes
     \<and> af_execution_type a \<in> set repo_valid_execution_types
     \<and> \<not> fin \<and> \<not> (af_is_replay a \<and> live)
     \<and> (\<not> given key \<or> af_execution_type a \<in> set repo_replay_execution_types \<or> the key \<notin> st)"
  by (auto simp: governance_persistence_gate_def check_attribution_fields_Nil check_idempotency_Nil
      check_finalized_protection_def check_replay_live_overwrite_def)

lemma db_emit_simps [simp]:
  "db_tracking (db_emit r d) = db_tracking d" "db_history (db_emit r d) = db_history d"
  "db_transitions (db_emit r d) = db_transitions d" "db_events (db_emit r d) = db_events d"
  "db_insights (db_emit r d) = db_insights d" "db_history_keys (db_emit r d) = db_history_keys d"
  "db_log (db_emit r d) = db_log d @ [emit_persistence_log r]" "db_now (db_emit r d) = db_now d"
  by (simp_all add: db_emit_def)

lemmas repo_defs = append_outreach_history_def append_state_transition_def
  protect_finalized_ai_insight_def record_processed_event_def Let_def

section \<open>Sequences of repository calls\<close>

datatype repo_op =
    OpHistory runtime history_row attribution_fields
  | OpTransition runtime int int string string string attribution_fields string "pydict option"
  | OpEvent runtime string pyval pyval attribution_fields "pydict option"
  | OpFinalize runtime int attribution_fields

fun repo_step :: "repo_op \<Rightarrow> database \<Rightarrow> database" where
  "repo_step (OpHistory rt args a) d = snd (append_outreach_history rt args a d)"
| "repo_step (OpTransition rt tid uid f t trig a actor meta) d =
     snd (append_state_transition rt tid uid f t trig a actor meta d)"
| "repo_step (OpEvent rt h et uid a raw) d = snd (record_processed_event rt h et uid a raw d)"
| "repo_step (OpFinalize rt iid a) d =
     (case find (\<lambda>i. ai_id i = iid) (db_insights d) of
        None \<Rightarrow> d
      | Some i \<Rightarrow> snd (protect_finalized_ai_insight rt i a d))"

fun repo_run :: "repo_op list \<Rightarrow> database \<Rightarrow> database" where
  "repo_run [] d = d"
| "repo_run (x # xs) d = repo_run xs (repo_step x d)"

locale append_only_table =
  fixes step :: "'op \<Rightarrow> 's \<Rightarrow> 's"
    and rows :: "'s \<Rightarrow> 'r list"
  assumes appends: "\<exists>new. rows (step x s) = rows s @ new"
begin

lemma fold_appends: "\<exists>new. rows (fold step xs s) = rows s @ new"
proof (induction xs arbitrary: s)
  case Nil
  then show ?case by simp
next
  case (Cons x xs)
  obtain new where new: "rows (step x s) = rows s @ new" using appends by blast
  obtain new' where "rows (fold step xs (step x s)) = rows (step x s) @ new'"
    using Cons.IH by blast
  with new show ?case by simp
qed

lemma row_kept: "i < length (rows s) \<Longrightarrow> rows (fold step xs s) ! i = rows s ! i"
  using fold_appends [of xs s] by (auto simp: nth_append)

lemma length_grows: "length (rows s) \<le> length (rows (fold step xs s))"
  using fold_appends [of xs s] by auto

end

lemma repo_run_fold: "repo_run xs d = fold repo_step xs d"
  by (induction xs arbitrary: d) auto

interpretation history_table: append_only_table repo_step db_history
proof
  fix x d
  show "\<exists>new. db_history (repo_step x d) = db_history d @ new"
    by (cases x) (auto simp: repo_defs split: option.split)
qed

interpretation transition_table: append_only_table repo_step db_transitions
proof
  fix x d
  show "\<exists>new. db_transitions (repo_step x d) = db_transitions d @ new"
    by (cases x) (auto simp: repo_defs split: option.split)
qed

interpretation event_table: append_only_table repo_step db_events
proof
  fix x d
  show "\<exists>new. db_events (repo_step x d) = db_events d @ new"
    by (cases x) (auto simp: repo_defs split: option.split)
qed

interpretation persistence_log: append_only_table repo_step db_log
proof
  fix x d
  show "\<exists>new. db_log (repo_step x d) = db_log d @ new"
    by (cases x) (auto simp: repo_defs split: option.split)
qed

section \<open>Keys are used once\<close>

definition keyed :: "history_row \<Rightarrow> bool" where
  "keyed r \<longleftrightarrow> given (oh_idempotency_key r)
     \<and> oh_execution_type r \<notin> set repo_replay_execution_types"

definition keys_used_once :: "database \<Rightarrow> bool" where
  "keys_used_once d \<longleftrightarrow>
     distinct (map oh_idempotency_key (filter keyed (db_history d)))
     \<and> (\<forall>r \<in> set (db_history d). keyed r \<longrightarrow> the (oh_idempotency_key r) \<in> db_history_keys d)
     \<and> distinct (map ev_event_hash (db_events d))"

lemma history_keeps_used_once:
  assumes "keys_used_once d"
  shows "keys_used_once (snd (append_outreach_history rt args a d))"
proof (cases "governance_persistence_gate a (oh_idempotency_key args) (db_history_keys d) False False = []")
  case False
  with assms show ?thesis by (simp add: append_outreach_history_def Let_def keys_used_once_def)
next
  case True
  then have "\<not> given (oh_idempotency_key args) \<or> af_execution_type a \<in> set repo_replay_execution_types
     \<or> the (oh_idempotency_key args) \<notin> db_history_keys d"
    by (simp add: gate_Nil)
  with True assms show ?thesis
    by (auto simp: append_outreach_history_def Let_def keys_used_once_def keyed_def given_iff)
qed

lemma repo_step_used_once:
  assumes "keys_used_once d"
  shows "keys_used_once (repo_step x d)"
proof (cases x)
  case (OpHistory rt args a)
  with assms show ?thesis by (simp add: history_keeps_used_once)
next
  case (OpTransition rt tid uid f t trig a actor meta)
  with assms show ?thesis by (simp add: append_state_transition_def Let_def keys_used_once_def)
next
  case (OpEvent rt h et uid a raw)
  with assms show ?thesis by (simp add: record_processed_event_def Let_def keys_used_once_def)
next
  case (OpFinalize rt iid a)
  with assms show ?thesis
    by (simp add: protect_finalized_ai_insight_def Let_def keys_used_once_def split: option.split)
qed

lemma repo_run_used_once: "keys_used_once d \<Longrightarrow> keys_used_once (repo_run xs d)"
  by (induction xs arbitrary: d) (auto dest: repo_step_used_once)

section \<open>Finalized insights\<close>

lemma repo_step_insight_ids: "map ai_id (db_insights (repo_step x d)) = map ai_id (db_insights d)"
  by (cases x) (auto simp: repo_defs split: option.split)

lemma repo_step_keeps_finalized:
  assumes ids: "distinct (map ai_id (db_insights d))"
    and i: "i \<in> set (db_insights d)" "ai_is_finalized i"
  shows "i \<in> set (db_insights (repo_step x d))"
proof (cases x)
  case (OpFinalize rt iid a)
  show ?thesis
  proof (cases "find (\<lambda>i. ai_id i = iid) (db_insights d)")
    case None
    with OpFinalize i show ?thesis by simp
  next
    case (Some j)
    then have j: "j \<in> set (db_insights d)" by (auto simp: find_Some_iff)
    have same: "j = i" if "ai_id j = ai_id i"
      using ids i(1) j that by (metis distinct_map inj_onD)
    show ?thesis
    proof (cases "ai_is_finalized j")
      case True
      with OpFinalize Some i show ?thesis
        by (simp add: protect_finalized_ai_insight_def Let_def governance_persistence_gate_def
            check_finalized_protection_def)
    next
      case False
      then have "ai_id i \<noteq> ai_id j" using same i(2) by auto
      with OpFinalize Some i show ?thesis
        by (force simp: protect_finalized_ai_insight_def Let_def)
    qed
  qed
qed (use i in \<open>simp_all add: repo_defs\<close>)

lemma repo_run_keeps_finalized:
  assumes "distinct (map ai_id (db_insights d))" "i \<in> set (db_insights d)" "ai_is_finalized i"
  shows "i \<in> set (db_insights (repo_run xs d))"
  using assms
proof (induction xs arbitrary: d)
  case Nil
  then show ?case by simp
next
  case (Cons x xs)
  then show ?case
    by (simp add: repo_step_insight_ids repo_step_keeps_finalized)
qed

lemma repo_run_insight_ids: "map ai_id (db_insights (repo_run xs d)) = map ai_id (db_insights d)"
  by (induction xs arbitrary: d) (simp_all add: repo_step_insight_ids)

section \<open>Attribution of the audit rows\<close>

definition well_attributed :: "string \<Rightarrow> string \<Rightarrow> string \<Rightarrow> string \<Rightarrow> bool" where
  "well_attributed corr mode etype scope \<longleftrightarrow>
     corr \<noteq> [] \<and> mode \<in> set repo_valid_execution_modes
     \<and> etype \<in> set repo_valid_execution_types \<and> scope \<noteq> []"

definition audit_attributed :: "database \<Rightarrow> bool" where
  "audit_attributed d \<longleftrightarrow>
     (\<forall>r \<in> set (db_history d). well_attributed (oh_correlation_id r) (oh_execution_mode r)
        (oh_execution_type r) (oh_governance_scope r) \<and> oh_attribution_complete r)
     \<and> (\<forall>r \<in> set (db_transitions d). well_attributed (st_correlation_id r) (st_execution_mode r)
        (st_execution_type r) (st_governance_scope r) \<and> st_attribution_complete r)
     \<and> (\<forall>r \<in> set (db_events d). well_attributed (ev_correlation_id r) (ev_execution_mode r)
        (ev_execution_type r) (ev_governance_scope r))"

lemma gate_Nil_attributed:
  assumes "governance_persistence_gate a key st fin live = []"
  shows "well_attributed (af_correlation_id a) (af_execution_mode a) (af_execution_type a)
      (af_governance_scope a)" and "check_attribution_complete a"
  using assms by (auto simp: gate_Nil well_attributed_def check_attribution_complete_def)

lemma filter_but_Nil: "filter (\<lambda>c. c \<noteq> x) xs = [] \<Longrightarrow> x \<notin> set xs \<Longrightarrow> xs = []"
  by (cases xs) auto

lemma filter_attributed:
  assumes "filter (\<lambda>c. c \<noteq> ''IDEMPOTENCY_DUPLICATE'') (governance_persistence_gate a (Some h) {} fin live) = []"
  shows "governance_persistence_gate a (Some h) {} fin live = []"
proof -
  have "''IDEMPOTENCY_DUPLICATE'' \<notin> set (governance_persistence_gate a (Some h) {} fin live)"
    by (simp add: governance_persistence_gate_def check_attribution_fields_def
        check_finalized_protection_def check_replay_live_overwrite_def check_idempotency_def)
  with assms show ?thesis by (rule filter_but_Nil)
qed

lemma repo_step_attributed:
  assumes "audit_attributed d"
  shows "audit_attributed (repo_step x d)"
proof (cases x)
  case (OpHistory rt args a)
  show ?thesis
    using assms gate_Nil_attributed [of a "oh_idempotency_key args" "db_history_keys d" False False]
    by (auto simp: OpHistory append_outreach_history_def Let_def audit_attributed_def)
next
  case (OpTransition rt tid uid f t trig a actor meta)
  show ?thesis
    using assms gate_Nil_attributed [of a None "{}" False False]
    by (auto simp: OpTransition append_state_transition_def Let_def audit_attributed_def)
next
  case (OpEvent rt h et uid a raw)
  show ?thesis
    using assms gate_Nil_attributed(1) [OF filter_attributed [of a h False False]]
    by (auto simp: OpEvent record_processed_event_def Let_def audit_attributed_def)
next
  case (OpFinalize rt iid a)
  with assms show ?thesis
    by (simp add: protect_finalized_ai_insight_def Let_def audit_attributed_def split: option.split)
qed

lemma repo_run_attributed: "audit_attributed d \<Longrightarrow> audit_attributed (repo_run xs d)"
  by (induction xs arbitrary: d) (auto dest: repo_step_attributed)

lemma repo_run_tracking: "db_tracking (repo_run xs d) = db_tracking d"
proof (induction xs arbitrary: d)
  case (Cons x xs)
  have "db_tracking (repo_step x d) = db_tracking d"
    by (cases x) (auto simp: repo_defs split: option.split)
  with Cons show ?case by simp
qed simp

section \<open>Properties\<close>

text \<open>
  The audit tables are append-only: whatever calls reach the persistence layer, in whatever
  order and with whatever attribution, the rows of the outreach history, of the transition log,
  of the processed events and of the persistence log that were there stay where they are,
  unchanged, and the case rows are not touched.
\<close>

theorem audit_tables_append_only:
  "\<exists>history transitions events log.
     db_history (repo_run ops d) = db_history d @ history
     \<and> db_transitions (repo_run ops d) = db_transitions d @ transitions
     \<and> db_events (repo_run ops d) = db_events d @ events
     \<and> db_log (repo_run ops d) = db_log d @ log
     \<and> db_tracking (repo_run ops d) = db_tracking d"
  using history_table.fold_appends [of ops d] transition_table.fold_appends [of ops d]
    event_table.fold_appends [of ops d] persistence_log.fold_appends [of ops d]
    repo_run_tracking [of ops d]
  by (auto simp: repo_run_fold)

definition empty_database :: "int \<Rightarrow> database" where
  "empty_database now = \<lparr>db_tracking = [], db_history = [], db_transitions = [], db_events = [],
     db_insights = [], db_history_keys = {}, db_now = now, db_log = []\<rparr>"

lemma empty_database_ok: "keys_used_once (empty_database n)" "audit_attributed (empty_database n)"
  by (simp_all add: empty_database_def keys_used_once_def audit_attributed_def)


definition sample_attribution :: attribution_fields where
  "sample_attribution = \<lparr>af_correlation_id = ''corr-1'', af_execution_mode = ''SHADOW'',
     af_execution_type = ''original'', af_governance_scope = ''SHADOW_ONLY'',
     af_causation_id = None, af_config_version_id = None, af_orchestration_cycle_id = None,
     af_origin_source = None, af_origin_authority = None, af_historical_config_version_id = None,
     af_is_replay = False, af_attribution_complete = False\<rparr>"

definition sample_event :: "nat \<Rightarrow> repo_op" where
  "sample_event n = OpEvent (sample_runtime n) ''hash'' (VStr ''SMS_RESPONSE'') (VInt 7)
     sample_attribution None"

definition sample_history_row :: history_row where
  "sample_history_row = \<lparr>oh_id = 0, oh_tracking_id = 4, oh_user_id = 7, oh_checkpoint_type = ''DAY_7'', oh_attempt_number = 1,
     oh_channel = Some ''SMS'', oh_action = None, oh_execution_mode = [], oh_simulated_status = ''NOT_SENT'', oh_payload = None,
     oh_decision = None, oh_state_before = None, oh_state_after = None, oh_correlation_id = [], oh_causation_id = None,
     oh_config_version_id = None, oh_execution_type = [], oh_governance_scope = [], oh_orchestration_cycle_id = None,
     oh_origin_source = None, oh_origin_authority = None, oh_is_replay = False, oh_attribution_complete = False,
     oh_idempotency_key = Some ''key'', oh_replay_context = None\<rparr>"

text \<open>Two original rows and a replay with one key, and two events with one hash\<close>

definition sample_ops :: "repo_op list" where
  "sample_ops = [OpHistory (sample_runtime 0) sample_history_row sample_attribution, OpHistory (sample_runtime 1) sample_history_row sample_attribution,
     OpHistory (sample_runtime 2) sample_history_row (sample_attribution\<lparr>af_execution_type := ''replay''\<rparr>), sample_event 3, sample_event 4]"

lemma sample_ops_run:
  "map oh_execution_type (db_history (repo_run sample_ops (empty_database 0))) = [''original'', ''replay'']"
  "map ev_event_hash (db_events (repo_run sample_ops (empty_database 0))) = [''hash'']"
  by code_simp+


text \<open>
  A finalized insight is immutable (FAD-1): once a row of the insight table is finalized,
  it is in the table, unchanged, after any sequence of persistence calls, finalizing calls on
  the same row included.
\<close>

theorem finalized_insight_immutable:
  assumes "distinct (map ai_id (db_insights d))" and "i \<in> set (db_insights d)"
    and "ai_is_finalized i"
  shows "i \<in> set (db_insights (repo_run ops d))
    \<and> map ai_id (db_insights (repo_run ops d)) = map ai_id (db_insights d)"
  using repo_run_keeps_finalized [OF assms, of ops] repo_run_insight_ids [of ops d] by simp

definition sample_insight :: insight_row where
  "sample_insight = \<lparr>ai_id = 1, ai_user_id = 7, ai_insight_type = ''OUTREACH_DECISION'',
     ai_content_text = Some ''text'', ai_is_finalized = True, ai_finalized_at = Some 3\<rparr>"

theorem finalized_insight_immutable_witness:
  "sample_insight \<in> set (db_insights (repo_run
     [OpFinalize (sample_runtime 0) 1 sample_attribution, sample_event 1]
     ((empty_database 5)\<lparr>db_insights := [sample_insight]\<rparr>)))"
  by (rule finalized_insight_immutable [THEN conjunct1]) (simp_all add: sample_insight_def)

end
