(* ===== verification/CaseActions.thy ===== *)
theory CaseActions
  imports RepositoryProps
begin

text \<open>
  The two paths that change the state of an outreach case: the operator's manual action
  (\<^verbatim>\<open>execute_manual_action\<close> in \<^verbatim>\<open>app/services/outreach.py\<close>) and the GHL webhook
  (\<^verbatim>\<open>app/routers/webhook.py\<close>), with the attribution helpers of
  \<^verbatim>\<open>app/routers/_router_helpers.py\<close> and the settings enumeration of
  \<^verbatim>\<open>app/config.py\<close> they read. The request body is a JSON object; its hash, the pydantic
  validation of its fields, the transcript analysis and \<^verbatim>\<open>str\<close> of a JSON value are
  parameters (\<open>webhook_env\<close>). \<open>readings n\<close> is what the n-th call reads from its environment.
\<close>

section \<open>Settings and request attribution\<close>

datatype execution_mode = SHADOW | LIVE

fun enum_value :: "execution_mode \<Rightarrow> string" where
  "enum_value SHADOW = ''SHADOW''"
| "enum_value LIVE = ''LIVE''"

text \<open>
  \<^verbatim>\<open>str(settings.EXECUTION_MODE)\<close>: the enumeration mixes in \<^verbatim>\<open>str\<close> but keeps the
  \<^verbatim>\<open>__str__\<close> of \<^verbatim>\<open>Enum\<close>, which prints the class and the member name.
\<close>

definition str_of_mode :: "execution_mode \<Rightarrow> string" where
  "str_of_mode m = ''ExecutionMode.'' @ enum_value m"

record settings =
  EXECUTION_MODE :: execution_mode
  GHL_LOCATION_ID :: string

definition is_shadow :: "settings \<Rightarrow> bool" where
  "is_shadow st \<longleftrightarrow> EXECUTION_MODE st = SHADOW"

type_synonym headers = "(string \<times> string) list"

definition header :: "headers \<Rightarrow> string \<Rightarrow> string" where
  "header h k = (case map_of h k of None \<Rightarrow> [] | Some v \<Rightarrow> v)"

definition extract_correlation_id :: "runtime \<Rightarrow> headers \<Rightarrow> string" where
  "extract_correlation_id rt h =
    (let val = header h ''X-Correlation-ID''
     in if val \<noteq> [] \<and> strip val \<noteq> [] then strip val else rt_uuid rt)"

definition extract_causation_id :: "headers \<Rightarrow> string option" where
  "extract_causation_id h =
    (let val = header h ''X-Causation-ID''
     in if val \<noteq> [] \<and> strip val \<noteq> [] then Some (strip val) else None)"

definition governance_scope_for_mode :: "string \<Rightarrow> string" where
  "governance_scope_for_mode mode =
    (if mode = ''SHADOW'' then ''SHADOW_ONLY'' else ''LIVE_AUTHORIZED'')"

definition build_request_attribution ::
  "settings \<Rightarrow> string \<Rightarrow> string option \<Rightarrow> string \<Rightarrow> string option \<Rightarrow> string option
   \<Rightarrow> attribution_fields" where
  "build_request_attribution st correlation_id causation_id etype config_version_id mode_arg =
    (let mode = (case mode_arg of Some m \<Rightarrow> m | None \<Rightarrow> str_of_mode (EXECUTION_MODE st))
     in \<lparr>af_correlation_id = correlation_id, af_execution_mode = mode, af_execution_type = etype,
         af_governance_scope = governance_scope_for_mode mode, af_causation_id = causation_id,
         af_config_version_id = config_version_id, af_orchestration_cycle_id = None,
         af_origin_source = None, af_origin_authority = None,
         af_historical_config_version_id = None,
         af_is_replay = (etype = ''replay'' \<or> etype = ''regeneration''),
         af_attribution_complete = False\<rparr>)"

record governance_meta =
  gm_correlation_id :: string
  gm_execution_mode :: string
  gm_governance_scope :: string
  gm_timestamp :: string
  gm_causation_id :: "string option"
  gm_config_version_id :: "string option"
  gm_execution_type :: string
  gm_is_replay :: bool
  gm_attribution_complete :: bool
  gm_suppression_codes :: "string list"

definition make_governance_meta :: "runtime \<Rightarrow> attribution_fields \<Rightarrow> governance_meta" where
  "make_governance_meta rt a =
    \<lparr>gm_correlation_id = af_correlation_id a, gm_execution_mode = af_execution_mode a,
     gm_governance_scope = af_governance_scope a, gm_timestamp = rt_now_iso rt,
     gm_causation_id = af_causation_id a, gm_config_version_id = af_config_version_id a,
     gm_execution_type = af_execution_type a, gm_is_replay = af_is_replay a,
     gm_attribution_complete = (af_correlation_id a \<noteq> [] \<and> af_execution_mode a \<noteq> []
        \<and> af_governance_scope a \<noteq> []),
     gm_suppression_codes = (if af_execution_mode a = ''SHADOW''
        then [''SHADOW_MODE_ACTIVE'', ''LIVE_EFFECTS_SUPPRESSED''] else [])\<rparr>"

section \<open>The operator's manual action\<close>

definition ACTION_TYPE_TO_STATE :: "(string \<times> string) list" where
  "ACTION_TYPE_TO_STATE =
    [(''CLOSE_CASE'', ''CLOSED''), (''FORCE_RETRY'', ''RETRY''),
     (''ESCALATE'', ''INTERVENTION_REQUIRED''), (''BOOK_MEETING'', ''RESOLVED'')]"

text \<open>
  \<^verbatim>\<open>order_by(updated_at.desc()).limit(1)\<close>: the first of the rows with the newest
  \<^verbatim>\<open>updated_at\<close>; the list order stands for the database's choice among equal ones.
\<close>

fun latest :: "tracking_row list \<Rightarrow> tracking_row option" where
  "latest [] = None"
| "latest (r # rs) =
    (case latest rs of None \<Rightarrow> Some r
     | Some q \<Rightarrow> if tr_updated_at q > tr_updated_at r then Some q else Some r)"

definition set_tracking :: "tracking_row \<Rightarrow> database \<Rightarrow> database" where
  "set_tracking t d =
     d\<lparr>db_tracking := map (\<lambda>r. if tr_id r = tr_id t then t else r) (db_tracking d)\<rparr>"

datatype manual_result =
    InvalidAction string
  | NotFound int
  | InvalidTransition string string
  | ManualOk int string string string int string

definition transition_attribution ::
  "settings \<Rightarrow> runtime \<Rightarrow> string \<Rightarrow> string \<Rightarrow> attribution_fields" where
  "transition_attribution st rt source authority =
    (let mode = str_of_mode (EXECUTION_MODE st)
     in \<lparr>af_correlation_id = rt_uuid rt, af_execution_mode = mode,
         af_execution_type = ''original'',
         af_governance_scope = (if mode = ''REPLAY'' then ''REPLAY_ONLY'' else ''SHADOW_ONLY''),
         af_causation_id = None, af_config_version_id = None, af_orchestration_cycle_id = None,
         af_origin_source = Some source, af_origin_authority = Some authority,
         af_historical_config_version_id = None, af_is_replay = False,
         af_attribution_complete = False\<rparr>)"

definition execute_manual_action ::
  "settings \<Rightarrow> (nat \<Rightarrow> runtime) \<Rightarrow> int \<Rightarrow> string \<Rightarrow> string option \<Rightarrow> database
   \<Rightarrow> manual_result \<times> database" where
  "execute_manual_action st rs user_id action_type notes d =
    (case map_of ACTION_TYPE_TO_STATE action_type of
       None \<Rightarrow> (InvalidAction action_type, d)
     | Some target_state \<Rightarrow>
       (case latest (filter (\<lambda>r. tr_user_id r = user_id) (db_tracking d)) of
          None \<Rightarrow> (NotFound user_id, d)
        | Some tracking \<Rightarrow>
          let from_state = tr_state tracking
          in if \<not> can_transition from_state target_state
             then (InvalidTransition from_state target_state, d)
             else
               let a = transition_attribution st (rs 0) ''operator_manual_action'' ''operator'';
                   correlation_id = af_correlation_id a;
                   d1 = set_tracking (tracking\<lparr>tr_state := target_state,
                          tr_correlation_id := Some correlation_id,
                          tr_updated_at := db_now d\<rparr>) d;
                   meta = (if given notes then Some [(''notes'', VStr (the notes))] else None);
                   d2 = snd (append_state_transition (rs 1) (tr_id tracking) user_id
                          from_state target_state action_type a ''operator'' meta d1)
               in (ManualOk user_id action_type from_state target_state (tr_id tracking)
                     correlation_id, d2)))"

definition log_transition ::
  "settings \<Rightarrow> (nat \<Rightarrow> runtime) \<Rightarrow> int \<Rightarrow> int \<Rightarrow> string \<Rightarrow> string \<Rightarrow> string \<Rightarrow> string
   \<Rightarrow> database \<Rightarrow> database" where
  "log_transition st rs tracking_id user_id from_state to_state trigger actor d =
    snd (append_state_transition (rs 1) tracking_id user_id from_state to_state trigger
      (transition_attribution st (rs 0) ''webhook_handler'' ''ghl_webhook'') actor None d)"

section \<open>The GHL webhook\<close>

definition VALID_GHL_EVENTS :: "string list" where
  "VALID_GHL_EVENTS = [''CALL_COMPLETED'', ''SMS_RESPONSE'', ''EMAIL_RESPONSE'', ''TRANSCRIPT_READY'']"

record ghl_webhook_payload =
  gp_event_type :: string
  gp_user_id :: "int option"
  gp_contact_id :: "string option"
  gp_outcome :: "string option"
  gp_transcript :: "string option"
  gp_metadata :: "pydict option"

datatype api_response =
    ApiOk pydict governance_meta
  | ApiFail string string governance_meta

record webhook_env =
  we_event_hash :: "pydict \<Rightarrow> string"
  we_payload :: "pydict \<Rightarrow> ghl_webhook_payload res"
  we_analyze :: "string \<Rightarrow> int \<Rightarrow> int \<Rightarrow> string \<Rightarrow> pydict"
  we_str :: "pyval \<Rightarrow> string"

text \<open>The state an event asks for, and the transcript analysis it triggers.\<close>

definition webhook_target ::
  "webhook_env \<Rightarrow> ghl_webhook_payload \<Rightarrow> int \<Rightarrow> tracking_row \<Rightarrow> string option \<times> pydict option" where
  "webhook_target we p user_id t =
    (let analysis = (if given (gp_transcript p)
           then Some (we_analyze we (the (gp_transcript p)) user_id (tr_current_attempt t)
                  (tr_checkpoint_type t))
           else None)
     in if gp_event_type p \<in> {''CALL_COMPLETED'', ''SMS_RESPONSE'', ''EMAIL_RESPONSE''} then
          let outcome = lower (case gp_outcome p of None \<Rightarrow> [] | Some s \<Rightarrow> s)
          in (Some (if outcome \<in> {''connected'', ''responded'', ''replied'', ''yes''}
                    then ''RESPONDED'' else ''NO_RESPONSE''), analysis)
        else if gp_event_type p = ''TRANSCRIPT_READY'' then (Some ''ANALYZED'', analysis)
        else (None, None))"

definition history_args :: "history_row" where
  "history_args =
    \<lparr>oh_id = 0, oh_tracking_id = 0, oh_user_id = 0, oh_checkpoint_type = [],
     oh_attempt_number = 0, oh_channel = None, oh_action = None, oh_execution_mode = [],
     oh_simulated_status = ''NOT_SENT'', oh_payload = None, oh_decision = None,
     oh_state_before = None, oh_state_after = None, oh_correlation_id = [],
     oh_causation_id = None, oh_config_version_id = None, oh_execution_type = [],
     oh_governance_scope = [], oh_orchestration_cycle_id = None, oh_origin_source = None,
     oh_origin_authority = None, oh_is_replay = False, oh_attribution_complete = False,
     oh_idempotency_key = None, oh_replay_context = None\<rparr>"

text \<open>
  The state change of the handler: an allowed move to a different state is written and logged.
\<close>

definition webhook_move ::
  "settings \<Rightarrow> (nat \<Rightarrow> runtime) \<Rightarrow> int \<Rightarrow> string \<Rightarrow> string option \<Rightarrow> tracking_row \<Rightarrow> database
   \<Rightarrow> string \<times> database" where
  "webhook_move st rs user_id event_type target t d =
    (case target of
       None \<Rightarrow> (tr_state t, d)
     | Some to_state \<Rightarrow>
       if to_state \<noteq> [] \<and> to_state \<noteq> tr_state t \<and> can_transition (tr_state t) to_state
       then (to_state,
             log_transition st rs (tr_id t) user_id (tr_state t) to_state
               (''webhook:'' @ event_type) ''webhook''
               (set_tracking (t\<lparr>tr_state := to_state, tr_updated_at := db_now d\<rparr>) d))
       else (tr_state t, d))"

text \<open>The handler on a valid event of a case: target state, move, response, history entry.\<close>

definition webhook_apply ::
  "settings \<Rightarrow> webhook_env \<Rightarrow> (nat \<Rightarrow> runtime) \<Rightarrow> attribution_fields \<Rightarrow> governance_meta \<Rightarrow> pydict
   \<Rightarrow> ghl_webhook_payload \<Rightarrow> int \<Rightarrow> tracking_row \<Rightarrow> database \<Rightarrow> api_response res \<times> database" where
  "webhook_apply st we rs a meta raw p user_id t d =
    (let (target, analysis) = webhook_target we p user_id t;
         (new_state, d1) = webhook_move st (\<lambda>n. rs (2 + n)) user_id (gp_event_type p) target t d;
         payload = (case analysis of
             Some l \<Rightarrow> if l \<noteq> [] then dict_put ''llm_analysis'' (VDict l) raw else raw
           | None \<Rightarrow> raw);
         d2 = snd (append_outreach_history (rs 4)
           (history_args\<lparr>oh_tracking_id := tr_id t, oh_user_id := user_id,
              oh_checkpoint_type := tr_checkpoint_type t,
              oh_attempt_number := tr_current_attempt t,
              oh_channel := Some ''GHL_WEBHOOK'',
              oh_action := Some (''WEBHOOK_'' @ gp_event_type p),
              oh_state_before := Some (tr_state t), oh_state_after := Some new_state,
              oh_payload := Some payload,
              oh_decision := Some (''WEBHOOK_PROCESSED:'' @ gp_event_type p)\<rparr>) a d1)
     in (Inr (ApiOk [(''processed'', VBool True), (''user_id'', VInt user_id),
                (''new_state'', VStr new_state)] meta), d2))"

text \<open>The handler after the event is recorded as new.\<close>

definition webhook_process ::
  "settings \<Rightarrow> webhook_env \<Rightarrow> (nat \<Rightarrow> runtime) \<Rightarrow> attribution_fields \<Rightarrow> governance_meta \<Rightarrow> pydict
   \<Rightarrow> database \<Rightarrow> api_response res \<times> database" where
  "webhook_process st we rs a meta raw d =
    (let et = dict_get raw ''event_type''
     in if \<not> hashable et then (Inl TypeError, d)
        else if et \<notin> VStr ` set VALID_GHL_EVENTS
        then (Inr (ApiFail ''INVALID_EVENT'' (''Unknown event_type: '' @ we_str we et) meta), d)
        else case we_payload we raw of
          Inl e \<Rightarrow> (Inl e, d)
        | Inr p \<Rightarrow>
          (case gp_user_id p of
             None \<Rightarrow> (Inr (ApiFail ''MISSING_USER_ID'' ''Webhook payload missing user_id'' meta), d)
           | Some user_id \<Rightarrow>
             (case filter (\<lambda>r. tr_user_id r = user_id) (db_tracking d) of
                [] \<Rightarrow> (Inr (ApiFail ''NOT_FOUND''
                        (''No outreach record for user '' @ show_int user_id) meta), d)
              | [t] \<Rightarrow> webhook_apply st we rs a meta raw p user_id t d
              | _ \<Rightarrow> (Inl MultipleResultsFound, d))))"

definition ghl_webhook ::
  "settings \<Rightarrow> webhook_env \<Rightarrow> (nat \<Rightarrow> runtime) \<Rightarrow> headers \<Rightarrow> pydict \<Rightarrow> database
   \<Rightarrow> api_response res \<times> database" where
  "ghl_webhook st we rs h raw d =
    (let correlation_id = extract_correlation_id (rs 0) h;
         a = build_request_attribution st correlation_id (extract_causation_id h) ''original'' None None;
         meta = make_governance_meta (rs 0) a;
         event_hash = we_event_hash we raw;
         ((inserted, pe_record), d1) = record_processed_event (rs 1) event_hash
            (dict_get raw ''event_type'') (dict_get raw ''user_id'') a (Some raw) d
     in if \<not> inserted
        then (Inr (ApiOk [(''deduplicated'', VBool True), (''event_hash'', VStr event_hash)] meta), d1)
        else webhook_process st we rs a meta raw d1)"

end
