(* ===== verification/CaseActionsProps.thy ===== *)
theory CaseActionsProps
  imports CaseActions
begin

text \<open>
  Properties of the case actions: the state of a case only ever moves along the lifecycle table
  (rule induction over the system's steps), and what reaches the audit tables. The attribution
  both paths build carries the text of the enumeration member, which the persistence gate does
  not accept; the properties state what follows from it.
\<close>

section \<open>The gate refuses the attribution of both paths\<close>

lemma str_of_mode_invalid: "str_of_mode m \<notin> set repo_valid_execution_modes"
  by (cases m) (simp_all add: str_of_mode_def repo_valid_execution_modes_def)

lemma str_of_mode_ne [simp]: "str_of_mode m \<noteq> []" "str_of_mode m \<noteq> ''SHADOW''"
  by (cases m; simp add: str_of_mode_def)+

lemma transition_attribution_refused:
  "governance_persistence_gate (transition_attribution st rt src auth) None {} False False \<noteq> []"
  by (simp add: gate_Nil transition_attribution_def Let_def str_of_mode_invalid)

lemma request_attribution_mode [simp]:
  "af_execution_mode (build_request_attribution st c ca et cv None) = str_of_mode (EXECUTION_MODE st)"
  by (simp add: build_request_attribution_def Let_def)

lemma append_transition_refused:
  assumes "governance_persistence_gate a None {} False False \<noteq> []"
  shows "fst (fst (append_state_transition rt tid uid f t trig a actor meta d)) = None"
    and "db_transitions (snd (append_state_transition rt tid uid f t trig a actor meta d))
      = db_transitions d"
    and "db_tracking (snd (append_state_transition rt tid uid f t trig a actor meta d))
      = db_tracking d"
  using assms by (simp_all add: append_state_transition_def Let_def)

lemma set_tracking_simps [simp]:
  "db_transitions (set_tracking t d) = db_transitions d"
  "db_history (set_tracking t d) = db_history d" "db_events (set_tracking t d) = db_events d"
  by (simp_all add: set_tracking_def)

lemma invalid_mode_code:
  assumes "af_execution_mode a \<noteq> []" and "af_execution_mode a \<notin> set repo_valid_execution_modes"
  shows "''INVALID_EXECUTION_MODE'' \<in> set (governance_persistence_gate a key st fin live)"
  using assms by (simp add: governance_persistence_gate_def check_attribution_fields_def)

lemma record_event_refused:
  assumes "af_execution_mode a \<noteq> []" and "af_execution_mode a \<notin> set repo_valid_execution_modes"
  shows "fst (fst (record_processed_event rt h et uid a raw d)) = False"
    and "snd (record_processed_event rt h et uid a raw d)
      = db_emit (snd (fst (record_processed_event rt h et uid a raw d))) d"
proof -
  have "''INVALID_EXECUTION_MODE'' \<in> set (filter (\<lambda>c. c \<noteq> ''IDEMPOTENCY_DUPLICATE'')
      (governance_persistence_gate a (Some h) {} False False))"
    using invalid_mode_code [OF assms] by simp
  then have "filter (\<lambda>c. c \<noteq> ''IDEMPOTENCY_DUPLICATE'')
      (governance_persistence_gate a (Some h) {} False False) \<noteq> []"
    by (metis list.set_cases list.distinct(1))
  then show "fst (fst (record_processed_event rt h et uid a raw d)) = False"
    and "snd (record_processed_event rt h et uid a raw d)
      = db_emit (snd (fst (record_processed_event rt h et uid a raw d))) d"
    by (simp_all add: record_processed_event_def Let_def)
qed

section \<open>States move along the lifecycle\<close>

lemma latest_in: "latest rs = Some t \<Longrightarrow> t \<in> set rs"
  by (induction rs arbitrary: t) (auto split: option.splits if_splits)

lemma latest_None [simp]: "latest rs = None \<longleftrightarrow> rs = []"
  by (cases rs) (auto split: option.splits)

lemma latest_newest:
  assumes "latest rs = Some t" and "r \<in> set rs"
  shows "tr_updated_at r \<le> tr_updated_at t"
  using assms
proof (induction rs arbitrary: t)
  case (Cons x xs)
  show ?case
  proof (cases "latest xs")
    case None
    with Cons.prems show ?thesis by simp
  next
    case (Some q)
    then have q: "r \<in> set xs \<Longrightarrow> tr_updated_at r \<le> tr_updated_at q" by (rule Cons.IH)
    have t: "t = (if tr_updated_at q > tr_updated_at x then q else x)"
      using Some Cons.prems(1) by (simp split: if_splits)
    show ?thesis
    proof (cases "r = x")
      case True
      with t show ?thesis by simp
    next
      case False
      with q Cons.prems(2) have "tr_updated_at r \<le> tr_updated_at q" by simp
      with t show ?thesis by simp
    qed
  qed
qed simp

definition follows :: "tracking_row list \<Rightarrow> tracking_row list \<Rightarrow> bool" where
  "follows rs rs' \<longleftrightarrow> map tr_id rs' = map tr_id rs
     \<and> (\<forall>i < length rs. lifecycle_reaches (tr_state (rs ! i)) (tr_state (rs' ! i)))"

lemma follows_length: "follows rs rs' \<Longrightarrow> length rs' = length rs"
  using map_eq_imp_length_eq by (auto simp: follows_def)

lemma follows_refl [simp]: "follows rs rs"
  by (simp add: follows_def lifecycle_reaches.here)

lemma follows_trans: "follows a b \<Longrightarrow> follows b c \<Longrightarrow> follows a c"
  using follows_length [of a b] by (auto simp: follows_def intro: lifecycle_reaches_trans)

lemma set_tracking_follows:
  assumes ids: "distinct (map tr_id (db_tracking d))"
    and t: "t \<in> set (db_tracking d)" and t': "tr_id t' = tr_id t"
    and move: "can_transition (tr_state t) (tr_state t')"
  shows "follows (db_tracking d) (db_tracking (set_tracking t' d))"
proof -
  have "lifecycle_reaches (tr_state t) (tr_state t')"
    by (rule lifecycle_reaches.onward [OF lifecycle_reaches.here]) (simp add: lifecycle_step_iff move)
  moreover have "r = t" if "r \<in> set (db_tracking d)" "tr_id r = tr_id t" for r
    using ids t that by (metis distinct_map inj_onD)
  ultimately show ?thesis
    using t' nth_mem
    by (auto simp: follows_def set_tracking_def lifecycle_reaches.here)
qed

lemma append_transition_tracking [simp]:
  "db_tracking (snd (append_state_transition rt tid uid f t trig a actor meta d)) = db_tracking d"
  by (simp add: append_state_transition_def Let_def)

lemma append_history_tracking [simp]:
  "db_tracking (snd (append_outreach_history rt args a d)) = db_tracking d"
  by (simp add: append_outreach_history_def Let_def)

lemma record_event_tracking [simp]:
  "db_tracking (snd (record_processed_event rt h et uid a raw d)) = db_tracking d"
  by (simp add: record_processed_event_def Let_def)

lemma manual_follows:
  assumes "distinct (map tr_id (db_tracking d))"
  shows "follows (db_tracking d) (db_tracking (snd (execute_manual_action st rs uid act notes d)))"
proof (cases "map_of ACTION_TYPE_TO_STATE act")
  case None
  then show ?thesis by (simp add: execute_manual_action_def)
next
  case (Some target)
  show ?thesis
  proof (cases "latest (filter (\<lambda>r. tr_user_id r = uid) (db_tracking d))")
    case None
    with Some show ?thesis by (simp add: execute_manual_action_def)
  next
    case (Some t)
    then have t: "t \<in> set (db_tracking d)" using latest_in by fastforce
    show ?thesis
      using Some \<open>map_of ACTION_TYPE_TO_STATE act = Some target\<close> assms t
      by (simp add: execute_manual_action_def Let_def set_tracking_follows)
  qed
qed

lemma webhook_move_follows:
  assumes "distinct (map tr_id (db_tracking d))" and "t \<in> set (db_tracking d)"
  shows "follows (db_tracking d) (db_tracking (snd (webhook_move st rs uid et target t d)))"
  using assms
  by (auto simp: webhook_move_def log_transition_def set_tracking_follows split: option.split)

lemma webhook_apply_follows:
  assumes "distinct (map tr_id (db_tracking d))" and "t \<in> set (db_tracking d)"
  shows "follows (db_tracking d) (db_tracking (snd (webhook_apply st we rs a meta raw p uid t d)))"
  using assms by (simp add: webhook_apply_def Let_def case_prod_unfold webhook_move_follows)

lemma list3_cases:
  obtains "xs = []" | x where "xs = [x]" | x y ys where "xs = x # y # ys"
  by (cases xs rule: remdups_adj.cases) auto

lemma filter_singleton_in:
  assumes "filter P xs = [x]"
  shows "x \<in> set xs"
proof -
  have "x \<in> set (filter P xs)" unfolding assms by simp
  then show ?thesis by simp
qed

lemma webhook_process_cases:
  assumes "snd (webhook_process st we rs a meta raw d) \<noteq> d"
  obtains p uid t where "t \<in> set (db_tracking d)" and "webhook_process st we rs a meta raw d
    = webhook_apply st we rs a meta raw p uid t d"
proof -
  let ?et = "dict_get raw ''event_type''"
  have et: "hashable ?et"
    using assms by (rule_tac ccontr) (simp add: webhook_process_def)
  have ev: "?et \<in> VStr ` set VALID_GHL_EVENTS"
  proof (rule ccontr)
    assume "?et \<notin> VStr ` set VALID_GHL_EVENTS"
    with et assms show False by (simp only: webhook_process_def Let_def if_True if_False simp_thms snd_conv)
  qed
  obtain p where p: "we_payload we raw = Inr p"
    using assms et ev by (cases "we_payload we raw") (simp_all add: webhook_process_def)
  obtain uid where u: "gp_user_id p = Some uid"
    using assms et ev p by (cases "gp_user_id p") (simp_all add: webhook_process_def)
  obtain t where t: "filter (\<lambda>r. tr_user_id r = uid) (db_tracking d) = [t]"
    using assms et ev p u
    by (cases "filter (\<lambda>r. tr_user_id r = uid) (db_tracking d)" rule: list3_cases)
      (simp_all add: webhook_process_def)
  show ?thesis
    by (rule that [OF filter_singleton_in [OF t]]) (simp add: webhook_process_def et ev p u t)
qed

lemma webhook_process_follows:
  assumes ids: "distinct (map tr_id (db_tracking d))"
  shows "follows (db_tracking d) (db_tracking (snd (webhook_process st we rs a meta raw d)))"
  by (metis follows_refl ids webhook_apply_follows webhook_process_cases)

inductive case_step :: "settings \<Rightarrow> database \<Rightarrow> database \<Rightarrow> bool" for st where
  manual: "case_step st d (snd (execute_manual_action st rs uid act notes d))"
| webhook: "case_step st d (snd (ghl_webhook st we rs h raw d))"
| recorded: "case_step st d (snd (webhook_process st we rs a meta raw d))"
| repository: "case_step st d (repo_step x d)"

inductive case_reaches :: "settings \<Rightarrow> database \<Rightarrow> database \<Rightarrow> bool" for st where
  start: "case_reaches st d d"
| step: "case_reaches st d d' \<Longrightarrow> case_step st d' d'' \<Longrightarrow> case_reaches st d d''"

lemma repo_step_tracking [simp]: "db_tracking (repo_step x d) = db_tracking d"
  by (cases x) (auto simp: repo_defs split: option.split)

lemma ghl_webhook_follows:
  assumes "distinct (map tr_id (db_tracking d))"
  shows "follows (db_tracking d) (db_tracking (snd (ghl_webhook st we rs h raw d)))"
proof -
  have "follows (db_tracking d) (db_tracking (snd (webhook_process st we rs a meta raw
      (snd (record_processed_event rt x et u a raw' d)))))" for rs a meta rt x et u raw'
    using webhook_process_follows [of "snd (record_processed_event rt x et u a raw' d)"] assms
    by simp
  then show ?thesis by (simp add: ghl_webhook_def Let_def case_prod_unfold)
qed

lemma case_step_follows:
  assumes "case_step st d d'" and "distinct (map tr_id (db_tracking d))"
  shows "follows (db_tracking d) (db_tracking d')"
  using assms
  by (cases rule: case_step.cases)
    (simp_all add: manual_follows webhook_process_follows ghl_webhook_follows)

lemma case_reaches_follows:
  assumes "case_reaches st d d'" and "distinct (map tr_id (db_tracking d))"
  shows "follows (db_tracking d) (db_tracking d')"
  using assms
proof (induction rule: case_reaches.induct)
  case (start d)
  show ?case by simp
next
  case (step d d' d'')
  then have f: "follows (db_tracking d) (db_tracking d')" by simp
  then have "distinct (map tr_id (db_tracking d'))"
    using step.prems by (simp add: follows_def)
  with f step.hyps(2) show ?case
    by (blast intro: follows_trans case_step_follows)
qed

section \<open>Properties\<close>

lemma manual_ok_cases:
  assumes "fst (execute_manual_action st rs uid act notes d) = ManualOk u a f g tid corr"
  obtains target t where "map_of ACTION_TYPE_TO_STATE act = Some target"
    and "latest (filter (\<lambda>r. tr_user_id r = uid) (db_tracking d)) = Some t"
    and "can_transition (tr_state t) target" and "u = uid" and "f = tr_state t" and "g = target"
    and "tid = tr_id t"
proof -
  obtain target where target: "map_of ACTION_TYPE_TO_STATE act = Some target"
    using assms by (cases "map_of ACTION_TYPE_TO_STATE act") (simp_all add: execute_manual_action_def)
  obtain t where t: "latest (filter (\<lambda>r. tr_user_id r = uid) (db_tracking d)) = Some t"
    using assms target by (cases "latest (filter (\<lambda>r. tr_user_id r = uid) (db_tracking d))")
      (simp_all add: execute_manual_action_def)
  have "can_transition (tr_state t) target"
    using assms target t
    by (cases "can_transition (tr_state t) target") (simp_all add: execute_manual_action_def)
  moreover from this have "\<exists>c. fst (execute_manual_action st rs uid act notes d)
      = ManualOk uid act (tr_state t) target (tr_id t) c"
    using target t by (simp add: execute_manual_action_def Let_def)
  then have "u = uid" "f = tr_state t" "g = target" "tid = tr_id t"
    using assms by (elim exE; simp only: manual_result.inject)+
  ultimately show ?thesis
    using target t by (intro that)
qed

lemma manual_transitions:
  "db_transitions (snd (execute_manual_action st rs uid act notes d)) = db_transitions d"
  by (simp add: execute_manual_action_def Let_def append_transition_refused
      transition_attribution_refused split: option.split)

lemma manual_not_ok:
  "case fst (execute_manual_action st rs uid act notes d) of ManualOk u a f g tid corr \<Rightarrow> True
   | _ \<Rightarrow> snd (execute_manual_action st rs uid act notes d) = d"
  by (simp add: execute_manual_action_def Let_def split: option.split)

lemma in_set_tracking:
  "t \<in> set (db_tracking d) \<Longrightarrow> tr_id t' = tr_id t \<Longrightarrow> t' \<in> set (db_tracking (set_tracking t' d))"
  by (force simp: set_tracking_def)

lemma can_transition_irrefl: "can_transition a b \<Longrightarrow> a \<noteq> b"
  using can_transition_known [of a b]
  by (auto simp: known_states_eq lifecycle_defs)

lemma manual_moves:
  assumes "fst (execute_manual_action st rs uid act notes d) = ManualOk u a f g tid corr"
  shows "\<exists>t \<in> set (db_tracking (snd (execute_manual_action st rs uid act notes d))).
    tr_id t = tid \<and> tr_user_id t = uid \<and> tr_state t = g"
proof -
  obtain target t where h: "map_of ACTION_TYPE_TO_STATE act = Some target"
    "latest (filter (\<lambda>r. tr_user_id r = uid) (db_tracking d)) = Some t"
    "can_transition (tr_state t) target" "u = uid" "f = tr_state t" "g = target" "tid = tr_id t"
    using assms by (rule manual_ok_cases)
  define t' where "t' = t\<lparr>tr_state := target,
    tr_correlation_id := Some (af_correlation_id (transition_attribution st (rs 0)
      ''operator_manual_action'' ''operator'')), tr_updated_at := db_now d\<rparr>"
  have t: "t \<in> set (db_tracking d)" "tr_user_id t = uid" using latest_in [OF h(2)] by auto
  have "t' \<in> set (db_tracking (set_tracking t' d))"
    by (rule in_set_tracking [OF t(1)]) (simp add: t'_def)
  moreover have "db_tracking (snd (execute_manual_action st rs uid act notes d))
      = db_tracking (set_tracking t' d)"
    using h by (simp add: execute_manual_action_def Let_def t'_def)
  moreover have "tr_id t' = tid" "tr_user_id t' = uid" "tr_state t' = g"
    by (simp_all add: t'_def h t(2))
  ultimately show ?thesis by metis
qed

text \<open>
  C6. The audit entry of an operator's manual action is always refused: whatever the settings,
  the action and the database, the state-transition log after the action is the one before it,
  although an accepted action has moved the case of the user to another state, which is the one
  its action asks for and which the lifecycle allows. A rejected action changes nothing.
\<close>

theorem manual_action_unaudited:
  "db_transitions (snd (execute_manual_action st rs user_id action_type notes d)) = db_transitions d
   \<and> (case fst (execute_manual_action st rs user_id action_type notes d) of
        ManualOk uid act from_state to_state tid corr \<Rightarrow>
          map_of ACTION_TYPE_TO_STATE action_type = Some to_state
          \<and> lifecycle_step from_state to_state \<and> from_state \<noteq> to_state
          \<and> (\<exists>t \<in> set (db_tracking (snd (execute_manual_action st rs user_id action_type notes d))).
              tr_id t = tid \<and> tr_user_id t = user_id \<and> tr_state t = to_state)
      | _ \<Rightarrow> snd (execute_manual_action st rs user_id action_type notes d) = d)"
proof (cases "fst (execute_manual_action st rs user_id action_type notes d)")
  case (ManualOk u a f g tid corr)
  obtain target t where "map_of ACTION_TYPE_TO_STATE action_type = Some target"
    "latest (filter (\<lambda>r. tr_user_id r = user_id) (db_tracking d)) = Some t"
    "can_transition (tr_state t) target" "u = user_id" "f = tr_state t" "g = target" "tid = tr_id t"
    using ManualOk by (rule manual_ok_cases)
  then show ?thesis
    using manual_moves [OF ManualOk] can_transition_irrefl
    by (simp add: ManualOk manual_transitions lifecycle_step_iff)
qed (use manual_not_ok [of st rs user_id action_type "notes" d] in \<open>simp_all add: manual_transitions\<close>)

text \<open>
  C5. Every webhook is answered as a duplicate: whatever the payload, the headers, the settings
  and the database, the handler returns the deduplicated response and changes nothing in the
  database; only the persistence layer logs one line, because the attribution the handler
  builds never passes the persistence gate.
\<close>

theorem webhook_always_deduplicated:
  "\<exists>r meta. ghl_webhook st we rs h raw d =
     (Inr (ApiOk [(''deduplicated'', VBool True), (''event_hash'', VStr (we_event_hash we raw))] meta),
      db_emit r d)"
proof -
  define a where "a = build_request_attribution st (extract_correlation_id (rs 0) h)
    (extract_causation_id h) ''original'' None None"
  have mode: "af_execution_mode a \<noteq> []" "af_execution_mode a \<notin> set repo_valid_execution_modes"
    by (simp_all add: a_def str_of_mode_invalid)
  note refused = record_event_refused [OF mode, of "rs 1" "we_event_hash we raw"
      "dict_get raw ''event_type''" "dict_get raw ''user_id''" "Some raw" d]
  show ?thesis
    using refused by (auto simp: ghl_webhook_def Let_def case_prod_unfold a_def [symmetric])
qed

text \<open>
  C7. Cases move along the lifecycle only: over every sequence of manual actions, webhooks
  (also ones that get past deduplication) and persistence calls, the set of cases and their
  order stay the same, every case is in a state reachable from its first one by allowed
  transitions, never in an earlier phase, and a closed case stays closed.
\<close>

theorem cases_follow_lifecycle:
  assumes "case_reaches st d d'" and "distinct (map tr_id (db_tracking d))"
    and "i < length (db_tracking d)"
  shows "map tr_id (db_tracking d') = map tr_id (db_tracking d)
    \<and> lifecycle_reaches (tr_state (db_tracking d ! i)) (tr_state (db_tracking d' ! i))
    \<and> phase_of (tr_state (db_tracking d ! i)) \<le> phase_of (tr_state (db_tracking d' ! i))
    \<and> (tr_state (db_tracking d ! i) = ''CLOSED'' \<longrightarrow> tr_state (db_tracking d' ! i) = ''CLOSED'')"
  using case_reaches_follows [OF assms(1,2)] assms(3)
  by (auto simp: follows_def reaches_phase_mono dest: reaches_from_closed)

definition sample_case :: tracking_row where
  "sample_case = \<lparr>tr_id = 4, tr_user_id = 7, tr_checkpoint_type = ''DAY_7'', tr_state = ''CONTACTED'',
     tr_current_attempt = 3, tr_last_contact_at = None, tr_next_retry_at = None,
     tr_correlation_id = None, tr_execution_mode = ''SHADOW'', tr_created_at = 1, tr_updated_at = 1\<rparr>"

definition sample_settings :: settings where
  "sample_settings = \<lparr>EXECUTION_MODE = SHADOW, GHL_LOCATION_ID = ''loc''\<rparr>"

text \<open>A case that was contacted, and what an escalation and a booked meeting make of it.\<close>

definition contacted_db :: database where
  "contacted_db = (empty_database 9)\<lparr>db_tracking := [sample_case]\<rparr>"

definition sample_action :: "string \<Rightarrow> database \<Rightarrow> database" where
  "sample_action action d = snd (execute_manual_action sample_settings sample_runtime 7 action None d)"

lemma sample_action_reaches:
  "case_reaches sample_settings d d' \<Longrightarrow> case_reaches sample_settings d (sample_action action d')"
  unfolding sample_action_def by (rule case_reaches.step [OF _ case_step.manual])

lemma sample_action_states:
  "map tr_state (db_tracking (sample_action ''ESCALATE'' contacted_db)) = [''INTERVENTION_REQUIRED'']"
  "map tr_state (db_tracking (sample_action ''BOOK_MEETING'' (sample_action ''ESCALATE'' contacted_db))) = [''RESOLVED'']"
  "map tr_state (db_tracking (sample_action ''CLOSE_CASE'' contacted_db)) = [''CLOSED'']"
  by code_simp+

theorem cases_follow_lifecycle_witness:
  "let d = sample_action ''BOOK_MEETING'' (sample_action ''ESCALATE'' contacted_db)
   in map tr_state (db_tracking d) = [''RESOLVED''] \<and> map tr_id (db_tracking d) = map tr_id (db_tracking contacted_db)
      \<and> lifecycle_reaches ''CONTACTED'' (tr_state (db_tracking d ! 0)) \<and> phase_of ''CONTACTED'' \<le> phase_of (tr_state (db_tracking d ! 0))"
proof -
  have "case_reaches sample_settings contacted_db (sample_action ''BOOK_MEETING'' (sample_action ''ESCALATE'' contacted_db))"
    by (intro sample_action_reaches case_reaches.start)
  from cases_follow_lifecycle [OF this, of 0] show ?thesis
    by (simp add: Let_def sample_action_states) (simp add: contacted_db_def sample_case_def)
qed

text \<open>
  A correlation identifier sent by the client is never used: the server hands the handler
  header names in lower case, and with such names the lookup of the correlation header always
  falls back to a fresh identifier, and the causation header is never found.
\<close>

theorem correlation_header_ignored:
  assumes "\<forall>k \<in> fst ` set h. lower k = k"
  shows "extract_correlation_id rt h = rt_uuid rt \<and> extract_causation_id h = None"
proof -
  have "lower ''X-Correlation-ID'' \<noteq> ''X-Correlation-ID''" "lower ''X-Causation-ID'' \<noteq> ''X-Causation-ID''"
    by code_simp+
  then have "''X-Correlation-ID'' \<notin> fst ` set h" "''X-Causation-ID'' \<notin> fst ` set h"
    using assms by blast+
  then have "map_of h ''X-Correlation-ID'' = None" "map_of h ''X-Causation-ID'' = None"
    by (simp_all add: map_of_eq_None_iff)
  then show ?thesis
    by (simp add: extract_correlation_id_def extract_causation_id_def header_def)
qed

theorem correlation_header_ignored_witness:
  "extract_correlation_id (sample_runtime 5) [(''x-correlation-id'', ''abc'')] = rt_uuid (sample_runtime 5)"
  using correlation_header_ignored [of "[(''x-correlation-id'', ''abc'')]" "sample_runtime 5"]
  by (simp add: lower_char_def)

end
