(* ===== verification/DecisionEngine.thy ===== *)
theory DecisionEngine
  imports Prelude
begin

text \<open>
  The core decision engine, \<^verbatim>\<open>app/services/decision_engine.py\<close>: the five input
  contexts, the advisory intent with its metadata, Rule 0 and Rules 1--14, the replay and
  shadow entry points, the structured log line and the batch-preview function
  \<^verbatim>\<open>decide\<close>. An evaluation returns its result, or the exception that escapes, together with
  the log lines it emitted. \<open>sha\<close> is SHA-256 in hexadecimal; the n-th reading of the clock is
  taken from \<open>rs n\<close>.
\<close>

section \<open>Input contexts\<close>

definition dec_threshold_keys :: "string list" where
  "dec_threshold_keys =
    [''outreach_max_attempts'', ''hws_behind_high_risk_threshold'',
     ''avg_eff_rating_low_risk_threshold'', ''last_activity_high_risk_days'',
     ''payment_balance_risk_threshold'', ''ai_insight_ttl_hours'',
     ''prior_escalation_repeat_threshold'', ''sql_server_max_sync_age_hours'']"

definition dec_valid_modes :: "string set" where
  "dec_valid_modes = {''SHADOW'', ''LIVE''}"

definition dec_terminal_states :: "string set" where
  "dec_terminal_states = {''CLOSED''}"

definition dec_required_attribution :: "string list" where
  "dec_required_attribution = [''origin_source'', ''origin_authority'', ''attribution_timestamp'']"

definition replay_types :: "string set" where
  "replay_types = {''replay'', ''regeneration''}"

record governance_context =
  gov_config_version_id :: "string option"
  gov_config_version_status :: string
  gov_config_rule_set :: pydict
  gov_execution_mode :: string
  gov_execution_type :: string
  gov_correlation_id :: "string option"
  gov_causation_id :: "string option"
  gov_attribution_context :: pydict
  gov_fingerprint_context :: "pydict option"
  gov_idempotency_key :: "string option"
  gov_compliance_hold_flag :: bool

record academic_context =
  ac_user_id :: "int option"
  ac_access_state :: "string option"
  ac_hws_behind :: "int option"
  ac_avg_eff_rating :: "pyfloat option"
  ac_last_activity_days :: "int option"
  ac_payment_balance :: "pyfloat option"
  ac_sql_server_sync_timestamp :: "string option"

record operational_context =
  op_outreach_state :: "string option"
  op_contact_attempt_count :: int
  op_retry_eligible :: bool

record ai_input_context =
  ai_insight_state :: "string option"
  ai_confidence_score :: "pyfloat option"
  ai_stale_flag :: bool
  ai_finalized_copy :: bool
  ai_recommended_intervention :: "string option"

record historical_context =
  hc_historical_risk_trend :: "string option"
  hc_prior_escalation_count :: int
  hc_prior_snapshot_months :: "string list"

record decision_context =
  dc_governance :: governance_context
  dc_academic :: academic_context
  dc_operational :: operational_context
  dc_ai :: ai_input_context
  dc_historical :: historical_context

section \<open>Output models\<close>

record escalation_metadata =
  em_escalation_required :: bool
  em_escalation_urgency :: string
  em_escalation_reason_codes :: "string list"
  em_escalation_context :: pydict

definition default_escalation :: escalation_metadata where
  "default_escalation = \<lparr>em_escalation_required = False, em_escalation_urgency = ''LOW'',
     em_escalation_reason_codes = [], em_escalation_context = []\<rparr>"

record ai_output_context =
  ao_ai_input_used :: bool
  ao_ai_governance_tier :: string
  ao_ai_confidence_score :: pyfloat
  ao_stale_flag :: bool
  ao_fallback_applied :: bool

definition ai_output :: "string \<Rightarrow> ai_output_context" where
  "ai_output tier = \<lparr>ao_ai_input_used = False, ao_ai_governance_tier = tier,
     ao_ai_confidence_score = Fin 0, ao_stale_flag = False, ao_fallback_applied = False\<rparr>"

record replay_safety_metadata =
  rm_is_replay :: bool
  rm_source_artifact_id :: "string option"
  rm_historical_config_version_id :: "string option"
  rm_fingerprint_comparison_outcome :: "string option"
  rm_replay_safe :: bool

definition default_replay_meta :: replay_safety_metadata where
  "default_replay_meta = \<lparr>rm_is_replay = False, rm_source_artifact_id = None,
     rm_historical_config_version_id = None, rm_fingerprint_comparison_outcome = None,
     rm_replay_safe = True\<rparr>"

record orchestration_intent =
  oi_orchestration_intent :: string
  oi_intent_confidence :: pyfloat
  oi_recommended_execution_path :: string
  oi_execution_mode :: string
  oi_execution_type :: string
  oi_governance_scope :: string
  oi_correlation_id :: "string option"
  oi_causation_id :: "string option"
  oi_config_version_id :: "string option"
  oi_attribution_metadata :: pydict
  oi_rule_path_taken :: "string list"
  oi_decision_basis :: string
  oi_escalation_metadata :: escalation_metadata
  oi_replay_safety_metadata :: replay_safety_metadata
  oi_ai_context :: ai_output_context
  oi_reason_codes :: "string list"
  oi_intent_blocked :: bool
  oi_blocking_reason :: "string option"

record decision_result =
  dr_intent :: orchestration_intent
  dr_evaluation_duration_ms :: pyfloat
  dr_risk_level :: "string option"
  dr_config_threshold_warnings :: "string list"
  dr_degradation_flags :: "string list"
  dr_student_id_opaque :: "string option"

section \<open>Helpers\<close>

text \<open>The confidences 0.95, 0.9, 0.85 and 0.75 and the bound 0.70, as the doubles they denote.\<close>

definition c95 :: pyfloat where "c95 = Fin (4278419646001971 / 4503599627370496)"
definition c90 :: pyfloat where "c90 = Fin (8106479329266893 / 9007199254740992)"
definition c85 :: pyfloat where "c85 = Fin (7656119366529843 / 9007199254740992)"
definition c75 :: pyfloat where "c75 = Fin (3 / 4)"
definition c70 :: pyfloat where "c70 = Fin (3152519739159347 / 4503599627370496)"

definition dec_opaque_id :: "(string \<Rightarrow> string) \<Rightarrow> int option \<Rightarrow> string option" where
  "dec_opaque_id sha uid = map_option (\<lambda>n. take 16 (sha (''ssip:uid:'' @ show_int n))) uid"

definition dec_governance_scope :: "string \<Rightarrow> string \<Rightarrow> string" where
  "dec_governance_scope mode etype =
    (if etype \<in> replay_types then ''REPLAY_ONLY''
     else if mode = ''SHADOW'' then ''SHADOW_ONLY'' else ''AUTHORIZED'')"

definition compare_fingerprints :: "pydict option \<Rightarrow> string" where
  "compare_fingerprints ctx =
    (case ctx of None \<Rightarrow> ''UNKNOWN''
     | Some f \<Rightarrow>
       if f = [] then ''UNKNOWN''
       else if \<exists>k \<in> set [''fingerprint_schema_version'', ''fingerprint_config_registry_version'',
                 ''fingerprint_ai_prompt_version'', ''fingerprint_ai_model_version''].
               known (dict_get f k) = VNone
       then ''UNKNOWN'' else ''MATCH'')"

definition mk_intent ::
  "decision_context \<Rightarrow> string \<Rightarrow> pyfloat \<Rightarrow> string \<Rightarrow> string list \<Rightarrow> string list \<Rightarrow> string
   \<Rightarrow> escalation_metadata option \<Rightarrow> ai_output_context option \<Rightarrow> orchestration_intent" where
  "mk_intent ctx intent_type confidence exec_path rule_path reason_codes basis esc ai =
    (let gov = dc_governance ctx
     in \<lparr>oi_orchestration_intent = intent_type, oi_intent_confidence = confidence,
         oi_recommended_execution_path = exec_path, oi_execution_mode = gov_execution_mode gov,
         oi_execution_type = gov_execution_type gov,
         oi_governance_scope = dec_governance_scope (gov_execution_mode gov) (gov_execution_type gov),
         oi_correlation_id = gov_correlation_id gov, oi_causation_id = gov_causation_id gov,
         oi_config_version_id = gov_config_version_id gov,
         oi_attribution_metadata = gov_attribution_context gov,
         oi_rule_path_taken = rule_path, oi_decision_basis = basis,
         oi_escalation_metadata = (case esc of None \<Rightarrow> default_escalation | Some e \<Rightarrow> e),
         oi_replay_safety_metadata = default_replay_meta,
         oi_ai_context = (case ai of None \<Rightarrow> ai_output ''UNAVAILABLE'' | Some a \<Rightarrow> a),
         oi_reason_codes = reason_codes, oi_intent_blocked = False, oi_blocking_reason = None\<rparr>)"

definition dec_log ::
  "orchestration_intent \<Rightarrow> string option \<Rightarrow> pyfloat \<Rightarrow> string option \<Rightarrow> log_line" where
  "dec_log i sid logged_ms ai_tier =
    (let outcome = (if oi_intent_blocked i then ''blocked''
           else if oi_execution_mode i = ''SHADOW'' then ''shadow_only'' else ''success'')
     in LogJson (if oi_intent_blocked i then ''error'' else ''info'')
        ([(''service'', VStr ''decision_engine''),
          (''event'', VStr (if oi_intent_blocked i then ''governance_precondition_failed''
                            else ''orchestration_intent_produced'')),
          (''correlation_id'', opt_val (oi_correlation_id i)),
          (''causation_id'', opt_val (oi_causation_id i)),
          (''student_id_opaque'', opt_val sid),
          (''execution_type'', VStr (oi_execution_type i)),
          (''execution_mode'', VStr (oi_execution_mode i)),
          (''config_version_id'', opt_val (oi_config_version_id i)),
          (''orchestration_intent'', VStr (oi_orchestration_intent i)),
          (''governance_scope'', VStr (oi_governance_scope i)),
          (''ai_governance_tier'', opt_val ai_tier),
          (''rule_path_taken'', str_list (oi_rule_path_taken i)),
          (''decision_basis'', VStr (oi_decision_basis i)),
          (''duration_ms'', VFloat logged_ms),
          (''outcome'', VStr outcome)]
         @ (if oi_intent_blocked i
            then [(''error_class'', VStr ''GovernancePreconditionFailed''),
                  (''blocking_reason'', opt_val (oi_blocking_reason i))] else [])))"

section \<open>Rule 0\<close>

definition dec_precondition_codes :: "governance_context \<Rightarrow> string list" where
  "dec_precondition_codes gov =
     code_if (\<not> given (gov_config_version_id gov)) ''CONFIG_UNRESOLVED''
     @ code_if (gov_execution_mode gov \<notin> dec_valid_modes) ''EXECUTION_MODE_INVALID''
     @ code_if (\<not> given (gov_correlation_id gov)) ''CORRELATION_ID_MISSING''
     @ code_if (\<exists>k \<in> set dec_required_attribution. dict_get (gov_attribution_context gov) k = VNone)
         ''ATTRIBUTION_INCOMPLETE''
     @ code_if (gov_execution_type gov \<in> replay_types
           \<and> (gov_fingerprint_context gov = None \<or> gov_fingerprint_context gov = Some []))
         ''REPLAY_FINGERPRINT_MISSING''"

definition validate_governance_preconditions :: "governance_context \<Rightarrow> orchestration_intent option" where
  "validate_governance_preconditions gov =
    (let codes = dec_precondition_codes gov
     in if codes = [] then None
        else Some \<lparr>oi_orchestration_intent = ''NO_ELIGIBLE_INTENT'', oi_intent_confidence = Fin 1,
          oi_recommended_execution_path = [],
          oi_execution_mode = (if gov_execution_mode gov \<noteq> [] then gov_execution_mode gov else ''UNKNOWN''),
          oi_execution_type = gov_execution_type gov, oi_governance_scope = ''UNAVAILABLE'',
          oi_correlation_id = gov_correlation_id gov, oi_causation_id = gov_causation_id gov,
          oi_config_version_id = gov_config_version_id gov,
          oi_attribution_metadata = gov_attribution_context gov,
          oi_rule_path_taken = [''RULE_0''], oi_decision_basis = ''RULE_BASED'',
          oi_escalation_metadata = default_escalation,
          oi_replay_safety_metadata = default_replay_meta,
          oi_ai_context = ai_output ''UNAVAILABLE'', oi_reason_codes = codes,
          oi_intent_blocked = True,
          oi_blocking_reason = Some ''GOVERNANCE_PRECONDITION_FAILED''\<rparr>)"

section \<open>Thresholds, AI tier and risk\<close>

definition extract_thresholds :: "pydict \<Rightarrow> pydict \<times> string list" where
  "extract_thresholds rule_set =
    (let thresholds = map (\<lambda>k. (k, if dict_get rule_set k = VNone then VStr UNKNOWN_V0
                                   else dict_get rule_set k)) dec_threshold_keys
     in (thresholds,
         map (\<lambda>(k, v). ''CONFIG_THRESHOLD_MISSING_'' @ k)
           (filter (\<lambda>(k, v). v = VStr UNKNOWN_V0) thresholds)))"

definition assess_ai_tier :: "ai_input_context \<Rightarrow> string \<times> ai_output_context" where
  "assess_ai_tier ai =
    (if ai_finalized_copy ai then (''FINALIZED_COPY'', ai_output ''FINALIZED_COPY'')
     else
       let s = ai_insight_state ai
       in if s = Some ''AI_GENERATING'' \<or> s = Some ''AI_PENDING''
          then (''IN_FLIGHT'', ai_output ''IN_FLIGHT'')
          else if s = None \<or> s = Some ''AI_GENERATION_FAILED''
          then (''UNAVAILABLE'', (ai_output ''UNAVAILABLE'')\<lparr>ao_fallback_applied := True\<rparr>)
          else if s = Some ''AI_REVIEWED'' then
            (if ai_stale_flag ai then (''STALE'', (ai_output ''STALE'')\<lparr>ao_stale_flag := True\<rparr>)
             else
               let score = (case ai_confidence_score ai of None \<Rightarrow> Fin 0 | Some f \<Rightarrow> f);
                   tier = (if fge score c70 then ''CONFIDENT'' else ''ADVISORY'')
               in (tier, (ai_output tier)\<lparr>ao_ai_confidence_score := score\<rparr>))
          else (''UNAVAILABLE'', (ai_output ''UNAVAILABLE'')\<lparr>ao_fallback_applied := True\<rparr>))"

text \<open>The threshold \<^verbatim>\<open>_t(k)\<close>: \<open>VNone\<close> when it is absent or the sentinel.\<close>

definition dec_t :: "pydict \<Rightarrow> string \<Rightarrow> pyval" where
  "dec_t thresholds k = (if has_key thresholds k then known (dict_get thresholds k) else VNone)"

definition risk_of :: "string list \<Rightarrow> string list \<Rightarrow> string" where
  "risk_of high med =
    (if 2 \<le> length high then ''CRITICAL''
     else if high \<noteq> [] \<and> med \<noteq> [] then ''HIGH''
     else if high \<noteq> [] \<or> med \<noteq> [] then ''MEDIUM''
     else ''LOW'')"

definition dec_compute_risk :: "decision_context \<Rightarrow> pydict \<Rightarrow> string \<Rightarrow> (string \<times> string list) res" where
  "dec_compute_risk ctx thresholds ai_tier =
    (let a = dc_academic ctx; h = dc_historical ctx;
         trend = hc_historical_risk_trend h; intv = ai_recommended_intervention (dc_ai ctx)
     in bind_res (opt_cmp fge (map_option of_nat_num (ac_hws_behind a))
                   (dec_t thresholds ''hws_behind_high_risk_threshold'')) (\<lambda>hws.
        bind_res (opt_cmp flt (ac_avg_eff_rating a)
                   (dec_t thresholds ''avg_eff_rating_low_risk_threshold'')) (\<lambda>eff.
        bind_res (opt_cmp fgt (map_option of_nat_num (ac_last_activity_days a))
                   (dec_t thresholds ''last_activity_high_risk_days'')) (\<lambda>inact.
        bind_res (opt_cmp fgt (ac_payment_balance a)
                   (dec_t thresholds ''payment_balance_risk_threshold'')) (\<lambda>pay.
        bind_res (opt_cmp fge (Some (of_nat_num (hc_prior_escalation_count h)))
                   (dec_t thresholds ''prior_escalation_repeat_threshold'')) (\<lambda>ec.
        let high = code_if hws ''HWS_DELINQUENCY'' @ code_if inact ''INACTIVITY''
                @ code_if ec ''ESCALATION_RECURRENCE''
                @ code_if (trend = Some ''CRITICAL'') ''HISTORICAL_TREND_CRITICAL''
                @ code_if (ai_tier = ''CONFIDENT'' \<and> intv = Some ''ESCALATE'')
                    ''AI_CONFIDENT_ESCALATE_SIGNAL'';
            med = code_if eff ''EFFORT_DECLINE'' @ code_if pay ''PAYMENT_RISK''
                @ code_if (trend = Some ''DECLINING'') ''HISTORICAL_TREND_DECLINING''
                @ code_if (ai_tier = ''ADVISORY'' \<and> intv = Some ''ESCALATE'')
                    ''AI_ADVISORY_ESCALATE_SIGNAL''
        in Inr (risk_of high med, high @ med)))))))"

section \<open>The evaluation\<close>

type_synonym evaluation = "decision_result res \<times> log_line list"

text \<open>An exception leaves the evaluation; nothing has been logged before it.\<close>

definition bind_res' :: "'a res \<Rightarrow> ('a \<Rightarrow> 'b res \<times> log_line list) \<Rightarrow> 'b res \<times> log_line list" where
  "bind_res' m f = (case m of Inl e \<Rightarrow> (Inl e, []) | Inr a \<Rightarrow> f a)"

lemma bind_res'_simps [simp]: "bind_res' (Inl e) f = (Inl e, [])" "bind_res' (Inr a) f = f a"
  by (simp_all add: bind_res'_def)

definition conclude ::
  "(nat \<Rightarrow> runtime) \<Rightarrow> string option \<Rightarrow> string option \<Rightarrow> string option \<Rightarrow> string list
   \<Rightarrow> orchestration_intent \<Rightarrow> evaluation" where
  "conclude rs sid ai_tier risk warnings i =
     (Inr \<lparr>dr_intent = i, dr_evaluation_duration_ms = rt_elapsed_ms (rs 1), dr_risk_level = risk,
           dr_config_threshold_warnings = warnings, dr_degradation_flags = [],
           dr_student_id_opaque = sid\<rparr>,
      [dec_log i sid (rt_logged_ms (rs 0)) ai_tier])"

definition evaluate_replay_intent ::
  "(string \<Rightarrow> string) \<Rightarrow> (nat \<Rightarrow> runtime) \<Rightarrow> decision_context \<Rightarrow> evaluation" where
  "evaluate_replay_intent sha rs ctx =
    (let gov = dc_governance ctx;
         sid = dec_opaque_id sha (ac_user_id (dc_academic ctx));
         fp = gov_fingerprint_context gov;
         violations = code_if (gov_execution_mode gov = ''LIVE'') ''REPLAY_LIVE_MODE_BLOCKED''
            @ code_if (fp = None \<or> fp = Some []) ''REPLAY_FINGERPRINT_MISSING'';
         meta = \<lparr>rm_is_replay = True, rm_source_artifact_id = None,
            rm_historical_config_version_id = gov_config_version_id gov,
            rm_fingerprint_comparison_outcome = Some (compare_fingerprints fp),
            rm_replay_safe = (violations = [])\<rparr>;
         i = \<lparr>oi_orchestration_intent = ''NO_ELIGIBLE_INTENT'', oi_intent_confidence = Fin 1,
            oi_recommended_execution_path = [], oi_execution_mode = ''SHADOW'',
            oi_execution_type = gov_execution_type gov, oi_governance_scope = ''REPLAY_ONLY'',
            oi_correlation_id = gov_correlation_id gov, oi_causation_id = gov_causation_id gov,
            oi_config_version_id = gov_config_version_id gov,
            oi_attribution_metadata = gov_attribution_context gov,
            oi_rule_path_taken = [''RULE_0_PASS'', ''RULE_13''],
            oi_decision_basis = ''HISTORICAL_REPLAY'',
            oi_escalation_metadata = default_escalation, oi_replay_safety_metadata = meta,
            oi_ai_context = ai_output ''FINALIZED_COPY'',
            oi_reason_codes = (if violations \<noteq> [] then violations else [''REPLAY_EVALUATION_COMPLETE'']),
            oi_intent_blocked = (violations \<noteq> []),
            oi_blocking_reason = (if violations \<noteq> [] then Some ''REPLAY_PRECONDITION_VIOLATED''
               else None)\<rparr>
     in conclude rs sid (Some ''FINALIZED_COPY'') None [] i)"

definition escalation :: "string \<Rightarrow> string \<Rightarrow> pydict \<Rightarrow> escalation_metadata option" where
  "escalation urgency code context =
     Some \<lparr>em_escalation_required = True, em_escalation_urgency = urgency,
           em_escalation_reason_codes = [code], em_escalation_context = context\<rparr>"

text \<open>Rules 10, 11, 12 and 14: the recommendation, the retry, the first contact, the default.\<close>

definition evaluate_outreach_rules ::
  "(nat \<Rightarrow> runtime) \<Rightarrow> string option \<Rightarrow> decision_context \<Rightarrow> string list \<Rightarrow> string
   \<Rightarrow> ai_output_context \<Rightarrow> pyval \<Rightarrow> string \<Rightarrow> string list \<Rightarrow> evaluation" where
  "evaluate_outreach_rules rs sid ctx path ai_tier ai_out0 max_att risk_level t_warnings =
    (let op = dc_operational ctx;
         n = op_contact_attempt_count op;
         r10 = (ai_tier \<in> {''CONFIDENT'', ''ADVISORY''}
            \<and> ai_recommended_intervention (dc_ai ctx)
                \<in> {Some ''MEETING'', Some ''RESOURCE_DELIVERY'', Some ''IPBC_FOLLOWUP''});
         r10_codes = code_if r10 ''AI_ASSISTED_INTERVENTION_RECOMMENDED'';
         ai_out = (if r10 then ai_out0\<lparr>ao_ai_input_used := True\<rparr> else ai_out0);
         path10 = path @ code_if r10 ''RULE_10'';
         out = (\<lambda>i. conclude rs sid (Some ai_tier) (Some risk_level) t_warnings i)
     in bind_res' (if n > 0 \<and> max_att \<noteq> VStr UNKNOWN_V0 then lt_val (of_nat_num n) max_att
                   else Inr False) (\<lambda>below.
        if below \<and> op_retry_eligible op then
          out (mk_intent ctx ''RETRY_OUTREACH'' c90 ''outreach_service.schedule_retry''
                (path10 @ [''RULE_11'']) (r10_codes @ [''RETRY_ELIGIBLE_WINDOW_PASSED''])
                (if r10 then ''AI_ASSISTED'' else ''RULE_BASED'') None (Some ai_out))
        else if r10 then
          out (mk_intent ctx ''RECOMMEND_INTERVENTION'' c75
                ''operator_notification_service.deliver_ai_recommendation''
                path10 r10_codes ''AI_ASSISTED'' None (Some ai_out))
        else if n = 0 \<and> op_outreach_state op \<in> {Some ''ELIGIBLE'', Some ''QUEUED'', None} then
          out (mk_intent ctx ''INITIATE_OUTREACH'' c90 ''outreach_service.initiate_first_contact''
                (path10 @ [''RULE_12'']) [''FIRST_OUTREACH_ELIGIBLE''] ''RULE_BASED'' None (Some ai_out))
        else
          out (mk_intent ctx ''NO_ELIGIBLE_INTENT'' (Fin 1) []
                (path10 @ [''RULE_14'']) [''NO_ELIGIBLE_ACTION_THIS_CYCLE''] ''RULE_BASED'' None
                (Some ai_out))))"

text \<open>Rules 5 to 9: AI tier, exhausted attempts, risk, and the escalations it asks for.\<close>

definition evaluate_risk_rules ::
  "(nat \<Rightarrow> runtime) \<Rightarrow> string option \<Rightarrow> decision_context \<Rightarrow> string list \<Rightarrow> pydict
   \<Rightarrow> string list \<Rightarrow> evaluation" where
  "evaluate_risk_rules rs sid ctx path4 thresholds t_warnings =
    (let gov = dc_governance ctx;
         (ai_tier, ai_out) = assess_ai_tier (dc_ai ctx);
         path5 = path4 @ [''RULE_5''];
         max_att = (if has_key thresholds ''outreach_max_attempts''
                    then dict_get thresholds ''outreach_max_attempts'' else VStr UNKNOWN_V0);
         out = conclude rs sid (Some ai_tier)
     in if ai_tier = ''IN_FLIGHT'' \<and> gov_execution_type gov = ''original'' then
          out None t_warnings (mk_intent ctx ''DEFER_PENDING_AI'' c90 ''scheduler.defer_pending_ai''
            (path5 @ [''RULE_5A'']) [''AI_INSIGHT_IN_FLIGHT''] ''RULE_BASED'' None (Some ai_out))
        else
          bind_res' (if max_att \<noteq> VStr UNKNOWN_V0
              then ge_val (of_nat_num (op_contact_attempt_count (dc_operational ctx))) max_att
              else Inr False) (\<lambda>exhausted.
          if exhausted then
            out None t_warnings (mk_intent ctx ''CLOSE_ORCHESTRATION'' (Fin 1)
              ''outreach_service.exhaust_and_close'' (path5 @ [''RULE_6'']) [''MAX_ATTEMPTS_EXHAUSTED'']
              ''RULE_BASED'' (escalation ''MEDIUM'' ''MAX_ATTEMPTS_EXHAUSTED_REVIEW_REQUIRED'' []) None)
          else
            bind_res' (dec_compute_risk ctx thresholds ai_tier) (\<lambda>(risk_level, factors).
            let path7 = path5 @ [''RULE_6_PASS'', ''RULE_7'']
            in if risk_level = ''CRITICAL'' then
                 out (Some risk_level) t_warnings (mk_intent ctx ''ESCALATE_TO_OPERATOR'' c95
                   ''escalation_routing_service.handle_critical'' (path7 @ [''RULE_8''])
                   [''CRITICAL_RISK_ESCALATION'']
                   (if ao_ai_input_used ai_out then ''AI_ASSISTED'' else ''RULE_BASED'')
                   (escalation ''CRITICAL'' ''CRITICAL_RISK_MULTI_FACTOR'' []) (Some ai_out))
               else if risk_level = ''HIGH'' then
                 let code = (if gov_execution_mode gov = ''SHADOW'' then ''HIGH_RISK_SHADOW_NO_DISPATCH''
                             else ''HIGH_RISK_ESCALATION_LIVE'')
                 in out (Some risk_level) t_warnings (mk_intent ctx ''ESCALATE_TO_OPERATOR'' c85
                   ''escalation_routing_service.handle_high_risk'' (path7 @ [''RULE_9'']) [code]
                   ''RULE_BASED'' (escalation ''HIGH'' code []) (Some ai_out))
               else evaluate_outreach_rules rs sid ctx path7 ai_tier ai_out max_att risk_level
                      t_warnings)))"

text \<open>The whole of \<^verbatim>\<open>evaluate_orchestration_intent\<close>: Rules 0, 13, 3, 1, 2, 4, then the rest.\<close>

definition evaluate_orchestration_intent ::
  "(string \<Rightarrow> string) \<Rightarrow> (nat \<Rightarrow> runtime) \<Rightarrow> decision_context \<Rightarrow> evaluation" where
  "evaluate_orchestration_intent sha rs ctx =
    (let gov = dc_governance ctx;
         sid = dec_opaque_id sha (ac_user_id (dc_academic ctx));
         access = ac_access_state (dc_academic ctx)
     in case validate_governance_preconditions gov of
          Some blocked \<Rightarrow> conclude rs sid None None [] blocked
        | None \<Rightarrow>
          if gov_execution_type gov \<in> replay_types then evaluate_replay_intent sha rs ctx
          else
            let (thresholds, t_warnings) = extract_thresholds (gov_config_rule_set gov);
                out = conclude rs sid None None t_warnings
            in if op_outreach_state (dc_operational ctx) \<in> Some ` dec_terminal_states then
                 out (mk_intent ctx ''NO_ELIGIBLE_INTENT'' (Fin 1) []
                   [''RULE_0_PASS'', ''RULE_3'', ''RULE_1''] [''OUTREACH_CLOSED_TERMINAL'']
                   ''RULE_BASED'' None None)
               else if gov_compliance_hold_flag gov then
                 out (mk_intent ctx ''ESCALATE_TO_OPERATOR'' (Fin 1)
                   ''escalation_routing_service.handle_compliance_hold''
                   [''RULE_0_PASS'', ''RULE_3'', ''RULE_1_PASS'', ''RULE_2''] [''COMPLIANCE_HOLD_ACTIVE'']
                   ''RULE_BASED''
                   (escalation ''HIGH'' ''COMPLIANCE_HOLD_ACTIVE'' [(''note'',
                      VStr ''Automated orchestration suspended pending hold resolution.'')]) None)
               else if access = Some ''REVOKED'' then
                 out (mk_intent ctx ''ESCALATE_TO_OPERATOR'' (Fin 1)
                   ''escalation_routing_service.handle_access_revoked''
                   [''RULE_0_PASS'', ''RULE_3'', ''RULE_1_PASS'', ''RULE_2_PASS'', ''RULE_4'']
                   [''ACCESS_REVOKED_SQL_SERVER_AUTHORITATIVE''] ''RULE_BASED''
                   (escalation ''HIGH'' ''ACCESS_REVOKED'' []) None)
               else if access = Some ''SUSPENDED'' then
                 out (mk_intent ctx ''NO_ELIGIBLE_INTENT'' (Fin 1) []
                   [''RULE_0_PASS'', ''RULE_3'', ''RULE_1_PASS'', ''RULE_2_PASS'', ''RULE_4'']
                   [''ACCESS_SUSPENDED_AWAIT_RESTORATION''] ''RULE_BASED'' None None)
               else evaluate_risk_rules rs sid ctx
                      [''RULE_0_PASS'', ''RULE_3'', ''RULE_1_PASS'', ''RULE_2_PASS'', ''RULE_4_PASS'']
                      thresholds t_warnings)"

definition evaluate_shadow_intent ::
  "(string \<Rightarrow> string) \<Rightarrow> (nat \<Rightarrow> runtime) \<Rightarrow> decision_context \<Rightarrow> evaluation" where
  "evaluate_shadow_intent sha rs ctx =
    (if gov_execution_mode (dc_governance ctx) \<noteq> ''SHADOW''
     then evaluate_orchestration_intent sha rs
       (ctx\<lparr>dc_governance := (dc_governance ctx)\<lparr>gov_execution_mode := ''SHADOW''\<rparr>\<rparr>)
     else evaluate_orchestration_intent sha rs ctx)"

section \<open>The batch-preview decision\<close>

text \<open>\<open>eligible\<close> is the truth of the attribute \<^verbatim>\<open>eligibility.eligible\<close>, false when it is absent.\<close>

definition decide :: "pydict option \<Rightarrow> bool \<Rightarrow> string" where
  "decide tracking eligible =
    (if \<not> eligible then ''NO_ACTION''
     else case tracking of
       None \<Rightarrow> ''TRIGGER_OUTREACH''
     | Some t \<Rightarrow>
       let state = (if has_key t ''state'' then dict_get t ''state'' else VStr [])
       in if state \<in> {VStr ''CLOSED'', VStr ''RESOLVED''} then ''CLOSE''
          else if state = VStr ''INTERVENTION_REQUIRED'' then ''ESCALATE''
          else if state \<in> {VStr ''NO_RESPONSE'', VStr ''RETRY''} then ''RETRY_OUTREACH''
          else if state \<in> {VStr ''ELIGIBLE'', VStr ''QUEUED'', VStr ''CONTACTED''} then ''TRIGGER_OUTREACH''
          else ''NO_ACTION'')"

end
