(* ===== verification/DecisionProps.thy ===== *)
theory DecisionProps
  imports DecisionEngine
begin

text \<open>
  Properties of the decision engine. \<open>every_intent P e\<close> says that the intent of a returned
  evaluation satisfies \<open>P\<close>; its rules carry \<open>P\<close> through the rule chain. The abstract
  specification is a decision table (\<open>decision_table\<close>): guards over numbers and options, of
  which the first that holds gives the rule and the intent.
\<close>

section \<open>Intents of an evaluation\<close>

definition every_intent :: "(orchestration_intent \<Rightarrow> bool) \<Rightarrow> evaluation \<Rightarrow> bool" where
  "every_intent P e \<longleftrightarrow> (\<forall>r. fst e = Inr r \<longrightarrow> P (dr_intent r))"

lemma every_intent_conclude [simp]: "every_intent P (conclude rs sid tier risk w i) \<longleftrightarrow> P i"
  by (simp add: every_intent_def conclude_def)

lemma every_intent_bind:
  "every_intent P (bind_res' m f) \<longleftrightarrow> (\<forall>a. m = Inr a \<longrightarrow> every_intent P (f a))"
  by (cases m) (simp_all add: every_intent_def)

lemma every_intentD: "every_intent P e \<Longrightarrow> fst e = Inr r \<Longrightarrow> P (dr_intent r)"
  by (simp add: every_intent_def)

lemma mk_intent_frame [simp]:
  "oi_orchestration_intent (mk_intent ctx k c p path codes b esc ai) = k"
  "oi_rule_path_taken (mk_intent ctx k c p path codes b esc ai) = path"
  "oi_execution_mode (mk_intent ctx k c p path codes b esc ai) = gov_execution_mode (dc_governance ctx)"
  "oi_execution_type (mk_intent ctx k c p path codes b esc ai) = gov_execution_type (dc_governance ctx)"
  "oi_governance_scope (mk_intent ctx k c p path codes b esc ai)
     = dec_governance_scope (gov_execution_mode (dc_governance ctx)) (gov_execution_type (dc_governance ctx))"
  "\<not> oi_intent_blocked (mk_intent ctx k c p path codes b esc ai)"
  "oi_config_version_id (mk_intent ctx k c p path codes b esc ai) = gov_config_version_id (dc_governance ctx)"
  "oi_correlation_id (mk_intent ctx k c p path codes b esc ai) = gov_correlation_id (dc_governance ctx)"
  by (simp_all add: mk_intent_def Let_def)

lemma validate_None [simp]:
  "validate_governance_preconditions gov = None \<longleftrightarrow> dec_precondition_codes gov = []"
  by (simp add: validate_governance_preconditions_def Let_def)

lemma validate_pass [simp]:
  "dec_precondition_codes gov = [] \<Longrightarrow> validate_governance_preconditions gov = None"
  by simp

lemma validate_Some:
  "validate_governance_preconditions gov = Some i \<Longrightarrow>
     oi_governance_scope i = ''UNAVAILABLE'' \<and> oi_intent_blocked i
     \<and> oi_orchestration_intent i = ''NO_ELIGIBLE_INTENT'' \<and> oi_reason_codes i = dec_precondition_codes gov"
  by (auto simp: validate_governance_preconditions_def Let_def split: if_splits)

lemma precondition_codes_Nil:
  "dec_precondition_codes gov = [] \<longleftrightarrow>
     given (gov_config_version_id gov) \<and> gov_execution_mode gov \<in> dec_valid_modes
     \<and> given (gov_correlation_id gov)
     \<and> (\<forall>k \<in> set dec_required_attribution. dict_get (gov_attribution_context gov) k \<noteq> VNone)
     \<and> (gov_execution_type gov \<in> replay_types \<longrightarrow>
          gov_fingerprint_context gov \<noteq> None \<and> gov_fingerprint_context gov \<noteq> Some [])"
  by (simp add: dec_precondition_codes_def)

lemma outreach_rules_frame:
  assumes "\<And>k c p path codes b esc ai. P (mk_intent ctx k c p path codes b esc ai)"
  shows "every_intent P (evaluate_outreach_rules rs sid ctx path tier ao max_att risk w)"
  using assms by (simp add: evaluate_outreach_rules_def Let_def every_intent_bind)

lemma risk_rules_frame:
  assumes "\<And>k c p path codes b esc ai. P (mk_intent ctx k c p path codes b esc ai)"
  shows "every_intent P (evaluate_risk_rules rs sid ctx path thr w)"
  using assms outreach_rules_frame [of P ctx]
  by (simp add: evaluate_risk_rules_def Let_def every_intent_bind case_prod_unfold)

text \<open>An original evaluation that passes Rule 0 returns an intent of its own context.\<close>

lemma evaluate_frame:
  assumes "\<And>k c p path codes b esc ai. P (mk_intent ctx k c p path codes b esc ai)"
    and "dec_precondition_codes (dc_governance ctx) = []"
    and "gov_execution_type (dc_governance ctx) \<notin> replay_types"
  shows "every_intent P (evaluate_orchestration_intent sha rs ctx)"
  using assms risk_rules_frame [of P ctx]
  by (simp add: evaluate_orchestration_intent_def Let_def case_prod_unfold split: option.split)

lemma evaluate_blocked:
  assumes "dec_precondition_codes (dc_governance ctx) \<noteq> []"
  shows "every_intent (\<lambda>i. oi_governance_scope i = ''UNAVAILABLE'' \<and> oi_intent_blocked i
     \<and> oi_orchestration_intent i = ''NO_ELIGIBLE_INTENT'') (evaluate_orchestration_intent sha rs ctx)"
proof -
  obtain i where i: "validate_governance_preconditions (dc_governance ctx) = Some i"
    using assms validate_None by fastforce
  then show ?thesis
    using validate_Some [OF i] by (simp add: evaluate_orchestration_intent_def Let_def)
qed

lemma evaluate_replay:
  assumes "gov_execution_type (dc_governance ctx) \<in> replay_types"
    and "dec_precondition_codes (dc_governance ctx) = []"
  shows "every_intent (\<lambda>i. oi_governance_scope i = ''REPLAY_ONLY'' \<and> oi_execution_mode i = ''SHADOW''
     \<and> oi_orchestration_intent i = ''NO_ELIGIBLE_INTENT'') (evaluate_orchestration_intent sha rs ctx)"
  using assms by (simp add: evaluate_orchestration_intent_def evaluate_replay_intent_def Let_def)

section \<open>Scopes\<close>

lemma scope_authorized [simp]:
  "dec_governance_scope m t = ''AUTHORIZED'' \<longleftrightarrow> m \<noteq> ''SHADOW'' \<and> t \<notin> replay_types"
  by (simp add: dec_governance_scope_def)

lemma authorized_iff:
  assumes "fst (evaluate_orchestration_intent sha rs ctx) = Inr r"
  shows "oi_governance_scope (dr_intent r) = ''AUTHORIZED'' \<longleftrightarrow>
     dec_precondition_codes (dc_governance ctx) = [] \<and> gov_execution_mode (dc_governance ctx) = ''LIVE''
     \<and> gov_execution_type (dc_governance ctx) \<notin> replay_types"
proof (cases "dec_precondition_codes (dc_governance ctx) = []")
  case False
  then show ?thesis using every_intentD [OF evaluate_blocked assms] by simp
next
  case True
  show ?thesis
  proof (cases "gov_execution_type (dc_governance ctx) \<in> replay_types")
    case r: True
    then show ?thesis using every_intentD [OF evaluate_replay [OF r True] assms] by simp
  next
    case False
    have "oi_governance_scope (dr_intent r) = dec_governance_scope
        (gov_execution_mode (dc_governance ctx)) (gov_execution_type (dc_governance ctx))"
      by (rule every_intentD [OF evaluate_frame [OF _ True False] assms]) simp
    with True False show ?thesis
      by (auto simp: precondition_codes_Nil dec_valid_modes_def)
  qed
qed

section \<open>The decision table\<close>

text \<open>
  A threshold of the rule set as a number, \<open>None\<close> when it is missing, the sentinel or no number.
\<close>

definition limit :: "pydict \<Rightarrow> string \<Rightarrow> pyfloat option" where
  "limit rules k = num_of (known (dict_get rules k))"

text \<open>\<open>signal r x t\<close>: the observation and the threshold are there and stand in relation \<open>r\<close>.\<close>

definition signal :: "(pyfloat \<Rightarrow> pyfloat \<Rightarrow> bool) \<Rightarrow> pyfloat option \<Rightarrow> pyfloat option \<Rightarrow> bool" where
  "signal r x t \<longleftrightarrow> (\<exists>a b. x = Some a \<and> t = Some b \<and> r a b)"

definition strong_signals :: "decision_context \<Rightarrow> bool list" where
  "strong_signals ctx =
    (let a = dc_academic ctx; rules = gov_config_rule_set (dc_governance ctx)
     in [signal fge (map_option of_nat_num (ac_hws_behind a)) (limit rules ''hws_behind_high_risk_threshold''),
         signal fgt (map_option of_nat_num (ac_last_activity_days a)) (limit rules ''last_activity_high_risk_days''),
         signal fge (Some (of_nat_num (hc_prior_escalation_count (dc_historical ctx))))
           (limit rules ''prior_escalation_repeat_threshold''),
         hc_historical_risk_trend (dc_historical ctx) = Some ''CRITICAL'',
         fst (assess_ai_tier (dc_ai ctx)) = ''CONFIDENT''
           \<and> ai_recommended_intervention (dc_ai ctx) = Some ''ESCALATE''])"

definition weak_signals :: "decision_context \<Rightarrow> bool list" where
  "weak_signals ctx =
    (let a = dc_academic ctx; rules = gov_config_rule_set (dc_governance ctx)
     in [signal flt (ac_avg_eff_rating a) (limit rules ''avg_eff_rating_low_risk_threshold''),
         signal fgt (ac_payment_balance a) (limit rules ''payment_balance_risk_threshold''),
         hc_historical_risk_trend (dc_historical ctx) = Some ''DECLINING'',
         fst (assess_ai_tier (dc_ai ctx)) = ''ADVISORY''
           \<and> ai_recommended_intervention (dc_ai ctx) = Some ''ESCALATE''])"

abbreviation holds :: "bool list \<Rightarrow> nat" where
  "holds bs \<equiv> length (filter id bs)"

definition abstract_risk :: "decision_context \<Rightarrow> string" where
  "abstract_risk ctx =
    (let s = holds (strong_signals ctx); w = holds (weak_signals ctx)
     in if 2 \<le> s then ''CRITICAL'' else if 0 < s \<and> 0 < w then ''HIGH''
        else if 0 < s + w then ''MEDIUM'' else ''LOW'')"

definition recommends :: "ai_input_context \<Rightarrow> bool" where
  "recommends ai \<longleftrightarrow> fst (assess_ai_tier ai) \<in> {''CONFIDENT'', ''ADVISORY''}
     \<and> ai_recommended_intervention ai \<in> {Some ''MEETING'', Some ''RESOURCE_DELIVERY'', Some ''IPBC_FOLLOWUP''}"

definition decision_table :: "decision_context \<Rightarrow> (bool \<times> string \<times> string) list" where
  "decision_table ctx =
    (let gov = dc_governance ctx; op = dc_operational ctx; n = op_contact_attempt_count op;
         ceiling = limit (gov_config_rule_set gov) ''outreach_max_attempts'';
         access = ac_access_state (dc_academic ctx); risk = abstract_risk ctx
     in [(op_outreach_state op = Some ''CLOSED'', ''RULE_1'', ''NO_ELIGIBLE_INTENT''),
         (gov_compliance_hold_flag gov, ''RULE_2'', ''ESCALATE_TO_OPERATOR''),
         (access = Some ''REVOKED'', ''RULE_4'', ''ESCALATE_TO_OPERATOR''),
         (access = Some ''SUSPENDED'', ''RULE_4'', ''NO_ELIGIBLE_INTENT''),
         (fst (assess_ai_tier (dc_ai ctx)) = ''IN_FLIGHT'' \<and> gov_execution_type gov = ''original'',
            ''RULE_5A'', ''DEFER_PENDING_AI''),
         (signal fge (Some (of_nat_num n)) ceiling, ''RULE_6'', ''CLOSE_ORCHESTRATION''),
         (risk = ''CRITICAL'', ''RULE_8'', ''ESCALATE_TO_OPERATOR''),
         (risk = ''HIGH'', ''RULE_9'', ''ESCALATE_TO_OPERATOR''),
         (0 < n \<and> signal flt (Some (of_nat_num n)) ceiling \<and> op_retry_eligible op,
            ''RULE_11'', ''RETRY_OUTREACH''),
         (recommends (dc_ai ctx), ''RULE_10'', ''RECOMMEND_INTERVENTION''),
         (n = 0 \<and> op_outreach_state op \<in> {Some ''ELIGIBLE'', Some ''QUEUED'', None},
            ''RULE_12'', ''INITIATE_OUTREACH''),
         (True, ''RULE_14'', ''NO_ELIGIBLE_INTENT'')])"

fun first_rule :: "(bool \<times> 'a) list \<Rightarrow> 'a option" where
  "first_rule [] = None"
| "first_rule ((b, a) # rs) = (if b then Some a else first_rule rs)"

section \<open>The rule chain implements the table\<close>

lemma extract_get:
  assumes "k \<in> set dec_threshold_keys"
  shows "dict_get (fst (extract_thresholds rules)) k
      = (if dict_get rules k = VNone then VStr UNKNOWN_V0 else dict_get rules k)"
    and "has_key (fst (extract_thresholds rules)) k"
  using assms
  by (auto simp: extract_thresholds_def Let_def dict_get_def has_key_def map_of_map_restrict
      restrict_map_def image_image)

lemma dec_t_extract:
  assumes "k \<in> set dec_threshold_keys"
  shows "dec_t (fst (extract_thresholds rules)) k = known (dict_get rules k)"
  using extract_get [OF assms, of rules] by (simp add: dec_t_def)

lemma opt_cmp_signal:
  assumes "num_or_none v"
  shows "opt_cmp r x v = Inr (signal r x (num_of v))"
  using assms by (cases x; cases v) (auto simp: opt_cmp_def signal_def num_or_none_def cmp_num_def)

definition config_numeric :: "pydict \<Rightarrow> bool" where
  "config_numeric rules \<longleftrightarrow> (\<forall>k \<in> set dec_threshold_keys. threshold_ok (dict_get rules k))"

lemma opt_cmp_limit:
  assumes "config_numeric rules" and "k \<in> set dec_threshold_keys"
  shows "opt_cmp r x (dec_t (fst (extract_thresholds rules)) k) = Inr (signal r x (limit rules k))"
  using assms by (simp add: dec_t_extract limit_def opt_cmp_signal config_numeric_def threshold_ok_def)

lemma risk_of_counts:
  "risk_of (code_if b1 x1 @ code_if b2 x2 @ code_if b3 x3 @ code_if b4 x4 @ code_if b5 x5)
     (code_if c1 y1 @ code_if c2 y2 @ code_if c3 y3 @ code_if c4 y4)
   = (let s = holds [b1, b2, b3, b4, b5]; w = holds [c1, c2, c3, c4]
      in if 2 \<le> s then ''CRITICAL'' else if 0 < s \<and> 0 < w then ''HIGH''
         else if 0 < s + w then ''MEDIUM'' else ''LOW'')"
  by (cases b1; cases b2; cases b3; cases b4; cases b5) (auto simp: risk_of_def)

lemma compute_risk_abstract:
  assumes "config_numeric (gov_config_rule_set (dc_governance ctx))"
  shows "\<exists>factors. dec_compute_risk ctx (fst (extract_thresholds (gov_config_rule_set (dc_governance ctx))))
      (fst (assess_ai_tier (dc_ai ctx))) = Inr (abstract_risk ctx, factors)"
  using assms
  by (simp add: dec_compute_risk_def Let_def opt_cmp_limit dec_threshold_keys_def risk_of_counts
      abstract_risk_def strong_signals_def weak_signals_def del: filter.simps)

definition takes :: "evaluation \<Rightarrow> string \<times> string \<Rightarrow> bool" where
  "takes e rk \<longleftrightarrow> (\<exists>r. fst e = Inr r \<and> last (oi_rule_path_taken (dr_intent r)) = fst rk
     \<and> oi_orchestration_intent (dr_intent r) = snd rk)"

lemma takes_conclude [simp]:
  "takes (conclude rs sid tier risk w i) (a, b) \<longleftrightarrow>
     last (oi_rule_path_taken i) = a \<and> oi_orchestration_intent i = b"
  by (simp add: takes_def conclude_def)

text \<open>The two comparisons with the attempt ceiling, over a threshold that is usable.\<close>

lemma ceiling_cmp:
  assumes "config_numeric rules"
  defines "m \<equiv> dict_get (fst (extract_thresholds rules)) ''outreach_max_attempts''"
  shows "(if m \<noteq> VStr UNKNOWN_V0 then cmp_num r x m else Inr False)
      = Inr (signal r (Some x) (limit rules ''outreach_max_attempts''))"
    and "(if b \<and> m \<noteq> VStr UNKNOWN_V0 then cmp_num r x m else Inr False)
      = Inr (b \<and> signal r (Some x) (limit rules ''outreach_max_attempts''))"
proof -
  have k: "''outreach_max_attempts'' \<in> set dec_threshold_keys" by (simp add: dec_threshold_keys_def)
  have "threshold_ok (dict_get rules ''outreach_max_attempts'')"
    using assms(1) k unfolding config_numeric_def by blast
  then have ok: "num_or_none (known (dict_get rules ''outreach_max_attempts''))"
    by (simp add: threshold_ok_def)
  show *: "(if m \<noteq> VStr UNKNOWN_V0 then cmp_num r x m else Inr False)
      = Inr (signal r (Some x) (limit rules ''outreach_max_attempts''))"
    using ok unfolding m_def extract_get(1) [OF k] limit_def
    by (auto simp: signal_def known_def num_or_none_def is_num_iff)
  show "(if b \<and> m \<noteq> VStr UNKNOWN_V0 then cmp_num r x m else Inr False)
      = Inr (b \<and> signal r (Some x) (limit rules ''outreach_max_attempts''))"
    using * by (cases b) simp_all
qed

lemma outreach_rules_take:
  assumes "config_numeric (gov_config_rule_set (dc_governance ctx))"
  defines "n \<equiv> op_contact_attempt_count (dc_operational ctx)"
  shows "takes (evaluate_outreach_rules rs sid ctx path (fst (assess_ai_tier (dc_ai ctx))) ao
      (dict_get (fst (extract_thresholds (gov_config_rule_set (dc_governance ctx)))) ''outreach_max_attempts'')
      risk w)
    (the (first_rule
      [(0 < n \<and> signal flt (Some (of_nat_num n))
            (limit (gov_config_rule_set (dc_governance ctx)) ''outreach_max_attempts'')
          \<and> op_retry_eligible (dc_operational ctx), ''RULE_11'', ''RETRY_OUTREACH''),
       (recommends (dc_ai ctx), ''RULE_10'', ''RECOMMEND_INTERVENTION''),
       (n = 0 \<and> op_outreach_state (dc_operational ctx) \<in> {Some ''ELIGIBLE'', Some ''QUEUED'', None},
            ''RULE_12'', ''INITIATE_OUTREACH''),
       (True, ''RULE_14'', ''NO_ELIGIBLE_INTENT'')]))"
  using ceiling_cmp(2) [OF assms(1), of "0 < n" flt "of_nat_num n"]
  unfolding n_def by (simp add: evaluate_outreach_rules_def Let_def recommends_def) fastforce?

lemma risk_rules_take:
  assumes "config_numeric (gov_config_rule_set (dc_governance ctx))"
  shows "takes (evaluate_risk_rules rs sid ctx path
      (fst (extract_thresholds (gov_config_rule_set (dc_governance ctx)))) w)
    (the (first_rule (drop 4 (decision_table ctx))))"
proof -
  let ?rules = "gov_config_rule_set (dc_governance ctx)"
  let ?n = "op_contact_attempt_count (dc_operational ctx)"
  obtain factors where risk: "dec_compute_risk ctx (fst (extract_thresholds ?rules))
      (fst (assess_ai_tier (dc_ai ctx))) = Inr (abstract_risk ctx, factors)"
    using compute_risk_abstract [OF assms] by blast
  have key: "has_key (fst (extract_thresholds ?rules)) ''outreach_max_attempts''"
    by (rule extract_get) (simp add: dec_threshold_keys_def)
  show ?thesis
    using outreach_rules_take [OF assms] ceiling_cmp(1) [OF assms, of fge "of_nat_num ?n"] risk key
    by (simp add: evaluate_risk_rules_def decision_table_def Let_def case_prod_unfold)
qed

lemma evaluate_take:
  assumes "dec_precondition_codes (dc_governance ctx) = []"
    and "gov_execution_type (dc_governance ctx) \<notin> replay_types"
    and "config_numeric (gov_config_rule_set (dc_governance ctx))"
  shows "takes (evaluate_orchestration_intent sha rs ctx) (the (first_rule (decision_table ctx)))"
proof -
  have split4: "the (first_rule (decision_table ctx)) =
    (if op_outreach_state (dc_operational ctx) = Some ''CLOSED'' then (''RULE_1'', ''NO_ELIGIBLE_INTENT'')
     else if gov_compliance_hold_flag (dc_governance ctx) then (''RULE_2'', ''ESCALATE_TO_OPERATOR'')
     else if ac_access_state (dc_academic ctx) = Some ''REVOKED'' then (''RULE_4'', ''ESCALATE_TO_OPERATOR'')
     else if ac_access_state (dc_academic ctx) = Some ''SUSPENDED'' then (''RULE_4'', ''NO_ELIGIBLE_INTENT'')
     else the (first_rule (drop 4 (decision_table ctx))))"
    by (simp add: decision_table_def Let_def)
  show ?thesis
    unfolding split4 using risk_rules_take [OF assms(3)] assms(1,2)
    by (simp add: evaluate_orchestration_intent_def Let_def case_prod_unfold dec_terminal_states_def
        del: drop_Cons_numeral)
qed

section \<open>When a student may be contacted\<close>

definition contact_ok :: "decision_context \<Rightarrow> orchestration_intent \<Rightarrow> bool" where
  "contact_ok ctx i \<longleftrightarrow>
    (let n = op_contact_attempt_count (dc_operational ctx);
         ceiling = limit (gov_config_rule_set (dc_governance ctx)) ''outreach_max_attempts''
     in (oi_orchestration_intent i = ''RETRY_OUTREACH'' \<longrightarrow>
           0 < n \<and> signal flt (Some (of_nat_num n)) ceiling \<and> op_retry_eligible (dc_operational ctx))
      \<and> (oi_orchestration_intent i = ''INITIATE_OUTREACH'' \<longrightarrow>
           n = 0 \<and> \<not> signal fge (Some (of_nat_num n)) ceiling
           \<and> op_outreach_state (dc_operational ctx) \<in> {Some ''ELIGIBLE'', Some ''QUEUED'', None}))"

lemma contact_ok_other:
  "oi_orchestration_intent i \<notin> {''RETRY_OUTREACH'', ''INITIATE_OUTREACH''} \<Longrightarrow> contact_ok ctx i"
  by (simp add: contact_ok_def)

lemma max_att_limit:
  assumes "m = dict_get (fst (extract_thresholds rules)) ''outreach_max_attempts''"
    and "m \<noteq> VStr UNKNOWN_V0"
  shows "limit rules ''outreach_max_attempts'' = num_of m"
proof -
  have "''outreach_max_attempts'' \<in> set dec_threshold_keys" by (simp add: dec_threshold_keys_def)
  from extract_get(1) [OF this, of rules] assms show ?thesis
    by (auto simp: limit_def known_def split: if_splits)
qed

lemma max_att_unknown:
  assumes "dict_get (fst (extract_thresholds rules)) ''outreach_max_attempts'' = VStr UNKNOWN_V0"
  shows "limit rules ''outreach_max_attempts'' = None"
proof -
  have "''outreach_max_attempts'' \<in> set dec_threshold_keys" by (simp add: dec_threshold_keys_def)
  from extract_get(1) [OF this, of rules] assms show ?thesis
    by (auto simp: limit_def known_def split: if_splits)
qed

lemma ceiling_test:
  assumes "m = dict_get (fst (extract_thresholds rules)) ''outreach_max_attempts''"
    and "(if b \<and> m \<noteq> VStr UNKNOWN_V0 then cmp_num r x m else Inr False) = Inr c"
  shows "c \<longleftrightarrow> b \<and> signal r (Some x) (limit rules ''outreach_max_attempts'')"
proof (cases "b \<and> m \<noteq> VStr UNKNOWN_V0")
  case True
  with assms(2) obtain y where y: "num_of m = Some y" "c = r x y"
    by (auto simp: cmp_num_def split: option.splits)
  moreover have "limit rules ''outreach_max_attempts'' = num_of m"
    using max_att_limit [OF assms(1)] True by blast
  ultimately show ?thesis using True by (simp add: signal_def)
next
  case False
  with assms(2) have "\<not> c" by (auto split: if_splits)
  moreover have "limit rules ''outreach_max_attempts'' = None" if b
    using False that assms(1) max_att_unknown by simp
  ultimately show ?thesis by (auto simp: signal_def)
qed

lemma outreach_rules_contact:
  assumes "m = dict_get (fst (extract_thresholds (gov_config_rule_set (dc_governance ctx)))) ''outreach_max_attempts''"
    and "\<not> signal fge (Some (of_nat_num (op_contact_attempt_count (dc_operational ctx))))
        (limit (gov_config_rule_set (dc_governance ctx)) ''outreach_max_attempts'')"
  shows "every_intent (contact_ok ctx) (evaluate_outreach_rules rs sid ctx path tier ao m risk w)"
proof -
  let ?n = "op_contact_attempt_count (dc_operational ctx)"
  let ?limit = "limit (gov_config_rule_set (dc_governance ctx)) ''outreach_max_attempts''"
  let ?test = "if 0 < ?n \<and> m \<noteq> VStr UNKNOWN_V0 then lt_val (of_nat_num ?n) m else Inr False"
  have below: "below = (0 < ?n \<and> signal flt (Some (of_nat_num ?n)) ?limit)"
    if "?test = Inr below" for below
    using ceiling_test [OF assms(1) that] .
  have retry: "contact_ok ctx (mk_intent ctx ''RETRY_OUTREACH'' c p path' codes b esc ai)"
    if "0 < ?n \<and> signal flt (Some (of_nat_num ?n)) ?limit" "op_retry_eligible (dc_operational ctx)"
    for c p path' codes b esc ai
    using that by (simp add: contact_ok_def Let_def)
  have first: "contact_ok ctx (mk_intent ctx ''INITIATE_OUTREACH'' c p path' codes b esc ai)"
    if "?n = 0" "op_outreach_state (dc_operational ctx) \<in> {Some ''ELIGIBLE'', Some ''QUEUED'', None}"
    for c p path' codes b esc ai
    using that assms(2) by (simp add: contact_ok_def Let_def)
  have other: "contact_ok ctx (mk_intent ctx ''RECOMMEND_INTERVENTION'' c p path' codes b esc ai)"
    "contact_ok ctx (mk_intent ctx ''NO_ELIGIBLE_INTENT'' c p path' codes b esc ai)"
    for c p path' codes b esc ai
    by (simp_all add: contact_ok_other)
  show ?thesis
  proof (cases ?test)
    case (Inl e)
    then show ?thesis
      by (simp only: evaluate_outreach_rules_def Let_def bind_res'_simps) (simp add: every_intent_def)
  next
    case (Inr below)
    show ?thesis
      by (simp only: evaluate_outreach_rules_def Let_def Inr bind_res'_simps)
        (auto simp: below [OF Inr] intro: retry first other)
  qed
qed

lemma risk_rules_contact:
  "every_intent (contact_ok ctx) (evaluate_risk_rules rs sid ctx path
     (fst (extract_thresholds (gov_config_rule_set (dc_governance ctx)))) w)"
proof -
  let ?rules = "gov_config_rule_set (dc_governance ctx)"
  let ?n = "op_contact_attempt_count (dc_operational ctx)"
  let ?m = "dict_get (fst (extract_thresholds ?rules)) ''outreach_max_attempts''"
  let ?test = "if ?m \<noteq> VStr UNKNOWN_V0 then ge_val (of_nat_num ?n) ?m else Inr False"
  have key: "has_key (fst (extract_thresholds ?rules)) ''outreach_max_attempts''"
    by (rule extract_get) (simp add: dec_threshold_keys_def)
  have exhausted: "c = signal fge (Some (of_nat_num ?n)) (limit ?rules ''outreach_max_attempts'')"
    if "?test = Inr c" for c
    using ceiling_test [of ?m ?rules True fge "of_nat_num ?n" c] that by simp
  have outreach: "every_intent (contact_ok ctx) (evaluate_outreach_rules rs sid ctx path' tier ao ?m risk w)"
    if "?test = Inr False" for path' tier ao risk
    by (rule outreach_rules_contact [OF refl]) (use exhausted [OF that] in simp)
  show ?thesis
  proof (cases ?test)
    case (Inl e)
    then show ?thesis
      by (simp add: evaluate_risk_rules_def Let_def case_prod_unfold key contact_ok_other)
        (simp add: every_intent_def)
  next
    case (Inr c)
    then show ?thesis using outreach
      by (cases c) (simp_all add: evaluate_risk_rules_def Let_def case_prod_unfold key contact_ok_other
          every_intent_bind)
  qed
qed

text \<open>A contact is asked for only of a case that none of Rules 0 to 4 and 13 stops.\<close>

definition contact_gates :: "decision_context \<Rightarrow> bool" where
  "contact_gates ctx \<longleftrightarrow>
     dec_precondition_codes (dc_governance ctx) = []
     \<and> gov_execution_type (dc_governance ctx) \<notin> replay_types
     \<and> op_outreach_state (dc_operational ctx) \<noteq> Some ''CLOSED''
     \<and> \<not> gov_compliance_hold_flag (dc_governance ctx)
     \<and> ac_access_state (dc_academic ctx) \<notin> {Some ''REVOKED'', Some ''SUSPENDED''}"

lemma evaluate_contact:
  "every_intent (\<lambda>i. oi_orchestration_intent i \<in> {''RETRY_OUTREACH'', ''INITIATE_OUTREACH''} \<longrightarrow>
     contact_gates ctx \<and> contact_ok ctx i) (evaluate_orchestration_intent sha rs ctx)"
    (is "every_intent ?P _")
proof (cases "contact_gates ctx")
  case True
  then have "evaluate_orchestration_intent sha rs ctx
    = evaluate_risk_rules rs (dec_opaque_id sha (ac_user_id (dc_academic ctx))) ctx
        [''RULE_0_PASS'', ''RULE_3'', ''RULE_1_PASS'', ''RULE_2_PASS'', ''RULE_4_PASS'']
        (fst (extract_thresholds (gov_config_rule_set (dc_governance ctx))))
        (snd (extract_thresholds (gov_config_rule_set (dc_governance ctx))))"
    by (auto simp: evaluate_orchestration_intent_def contact_gates_def Let_def case_prod_unfold
        dec_terminal_states_def)
  then show ?thesis
    using risk_rules_contact [of ctx] True by (simp add: every_intent_def)
next
  case False
  have blocked: "every_intent ?P (evaluate_orchestration_intent sha rs ctx)"
    if "dec_precondition_codes (dc_governance ctx) \<noteq> []"
    using evaluate_blocked [OF that] by (simp add: every_intent_def)
  have replay: "every_intent ?P (evaluate_orchestration_intent sha rs ctx)"
    if "dec_precondition_codes (dc_governance ctx) = []" "gov_execution_type (dc_governance ctx) \<in> replay_types"
    using evaluate_replay [OF that(2,1)] by (simp add: every_intent_def)
  have stopped: "every_intent ?P (evaluate_orchestration_intent sha rs ctx)"
    if "dec_precondition_codes (dc_governance ctx) = []" "gov_execution_type (dc_governance ctx) \<notin> replay_types"
    using that False
    by (auto simp: evaluate_orchestration_intent_def contact_gates_def Let_def case_prod_unfold
        dec_terminal_states_def)
  show ?thesis using blocked replay stopped by blast
qed

section \<open>The user identifier\<close>

definition with_user :: "int option \<Rightarrow> decision_context \<Rightarrow> decision_context" where
  "with_user u ctx = ctx\<lparr>dc_academic := (dc_academic ctx)\<lparr>ac_user_id := u\<rparr>\<rparr>"

lemma with_user_simps [simp]:
  "dc_governance (with_user u ctx) = dc_governance ctx"
  "dc_operational (with_user u ctx) = dc_operational ctx" "dc_ai (with_user u ctx) = dc_ai ctx"
  "dc_historical (with_user u ctx) = dc_historical ctx"
  "ac_access_state (dc_academic (with_user u ctx)) = ac_access_state (dc_academic ctx)"
  "ac_hws_behind (dc_academic (with_user u ctx)) = ac_hws_behind (dc_academic ctx)"
  "ac_avg_eff_rating (dc_academic (with_user u ctx)) = ac_avg_eff_rating (dc_academic ctx)"
  "ac_last_activity_days (dc_academic (with_user u ctx)) = ac_last_activity_days (dc_academic ctx)"
  "ac_payment_balance (dc_academic (with_user u ctx)) = ac_payment_balance (dc_academic ctx)"
  by (simp_all add: with_user_def)

lemma with_user_sid: "ac_user_id (dc_academic (with_user u ctx)) = u"
  by (simp add: with_user_def)

lemma mk_intent_with_user [simp]: "mk_intent (with_user u ctx) = mk_intent ctx"
  by (intro ext) (simp add: mk_intent_def)

lemma compute_risk_with_user [simp]: "dec_compute_risk (with_user u ctx) = dec_compute_risk ctx"
  by (intro ext) (simp add: dec_compute_risk_def Let_def)

lemma outreach_rules_with_user [simp]:
  "evaluate_outreach_rules rs sid (with_user u ctx) = evaluate_outreach_rules rs sid ctx"
  unfolding evaluate_outreach_rules_def fun_eq_iff mk_intent_with_user with_user_simps by simp

lemma risk_rules_with_user [simp]:
  "evaluate_risk_rules rs sid (with_user u ctx) = evaluate_risk_rules rs sid ctx"
  unfolding evaluate_risk_rules_def fun_eq_iff mk_intent_with_user with_user_simps
    compute_risk_with_user outreach_rules_with_user by simp

section \<open>Properties\<close>

definition sample_context :: decision_context where
  "sample_context =
    \<lparr>dc_governance = \<lparr>gov_config_version_id = Some ''cfg-1'', gov_config_version_status = ''ACTIVE'',
        gov_config_rule_set = [(''outreach_max_attempts'', VInt 3),
          (''hws_behind_high_risk_threshold'', VInt 4), (''last_activity_high_risk_days'', VInt 14)],
        gov_execution_mode = ''LIVE'', gov_execution_type = ''original'',
        gov_correlation_id = Some ''corr-1'', gov_causation_id = None,
        gov_attribution_context = [(''origin_source'', VStr ''scheduler''),
          (''origin_authority'', VStr ''system''), (''attribution_timestamp'', VStr ''2026-01-05'')],
        gov_fingerprint_context = None, gov_idempotency_key = None, gov_compliance_hold_flag = False\<rparr>,
     dc_academic = \<lparr>ac_user_id = Some 7, ac_access_state = Some ''ACTIVE'', ac_hws_behind = Some 5,
        ac_avg_eff_rating = None, ac_last_activity_days = Some 2, ac_payment_balance = None,
        ac_sql_server_sync_timestamp = None\<rparr>,
     dc_operational = \<lparr>op_outreach_state = Some ''CONTACTED'', op_contact_attempt_count = 1,
        op_retry_eligible = True\<rparr>,
     dc_ai = \<lparr>ai_insight_state = None, ai_confidence_score = None, ai_stale_flag = False,
        ai_finalized_copy = False, ai_recommended_intervention = None\<rparr>,
     dc_historical = \<lparr>hc_historical_risk_trend = None, hc_prior_escalation_count = 0,
        hc_prior_snapshot_months = []\<rparr>\<rparr>"

lemma sample_context_ok:
  "dec_precondition_codes (dc_governance sample_context) = []"
  "gov_execution_type (dc_governance sample_context) \<notin> replay_types"
  "config_numeric (gov_config_rule_set (dc_governance sample_context))"
  by (simp_all add: sample_context_def precondition_codes_Nil dec_valid_modes_def
      dec_required_attribution_def replay_types_def config_numeric_def dec_threshold_keys_def)

text \<open>
  C2. The rule chain implements the decision table: whenever Rule 0 passes, the evaluation is
  original and every configured threshold is a number, missing or the sentinel, the engine
  returns (no exception), and the intent and the last rule on its path are those of the first
  row of the table whose guard holds, where the guards compare the student's numbers with the
  configured limits only and the risk level counts the strong and weak signals.
\<close>

theorem decision_refines_table:
  assumes "dec_precondition_codes (dc_governance ctx) = []"
    and "gov_execution_type (dc_governance ctx) \<notin> replay_types"
    and "config_numeric (gov_config_rule_set (dc_governance ctx))"
  shows "\<exists>r. fst (evaluate_orchestration_intent sha rs ctx) = Inr r
    \<and> first_rule (decision_table ctx)
      = Some (last (oi_rule_path_taken (dr_intent r)), oi_orchestration_intent (dr_intent r))"
proof -
  have "first_rule (decision_table ctx) \<noteq> None"
    by (simp add: decision_table_def Let_def)
  with evaluate_take [OF assms, of sha rs] show ?thesis
    by (auto simp: takes_def)
qed

theorem decision_refines_table_witness:
  "\<exists>r. fst (evaluate_orchestration_intent (\<lambda>s. s) sample_runtime sample_context) = Inr r
     \<and> oi_orchestration_intent (dr_intent r) = ''RETRY_OUTREACH''"
proof -
  have "first_rule (decision_table sample_context) = Some (''RULE_11'', ''RETRY_OUTREACH'')"
    by (simp add: decision_table_def sample_context_def Let_def limit_def signal_def abstract_risk_def
        strong_signals_def weak_signals_def assess_ai_tier_def)
  with decision_refines_table [OF sample_context_ok, of "\<lambda>s. s" sample_runtime] show ?thesis
    by auto
qed

text \<open>
  Live authority: an evaluation that returns is in scope AUTHORIZED exactly when it passed
  Rule 0, runs in LIVE mode and is neither a replay nor a regeneration; a replay or regeneration
  that passed Rule 0 always is SHADOW and REPLAY_ONLY with no eligible intent; the shadow entry
  point never is AUTHORIZED.
\<close>

theorem live_authority:
  assumes "fst (evaluate_orchestration_intent sha rs ctx) = Inr r"
    and "fst (evaluate_shadow_intent sha rs ctx) = Inr q"
  shows "(oi_governance_scope (dr_intent r) = ''AUTHORIZED'' \<longleftrightarrow>
      dec_precondition_codes (dc_governance ctx) = []
      \<and> gov_execution_mode (dc_governance ctx) = ''LIVE''
      \<and> gov_execution_type (dc_governance ctx) \<notin> replay_types)
    \<and> (dec_precondition_codes (dc_governance ctx) = []
        \<and> gov_execution_type (dc_governance ctx) \<in> replay_types \<longrightarrow>
        oi_execution_mode (dr_intent r) = ''SHADOW'' \<and> oi_governance_scope (dr_intent r) = ''REPLAY_ONLY''
        \<and> oi_orchestration_intent (dr_intent r) = ''NO_ELIGIBLE_INTENT'')
    \<and> oi_governance_scope (dr_intent q) \<noteq> ''AUTHORIZED''"
proof (intro conjI impI)
  show "oi_governance_scope (dr_intent r) = ''AUTHORIZED'' \<longleftrightarrow>
      dec_precondition_codes (dc_governance ctx) = []
      \<and> gov_execution_mode (dc_governance ctx) = ''LIVE''
      \<and> gov_execution_type (dc_governance ctx) \<notin> replay_types"
    by (rule authorized_iff [OF assms(1)])
next
  assume a: "dec_precondition_codes (dc_governance ctx) = []
        \<and> gov_execution_type (dc_governance ctx) \<in> replay_types"
  note replay = every_intentD [OF evaluate_replay [of ctx sha rs] assms(1)]
  show "oi_execution_mode (dr_intent r) = ''SHADOW''" using a replay by blast
  show "oi_governance_scope (dr_intent r) = ''REPLAY_ONLY''" using a replay by blast
  show "oi_orchestration_intent (dr_intent r) = ''NO_ELIGIBLE_INTENT''" using a replay by blast
next
  show "oi_governance_scope (dr_intent q) \<noteq> ''AUTHORIZED''"
    using assms(2) authorized_iff [of sha rs ctx q]
      authorized_iff [of sha rs "ctx\<lparr>dc_governance := (dc_governance ctx)\<lparr>gov_execution_mode := ''SHADOW''\<rparr>\<rparr>" q]
    by (auto simp: evaluate_shadow_intent_def split: if_splits)
qed

definition blocked_context :: decision_context where
  "blocked_context = sample_context\<lparr>dc_governance := (dc_governance sample_context)\<lparr>gov_correlation_id := None\<rparr>\<rparr>"

theorem live_authority_witness:
  "\<exists>r. fst (evaluate_orchestration_intent (\<lambda>s. s) sample_runtime sample_context) = Inr r
     \<and> oi_governance_scope (dr_intent r) = ''AUTHORIZED''"
proof -
  obtain r where r: "fst (evaluate_orchestration_intent (\<lambda>s. s) sample_runtime sample_context) = Inr r"
    using evaluate_take [OF sample_context_ok] by (auto simp: takes_def)
  let ?c = "sample_context\<lparr>dc_governance := (dc_governance sample_context)\<lparr>gov_execution_mode := ''SHADOW''\<rparr>\<rparr>"
  have "dec_precondition_codes (dc_governance ?c) = []" "gov_execution_type (dc_governance ?c) \<notin> replay_types"
    "config_numeric (gov_config_rule_set (dc_governance ?c))"
    using sample_context_ok by (simp_all add: precondition_codes_Nil dec_valid_modes_def)
  then obtain q where "fst (evaluate_orchestration_intent (\<lambda>s. s) sample_runtime ?c) = Inr q"
    using evaluate_take [of ?c] by (auto simp: takes_def)
  then have q: "fst (evaluate_shadow_intent (\<lambda>s. s) sample_runtime sample_context) = Inr q"
    by (simp add: evaluate_shadow_intent_def sample_context_def)
  have "gov_execution_mode (dc_governance sample_context) = ''LIVE''" by (simp add: sample_context_def)
  with live_authority [OF r q] sample_context_ok r show ?thesis by blast
qed

text \<open>
  C1. Contact safety, for every configuration (also one whose thresholds are of the wrong type):
  an intent to initiate or retry outreach is produced only for an original evaluation that
  passed Rule 0, of a case that is not closed, without a compliance hold, of a student whose
  access is neither revoked nor suspended; a retry only strictly below a configured attempt
  ceiling, after a first contact and within the retry window (so never without a configured
  ceiling); a first contact only with no attempt made and the ceiling not reached.
\<close>

theorem contact_safety:
  assumes "fst (evaluate_orchestration_intent sha rs ctx) = Inr r"
    and "oi_orchestration_intent (dr_intent r) \<in> {''RETRY_OUTREACH'', ''INITIATE_OUTREACH''}"
  shows "contact_gates ctx \<and> contact_ok ctx (dr_intent r)"
  using every_intentD [OF evaluate_contact assms(1)] assms(2) by blast

theorem contact_safety_witness:
  "\<exists>r. fst (evaluate_orchestration_intent (\<lambda>s. s) sample_runtime sample_context) = Inr r
     \<and> contact_gates sample_context \<and> contact_ok sample_context (dr_intent r)
     \<and> oi_orchestration_intent (dr_intent r) = ''RETRY_OUTREACH''"
proof -
  have "the (first_rule (decision_table sample_context)) = (''RULE_11'', ''RETRY_OUTREACH'')"
    by (simp add: decision_table_def sample_context_def Let_def limit_def signal_def abstract_risk_def
        strong_signals_def weak_signals_def assess_ai_tier_def)
  then obtain r where "fst (evaluate_orchestration_intent (\<lambda>s. s) sample_runtime sample_context) = Inr r"
    "oi_orchestration_intent (dr_intent r) = ''RETRY_OUTREACH''"
    using evaluate_take [OF sample_context_ok, of "\<lambda>s. s" sample_runtime] by (auto simp: takes_def)
  with contact_safety [of "\<lambda>s. s" sample_runtime sample_context r] show ?thesis by auto
qed

text \<open>
  No personal data in the output: two students with the same opaque identifier cannot be told
  apart by the result or by the log lines of the engine, so the user identifier influences
  neither except through its truncated hash.
\<close>

theorem user_id_opaque:
  assumes "dec_opaque_id sha u = dec_opaque_id sha v"
  shows "evaluate_orchestration_intent sha rs (with_user u ctx)
    = evaluate_orchestration_intent sha rs (with_user v ctx)"
  unfolding evaluate_orchestration_intent_def evaluate_replay_intent_def with_user_simps
    with_user_sid mk_intent_with_user risk_rules_with_user assms
  by (rule refl)

theorem user_id_opaque_witness:
  "evaluate_orchestration_intent (\<lambda>s. ''digest'') sample_runtime (with_user (Some 1) sample_context)
   = evaluate_orchestration_intent (\<lambda>s. ''digest'') sample_runtime (with_user (Some 2) sample_context)"
  by (rule user_id_opaque) (simp add: dec_opaque_id_def)

end
