(* ===== verification/Eligibility.thy ===== *)
theory Eligibility
  imports Prelude
begin

text \<open>
  The eligibility assessment, \<^verbatim>\<open>app/services/eligibility_types.py\<close> and
  \<^verbatim>\<open>app/services/eligibility.py\<close>. The function of the source is one body whose local
  variables (rule path, reason codes, constraints, replay restrictions, AI output, scope,
  priority) are updated by one rule after the other, most of which may return. Here each rule is
  a function on the record of these locals; \<open>Continue\<close> goes on to the next rule, \<open>Return\<close> is the
  early return and \<open>Raise\<close> the exception that escapes, both with the log lines emitted so far;
  \<open>followed_by\<close> sequences two rules (prelude). \<open>sha\<close> is SHA-256 in hexadecimal, \<open>rt_age_hours\<close>
  the age of an ISO-8601 timestamp in hours (or the exception its parsing raises).
\<close>

section \<open>Input\<close>

record el_governance =
  eg_config_version_id :: "string option"
  eg_config_version_status :: string
  eg_config_rule_set :: pydict
  eg_execution_mode :: string
  eg_execution_type :: string
  eg_correlation_id :: "string option"
  eg_causation_id :: "string option"
  eg_attribution_context :: pydict
  eg_fingerprint_context :: "pydict option"
  eg_idempotency_key :: "string option"
  eg_compliance_hold_flag :: bool
  eg_replay_context :: "pydict option"

record el_academic =
  ea_user_id :: "int option"
  ea_access_state :: "string option"
  ea_hws_behind :: "int option"
  ea_avg_eff_rating :: "pyfloat option"
  ea_last_activity_days :: "int option"
  ea_payment_balance :: "pyfloat option"
  ea_email :: "string option"
  ea_phone_number :: "string option"
  ea_sql_server_sync_timestamp :: "string option"
  ea_historical_risk_trend :: "string option"
  ea_prior_escalation_count :: int
  ea_access_last_changed :: "string option"

record el_operational =
  eo_outreach_state :: "string option"
  eo_contact_attempt_count :: int
  eo_retry_eligible :: bool
  eo_last_contact_timestamp :: "string option"

record el_ai =
  ei_ai_insight_state :: "string option"
  ei_ai_confidence_score :: "pyfloat option"
  ei_ai_stale_flag :: bool
  ei_ai_finalized_copy :: bool
  ei_ai_recommended_intervention :: "string option"
  ei_ai_generated_at :: "string option"

record eligibility_context =
  ex_governance :: el_governance
  ex_academic :: el_academic
  ex_operational :: el_operational
  ex_ai :: el_ai

section \<open>Output\<close>

record orchestration_constraints =
  oc_max_attempts_constraint :: pyval
  oc_exclusion_window_constraint_hours :: pyval
  oc_retry_window_constraint_hours :: pyval
  oc_execution_mode_constraint :: string
  oc_ai_prioritization_applied :: bool
  oc_live_outreach_permitted :: bool

record governance_requirements =
  gq_config_version_id :: "string option"
  gq_config_version_status :: string
  gq_execution_mode :: string
  gq_idempotency_key :: "string option"
  gq_governance_preconditions_met :: bool
  gq_blocking_governance_flags :: "string list"

record replay_restrictions =
  rr_is_replay :: bool
  rr_replay_eligible :: bool
  rr_live_eligible :: bool
  rr_source_artifact_id :: pyval
  rr_historical_config_version_id :: pyval
  rr_fingerprint_comparison_outcome :: "string option"
  rr_replay_safe :: bool

record el_ai_output =
  ax_ai_input_used :: bool
  ax_ai_governance_tier :: string
  ax_ai_confidence_score :: "pyfloat option"
  ax_stale_flag :: bool
  ax_fallback_applied :: bool
  ax_priority_adjustment_applied :: bool
  ax_ai_version_number :: "string option"

record threshold_bindings =
  tb_exclusion_window_hours :: pyval
  tb_min_hws_behind :: pyval
  tb_min_effort_rating :: pyval
  tb_max_inactivity_days :: pyval
  tb_max_outreach_attempts :: pyval
  tb_retry_window_hours :: pyval
  tb_payment_risk_balance_threshold :: pyval
  tb_ai_insight_ttl_hours :: pyval
  tb_escalation_repeat_threshold :: pyval
  tb_hws_behind_high_risk :: pyval
  tb_inactivity_high_risk_days :: pyval

record eligibility_assessment =
  as_orchestration_eligible :: bool
  as_eligibility_scope :: string
  as_orchestration_priority :: string
  as_orchestration_constraints :: orchestration_constraints
  as_governance_requirements :: governance_requirements
  as_replay_restrictions :: replay_restrictions
  as_ai_context :: el_ai_output
  as_threshold_bindings :: threshold_bindings
  as_attribution_metadata :: pydict
  as_correlation_id :: "string option"
  as_causation_id :: "string option"
  as_config_version_id :: "string option"
  as_historical_config_version_id :: pyval
  as_execution_mode :: string
  as_execution_type :: string
  as_attribution_status :: string
  as_degraded_evaluation :: bool
  as_threshold_resolution_status :: string
  as_live_outreach_permitted :: bool
  as_replay_safe :: bool
  as_rule_path_taken :: "string list"
  as_assessment_basis :: string
  as_reason_codes :: "string list"
  as_eligibility_blocked :: bool
  as_blocking_reason :: "string option"
  as_config_threshold_warnings :: "string list"
  as_student_id_opaque :: "string option"

abbreviation unknown_val :: pyval where
  "unknown_val \<equiv> VStr UNKNOWN_V0"

definition default_constraints :: orchestration_constraints where
  "default_constraints = \<lparr>oc_max_attempts_constraint = unknown_val,
     oc_exclusion_window_constraint_hours = unknown_val,
     oc_retry_window_constraint_hours = unknown_val, oc_execution_mode_constraint = ''SHADOW'',
     oc_ai_prioritization_applied = False, oc_live_outreach_permitted = False\<rparr>"

definition default_restrictions :: replay_restrictions where
  "default_restrictions = \<lparr>rr_is_replay = False, rr_replay_eligible = False,
     rr_live_eligible = False, rr_source_artifact_id = VNone,
     rr_historical_config_version_id = VNone, rr_fingerprint_comparison_outcome = None,
     rr_replay_safe = True\<rparr>"

definition default_el_ai :: el_ai_output where
  "default_el_ai = \<lparr>ax_ai_input_used = False, ax_ai_governance_tier = ''UNAVAILABLE'',
     ax_ai_confidence_score = None, ax_stale_flag = False, ax_fallback_applied = False,
     ax_priority_adjustment_applied = False, ax_ai_version_number = None\<rparr>"

definition default_bindings :: threshold_bindings where
  "default_bindings = \<lparr>tb_exclusion_window_hours = unknown_val, tb_min_hws_behind = unknown_val,
     tb_min_effort_rating = unknown_val, tb_max_inactivity_days = unknown_val,
     tb_max_outreach_attempts = unknown_val, tb_retry_window_hours = unknown_val,
     tb_payment_risk_balance_threshold = unknown_val, tb_ai_insight_ttl_hours = unknown_val,
     tb_escalation_repeat_threshold = unknown_val, tb_hws_behind_high_risk = unknown_val,
     tb_inactivity_high_risk_days = unknown_val\<rparr>"

section \<open>Locals and sequencing\<close>

record el_locals =
  lo_path :: "string list"
  lo_codes :: "string list"
  lo_constraints :: orchestration_constraints
  lo_replay_rest :: replay_restrictions
  lo_ai_out :: el_ai_output
  lo_ai_tier :: string
  lo_scope :: string
  lo_priority :: string
  lo_log :: "log_line list"

text \<open>What stays fixed after Rule 3: thresholds, bindings, warnings and the opaque identifier.\<close>

record el_fixed =
  fx_th :: pydict
  fx_tb :: threshold_bindings
  fx_warnings :: "string list"
  fx_sid :: "string option"

type_synonym el_outcome = "(eligibility_assessment, el_locals) outcome"

definition step_path :: "string \<Rightarrow> el_locals \<Rightarrow> el_locals" where
  "step_path r l = l\<lparr>lo_path := lo_path l @ [r]\<rparr>"

definition add_codes :: "string list \<Rightarrow> el_locals \<Rightarrow> el_locals" where
  "add_codes cs l = l\<lparr>lo_codes := lo_codes l @ cs\<rparr>"

section \<open>Helpers\<close>

definition el_key_map :: "(string \<times> string) list" where
  "el_key_map =
    [(''excl_window'', ''outreach_exclusion_window_hours''),
     (''min_hws'', ''hws_behind_minimum_threshold''),
     (''min_eff'', ''avg_eff_rating_minimum_threshold''),
     (''max_inact'', ''last_activity_max_days''),
     (''max_attempts'', ''outreach_max_attempts''),
     (''retry_window'', ''outreach_retry_window_hours''),
     (''payment_risk'', ''payment_balance_risk_threshold''),
     (''ai_ttl'', ''ai_insight_ttl_hours''),
     (''esc_repeat'', ''prior_escalation_repeat_threshold''),
     (''hws_high'', ''hws_behind_high_risk_threshold''),
     (''inact_high'', ''last_activity_high_risk_days''),
     (''sync_age'', ''sql_server_max_sync_age_hours'')]"

definition el_required_attribution :: "string list" where
  "el_required_attribution =
    [''origin_source'', ''origin_authority'', ''actor_identity'', ''attribution_timestamp'']"

definition el_replay_types :: "string set" where
  "el_replay_types = {''replay'', ''regeneration''}"

definition el_eligible_scopes :: "string set" where
  "el_eligible_scopes =
    {''OUTREACH'', ''RETRY'', ''ESCALATION_CANDIDATE'', ''REPLAY_CANDIDATE'', ''PRIORITIZATION_ONLY''}"

definition el_opaque_id :: "(string \<Rightarrow> string) \<Rightarrow> int option \<Rightarrow> string option" where
  "el_opaque_id sha uid = map_option (\<lambda>n. take 16 (sha (''ssip:eid:'' @ show_int n))) uid"

definition el_resolve_thresholds :: "pydict \<Rightarrow> (pydict \<times> string list) \<times> log_line list" where
  "el_resolve_thresholds rule_set =
    (let missing = filter (\<lambda>(alias, key). \<not> has_key rule_set key) el_key_map
     in ((map (\<lambda>(alias, key). (alias, if has_key rule_set key then dict_get rule_set key else unknown_val))
            el_key_map,
          map (\<lambda>(alias, key). ''CONFIG_THRESHOLD_MISSING_'' @ upper key) missing),
         map (\<lambda>(alias, key). LogText ''warning'' (''config_threshold_missing key='' @ key)) missing))"

definition el_t :: "pydict \<Rightarrow> string \<Rightarrow> pyval" where
  "el_t th alias = (if has_key th alias then known (dict_get th alias) else VNone)"

definition el_assess_ai_tier :: "el_ai \<Rightarrow> pydict \<Rightarrow> string \<times> el_ai_output" where
  "el_assess_ai_tier ai th =
    (let out = default_el_ai\<lparr>ax_ai_confidence_score := ei_ai_confidence_score ai,
                             ax_stale_flag := ei_ai_stale_flag ai\<rparr>;
         s = ei_ai_insight_state ai;
         unavailable = (''UNAVAILABLE'', out\<lparr>ax_ai_governance_tier := ''UNAVAILABLE'', ax_fallback_applied := True\<rparr>)
     in if ei_ai_finalized_copy ai then
          (''FINALIZED_COPY'', out\<lparr>ax_ai_governance_tier := ''FINALIZED_COPY''\<rparr>)
        else if s \<in> {Some ''AI_GENERATING'', Some ''AI_PENDING''} then
          (''IN_FLIGHT'', out\<lparr>ax_ai_governance_tier := ''IN_FLIGHT''\<rparr>)
        else if s \<in> {Some ''AI_GENERATION_FAILED'', None} then unavailable
        else if s = Some ''AI_REVIEWED'' then
          (if el_t th ''ai_ttl'' = VNone then unavailable
           else if ei_ai_stale_flag ai then (''STALE'', out\<lparr>ax_ai_governance_tier := ''STALE''\<rparr>)
           else
             let score = (case ei_ai_confidence_score ai of None \<Rightarrow> Fin 0 | Some f \<Rightarrow> f);
                 tier = (if fge score (Fin (3152519739159347 / 4503599627370496))
                         then ''CONFIDENT'' else ''ADVISORY'')
             in (tier, out\<lparr>ax_ai_governance_tier := tier, ax_ai_input_used := True\<rparr>))
        else unavailable)"

fun priority_upgrade :: "string \<Rightarrow> string" where
  "priority_upgrade p =
    (if p = ''LOW'' then ''MEDIUM'' else if p = ''MEDIUM'' then ''HIGH''
     else if p = ''HIGH'' then ''CRITICAL'' else p)"

definition el_log ::
  "runtime \<Rightarrow> string \<Rightarrow> string \<Rightarrow> eligibility_context \<Rightarrow> string \<Rightarrow> string \<Rightarrow> string \<Rightarrow> string list
   \<Rightarrow> string \<Rightarrow> string option \<Rightarrow> pydict \<Rightarrow> log_line" where
  "el_log rt level event ctx scope priority ai_tier path outcome sid extra =
    (let g = ex_governance ctx
     in LogJson level
      ([(''timestamp'', VStr (rt_now_iso rt)), (''level'', VStr level),
        (''service'', VStr ''eligibility_assessment''), (''event'', VStr event),
        (''correlation_id'', opt_val (eg_correlation_id g)),
        (''causation_id'', opt_val (eg_causation_id g)),
        (''student_id_opaque'', opt_val sid),
        (''execution_type'', VStr (eg_execution_type g)),
        (''execution_mode'', VStr (eg_execution_mode g)),
        (''config_version_id'', opt_val (eg_config_version_id g)),
        (''eligibility_scope'', VStr scope), (''orchestration_priority'', VStr priority),
        (''ai_governance_tier'', VStr ai_tier), (''rule_path_taken'', str_list path),
        (''duration_ms'', VFloat (rt_logged_ms rt)), (''outcome'', VStr outcome)] @ extra))"

text \<open>\<^verbatim>\<open>(gov.replay_context or {}).get(k)\<close>\<close>

definition replay_get :: "pydict option \<Rightarrow> string \<Rightarrow> pyval" where
  "replay_get rc k = (case rc of None \<Rightarrow> VNone | Some d \<Rightarrow> dict_get d k)"

section \<open>Rule 0 and the terminal factory\<close>

definition el_precondition_codes :: "el_governance \<Rightarrow> string list" where
  "el_precondition_codes g =
     code_if (\<not> given (eg_config_version_id g)) ''CONFIG_UNRESOLVED''
     @ code_if (eg_execution_mode g \<notin> {''SHADOW'', ''LIVE''}) ''EXECUTION_MODE_INVALID''
     @ code_if (\<not> given (eg_correlation_id g)) ''CORRELATION_ID_MISSING''
     @ code_if (\<exists>k \<in> set el_required_attribution. dict_get (eg_attribution_context g) k = VNone)
         ''ATTRIBUTION_INCOMPLETE''
     @ code_if (eg_execution_type g \<notin> {''original'', ''replay'', ''regeneration''}) ''EXECUTION_TYPE_INVALID''
     @ code_if (eg_execution_type g \<in> el_replay_types
           \<and> (eg_replay_context g = None \<or> eg_replay_context g = Some [])) ''REPLAY_CONTEXT_MISSING''"

definition el_blocked ::
  "runtime \<Rightarrow> eligibility_context \<Rightarrow> string option \<Rightarrow> string \<Rightarrow> string list \<Rightarrow> el_outcome" where
  "el_blocked rt ctx sid reason extra_codes =
    (let g = ex_governance ctx; path = [''RULE_0'', ''RULE_0_BLOCKED'']
     in Return
      \<lparr>as_orchestration_eligible = False, as_eligibility_scope = ''NONE'',
       as_orchestration_priority = ''UNKNOWN'', as_orchestration_constraints = default_constraints,
       as_governance_requirements = \<lparr>gq_config_version_id = eg_config_version_id g,
          gq_config_version_status = ''UNKNOWN'', gq_execution_mode = eg_execution_mode g,
          gq_idempotency_key = eg_idempotency_key g, gq_governance_preconditions_met = False,
          gq_blocking_governance_flags = []\<rparr>,
       as_replay_restrictions = default_restrictions, as_ai_context = default_el_ai,
       as_threshold_bindings = default_bindings,
       as_attribution_metadata = eg_attribution_context g,
       as_correlation_id = eg_correlation_id g, as_causation_id = eg_causation_id g,
       as_config_version_id = eg_config_version_id g, as_historical_config_version_id = VNone,
       as_execution_mode = eg_execution_mode g, as_execution_type = eg_execution_type g,
       as_attribution_status = ''COMPLETE'', as_degraded_evaluation = False,
       as_threshold_resolution_status = ''COMPLETE'', as_live_outreach_permitted = False,
       as_replay_safe = True, as_rule_path_taken = path, as_assessment_basis = ''RULE_BASED'',
       as_reason_codes = extra_codes, as_eligibility_blocked = True,
       as_blocking_reason = Some reason, as_config_threshold_warnings = [],
       as_student_id_opaque = sid\<rparr>
      [el_log rt ''error'' ''governance_precondition_failed'' ctx ''NONE'' ''UNKNOWN'' ''UNAVAILABLE''
         path ''blocked'' sid
         [(''blocking_reason'', VStr reason), (''reason_codes'', str_list extra_codes)]])"

definition met_requirements :: "el_governance \<Rightarrow> string list \<Rightarrow> governance_requirements" where
  "met_requirements g flags =
    \<lparr>gq_config_version_id = eg_config_version_id g, gq_config_version_status = eg_config_version_status g,
     gq_execution_mode = eg_execution_mode g, gq_idempotency_key = eg_idempotency_key g,
     gq_governance_preconditions_met = True, gq_blocking_governance_flags = flags\<rparr>"

definition el_emit ::
  "runtime \<Rightarrow> eligibility_context \<Rightarrow> el_fixed \<Rightarrow> string \<Rightarrow> string \<Rightarrow> string \<Rightarrow> el_ai_output
   \<Rightarrow> governance_requirements option \<Rightarrow> bool \<Rightarrow> string option \<Rightarrow> el_locals \<Rightarrow> el_outcome" where
  "el_emit rt ctx fx scope priority ai_tier ai_out gov_reqs blocked blocking_reason l =
    (let g = ex_governance ctx;
         is_replay = (eg_execution_type g \<in> el_replay_types);
         eligible = (scope \<in> el_eligible_scopes);
         live_ok = (eligible \<and> eg_execution_mode g = ''LIVE'' \<and> \<not> is_replay);
         constraints = (lo_constraints l)\<lparr>oc_live_outreach_permitted := live_ok,
            oc_execution_mode_constraint := eg_execution_mode g\<rparr>;
         degraded = (fx_warnings fx \<noteq> []);
         basis = (if ax_priority_adjustment_applied ai_out then ''AI_ASSISTED''
                  else if ax_fallback_applied ai_out then ''FALLBACK''
                  else if is_replay then ''HISTORICAL_REPLAY'' else ''RULE_BASED'');
         hist_cv = (if is_replay then replay_get (eg_replay_context g) ''historical_config_version_id''
                    else VNone);
         outcome = (if blocked then ''blocked''
                    else if ax_fallback_applied ai_out then ''fallback'' else ''success'');
         event = (if blocked then ''governance_precondition_failed''
                  else ''orchestration_eligibility_produced'')
     in Return
      \<lparr>as_orchestration_eligible = eligible, as_eligibility_scope = scope,
       as_orchestration_priority = priority, as_orchestration_constraints = constraints,
       as_governance_requirements = (case gov_reqs of None \<Rightarrow> met_requirements g [] | Some q \<Rightarrow> q),
       as_replay_restrictions = lo_replay_rest l, as_ai_context = ai_out,
       as_threshold_bindings = fx_tb fx, as_attribution_metadata = eg_attribution_context g,
       as_correlation_id = eg_correlation_id g, as_causation_id = eg_causation_id g,
       as_config_version_id = eg_config_version_id g, as_historical_config_version_id = hist_cv,
       as_execution_mode = eg_execution_mode g, as_execution_type = eg_execution_type g,
       as_attribution_status = ''COMPLETE'', as_degraded_evaluation = degraded,
       as_threshold_resolution_status = (if degraded then ''PARTIAL'' else ''COMPLETE''),
       as_live_outreach_permitted = live_ok, as_replay_safe = rr_replay_safe (lo_replay_rest l),
       as_rule_path_taken = lo_path l, as_assessment_basis = basis,
       as_reason_codes = lo_codes l, as_eligibility_blocked = blocked,
       as_blocking_reason = blocking_reason, as_config_threshold_warnings = fx_warnings fx,
       as_student_id_opaque = fx_sid fx\<rparr>
      (lo_log l @ [el_log rt (if blocked then ''error'' else ''info'') event ctx scope priority ai_tier
         (lo_path l) outcome (fx_sid fx) []]))"

text \<open>An early return of the current locals.\<close>

definition el_stop ::
  "runtime \<Rightarrow> eligibility_context \<Rightarrow> el_fixed \<Rightarrow> string \<Rightarrow> string \<Rightarrow> el_locals \<Rightarrow> el_outcome" where
  "el_stop rt ctx fx scope priority l =
     el_emit rt ctx fx scope priority (lo_ai_tier l) (lo_ai_out l) None False None l"

section \<open>The rules\<close>

definition el_bindings :: "pydict \<Rightarrow> threshold_bindings" where
  "el_bindings th = \<lparr>tb_exclusion_window_hours = dict_get th ''excl_window'',
     tb_min_hws_behind = dict_get th ''min_hws'', tb_min_effort_rating = dict_get th ''min_eff'',
     tb_max_inactivity_days = dict_get th ''max_inact'',
     tb_max_outreach_attempts = dict_get th ''max_attempts'',
     tb_retry_window_hours = dict_get th ''retry_window'',
     tb_payment_risk_balance_threshold = dict_get th ''payment_risk'',
     tb_ai_insight_ttl_hours = dict_get th ''ai_ttl'',
     tb_escalation_repeat_threshold = dict_get th ''esc_repeat'',
     tb_hws_behind_high_risk = dict_get th ''hws_high'',
     tb_inactivity_high_risk_days = dict_get th ''inact_high''\<rparr>"

definition el_rule_3 :: "(string \<Rightarrow> string) \<Rightarrow> eligibility_context \<Rightarrow> el_fixed \<times> el_locals" where
  "el_rule_3 sha ctx =
    (let ((th, warnings), logs) = el_resolve_thresholds (eg_config_rule_set (ex_governance ctx))
     in (\<lparr>fx_th = th, fx_tb = el_bindings th, fx_warnings = warnings,
          fx_sid = el_opaque_id sha (ea_user_id (ex_academic ctx))\<rparr>,
         \<lparr>lo_path = [''RULE_0'', ''RULE_3''], lo_codes = warnings,
          lo_constraints = default_constraints\<lparr>oc_max_attempts_constraint := dict_get th ''max_attempts'',
            oc_exclusion_window_constraint_hours := dict_get th ''excl_window'',
            oc_retry_window_constraint_hours := dict_get th ''retry_window''\<rparr>,
          lo_replay_rest = default_restrictions, lo_ai_out = default_el_ai,
          lo_ai_tier = ''UNAVAILABLE'', lo_scope = ''NONE'', lo_priority = ''UNKNOWN'',
          lo_log = logs\<rparr>))"

definition el_rule_1 ::
  "runtime \<Rightarrow> eligibility_context \<Rightarrow> el_fixed \<Rightarrow> el_locals \<Rightarrow> el_outcome" where
  "el_rule_1 rt ctx fx l0 =
    (let l = step_path ''RULE_1'' l0
     in if eo_outreach_state (ex_operational ctx) = Some ''CLOSED''
        then el_stop rt ctx fx ''NONE'' ''UNKNOWN'' (add_codes [''OUTREACH_CLOSED_TERMINAL''] l)
        else Continue l)"

definition el_rule_2 ::
  "runtime \<Rightarrow> eligibility_context \<Rightarrow> el_fixed \<Rightarrow> el_locals \<Rightarrow> el_outcome" where
  "el_rule_2 rt ctx fx l0 =
    (let l = step_path ''RULE_2'' l0; g = ex_governance ctx
     in if eg_compliance_hold_flag g then
          let l1 = add_codes [''COMPLIANCE_HOLD_ACTIVE''] l;
              l2 = l1\<lparr>lo_constraints := (lo_constraints l1)\<lparr>oc_live_outreach_permitted := False\<rparr>\<rparr>
          in el_emit rt ctx fx ''ESCALATION_CANDIDATE'' ''CRITICAL'' (lo_ai_tier l2) (lo_ai_out l2)
               (Some (met_requirements g [''COMPLIANCE_HOLD_ACTIVE''])) False None l2
        else Continue l)"

definition el_rule_4 ::
  "runtime \<Rightarrow> eligibility_context \<Rightarrow> el_fixed \<Rightarrow> el_locals \<Rightarrow> el_outcome" where
  "el_rule_4 rt ctx fx l0 =
    (let l = step_path ''RULE_4'' l0; access = ea_access_state (ex_academic ctx)
     in if access = Some ''REVOKED'' then
          el_stop rt ctx fx ''ESCALATION_CANDIDATE'' ''HIGH''
            (add_codes [''ACCESS_REVOKED_SQL_SERVER_AUTHORITATIVE''] l)
        else if access = Some ''SUSPENDED'' then
          el_stop rt ctx fx ''NONE'' ''UNKNOWN'' (add_codes [''ACCESS_SUSPENDED_AWAIT_RESTORATION''] l)
        else Continue l)"

definition el_rule_5 ::
  "runtime \<Rightarrow> eligibility_context \<Rightarrow> el_fixed \<Rightarrow> el_locals \<Rightarrow> el_outcome" where
  "el_rule_5 rt ctx fx l0 =
    (let (tier, out) = el_assess_ai_tier (ex_ai ctx) (fx_th fx);
         l = (step_path ''RULE_5'' l0)\<lparr>lo_ai_tier := tier, lo_ai_out := out\<rparr>;
         l1 = add_codes (code_if (ax_fallback_applied out) ''AI_UNAVAILABLE_FALLBACK_APPLIED'') l
     in if tier = ''IN_FLIGHT'' then
          if eg_execution_type (ex_governance ctx) = ''original'' then
            el_stop rt ctx fx ''PRIORITIZATION_ONLY'' ''UNKNOWN''
              (add_codes [''AI_INSIGHT_IN_FLIGHT_DEFER_PENDING''] (step_path ''RULE_5A'' l1))
          else Continue (l1\<lparr>lo_ai_tier := ''STALE'', lo_ai_out := out\<lparr>ax_ai_governance_tier := ''STALE''\<rparr>\<rparr>)
        else Continue l1)"

definition el_rule_6 ::
  "runtime \<Rightarrow> eligibility_context \<Rightarrow> el_fixed \<Rightarrow> el_locals \<Rightarrow> el_outcome" where
  "el_rule_6 rt ctx fx l0 =
    (let l = step_path ''RULE_6'' l0; a = ex_academic ctx
     in if \<not> given (ea_email a) \<and> \<not> given (ea_phone_number a) then
          el_stop rt ctx fx ''NONE'' ''UNKNOWN'' (add_codes [''NO_CONTACT_INFO''] l)
        else Continue l)"

text \<open>
  The exclusion window: \<^verbatim>\<open>ValueError\<close> and \<^verbatim>\<open>TypeError\<close> of the parsing, the
  subtraction and the comparison are caught.
\<close>

definition el_rule_7 ::
  "runtime \<Rightarrow> eligibility_context \<Rightarrow> el_fixed \<Rightarrow> el_locals \<Rightarrow> el_outcome" where
  "el_rule_7 rt ctx fx l0 =
    (let l = step_path ''RULE_7'' l0; excl = el_t (fx_th fx) ''excl_window'';
         ts = eo_last_contact_timestamp (ex_operational ctx)
     in if excl \<noteq> VNone \<and> given ts then
          (case bind_res (rt_age_hours rt (the ts)) (\<lambda>elapsed_h. lt_val elapsed_h excl) of
             Inr inside \<Rightarrow>
               if inside then
                 let l1 = add_codes [''EXCLUSION_WINDOW_ACTIVE''] l
                 in el_stop rt ctx fx ''NONE'' ''UNKNOWN'' (l1\<lparr>lo_constraints :=
                      (lo_constraints l1)\<lparr>oc_exclusion_window_constraint_hours := excl\<rparr>\<rparr>)
               else Continue l
           | Inl e \<Rightarrow>
               if e \<in> {ValueError, TypeError}
               then Continue (add_codes [''EXCLUSION_WINDOW_TIMESTAMP_PARSE_ERROR''] l)
               else Raise e (lo_log l))
        else Continue l)"

definition el_fingerprint_outcome :: "pydict option \<Rightarrow> string" where
  "el_fingerprint_outcome fp =
    (if \<forall>k \<in> set [''schema_version'', ''config_registry_version'', ''ai_prompt_version'',
          ''ai_model_version'']. known (replay_get fp k) \<noteq> VNone
     then ''MATCH'' else ''UNKNOWN'')"

definition el_rule_10 ::
  "runtime \<Rightarrow> eligibility_context \<Rightarrow> el_fixed \<Rightarrow> el_locals \<Rightarrow> el_outcome" where
  "el_rule_10 rt ctx fx l0 =
    (let g = ex_governance ctx; rc = eg_replay_context g; fp = eg_fingerprint_context g
     in if eg_execution_type g \<in> el_replay_types then
          let l = step_path ''RULE_10'' l0;
              block = code_if (eg_execution_mode g = ''LIVE'') ''REPLAY_LIVE_MODE_BLOCKED''
                @ code_if (\<not> truthy (replay_get rc ''source_artifact_id'')) ''REPLAY_SOURCE_ARTIFACT_MISSING''
                @ code_if (fp = None \<or> fp = Some []) ''REPLAY_FINGERPRINT_MISSING''
          in if block \<noteq> [] then
               let l1 = add_codes block l;
                   l2 = l1\<lparr>lo_replay_rest := (lo_replay_rest l1)\<lparr>rr_replay_eligible := False,
                          rr_live_eligible := False, rr_replay_safe := False\<rparr>\<rparr>
               in el_emit rt ctx fx ''NONE'' ''UNKNOWN'' (lo_ai_tier l2) (lo_ai_out l2) None True
                    (Some ''REPLAY_PRECONDITION_VIOLATED'') l2
             else
               let l1 = add_codes [''REPLAY_CANDIDATE''] l
               in Continue (l1\<lparr>lo_replay_rest := \<lparr>rr_is_replay = True, rr_replay_eligible = True,
                      rr_live_eligible = False,
                      rr_source_artifact_id = replay_get rc ''source_artifact_id'',
                      rr_historical_config_version_id = replay_get rc ''historical_config_version_id'',
                      rr_fingerprint_comparison_outcome = Some (el_fingerprint_outcome fp),
                      rr_replay_safe = True\<rparr>,
                    lo_scope := ''REPLAY_CANDIDATE'', lo_ai_tier := ''FINALIZED_COPY'',
                    lo_ai_out := (lo_ai_out l1)\<lparr>ax_ai_governance_tier := ''FINALIZED_COPY''\<rparr>\<rparr>)
        else Continue l0)"

definition el_rule_8 ::
  "runtime \<Rightarrow> eligibility_context \<Rightarrow> el_fixed \<Rightarrow> el_locals \<Rightarrow> el_outcome" where
  "el_rule_8 rt ctx fx l0 =
    (let l = step_path ''RULE_8'' l0; max_att = el_t (fx_th fx) ''max_attempts'';
         op = ex_operational ctx; attempts = eo_contact_attempt_count op
     in lift_res (if max_att \<noteq> VNone then ge_val (of_nat_num attempts) max_att else Inr False) (lo_log l) (\<lambda>exhausted.
          if exhausted then
            let l1 = add_codes [''MAX_ATTEMPTS_EXHAUSTED''] l
            in el_stop rt ctx fx ''NONE'' ''MEDIUM'' (l1\<lparr>lo_constraints :=
                 (lo_constraints l1)\<lparr>oc_max_attempts_constraint := max_att\<rparr>\<rparr>)
          else if lo_scope l = ''REPLAY_CANDIDATE'' then Continue l
          else if attempts > 0 \<and> eo_retry_eligible op then
            Continue (add_codes [''RETRY_CANDIDATE''] ((step_path ''RULE_8B'' l)\<lparr>lo_scope := ''RETRY''\<rparr>))
          else if attempts = 0 \<and> eo_outreach_state op \<in> {Some ''ELIGIBLE'', Some ''QUEUED'', None} then
            Continue (add_codes [''FIRST_OUTREACH_CANDIDATE''] ((step_path ''RULE_8C'' l)\<lparr>lo_scope := ''OUTREACH''\<rparr>))
          else
            let l1 = add_codes [''OUTREACH_STATE_AMBIGUOUS''] (step_path ''RULE_8D'' l)
            in el_stop rt ctx fx ''NONE'' ''UNKNOWN'' (l1\<lparr>lo_log := lo_log l1
                 @ [LogText ''warning'' (''outreach_state_ambiguous corr='' @
                      (case eg_correlation_id (ex_governance ctx) of None \<Rightarrow> ''None'' | Some c \<Rightarrow> c))]\<rparr>)))"

text \<open>The risk factors of Rule 9: counts of high and medium factors, missing data, codes.\<close>

record risk_acc =
  ra_high :: nat
  ra_med :: nat
  ra_partial :: bool
  ra_codes :: "string list"

definition ra_add_high :: "string \<Rightarrow> risk_acc \<Rightarrow> risk_acc" where
  "ra_add_high c r = r\<lparr>ra_high := ra_high r + 1, ra_codes := ra_codes r @ [c]\<rparr>"

definition ra_add_med :: "string \<Rightarrow> risk_acc \<Rightarrow> risk_acc" where
  "ra_add_med c r = r\<lparr>ra_med := ra_med r + 1, ra_codes := ra_codes r @ [c]\<rparr>"

definition ra_check ::
  "pyfloat option \<Rightarrow> pyval \<Rightarrow> pyval \<Rightarrow> string \<Rightarrow> string \<Rightarrow> risk_acc \<Rightarrow> risk_acc res" where
  "ra_check val high_thr med_thr high_label med_label r =
    (case val of
       None \<Rightarrow> Inr (r\<lparr>ra_partial := True\<rparr>)
     | Some v \<Rightarrow>
       bind_res (if high_thr \<noteq> VNone then ge_val v high_thr else Inr False) (\<lambda>h.
       if h then Inr (ra_add_high high_label r)
       else bind_res (if med_thr \<noteq> VNone then ge_val v med_thr else Inr False) (\<lambda>m.
         Inr (if m then ra_add_med med_label r else r))))"

definition el_risk_factors :: "el_academic \<Rightarrow> pydict \<Rightarrow> risk_acc res" where
  "el_risk_factors a th =
     bind_res (ra_check (map_option of_nat_num (ea_hws_behind a)) (el_t th ''hws_high'') (el_t th ''min_hws'')
        ''HWS_DELINQUENCY_HIGH_RISK'' ''HWS_DELINQUENCY_MODERATE''
        \<lparr>ra_high = 0, ra_med = 0, ra_partial = False, ra_codes = []\<rparr>) (\<lambda>r1.
     bind_res (opt_cmp flt (ea_avg_eff_rating a) (el_t th ''min_eff'')) (\<lambda>eff.
     let r2 = (if ea_avg_eff_rating a = None then r1\<lparr>ra_partial := True\<rparr>
               else if eff then ra_add_med ''EFFORT_DECLINE'' r1 else r1)
     in bind_res (ra_check (map_option of_nat_num (ea_last_activity_days a)) (el_t th ''inact_high'')
        (el_t th ''max_inact'') ''INACTIVITY_HIGH_RISK'' ''INACTIVITY_MODERATE'' r2) (\<lambda>r3.
     bind_res (opt_cmp fgt (ea_payment_balance a) (el_t th ''payment_risk'')) (\<lambda>pay.
     let r4 = (if pay then ra_add_med ''PAYMENT_RISK'' r3 else r3)
     in bind_res (opt_cmp fge (Some (of_nat_num (ea_prior_escalation_count a))) (el_t th ''esc_repeat'')) (\<lambda>esc.
     let r5 = (if esc then ra_add_high ''ESCALATION_RECURRENCE'' r4 else r4);
         trend = ea_historical_risk_trend a;
         r6 = (if trend = Some ''CRITICAL'' then ra_add_high ''HISTORICAL_TREND_CRITICAL'' r5
               else if trend = Some ''DECLINING'' then ra_add_med ''HISTORICAL_TREND_DECLINING'' r5
               else r5)
     in Inr (r6\<lparr>ra_codes := ra_codes r6 @ code_if (ra_partial r6) ''PARTIAL_RISK_ASSESSMENT''\<rparr>))))))"

definition el_risk_priority :: "risk_acc \<Rightarrow> string" where
  "el_risk_priority r =
    (if ra_high r \<ge> 2 then ''CRITICAL''
     else if ra_high r = 1 \<and> ra_med r \<ge> 1 then ''HIGH''
     else if ra_high r \<ge> 1 \<or> ra_med r \<ge> 1 then ''MEDIUM''
     else ''LOW'')"

definition el_rule_9 ::
  "eligibility_context \<Rightarrow> el_fixed \<Rightarrow> el_locals \<Rightarrow> el_outcome" where
  "el_rule_9 ctx fx l0 =
    (let l = step_path ''RULE_9'' l0
     in lift_res (el_risk_factors (ex_academic ctx) (fx_th fx)) (lo_log l) (\<lambda>r.
          Continue ((add_codes (ra_codes r) l)\<lparr>lo_priority := el_risk_priority r\<rparr>)))"

definition ai_adjusted :: "string \<Rightarrow> string \<Rightarrow> el_locals \<Rightarrow> el_locals" where
  "ai_adjusted priority code l =
     (add_codes [code] l)\<lparr>lo_priority := priority,
        lo_ai_out := (lo_ai_out l)\<lparr>ax_priority_adjustment_applied := True\<rparr>,
        lo_constraints := (lo_constraints l)\<lparr>oc_ai_prioritization_applied := True\<rparr>\<rparr>"

definition el_rule_11 ::
  "eligibility_context \<Rightarrow> el_locals \<Rightarrow> el_outcome" where
  "el_rule_11 ctx l0 =
    (let l = step_path ''RULE_11'' l0; tier = lo_ai_tier l;
         intv = ei_ai_recommended_intervention (ex_ai ctx)
     in Continue
      (if tier = ''CONFIDENT'' \<and> intv = Some ''ESCALATE'' then
         ai_adjusted ''CRITICAL'' ''AI_ESCALATION_SIGNAL_CONFIDENT'' l
       else if tier = ''CONFIDENT''
          \<and> intv \<in> {Some ''MEETING'', Some ''OUTREACH'', Some ''RESOURCE_DELIVERY''} then
         ai_adjusted (priority_upgrade (lo_priority l)) ''AI_INTERVENTION_SIGNAL_CONFIDENT'' l
       else if tier = ''ADVISORY'' \<and> intv = Some ''ESCALATE'' then
         ai_adjusted (priority_upgrade (lo_priority l)) ''AI_ESCALATION_SIGNAL_ADVISORY'' l
       else if tier = ''STALE'' then
         add_codes (''STALE_AI_PRIORITIZATION_SKIPPED''
           # code_if (eg_execution_mode (ex_governance ctx) = ''LIVE'') ''STALE_AI_LIVE_MODE_RESTRICTED'') l
       else if tier = ''UNAVAILABLE'' then
         (add_codes [''AI_UNAVAILABLE_FALLBACK_APPLIED''] l)\<lparr>lo_ai_out :=
            (lo_ai_out l)\<lparr>ax_fallback_applied := True\<rparr>\<rparr>
       else if tier = ''FINALIZED_COPY'' then add_codes [''AI_FINALIZED_COPY_NOT_APPLIED''] l
       else l))"

definition el_rule_12 ::
  "runtime \<Rightarrow> eligibility_context \<Rightarrow> el_fixed \<Rightarrow> el_locals \<Rightarrow> el_outcome" where
  "el_rule_12 rt ctx fx l0 =
    (let l = step_path ''RULE_12'' l0 in el_stop rt ctx fx (lo_scope l) (lo_priority l) l)"

definition el_rules ::
  "runtime \<Rightarrow> eligibility_context \<Rightarrow> el_fixed \<Rightarrow> el_locals \<Rightarrow> el_outcome" where
  "el_rules rt ctx fx l =
     followed_by (followed_by (followed_by (followed_by (followed_by (followed_by (followed_by
     (followed_by (followed_by (followed_by (el_rule_1 rt ctx fx l)
       (el_rule_2 rt ctx fx)) (el_rule_4 rt ctx fx)) (el_rule_5 rt ctx fx)) (el_rule_6 rt ctx fx))
       (el_rule_7 rt ctx fx)) (el_rule_10 rt ctx fx)) (el_rule_8 rt ctx fx)) (el_rule_9 ctx fx))
       (el_rule_11 ctx)) (el_rule_12 rt ctx fx)"

definition assess_orchestration_eligibility ::
  "(string \<Rightarrow> string) \<Rightarrow> runtime \<Rightarrow> eligibility_context \<Rightarrow> el_outcome" where
  "assess_orchestration_eligibility sha rt ctx =
    (let r0 = el_precondition_codes (ex_governance ctx)
     in if r0 \<noteq> [] then
          el_blocked rt ctx (el_opaque_id sha (ea_user_id (ex_academic ctx)))
            ''GOVERNANCE_PRECONDITION_FAILED'' r0
        else let (fx, l) = el_rule_3 sha ctx in el_rules rt ctx fx l)"

section \<open>The batch-preview check\<close>

text \<open>
  \<^verbatim>\<open>str\<close> of a truthy \<^verbatim>\<open>ActiveStatus\<close> that is no string is the parameter
  \<open>str_of\<close>; of a string it is the string.
\<close>

definition check_eligibility :: "(pyval \<Rightarrow> string) \<Rightarrow> pydict \<Rightarrow> bool \<times> string option" where
  "check_eligibility str_of student =
    (if \<not> truthy (dict_get student ''UserID'') then (False, Some ''NO_USER_ID'')
     else if \<not> truthy (dict_get student ''PathName'') then (False, Some ''NO_PATH_NAME'')
     else
       let v = dict_get student ''ActiveStatus'';
           active = lower (if \<not> truthy v then [] else case v of VStr s \<Rightarrow> s | _ \<Rightarrow> str_of v)
       in if active \<in> {''inactive'', ''withdrawn'', ''dropped'', ''0''}
          then (False, Some ''INACTIVE_STATUS'') else (True, None))"

end
