(* ===== verification/EligibilityProps.thy ===== *)
theory EligibilityProps
  imports Eligibility
begin

text \<open>
  Properties of the eligibility assessment. Each rule is characterised by two lemmas, what it
  returns and when it continues; \<open>followed_by\<close> composes them. From them: the gates an OUTREACH
  or RETRY scope has passed, when live outreach is permitted (also under a compliance hold,
  although Rule 2 withdraws the permission), no live result in a replay, and that no exception
  escapes when the thresholds are numbers or missing.
\<close>

lemma locals_simps [simp]:
  "lo_scope (step_path r l) = lo_scope l" "lo_scope (add_codes c l) = lo_scope l"
  "lo_ai_out (step_path r l) = lo_ai_out l" "lo_ai_out (add_codes c l) = lo_ai_out l"
  "lo_ai_tier (step_path r l) = lo_ai_tier l" "lo_ai_tier (add_codes c l) = lo_ai_tier l"
  "lo_replay_rest (step_path r l) = lo_replay_rest l" "lo_replay_rest (add_codes c l) = lo_replay_rest l"
  "lo_priority (step_path r l) = lo_priority l" "lo_priority (add_codes c l) = lo_priority l"
  "lo_log (step_path r l) = lo_log l" "lo_log (add_codes c l) = lo_log l"
  "lo_constraints (step_path r l) = lo_constraints l" "lo_constraints (add_codes c l) = lo_constraints l"
  "lo_path (step_path r l) = lo_path l @ [r]" "lo_path (add_codes c l) = lo_path l"
  "lo_codes (step_path r l) = lo_codes l" "lo_codes (add_codes c l) = lo_codes l @ c"
  by (simp_all add: step_path_def add_codes_def)

section \<open>The terminal factory\<close>

definition live_ok :: "el_governance \<Rightarrow> string \<Rightarrow> bool" where
  "live_ok g scope \<longleftrightarrow> scope \<in> el_eligible_scopes \<and> eg_execution_mode g = ''LIVE''
     \<and> eg_execution_type g \<notin> el_replay_types"

text \<open>What every assessment of Rules 1 to 12 says of its context.\<close>

definition emitted_for :: "eligibility_context \<Rightarrow> el_fixed \<Rightarrow> eligibility_assessment \<Rightarrow> bool" where
  "emitted_for ctx fx a \<longleftrightarrow>
     as_live_outreach_permitted a = live_ok (ex_governance ctx) (as_eligibility_scope a)
     \<and> oc_live_outreach_permitted (as_orchestration_constraints a) = as_live_outreach_permitted a
     \<and> as_orchestration_eligible a = (as_eligibility_scope a \<in> el_eligible_scopes)
     \<and> as_attribution_metadata a = eg_attribution_context (ex_governance ctx)
     \<and> as_correlation_id a = eg_correlation_id (ex_governance ctx)
     \<and> as_config_version_id a = eg_config_version_id (ex_governance ctx)
     \<and> as_config_threshold_warnings a = fx_warnings fx
     \<and> as_degraded_evaluation a = (fx_warnings fx \<noteq> [])"

lemma el_emit_Return:
  "el_emit rt ctx fx scope pri tier out gq b br l = Return a lg \<Longrightarrow>
     as_eligibility_scope a = scope \<and> as_orchestration_priority a = pri \<and> emitted_for ctx fx a
     \<and> as_eligibility_blocked a = b \<and> as_reason_codes a = lo_codes l"
  by (auto simp: el_emit_def Let_def emitted_for_def live_ok_def)

lemma el_emit_not [simp]:
  "el_emit rt ctx fx scope pri tier out gq b br l \<noteq> Continue l'"
  "el_emit rt ctx fx scope pri tier out gq b br l \<noteq> Raise e lg"
  "Continue l' \<noteq> el_emit rt ctx fx scope pri tier out gq b br l"
  by (simp_all add: el_emit_def Let_def)

lemma el_stop_Return:
  "el_stop rt ctx fx scope pri l = Return a lg \<Longrightarrow>
     as_eligibility_scope a = scope \<and> as_orchestration_priority a = pri \<and> emitted_for ctx fx a
     \<and> \<not> as_eligibility_blocked a \<and> as_reason_codes a = lo_codes l"
  using el_emit_Return by (fastforce simp: el_stop_def)

lemma el_stop_not [simp]:
  "el_stop rt ctx fx scope pri l \<noteq> Continue l'" "el_stop rt ctx fx scope pri l \<noteq> Raise e lg"
  by (simp_all add: el_stop_def)

section \<open>When a rule continues\<close>

lemma rule_1_Continue:
  "el_rule_1 rt ctx fx l = Continue l' \<longleftrightarrow>
     eo_outreach_state (ex_operational ctx) \<noteq> Some ''CLOSED'' \<and> l' = step_path ''RULE_1'' l"
  by (auto simp: el_rule_1_def Let_def)

lemma rule_2_Continue:
  "el_rule_2 rt ctx fx l = Continue l' \<longleftrightarrow>
     \<not> eg_compliance_hold_flag (ex_governance ctx) \<and> l' = step_path ''RULE_2'' l"
  by (auto simp: el_rule_2_def Let_def)

lemma rule_4_Continue:
  "el_rule_4 rt ctx fx l = Continue l' \<longleftrightarrow>
     ea_access_state (ex_academic ctx) \<notin> {Some ''REVOKED'', Some ''SUSPENDED''}
     \<and> l' = step_path ''RULE_4'' l"
  by (auto simp: el_rule_4_def Let_def)

lemma rule_5_Continue:
  assumes "el_rule_5 rt ctx fx l = Continue l'"
  shows "lo_scope l' = lo_scope l \<and> lo_priority l' = lo_priority l"
    and "eg_execution_type (ex_governance ctx) = ''original'' \<Longrightarrow> lo_ai_tier l' \<noteq> ''IN_FLIGHT''"
    and "lo_ai_out l' = (if fst (el_assess_ai_tier (ex_ai ctx) (fx_th fx)) = ''IN_FLIGHT''
        then (snd (el_assess_ai_tier (ex_ai ctx) (fx_th fx)))\<lparr>ax_ai_governance_tier := ''STALE''\<rparr>
        else snd (el_assess_ai_tier (ex_ai ctx) (fx_th fx)))"
  using assms by (auto simp: el_rule_5_def Let_def case_prod_unfold split: if_splits)

lemma rule_6_Continue:
  "el_rule_6 rt ctx fx l = Continue l' \<longleftrightarrow>
     (given (ea_email (ex_academic ctx)) \<or> given (ea_phone_number (ex_academic ctx)))
     \<and> l' = step_path ''RULE_6'' l"
  by (auto simp: el_rule_6_def Let_def)

definition window_open :: "runtime \<Rightarrow> eligibility_context \<Rightarrow> el_fixed \<Rightarrow> bool" where
  "window_open rt ctx fx \<longleftrightarrow>
     (let excl = el_t (fx_th fx) ''excl_window''; ts = eo_last_contact_timestamp (ex_operational ctx)
      in given ts \<longrightarrow> (\<forall>h limit. rt_age_hours rt (the ts) = Inr h \<and> num_of excl = Some limit \<longrightarrow> \<not> flt h limit))"

lemma rule_7_Continue:
  assumes "el_rule_7 rt ctx fx l = Continue l'"
  shows "window_open rt ctx fx" and "lo_scope l' = lo_scope l" and "lo_ai_tier l' = lo_ai_tier l"
    and "lo_priority l' = lo_priority l"
  using assms
  by (auto simp: el_rule_7_def window_open_def Let_def split: if_splits sum.splits)

lemma rule_10_Continue:
  assumes "el_rule_10 rt ctx fx l = Continue l'"
  shows "lo_scope l' = (if eg_execution_type (ex_governance ctx) \<in> el_replay_types
      then ''REPLAY_CANDIDATE'' else lo_scope l)"
    and "eg_execution_type (ex_governance ctx) \<in> el_replay_types \<Longrightarrow> eg_execution_mode (ex_governance ctx) \<noteq> ''LIVE''"
  using assms by (auto simp: el_rule_10_def Let_def split: if_splits)

definition attempts_left :: "eligibility_context \<Rightarrow> el_fixed \<Rightarrow> bool" where
  "attempts_left ctx fx \<longleftrightarrow>
     (\<forall>limit. num_of (el_t (fx_th fx) ''max_attempts'') = Some limit \<longrightarrow>
        \<not> fge (of_nat_num (eo_contact_attempt_count (ex_operational ctx))) limit)"

lemma rule_8_Continue:
  assumes "el_rule_8 rt ctx fx l = Continue l'"
  shows "attempts_left ctx fx"
    and "lo_scope l = ''REPLAY_CANDIDATE'' \<and> lo_scope l' = ''REPLAY_CANDIDATE''
      \<or> lo_scope l \<noteq> ''REPLAY_CANDIDATE'' \<and> lo_scope l' = ''RETRY''
         \<and> eo_contact_attempt_count (ex_operational ctx) > 0 \<and> eo_retry_eligible (ex_operational ctx)
      \<or> lo_scope l \<noteq> ''REPLAY_CANDIDATE'' \<and> lo_scope l' = ''OUTREACH''
         \<and> eo_contact_attempt_count (ex_operational ctx) = 0
         \<and> eo_outreach_state (ex_operational ctx) \<in> {Some ''ELIGIBLE'', Some ''QUEUED'', None}"
  using assms
  by (auto simp: el_rule_8_def attempts_left_def Let_def lift_res_Continue split: if_splits)

lemma rule_9_Continue:
  "el_rule_9 ctx fx l = Continue l' \<Longrightarrow> lo_scope l' = lo_scope l"
  by (auto simp: el_rule_9_def Let_def lift_res_Continue)

lemma rule_9_not_Return [simp]: "el_rule_9 ctx fx l \<noteq> Return a lg"
  by (auto simp: el_rule_9_def Let_def lift_res_Return)

lemma rule_11_Continue:
  "el_rule_11 ctx l = Continue l' \<Longrightarrow> lo_scope l' = lo_scope l"
  by (auto simp: el_rule_11_def ai_adjusted_def Let_def)

lemma rule_11_not [simp]: "el_rule_11 ctx l \<noteq> Return a lg" "el_rule_11 ctx l \<noteq> Raise e lg"
  by (simp_all add: el_rule_11_def Let_def)

section \<open>What a rule returns\<close>

definition early :: "eligibility_context \<Rightarrow> el_fixed \<Rightarrow> eligibility_assessment \<Rightarrow> bool" where
  "early ctx fx a \<longleftrightarrow> emitted_for ctx fx a
     \<and> as_eligibility_scope a \<in> {''NONE'', ''ESCALATION_CANDIDATE'', ''PRIORITIZATION_ONLY''}"

lemma early_stop:
  "el_stop rt ctx fx scope pri l = Return a lg \<Longrightarrow>
     scope \<in> {''NONE'', ''ESCALATION_CANDIDATE'', ''PRIORITIZATION_ONLY''} \<Longrightarrow> early ctx fx a"
  using el_stop_Return unfolding early_def by blast

lemma early_emit:
  "el_emit rt ctx fx scope pri tier out gq b br l = Return a lg \<Longrightarrow>
     scope \<in> {''NONE'', ''ESCALATION_CANDIDATE'', ''PRIORITIZATION_ONLY''} \<Longrightarrow> early ctx fx a"
  using el_emit_Return unfolding early_def by blast

lemma rule_1_Return: "el_rule_1 rt ctx fx l = Return a lg \<Longrightarrow> early ctx fx a"
  by (auto simp: el_rule_1_def Let_def split: if_splits intro: early_stop)

lemma rule_2_Return: "el_rule_2 rt ctx fx l = Return a lg \<Longrightarrow> early ctx fx a"
  by (auto simp: el_rule_2_def Let_def split: if_splits intro: early_emit)

lemma rule_4_Return: "el_rule_4 rt ctx fx l = Return a lg \<Longrightarrow> early ctx fx a"
  by (auto simp: el_rule_4_def Let_def split: if_splits intro: early_stop)

lemma rule_5_Return: "el_rule_5 rt ctx fx l = Return a lg \<Longrightarrow> early ctx fx a"
  by (auto simp: el_rule_5_def Let_def case_prod_unfold split: if_splits intro: early_stop)

lemma rule_6_Return: "el_rule_6 rt ctx fx l = Return a lg \<Longrightarrow> early ctx fx a"
  by (auto simp: el_rule_6_def Let_def split: if_splits intro: early_stop)

lemma rule_7_Return: "el_rule_7 rt ctx fx l = Return a lg \<Longrightarrow> early ctx fx a"
  by (auto simp: el_rule_7_def Let_def split: if_splits sum.splits intro: early_stop)

lemma rule_10_Return: "el_rule_10 rt ctx fx l = Return a lg \<Longrightarrow> early ctx fx a"
  by (auto simp: el_rule_10_def Let_def split: if_splits intro: early_emit)

lemma rule_8_Return: "el_rule_8 rt ctx fx l = Return a lg \<Longrightarrow> early ctx fx a"
  by (auto simp: el_rule_8_def Let_def lift_res_Return split: if_splits intro: early_stop)

lemmas rule_Return = rule_1_Return rule_2_Return rule_4_Return rule_5_Return rule_6_Return
  rule_7_Return rule_10_Return rule_8_Return

lemma rule_12_Return:
  "el_rule_12 rt ctx fx l = Return a lg \<Longrightarrow> emitted_for ctx fx a \<and> as_eligibility_scope a = lo_scope l
     \<and> as_orchestration_priority a = lo_priority l"
  using el_stop_Return by (fastforce simp: el_rule_12_def Let_def)

definition full_run ::
  "runtime \<Rightarrow> eligibility_context \<Rightarrow> el_fixed \<Rightarrow> el_locals \<Rightarrow> eligibility_assessment \<Rightarrow> log_line list \<Rightarrow> bool" where
  "full_run rt ctx fx l a lg \<longleftrightarrow> (\<exists>l1 l2 l4 l5 l6 l7 l10 l8 l9 l11.
      el_rule_1 rt ctx fx l = Continue l1 \<and> el_rule_2 rt ctx fx l1 = Continue l2
      \<and> el_rule_4 rt ctx fx l2 = Continue l4 \<and> el_rule_5 rt ctx fx l4 = Continue l5
      \<and> el_rule_6 rt ctx fx l5 = Continue l6 \<and> el_rule_7 rt ctx fx l6 = Continue l7
      \<and> el_rule_10 rt ctx fx l7 = Continue l10 \<and> el_rule_8 rt ctx fx l10 = Continue l8
      \<and> el_rule_9 ctx fx l8 = Continue l9 \<and> el_rule_11 ctx l9 = Continue l11
      \<and> el_rule_12 rt ctx fx l11 = Return a lg)"

definition passed_gates :: "runtime \<Rightarrow> eligibility_context \<Rightarrow> el_fixed \<Rightarrow> bool" where
  "passed_gates rt ctx fx \<longleftrightarrow>
     eo_outreach_state (ex_operational ctx) \<noteq> Some ''CLOSED''
     \<and> \<not> eg_compliance_hold_flag (ex_governance ctx)
     \<and> ea_access_state (ex_academic ctx) \<notin> {Some ''REVOKED'', Some ''SUSPENDED''}
     \<and> (given (ea_email (ex_academic ctx)) \<or> given (ea_phone_number (ex_academic ctx)))
     \<and> window_open rt ctx fx \<and> attempts_left ctx fx"

definition scope_earned :: "eligibility_context \<Rightarrow> string \<Rightarrow> bool" where
  "scope_earned ctx scope \<longleftrightarrow>
     (if eg_execution_type (ex_governance ctx) \<in> el_replay_types
      then scope = ''REPLAY_CANDIDATE'' \<and> eg_execution_mode (ex_governance ctx) \<noteq> ''LIVE''
      else scope = ''RETRY''
          \<and> eo_contact_attempt_count (ex_operational ctx) > 0 \<and> eo_retry_eligible (ex_operational ctx)
        \<or> scope = ''OUTREACH''
          \<and> eo_contact_attempt_count (ex_operational ctx) = 0
          \<and> eo_outreach_state (ex_operational ctx) \<in> {Some ''ELIGIBLE'', Some ''QUEUED'', None})"

lemma el_rules_Return:
  "el_rules rt ctx fx l = Return a lg \<Longrightarrow> early ctx fx a \<or> full_run rt ctx fx l a lg"
  unfolding el_rules_def followed_by_Return followed_by_Continue full_run_def
  by (elim disjE exE conjE; (blast intro: rule_Return | simp))

lemma full_run_emitted: "full_run rt ctx fx l a lg \<Longrightarrow> emitted_for ctx fx a"
  unfolding full_run_def using rule_12_Return by blast

lemma full_run_gates:
  assumes "full_run rt ctx fx l a lg" and l: "lo_scope l \<noteq> ''REPLAY_CANDIDATE''"
  shows "passed_gates rt ctx fx \<and> scope_earned ctx (as_eligibility_scope a)"
proof -
  from assms(1) obtain l1 l2 l4 l5 l6 l7 l10 l8 l9 l11 where
    r: "el_rule_1 rt ctx fx l = Continue l1" "el_rule_2 rt ctx fx l1 = Continue l2"
      "el_rule_4 rt ctx fx l2 = Continue l4" "el_rule_5 rt ctx fx l4 = Continue l5"
      "el_rule_6 rt ctx fx l5 = Continue l6" "el_rule_7 rt ctx fx l6 = Continue l7"
      "el_rule_10 rt ctx fx l7 = Continue l10" "el_rule_8 rt ctx fx l10 = Continue l8"
      "el_rule_9 ctx fx l8 = Continue l9" "el_rule_11 ctx l9 = Continue l11"
      "el_rule_12 rt ctx fx l11 = Return a lg"
    unfolding full_run_def by blast
  have scope: "as_eligibility_scope a = lo_scope l8"
    using rule_12_Return [OF r(11)] rule_11_Continue [OF r(10)] rule_9_Continue [OF r(9)] by simp
  have l7: "lo_scope l7 = lo_scope l"
    using r(1-5) rule_5_Continue(1) [OF r(4)] rule_7_Continue(2) [OF r(6)]
    by (simp add: rule_1_Continue rule_2_Continue rule_4_Continue rule_6_Continue)
  show ?thesis
    unfolding passed_gates_def scope_earned_def
    using r(1,2,3,5) rule_7_Continue(1) [OF r(6)] rule_10_Continue [OF r(7)] rule_8_Continue [OF r(8)]
      scope l7 l
    by (simp add: rule_1_Continue rule_2_Continue rule_4_Continue rule_6_Continue) metis
qed

section \<open>No exception escapes\<close>

definition el_config_numeric :: "pydict \<Rightarrow> bool" where
  "el_config_numeric rules \<longleftrightarrow> (\<forall>(alias, key) \<in> set el_key_map. threshold_ok (dict_get rules key))"

definition th_numeric :: "pydict \<Rightarrow> bool" where
  "th_numeric th \<longleftrightarrow> (\<forall>alias. num_or_none (el_t th alias))"

lemma el_t_known: "el_t th a = known (dict_get th a)"
  by (simp add: el_t_def has_key_map_of dict_get_def)

lemma dict_get_known:
  "known (dict_get d k) = (case map_of d k of None \<Rightarrow> VNone | Some v \<Rightarrow> known v)"
  by (simp add: dict_get_def split: option.split)

lemma th_numeric_resolved:
  assumes "el_config_numeric rules"
  shows "th_numeric (fst (fst (el_resolve_thresholds rules)))"
proof -
  have "num_or_none (known v)" if "map_of (map (\<lambda>(alias, key).
      (alias, if has_key rules key then dict_get rules key else unknown_val)) el_key_map) al = Some v"
    for v al
    using map_of_SomeD [OF that] assms
    by (auto simp: el_config_numeric_def threshold_ok_def num_or_none_def split: if_splits)
  then show ?thesis
    by (auto simp: th_numeric_def el_t_known el_resolve_thresholds_def Let_def dict_get_known
        num_or_none_def split: option.split)
qed

lemma guarded_cmp_total:
  "num_or_none v \<Longrightarrow> (if v \<noteq> VNone then cmp_num r x v else Inr False) \<noteq> Inl e"
  by (auto simp: num_or_none_def cmp_num_Inl_iff)

lemma opt_cmp_no_error: "num_or_none v \<Longrightarrow> opt_cmp r x v \<noteq> Inl e"
  using opt_cmp_total [of v r x] by auto

lemma ra_check_total:
  assumes "num_or_none ht" and "num_or_none mt"
  shows "ra_check x ht mt hl ml r \<noteq> Inl e"
  using guarded_cmp_total [OF assms(1)] guarded_cmp_total [OF assms(2)]
  by (auto simp: ra_check_def bind_res_def split: option.splits sum.splits)

lemma risk_factors_total:
  assumes "th_numeric th"
  shows "el_risk_factors a th \<noteq> Inl e"
  using assms ra_check_total opt_cmp_no_error
  by (auto simp: el_risk_factors_def bind_res_def Let_def th_numeric_def split: sum.splits)

lemma rule_8_total: "th_numeric (fx_th fx) \<Longrightarrow> el_rule_8 rt ctx fx l \<noteq> Raise e lg"
  using guarded_cmp_total [of "el_t (fx_th fx) ''max_attempts''"]
  by (auto simp: el_rule_8_def Let_def lift_res_Raise th_numeric_def split: if_splits)

lemma rule_9_total: "th_numeric (fx_th fx) \<Longrightarrow> el_rule_9 ctx fx l \<noteq> Raise e lg"
  using risk_factors_total by (auto simp: el_rule_9_def Let_def lift_res_Raise)

definition age_errors_caught :: "runtime \<Rightarrow> bool" where
  "age_errors_caught rt \<longleftrightarrow> (\<forall>s e. rt_age_hours rt s = Inl e \<longrightarrow> e \<in> {ValueError, TypeError})"

lemma rule_7_total: "age_errors_caught rt \<Longrightarrow> el_rule_7 rt ctx fx l \<noteq> Raise e lg"
  by (auto simp: el_rule_7_def Let_def age_errors_caught_def bind_res_def cmp_num_Inl_iff
      split: sum.splits if_splits)

lemma early_rules_total [simp]:
  "el_rule_1 rt ctx fx l \<noteq> Raise e lg" "el_rule_2 rt ctx fx l \<noteq> Raise e lg"
  "el_rule_4 rt ctx fx l \<noteq> Raise e lg" "el_rule_5 rt ctx fx l \<noteq> Raise e lg"
  "el_rule_6 rt ctx fx l \<noteq> Raise e lg" "el_rule_10 rt ctx fx l \<noteq> Raise e lg"
  "el_rule_12 rt ctx fx l \<noteq> Raise e lg"
  by (simp_all add: el_rule_1_def el_rule_2_def el_rule_4_def el_rule_5_def el_rule_6_def
      el_rule_10_def el_rule_12_def Let_def case_prod_unfold)

lemma el_rules_total:
  "th_numeric (fx_th fx) \<Longrightarrow> age_errors_caught rt \<Longrightarrow> el_rules rt ctx fx l \<noteq> Raise e lg"
  by (auto simp: el_rules_def followed_by_Raise rule_7_total rule_8_total rule_9_total)

lemma el_rules_not_Continue: "el_rules rt ctx fx l \<noteq> Continue l'"
  by (auto simp: el_rules_def followed_by_Continue el_rule_12_def Let_def)

section \<open>Properties\<close>

definition elig_fixed :: "(string \<Rightarrow> string) \<Rightarrow> eligibility_context \<Rightarrow> el_fixed" where
  "elig_fixed sha ctx = fst (el_rule_3 sha ctx)"

lemma rule_3_scope: "lo_scope (snd (el_rule_3 sha ctx)) = ''NONE''"
  by (simp add: el_rule_3_def Let_def case_prod_unfold)

lemma assess_rules:
  "el_precondition_codes (ex_governance ctx) = [] \<Longrightarrow>
     assess_orchestration_eligibility sha rt ctx = el_rules rt ctx (elig_fixed sha ctx) (snd (el_rule_3 sha ctx))"
  by (simp add: assess_orchestration_eligibility_def elig_fixed_def Let_def case_prod_unfold)

lemma assess_blocked:
  assumes "el_precondition_codes (ex_governance ctx) \<noteq> []"
    and "assess_orchestration_eligibility sha rt ctx = Return a lg"
  shows "as_eligibility_scope a = ''NONE'' \<and> \<not> as_live_outreach_permitted a \<and> as_eligibility_blocked a
    \<and> as_reason_codes a = el_precondition_codes (ex_governance ctx)"
  using assms by (auto simp: assess_orchestration_eligibility_def el_blocked_def Let_def)

text \<open>
  C3. A student gets the scope OUTREACH or RETRY only in an original evaluation that passed
  Rule 0, of a case that is not closed, without compliance hold or lost access, with an email or
  a phone number, outside the configured exclusion window and below the configured attempt
  ceiling; RETRY only after a first contact and within the retry window, OUTREACH only before
  any contact and from an eligible or queued case.
\<close>

theorem outreach_scope_earned:
  assumes "assess_orchestration_eligibility sha rt ctx = Return a lg"
    and "as_eligibility_scope a \<in> {''OUTREACH'', ''RETRY''}"
  shows "el_precondition_codes (ex_governance ctx) = []
    \<and> eg_execution_type (ex_governance ctx) \<notin> el_replay_types
    \<and> passed_gates rt ctx (elig_fixed sha ctx)
    \<and> scope_earned ctx (as_eligibility_scope a)"
proof (cases "el_precondition_codes (ex_governance ctx) = []")
  case False
  with assess_blocked [OF False assms(1)] assms(2) show ?thesis by simp
next
  case True
  then have "early ctx (elig_fixed sha ctx) a
    \<or> full_run rt ctx (elig_fixed sha ctx) (snd (el_rule_3 sha ctx)) a lg"
    using el_rules_Return assms(1) assess_rules by metis
  with assms(2) have run: "full_run rt ctx (elig_fixed sha ctx) (snd (el_rule_3 sha ctx)) a lg"
    by (auto simp: early_def)
  have "passed_gates rt ctx (elig_fixed sha ctx) \<and> scope_earned ctx (as_eligibility_scope a)"
    by (rule full_run_gates [OF run]) (simp add: rule_3_scope)
  with True assms(2) show ?thesis
    by (auto simp: scope_earned_def split: if_splits)
qed

definition sample_el_context :: eligibility_context where
  "sample_el_context =
    \<lparr>ex_governance = \<lparr>eg_config_version_id = Some ''cfg-1'', eg_config_version_status = ''ACTIVE'',
        eg_config_rule_set = [(''outreach_max_attempts'', VInt 3), (''hws_behind_high_risk_threshold'', VInt 4)],
        eg_execution_mode = ''LIVE'', eg_execution_type = ''original'', eg_correlation_id = Some ''corr-1'',
        eg_causation_id = None,
        eg_attribution_context = [(''origin_source'', VStr ''scheduler''), (''origin_authority'', VStr ''system''),
          (''actor_identity'', VStr ''job''), (''attribution_timestamp'', VStr ''2026-01-05'')],
        eg_fingerprint_context = None, eg_idempotency_key = None, eg_compliance_hold_flag = False,
        eg_replay_context = None\<rparr>,
     ex_academic = \<lparr>ea_user_id = Some 7, ea_access_state = Some ''ACTIVE'', ea_hws_behind = Some 5,
        ea_avg_eff_rating = None, ea_last_activity_days = None, ea_payment_balance = None,
        ea_email = Some ''s@example.org'', ea_phone_number = None, ea_sql_server_sync_timestamp = None,
        ea_historical_risk_trend = None, ea_prior_escalation_count = 0, ea_access_last_changed = None\<rparr>,
     ex_operational = \<lparr>eo_outreach_state = Some ''CONTACTED'', eo_contact_attempt_count = 1,
        eo_retry_eligible = True, eo_last_contact_timestamp = None\<rparr>,
     ex_ai = \<lparr>ei_ai_insight_state = None, ei_ai_confidence_score = None, ei_ai_stale_flag = False,
        ei_ai_finalized_copy = False, ei_ai_recommended_intervention = None, ei_ai_generated_at = None\<rparr>\<rparr>"

definition assessed_scope :: "el_outcome \<Rightarrow> string option" where
  "assessed_scope m = (case m of Return a lg \<Rightarrow> Some (as_eligibility_scope a) | _ \<Rightarrow> None)"

lemma assessed_scopeD:
  "assessed_scope m = Some s \<Longrightarrow> \<exists>a lg. m = Return a lg \<and> as_eligibility_scope a = s"
  by (auto simp: assessed_scope_def split: outcome.splits)

lemma sample_el_retry:
  "assessed_scope (assess_orchestration_eligibility (\<lambda>s. s) (sample_runtime 0) sample_el_context) = Some ''RETRY''"
  by code_simp

theorem outreach_scope_earned_witness:
  "passed_gates (sample_runtime 0) sample_el_context (elig_fixed (\<lambda>s. s) sample_el_context)"
proof -
  obtain a lg where "assess_orchestration_eligibility (\<lambda>s. s) (sample_runtime 0) sample_el_context = Return a lg"
    "as_eligibility_scope a = ''RETRY''"
    using assessed_scopeD [OF sample_el_retry] by blast
  with outreach_scope_earned [of "\<lambda>s. s" "sample_runtime 0" sample_el_context a lg] show ?thesis by simp
qed

text \<open>
  When live outreach is permitted: exactly when Rule 0 passed, the mode is LIVE, the type is
  no replay, and the assessment ended in any scope but NONE. The flag of the constraints always
  agrees with it, and it never is set in a replay or a regeneration.
\<close>

theorem live_outreach_permitted_iff:
  assumes "assess_orchestration_eligibility sha rt ctx = Return a lg"
  shows "as_live_outreach_permitted a \<longleftrightarrow>
      el_precondition_codes (ex_governance ctx) = [] \<and> live_ok (ex_governance ctx) (as_eligibility_scope a)"
proof (cases "el_precondition_codes (ex_governance ctx) = []")
  case False
  with assess_blocked [OF False assms] show ?thesis by simp
next
  case True
  then have "early ctx (elig_fixed sha ctx) a
    \<or> full_run rt ctx (elig_fixed sha ctx) (snd (el_rule_3 sha ctx)) a lg"
    using el_rules_Return assms assess_rules by metis
  then have "emitted_for ctx (elig_fixed sha ctx) a"
    using full_run_emitted by (auto simp: early_def)
  with True show ?thesis by (simp add: emitted_for_def)
qed

theorem live_outreach_permitted_iff_witness:
  "\<exists>a lg. assess_orchestration_eligibility (\<lambda>s. s) (sample_runtime 0) sample_el_context = Return a lg
     \<and> as_live_outreach_permitted a"
proof -
  obtain a lg where a: "assess_orchestration_eligibility (\<lambda>s. s) (sample_runtime 0) sample_el_context = Return a lg"
    "as_eligibility_scope a = ''RETRY''"
    using assessed_scopeD [OF sample_el_retry] by blast
  have "el_precondition_codes (ex_governance sample_el_context) = []"
    by (simp add: el_precondition_codes_def sample_el_context_def el_required_attribution_def el_replay_types_def)
  with live_outreach_permitted_iff [OF a(1)] a show ?thesis
    by (auto simp: live_ok_def el_eligible_scopes_def el_replay_types_def sample_el_context_def)
qed

text \<open>
  A compliance hold does not withdraw the live permission: in LIVE mode, for an original
  evaluation of a case that is not closed, the assessment of a student under a compliance hold
  is an escalation candidate whose live-outreach flag and constraint are set, although Rule 2
  clears the constraint before it returns.
\<close>

theorem hold_keeps_live_permission:
  assumes "el_precondition_codes (ex_governance ctx) = []"
    and "eg_execution_mode (ex_governance ctx) = ''LIVE''"
    and "eg_execution_type (ex_governance ctx) = ''original''"
    and "eo_outreach_state (ex_operational ctx) \<noteq> Some ''CLOSED''"
    and "eg_compliance_hold_flag (ex_governance ctx)"
  shows "\<exists>a lg. assess_orchestration_eligibility sha rt ctx = Return a lg
    \<and> as_eligibility_scope a = ''ESCALATION_CANDIDATE'' \<and> as_live_outreach_permitted a
    \<and> oc_live_outreach_permitted (as_orchestration_constraints a)
    \<and> gq_blocking_governance_flags (as_governance_requirements a) = [''COMPLIANCE_HOLD_ACTIVE'']"
  using assms
  by (simp add: assess_rules el_rules_def el_rule_1_def el_rule_2_def el_emit_def Let_def
      el_eligible_scopes_def el_replay_types_def met_requirements_def)

theorem hold_keeps_live_permission_witness:
  "\<exists>a lg. assess_orchestration_eligibility (\<lambda>s. s) (sample_runtime 0) (sample_el_context\<lparr>ex_governance :=
      (ex_governance sample_el_context)\<lparr>eg_compliance_hold_flag := True\<rparr>\<rparr>) = Return a lg
     \<and> as_live_outreach_permitted a"
  using hold_keeps_live_permission [of "sample_el_context\<lparr>ex_governance :=
      (ex_governance sample_el_context)\<lparr>eg_compliance_hold_flag := True\<rparr>\<rparr>" "\<lambda>s. s" "sample_runtime 0"]
  by (auto simp: el_precondition_codes_def sample_el_context_def el_required_attribution_def el_replay_types_def)

text \<open>
  The assessment always returns: when every configured threshold is a number, missing or the
  sentinel, and the library's timestamp parsing raises only the two exceptions the rule catches,
  no exception escapes the assessment.
\<close>

theorem assessment_total:
  assumes "el_config_numeric (eg_config_rule_set (ex_governance ctx))" and "age_errors_caught rt"
  shows "\<exists>a lg. assess_orchestration_eligibility sha rt ctx = Return a lg"
proof (cases "el_precondition_codes (ex_governance ctx) = []")
  case True
  have "th_numeric (fx_th (elig_fixed sha ctx))"
    using th_numeric_resolved [OF assms(1)]
    by (simp add: elig_fixed_def el_rule_3_def Let_def case_prod_unfold)
  with True assms(2) show ?thesis
    using el_rules_total el_rules_not_Continue
    by (cases "assess_orchestration_eligibility sha rt ctx") (fastforce simp: assess_rules)+
qed (simp add: assess_orchestration_eligibility_def el_blocked_def Let_def)

theorem assessment_total_witness:
  "\<exists>a lg. assess_orchestration_eligibility (\<lambda>s. s) (sample_runtime 0) sample_el_context = Return a lg"
  by (rule assessment_total)
    (simp_all add: el_config_numeric_def el_key_map_def sample_el_context_def age_errors_caught_def
      sample_runtime_def)

end
