(* ===== verification/ChannelSelector.thy ===== *)
theory ChannelSelector
  imports Prelude
begin

text \<open>
  The channel advisory, \<^verbatim>\<open>app/services/channel_selector_types.py\<close>,
  \<^verbatim>\<open>_channel_advisory_helpers.py\<close> and \<^verbatim>\<open>channel_selector.py\<close>: input and
  output models, threshold resolution, AI tier, channel ordering, log line, terminal factory and
  Rules 0--13 as a chain of rules over the record of the local variables. Loops over a snapshot
  of the eligible channels are folds. The response classes that
  \<^verbatim>\<open>prioritize_channels\<close> collects from the delivery history are not read by the code and
  are left out.
\<close>

section \<open>Input\<close>

definition ALL_CHANNELS :: "string list" where
  "ALL_CHANNELS = [''CALL'', ''SMS'', ''EMAIL'']"

definition DELIVERY_SCOPES :: "string set" where
  "DELIVERY_SCOPES = {''CALL_PREFERRED'', ''SMS_PREFERRED'', ''EMAIL_PREFERRED'', ''MULTI_CHANNEL_ELIGIBLE''}"

definition ch_required_attribution :: "string list" where
  "ch_required_attribution =
    [''origin_source'', ''origin_authority'', ''actor_identity'', ''attribution_timestamp'']"

definition ch_replay_types :: "string set" where
  "ch_replay_types = {''replay'', ''regeneration''}"

record ch_governance =
  cg_config_version_id :: "string option"
  cg_config_version_status :: string
  cg_config_rule_set :: pydict
  cg_execution_mode :: string
  cg_execution_type :: string
  cg_correlation_id :: "string option"
  cg_causation_id :: "string option"
  cg_attribution_context :: pydict
  cg_fingerprint_context :: "pydict option"
  cg_idempotency_key :: "string option"
  cg_compliance_hold_flag :: bool
  cg_replay_context :: "pydict option"

record ch_ai =
  ca_ai_insight_state :: "string option"
  ca_ai_confidence_score :: "pyfloat option"
  ca_ai_stale_flag :: bool
  ca_ai_finalized_copy :: bool
  ca_ai_channel_preference_signal :: "string option"
  ca_ai_generated_at :: "string option"

record ch_operational =
  cp_email :: "string option"
  cp_phone_number :: "string option"
  cp_access_state :: "string option"
  cp_outreach_state :: "string option"
  cp_engagement_signal_score :: "pyfloat option"
  cp_provider_health_state :: "(string \<times> string) list option"
  cp_channel_opt_out_state :: "(string \<times> bool) list option"
  cp_channel_delivery_failure_counts :: "(string \<times> int) list option"
  cp_channel_suspension_state :: "(string \<times> bool) list option"
  cp_channel_exhaustion_state :: "string option"

record channel_context =
  cx_governance :: ch_governance
  cx_operational :: ch_operational
  cx_ai :: ch_ai

text \<open>
  The fields of the source's inputs that no rule reads (the communication history, sentiment,
  retry lineage and the like) are left out of these records.
\<close>

text \<open>\<^verbatim>\<open>(d or {}).get(k, v)\<close>\<close>

definition get_or :: "(string \<times> 'a) list option \<Rightarrow> string \<Rightarrow> 'a \<Rightarrow> 'a" where
  "get_or d k v = (case d of None \<Rightarrow> v | Some m \<Rightarrow> (case map_of m k of None \<Rightarrow> v | Some x \<Rightarrow> x))"

definition some_entries :: "'a list option \<Rightarrow> bool" where
  "some_entries d \<longleftrightarrow> d \<noteq> None \<and> d \<noteq> Some []"

section \<open>Output\<close>

record governance_constraints =
  gc_execution_mode_constraint :: string
  gc_live_delivery_permitted :: bool
  gc_governance_scope :: string
  gc_suppression_reason :: "string option"
  gc_compliance_channel_restrictions :: "string list"
  gc_opt_out_channel_exclusions :: "string list"
  gc_suspended_channel_exclusions :: "string list"
  gc_config_version_id :: "string option"
  gc_idempotency_key :: "string option"
  gc_governance_preconditions_met :: bool
  gc_blocking_governance_flags :: "string list"

record escalation_constraints =
  ec_escalation_recommended :: bool
  ec_escalation_urgency :: string
  ec_escalation_reason_codes :: "string list"
  ec_escalation_context :: pydict

record ch_replay_restrictions =
  cr_is_replay :: bool
  cr_replay_eligible :: bool
  cr_live_eligible :: bool
  cr_source_artifact_id :: pyval
  cr_historical_config_version_id :: pyval
  cr_fingerprint_comparison_outcome :: "string option"
  cr_replay_safe :: bool

record ch_ai_output =
  co_ai_input_used :: bool
  co_ai_governance_tier :: string
  co_ai_confidence_score :: "pyfloat option"
  co_stale_flag :: bool
  co_fallback_applied :: bool
  co_channel_priority_adjustment_applied :: bool
  co_ai_channel_preference_signal :: "string option"
  co_ai_version_number :: "string option"

record provider_health =
  ph_call_provider_state :: string
  ph_sms_provider_state :: string
  ph_email_provider_state :: string
  ph_channel_suspension_applied :: bool
  ph_suspended_channels :: "string list"

record channel_assessment =
  ch_channel_advisory_produced :: bool
  ch_advisory_scope :: string
  ch_recommended_channel_candidates :: "string list"
  ch_prohibited_channels :: "string list"
  ch_governance_constraints :: governance_constraints
  ch_escalation_constraints :: escalation_constraints
  ch_replay_restrictions_of :: ch_replay_restrictions
  ch_ai_context :: ch_ai_output
  ch_threshold_bindings :: pydict
  ch_provider_health_metadata :: provider_health
  ch_advisory_confidence :: string
  ch_execution_mode :: string
  ch_execution_type :: string
  ch_config_version_id :: "string option"
  ch_historical_config_version_id :: pyval
  ch_correlation_id :: "string option"
  ch_causation_id :: "string option"
  ch_attribution_metadata :: pydict
  ch_attribution_status :: string
  ch_degraded_evaluation :: bool
  ch_rule_path_taken :: "string list"
  ch_assessment_basis :: string
  ch_reason_codes :: "string list"
  ch_advisory_blocked :: bool
  ch_blocking_reason :: "string option"
  ch_config_threshold_warnings :: "string list"
  ch_student_id_opaque :: "string option"

definition no_escalation :: escalation_constraints where
  "no_escalation = \<lparr>ec_escalation_recommended = False, ec_escalation_urgency = ''NONE'',
     ec_escalation_reason_codes = [], ec_escalation_context = []\<rparr>"

definition ch_escalation :: "string \<Rightarrow> string \<Rightarrow> pydict \<Rightarrow> escalation_constraints" where
  "ch_escalation urgency code context = \<lparr>ec_escalation_recommended = True,
     ec_escalation_urgency = urgency, ec_escalation_reason_codes = [code],
     ec_escalation_context = context\<rparr>"

definition no_restrictions :: ch_replay_restrictions where
  "no_restrictions = \<lparr>cr_is_replay = False, cr_replay_eligible = False, cr_live_eligible = False,
     cr_source_artifact_id = VNone, cr_historical_config_version_id = VNone,
     cr_fingerprint_comparison_outcome = None, cr_replay_safe = True\<rparr>"

definition default_ch_ai :: ch_ai_output where
  "default_ch_ai = \<lparr>co_ai_input_used = False, co_ai_governance_tier = ''UNAVAILABLE'',
     co_ai_confidence_score = None, co_stale_flag = False, co_fallback_applied = False,
     co_channel_priority_adjustment_applied = False, co_ai_channel_preference_signal = None,
     co_ai_version_number = None\<rparr>"

definition default_ph :: provider_health where
  "default_ph = \<lparr>ph_call_provider_state = ''UNKNOWN'', ph_sms_provider_state = ''UNKNOWN'',
     ph_email_provider_state = ''UNKNOWN'', ph_channel_suspension_applied = False,
     ph_suspended_channels = []\<rparr>"

text \<open>The threshold bindings, by attribute name; every attribute starts as the sentinel.\<close>

definition ch_key_map :: "(string \<times> string) list" where
  "ch_key_map =
    [(''outreach_initial_channel_preference'', ''preferred_initial_channel''),
     (''channel_delivery_failure_suspension_threshold'', ''delivery_failure_suspension_threshold''),
     (''call_engagement_score_threshold'', ''call_engagement_score_threshold''),
     (''sms_engagement_score_threshold'', ''sms_engagement_score_threshold''),
     (''email_engagement_score_threshold'', ''email_engagement_score_threshold''),
     (''channel_specific_cooldown_hours'', ''channel_specific_cooldown_hours''),
     (''ai_insight_ttl_hours'', ''ai_insight_ttl_hours''),
     (''channel_opt_out_respect_period_hours'', ''channel_opt_out_respect_period_hours'')]"

definition default_ch_bindings :: pydict where
  "default_ch_bindings = map (\<lambda>(key, attr). (attr, VStr UNKNOWN_V0)) ch_key_map"

definition tb_t :: "pydict \<Rightarrow> string \<Rightarrow> pyval" where
  "tb_t tb attr = known (dict_get tb attr)"

section \<open>Locals\<close>

record ch_locals =
  cl_path :: "string list"
  cl_codes :: "string list"
  cl_prohibited :: "string list"
  cl_warnings :: "string list"
  cl_gc :: governance_constraints
  cl_esc :: escalation_constraints
  cl_rr :: ch_replay_restrictions
  cl_ai_out :: ch_ai_output
  cl_ai_tier :: string
  cl_tb :: pydict
  cl_ph :: provider_health
  cl_eligible :: "string list"
  cl_scope_locked :: "string option"
  cl_has_pref :: bool
  cl_log :: "log_line list"

type_synonym ch_outcome = "(channel_assessment, ch_locals) outcome"

definition ch_step :: "string \<Rightarrow> ch_locals \<Rightarrow> ch_locals" where
  "ch_step r l = l\<lparr>cl_path := cl_path l @ [r]\<rparr>"

definition ch_codes :: "string list \<Rightarrow> ch_locals \<Rightarrow> ch_locals" where
  "ch_codes cs l = l\<lparr>cl_codes := cl_codes l @ cs\<rparr>"

text \<open>\<^verbatim>\<open>eligible.remove(ch); prohibited.append(ch)\<close>\<close>

definition ch_drop :: "string \<Rightarrow> ch_locals \<Rightarrow> ch_locals" where
  "ch_drop c l = l\<lparr>cl_eligible := remove1 c (cl_eligible l), cl_prohibited := cl_prohibited l @ [c]\<rparr>"

definition ch_suspend :: "string \<Rightarrow> ch_locals \<Rightarrow> ch_locals" where
  "ch_suspend c l = l\<lparr>cl_ph := (cl_ph l)\<lparr>ph_suspended_channels := ph_suspended_channels (cl_ph l) @ [c],
     ph_channel_suspension_applied := True\<rparr>\<rparr>"

definition ch_exclude_suspended :: "string \<Rightarrow> ch_locals \<Rightarrow> ch_locals" where
  "ch_exclude_suspended c l = l\<lparr>cl_gc := (cl_gc l)\<lparr>gc_suspended_channel_exclusions :=
     gc_suspended_channel_exclusions (cl_gc l) @ [c]\<rparr>\<rparr>"

section \<open>Helpers\<close>

definition ch_resolve_thresholds :: "pydict \<Rightarrow> (pydict \<times> string list) \<times> log_line list" where
  "ch_resolve_thresholds rule_set =
    (let missing = filter (\<lambda>(key, attr). \<not> has_key rule_set key) ch_key_map
     in ((map (\<lambda>(key, attr). (attr, if has_key rule_set key then dict_get rule_set key
                                     else VStr UNKNOWN_V0)) ch_key_map,
          map (\<lambda>(key, attr). ''CONFIG_THRESHOLD_MISSING_'' @ upper key) missing),
         map (\<lambda>(key, attr). LogText ''warning''
           (''{\"event\":\"CONFIG_THRESHOLD_MISSING\",\"key\":\"'' @ key @ ''\"}'')) missing))"

text \<open>Returns the tier, the updated AI output and the reason codes added.\<close>

definition ch_assess_ai_tier ::
  "runtime \<Rightarrow> ch_ai \<Rightarrow> pydict \<Rightarrow> ch_ai_output \<Rightarrow> (string \<times> ch_ai_output \<times> string list) res" where
  "ch_assess_ai_tier rt ai tb out =
    (let ttl = tb_t tb ''ai_insight_ttl_hours'';
         state = (case ca_ai_insight_state ai of None \<Rightarrow> [] | Some s \<Rightarrow> s);
         tiered = (\<lambda>t. Inr (t, out\<lparr>co_ai_governance_tier := t\<rparr>, []))
     in if ca_ai_finalized_copy ai then tiered ''FINALIZED_COPY''
        else if ttl = VNone then
          Inr (''UNAVAILABLE'', out\<lparr>co_ai_governance_tier := ''UNAVAILABLE''\<rparr>, [''AI_TTL_NOT_CONFIGURED''])
        else if state \<in> {''AI_GENERATING'', ''AI_PENDING''} then tiered ''IN_FLIGHT''
        else if state = ''AI_GENERATION_FAILED'' \<or> state = [] then tiered ''UNAVAILABLE''
        else if state = ''AI_REVIEWED'' then
          bind_res (if \<not> ca_ai_stale_flag ai \<and> given (ca_ai_generated_at ai)
                    then (case rt_older_than rt (the (ca_ai_generated_at ai)) ttl of
                            Inl e \<Rightarrow> if e \<in> {ValueError, TypeError} then Inr True else Inl e
                          | Inr b \<Rightarrow> Inr b)
                    else Inr (ca_ai_stale_flag ai)) (\<lambda>stale.
          if stale then
            Inr (''STALE'', out\<lparr>co_ai_governance_tier := ''STALE'', co_stale_flag := True\<rparr>, [])
          else
            let score = (case ca_ai_confidence_score ai of None \<Rightarrow> Fin 0 | Some f \<Rightarrow> f);
                tier = (if fge score (Fin (3152519739159347 / 4503599627370496))
                        then ''CONFIDENT'' else ''ADVISORY'')
            in Inr (tier, out\<lparr>co_ai_confidence_score := Some score, co_ai_governance_tier := tier,
                     co_ai_input_used := True\<rparr>, []))
        else tiered ''UNAVAILABLE'')"

definition to_front :: "string \<Rightarrow> string list \<Rightarrow> string list" where
  "to_front c xs = c # remove1 c xs"

text \<open>The configured preferred channel goes first, when it is one of the channels.\<close>

fun configured_first :: "pyval \<Rightarrow> string list \<Rightarrow> string list" where
  "configured_first (VStr c) xs = (if c \<noteq> [] \<and> c \<in> set xs then to_front c xs else xs)"
| "configured_first _ xs = xs"

text \<open>The ordered candidates, whether an engagement signal preferred one, and the codes added.\<close>

definition prioritize_channels ::
  "string list \<Rightarrow> ch_operational \<Rightarrow> pydict \<Rightarrow> (string list \<times> bool \<times> string list) res" where
  "prioritize_channels eligible op tb =
    (let score = cp_engagement_signal_score op;
         call_th = tb_t tb ''call_engagement_score_threshold'';
         sms_th = tb_t tb ''sms_engagement_score_threshold'';
         email_th = tb_t tb ''email_engagement_score_threshold'';
         pref_cfg = tb_t tb ''preferred_initial_channel'';
         codes = code_if (score = None) ''ENGAGEMENT_SIGNAL_UNKNOWN''
           @ code_if (call_th = VNone \<and> sms_th = VNone \<and> email_th = VNone) ''PARTIAL_ENGAGEMENT_ASSESSMENT'';
         configured = configured_first pref_cfg eligible
     in bind_res (opt_cmp fge score call_th) (\<lambda>call.
        if call \<and> ''CALL'' \<in> set eligible then Inr (to_front ''CALL'' eligible, True, codes)
        else bind_res (opt_cmp fge score sms_th) (\<lambda>sms.
        if sms \<and> ''SMS'' \<in> set eligible then Inr (to_front ''SMS'' eligible, True, codes)
        else bind_res (opt_cmp fge score email_th) (\<lambda>email.
        if email \<and> ''EMAIL'' \<in> set eligible then Inr (to_front ''EMAIL'' eligible, True, codes)
        else Inr (configured, False, codes)))))"

definition ch_emit_log ::
  "runtime \<Rightarrow> string \<Rightarrow> string \<Rightarrow> ch_governance \<Rightarrow> string \<Rightarrow> bool \<Rightarrow> string list \<Rightarrow> string list
   \<Rightarrow> bool \<Rightarrow> string \<Rightarrow> string \<Rightarrow> string list \<Rightarrow> string list \<Rightarrow> log_line" where
  "ch_emit_log rt level event gov scope produced path codes suspended ai_tier outcome candidates prohibited =
    LogJson level
      [(''timestamp'', VStr (rt_now_iso rt)), (''level'', VStr level),
       (''service'', VStr ''channel_advisory''), (''event'', VStr event),
       (''correlation_id'', opt_val (cg_correlation_id gov)),
       (''causation_id'', opt_val (cg_causation_id gov)),
       (''student_id_opaque'', VNone),
       (''execution_type'', VStr (cg_execution_type gov)),
       (''execution_mode'', VStr (cg_execution_mode gov)),
       (''config_version_id'', opt_val (cg_config_version_id gov)),
       (''advisory_scope'', VStr scope), (''channel_advisory_produced'', VBool produced),
       (''recommended_channel_candidates'', str_list candidates),
       (''prohibited_channels'', str_list prohibited), (''ai_governance_tier'', VStr ai_tier),
       (''channel_suspension_applied'', VBool suspended), (''rule_path_taken'', str_list path),
       (''outcome'', VStr outcome), (''duration_ms'', VInt (rt_duration_ms rt)),
       (''reason_codes'', str_list codes)]"

definition ends_with :: "string \<Rightarrow> string \<Rightarrow> bool" where
  "ends_with s t \<longleftrightarrow> take (length t) (rev s) = rev t"

definition ch_confidence :: "bool \<Rightarrow> string \<Rightarrow> bool \<Rightarrow> string list \<Rightarrow> ch_ai_output \<Rightarrow> string" where
  "ch_confidence is_replay scope blocked warnings ai_out =
    (if is_replay then ''UNKNOWN''
     else if scope \<in> {''NONE'', ''CHANNEL_EXHAUSTED''} \<or> blocked then ''LOW''
     else if warnings \<noteq> [] then ''LOW''
     else if co_ai_governance_tier ai_out \<in> {''STALE'', ''UNAVAILABLE''} then ''MEDIUM''
     else if scope = ''MULTI_CHANNEL_ELIGIBLE'' then ''MEDIUM''
     else if ends_with scope ''_PREFERRED'' then (if co_ai_input_used ai_out then ''HIGH'' else ''MEDIUM'')
     else ''MEDIUM'')"

definition attribution_ok :: "pydict \<Rightarrow> bool" where
  "attribution_ok attr \<longleftrightarrow> (\<forall>k \<in> set ch_required_attribution. has_key attr k \<and> truthy (dict_get attr k))"

text \<open>The governance constraints of the output.\<close>

definition ch_scope_constraints ::
  "ch_governance \<Rightarrow> bool \<Rightarrow> governance_constraints \<Rightarrow> governance_constraints" where
  "ch_scope_constraints gov live gc0 =
    (let gc = gc0\<lparr>gc_live_delivery_permitted := live\<rparr>
     in if cg_execution_type gov \<in> ch_replay_types then
          gc\<lparr>gc_governance_scope := ''REPLAY_ONLY'', gc_suppression_reason := Some ''REPLAY_EXECUTION''\<rparr>
        else if cg_execution_mode gov = ''SHADOW'' then
          gc\<lparr>gc_governance_scope := ''SHADOW_ONLY'', gc_suppression_reason := Some ''SHADOW_MODE_ACTIVE''\<rparr>
        else if live then gc\<lparr>gc_governance_scope := ''AUTHORIZED''\<rparr>
        else gc\<lparr>gc_governance_scope := ''SHADOW_ONLY'',
               gc_suppression_reason := Some ''PRE_PHASE12_CERTIFICATION''\<rparr>)"

definition ch_emit ::
  "runtime \<Rightarrow> channel_context \<Rightarrow> string \<Rightarrow> bool \<Rightarrow> string list \<Rightarrow> bool \<Rightarrow> string option
   \<Rightarrow> ch_locals \<Rightarrow> ch_outcome" where
  "ch_emit rt ctx scope produced candidates blocked blocking_reason l =
    (let gov = cx_governance ctx;
         is_replay = (cg_execution_type gov \<in> ch_replay_types);
         live = (produced \<and> scope \<in> DELIVERY_SCOPES \<and> cg_execution_mode gov = ''LIVE''
                  \<and> \<not> is_replay \<and> \<not> blocked);
         ai_out = cl_ai_out l;
         basis = (if is_replay then ''HISTORICAL_REPLAY''
                  else if co_channel_priority_adjustment_applied ai_out then ''AI_ASSISTED''
                  else if co_fallback_applied ai_out then ''FALLBACK'' else ''RULE_BASED'');
         degraded = (cl_warnings l \<noteq> []);
         lvl = (if blocked then ''error'' else if degraded then ''warning'' else ''info'')
     in Return
      \<lparr>ch_channel_advisory_produced = produced, ch_advisory_scope = scope,
       ch_recommended_channel_candidates = candidates, ch_prohibited_channels = cl_prohibited l,
       ch_governance_constraints = ch_scope_constraints gov live (cl_gc l),
       ch_escalation_constraints = cl_esc l, ch_replay_restrictions_of = cl_rr l,
       ch_ai_context = ai_out, ch_threshold_bindings = cl_tb l,
       ch_provider_health_metadata = cl_ph l,
       ch_advisory_confidence = ch_confidence is_replay scope blocked (cl_warnings l) ai_out,
       ch_execution_mode = cg_execution_mode gov, ch_execution_type = cg_execution_type gov,
       ch_config_version_id = cg_config_version_id gov,
       ch_historical_config_version_id = cr_historical_config_version_id (cl_rr l),
       ch_correlation_id = cg_correlation_id gov, ch_causation_id = cg_causation_id gov,
       ch_attribution_metadata = cg_attribution_context gov,
       ch_attribution_status = (if attribution_ok (cg_attribution_context gov) then ''COMPLETE'' else ''INCOMPLETE''),
       ch_degraded_evaluation = degraded, ch_rule_path_taken = cl_path l,
       ch_assessment_basis = basis, ch_reason_codes = cl_codes l,
       ch_advisory_blocked = blocked, ch_blocking_reason = blocking_reason,
       ch_config_threshold_warnings = cl_warnings l, ch_student_id_opaque = None\<rparr>
      (cl_log l @ [ch_emit_log rt lvl
         (if \<not> blocked then ''channel_advisory_produced'' else ''governance_precondition_failed'')
         gov scope produced (cl_path l) (cl_codes l) (ph_channel_suspension_applied (cl_ph l))
         (co_ai_governance_tier ai_out) (if blocked then ''blocked'' else ''success'')
         candidates (cl_prohibited l)]))"

section \<open>The rules\<close>

definition ch_precondition_codes :: "ch_governance \<Rightarrow> string list" where
  "ch_precondition_codes g =
     code_if (\<not> given (cg_config_version_id g)) ''CONFIG_UNRESOLVED''
     @ code_if (cg_config_version_status g \<noteq> ''ACTIVE'' \<and> cg_execution_type g = ''original'')
         ''CONFIG_VERSION_NOT_ACTIVE''
     @ code_if (cg_execution_mode g \<notin> {''SHADOW'', ''LIVE''}) ''EXECUTION_MODE_INVALID''
     @ code_if (\<not> given (cg_correlation_id g)) ''CORRELATION_ID_MISSING''
     @ code_if (\<not> attribution_ok (cg_attribution_context g)) ''ATTRIBUTION_INCOMPLETE''
     @ code_if (cg_execution_type g \<notin> {''original'', ''replay'', ''regeneration''}) ''EXECUTION_TYPE_INVALID''
     @ code_if (cg_execution_type g \<in> ch_replay_types \<and> \<not> some_entries (cg_replay_context g))
         ''REPLAY_CONTEXT_MISSING''"

definition ch_initial :: "ch_governance \<Rightarrow> ch_locals" where
  "ch_initial g =
    \<lparr>cl_path = [''RULE_0''], cl_codes = [], cl_prohibited = [], cl_warnings = [],
     cl_gc = \<lparr>gc_execution_mode_constraint = cg_execution_mode g, gc_live_delivery_permitted = False,
        gc_governance_scope = ''SHADOW_ONLY'', gc_suppression_reason = None,
        gc_compliance_channel_restrictions = [], gc_opt_out_channel_exclusions = [],
        gc_suspended_channel_exclusions = [], gc_config_version_id = cg_config_version_id g,
        gc_idempotency_key = cg_idempotency_key g, gc_governance_preconditions_met = False,
        gc_blocking_governance_flags = []\<rparr>,
     cl_esc = no_escalation, cl_rr = no_restrictions, cl_ai_out = default_ch_ai,
     cl_ai_tier = ''UNAVAILABLE'', cl_tb = default_ch_bindings, cl_ph = default_ph,
     cl_eligible = ALL_CHANNELS, cl_scope_locked = None, cl_has_pref = False, cl_log = []\<rparr>"

definition ch_rule_0 :: "runtime \<Rightarrow> channel_context \<Rightarrow> ch_outcome" where
  "ch_rule_0 rt ctx =
    (let g = cx_governance ctx; r0 = ch_precondition_codes g; l = ch_initial g
     in if r0 \<noteq> [] then
          Return
          \<lparr>ch_channel_advisory_produced = False, ch_advisory_scope = ''NONE'',
           ch_recommended_channel_candidates = [], ch_prohibited_channels = [],
           ch_governance_constraints = (cl_gc l)\<lparr>gc_blocking_governance_flags := r0\<rparr>,
           ch_escalation_constraints = no_escalation, ch_replay_restrictions_of = no_restrictions,
           ch_ai_context = default_ch_ai, ch_threshold_bindings = default_ch_bindings,
           ch_provider_health_metadata = default_ph, ch_advisory_confidence = ''UNKNOWN'',
           ch_execution_mode = cg_execution_mode g, ch_execution_type = cg_execution_type g,
           ch_config_version_id = cg_config_version_id g, ch_historical_config_version_id = VNone,
           ch_correlation_id = cg_correlation_id g, ch_causation_id = cg_causation_id g,
           ch_attribution_metadata = cg_attribution_context g, ch_attribution_status = ''COMPLETE'',
           ch_degraded_evaluation = False, ch_rule_path_taken = [''RULE_0''],
           ch_assessment_basis = ''RULE_BASED'', ch_reason_codes = r0, ch_advisory_blocked = True,
           ch_blocking_reason = Some ''GOVERNANCE_PRECONDITION_FAILED'',
           ch_config_threshold_warnings = [], ch_student_id_opaque = None\<rparr>
          [ch_emit_log rt ''error'' ''governance_precondition_failed'' g ''NONE'' False [''RULE_0'']
             r0 False ''UNAVAILABLE'' ''blocked'' [] []]
        else Continue (l\<lparr>cl_gc := (cl_gc l)\<lparr>gc_governance_preconditions_met := True\<rparr>\<rparr>))"

definition ch_rule_1 :: "runtime \<Rightarrow> channel_context \<Rightarrow> ch_locals \<Rightarrow> ch_outcome" where
  "ch_rule_1 rt ctx l0 =
    (let l = ch_step ''RULE_1'' l0
     in if cp_outreach_state (cx_operational ctx) = Some ''CLOSED''
        then ch_emit rt ctx ''NONE'' False [] False None (ch_codes [''OUTREACH_CLOSED_TERMINAL''] l)
        else Continue l)"

definition ch_rule_2 :: "runtime \<Rightarrow> channel_context \<Rightarrow> ch_locals \<Rightarrow> ch_outcome" where
  "ch_rule_2 rt ctx l0 =
    (let l = ch_step ''RULE_2'' l0
     in if cg_compliance_hold_flag (cx_governance ctx) then
          let l1 = ch_codes [''COMPLIANCE_HOLD_ACTIVE'', ''ALL_CHANNELS_COMPLIANCE_BLOCKED''] l
          in ch_emit rt ctx ''NONE'' True [] False None
              (l1\<lparr>cl_prohibited := cl_prohibited l1 @ ALL_CHANNELS,
                  cl_gc := (cl_gc l1)\<lparr>gc_compliance_channel_restrictions := ALL_CHANNELS,
                    gc_blocking_governance_flags :=
                      gc_blocking_governance_flags (cl_gc l1) @ [''COMPLIANCE_HOLD_ACTIVE'']\<rparr>,
                  cl_esc := ch_escalation ''CRITICAL'' ''COMPLIANCE_HOLD_ALL_CHANNELS_BLOCKED''
                    [(''note'', VStr ''All channels prohibited under COMPLIANCE_HOLD.'')]\<rparr>)
        else Continue l)"

definition ch_rule_3 :: "channel_context \<Rightarrow> ch_locals \<Rightarrow> ch_outcome" where
  "ch_rule_3 ctx l0 =
    (let l = ch_step ''RULE_3'' l0;
         ((tb, warnings), logs) = ch_resolve_thresholds (cg_config_rule_set (cx_governance ctx))
     in Continue ((ch_codes warnings l)\<lparr>cl_tb := tb, cl_warnings := warnings, cl_log := cl_log l @ logs\<rparr>))"

definition ch_rule_4 :: "runtime \<Rightarrow> channel_context \<Rightarrow> ch_locals \<Rightarrow> ch_outcome" where
  "ch_rule_4 rt ctx l0 =
    (let l = ch_step ''RULE_4'' l0; op = cx_operational ctx;
         no_phone = (\<not> given (cp_phone_number op)); no_email = (\<not> given (cp_email op));
         prohibited = cl_prohibited l @ (if no_phone then [''CALL'', ''SMS''] else [])
           @ (if no_email then [''EMAIL''] else []);
         l1 = (ch_codes (code_if no_phone ''NO_PHONE_NUMBER'' @ code_if no_email ''NO_EMAIL_ADDRESS'') l)
           \<lparr>cl_prohibited := prohibited,
            cl_eligible := filter (\<lambda>c. c \<notin> set prohibited) ALL_CHANNELS\<rparr>
     in if cl_eligible l1 = [] then
          ch_emit rt ctx ''NONE'' False [] False None (ch_codes [''NO_CONTACT_INFO_ANY_CHANNEL''] l1)
        else Continue l1)"

definition ch_rule_5 :: "runtime \<Rightarrow> channel_context \<Rightarrow> ch_locals \<Rightarrow> ch_outcome" where
  "ch_rule_5 rt ctx l0 =
    (let l = ch_step ''RULE_5'' l0
     in lift_res (ch_assess_ai_tier rt (cx_ai ctx) (cl_tb l) (cl_ai_out l)) (cl_log l)
         (\<lambda>(tier, out, codes).
            let l1 = (ch_codes codes l)\<lparr>cl_ai_tier := tier, cl_ai_out := out\<rparr>
            in Continue
              (if tier = ''IN_FLIGHT'' then
                 if cg_execution_type (cx_governance ctx) \<in> ch_replay_types
                 then l1\<lparr>cl_ai_tier := ''STALE'', cl_ai_out := out\<lparr>co_ai_governance_tier := ''STALE''\<rparr>\<rparr>
                 else (ch_codes [''AI_INSIGHT_IN_FLIGHT_CHANNEL_ADVISORY_PROCEEDS''] l1)
                    \<lparr>cl_ai_out := out\<lparr>co_ai_input_used := False\<rparr>\<rparr>
               else l1)))"

definition opt_out_channel :: "ch_operational \<Rightarrow> string \<Rightarrow> ch_locals \<Rightarrow> ch_locals" where
  "opt_out_channel op c l =
    (if get_or (cp_channel_opt_out_state op) c False then
       let l1 = ch_codes [c @ ''_OPT_OUT_ACTIVE''] (ch_drop c l)
       in l1\<lparr>cl_gc := (cl_gc l1)\<lparr>gc_opt_out_channel_exclusions :=
            gc_opt_out_channel_exclusions (cl_gc l1) @ [c]\<rparr>\<rparr>
     else l)"

definition ch_rule_6 :: "runtime \<Rightarrow> channel_context \<Rightarrow> ch_locals \<Rightarrow> ch_outcome" where
  "ch_rule_6 rt ctx l0 =
    (let l = ch_step ''RULE_6'' l0;
         l1 = fold (opt_out_channel (cx_operational ctx)) (cl_eligible l) l
     in if cl_eligible l1 = [] then
          ch_emit rt ctx ''CHANNEL_EXHAUSTED'' True [] False None
            ((ch_codes [''CHANNEL_EXHAUSTED_OPT_OUT''] l1)\<lparr>cl_esc :=
               ch_escalation ''MEDIUM'' ''ALL_CHANNELS_OPT_OUT_PROHIBITED''
                 [(''note'', VStr ''All channels prohibited by active opt-out registrations.'')]\<rparr>)
        else Continue l1)"

text \<open>Rule 7 on one channel; the list collects the degraded ones.\<close>

definition health_channel ::
  "ch_operational \<Rightarrow> string \<Rightarrow> ch_locals \<times> string list \<Rightarrow> ch_locals \<times> string list" where
  "health_channel op c ld =
    (let (l, degraded) = ld;
         state = get_or (cp_provider_health_state op) c ''HEALTHY''
     in if state = ''UNAVAILABLE'' then
          (ch_codes [c @ ''_PROVIDER_UNAVAILABLE''] (ch_suspend c (ch_drop c l)), degraded)
        else if get_or (cp_channel_suspension_state op) c False then
          (ch_codes [c @ ''_DELIVERY_FAILURE_SUSPENDED'']
             (ch_suspend c (ch_exclude_suspended c (ch_drop c l))), degraded)
        else if state = ''DEGRADED'' then
          (ch_codes [c @ ''_PROVIDER_DEGRADED''] l, degraded @ [c])
        else (l, degraded))"

definition to_back :: "string \<Rightarrow> string list \<Rightarrow> string list" where
  "to_back c xs = (if c \<in> set xs then remove1 c xs @ [c] else xs)"

definition ch_rule_7 :: "runtime \<Rightarrow> channel_context \<Rightarrow> ch_locals \<Rightarrow> ch_outcome" where
  "ch_rule_7 rt ctx l0 =
    (let op = cx_operational ctx; phs = cp_provider_health_state op;
         l = ch_step ''RULE_7'' l0;
         l1 = ch_codes (code_if (\<not> some_entries phs) ''PROVIDER_HEALTH_UNKNOWN'')
           (l\<lparr>cl_ph := (cl_ph l)\<lparr>ph_call_provider_state := get_or phs ''CALL'' ''UNKNOWN'',
               ph_sms_provider_state := get_or phs ''SMS'' ''UNKNOWN'',
               ph_email_provider_state := get_or phs ''EMAIL'' ''UNKNOWN''\<rparr>\<rparr>);
         (l2, degraded) = fold (health_channel op) (cl_eligible l1) (l1, []);
         l3 = l2\<lparr>cl_eligible := fold to_back degraded (cl_eligible l2)\<rparr>
     in if cl_eligible l3 = [] then
          ch_emit rt ctx ''CHANNEL_EXHAUSTED'' True [] False None
            ((ch_codes [''CHANNEL_EXHAUSTED_PROVIDER_FAILURE''] l3)\<lparr>cl_esc :=
               ch_escalation ''HIGH'' ''ALL_CHANNELS_PROVIDER_UNAVAILABLE_OR_SUSPENDED''
                 [(''note'', VStr ''All channels unavailable or suspended due to provider state.'')]\<rparr>)
        else Continue l3)"

definition ch_rule_8 :: "runtime \<Rightarrow> channel_context \<Rightarrow> ch_locals \<Rightarrow> ch_outcome" where
  "ch_rule_8 rt ctx l0 =
    (let l = ch_step ''RULE_8'' l0; state = cp_channel_exhaustion_state (cx_operational ctx)
     in if state = Some ''EXHAUSTED'' \<and> cl_eligible l = [] then
          ch_emit rt ctx ''CHANNEL_EXHAUSTED'' True [] False None
            ((ch_codes [''ALL_CHANNELS_EXHAUSTED''] l)\<lparr>cl_esc :=
               ch_escalation ''HIGH'' ''CHANNEL_EXHAUSTION_CONFIRMED''
                 [(''channel_exhaustion_state'', VStr ''EXHAUSTED'')]\<rparr>)
        else Continue (ch_codes (code_if (state = Some ''PARTIAL'') ''CHANNEL_EXHAUSTION_PARTIAL'') l))"

definition opt_get :: "pydict option \<Rightarrow> string \<Rightarrow> pyval" where
  "opt_get d k = (case d of None \<Rightarrow> VNone | Some m \<Rightarrow> dict_get m k)"

definition ch_rule_9 :: "runtime \<Rightarrow> channel_context \<Rightarrow> ch_locals \<Rightarrow> ch_outcome" where
  "ch_rule_9 rt ctx l0 =
    (let g = cx_governance ctx; rc = cg_replay_context g
     in if cg_execution_type g \<notin> ch_replay_types then Continue l0
        else
          let l = ch_step ''RULE_9'' l0;
              src = opt_get rc ''source_artifact_id'';
              hist = opt_get rc ''historical_config_version_id'';
              hist_cfg = (if truthy hist then hist else opt_get rc ''config_version_id'');
              r9 = code_if (cg_execution_mode g = ''LIVE'') ''REPLAY_LIVE_MODE_BLOCKED''
                @ code_if (\<not> truthy src) ''REPLAY_SOURCE_ARTIFACT_MISSING''
                @ code_if (\<not> some_entries (cg_fingerprint_context g)) ''REPLAY_FINGERPRINT_MISSING''
          in if r9 \<noteq> [] then
               ch_emit rt ctx ''NONE'' False [] True (Some ''REPLAY_PRECONDITION_VIOLATED'')
                 ((ch_codes r9 l)\<lparr>cl_rr := (cl_rr l)\<lparr>cr_replay_eligible := False,
                    cr_live_eligible := False, cr_replay_safe := False\<rparr>\<rparr>)
             else
               let l1 = (ch_codes [''REPLAY_CHANNEL_CANDIDATE''] l)
                    \<lparr>cl_rr := \<lparr>cr_is_replay = True, cr_replay_eligible = True, cr_live_eligible = False,
                       cr_source_artifact_id = src, cr_historical_config_version_id = hist_cfg,
                       cr_fingerprint_comparison_outcome = Some ''UNKNOWN'', cr_replay_safe = True\<rparr>,
                     cl_gc := (cl_gc l)\<lparr>gc_live_delivery_permitted := False\<rparr>,
                     cl_scope_locked := Some ''REPLAY_CHANNEL_CANDIDATE''\<rparr>
               in Continue (if ca_ai_finalized_copy (cx_ai ctx)
                    then l1\<lparr>cl_ai_tier := ''FINALIZED_COPY'',
                            cl_ai_out := (cl_ai_out l1)\<lparr>co_ai_governance_tier := ''FINALIZED_COPY''\<rparr>\<rparr>
                    else l1))"

text \<open>Rule 10 on one channel.\<close>

definition failure_channel ::
  "ch_operational \<Rightarrow> pyval \<Rightarrow> string \<Rightarrow> ch_locals res \<Rightarrow> ch_locals res" where
  "failure_channel op susp_th c m = bind_res m (\<lambda>l.
     bind_res (if susp_th \<noteq> VNone
               then ge_val (of_nat_num (get_or (cp_channel_delivery_failure_counts op) c 0)) susp_th
               else Inr False) (\<lambda>fails.
     Inr (if fails then ch_codes [c @ ''_DELIVERY_FAILURE_SUSPENDED'']
            (ch_suspend c (ch_exclude_suspended c (ch_drop c l))) else l)))"

definition ch_rule_10 :: "runtime \<Rightarrow> channel_context \<Rightarrow> ch_locals \<Rightarrow> ch_outcome" where
  "ch_rule_10 rt ctx l0 =
    (let op = cx_operational ctx;
         l = ch_codes (code_if (\<not> some_entries (cp_channel_delivery_failure_counts op))
               ''DELIVERY_FAILURE_COUNTS_UNKNOWN'') (ch_step ''RULE_10'' l0)
     in lift_res (fold (failure_channel op (tb_t (cl_tb l) ''delivery_failure_suspension_threshold''))
                    (cl_eligible l) (Inr l)) (cl_log l) (\<lambda>l1.
          if cl_eligible l1 = [] then
            ch_emit rt ctx (case cl_scope_locked l1 of None \<Rightarrow> ''CHANNEL_EXHAUSTED'' | Some s \<Rightarrow> s) True []
              False None
              ((ch_codes [''CHANNEL_EXHAUSTED_DELIVERY_FAILURE''] l1)\<lparr>cl_esc := (cl_esc l1)
                 \<lparr>ec_escalation_recommended := True, ec_escalation_urgency := ''HIGH'',
                  ec_escalation_reason_codes := [''ALL_CHANNELS_DELIVERY_FAILURE_SUSPENDED'']\<rparr>\<rparr>)
          else Continue l1))"

text \<open>From Rule 11 on \<open>cl_eligible\<close> holds the ordered candidates.\<close>

definition ch_rule_11 :: "channel_context \<Rightarrow> ch_locals \<Rightarrow> ch_outcome" where
  "ch_rule_11 ctx l0 =
    (let l = ch_step ''RULE_11'' l0
     in lift_res (prioritize_channels (cl_eligible l) (cx_operational ctx) (cl_tb l)) (cl_log l)
          (\<lambda>(ordered, pref, codes). Continue ((ch_codes codes l)\<lparr>cl_eligible := ordered, cl_has_pref := pref\<rparr>)))"

definition pref_channel :: "string option \<Rightarrow> string option" where
  "pref_channel s = map_of [(''PREFER_CALL'', ''CALL''), (''PREFER_SMS'', ''SMS''),
     (''PREFER_EMAIL'', ''EMAIL'')] (case s of None \<Rightarrow> [] | Some x \<Rightarrow> x)"

definition ai_prefers :: "ch_ai \<Rightarrow> string \<Rightarrow> string \<Rightarrow> ch_locals \<Rightarrow> ch_locals" where
  "ai_prefers ai c code l =
     (ch_codes [code] l)\<lparr>cl_eligible := to_front c (cl_eligible l), cl_has_pref := True,
        cl_ai_out := (cl_ai_out l)\<lparr>co_channel_priority_adjustment_applied := True,
           co_ai_channel_preference_signal := ca_ai_channel_preference_signal ai\<rparr>\<rparr>"

definition ai_reordered :: "ch_ai \<Rightarrow> string \<Rightarrow> ch_locals \<Rightarrow> ch_locals" where
  "ai_reordered ai tier l =
    (case pref_channel (ca_ai_channel_preference_signal ai) of
       None \<Rightarrow> l
     | Some c \<Rightarrow>
       if c \<notin> set (cl_prohibited l) \<and> c \<in> set (cl_eligible l) then
         if tier = ''CONFIDENT'' then ai_prefers ai c ''AI_CHANNEL_PREFERENCE_SIGNAL_CONFIDENT'' l
         else if \<not> cl_has_pref l then ai_prefers ai c ''AI_CHANNEL_PREFERENCE_SIGNAL_ADVISORY'' l
         else l
       else l)"

definition ch_rule_12 :: "channel_context \<Rightarrow> ch_locals \<Rightarrow> ch_outcome" where
  "ch_rule_12 ctx l0 =
    (let l = ch_step ''RULE_12'' l0; tier = cl_ai_tier l; ai = cx_ai ctx
     in Continue
       (if cl_scope_locked l = None \<and> tier \<in> {''CONFIDENT'', ''ADVISORY''} then
          ai_reordered ai tier l
        else if tier = ''STALE'' then
          ch_codes (''STALE_AI_CHANNEL_ADVISORY_SKIPPED''
            # code_if (cg_execution_mode (cx_governance ctx) = ''LIVE'') ''STALE_AI_LIVE_MODE_RESTRICTED'') l
        else if tier = ''UNAVAILABLE'' then
          (ch_codes [''AI_UNAVAILABLE_FALLBACK_APPLIED''] l)\<lparr>cl_ai_out :=
             (cl_ai_out l)\<lparr>co_fallback_applied := True\<rparr>\<rparr>
        else if tier = ''FINALIZED_COPY'' then ch_codes [''AI_FINALIZED_COPY_NOT_APPLIED''] l
        else l))"

definition ch_final_scope :: "ch_locals \<Rightarrow> string" where
  "ch_final_scope l =
    (case cl_scope_locked l of
       Some s \<Rightarrow> s
     | None \<Rightarrow>
       if length (cl_eligible l) = 1 \<or> cl_has_pref l
          \<or> co_channel_priority_adjustment_applied (cl_ai_out l)
       then hd (cl_eligible l) @ ''_PREFERRED'' else ''MULTI_CHANNEL_ELIGIBLE'')"

definition ch_rule_13 :: "runtime \<Rightarrow> channel_context \<Rightarrow> ch_locals \<Rightarrow> ch_outcome" where
  "ch_rule_13 rt ctx l =
     ch_emit rt ctx (ch_final_scope l) True (cl_eligible l) False None (ch_step ''RULE_13'' l)"

definition assess_channel_advisory :: "runtime \<Rightarrow> channel_context \<Rightarrow> ch_outcome" where
  "assess_channel_advisory rt ctx =
     followed_by (followed_by (followed_by (followed_by (followed_by (followed_by (followed_by
     (followed_by (followed_by (followed_by (followed_by (followed_by (followed_by (ch_rule_0 rt ctx)
       (ch_rule_1 rt ctx)) (ch_rule_2 rt ctx)) (ch_rule_3 ctx)) (ch_rule_4 rt ctx))
       (ch_rule_5 rt ctx)) (ch_rule_6 rt ctx)) (ch_rule_7 rt ctx)) (ch_rule_8 rt ctx))
       (ch_rule_9 rt ctx)) (ch_rule_10 rt ctx)) (ch_rule_11 ctx)) (ch_rule_12 ctx)) (ch_rule_13 rt ctx)"

end
