(* ===== verification/ChannelProps.thy ===== *)
theory ChannelProps
  imports ChannelSelector
begin

text \<open>
  Properties of the channel advisory. The loops that prohibit channels are characterised once
  (\<open>drop_fold\<close>): a fold whose step drops a channel exactly when \<open>P\<close> holds filters the eligible
  channels by \<open>P\<close>. The channels a full run recommends are then those that every gate leaves
  open (\<open>channel_open\<close>), whatever the AI context; live delivery, the compliance hold and the
  exhaustion flag follow.
\<close>

section \<open>Folds that drop channels\<close>

lemma ch_locals_simps [simp]:
  "cl_eligible (ch_step r l) = cl_eligible l" "cl_prohibited (ch_step r l) = cl_prohibited l"
  "cl_eligible (ch_codes cs l) = cl_eligible l" "cl_prohibited (ch_codes cs l) = cl_prohibited l"
  "cl_eligible (ch_suspend c l) = cl_eligible l" "cl_prohibited (ch_suspend c l) = cl_prohibited l"
  "cl_eligible (ch_exclude_suspended c l) = cl_eligible l"
  "cl_prohibited (ch_exclude_suspended c l) = cl_prohibited l"
  "cl_eligible (ch_drop c l) = remove1 c (cl_eligible l)"
  "cl_prohibited (ch_drop c l) = cl_prohibited l @ [c]"
  by (simp_all add: ch_step_def ch_codes_def ch_suspend_def ch_exclude_suspended_def ch_drop_def)

lemma ch_locals_rest [simp]:
  "cl_tb (ch_step r l) = cl_tb l" "cl_tb (ch_codes cs l) = cl_tb l" "cl_tb (ch_suspend c l) = cl_tb l"
  "cl_tb (ch_exclude_suspended c l) = cl_tb l" "cl_tb (ch_drop c l) = cl_tb l"
  "cl_scope_locked (ch_step r l) = cl_scope_locked l" "cl_scope_locked (ch_codes cs l) = cl_scope_locked l"
  "cl_scope_locked (ch_suspend c l) = cl_scope_locked l"
  "cl_scope_locked (ch_exclude_suspended c l) = cl_scope_locked l"
  "cl_scope_locked (ch_drop c l) = cl_scope_locked l"
  by (simp_all add: ch_step_def ch_codes_def ch_suspend_def ch_exclude_suspended_def ch_drop_def)

definition drops :: "(string \<Rightarrow> bool) \<Rightarrow> (string \<Rightarrow> 's \<Rightarrow> 's) \<Rightarrow> ('s \<Rightarrow> ch_locals) \<Rightarrow> bool" where
  "drops P f view \<longleftrightarrow> (\<forall>c s.
     cl_eligible (view (f c s)) = (if P c then remove1 c (cl_eligible (view s)) else cl_eligible (view s))
     \<and> cl_prohibited (view (f c s)) = cl_prohibited (view s) @ (if P c then [c] else [])
     \<and> cl_tb (view (f c s)) = cl_tb (view s)
     \<and> cl_scope_locked (view (f c s)) = cl_scope_locked (view s))"

lemma drop_fold:
  assumes "drops P f view" and "distinct (cl_eligible (view s))"
  shows "cl_eligible (view (fold f xs s)) = filter (\<lambda>c. \<not> (P c \<and> c \<in> set xs)) (cl_eligible (view s))
     \<and> cl_prohibited (view (fold f xs s)) = cl_prohibited (view s) @ filter P xs
     \<and> cl_tb (view (fold f xs s)) = cl_tb (view s)
     \<and> cl_scope_locked (view (fold f xs s)) = cl_scope_locked (view s)"
  using assms(2)
proof (induction xs arbitrary: s)
  case Nil
  then show ?case by simp
next
  case (Cons x xs)
  have d: "distinct (cl_eligible (view (f x s)))"
    using assms(1) Cons.prems by (simp add: drops_def)
  have e: "cl_eligible (view (f x s)) = filter (\<lambda>c. \<not> (P c \<and> c = x)) (cl_eligible (view s))"
    using assms(1) Cons.prems by (auto simp: drops_def distinct_remove1_removeAll removeAll_filter_not_eq
        intro!: filter_cong filter_True [symmetric])
  show ?case
    using Cons.IH [OF d] e assms(1) by (auto simp: drops_def intro!: filter_cong)
qed

lemma opt_out_drops: "drops (\<lambda>c. get_or (cp_channel_opt_out_state op) c False) (opt_out_channel op) id"
  by (simp add: drops_def opt_out_channel_def Let_def)

definition unhealthy :: "ch_operational \<Rightarrow> string \<Rightarrow> bool" where
  "unhealthy op c \<longleftrightarrow> get_or (cp_provider_health_state op) c ''HEALTHY'' = ''UNAVAILABLE''
     \<or> get_or (cp_channel_suspension_state op) c False"

lemma health_drops: "drops (unhealthy op) (health_channel op) fst"
  by (simp add: drops_def health_channel_def unhealthy_def Let_def case_prod_unfold)

lemma set_to_back [simp]: "set (to_back c xs) = set xs"
  by (auto simp: to_back_def dest: set_remove1_subset [THEN subsetD]) (metis in_set_remove1)

lemma distinct_to_back [simp]: "distinct xs \<Longrightarrow> distinct (to_back c xs)"
  by (simp add: to_back_def)

lemma set_fold_to_back [simp]: "set (fold to_back cs xs) = set xs"
  by (induction cs arbitrary: xs) auto

lemma distinct_fold_to_back [simp]: "distinct xs \<Longrightarrow> distinct (fold to_back cs xs)"
  by (induction cs arbitrary: xs) auto

lemma set_to_front [simp]: "c \<in> set xs \<Longrightarrow> set (to_front c xs) = set xs"
  by (auto simp: to_front_def dest: set_remove1_subset [THEN subsetD]) (metis in_set_remove1)

lemma distinct_to_front [simp]: "distinct xs \<Longrightarrow> distinct (to_front c xs)"
  by (simp add: to_front_def)

text \<open>The delivery-failure loop: it fails or drops the channels whose count reaches the limit.\<close>

definition too_many_failures :: "ch_operational \<Rightarrow> pyval \<Rightarrow> string \<Rightarrow> bool" where
  "too_many_failures op th c \<longleftrightarrow> (\<exists>limit. num_of th = Some limit
     \<and> fge (of_nat_num (get_or (cp_channel_delivery_failure_counts op) c 0)) limit)"

definition failure_step :: "ch_operational \<Rightarrow> pyval \<Rightarrow> string \<Rightarrow> ch_locals \<Rightarrow> ch_locals" where
  "failure_step op th c l = (if too_many_failures op th c
     then ch_codes [c @ ''_DELIVERY_FAILURE_SUSPENDED''] (ch_suspend c (ch_exclude_suspended c (ch_drop c l)))
     else l)"

lemma failure_drops: "drops (too_many_failures op th) (failure_step op th) id"
  by (simp add: drops_def failure_step_def)

lemma failure_fold_Inl [simp]: "fold (failure_channel op th) xs (Inl e) = Inl e"
  by (induction xs) (simp_all add: failure_channel_def)

lemma failure_channel_step:
  "failure_channel op th c (Inr l) = Inr l' \<Longrightarrow> l' = failure_step op th c l"
  by (cases "num_of th")
    (auto simp: failure_channel_def failure_step_def too_many_failures_def bind_res_Inr_iff cmp_num_def
      split: if_splits option.splits)

lemma failure_fold:
  "fold (failure_channel op th) xs (Inr l) = Inr l' \<Longrightarrow> l' = fold (failure_step op th) xs l"
proof (induction xs arbitrary: l)
  case Nil
  then show ?case by simp
next
  case (Cons x xs)
  show ?case
  proof (cases "failure_channel op th x (Inr l)")
    case (Inl e)
    with Cons.prems show ?thesis by simp
  next
    case (Inr l1)
    with Cons.prems Cons.IH [of l1] failure_channel_step [OF Inr] show ?thesis by simp
  qed
qed

section \<open>A full run\<close>

text \<open>The channels every gate leaves open.\<close>

definition reachable_by :: "ch_operational \<Rightarrow> string \<Rightarrow> bool" where
  "reachable_by op c \<longleftrightarrow> (if c = ''EMAIL'' then given (cp_email op) else given (cp_phone_number op))"

definition channel_open :: "channel_context \<Rightarrow> string \<Rightarrow> bool" where
  "channel_open ctx c \<longleftrightarrow> c \<in> set ALL_CHANNELS
     \<and> reachable_by (cx_operational ctx) c
     \<and> \<not> get_or (cp_channel_opt_out_state (cx_operational ctx)) c False
     \<and> \<not> unhealthy (cx_operational ctx) c
     \<and> \<not> too_many_failures (cx_operational ctx)
           (known (dict_get (cg_config_rule_set (cx_governance ctx)) ''channel_delivery_failure_suspension_threshold'')) c"

text \<open>Eligible and prohibited channels partition all channels, and \<open>Q\<close> says which are eligible.\<close>

definition parted :: "(string \<Rightarrow> bool) \<Rightarrow> ch_locals \<Rightarrow> bool" where
  "parted Q l \<longleftrightarrow> distinct (cl_eligible l) \<and> distinct (cl_prohibited l)
     \<and> (\<forall>c. c \<in> set (cl_eligible l) \<longleftrightarrow> c \<in> set ALL_CHANNELS \<and> Q c)
     \<and> (\<forall>c. c \<in> set (cl_prohibited l) \<longleftrightarrow> c \<in> set ALL_CHANNELS \<and> \<not> Q c)"

lemma parted_cong:
  "parted Q l \<Longrightarrow> cl_eligible l' = cl_eligible l \<Longrightarrow> cl_prohibited l' = cl_prohibited l \<Longrightarrow> parted Q l'"
  by (simp add: parted_def)

lemma parted_drop:
  assumes "drops P f view" and "parted Q (view s)" and "cl_eligible (view s) = xs"
  shows "parted (\<lambda>c. Q c \<and> \<not> P c) (view (fold f xs s))"
  using drop_fold [OF assms(1), of s xs] assms(2,3) by (auto simp: parted_def)

lemma emit_not [simp]:
  "ch_emit rt ctx scope p cs b br l \<noteq> Continue l'" "ch_emit rt ctx scope p cs b br l \<noteq> Raise e lg"
  by (simp_all add: ch_emit_def Let_def)

lemma ch_rule_0_Continue:
  "ch_rule_0 rt ctx = Continue l \<Longrightarrow> ch_precondition_codes (cx_governance ctx) = []
     \<and> cl_prohibited l = [] \<and> cl_scope_locked l = None \<and> cl_log l = []"
  by (auto simp: ch_rule_0_def ch_initial_def Let_def split: if_splits)

lemma ch_rule_1_Continue:
  "ch_rule_1 rt ctx l = Continue l' \<longleftrightarrow>
     cp_outreach_state (cx_operational ctx) \<noteq> Some ''CLOSED'' \<and> l' = ch_step ''RULE_1'' l"
  by (auto simp: ch_rule_1_def Let_def)

lemma ch_rule_2_Continue:
  "ch_rule_2 rt ctx l = Continue l' \<longleftrightarrow>
     \<not> cg_compliance_hold_flag (cx_governance ctx) \<and> l' = ch_step ''RULE_2'' l"
  by (auto simp: ch_rule_2_def Let_def)

lemma bound_threshold:
  "tb_t (fst (fst (ch_resolve_thresholds rules))) ''delivery_failure_suspension_threshold''
    = known (dict_get rules ''channel_delivery_failure_suspension_threshold'')"
  by (simp add: tb_t_def ch_resolve_thresholds_def ch_key_map_def Let_def dict_get_def has_key_map_of
      split: option.split)

lemma ch_rule_3_Continue:
  assumes "ch_rule_3 ctx l = Continue l'"
  shows "cl_prohibited l' = cl_prohibited l" and "cl_scope_locked l' = cl_scope_locked l"
    and "tb_t (cl_tb l') ''delivery_failure_suspension_threshold''
      = known (dict_get (cg_config_rule_set (cx_governance ctx)) ''channel_delivery_failure_suspension_threshold'')"
  using assms bound_threshold [of "cg_config_rule_set (cx_governance ctx)"]
  by (auto simp: ch_rule_3_def Let_def case_prod_unfold)

lemma ch_rule_4_Continue:
  assumes "ch_rule_4 rt ctx l = Continue l'" and "cl_prohibited l = []"
  shows "parted (reachable_by (cx_operational ctx)) l'" and "cl_tb l' = cl_tb l"
    and "cl_scope_locked l' = cl_scope_locked l"
  using assms
  by (auto simp: ch_rule_4_def Let_def parted_def reachable_by_def ALL_CHANNELS_def split: if_splits)

lemma ch_rule_5_Continue:
  assumes "ch_rule_5 rt ctx l = Continue l'"
  shows "cl_eligible l' = cl_eligible l" and "cl_prohibited l' = cl_prohibited l"
    and "cl_tb l' = cl_tb l" and "cl_scope_locked l' = cl_scope_locked l"
  using assms
  by (auto simp: ch_rule_5_def Let_def lift_res_Continue split: if_splits prod.splits)

lemma ch_rule_6_Continue:
  assumes "ch_rule_6 rt ctx l = Continue l'" and "parted Q l"
  shows "parted (\<lambda>c. Q c \<and> \<not> get_or (cp_channel_opt_out_state (cx_operational ctx)) c False) l'"
    and "cl_tb l' = cl_tb l" and "cl_scope_locked l' = cl_scope_locked l" and "cl_eligible l' \<noteq> []"
  using assms parted_drop [OF opt_out_drops, of Q "ch_step ''RULE_6'' l"]
    drop_fold [OF opt_out_drops, of "ch_step ''RULE_6'' l"]
  by (auto simp: ch_rule_6_def Let_def parted_def split: if_splits)

lemma ch_rule_7_Continue:
  assumes "ch_rule_7 rt ctx l = Continue l'" and Q: "parted Q l"
  shows "parted (\<lambda>c. Q c \<and> \<not> unhealthy (cx_operational ctx) c) l'"
    and "cl_tb l' = cl_tb l" and "cl_scope_locked l' = cl_scope_locked l" and "cl_eligible l' \<noteq> []"
proof -
  let ?op = "cx_operational ctx" and ?phs = "cp_provider_health_state (cx_operational ctx)"
  define l1 where "l1 = ch_codes (code_if (\<not> some_entries ?phs) ''PROVIDER_HEALTH_UNKNOWN'')
    ((ch_step ''RULE_7'' l)\<lparr>cl_ph := (cl_ph (ch_step ''RULE_7'' l))
      \<lparr>ph_call_provider_state := get_or ?phs ''CALL'' ''UNKNOWN'',
       ph_sms_provider_state := get_or ?phs ''SMS'' ''UNKNOWN'',
       ph_email_provider_state := get_or ?phs ''EMAIL'' ''UNKNOWN''\<rparr>\<rparr>)"
  define ld where "ld = fold (health_channel ?op) (cl_eligible l1) (l1, [])"
  have l1: "cl_eligible l1 = cl_eligible l" "cl_prohibited l1 = cl_prohibited l" "cl_tb l1 = cl_tb l"
    "cl_scope_locked l1 = cl_scope_locked l"
    by (simp_all add: l1_def)
  have p1: "parted Q l1" using Q l1 by (simp add: parted_def)
  have p2: "parted (\<lambda>c. Q c \<and> \<not> unhealthy ?op c) (fst ld)"
    unfolding ld_def using parted_drop [OF health_drops, of Q "(l1, [])"] p1 by simp
  have "distinct (cl_eligible l1)" using p1 by (simp add: parted_def)
  then have rest: "cl_tb (fst ld) = cl_tb l" "cl_scope_locked (fst ld) = cl_scope_locked l"
    unfolding ld_def using drop_fold [OF health_drops, of "(l1, [])"] l1 by simp_all
  have l': "l' = (fst ld)\<lparr>cl_eligible := fold to_back (snd ld) (cl_eligible (fst ld))\<rparr>" "cl_eligible l' \<noteq> []"
    using assms(1) unfolding ch_rule_7_def Let_def l1_def [symmetric] ld_def [symmetric]
    by (auto simp: case_prod_unfold split: if_splits)
  show "parted (\<lambda>c. Q c \<and> \<not> unhealthy ?op c) l'"
    using p2 by (simp add: l' parted_def)
  show "cl_tb l' = cl_tb l" "cl_scope_locked l' = cl_scope_locked l" "cl_eligible l' \<noteq> []"
    using rest l' by simp_all
qed

lemma ch_rule_8_Continue:
  assumes "ch_rule_8 rt ctx l = Continue l'"
  shows "cl_eligible l' = cl_eligible l" and "cl_prohibited l' = cl_prohibited l"
    and "cl_tb l' = cl_tb l" and "cl_scope_locked l' = cl_scope_locked l"
  using assms by (auto simp: ch_rule_8_def Let_def split: if_splits)

lemma ch_rule_9_Continue:
  assumes "ch_rule_9 rt ctx l = Continue l'"
  shows "cl_eligible l' = cl_eligible l" and "cl_prohibited l' = cl_prohibited l"
    and "cl_tb l' = cl_tb l"
    and "cl_scope_locked l' = (if cg_execution_type (cx_governance ctx) \<in> ch_replay_types
       then Some ''REPLAY_CHANNEL_CANDIDATE'' else cl_scope_locked l)"
    and "cg_execution_type (cx_governance ctx) \<in> ch_replay_types \<Longrightarrow> cg_execution_mode (cx_governance ctx) \<noteq> ''LIVE''"
  using assms by (auto simp: ch_rule_9_def Let_def split: if_splits)

lemma ch_rule_10_Continue:
  assumes "ch_rule_10 rt ctx l = Continue l'" and Q: "parted Q l"
  shows "parted (\<lambda>c. Q c \<and> \<not> too_many_failures (cx_operational ctx)
      (tb_t (cl_tb l) ''delivery_failure_suspension_threshold'') c) l'"
    and "cl_scope_locked l' = cl_scope_locked l" and "cl_eligible l' \<noteq> []"
proof -
  let ?op = "cx_operational ctx"
  let ?th = "tb_t (cl_tb l) ''delivery_failure_suspension_threshold''"
  define l1 where "l1 = ch_codes (code_if (\<not> some_entries (cp_channel_delivery_failure_counts ?op))
      ''DELIVERY_FAILURE_COUNTS_UNKNOWN'') (ch_step ''RULE_10'' l)"
  have l1: "cl_tb l1 = cl_tb l" "cl_scope_locked l1 = cl_scope_locked l" by (simp_all add: l1_def)
  have p1: "parted Q l1" using Q by (simp add: l1_def parted_def)
  have fold: "fold (failure_channel ?op ?th) (cl_eligible l1) (Inr l1) = Inr l'" "cl_eligible l' \<noteq> []"
    using assms(1) unfolding ch_rule_10_def Let_def l1_def [symmetric]
    by (auto simp: lift_res_Continue l1 split: if_splits)
  have l': "l' = fold (failure_step ?op ?th) (cl_eligible l1) l1" by (rule failure_fold [OF fold(1)])
  show "parted (\<lambda>c. Q c \<and> \<not> too_many_failures ?op ?th c) l'"
    unfolding l' using parted_drop [OF failure_drops, of Q l1] p1 by simp
  have "distinct (cl_eligible l1)" using p1 by (simp add: parted_def)
  then show "cl_scope_locked l' = cl_scope_locked l"
    unfolding l' using drop_fold [OF failure_drops, of l1] l1 by simp
  show "cl_eligible l' \<noteq> []" by (rule fold(2))
qed

lemma set_configured_first [simp]: "set (configured_first v xs) = set xs"
  by (cases v) simp_all

lemma distinct_configured_first [simp]: "distinct xs \<Longrightarrow> distinct (configured_first v xs)"
  by (cases v) simp_all

lemma prioritize_cases:
  assumes "prioritize_channels xs op tb = Inr (ys, pref, cs)"
  shows "(\<exists>c \<in> set xs. ys = to_front c xs) \<or> (\<exists>v. ys = configured_first v xs)"
  using assms
  by (cases "opt_cmp fge (cp_engagement_signal_score op) (tb_t tb ''call_engagement_score_threshold'')";
      cases "opt_cmp fge (cp_engagement_signal_score op) (tb_t tb ''sms_engagement_score_threshold'')";
      cases "opt_cmp fge (cp_engagement_signal_score op) (tb_t tb ''email_engagement_score_threshold'')")
    (auto simp: prioritize_channels_def Let_def split: if_split_asm)

lemma prioritize_permutes:
  assumes "prioritize_channels xs op tb = Inr (ys, pref, cs)"
  shows "set ys = set xs" and "distinct xs \<Longrightarrow> distinct ys"
  using prioritize_cases [OF assms] by auto

lemma ch_rule_11_Continue:
  assumes "ch_rule_11 ctx l = Continue l'" and "parted Q l"
  shows "parted Q l'" and "cl_scope_locked l' = cl_scope_locked l"
proof -
  obtain ys pref cs where p: "prioritize_channels (cl_eligible l) (cx_operational ctx) (cl_tb l) = Inr (ys, pref, cs)"
    and l': "l' = (ch_codes cs (ch_step ''RULE_11'' l))\<lparr>cl_eligible := ys, cl_has_pref := pref\<rparr>"
    using assms(1) by (auto simp: ch_rule_11_def Let_def lift_res_Continue)
  show "parted Q l'"
    using assms(2) prioritize_permutes [OF p] by (simp add: l' parted_def)
  show "cl_scope_locked l' = cl_scope_locked l" by (simp add: l')
qed

lemma ai_prefers_parted: "parted Q l \<Longrightarrow> c \<in> set (cl_eligible l) \<Longrightarrow> parted Q (ai_prefers ai c code l)"
  by (simp add: ai_prefers_def parted_def)

lemma ai_reordered_parted: "parted Q l \<Longrightarrow> parted Q (ai_reordered ai tier l)"
  by (simp add: ai_reordered_def ai_prefers_parted split: option.split)

lemma ai_reordered_locked: "cl_scope_locked (ai_reordered ai tier l) = cl_scope_locked l"
  by (simp add: ai_reordered_def ai_prefers_def split: option.split)

lemma parted_trivial [simp]:
  "parted Q (ch_step r l) = parted Q l" "parted Q (ch_codes cs l) = parted Q l"
  "parted Q (l\<lparr>cl_ai_out := out\<rparr>) = parted Q l"
  by (simp_all add: parted_def)

lemma ch_rule_12_Continue:
  assumes "ch_rule_12 ctx l = Continue l'" and "parted Q l"
  shows "parted Q l'" and "cl_scope_locked l' = cl_scope_locked l"
proof -
  have l': "l' = (case ch_rule_12 ctx l of Continue k \<Rightarrow> k)" using assms(1) by simp
  show "parted Q l'"
    unfolding l' ch_rule_12_def Let_def using assms(2)
    by (simp add: ai_reordered_parted)
  show "cl_scope_locked l' = cl_scope_locked l"
    unfolding l' ch_rule_12_def Let_def by (simp add: ai_reordered_locked)
qed

text \<open>What is returned: without candidates before Rule 13, with the eligible channels by it.\<close>

definition barren :: "channel_assessment \<Rightarrow> bool" where
  "barren a \<longleftrightarrow> ch_recommended_channel_candidates a = []
     \<and> ch_advisory_scope a \<notin> DELIVERY_SCOPES
     \<and> \<not> gc_live_delivery_permitted (ch_governance_constraints a)"

lemma scope_constraints_live [simp]:
  "gc_live_delivery_permitted (ch_scope_constraints gov live gc) = live"
  by (simp add: ch_scope_constraints_def Let_def)

lemma emit_Return:
  assumes "ch_emit rt ctx scope p cs b br l = Return a lg"
  shows "ch_recommended_channel_candidates a = cs" and "ch_prohibited_channels a = cl_prohibited l"
    and "ch_advisory_scope a = scope" and "ch_channel_advisory_produced a = p"
    and "gc_live_delivery_permitted (ch_governance_constraints a) \<longleftrightarrow> p \<and> scope \<in> DELIVERY_SCOPES
      \<and> cg_execution_mode (cx_governance ctx) = ''LIVE''
      \<and> cg_execution_type (cx_governance ctx) \<notin> ch_replay_types \<and> \<not> b"
    and "ch_advisory_blocked a = b" and "ch_escalation_constraints a = cl_esc l"
  using assms by (auto simp: ch_emit_def Let_def)

lemma emit_barren:
  "ch_emit rt ctx scope p [] b br l = Return a lg \<Longrightarrow>
     scope \<in> {''NONE'', ''CHANNEL_EXHAUSTED'', ''REPLAY_CHANNEL_CANDIDATE''} \<Longrightarrow> barren a"
  using emit_Return(1,3,5) [of rt ctx scope p "[]" b br l a lg]
  by (auto simp: barren_def DELIVERY_SCOPES_def)

definition lock_ok :: "ch_locals \<Rightarrow> bool" where
  "lock_ok l \<longleftrightarrow> cl_scope_locked l \<in> {None, Some ''REPLAY_CHANNEL_CANDIDATE''}"

lemma rule_0_barren: "ch_rule_0 rt ctx = Return a lg \<Longrightarrow> barren a"
  by (auto simp: ch_rule_0_def ch_initial_def barren_def DELIVERY_SCOPES_def Let_def split: if_splits)

lemma rule_1_barren: "ch_rule_1 rt ctx l = Return a lg \<Longrightarrow> barren a"
  by (auto simp: ch_rule_1_def Let_def split: if_splits intro: emit_barren)

lemma rule_2_barren: "ch_rule_2 rt ctx l = Return a lg \<Longrightarrow> barren a"
  by (auto simp: ch_rule_2_def Let_def split: if_splits intro: emit_barren)

lemma rule_4_barren: "ch_rule_4 rt ctx l = Return a lg \<Longrightarrow> barren a"
  by (simp add: ch_rule_4_def Let_def split: if_split_asm) (auto intro: emit_barren)

lemma rule_6_barren: "ch_rule_6 rt ctx l = Return a lg \<Longrightarrow> barren a"
  by (auto simp: ch_rule_6_def Let_def split: if_splits intro: emit_barren)

lemma rule_7_barren: "ch_rule_7 rt ctx l = Return a lg \<Longrightarrow> barren a"
  unfolding ch_rule_7_def Let_def case_prod_unfold
  by (simp split: if_split_asm) (auto intro: emit_barren)

lemma rule_8_barren: "ch_rule_8 rt ctx l = Return a lg \<Longrightarrow> barren a"
  by (auto simp: ch_rule_8_def Let_def split: if_splits intro: emit_barren)

lemma rule_9_barren: "ch_rule_9 rt ctx l = Return a lg \<Longrightarrow> barren a"
  unfolding ch_rule_9_def Let_def
  by (simp split: if_split_asm) (auto intro: emit_barren)

lemmas early_barren = rule_0_barren rule_1_barren rule_2_barren rule_4_barren rule_6_barren
  rule_7_barren rule_8_barren rule_9_barren

lemma rule_10_barren:
  assumes "ch_rule_10 rt ctx l = Return a lg" and "parted Q l" and "lock_ok l"
  shows "barren a"
proof -
  let ?op = "cx_operational ctx"
  let ?th = "tb_t (cl_tb l) ''delivery_failure_suspension_threshold''"
  define l1 where "l1 = ch_codes (code_if (\<not> some_entries (cp_channel_delivery_failure_counts ?op))
      ''DELIVERY_FAILURE_COUNTS_UNKNOWN'') (ch_step ''RULE_10'' l)"
  have l1: "cl_tb l1 = cl_tb l" "cl_scope_locked l1 = cl_scope_locked l" "distinct (cl_eligible l1)"
    using assms(2) by (simp_all add: l1_def parted_def)
  obtain l2 where fold: "fold (failure_channel ?op ?th) (cl_eligible l1) (Inr l1) = Inr l2"
    and ret: "ch_emit rt ctx (case cl_scope_locked l2 of None \<Rightarrow> ''CHANNEL_EXHAUSTED'' | Some s \<Rightarrow> s) True []
        False None ((ch_codes [''CHANNEL_EXHAUSTED_DELIVERY_FAILURE''] l2)\<lparr>cl_esc := (cl_esc l2)
          \<lparr>ec_escalation_recommended := True, ec_escalation_urgency := ''HIGH'',
           ec_escalation_reason_codes := [''ALL_CHANNELS_DELIVERY_FAILURE_SUSPENDED'']\<rparr>\<rparr>) = Return a lg"
    using assms(1) unfolding ch_rule_10_def Let_def l1_def [symmetric]
    by (auto simp: lift_res_Return l1 split: if_splits)
  have "cl_scope_locked l2 = cl_scope_locked l"
    using failure_fold [OF fold] drop_fold [OF failure_drops, of l1] l1 by simp
  then show ?thesis
    using assms(3) by (intro emit_barren [OF ret]) (auto simp: lock_ok_def)
qed

lemma ch_rule_3_not [simp]: "ch_rule_3 ctx l \<noteq> Return a lg"
  by (simp add: ch_rule_3_def Let_def case_prod_unfold)

lemma ch_rule_5_not [simp]: "ch_rule_5 rt ctx l \<noteq> Return a lg"
  by (auto simp: ch_rule_5_def Let_def lift_res_Return split: prod.splits)

lemma ch_rule_11_not [simp]: "ch_rule_11 ctx l \<noteq> Return a lg"
  by (auto simp: ch_rule_11_def Let_def lift_res_Return split: prod.splits)

lemma ch_rule_12_not [simp]: "ch_rule_12 ctx l \<noteq> Return a lg"
  by (simp add: ch_rule_12_def Let_def)

text \<open>The locals a run has before Rule 10, and before Rule 13.\<close>

definition chain_9 :: "runtime \<Rightarrow> channel_context \<Rightarrow> ch_outcome" where
  "chain_9 rt ctx =
     followed_by (followed_by (followed_by (followed_by (followed_by (followed_by (followed_by
     (followed_by (followed_by (ch_rule_0 rt ctx)
       (ch_rule_1 rt ctx)) (ch_rule_2 rt ctx)) (ch_rule_3 ctx)) (ch_rule_4 rt ctx))
       (ch_rule_5 rt ctx)) (ch_rule_6 rt ctx)) (ch_rule_7 rt ctx)) (ch_rule_8 rt ctx))
       (ch_rule_9 rt ctx)"

definition upto_9 :: "runtime \<Rightarrow> channel_context \<Rightarrow> ch_locals \<Rightarrow> bool" where
  "upto_9 rt ctx l9 \<longleftrightarrow> chain_9 rt ctx = Continue l9"

lemma assess_chain:
  "assess_channel_advisory rt ctx = followed_by (followed_by (followed_by (followed_by
     (chain_9 rt ctx) (ch_rule_10 rt ctx)) (ch_rule_11 ctx)) (ch_rule_12 ctx)) (ch_rule_13 rt ctx)"
  by (simp add: assess_channel_advisory_def chain_9_def)

lemma chain_9_barren: "chain_9 rt ctx = Return a lg \<Longrightarrow> barren a"
  unfolding chain_9_def followed_by_Return followed_by_Continue
  by (elim disjE exE conjE) (simp_all add: early_barren)

definition open_before_10 :: "ch_operational \<Rightarrow> string \<Rightarrow> bool" where
  "open_before_10 op c \<longleftrightarrow> (reachable_by op c \<and> \<not> get_or (cp_channel_opt_out_state op) c False)
     \<and> \<not> unhealthy op c"

lemma upto_9_state:
  assumes "upto_9 rt ctx l9"
  shows "parted (open_before_10 (cx_operational ctx)) l9" and "lock_ok l9"
    and "tb_t (cl_tb l9) ''delivery_failure_suspension_threshold''
      = known (dict_get (cg_config_rule_set (cx_governance ctx)) ''channel_delivery_failure_suspension_threshold'')"
    and "(cl_scope_locked l9 = None) = (cg_execution_type (cx_governance ctx) \<notin> ch_replay_types)"
    and "ch_precondition_codes (cx_governance ctx) = []"
    and "cp_outreach_state (cx_operational ctx) \<noteq> Some ''CLOSED''"
    and "\<not> cg_compliance_hold_flag (cx_governance ctx)"
proof -
  obtain l0 l1 l2 l3 l4 l5 l6 l7 l8 where
    r: "ch_rule_0 rt ctx = Continue l0" "ch_rule_1 rt ctx l0 = Continue l1"
      "ch_rule_2 rt ctx l1 = Continue l2" "ch_rule_3 ctx l2 = Continue l3"
      "ch_rule_4 rt ctx l3 = Continue l4" "ch_rule_5 rt ctx l4 = Continue l5"
      "ch_rule_6 rt ctx l5 = Continue l6" "ch_rule_7 rt ctx l6 = Continue l7"
      "ch_rule_8 rt ctx l7 = Continue l8" "ch_rule_9 rt ctx l8 = Continue l9"
    using assms unfolding upto_9_def chain_9_def followed_by_Continue by blast
  note c0 = ch_rule_0_Continue [OF r(1)]
  note c1 = r(2) [unfolded ch_rule_1_Continue] and c2 = r(3) [unfolded ch_rule_2_Continue]
  note c3 = ch_rule_3_Continue [OF r(4)]
  have p2: "cl_prohibited l3 = []" "cl_scope_locked l3 = None" using c0 c1 c2 c3 by simp_all
  note c4 = ch_rule_4_Continue [OF r(5) p2(1)]
  have "parted (reachable_by (cx_operational ctx)) l5"
    by (rule parted_cong [OF c4(1)]) (use ch_rule_5_Continue [OF r(6)] in simp_all)
  note c6 = ch_rule_6_Continue [OF r(7) this]
  note c7 = ch_rule_7_Continue [OF r(8) c6(1)]
  note c8 = ch_rule_8_Continue [OF r(9)] and c9 = ch_rule_9_Continue [OF r(10)]
  show "parted (open_before_10 (cx_operational ctx)) l9"
    by (rule parted_cong [OF c7(1) [folded open_before_10_def]]) (simp_all add: c8 c9)
  have lock: "cl_scope_locked l9 = (if cg_execution_type (cx_governance ctx) \<in> ch_replay_types
      then Some ''REPLAY_CHANNEL_CANDIDATE'' else None)"
    using c9(4) c8(4) c7(3) c6(3) ch_rule_5_Continue(4) [OF r(6)] c4(3) p2(2) by simp
  then show "lock_ok l9" and "(cl_scope_locked l9 = None) = (cg_execution_type (cx_governance ctx) \<notin> ch_replay_types)"
    by (simp_all add: lock_ok_def)
  show "tb_t (cl_tb l9) ''delivery_failure_suspension_threshold''
      = known (dict_get (cg_config_rule_set (cx_governance ctx)) ''channel_delivery_failure_suspension_threshold'')"
    using c3(3) c9(3) c8(3) c7(2) c6(2) ch_rule_5_Continue(3) [OF r(6)] c4(2) by simp
  show "ch_precondition_codes (cx_governance ctx) = []"
    "cp_outreach_state (cx_operational ctx) \<noteq> Some ''CLOSED''"
    "\<not> cg_compliance_hold_flag (cx_governance ctx)"
    using c0 c1 c2 by simp_all
qed

definition advised :: "runtime \<Rightarrow> channel_context \<Rightarrow> ch_locals \<Rightarrow> bool" where
  "advised rt ctx l12 \<longleftrightarrow> (\<exists>l9 l10 l11. upto_9 rt ctx l9 \<and> ch_rule_10 rt ctx l9 = Continue l10
     \<and> ch_rule_11 ctx l10 = Continue l11 \<and> ch_rule_12 ctx l11 = Continue l12)"

lemma advised_state:
  assumes "advised rt ctx l12"
  shows "parted (channel_open ctx) l12" and "cl_eligible l12 \<noteq> []" and "lock_ok l12"
    and "(cl_scope_locked l12 = None) = (cg_execution_type (cx_governance ctx) \<notin> ch_replay_types)"
proof -
  obtain l9 l10 l11 where r: "upto_9 rt ctx l9" "ch_rule_10 rt ctx l9 = Continue l10"
    "ch_rule_11 ctx l10 = Continue l11" "ch_rule_12 ctx l11 = Continue l12"
    using assms unfolding advised_def by blast
  note s9 = upto_9_state [OF r(1)]
  note c10 = ch_rule_10_Continue [OF r(2) s9(1), unfolded s9(3)]
  note c11 = ch_rule_11_Continue [OF r(3) c10(1)]
  note c12 = ch_rule_12_Continue [OF r(4) c11(1)]
  show "parted (channel_open ctx) l12"
    using c12(1) by (simp add: parted_def channel_open_def open_before_10_def conj_ac) blast?
  have "set (cl_eligible l12) = set (cl_eligible l10)"
    using c12(1) c10(1) by (auto simp: parted_def)
  then show "cl_eligible l12 \<noteq> []" using c10(3) by auto
  have "cl_scope_locked l12 = cl_scope_locked l9" using c12(2) c11(2) c10(2) by simp
  then show "lock_ok l12"
    and "(cl_scope_locked l12 = None) = (cg_execution_type (cx_governance ctx) \<notin> ch_replay_types)"
    using s9(2,4) by (simp_all add: lock_ok_def)
qed

lemma assess_cases:
  assumes "assess_channel_advisory rt ctx = Return a lg"
  obtains "chain_9 rt ctx = Return a lg"
    | l9 where "upto_9 rt ctx l9" "ch_rule_10 rt ctx l9 = Return a lg"
    | l12 where "advised rt ctx l12" "ch_rule_13 rt ctx l12 = Return a lg"
proof -
  consider "chain_9 rt ctx = Return a lg"
    | l9 where "upto_9 rt ctx l9" "ch_rule_10 rt ctx l9 = Return a lg"
    | l9 l10 l11 l12 where "upto_9 rt ctx l9" "ch_rule_10 rt ctx l9 = Continue l10"
        "ch_rule_11 ctx l10 = Continue l11" "ch_rule_12 ctx l11 = Continue l12"
        "ch_rule_13 rt ctx l12 = Return a lg"
    using assms unfolding assess_chain followed_by_Return followed_by_Continue upto_9_def
    by (elim disjE exE conjE) simp_all
  then show ?thesis
  proof cases
    case 3
    then have "advised rt ctx l12" unfolding advised_def by blast
    with 3(5) that(3) show ?thesis by blast
  qed (use that(1,2) in blast)+
qed

lemma assess_Return:
  assumes "assess_channel_advisory rt ctx = Return a lg"
  shows "barren a \<or> (\<exists>l12. advised rt ctx l12 \<and> ch_rule_13 rt ctx l12 = Return a lg)"
  using assms
proof (cases rule: assess_cases)
  case 1
  then show ?thesis using chain_9_barren by blast
next
  case 2
  then show ?thesis using rule_10_barren upto_9_state(1,2) by blast
qed blast

lemma rule_13_Return:
  assumes "ch_rule_13 rt ctx l = Return a lg"
  shows "ch_recommended_channel_candidates a = cl_eligible l"
    and "ch_prohibited_channels a = cl_prohibited l"
    and "ch_advisory_scope a = ch_final_scope l"
    and "ch_channel_advisory_produced a" and "\<not> ch_advisory_blocked a"
    and "gc_live_delivery_permitted (ch_governance_constraints a) \<longleftrightarrow>
      ch_advisory_scope a \<in> DELIVERY_SCOPES \<and> cg_execution_mode (cx_governance ctx) = ''LIVE''
      \<and> cg_execution_type (cx_governance ctx) \<notin> ch_replay_types"
  using emit_Return [OF assms [unfolded ch_rule_13_def]] by simp_all

lemma final_scope_delivers:
  assumes "parted (channel_open ctx) l" and "cl_eligible l \<noteq> []" and "lock_ok l"
  shows "ch_final_scope l \<in> DELIVERY_SCOPES \<longleftrightarrow> cl_scope_locked l = None"
proof -
  have "hd (cl_eligible l) \<in> set ALL_CHANNELS"
    using assms(1,2) by (metis hd_in_set parted_def)
  then have "hd (cl_eligible l) @ ''_PREFERRED'' \<in> DELIVERY_SCOPES"
    by (auto simp: ALL_CHANNELS_def DELIVERY_SCOPES_def)
  moreover have "''MULTI_CHANNEL_ELIGIBLE'' \<in> DELIVERY_SCOPES" by (simp add: DELIVERY_SCOPES_def)
  moreover have "''REPLAY_CHANNEL_CANDIDATE'' \<notin> DELIVERY_SCOPES" by (simp add: DELIVERY_SCOPES_def)
  ultimately show ?thesis
    using assms(3) by (auto simp: ch_final_scope_def lock_ok_def split: option.split)
qed

section \<open>The exhaustion flag\<close>

definition op_exhaustion :: "string option \<Rightarrow> ch_operational \<Rightarrow> ch_operational" where
  "op_exhaustion x op = op\<lparr>cp_channel_exhaustion_state := x\<rparr>"

definition with_exhaustion :: "string option \<Rightarrow> channel_context \<Rightarrow> channel_context" where
  "with_exhaustion x ctx = ctx\<lparr>cx_operational := op_exhaustion x (cx_operational ctx)\<rparr>"

lemma with_exhaustion_simps [simp]:
  "cx_governance (with_exhaustion x ctx) = cx_governance ctx"
  "cx_ai (with_exhaustion x ctx) = cx_ai ctx"
  "cx_operational (with_exhaustion x ctx) = op_exhaustion x (cx_operational ctx)"
  by (simp_all add: with_exhaustion_def)

lemma op_exhaustion_simps [simp]:
  "cp_email (op_exhaustion x op) = cp_email op"
  "cp_phone_number (op_exhaustion x op) = cp_phone_number op"
  "cp_outreach_state (op_exhaustion x op) = cp_outreach_state op"
  "cp_engagement_signal_score (op_exhaustion x op) = cp_engagement_signal_score op"
  "cp_provider_health_state (op_exhaustion x op) = cp_provider_health_state op"
  "cp_channel_opt_out_state (op_exhaustion x op) = cp_channel_opt_out_state op"
  "cp_channel_delivery_failure_counts (op_exhaustion x op) = cp_channel_delivery_failure_counts op"
  "cp_channel_suspension_state (op_exhaustion x op) = cp_channel_suspension_state op"
  "cp_channel_exhaustion_state (op_exhaustion x op) = x"
  by (simp_all add: op_exhaustion_def)

lemma helpers_exhaustion [simp]:
  "opt_out_channel (op_exhaustion x op) = opt_out_channel op"
  "health_channel (op_exhaustion x op) = health_channel op"
  "failure_channel (op_exhaustion x op) = failure_channel op"
  "prioritize_channels xs (op_exhaustion x op) = prioritize_channels xs op"
  unfolding fun_eq_iff opt_out_channel_def health_channel_def failure_channel_def
    prioritize_channels_def op_exhaustion_simps by simp_all

lemma emit_exhaustion [simp]: "ch_emit rt (with_exhaustion x ctx) = ch_emit rt ctx"
  unfolding ch_emit_def with_exhaustion_simps ..

lemma rules_exhaustion:
  "ch_rule_0 rt (with_exhaustion x ctx) = ch_rule_0 rt ctx"
  "ch_rule_1 rt (with_exhaustion x ctx) = ch_rule_1 rt ctx"
  "ch_rule_2 rt (with_exhaustion x ctx) = ch_rule_2 rt ctx"
  "ch_rule_3 (with_exhaustion x ctx) = ch_rule_3 ctx"
  "ch_rule_5 rt (with_exhaustion x ctx) = ch_rule_5 rt ctx"
  "ch_rule_9 rt (with_exhaustion x ctx) = ch_rule_9 rt ctx"
  "ch_rule_12 (with_exhaustion x ctx) = ch_rule_12 ctx"
  "ch_rule_13 rt (with_exhaustion x ctx) = ch_rule_13 rt ctx"
  unfolding ch_rule_0_def ch_rule_1_def ch_rule_2_def ch_rule_3_def ch_rule_5_def ch_rule_9_def
    ch_rule_12_def ch_rule_13_def with_exhaustion_simps op_exhaustion_simps emit_exhaustion
  by (rule refl)+

lemma op_rules_exhaustion:
  "ch_rule_4 rt (with_exhaustion x ctx) = ch_rule_4 rt ctx"
  "ch_rule_6 rt (with_exhaustion x ctx) = ch_rule_6 rt ctx"
  "ch_rule_7 rt (with_exhaustion x ctx) = ch_rule_7 rt ctx"
  "ch_rule_10 rt (with_exhaustion x ctx) = ch_rule_10 rt ctx"
  "ch_rule_11 (with_exhaustion x ctx) = ch_rule_11 ctx"
  unfolding ch_rule_4_def ch_rule_6_def ch_rule_7_def ch_rule_10_def ch_rule_11_def Let_def
    with_exhaustion_simps op_exhaustion_simps helpers_exhaustion emit_exhaustion
  by (rule refl)+

definition chain_7 :: "runtime \<Rightarrow> channel_context \<Rightarrow> ch_outcome" where
  "chain_7 rt ctx =
     followed_by (followed_by (followed_by (followed_by (followed_by (followed_by (followed_by
       (ch_rule_0 rt ctx)
       (ch_rule_1 rt ctx)) (ch_rule_2 rt ctx)) (ch_rule_3 ctx)) (ch_rule_4 rt ctx))
       (ch_rule_5 rt ctx)) (ch_rule_6 rt ctx)) (ch_rule_7 rt ctx)"

lemma chain_7_exhaustion: "chain_7 rt (with_exhaustion x ctx) = chain_7 rt ctx"
  unfolding chain_7_def rules_exhaustion op_rules_exhaustion ..

lemma rule_7_eligible: "ch_rule_7 rt ctx l = Continue l' \<Longrightarrow> cl_eligible l' \<noteq> []"
  unfolding ch_rule_7_def Let_def case_prod_unfold by (auto split: if_split_asm)

lemma chain_7_eligible: "chain_7 rt ctx = Continue l \<Longrightarrow> cl_eligible l \<noteq> []"
  unfolding chain_7_def followed_by_Continue using rule_7_eligible by blast

lemma rule_8_exhausted:
  "cl_eligible l \<noteq> [] \<Longrightarrow> ch_rule_8 rt (with_exhaustion (Some ''EXHAUSTED'') ctx) l
     = ch_rule_8 rt (with_exhaustion None ctx) l"
  by (simp add: ch_rule_8_def ch_step_def)

lemma chain_9_exhausted:
  "chain_9 rt (with_exhaustion (Some ''EXHAUSTED'') ctx) = chain_9 rt (with_exhaustion None ctx)"
proof -
  have chain: "chain_9 rt c = followed_by (followed_by (chain_7 rt c) (ch_rule_8 rt c)) (ch_rule_9 rt c)" for c
    by (simp add: chain_9_def chain_7_def)
  show ?thesis
  proof (cases "chain_7 rt ctx")
    case (Continue l)
    then show ?thesis
      using rule_8_exhausted [OF chain_7_eligible [OF Continue]]
      by (simp add: chain chain_7_exhaustion rules_exhaustion)
  qed (simp_all add: chain chain_7_exhaustion)
qed

section \<open>When nothing is recommended\<close>

text \<open>
  The reasons for which no channel is recommended: a governance precondition fails, the case is
  closed, a compliance hold is active, a replay lacks its source or fingerprint or asks for LIVE
  mode, or no channel is open.
\<close>

definition replay_refused :: "channel_context \<Rightarrow> bool" where
  "replay_refused ctx \<longleftrightarrow> cg_execution_type (cx_governance ctx) \<in> ch_replay_types
     \<and> (cg_execution_mode (cx_governance ctx) = ''LIVE''
        \<or> \<not> truthy (opt_get (cg_replay_context (cx_governance ctx)) ''source_artifact_id'')
        \<or> \<not> some_entries (cg_fingerprint_context (cx_governance ctx)))"

definition advisory_closed :: "channel_context \<Rightarrow> bool" where
  "advisory_closed ctx \<longleftrightarrow> ch_precondition_codes (cx_governance ctx) \<noteq> []
     \<or> cp_outreach_state (cx_operational ctx) = Some ''CLOSED''
     \<or> cg_compliance_hold_flag (cx_governance ctx) \<or> replay_refused ctx \<or> (\<forall>c. \<not> channel_open ctx c)"

lemma none_open: "(\<And>c. c \<in> set ALL_CHANNELS \<Longrightarrow> open_before_10 (cx_operational ctx) c \<Longrightarrow> False) \<Longrightarrow> advisory_closed ctx"
  by (auto simp: advisory_closed_def channel_open_def open_before_10_def)

lemma parted_empty: "parted Q l \<Longrightarrow> cl_eligible l = [] \<Longrightarrow> c \<in> set ALL_CHANNELS \<Longrightarrow> \<not> Q c"
  by (auto simp: parted_def)

lemma channel_rule_4_Return:
  assumes "ch_rule_4 rt ctx l = Return a lg" and "cl_prohibited l = []" and "c \<in> set ALL_CHANNELS"
  shows "\<not> reachable_by (cx_operational ctx) c"
  using assms by (auto simp: ch_rule_4_def Let_def reachable_by_def ALL_CHANNELS_def split: if_split_asm)

lemma channel_rule_6_Return:
  assumes "ch_rule_6 rt ctx l = Return a lg" and "parted Q l" and "c \<in> set ALL_CHANNELS"
  shows "\<not> (Q c \<and> \<not> get_or (cp_channel_opt_out_state (cx_operational ctx)) c False)"
proof -
  let ?l = "fold (opt_out_channel (cx_operational ctx)) (cl_eligible (ch_step ''RULE_6'' l)) (ch_step ''RULE_6'' l)"
  have "cl_eligible ?l = []" using assms(1) unfolding ch_rule_6_def Let_def by (simp split: if_split_asm)
  moreover have "parted (\<lambda>c. Q c \<and> \<not> get_or (cp_channel_opt_out_state (cx_operational ctx)) c False) ?l"
    using parted_drop [OF opt_out_drops, of Q "ch_step ''RULE_6'' l"] assms(2) by simp
  ultimately show ?thesis using parted_empty assms(3) by blast
qed

lemma channel_rule_7_Return:
  assumes "ch_rule_7 rt ctx l = Return a lg" and Q: "parted Q l" and "c \<in> set ALL_CHANNELS"
  shows "\<not> (Q c \<and> \<not> unhealthy (cx_operational ctx) c)"
proof -
  let ?op = "cx_operational ctx" and ?phs = "cp_provider_health_state (cx_operational ctx)"
  define l1 where "l1 = ch_codes (code_if (\<not> some_entries ?phs) ''PROVIDER_HEALTH_UNKNOWN'')
    ((ch_step ''RULE_7'' l)\<lparr>cl_ph := (cl_ph (ch_step ''RULE_7'' l))
      \<lparr>ph_call_provider_state := get_or ?phs ''CALL'' ''UNKNOWN'',
       ph_sms_provider_state := get_or ?phs ''SMS'' ''UNKNOWN'',
       ph_email_provider_state := get_or ?phs ''EMAIL'' ''UNKNOWN''\<rparr>\<rparr>)"
  define ld where "ld = fold (health_channel ?op) (cl_eligible l1) (l1, [])"
  have "parted Q l1" using Q by (simp add: l1_def parted_def)
  then have "parted (\<lambda>c. Q c \<and> \<not> unhealthy ?op c) (fst ld)"
    unfolding ld_def using parted_drop [OF health_drops, of Q "(l1, [])"] by simp
  moreover have "fold to_back (snd ld) (cl_eligible (fst ld)) = []"
    using assms(1) unfolding ch_rule_7_def Let_def l1_def [symmetric] ld_def [symmetric]
    by (simp add: case_prod_unfold split: if_split_asm)
  then have "cl_eligible (fst ld) = []" using set_fold_to_back [of "snd ld" "cl_eligible (fst ld)"] by simp
  ultimately show ?thesis using parted_empty assms(3) by blast
qed

lemma channel_rule_10_Return:
  assumes "ch_rule_10 rt ctx l = Return a lg" and Q: "parted Q l" and "c \<in> set ALL_CHANNELS"
  shows "\<not> (Q c \<and> \<not> too_many_failures (cx_operational ctx) (tb_t (cl_tb l) ''delivery_failure_suspension_threshold'') c)"
proof -
  let ?op = "cx_operational ctx"
  let ?th = "tb_t (cl_tb l) ''delivery_failure_suspension_threshold''"
  define l1 where "l1 = ch_codes (code_if (\<not> some_entries (cp_channel_delivery_failure_counts ?op))
      ''DELIVERY_FAILURE_COUNTS_UNKNOWN'') (ch_step ''RULE_10'' l)"
  have l1: "cl_tb l1 = cl_tb l" and p1: "parted Q l1" using Q by (simp_all add: l1_def parted_def)
  obtain l2 where fold: "fold (failure_channel ?op ?th) (cl_eligible l1) (Inr l1) = Inr l2" "cl_eligible l2 = []"
    using assms(1) unfolding ch_rule_10_def Let_def l1_def [symmetric]
    by (auto simp: lift_res_Return l1 split: if_split_asm)
  have "parted (\<lambda>c. Q c \<and> \<not> too_many_failures ?op ?th c) l2"
    unfolding failure_fold [OF fold(1)] using parted_drop [OF failure_drops, of Q l1] p1 by simp
  with parted_empty fold(2) assms(3) show ?thesis by blast
qed

text \<open>The locals after Rules 3, 5 and 7.\<close>

definition upto_3 :: "runtime \<Rightarrow> channel_context \<Rightarrow> ch_locals \<Rightarrow> bool" where
  "upto_3 rt ctx l3 \<longleftrightarrow> (\<exists>l0 l1 l2. ch_rule_0 rt ctx = Continue l0 \<and> ch_rule_1 rt ctx l0 = Continue l1
     \<and> ch_rule_2 rt ctx l1 = Continue l2 \<and> ch_rule_3 ctx l2 = Continue l3)"

definition upto_5 :: "runtime \<Rightarrow> channel_context \<Rightarrow> ch_locals \<Rightarrow> bool" where
  "upto_5 rt ctx l5 \<longleftrightarrow> (\<exists>l3 l4. upto_3 rt ctx l3 \<and> ch_rule_4 rt ctx l3 = Continue l4 \<and> ch_rule_5 rt ctx l4 = Continue l5)"

definition upto_7 :: "runtime \<Rightarrow> channel_context \<Rightarrow> ch_locals \<Rightarrow> bool" where
  "upto_7 rt ctx l7 \<longleftrightarrow> (\<exists>l5 l6. upto_5 rt ctx l5 \<and> ch_rule_6 rt ctx l5 = Continue l6 \<and> ch_rule_7 rt ctx l6 = Continue l7)"

lemma upto_3_state:
  assumes "upto_3 rt ctx l3"
  shows "cl_prohibited l3 = []"
proof -
  obtain l0 l1 l2 where r: "ch_rule_0 rt ctx = Continue l0" "ch_rule_1 rt ctx l0 = Continue l1"
    "ch_rule_2 rt ctx l1 = Continue l2" "ch_rule_3 ctx l2 = Continue l3"
    using assms unfolding upto_3_def by blast
  show ?thesis
    using ch_rule_0_Continue [OF r(1)] r(2,3) ch_rule_3_Continue(1) [OF r(4)]
    by (simp add: ch_rule_1_Continue ch_rule_2_Continue)
qed

lemma upto_5_state:
  assumes "upto_5 rt ctx l5"
  shows "parted (reachable_by (cx_operational ctx)) l5"
proof -
  obtain l3 l4 where r: "upto_3 rt ctx l3" "ch_rule_4 rt ctx l3 = Continue l4" "ch_rule_5 rt ctx l4 = Continue l5"
    using assms unfolding upto_5_def by blast
  from ch_rule_4_Continue(1) [OF r(2) upto_3_state [OF r(1)]] show ?thesis
    by (rule parted_cong) (use ch_rule_5_Continue [OF r(3)] in simp_all)
qed

lemma upto_7_state:
  assumes "upto_7 rt ctx l7"
  shows "parted (open_before_10 (cx_operational ctx)) l7" and "cl_eligible l7 \<noteq> []"
proof -
  obtain l5 l6 where r: "upto_5 rt ctx l5" "ch_rule_6 rt ctx l5 = Continue l6" "ch_rule_7 rt ctx l6 = Continue l7"
    using assms unfolding upto_7_def by blast
  note c7 = ch_rule_7_Continue [OF r(3) ch_rule_6_Continue(1) [OF r(2) upto_5_state [OF r(1)]]]
  from c7(1,4) show "parted (open_before_10 (cx_operational ctx)) l7" "cl_eligible l7 \<noteq> []"
    by (simp_all add: open_before_10_def [abs_def])
qed

lemma closed_0: "ch_rule_0 rt ctx = Return a lg \<Longrightarrow> advisory_closed ctx"
  by (auto simp: ch_rule_0_def advisory_closed_def Let_def split: if_split_asm)

lemma closed_1: "ch_rule_1 rt ctx l = Return a lg \<Longrightarrow> advisory_closed ctx"
  by (auto simp: ch_rule_1_def advisory_closed_def Let_def split: if_split_asm)

lemma closed_2: "ch_rule_2 rt ctx l = Return a lg \<Longrightarrow> advisory_closed ctx"
  by (auto simp: ch_rule_2_def advisory_closed_def Let_def split: if_split_asm)

lemma closed_4: "upto_3 rt ctx l \<Longrightarrow> ch_rule_4 rt ctx l = Return a lg \<Longrightarrow> advisory_closed ctx"
  by (rule none_open) (auto simp: open_before_10_def dest: channel_rule_4_Return [OF _ upto_3_state])

lemma closed_6: "upto_5 rt ctx l \<Longrightarrow> ch_rule_6 rt ctx l = Return a lg \<Longrightarrow> advisory_closed ctx"
  by (rule none_open) (auto simp: open_before_10_def dest: channel_rule_6_Return [OF _ upto_5_state])

lemma closed_7:
  "upto_5 rt ctx l \<Longrightarrow> ch_rule_6 rt ctx l = Continue l' \<Longrightarrow> ch_rule_7 rt ctx l' = Return a lg \<Longrightarrow> advisory_closed ctx"
  by (rule none_open) (auto simp: open_before_10_def dest: channel_rule_7_Return [OF _ ch_rule_6_Continue(1) [OF _ upto_5_state]])

lemma closed_8: "upto_7 rt ctx l \<Longrightarrow> ch_rule_8 rt ctx l = Return a lg \<Longrightarrow> advisory_closed ctx"
  using upto_7_state(2) by (auto simp: ch_rule_8_def Let_def split: if_split_asm)

lemma closed_9: "ch_rule_9 rt ctx l = Return a lg \<Longrightarrow> advisory_closed ctx"
  unfolding ch_rule_9_def Let_def
  by (auto simp: advisory_closed_def replay_refused_def code_if_def split: if_split_asm)

lemma replay_passed: "ch_rule_9 rt ctx l = Continue l' \<Longrightarrow> \<not> replay_refused ctx"
  unfolding ch_rule_9_def Let_def by (auto simp: replay_refused_def code_if_def split: if_split_asm)

lemma chain_9_cases:
  assumes "chain_9 rt ctx = Return a lg"
  obtains "ch_rule_0 rt ctx = Return a lg" | l where "ch_rule_1 rt ctx l = Return a lg"
    | l where "ch_rule_2 rt ctx l = Return a lg"
    | l where "upto_3 rt ctx l" "ch_rule_4 rt ctx l = Return a lg"
    | l where "upto_5 rt ctx l" "ch_rule_6 rt ctx l = Return a lg"
    | l l' where "upto_5 rt ctx l" "ch_rule_6 rt ctx l = Continue l'" "ch_rule_7 rt ctx l' = Return a lg"
    | l where "upto_7 rt ctx l" "ch_rule_8 rt ctx l = Return a lg"
    | l where "ch_rule_9 rt ctx l = Return a lg"
proof -
  define c3 where "c3 = followed_by (followed_by (followed_by (ch_rule_0 rt ctx)
    (ch_rule_1 rt ctx)) (ch_rule_2 rt ctx)) (ch_rule_3 ctx)"
  define c5 where "c5 = followed_by (followed_by c3 (ch_rule_4 rt ctx)) (ch_rule_5 rt ctx)"
  define c7 where "c7 = followed_by (followed_by c5 (ch_rule_6 rt ctx)) (ch_rule_7 rt ctx)"
  have C3: "c3 = Continue l \<Longrightarrow> upto_3 rt ctx l" for l
    unfolding c3_def followed_by_Continue upto_3_def by blast
  have C5: "c5 = Continue l \<Longrightarrow> upto_5 rt ctx l" for l
    unfolding c5_def followed_by_Continue upto_5_def using C3 by blast
  have C7: "c7 = Continue l \<Longrightarrow> upto_7 rt ctx l" for l
    unfolding c7_def followed_by_Continue upto_7_def using C5 by blast
  have chain: "chain_9 rt ctx = followed_by (followed_by c7 (ch_rule_8 rt ctx)) (ch_rule_9 rt ctx)"
    unfolding c7_def c5_def c3_def chain_9_def ..
  have R3: "c3 = Return a lg \<Longrightarrow> thesis"
    unfolding c3_def followed_by_Return using that(1-3) ch_rule_3_not by blast
  have R5: "c5 = Return a lg \<Longrightarrow> thesis"
    unfolding c5_def followed_by_Return using R3 C3 that(4) ch_rule_5_not by blast
  have R7: "c7 = Return a lg \<Longrightarrow> thesis"
    unfolding c7_def followed_by_Return followed_by_Continue using R5 C5 that(5,6) by blast
  from assms show thesis
    unfolding chain followed_by_Return using R7 C7 that(7,8) by blast
qed

lemma chain_9_closed:
  assumes "chain_9 rt ctx = Return a lg"
  shows "advisory_closed ctx"
  using assms
  by (cases rule: chain_9_cases)
    (fact closed_0 | erule closed_1 closed_2 closed_9 | erule (1) closed_4 closed_6 closed_8 | erule (2) closed_7)+

lemma closed_10:
  assumes "upto_9 rt ctx l" and "ch_rule_10 rt ctx l = Return a lg"
  shows "advisory_closed ctx"
  using channel_rule_10_Return [OF assms(2) upto_9_state(1) [OF assms(1)], unfolded upto_9_state(3) [OF assms(1)]]
  by (auto simp: advisory_closed_def channel_open_def open_before_10_def)

lemma advised_open:
  assumes "advised rt ctx l"
  shows "\<not> advisory_closed ctx"
proof -
  obtain l9 where l9: "upto_9 rt ctx l9" using assms unfolding advised_def by blast
  then obtain l8 where "ch_rule_9 rt ctx l8 = Continue l9"
    unfolding upto_9_def chain_9_def followed_by_Continue by blast
  then have "\<not> replay_refused ctx" by (rule replay_passed)
  moreover obtain c where "c \<in> set (cl_eligible l)" using advised_state(2) [OF assms] by (cases "cl_eligible l") auto
  then have "channel_open ctx c" using advised_state(1) [OF assms] by (auto simp: parted_def)
  ultimately show ?thesis using upto_9_state(5-7) [OF l9] by (auto simp: advisory_closed_def)
qed

lemma assess_closed:
  assumes "assess_channel_advisory rt ctx = Return a lg"
  shows "(advisory_closed ctx \<and> barren a) \<or> (\<exists>l. advised rt ctx l \<and> ch_rule_13 rt ctx l = Return a lg)"
  using assms
proof (cases rule: assess_cases)
  case 1
  then show ?thesis using chain_9_closed chain_9_barren by blast
next
  case 2
  then show ?thesis using closed_10 rule_10_barren upto_9_state(1,2) by blast
qed blast

section \<open>Properties\<close>

text \<open>
  C4. Which channels are recommended: none exactly when a precondition fails, the case is closed,
  a hold is active, a replay is refused or no channel is open, and then the scope is no delivery
  scope and live delivery is not permitted. Otherwise they are exactly the channels with contact
  data, no opt-out, a provider that is neither unavailable nor suspended, and fewer delivery failures
  than the configured limit, each once, and the prohibited channels are exactly the others. So the AI
  context and the engagement score only change the order.
\<close>

theorem recommended_channels_open:
  assumes "assess_channel_advisory rt ctx = Return a lg"
  shows "(ch_recommended_channel_candidates a = [] \<longleftrightarrow> advisory_closed ctx)
    \<and> (if advisory_closed ctx
       then ch_advisory_scope a \<notin> DELIVERY_SCOPES \<and> \<not> gc_live_delivery_permitted (ch_governance_constraints a)
       else set (ch_recommended_channel_candidates a) = {c. channel_open ctx c}
         \<and> set (ch_prohibited_channels a) = set ALL_CHANNELS - {c. channel_open ctx c}
         \<and> distinct (ch_recommended_channel_candidates a) \<and> distinct (ch_prohibited_channels a))"
  using assess_closed [OF assms]
proof (elim disjE exE conjE)
  assume "advisory_closed ctx" "barren a"
  then show ?thesis by (simp add: barren_def)
next
  fix l assume l: "advised rt ctx l" "ch_rule_13 rt ctx l = Return a lg"
  then show ?thesis
    using advised_open [OF l(1)] advised_state(1,2) [OF l(1)] rule_13_Return(1,2) [OF l(2)]
    by (auto simp: parted_def channel_open_def)
qed

definition sample_channel_context :: channel_context where
  "sample_channel_context =
    \<lparr>cx_governance = \<lparr>cg_config_version_id = Some ''cfg-1'', cg_config_version_status = ''ACTIVE'',
        cg_config_rule_set = [(''sms_engagement_score_threshold'', VInt 2)], cg_execution_mode = ''LIVE'',
        cg_execution_type = ''original'', cg_correlation_id = Some ''corr-1'', cg_causation_id = None,
        cg_attribution_context = [(''origin_source'', VStr ''scheduler''), (''origin_authority'', VStr ''system''),
          (''actor_identity'', VStr ''job''), (''attribution_timestamp'', VStr ''2026-01-05'')],
        cg_fingerprint_context = None, cg_idempotency_key = None, cg_compliance_hold_flag = False,
        cg_replay_context = None\<rparr>,
     cx_operational = \<lparr>cp_email = Some ''s@example.org'', cp_phone_number = Some ''555'', cp_access_state = None,
        cp_outreach_state = None, cp_engagement_signal_score = Some (Fin 3),
        cp_provider_health_state = None, cp_channel_opt_out_state = Some [(''CALL'', True)],
        cp_channel_delivery_failure_counts = None, cp_channel_suspension_state = None,
        cp_channel_exhaustion_state = None\<rparr>,
     cx_ai = \<lparr>ca_ai_insight_state = None, ca_ai_confidence_score = None, ca_ai_stale_flag = False,
        ca_ai_finalized_copy = False, ca_ai_channel_preference_signal = None, ca_ai_generated_at = None\<rparr>\<rparr>"

definition advised_channels :: "ch_outcome \<Rightarrow> string list option" where
  "advised_channels m = (case m of Return a lg \<Rightarrow> Some (ch_recommended_channel_candidates a) | _ \<Rightarrow> None)"

lemma advised_channelsD:
  "advised_channels m = Some cs \<Longrightarrow> \<exists>a lg. m = Return a lg \<and> ch_recommended_channel_candidates a = cs"
  by (auto simp: advised_channels_def split: outcome.splits)

lemma sample_channels:
  "advised_channels (assess_channel_advisory (sample_runtime 0) sample_channel_context) = Some [''SMS'', ''EMAIL'']"
  by code_simp

theorem recommended_channels_open_witness:
  "{c. channel_open sample_channel_context c} = {''SMS'', ''EMAIL''} \<and> \<not> advisory_closed sample_channel_context"
proof -
  obtain a lg where a: "assess_channel_advisory (sample_runtime 0) sample_channel_context = Return a lg"
    "ch_recommended_channel_candidates a = [''SMS'', ''EMAIL'']"
    using advised_channelsD [OF sample_channels] by blast
  from recommended_channels_open [OF a(1)] a(2) show ?thesis by (simp split: if_split_asm)
qed

text \<open>
  When live delivery is permitted: exactly when the advisory recommends a channel in LIVE
  mode outside replay and regeneration. Then Rule 0 passed, no compliance hold is active and the
  case is not closed.
\<close>

theorem live_delivery_permitted_iff:
  assumes "assess_channel_advisory rt ctx = Return a lg"
  shows "(gc_live_delivery_permitted (ch_governance_constraints a) \<longleftrightarrow>
      ch_recommended_channel_candidates a \<noteq> []
      \<and> cg_execution_mode (cx_governance ctx) = ''LIVE''
      \<and> cg_execution_type (cx_governance ctx) \<notin> ch_replay_types)
    \<and> (gc_live_delivery_permitted (ch_governance_constraints a) \<longrightarrow>
      ch_precondition_codes (cx_governance ctx) = []
      \<and> \<not> cg_compliance_hold_flag (cx_governance ctx)
      \<and> cp_outreach_state (cx_operational ctx) \<noteq> Some ''CLOSED'')"
proof (cases "barren a")
  case True
  then show ?thesis by (simp add: barren_def)
next
  case False
  then obtain l where l: "advised rt ctx l" "ch_rule_13 rt ctx l = Return a lg"
    using assess_Return [OF assms] by blast
  from l(1) obtain l9 where l9: "upto_9 rt ctx l9" unfolding advised_def by blast
  have "ch_advisory_scope a \<in> DELIVERY_SCOPES \<longleftrightarrow> cg_execution_type (cx_governance ctx) \<notin> ch_replay_types"
    using final_scope_delivers [OF advised_state(1-3) [OF l(1)]] advised_state(4) [OF l(1)]
      rule_13_Return(3) [OF l(2)] by simp
  then show ?thesis
    using rule_13_Return(1,6) [OF l(2)] advised_state(2) [OF l(1)] upto_9_state(5-7) [OF l9] by auto
qed

theorem live_delivery_permitted_iff_witness:
  "\<exists>a lg. assess_channel_advisory (sample_runtime 0) sample_channel_context = Return a lg
     \<and> gc_live_delivery_permitted (ch_governance_constraints a)"
proof -
  obtain a lg where a: "assess_channel_advisory (sample_runtime 0) sample_channel_context = Return a lg"
    "ch_recommended_channel_candidates a = [''SMS'', ''EMAIL'']"
    using advised_channelsD [OF sample_channels] by blast
  with live_delivery_permitted_iff [OF a(1)] show ?thesis
    by (auto simp: sample_channel_context_def ch_replay_types_def)
qed

text \<open>
  The reported exhaustion of the channels never stops an advisory: Rule 8 is only reached
  with eligible channels left, so an advisory with the state EXHAUSTED is the one with no
  exhaustion state at all, down to its reason codes and log lines.
\<close>

theorem exhausted_state_ignored:
  "assess_channel_advisory rt (with_exhaustion (Some ''EXHAUSTED'') ctx)
    = assess_channel_advisory rt (with_exhaustion None ctx)"
  unfolding assess_chain chain_9_exhausted rules_exhaustion op_rules_exhaustion ..

text \<open>
  Under a compliance hold every channel is prohibited, none is recommended, live delivery is
  not permitted and a critical escalation is recommended, in every mode (original evaluations of
  a case that is not closed, Rule 0 passed).
\<close>

theorem hold_prohibits_all_channels:
  assumes "ch_precondition_codes (cx_governance ctx) = []"
    and "cp_outreach_state (cx_operational ctx) \<noteq> Some ''CLOSED''"
    and "cg_compliance_hold_flag (cx_governance ctx)"
  shows "\<exists>a lg. assess_channel_advisory rt ctx = Return a lg
    \<and> ch_prohibited_channels a = ALL_CHANNELS \<and> ch_recommended_channel_candidates a = []
    \<and> \<not> gc_live_delivery_permitted (ch_governance_constraints a)
    \<and> ec_escalation_urgency (ch_escalation_constraints a) = ''CRITICAL''"
proof -
  obtain l where l: "ch_rule_0 rt ctx = Continue l" "cl_prohibited l = []"
    using assms(1) by (simp add: ch_rule_0_def ch_initial_def Let_def)
  show ?thesis
    using assms l
    by (simp add: assess_channel_advisory_def ch_rule_1_def ch_rule_2_def ch_emit_def
        ch_escalation_def DELIVERY_SCOPES_def ch_step_def ch_codes_def Let_def)
qed

theorem hold_prohibits_all_channels_witness:
  "\<exists>a lg. assess_channel_advisory (sample_runtime 0) (sample_channel_context\<lparr>cx_governance :=
      (cx_governance sample_channel_context)\<lparr>cg_compliance_hold_flag := True\<rparr>\<rparr>) = Return a lg
     \<and> ch_prohibited_channels a = ALL_CHANNELS"
  using hold_prohibits_all_channels [of "sample_channel_context\<lparr>cx_governance :=
      (cx_governance sample_channel_context)\<lparr>cg_compliance_hold_flag := True\<rparr>\<rparr>" "sample_runtime 0"]
  by (auto simp: ch_precondition_codes_def sample_channel_context_def attribution_ok_def
      ch_required_attribution_def ch_replay_types_def)

end
