(* ===== verification/IdempotentService.thy ===== *)
theory IdempotentService
  imports Prelude
begin

text \<open>
  The contract the advisory services share, as a locale: a service call may only add its own
  idempotency key to the in-memory key set, refuses an original execution whose key is in it,
  registers the key of an accepted original execution, and appends to its log. Each service
  module of the model interprets it; \<open>accepted_once\<close> gives every one of them at most one accepted
  original execution per key over any sequence of calls. \<open>strict_idempotent_service\<close> is the
  contract of the services that check the key before anything else, replays included: after an
  accepted call every later call with its key is refused.
\<close>

locale idempotent_service =
  fixes serve :: "'ctx \<Rightarrow> store \<Rightarrow> 'out \<times> store"
    and key :: "'ctx \<Rightarrow> string option"
    and original :: "'ctx \<Rightarrow> bool"
    and refused :: "'out \<Rightarrow> bool"
  assumes keeps: "keys s \<subseteq> keys (snd (serve c s))"
    and adds_own: "keys (snd (serve c s)) \<subseteq> keys s \<union> (if given (key c) then {the (key c)} else {})"
    and registers: "original c \<Longrightarrow> given (key c) \<Longrightarrow> \<not> refused (fst (serve c s)) \<Longrightarrow>
      the (key c) \<in> keys (snd (serve c s))"
    and refuses: "original c \<Longrightarrow> given (key c) \<Longrightarrow> the (key c) \<in> keys s \<Longrightarrow>
      refused (fst (serve c s))"
    and appends_log: "\<exists>new. events (snd (serve c s)) = events s @ new"
begin

fun serve_all :: "'ctx list \<Rightarrow> store \<Rightarrow> 'out list \<times> store" where
  "serve_all [] s = ([], s)"
| "serve_all (c # cs) s =
    (let (r, s1) = serve c s; (rs, s2) = serve_all cs s1 in (r # rs, s2))"

definition accepted :: "string \<Rightarrow> 'ctx \<times> 'out \<Rightarrow> bool" where
  "accepted k x \<longleftrightarrow> original (fst x) \<and> key (fst x) = Some k \<and> k \<noteq> [] \<and> \<not> refused (snd x)"

lemma serve_all_keeps: "keys s \<subseteq> keys (snd (serve_all cs s))"
proof (induction cs arbitrary: s)
  case (Cons c cs)
  show ?case
    using keeps [of s c] Cons.IH [of "snd (serve c s)"] by (simp add: Let_def case_prod_unfold)
qed simp

lemma none_accepted_after:
  "k \<in> keys s \<Longrightarrow> filter (accepted k) (zip cs (fst (serve_all cs s))) = []"
proof (induction cs arbitrary: s)
  case (Cons c cs)
  have "k \<in> keys (snd (serve c s))" using Cons.prems keeps by blast
  then have tail: "filter (accepted k) (zip cs (fst (serve_all cs (snd (serve c s))))) = []"
    by (rule Cons.IH)
  have "\<not> accepted k (c, fst (serve c s))"
    using refuses [of c s] Cons.prems unfolding accepted_def by fastforce
  with tail show ?case by (simp add: Let_def case_prod_unfold)
qed simp

lemma accepted_once: "length (filter (accepted k) (zip cs (fst (serve_all cs s)))) \<le> 1"
proof (induction cs arbitrary: s)
  case (Cons c cs)
  show ?case
  proof (cases "accepted k (c, fst (serve c s))")
    case True
    then have "k \<in> keys (snd (serve c s))"
      using registers [of c s] unfolding accepted_def by fastforce
    from none_accepted_after [OF this] show ?thesis
      by (simp add: Let_def case_prod_unfold)
  next
    case False
    with Cons.IH [of "snd (serve c s)"] show ?thesis by (simp add: Let_def case_prod_unfold)
  qed
qed simp

lemma serve_all_log: "\<exists>new. events (snd (serve_all cs s)) = events s @ new"
proof (induction cs arbitrary: s)
  case (Cons c cs)
  obtain n1 where "events (snd (serve c s)) = events s @ n1" using appends_log by blast
  moreover obtain n2 where "events (snd (serve_all cs (snd (serve c s)))) = events (snd (serve c s)) @ n2"
    using Cons.IH by blast
  ultimately show ?case by (simp add: Let_def case_prod_unfold)
qed simp

end

locale strict_idempotent_service = idempotent_service +
  assumes refuses_all: "given (key c) \<Longrightarrow> the (key c) \<in> keys s \<Longrightarrow> refused (fst (serve c s))"
begin

lemma serve_all_length [simp]: "length (fst (serve_all cs s)) = length cs"
  by (induction cs arbitrary: s) (simp_all add: Let_def case_prod_unfold)

lemma refused_with_known_key:
  "k \<in> keys s \<Longrightarrow> k \<noteq> [] \<Longrightarrow> j < length cs \<Longrightarrow> key (cs ! j) = Some k \<Longrightarrow>
    refused (fst (serve_all cs s) ! j)"
proof (induction cs arbitrary: s j)
  case (Cons c cs)
  have "k \<in> keys (snd (serve c s))" using Cons.prems(1) keeps by blast
  with Cons show ?case
    using refuses_all [of c s] by (cases j) (simp_all add: Let_def case_prod_unfold)
qed simp

lemma refused_after_accepted:
  "i < j \<Longrightarrow> j < length cs \<Longrightarrow> accepted k (cs ! i, fst (serve_all cs s) ! i) \<Longrightarrow>
    key (cs ! j) = Some k \<Longrightarrow> refused (fst (serve_all cs s) ! j)"
proof (induction cs arbitrary: s i j)
  case (Cons c cs)
  obtain j' where j: "j = Suc j'" using Cons.prems(1) by (cases j) auto
  show ?case
  proof (cases i)
    case 0
    with Cons.prems(3) have acc: "accepted k (c, fst (serve c s))"
      by (simp add: Let_def case_prod_unfold)
    then have "k \<in> keys (snd (serve c s))" and "k \<noteq> []"
      using registers [of c s] unfolding accepted_def by fastforce+
    from refused_with_known_key [OF this, of j' cs] Cons.prems j show ?thesis
      by (simp add: Let_def case_prod_unfold)
  next
    case (Suc i')
    with Cons.IH [of i' j' "snd (serve c s)"] Cons.prems j show ?thesis
      by (simp add: Let_def case_prod_unfold)
  qed
qed simp

end

end
