(* ===== verification/Priority.thy ===== *)
theory Priority
  imports IdempotentService
begin

text \<open>
  The prioritization advisory, \<^verbatim>\<open>app/services/_priority_types.py\<close>,
  \<^verbatim>\<open>_priority_helpers.py\<close> and \<^verbatim>\<open>priority.py\<close>: context and record, the
  precondition gate with the in-memory key set, threshold resolution, AI tier, the scoring
  factors, the aggregation and its AI adjustment, the four record factories with their log line,
  the assessment, and the two display helpers. The service is an instance of
  \<open>strict_idempotent_service\<close>.
\<close>

section \<open>Input and output\<close>

definition pri_required_attribution :: "string list" where
  "pri_required_attribution = [''origin_source'', ''origin_authority'', ''actor_identity'']"

definition pri_execution_modes :: "string set" where
  "pri_execution_modes = {''SHADOW'', ''LIVE''}"

definition pri_execution_types :: "string set" where
  "pri_execution_types = {''original'', ''replay'', ''regeneration'', ''recovery''}"

definition pri_replay_types :: "string set" where
  "pri_replay_types = {''replay'', ''regeneration''}"

definition PRIORITY_LEVELS :: "string list" where
  "PRIORITY_LEVELS = [''CRITICAL'', ''HIGH'', ''MEDIUM'', ''LOW'']"

definition AI_UPWARD_RECOMMENDATIONS :: "string set" where
  "AI_UPWARD_RECOMMENDATIONS = {''MEETING'', ''OUTREACH'', ''RESOURCE_DELIVERY''}"

definition pri_threshold_keys :: "string list" where
  "pri_threshold_keys =
    [''hws_behind_high_risk_threshold'', ''hws_behind_moderate_threshold'',
     ''avg_eff_rating_low_risk_threshold'', ''last_activity_high_risk_days'',
     ''last_activity_moderate_days'', ''payment_balance_risk_threshold'',
     ''prior_escalation_repeat_threshold'', ''ai_insight_ttl_hours'']"

record priority_context =
  pi_config_version_id :: "string option"
  pi_execution_mode :: string
  pi_execution_type :: string
  pi_correlation_id :: "string option"
  pi_config_rule_set :: "pydict option"
  pi_causation_id :: "string option"
  pi_orchestration_cycle_id :: "string option"
  pi_idempotency_key :: "string option"
  pi_maintenance_mode_active :: bool
  pi_origin_source :: "string option"
  pi_origin_authority :: "string option"
  pi_actor_identity :: "string option"
  pi_attribution_timestamp :: "string option"
  pi_upstream_correlation_id :: "string option"
  pi_hws_behind :: "int option"
  pi_avg_eff_rating :: "pyfloat option"
  pi_last_activity_days :: "int option"
  pi_payment_balance :: "pyfloat option"
  pi_access_last_changed_days :: "int option"
  pi_historical_risk_trend :: "string option"
  pi_prior_escalation_count :: "int option"
  pi_ai_insight_state :: "string option"
  pi_ai_confidence_score :: "pyfloat option"
  pi_ai_recommended_intervention :: "string option"
  pi_ai_stale_flag :: "bool option"
  pi_ai_finalized_copy :: bool
  pi_source_artifact_id :: "string option"
  pi_historical_config_version_id :: "string option"
  pi_execution_state_before :: "string option"
  pi_execution_state_after :: "string option"
  pi_student_id_opaque :: "string option"

record scoring_factor =
  sf_factor :: string
  sf_contribution :: string
  sf_threshold_key :: string
  sf_value :: pyval

record priority_record =
  po_advisory_priority :: string
  po_governance_scope :: string
  po_assessment_basis :: string
  po_is_replay :: bool
  po_live_effects_suppressed :: bool
  po_origin_source :: "string option"
  po_origin_authority :: "string option"
  po_actor_identity :: "string option"
  po_attribution_timestamp :: "string option"
  po_upstream_correlation_id :: "string option"
  po_config_version_id :: "string option"
  po_historical_config_version_id :: "string option"
  po_threshold_bindings :: pydict
  po_event_id :: string
  po_correlation_id :: "string option"
  po_causation_id :: "string option"
  po_orchestration_cycle_id :: "string option"
  po_execution_type :: string
  po_execution_mode :: string
  po_rule_path_taken :: "string list"
  po_duration_ms :: int
  po_outcome :: string
  po_error_class :: "string option"
  po_scoring_factors :: "scoring_factor list"
  po_risk_contributions :: "string list"
  po_ai_governance_tier :: string
  po_ai_confidence_score :: "pyfloat option"
  po_ai_priority_adjustment_applied :: bool
  po_ai_fallback_applied :: bool
  po_execution_state_before :: "string option"
  po_execution_state_after :: "string option"
  po_causation_chain_preserved :: bool
  po_append_only_enforced :: bool
  po_replay_lineage_preserved :: bool
  po_scoring_lineage_immutable :: bool
  po_scoring_emit_authorized :: bool
  po_degraded :: bool
  po_degradation_flags :: "string list"
  po_degradation_cause :: "string option"
  po_reason_codes :: "string list"
  po_orchestration_blocked :: bool
  po_blocking_reason :: "string option"
  po_orchestration_continues :: bool

section \<open>Record factories and log line\<close>

definition unknown_bindings :: pydict where
  "unknown_bindings = map (\<lambda>k. (k, VStr UNKNOWN_V0)) pri_threshold_keys"

definition make_blocked_priority_record ::
  "runtime \<Rightarrow> priority_context \<Rightarrow> string list \<Rightarrow> string list \<Rightarrow> string option \<Rightarrow> priority_record" where
  "make_blocked_priority_record rt ctx codes rule_path blocking_reason =
    \<lparr>po_advisory_priority = ''UNKNOWN'', po_governance_scope = ''UNAVAILABLE'',
     po_assessment_basis = ''RULE_BASED'',
     po_is_replay = (pi_execution_type ctx \<in> pri_replay_types),
     po_live_effects_suppressed = True,
     po_origin_source = pi_origin_source ctx, po_origin_authority = pi_origin_authority ctx,
     po_actor_identity = pi_actor_identity ctx,
     po_attribution_timestamp = pi_attribution_timestamp ctx,
     po_upstream_correlation_id = pi_upstream_correlation_id ctx,
     po_config_version_id = pi_config_version_id ctx,
     po_historical_config_version_id = pi_historical_config_version_id ctx,
     po_threshold_bindings = unknown_bindings, po_event_id = rt_uuid rt,
     po_correlation_id = pi_correlation_id ctx, po_causation_id = pi_causation_id ctx,
     po_orchestration_cycle_id = pi_orchestration_cycle_id ctx,
     po_execution_type = pi_execution_type ctx, po_execution_mode = pi_execution_mode ctx,
     po_rule_path_taken = rule_path, po_duration_ms = rt_duration_ms rt,
     po_outcome = ''failure'', po_error_class = Some ''GovernancePreconditionError'',
     po_scoring_factors = [], po_risk_contributions = [],
     po_ai_governance_tier = ''UNAVAILABLE'', po_ai_confidence_score = pi_ai_confidence_score ctx,
     po_ai_priority_adjustment_applied = False, po_ai_fallback_applied = False,
     po_execution_state_before = pi_execution_state_before ctx,
     po_execution_state_after = pi_execution_state_after ctx,
     po_causation_chain_preserved = given (pi_causation_id ctx),
     po_append_only_enforced = True, po_replay_lineage_preserved = True,
     po_scoring_lineage_immutable = True, po_scoring_emit_authorized = False,
     po_degraded = False, po_degradation_flags = [], po_degradation_cause = None,
     po_reason_codes = codes, po_orchestration_blocked = True,
     po_blocking_reason = blocking_reason, po_orchestration_continues = False\<rparr>"

definition make_maintenance_priority_record ::
  "runtime \<Rightarrow> priority_context \<Rightarrow> string list \<Rightarrow> string list \<Rightarrow> priority_record" where
  "make_maintenance_priority_record rt ctx codes rule_path =
    \<lparr>po_advisory_priority = ''UNKNOWN'', po_governance_scope = ''MAINTENANCE'',
     po_assessment_basis = ''RULE_BASED'', po_is_replay = False,
     po_live_effects_suppressed = True,
     po_origin_source = pi_origin_source ctx, po_origin_authority = pi_origin_authority ctx,
     po_actor_identity = pi_actor_identity ctx,
     po_attribution_timestamp = pi_attribution_timestamp ctx,
     po_upstream_correlation_id = pi_upstream_correlation_id ctx,
     po_config_version_id = pi_config_version_id ctx,
     po_historical_config_version_id = None,
     po_threshold_bindings = unknown_bindings, po_event_id = rt_uuid rt,
     po_correlation_id = pi_correlation_id ctx, po_causation_id = pi_causation_id ctx,
     po_orchestration_cycle_id = pi_orchestration_cycle_id ctx,
     po_execution_type = pi_execution_type ctx, po_execution_mode = pi_execution_mode ctx,
     po_rule_path_taken = rule_path, po_duration_ms = rt_duration_ms rt,
     po_outcome = ''success'', po_error_class = None,
     po_scoring_factors = [], po_risk_contributions = [],
     po_ai_governance_tier = ''UNAVAILABLE'', po_ai_confidence_score = pi_ai_confidence_score ctx,
     po_ai_priority_adjustment_applied = False, po_ai_fallback_applied = False,
     po_execution_state_before = pi_execution_state_before ctx,
     po_execution_state_after = pi_execution_state_after ctx,
     po_causation_chain_preserved = given (pi_causation_id ctx),
     po_append_only_enforced = True, po_replay_lineage_preserved = True,
     po_scoring_lineage_immutable = True, po_scoring_emit_authorized = False,
     po_degraded = False, po_degradation_flags = [], po_degradation_cause = None,
     po_reason_codes = codes, po_orchestration_blocked = False,
     po_blocking_reason = None, po_orchestration_continues = False\<rparr>"

definition make_replay_priority_record ::
  "runtime \<Rightarrow> priority_context \<Rightarrow> string list \<Rightarrow> string list \<Rightarrow> pydict \<Rightarrow> priority_record" where
  "make_replay_priority_record rt ctx codes rule_path threshold_bindings =
    (let source_missing = \<not> given (pi_source_artifact_id ctx)
     in \<lparr>po_advisory_priority = ''UNKNOWN'', po_governance_scope = ''REPLAY_ONLY'',
         po_assessment_basis = ''HISTORICAL_REPLAY'', po_is_replay = True,
         po_live_effects_suppressed = True,
         po_origin_source = pi_origin_source ctx, po_origin_authority = pi_origin_authority ctx,
         po_actor_identity = pi_actor_identity ctx,
         po_attribution_timestamp = pi_attribution_timestamp ctx,
         po_upstream_correlation_id = pi_upstream_correlation_id ctx,
         po_config_version_id = pi_config_version_id ctx,
         po_historical_config_version_id = pi_historical_config_version_id ctx,
         po_threshold_bindings = threshold_bindings, po_event_id = rt_uuid rt,
         po_correlation_id = pi_correlation_id ctx, po_causation_id = pi_causation_id ctx,
         po_orchestration_cycle_id = pi_orchestration_cycle_id ctx,
         po_execution_type = pi_execution_type ctx, po_execution_mode = pi_execution_mode ctx,
         po_rule_path_taken = rule_path, po_duration_ms = rt_duration_ms rt,
         po_outcome = (if source_missing then ''degraded'' else ''success''),
         po_error_class = None, po_scoring_factors = [], po_risk_contributions = [],
         po_ai_governance_tier = ''UNAVAILABLE'',
         po_ai_confidence_score = pi_ai_confidence_score ctx,
         po_ai_priority_adjustment_applied = False, po_ai_fallback_applied = False,
         po_execution_state_before = pi_execution_state_before ctx,
         po_execution_state_after = pi_execution_state_after ctx,
         po_causation_chain_preserved = given (pi_causation_id ctx),
         po_append_only_enforced = True, po_replay_lineage_preserved = True,
         po_scoring_lineage_immutable = True, po_scoring_emit_authorized = False,
         po_degraded = source_missing,
         po_degradation_flags =
           (if source_missing then [''REPLAY_SOURCE_ARTIFACT_MISSING''] else []),
         po_degradation_cause =
           (if source_missing then Some ''REPLAY_SOURCE_ARTIFACT_MISSING'' else None),
         po_reason_codes = codes, po_orchestration_blocked = False,
         po_blocking_reason = None, po_orchestration_continues = True\<rparr>)"

definition make_priority_record ::
  "runtime \<Rightarrow> priority_context \<Rightarrow> string list \<Rightarrow> string list \<Rightarrow> pydict \<Rightarrow> string \<Rightarrow> string \<Rightarrow> string
   \<Rightarrow> scoring_factor list \<Rightarrow> string list \<Rightarrow> string \<Rightarrow> bool \<Rightarrow> bool \<Rightarrow> bool \<Rightarrow> string list
   \<Rightarrow> string option \<Rightarrow> string \<Rightarrow> bool \<Rightarrow> priority_record" where
  "make_priority_record rt ctx codes rule_path threshold_bindings advisory_priority
     governance_scope assessment_basis scoring_factors risk_contributions ai_tier
     ai_adjustment_applied ai_fallback_applied degraded degradation_flags degradation_cause
     outcome scoring_emit_authorized =
    \<lparr>po_advisory_priority = advisory_priority, po_governance_scope = governance_scope,
     po_assessment_basis = assessment_basis, po_is_replay = False,
     po_live_effects_suppressed = (governance_scope \<noteq> ''AUTHORIZED''),
     po_origin_source = pi_origin_source ctx, po_origin_authority = pi_origin_authority ctx,
     po_actor_identity = pi_actor_identity ctx,
     po_attribution_timestamp = pi_attribution_timestamp ctx,
     po_upstream_correlation_id = pi_upstream_correlation_id ctx,
     po_config_version_id = pi_config_version_id ctx,
     po_historical_config_version_id = pi_historical_config_version_id ctx,
     po_threshold_bindings = threshold_bindings, po_event_id = rt_uuid rt,
     po_correlation_id = pi_correlation_id ctx, po_causation_id = pi_causation_id ctx,
     po_orchestration_cycle_id = pi_orchestration_cycle_id ctx,
     po_execution_type = pi_execution_type ctx, po_execution_mode = pi_execution_mode ctx,
     po_rule_path_taken = rule_path, po_duration_ms = rt_duration_ms rt,
     po_outcome = outcome, po_error_class = None,
     po_scoring_factors = scoring_factors, po_risk_contributions = risk_contributions,
     po_ai_governance_tier = ai_tier, po_ai_confidence_score = pi_ai_confidence_score ctx,
     po_ai_priority_adjustment_applied = ai_adjustment_applied,
     po_ai_fallback_applied = ai_fallback_applied,
     po_execution_state_before = pi_execution_state_before ctx,
     po_execution_state_after = pi_execution_state_after ctx,
     po_causation_chain_preserved = given (pi_causation_id ctx),
     po_append_only_enforced = True, po_replay_lineage_preserved = True,
     po_scoring_lineage_immutable = True,
     po_scoring_emit_authorized = scoring_emit_authorized,
     po_degraded = degraded, po_degradation_flags = degradation_flags,
     po_degradation_cause = degradation_cause, po_reason_codes = codes,
     po_orchestration_blocked = False, po_blocking_reason = None,
     po_orchestration_continues = (governance_scope \<noteq> ''UNAVAILABLE'')\<rparr>"

fun opt_float :: "pyfloat option \<Rightarrow> pyval" where
  "opt_float None = VNone"
| "opt_float (Some f) = VFloat f"

definition emit_priority_event_log :: "runtime \<Rightarrow> priority_record \<Rightarrow> log_line" where
  "emit_priority_event_log rt r =
    (let level = (if po_degraded r \<or> po_orchestration_blocked r then ''warning'' else ''info'')
     in LogJson level
      [(''timestamp'', VStr (rt_now_iso rt)), (''level'', VStr level),
       (''service'', VStr ''orchestration_priority''),
       (''event'', VStr (if po_orchestration_blocked r then ''priority_blocked''
                         else ''priority_assessed'')),
       (''event_id'', VStr (po_event_id r)),
       (''governance_scope'', VStr (po_governance_scope r)),
       (''advisory_priority'', VStr (po_advisory_priority r)),
       (''assessment_basis'', VStr (po_assessment_basis r)),
       (''is_replay'', VBool (po_is_replay r)),
       (''live_effects_suppressed'', VBool (po_live_effects_suppressed r)),
       (''execution_mode'', VStr (po_execution_mode r)),
       (''execution_type'', VStr (po_execution_type r)),
       (''correlation_id'', opt_val (po_correlation_id r)),
       (''causation_id'', opt_val (po_causation_id r)),
       (''orchestration_cycle_id'', opt_val (po_orchestration_cycle_id r)),
       (''config_version_id'', opt_val (po_config_version_id r)),
       (''rule_path_taken'', str_list (po_rule_path_taken r)),
       (''outcome'', VStr (po_outcome r)), (''error_class'', opt_val (po_error_class r)),
       (''scoring_emit_authorized'', VBool (po_scoring_emit_authorized r)),
       (''causation_chain_preserved'', VBool (po_causation_chain_preserved r)),
       (''append_only_enforced'', VBool (po_append_only_enforced r)),
       (''replay_lineage_preserved'', VBool (po_replay_lineage_preserved r)),
       (''scoring_lineage_immutable'', VBool (po_scoring_lineage_immutable r)),
       (''ai_governance_tier'', VStr (po_ai_governance_tier r)),
       (''ai_confidence_score'', opt_float (po_ai_confidence_score r)),
       (''ai_priority_adjustment_applied'', VBool (po_ai_priority_adjustment_applied r)),
       (''ai_fallback_applied'', VBool (po_ai_fallback_applied r)),
       (''risk_contributions'', str_list (po_risk_contributions r)),
       (''degraded'', VBool (po_degraded r)),
       (''degradation_cause'', opt_val (po_degradation_cause r)),
       (''degradation_flags'', str_list (po_degradation_flags r)),
       (''orchestration_blocked'', VBool (po_orchestration_blocked r)),
       (''blocking_reason'', opt_val (po_blocking_reason r)),
       (''orchestration_continues'', VBool (po_orchestration_continues r)),
       (''reason_codes'', str_list (po_reason_codes r)),
       (''duration_ms'', VInt (po_duration_ms r))])"

section \<open>Gate, thresholds and AI tier\<close>

definition pri_attribution_complete :: "priority_context \<Rightarrow> bool" where
  "pri_attribution_complete ctx \<longleftrightarrow>
     list_all given [pi_origin_source ctx, pi_origin_authority ctx, pi_actor_identity ctx]"

text \<open>The codes of the failed preconditions, in the order of the checks; it passes when empty.\<close>

definition pri_precondition_gate :: "string set \<Rightarrow> priority_context \<Rightarrow> string list" where
  "pri_precondition_gate idempotency_keys ctx =
     code_if (pi_execution_mode ctx \<notin> pri_execution_modes) ''INVALID_EXECUTION_MODE''
   @ code_if (pi_execution_type ctx \<notin> pri_execution_types) ''INVALID_EXECUTION_TYPE''
   @ code_if (\<not> given (pi_config_version_id ctx)) ''CONFIG_VERSION_ID_MISSING''
   @ code_if (\<not> given (pi_correlation_id ctx)) ''CORRELATION_ID_MISSING''
   @ code_if (\<not> given (pi_origin_source ctx)) ''ORIGIN_SOURCE_MISSING''
   @ code_if (\<not> given (pi_origin_authority ctx)) ''ORIGIN_AUTHORITY_MISSING''
   @ code_if (\<not> given (pi_actor_identity ctx)) ''ACTOR_IDENTITY_MISSING''
   @ code_if (given (pi_idempotency_key ctx) \<and> the (pi_idempotency_key ctx) \<in> idempotency_keys)
       ''IDEMPOTENCY_DUPLICATE_DETECTED''"

text \<open>The bindings of the threshold keys and the keys that are missing.\<close>

definition resolve_priority_thresholds :: "pydict \<Rightarrow> pydict \<times> string list" where
  "resolve_priority_thresholds rule_set =
    (let bound = (\<lambda>k. has_key rule_set k \<and> dict_get rule_set k \<noteq> VStr UNKNOWN_V0)
     in (map (\<lambda>k. (k, if bound k then dict_get rule_set k else VStr UNKNOWN_V0)) pri_threshold_keys,
         filter (\<lambda>k. \<not> bound k) pri_threshold_keys))"

definition confidence_tier :: "pyfloat option \<Rightarrow> string" where
  "confidence_tier c = (case c of None \<Rightarrow> ''ADVISORY''
     | Some f \<Rightarrow> if fge f (Fin (3152519739159347 / 4503599627370496)) then ''CONFIDENT''
                 else ''ADVISORY'')"

definition pri_classify_ai_tier :: "priority_context \<Rightarrow> pydict \<Rightarrow> string" where
  "pri_classify_ai_tier ctx thresholds =
    (let state = pi_ai_insight_state ctx
     in if pi_ai_finalized_copy ctx then ''FINALIZED_COPY''
        else if state = Some ''AI_GENERATING'' \<or> state = Some ''AI_PENDING'' then ''IN_FLIGHT''
        else if state = Some ''AI_GENERATION_FAILED'' \<or> state = Some ''AI_ARCHIVED'' \<or> \<not> given state
        then ''UNAVAILABLE''
        else if state = Some ''AI_REVIEWED'' then
          (case pi_ai_stale_flag ctx of
             Some True \<Rightarrow> ''STALE''
           | Some False \<Rightarrow> confidence_tier (pi_ai_confidence_score ctx)
           | None \<Rightarrow> if dict_get thresholds ''ai_insight_ttl_hours'' = VStr UNKNOWN_V0
                     then ''UNAVAILABLE'' else confidence_tier (pi_ai_confidence_score ctx))
        else ''UNAVAILABLE'')"

section \<open>Scoring\<close>

text \<open>
  \<^verbatim>\<open>v != UNKNOWN_V0 and isinstance(v, (int, float)) and x >= v\<close>, for the comparison \<open>r\<close>
  of the factor.
\<close>

definition meets :: "(pyfloat \<Rightarrow> pyfloat \<Rightarrow> bool) \<Rightarrow> pyfloat \<Rightarrow> pyval \<Rightarrow> bool" where
  "meets r x v \<longleftrightarrow> v \<noteq> VStr UNKNOWN_V0 \<and> (case num_of v of None \<Rightarrow> False | Some y \<Rightarrow> r x y)"

text \<open>A scored factor and the reason code that goes with it.\<close>

type_synonym scored = "(scoring_factor \<times> string) option"

definition scored_as :: "string \<Rightarrow> string \<Rightarrow> string \<Rightarrow> pyval \<Rightarrow> string \<Rightarrow> scored" where
  "scored_as factor contribution key v code =
     Some (\<lparr>sf_factor = factor, sf_contribution = contribution, sf_threshold_key = key,
            sf_value = v\<rparr>, code)"

definition score_hws :: "priority_context \<Rightarrow> pydict \<Rightarrow> scored" where
  "score_hws ctx th = (case pi_hws_behind ctx of None \<Rightarrow> None
     | Some n \<Rightarrow>
         if meets fge (of_nat_num n) (dict_get th ''hws_behind_high_risk_threshold'') then
           scored_as ''hws_behind'' ''HIGH'' ''hws_behind_high_risk_threshold'' (VInt n)
             ''HWS_BEHIND_HIGH_RISK''
         else if meets fge (of_nat_num n) (dict_get th ''hws_behind_moderate_threshold'') then
           scored_as ''hws_behind'' ''MEDIUM'' ''hws_behind_moderate_threshold'' (VInt n)
             ''HWS_BEHIND_MODERATE_RISK''
         else None)"

definition score_effort :: "priority_context \<Rightarrow> pydict \<Rightarrow> scored" where
  "score_effort ctx th = (case pi_avg_eff_rating ctx of None \<Rightarrow> None
     | Some f \<Rightarrow>
         if meets flt f (dict_get th ''avg_eff_rating_low_risk_threshold'') then
           scored_as ''avg_eff_rating'' ''MEDIUM'' ''avg_eff_rating_low_risk_threshold'' (VFloat f)
             ''EFF_RATING_MEDIUM_RISK''
         else None)"

definition score_inactivity :: "priority_context \<Rightarrow> pydict \<Rightarrow> scored" where
  "score_inactivity ctx th = (case pi_last_activity_days ctx of None \<Rightarrow> None
     | Some n \<Rightarrow>
         if meets fgt (of_nat_num n) (dict_get th ''last_activity_high_risk_days'') then
           scored_as ''last_activity_days'' ''HIGH'' ''last_activity_high_risk_days'' (VInt n)
             ''INACTIVITY_HIGH_RISK''
         else if meets fgt (of_nat_num n) (dict_get th ''last_activity_moderate_days'') then
           scored_as ''last_activity_days'' ''MEDIUM'' ''last_activity_moderate_days'' (VInt n)
             ''INACTIVITY_MODERATE_RISK''
         else None)"

definition score_payment :: "priority_context \<Rightarrow> pydict \<Rightarrow> scored" where
  "score_payment ctx th = (case pi_payment_balance ctx of None \<Rightarrow> None
     | Some f \<Rightarrow>
         if meets fgt f (dict_get th ''payment_balance_risk_threshold'') then
           scored_as ''payment_balance'' ''MEDIUM'' ''payment_balance_risk_threshold'' (VFloat f)
             ''PAYMENT_BALANCE_MEDIUM_RISK''
         else None)"

definition score_escalations :: "priority_context \<Rightarrow> pydict \<Rightarrow> scored" where
  "score_escalations ctx th = (case pi_prior_escalation_count ctx of None \<Rightarrow> None
     | Some n \<Rightarrow>
         if meets fge (of_nat_num n) (dict_get th ''prior_escalation_repeat_threshold'') then
           scored_as ''prior_escalation_count'' ''HIGH'' ''prior_escalation_repeat_threshold''
             (VInt n) ''ESCALATION_RECURRENCE_HIGH_RISK''
         else None)"

definition score_trend :: "priority_context \<Rightarrow> scored" where
  "score_trend ctx =
     (if pi_historical_risk_trend ctx = Some ''CRITICAL'' then
        scored_as ''historical_risk_trend'' ''HIGH'' ''historical_risk_trend'' (VStr ''CRITICAL'')
          ''HISTORICAL_TREND_CRITICAL''
      else if pi_historical_risk_trend ctx = Some ''DECLINING'' then
        scored_as ''historical_risk_trend'' ''MEDIUM'' ''historical_risk_trend''
          (VStr ''DECLINING'') ''HISTORICAL_TREND_DECLINING''
      else None)"

definition score_access :: "priority_context \<Rightarrow> scored" where
  "score_access ctx = (case pi_access_last_changed_days ctx of None \<Rightarrow> None
     | Some n \<Rightarrow>
         if n \<le> 7 then
           scored_as ''access_last_changed_days'' ''LOW'' ''access_last_changed_days'' (VInt n)
             ''ACCESS_TRANSITION_RECENT''
         else None)"

definition score_ai :: "priority_context \<Rightarrow> string \<Rightarrow> scored" where
  "score_ai ctx ai_tier =
     (if pi_ai_recommended_intervention ctx \<noteq> Some ''ESCALATE'' then None
      else if ai_tier = ''CONFIDENT'' then
        scored_as ''ai_escalation_signal'' ''HIGH'' ''ai_recommended_intervention''
          (VStr ''ESCALATE'') ''AI_ESCALATION_SIGNAL_CONFIDENT''
      else if ai_tier = ''ADVISORY'' then
        scored_as ''ai_escalation_signal'' ''MEDIUM'' ''ai_recommended_intervention''
          (VStr ''ESCALATE'') ''AI_ESCALATION_SIGNAL_ADVISORY''
      else if ai_tier = ''STALE'' then
        scored_as ''ai_escalation_signal_stale'' ''LOW'' ''ai_recommended_intervention''
          (VStr ''ESCALATE'') ''AI_ESCALATION_SIGNAL_STALE_LOW''
      else None)"

text \<open>The factors, their contributions and the reason codes, in the order of the checks.\<close>

definition score_risk_factors ::
  "priority_context \<Rightarrow> pydict \<Rightarrow> string \<Rightarrow> scoring_factor list \<times> string list \<times> string list" where
  "score_risk_factors ctx th ai_tier =
    (let hits = List.map_filter id
           [score_hws ctx th, score_effort ctx th, score_inactivity ctx th, score_payment ctx th,
            score_escalations ctx th, score_trend ctx, score_access ctx, score_ai ctx ai_tier]
     in (map fst hits, map (sf_contribution \<circ> fst) hits, map snd hits))"

definition aggregate_priority :: "string list \<Rightarrow> string" where
  "aggregate_priority contributions =
    (let high = count_list contributions ''HIGH''; med = count_list contributions ''MEDIUM''
     in if high \<ge> 2 then ''CRITICAL''
        else if high \<ge> 1 \<and> med \<ge> 1 then ''HIGH''
        else if high \<ge> 1 then ''MEDIUM''
        else if med \<ge> 1 then ''MEDIUM''
        else ''LOW'')"

text \<open>\<^verbatim>\<open>levels[levels.index(priority) - 1]\<close>, where there is a higher level.\<close>

fun level_above :: "string list \<Rightarrow> string \<Rightarrow> string option" where
  "level_above (x # y # xs) p = (if p = y \<and> p \<noteq> x then Some x
     else if p = x then None else level_above (y # xs) p)"
| "level_above _ p = None"

text \<open>The adjusted priority, whether an adjustment was applied, and the codes added.\<close>

definition apply_ai_adjustment ::
  "string \<Rightarrow> string \<Rightarrow> string option \<Rightarrow> string \<times> bool \<times> string list" where
  "apply_ai_adjustment priority ai_tier ai_intervention =
    (if ai_tier = ''CONFIDENT'' then
       (if ai_intervention = Some ''ESCALATE'' then
          (''CRITICAL'', True, [''AI_CONFIDENT_ESCALATE_TO_CRITICAL''])
        else if ai_intervention \<in> Some ` AI_UPWARD_RECOMMENDATIONS then
          (case level_above PRIORITY_LEVELS priority of
             Some p \<Rightarrow> (p, True, [''AI_CONFIDENT_PRIORITY_UPGRADED''])
           | None \<Rightarrow> (priority, False, []))
        else (priority, False, []))
     else if ai_tier = ''ADVISORY'' then
       (if ai_intervention = Some ''ESCALATE'' then
          (case level_above PRIORITY_LEVELS priority of
             Some p \<Rightarrow> (p, True, [''AI_ADVISORY_PRIORITY_UPGRADED''])
           | None \<Rightarrow> (priority, False, []))
        else (priority, False, []))
     else if ai_tier = ''STALE'' then (priority, False, [''STALE_AI_PRIORITIZATION_SKIPPED''])
     else if ai_tier = ''UNAVAILABLE'' then
       (priority, False, [''AI_UNAVAILABLE_FALLBACK_APPLIED''])
     else if ai_tier = ''FINALIZED_COPY'' then
       (priority, False, [''AI_FINALIZED_COPY_NOT_APPLIED''])
     else (priority, False, []))"

section \<open>The assessment\<close>

text \<open>Rules 6--10, after the AI tier is known.\<close>

definition pri_score_and_rank ::
  "runtime \<Rightarrow> priority_context \<Rightarrow> string list \<Rightarrow> string list \<Rightarrow> pydict \<Rightarrow> string list \<Rightarrow> string
   \<Rightarrow> priority_record" where
  "pri_score_and_rank rt ctx codes rule_path threshold_bindings degradation_flags ai_tier =
    (let (scoring_factors, risk_contributions, score_codes) =
           score_risk_factors ctx threshold_bindings ai_tier;
         base_priority = aggregate_priority risk_contributions;
         ai_fallback_applied = (ai_tier = ''UNAVAILABLE'');
         (advisory_priority, ai_adjustment_applied, ai_codes) =
           apply_ai_adjustment base_priority ai_tier (pi_ai_recommended_intervention ctx);
         assessment_basis = (if ai_adjustment_applied then ''AI_ASSISTED''
           else if ai_fallback_applied then ''FALLBACK'' else ''RULE_BASED'');
         live_codes = (if pi_execution_mode ctx = ''SHADOW'' then []
           else [''LIVE_SCOPE_SHADOW_ONLY_PHASE11'']);
         degraded = (degradation_flags \<noteq> []);
         degradation_cause = (if degraded then Some (hd degradation_flags) else None)
     in make_priority_record rt ctx
          (codes @ score_codes @ [''BASE_PRIORITY_'' @ base_priority] @ ai_codes @ live_codes)
          (rule_path @ [''RULE_6'', ''RULE_7'', ''RULE_8'', ''RULE_9'', ''RULE_10''])
          threshold_bindings advisory_priority ''SHADOW_ONLY'' assessment_basis
          scoring_factors risk_contributions ai_tier ai_adjustment_applied ai_fallback_applied
          degraded degradation_flags degradation_cause ''shadow_only'' False)"

text \<open>Rules 1--5A for a context that passed the gate.\<close>

definition pri_evaluate :: "runtime \<Rightarrow> priority_context \<Rightarrow> priority_record" where
  "pri_evaluate rt ctx =
    (if pi_maintenance_mode_active ctx then
       make_maintenance_priority_record rt ctx [''MAINTENANCE_MODE_ACTIVE''] [''RULE_0'', ''RULE_1'']
     else if pi_execution_type ctx \<in> pri_replay_types then
       make_replay_priority_record rt ctx
         (''REPLAY_MODE_ACTIVE'' # code_if (\<not> given (pi_source_artifact_id ctx))
            ''REPLAY_SOURCE_ARTIFACT_MISSING'')
         [''RULE_0'', ''RULE_1'', ''RULE_2''] []
     else
       let rule_set = (case pi_config_rule_set ctx of None \<Rightarrow> [] | Some d \<Rightarrow> d);
           (bindings, missing) = resolve_priority_thresholds rule_set;
           flags = map (\<lambda>k. ''CONFIG_THRESHOLD_MISSING_'' @ upper k) missing;
           path = [''RULE_0'', ''RULE_1'', ''RULE_2'', ''RULE_3'', ''RULE_4'', ''RULE_5''];
           ai_tier = pri_classify_ai_tier ctx bindings;
           codes = flags @ [''AI_TIER_'' @ ai_tier]
       in if ai_tier = ''IN_FLIGHT'' \<and> pi_execution_type ctx = ''original'' then
            make_priority_record rt ctx (codes @ [''AI_INSIGHT_IN_FLIGHT_DEFER''])
              (path @ [''RULE_5A'']) bindings ''UNKNOWN'' ''SHADOW_ONLY'' ''RULE_BASED'' [] []
              ai_tier False False False [] None ''deferred'' False
          else pri_score_and_rank rt ctx codes path bindings flags ai_tier)"

definition assess_orchestration_priority ::
  "runtime \<Rightarrow> priority_context \<Rightarrow> store \<Rightarrow> priority_record \<times> store" where
  "assess_orchestration_priority rt ctx s =
    (let gate_codes = pri_precondition_gate (keys s) ctx
     in if gate_codes \<noteq> [] then
          let r = make_blocked_priority_record rt ctx gate_codes [''RULE_0''] (Some (hd gate_codes))
          in (r, emit (emit_priority_event_log rt r) s)
        else
          let s1 = (if given (pi_idempotency_key ctx) \<and> pi_execution_type ctx = ''original''
                    then register (pi_idempotency_key ctx) s else s);
              r = pri_evaluate rt ctx
          in (r, emit (emit_priority_event_log rt r) s1))"

section \<open>Display helpers\<close>

record student_score =
  sc_level :: string
  sc_score :: rat
  sc_recommended_action :: string
  sc_reason_codes :: "string list"

text \<open>\<^verbatim>\<open>v or 0\<close>, and a comparison of a dynamic value with a number.\<close>

definition or_zero :: "pyval \<Rightarrow> pyval" where
  "or_zero v = (if truthy v then v else VInt 0)"

definition val_cmp :: "(pyfloat \<Rightarrow> pyfloat \<Rightarrow> bool) \<Rightarrow> pyval \<Rightarrow> rat \<Rightarrow> bool res" where
  "val_cmp r v x = (case num_of v of None \<Rightarrow> Inl TypeError | Some y \<Rightarrow> Inr (r y (Fin x)))"

text \<open>
  \<^verbatim>\<open>if v >= a: score += x; codes.append(c) elif v >= b: ...\<close>: the first band whose
  comparison holds.
\<close>

fun first_band ::
  "(pyfloat \<Rightarrow> pyfloat \<Rightarrow> bool) \<Rightarrow> pyval \<Rightarrow> (rat \<times> rat \<times> string) list \<Rightarrow> (rat \<times> string list) res" where
  "first_band r v [] = Inr (0, [])"
| "first_band r v ((limit, points, code) # bands) =
     bind_res (val_cmp r v limit) (\<lambda>b. if b then Inr (points, [code]) else first_band r v bands)"

definition tracking_points :: "pydict option \<Rightarrow> rat \<times> string list" where
  "tracking_points tracking =
    (let state = (case tracking of None \<Rightarrow> VStr [] | Some d \<Rightarrow> dict_get d ''state'')
     in if state = VStr ''INTERVENTION_REQUIRED'' then (20, [''INTERVENTION_STATE''])
        else if state = VStr ''NO_RESPONSE'' then (10, [''NO_RESPONSE_STATE'']) else (0, []))"

definition student_priority_score :: "rat \<Rightarrow> string list \<Rightarrow> student_score" where
  "student_priority_score score codes =
    (let (level, action) =
       (if score \<ge> 60 then (''CRITICAL'', ''ESCALATE'')
        else if score \<ge> 40 then (''HIGH'', ''CONTACT_IMMEDIATELY'')
        else if score \<ge> 20 then (''MEDIUM'', ''SCHEDULE_OUTREACH'')
        else (''LOW'', ''MONITOR''))
     in \<lparr>sc_level = level, sc_score = score, sc_recommended_action = action,
         sc_reason_codes = codes\<rparr>)"

definition score_student :: "pydict \<Rightarrow> pydict option \<Rightarrow> student_score res" where
  "score_student student tracking =
    (let hws = or_zero (dict_get student ''HWsBehind'');
         inactivity = or_zero (dict_get student ''LastActivityDays'');
         eff = dict_get student ''AvgEffRating'';
         balance = or_zero (dict_get student ''PaymentBalance'');
         (s5, c5) = tracking_points tracking
     in bind_res (first_band fge hws
            [(3, 40, ''HWS_BEHIND_HIGH_RISK''), (1, 20, ''HWS_BEHIND_MODERATE'')]) (\<lambda>(s1, c1).
        bind_res (first_band fgt inactivity
            [(14, 30, ''INACTIVITY_HIGH_RISK''), (7, 15, ''INACTIVITY_MODERATE'')]) (\<lambda>(s2, c2).
        bind_res (if eff = VNone then Inr (0, [])
            else first_band flt eff [(3, 20, ''EFF_RATING_LOW'')]) (\<lambda>(s3, c3).
        bind_res (first_band fgt balance [(0, 10, ''PAYMENT_BALANCE_RISK'')]) (\<lambda>(s4, c4).
        Inr (student_priority_score (s1 + s2 + s3 + s4 + s5) (c1 @ c2 @ c3 @ c4 @ c5)))))))"

record display_profile =
  dp_HWsBehind :: "int option"
  dp_LastActivityDays :: "int option"

text \<open>\<^verbatim>\<open>x is not None and x >= n\<close>\<close>

fun opt_test :: "(int \<Rightarrow> bool) \<Rightarrow> int option \<Rightarrow> bool" where
  "opt_test t None = False"
| "opt_test t (Some x) = t x"

definition risk_level_for_display :: "display_profile option \<Rightarrow> string" where
  "risk_level_for_display profile = (case profile of None \<Rightarrow> ''UNKNOWN''
     | Some p \<Rightarrow>
         if opt_test (\<lambda>n. n \<ge> 3) (dp_HWsBehind p) \<or> opt_test (\<lambda>n. n > 14) (dp_LastActivityDays p)
         then ''HIGH''
         else if opt_test (\<lambda>n. n \<ge> 1) (dp_HWsBehind p) \<or> opt_test (\<lambda>n. n > 7) (dp_LastActivityDays p)
         then ''MEDIUM'' else ''LOW'')"

section \<open>The service is idempotent\<close>

abbreviation pri_serve :: "runtime \<times> priority_context \<Rightarrow> store \<Rightarrow> priority_record \<times> store" where
  "pri_serve c s \<equiv> assess_orchestration_priority (fst c) (snd c) s"

lemma pri_evaluate_not_blocked [simp]: "\<not> po_orchestration_blocked (pri_evaluate rt ctx)"
  by (simp add: pri_evaluate_def pri_score_and_rank_def make_maintenance_priority_record_def
    make_replay_priority_record_def make_priority_record_def Let_def case_prod_unfold)

lemma assess_blocked_iff:
  "po_orchestration_blocked (fst (assess_orchestration_priority rt ctx s)) \<longleftrightarrow>
     pri_precondition_gate (keys s) ctx \<noteq> []"
  by (simp add: assess_orchestration_priority_def make_blocked_priority_record_def Let_def)

lemma assess_keys:
  "keys (snd (assess_orchestration_priority rt ctx s)) =
     (if pri_precondition_gate (keys s) ctx = [] \<and> given (pi_idempotency_key ctx)
         \<and> pi_execution_type ctx = ''original''
      then insert (the (pi_idempotency_key ctx)) (keys s) else keys s)"
  by (auto simp: assess_orchestration_priority_def Let_def given_iff)

lemma assess_events:
  "events (snd (assess_orchestration_priority rt ctx s)) =
     events s @ [emit_priority_event_log rt (fst (assess_orchestration_priority rt ctx s))]"
  by (simp add: assess_orchestration_priority_def Let_def)

lemma duplicate_gated:
  "given (pi_idempotency_key ctx) \<Longrightarrow> the (pi_idempotency_key ctx) \<in> ks \<Longrightarrow>
     pri_precondition_gate ks ctx \<noteq> []"
  by (simp add: pri_precondition_gate_def)

interpretation priority_service: strict_idempotent_service pri_serve
  "pi_idempotency_key \<circ> snd" "\<lambda>c. pi_execution_type (snd c) = ''original''"
  po_orchestration_blocked
proof unfold_locales
qed (auto simp: assess_keys assess_blocked_iff assess_events duplicate_gated)

end
