(* ===== verification/PriorityProps.thy ===== *)
theory PriorityProps
  imports Priority
begin

text \<open>
  What the prioritization advisory promises: it never authorizes an effect, it accepts an
  idempotency key once, its priority refines a ranking over a linear order of tiers whose only
  inputs are how many factors are at least HIGH and at least MEDIUM, worse signals never lower
  it, and the display score is total on numbers and bounded.
\<close>

section \<open>Tiers\<close>

datatype tier = Low | Medium | High | Critical

fun tier_rank :: "tier \<Rightarrow> nat" where
  "tier_rank Low = 0"
| "tier_rank Medium = 1"
| "tier_rank High = 2"
| "tier_rank Critical = 3"

lemma tier_rank_inj: "tier_rank a = tier_rank b \<Longrightarrow> a = b"
  by (cases a; cases b) simp_all

instantiation tier :: linorder
begin

definition less_eq_tier :: "tier \<Rightarrow> tier \<Rightarrow> bool" where
  "less_eq_tier a b \<longleftrightarrow> tier_rank a \<le> tier_rank b"

definition less_tier :: "tier \<Rightarrow> tier \<Rightarrow> bool" where
  "less_tier a b \<longleftrightarrow> tier_rank a < tier_rank b"

instance
  by standard (auto simp: less_eq_tier_def less_tier_def dest: tier_rank_inj)

end

fun tier_name :: "tier \<Rightarrow> string" where
  "tier_name Low = ''LOW''"
| "tier_name Medium = ''MEDIUM''"
| "tier_name High = ''HIGH''"
| "tier_name Critical = ''CRITICAL''"

lemma tier_name_inj [simp]: "tier_name a = tier_name b \<longleftrightarrow> a = b"
  by (cases a; cases b) simp_all

fun next_tier :: "tier \<Rightarrow> tier" where
  "next_tier Low = Medium"
| "next_tier Medium = High"
| "next_tier High = Critical"
| "next_tier Critical = Critical"

lemma next_tier_mono: "a \<le> b \<Longrightarrow> next_tier a \<le> next_tier b"
  by (cases a; cases b) (simp_all add: less_eq_tier_def)

text \<open>How many contributions are at least HIGH, and at least MEDIUM.\<close>

definition severe :: "string list \<Rightarrow> nat" where
  "severe cs = length (filter (\<lambda>c. c = ''HIGH'') cs)"

definition notable :: "string list \<Rightarrow> nat" where
  "notable cs = length (filter (\<lambda>c. c \<in> {''HIGH'', ''MEDIUM''}) cs)"

definition rank :: "nat \<Rightarrow> nat \<Rightarrow> tier" where
  "rank h n = (if h \<ge> 2 then Critical else if h = 1 \<and> n \<ge> 2 then High
     else if n \<ge> 1 then Medium else Low)"

lemma rank_mono: "h \<le> h' \<Longrightarrow> n \<le> n' \<Longrightarrow> h' \<le> n' \<Longrightarrow> rank h n \<le> rank h' n'"
  by (auto simp: rank_def less_eq_tier_def)

lemma severe_notable: "severe cs \<le> notable cs"
  by (induction cs) (auto simp: severe_def notable_def)

lemma notable_split: "notable cs = severe cs + count_list cs ''MEDIUM''"
  by (induction cs) (auto simp: severe_def notable_def)

lemma severe_count: "severe cs = count_list cs ''HIGH''"
  by (induction cs) (auto simp: severe_def)

lemma aggregate_rank: "aggregate_priority cs = tier_name (rank (severe cs) (notable cs))"
  by (auto simp: aggregate_priority_def rank_def Let_def notable_split severe_count)

lemma level_above_tier:
  "level_above PRIORITY_LEVELS (tier_name t) =
     (if t = Critical then None else Some (tier_name (next_tier t)))"
  by (cases t) (simp_all add: PRIORITY_LEVELS_def)

lemma severe_notable_append [simp]:
  "severe (as @ bs) = severe as + severe bs" "notable (as @ bs) = notable as + notable bs"
  by (simp_all add: severe_def notable_def)

section \<open>The assessment, path by path\<close>

lemmas pri_records = make_blocked_priority_record_def make_maintenance_priority_record_def
  make_replay_priority_record_def make_priority_record_def

definition pri_bindings :: "priority_context \<Rightarrow> pydict" where
  "pri_bindings ctx = fst (resolve_priority_thresholds
     (case pi_config_rule_set ctx of None \<Rightarrow> [] | Some d \<Rightarrow> d))"

definition pri_tier :: "priority_context \<Rightarrow> string" where
  "pri_tier ctx = pri_classify_ai_tier ctx (pri_bindings ctx)"

text \<open>The calls that reach the scoring rules.\<close>

definition pri_scored :: "string set \<Rightarrow> priority_context \<Rightarrow> bool" where
  "pri_scored ks ctx \<longleftrightarrow> pri_precondition_gate ks ctx = [] \<and> \<not> pi_maintenance_mode_active ctx
     \<and> pi_execution_type ctx \<notin> pri_replay_types
     \<and> \<not> (pri_tier ctx = ''IN_FLIGHT'' \<and> pi_execution_type ctx = ''original'')"

text \<open>The contributions of the rule-based factors, and of the AI signal.\<close>

definition contribution :: "scored \<Rightarrow> string list" where
  "contribution x = (case x of None \<Rightarrow> [] | Some (f, c) \<Rightarrow> [sf_contribution f])"

definition rule_contributions :: "priority_context \<Rightarrow> string list" where
  "rule_contributions ctx = (let th = pri_bindings ctx in
     concat (map contribution [score_hws ctx th, score_effort ctx th, score_inactivity ctx th,
       score_payment ctx th, score_escalations ctx th, score_trend ctx, score_access ctx]))"

lemma contributions_concat:
  "map (sf_contribution \<circ> fst) (List.map_filter id xs) = concat (map contribution xs)"
  by (induction xs) (auto simp: contribution_def map_filter_simps split: option.splits)

lemma risk_contributions:
  "fst (snd (score_risk_factors ctx (pri_bindings ctx) t)) =
     rule_contributions ctx @ contribution (score_ai ctx t)"
  unfolding score_risk_factors_def rule_contributions_def Let_def fst_conv snd_conv
    contributions_concat
  by simp

lemma evaluate_scored:
  assumes "\<not> pi_maintenance_mode_active ctx" "pi_execution_type ctx \<notin> pri_replay_types"
    and "\<not> (pri_tier ctx = ''IN_FLIGHT'' \<and> pi_execution_type ctx = ''original'')"
  shows "po_advisory_priority (pri_evaluate rt ctx) =
    fst (apply_ai_adjustment
      (aggregate_priority (rule_contributions ctx @ contribution (score_ai ctx (pri_tier ctx))))
      (pri_tier ctx) (pi_ai_recommended_intervention ctx))"
  using assms unfolding pri_evaluate_def pri_score_and_rank_def Let_def case_prod_unfold
  by (auto simp: make_priority_record_def pri_tier_def
      risk_contributions [symmetric] simp flip: pri_bindings_def)

lemma assess_scored:
  assumes "pri_scored (keys s) ctx"
  shows "po_advisory_priority (fst (assess_orchestration_priority rt ctx s)) =
    fst (apply_ai_adjustment
      (aggregate_priority (rule_contributions ctx @ contribution (score_ai ctx (pri_tier ctx))))
      (pri_tier ctx) (pi_ai_recommended_intervention ctx))"
  using assms evaluate_scored [of ctx rt]
  by (simp add: pri_scored_def assess_orchestration_priority_def Let_def)


section \<open>The refinement\<close>

text \<open>
  The ranking the AI may influence: a confident escalation goes to the top, a confident outreach
  recommendation one tier up, and an advisory escalation counts as a MEDIUM factor and goes one
  tier up; every other AI input leaves the rule-based ranking alone.
\<close>

definition spec_tier :: "string \<Rightarrow> string option \<Rightarrow> nat \<Rightarrow> nat \<Rightarrow> tier" where
  "spec_tier ai_tier advice h n =
    (if ai_tier = ''CONFIDENT'' \<and> advice = Some ''ESCALATE'' then Critical
     else if ai_tier = ''CONFIDENT'' \<and> advice \<in> Some ` AI_UPWARD_RECOMMENDATIONS
     then next_tier (rank h n)
     else if ai_tier = ''ADVISORY'' \<and> advice = Some ''ESCALATE'' then next_tier (rank h (Suc n))
     else rank h n)"

lemma contribution_scored_as [simp]:
  "contribution (scored_as f c k v r) = [c]" "contribution None = []"
  by (simp_all add: contribution_def scored_as_def)

lemma severe_notable_simps [simp]:
  "severe [] = 0" "notable [] = 0"
  "severe (c # cs) = (if c = ''HIGH'' then Suc (severe cs) else severe cs)"
  "notable (c # cs) = (if c = ''HIGH'' \<or> c = ''MEDIUM'' then Suc (notable cs) else notable cs)"
  by (simp_all add: severe_def notable_def)

lemma adjusted_tier:
  "fst (apply_ai_adjustment (tier_name t) ai_tier advice) =
    tier_name (if ai_tier = ''CONFIDENT'' \<and> advice = Some ''ESCALATE'' then Critical
      else if ai_tier = ''CONFIDENT'' \<and> advice \<in> Some ` AI_UPWARD_RECOMMENDATIONS then next_tier t
      else if ai_tier = ''ADVISORY'' \<and> advice = Some ''ESCALATE'' then next_tier t
      else t)"
  using level_above_tier [of Critical]
  by (cases "t = Critical") (simp_all add: apply_ai_adjustment_def level_above_tier)

lemma adjusted_rank:
  "fst (apply_ai_adjustment (aggregate_priority (cs @ contribution (score_ai ctx ai_tier)))
      ai_tier (pi_ai_recommended_intervention ctx)) =
    tier_name (spec_tier ai_tier (pi_ai_recommended_intervention ctx) (severe cs) (notable cs))"
  by (simp add: aggregate_rank adjusted_tier spec_tier_def score_ai_def)

lemma scored_priority:
  assumes "pri_scored (keys s) ctx"
  shows "po_advisory_priority (fst (assess_orchestration_priority rt ctx s)) =
    tier_name (spec_tier (pri_tier ctx) (pi_ai_recommended_intervention ctx)
      (severe (rule_contributions ctx)) (notable (rule_contributions ctx)))"
  by (simp only: assess_scored [OF assms] adjusted_rank)

lemma unscored_priority:
  assumes "\<not> pri_scored (keys s) ctx"
  shows "po_advisory_priority (fst (assess_orchestration_priority rt ctx s)) = ''UNKNOWN''"
proof (cases "pri_precondition_gate (keys s) ctx = []")
  case False
  then show ?thesis by (simp add: assess_orchestration_priority_def Let_def pri_records)
next
  case True
  with assms have "po_advisory_priority (pri_evaluate rt ctx) = ''UNKNOWN''"
    unfolding pri_scored_def pri_evaluate_def Let_def case_prod_unfold
    by (auto simp: pri_records pri_tier_def Let_def simp flip: pri_bindings_def)
  with True show ?thesis by (simp add: assess_orchestration_priority_def Let_def)
qed

text \<open>
  C12. The advisory priority refines the abstract ranking: a call that passes the gate, is
  neither maintenance nor replay nor deferred for a generating insight, returns exactly the
  tier of the ranking over how many rule-based factors are at least HIGH and at least MEDIUM,
  with the AI influence of \<open>spec_tier\<close>; every other call returns UNKNOWN.
\<close>

theorem priority_refines_ranking:
  "po_advisory_priority (fst (assess_orchestration_priority rt ctx s)) =
    (if pri_scored (keys s) ctx
     then tier_name (spec_tier (pri_tier ctx) (pi_ai_recommended_intervention ctx)
       (severe (rule_contributions ctx)) (notable (rule_contributions ctx)))
     else ''UNKNOWN'')"
  using scored_priority [of s ctx rt] unscored_priority [of s ctx rt] by simp

text \<open>
  An advisory insight that recommends escalation is counted twice, as a MEDIUM factor and as
  an upgrade: whenever it is scored, the priority is CRITICAL as soon as one rule-based factor
  is HIGH, and HIGH otherwise, even when no rule-based factor is present at all.
\<close>

theorem advisory_escalation_counts_twice:
  assumes "pri_scored (keys s) ctx"
    and "pri_tier ctx = ''ADVISORY''" and "pi_ai_recommended_intervention ctx = Some ''ESCALATE''"
  shows "po_advisory_priority (fst (assess_orchestration_priority rt ctx s)) =
    (if ''HIGH'' \<in> set (rule_contributions ctx) then ''CRITICAL'' else ''HIGH'')"
proof -
  have "severe (rule_contributions ctx) = 0 \<longleftrightarrow> ''HIGH'' \<notin> set (rule_contributions ctx)"
    by (auto simp: severe_count count_list_0_iff)
  with assms severe_notable [of "rule_contributions ctx"] show ?thesis
    by (auto simp: scored_priority spec_tier_def rank_def)
qed

definition sample_priority :: priority_context where
  "sample_priority = \<lparr>pi_config_version_id = Some ''v2'', pi_execution_mode = ''SHADOW'',
     pi_execution_type = ''original'', pi_correlation_id = Some ''c-1'',
     pi_config_rule_set = Some [(''hws_behind_high_risk_threshold'', VInt 3),
       (''ai_insight_ttl_hours'', VInt 72)],
     pi_causation_id = None, pi_orchestration_cycle_id = None,
     pi_idempotency_key = Some ''k-1'', pi_maintenance_mode_active = False,
     pi_origin_source = Some ''scheduler'', pi_origin_authority = Some ''system'',
     pi_actor_identity = Some ''orchestrator'', pi_attribution_timestamp = None,
     pi_upstream_correlation_id = None, pi_hws_behind = Some 1, pi_avg_eff_rating = None,
     pi_last_activity_days = Some 2, pi_payment_balance = None,
     pi_access_last_changed_days = None, pi_historical_risk_trend = None,
     pi_prior_escalation_count = None, pi_ai_insight_state = Some ''AI_REVIEWED'',
     pi_ai_confidence_score = None, pi_ai_recommended_intervention = Some ''ESCALATE'',
     pi_ai_stale_flag = Some False, pi_ai_finalized_copy = False,
     pi_source_artifact_id = None, pi_historical_config_version_id = None,
     pi_execution_state_before = None, pi_execution_state_after = None,
     pi_student_id_opaque = None\<rparr>"

lemma sample_priority_scored: "pri_scored (keys empty_store) sample_priority"
  by code_simp

lemma sample_priority_facts:
  "pri_tier sample_priority = ''ADVISORY''" "rule_contributions sample_priority = []"
  "pi_ai_recommended_intervention sample_priority = Some ''ESCALATE''"
  by code_simp+

theorem advisory_escalation_counts_twice_witness:
  "po_advisory_priority (fst (assess_orchestration_priority (sample_runtime 1) sample_priority
     empty_store)) = ''HIGH''"
  using advisory_escalation_counts_twice
    [OF sample_priority_scored sample_priority_facts(1) sample_priority_facts(3)]
  by (simp add: sample_priority_facts(2))


section \<open>Worse signals never lower the priority\<close>

text \<open>
  \<open>worse b a\<close>: the academic signals of \<open>b\<close> are at least as bad as those of \<open>a\<close> and everything
  else is the same; a signal that is absent is the mildest.
\<close>

definition worse :: "priority_context \<Rightarrow> priority_context \<Rightarrow> bool" where
  "worse b a \<longleftrightarrow>
     no_better (\<le>) (pi_hws_behind a) (pi_hws_behind b)
   \<and> no_better fge (pi_avg_eff_rating a) (pi_avg_eff_rating b)
   \<and> no_better (\<le>) (pi_last_activity_days a) (pi_last_activity_days b)
   \<and> no_better (\<lambda>x y. fge y x) (pi_payment_balance a) (pi_payment_balance b)
   \<and> no_better (\<le>) (pi_prior_escalation_count a) (pi_prior_escalation_count b)
   \<and> b = a\<lparr>pi_hws_behind := pi_hws_behind b, pi_avg_eff_rating := pi_avg_eff_rating b,
          pi_last_activity_days := pi_last_activity_days b,
          pi_payment_balance := pi_payment_balance b,
          pi_prior_escalation_count := pi_prior_escalation_count b\<rparr>"

lemma worse_same:
  assumes "worse b a"
  shows "pri_scored ks b \<longleftrightarrow> pri_scored ks a" and "pri_bindings b = pri_bindings a"
    and "pri_tier b = pri_tier a"
    and "pi_ai_recommended_intervention b = pi_ai_recommended_intervention a"
    and "score_trend b = score_trend a" and "score_access b = score_access a"
proof -
  from assms obtain h e l p c where b: "b = a\<lparr>pi_hws_behind := h, pi_avg_eff_rating := e,
      pi_last_activity_days := l, pi_payment_balance := p, pi_prior_escalation_count := c\<rparr>"
    unfolding worse_def by blast
  show bind: "pri_bindings b = pri_bindings a" by (simp add: b pri_bindings_def)
  show tier: "pri_tier b = pri_tier a" unfolding pri_tier_def bind
    by (simp add: b pri_classify_ai_tier_def Let_def cong: option.case_cong bool.case_cong)
  have "pri_precondition_gate ks b = pri_precondition_gate ks a"
    by (simp add: b pri_precondition_gate_def)
  with tier show "pri_scored ks b \<longleftrightarrow> pri_scored ks a" by (simp add: pri_scored_def b)
  show "pi_ai_recommended_intervention b = pi_ai_recommended_intervention a"
    "score_trend b = score_trend a" "score_access b = score_access a"
    by (simp_all add: b score_trend_def score_access_def)
qed

lemma meets_mono:
  "meets r x v \<Longrightarrow> (\<And>t. r x t \<Longrightarrow> r y t) \<Longrightarrow> meets r y v"
  by (auto simp: meets_def split: option.splits)

text \<open>The two counts of one factor, and when one factor outweighs another.\<close>

definition outweighs :: "scored \<Rightarrow> scored \<Rightarrow> bool" where
  "outweighs b a \<longleftrightarrow> severe (contribution a) \<le> severe (contribution b)
     \<and> notable (contribution a) \<le> notable (contribution b)"

lemma outweighs_refl [simp]: "outweighs a a"
  by (simp add: outweighs_def)

lemma outweighs_None [simp]: "outweighs b None"
  by (simp add: outweighs_def)

lemma meets_ge_int: "meets fge (of_nat_num m) v \<Longrightarrow> m \<le> n \<Longrightarrow> meets fge (of_nat_num n) v"
  by (erule meets_mono) (rule fge_Fin_trans)

lemma meets_gt_int: "meets fgt (of_nat_num m) v \<Longrightarrow> m \<le> n \<Longrightarrow> meets fgt (of_nat_num n) v"
  by (erule meets_mono, erule fgt_fge_trans) simp

lemma meets_lt: "meets flt x v \<Longrightarrow> fge x y \<Longrightarrow> meets flt y v"
  by (erule meets_mono) (rule flt_fge_trans)

lemma meets_gt: "meets fgt x v \<Longrightarrow> fge y x \<Longrightarrow> meets fgt y v"
  by (erule meets_mono) (rule fgt_fge_trans)

lemma score_hws_mono:
  "no_better (\<le>) (pi_hws_behind a) (pi_hws_behind b) \<Longrightarrow>
    outweighs (score_hws b th) (score_hws a th)"
  by (cases "pi_hws_behind a"; cases "pi_hws_behind b")
    (auto simp: score_hws_def outweighs_def dest: meets_ge_int)

lemma score_effort_mono:
  "no_better fge (pi_avg_eff_rating a) (pi_avg_eff_rating b) \<Longrightarrow>
    outweighs (score_effort b th) (score_effort a th)"
  by (cases "pi_avg_eff_rating a"; cases "pi_avg_eff_rating b")
    (auto simp: score_effort_def outweighs_def dest: meets_lt)

lemma score_inactivity_mono:
  "no_better (\<le>) (pi_last_activity_days a) (pi_last_activity_days b) \<Longrightarrow>
    outweighs (score_inactivity b th) (score_inactivity a th)"
  by (cases "pi_last_activity_days a"; cases "pi_last_activity_days b")
    (auto simp: score_inactivity_def outweighs_def dest: meets_gt_int)

lemma score_payment_mono:
  "no_better (\<lambda>x y. fge y x) (pi_payment_balance a) (pi_payment_balance b) \<Longrightarrow>
    outweighs (score_payment b th) (score_payment a th)"
  by (cases "pi_payment_balance a"; cases "pi_payment_balance b")
    (auto simp: score_payment_def outweighs_def dest: meets_gt)

lemma score_escalations_mono:
  "no_better (\<le>) (pi_prior_escalation_count a) (pi_prior_escalation_count b) \<Longrightarrow>
    outweighs (score_escalations b th) (score_escalations a th)"
  by (cases "pi_prior_escalation_count a"; cases "pi_prior_escalation_count b")
    (auto simp: score_escalations_def outweighs_def dest: meets_ge_int)

lemma rule_contributions_mono:
  assumes "worse b a"
  shows "severe (rule_contributions a) \<le> severe (rule_contributions b)"
    and "notable (rule_contributions a) \<le> notable (rule_contributions b)"
proof -
  let ?th = "pri_bindings a"
  have "outweighs (score_hws b ?th) (score_hws a ?th)"
    "outweighs (score_effort b ?th) (score_effort a ?th)"
    "outweighs (score_inactivity b ?th) (score_inactivity a ?th)"
    "outweighs (score_payment b ?th) (score_payment a ?th)"
    "outweighs (score_escalations b ?th) (score_escalations a ?th)"
    using assms unfolding worse_def
    by (blast intro: score_hws_mono score_effort_mono score_inactivity_mono score_payment_mono
        score_escalations_mono)+
  then show "severe (rule_contributions a) \<le> severe (rule_contributions b)"
    and "notable (rule_contributions a) \<le> notable (rule_contributions b)"
    unfolding rule_contributions_def Let_def worse_same [OF assms] outweighs_def
    by (simp_all add: add_mono)
qed

lemma spec_tier_mono:
  "h \<le> h' \<Longrightarrow> n \<le> n' \<Longrightarrow> h' \<le> n' \<Longrightarrow> spec_tier t ad h n \<le> spec_tier t ad h' n'"
  by (simp add: spec_tier_def rank_mono next_tier_mono)

text \<open>
  Worse signals never lower the priority: with more homework behind, longer inactivity, a
  larger balance, more escalations or a lower effort rating, and all else equal, a scored call
  returns at least the same tier, whatever the configured thresholds are.
\<close>

theorem worse_never_lowers:
  assumes "worse b a" and "pri_scored (keys s) a"
  shows "\<exists>ta tb. po_advisory_priority (fst (assess_orchestration_priority rt a s)) = tier_name ta
    \<and> po_advisory_priority (fst (assess_orchestration_priority rt b s)) = tier_name tb \<and> ta \<le> tb"
proof -
  from assms have "pri_scored (keys s) b" by (simp add: worse_same)
  from scored_priority [OF this] scored_priority [OF assms(2)]
  show ?thesis unfolding worse_same [OF assms(1)]
    using spec_tier_mono [OF rule_contributions_mono [OF assms(1)] severe_notable] by blast
qed

lemma sample_worse: "worse (sample_priority\<lparr>pi_hws_behind := Some 3\<rparr>) sample_priority"
  by (simp add: worse_def sample_priority_def)

theorem worse_never_lowers_witness:
  "\<exists>ta tb. po_advisory_priority (fst (assess_orchestration_priority (sample_runtime 1)
        sample_priority empty_store)) = tier_name ta
    \<and> po_advisory_priority (fst (assess_orchestration_priority (sample_runtime 1)
        (sample_priority\<lparr>pi_hws_behind := Some 3\<rparr>) empty_store)) = tier_name tb \<and> ta \<le> tb"
  by (rule worse_never_lowers [OF sample_worse sample_priority_scored])


section \<open>Authority and deduplication\<close>

text \<open>
  The advisory has no authority: on every path the emit authorization is false, live effects
  are suppressed and the scope is not AUTHORIZED; scored and deferred calls are SHADOW_ONLY also
  in LIVE mode, replays are REPLAY_ONLY, maintenance is MAINTENANCE, refusals are UNAVAILABLE.
  The attribution of the context is passed on unchanged and exactly one line, carrying the scope
  and the reason codes, is logged.
\<close>

theorem priority_without_authority:
  "let (r, s') = assess_orchestration_priority rt ctx s in
     \<not> po_scoring_emit_authorized r \<and> po_live_effects_suppressed r
   \<and> po_governance_scope r =
       (if pri_precondition_gate (keys s) ctx \<noteq> [] then ''UNAVAILABLE''
        else if pi_maintenance_mode_active ctx then ''MAINTENANCE''
        else if pi_execution_type ctx \<in> pri_replay_types then ''REPLAY_ONLY''
        else ''SHADOW_ONLY'')
   \<and> (po_origin_source r, po_origin_authority r, po_actor_identity r, po_correlation_id r) =
       (pi_origin_source ctx, pi_origin_authority ctx, pi_actor_identity ctx,
        pi_correlation_id ctx)
   \<and> events s' = events s @ [emit_priority_event_log rt r]"
  unfolding assess_orchestration_priority_def pri_evaluate_def pri_score_and_rank_def pri_records
    Let_def case_prod_unfold by simp

text \<open>
  An idempotency key works once: in any sequence of assessments, from any state of the
  service, a call that carries the key of an earlier original execution that was not refused is
  itself refused, whatever its execution type and mode.
\<close>

theorem priority_key_never_reused:
  assumes "i < j" and "j < length calls"
    and "pi_execution_type (snd (calls ! i)) = ''original''"
    and "pi_idempotency_key (snd (calls ! i)) = Some k" and "k \<noteq> []"
    and "\<not> po_orchestration_blocked (fst (priority_service.serve_all calls s) ! i)"
    and "pi_idempotency_key (snd (calls ! j)) = Some k"
  shows "po_orchestration_blocked (fst (priority_service.serve_all calls s) ! j)"
  using assms by (auto intro!: priority_service.refused_after_accepted [of i j calls k]
      simp: priority_service.accepted_def)

theorem priority_key_never_reused_witness:
  "po_orchestration_blocked (fst (priority_service.serve_all
     [(sample_runtime 1, sample_priority),
      (sample_runtime 2, sample_priority\<lparr>pi_execution_type := ''replay''\<rparr>)] empty_store) ! 1)"
  by (rule priority_key_never_reused [where i = 0 and k = "''k-1''"])
    (simp_all add: sample_priority_def Let_def case_prod_unfold assess_blocked_iff
      pri_precondition_gate_def pri_execution_modes_def pri_execution_types_def empty_store_def)

section \<open>The display score\<close>

definition scorable :: "pydict \<Rightarrow> bool" where
  "scorable student \<longleftrightarrow> is_num (or_zero (dict_get student ''HWsBehind''))
     \<and> is_num (or_zero (dict_get student ''LastActivityDays''))
     \<and> num_or_none (dict_get student ''AvgEffRating'')
     \<and> is_num (or_zero (dict_get student ''PaymentBalance''))"

lemma val_cmp_num: "num_of v = Some y \<Longrightarrow> val_cmp r v x = Inr (r y (Fin x))"
  by (simp add: val_cmp_def)

lemma first_band_result:
  "first_band r v bands = Inr p \<Longrightarrow>
    p \<in> insert (0, []) ((\<lambda>(l, q, c). (q, [c])) ` set bands)"
  by (induction bands) (auto simp: bind_res_Inr_iff split: if_split_asm)

lemma first_band_total: "is_num v \<Longrightarrow> \<exists>p cs. first_band r v bands = Inr (p, cs)"
  by (induction bands) (auto simp: is_num_iff val_cmp_num)

lemma first_band_error: "\<not> is_num v \<Longrightarrow> bands \<noteq> [] \<Longrightarrow> first_band r v bands = Inl TypeError"
  by (cases bands) (auto simp: is_num_def val_cmp_def)

lemma first_band_or:
  "(\<exists>p. first_band r v bands = Inr p) \<or> first_band r v bands = Inl TypeError"
  using first_band_total [of v r bands] first_band_error [of v bands r]
  by (cases "bands = []") auto

declare first_band.simps [simp del]

definition score_band :: "rat \<Rightarrow> tier" where
  "score_band x = (if x \<ge> 60 then Critical else if x \<ge> 40 then High
     else if x \<ge> 20 then Medium else Low)"

lemma score_band_mono: "x \<le> y \<Longrightarrow> score_band x \<le> score_band y"
  by (auto simp: score_band_def less_eq_tier_def)

lemma student_priority_score_simps [simp]:
  "sc_score (student_priority_score x cs) = x"
  "sc_level (student_priority_score x cs) = tier_name (score_band x)"
  by (simp_all add: student_priority_score_def score_band_def)

lemma tracking_points_bounds:
  "0 \<le> fst (tracking_points t) \<and> fst (tracking_points t) \<le> 20"
  by (simp add: tracking_points_def Let_def)

lemma score_student_bounds:
  assumes "score_student student tracking = Inr r"
  shows "0 \<le> sc_score r \<and> sc_score r \<le> 120 \<and> sc_level r = tier_name (score_band (sc_score r))"
proof -
  from assms obtain p1 p2 p3 p4 cs where
    h: "first_band fge (or_zero (dict_get student ''HWsBehind''))
        [(3, 40, ''HWS_BEHIND_HIGH_RISK''), (1, 20, ''HWS_BEHIND_MODERATE'')] = Inr p1"
    and l: "first_band fgt (or_zero (dict_get student ''LastActivityDays''))
        [(14, 30, ''INACTIVITY_HIGH_RISK''), (7, 15, ''INACTIVITY_MODERATE'')] = Inr p2"
    and e: "(if dict_get student ''AvgEffRating'' = VNone then Inr (0, [])
        else first_band flt (dict_get student ''AvgEffRating'') [(3, 20, ''EFF_RATING_LOW'')]) =
        Inr p3"
    and b: "first_band fgt (or_zero (dict_get student ''PaymentBalance''))
        [(0, 10, ''PAYMENT_BALANCE_RISK'')] = Inr p4"
    and r: "student_priority_score (fst p1 + fst p2 + fst p3 + fst p4 +
        fst (tracking_points tracking)) cs = r"
    unfolding score_student_def Let_def case_prod_unfold
    by (elim bind_res_InrE) (rule that, assumption+, rule Inr_inject)
  from first_band_result [OF h] have "0 \<le> fst p1 \<and> fst p1 \<le> 40"
    by auto
  moreover from first_band_result [OF l]
  have "0 \<le> fst p2 \<and> fst p2 \<le> 30" by auto
  moreover have "0 \<le> fst p3 \<and> fst p3 \<le> 20"
    using e by (cases "dict_get student ''AvgEffRating'' = VNone") (auto dest: first_band_result)
  moreover from first_band_result [OF b]
  have "0 \<le> fst p4 \<and> fst p4 \<le> 10" by auto
  moreover note tracking_points_bounds [of tracking]
  ultimately show ?thesis unfolding r [symmetric] by simp
qed

lemma score_student_total:
  assumes "scorable student"
  shows "\<exists>r. score_student student tracking = Inr r"
proof -
  obtain p1 where "first_band fge (or_zero (dict_get student ''HWsBehind''))
        [(3, 40, ''HWS_BEHIND_HIGH_RISK''), (1, 20, ''HWS_BEHIND_MODERATE'')] = Inr p1"
    using assms first_band_total unfolding scorable_def by blast
  moreover obtain p2 where "first_band fgt (or_zero (dict_get student ''LastActivityDays''))
        [(14, 30, ''INACTIVITY_HIGH_RISK''), (7, 15, ''INACTIVITY_MODERATE'')] = Inr p2"
    using assms first_band_total unfolding scorable_def by blast
  moreover obtain p3 where "(if dict_get student ''AvgEffRating'' = VNone then Inr (0, [])
        else first_band flt (dict_get student ''AvgEffRating'') [(3, 20, ''EFF_RATING_LOW'')]) =
        Inr p3"
    using assms first_band_total unfolding scorable_def num_or_none_def by metis
  moreover obtain p4 where "first_band fgt (or_zero (dict_get student ''PaymentBalance''))
        [(0, 10, ''PAYMENT_BALANCE_RISK'')] = Inr p4"
    using assms first_band_total unfolding scorable_def by blast
  ultimately show ?thesis unfolding score_student_def Let_def case_prod_unfold by simp
qed

lemma score_student_error:
  assumes "\<not> scorable student"
  shows "score_student student tracking = Inl TypeError"
proof -
  let ?h = "first_band fge (or_zero (dict_get student ''HWsBehind''))
        [(3, 40, ''HWS_BEHIND_HIGH_RISK''), (1, 20, ''HWS_BEHIND_MODERATE'')]"
  let ?l = "first_band fgt (or_zero (dict_get student ''LastActivityDays''))
        [(14, 30, ''INACTIVITY_HIGH_RISK''), (7, 15, ''INACTIVITY_MODERATE'')]"
  let ?e = "if dict_get student ''AvgEffRating'' = VNone then Inr (0, [])
        else first_band flt (dict_get student ''AvgEffRating'') [(3, 20, ''EFF_RATING_LOW'')]"
  let ?b = "first_band fgt (or_zero (dict_get student ''PaymentBalance''))
        [(0, 10, ''PAYMENT_BALANCE_RISK'')]"
  have h: "(\<exists>p. ?h = Inr p) \<or> ?h = Inl TypeError" by (rule first_band_or)
  have l: "(\<exists>p. ?l = Inr p) \<or> ?l = Inl TypeError" by (rule first_band_or)
  have e: "(\<exists>p. ?e = Inr p) \<or> ?e = Inl TypeError"
    using first_band_or [of flt "dict_get student ''AvgEffRating''"]
    by (cases "dict_get student ''AvgEffRating'' = VNone") (simp_all only: if_True if_False, simp)
  have "?h = Inl TypeError \<or> ?l = Inl TypeError \<or> ?e = Inl TypeError \<or> ?b = Inl TypeError"
    using assms unfolding scorable_def num_or_none_def by (auto simp: first_band_error)
  with h l e show ?thesis unfolding score_student_def Let_def case_prod_unfold
    by (elim disjE exE) simp_all
qed

text \<open>
  The display score raises \<^verbatim>\<open>TypeError\<close> exactly when a field it compares is
  neither missing nor a number; otherwise it returns a score between 0 and 120 whose level is
  the band of the score.
\<close>

theorem display_score_total_bounded:
  "case score_student student tracking of
     Inl e \<Rightarrow> \<not> scorable student \<and> e = TypeError
   | Inr r \<Rightarrow> scorable student \<and> 0 \<le> sc_score r \<and> sc_score r \<le> 120
       \<and> sc_level r = tier_name (score_band (sc_score r))"
  using score_student_total [of student tracking] score_student_error [of student tracking]
    score_student_bounds [of student tracking]
  by (cases "scorable student") (auto split: sum.split)

end
