(* ===== verification/GhlProvider.thy ===== *)
theory GhlProvider
  imports IdempotentService
begin

text \<open>
  The provider containment assessment, \<^verbatim>\<open>app/services/_ghl_types.py\<close>,
  \<^verbatim>\<open>_ghl_helpers.py\<close> and \<^verbatim>\<open>ghl.py\<close>: context and assessment, the gate,
  threshold resolution, the four assessment factories, the log line and Rules 0--11. The key set
  is consulted only in LIVE mode, at Rule 9, after every block; an
  \<^verbatim>\<open>OverflowError\<close> of a threshold conversion escapes before it. The service is an
  instance of \<open>idempotent_service\<close> for LIVE original executions.
\<close>

section \<open>Input and output\<close>

definition provider_threshold_keys :: "string list" where
  "provider_threshold_keys =
    [''provider_failure_max_retry_attempts'', ''provider_failure_circuit_breaker_threshold'',
     ''provider_failure_circuit_breaker_reset_hours'', ''provider_failure_retry_backoff_base_seconds'',
     ''provider_delivery_sla_hours'', ''sql_server_max_sync_age_hours'']"

definition ghl_valid_types :: "string set" where
  "ghl_valid_types = {''original'', ''replay'', ''regeneration''}"

definition ghl_replay_types :: "string set" where
  "ghl_replay_types = {''replay'', ''regeneration''}"

definition ghl_provider_modes :: "string set" where
  "ghl_provider_modes = {''SHADOW'', ''LIVE''}"

record provider_context =
  gi_config_version_id :: "string option"
  gi_execution_mode :: string
  gi_execution_type :: string
  gi_config_rule_set :: "pydict option"
  gi_compliance_hold_active :: bool
  gi_idempotency_key :: "string option"
  gi_origin_source :: "string option"
  gi_origin_authority :: "string option"
  gi_correlation_id :: "string option"
  gi_causation_id :: "string option"
  gi_upstream_intent_id :: "string option"
  gi_actor_identity :: "string option"
  gi_provider_health_state :: string
  gi_circuit_breaker_state :: string
  gi_ghl_message_id :: "string option"
  gi_retry_attempt_count :: int
  gi_outbound_retry_budget_remaining :: int
  gi_historical_config_version_id :: "string option"
  gi_source_artifact_id :: "string option"
  gi_provider_outage_active :: bool
  gi_sync_lag_hours :: pyfloat
  gi_delivery_telemetry_stale :: bool
  gi_student_id_opaque :: "string option"
  gi_interaction_path :: string

record provider_assessment =
  go_provider_event_type :: "string option"
  go_governance_scope :: string
  go_is_replay :: bool
  go_outbound_suppressed :: bool
  go_historical_provider_context_only :: bool
  go_historical_config_version_id :: "string option"
  go_replay_provider_source :: "string option"
  go_origin_source :: "string option"
  go_origin_authority :: "string option"
  go_correlation_id :: "string option"
  go_causation_id :: "string option"
  go_upstream_intent_id :: "string option"
  go_config_version_id :: "string option"
  go_threshold_bindings :: pydict
  go_provider :: string
  go_ghl_message_id :: "string option"
  go_provider_error_class :: "string option"
  go_degraded :: bool
  go_degradation_cause :: "string option"
  go_outbound_blocked :: bool
  go_orchestration_continues :: bool
  go_event_id :: string
  go_rule_path_taken :: "string list"
  go_assessment_basis :: string
  go_execution_type :: string
  go_execution_mode :: string
  go_duration_ms :: int
  go_outcome :: string
  go_reason_codes :: "string list"
  go_provider_blocked :: bool
  go_blocking_reason :: "string option"

section \<open>Assessment factories and log line\<close>

definition make_blocked_assessment ::
  "runtime \<Rightarrow> provider_context \<Rightarrow> string list \<Rightarrow> string list \<Rightarrow> pydict \<Rightarrow> string option
   \<Rightarrow> string option \<Rightarrow> provider_assessment" where
  "make_blocked_assessment rt ctx codes rule_path threshold_bindings degradation_cause
     blocking_reason =
    \<lparr>go_provider_event_type = None, go_governance_scope = ''BLOCKED'',
     go_is_replay = (gi_execution_type ctx \<in> {''replay'', ''regeneration''}),
     go_outbound_suppressed = True, go_historical_provider_context_only = False,
     go_historical_config_version_id = gi_historical_config_version_id ctx,
     go_replay_provider_source = None, go_origin_source = gi_origin_source ctx,
     go_origin_authority = gi_origin_authority ctx, go_correlation_id = gi_correlation_id ctx,
     go_causation_id = gi_causation_id ctx, go_upstream_intent_id = gi_upstream_intent_id ctx,
     go_config_version_id = gi_config_version_id ctx, go_threshold_bindings = threshold_bindings,
     go_provider = ''ghl'', go_ghl_message_id = gi_ghl_message_id ctx,
     go_provider_error_class = None, go_degraded = (degradation_cause \<noteq> None),
     go_degradation_cause = degradation_cause, go_outbound_blocked = True,
     go_orchestration_continues = False, go_event_id = rt_uuid rt, go_rule_path_taken = rule_path,
     go_assessment_basis = ''governance_block'', go_execution_type = gi_execution_type ctx,
     go_execution_mode = gi_execution_mode ctx, go_duration_ms = rt_duration_ms rt,
     go_outcome = ''blocked'', go_reason_codes = codes, go_provider_blocked = True,
     go_blocking_reason = blocking_reason\<rparr>"

definition make_replay_assessment ::
  "runtime \<Rightarrow> provider_context \<Rightarrow> string list \<Rightarrow> string list \<Rightarrow> provider_assessment" where
  "make_replay_assessment rt ctx codes rule_path =
    \<lparr>go_provider_event_type = Some ''REPLAY_SIMULATION'', go_governance_scope = ''REPLAY_ONLY'',
     go_is_replay = True, go_outbound_suppressed = True,
     go_historical_provider_context_only = True,
     go_historical_config_version_id = gi_historical_config_version_id ctx,
     go_replay_provider_source = gi_source_artifact_id ctx,
     go_origin_source = gi_origin_source ctx, go_origin_authority = gi_origin_authority ctx,
     go_correlation_id = gi_correlation_id ctx, go_causation_id = gi_causation_id ctx,
     go_upstream_intent_id = gi_upstream_intent_id ctx,
     go_config_version_id = gi_config_version_id ctx,
     go_threshold_bindings = map (\<lambda>k. (k, VStr UNKNOWN_V0)) provider_threshold_keys,
     go_provider = ''ghl'', go_ghl_message_id = None, go_provider_error_class = None,
     go_degraded = False, go_degradation_cause = None, go_outbound_blocked = True,
     go_orchestration_continues = True, go_event_id = rt_uuid rt, go_rule_path_taken = rule_path,
     go_assessment_basis = ''replay_containment'', go_execution_type = gi_execution_type ctx,
     go_execution_mode = gi_execution_mode ctx, go_duration_ms = rt_duration_ms rt,
     go_outcome = ''suppressed_replay'', go_reason_codes = codes, go_provider_blocked = False,
     go_blocking_reason = None\<rparr>"

definition make_shadow_assessment ::
  "runtime \<Rightarrow> provider_context \<Rightarrow> string list \<Rightarrow> string list \<Rightarrow> pydict \<Rightarrow> bool \<Rightarrow> string option
   \<Rightarrow> provider_assessment" where
  "make_shadow_assessment rt ctx codes rule_path threshold_bindings degraded degradation_cause =
    \<lparr>go_provider_event_type = Some ''SHADOW_SIMULATION'', go_governance_scope = ''SHADOW_ONLY'',
     go_is_replay = False, go_outbound_suppressed = True,
     go_historical_provider_context_only = False, go_historical_config_version_id = None,
     go_replay_provider_source = None, go_origin_source = gi_origin_source ctx,
     go_origin_authority = gi_origin_authority ctx, go_correlation_id = gi_correlation_id ctx,
     go_causation_id = gi_causation_id ctx, go_upstream_intent_id = gi_upstream_intent_id ctx,
     go_config_version_id = gi_config_version_id ctx, go_threshold_bindings = threshold_bindings,
     go_provider = ''ghl'', go_ghl_message_id = None, go_provider_error_class = None,
     go_degraded = degraded, go_degradation_cause = degradation_cause, go_outbound_blocked = True,
     go_orchestration_continues = True, go_event_id = rt_uuid rt, go_rule_path_taken = rule_path,
     go_assessment_basis = ''shadow_containment'', go_execution_type = gi_execution_type ctx,
     go_execution_mode = gi_execution_mode ctx, go_duration_ms = rt_duration_ms rt,
     go_outcome = ''suppressed_shadow'', go_reason_codes = codes, go_provider_blocked = False,
     go_blocking_reason = None\<rparr>"

definition make_duplicate_assessment ::
  "runtime \<Rightarrow> provider_context \<Rightarrow> string list \<Rightarrow> string list \<Rightarrow> pydict \<Rightarrow> provider_assessment" where
  "make_duplicate_assessment rt ctx codes rule_path threshold_bindings =
    \<lparr>go_provider_event_type = Some ''DEDUPLICATION_SUPPRESS'',
     go_governance_scope = ''DUPLICATE_SUPPRESSED'', go_is_replay = False,
     go_outbound_suppressed = True, go_historical_provider_context_only = False,
     go_historical_config_version_id = None, go_replay_provider_source = None,
     go_origin_source = gi_origin_source ctx, go_origin_authority = gi_origin_authority ctx,
     go_correlation_id = gi_correlation_id ctx, go_causation_id = gi_causation_id ctx,
     go_upstream_intent_id = gi_upstream_intent_id ctx,
     go_config_version_id = gi_config_version_id ctx, go_threshold_bindings = threshold_bindings,
     go_provider = ''ghl'', go_ghl_message_id = None, go_provider_error_class = None,
     go_degraded = False, go_degradation_cause = None, go_outbound_blocked = True,
     go_orchestration_continues = False, go_event_id = rt_uuid rt, go_rule_path_taken = rule_path,
     go_assessment_basis = ''idempotency_dedup'', go_execution_type = gi_execution_type ctx,
     go_execution_mode = gi_execution_mode ctx, go_duration_ms = rt_duration_ms rt,
     go_outcome = ''duplicate_suppressed'', go_reason_codes = codes, go_provider_blocked = False,
     go_blocking_reason = None\<rparr>"

definition emit_provider_event_log ::
  "runtime \<Rightarrow> provider_assessment \<Rightarrow> string option \<Rightarrow> log_line" where
  "emit_provider_event_log rt r student_id_opaque =
    (let level = (if go_degraded r \<or> go_provider_blocked r then ''warning'' else ''info'')
     in LogJson level
      [(''timestamp'', VStr (rt_now_iso rt)), (''level'', VStr level),
       (''service'', VStr ''ghl_provider''),
       (''event'', VStr ''provider_orchestration_assessment''),
       (''event_id'', VStr (go_event_id r)), (''provider'', VStr (go_provider r)),
       (''provider_event_type'', opt_val (go_provider_event_type r)),
       (''governance_scope'', VStr (go_governance_scope r)),
       (''execution_mode'', VStr (go_execution_mode r)),
       (''execution_type'', VStr (go_execution_type r)),
       (''is_replay'', VBool (go_is_replay r)),
       (''outbound_suppressed'', VBool (go_outbound_suppressed r)),
       (''outbound_blocked'', VBool (go_outbound_blocked r)),
       (''historical_provider_context_only'', VBool (go_historical_provider_context_only r)),
       (''config_version_id'', opt_val (go_config_version_id r)),
       (''correlation_id'', opt_val (go_correlation_id r)),
       (''origin_source'', opt_val (go_origin_source r)),
       (''origin_authority'', opt_val (go_origin_authority r)),
       (''degraded'', VBool (go_degraded r)),
       (''degradation_cause'', opt_val (go_degradation_cause r)),
       (''orchestration_continues'', VBool (go_orchestration_continues r)),
       (''provider_blocked'', VBool (go_provider_blocked r)),
       (''blocking_reason'', opt_val (go_blocking_reason r)),
       (''reason_codes'', str_list (go_reason_codes r)),
       (''rule_path_taken'', str_list (go_rule_path_taken r)),
       (''assessment_basis'', VStr (go_assessment_basis r)),
       (''outcome'', VStr (go_outcome r)),
       (''duration_ms'', VInt (go_duration_ms r)),
       (''student_id_opaque'', opt_val student_id_opaque),
       (''ghl_message_id'', if \<not> go_outbound_suppressed r then opt_val (go_ghl_message_id r)
                           else VNone)])"

section \<open>Gate and thresholds\<close>

definition ghl_attribution_complete :: "provider_context \<Rightarrow> bool" where
  "ghl_attribution_complete ctx \<longleftrightarrow> list_all given
     [gi_origin_source ctx, gi_origin_authority ctx, gi_correlation_id ctx, gi_actor_identity ctx]"

definition ghl_governance_scope_for_mode :: "string \<Rightarrow> string" where
  "ghl_governance_scope_for_mode execution_mode =
     (if execution_mode = ''SHADOW'' then ''SHADOW_ONLY'' else ''SHADOW_ONLY'')"

definition resolve_provider_thresholds :: "pydict \<Rightarrow> pydict \<times> string list" where
  "resolve_provider_thresholds rule_set =
    (let bound = (\<lambda>k. has_key rule_set k \<and> dict_get rule_set k \<noteq> VStr UNKNOWN_V0)
     in (map (\<lambda>k. (k, if bound k then dict_get rule_set k else VStr UNKNOWN_V0))
           provider_threshold_keys,
         filter (\<lambda>k. \<not> bound k) provider_threshold_keys))"

definition ghl_precondition_gate :: "provider_context \<Rightarrow> string list" where
  "ghl_precondition_gate ctx =
     code_if (gi_execution_mode ctx \<notin> ghl_provider_modes) ''INVALID_EXECUTION_MODE''
   @ code_if (gi_execution_type ctx \<notin> ghl_valid_types) ''INVALID_EXECUTION_TYPE''
   @ code_if (\<not> given (gi_config_version_id ctx)) ''CONFIG_VERSION_ID_MISSING''
   @ code_if (\<not> given (gi_correlation_id ctx)) ''CORRELATION_ID_MISSING''
   @ code_if (\<not> given (gi_origin_source ctx)) ''ORIGIN_SOURCE_MISSING''
   @ code_if (\<not> given (gi_origin_authority ctx)) ''ORIGIN_AUTHORITY_MISSING''"

section \<open>Rules\<close>

text \<open>
  Rule 5, the codes added and whether the lag is exceeded; a malformed threshold is reported.
\<close>

definition ghl_sync_check :: "runtime \<Rightarrow> provider_context \<Rightarrow> pydict \<Rightarrow> (string list \<times> bool) res" where
  "ghl_sync_check rt ctx bindings =
    (let sync_max_age = dict_get bindings ''sql_server_max_sync_age_hours''
     in if sync_max_age = VStr UNKNOWN_V0 then Inr ([''SYNC_MAX_AGE_UNKNOWN''], False)
        else tolerate ([''SYNC_MAX_AGE_INVALID''], False)
          (bind_res (py_float (rt_float_of_text rt) sync_max_age) (\<lambda>f.
            if fgt (gi_sync_lag_hours ctx) f then Inr ([''SYNC_LAG_EXCEEDED''], True)
            else Inr ([], False))))"

text \<open>Rule 7, the codes added and whether the retry budget is exhausted.\<close>

definition ghl_retry_check :: "provider_context \<Rightarrow> pydict \<Rightarrow> (string list \<times> bool) res" where
  "ghl_retry_check ctx bindings =
    (let max_retry = dict_get bindings ''provider_failure_max_retry_attempts''
     in if max_retry = VStr UNKNOWN_V0 then Inr ([], False)
        else tolerate ([''MAX_RETRY_VALUE_INVALID''], False)
          (bind_res (py_int max_retry) (\<lambda>n.
            if gi_retry_attempt_count ctx \<ge> n then Inr ([''RETRY_BUDGET_EXHAUSTED''], True)
            else Inr ([], False))))"

text \<open>Rules 9--11: deduplication, missing thresholds, and the shadow assessment.\<close>

definition ghl_authorize ::
  "runtime \<Rightarrow> provider_context \<Rightarrow> string list \<Rightarrow> string list \<Rightarrow> pydict \<Rightarrow> string list
   \<Rightarrow> string option \<Rightarrow> store \<Rightarrow> provider_assessment \<times> store" where
  "ghl_authorize rt ctx codes rule_path bindings missing cause s =
    (let path9 = rule_path @ [''RULE_9'']
     in if given (gi_idempotency_key ctx) \<and> the (gi_idempotency_key ctx) \<in> keys s then
          (make_duplicate_assessment rt ctx (codes @ [''IDEMPOTENCY_DUPLICATE_SUPPRESSED'']) path9
             bindings, s)
        else
          let s1 = (if given (gi_idempotency_key ctx) then register (gi_idempotency_key ctx) s
                    else s);
              cause' = (if missing \<noteq> [] \<and> cause = None then Some ''config_thresholds_missing''
                        else cause)
          in (make_shadow_assessment rt ctx
                (codes @ map (\<lambda>k. ''CONFIG_THRESHOLD_MISSING_'' @ upper k) missing
                   @ [''LIVE_SCOPE_SHADOW_ONLY_PHASE11''])
                (path9 @ [''RULE_10'', ''RULE_11'']) bindings (cause' \<noteq> None) cause', s1))"

text \<open>
  Rules 4--11 after the blocks of Rules 2 and 3. The code's \<open>degraded\<close> is true exactly when
  \<open>degradation_cause\<close> is set.
\<close>

definition ghl_contain ::
  "runtime \<Rightarrow> provider_context \<Rightarrow> pydict \<Rightarrow> string list \<Rightarrow> store
   \<Rightarrow> provider_assessment res \<times> store" where
  "ghl_contain rt ctx bindings missing s =
    (let path5 = [''RULE_0'', ''RULE_1'', ''RULE_2'', ''RULE_3'', ''RULE_4'', ''RULE_5''];
         outage = gi_provider_outage_active ctx
     in case ghl_sync_check rt ctx bindings of
          Inl e \<Rightarrow> (Inl e, s)
        | Inr (sync_codes, lagging) \<Rightarrow>
            let codes = code_if outage ''PROVIDER_OUTAGE_ACTIVE'' @ sync_codes;
                cause = (if outage then Some ''provider_outage''
                         else if lagging then Some ''sync_lag_exceeded'' else None)
            in if gi_execution_mode ctx = ''SHADOW'' then
                 (Inr (make_shadow_assessment rt ctx (codes @ [''SHADOW_OUTBOUND_SUPPRESSED''])
                    (path5 @ [''RULE_6'']) bindings (cause \<noteq> None) cause), s)
               else case ghl_retry_check ctx bindings of
                 Inl e \<Rightarrow> (Inl e, s)
               | Inr (retry_codes, exhausted) \<Rightarrow>
                   if exhausted then
                     (Inr (make_blocked_assessment rt ctx (codes @ retry_codes)
                        (path5 @ [''RULE_6'', ''RULE_7'']) bindings None
                        (Some ''RETRY_BUDGET_EXHAUSTED'')), s)
                   else
                     let (r, s1) = ghl_authorize rt ctx (codes @ retry_codes)
                           (path5 @ [''RULE_6'', ''RULE_7'']) bindings missing cause s
                     in (Inr r, s1))"

text \<open>Rules 0--3.\<close>

definition ghl_evaluate ::
  "runtime \<Rightarrow> provider_context \<Rightarrow> store \<Rightarrow> provider_assessment res \<times> store" where
  "ghl_evaluate rt ctx s =
    (let gate_codes = ghl_precondition_gate ctx;
         rule_set = (case gi_config_rule_set ctx of None \<Rightarrow> [] | Some d \<Rightarrow> d);
         (bindings, missing) = resolve_provider_thresholds rule_set
     in if gate_codes \<noteq> [] then
          (Inr (make_blocked_assessment rt ctx gate_codes [''RULE_0''] [] None
             (Some (hd gate_codes))), s)
        else if gi_execution_type ctx \<in> ghl_replay_types then
          (Inr (make_replay_assessment rt ctx [''REPLAY_OUTBOUND_SUPPRESSED'']
             [''RULE_0'', ''RULE_1'']), s)
        else if gi_compliance_hold_active ctx then
          (Inr (make_blocked_assessment rt ctx [''COMPLIANCE_HOLD_ACTIVE'']
             [''RULE_0'', ''RULE_1'', ''RULE_2''] bindings (Some ''compliance_hold'')
             (Some ''COMPLIANCE_HOLD_ACTIVE'')), s)
        else if gi_circuit_breaker_state ctx = ''OPEN'' then
          (Inr (make_blocked_assessment rt ctx [''CIRCUIT_BREAKER_OPEN'']
             [''RULE_0'', ''RULE_1'', ''RULE_2'', ''RULE_3''] bindings
             (Some ''circuit_breaker_open'') (Some ''CIRCUIT_BREAKER_OPEN'')), s)
        else ghl_contain rt ctx bindings missing s)"

definition assess_provider_orchestration ::
  "runtime \<Rightarrow> provider_context \<Rightarrow> store \<Rightarrow> provider_assessment res \<times> store" where
  "assess_provider_orchestration rt ctx s =
    (case ghl_evaluate rt ctx s of
       (Inl e, s1) \<Rightarrow> (Inl e, s1)
     | (Inr r, s1) \<Rightarrow> (Inr r, emit (emit_provider_event_log rt r (gi_student_id_opaque ctx)) s1))"

section \<open>The service is idempotent\<close>

lemmas ghl_factories = make_blocked_assessment_def make_replay_assessment_def
  make_shadow_assessment_def make_duplicate_assessment_def

definition ghl_bindings :: "provider_context \<Rightarrow> pydict" where
  "ghl_bindings ctx = fst (resolve_provider_thresholds
     (case gi_config_rule_set ctx of None \<Rightarrow> [] | Some d \<Rightarrow> d))"

text \<open>The calls that reach Rule 4.\<close>

definition ghl_cleared :: "provider_context \<Rightarrow> bool" where
  "ghl_cleared ctx \<longleftrightarrow> ghl_precondition_gate ctx = [] \<and> gi_execution_type ctx \<notin> ghl_replay_types
     \<and> \<not> gi_compliance_hold_active ctx \<and> gi_circuit_breaker_state ctx \<noteq> ''OPEN''"

text \<open>The retry budget is a number or numeric text and used up.\<close>

definition ghl_exhausted :: "provider_context \<Rightarrow> bool" where
  "ghl_exhausted ctx \<longleftrightarrow>
    (let v = dict_get (ghl_bindings ctx) ''provider_failure_max_retry_attempts'' in
     v \<noteq> VStr UNKNOWN_V0 \<and> (case py_int v of Inl e \<Rightarrow> False | Inr n \<Rightarrow> gi_retry_attempt_count ctx \<ge> n))"

lemma ghl_retry_check_cases:
  "ghl_retry_check ctx (ghl_bindings ctx) = Inl OverflowError
   \<or> (\<exists>codes. ghl_retry_check ctx (ghl_bindings ctx) = Inr (codes, ghl_exhausted ctx))"
proof (cases "py_int (dict_get (ghl_bindings ctx) ''provider_failure_max_retry_attempts'')")
  case (Inl e)
  with py_int_errors [OF Inl] show ?thesis
    by (auto simp: ghl_retry_check_def ghl_exhausted_def Let_def)
next
  case (Inr n)
  then show ?thesis by (simp add: ghl_retry_check_def ghl_exhausted_def Let_def)
qed

lemma ghl_sync_check_cases:
  "ghl_sync_check rt ctx b = Inl OverflowError \<or> (\<exists>codes lag. ghl_sync_check rt ctx b = Inr (codes, lag))"
proof (cases "py_float (rt_float_of_text rt) (dict_get b ''sql_server_max_sync_age_hours'')")
  case (Inl e)
  with py_float_errors [OF Inl] show ?thesis by (auto simp: ghl_sync_check_def Let_def)
next
  case (Inr f)
  then show ?thesis by (auto simp: ghl_sync_check_def Let_def)
qed

text \<open>Scope, refusal and the key set after a call that did not raise.\<close>

definition ghl_key_used :: "string set \<Rightarrow> provider_context \<Rightarrow> bool" where
  "ghl_key_used ks ctx \<longleftrightarrow> given (gi_idempotency_key ctx) \<and> the (gi_idempotency_key ctx) \<in> ks"

definition ghl_scope :: "string set \<Rightarrow> provider_context \<Rightarrow> string" where
  "ghl_scope ks ctx =
    (if ghl_precondition_gate ctx \<noteq> [] then ''BLOCKED''
     else if gi_execution_type ctx \<in> ghl_replay_types then ''REPLAY_ONLY''
     else if gi_compliance_hold_active ctx \<or> gi_circuit_breaker_state ctx = ''OPEN'' then ''BLOCKED''
     else if gi_execution_mode ctx = ''SHADOW'' then ''SHADOW_ONLY''
     else if ghl_exhausted ctx then ''BLOCKED''
     else if ghl_key_used ks ctx then ''DUPLICATE_SUPPRESSED''
     else ''SHADOW_ONLY'')"

definition ghl_consumes :: "provider_context \<Rightarrow> bool" where
  "ghl_consumes ctx \<longleftrightarrow> ghl_cleared ctx \<and> gi_execution_mode ctx \<noteq> ''SHADOW'' \<and> \<not> ghl_exhausted ctx
     \<and> given (gi_idempotency_key ctx)"

text \<open>The attribution of the context, passed on.\<close>

definition ghl_attributed :: "provider_context \<Rightarrow> provider_assessment \<Rightarrow> bool" where
  "ghl_attributed ctx r \<longleftrightarrow> go_origin_source r = gi_origin_source ctx
    \<and> go_origin_authority r = gi_origin_authority ctx
    \<and> go_correlation_id r = gi_correlation_id ctx \<and> go_causation_id r = gi_causation_id ctx"

lemma factories_attributed [simp]:
  "ghl_attributed ctx (make_blocked_assessment rt ctx cs p b d br)"
  "ghl_attributed ctx (make_replay_assessment rt ctx cs p)"
  "ghl_attributed ctx (make_shadow_assessment rt ctx cs p b dg d)"
  "ghl_attributed ctx (make_duplicate_assessment rt ctx cs p b)"
  by (simp_all add: ghl_attributed_def ghl_factories)

lemma ghl_authorize_attributed:
  "ghl_attributed ctx (fst (ghl_authorize rt ctx codes path b missing cause s))"
  by (simp add: ghl_authorize_def Let_def)

lemma ghl_contain_attributed:
  "ghl_contain rt ctx b missing s = (Inr r, s1) \<Longrightarrow> ghl_attributed ctx r"
  using ghl_authorize_attributed
  by (auto simp: ghl_contain_def Let_def case_prod_unfold split: if_split_asm sum.splits)

lemma ghl_evaluate_attributed:
  "ghl_evaluate rt ctx s = (Inr r, s1) \<Longrightarrow> ghl_attributed ctx r"
  by (auto simp: ghl_evaluate_def Let_def case_prod_unfold dest: ghl_contain_attributed
      split: if_split_asm)

lemma ghl_authorize_effect:
  "ghl_authorize rt ctx codes path b missing cause s = (r, s1) \<Longrightarrow>
    go_governance_scope r = (if ghl_key_used (keys s) ctx then ''DUPLICATE_SUPPRESSED'' else ''SHADOW_ONLY'')
    \<and> go_outbound_suppressed r \<and> go_outbound_blocked r \<and> \<not> go_provider_blocked r
    \<and> events s1 = events s
    \<and> keys s1 = (if given (gi_idempotency_key ctx)
        then insert (the (gi_idempotency_key ctx)) (keys s) else keys s)"
  by (auto simp: ghl_authorize_def ghl_key_used_def Let_def ghl_factories given_iff
      split: if_split_asm)

text \<open>What a call that did not raise has done, whatever the path.\<close>

definition ghl_done ::
  "provider_context \<Rightarrow> store \<Rightarrow> provider_assessment \<Rightarrow> store \<Rightarrow> bool" where
  "ghl_done ctx s r s1 \<longleftrightarrow> go_governance_scope r = ghl_scope (keys s) ctx
    \<and> go_provider_blocked r = (ghl_scope (keys s) ctx = ''BLOCKED'')
    \<and> go_outbound_suppressed r \<and> go_outbound_blocked r \<and> events s1 = events s
    \<and> keys s1 = (if ghl_consumes ctx then insert (the (gi_idempotency_key ctx)) (keys s)
        else keys s)"

lemma ghl_contain_cases:
  assumes "ghl_cleared ctx"
  shows "ghl_contain rt ctx (ghl_bindings ctx) missing s = (Inl OverflowError, s)
    \<or> (\<exists>r s1. ghl_contain rt ctx (ghl_bindings ctx) missing s = (Inr r, s1) \<and> ghl_done ctx s r s1)"
proof -
  consider "ghl_sync_check rt ctx (ghl_bindings ctx) = Inl OverflowError"
    | codes lag where "ghl_sync_check rt ctx (ghl_bindings ctx) = Inr (codes, lag)"
    using ghl_sync_check_cases by blast
  then show ?thesis
  proof cases
    case 1
    then show ?thesis by (simp add: ghl_contain_def Let_def)
  next
    case sync: 2
    show ?thesis
    proof (cases "gi_execution_mode ctx = ''SHADOW''")
      case True
      with assms sync show ?thesis
        by (simp add: ghl_contain_def Let_def ghl_done_def ghl_scope_def ghl_consumes_def
            ghl_cleared_def make_shadow_assessment_def)
    next
      case live: False
      from ghl_retry_check_cases [of ctx] show ?thesis
      proof (elim disjE exE)
        assume "ghl_retry_check ctx (ghl_bindings ctx) = Inl OverflowError"
        with sync live show ?thesis by (simp add: ghl_contain_def Let_def)
      next
        fix rcodes assume retry: "ghl_retry_check ctx (ghl_bindings ctx) = Inr (rcodes, ghl_exhausted ctx)"
        show ?thesis
        proof (cases "ghl_exhausted ctx")
          case True
          with assms sync live retry show ?thesis
            by (simp add: ghl_contain_def Let_def ghl_done_def ghl_scope_def ghl_consumes_def
                ghl_cleared_def make_blocked_assessment_def)
        next
          case False
          with assms sync live retry show ?thesis
            by (auto simp: ghl_contain_def Let_def ghl_done_def ghl_scope_def ghl_consumes_def
                ghl_cleared_def dest!: ghl_authorize_effect split: prod.split)
        qed
      qed
    qed
  qed
qed

lemma ghl_evaluate_cases:
  "ghl_evaluate rt ctx s = (Inl OverflowError, s) \<and> ghl_cleared ctx
    \<or> (\<exists>r s1. ghl_evaluate rt ctx s = (Inr r, s1) \<and> ghl_done ctx s r s1)"
proof (cases "ghl_cleared ctx")
  case True
  then have "ghl_evaluate rt ctx s = ghl_contain rt ctx (ghl_bindings ctx)
      (snd (resolve_provider_thresholds (case gi_config_rule_set ctx of None \<Rightarrow> [] | Some d \<Rightarrow> d))) s"
    by (simp add: ghl_evaluate_def ghl_cleared_def Let_def case_prod_unfold ghl_bindings_def)
  with True ghl_contain_cases [OF True] show ?thesis by simp
next
  case False
  then show ?thesis
    by (auto simp: ghl_evaluate_def ghl_cleared_def ghl_done_def ghl_scope_def ghl_consumes_def
        Let_def case_prod_unfold make_blocked_assessment_def make_replay_assessment_def)
qed

text \<open>A call is refused when it raised, was blocked, or was suppressed as a duplicate.\<close>

abbreviation ghl_serve ::
  "runtime \<times> provider_context \<Rightarrow> store \<Rightarrow> provider_assessment res \<times> store" where
  "ghl_serve c s \<equiv> assess_provider_orchestration (fst c) (snd c) s"

definition ghl_refused :: "provider_assessment res \<Rightarrow> bool" where
  "ghl_refused x = (case x of Inl e \<Rightarrow> True
     | Inr r \<Rightarrow> go_governance_scope r \<in> {''BLOCKED'', ''DUPLICATE_SUPPRESSED''})"

definition ghl_live_original :: "runtime \<times> provider_context \<Rightarrow> bool" where
  "ghl_live_original c \<longleftrightarrow> gi_execution_mode (snd c) = ''LIVE'' \<and> gi_execution_type (snd c) = ''original''"

lemma assess_provider_cases:
  obtains "assess_provider_orchestration rt ctx s = (Inl OverflowError, s)" and "ghl_cleared ctx"
  | r s1 where "assess_provider_orchestration rt ctx s =
        (Inr r, emit (emit_provider_event_log rt r (gi_student_id_opaque ctx)) s1)"
      and "ghl_done ctx s r s1"
  using ghl_evaluate_cases [of rt ctx s]
  by (auto simp: assess_provider_orchestration_def)

lemma ghl_key_in_scope:
  "given (gi_idempotency_key ctx) \<Longrightarrow> the (gi_idempotency_key ctx) \<in> ks \<Longrightarrow>
    gi_execution_mode ctx = ''LIVE'' \<Longrightarrow> gi_execution_type ctx = ''original'' \<Longrightarrow>
    ghl_scope ks ctx \<in> {''BLOCKED'', ''DUPLICATE_SUPPRESSED''}"
  by (simp add: ghl_scope_def ghl_key_used_def ghl_replay_types_def)

lemma ghl_accepted_consumes:
  "ghl_scope ks ctx \<notin> {''BLOCKED'', ''DUPLICATE_SUPPRESSED''} \<Longrightarrow> given (gi_idempotency_key ctx) \<Longrightarrow>
    gi_execution_mode ctx = ''LIVE'' \<Longrightarrow> gi_execution_type ctx = ''original'' \<Longrightarrow> ghl_consumes ctx"
  by (auto simp: ghl_scope_def ghl_consumes_def ghl_cleared_def ghl_replay_types_def
      split: if_split_asm)

interpretation provider_service: idempotent_service ghl_serve
  "gi_idempotency_key \<circ> snd" ghl_live_original ghl_refused
proof
  fix s c
  show "keys s \<subseteq> keys (snd (ghl_serve c s))"
    by (rule assess_provider_cases [of "fst c" "snd c" s]) (auto simp: ghl_done_def)
  show "keys (snd (ghl_serve c s)) \<subseteq> keys s \<union>
      (if given ((gi_idempotency_key \<circ> snd) c) then {the ((gi_idempotency_key \<circ> snd) c)} else {})"
    by (rule assess_provider_cases [of "fst c" "snd c" s])
      (auto simp: ghl_done_def ghl_consumes_def)
  show "\<exists>new. events (snd (ghl_serve c s)) = events s @ new"
    by (rule assess_provider_cases [of "fst c" "snd c" s]) (auto simp: ghl_done_def)
next
  fix c s
  assume *: "ghl_live_original c" "given ((gi_idempotency_key \<circ> snd) c)"
  show "the ((gi_idempotency_key \<circ> snd) c) \<in> keys (snd (ghl_serve c s))"
    if "\<not> ghl_refused (fst (ghl_serve c s))"
    using * that ghl_accepted_consumes [of "keys s" "snd c"]
    by (cases rule: assess_provider_cases [of "fst c" "snd c" s])
      (auto simp: ghl_refused_def ghl_done_def ghl_live_original_def)
  show "ghl_refused (fst (ghl_serve c s))" if "the ((gi_idempotency_key \<circ> snd) c) \<in> keys s"
    using * that ghl_key_in_scope [of "snd c" "keys s"]
    by (cases rule: assess_provider_cases [of "fst c" "snd c" s])
      (auto simp: ghl_refused_def ghl_done_def ghl_live_original_def)
qed

end
