(* ===== verification/GhlProps.thy ===== *)
theory GhlProps
  imports GhlProvider
begin

text \<open>
  What the provider containment promises: nothing goes out on any path, the scope follows a
  table over the context and the key set, and an outbound key is accepted once in LIVE mode
  while SHADOW runs and failed calls leave it unused.
\<close>

lemma done_attribution:
  "assess_provider_orchestration rt ctx s = (Inr r, s') \<Longrightarrow> ghl_attributed ctx r"
  by (auto simp: assess_provider_orchestration_def dest: ghl_evaluate_attributed
      split: prod.splits sum.splits)

text \<open>
  Containment: every assessment suppresses and blocks outbound effects, and its scope is the
  one of the table \<open>ghl_scope\<close>: refusals, holds, an open circuit breaker and an exhausted budget
  are BLOCKED, replays REPLAY_ONLY, a used key DUPLICATE_SUPPRESSED in LIVE mode, all else
  SHADOW_ONLY; the attribution of the context is passed on and the call is logged. The only
  exception is an overflow, of a call that no earlier rule answered, which changes no state.
\<close>

theorem provider_always_contained:
  "case assess_provider_orchestration rt ctx s of
     (Inl e, s') \<Rightarrow> e = OverflowError \<and> s' = s \<and> ghl_cleared ctx
   | (Inr r, s') \<Rightarrow> go_outbound_suppressed r \<and> go_outbound_blocked r
       \<and> go_governance_scope r = ghl_scope (keys s) ctx
       \<and> go_provider_blocked r = (ghl_scope (keys s) ctx = ''BLOCKED'')
       \<and> ghl_attributed ctx r
       \<and> events s' = events s @ [emit_provider_event_log rt r (gi_student_id_opaque ctx)]"
proof (cases rule: assess_provider_cases [of rt ctx s])
  case 1
  then show ?thesis by simp
next
  case (2 r s1)
  with done_attribution [OF 2(1)] show ?thesis by (simp add: ghl_done_def)
qed

text \<open>
  An outbound key is used up only by a LIVE call that passed the gate, no replay, no hold, a
  closed circuit and an unexhausted retry budget; a SHADOW run, a refusal and a call that raised
  leave the key set as it was, so that the real attempt is not suppressed later.
\<close>

theorem outbound_key_consumption:
  "keys (snd (assess_provider_orchestration rt ctx s)) =
    (if given (gi_idempotency_key ctx) then
       (if isl (fst (assess_provider_orchestration rt ctx s)) \<or> gi_execution_mode ctx = ''SHADOW''
          \<or> ghl_scope (keys s) ctx \<in> {''BLOCKED'', ''REPLAY_ONLY''}
        then keys s else insert (the (gi_idempotency_key ctx)) (keys s))
     else keys s)"
proof (cases rule: assess_provider_cases [of rt ctx s])
  case 1
  then show ?thesis by simp
next
  case (2 r s1)
  then show ?thesis
    by (simp add: ghl_done_def ghl_scope_def ghl_consumes_def ghl_cleared_def)
qed

text \<open>
  Over any sequence of provider assessments at most one LIVE original call with a given
  outbound key is assessed as neither blocked nor a duplicate.
\<close>

theorem outbound_key_accepted_once:
  "length (filter (\<lambda>((rt, ctx), r). gi_execution_mode ctx = ''LIVE''
        \<and> gi_execution_type ctx = ''original'' \<and> gi_idempotency_key ctx = Some k \<and> k \<noteq> []
        \<and> \<not> ghl_refused r)
      (zip calls (fst (provider_service.serve_all calls s)))) \<le> 1"
proof -
  have "provider_service.accepted k = (\<lambda>((rt, ctx), r). gi_execution_mode ctx = ''LIVE''
      \<and> gi_execution_type ctx = ''original'' \<and> gi_idempotency_key ctx = Some k \<and> k \<noteq> []
      \<and> \<not> ghl_refused r)"
    by (rule ext)
      (simp add: provider_service.accepted_def ghl_live_original_def case_prod_unfold)
  then show ?thesis using provider_service.accepted_once [of k calls s] by simp
qed

end
