(* ===== verification/Coordination.thy ===== *)
theory Coordination
  imports IdempotentService
begin

text \<open>
  The orchestration coordination cycle, \<^verbatim>\<open>app/services/_outreach_types.py\<close>,
  \<^verbatim>\<open>_outreach_helpers.py\<close> and \<^verbatim>\<open>coordinate_orchestration_cycle\<close>
  of \<^verbatim>\<open>outreach.py\<close>: context and record, gate and key set, thresholds, intent
  classification, the four record factories, the log line and Rules 0--12. An
  \<^verbatim>\<open>OverflowError\<close> of a threshold conversion is not caught by the code: it is
  the result \<open>Inl OverflowError\<close> of the call, without a log line. The service is an instance of
  \<open>strict_idempotent_service\<close>.
\<close>

section \<open>Input and output\<close>

definition out_required_attribution :: "string list" where
  "out_required_attribution = [''origin_source'', ''origin_authority'', ''actor_identity'']"

definition out_execution_modes :: "string set" where
  "out_execution_modes = {''SHADOW'', ''LIVE''}"

definition out_execution_types :: "string set" where
  "out_execution_types = {''original'', ''replay'', ''regeneration'', ''recovery''}"

definition out_replay_types :: "string set" where
  "out_replay_types = {''replay'', ''regeneration''}"

definition OUT_TERMINAL_STATES :: "string set" where
  "OUT_TERMINAL_STATES = {''RESPONDED'', ''CLOSED'', ''INTERVENTION_REQUIRED''}"

definition OUT_INITIAL_STATES :: "string option set" where
  "OUT_INITIAL_STATES = {None, Some ''ELIGIBLE'', Some ''QUEUED''}"

definition STALE_AI_TIERS :: "string set" where
  "STALE_AI_TIERS = {''STALE'', ''UNAVAILABLE''}"

definition orchestration_threshold_keys :: "string list" where
  "orchestration_threshold_keys =
    [''outreach_max_retry_attempts'', ''outreach_retry_window_days'', ''ai_insight_ttl_hours'',
     ''sql_server_max_sync_age_hours'', ''orchestration_concurrency_limit'']"

record outreach_context =
  oi_config_version_id :: "string option"
  oi_execution_mode :: string
  oi_execution_type :: string
  oi_correlation_id :: "string option"
  oi_config_rule_set :: "pydict option"
  oi_causation_id :: "string option"
  oi_orchestration_cycle_id :: "string option"
  oi_idempotency_key :: "string option"
  oi_compliance_hold_flag :: bool
  oi_maintenance_mode_active :: bool
  oi_origin_source :: "string option"
  oi_origin_authority :: "string option"
  oi_actor_identity :: "string option"
  oi_attribution_timestamp :: "string option"
  oi_upstream_correlation_id :: "string option"
  oi_student_id_opaque :: "string option"
  oi_checkpoint_type :: "string option"
  oi_outreach_state :: "string option"
  oi_contact_attempt_count :: int
  oi_last_contact_at :: "string option"
  oi_circuit_breaker_state :: string
  oi_provider_degradation_state :: string
  oi_sync_lag_hours :: pyfloat
  oi_ai_governance_tier :: "string option"
  oi_ai_confidence_score :: "pyfloat option"
  oi_historical_config_version_id :: "string option"
  oi_source_artifact_id :: "string option"

record outreach_record =
  oo_governance_scope :: string
  oo_intent_type :: "string option"
  oo_is_replay :: bool
  oo_live_effects_suppressed :: bool
  oo_origin_source :: "string option"
  oo_origin_authority :: "string option"
  oo_actor_identity :: "string option"
  oo_attribution_timestamp :: "string option"
  oo_upstream_correlation_id :: "string option"
  oo_config_version_id :: "string option"
  oo_historical_config_version_id :: "string option"
  oo_threshold_bindings :: pydict
  oo_event_id :: string
  oo_correlation_id :: "string option"
  oo_causation_id :: "string option"
  oo_orchestration_cycle_id :: "string option"
  oo_execution_type :: string
  oo_execution_mode :: string
  oo_rule_path_taken :: "string list"
  oo_duration_ms :: int
  oo_outcome :: string
  oo_error_class :: "string option"
  oo_student_id_opaque :: "string option"
  oo_checkpoint_type :: "string option"
  oo_contact_attempt_count :: int
  oo_dispatch_authorized :: bool
  oo_dispatch_blocked_reason :: "string option"
  oo_degraded :: bool
  oo_degradation_flags :: "string list"
  oo_degradation_cause :: "string option"
  oo_escalation_candidate :: bool
  oo_escalation_candidacy_reason :: "string option"
  oo_compliance_hold_active :: bool
  oo_ai_governance_tier :: "string option"
  oo_ai_escalation_authority :: bool
  oo_stale_sql_server_data :: bool
  oo_reason_codes :: "string list"
  oo_orchestration_blocked :: bool
  oo_blocking_reason :: "string option"
  oo_orchestration_continues :: bool

section \<open>Record factories and log line\<close>

definition out_make_blocked_record ::
  "runtime \<Rightarrow> outreach_context \<Rightarrow> string list \<Rightarrow> string list \<Rightarrow> pydict \<Rightarrow> string option
   \<Rightarrow> outreach_record" where
  "out_make_blocked_record rt ctx codes rule_path threshold_bindings blocking_reason =
    \<lparr>oo_governance_scope = ''UNAVAILABLE'', oo_intent_type = None,
     oo_is_replay = (oi_execution_type ctx \<in> out_replay_types),
     oo_live_effects_suppressed = True, oo_origin_source = oi_origin_source ctx,
     oo_origin_authority = oi_origin_authority ctx, oo_actor_identity = oi_actor_identity ctx,
     oo_attribution_timestamp = oi_attribution_timestamp ctx,
     oo_upstream_correlation_id = oi_upstream_correlation_id ctx,
     oo_config_version_id = oi_config_version_id ctx,
     oo_historical_config_version_id = oi_historical_config_version_id ctx,
     oo_threshold_bindings = threshold_bindings, oo_event_id = rt_uuid rt,
     oo_correlation_id = oi_correlation_id ctx, oo_causation_id = oi_causation_id ctx,
     oo_orchestration_cycle_id = oi_orchestration_cycle_id ctx,
     oo_execution_type = oi_execution_type ctx, oo_execution_mode = oi_execution_mode ctx,
     oo_rule_path_taken = rule_path, oo_duration_ms = rt_duration_ms rt, oo_outcome = ''failure'',
     oo_error_class = Some ''GovernancePreconditionError'',
     oo_student_id_opaque = oi_student_id_opaque ctx, oo_checkpoint_type = oi_checkpoint_type ctx,
     oo_contact_attempt_count = oi_contact_attempt_count ctx, oo_dispatch_authorized = False,
     oo_dispatch_blocked_reason = blocking_reason, oo_degraded = False, oo_degradation_flags = [],
     oo_degradation_cause = None, oo_escalation_candidate = False,
     oo_escalation_candidacy_reason = None, oo_compliance_hold_active = False,
     oo_ai_governance_tier = oi_ai_governance_tier ctx, oo_ai_escalation_authority = False,
     oo_stale_sql_server_data = False, oo_reason_codes = codes, oo_orchestration_blocked = True,
     oo_blocking_reason = blocking_reason, oo_orchestration_continues = False\<rparr>"

definition out_make_maintenance_record ::
  "runtime \<Rightarrow> outreach_context \<Rightarrow> string list \<Rightarrow> string list \<Rightarrow> outreach_record" where
  "out_make_maintenance_record rt ctx codes rule_path =
    \<lparr>oo_governance_scope = ''MAINTENANCE'', oo_intent_type = None, oo_is_replay = False,
     oo_live_effects_suppressed = True, oo_origin_source = oi_origin_source ctx,
     oo_origin_authority = oi_origin_authority ctx, oo_actor_identity = oi_actor_identity ctx,
     oo_attribution_timestamp = oi_attribution_timestamp ctx,
     oo_upstream_correlation_id = oi_upstream_correlation_id ctx,
     oo_config_version_id = oi_config_version_id ctx, oo_historical_config_version_id = None,
     oo_threshold_bindings = map (\<lambda>k. (k, VStr UNKNOWN_V0)) orchestration_threshold_keys,
     oo_event_id = rt_uuid rt, oo_correlation_id = oi_correlation_id ctx,
     oo_causation_id = oi_causation_id ctx,
     oo_orchestration_cycle_id = oi_orchestration_cycle_id ctx,
     oo_execution_type = oi_execution_type ctx, oo_execution_mode = oi_execution_mode ctx,
     oo_rule_path_taken = rule_path, oo_duration_ms = rt_duration_ms rt, oo_outcome = ''success'',
     oo_error_class = None, oo_student_id_opaque = oi_student_id_opaque ctx,
     oo_checkpoint_type = oi_checkpoint_type ctx,
     oo_contact_attempt_count = oi_contact_attempt_count ctx, oo_dispatch_authorized = False,
     oo_dispatch_blocked_reason = Some ''MAINTENANCE_MODE_SUSPENDED'', oo_degraded = False,
     oo_degradation_flags = [], oo_degradation_cause = None, oo_escalation_candidate = False,
     oo_escalation_candidacy_reason = None, oo_compliance_hold_active = False,
     oo_ai_governance_tier = None, oo_ai_escalation_authority = False,
     oo_stale_sql_server_data = False, oo_reason_codes = codes, oo_orchestration_blocked = False,
     oo_blocking_reason = None, oo_orchestration_continues = False\<rparr>"

definition out_make_replay_record ::
  "runtime \<Rightarrow> outreach_context \<Rightarrow> string list \<Rightarrow> string list \<Rightarrow> pydict \<Rightarrow> outreach_record" where
  "out_make_replay_record rt ctx codes rule_path threshold_bindings =
    (let source_missing = \<not> given (oi_source_artifact_id ctx)
     in \<lparr>oo_governance_scope = ''REPLAY_ONLY'', oo_intent_type = None, oo_is_replay = True,
         oo_live_effects_suppressed = True, oo_origin_source = oi_origin_source ctx,
         oo_origin_authority = oi_origin_authority ctx, oo_actor_identity = oi_actor_identity ctx,
         oo_attribution_timestamp = oi_attribution_timestamp ctx,
         oo_upstream_correlation_id = oi_upstream_correlation_id ctx,
         oo_config_version_id = oi_config_version_id ctx,
         oo_historical_config_version_id = oi_historical_config_version_id ctx,
         oo_threshold_bindings = threshold_bindings, oo_event_id = rt_uuid rt,
         oo_correlation_id = oi_correlation_id ctx, oo_causation_id = oi_causation_id ctx,
         oo_orchestration_cycle_id = oi_orchestration_cycle_id ctx,
         oo_execution_type = oi_execution_type ctx, oo_execution_mode = oi_execution_mode ctx,
         oo_rule_path_taken = rule_path, oo_duration_ms = rt_duration_ms rt,
         oo_outcome = (if source_missing then ''degraded'' else ''success''),
         oo_error_class = None, oo_student_id_opaque = oi_student_id_opaque ctx,
         oo_checkpoint_type = oi_checkpoint_type ctx,
         oo_contact_attempt_count = oi_contact_attempt_count ctx, oo_dispatch_authorized = False,
         oo_dispatch_blocked_reason = Some ''REPLAY_LIVE_DISPATCH_PROHIBITED'',
         oo_degraded = source_missing,
         oo_degradation_flags = code_if source_missing ''REPLAY_SOURCE_ARTIFACT_MISSING'',
         oo_degradation_cause = (if source_missing then Some ''REPLAY_SOURCE_ARTIFACT_MISSING'' else None),
         oo_escalation_candidate = False, oo_escalation_candidacy_reason = None,
         oo_compliance_hold_active = oi_compliance_hold_flag ctx,
         oo_ai_governance_tier = oi_ai_governance_tier ctx, oo_ai_escalation_authority = False,
         oo_stale_sql_server_data = False, oo_reason_codes = codes,
         oo_orchestration_blocked = False, oo_blocking_reason = None,
         oo_orchestration_continues = True\<rparr>)"

definition make_coordination_record ::
  "runtime \<Rightarrow> outreach_context \<Rightarrow> string list \<Rightarrow> string list \<Rightarrow> pydict \<Rightarrow> string
   \<Rightarrow> string option \<Rightarrow> bool \<Rightarrow> string option \<Rightarrow> bool \<Rightarrow> string list \<Rightarrow> string option \<Rightarrow> bool
   \<Rightarrow> string option \<Rightarrow> bool \<Rightarrow> string option \<Rightarrow> bool \<Rightarrow> bool \<Rightarrow> string \<Rightarrow> outreach_record" where
  "make_coordination_record rt ctx codes rule_path threshold_bindings governance_scope intent_type
     dispatch_authorized dispatch_blocked_reason degraded degradation_flags degradation_cause
     escalation_candidate escalation_candidacy_reason compliance_hold_active ai_governance_tier
     ai_escalation_authority stale_sql_server_data outcome =
    \<lparr>oo_governance_scope = governance_scope, oo_intent_type = intent_type, oo_is_replay = False,
     oo_live_effects_suppressed = (governance_scope \<noteq> ''AUTHORIZED''),
     oo_origin_source = oi_origin_source ctx, oo_origin_authority = oi_origin_authority ctx,
     oo_actor_identity = oi_actor_identity ctx,
     oo_attribution_timestamp = oi_attribution_timestamp ctx,
     oo_upstream_correlation_id = oi_upstream_correlation_id ctx,
     oo_config_version_id = oi_config_version_id ctx,
     oo_historical_config_version_id = oi_historical_config_version_id ctx,
     oo_threshold_bindings = threshold_bindings, oo_event_id = rt_uuid rt,
     oo_correlation_id = oi_correlation_id ctx, oo_causation_id = oi_causation_id ctx,
     oo_orchestration_cycle_id = oi_orchestration_cycle_id ctx,
     oo_execution_type = oi_execution_type ctx, oo_execution_mode = oi_execution_mode ctx,
     oo_rule_path_taken = rule_path, oo_duration_ms = rt_duration_ms rt, oo_outcome = outcome,
     oo_error_class = None, oo_student_id_opaque = oi_student_id_opaque ctx,
     oo_checkpoint_type = oi_checkpoint_type ctx,
     oo_contact_attempt_count = oi_contact_attempt_count ctx,
     oo_dispatch_authorized = dispatch_authorized,
     oo_dispatch_blocked_reason = dispatch_blocked_reason, oo_degraded = degraded,
     oo_degradation_flags = degradation_flags, oo_degradation_cause = degradation_cause,
     oo_escalation_candidate = escalation_candidate,
     oo_escalation_candidacy_reason = escalation_candidacy_reason,
     oo_compliance_hold_active = compliance_hold_active,
     oo_ai_governance_tier = ai_governance_tier,
     oo_ai_escalation_authority = ai_escalation_authority,
     oo_stale_sql_server_data = stale_sql_server_data, oo_reason_codes = codes,
     oo_orchestration_blocked = False, oo_blocking_reason = None,
     oo_orchestration_continues = (governance_scope \<noteq> ''UNAVAILABLE'')\<rparr>"

definition emit_orchestration_event_log :: "runtime \<Rightarrow> outreach_record \<Rightarrow> string option \<Rightarrow> log_line" where
  "emit_orchestration_event_log rt r student_id_opaque =
    (let level = (if oo_degraded r \<or> oo_orchestration_blocked r then ''warning'' else ''info'')
     in LogJson level
      [(''timestamp'', VStr (rt_now_iso rt)), (''level'', VStr level),
       (''service'', VStr ''outreach_orchestration''),
       (''event'', VStr (if oo_orchestration_blocked r then ''orchestration_blocked''
                         else ''orchestration_coordinated'')),
       (''event_id'', VStr (oo_event_id r)),
       (''governance_scope'', VStr (oo_governance_scope r)),
       (''intent_type'', opt_val (oo_intent_type r)),
       (''is_replay'', VBool (oo_is_replay r)),
       (''live_effects_suppressed'', VBool (oo_live_effects_suppressed r)),
       (''execution_mode'', VStr (oo_execution_mode r)),
       (''execution_type'', VStr (oo_execution_type r)),
       (''correlation_id'', opt_val (oo_correlation_id r)),
       (''causation_id'', opt_val (oo_causation_id r)),
       (''orchestration_cycle_id'', opt_val (oo_orchestration_cycle_id r)),
       (''config_version_id'', opt_val (oo_config_version_id r)),
       (''rule_path_taken'', str_list (oo_rule_path_taken r)),
       (''outcome'', VStr (oo_outcome r)),
       (''error_class'', opt_val (oo_error_class r)),
       (''dispatch_authorized'', VBool (oo_dispatch_authorized r)),
       (''dispatch_blocked_reason'', opt_val (oo_dispatch_blocked_reason r)),
       (''degraded'', VBool (oo_degraded r)),
       (''degradation_cause'', opt_val (oo_degradation_cause r)),
       (''degradation_flags'', str_list (oo_degradation_flags r)),
       (''escalation_candidate'', VBool (oo_escalation_candidate r)),
       (''escalation_candidacy_reason'', opt_val (oo_escalation_candidacy_reason r)),
       (''compliance_hold_active'', VBool (oo_compliance_hold_active r)),
       (''ai_governance_tier'', opt_val (oo_ai_governance_tier r)),
       (''ai_escalation_authority'', VBool (oo_ai_escalation_authority r)),
       (''stale_sql_server_data'', VBool (oo_stale_sql_server_data r)),
       (''orchestration_blocked'', VBool (oo_orchestration_blocked r)),
       (''blocking_reason'', opt_val (oo_blocking_reason r)),
       (''orchestration_continues'', VBool (oo_orchestration_continues r)),
       (''reason_codes'', str_list (oo_reason_codes r)),
       (''duration_ms'', VInt (oo_duration_ms r)),
       (''student_id_opaque'', opt_val student_id_opaque)])"

section \<open>Gate, thresholds and intent\<close>

definition out_attribution_complete :: "outreach_context \<Rightarrow> bool" where
  "out_attribution_complete ctx \<longleftrightarrow>
     list_all given [oi_origin_source ctx, oi_origin_authority ctx, oi_actor_identity ctx]"

text \<open>The codes of the failed preconditions, in the order of the checks; it passes when empty.\<close>

definition out_precondition_gate :: "string set \<Rightarrow> outreach_context \<Rightarrow> string list" where
  "out_precondition_gate idempotency_keys ctx =
     code_if (oi_execution_mode ctx \<notin> out_execution_modes) ''INVALID_EXECUTION_MODE''
   @ code_if (oi_execution_type ctx \<notin> out_execution_types) ''INVALID_EXECUTION_TYPE''
   @ code_if (\<not> given (oi_config_version_id ctx)) ''CONFIG_VERSION_ID_MISSING''
   @ code_if (\<not> given (oi_correlation_id ctx)) ''CORRELATION_ID_MISSING''
   @ code_if (\<not> given (oi_origin_source ctx)) ''ORIGIN_SOURCE_MISSING''
   @ code_if (\<not> given (oi_origin_authority ctx)) ''ORIGIN_AUTHORITY_MISSING''
   @ code_if (\<not> given (oi_actor_identity ctx)) ''ACTOR_IDENTITY_MISSING''
   @ code_if (given (oi_idempotency_key ctx) \<and> the (oi_idempotency_key ctx) \<in> idempotency_keys)
       ''IDEMPOTENCY_DUPLICATE_DETECTED''"

text \<open>The bindings of the threshold keys and the keys that are missing.\<close>

definition resolve_orchestration_thresholds :: "pydict \<Rightarrow> pydict \<times> string list" where
  "resolve_orchestration_thresholds rule_set =
    (let bound = (\<lambda>k. has_key rule_set k \<and> dict_get rule_set k \<noteq> VStr UNKNOWN_V0)
     in (map (\<lambda>k. (k, if bound k then dict_get rule_set k else VStr UNKNOWN_V0))
           orchestration_threshold_keys,
         filter (\<lambda>k. \<not> bound k) orchestration_threshold_keys))"

text \<open>
  \<^verbatim>\<open>v not in (UNKNOWN_V0, None)\<close> guards the conversion of a threshold; a malformed
  one is skipped.
\<close>

definition bound_threshold :: "pyval \<Rightarrow> bool" where
  "bound_threshold v \<longleftrightarrow> v \<noteq> VStr UNKNOWN_V0 \<and> v \<noteq> VNone"

definition attempts_exhausted :: "int \<Rightarrow> pyval \<Rightarrow> bool res" where
  "attempts_exhausted attempts max_attempts =
    (if bound_threshold max_attempts
     then tolerate False (bind_res (py_int max_attempts) (\<lambda>n. Inr (attempts \<ge> n)))
     else Inr False)"

definition classify_intent :: "outreach_context \<Rightarrow> pydict \<Rightarrow> string option \<Rightarrow> string res" where
  "classify_intent ctx bindings ai_tier =
    (if oi_outreach_state ctx \<in> Some ` OUT_TERMINAL_STATES then Inr ''HOLD''
     else if ai_tier = Some ''IN_FLIGHT'' then Inr ''DEFER_PENDING_AI''
     else bind_res (attempts_exhausted (oi_contact_attempt_count ctx)
         (dict_get bindings ''outreach_max_retry_attempts'')) (\<lambda>exhausted.
       if exhausted then Inr ''ESCALATE''
       else if oi_outreach_state ctx = Some ''NO_RESPONSE'' then Inr ''RETRY_OUTREACH''
       else if oi_outreach_state ctx \<in> OUT_INITIAL_STATES then Inr ''INITIATE_OUTREACH''
       else if oi_outreach_state ctx = Some ''CONTACTED'' then Inr ''HOLD''
       else Inr ''HOLD''))"

section \<open>The coordination cycle\<close>

text \<open>Rule 5: whether the synchronized data are older than the threshold allows.\<close>

definition out_stale_sync :: "runtime \<Rightarrow> outreach_context \<Rightarrow> pydict \<Rightarrow> bool res" where
  "out_stale_sync rt ctx bindings =
    (let sync_threshold = dict_get bindings ''sql_server_max_sync_age_hours''
     in if bound_threshold sync_threshold
        then tolerate False (bind_res (py_float (rt_float_of_text rt) sync_threshold)
          (\<lambda>f. Inr (fgt (oi_sync_lag_hours ctx) f)))
        else Inr False)"

text \<open>Rules 3--12 for an original or recovery execution outside maintenance.\<close>

definition out_coordinate :: "runtime \<Rightarrow> outreach_context \<Rightarrow> outreach_record res" where
  "out_coordinate rt ctx =
    (let rule_set = (case oi_config_rule_set ctx of None \<Rightarrow> [] | Some d \<Rightarrow> d);
         (bindings, missing) = resolve_orchestration_thresholds rule_set;
         missing_flags = map (\<lambda>k. ''CONFIG_THRESHOLD_MISSING_'' @ upper k) missing;
         circuit_open = (oi_circuit_breaker_state ctx = ''OPEN'');
         hold = oi_compliance_hold_flag ctx;
         ai_tier = oi_ai_governance_tier ctx;
         restricted = (ai_tier \<in> Some ` STALE_AI_TIERS)
     in bind_res (out_stale_sync rt ctx bindings) (\<lambda>stale_sql.
        bind_res (classify_intent ctx bindings ai_tier) (\<lambda>intent_type.
        let raised_flags = code_if stale_sql ''STALE_SQL_SERVER_DATA''
              @ code_if circuit_open ''CIRCUIT_BREAKER_OPEN''
              @ code_if hold ''COMPLIANCE_HOLD_DISPATCH_BLOCKED'';
            degradation_flags = missing_flags @ raised_flags;
            dispatch_blocked = (circuit_open \<or> hold);
            dispatch_blocked_reason = (if circuit_open then Some ''CIRCUIT_BREAKER_OPEN''
              else if hold then Some ''COMPLIANCE_HOLD_ACTIVE'' else None);
            escalation_candidacy_reason =
              (if circuit_open then Some ''PROVIDER_FAILURE_ESCALATION_CANDIDACY''
               else if intent_type = ''ESCALATE'' then Some ''RETRY_EXHAUSTED_ESCALATION_CANDIDACY''
               else None);
            (governance_scope, outcome, scope_codes) =
              (if dispatch_blocked then (''UNAVAILABLE'', ''degraded'', [])
               else if oi_execution_mode ctx = ''SHADOW'' then (''SHADOW_ONLY'', ''shadow_only'', [])
               else (''SHADOW_ONLY'', ''shadow_only'', [''LIVE_SCOPE_SHADOW_ONLY_PHASE11'']));
            degraded = (degradation_flags \<noteq> []);
            codes = missing_flags @ raised_flags
              @ code_if restricted (''AI_TIER_'' @ the ai_tier @ ''_ESCALATION_RESTRICTED'')
              @ [''INTENT_'' @ intent_type] @ scope_codes
        in Inr (make_coordination_record rt ctx codes
             [''RULE_0'', ''RULE_1'', ''RULE_2'', ''RULE_3'', ''RULE_4'', ''RULE_5'', ''RULE_6'',
              ''RULE_7'', ''RULE_8'', ''RULE_9'', ''RULE_10'', ''RULE_11'', ''RULE_12'']
             bindings governance_scope (Some intent_type) False dispatch_blocked_reason
             degraded degradation_flags
             (if degraded then Some (hd degradation_flags) else None)
             (escalation_candidacy_reason \<noteq> None) escalation_candidacy_reason
             hold ai_tier (\<not> restricted) stale_sql outcome))))"

text \<open>Rules 1 and 2 for a context that passed the gate, then the rules above.\<close>

definition out_evaluate :: "runtime \<Rightarrow> outreach_context \<Rightarrow> outreach_record res" where
  "out_evaluate rt ctx =
    (if oi_maintenance_mode_active ctx then
       Inr (out_make_maintenance_record rt ctx [''MAINTENANCE_MODE_ACTIVE''] [''RULE_0'', ''RULE_1''])
     else if oi_execution_type ctx \<in> out_replay_types then
       Inr (out_make_replay_record rt ctx
         (''REPLAY_MODE_ACTIVE'' # code_if (\<not> given (oi_source_artifact_id ctx))
            ''REPLAY_SOURCE_ARTIFACT_MISSING'')
         [''RULE_0'', ''RULE_1'', ''RULE_2''] [])
     else out_coordinate rt ctx)"

text \<open>Each record that is returned has been logged; an exception that escapes has not.\<close>

definition coordinate_orchestration_cycle ::
  "runtime \<Rightarrow> outreach_context \<Rightarrow> store \<Rightarrow> outreach_record res \<times> store" where
  "coordinate_orchestration_cycle rt ctx s =
    (let gate_codes = out_precondition_gate (keys s) ctx;
         logged = (\<lambda>r. emit (emit_orchestration_event_log rt r (oi_student_id_opaque ctx)))
     in if gate_codes \<noteq> [] then
          let r = out_make_blocked_record rt ctx gate_codes [''RULE_0''] [] (Some (hd gate_codes))
          in (Inr r, logged r s)
        else
          let s1 = (if given (oi_idempotency_key ctx) \<and> oi_execution_type ctx = ''original''
                    then register (oi_idempotency_key ctx) s else s)
          in case out_evaluate rt ctx of
               Inl e \<Rightarrow> (Inl e, s1)
             | Inr r \<Rightarrow> (Inr r, logged r s1))"

section \<open>The service is idempotent\<close>

lemmas out_records = out_make_blocked_record_def out_make_maintenance_record_def
  out_make_replay_record_def make_coordination_record_def

abbreviation out_serve ::
  "runtime \<times> outreach_context \<Rightarrow> store \<Rightarrow> outreach_record res \<times> store" where
  "out_serve c s \<equiv> coordinate_orchestration_cycle (fst c) (snd c) s"

definition out_refused :: "outreach_record res \<Rightarrow> bool" where
  "out_refused x = (case x of Inl e \<Rightarrow> False | Inr r \<Rightarrow> oo_orchestration_blocked r)"

lemma out_coordinate_Inr:
  assumes "out_coordinate rt ctx = Inr r"
  shows "\<not> oo_orchestration_blocked r"
  using assms unfolding out_coordinate_def Let_def case_prod_unfold bind_res_Inr_iff
  by (auto simp: make_coordination_record_def)

lemma out_evaluate_not_blocked:
  "out_evaluate rt ctx = Inr r \<Longrightarrow> \<not> oo_orchestration_blocked r"
  by (auto simp: out_evaluate_def out_records Let_def out_coordinate_Inr split: if_split_asm)

lemma coordinate_refused_iff:
  "out_refused (fst (coordinate_orchestration_cycle rt ctx s)) \<longleftrightarrow>
     out_precondition_gate (keys s) ctx \<noteq> []"
  by (auto simp: coordinate_orchestration_cycle_def Let_def out_refused_def
      out_make_blocked_record_def out_evaluate_not_blocked split: sum.split)

lemma coordinate_keys:
  "keys (snd (coordinate_orchestration_cycle rt ctx s)) =
     (if out_precondition_gate (keys s) ctx = [] \<and> given (oi_idempotency_key ctx)
         \<and> oi_execution_type ctx = ''original''
      then insert (the (oi_idempotency_key ctx)) (keys s) else keys s)"
  by (auto simp: coordinate_orchestration_cycle_def Let_def given_iff split: sum.split)

lemma coordinate_events:
  "events (snd (coordinate_orchestration_cycle rt ctx s)) = events s @
     (case fst (coordinate_orchestration_cycle rt ctx s) of Inl e \<Rightarrow> []
      | Inr r \<Rightarrow> [emit_orchestration_event_log rt r (oi_student_id_opaque ctx)])"
  by (simp add: coordinate_orchestration_cycle_def Let_def split: sum.split)

lemma out_duplicate_gated:
  "given (oi_idempotency_key ctx) \<Longrightarrow> the (oi_idempotency_key ctx) \<in> ks \<Longrightarrow>
     out_precondition_gate ks ctx \<noteq> []"
  by (simp add: out_precondition_gate_def)

interpretation coordination_service: strict_idempotent_service out_serve
  "oi_idempotency_key \<circ> snd" "\<lambda>c. oi_execution_type (snd c) = ''original''" out_refused
proof unfold_locales
qed (auto simp: coordinate_keys coordinate_refused_iff coordinate_events out_duplicate_gated)

end
