(* ===== verification/Worker.thy ===== *)
theory Worker
  imports CaseActions Coordination GhlProvider
begin

text \<open>
  The worker layer, \<^verbatim>\<open>app/services/_worker_types.py\<close>,
  \<^verbatim>\<open>_worker_helpers.py\<close> and \<^verbatim>\<open>worker.py\<close>, with the transport
  boundary \<^verbatim>\<open>app/services/integrations/ghl.py\<close> it delegates to and the two entry
  points of the batch (\<^verbatim>\<open>run_outreach_batch\<close> and \<^verbatim>\<open>batch_run\<close>). A
  \<open>trigger_row\<close> holds the columns of the student row that this layer reads; a \<open>platform\<close> is the
  state of the services it calls. \<open>rs n\<close> is what the n-th reading of a call returns. The live
  HTTP call \<^verbatim>\<open>_live_ghl_dispatch\<close> is never called by the code and is left out.
\<close>

section \<open>Transport boundary\<close>

record trigger_row =
  td_UserID :: int
  td_FirstName :: "string option"
  td_LastName :: "string option"
  td_Email :: "string option"
  td_PhoneNumber :: "string option"
  td_PathName :: "string option"
  td_HWsBehind :: int
  td_AvgEffRating :: pyfloat
  td_LastActivityDays :: int

definition transport_suppressed_scopes :: "string set" where
  "transport_suppressed_scopes =
     {''SHADOW_ONLY'', ''REPLAY_ONLY'', ''BLOCKED'', ''UNAVAILABLE'', ''DUPLICATE_SUPPRESSED''}"

definition SCOPE_OUTCOME_MAP :: "(string \<times> string) list" where
  "SCOPE_OUTCOME_MAP =
    [(''SHADOW_ONLY'', ''shadow_only''), (''REPLAY_ONLY'', ''suppressed_replay''),
     (''BLOCKED'', ''blocked''), (''UNAVAILABLE'', ''unavailable''),
     (''DUPLICATE_SUPPRESSED'', ''duplicate_suppressed'')]"

definition build_ghl_payload :: "settings \<Rightarrow> trigger_row \<Rightarrow> string \<Rightarrow> int \<Rightarrow> pydict" where
  "build_ghl_payload st student channel attempt =
    [(''locationId'', VStr (GHL_LOCATION_ID st)),
     (''user'', VDict [(''id'', VInt (td_UserID student)), (''email'', opt_val (td_Email student)),
        (''phone'', opt_val (td_PhoneNumber student))]),
     (''workflow'', VDict [(''channel'', VStr channel), (''attempt'', VInt attempt),
        (''checkpoint'', opt_val (td_PathName student))]),
     (''risk'', VDict [(''hwsBehind'', VInt (td_HWsBehind student)),
        (''avgEffRating'', VFloat (td_AvgEffRating student)),
        (''lastActivityDays'', VInt (td_LastActivityDays student))])]"

text \<open>The dispatch result; it has no channel of its own.\<close>

record dispatch_result =
  dr_governance_scope :: string
  dr_provider_event_type :: "string option"
  dr_outbound_suppressed :: bool
  dr_correlation_id :: "string option"
  dr_causation_id :: "string option"
  dr_upstream_intent_id :: "string option"
  dr_origin_source :: "string option"
  dr_origin_authority :: "string option"
  dr_execution_mode :: string
  dr_execution_type :: string
  dr_is_replay :: bool
  dr_config_version_id :: "string option"
  dr_degraded :: bool
  dr_degradation_cause :: "string option"
  dr_provider_blocked :: bool
  dr_blocking_reason :: "string option"
  dr_outcome :: string
  dr_reason_codes :: "string list"
  dr_ghl_workflow_id :: "string option"
  dr_provider_response_code :: "int option"

definition make_dispatch_result ::
  "provider_assessment \<Rightarrow> string \<Rightarrow> int option \<Rightarrow> string option \<Rightarrow> dispatch_result" where
  "make_dispatch_result a outcome provider_response_code ghl_workflow_id =
    \<lparr>dr_governance_scope = go_governance_scope a,
     dr_provider_event_type = go_provider_event_type a,
     dr_outbound_suppressed = go_outbound_suppressed a, dr_correlation_id = go_correlation_id a,
     dr_causation_id = go_causation_id a, dr_upstream_intent_id = go_upstream_intent_id a,
     dr_origin_source = go_origin_source a, dr_origin_authority = go_origin_authority a,
     dr_execution_mode = go_execution_mode a, dr_execution_type = go_execution_type a,
     dr_is_replay = go_is_replay a, dr_config_version_id = go_config_version_id a,
     dr_degraded = go_degraded a, dr_degradation_cause = go_degradation_cause a,
     dr_provider_blocked = go_provider_blocked a, dr_blocking_reason = go_blocking_reason a,
     dr_outcome = outcome, dr_reason_codes = go_reason_codes a,
     dr_ghl_workflow_id = ghl_workflow_id, dr_provider_response_code = provider_response_code\<rparr>"

definition emit_dispatch_log ::
  "runtime \<Rightarrow> provider_assessment \<Rightarrow> string \<Rightarrow> log_line" where
  "emit_dispatch_log rt a outcome =
    (let level = (if go_degraded a \<or> go_provider_blocked a then ''warning'' else ''info'')
     in LogJson level
      [(''timestamp'', VStr (rt_now_iso rt)), (''level'', VStr level),
       (''service'', VStr ''ghl_transport''), (''event'', VStr ''ghl_dispatch_result''),
       (''governance_scope'', VStr (go_governance_scope a)),
       (''provider_event_type'', opt_val (go_provider_event_type a)),
       (''outbound_suppressed'', VBool (go_outbound_suppressed a)),
       (''correlation_id'', opt_val (go_correlation_id a)),
       (''origin_source'', opt_val (go_origin_source a)),
       (''origin_authority'', opt_val (go_origin_authority a)),
       (''execution_mode'', VStr (go_execution_mode a)),
       (''execution_type'', VStr (go_execution_type a)),
       (''is_replay'', VBool (go_is_replay a)),
       (''config_version_id'', opt_val (go_config_version_id a)),
       (''provider_blocked'', VBool (go_provider_blocked a)),
       (''degraded'', VBool (go_degraded a)),
       (''degradation_cause'', opt_val (go_degradation_cause a)),
       (''outcome'', VStr outcome), (''reason_codes'', str_list (go_reason_codes a)),
       (''provider_response_code'', VNone)])"

text \<open>The result and the line logged; the payload is not used below Phase-12 certification.\<close>

definition execute_ghl_dispatch ::
  "runtime \<Rightarrow> provider_assessment \<Rightarrow> pydict \<Rightarrow> dispatch_result \<times> log_line" where
  "execute_ghl_dispatch rt a payload =
    (let scope = go_governance_scope a
     in if scope \<in> transport_suppressed_scopes \<or> go_outbound_suppressed a \<or> go_provider_blocked a then
          let outcome = (case map_of SCOPE_OUTCOME_MAP scope of None \<Rightarrow> ''shadow_only'' | Some x \<Rightarrow> x)
          in (make_dispatch_result a outcome None None, emit_dispatch_log rt a outcome)
        else
          ((make_dispatch_result a ''shadow_only'' None None)\<lparr>dr_reason_codes :=
              go_reason_codes a @ [''LIVE_SCOPE_REQUIRES_PHASE12_CERT'']\<rparr>,
           LogJson ''warning''
             [(''timestamp'', VStr (rt_now_iso rt)), (''level'', VStr ''warning''),
              (''service'', VStr ''ghl_transport''), (''event'', VStr ''live_dispatch_phase12_gate''),
              (''governance_scope'', VStr scope), (''correlation_id'', opt_val (go_correlation_id a)),
              (''execution_mode'', VStr (go_execution_mode a)),
              (''reason_codes'', str_list [''LIVE_SCOPE_REQUIRES_PHASE12_CERT''])]))"

section \<open>Job context and execution record\<close>

definition wk_execution_modes :: "string set" where
  "wk_execution_modes = {''SHADOW'', ''LIVE''}"

definition wk_execution_types :: "string set" where
  "wk_execution_types = {''original'', ''replay'', ''regeneration'', ''recovery''}"

definition wk_replay_types :: "string set" where
  "wk_replay_types = {''replay'', ''regeneration''}"

definition wk_suppressed_scopes :: "string set" where
  "wk_suppressed_scopes =
     {''SHADOW_ONLY'', ''REPLAY_ONLY'', ''UNAVAILABLE'', ''MAINTENANCE'', ''DUPLICATE_SUPPRESSED''}"

definition INTENT_CHANNEL_MAP :: "(string \<times> string) list" where
  "INTENT_CHANNEL_MAP =
    [(''INITIATE_OUTREACH'', ''call''), (''RETRY_OUTREACH'', ''sms''), (''ESCALATE'', ''email''),
     (''CLOSE'', ''ghl''), (''DEFER_PENDING_AI'', ''ghl''), (''HOLD'', ''ghl'')]"

definition DEFAULT_DISPATCH_CHANNEL :: string where
  "DEFAULT_DISPATCH_CHANNEL = ''call''"

record worker_job =
  wj_governance_scope :: string
  wj_intent_type :: "string option"
  wj_is_replay :: bool
  wj_live_effects_suppressed :: bool
  wj_dispatch_authorized :: bool
  wj_dispatch_blocked_reason :: "string option"
  wj_correlation_id :: "string option"
  wj_causation_id :: "string option"
  wj_orchestration_cycle_id :: "string option"
  wj_origin_source :: "string option"
  wj_origin_authority :: "string option"
  wj_actor_identity :: "string option"
  wj_attribution_timestamp :: "string option"
  wj_config_version_id :: "string option"
  wj_execution_mode :: string
  wj_execution_type :: string
  wj_threshold_bindings :: pydict
  wj_idempotency_key :: "string option"
  wj_student_id_opaque :: "string option"
  wj_checkpoint_type :: "string option"
  wj_contact_attempt :: int
  wj_provider_health_state :: string
  wj_circuit_breaker_state :: string
  wj_degraded :: bool
  wj_degradation_cause :: "string option"
  wj_degradation_flags :: "string list"
  wj_compliance_hold_active :: bool
  wj_job_id :: string

record worker_record =
  wo_job_id :: string
  wo_governance_scope :: string
  wo_outcome :: string
  wo_correlation_id :: "string option"
  wo_causation_id :: "string option"
  wo_orchestration_cycle_id :: "string option"
  wo_origin_source :: "string option"
  wo_origin_authority :: "string option"
  wo_actor_identity :: "string option"
  wo_config_version_id :: "string option"
  wo_execution_mode :: string
  wo_execution_type :: string
  wo_intent_type :: "string option"
  wo_dispatch_delegated :: bool
  wo_dispatch_outcome :: "string option"
  wo_channel :: "string option"
  wo_outbound_suppressed :: bool
  wo_suppression_reason :: "string option"
  wo_degraded :: bool
  wo_degradation_cause :: "string option"
  wo_student_id_opaque :: "string option"
  wo_checkpoint_type :: "string option"
  wo_contact_attempt :: int
  wo_event_id :: string
  wo_rule_path_taken :: "string list"
  wo_duration_ms :: int
  wo_reason_codes :: "string list"
  wo_error_class :: "string option"
  wo_execution_blocked :: bool
  wo_blocking_reason :: "string option"

text \<open>\<^verbatim>\<open>f"{UserID}:{PathName}:{attempt}"\<close>; a missing path prints as None.\<close>

definition worker_idempotency_key :: "trigger_row \<Rightarrow> int \<Rightarrow> string" where
  "worker_idempotency_key student attempt =
     show_int (td_UserID student) @ '':''
   @ (case td_PathName student of None \<Rightarrow> ''None'' | Some p \<Rightarrow> p) @ '':'' @ show_int attempt"

definition opaque_id :: "trigger_row \<Rightarrow> string option" where
  "opaque_id student = (if td_UserID student \<noteq> 0 then Some (show_int (td_UserID student)) else None)"

definition make_job_context :: "outreach_record \<Rightarrow> trigger_row \<Rightarrow> int \<Rightarrow> string \<Rightarrow> worker_job" where
  "make_job_context r student attempt job_id =
    \<lparr>wj_governance_scope = oo_governance_scope r, wj_intent_type = oo_intent_type r,
     wj_is_replay = oo_is_replay r, wj_live_effects_suppressed = oo_live_effects_suppressed r,
     wj_dispatch_authorized = oo_dispatch_authorized r,
     wj_dispatch_blocked_reason = oo_dispatch_blocked_reason r,
     wj_correlation_id = oo_correlation_id r, wj_causation_id = oo_causation_id r,
     wj_orchestration_cycle_id = oo_orchestration_cycle_id r,
     wj_origin_source = oo_origin_source r, wj_origin_authority = oo_origin_authority r,
     wj_actor_identity = oo_actor_identity r,
     wj_attribution_timestamp = oo_attribution_timestamp r,
     wj_config_version_id = oo_config_version_id r, wj_execution_mode = oo_execution_mode r,
     wj_execution_type = oo_execution_type r, wj_threshold_bindings = oo_threshold_bindings r,
     wj_idempotency_key = Some (worker_idempotency_key student attempt),
     wj_student_id_opaque = opaque_id student, wj_checkpoint_type = oo_checkpoint_type r,
     wj_contact_attempt = attempt, wj_provider_health_state = ''UNKNOWN'',
     wj_circuit_breaker_state = ''UNKNOWN'', wj_degraded = oo_degraded r,
     wj_degradation_cause = oo_degradation_cause r, wj_degradation_flags = oo_degradation_flags r,
     wj_compliance_hold_active = oo_compliance_hold_active r, wj_job_id = job_id\<rparr>"

definition make_provider_context :: "worker_job \<Rightarrow> provider_context" where
  "make_provider_context ctx =
    \<lparr>gi_config_version_id = wj_config_version_id ctx, gi_execution_mode = wj_execution_mode ctx,
     gi_execution_type = wj_execution_type ctx,
     gi_config_rule_set = Some (wj_threshold_bindings ctx),
     gi_compliance_hold_active = wj_compliance_hold_active ctx,
     gi_idempotency_key = wj_idempotency_key ctx, gi_origin_source = wj_origin_source ctx,
     gi_origin_authority = wj_origin_authority ctx, gi_correlation_id = wj_correlation_id ctx,
     gi_causation_id = wj_causation_id ctx, gi_upstream_intent_id = wj_orchestration_cycle_id ctx,
     gi_actor_identity = wj_actor_identity ctx,
     gi_provider_health_state = wj_provider_health_state ctx,
     gi_circuit_breaker_state = wj_circuit_breaker_state ctx, gi_ghl_message_id = None,
     gi_retry_attempt_count = wj_contact_attempt ctx, gi_outbound_retry_budget_remaining = 0,
     gi_historical_config_version_id = None, gi_source_artifact_id = None,
     gi_provider_outage_active = False, gi_sync_lag_hours = Fin 0,
     gi_delivery_telemetry_stale = False, gi_student_id_opaque = wj_student_id_opaque ctx,
     gi_interaction_path = ''outbound''\<rparr>"

definition channel_for_intent :: "string option \<Rightarrow> string" where
  "channel_for_intent intent_type =
    (case map_of INTENT_CHANNEL_MAP (case intent_type of None \<Rightarrow> [] | Some i \<Rightarrow> i) of
       None \<Rightarrow> DEFAULT_DISPATCH_CHANNEL | Some c \<Rightarrow> c)"

definition wk_attribution_codes :: "worker_job \<Rightarrow> string list" where
  "wk_attribution_codes ctx =
     code_if (\<not> given (wj_origin_source ctx)) ''ATTRIBUTION_MISSING_ORIGIN_SOURCE''
   @ code_if (\<not> given (wj_origin_authority ctx)) ''ATTRIBUTION_MISSING_ORIGIN_AUTHORITY''
   @ code_if (\<not> given (wj_correlation_id ctx)) ''ATTRIBUTION_MISSING_CORRELATION_ID''
   @ code_if (\<not> given (wj_actor_identity ctx)) ''ATTRIBUTION_MISSING_ACTOR_IDENTITY''"

text \<open>The codes of the failed preconditions; it passes when empty.\<close>

definition wk_precondition_gate :: "worker_job \<Rightarrow> string list" where
  "wk_precondition_gate ctx =
     code_if (\<not> given (wj_config_version_id ctx) \<or> wj_config_version_id ctx = Some UNKNOWN_V0)
       ''CONFIG_VERSION_UNRESOLVED''
   @ code_if (wj_execution_mode ctx \<notin> wk_execution_modes) ''EXECUTION_MODE_INVALID''
   @ code_if (wj_execution_type ctx \<notin> wk_execution_types) ''EXECUTION_TYPE_INVALID''
   @ code_if (\<not> given (wj_correlation_id ctx)) ''CORRELATION_ID_MISSING''
   @ filter (\<lambda>c. c \<noteq> ''ATTRIBUTION_MISSING_CORRELATION_ID'') (wk_attribution_codes ctx)"

definition build_execution_record ::
  "runtime \<Rightarrow> worker_job \<Rightarrow> string \<Rightarrow> string list \<Rightarrow> string list \<Rightarrow> bool \<Rightarrow> string option \<Rightarrow> bool
   \<Rightarrow> string option \<Rightarrow> string option \<Rightarrow> bool \<Rightarrow> string option \<Rightarrow> string option \<Rightarrow> worker_record" where
  "build_execution_record rt ctx outcome rule_path reason_codes execution_blocked blocking_reason
     dispatch_delegated channel dispatch_outcome outbound_suppressed suppression_reason error_class =
    \<lparr>wo_job_id = wj_job_id ctx, wo_governance_scope = wj_governance_scope ctx,
     wo_outcome = outcome, wo_correlation_id = wj_correlation_id ctx,
     wo_causation_id = wj_causation_id ctx,
     wo_orchestration_cycle_id = wj_orchestration_cycle_id ctx,
     wo_origin_source = wj_origin_source ctx, wo_origin_authority = wj_origin_authority ctx,
     wo_actor_identity = wj_actor_identity ctx, wo_config_version_id = wj_config_version_id ctx,
     wo_execution_mode = wj_execution_mode ctx, wo_execution_type = wj_execution_type ctx,
     wo_intent_type = wj_intent_type ctx, wo_dispatch_delegated = dispatch_delegated,
     wo_dispatch_outcome = dispatch_outcome, wo_channel = channel,
     wo_outbound_suppressed = outbound_suppressed, wo_suppression_reason = suppression_reason,
     wo_degraded = wj_degraded ctx, wo_degradation_cause = wj_degradation_cause ctx,
     wo_student_id_opaque = wj_student_id_opaque ctx, wo_checkpoint_type = wj_checkpoint_type ctx,
     wo_contact_attempt = wj_contact_attempt ctx, wo_event_id = rt_uuid rt,
     wo_rule_path_taken = rule_path, wo_duration_ms = rt_duration_ms rt,
     wo_reason_codes = reason_codes, wo_error_class = error_class,
     wo_execution_blocked = execution_blocked, wo_blocking_reason = blocking_reason\<rparr>"

definition emit_worker_execution_log ::
  "runtime \<Rightarrow> worker_record \<Rightarrow> string option \<Rightarrow> log_line" where
  "emit_worker_execution_log rt r student_id_opaque =
    (let level = (if wo_execution_blocked r \<or> wo_degraded r
                     \<or> wo_outcome r \<in> {''blocked'', ''execution_error''}
                  then ''warning'' else ''info'')
     in LogJson level
      [(''timestamp'', VStr (rt_now_iso rt)), (''level'', VStr level),
       (''service'', VStr ''worker_execution''), (''event'', VStr ''worker_execution_result''),
       (''job_id'', VStr (wo_job_id r)),
       (''event_id'', VStr (wo_event_id r)),
       (''governance_scope'', VStr (wo_governance_scope r)),
       (''outcome'', VStr (wo_outcome r)),
       (''execution_mode'', VStr (wo_execution_mode r)),
       (''execution_type'', VStr (wo_execution_type r)),
       (''correlation_id'', opt_val (wo_correlation_id r)),
       (''causation_id'', opt_val (wo_causation_id r)),
       (''orchestration_cycle_id'', opt_val (wo_orchestration_cycle_id r)),
       (''origin_source'', opt_val (wo_origin_source r)),
       (''origin_authority'', opt_val (wo_origin_authority r)),
       (''config_version_id'', opt_val (wo_config_version_id r)),
       (''intent_type'', opt_val (wo_intent_type r)),
       (''dispatch_delegated'', VBool (wo_dispatch_delegated r)),
       (''dispatch_outcome'', opt_val (wo_dispatch_outcome r)),
       (''channel'', opt_val (wo_channel r)),
       (''outbound_suppressed'', VBool (wo_outbound_suppressed r)),
       (''suppression_reason'', opt_val (wo_suppression_reason r)),
       (''execution_blocked'', VBool (wo_execution_blocked r)),
       (''blocking_reason'', opt_val (wo_blocking_reason r)),
       (''degraded'', VBool (wo_degraded r)),
       (''degradation_cause'', opt_val (wo_degradation_cause r)),
       (''student_id_opaque'', opt_val student_id_opaque),
       (''checkpoint_type'', opt_val (wo_checkpoint_type r)),
       (''contact_attempt'', VInt (wo_contact_attempt r)),
       (''rule_path_taken'', str_list (wo_rule_path_taken r)),
       (''reason_codes'', str_list (wo_reason_codes r)),
       (''duration_ms'', VInt (wo_duration_ms r)),
       (''error_class'', opt_val (wo_error_class r))])"

section \<open>The execution coordinator\<close>

record platform =
  pf_coordination :: store
  pf_provider :: store
  pf_log :: "log_line list"

definition pf_emit :: "log_line list \<Rightarrow> platform \<Rightarrow> platform" where
  "pf_emit ls pf = pf\<lparr>pf_log := pf_log pf @ ls\<rparr>"

text \<open>Rules 0--5: the record of a blocked or suppressed job, or \<open>None\<close> when all gates pass.\<close>

definition worker_gates ::
  "runtime \<Rightarrow> worker_job \<Rightarrow> outreach_record \<Rightarrow> worker_record option" where
  "worker_gates rt ctx r =
    (let gate_codes = wk_precondition_gate ctx;
         blocked = (\<lambda>path codes reason.
           Some (build_execution_record rt ctx ''blocked'' path codes True (Some reason)
             False None None False None None));
         suppressed = (\<lambda>path codes reason why.
           Some (build_execution_record rt ctx ''suppressed'' path codes False reason
             False None None True (Some why) None))
     in if gate_codes \<noteq> [] then blocked [''RULE_0''] gate_codes (hd gate_codes)
        else if \<not> oo_dispatch_authorized r then
          suppressed [''RULE_0'', ''RULE_1'']
            (''DISPATCH_NOT_AUTHORIZED'' # code_if (oo_orchestration_blocked r) ''ORCHESTRATION_BLOCKED'')
            (oo_dispatch_blocked_reason r)
            (if given (oo_dispatch_blocked_reason r) then the (oo_dispatch_blocked_reason r)
             else ''dispatch_not_authorized'')
        else if wj_governance_scope ctx \<in> wk_suppressed_scopes then
          suppressed [''RULE_0'', ''RULE_1'', ''RULE_2'']
            [''GOVERNANCE_SCOPE_SUPPRESSED'', wj_governance_scope ctx]
            (Some (''scope:'' @ wj_governance_scope ctx))
            (''governance_scope:'' @ wj_governance_scope ctx)
        else if wj_is_replay ctx \<or> wj_execution_type ctx \<in> wk_replay_types then
          suppressed [''RULE_0'', ''RULE_1'', ''RULE_2'', ''RULE_3''] [''REPLAY_EXECUTION_SUPPRESSED'']
            (Some ''replay_containment'') ''replay_containment''
        else if wj_live_effects_suppressed ctx then
          suppressed [''RULE_0'', ''RULE_1'', ''RULE_2'', ''RULE_3'', ''RULE_4'']
            [''LIVE_EFFECTS_SUPPRESSED''] (Some ''live_effects_suppressed'') ''live_effects_suppressed''
        else if wj_compliance_hold_active ctx then
          blocked [''RULE_0'', ''RULE_1'', ''RULE_2'', ''RULE_3'', ''RULE_4'', ''RULE_5'']
            [''COMPLIANCE_HOLD_ACTIVE''] ''compliance_hold''
        else None)"

text \<open>Rule 6: the record of a job delegated to the transport boundary.\<close>

definition delegation_record ::
  "runtime \<Rightarrow> worker_job \<Rightarrow> string \<Rightarrow> dispatch_result \<Rightarrow> worker_record" where
  "delegation_record rt ctx channel d =
     build_execution_record rt ctx ''dispatch_delegated''
       [''RULE_0'', ''RULE_1'', ''RULE_2'', ''RULE_3'', ''RULE_4'', ''RULE_5'', ''RULE_6'']
       (dr_reason_codes d) False None True (Some channel) (Some (dr_outcome d))
       (dr_outbound_suppressed d)
       (if dr_outbound_suppressed d
        then Some (if dr_governance_scope d \<noteq> [] then ''transport_scope:'' @ dr_governance_scope d
                   else ''transport_suppressed'')
        else None)
       None"

definition coordinate_worker_execution ::
  "settings \<Rightarrow> (nat \<Rightarrow> runtime) \<Rightarrow> outreach_record \<Rightarrow> trigger_row \<Rightarrow> int \<Rightarrow> platform
   \<Rightarrow> worker_record res \<times> platform" where
  "coordinate_worker_execution st rs r student attempt pf =
    (let ctx = make_job_context r student attempt (rt_uuid (rs 0));
         worker_line = (\<lambda>w. emit_worker_execution_log (rs 1) w (wj_student_id_opaque ctx))
     in case worker_gates (rs 1) ctx r of
          Some w \<Rightarrow> (Inr w, pf_emit [worker_line w] pf)
        | None \<Rightarrow>
          (case assess_provider_orchestration (rs 2) (make_provider_context ctx) (pf_provider pf) of
             (Inl e, s) \<Rightarrow> (Inl e, pf\<lparr>pf_provider := s\<rparr>)
           | (Inr assessment, s) \<Rightarrow>
               let channel = channel_for_intent (wj_intent_type ctx);
                   (d, transport_line) = execute_ghl_dispatch (rs 3) assessment
                     (build_ghl_payload st student channel attempt);
                   w = delegation_record (rs 1) ctx channel d
               in (Inr w, pf_emit [transport_line, worker_line w] (pf\<lparr>pf_provider := s\<rparr>))))"

section \<open>The batch cycle\<close>

record student_entry =
  se_student_id_opaque :: "string option"
  se_outcome :: string
  se_governance_scope :: string
  se_dispatch_delegated :: bool
  se_channel :: "string option"
  se_reason_codes :: "string list"
  se_execution_blocked :: bool

record batch_summary =
  bs_cycle_correlation_id :: string
  bs_checkpoint_type :: string
  bs_execution_mode :: string
  bs_config_version_id :: string
  bs_total :: nat
  bs_processed :: nat
  bs_dispatch_delegated :: nat
  bs_suppressed :: nat
  bs_blocked :: nat
  bs_errors :: nat
  bs_student_records :: "student_entry list"

type_synonym attribution_context = "(string \<times> string) list"

text \<open>\<^verbatim>\<open>attr.get(k, v)\<close>\<close>

definition attr_get :: "attribution_context \<Rightarrow> string \<Rightarrow> string \<Rightarrow> string option" where
  "attr_get attr k v = Some (case map_of attr k of None \<Rightarrow> v | Some x \<Rightarrow> x)"

text \<open>The context of one student: the fields the runner does not pass keep their defaults.\<close>

definition batch_context ::
  "string \<Rightarrow> string \<Rightarrow> string option \<Rightarrow> attribution_context \<Rightarrow> string \<Rightarrow> string \<Rightarrow> string
   \<Rightarrow> trigger_row \<Rightarrow> int \<Rightarrow> outreach_context" where
  "batch_context checkpoint_type mode config_version_id attr cycle_correlation_id cycle_id
     student_correlation_id student attempt =
    \<lparr>oi_config_version_id = config_version_id, oi_execution_mode = mode,
     oi_execution_type = ''original'', oi_correlation_id = Some student_correlation_id,
     oi_config_rule_set = None, oi_causation_id = Some cycle_correlation_id,
     oi_orchestration_cycle_id = Some cycle_id, oi_idempotency_key = None,
     oi_compliance_hold_flag = False, oi_maintenance_mode_active = False,
     oi_origin_source = attr_get attr ''origin_source'' ''batch_worker'',
     oi_origin_authority = attr_get attr ''origin_authority'' ''system'',
     oi_actor_identity = attr_get attr ''actor_identity'' ''batch_runner'',
     oi_attribution_timestamp = None, oi_upstream_correlation_id = None,
     oi_student_id_opaque = opaque_id student, oi_checkpoint_type = Some checkpoint_type,
     oi_outreach_state = None, oi_contact_attempt_count = attempt - 1,
     oi_last_contact_at = None, oi_circuit_breaker_state = ''UNKNOWN'',
     oi_provider_degradation_state = ''OPERATIONAL'', oi_sync_lag_hours = Fin 0,
     oi_ai_governance_tier = None, oi_ai_confidence_score = None,
     oi_historical_config_version_id = None, oi_source_artifact_id = None\<rparr>"

text \<open>\<^verbatim>\<open>type(exc).__name__\<close>\<close>

fun error_name :: "py_error \<Rightarrow> string" where
  "error_name TypeError = ''TypeError''"
| "error_name ValueError = ''ValueError''"
| "error_name OverflowError = ''OverflowError''"
| "error_name KeyError = ''KeyError''"
| "error_name StateViolationError = ''StateViolationError''"
| "error_name MultipleResultsFound = ''MultipleResultsFound''"

definition student_error_line :: "runtime \<Rightarrow> string \<Rightarrow> trigger_row \<Rightarrow> py_error \<Rightarrow> log_line" where
  "student_error_line rt cycle_correlation_id student e = LogText ''error''
    (''{\"timestamp\": \"'' @ rt_now_iso rt
     @ ''\", \"level\": \"error\", \"service\": \"worker_execution\",''
     @ '' \"event\": \"batch_cycle_student_error\",''
     @ '' \"cycle_correlation_id\": \"'' @ cycle_correlation_id
     @ ''\", \"student_id_opaque\": \"'' @ show_int (td_UserID student)
     @ ''\", \"error_class\": \"'' @ error_name e @ ''\"}'')"

text \<open>
  The attempt of a student from the tracking rows; more than one row raises, outside the
  per-student \<^verbatim>\<open>try\<close>.
\<close>

definition current_attempt :: "tracking_row list \<Rightarrow> string \<Rightarrow> trigger_row \<Rightarrow> int res" where
  "current_attempt tracking checkpoint_type student =
    (case filter (\<lambda>t. tr_user_id t = td_UserID student \<and> tr_checkpoint_type t = checkpoint_type)
        tracking of
       [] \<Rightarrow> Inr 1
     | [t] \<Rightarrow> Inr (tr_current_attempt t + 1)
     | _ \<Rightarrow> Inl MultipleResultsFound)"

text \<open>The \<^verbatim>\<open>try\<close> block of one student: coordination, then execution.\<close>

definition batch_student ::
  "settings \<Rightarrow> (nat \<Rightarrow> runtime) \<Rightarrow> outreach_context \<Rightarrow> trigger_row \<Rightarrow> int \<Rightarrow> platform
   \<Rightarrow> worker_record res \<times> platform" where
  "batch_student st rs ctx student attempt pf =
    (case coordinate_orchestration_cycle (rs 1) ctx (pf_coordination pf) of
       (Inl e, s) \<Rightarrow> (Inl e, pf\<lparr>pf_coordination := s\<rparr>)
     | (Inr r, s) \<Rightarrow>
         coordinate_worker_execution st (\<lambda>n. rs (n + 2)) r student attempt
           (pf\<lparr>pf_coordination := s\<rparr>))"

definition student_entry_of :: "worker_record \<Rightarrow> student_entry" where
  "student_entry_of w = \<lparr>se_student_id_opaque = wo_student_id_opaque w,
     se_outcome = wo_outcome w, se_governance_scope = wo_governance_scope w,
     se_dispatch_delegated = wo_dispatch_delegated w, se_channel = wo_channel w,
     se_reason_codes = wo_reason_codes w, se_execution_blocked = wo_execution_blocked w\<rparr>"

definition count_record :: "worker_record \<Rightarrow> batch_summary \<Rightarrow> batch_summary" where
  "count_record w b =
    (let b1 = b\<lparr>bs_processed := bs_processed b + 1,
           bs_student_records := bs_student_records b @ [student_entry_of w]\<rparr>
     in if wo_dispatch_delegated w then b1\<lparr>bs_dispatch_delegated := bs_dispatch_delegated b + 1\<rparr>
        else if wo_execution_blocked w then b1\<lparr>bs_blocked := bs_blocked b + 1\<rparr>
        else b1\<lparr>bs_suppressed := bs_suppressed b + 1\<rparr>)"

definition count_error :: "batch_summary \<Rightarrow> batch_summary" where
  "count_error b = b\<lparr>bs_errors := bs_errors b + 1, bs_processed := bs_processed b + 1\<rparr>"

text \<open>The readings of student \<open>i\<close> are \<open>srs i\<close>; reading 0 is its correlation identifier.\<close>

fun batch_loop ::
  "settings \<Rightarrow> (nat \<Rightarrow> nat \<Rightarrow> runtime) \<Rightarrow> string \<Rightarrow> (trigger_row \<Rightarrow> string \<Rightarrow> int \<Rightarrow> outreach_context)
   \<Rightarrow> tracking_row list \<Rightarrow> string \<Rightarrow> nat \<Rightarrow> trigger_row list \<Rightarrow> batch_summary \<Rightarrow> platform
   \<Rightarrow> batch_summary res \<times> platform" where
  "batch_loop st srs cycle_correlation_id context tracking checkpoint_type i [] b pf = (Inr b, pf)"
| "batch_loop st srs cycle_correlation_id context tracking checkpoint_type i (student # students) b pf =
    (case current_attempt tracking checkpoint_type student of
       Inl e \<Rightarrow> (Inl e, pf)
     | Inr attempt \<Rightarrow>
       (case batch_student st (srs i) (context student (rt_uuid (srs i 0)) attempt) student attempt pf of
          (Inr w, pf1) \<Rightarrow>
            batch_loop st srs cycle_correlation_id context tracking checkpoint_type (Suc i) students
              (count_record w b) pf1
        | (Inl e, pf1) \<Rightarrow>
            batch_loop st srs cycle_correlation_id context tracking checkpoint_type (Suc i) students
              (count_error b)
              (pf_emit [student_error_line (srs i 6) cycle_correlation_id student e] pf1)))"

text \<open>\<^verbatim>\<open>where PathName == checkpoint_type\<close>\<close>

definition checkpoint_students :: "trigger_row list \<Rightarrow> string \<Rightarrow> trigger_row list" where
  "checkpoint_students rows checkpoint_type =
     filter (\<lambda>s. td_PathName s = Some checkpoint_type) rows"

definition run_batch_cycle ::
  "settings \<Rightarrow> (nat \<Rightarrow> nat \<Rightarrow> runtime) \<Rightarrow> trigger_row list \<Rightarrow> database \<Rightarrow> string \<Rightarrow> string
   \<Rightarrow> string option \<Rightarrow> attribution_context option \<Rightarrow> platform \<Rightarrow> batch_summary res \<times> platform" where
  "run_batch_cycle st srs rows d checkpoint_type mode config_version_id attribution pf =
    (let attr = (case attribution of None \<Rightarrow> [] | Some a \<Rightarrow> a);
         cycle_correlation_id = rt_uuid (srs 0 0);
         cycle_id = rt_uuid (srs 0 1);
         students = checkpoint_students rows checkpoint_type;
         summary = \<lparr>bs_cycle_correlation_id = cycle_correlation_id,
           bs_checkpoint_type = checkpoint_type, bs_execution_mode = mode,
           bs_config_version_id =
             (if given config_version_id then the config_version_id else UNKNOWN_V0),
           bs_total = length students, bs_processed = 0, bs_dispatch_delegated = 0,
           bs_suppressed = 0, bs_blocked = 0, bs_errors = 0, bs_student_records = []\<rparr>
     in batch_loop st srs cycle_correlation_id
          (\<lambda>student corr attempt. batch_context checkpoint_type mode config_version_id attr
             cycle_correlation_id cycle_id corr student attempt)
          (db_tracking d) checkpoint_type 1 students summary pf)"

text \<open>
  The two entry points. \<^verbatim>\<open>run_outreach_batch\<close> passes the text of the mode and no
  configuration; \<^verbatim>\<open>batch_run\<close> passes the mode and the attribute
  \<^verbatim>\<open>CONFIG_VERSION_ID\<close> of the settings, which they do not declare.
\<close>

definition run_outreach_batch ::
  "settings \<Rightarrow> (nat \<Rightarrow> nat \<Rightarrow> runtime) \<Rightarrow> trigger_row list \<Rightarrow> database \<Rightarrow> string \<Rightarrow> platform
   \<Rightarrow> batch_summary res \<times> platform" where
  "run_outreach_batch st srs rows d checkpoint_type pf =
     run_batch_cycle st srs rows d checkpoint_type (str_of_mode (EXECUTION_MODE st)) None None pf"

definition batch_run ::
  "settings \<Rightarrow> (nat \<Rightarrow> nat \<Rightarrow> runtime) \<Rightarrow> trigger_row list \<Rightarrow> database \<Rightarrow> string \<Rightarrow> platform
   \<Rightarrow> batch_summary res \<times> platform" where
  "batch_run st srs rows d checkpoint_type pf =
     run_batch_cycle st srs rows d checkpoint_type (enum_value (EXECUTION_MODE st)) None
       (Some [(''origin_source'', ''batch_api''), (''origin_authority'', ''system''),
              (''actor_identity'', ''batch_runner'')]) pf"

end
