(* ===== verification/CoordinationProps.thy ===== *)
theory CoordinationProps
  imports Coordination
begin

text \<open>
  What the coordination cycle promises: it never authorizes a dispatch, a contact intent is
  produced exactly for open cases below a usable attempt ceiling, an idempotency key is accepted
  once, and the only exception that escapes is \<^verbatim>\<open>OverflowError\<close>, which leaves
  the key registered and nothing logged.
\<close>

section \<open>Errors of the threshold conversions\<close>

lemma attempts_exhausted_Inl: "attempts_exhausted n v = Inl e \<Longrightarrow> e = OverflowError"
  by (auto simp: attempts_exhausted_def tolerate_Inl bind_Inl_iff dest: py_int_errors
      split: if_split_asm)

lemma classify_intent_Inl: "classify_intent ctx b t = Inl e \<Longrightarrow> e = OverflowError"
  by (auto simp: classify_intent_def bind_Inl_iff dest: attempts_exhausted_Inl
      split: if_split_asm)

lemma out_stale_sync_Inl: "out_stale_sync rt ctx b = Inl e \<Longrightarrow> e = OverflowError"
  by (auto simp: out_stale_sync_def Let_def tolerate_Inl bind_Inl_iff dest: py_float_errors
      split: if_split_asm)

lemma out_coordinate_Inl: "out_coordinate rt ctx = Inl e \<Longrightarrow> e = OverflowError"
  unfolding out_coordinate_def Let_def case_prod_unfold bind_Inl_iff
  by (auto dest: classify_intent_Inl out_stale_sync_Inl)

section \<open>The cycle, path by path\<close>

definition out_bindings :: "outreach_context \<Rightarrow> pydict" where
  "out_bindings ctx = fst (resolve_orchestration_thresholds
     (case oi_config_rule_set ctx of None \<Rightarrow> [] | Some d \<Rightarrow> d))"

text \<open>The calls that reach Rule 3.\<close>

definition out_coordinated :: "string set \<Rightarrow> outreach_context \<Rightarrow> bool" where
  "out_coordinated ks ctx \<longleftrightarrow> out_precondition_gate ks ctx = []
     \<and> \<not> oi_maintenance_mode_active ctx \<and> oi_execution_type ctx \<notin> out_replay_types"

lemma coordinate_scope:
  assumes "out_coordinate rt ctx = Inr r"
  shows "oo_governance_scope r =
      (if oi_circuit_breaker_state ctx = ''OPEN'' \<or> oi_compliance_hold_flag ctx
       then ''UNAVAILABLE'' else ''SHADOW_ONLY'')"
    and "\<not> oo_dispatch_authorized r" and "oo_live_effects_suppressed r"
    and "oo_origin_source r = oi_origin_source ctx"
    and "oo_origin_authority r = oi_origin_authority ctx"
    and "oo_actor_identity r = oi_actor_identity ctx"
    and "oo_correlation_id r = oi_correlation_id ctx"
  using assms unfolding out_coordinate_def Let_def case_prod_unfold bind_res_Inr_iff
  by (auto simp: make_coordination_record_def)

lemma coordinate_intent:
  assumes "out_coordinate rt ctx = Inr r"
  obtains i where "classify_intent ctx (out_bindings ctx) (oi_ai_governance_tier ctx) = Inr i"
    and "oo_intent_type r = Some i"
  using assms unfolding out_coordinate_def Let_def case_prod_unfold bind_res_Inr_iff
  by (auto simp: make_coordination_record_def simp flip: out_bindings_def)

lemma coordinated_result:
  "out_coordinated (keys s) ctx \<Longrightarrow>
    fst (coordinate_orchestration_cycle rt ctx s) = out_coordinate rt ctx"
  by (simp add: out_coordinated_def coordinate_orchestration_cycle_def out_evaluate_def Let_def
      split: sum.split)

lemma uncoordinated_intent:
  "\<not> out_coordinated (keys s) ctx \<Longrightarrow>
    \<exists>r. fst (coordinate_orchestration_cycle rt ctx s) = Inr r \<and> oo_intent_type r = None"
  by (auto simp: out_coordinated_def coordinate_orchestration_cycle_def out_evaluate_def
      Let_def out_make_blocked_record_def out_make_maintenance_record_def
      out_make_replay_record_def)

text \<open>The two ways a call ends, as the callers see them.\<close>

lemma coordinate_config:
  "out_coordinate rt ctx = Inr r \<Longrightarrow> oo_config_version_id r = oi_config_version_id ctx"
  unfolding out_coordinate_def Let_def case_prod_unfold bind_res_Inr_iff
  by (auto simp: make_coordination_record_def)

lemma coordinate_ends:
  obtains (raised) s' where
    "coordinate_orchestration_cycle rt ctx s = (Inl OverflowError, s')"
    "out_precondition_gate (keys s) ctx = []"
  | (returned) r s' where "coordinate_orchestration_cycle rt ctx s = (Inr r, s')"
    "\<not> oo_dispatch_authorized r" "oo_config_version_id r = oi_config_version_id ctx"
proof (cases "out_coordinated (keys s) ctx")
  case True
  with coordinate_scope(2) coordinate_config out_coordinate_Inl [of rt ctx] show ?thesis
    by (cases "out_coordinate rt ctx")
      (auto simp: out_coordinated_def coordinate_orchestration_cycle_def out_evaluate_def Let_def
        intro: raised returned)
next
  case False
  then have "\<exists>r s'. coordinate_orchestration_cycle rt ctx s = (Inr r, s')
      \<and> \<not> oo_dispatch_authorized r \<and> oo_config_version_id r = oi_config_version_id ctx"
    by (auto simp: out_coordinated_def coordinate_orchestration_cycle_def out_evaluate_def
        Let_def out_make_blocked_record_def out_make_maintenance_record_def
        out_make_replay_record_def)
  then show ?thesis using returned by blast
qed

text \<open>
  Coordination never authorizes a dispatch: every returned record has no dispatch
  authorization and suppresses live effects, its scope is UNAVAILABLE for a refused call and for
  an open circuit breaker or compliance hold, and otherwise MAINTENANCE, REPLAY_ONLY or
  SHADOW_ONLY, also in LIVE mode; it carries the attribution of the context, and it is logged.
  The only exception that escapes is an overflow, which is not logged.
\<close>

theorem coordination_never_dispatches:
  "case coordinate_orchestration_cycle rt ctx s of
     (Inl e, s') \<Rightarrow> e = OverflowError \<and> out_coordinated (keys s) ctx \<and> events s' = events s
   | (Inr r, s') \<Rightarrow> \<not> oo_dispatch_authorized r \<and> oo_live_effects_suppressed r
       \<and> oo_governance_scope r =
           (if out_precondition_gate (keys s) ctx \<noteq> [] then ''UNAVAILABLE''
            else if oi_maintenance_mode_active ctx then ''MAINTENANCE''
            else if oi_execution_type ctx \<in> out_replay_types then ''REPLAY_ONLY''
            else if oi_circuit_breaker_state ctx = ''OPEN'' \<or> oi_compliance_hold_flag ctx
            then ''UNAVAILABLE'' else ''SHADOW_ONLY'')
       \<and> (oo_origin_source r, oo_origin_authority r, oo_actor_identity r, oo_correlation_id r) =
           (oi_origin_source ctx, oi_origin_authority ctx, oi_actor_identity ctx,
            oi_correlation_id ctx)
       \<and> events s' = events s @ [emit_orchestration_event_log rt r (oi_student_id_opaque ctx)]"
proof (cases "out_coordinated (keys s) ctx")
  case True
  show ?thesis
  proof (cases "out_coordinate rt ctx")
    case (Inl e)
    with True out_coordinate_Inl [OF Inl] show ?thesis
      by (simp add: out_coordinated_def coordinate_orchestration_cycle_def out_evaluate_def
          Let_def)
  next
    case (Inr r)
    with True coordinate_scope [OF Inr] show ?thesis
      by (simp add: out_coordinated_def coordinate_orchestration_cycle_def out_evaluate_def
          Let_def)
  qed
next
  case False
  then show ?thesis
    by (auto simp: out_coordinated_def coordinate_orchestration_cycle_def out_evaluate_def
        Let_def out_make_blocked_record_def out_make_maintenance_record_def
        out_make_replay_record_def)
qed

section \<open>Contact intents\<close>

definition out_open_case :: "outreach_context \<Rightarrow> bool" where
  "out_open_case ctx \<longleftrightarrow> oi_outreach_state ctx \<in> insert (Some ''NO_RESPONSE'') OUT_INITIAL_STATES"

lemma open_states:
  "out_open_case ctx \<longleftrightarrow> oi_outreach_state ctx = None \<or> oi_outreach_state ctx = Some ''ELIGIBLE''
    \<or> oi_outreach_state ctx = Some ''QUEUED'' \<or> oi_outreach_state ctx = Some ''NO_RESPONSE''"
  by (auto simp: out_open_case_def OUT_INITIAL_STATES_def)

lemma classify_open:
  assumes "out_open_case ctx" and "t \<noteq> Some ''IN_FLIGHT''"
  shows "classify_intent ctx b t = bind_res (attempts_exhausted (oi_contact_attempt_count ctx)
      (dict_get b ''outreach_max_retry_attempts'')) (\<lambda>exhausted.
        Inr (if exhausted then ''ESCALATE''
             else if oi_outreach_state ctx = Some ''NO_RESPONSE'' then ''RETRY_OUTREACH''
             else ''INITIATE_OUTREACH''))"
  using assms(1) unfolding open_states
  by (elim disjE; cases "attempts_exhausted (oi_contact_attempt_count ctx)
        (dict_get b ''outreach_max_retry_attempts'')")
    (simp_all add: classify_intent_def assms(2) OUT_TERMINAL_STATES_def OUT_INITIAL_STATES_def)

lemma classify_other:
  assumes "\<not> out_open_case ctx \<or> t = Some ''IN_FLIGHT''" and "classify_intent ctx b t = Inr i"
  shows "i \<in> {''HOLD'', ''DEFER_PENDING_AI'', ''ESCALATE''}"
  using assms unfolding out_open_case_def
  by (cases "attempts_exhausted (oi_contact_attempt_count ctx)
        (dict_get b ''outreach_max_retry_attempts'')")
    (auto simp: classify_intent_def split: if_split_asm)

lemma classify_contact:
  assumes "classify_intent ctx b t = Inr i"
  shows "i \<in> {''INITIATE_OUTREACH'', ''RETRY_OUTREACH''} \<longleftrightarrow>
      out_open_case ctx \<and> t \<noteq> Some ''IN_FLIGHT''
      \<and> attempts_exhausted (oi_contact_attempt_count ctx)
          (dict_get b ''outreach_max_retry_attempts'') = Inr False"
proof (cases "out_open_case ctx \<and> t \<noteq> Some ''IN_FLIGHT''")
  case True
  with assms show ?thesis
    by (cases "attempts_exhausted (oi_contact_attempt_count ctx)
        (dict_get b ''outreach_max_retry_attempts'')") (auto simp: classify_open split: if_splits)
next
  case False
  with classify_other [OF _ assms] show ?thesis by auto
qed

lemma attempts_exhausted_False:
  assumes "attempts_exhausted n v = Inr x"
  shows "\<not> x \<longleftrightarrow> (bound_threshold v \<longrightarrow> (\<forall>m. py_int v = Inr m \<longrightarrow> n < m))"
  using assms by (cases "py_int v")
    (auto simp: attempts_exhausted_def tolerate_def split: if_split_asm)

lemma classify_open_total:
  assumes "classify_intent ctx b t = Inr i" "out_open_case ctx" "t \<noteq> Some ''IN_FLIGHT''"
  obtains x where "attempts_exhausted (oi_contact_attempt_count ctx)
      (dict_get b ''outreach_max_retry_attempts'') = Inr x"
  using assms by (auto simp: classify_open bind_res_Inr_iff)

text \<open>
  A contact intent (initiate or retry) is returned exactly for a coordinated call of a case
  without state or in ELIGIBLE, QUEUED or NO_RESPONSE, without an AI insight in flight, whose
  attempt count is strictly below the configured ceiling when that is a number or numeric text;
  the dispatch blocks of Rules 6 and 7 do not change the intent.
\<close>

theorem contact_intent_iff:
  assumes "fst (coordinate_orchestration_cycle rt ctx s) = Inr r"
  shows "oo_intent_type r \<in> {Some ''INITIATE_OUTREACH'', Some ''RETRY_OUTREACH''} \<longleftrightarrow>
    out_coordinated (keys s) ctx \<and> out_open_case ctx
    \<and> oi_ai_governance_tier ctx \<noteq> Some ''IN_FLIGHT''
    \<and> (let v = dict_get (out_bindings ctx) ''outreach_max_retry_attempts''
       in bound_threshold v \<longrightarrow> (\<forall>m. py_int v = Inr m \<longrightarrow> oi_contact_attempt_count ctx < m))"
proof (cases "out_coordinated (keys s) ctx")
  case True
  then have r: "out_coordinate rt ctx = Inr r" using assms by (simp add: coordinated_result)
  obtain i where c: "classify_intent ctx (out_bindings ctx) (oi_ai_governance_tier ctx) = Inr i"
    and i: "oo_intent_type r = Some i" using r by (rule coordinate_intent)
  let ?v = "dict_get (out_bindings ctx) ''outreach_max_retry_attempts''"
  have "attempts_exhausted (oi_contact_attempt_count ctx) ?v = Inr False \<longleftrightarrow>
      (bound_threshold ?v \<longrightarrow> (\<forall>m. py_int ?v = Inr m \<longrightarrow> oi_contact_attempt_count ctx < m))"
    if o: "out_open_case ctx" "oi_ai_governance_tier ctx \<noteq> Some ''IN_FLIGHT''"
  proof -
    obtain x where x: "attempts_exhausted (oi_contact_attempt_count ctx) ?v = Inr x"
      using c o by (rule classify_open_total)
    from attempts_exhausted_False [OF x] x show ?thesis by simp
  qed
  with True i classify_contact [OF c] show ?thesis unfolding Let_def by auto
next
  case False
  with assms uncoordinated_intent [OF False, of rt] show ?thesis by auto
qed

definition sample_outreach :: outreach_context where
  "sample_outreach = \<lparr>oi_config_version_id = Some ''v2'', oi_execution_mode = ''LIVE'',
     oi_execution_type = ''original'', oi_correlation_id = Some ''c-1'',
     oi_config_rule_set = Some [(''outreach_max_retry_attempts'', VStr ''3'')],
     oi_causation_id = None, oi_orchestration_cycle_id = None,
     oi_idempotency_key = Some ''k-1'', oi_compliance_hold_flag = False,
     oi_maintenance_mode_active = False, oi_origin_source = Some ''scheduler'',
     oi_origin_authority = Some ''system'', oi_actor_identity = Some ''orchestrator'',
     oi_attribution_timestamp = None, oi_upstream_correlation_id = None,
     oi_student_id_opaque = None, oi_checkpoint_type = None,
     oi_outreach_state = Some ''NO_RESPONSE'', oi_contact_attempt_count = 2,
     oi_last_contact_at = None, oi_circuit_breaker_state = ''CLOSED'',
     oi_provider_degradation_state = ''OPERATIONAL'', oi_sync_lag_hours = Fin 0,
     oi_ai_governance_tier = None, oi_ai_confidence_score = None,
     oi_historical_config_version_id = None, oi_source_artifact_id = None\<rparr>"

lemma sample_outreach_contact:
  "out_coordinated (keys empty_store) sample_outreach \<and> out_open_case sample_outreach"
  "oi_ai_governance_tier sample_outreach = None"
  "py_int (dict_get (out_bindings sample_outreach) ''outreach_max_retry_attempts'') = Inr 3"
  "oi_contact_attempt_count sample_outreach = 2"
  by code_simp+

lemma sample_outreach_steps:
  "out_stale_sync (sample_runtime 1) sample_outreach (out_bindings sample_outreach) = Inr False"
  "classify_intent sample_outreach (out_bindings sample_outreach) None = Inr ''RETRY_OUTREACH''"
  by code_simp+

lemma sample_outreach_runs:
  "fst (coordinate_orchestration_cycle (sample_runtime 1) sample_outreach empty_store) =
    Inr (projr (out_coordinate (sample_runtime 1) sample_outreach))"
  using sample_outreach_steps sample_outreach_contact(1,2)
  unfolding coordinated_result [OF conjunct1 [OF sample_outreach_contact(1)]]
    out_coordinate_def Let_def case_prod_unfold
  by (simp flip: out_bindings_def)

theorem contact_intent_iff_witness:
  "oo_intent_type (projr (out_coordinate (sample_runtime 1) sample_outreach))
    \<in> {Some ''INITIATE_OUTREACH'', Some ''RETRY_OUTREACH''}"
  using contact_intent_iff [OF sample_outreach_runs] by (simp add: sample_outreach_contact Let_def)

section \<open>Deduplication and the escaping overflow\<close>

text \<open>
  Over any sequence of coordination calls at most one original execution with a given
  idempotency key is not refused, whether it returned a record or raised.
\<close>

theorem coordination_key_accepted_once:
  "length (filter (\<lambda>((rt, ctx), r). oi_execution_type ctx = ''original''
        \<and> oi_idempotency_key ctx = Some k \<and> k \<noteq> [] \<and> \<not> out_refused r)
      (zip calls (fst (coordination_service.serve_all calls s)))) \<le> 1"
proof -
  have "coordination_service.accepted k = (\<lambda>((rt, ctx), r). oi_execution_type ctx = ''original''
      \<and> oi_idempotency_key ctx = Some k \<and> k \<noteq> [] \<and> \<not> out_refused r)"
    by (rule ext) (simp add: coordination_service.accepted_def case_prod_unfold)
  then show ?thesis using coordination_service.accepted_once [of k calls s] by simp
qed

text \<open>
  An infinite attempt ceiling in the configuration makes the cycle of an open case raise
  \<^verbatim>\<open>OverflowError\<close>: its idempotency key is used up, nothing is logged, and
  repeating the call is refused as a duplicate.
\<close>

theorem overflow_orphans_cycle:
  assumes "out_coordinated (keys s) ctx" and "oi_execution_type ctx = ''original''"
    and "oi_idempotency_key ctx = Some k" and "k \<noteq> []" and "out_open_case ctx"
    and "oi_ai_governance_tier ctx \<noteq> Some ''IN_FLIGHT''"
    and "dict_get (out_bindings ctx) ''outreach_max_retry_attempts'' = VFloat PInf"
  shows "coordinate_orchestration_cycle rt ctx s = (Inl OverflowError, s\<lparr>keys := insert k (keys s)\<rparr>)
    \<and> out_refused (fst (coordinate_orchestration_cycle rt2 ctx (s\<lparr>keys := insert k (keys s)\<rparr>)))"
proof -
  have "classify_intent ctx (out_bindings ctx) (oi_ai_governance_tier ctx) = Inl OverflowError"
    using assms by (simp add: classify_open attempts_exhausted_def bound_threshold_def)
  then have "out_coordinate rt ctx = Inl OverflowError"
    using out_stale_sync_Inl [of rt ctx "out_bindings ctx"]
    unfolding out_coordinate_def Let_def case_prod_unfold
    by (cases "out_stale_sync rt ctx (out_bindings ctx)") (simp_all flip: out_bindings_def)
  with assms show ?thesis
    by (simp add: out_coordinated_def coordinate_orchestration_cycle_def out_evaluate_def Let_def
        register_def out_refused_def out_make_blocked_record_def out_duplicate_gated)
qed

definition sample_overflow :: outreach_context where
  "sample_overflow = sample_outreach\<lparr>oi_config_rule_set :=
     Some [(''outreach_max_retry_attempts'', VFloat PInf)]\<rparr>"

theorem overflow_orphans_cycle_witness:
  "coordinate_orchestration_cycle (sample_runtime 1) sample_overflow empty_store =
      (Inl OverflowError, empty_store\<lparr>keys := insert ''k-1'' (keys empty_store)\<rparr>)
    \<and> out_refused (fst (coordinate_orchestration_cycle (sample_runtime 2) sample_overflow
        (empty_store\<lparr>keys := insert ''k-1'' (keys empty_store)\<rparr>)))"
  by (rule overflow_orphans_cycle) code_simp+

end
