(* ===== verification/WorkerProps.thy ===== *)
theory WorkerProps
  imports Worker CoordinationProps CaseActionsProps
begin

text \<open>
  What the worker layer promises: the idempotency key identifies student, path and attempt; a
  job is delegated exactly when every gate is open, and even then nothing goes out; a batch
  accounts for every student and delegates none; and what its two entry points do with the
  configuration they pass.
\<close>

section \<open>The idempotency key\<close>

lemma split_first:
  "c \<notin> set x \<Longrightarrow> c \<notin> set y \<Longrightarrow> x @ c # r = y @ c # q \<longleftrightarrow> x = y \<and> r = q"
proof (induction x arbitrary: y)
  case Nil
  then show ?case by (cases y) auto
next
  case (Cons a x)
  then show ?case by (cases y) auto
qed

lemma split_last:
  assumes "c \<notin> set x" and "c \<notin> set y"
  shows "r @ c # x = q @ c # y \<longleftrightarrow> r = q \<and> x = y"
proof -
  have "r @ c # x = q @ c # y \<longleftrightarrow> rev x @ c # rev r = rev y @ c # rev q"
    by (metis append.assoc append_Cons append_Nil rev.simps(2) rev_append rev_swap)
  then show ?thesis using assms by (simp add: split_first) blast
qed

definition path_text :: "trigger_row \<Rightarrow> string" where
  "path_text student = (case td_PathName student of None \<Rightarrow> ''None'' | Some p \<Rightarrow> p)"

text \<open>
  Two jobs have the same idempotency key exactly when they are for the same student, the
  same attempt and the same path (with a missing path read as the text None), whatever
  characters the path has.
\<close>

theorem worker_key_identifies_job:
  "worker_idempotency_key s a = worker_idempotency_key s' a' \<longleftrightarrow>
    td_UserID s = td_UserID s' \<and> path_text s = path_text s' \<and> a = a'"
  unfolding worker_idempotency_key_def path_text_def [symmetric]
  by (simp add: split_first split_last show_int_no_colon)

section \<open>Delegation\<close>

text \<open>Every gate of Rules 0--5 is open.\<close>

definition worker_open :: "worker_job \<Rightarrow> outreach_record \<Rightarrow> bool" where
  "worker_open ctx r \<longleftrightarrow> wk_precondition_gate ctx = [] \<and> oo_dispatch_authorized r
     \<and> wj_governance_scope ctx \<notin> wk_suppressed_scopes \<and> \<not> wj_is_replay ctx
     \<and> wj_execution_type ctx \<notin> wk_replay_types \<and> \<not> wj_live_effects_suppressed ctx
     \<and> \<not> wj_compliance_hold_active ctx"

lemma worker_gates_None: "worker_gates rt ctx r = None \<longleftrightarrow> worker_open ctx r"
  by (auto simp: worker_gates_def worker_open_def Let_def)

definition wo_contained :: "worker_record \<Rightarrow> bool" where
  "wo_contained w \<longleftrightarrow> wo_outbound_suppressed w = (\<not> wo_execution_blocked w)"

lemma worker_gates_Some:
  "worker_gates rt ctx r = Some w \<Longrightarrow>
    \<not> wo_dispatch_delegated w \<and> wo_contained w \<and> wo_channel w = None
    \<and> wo_outcome w \<in> {''blocked'', ''suppressed''}
    \<and> wo_correlation_id w = wj_correlation_id ctx"
  by (auto simp: worker_gates_def Let_def build_execution_record_def wo_contained_def
      split: if_split_asm)

lemma dispatch_suppressed:
  assumes "go_outbound_suppressed a"
  shows "dr_outbound_suppressed (fst (execute_ghl_dispatch rt a p))"
    and "dr_provider_response_code (fst (execute_ghl_dispatch rt a p)) = None"
  using assms by (simp_all add: execute_ghl_dispatch_def make_dispatch_result_def Let_def)

lemma delegation_record_simps [simp]:
  "wo_dispatch_delegated (delegation_record rt ctx c d)"
  "\<not> wo_execution_blocked (delegation_record rt ctx c d)"
  "wo_outbound_suppressed (delegation_record rt ctx c d) = dr_outbound_suppressed d"
  "wo_correlation_id (delegation_record rt ctx c d) = wj_correlation_id ctx"
  by (simp_all add: delegation_record_def build_execution_record_def)

text \<open>
  C10. For any coordination record, authorized ones included, the worker delegates exactly when
  every gate of Rules 0--5 is open, and each job it returns is either blocked or suppressed
  outbound, delegated ones included; the correlation identifier of the record is kept. The only
  exception is an overflow inside an open delegation, which changes no state.
\<close>

theorem worker_delegation:
  "case coordinate_worker_execution st rs r student attempt pf of
     (Inl e, pf') \<Rightarrow> e = OverflowError \<and> pf' = pf
       \<and> worker_open (make_job_context r student attempt (rt_uuid (rs 0))) r
   | (Inr w, pf') \<Rightarrow>
       wo_dispatch_delegated w = worker_open (make_job_context r student attempt (rt_uuid (rs 0))) r
       \<and> wo_outbound_suppressed w = (\<not> wo_execution_blocked w)
       \<and> wo_correlation_id w = oo_correlation_id r
       \<and> pf_coordination pf' = pf_coordination pf"
proof -
  let ?ctx = "make_job_context r student attempt (rt_uuid (rs 0))"
  have corr: "wj_correlation_id ?ctx = oo_correlation_id r" by (simp add: make_job_context_def)
  show ?thesis
  proof (cases "worker_gates (rs 1) ?ctx r")
    case (Some w)
    then have "\<not> worker_open ?ctx r" by (simp flip: worker_gates_None [of "rs 1"])
    with Some worker_gates_Some [OF Some] corr show ?thesis
      by (simp add: coordinate_worker_execution_def Let_def wo_contained_def pf_emit_def)
  next
    case None
    then have "worker_open ?ctx r" by (simp add: worker_gates_None)
    with None corr show ?thesis
      by (cases rule: assess_provider_cases
          [of "rs 2" "make_provider_context ?ctx" "pf_provider pf"])
        (simp_all add: coordinate_worker_execution_def Let_def case_prod_unfold pf_emit_def
          dispatch_suppressed ghl_done_def)
  qed
qed

section \<open>One student of a batch\<close>

lemma unauthorized_worker:
  assumes "\<not> oo_dispatch_authorized r"
  obtains w pf' where "coordinate_worker_execution st rs r student attempt pf = (Inr w, pf')"
    "\<not> wo_dispatch_delegated w" "pf_provider pf' = pf_provider pf"
    "\<not> given (oo_config_version_id r) \<longrightarrow> wo_execution_blocked w"
proof -
  let ?ctx = "make_job_context r student attempt (rt_uuid (rs 0))"
  from assms have "\<not> worker_open ?ctx r" by (simp add: worker_open_def)
  then obtain w where w: "worker_gates (rs 1) ?ctx r = Some w"
    by (cases "worker_gates (rs 1) ?ctx r") (simp_all add: worker_gates_None)
  have "\<not> given (oo_config_version_id r) \<longrightarrow> wo_execution_blocked w"
    using w by (auto simp: worker_gates_def wk_precondition_gate_def make_job_context_def
        build_execution_record_def Let_def)
  with w worker_gates_Some [OF w] that show ?thesis
    by (simp add: coordinate_worker_execution_def Let_def pf_emit_def)
qed

lemma batch_student_cases:
  obtains (failed) pf' where "batch_student st rs ctx student attempt pf = (Inl OverflowError, pf')"
    "pf_provider pf' = pf_provider pf" "given (oi_config_version_id ctx)"
  | (finished) w pf' where "batch_student st rs ctx student attempt pf = (Inr w, pf')"
    "pf_provider pf' = pf_provider pf" "\<not> wo_dispatch_delegated w"
    "\<not> given (oi_config_version_id ctx) \<longrightarrow> wo_execution_blocked w"
proof (cases rule: coordinate_ends [of "rs 1" ctx "pf_coordination pf"])
  case (raised s')
  then have "given (oi_config_version_id ctx)" by (simp add: out_precondition_gate_def)
  with raised failed show ?thesis by (simp add: batch_student_def)
next
  case (returned r s')
  obtain w pf' where "coordinate_worker_execution st (\<lambda>n. rs (n + 2)) r student attempt
      (pf\<lparr>pf_coordination := s'\<rparr>) = (Inr w, pf')"
    "\<not> wo_dispatch_delegated w" "pf_provider pf' = pf_provider (pf\<lparr>pf_coordination := s'\<rparr>)"
    "\<not> given (oo_config_version_id r) \<longrightarrow> wo_execution_blocked w"
    using returned(2) by (rule unauthorized_worker)
  with returned finished show ?thesis by (simp add: batch_student_def)
qed

section \<open>The batch\<close>

definition unique_cases :: "database \<Rightarrow> bool" where
  "unique_cases d \<longleftrightarrow> distinct (map (\<lambda>t. (tr_user_id t, tr_checkpoint_type t)) (db_tracking d))"

lemma distinct_filter_key:
  "distinct (map f xs) \<Longrightarrow> length (filter (\<lambda>x. f x = k) xs) \<le> 1"
proof (induction xs)
  case (Cons x xs)
  show ?case
  proof (cases "f x = k")
    case True
    then have "filter (\<lambda>y. f y = k) xs = []"
      using Cons.prems by (auto simp: filter_empty_conv image_iff)
    then show ?thesis by simp
  qed (use Cons in simp)
qed simp

lemma current_attempt_total:
  assumes "unique_cases d"
  shows "\<exists>n. current_attempt (db_tracking d) checkpoint student = Inr n"
proof -
  let ?f = "filter (\<lambda>t. tr_user_id t = td_UserID student \<and> tr_checkpoint_type t = checkpoint)
    (db_tracking d)"
  have "length ?f \<le> 1"
    using distinct_filter_key [of "\<lambda>t. (tr_user_id t, tr_checkpoint_type t)" "db_tracking d"
      "(td_UserID student, checkpoint)"] assms by (simp add: unique_cases_def)
  then show ?thesis by (cases ?f rule: list.exhaust) (auto simp: current_attempt_def split: list.splits)
qed

lemma count_simps [simp]:
  "bs_total (count_record w b) = bs_total b" "bs_processed (count_record w b) = Suc (bs_processed b)"
  "bs_errors (count_record w b) = bs_errors b"
  "bs_total (count_error b) = bs_total b" "bs_processed (count_error b) = Suc (bs_processed b)"
  "bs_errors (count_error b) = Suc (bs_errors b)" "bs_blocked (count_error b) = bs_blocked b"
  "bs_suppressed (count_error b) = bs_suppressed b"
  "bs_dispatch_delegated (count_error b) = bs_dispatch_delegated b"
  by (simp_all add: count_record_def count_error_def Let_def)

lemma count_undelegated [simp]:
  assumes "\<not> wo_dispatch_delegated w"
  shows "bs_dispatch_delegated (count_record w b) = bs_dispatch_delegated b"
    and "bs_blocked (count_record w b) = (if wo_execution_blocked w then Suc else id) (bs_blocked b)"
    and "bs_suppressed (count_record w b) =
      (if wo_execution_blocked w then id else Suc) (bs_suppressed b)"
  using assms by (simp_all add: count_record_def Let_def)

text \<open>What a loop adds to the summary.\<close>

definition accounted :: "nat \<Rightarrow> bool \<Rightarrow> batch_summary \<Rightarrow> batch_summary \<Rightarrow> bool" where
  "accounted n all_blocked b b' \<longleftrightarrow>
     bs_total b' = bs_total b \<and> bs_processed b' = bs_processed b + n
     \<and> bs_dispatch_delegated b' = bs_dispatch_delegated b
     \<and> bs_blocked b' + bs_suppressed b' + bs_errors b' =
         bs_blocked b + bs_suppressed b + bs_errors b + n
     \<and> (all_blocked \<longrightarrow> bs_blocked b' = bs_blocked b + n)"

lemma batch_loop_accounted:
  assumes "unique_cases d"
  shows "\<exists>b' pf'. batch_loop st srs cid
      (\<lambda>student corr attempt. batch_context cp mode config attr cid cycle corr student attempt)
      (db_tracking d) cp i students b pf = (Inr b', pf')
    \<and> accounted (length students) (\<not> given config) b b' \<and> pf_provider pf' = pf_provider pf"
proof (induction students arbitrary: i b pf)
  case Nil
  show ?case by (simp add: accounted_def)
next
  case (Cons student students)
  obtain n where n: "current_attempt (db_tracking d) cp student = Inr n"
    using current_attempt_total [OF assms] by blast
  let ?ctx = "batch_context cp mode config attr cid cycle (rt_uuid (srs i 0)) student n"
  have config: "oi_config_version_id ?ctx = config" by (simp add: batch_context_def)
  show ?case
  proof (cases rule: batch_student_cases [of st "srs i" ?ctx student n pf])
    case (failed pf1)
    with n config Cons.IH [of "Suc i" "count_error b"
        "pf_emit [student_error_line (srs i 6) cid student OverflowError] pf1"] show ?thesis
      by (auto simp: accounted_def pf_emit_def)
  next
    case (finished w pf1)
    with n config Cons.IH [of "Suc i" "count_record w b" pf1] show ?thesis
      by (auto simp: accounted_def split: if_splits)
  qed
qed

lemma run_batch_accounted:
  assumes "unique_cases d"
  shows "\<exists>b pf'. run_batch_cycle st srs rows d checkpoint mode config attribution pf = (Inr b, pf')
    \<and> bs_total b = length (checkpoint_students rows checkpoint)
    \<and> bs_processed b = bs_total b \<and> bs_dispatch_delegated b = 0
    \<and> bs_blocked b + bs_suppressed b + bs_errors b = bs_total b
    \<and> (\<not> given config \<longrightarrow> bs_blocked b = bs_total b)
    \<and> pf_provider pf' = pf_provider pf"
  unfolding run_batch_cycle_def Let_def
  by (rule exE [OF batch_loop_accounted [OF assms]]) (fastforce simp: accounted_def)

text \<open>
  C11. A batch cycle accounts for every student and delegates none: with at most one tracking row
  per student and checkpoint, as the table requires, it returns for every mode, configuration
  and attribution, has processed all students of the checkpoint, each counted once as blocked,
  suppressed or failed, and leaves the provider service as it was.
\<close>

theorem batch_accounts_for_all:
  assumes "unique_cases d"
  shows "\<exists>b pf'. run_batch_cycle st srs rows d checkpoint mode config attribution pf = (Inr b, pf')
    \<and> bs_total b = length (checkpoint_students rows checkpoint)
    \<and> bs_processed b = bs_total b \<and> bs_dispatch_delegated b = 0
    \<and> bs_blocked b + bs_suppressed b + bs_errors b = bs_total b
    \<and> pf_provider pf' = pf_provider pf"
  using run_batch_accounted [OF assms] by blast

text \<open>A batch result that has blocked every student of the checkpoint.\<close>

definition blocks_all ::
  "trigger_row list \<Rightarrow> string \<Rightarrow> batch_summary res \<Rightarrow> bool" where
  "blocks_all rows checkpoint result = (case result of Inl e \<Rightarrow> False
     | Inr b \<Rightarrow> bs_total b = length (checkpoint_students rows checkpoint)
         \<and> bs_blocked b = bs_total b \<and> bs_suppressed b = 0 \<and> bs_errors b = 0
         \<and> bs_dispatch_delegated b = 0)"

lemma unconfigured_batch_blocks:
  assumes "unique_cases d"
  shows "blocks_all rows checkpoint
    (fst (run_batch_cycle st srs rows d checkpoint mode None attribution pf))"
proof -
  obtain b pf' where "run_batch_cycle st srs rows d checkpoint mode None attribution pf = (Inr b, pf')"
    and "bs_total b = length (checkpoint_students rows checkpoint)"
    and "bs_processed b = bs_total b" and "bs_dispatch_delegated b = 0"
    and "bs_blocked b + bs_suppressed b + bs_errors b = bs_total b" and "bs_blocked b = bs_total b"
    using run_batch_accounted [OF assms, of st srs rows checkpoint mode None attribution pf]
    by auto
  then show ?thesis by (simp add: blocks_all_def)
qed

text \<open>
  C9. Neither entry point of the batch can process a student: the outreach trigger and the
  batch run both pass no configuration version, so that in every mode each student of the
  checkpoint is blocked at the precondition gate and none is suppressed or delegated.
\<close>

theorem batch_entry_points_block_all:
  assumes "unique_cases d"
  shows "blocks_all rows checkpoint (fst (run_outreach_batch st srs rows d checkpoint pf))
    \<and> blocks_all rows checkpoint (fst (batch_run st srs rows d checkpoint pf))"
  unfolding run_outreach_batch_def batch_run_def
  using unconfigured_batch_blocks [OF assms] by blast

section \<open>What a batch does not read\<close>

lemma batch_bindings:
  "dict_get (out_bindings (batch_context cp mode config attr cid cycle corr student n)) k =
    (if k \<in> set orchestration_threshold_keys then VStr UNKNOWN_V0 else VNone)"
  by (simp add: batch_context_def out_bindings_def resolve_orchestration_thresholds_def Let_def
      orchestration_threshold_keys_def)

lemma batch_intent:
  fixes cp mode config attr cid cycle corr student n
  defines "ctx \<equiv> batch_context cp mode config attr cid cycle corr student n"
  assumes "out_precondition_gate (keys s) ctx = []"
  shows "\<exists>r. fst (coordinate_orchestration_cycle rt ctx s) = Inr r
    \<and> oo_intent_type r = Some ''INITIATE_OUTREACH''"
proof -
  have opened: "out_open_case ctx" and ai: "oi_ai_governance_tier ctx = None"
    and "out_coordinated (keys s) ctx"
    using assms by (simp_all add: batch_context_def open_states out_coordinated_def
        out_replay_types_def)
  have b: "dict_get (out_bindings ctx) ''outreach_max_retry_attempts'' = VStr UNKNOWN_V0"
    "dict_get (out_bindings ctx) ''sql_server_max_sync_age_hours'' = VStr UNKNOWN_V0"
    unfolding ctx_def batch_bindings by (simp_all add: orchestration_threshold_keys_def)
  have "classify_intent ctx (out_bindings ctx) None = Inr ''INITIATE_OUTREACH''"
    using opened b by (simp add: classify_open attempts_exhausted_def bound_threshold_def
        ctx_def batch_context_def)
  moreover have "out_stale_sync rt ctx (out_bindings ctx) = Inr False"
    using b by (simp add: out_stale_sync_def bound_threshold_def)
  ultimately have "\<exists>r. out_coordinate rt ctx = Inr r"
    unfolding out_coordinate_def Let_def case_prod_unfold
    by (simp add: ai flip: out_bindings_def)
  then obtain r where r: "out_coordinate rt ctx = Inr r" by blast
  obtain i where "classify_intent ctx (out_bindings ctx) None = Inr i" "oo_intent_type r = Some i"
    using coordinate_intent [OF r] ai by auto
  with \<open>classify_intent ctx (out_bindings ctx) None = Inr ''INITIATE_OUTREACH''\<close> r
    \<open>out_coordinated (keys s) ctx\<close> show ?thesis by (simp add: coordinated_result)
qed

lemma current_attempt_map:
  assumes "\<And>t. tr_user_id (g t) = tr_user_id t" "\<And>t. tr_checkpoint_type (g t) = tr_checkpoint_type t"
    and "\<And>t. tr_current_attempt (g t) = tr_current_attempt t"
  shows "current_attempt (map g ts) cp student = current_attempt ts cp student"
  by (simp add: current_attempt_def filter_map comp_def assms split: list.split)

lemma batch_loop_cong:
  "(\<And>student. current_attempt ts cp student = current_attempt ts' cp student) \<Longrightarrow>
    batch_loop st srs cid context ts cp i students b pf =
    batch_loop st srs cid context ts' cp i students b pf"
  by (induction students arbitrary: i b pf) (simp_all split: sum.split prod.split)

text \<open>
  A batch never looks at the lifecycle state of a case: changing the states of all tracking
  rows changes nothing, and each student that passes the gate, of a closed case or above every
  attempt ceiling included, is coordinated with the intent to initiate outreach.
\<close>

theorem batch_ignores_case_state:
  "run_batch_cycle st srs rows (d\<lparr>db_tracking := map (\<lambda>t. t\<lparr>tr_state := f t\<rparr>) (db_tracking d)\<rparr>)
      checkpoint mode config attribution pf =
    run_batch_cycle st srs rows d checkpoint mode config attribution pf
   \<and> map_sum id oo_intent_type (fst (coordinate_orchestration_cycle rt
       (batch_context checkpoint mode config attr cid cycle corr student n) s)) =
     Inr (if out_precondition_gate (keys s)
            (batch_context checkpoint mode config attr cid cycle corr student n) = []
          then Some ''INITIATE_OUTREACH'' else None)"
proof
  show "run_batch_cycle st srs rows (d\<lparr>db_tracking := map (\<lambda>t. t\<lparr>tr_state := f t\<rparr>) (db_tracking d)\<rparr>)
      checkpoint mode config attribution pf =
    run_batch_cycle st srs rows d checkpoint mode config attribution pf"
    unfolding run_batch_cycle_def Let_def
    by (subst batch_loop_cong [where ts' = "db_tracking d"])
      (simp_all add: current_attempt_map)
next
  let ?ctx = "batch_context checkpoint mode config attr cid cycle corr student n"
  show "map_sum id oo_intent_type (fst (coordinate_orchestration_cycle rt ?ctx s)) =
     Inr (if out_precondition_gate (keys s) ?ctx = [] then Some ''INITIATE_OUTREACH'' else None)"
  proof (cases "out_precondition_gate (keys s) ?ctx = []")
    case True
    with batch_intent [OF True, of rt] show ?thesis by auto
  next
    case False
    then have "\<not> out_coordinated (keys s) ?ctx" by (simp add: out_coordinated_def)
    with uncoordinated_intent [OF this, of rt] False show ?thesis by auto
  qed
qed

section \<open>Witnesses\<close>

definition sample_student :: trigger_row where
  "sample_student = \<lparr>td_UserID = 7, td_FirstName = None, td_LastName = None, td_Email = None, td_PhoneNumber = None,
     td_PathName = Some ''ML'', td_HWsBehind = 3, td_AvgEffRating = Fin 2,
     td_LastActivityDays = 10\<rparr>"

definition sample_platform :: platform where
  "sample_platform = \<lparr>pf_coordination = empty_store, pf_provider = empty_store, pf_log = []\<rparr>"

lemma sample_unique: "unique_cases ((empty_database 9)\<lparr>db_tracking := [sample_case]\<rparr>)"
  by (simp add: unique_cases_def)

theorem batch_accounts_for_all_witness:
  "\<exists>b pf'. run_batch_cycle sample_settings (\<lambda>i j. sample_runtime (10 * i + j)) [sample_student]
      ((empty_database 9)\<lparr>db_tracking := [sample_case]\<rparr>) ''ML'' ''SHADOW'' (Some ''v2'') None
      sample_platform = (Inr b, pf')
    \<and> bs_total b = 1 \<and> bs_processed b = 1 \<and> bs_dispatch_delegated b = 0
    \<and> bs_blocked b + bs_suppressed b + bs_errors b = 1
    \<and> pf_provider pf' = pf_provider sample_platform"
  using batch_accounts_for_all [OF sample_unique, of sample_settings
      "\<lambda>i j. sample_runtime (10 * i + j)" "[sample_student]" "''ML''" "''SHADOW''" "Some ''v2''" None
      sample_platform]
  by (auto simp: checkpoint_students_def sample_student_def)

theorem batch_entry_points_block_all_witness:
  "blocks_all [sample_student] ''ML'' (fst (run_outreach_batch sample_settings
      (\<lambda>i j. sample_runtime (10 * i + j)) [sample_student]
      ((empty_database 9)\<lparr>db_tracking := [sample_case]\<rparr>) ''ML'' sample_platform))
   \<and> blocks_all [sample_student] ''ML'' (fst (batch_run sample_settings
      (\<lambda>i j. sample_runtime (10 * i + j)) [sample_student]
      ((empty_database 9)\<lparr>db_tracking := [sample_case]\<rparr>) ''ML'' sample_platform))"
  by (rule batch_entry_points_block_all [OF sample_unique])

end
