(* ===== verification/Alerts.thy ===== *)
theory Alerts
  imports IdempotentService
begin

text \<open>
  The degradation alert classification, \<^verbatim>\<open>app/services/_alert_types.py\<close>,
  \<^verbatim>\<open>_alert_helpers.py\<close> and \<^verbatim>\<open>alerts.py\<close>: context and record, the gate
  with the key set, thresholds, severity, recovery action, degradation flags, the four record
  factories, the log line and Rules 0--10. A configured threshold that is neither missing nor a
  number makes the severity comparison raise \<^verbatim>\<open>TypeError\<close>, which escapes after the
  key is registered. The service is an instance of \<open>strict_idempotent_service\<close>.
\<close>

section \<open>Input and output\<close>

definition alert_execution_modes :: "string set" where
  "alert_execution_modes = {''SHADOW'', ''LIVE''}"

definition alert_execution_types :: "string set" where
  "alert_execution_types = {''original'', ''replay'', ''regeneration'', ''recovery''}"

definition alert_replay_types :: "string set" where
  "alert_replay_types = {''replay'', ''regeneration''}"

definition alert_domains :: "string set" where
  "alert_domains = {''orchestration'', ''provider'', ''ai'', ''scheduler'', ''synchronization'',
     ''replay'', ''attribution'', ''observability'', ''compliance'', ''fingerprint''}"

definition alert_threshold_keys :: "string list" where
  "alert_threshold_keys =
    [''scheduler_heartbeat_interval_ms'', ''sql_server_max_sync_age_hours'',
     ''ai_stale_high_threshold_hours'', ''ai_absent_critical_threshold_hours'',
     ''stuck_workflow_high_threshold_hours'', ''stuck_compliance_threshold_hours'',
     ''provider_failure_max_retry_attempts'', ''report_generation_sla_ms'']"

record alert_context =
  ai_config_version_id :: "string option"
  ai_execution_mode :: string
  ai_execution_type :: string
  ai_correlation_id :: "string option"
  ai_degradation_domain :: "string option"
  ai_failure_cause :: "string option"
  ai_error_class :: "string option"
  ai_config_rule_set :: "pydict option"
  ai_causation_id :: "string option"
  ai_orchestration_cycle_id :: "string option"
  ai_idempotency_key :: "string option"
  ai_maintenance_mode_active :: bool
  ai_origin_source :: "string option"
  ai_origin_authority :: "string option"
  ai_actor_identity :: "string option"
  ai_attribution_timestamp :: "string option"
  ai_upstream_correlation_id :: "string option"
  ai_scheduler_lag_ms :: "int option"
  ai_sync_lag_hours :: "pyfloat option"
  ai_ai_stale_hours :: "pyfloat option"
  ai_ai_absent_hours :: "pyfloat option"
  ai_retry_count :: "int option"
  ai_circuit_breaker_open :: bool
  ai_provider_outage_active :: bool
  ai_compliance_hold_active :: bool
  ai_fingerprint_divergence :: bool
  ai_workflow_stuck_hours :: "pyfloat option"
  ai_is_observability_degraded :: bool
  ai_source_artifact_id :: "string option"
  ai_historical_config_version_id :: "string option"
  ai_execution_state_before :: "string option"
  ai_execution_state_after :: "string option"
  ai_student_id_opaque :: "string option"

record alert_record =
  ao_severity :: string
  ao_degradation_domain :: string
  ao_failure_cause :: "string option"
  ao_error_class_classified :: "string option"
  ao_recovery_action :: string
  ao_escalation_candidacy :: bool
  ao_governance_scope :: string
  ao_assessment_basis :: string
  ao_is_replay :: bool
  ao_live_effects_suppressed :: bool
  ao_origin_source :: "string option"
  ao_origin_authority :: "string option"
  ao_actor_identity :: "string option"
  ao_attribution_timestamp :: "string option"
  ao_upstream_correlation_id :: "string option"
  ao_config_version_id :: "string option"
  ao_historical_config_version_id :: "string option"
  ao_threshold_bindings :: pydict
  ao_alert_id :: string
  ao_correlation_id :: "string option"
  ao_causation_id :: "string option"
  ao_orchestration_cycle_id :: "string option"
  ao_execution_type :: string
  ao_execution_mode :: string
  ao_rule_path_taken :: "string list"
  ao_duration_ms :: int
  ao_outcome :: string
  ao_degraded :: bool
  ao_degradation_flags :: "string list"
  ao_degradation_cause :: "string option"
  ao_reason_codes :: "string list"
  ao_orchestration_blocked :: bool
  ao_blocking_reason :: "string option"
  ao_orchestration_continues :: bool
  ao_suppression_visible :: bool
  ao_execution_state_before :: "string option"
  ao_execution_state_after :: "string option"
  ao_causation_chain_preserved :: bool
  ao_append_only_enforced :: bool
  ao_replay_lineage_preserved :: bool
  ao_alert_lineage_immutable :: bool
  ao_alert_emit_authorized :: bool
  ao_student_id_opaque :: "string option"

section \<open>Record factories and log line\<close>

definition unknown_alert_bindings :: pydict where
  "unknown_alert_bindings = map (\<lambda>k. (k, VStr UNKNOWN_V0)) alert_threshold_keys"

text \<open>\<^verbatim>\<open>ctx.degradation_domain or DOMAIN_UNKNOWN\<close>\<close>

definition alert_domain :: "alert_context \<Rightarrow> string" where
  "alert_domain ctx =
     (if given (ai_degradation_domain ctx) then the (ai_degradation_domain ctx) else ''unknown'')"

definition make_blocked_alert_record ::
  "runtime \<Rightarrow> alert_context \<Rightarrow> string list \<Rightarrow> string list \<Rightarrow> string option \<Rightarrow> alert_record" where
  "make_blocked_alert_record rt ctx codes rule_path blocking_reason =
    \<lparr>ao_severity = ''UNKNOWN'', ao_degradation_domain = alert_domain ctx,
     ao_failure_cause = ai_failure_cause ctx,
     ao_error_class_classified = Some ''GovernancePreconditionError'',
     ao_recovery_action = ''dead_letter'', ao_escalation_candidacy = False,
     ao_governance_scope = ''UNAVAILABLE'', ao_assessment_basis = ''RULE_BASED'',
     ao_is_replay = (ai_execution_type ctx \<in> alert_replay_types),
     ao_live_effects_suppressed = True, ao_origin_source = ai_origin_source ctx,
     ao_origin_authority = ai_origin_authority ctx, ao_actor_identity = ai_actor_identity ctx,
     ao_attribution_timestamp = ai_attribution_timestamp ctx,
     ao_upstream_correlation_id = ai_upstream_correlation_id ctx,
     ao_config_version_id = ai_config_version_id ctx,
     ao_historical_config_version_id = ai_historical_config_version_id ctx,
     ao_threshold_bindings = unknown_alert_bindings, ao_alert_id = rt_uuid rt,
     ao_correlation_id = ai_correlation_id ctx, ao_causation_id = ai_causation_id ctx,
     ao_orchestration_cycle_id = ai_orchestration_cycle_id ctx,
     ao_execution_type = ai_execution_type ctx, ao_execution_mode = ai_execution_mode ctx,
     ao_rule_path_taken = rule_path, ao_duration_ms = rt_duration_ms rt, ao_outcome = ''failure'',
     ao_degraded = False, ao_degradation_flags = [], ao_degradation_cause = None,
     ao_reason_codes = codes, ao_orchestration_blocked = True,
     ao_blocking_reason = blocking_reason, ao_orchestration_continues = False,
     ao_suppression_visible = True, ao_execution_state_before = ai_execution_state_before ctx,
     ao_execution_state_after = ai_execution_state_after ctx,
     ao_causation_chain_preserved = given (ai_causation_id ctx), ao_append_only_enforced = True,
     ao_replay_lineage_preserved = True, ao_alert_lineage_immutable = True,
     ao_alert_emit_authorized = False, ao_student_id_opaque = ai_student_id_opaque ctx\<rparr>"

definition make_maintenance_alert_record ::
  "runtime \<Rightarrow> alert_context \<Rightarrow> string list \<Rightarrow> string list \<Rightarrow> alert_record" where
  "make_maintenance_alert_record rt ctx codes rule_path =
    \<lparr>ao_severity = ''INFO'', ao_degradation_domain = alert_domain ctx,
     ao_failure_cause = ai_failure_cause ctx, ao_error_class_classified = None,
     ao_recovery_action = ''no_op'', ao_escalation_candidacy = False,
     ao_governance_scope = ''MAINTENANCE'', ao_assessment_basis = ''RULE_BASED'',
     ao_is_replay = False, ao_live_effects_suppressed = True,
     ao_origin_source = ai_origin_source ctx, ao_origin_authority = ai_origin_authority ctx,
     ao_actor_identity = ai_actor_identity ctx,
     ao_attribution_timestamp = ai_attribution_timestamp ctx,
     ao_upstream_correlation_id = ai_upstream_correlation_id ctx,
     ao_config_version_id = ai_config_version_id ctx, ao_historical_config_version_id = None,
     ao_threshold_bindings = unknown_alert_bindings, ao_alert_id = rt_uuid rt,
     ao_correlation_id = ai_correlation_id ctx, ao_causation_id = ai_causation_id ctx,
     ao_orchestration_cycle_id = ai_orchestration_cycle_id ctx,
     ao_execution_type = ai_execution_type ctx, ao_execution_mode = ai_execution_mode ctx,
     ao_rule_path_taken = rule_path, ao_duration_ms = rt_duration_ms rt, ao_outcome = ''success'',
     ao_degraded = False, ao_degradation_flags = [], ao_degradation_cause = None,
     ao_reason_codes = codes, ao_orchestration_blocked = False, ao_blocking_reason = None,
     ao_orchestration_continues = False, ao_suppression_visible = True,
     ao_execution_state_before = ai_execution_state_before ctx,
     ao_execution_state_after = ai_execution_state_after ctx,
     ao_causation_chain_preserved = given (ai_causation_id ctx), ao_append_only_enforced = True,
     ao_replay_lineage_preserved = True, ao_alert_lineage_immutable = True,
     ao_alert_emit_authorized = False, ao_student_id_opaque = ai_student_id_opaque ctx\<rparr>"

definition make_replay_alert_record ::
  "runtime \<Rightarrow> alert_context \<Rightarrow> string list \<Rightarrow> string list \<Rightarrow> pydict \<Rightarrow> alert_record" where
  "make_replay_alert_record rt ctx codes rule_path threshold_bindings =
    (let source_missing = \<not> given (ai_source_artifact_id ctx)
     in \<lparr>ao_severity = ''UNKNOWN'', ao_degradation_domain = alert_domain ctx,
         ao_failure_cause = ai_failure_cause ctx, ao_error_class_classified = None,
         ao_recovery_action = ''no_op'', ao_escalation_candidacy = False,
         ao_governance_scope = ''REPLAY_ONLY'', ao_assessment_basis = ''HISTORICAL_REPLAY'',
         ao_is_replay = True, ao_live_effects_suppressed = True,
         ao_origin_source = ai_origin_source ctx, ao_origin_authority = ai_origin_authority ctx,
         ao_actor_identity = ai_actor_identity ctx,
         ao_attribution_timestamp = ai_attribution_timestamp ctx,
         ao_upstream_correlation_id = ai_upstream_correlation_id ctx,
         ao_config_version_id = ai_config_version_id ctx,
         ao_historical_config_version_id = ai_historical_config_version_id ctx,
         ao_threshold_bindings = threshold_bindings, ao_alert_id = rt_uuid rt,
         ao_correlation_id = ai_correlation_id ctx, ao_causation_id = ai_causation_id ctx,
         ao_orchestration_cycle_id = ai_orchestration_cycle_id ctx,
         ao_execution_type = ai_execution_type ctx, ao_execution_mode = ai_execution_mode ctx,
         ao_rule_path_taken = rule_path, ao_duration_ms = rt_duration_ms rt,
         ao_outcome = (if source_missing then ''degraded'' else ''success''),
         ao_degraded = source_missing,
         ao_degradation_flags = code_if source_missing ''REPLAY_SOURCE_ARTIFACT_MISSING'',
         ao_degradation_cause = (if source_missing then Some ''REPLAY_SOURCE_ARTIFACT_MISSING'' else None),
         ao_reason_codes = codes, ao_orchestration_blocked = False, ao_blocking_reason = None,
         ao_orchestration_continues = True, ao_suppression_visible = True,
         ao_execution_state_before = ai_execution_state_before ctx,
         ao_execution_state_after = ai_execution_state_after ctx,
         ao_causation_chain_preserved = given (ai_causation_id ctx),
         ao_append_only_enforced = True, ao_replay_lineage_preserved = True,
         ao_alert_lineage_immutable = True, ao_alert_emit_authorized = False,
         ao_student_id_opaque = ai_student_id_opaque ctx\<rparr>)"

definition make_alert_record ::
  "runtime \<Rightarrow> alert_context \<Rightarrow> string list \<Rightarrow> string list \<Rightarrow> pydict \<Rightarrow> string \<Rightarrow> string
   \<Rightarrow> string option \<Rightarrow> string \<Rightarrow> string \<Rightarrow> bool \<Rightarrow> bool \<Rightarrow> string list \<Rightarrow> string option \<Rightarrow> string
   \<Rightarrow> alert_record" where
  "make_alert_record rt ctx codes rule_path threshold_bindings severity domain classified_error
     recovery_action governance_scope escalation_candidacy degraded degradation_flags
     degradation_cause outcome =
    \<lparr>ao_severity = severity, ao_degradation_domain = domain,
     ao_failure_cause = ai_failure_cause ctx, ao_error_class_classified = classified_error,
     ao_recovery_action = recovery_action, ao_escalation_candidacy = escalation_candidacy,
     ao_governance_scope = governance_scope,
     ao_assessment_basis = (if threshold_bindings \<noteq> [] then ''CONFIG_V2_GOVERNED'' else ''FALLBACK''),
     ao_is_replay = False,
     ao_live_effects_suppressed = (governance_scope \<noteq> ''AUTHORIZED''),
     ao_origin_source = ai_origin_source ctx, ao_origin_authority = ai_origin_authority ctx,
     ao_actor_identity = ai_actor_identity ctx,
     ao_attribution_timestamp = ai_attribution_timestamp ctx,
     ao_upstream_correlation_id = ai_upstream_correlation_id ctx,
     ao_config_version_id = ai_config_version_id ctx,
     ao_historical_config_version_id = ai_historical_config_version_id ctx,
     ao_threshold_bindings = threshold_bindings, ao_alert_id = rt_uuid rt,
     ao_correlation_id = ai_correlation_id ctx, ao_causation_id = ai_causation_id ctx,
     ao_orchestration_cycle_id = ai_orchestration_cycle_id ctx,
     ao_execution_type = ai_execution_type ctx, ao_execution_mode = ai_execution_mode ctx,
     ao_rule_path_taken = rule_path, ao_duration_ms = rt_duration_ms rt, ao_outcome = outcome,
     ao_degraded = degraded, ao_degradation_flags = degradation_flags,
     ao_degradation_cause = degradation_cause, ao_reason_codes = codes,
     ao_orchestration_blocked = False, ao_blocking_reason = None,
     ao_orchestration_continues = (governance_scope \<noteq> ''UNAVAILABLE''),
     ao_suppression_visible = True, ao_execution_state_before = ai_execution_state_before ctx,
     ao_execution_state_after = ai_execution_state_after ctx,
     ao_causation_chain_preserved = given (ai_causation_id ctx), ao_append_only_enforced = True,
     ao_replay_lineage_preserved = True, ao_alert_lineage_immutable = True,
     ao_alert_emit_authorized = False, ao_student_id_opaque = ai_student_id_opaque ctx\<rparr>"

definition emit_alert_event_log :: "runtime \<Rightarrow> alert_record \<Rightarrow> log_line" where
  "emit_alert_event_log rt r =
    (let level = (if ao_degraded r \<or> ao_orchestration_blocked r
                     \<or> ao_severity r \<in> {''CRITICAL'', ''HIGH''} then ''warning'' else ''info'')
     in LogJson level
      [(''timestamp'', VStr (rt_now_iso rt)), (''level'', VStr level),
       (''service'', VStr ''degradation_observability''),
       (''event'', VStr (if ao_orchestration_blocked r then ''alert_blocked'' else ''alert_classified'')),
       (''alert_id'', VStr (ao_alert_id r)), (''severity'', VStr (ao_severity r)),
       (''degradation_domain'', VStr (ao_degradation_domain r)),
       (''failure_cause'', opt_val (ao_failure_cause r)),
       (''error_class_classified'', opt_val (ao_error_class_classified r)),
       (''recovery_action'', VStr (ao_recovery_action r)),
       (''escalation_candidacy'', VBool (ao_escalation_candidacy r)),
       (''governance_scope'', VStr (ao_governance_scope r)),
       (''assessment_basis'', VStr (ao_assessment_basis r)),
       (''is_replay'', VBool (ao_is_replay r)),
       (''live_effects_suppressed'', VBool (ao_live_effects_suppressed r)),
       (''execution_mode'', VStr (ao_execution_mode r)),
       (''execution_type'', VStr (ao_execution_type r)),
       (''correlation_id'', opt_val (ao_correlation_id r)),
       (''causation_id'', opt_val (ao_causation_id r)),
       (''orchestration_cycle_id'', opt_val (ao_orchestration_cycle_id r)),
       (''config_version_id'', opt_val (ao_config_version_id r)),
       (''rule_path_taken'', str_list (ao_rule_path_taken r)), (''outcome'', VStr (ao_outcome r)),
       (''degraded'', VBool (ao_degraded r)),
       (''degradation_cause'', opt_val (ao_degradation_cause r)),
       (''degradation_flags'', str_list (ao_degradation_flags r)),
       (''orchestration_blocked'', VBool (ao_orchestration_blocked r)),
       (''blocking_reason'', opt_val (ao_blocking_reason r)),
       (''orchestration_continues'', VBool (ao_orchestration_continues r)),
       (''reason_codes'', str_list (ao_reason_codes r)),
       (''suppression_visible'', VBool (ao_suppression_visible r)),
       (''causation_chain_preserved'', VBool (ao_causation_chain_preserved r)),
       (''append_only_enforced'', VBool (ao_append_only_enforced r)),
       (''replay_lineage_preserved'', VBool (ao_replay_lineage_preserved r)),
       (''alert_lineage_immutable'', VBool (ao_alert_lineage_immutable r)),
       (''alert_emit_authorized'', VBool (ao_alert_emit_authorized r)),
       (''duration_ms'', VInt (ao_duration_ms r))])"

section \<open>Thresholds and error class\<close>

definition alert_attribution_complete :: "alert_context \<Rightarrow> bool" where
  "alert_attribution_complete ctx \<longleftrightarrow> given (ai_origin_source ctx) \<and> given (ai_origin_authority ctx)
     \<and> given (ai_actor_identity ctx)"

definition resolve_alert_thresholds :: "alert_context \<Rightarrow> pydict" where
  "resolve_alert_thresholds ctx =
    (let rule_set = (case ai_config_rule_set ctx of None \<Rightarrow> [] | Some d \<Rightarrow> d)
     in map (\<lambda>k. (k, if has_key rule_set k then dict_get rule_set k else VStr UNKNOWN_V0))
          alert_threshold_keys)"

definition alert_threshold_value :: "pydict \<Rightarrow> string \<Rightarrow> pyval" where
  "alert_threshold_value thresholds k =
     known (if has_key thresholds k then dict_get thresholds k else VStr UNKNOWN_V0)"

definition alert_error_classes :: "(string \<times> string) list" where
  "alert_error_classes =
    [(''scheduler'', ''SchedulerDegradationError''), (''provider'', ''ProviderDegradationError''),
     (''ai'', ''AIDegradationError''),
     (''synchronization'', ''SynchronizationDegradationError''),
     (''compliance'', ''ComplianceDegradationError''),
     (''orchestration'', ''OrchestrationDegradationError''),
     (''replay'', ''ReplayDegradationError''), (''attribution'', ''AttributionDegradationError''),
     (''observability'', ''ObservabilityDegradationError''),
     (''fingerprint'', ''FingerprintDegradationError'')]"

definition classify_error_class :: "alert_context \<Rightarrow> string option" where
  "classify_error_class ctx =
    (if given (ai_error_class ctx) then ai_error_class ctx
     else map_of alert_error_classes (alert_domain ctx))"

section \<open>Severity, recovery and flags\<close>

text \<open>\<^verbatim>\<open>if x is not None and limit is not None: if x > limit: return s\<close>, then the rest.\<close>

definition escalate_if :: "bool res \<Rightarrow> string \<Rightarrow> string res \<Rightarrow> string res" where
  "escalate_if exceeded s rest = bind_res exceeded (\<lambda>b. if b then Inr s else rest)"

definition int_signal :: "int option \<Rightarrow> pyfloat option" where
  "int_signal x = map_option of_nat_num x"

definition classify_severity :: "alert_context \<Rightarrow> pydict \<Rightarrow> string res" where
  "classify_severity ctx thresholds =
    (let domain = alert_domain ctx; limit = alert_threshold_value thresholds
     in if domain = ''scheduler'' then
          escalate_if (opt_cmp fgt (int_signal (ai_scheduler_lag_ms ctx))
              (limit ''scheduler_heartbeat_interval_ms'')) ''CRITICAL''
            (escalate_if (opt_cmp fgt (ai_workflow_stuck_hours ctx)
                (limit ''stuck_workflow_high_threshold_hours'')) ''HIGH''
              (Inr (if ai_scheduler_lag_ms ctx \<noteq> None then ''HIGH'' else ''UNKNOWN'')))
        else if domain = ''synchronization'' then
          escalate_if (opt_cmp fgt (ai_sync_lag_hours ctx)
              (limit ''sql_server_max_sync_age_hours'')) ''HIGH''
            (Inr (if ai_sync_lag_hours ctx \<noteq> None then ''MEDIUM'' else ''UNKNOWN''))
        else if domain = ''ai'' then
          escalate_if (opt_cmp fgt (ai_ai_absent_hours ctx)
              (limit ''ai_absent_critical_threshold_hours'')) ''CRITICAL''
            (escalate_if (opt_cmp fgt (ai_ai_stale_hours ctx)
                (limit ''ai_stale_high_threshold_hours'')) ''HIGH''
              (Inr (if ai_ai_stale_hours ctx \<noteq> None \<or> ai_ai_absent_hours ctx \<noteq> None
                    then ''MEDIUM'' else ''UNKNOWN'')))
        else if domain = ''provider'' then
          (if ai_circuit_breaker_open ctx then Inr ''CRITICAL''
           else if ai_provider_outage_active ctx then Inr ''HIGH''
           else escalate_if (opt_cmp fge (int_signal (ai_retry_count ctx))
               (limit ''provider_failure_max_retry_attempts'')) ''HIGH''
             (Inr (if ai_retry_count ctx \<noteq> None then ''MEDIUM'' else ''UNKNOWN'')))
        else if domain = ''compliance'' then
          (if ai_compliance_hold_active ctx then
             escalate_if (opt_cmp fgt (ai_workflow_stuck_hours ctx)
                 (limit ''stuck_compliance_threshold_hours'')) ''CRITICAL'' (Inr ''HIGH'')
           else Inr ''UNKNOWN'')
        else if domain = ''orchestration'' then
          escalate_if (opt_cmp fgt (ai_workflow_stuck_hours ctx)
              (limit ''stuck_workflow_high_threshold_hours'')) ''HIGH'' (Inr ''HIGH'')
        else if domain = ''observability'' then
          Inr (if ai_is_observability_degraded ctx then ''MEDIUM'' else ''UNKNOWN'')
        else if domain = ''attribution'' then Inr ''HIGH''
        else if domain = ''fingerprint'' then
          Inr (if ai_fingerprint_divergence ctx then ''MEDIUM'' else ''UNKNOWN'')
        else if domain = ''replay'' then Inr ''INFO''
        else Inr ''UNKNOWN'')"

definition classify_recovery_action :: "string \<Rightarrow> string \<Rightarrow> string" where
  "classify_recovery_action severity domain =
    (if severity = ''CRITICAL'' then
       (if domain = ''scheduler'' then ''governed_recovery_cycle''
        else if domain = ''compliance'' then ''dead_letter''
        else ''escalation_candidacy'')
     else if severity = ''HIGH'' then
       (if domain \<in> {''provider'', ''ai'', ''observability''} then ''degraded_continuation''
        else ''escalation_candidacy'')
     else if domain \<in> {''observability'', ''ai''} then ''degraded_continuation''
     else ''no_op'')"

definition classify_degradation_flags :: "alert_context \<Rightarrow> string \<Rightarrow> string list" where
  "classify_degradation_flags ctx domain =
     code_if (domain = ''scheduler'' \<and> ai_scheduler_lag_ms ctx \<noteq> None) ''SCHEDULER_HEARTBEAT_MISSED''
   @ code_if (domain = ''synchronization'' \<and> ai_sync_lag_hours ctx \<noteq> None) ''SYNC_STALE''
   @ code_if (domain = ''ai'' \<and> ai_ai_absent_hours ctx \<noteq> None) ''AI_ABSENT''
   @ code_if (domain = ''ai'' \<and> ai_ai_stale_hours ctx \<noteq> None) ''AI_STALE''
   @ code_if (domain = ''provider'' \<and> ai_circuit_breaker_open ctx) ''CIRCUIT_BREAKER_OPEN''
   @ code_if (domain = ''provider'' \<and> ai_provider_outage_active ctx) ''PROVIDER_OUTAGE''
   @ code_if (domain = ''provider'' \<and> ai_retry_count ctx \<noteq> None) ''PROVIDER_RETRY_EXHAUSTED''
   @ code_if (domain = ''compliance'' \<and> ai_compliance_hold_active ctx) ''COMPLIANCE_HOLD_ACTIVE''
   @ code_if (domain = ''fingerprint'' \<and> ai_fingerprint_divergence ctx) ''FINGERPRINT_DIVERGENCE''
   @ code_if (domain = ''observability'' \<and> ai_is_observability_degraded ctx) ''OBSERVABILITY_DEGRADED''
   @ code_if (domain = ''attribution'') ''ATTRIBUTION_DEGRADED''
   @ code_if (ai_workflow_stuck_hours ctx \<noteq> None) ''WORKFLOW_STUCK''"

definition classify_degradation_state ::
  "alert_context \<Rightarrow> string \<Rightarrow> bool \<times> string list \<times> string option" where
  "classify_degradation_state ctx domain =
    (let flags = classify_degradation_flags ctx domain
     in (flags \<noteq> [], flags, if flags \<noteq> [] then Some (hd flags) else None))"

section \<open>The classification\<close>

definition alert_precondition_gate :: "string set \<Rightarrow> alert_context \<Rightarrow> string list" where
  "alert_precondition_gate idempotency_keys ctx =
     code_if (\<not> alert_attribution_complete ctx) ''ATTRIBUTION_INCOMPLETE''
   @ code_if (\<not> given (ai_correlation_id ctx)) ''CORRELATION_ID_MISSING''
   @ code_if (ai_execution_mode ctx \<notin> alert_execution_modes) ''INVALID_EXECUTION_MODE''
   @ code_if (ai_execution_type ctx \<notin> alert_execution_types) ''INVALID_EXECUTION_TYPE''
   @ code_if (ai_execution_type ctx \<in> alert_replay_types
       \<and> \<not> given (ai_historical_config_version_id ctx)) ''REPLAY_LINEAGE_INCOMPLETE''
   @ code_if (given (ai_idempotency_key ctx) \<and> the (ai_idempotency_key ctx) \<in> idempotency_keys)
       ''IDEMPOTENCY_KEY_DUPLICATE''"

text \<open>Rules 3--10 for an original or recovery execution outside maintenance.\<close>

definition alert_classify :: "runtime \<Rightarrow> alert_context \<Rightarrow> alert_record res" where
  "alert_classify rt ctx =
    (let thresholds = resolve_alert_thresholds ctx;
         classified_error = classify_error_class ctx;
         domain = (if alert_domain ctx \<notin> alert_domains then ''unknown'' else alert_domain ctx);
         domain_codes = code_if (alert_domain ctx \<notin> alert_domains) ''DOMAIN_UNKNOWN''
     in bind_res (classify_severity ctx thresholds) (\<lambda>severity.
        let codes = domain_codes @ [''SEVERITY_'' @ severity];
            recovery_action = classify_recovery_action severity domain;
            escalation_candidacy = (severity \<in> {''CRITICAL'', ''HIGH''});
            (degraded, degradation_flags, degradation_cause) = classify_degradation_state ctx domain;
            outcome = (if degraded then ''degraded'' else ''success'')
        in Inr (make_alert_record rt ctx codes
             [''RULE_0_GOVERNANCE_GATE'', ''RULE_3_THRESHOLD_RESOLUTION'', ''RULE_4_ERROR_CLASS'',
              ''RULE_5_DOMAIN_VALIDATION'', ''RULE_6_SEVERITY'', ''RULE_7_RECOVERY_ACTION'',
              ''RULE_8_DEGRADATION_FLAGS'', ''RULE_9_GOVERNANCE_SCOPE'', ''RULE_10_EMIT'']
             thresholds severity domain classified_error recovery_action ''SHADOW_ONLY''
             escalation_candidacy degraded degradation_flags degradation_cause outcome)))"

definition alert_evaluate :: "runtime \<Rightarrow> alert_context \<Rightarrow> alert_record res" where
  "alert_evaluate rt ctx =
    (if ai_maintenance_mode_active ctx then
       Inr (make_maintenance_alert_record rt ctx [''MAINTENANCE_MODE_ACTIVE'']
         [''RULE_0_GOVERNANCE_GATE'', ''RULE_1_MAINTENANCE''])
     else if ai_execution_type ctx \<in> alert_replay_types then
       Inr (make_replay_alert_record rt ctx [''REPLAY_EXECUTION_TYPE'']
         [''RULE_0_GOVERNANCE_GATE'', ''RULE_2_REPLAY''] (resolve_alert_thresholds ctx))
     else alert_classify rt ctx)"

text \<open>Each record that is returned has been logged; an exception that escapes has not.\<close>

definition classify_degradation_alert ::
  "runtime \<Rightarrow> alert_context \<Rightarrow> store \<Rightarrow> alert_record res \<times> store" where
  "classify_degradation_alert rt ctx s =
    (let codes = alert_precondition_gate (keys s) ctx;
         logged = (\<lambda>r. emit (emit_alert_event_log rt r))
     in if codes \<noteq> [] then
          let r = make_blocked_alert_record rt ctx codes [''RULE_0_GOVERNANCE_GATE'']
                (Some (join ''; '' codes))
          in (Inr r, logged r s)
        else
          let s1 = (if given (ai_idempotency_key ctx) then register (ai_idempotency_key ctx) s else s)
          in case alert_evaluate rt ctx of
               Inl e \<Rightarrow> (Inl e, s1)
             | Inr r \<Rightarrow> (Inr r, logged r s1))"

section \<open>The service is idempotent\<close>

lemmas alert_records = make_blocked_alert_record_def make_maintenance_alert_record_def
  make_replay_alert_record_def make_alert_record_def

abbreviation alert_serve ::
  "runtime \<times> alert_context \<Rightarrow> store \<Rightarrow> alert_record res \<times> store" where
  "alert_serve c s \<equiv> classify_degradation_alert (fst c) (snd c) s"

definition alert_refused :: "alert_record res \<Rightarrow> bool" where
  "alert_refused x = (case x of Inl e \<Rightarrow> False | Inr r \<Rightarrow> ao_orchestration_blocked r)"

lemma alert_evaluate_not_blocked: "alert_evaluate rt ctx = Inr r \<Longrightarrow> \<not> ao_orchestration_blocked r"
  by (auto simp: alert_evaluate_def alert_classify_def bind_res_Inr_iff alert_records Let_def
      case_prod_unfold split: if_split_asm)

lemma classify_refused_iff:
  "alert_refused (fst (classify_degradation_alert rt ctx s)) \<longleftrightarrow>
     alert_precondition_gate (keys s) ctx \<noteq> []"
  by (auto simp: classify_degradation_alert_def Let_def alert_refused_def
      make_blocked_alert_record_def alert_evaluate_not_blocked split: sum.split)

lemma classify_keys:
  "keys (snd (classify_degradation_alert rt ctx s)) =
     (if alert_precondition_gate (keys s) ctx = [] \<and> given (ai_idempotency_key ctx)
      then insert (the (ai_idempotency_key ctx)) (keys s) else keys s)"
  by (auto simp: classify_degradation_alert_def Let_def given_iff split: sum.split)

lemma classify_events:
  "events (snd (classify_degradation_alert rt ctx s)) = events s @
     (case fst (classify_degradation_alert rt ctx s) of Inl e \<Rightarrow> []
      | Inr r \<Rightarrow> [emit_alert_event_log rt r])"
  by (simp add: classify_degradation_alert_def Let_def split: sum.split)

lemma alert_duplicate_gated:
  "given (ai_idempotency_key ctx) \<Longrightarrow> the (ai_idempotency_key ctx) \<in> ks \<Longrightarrow>
     alert_precondition_gate ks ctx \<noteq> []"
  by (simp add: alert_precondition_gate_def)

text \<open>Every accepted call registers its key, so every execution type is an original here.\<close>

interpretation alert_service: strict_idempotent_service alert_serve
  "ai_idempotency_key \<circ> snd" "\<lambda>c. True" alert_refused
proof unfold_locales
qed (auto simp: classify_keys classify_refused_iff classify_events alert_duplicate_gated)

end
