(* ===== verification/AlertsProps.thy ===== *)
theory AlertsProps
  imports Alerts
begin

text \<open>
  What the alert classification promises: it never emits with authority and is always visible,
  worse signals never lower the severity, numeric or missing thresholds make it total, and a
  malformed threshold of the domain at hand loses the alert.
\<close>

section \<open>Severity is total on numeric thresholds, and monotone\<close>

definition severity_level :: "string \<Rightarrow> nat" where
  "severity_level s = (if s = ''CRITICAL'' then 4 else if s = ''HIGH'' then 3
     else if s = ''MEDIUM'' then 2 else if s = ''INFO'' then 1 else 0)"

lemma severity_level_simps [simp]:
  "severity_level ''CRITICAL'' = 4" "severity_level ''HIGH'' = 3" "severity_level ''MEDIUM'' = 2"
  "severity_level ''INFO'' = 1" "severity_level ''UNKNOWN'' = 0"
  by (simp_all add: severity_level_def)

lemma escalation_level: "s \<in> {''CRITICAL'', ''HIGH''} \<longleftrightarrow> 3 \<le> severity_level s"
  by (simp add: severity_level_def)

text \<open>Two severities that are both returned, the first no higher than the second.\<close>

definition sev_le :: "string res \<Rightarrow> string res \<Rightarrow> bool" where
  "sev_le m n \<longleftrightarrow> (\<exists>s t. m = Inr s \<and> n = Inr t \<and> severity_level s \<le> severity_level t)"

lemma sev_le_Inr [simp]: "sev_le (Inr s) (Inr t) \<longleftrightarrow> severity_level s \<le> severity_level t"
  by (simp add: sev_le_def)

lemma escalate_if_mono:
  assumes v: "num_or_none v" and w: "no_better w x y"
    and r: "\<And>a b t. r a t \<Longrightarrow> w a b \<Longrightarrow> r b t"
    and le: "sev_le m n" and m: "sev_le m (Inr s)"
  shows "sev_le (escalate_if (opt_cmp r x v) s m) (escalate_if (opt_cmp r y v) s n)"
proof -
  obtain p q where p: "opt_cmp r x v = Inr p" and q: "opt_cmp r y v = Inr q"
    using opt_cmp_total [OF v] by blast
  have "q" if "p" using opt_cmp_mono [OF w _ r] that p q by fastforce
  with le m show ?thesis by (auto simp: escalate_if_def p q sev_le_def)
qed

lemma sev_le_if:
  "(c \<Longrightarrow> sev_le m n) \<Longrightarrow> (\<not> c \<Longrightarrow> sev_le m' n') \<Longrightarrow>
    sev_le (if c then m else m') (if c then n else n')"
  by simp

lemma escalate_if_bound:
  assumes "num_or_none v" and "severity_level s \<le> severity_level u" and "sev_le m (Inr u)"
  shows "sev_le (escalate_if (opt_cmp r x v) s m) (Inr u)"
proof -
  obtain p where p: "opt_cmp r x v = Inr p" using opt_cmp_total [OF assms(1)] by blast
  with assms(2,3) show ?thesis by (auto simp: escalate_if_def p sev_le_def)
qed

text \<open>
  \<open>alert_worse b a\<close>: the signals of \<open>b\<close> are at least as bad as those of \<open>a\<close>, everything else is
  the same.
\<close>

abbreviation (input) fle :: "pyfloat \<Rightarrow> pyfloat \<Rightarrow> bool" where
  "fle x y \<equiv> fge y x"

definition alert_worse :: "alert_context \<Rightarrow> alert_context \<Rightarrow> bool" where
  "alert_worse b a \<longleftrightarrow>
     no_better (\<le>) (ai_scheduler_lag_ms a) (ai_scheduler_lag_ms b)
   \<and> no_better fle (ai_sync_lag_hours a) (ai_sync_lag_hours b)
   \<and> no_better fle (ai_ai_stale_hours a) (ai_ai_stale_hours b)
   \<and> no_better fle (ai_ai_absent_hours a) (ai_ai_absent_hours b)
   \<and> no_better (\<le>) (ai_retry_count a) (ai_retry_count b)
   \<and> no_better fle (ai_workflow_stuck_hours a) (ai_workflow_stuck_hours b)
   \<and> ai_circuit_breaker_open a \<le> ai_circuit_breaker_open b
   \<and> ai_provider_outage_active a \<le> ai_provider_outage_active b
   \<and> ai_compliance_hold_active a \<le> ai_compliance_hold_active b
   \<and> ai_fingerprint_divergence a \<le> ai_fingerprint_divergence b
   \<and> ai_is_observability_degraded a \<le> ai_is_observability_degraded b
   \<and> b = a\<lparr>ai_scheduler_lag_ms := ai_scheduler_lag_ms b, ai_sync_lag_hours := ai_sync_lag_hours b,
          ai_ai_stale_hours := ai_ai_stale_hours b, ai_ai_absent_hours := ai_ai_absent_hours b,
          ai_retry_count := ai_retry_count b,
          ai_workflow_stuck_hours := ai_workflow_stuck_hours b,
          ai_circuit_breaker_open := ai_circuit_breaker_open b,
          ai_provider_outage_active := ai_provider_outage_active b,
          ai_compliance_hold_active := ai_compliance_hold_active b,
          ai_fingerprint_divergence := ai_fingerprint_divergence b,
          ai_is_observability_degraded := ai_is_observability_degraded b\<rparr>"

lemma alert_worse_same:
  assumes "alert_worse b a"
  shows "alert_domain b = alert_domain a"
    and "resolve_alert_thresholds b = resolve_alert_thresholds a"
    and "alert_precondition_gate ks b = alert_precondition_gate ks a"
    and "ai_maintenance_mode_active b = ai_maintenance_mode_active a"
    and "ai_execution_type b = ai_execution_type a"
proof -
  from assms obtain l y st ab rc ws cb po ch fd od where b: "b = a\<lparr>ai_scheduler_lag_ms := l,
      ai_sync_lag_hours := y, ai_ai_stale_hours := st, ai_ai_absent_hours := ab,
      ai_retry_count := rc, ai_workflow_stuck_hours := ws, ai_circuit_breaker_open := cb,
      ai_provider_outage_active := po, ai_compliance_hold_active := ch,
      ai_fingerprint_divergence := fd, ai_is_observability_degraded := od\<rparr>"
    unfolding alert_worse_def by blast
  show "alert_domain b = alert_domain a"
    "resolve_alert_thresholds b = resolve_alert_thresholds a"
    "alert_precondition_gate ks b = alert_precondition_gate ks a"
    "ai_maintenance_mode_active b = ai_maintenance_mode_active a"
    "ai_execution_type b = ai_execution_type a"
    by (simp_all add: b alert_domain_def resolve_alert_thresholds_def alert_precondition_gate_def
        alert_attribution_complete_def)
qed

definition limits_ok :: "pydict \<Rightarrow> bool" where
  "limits_ok th \<longleftrightarrow> (\<forall>k. num_or_none (alert_threshold_value th k))"

lemma no_better_int_signal:
  "no_better (\<le>) x y \<Longrightarrow> no_better fle (int_signal x) (int_signal y)"
  by (cases x; cases y) (simp_all add: int_signal_def)

lemma fgt_fle: "fgt a t \<Longrightarrow> fle a b \<Longrightarrow> fgt b t"
  by (rule fgt_fge_trans)

lemma fge_fle: "fge a t \<Longrightarrow> fle a b \<Longrightarrow> fge b t"
  by (rule fge_trans)

lemma no_better_given: "no_better w x y \<Longrightarrow> x \<noteq> None \<Longrightarrow> y \<noteq> None"
  by (cases x; cases y) simp_all

lemma severity_level_if:
  "p \<le> q \<Longrightarrow> severity_level u \<le> severity_level s \<Longrightarrow>
    sev_le (Inr (if p then s else u)) (Inr (if q then s else u))"
  by auto

lemma provider_severity_mono:
  assumes "alert_worse b a" and "num_or_none v"
  shows "sev_le
    (if ai_circuit_breaker_open a then Inr ''CRITICAL''
     else if ai_provider_outage_active a then Inr ''HIGH''
     else escalate_if (opt_cmp fge (int_signal (ai_retry_count a)) v) ''HIGH''
       (Inr (if ai_retry_count a \<noteq> None then ''MEDIUM'' else ''UNKNOWN'')))
    (if ai_circuit_breaker_open b then Inr ''CRITICAL''
     else if ai_provider_outage_active b then Inr ''HIGH''
     else escalate_if (opt_cmp fge (int_signal (ai_retry_count b)) v) ''HIGH''
       (Inr (if ai_retry_count b \<noteq> None then ''MEDIUM'' else ''UNKNOWN'')))"
    (is "sev_le (if _ then _ else if _ then _ else ?m) (if _ then _ else if _ then _ else ?n)")
proof -
  have retry: "no_better fle (int_signal (ai_retry_count a)) (int_signal (ai_retry_count b))"
    and given: "ai_retry_count a \<noteq> None \<Longrightarrow> ai_retry_count b \<noteq> None"
    and flags: "ai_circuit_breaker_open a \<Longrightarrow> ai_circuit_breaker_open b"
      "ai_provider_outage_active a \<Longrightarrow> ai_provider_outage_active b"
    using assms(1) unfolding alert_worse_def
    by (blast intro: no_better_int_signal dest: no_better_given le_boolD)+
  have "sev_le ?m ?n"
    by (rule escalate_if_mono [OF assms(2) retry fge_fle severity_level_if]) (use given in auto)
  moreover have "sev_le ?m (Inr ''HIGH'')"
    by (rule escalate_if_bound [OF assms(2)]) simp_all
  then have "sev_le ?m (Inr ''CRITICAL'')" by (auto simp: sev_le_def)
  ultimately show ?thesis using flags \<open>sev_le ?m (Inr ''HIGH'')\<close> by auto
qed

lemma classify_severity_mono:
  assumes w: "alert_worse b a" and ok: "limits_ok th"
  shows "sev_le (classify_severity a th) (classify_severity b th)"
proof -
  note same = alert_worse_same(1) [OF w]
  have lim: "num_or_none (alert_threshold_value th k)" for k using ok by (simp add: limits_ok_def)
  have lag: "no_better fle (int_signal (ai_scheduler_lag_ms a)) (int_signal (ai_scheduler_lag_ms b))"
    and lag_given: "ai_scheduler_lag_ms a \<noteq> None \<Longrightarrow> ai_scheduler_lag_ms b \<noteq> None"
    and sync: "no_better fle (ai_sync_lag_hours a) (ai_sync_lag_hours b)"
    and sync_given: "ai_sync_lag_hours a \<noteq> None \<Longrightarrow> ai_sync_lag_hours b \<noteq> None"
    and ai: "no_better fle (ai_ai_absent_hours a) (ai_ai_absent_hours b)"
      "no_better fle (ai_ai_stale_hours a) (ai_ai_stale_hours b)"
    and ai_given: "ai_ai_absent_hours a \<noteq> None \<Longrightarrow> ai_ai_absent_hours b \<noteq> None"
      "ai_ai_stale_hours a \<noteq> None \<Longrightarrow> ai_ai_stale_hours b \<noteq> None"
    and stuck: "no_better fle (ai_workflow_stuck_hours a) (ai_workflow_stuck_hours b)"
    and flags: "ai_compliance_hold_active a \<le> ai_compliance_hold_active b"
      "ai_is_observability_degraded a \<le> ai_is_observability_degraded b"
      "ai_fingerprint_divergence a \<le> ai_fingerprint_divergence b"
    using w unfolding alert_worse_def
    by (blast intro: no_better_int_signal dest: no_better_given)+
  note step = escalate_if_mono [OF lim _ fgt_fle]
  show ?thesis
    unfolding classify_severity_def Let_def same
  proof (intro sev_le_if)
    show "sev_le
        (if ai_compliance_hold_active a
         then escalate_if (opt_cmp fgt (ai_workflow_stuck_hours a)
           (alert_threshold_value th ''stuck_compliance_threshold_hours'')) ''CRITICAL'' (Inr ''HIGH'')
         else Inr ''UNKNOWN'')
        (if ai_compliance_hold_active b
         then escalate_if (opt_cmp fgt (ai_workflow_stuck_hours b)
           (alert_threshold_value th ''stuck_compliance_threshold_hours'')) ''CRITICAL'' (Inr ''HIGH'')
         else Inr ''UNKNOWN'')"
      (is "sev_le (if ?p then ?m else ?u) (if ?q then ?n else ?u)")
    proof -
      have "sev_le ?m ?n" by (rule step [OF stuck]) simp_all
      moreover then have "sev_le ?u ?n" by (auto simp: sev_le_def)
      ultimately show ?thesis using flags(1) by auto
    qed
  qed (rule step [OF lag] step [OF stuck] step [OF sync] step [OF ai(1)] step [OF ai(2)]
      provider_severity_mono [OF w lim] severity_level_if escalate_if_bound [OF lim] flags
      | use lag_given sync_given ai_given in \<open>auto simp: le_bool_def; fail\<close>)+
qed

section \<open>The classification, path by path\<close>

definition alert_rule_set :: "alert_context \<Rightarrow> pydict" where
  "alert_rule_set ctx = (case ai_config_rule_set ctx of None \<Rightarrow> [] | Some d \<Rightarrow> d)"

text \<open>Every configured threshold is missing, the sentinel, or a number.\<close>

definition alert_limits_ok :: "alert_context \<Rightarrow> bool" where
  "alert_limits_ok ctx \<longleftrightarrow>
     list_all (\<lambda>k. threshold_ok (dict_get (alert_rule_set ctx) k)) alert_threshold_keys"

lemma map_of_tabulate: "map_of (map (\<lambda>k. (k, f k)) ks) k = (if k \<in> set ks then Some (f k) else None)"
  by (induction ks) auto

lemma alert_threshold_resolved:
  "alert_threshold_value (resolve_alert_thresholds ctx) k =
     (if k \<in> set alert_threshold_keys then known (dict_get (alert_rule_set ctx) k) else VNone)"
  by (simp add: alert_threshold_value_def resolve_alert_thresholds_def alert_rule_set_def
      has_key_map_of dict_get_def map_of_tabulate Let_def split: option.split)

lemma limits_ok_resolved: "alert_limits_ok ctx \<Longrightarrow> limits_ok (resolve_alert_thresholds ctx)"
  by (simp add: limits_ok_def alert_limits_ok_def alert_threshold_resolved threshold_ok_def
      list_all_iff num_or_none_def [of VNone])

lemma escalate_if_Inl: "escalate_if c s m = Inl e \<longleftrightarrow> c = Inl e \<or> c = Inr False \<and> m = Inl e"
  by (cases c) (auto simp: escalate_if_def)

lemma opt_cmp_Inl: "opt_cmp r x v = Inl e \<Longrightarrow> e = TypeError"
  by (auto simp: opt_cmp_def cmp_num_Inl_iff split: option.splits if_split_asm)

lemma classify_severity_Inl: "classify_severity ctx th = Inl e \<Longrightarrow> e = TypeError"
  by (auto simp: classify_severity_def Let_def escalate_if_Inl dest: opt_cmp_Inl
      split: if_split_asm)

lemma alert_classify_Inl:
  "alert_classify rt ctx = Inl e \<longleftrightarrow>
     classify_severity ctx (resolve_alert_thresholds ctx) = Inl e"
  by (simp add: alert_classify_def Let_def case_prod_unfold bind_Inl_iff)

lemma alert_classify_severity:
  assumes "classify_severity ctx (resolve_alert_thresholds ctx) = Inr sev"
  obtains r where "alert_classify rt ctx = Inr r" and "ao_severity r = sev"
    and "ao_escalation_candidacy r \<longleftrightarrow> sev \<in> {''CRITICAL'', ''HIGH''}"
  using assms that
  by (simp add: alert_classify_def make_alert_record_def Let_def case_prod_unfold)

lemma alert_classify_fields:
  assumes "alert_classify rt ctx = Inr r"
  shows "ao_governance_scope r = ''SHADOW_ONLY''" and "\<not> ao_alert_emit_authorized r"
    and "ao_live_effects_suppressed r" and "ao_suppression_visible r"
    and "ao_escalation_candidacy r \<longleftrightarrow> ao_severity r \<in> {''CRITICAL'', ''HIGH''}"
    and "ao_origin_source r = ai_origin_source ctx"
    and "ao_origin_authority r = ai_origin_authority ctx"
    and "ao_actor_identity r = ai_actor_identity ctx"
    and "ao_assessment_basis r = ''CONFIG_V2_GOVERNED''"
  using assms
  by (auto simp: alert_classify_def make_alert_record_def bind_res_Inr_iff Let_def case_prod_unfold
      resolve_alert_thresholds_def alert_threshold_keys_def)

lemma alert_passed:
  assumes "alert_precondition_gate (keys s) ctx = []"
  shows "fst (classify_degradation_alert rt ctx s) = alert_evaluate rt ctx"
  using assms by (simp add: classify_degradation_alert_def Let_def split: sum.split)

section \<open>Properties\<close>

text \<open>
  An alert has no authority and is never silent: every returned record suppresses live
  effects visibly, authorizes no emission, carries the attribution of its context, proposes an
  escalation exactly when its severity is HIGH or CRITICAL, and is logged on exactly one line;
  the scope follows the path, SHADOW_ONLY also in LIVE mode. The only exception that escapes is
  \<^verbatim>\<open>TypeError\<close>, and then nothing is logged.
\<close>

theorem alerts_visible_without_authority:
  "case classify_degradation_alert rt ctx s of
     (Inl e, s') \<Rightarrow> e = TypeError \<and> events s' = events s
   | (Inr r, s') \<Rightarrow>
       \<not> ao_alert_emit_authorized r \<and> ao_live_effects_suppressed r \<and> ao_suppression_visible r
     \<and> (ao_escalation_candidacy r \<longleftrightarrow> ao_severity r \<in> {''CRITICAL'', ''HIGH''})
     \<and> (ao_origin_source r, ao_origin_authority r, ao_actor_identity r) =
         (ai_origin_source ctx, ai_origin_authority ctx, ai_actor_identity ctx)
     \<and> ao_governance_scope r =
         (if alert_precondition_gate (keys s) ctx \<noteq> [] then ''UNAVAILABLE''
          else if ai_maintenance_mode_active ctx then ''MAINTENANCE''
          else if ai_execution_type ctx \<in> alert_replay_types then ''REPLAY_ONLY''
          else ''SHADOW_ONLY'')
     \<and> events s' = events s @ [emit_alert_event_log rt r]"
proof (cases "alert_precondition_gate (keys s) ctx \<noteq> [] \<or> ai_maintenance_mode_active ctx
    \<or> ai_execution_type ctx \<in> alert_replay_types")
  case True
  then show ?thesis
    by (auto simp: classify_degradation_alert_def alert_evaluate_def alert_records Let_def)
next
  case False
  then have run: "classify_degradation_alert rt ctx s =
      (let s1 = (if given (ai_idempotency_key ctx) then register (ai_idempotency_key ctx) s else s)
       in case alert_classify rt ctx of Inl e \<Rightarrow> (Inl e, s1)
          | Inr r \<Rightarrow> (Inr r, emit (emit_alert_event_log rt r) s1))"
    by (simp add: classify_degradation_alert_def alert_evaluate_def Let_def)
  show ?thesis
  proof (cases "alert_classify rt ctx")
    case (Inl e)
    then have "e = TypeError" by (auto simp: alert_classify_Inl dest: classify_severity_Inl)
    with Inl show ?thesis by (simp add: run Let_def)
  next
    case (Inr r)
    with False show ?thesis by (simp add: run Let_def alert_classify_fields [OF Inr])
  qed
qed

text \<open>
  C13. Worse signals never lower an alert: with a longer lag, older or absent AI data, more
  retries, a longer stuck workflow or more failure flags, and all else equal, the classification
  returns a record of at least the same severity, and keeps its escalation candidacy, whenever
  the configured thresholds are numbers, missing or the sentinel.
\<close>

theorem alert_severity_monotone:
  assumes "alert_worse b a" and "alert_limits_ok a"
  shows "\<exists>ra rb. fst (classify_degradation_alert rt a s) = Inr ra
    \<and> fst (classify_degradation_alert rt b s) = Inr rb
    \<and> severity_level (ao_severity ra) \<le> severity_level (ao_severity rb)
    \<and> ao_escalation_candidacy ra \<le> ao_escalation_candidacy rb"
proof -
  note same = alert_worse_same [OF assms(1)]
  show ?thesis
  proof (cases "alert_precondition_gate (keys s) a \<noteq> [] \<or> ai_maintenance_mode_active a
      \<or> ai_execution_type a \<in> alert_replay_types")
    case True
    then show ?thesis
      by (auto simp: classify_degradation_alert_def alert_evaluate_def alert_records Let_def same)
  next
    case False
    obtain sa sb where a: "classify_severity a (resolve_alert_thresholds a) = Inr sa"
      and b: "classify_severity b (resolve_alert_thresholds b) = Inr sb"
      and le: "severity_level sa \<le> severity_level sb"
      using classify_severity_mono [OF assms(1) limits_ok_resolved [OF assms(2)]]
      by (auto simp: sev_le_def same)
    obtain ra rb where "alert_classify rt a = Inr ra" "ao_severity ra = sa"
      "ao_escalation_candidacy ra \<longleftrightarrow> sa \<in> {''CRITICAL'', ''HIGH''}"
      and "alert_classify rt b = Inr rb" "ao_severity rb = sb"
      "ao_escalation_candidacy rb \<longleftrightarrow> sb \<in> {''CRITICAL'', ''HIGH''}"
      using alert_classify_severity [OF a, of rt] alert_classify_severity [OF b, of rt] by metis
    moreover have "sa \<in> {''CRITICAL'', ''HIGH''} \<Longrightarrow> sb \<in> {''CRITICAL'', ''HIGH''}"
      using le by (simp only: escalation_level)
    ultimately show ?thesis using False le by (simp add: alert_passed same alert_evaluate_def)
  qed
qed

definition sample_alert :: alert_context where
  "sample_alert = \<lparr>ai_config_version_id = Some ''v1'', ai_execution_mode = ''LIVE'',
     ai_execution_type = ''original'', ai_correlation_id = Some ''c-1'',
     ai_degradation_domain = Some ''scheduler'', ai_failure_cause = None, ai_error_class = None,
     ai_config_rule_set = Some [(''scheduler_heartbeat_interval_ms'', VInt 500)],
     ai_causation_id = None, ai_orchestration_cycle_id = None,
     ai_idempotency_key = Some ''k-1'', ai_maintenance_mode_active = False,
     ai_origin_source = Some ''runtime'', ai_origin_authority = Some ''system'',
     ai_actor_identity = Some ''monitor'', ai_attribution_timestamp = None,
     ai_upstream_correlation_id = None, ai_scheduler_lag_ms = Some 400,
     ai_sync_lag_hours = None, ai_ai_stale_hours = None, ai_ai_absent_hours = None,
     ai_retry_count = None, ai_circuit_breaker_open = False, ai_provider_outage_active = False,
     ai_compliance_hold_active = False, ai_fingerprint_divergence = False,
     ai_workflow_stuck_hours = None, ai_is_observability_degraded = False,
     ai_source_artifact_id = None, ai_historical_config_version_id = None,
     ai_execution_state_before = None, ai_execution_state_after = None,
     ai_student_id_opaque = None\<rparr>"

theorem alert_severity_monotone_witness:
  "\<exists>ra rb. fst (classify_degradation_alert (sample_runtime 1) sample_alert empty_store) = Inr ra
    \<and> fst (classify_degradation_alert (sample_runtime 1)
        (sample_alert\<lparr>ai_scheduler_lag_ms := Some 900\<rparr>) empty_store) = Inr rb
    \<and> severity_level (ao_severity ra) \<le> severity_level (ao_severity rb)
    \<and> ao_escalation_candidacy ra \<le> ao_escalation_candidacy rb"
proof (rule alert_severity_monotone)
  show "alert_worse (sample_alert\<lparr>ai_scheduler_lag_ms := Some 900\<rparr>) sample_alert"
    by (simp add: alert_worse_def sample_alert_def)
  show "alert_limits_ok sample_alert" by code_simp
qed

text \<open>
  A malformed threshold loses the alert: when the heartbeat limit of the configuration is
  text (and not the sentinel), a scheduler alert with a measured lag raises
  \<^verbatim>\<open>TypeError\<close>; nothing is logged, its idempotency key is used up, and the
  repeated call is refused as a duplicate, so the degradation is never reported.
\<close>

theorem malformed_threshold_loses_alert:
  assumes "alert_precondition_gate (keys s) ctx = []" and "\<not> ai_maintenance_mode_active ctx"
    and "ai_execution_type ctx \<notin> alert_replay_types"
    and "ai_idempotency_key ctx = Some k" and "k \<noteq> []"
    and "ai_degradation_domain ctx = Some ''scheduler''" and "ai_scheduler_lag_ms ctx = Some n"
    and "dict_get (alert_rule_set ctx) ''scheduler_heartbeat_interval_ms'' = VStr t"
    and "t \<noteq> UNKNOWN_V0"
  shows "classify_degradation_alert rt ctx s = (Inl TypeError, s\<lparr>keys := insert k (keys s)\<rparr>)
    \<and> alert_refused (fst (classify_degradation_alert rt2 ctx (s\<lparr>keys := insert k (keys s)\<rparr>)))"
proof -
  have "alert_threshold_value (resolve_alert_thresholds ctx) ''scheduler_heartbeat_interval_ms'' =
      VStr t"
    using assms(8,9) by (simp add: alert_threshold_resolved alert_threshold_keys_def known_def)
  then have "classify_severity ctx (resolve_alert_thresholds ctx) = Inl TypeError"
    using assms(6,7) by (simp add: classify_severity_def alert_domain_def int_signal_def
        opt_cmp_def cmp_num_def escalate_if_def)
  then have "alert_classify rt ctx = Inl TypeError" by (simp add: alert_classify_Inl)
  with assms show ?thesis
    by (simp add: classify_degradation_alert_def alert_evaluate_def Let_def register_def
        alert_refused_def make_blocked_alert_record_def alert_duplicate_gated)
qed

definition sample_text_limit :: alert_context where
  "sample_text_limit = sample_alert\<lparr>ai_config_rule_set :=
     Some [(''scheduler_heartbeat_interval_ms'', VStr ''500'')]\<rparr>"

theorem malformed_threshold_loses_alert_witness:
  "classify_degradation_alert (sample_runtime 1) sample_text_limit empty_store =
      (Inl TypeError, empty_store\<lparr>keys := insert ''k-1'' (keys empty_store)\<rparr>)
    \<and> alert_refused (fst (classify_degradation_alert (sample_runtime 2) sample_text_limit
        (empty_store\<lparr>keys := insert ''k-1'' (keys empty_store)\<rparr>)))"
  by (rule malformed_threshold_loses_alert [where n = 400 and t = "''500''"]) code_simp+

text \<open>
  An alert key works once, for every execution type: in any sequence of classifications, a
  call with the key of an earlier call that was not refused is refused, replays included.
\<close>

theorem alert_key_never_reused:
  assumes "i < j" and "j < length calls"
    and "ai_idempotency_key (snd (calls ! i)) = Some k" and "k \<noteq> []"
    and "\<not> alert_refused (fst (alert_service.serve_all calls s) ! i)"
    and "ai_idempotency_key (snd (calls ! j)) = Some k"
  shows "alert_refused (fst (alert_service.serve_all calls s) ! j)"
  using assms by (auto intro!: alert_service.refused_after_accepted [of i j calls k]
      simp: alert_service.accepted_def)

theorem alert_key_never_reused_witness:
  "alert_refused (fst (alert_service.serve_all
     [(sample_runtime 1, sample_alert),
      (sample_runtime 2, sample_alert\<lparr>ai_execution_type := ''replay''\<rparr>)] empty_store) ! 1)"
  by (rule alert_key_never_reused [where i = 0 and k = "''k-1''"])
    (simp_all add: sample_alert_def Let_def case_prod_unfold classify_refused_iff
      alert_precondition_gate_def alert_attribution_complete_def alert_execution_modes_def
      alert_execution_types_def alert_replay_types_def empty_store_def)

end
