(* ===== verification/Bootstrap.thy ===== *)
theory Bootstrap
  imports Prelude
begin

text \<open>
  The runtime bootstrap, \<^verbatim>\<open>app/bootstrap/_bootstrap_types.py\<close>,
  \<^verbatim>\<open>_bootstrap_helpers.py\<close> and \<^verbatim>\<open>runtime_context.py\<close>: validation of
  the execution mode and of the active configuration rows, the scope, the startup class, the
  scheduler timing and the startup log line.
\<close>

section \<open>Types\<close>

definition bootstrap_modes :: "string set" where
  "bootstrap_modes = {''SHADOW'', ''LIVE'', ''REPLAY'', ''REGENERATION'', ''DEGRADED'',
     ''MAINTENANCE''}"

definition replay_bootstrap_modes :: "string set" where
  "replay_bootstrap_modes = {''REPLAY'', ''REGENERATION''}"

definition bootstrap_attribution :: "string list" where
  "bootstrap_attribution = [''origin_source'', ''origin_authority'', ''attribution_timestamp'']"

record scheduler_timing =
  tm_trigger_hour :: pyval
  tm_trigger_minute :: pyval
  tm_timezone_str :: string
  tm_config_sourced :: bool

record bootstrap_context =
  bc_startup_correlation_id :: string
  bc_execution_mode :: string
  bc_governance_scope :: string
  bc_startup_classification :: string
  bc_config_version_id :: string
  bc_shadow_containment_active :: bool
  bc_live_effects_suppressed :: bool
  bc_replay_safe :: bool
  bc_attribution_complete :: bool
  bc_degradation_state :: bool
  bc_degradation_codes :: "string list"
  bc_startup_timestamp :: string
  bc_scheduler_timing :: scheduler_timing

definition bootstrap_log_dict :: "bootstrap_context \<Rightarrow> pydict" where
  "bootstrap_log_dict b =
    [(''startup_correlation_id'', VStr (bc_startup_correlation_id b)),
     (''execution_mode'', VStr (bc_execution_mode b)),
     (''governance_scope'', VStr (bc_governance_scope b)),
     (''startup_classification'', VStr (bc_startup_classification b)),
     (''config_version_id'', VStr (bc_config_version_id b)),
     (''shadow_containment_active'', VBool (bc_shadow_containment_active b)),
     (''live_effects_suppressed'', VBool (bc_live_effects_suppressed b)),
     (''replay_safe'', VBool (bc_replay_safe b)),
     (''attribution_complete'', VBool (bc_attribution_complete b)),
     (''degradation_state'', VBool (bc_degradation_state b)),
     (''degradation_codes'', str_list (bc_degradation_codes b)),
     (''startup_timestamp'', VStr (bc_startup_timestamp b))]"

section \<open>Helpers\<close>

text \<open>The resolved mode, whether it was valid, and the codes appended.\<close>

definition classify_execution_mode :: "string \<Rightarrow> string \<times> bool \<times> string list" where
  "classify_execution_mode execution_mode =
    (if execution_mode \<in> bootstrap_modes then (execution_mode, True, [])
     else (''SHADOW'', False, [''EXECUTION_MODE_INVALID'']))"

definition derive_governance_scope :: "string \<Rightarrow> string" where
  "derive_governance_scope execution_mode =
    (if execution_mode \<in> replay_bootstrap_modes then ''REPLAY_ONLY''
     else if execution_mode = ''MAINTENANCE'' then ''MAINTENANCE''
     else if execution_mode = ''DEGRADED'' then ''DEGRADED''
     else ''SHADOW_ONLY'')"

definition classify_startup :: "string \<Rightarrow> string list \<Rightarrow> string" where
  "classify_startup execution_mode degradation_codes =
    (if degradation_codes \<noteq> [] then ''DEGRADED''
     else if execution_mode \<in> replay_bootstrap_modes then ''REPLAY_SAFE''
     else if execution_mode = ''MAINTENANCE'' then ''MAINTENANCE''
     else ''SHADOW_SAFE'')"

text \<open>A row of the registry; \<open>cf_text\<close> is its \<^verbatim>\<open>str\<close>, used when version and id are empty.\<close>

record config_row =
  cf_version_id :: string
  cf_id :: int
  cf_text :: string

definition config_row_version :: "config_row \<Rightarrow> string" where
  "config_row_version c =
    (if cf_version_id c \<noteq> [] then cf_version_id c
     else if cf_id c \<noteq> 0 then show_int (cf_id c) else cf_text c)"

definition validate_config_v2 :: "config_row list option \<Rightarrow> string \<times> bool \<times> string list" where
  "validate_config_v2 active_configs =
    (case active_configs of
       None \<Rightarrow> (UNKNOWN_V0, False, [''CONFIG_V2_UNAVAILABLE''])
     | Some [] \<Rightarrow> (UNKNOWN_V0, False, [''CONFIG_V2_NO_ACTIVE_VERSION''])
     | Some [c] \<Rightarrow> (config_row_version c, True, [])
     | Some (c # c' # cs) \<Rightarrow> (UNKNOWN_V0, False, [''CONFIG_V2_MULTIPLE_ACTIVE_VERSIONS'']))"

text \<open>The truth value of an optional dictionary.\<close>

fun filled :: "pydict option \<Rightarrow> bool" where
  "filled None = False"
| "filled (Some d) = (d \<noteq> [])"

definition check_attribution_complete_bootstrap :: "pydict option \<Rightarrow> bool" where
  "check_attribution_complete_bootstrap attribution =
    (filled attribution \<and>
     list_all (\<lambda>k. truthy (dict_get (the attribution) k)) bootstrap_attribution)"

definition timing_value :: "pydict \<Rightarrow> string \<Rightarrow> pyval \<Rightarrow> pyval" where
  "timing_value rule_set k fallback =
    (let val = dict_get rule_set k
     in if val \<noteq> VNone \<and> val \<noteq> VStr UNKNOWN_V0 then val else fallback)"

definition build_scheduler_timing ::
  "pydict option \<Rightarrow> int \<Rightarrow> int \<Rightarrow> string \<Rightarrow> scheduler_timing" where
  "build_scheduler_timing config_rule_set fallback_hour fallback_minute fallback_timezone =
    (let rule_set = (case config_rule_set of None \<Rightarrow> [] | Some d \<Rightarrow> d)
     in \<lparr>tm_trigger_hour =
           timing_value rule_set ''outreach_daily_trigger_hour_cst'' (VInt fallback_hour),
         tm_trigger_minute =
           timing_value rule_set ''outreach_daily_trigger_minute_cst'' (VInt fallback_minute),
         tm_timezone_str = fallback_timezone, tm_config_sourced = (rule_set \<noteq> [])\<rparr>)"

definition emit_startup_log :: "runtime \<Rightarrow> bootstrap_context \<Rightarrow> log_line" where
  "emit_startup_log rt b =
    (let level = (if bc_degradation_state b then ''warning'' else ''info'')
     in LogJson level
       ([(''timestamp'', VStr (rt_now_iso rt)), (''level'', VStr level),
         (''service'', VStr ''bootstrap''), (''event'', VStr ''runtime_bootstrap_complete'')]
        @ bootstrap_log_dict b))"

section \<open>The bootstrap\<close>

definition initialize_runtime_context ::
  "runtime \<Rightarrow> string \<Rightarrow> config_row list option \<Rightarrow> pydict option \<Rightarrow> pydict option
   \<Rightarrow> int \<Rightarrow> int \<Rightarrow> string \<Rightarrow> bootstrap_context \<times> log_line" where
  "initialize_runtime_context rt execution_mode active_configs attribution config_rule_set
     fallback_hour fallback_minute fallback_timezone =
    (let (resolved_mode, _, mode_codes) = classify_execution_mode execution_mode;
         (config_version_id, _, config_codes) =
           validate_config_v2 (Some (case active_configs of None \<Rightarrow> [] | Some cs \<Rightarrow> cs));
         governance_scope = derive_governance_scope resolved_mode;
         attribution_complete = check_attribution_complete_bootstrap attribution;
         degradation_codes = mode_codes @ config_codes
           @ code_if (filled attribution \<and> \<not> attribution_complete) ''ATTRIBUTION_INCOMPLETE'';
         ctx = \<lparr>bc_startup_correlation_id = rt_uuid rt, bc_execution_mode = resolved_mode,
           bc_governance_scope = governance_scope,
           bc_startup_classification = classify_startup resolved_mode degradation_codes,
           bc_config_version_id = config_version_id,
           bc_shadow_containment_active = (governance_scope \<noteq> ''AUTHORIZED''),
           bc_live_effects_suppressed = (governance_scope \<noteq> ''AUTHORIZED''),
           bc_replay_safe = True, bc_attribution_complete = attribution_complete,
           bc_degradation_state = (degradation_codes \<noteq> []),
           bc_degradation_codes = degradation_codes, bc_startup_timestamp = rt_now_iso rt,
           bc_scheduler_timing = build_scheduler_timing config_rule_set fallback_hour
             fallback_minute fallback_timezone\<rparr>
     in (ctx, emit_startup_log rt ctx))"

end
