(* ===== verification/Scheduler.thy ===== *)
theory Scheduler
  imports Bootstrap
begin

text \<open>
  The orchestration scheduler, \<^verbatim>\<open>app/services/_scheduler_helpers.py\<close> and
  \<^verbatim>\<open>scheduler.py\<close>, with the start-up wiring of \<^verbatim>\<open>app/main.py\<close>: the
  precondition gate, the set of executed windows, the three triggers, the coordination of a cycle,
  the stored configuration, the scheduled callback, the status and the month arithmetic of the
  report job. The state is the \<open>store\<close> of the module (its \<open>keys\<close> are the executed windows), the
  stored configuration and the time of the last run. \<open>sched_env\<close> holds what one cycle reads: the
  clock, the date, whether the job runner is running, and the identifier generated for each
  domain and for the cycle.
\<close>

section \<open>Environment, state and pure helpers\<close>

record sched_env =
  se_now_iso :: string
  se_elapsed_ms :: int
  se_cycle_date :: string
  se_running :: bool
  se_fresh_id :: "string \<Rightarrow> string"

abbreviation DOMAIN_EVALUATION :: string where
  "DOMAIN_EVALUATION \<equiv> ''orchestration_evaluation''"

abbreviation DOMAIN_SYNC :: string where
  "DOMAIN_SYNC \<equiv> ''provider_synchronization''"

abbreviation DOMAIN_HEARTBEAT :: string where
  "DOMAIN_HEARTBEAT \<equiv> ''observability_heartbeat''"

definition sched_replay_modes :: "string set" where
  "sched_replay_modes = {''REPLAY'', ''REGENERATION''}"

definition sched_modes :: "string set" where
  "sched_modes = {''LIVE'', ''SHADOW'', ''REPLAY'', ''REGENERATION'', ''DEGRADED'',
     ''MAINTENANCE''}"

definition sched_attribution :: "string list" where
  "sched_attribution =
     [''origin_source'', ''origin_authority'', ''actor_identity'', ''attribution_timestamp'']"

definition window_key :: "string \<Rightarrow> string \<Rightarrow> string \<Rightarrow> string" where
  "window_key domain cycle_date execution_mode =
     domain @ ''|'' @ cycle_date @ ''|'' @ execution_mode"

text \<open>True when the window is new.\<close>

definition check_and_register :: "string \<Rightarrow> store \<Rightarrow> bool \<times> store" where
  "check_and_register k s =
    (if k \<in> keys s then (False, s) else (True, s\<lparr>keys := insert k (keys s)\<rparr>))"

definition resolve_config_thresholds :: "pydict \<Rightarrow> string list \<Rightarrow> pydict \<times> string list" where
  "resolve_config_thresholds rule_set ks =
    (let bound = (\<lambda>k. has_key rule_set k \<and> dict_get rule_set k \<noteq> VStr UNKNOWN_V0)
     in (map (\<lambda>k. (k, if bound k then dict_get rule_set k else VStr UNKNOWN_V0)) ks,
         filter (\<lambda>k. \<not> bound k) ks))"

definition sched_attribution_complete :: "pydict option \<Rightarrow> bool" where
  "sched_attribution_complete ctx =
    (filled ctx \<and>
     list_all (\<lambda>k. has_key (the ctx) k \<and> truthy (dict_get (the ctx) k)) sched_attribution)"

definition sched_governance_scope :: "string \<Rightarrow> string" where
  "sched_governance_scope execution_mode =
    (if execution_mode \<in> sched_replay_modes then ''REPLAY_ONLY''
     else if execution_mode = ''SHADOW'' then ''SHADOW_ONLY''
     else if execution_mode = ''MAINTENANCE'' then ''MAINTENANCE_ONLY''
     else if execution_mode = ''DEGRADED'' then ''DEGRADED_ONLY''
     else ''SHADOW_ONLY'')"

definition sched_precondition_gate ::
  "string \<Rightarrow> string option \<Rightarrow> pydict option \<Rightarrow> string list" where
  "sched_precondition_gate execution_mode config_version_id attribution_context =
     code_if (execution_mode \<notin> sched_modes) ''INVALID_EXECUTION_MODE''
   @ code_if (\<not> given config_version_id) ''CONFIG_VERSION_ID_MISSING''
   @ code_if (\<not> sched_attribution_complete attribution_context) ''ATTRIBUTION_INCOMPLETE''"

section \<open>Log lines\<close>

definition emit_trigger_record ::
  "sched_env \<Rightarrow> string \<Rightarrow> string \<Rightarrow> string \<Rightarrow> string option \<Rightarrow> string \<Rightarrow> string \<Rightarrow> string
   \<Rightarrow> string list \<Rightarrow> string list \<Rightarrow> string \<Rightarrow> string \<Rightarrow> string \<Rightarrow> string list \<Rightarrow> log_line" where
  "emit_trigger_record env domain cycle_id execution_mode config_version_id idempotency_key
     idempotency_outcome trigger_outcome degradation_flags missing_keys window_start window_end
     governance_scope reason_codes =
    (let level = (if degradation_flags \<noteq> [] \<or> missing_keys \<noteq> [] then ''warning'' else ''info'')
     in LogJson level
      [(''timestamp'', VStr (se_now_iso env)), (''level'', VStr level),
       (''service'', VStr ''scheduler''), (''event'', VStr ''orchestration_trigger''),
       (''scheduler_domain'', VStr domain), (''cycle_id'', VStr cycle_id),
       (''triggered_at'', VStr (se_now_iso env)), (''execution_mode'', VStr execution_mode),
       (''governance_scope'', VStr governance_scope),
       (''config_version_id'', opt_val config_version_id),
       (''trigger_window_start'', VStr window_start), (''trigger_window_end'', VStr window_end),
       (''idempotency_key'', VStr idempotency_key),
       (''idempotency_check_outcome'', VStr idempotency_outcome),
       (''trigger_outcome'', VStr trigger_outcome),
       (''degradation_flags'', str_list degradation_flags),
       (''config_threshold_missing_keys'', str_list missing_keys),
       (''reason_codes'', str_list reason_codes)])"

definition emit_cycle_completion ::
  "sched_env \<Rightarrow> string \<Rightarrow> string option \<Rightarrow> string \<Rightarrow> string \<Rightarrow> int \<Rightarrow> string \<Rightarrow> bool \<Rightarrow> string
   \<Rightarrow> string list \<Rightarrow> log_line" where
  "emit_cycle_completion env cycle_id correlation_id execution_mode execution_type
     trigger_to_completion_ms loop_outcome orphan_detected governance_scope reason_codes =
     LogJson ''info''
      [(''timestamp'', VStr (se_now_iso env)), (''level'', VStr ''info''),
       (''service'', VStr ''scheduler''), (''event'', VStr ''scheduler_cycle_complete''),
       (''cycle_id'', VStr cycle_id), (''correlation_id'', opt_val correlation_id),
       (''execution_mode'', VStr execution_mode), (''execution_type'', VStr execution_type),
       (''governance_scope'', VStr governance_scope),
       (''trigger_to_completion_ms'', VInt trigger_to_completion_ms),
       (''loop_outcome'', VStr loop_outcome), (''orphan_detected'', VBool orphan_detected),
       (''reason_codes'', str_list reason_codes)]"

definition suppressed_line :: "string \<Rightarrow> string \<Rightarrow> string \<Rightarrow> log_line" where
  "suppressed_line domain reason execution_mode = LogJson ''info''
     [(''service'', VStr ''scheduler''), (''event'', VStr ''TRIGGER_SUPPRESSED''),
      (''scheduler_domain'', VStr domain), (''reason'', VStr reason),
      (''execution_mode'', VStr execution_mode)]"

section \<open>The triggers\<close>

definition emitted_line ::
  "sched_env \<Rightarrow> string \<Rightarrow> string \<Rightarrow> string option \<Rightarrow> string \<Rightarrow> string list \<Rightarrow> log_line" where
  "emitted_line env domain execution_mode config_version_id governance_scope missing_keys =
    (let cycle_date = se_cycle_date env;
         degradation_flags = map (\<lambda>k. ''CONFIG_THRESHOLD_MISSING_'' @ upper k) missing_keys
     in emit_trigger_record env domain (se_fresh_id env domain) execution_mode config_version_id
          (window_key domain cycle_date execution_mode) ''NEW_WINDOW'' ''emitted''
          degradation_flags missing_keys (cycle_date @ ''T00:00:00+00:00'')
          (cycle_date @ ''T23:59:59+00:00'') governance_scope degradation_flags)"

definition trigger_orchestration_evaluation ::
  "sched_env \<Rightarrow> string \<Rightarrow> pydict \<Rightarrow> string option \<Rightarrow> string \<Rightarrow> store \<Rightarrow> string option \<times> store" where
  "trigger_orchestration_evaluation env execution_mode config config_version_id
     governance_scope s =
    (if execution_mode = ''MAINTENANCE'' then
       (None, emit (suppressed_line DOMAIN_EVALUATION ''MAINTENANCE_MODE'' execution_mode) s)
     else
       let missing_keys = snd (resolve_config_thresholds config
             [''outreach_daily_trigger_hour_cst'', ''outreach_retry_window_days'']);
           idem_key = window_key DOMAIN_EVALUATION (se_cycle_date env) execution_mode;
           (new_window, s1) = check_and_register idem_key s
       in if \<not> new_window then
            (None, emit (emit_trigger_record env DOMAIN_EVALUATION ''DUPLICATE'' execution_mode
               config_version_id idem_key ''DUPLICATE_SUPPRESSED'' ''suppressed'' [] []
               (se_cycle_date env) (se_cycle_date env) governance_scope
               [''IDEMPOTENCY_DUPLICATE'']) s1)
          else (Some (se_fresh_id env DOMAIN_EVALUATION),
                emit (emitted_line env DOMAIN_EVALUATION execution_mode config_version_id
                  governance_scope missing_keys) s1))"

definition trigger_provider_synchronization ::
  "sched_env \<Rightarrow> string \<Rightarrow> pydict \<Rightarrow> string option \<Rightarrow> string \<Rightarrow> store \<Rightarrow> string option \<times> store" where
  "trigger_provider_synchronization env execution_mode config config_version_id
     governance_scope s =
    (if execution_mode \<in> sched_replay_modes then
       (None, emit (suppressed_line DOMAIN_SYNC ''REPLAY_EXECUTION'' execution_mode) s)
     else if execution_mode = ''MAINTENANCE'' then
       (None, emit (suppressed_line DOMAIN_SYNC ''MAINTENANCE_MODE'' execution_mode) s)
     else
       let missing_keys =
             snd (resolve_config_thresholds config [''sql_server_max_sync_age_hours'']);
           (new_window, s1) =
             check_and_register (window_key DOMAIN_SYNC (se_cycle_date env) execution_mode) s
       in if \<not> new_window then (None, s1)
          else (Some (se_fresh_id env DOMAIN_SYNC),
                emit (emitted_line env DOMAIN_SYNC execution_mode config_version_id
                  governance_scope missing_keys) s1))"

definition trigger_observability_heartbeat ::
  "sched_env \<Rightarrow> string \<Rightarrow> string option \<Rightarrow> string \<Rightarrow> store \<Rightarrow> string option \<times> store" where
  "trigger_observability_heartbeat env execution_mode config_version_id governance_scope s =
    (Some (se_fresh_id env DOMAIN_HEARTBEAT), emit (LogJson ''info''
      [(''timestamp'', VStr (se_now_iso env)), (''level'', VStr ''info''),
       (''service'', VStr ''scheduler''), (''event'', VStr ''observability_heartbeat''),
       (''cycle_id'', VStr (se_fresh_id env DOMAIN_HEARTBEAT)),
       (''execution_mode'', VStr execution_mode), (''governance_scope'', VStr governance_scope),
       (''config_version_id'', opt_val config_version_id),
       (''scheduler_running'', VBool (se_running env))]) s)"

section \<open>The coordination of a cycle\<close>

text \<open>The dictionary the cycle returns; the cycle identifier is absent when it is \<open>None\<close>.\<close>

record cycle_result =
  cy_coordination_produced :: bool
  cy_governance_scope :: string
  cy_execution_mode :: string
  cy_config_version_id :: "string option"
  cy_orchestration_cycle_id :: "string option"
  cy_reason_codes :: "string list"
  cy_cycle_ids :: "(string \<times> string option) list"
  cy_blocked :: bool
  cy_duration_ms :: int

text \<open>The identifiers of the domains that were triggered, and the reason codes.\<close>

definition run_triggers ::
  "sched_env \<Rightarrow> string \<Rightarrow> pydict \<Rightarrow> string option \<Rightarrow> string \<Rightarrow> store
   \<Rightarrow> (string \<times> string option) list \<times> string list \<times> store" where
  "run_triggers env execution_mode rule_set config_version_id gov_scope s =
    (if execution_mode = ''MAINTENANCE'' then
       let (hb, s1) = trigger_observability_heartbeat env execution_mode config_version_id gov_scope s
       in ([(DOMAIN_HEARTBEAT, hb)], [''MAINTENANCE_ORCHESTRATION_SUPPRESSED''], s1)
     else
       let (eval_id, s1) = trigger_orchestration_evaluation env execution_mode rule_set
             config_version_id gov_scope s;
           (sync_id, s2) = trigger_provider_synchronization env execution_mode rule_set
             config_version_id gov_scope s1;
           (hb_id, s3) = trigger_observability_heartbeat env execution_mode config_version_id
             gov_scope s2
       in ([(DOMAIN_EVALUATION, eval_id), (DOMAIN_SYNC, sync_id), (DOMAIN_HEARTBEAT, hb_id)],
           [], s3))"

definition coordinate_cycle ::
  "sched_env \<Rightarrow> string \<Rightarrow> string option \<Rightarrow> pydict option \<Rightarrow> pydict option \<Rightarrow> store
   \<Rightarrow> cycle_result \<times> store" where
  "coordinate_cycle env execution_mode config_version_id config_rule_set attribution_context s =
    (let rule_set = (case config_rule_set of None \<Rightarrow> [] | Some d \<Rightarrow> d);
         codes = sched_precondition_gate execution_mode config_version_id attribution_context;
         gov_scope = sched_governance_scope execution_mode;
         dur = se_elapsed_ms env
     in if codes \<noteq> [] then
          (\<lparr>cy_coordination_produced = False, cy_governance_scope = gov_scope,
            cy_execution_mode = execution_mode, cy_config_version_id = config_version_id,
            cy_orchestration_cycle_id = None, cy_reason_codes = codes, cy_cycle_ids = [],
            cy_blocked = True, cy_duration_ms = dur\<rparr>,
           emit (LogJson ''error''
             [(''timestamp'', VStr (se_now_iso env)), (''level'', VStr ''error''),
              (''service'', VStr ''scheduler''),
              (''event'', VStr ''governance_precondition_failed''),
              (''execution_mode'', VStr execution_mode),
              (''config_version_id'', opt_val config_version_id),
              (''reason_codes'', str_list codes), (''duration_ms'', VInt dur)]) s)
        else if execution_mode \<in> sched_replay_modes then
          (\<lparr>cy_coordination_produced = False, cy_governance_scope = gov_scope,
            cy_execution_mode = execution_mode, cy_config_version_id = config_version_id,
            cy_orchestration_cycle_id = None, cy_reason_codes = [''REPLAY_LIVE_BATCH_SUPPRESSED''],
            cy_cycle_ids = [], cy_blocked = False, cy_duration_ms = dur\<rparr>,
           emit (emit_cycle_completion env (se_fresh_id env ''cycle'') None execution_mode
             (lower execution_mode) dur ''suppressed_replay'' False gov_scope
             [''REPLAY_LIVE_BATCH_SUPPRESSED'']) s)
        else
          let (cycle_ids, trigger_codes, s1) =
                run_triggers env execution_mode rule_set config_version_id gov_scope s;
              cycle_id = se_fresh_id env ''cycle''
          in (\<lparr>cy_coordination_produced = True, cy_governance_scope = gov_scope,
               cy_execution_mode = execution_mode, cy_config_version_id = config_version_id,
               cy_orchestration_cycle_id = Some cycle_id, cy_reason_codes = trigger_codes,
               cy_cycle_ids = cycle_ids, cy_blocked = False, cy_duration_ms = dur\<rparr>,
              emit (emit_cycle_completion env cycle_id None execution_mode ''original'' dur
                ''success'' False gov_scope trigger_codes) s1))"

section \<open>Stored configuration, callback and status\<close>

record sched_config =
  sg_execution_mode :: string
  sg_config_version_id :: "string option"
  sg_config_rule_set :: pydict
  sg_attribution_context :: pydict

record sched_state =
  ss_store :: store
  ss_config :: "sched_config option"
  ss_last_run_at :: "string option"

definition initial_sched_state :: sched_state where
  "initial_sched_state = \<lparr>ss_store = empty_store, ss_config = None, ss_last_run_at = None\<rparr>"

definition configure_scheduler ::
  "string \<Rightarrow> string option \<Rightarrow> pydict option \<Rightarrow> pydict option \<Rightarrow> sched_state \<Rightarrow> sched_state" where
  "configure_scheduler execution_mode config_version_id config_rule_set attribution_context st =
     st\<lparr>ss_config := Some \<lparr>sg_execution_mode = execution_mode,
       sg_config_version_id = config_version_id,
       sg_config_rule_set = (case config_rule_set of None \<Rightarrow> [] | Some d \<Rightarrow> d),
       sg_attribution_context = (case attribution_context of None \<Rightarrow> [] | Some d \<Rightarrow> d)\<rparr>\<rparr>"

definition scheduled_cycle :: "sched_env \<Rightarrow> sched_state \<Rightarrow> cycle_result \<times> sched_state" where
  "scheduled_cycle env st =
    (let (r, s') = (case ss_config st of
         None \<Rightarrow> coordinate_cycle env ''SHADOW'' None (Some []) (Some []) (ss_store st)
       | Some c \<Rightarrow> coordinate_cycle env (sg_execution_mode c) (sg_config_version_id c)
           (Some (sg_config_rule_set c)) (Some (sg_attribution_context c)) (ss_store st))
     in (r, st\<lparr>ss_store := s', ss_last_run_at := Some (se_now_iso env)\<rparr>))"

record sched_status =
  sx_running :: bool
  sx_execution_mode :: string
  sx_governance_scope :: string
  sx_config_version_id :: "string option"
  sx_live_dispatch_enabled :: bool

definition get_scheduler_status :: "bool \<Rightarrow> sched_state \<Rightarrow> sched_status" where
  "get_scheduler_status running st =
    (let mode = (case ss_config st of None \<Rightarrow> ''SHADOW'' | Some c \<Rightarrow> sg_execution_mode c)
     in \<lparr>sx_running = running, sx_execution_mode = mode,
         sx_governance_scope = sched_governance_scope mode,
         sx_config_version_id =
           (case ss_config st of None \<Rightarrow> None | Some c \<Rightarrow> sg_config_version_id c),
         sx_live_dispatch_enabled = False\<rparr>)"

text \<open>The month the report job covers on a given day: the month before.\<close>

definition report_month :: "int \<Rightarrow> int \<Rightarrow> int \<times> int" where
  "report_month year month =
    (if month = 1 then (year - 1, 12) else (year, month - 1))"

text \<open>The part of the start-up that configures the scheduler from the bootstrap context.\<close>

definition startup_wiring ::
  "runtime \<Rightarrow> string \<Rightarrow> config_row list option \<Rightarrow> int \<Rightarrow> int \<Rightarrow> string \<Rightarrow> sched_state
   \<Rightarrow> bootstrap_context \<times> sched_state" where
  "startup_wiring rt execution_mode active_configs hour minute timezone st =
    (let (b, line) = initialize_runtime_context rt execution_mode active_configs None None
           hour minute timezone;
         st1 = st\<lparr>ss_store := emit line (ss_store st)\<rparr>
     in (b, configure_scheduler (bc_execution_mode b) (Some (bc_config_version_id b)) None
          (Some [(''origin_source'', VStr ''bootstrap''),
             (''origin_authority'', VStr ''runtime_context''),
             (''attribution_timestamp'', VStr (bc_startup_timestamp b)),
             (''startup_correlation_id'', VStr (bc_startup_correlation_id b)),
             (''actor_identity'', VStr ''startup_lifecycle'')]) st1))"

end
