(* ===== verification/SchedulerProps.thy ===== *)
theory SchedulerProps
  imports Scheduler
begin

text \<open>
  What the scheduler promises: after any start-up its callbacks run and stay contained, evaluation and
  synchronization are triggered exactly once per day and mode however often the callback fires, and replay
  and maintenance trigger no domain.
\<close>

section \<open>Windows\<close>

definition trigger_domains :: "string set" where
  "trigger_domains = {DOMAIN_EVALUATION, DOMAIN_SYNC}"

lemma window_key_eq:
  assumes "domain \<in> trigger_domains" and "domain' \<in> trigger_domains"
  shows "window_key domain d m = window_key domain' d' m \<longleftrightarrow> domain = domain' \<and> d = d'"
  using assms by (auto simp: window_key_def trigger_domains_def)

text \<open>The domain was triggered in a cycle: its identifier is in the result.\<close>

definition triggered :: "string \<Rightarrow> cycle_result \<Rightarrow> bool" where
  "triggered domain r \<longleftrightarrow>
     (case map_of (cy_cycle_ids r) domain of Some (Some i) \<Rightarrow> True | _ \<Rightarrow> False)"

text \<open>A configuration under which the domains are triggered.\<close>

definition active_config :: "sched_config \<Rightarrow> bool" where
  "active_config c \<longleftrightarrow>
     sched_precondition_gate (sg_execution_mode c) (sg_config_version_id c)
       (Some (sg_attribution_context c)) = []
   \<and> sg_execution_mode c \<notin> sched_replay_modes \<and> sg_execution_mode c \<noteq> ''MAINTENANCE''"

fun run_cycles :: "sched_env list \<Rightarrow> sched_state \<Rightarrow> cycle_result list \<times> sched_state" where
  "run_cycles [] st = ([], st)"
| "run_cycles (env # envs) st =
    (let (r, st1) = scheduled_cycle env st; (rs, st2) = run_cycles envs st1 in (r # rs, st2))"

lemma check_and_register_simps [simp]:
  "fst (check_and_register k s) \<longleftrightarrow> k \<notin> keys s"
  "keys (snd (check_and_register k s)) = insert k (keys s)"
  "events (snd (check_and_register k s)) = events s"
  by (auto simp: check_and_register_def)

lemma evaluation_trigger:
  assumes "m \<noteq> ''MAINTENANCE''"
  shows "(\<exists>i. fst (trigger_orchestration_evaluation env m rs v g s) = Some i) \<longleftrightarrow>
      window_key DOMAIN_EVALUATION (se_cycle_date env) m \<notin> keys s"
    and "keys (snd (trigger_orchestration_evaluation env m rs v g s)) =
      insert (window_key DOMAIN_EVALUATION (se_cycle_date env) m) (keys s)"
  using assms
  by (simp_all add: trigger_orchestration_evaluation_def Let_def case_prod_unfold)

lemma sync_trigger:
  assumes "m \<noteq> ''MAINTENANCE''" "m \<notin> sched_replay_modes"
  shows "(\<exists>i. fst (trigger_provider_synchronization env m rs v g s) = Some i) \<longleftrightarrow>
      window_key DOMAIN_SYNC (se_cycle_date env) m \<notin> keys s"
    and "keys (snd (trigger_provider_synchronization env m rs v g s)) =
      insert (window_key DOMAIN_SYNC (se_cycle_date env) m) (keys s)"
  using assms
  by (simp_all add: trigger_provider_synchronization_def Let_def case_prod_unfold)

lemma heartbeat_keys [simp]:
  "keys (snd (trigger_observability_heartbeat env m v g s)) = keys s"
  by (simp add: trigger_observability_heartbeat_def)

lemma not_None_case: "(case x of None \<Rightarrow> False | Some i \<Rightarrow> True) \<longleftrightarrow> (\<exists>i. x = Some i)"
  by (cases x) simp_all

lemma active_triggers:
  assumes "m \<noteq> ''MAINTENANCE''" "m \<notin> sched_replay_modes"
    and "run_triggers env m rs v g s = (ids, codes, s')"
  shows "triggered DOMAIN_EVALUATION (r\<lparr>cy_cycle_ids := ids\<rparr>) \<longleftrightarrow>
      window_key DOMAIN_EVALUATION (se_cycle_date env) m \<notin> keys s"
    and "triggered DOMAIN_SYNC (r\<lparr>cy_cycle_ids := ids\<rparr>) \<longleftrightarrow>
      window_key DOMAIN_SYNC (se_cycle_date env) m \<notin> keys s"
    and "keys s' = keys s \<union> (\<lambda>dom. window_key dom (se_cycle_date env) m) ` trigger_domains"
proof -
  note sync = sync_trigger [OF assms(1,2)] and eval = evaluation_trigger [OF assms(1)]
  let ?e = "trigger_orchestration_evaluation env m rs v g s"
  let ?y = "trigger_provider_synchronization env m rs v g (snd ?e)"
  have ids: "ids = [(DOMAIN_EVALUATION, fst ?e), (DOMAIN_SYNC, fst ?y),
      (DOMAIN_HEARTBEAT, fst (trigger_observability_heartbeat env m v g (snd ?y)))]"
    and s': "s' = snd (trigger_observability_heartbeat env m v g (snd ?y))"
    using assms(1,3) by (simp_all add: run_triggers_def Let_def case_prod_unfold)
  show "triggered DOMAIN_EVALUATION (r\<lparr>cy_cycle_ids := ids\<rparr>) \<longleftrightarrow>
      window_key DOMAIN_EVALUATION (se_cycle_date env) m \<notin> keys s"
    by (simp add: triggered_def ids not_None_case eval)
  have "window_key DOMAIN_SYNC (se_cycle_date env) m \<notin> keys (snd ?e) \<longleftrightarrow>
      window_key DOMAIN_SYNC (se_cycle_date env) m \<notin> keys s"
    by (simp add: eval) (simp add: window_key_def)
  then show "triggered DOMAIN_SYNC (r\<lparr>cy_cycle_ids := ids\<rparr>) \<longleftrightarrow>
      window_key DOMAIN_SYNC (se_cycle_date env) m \<notin> keys s"
    by (simp add: triggered_def ids not_None_case sync)
  show "keys s' = keys s \<union> (\<lambda>dom. window_key dom (se_cycle_date env) m) ` trigger_domains"
    by (auto simp: s' sync eval trigger_domains_def)
qed

lemma scheduled_cycle_active:
  assumes "ss_config st = Some c" and "active_config c"
    and "run_triggers env (sg_execution_mode c) (sg_config_rule_set c) (sg_config_version_id c)
      (sched_governance_scope (sg_execution_mode c)) (ss_store st) = (ids, codes, s')"
  shows "\<exists>r0 line. scheduled_cycle env st = (r0\<lparr>cy_cycle_ids := ids\<rparr>,
    st\<lparr>ss_store := emit line s', ss_last_run_at := Some (se_now_iso env)\<rparr>)"
  using assms unfolding active_config_def
  by (simp add: scheduled_cycle_def coordinate_cycle_def Let_def) (metis cycle_result.update_convs(7))

lemma scheduled_cycle_step:
  assumes "ss_config st = Some c" and "active_config c" and "domain \<in> trigger_domains"
  shows "triggered domain (fst (scheduled_cycle env st)) \<longleftrightarrow>
      window_key domain (se_cycle_date env) (sg_execution_mode c) \<notin> keys (ss_store st)"
    and "keys (ss_store (snd (scheduled_cycle env st))) =
      keys (ss_store st) \<union> (\<lambda>dom. window_key dom (se_cycle_date env) (sg_execution_mode c)) ` trigger_domains"
    and "ss_config (snd (scheduled_cycle env st)) = Some c"
proof -
  have m: "sg_execution_mode c \<noteq> ''MAINTENANCE''" "sg_execution_mode c \<notin> sched_replay_modes"
    using assms(2) by (simp_all add: active_config_def)
  obtain ids codes s' where run: "run_triggers env (sg_execution_mode c) (sg_config_rule_set c)
      (sg_config_version_id c) (sched_governance_scope (sg_execution_mode c)) (ss_store st) =
      (ids, codes, s')"
    by (cases "run_triggers env (sg_execution_mode c) (sg_config_rule_set c)
      (sg_config_version_id c) (sched_governance_scope (sg_execution_mode c)) (ss_store st)")
  obtain r0 line where cycle: "scheduled_cycle env st = (r0\<lparr>cy_cycle_ids := ids\<rparr>,
      st\<lparr>ss_store := emit line s', ss_last_run_at := Some (se_now_iso env)\<rparr>)"
    using scheduled_cycle_active [OF assms(1,2) run] by blast
  note active = active_triggers [OF m run]
  show "triggered domain (fst (scheduled_cycle env st)) \<longleftrightarrow>
      window_key domain (se_cycle_date env) (sg_execution_mode c) \<notin> keys (ss_store st)"
    using assms(3) active(1,2) [of r0] unfolding trigger_domains_def cycle by auto
  show "keys (ss_store (snd (scheduled_cycle env st))) =
      keys (ss_store st) \<union> (\<lambda>dom. window_key dom (se_cycle_date env) (sg_execution_mode c)) ` trigger_domains"
    by (simp add: cycle active(3))
  show "ss_config (snd (scheduled_cycle env st)) = Some c"
    using assms(1) by (simp add: cycle)
qed

lemma windows_once:
  assumes "active_config c" and "domain \<in> trigger_domains" and "ss_config st = Some c"
  shows "length (filter (\<lambda>(env, r). se_cycle_date env = d \<and> triggered domain r)
      (zip envs (fst (run_cycles envs st)))) =
    (if d \<in> se_cycle_date ` set envs
        \<and> window_key domain d (sg_execution_mode c) \<notin> keys (ss_store st) then 1 else 0)"
  using assms(3)
proof (induction envs arbitrary: st)
  case (Cons env envs)
  note step = scheduled_cycle_step [OF Cons.prems assms(1,2), of env]
  have key: "window_key domain d (sg_execution_mode c) \<in>
      (\<lambda>dom. window_key dom (se_cycle_date env) (sg_execution_mode c)) ` trigger_domains \<longleftrightarrow>
      d = se_cycle_date env"
    using assms(2) by (auto simp: window_key_eq)
  from Cons.IH [OF step(3)] show ?case
    by (auto simp: Let_def case_prod_unfold step(1,2) key)
qed simp

lemma scheduled_heartbeat:
  assumes "ss_config st = Some c" and "active_config c"
  shows "triggered DOMAIN_HEARTBEAT (fst (scheduled_cycle env st))"
proof -
  have m: "sg_execution_mode c \<noteq> ''MAINTENANCE''" using assms(2) by (simp add: active_config_def)
  obtain ids codes s' where run: "run_triggers env (sg_execution_mode c) (sg_config_rule_set c)
      (sg_config_version_id c) (sched_governance_scope (sg_execution_mode c)) (ss_store st) = (ids, codes, s')"
    by (rule prod_cases3)
  then have "map_of ids DOMAIN_HEARTBEAT = Some (Some (se_fresh_id env DOMAIN_HEARTBEAT))"
    using m by (auto simp: run_triggers_def Let_def case_prod_unfold trigger_observability_heartbeat_def)
  with scheduled_cycle_active [OF assms run] show ?thesis by (auto simp: triggered_def)
qed

lemma heartbeat_always:
  assumes "active_config c" and "ss_config st = Some c"
  shows "length (fst (run_cycles envs st)) = length envs \<and> list_all (triggered DOMAIN_HEARTBEAT) (fst (run_cycles envs st))"
  using assms(2)
proof (induction envs arbitrary: st)
  case (Cons env envs)
  have "DOMAIN_SYNC \<in> trigger_domains" by (simp add: trigger_domains_def)
  note step = scheduled_cycle_step(3) [OF Cons.prems assms(1) this, of env]
  from Cons.IH [OF step] scheduled_heartbeat [OF Cons.prems assms(1), of env] show ?case
    by (simp add: Let_def case_prod_unfold)
qed simp

section \<open>Start-up\<close>

lemma validate_version:
  "fst (validate_config_v2 (Some (case rows of None \<Rightarrow> [] | Some cs \<Rightarrow> cs))) =
     (case rows of Some [c] \<Rightarrow> config_row_version c | _ \<Rightarrow> UNKNOWN_V0)"
  by (simp add: validate_config_v2_def split: option.split list.split)

lemma bootstrap_fields:
  "bc_execution_mode (fst (initialize_runtime_context rt mode rows att rs h m tz)) =
     fst (classify_execution_mode mode)"
  "bc_governance_scope (fst (initialize_runtime_context rt mode rows att rs h m tz)) =
     derive_governance_scope (fst (classify_execution_mode mode))"
  "bc_config_version_id (fst (initialize_runtime_context rt mode rows att rs h m tz)) =
     (case rows of Some [c] \<Rightarrow> config_row_version c | _ \<Rightarrow> UNKNOWN_V0)"
  "bc_startup_timestamp (fst (initialize_runtime_context rt mode rows att rs h m tz)) = rt_now_iso rt"
  "bc_startup_correlation_id (fst (initialize_runtime_context rt mode rows att rs h m tz)) = rt_uuid rt"
  by (simp_all add: initialize_runtime_context_def Let_def case_prod_unfold validate_version)

lemma classified_mode [simp]: "fst (classify_execution_mode mode) \<in> bootstrap_modes"
  by (simp add: classify_execution_mode_def bootstrap_modes_def)

definition startup_attribution :: "string \<Rightarrow> string \<Rightarrow> pydict" where
  "startup_attribution now uuid =
    [(''origin_source'', VStr ''bootstrap''), (''origin_authority'', VStr ''runtime_context''),
     (''attribution_timestamp'', VStr now), (''startup_correlation_id'', VStr uuid),
     (''actor_identity'', VStr ''startup_lifecycle'')]"

lemma same_modes: "sched_modes = bootstrap_modes"
  by (auto simp: sched_modes_def bootstrap_modes_def)

lemma mode_codes: "snd (snd (classify_execution_mode mode)) = [] \<longleftrightarrow> mode \<in> bootstrap_modes"
  by (simp add: classify_execution_mode_def)

lemma config_codes: "snd (snd (validate_config_v2 (Some cs))) = [] \<longleftrightarrow> length cs = 1"
  by (simp add: validate_config_v2_def split: list.split)

text \<open>What makes a start-up degraded.\<close>

definition startup_degraded :: "string \<Rightarrow> config_row list option \<Rightarrow> pydict option \<Rightarrow> bool" where
  "startup_degraded mode rows att \<longleftrightarrow>
     \<not> (mode \<in> bootstrap_modes
        \<and> length (case rows of None \<Rightarrow> [] | Some cs \<Rightarrow> cs) = 1
        \<and> (filled att \<longrightarrow> check_attribution_complete_bootstrap att))"

lemma bootstrap_degraded:
  "bc_degradation_state (fst (initialize_runtime_context rt mode rows att rs h m tz)) \<longleftrightarrow>
     startup_degraded mode rows att"
  "bc_startup_classification (fst (initialize_runtime_context rt mode rows att rs h m tz)) =
     ''DEGRADED'' \<longleftrightarrow> startup_degraded mode rows att"
  unfolding startup_degraded_def initialize_runtime_context_def Let_def case_prod_unfold
  by (auto simp: classify_startup_def mode_codes config_codes)

lemma bootstrap_contained:
  "bc_shadow_containment_active (fst (initialize_runtime_context rt mode rows att rs h m tz))"
  "bc_live_effects_suppressed (fst (initialize_runtime_context rt mode rows att rs h m tz))"
  "bc_replay_safe (fst (initialize_runtime_context rt mode rows att rs h m tz))"
  "snd (initialize_runtime_context rt mode rows att rs h m tz) =
     emit_startup_log rt (fst (initialize_runtime_context rt mode rows att rs h m tz))"
  by (simp_all add: initialize_runtime_context_def Let_def case_prod_unfold derive_governance_scope_def)

lemma startup_attribution_complete:
  "now \<noteq> [] \<Longrightarrow> sched_attribution_complete (Some (startup_attribution now uuid))"
  by (simp add: sched_attribution_complete_def startup_attribution_def sched_attribution_def)

lemma coordinate_passed:
  assumes "sched_precondition_gate m v att = []"
  shows "\<not> cy_blocked (fst (coordinate_cycle env m v rs att s))"
    and "cy_governance_scope (fst (coordinate_cycle env m v rs att s)) = sched_governance_scope m"
    and "cy_config_version_id (fst (coordinate_cycle env m v rs att s)) = v"
  using assms by (simp_all add: coordinate_cycle_def Let_def case_prod_unfold)

section \<open>Properties\<close>

text \<open>
  C14. Evaluation and synchronization are triggered exactly once per day, the heartbeat always:
  however often the callback fires, in any sequence of cycles under an active configuration, the
  evaluation and the synchronization of a date that occurs are each triggered in exactly one of the
  cycles of that date, unless that window had been executed before, and then in none; the
  observability heartbeat has no window and is triggered in every cycle.
\<close>

theorem domain_triggered_once_per_day:
  assumes "ss_config st = Some c" and "active_config c" and "domain \<in> trigger_domains"
  shows "length (filter (\<lambda>(env, r). se_cycle_date env = d \<and> triggered domain r)
      (zip envs (fst (run_cycles envs st)))) =
    (if d \<in> se_cycle_date ` set envs
        \<and> window_key domain d (sg_execution_mode c) \<notin> keys (ss_store st) then 1 else 0)
    \<and> length (fst (run_cycles envs st)) = length envs
    \<and> list_all (triggered DOMAIN_HEARTBEAT) (fst (run_cycles envs st))"
  using windows_once [OF assms(2,3,1)] heartbeat_always [OF assms(2,1), of envs] by simp

definition sample_env :: "string \<Rightarrow> sched_env" where
  "sample_env d = \<lparr>se_now_iso = d @ ''T01:00:00'', se_elapsed_ms = 1, se_cycle_date = d,
     se_running = True, se_fresh_id = (\<lambda>x. x @ d)\<rparr>"

definition sample_sched :: sched_state where
  "sample_sched = snd (startup_wiring (sample_runtime 1) ''SHADOW'' None 18 0 ''UTC''
     initial_sched_state)"

lemma sample_sched_active: "ss_config sample_sched = Some (the (ss_config sample_sched))"
  "active_config (the (ss_config sample_sched))"
  by code_simp+

theorem domain_triggered_once_per_day_witness:
  "let envs = [sample_env ''2026-01-05'', sample_env ''2026-01-05'']; rs = fst (run_cycles envs sample_sched)
   in length (filter (\<lambda>(env, r). se_cycle_date env = ''2026-01-05'' \<and> triggered DOMAIN_SYNC r) (zip envs rs)) = 1
      \<and> length rs = 2 \<and> list_all (triggered DOMAIN_HEARTBEAT) rs"
proof -
  have "window_key DOMAIN_SYNC ''2026-01-05'' (sg_execution_mode (the (ss_config sample_sched)))
      \<notin> keys (ss_store sample_sched)"
    by code_simp
  with domain_triggered_once_per_day [OF sample_sched_active, of DOMAIN_SYNC "''2026-01-05''"
      "[sample_env ''2026-01-05'', sample_env ''2026-01-05'']"]
  show ?thesis by (simp add: trigger_domains_def sample_env_def Let_def)
qed

text \<open>
  After start-up the callback always runs, and contained: for every execution mode and any
  set of active configuration rows with named versions, the first scheduled cycle is not
  blocked, its scope is the bootstrap scope (with the suffix \<^verbatim>\<open>_ONLY\<close> for
  MAINTENANCE and DEGRADED) and never AUTHORIZED, and live dispatch stays disabled. Without
  exactly one active row the sentinel UNKNOWN_V0 is the configuration version it runs with.
\<close>

theorem startup_cycle_runs_contained:
  assumes "rt_now_iso rt \<noteq> []"
    and "\<forall>c \<in> set (case rows of None \<Rightarrow> [] | Some cs \<Rightarrow> cs). config_row_version c \<noteq> []"
    and "startup_wiring rt mode rows h m tz initial_sched_state = (b, st)"
    and "scheduled_cycle env st = (r, st')"
  shows "\<not> cy_blocked r
    \<and> cy_governance_scope r = bc_governance_scope b
        @ (if bc_execution_mode b \<in> {''MAINTENANCE'', ''DEGRADED''} then ''_ONLY'' else [])
    \<and> cy_governance_scope r \<noteq> ''AUTHORIZED''
    \<and> \<not> sx_live_dispatch_enabled (get_scheduler_status running st')
    \<and> cy_config_version_id r = Some (case rows of Some [c] \<Rightarrow> config_row_version c | _ \<Rightarrow> UNKNOWN_V0)"
proof -
  let ?m = "bc_execution_mode b"
  have m: "?m \<in> bootstrap_modes" and scope: "bc_governance_scope b = derive_governance_scope ?m"
    and v: "bc_config_version_id b = (case rows of Some [c] \<Rightarrow> config_row_version c | _ \<Rightarrow> UNKNOWN_V0)"
    and st: "ss_config st = Some \<lparr>sg_execution_mode = ?m,
      sg_config_version_id = Some (bc_config_version_id b), sg_config_rule_set = [],
      sg_attribution_context = startup_attribution (rt_now_iso rt) (rt_uuid rt)\<rparr>"
    using assms(3) by (auto simp: startup_wiring_def bootstrap_fields Let_def case_prod_unfold
        configure_scheduler_def startup_attribution_def)
  have "bc_config_version_id b \<noteq> []"
    using assms(2) unfolding v by (auto split: option.splits list.splits)
  then have gate: "sched_precondition_gate ?m (Some (bc_config_version_id b))
      (Some (startup_attribution (rt_now_iso rt) (rt_uuid rt))) = []"
    using m assms(1)
    by (simp add: sched_precondition_gate_def startup_attribution_complete same_modes)
  note cycle = coordinate_passed [OF gate, of env "Some []" "ss_store st"]
  from assms(4) have r: "r = fst (coordinate_cycle env ?m (Some (bc_config_version_id b))
      (Some []) (Some (startup_attribution (rt_now_iso rt) (rt_uuid rt))) (ss_store st))"
    by (simp add: scheduled_cycle_def st Let_def case_prod_unfold)
  have "cy_governance_scope r = bc_governance_scope b
      @ (if ?m \<in> {''MAINTENANCE'', ''DEGRADED''} then ''_ONLY'' else [])"
    using m unfolding r cycle scope
    by (auto simp: bootstrap_modes_def sched_governance_scope_def derive_governance_scope_def
        sched_replay_modes_def replay_bootstrap_modes_def)
  moreover have "cy_governance_scope r \<noteq> ''AUTHORIZED''"
    unfolding r cycle by (simp add: sched_governance_scope_def)
  ultimately show ?thesis
    using cycle(1,3) v by (simp add: r get_scheduler_status_def Let_def)
qed

theorem startup_cycle_runs_contained_witness:
  "\<not> cy_blocked (fst (scheduled_cycle (sample_env ''2026-01-05'') sample_sched))"
proof -
  have "startup_wiring (sample_runtime 1) ''SHADOW'' None 18 0 ''UTC'' initial_sched_state =
      (fst (startup_wiring (sample_runtime 1) ''SHADOW'' None 18 0 ''UTC'' initial_sched_state),
       sample_sched)"
    by (simp add: sample_sched_def)
  from startup_cycle_runs_contained [OF _ _ this surjective_pairing]
  show ?thesis by (simp add: sample_runtime_def)
qed

text \<open>
  Degradation at start-up is never silent: the bootstrap is contained and replay safe on
  every input, it resolves to one of the six modes, and it is marked as degraded, in state, class
  and log level, exactly when the mode is invalid, there is not exactly one active configuration
  row, or attribution is given and incomplete.
\<close>

theorem bootstrap_degradation_explicit:
  "let (b, line) = initialize_runtime_context rt mode rows attribution rule_set h m tz;
       degraded = startup_degraded mode rows attribution
   in bc_shadow_containment_active b \<and> bc_live_effects_suppressed b \<and> bc_replay_safe b
     \<and> bc_execution_mode b \<in> bootstrap_modes
     \<and> (bc_degradation_state b \<longleftrightarrow> degraded)
     \<and> (bc_startup_classification b = ''DEGRADED'' \<longleftrightarrow> degraded)
     \<and> line = LogJson (if degraded then ''warning'' else ''info'')
         ([(''timestamp'', VStr (rt_now_iso rt)),
           (''level'', VStr (if degraded then ''warning'' else ''info'')),
           (''service'', VStr ''bootstrap''), (''event'', VStr ''runtime_bootstrap_complete'')]
          @ bootstrap_log_dict b)"
  unfolding Let_def case_prod_unfold
  by (simp add: bootstrap_fields(1) bootstrap_contained bootstrap_degraded emit_startup_log_def Let_def)

end
