(* ===== verification/AiInsights.thy ===== *)
theory AiInsights
  imports IdempotentService
begin

text \<open>
  The AI advisory, \<^verbatim>\<open>app/services/_ai_types.py\<close>, \<^verbatim>\<open>_ai_helpers.py\<close>
  and \<^verbatim>\<open>assess_ai_orchestration\<close> of \<^verbatim>\<open>ai_insights.py\<close>: context and
  assessment, the gate with the key set, thresholds, age and tier of an insight, the five record
  factories, the log line and Rules 0--11. Input fields that no rule reads are left out. The
  difference of two floats, which the code computes for \<^verbatim>\<open>stale_for_hours\<close>, is rounded:
  it is the field \<open>rt_minus\<close> of the call's readings, a parameter. The service is an instance of
  \<open>strict_idempotent_service\<close>.
\<close>

section \<open>Input and output\<close>

record ai_runtime = runtime +
  rt_minus :: "pyfloat \<Rightarrow> pyfloat \<Rightarrow> pyfloat"

definition ai_execution_modes :: "string set" where
  "ai_execution_modes = {''SHADOW'', ''LIVE''}"

definition ai_execution_types :: "string set" where
  "ai_execution_types = {''original'', ''replay'', ''regeneration''}"

definition ai_replay_types :: "string set" where
  "ai_replay_types = {''replay'', ''regeneration''}"

definition ai_in_flight_states :: "string set" where
  "ai_in_flight_states = {''AI_PENDING'', ''AI_GENERATING'', ''AI_QUEUED''}"

definition ai_threshold_keys :: "string list" where
  "ai_threshold_keys = [''ai_insight_ttl_hours'', ''ai_llm_provider'']"

definition CONFIDENCE_HIGH_FLOOR :: pyfloat where
  "CONFIDENCE_HIGH_FLOOR = Fin (3152519739159347 / 4503599627370496)"

definition CONFIDENCE_MEDIUM_FLOOR :: pyfloat where
  "CONFIDENCE_MEDIUM_FLOOR = Fin (3602879701896397 / 9007199254740992)"

record ai_context =
  ng_config_version_id :: "string option"
  ng_execution_mode :: string
  ng_execution_type :: string
  ng_correlation_id :: "string option"
  ng_config_rule_set :: "pydict option"
  ng_causation_id :: "string option"
  ng_upstream_intent_id :: "string option"
  ng_idempotency_key :: "string option"
  ng_compliance_hold_flag :: bool
  ng_origin_source :: "string option"
  ng_origin_authority :: "string option"
  ng_actor_identity :: "string option"
  ng_attribution_timestamp :: "string option"
  ng_upstream_correlation_id :: "string option"
  ng_ai_insight_id :: "string option"
  ng_ai_insight_state :: "string option"
  ng_ai_insight_version :: "int option"
  ng_ai_generated_at :: "string option"
  ng_ai_confidence_score :: "pyfloat option"
  ng_ai_prompt_version :: "string option"
  ng_ai_model_used :: "string option"
  ng_ai_finalized_copy :: bool
  ng_ai_risk_summary :: "string option"
  ng_ai_recommended_intervention :: "string option"
  ng_ai_sentiment :: "string option"
  ng_circuit_breaker_state :: string
  ng_historical_config_version_id :: "string option"
  ng_source_artifact_id :: "string option"
  ng_student_id_opaque :: "string option"

record ai_assessment =
  na_ai_governance_tier :: string
  na_advisory_scope :: string
  na_is_replay :: bool
  na_live_inference_suppressed :: bool
  na_replay_ai_source :: "string option"
  na_source_artifact_id :: "string option"
  na_historical_config_version_id :: "string option"
  na_origin_source :: "string option"
  na_origin_authority :: "string option"
  na_actor_identity :: "string option"
  na_attribution_timestamp :: "string option"
  na_upstream_intent_id :: "string option"
  na_upstream_correlation_id :: "string option"
  na_config_version_id :: "string option"
  na_threshold_bindings :: pydict
  na_event_id :: string
  na_correlation_id :: "string option"
  na_causation_id :: "string option"
  na_execution_type :: string
  na_execution_mode :: string
  na_rule_path_taken :: "string list"
  na_assessment_basis :: string
  na_inference_duration_ms :: int
  na_duration_ms :: int
  na_outcome :: string
  na_error_class :: "string option"
  na_confidence_score :: "pyfloat option"
  na_confidence_tier :: string
  na_stale_flag :: bool
  na_stale_for_hours :: pyfloat
  na_insight_age_hours :: pyfloat
  na_ttl_hours_applied :: pyval
  na_degraded :: bool
  na_degradation_cause :: "string option"
  na_fallback_applied :: bool
  na_fallback_type :: "string option"
  na_orchestration_continues :: bool
  na_advisory_sentiment :: "string option"
  na_advisory_risk_summary :: "string option"
  na_advisory_recommended_intervention :: "string option"
  na_advisory_prioritization_signal :: "string option"
  na_eligible_for_snapshot :: bool
  na_eligibility_reason :: "string option"
  na_finalized_copy :: bool
  na_provider :: "string option"
  na_model_identifier :: "string option"
  na_prompt_version :: "string option"
  na_ai_version_number :: "int option"
  na_reason_codes :: "string list"
  na_ai_blocked :: bool
  na_blocking_reason :: "string option"

section \<open>Record factories and log line\<close>

definition unknown_ai_bindings :: pydict where
  "unknown_ai_bindings = map (\<lambda>k. (k, VStr UNKNOWN_V0)) ai_threshold_keys"

text \<open>\<^verbatim>\<open>threshold_bindings.get(K_AI_INSIGHT_TTL_HOURS, UNKNOWN_V0)\<close>\<close>

definition bound_ttl :: "pydict \<Rightarrow> pyval" where
  "bound_ttl bindings =
    (if has_key bindings ''ai_insight_ttl_hours'' then dict_get bindings ''ai_insight_ttl_hours''
     else VStr UNKNOWN_V0)"

definition make_blocked_ai_assessment ::
  "ai_runtime \<Rightarrow> ai_context \<Rightarrow> string list \<Rightarrow> string list \<Rightarrow> pydict \<Rightarrow> string option
   \<Rightarrow> ai_assessment" where
  "make_blocked_ai_assessment rt ctx codes rule_path threshold_bindings blocking_reason =
    \<lparr>na_ai_governance_tier = ''UNAVAILABLE'', na_advisory_scope = ''UNAVAILABLE'',
     na_is_replay = (ng_execution_type ctx \<in> ai_replay_types),
     na_live_inference_suppressed = True, na_replay_ai_source = None,
     na_source_artifact_id = None,
     na_historical_config_version_id = ng_historical_config_version_id ctx,
     na_origin_source = ng_origin_source ctx, na_origin_authority = ng_origin_authority ctx,
     na_actor_identity = ng_actor_identity ctx,
     na_attribution_timestamp = ng_attribution_timestamp ctx,
     na_upstream_intent_id = ng_upstream_intent_id ctx,
     na_upstream_correlation_id = ng_upstream_correlation_id ctx,
     na_config_version_id = ng_config_version_id ctx, na_threshold_bindings = threshold_bindings,
     na_event_id = rt_uuid rt, na_correlation_id = ng_correlation_id ctx,
     na_causation_id = ng_causation_id ctx, na_execution_type = ng_execution_type ctx,
     na_execution_mode = ng_execution_mode ctx, na_rule_path_taken = rule_path,
     na_assessment_basis = ''FALLBACK'', na_inference_duration_ms = 0,
     na_duration_ms = rt_duration_ms rt, na_outcome = ''failure'',
     na_error_class = Some ''GovernancePreconditionError'', na_confidence_score = None,
     na_confidence_tier = ''UNSCORED'', na_stale_flag = False, na_stale_for_hours = Fin 0,
     na_insight_age_hours = Fin 0, na_ttl_hours_applied = VStr UNKNOWN_V0, na_degraded = False,
     na_degradation_cause = None, na_fallback_applied = False, na_fallback_type = None,
     na_orchestration_continues = False, na_advisory_sentiment = None,
     na_advisory_risk_summary = None, na_advisory_recommended_intervention = None,
     na_advisory_prioritization_signal = None, na_eligible_for_snapshot = False,
     na_eligibility_reason = Some ''BLOCKED'', na_finalized_copy = False, na_provider = None,
     na_model_identifier = None, na_prompt_version = None, na_ai_version_number = None,
     na_reason_codes = codes, na_ai_blocked = True, na_blocking_reason = blocking_reason\<rparr>"

definition make_finalized_copy_assessment ::
  "ai_runtime \<Rightarrow> ai_context \<Rightarrow> string list \<Rightarrow> string list \<Rightarrow> ai_assessment" where
  "make_finalized_copy_assessment rt ctx codes rule_path =
    \<lparr>na_ai_governance_tier = ''FINALIZED_COPY'', na_advisory_scope = ''IMMUTABLE'',
     na_is_replay = (ng_execution_type ctx \<in> ai_replay_types),
     na_live_inference_suppressed = True, na_replay_ai_source = Some ''FINALIZED_COPY'',
     na_source_artifact_id = ng_source_artifact_id ctx,
     na_historical_config_version_id = ng_historical_config_version_id ctx,
     na_origin_source = ng_origin_source ctx, na_origin_authority = ng_origin_authority ctx,
     na_actor_identity = ng_actor_identity ctx,
     na_attribution_timestamp = ng_attribution_timestamp ctx,
     na_upstream_intent_id = ng_upstream_intent_id ctx,
     na_upstream_correlation_id = ng_upstream_correlation_id ctx,
     na_config_version_id = ng_config_version_id ctx, na_threshold_bindings = unknown_ai_bindings,
     na_event_id = rt_uuid rt, na_correlation_id = ng_correlation_id ctx,
     na_causation_id = ng_causation_id ctx, na_execution_type = ng_execution_type ctx,
     na_execution_mode = ng_execution_mode ctx, na_rule_path_taken = rule_path,
     na_assessment_basis = ''FINALIZED_COPY'', na_inference_duration_ms = 0,
     na_duration_ms = rt_duration_ms rt, na_outcome = ''success'', na_error_class = None,
     na_confidence_score = ng_ai_confidence_score ctx, na_confidence_tier = ''UNSCORED'',
     na_stale_flag = False, na_stale_for_hours = Fin 0, na_insight_age_hours = Fin 0,
     na_ttl_hours_applied = VStr UNKNOWN_V0, na_degraded = False, na_degradation_cause = None,
     na_fallback_applied = False, na_fallback_type = None, na_orchestration_continues = True,
     na_advisory_sentiment = ng_ai_sentiment ctx,
     na_advisory_risk_summary = ng_ai_risk_summary ctx,
     na_advisory_recommended_intervention = None, na_advisory_prioritization_signal = None,
     na_eligible_for_snapshot = False, na_eligibility_reason = Some ''FINALIZED_COPY_IMMUTABLE'',
     na_finalized_copy = True, na_provider = ng_ai_model_used ctx,
     na_model_identifier = ng_ai_model_used ctx, na_prompt_version = ng_ai_prompt_version ctx,
     na_ai_version_number = ng_ai_insight_version ctx, na_reason_codes = codes,
     na_ai_blocked = False, na_blocking_reason = None\<rparr>"

definition make_replay_ai_assessment ::
  "ai_runtime \<Rightarrow> ai_context \<Rightarrow> string list \<Rightarrow> string list \<Rightarrow> pydict \<Rightarrow> string \<Rightarrow> ai_assessment" where
  "make_replay_ai_assessment rt ctx codes rule_path threshold_bindings replay_ai_source =
    (let source_missing = (replay_ai_source = ''NONE'')
     in \<lparr>na_ai_governance_tier = (if source_missing then ''UNAVAILABLE'' else ''FINALIZED_COPY''),
         na_advisory_scope = (if source_missing then ''UNAVAILABLE'' else ''IMMUTABLE''),
         na_is_replay = True, na_live_inference_suppressed = True,
         na_replay_ai_source = Some replay_ai_source,
         na_source_artifact_id = ng_source_artifact_id ctx,
         na_historical_config_version_id = ng_historical_config_version_id ctx,
         na_origin_source = ng_origin_source ctx, na_origin_authority = ng_origin_authority ctx,
         na_actor_identity = ng_actor_identity ctx,
         na_attribution_timestamp = ng_attribution_timestamp ctx,
         na_upstream_intent_id = ng_upstream_intent_id ctx,
         na_upstream_correlation_id = ng_upstream_correlation_id ctx,
         na_config_version_id = ng_config_version_id ctx,
         na_threshold_bindings = threshold_bindings, na_event_id = rt_uuid rt,
         na_correlation_id = ng_correlation_id ctx, na_causation_id = ng_causation_id ctx,
         na_execution_type = ng_execution_type ctx, na_execution_mode = ng_execution_mode ctx,
         na_rule_path_taken = rule_path, na_assessment_basis = ''HISTORICAL_REPLAY'',
         na_inference_duration_ms = 0, na_duration_ms = rt_duration_ms rt,
         na_outcome = (if source_missing then ''degraded'' else ''success''),
         na_error_class = None, na_confidence_score = None, na_confidence_tier = ''UNSCORED'',
         na_stale_flag = False, na_stale_for_hours = Fin 0, na_insight_age_hours = Fin 0,
         na_ttl_hours_applied = VStr UNKNOWN_V0, na_degraded = source_missing,
         na_degradation_cause = (if source_missing then Some ''REPLAY_AI_SOURCE_MISSING'' else None),
         na_fallback_applied = source_missing,
         na_fallback_type = (if source_missing then Some ''RULE_BASED_ONLY'' else None),
         na_orchestration_continues = True, na_advisory_sentiment = None,
         na_advisory_risk_summary = None, na_advisory_recommended_intervention = None,
         na_advisory_prioritization_signal = None, na_eligible_for_snapshot = False,
         na_eligibility_reason = Some ''REPLAY_CONTEXT_NO_SNAPSHOT_ELIGIBILITY'',
         na_finalized_copy = (\<not> source_missing), na_provider = None,
         na_model_identifier = None, na_prompt_version = None, na_ai_version_number = None,
         na_reason_codes = codes, na_ai_blocked = False, na_blocking_reason = None\<rparr>)"

definition make_unavailable_ai_assessment ::
  "ai_runtime \<Rightarrow> ai_context \<Rightarrow> string list \<Rightarrow> string list \<Rightarrow> pydict \<Rightarrow> string option \<Rightarrow> string
   \<Rightarrow> ai_assessment" where
  "make_unavailable_ai_assessment rt ctx codes rule_path threshold_bindings degradation_cause basis =
    \<lparr>na_ai_governance_tier = ''UNAVAILABLE'', na_advisory_scope = ''UNAVAILABLE'',
     na_is_replay = (ng_execution_type ctx \<in> ai_replay_types),
     na_live_inference_suppressed = True, na_replay_ai_source = None,
     na_source_artifact_id = None,
     na_historical_config_version_id = ng_historical_config_version_id ctx,
     na_origin_source = ng_origin_source ctx, na_origin_authority = ng_origin_authority ctx,
     na_actor_identity = ng_actor_identity ctx,
     na_attribution_timestamp = ng_attribution_timestamp ctx,
     na_upstream_intent_id = ng_upstream_intent_id ctx,
     na_upstream_correlation_id = ng_upstream_correlation_id ctx,
     na_config_version_id = ng_config_version_id ctx, na_threshold_bindings = threshold_bindings,
     na_event_id = rt_uuid rt, na_correlation_id = ng_correlation_id ctx,
     na_causation_id = ng_causation_id ctx, na_execution_type = ng_execution_type ctx,
     na_execution_mode = ng_execution_mode ctx, na_rule_path_taken = rule_path,
     na_assessment_basis = basis, na_inference_duration_ms = 0,
     na_duration_ms = rt_duration_ms rt, na_outcome = ''degraded'', na_error_class = None,
     na_confidence_score = None, na_confidence_tier = ''UNSCORED'', na_stale_flag = False,
     na_stale_for_hours = Fin 0, na_insight_age_hours = Fin 0,
     na_ttl_hours_applied = bound_ttl threshold_bindings, na_degraded = True,
     na_degradation_cause = degradation_cause, na_fallback_applied = True,
     na_fallback_type = Some ''RULE_BASED_ONLY'', na_orchestration_continues = True,
     na_advisory_sentiment = None, na_advisory_risk_summary = None,
     na_advisory_recommended_intervention = None, na_advisory_prioritization_signal = None,
     na_eligible_for_snapshot = False, na_eligibility_reason = Some ''UNAVAILABLE_TIER'',
     na_finalized_copy = False, na_provider = None, na_model_identifier = None,
     na_prompt_version = None, na_ai_version_number = None, na_reason_codes = codes,
     na_ai_blocked = False, na_blocking_reason = None\<rparr>"

definition make_in_flight_assessment ::
  "ai_runtime \<Rightarrow> ai_context \<Rightarrow> string list \<Rightarrow> string list \<Rightarrow> pydict \<Rightarrow> ai_assessment" where
  "make_in_flight_assessment rt ctx codes rule_path threshold_bindings =
    \<lparr>na_ai_governance_tier = ''IN_FLIGHT'', na_advisory_scope = ''DEFERRED'',
     na_is_replay = False, na_live_inference_suppressed = False, na_replay_ai_source = None,
     na_source_artifact_id = None, na_historical_config_version_id = None,
     na_origin_source = ng_origin_source ctx, na_origin_authority = ng_origin_authority ctx,
     na_actor_identity = ng_actor_identity ctx,
     na_attribution_timestamp = ng_attribution_timestamp ctx,
     na_upstream_intent_id = ng_upstream_intent_id ctx,
     na_upstream_correlation_id = ng_upstream_correlation_id ctx,
     na_config_version_id = ng_config_version_id ctx, na_threshold_bindings = threshold_bindings,
     na_event_id = rt_uuid rt, na_correlation_id = ng_correlation_id ctx,
     na_causation_id = ng_causation_id ctx, na_execution_type = ng_execution_type ctx,
     na_execution_mode = ng_execution_mode ctx, na_rule_path_taken = rule_path,
     na_assessment_basis = ''FALLBACK'', na_inference_duration_ms = 0,
     na_duration_ms = rt_duration_ms rt, na_outcome = ''deferred'', na_error_class = None,
     na_confidence_score = None, na_confidence_tier = ''UNSCORED'', na_stale_flag = False,
     na_stale_for_hours = Fin 0, na_insight_age_hours = Fin 0,
     na_ttl_hours_applied = bound_ttl threshold_bindings, na_degraded = False,
     na_degradation_cause = None, na_fallback_applied = False, na_fallback_type = None,
     na_orchestration_continues = True, na_advisory_sentiment = None,
     na_advisory_risk_summary = None, na_advisory_recommended_intervention = None,
     na_advisory_prioritization_signal = None, na_eligible_for_snapshot = False,
     na_eligibility_reason = Some ''IN_FLIGHT_NO_SNAPSHOT'', na_finalized_copy = False,
     na_provider = None, na_model_identifier = None, na_prompt_version = None,
     na_ai_version_number = None, na_reason_codes = codes, na_ai_blocked = False,
     na_blocking_reason = None\<rparr>"

fun opt_score :: "pyfloat option \<Rightarrow> pyval" where
  "opt_score None = VNone"
| "opt_score (Some f) = VFloat f"

definition emit_ai_event_log :: "ai_runtime \<Rightarrow> ai_assessment \<Rightarrow> string option \<Rightarrow> log_line" where
  "emit_ai_event_log rt r student_id_opaque =
    (let level = (if na_degraded r \<or> na_ai_blocked r then ''warning'' else ''info'')
     in LogJson level
      [(''timestamp'', VStr (rt_now_iso rt)), (''level'', VStr level),
       (''service'', VStr ''ai_assessment''),
       (''event'', VStr (if na_ai_blocked r then ''ai_assessment_blocked'' else ''ai_assessment_completed'')),
       (''event_id'', VStr (na_event_id r)),
       (''ai_governance_tier'', VStr (na_ai_governance_tier r)),
       (''advisory_scope'', VStr (na_advisory_scope r)),
       (''assessment_basis'', VStr (na_assessment_basis r)),
       (''execution_mode'', VStr (na_execution_mode r)),
       (''execution_type'', VStr (na_execution_type r)), (''is_replay'', VBool (na_is_replay r)),
       (''live_inference_suppressed'', VBool (na_live_inference_suppressed r)),
       (''replay_ai_source'', opt_val (na_replay_ai_source r)),
       (''correlation_id'', opt_val (na_correlation_id r)),
       (''causation_id'', opt_val (na_causation_id r)),
       (''config_version_id'', opt_val (na_config_version_id r)),
       (''origin_source'', opt_val (na_origin_source r)),
       (''origin_authority'', opt_val (na_origin_authority r)),
       (''confidence_score'', opt_score (na_confidence_score r)),
       (''confidence_tier'', VStr (na_confidence_tier r)),
       (''stale_flag'', VBool (na_stale_flag r)),
       (''stale_for_hours'', VFloat (na_stale_for_hours r)),
       (''degraded'', VBool (na_degraded r)),
       (''degradation_cause'', opt_val (na_degradation_cause r)),
       (''fallback_applied'', VBool (na_fallback_applied r)),
       (''fallback_type'', opt_val (na_fallback_type r)),
       (''orchestration_continues'', VBool (na_orchestration_continues r)),
       (''ai_blocked'', VBool (na_ai_blocked r)),
       (''blocking_reason'', opt_val (na_blocking_reason r)),
       (''rule_path_taken'', str_list (na_rule_path_taken r)),
       (''reason_codes'', str_list (na_reason_codes r)), (''outcome'', VStr (na_outcome r)),
       (''error_class'', opt_val (na_error_class r)),
       (''inference_duration_ms'', VInt (na_inference_duration_ms r)),
       (''duration_ms'', VInt (na_duration_ms r)), (''provider'', opt_val (na_provider r)),
       (''model_identifier'', opt_val (na_model_identifier r)),
       (''student_id_opaque'', opt_val student_id_opaque)])"

section \<open>Gate, thresholds and age\<close>

definition ai_attribution_complete :: "ai_context \<Rightarrow> bool" where
  "ai_attribution_complete ctx \<longleftrightarrow> given (ng_origin_source ctx) \<and> given (ng_origin_authority ctx)
     \<and> given (ng_actor_identity ctx)"

definition ai_precondition_gate :: "string set \<Rightarrow> ai_context \<Rightarrow> string list" where
  "ai_precondition_gate idempotency_keys ctx =
     code_if (ng_execution_mode ctx \<notin> ai_execution_modes) ''EXECUTION_MODE_INVALID''
   @ code_if (ng_execution_type ctx \<notin> ai_execution_types) ''EXECUTION_TYPE_INVALID''
   @ code_if (\<not> given (ng_config_version_id ctx)) ''CONFIG_UNRESOLVED''
   @ code_if (\<not> given (ng_correlation_id ctx)) ''CORRELATION_ID_MISSING''
   @ code_if (\<not> ai_attribution_complete ctx) ''ATTRIBUTION_INCOMPLETE''
   @ code_if (given (ng_idempotency_key ctx) \<and> the (ng_idempotency_key ctx) \<in> idempotency_keys)
       ''IDEMPOTENCY_DUPLICATE''"

definition resolve_ai_thresholds :: "pydict \<Rightarrow> pydict \<times> string list" where
  "resolve_ai_thresholds rule_set =
    (let bound = (\<lambda>k. has_key rule_set k \<and> dict_get rule_set k \<noteq> VStr UNKNOWN_V0)
     in (map (\<lambda>k. (k, if bound k then dict_get rule_set k else VStr UNKNOWN_V0)) ai_threshold_keys,
         filter (\<lambda>k. \<not> bound k) ai_threshold_keys))"

text \<open>\<^verbatim>\<open>max(0.0, x)\<close>\<close>

definition clamp0 :: "pyfloat \<Rightarrow> pyfloat" where
  "clamp0 x = (if fgt x (Fin 0) then x else Fin 0)"

definition compute_insight_age_hours :: "ai_runtime \<Rightarrow> string option \<Rightarrow> pyfloat res" where
  "compute_insight_age_hours rt ai_generated_at =
    (if given ai_generated_at then
       tolerate (Fin 0) (bind_res (rt_age_hours rt (the ai_generated_at)) (\<lambda>h. Inr (clamp0 h)))
     else Inr (Fin 0))"

section \<open>Tier\<close>

text \<open>
  Rule 5, the comparison with the time to live: the hours by which the insight is stale, if it
  is, and the codes appended. A time to live that is no number is skipped with a code.
\<close>

definition stale_check :: "ai_runtime \<Rightarrow> pyfloat \<Rightarrow> pyval \<Rightarrow> (pyfloat option \<times> string list) res" where
  "stale_check rt age ttl_val =
    (if ttl_val \<noteq> VStr UNKNOWN_V0 then
       tolerate (None, [''CONFIG_THRESHOLD_INVALID_AI_INSIGHT_TTL_HOURS''])
         (bind_res (py_float (rt_float_of_text rt) ttl_val) (\<lambda>ttl.
           Inr (if fgt age ttl then (Some (clamp0 (rt_minus rt age ttl)), [''AI_STALE''])
                else (None, []))))
     else Inr (None, []))"

text \<open>Rule 5, the score of a fresh insight: tier, confidence tier, degradation cause.\<close>

definition score_tier :: "pyfloat option \<Rightarrow> string \<times> string \<times> string option" where
  "score_tier score = (case score of
       None \<Rightarrow> (''ADVISORY'', ''UNSCORED'', None)
     | Some f \<Rightarrow>
         if fge f CONFIDENCE_HIGH_FLOOR then (''CONFIDENT'', ''HIGH'', None)
         else if fge f CONFIDENCE_MEDIUM_FLOOR then (''ADVISORY'', ''MEDIUM'', None)
         else (''ADVISORY'', ''LOW'', Some ''CONFIDENCE_COLLAPSE''))"

text \<open>\<^verbatim>\<open>score or 0.0\<close>\<close>

definition score_or_zero :: "pyfloat option \<Rightarrow> pyfloat" where
  "score_or_zero s = (case s of None \<Rightarrow> Fin 0 | Some f \<Rightarrow> if f = Fin 0 then Fin 0 else f)"

section \<open>The assessment\<close>

definition ai_provider_divergence :: "ai_context \<Rightarrow> pydict \<Rightarrow> bool" where
  "ai_provider_divergence ctx bindings =
    (let provider_config_val = (if has_key bindings ''ai_llm_provider''
         then dict_get bindings ''ai_llm_provider'' else VStr UNKNOWN_V0)
     in given (ng_ai_model_used ctx) \<and> provider_config_val \<noteq> VStr UNKNOWN_V0
        \<and> VStr (the (ng_ai_model_used ctx)) \<noteq> provider_config_val)"

text \<open>Rule 10: eligibility for the snapshot and its reason.\<close>

definition snapshot_eligibility :: "ai_context \<Rightarrow> string \<Rightarrow> bool \<Rightarrow> bool \<Rightarrow> bool \<times> string" where
  "snapshot_eligibility ctx tier stale_flag provider_divergence =
    (let eligible = (tier = ''CONFIDENT'' \<and> ng_execution_type ctx = ''original''
           \<and> \<not> ng_ai_finalized_copy ctx \<and> ng_ai_insight_state ctx = Some ''AI_REVIEWED''
           \<and> \<not> stale_flag \<and> \<not> provider_divergence \<and> \<not> ng_compliance_hold_flag ctx)
     in (eligible,
         if eligible then ''CONFIDENT_TIER_FRESH_ORIGINAL_EXECUTION''
         else if tier \<noteq> ''CONFIDENT'' then ''NON_CONFIDENT_TIER_'' @ tier
         else if stale_flag then ''STALE_AI_BLOCKS_SNAPSHOT''
         else if provider_divergence then ''PROVIDER_IDENTITY_DIVERGENCE''
         else if ng_compliance_hold_flag ctx then ''COMPLIANCE_HOLD_BLOCKS_SNAPSHOT''
         else if ng_execution_type ctx \<noteq> ''original'' then ''NON_ORIGINAL_EXECUTION''
         else ''NOT_ELIGIBLE''))"

text \<open>
  Rules 5--11 for a reviewed insight of a live evaluation, given the age of the insight and the
  result of the comparison with the time to live.
\<close>

definition reviewed_assessment ::
  "ai_runtime \<Rightarrow> ai_context \<Rightarrow> pydict \<Rightarrow> string list \<Rightarrow> pyfloat \<Rightarrow> pyfloat option \<Rightarrow> string list
   \<Rightarrow> ai_assessment" where
  "reviewed_assessment rt ctx threshold_bindings missing insight_age_hours stale stale_codes =
    (let missing_codes = map (\<lambda>k. ''CONFIG_THRESHOLD_MISSING_'' @ upper k) missing;
         ttl_val = bound_ttl threshold_bindings;
         stale_flag = (stale \<noteq> None);
         stale_for_hours = (case stale of None \<Rightarrow> Fin 0 | Some h \<Rightarrow> h);
         (tier, confidence_tier_val, collapse) =
           (if stale_flag then (''STALE'', ''UNSCORED'', None)
            else score_tier (ng_ai_confidence_score ctx));
         (advisory_scope, reco, advisory_priority) =
           (if tier = ''CONFIDENT'' then (''FULL'', ng_ai_recommended_intervention ctx,
              Some (if fge (score_or_zero (ng_ai_confidence_score ctx)) CONFIDENCE_HIGH_FLOOR
                    then ''HIGH'' else ''MEDIUM''))
            else if tier \<in> {''ADVISORY'', ''STALE''} then (''LIMITED'', None, None)
            else (''UNAVAILABLE'', None, None));
         blocked_stale = (tier \<in> {''STALE'', ''UNAVAILABLE''} \<and> ng_execution_mode ctx = ''LIVE'');
         advisory_reco = (if blocked_stale then None else reco);
         codes = missing_codes @ stale_codes @ code_if (collapse \<noteq> None) ''CONFIDENCE_COLLAPSE''
           @ code_if blocked_stale ''AI_LIVE_ESCALATION_BLOCKED_STALE_TIER''
     in if ng_circuit_breaker_state ctx = ''OPEN'' then
          make_unavailable_ai_assessment rt ctx (codes @ [''CIRCUIT_BREAKER_OPEN''])
            [''RULE_0'', ''RULE_1'', ''RULE_2'', ''RULE_3'', ''RULE_4'', ''RULE_5'', ''RULE_6'',
             ''RULE_7'', ''RULE_8''] threshold_bindings (Some ''CIRCUIT_OPEN'') ''FALLBACK''
        else
          let provider_divergence = ai_provider_divergence ctx threshold_bindings;
              codes = codes @ code_if provider_divergence ''PROVIDER_IDENTITY_DIVERGENCE'';
              degraded = (collapse \<noteq> None \<or> missing \<noteq> []);
              degradation_cause = (if missing \<noteq> [] \<and> collapse = None
                then Some ''CONFIG_THRESHOLDS_MISSING'' else collapse);
              (eligible_for_snapshot, eligibility_reason) =
                snapshot_eligibility ctx tier stale_flag provider_divergence;
              assessment_basis = (if tier = ''FINALIZED_COPY'' then ''FINALIZED_COPY''
                else if tier \<in> {''CONFIDENT'', ''ADVISORY''} then ''AI_ASSISTED''
                else ''FALLBACK'');
              outcome = (if degraded then ''degraded''
                else if tier \<in> {''CONFIDENT'', ''ADVISORY'', ''STALE''} then ''success''
                else ''degraded'');
              rule_path = [''RULE_0'', ''RULE_1'', ''RULE_2'', ''RULE_3'', ''RULE_4'',
                ''RULE_5'', ''RULE_6'', ''RULE_7'', ''RULE_8'', ''RULE_9'', ''RULE_10'',
                ''RULE_11'']
          in \<lparr>na_ai_governance_tier = tier, na_advisory_scope = advisory_scope,
              na_is_replay = False, na_live_inference_suppressed = False,
              na_replay_ai_source = None, na_source_artifact_id = None,
              na_historical_config_version_id = None, na_origin_source = ng_origin_source ctx,
              na_origin_authority = ng_origin_authority ctx,
              na_actor_identity = ng_actor_identity ctx,
              na_attribution_timestamp = ng_attribution_timestamp ctx,
              na_upstream_intent_id = ng_upstream_intent_id ctx,
              na_upstream_correlation_id = ng_upstream_correlation_id ctx,
              na_config_version_id = ng_config_version_id ctx,
              na_threshold_bindings = threshold_bindings, na_event_id = rt_uuid rt,
              na_correlation_id = ng_correlation_id ctx, na_causation_id = ng_causation_id ctx,
              na_execution_type = ng_execution_type ctx,
              na_execution_mode = ng_execution_mode ctx, na_rule_path_taken = rule_path,
              na_assessment_basis = assessment_basis, na_inference_duration_ms = 0,
              na_duration_ms = rt_duration_ms rt, na_outcome = outcome, na_error_class = None,
              na_confidence_score = ng_ai_confidence_score ctx,
              na_confidence_tier = confidence_tier_val, na_stale_flag = stale_flag,
              na_stale_for_hours = stale_for_hours, na_insight_age_hours = insight_age_hours,
              na_ttl_hours_applied = ttl_val, na_degraded = degraded,
              na_degradation_cause = degradation_cause, na_fallback_applied = degraded,
              na_fallback_type = (if degraded then Some ''RULE_BASED_ONLY'' else None),
              na_orchestration_continues = True, na_advisory_sentiment = ng_ai_sentiment ctx,
              na_advisory_risk_summary = ng_ai_risk_summary ctx,
              na_advisory_recommended_intervention = advisory_reco,
              na_advisory_prioritization_signal = advisory_priority,
              na_eligible_for_snapshot = eligible_for_snapshot,
              na_eligibility_reason = Some eligibility_reason, na_finalized_copy = False,
              na_provider = ng_ai_model_used ctx, na_model_identifier = ng_ai_model_used ctx,
              na_prompt_version = ng_ai_prompt_version ctx,
              na_ai_version_number = ng_ai_insight_version ctx, na_reason_codes = codes,
              na_ai_blocked = False, na_blocking_reason = None\<rparr>)"

definition assess_reviewed ::
  "ai_runtime \<Rightarrow> ai_context \<Rightarrow> pydict \<Rightarrow> string list \<Rightarrow> ai_assessment res" where
  "assess_reviewed rt ctx threshold_bindings missing =
     bind_res (compute_insight_age_hours rt (ng_ai_generated_at ctx)) (\<lambda>insight_age_hours.
     bind_res (stale_check rt insight_age_hours (bound_ttl threshold_bindings))
       (\<lambda>(stale, stale_codes).
     Inr (reviewed_assessment rt ctx threshold_bindings missing insight_age_hours stale
       stale_codes)))"

text \<open>Rules 1--4 and the first check of Rule 5 for a context that passed the gate.\<close>

definition ai_evaluate :: "ai_runtime \<Rightarrow> ai_context \<Rightarrow> ai_assessment res" where
  "ai_evaluate rt ctx =
    (let rule_set = (case ng_config_rule_set ctx of None \<Rightarrow> [] | Some d \<Rightarrow> d);
         (bindings, missing) = resolve_ai_thresholds rule_set;
         missing_codes = map (\<lambda>k. ''CONFIG_THRESHOLD_MISSING_'' @ upper k) missing;
         path4 = [''RULE_0'', ''RULE_1'', ''RULE_2'', ''RULE_3'', ''RULE_4'']
     in if ng_ai_finalized_copy ctx then
          Inr (make_finalized_copy_assessment rt ctx [''AI_FINALIZED_COPY_SERVING'']
            [''RULE_0'', ''RULE_1''])
        else if ng_execution_type ctx \<in> ai_replay_types then
          Inr (make_replay_ai_assessment rt ctx
            ([''REPLAY_MODE_ACTIVE''] @ missing_codes
              @ code_if (\<not> given (ng_source_artifact_id ctx)) ''REPLAY_AI_SOURCE_MISSING'')
            [''RULE_0'', ''RULE_1'', ''RULE_2'', ''RULE_3''] bindings
            (if given (ng_source_artifact_id ctx) then ''FINALIZED_COPY'' else ''NONE''))
        else if ng_ai_insight_state ctx \<in> Some ` ai_in_flight_states then
          Inr (make_in_flight_assessment rt ctx (missing_codes @ [''AI_IN_FLIGHT'']) path4 bindings)
        else if ng_ai_insight_id ctx = None then
          Inr (make_unavailable_ai_assessment rt ctx (missing_codes @ [''AI_INSIGHT_ABSENT'']) path4
            bindings (Some ''PROVIDER_UNAVAILABLE'') ''FALLBACK'')
        else if ng_ai_insight_state ctx \<noteq> Some ''AI_REVIEWED'' then
          Inr (make_unavailable_ai_assessment rt ctx (missing_codes @ [''AI_NOT_REVIEWED''])
            (path4 @ [''RULE_5'']) bindings (Some ''PROVIDER_UNAVAILABLE'') ''FALLBACK'')
        else assess_reviewed rt ctx bindings missing)"

text \<open>Each record that is returned has been logged; an exception that escapes has not.\<close>

definition assess_ai_orchestration ::
  "ai_runtime \<Rightarrow> ai_context \<Rightarrow> store \<Rightarrow> ai_assessment res \<times> store" where
  "assess_ai_orchestration rt ctx s =
    (let gate_codes = ai_precondition_gate (keys s) ctx;
         logged = (\<lambda>r. emit (emit_ai_event_log rt r (ng_student_id_opaque ctx)))
     in if gate_codes \<noteq> [] then
          let r = make_blocked_ai_assessment rt ctx gate_codes [''RULE_0''] [] (Some (hd gate_codes))
          in (Inr r, logged r s)
        else
          let s1 = (if given (ng_idempotency_key ctx) \<and> ng_execution_type ctx = ''original''
                    then register (ng_idempotency_key ctx) s else s)
          in case ai_evaluate rt ctx of
               Inl e \<Rightarrow> (Inl e, s1)
             | Inr r \<Rightarrow> (Inr r, logged r s1))"

section \<open>The service is idempotent\<close>

lemmas ai_records = make_blocked_ai_assessment_def make_finalized_copy_assessment_def
  make_replay_ai_assessment_def make_unavailable_ai_assessment_def make_in_flight_assessment_def

abbreviation ai_serve ::
  "ai_runtime \<times> ai_context \<Rightarrow> store \<Rightarrow> ai_assessment res \<times> store" where
  "ai_serve c s \<equiv> assess_ai_orchestration (fst c) (snd c) s"

definition ai_refused :: "ai_assessment res \<Rightarrow> bool" where
  "ai_refused x = (case x of Inl e \<Rightarrow> False | Inr r \<Rightarrow> na_ai_blocked r)"

lemma reviewed_not_blocked: "\<not> na_ai_blocked (reviewed_assessment rt ctx b ms age st sc)"
  unfolding reviewed_assessment_def Let_def case_prod_unfold
  by (simp add: make_unavailable_ai_assessment_def)

lemma assess_reviewed_not_blocked: "assess_reviewed rt ctx b ms = Inr r \<Longrightarrow> \<not> na_ai_blocked r"
  by (auto simp: assess_reviewed_def bind_res_Inr_iff reviewed_not_blocked)

lemma ai_evaluate_not_blocked: "ai_evaluate rt ctx = Inr r \<Longrightarrow> \<not> na_ai_blocked r"
  by (auto simp: ai_evaluate_def ai_records Let_def case_prod_unfold assess_reviewed_not_blocked
      split: if_split_asm)

lemma ai_refused_iff:
  "ai_refused (fst (assess_ai_orchestration rt ctx s)) \<longleftrightarrow> ai_precondition_gate (keys s) ctx \<noteq> []"
  by (auto simp: assess_ai_orchestration_def Let_def ai_refused_def make_blocked_ai_assessment_def
      ai_evaluate_not_blocked split: sum.split)

lemma ai_keys:
  "keys (snd (assess_ai_orchestration rt ctx s)) =
     (if ai_precondition_gate (keys s) ctx = [] \<and> given (ng_idempotency_key ctx)
         \<and> ng_execution_type ctx = ''original''
      then insert (the (ng_idempotency_key ctx)) (keys s) else keys s)"
  by (auto simp: assess_ai_orchestration_def Let_def given_iff split: sum.split)

lemma ai_events:
  "events (snd (assess_ai_orchestration rt ctx s)) = events s @
     (case fst (assess_ai_orchestration rt ctx s) of Inl e \<Rightarrow> []
      | Inr r \<Rightarrow> [emit_ai_event_log rt r (ng_student_id_opaque ctx)])"
  by (simp add: assess_ai_orchestration_def Let_def split: sum.split)

lemma ai_duplicate_gated:
  "given (ng_idempotency_key ctx) \<Longrightarrow> the (ng_idempotency_key ctx) \<in> ks \<Longrightarrow>
     ai_precondition_gate ks ctx \<noteq> []"
  by (simp add: ai_precondition_gate_def)

interpretation ai_service: strict_idempotent_service ai_serve
  "ng_idempotency_key \<circ> snd" "\<lambda>c. ng_execution_type (snd c) = ''original''" ai_refused
proof unfold_locales
qed (auto simp: ai_keys ai_refused_iff ai_events ai_duplicate_gated)

end
