(* ===== verification/AiInsightsProps.thy ===== *)
theory AiInsightsProps
  imports AiInsights
begin

text \<open>
  What the AI advisory promises: its tier follows a table over the context, only a confident tier
  recommends, an assessment is eligible for a snapshot under exactly the listed conditions, and an
  insight without a readable date is never stale.
\<close>

section \<open>The tier table\<close>

definition ai_rule_set :: "ai_context \<Rightarrow> pydict" where
  "ai_rule_set ctx = (case ng_config_rule_set ctx of None \<Rightarrow> [] | Some d \<Rightarrow> d)"

text \<open>The time to live that applies: the configured one, or the sentinel.\<close>

definition ai_ttl :: "ai_context \<Rightarrow> pyval" where
  "ai_ttl ctx = (if has_key (ai_rule_set ctx) ''ai_insight_ttl_hours''
     then dict_get (ai_rule_set ctx) ''ai_insight_ttl_hours'' else VStr UNKNOWN_V0)"

text \<open>Age and time to live are known and the age exceeds it.\<close>

definition insight_stale :: "ai_runtime \<Rightarrow> ai_context \<Rightarrow> bool" where
  "insight_stale rt ctx \<longleftrightarrow> ai_ttl ctx \<noteq> VStr UNKNOWN_V0
     \<and> (case (compute_insight_age_hours rt (ng_ai_generated_at ctx),
              py_float (rt_float_of_text rt) (ai_ttl ctx)) of
          (Inr age, Inr ttl) \<Rightarrow> fgt age ttl | _ \<Rightarrow> False)"

definition high_score :: "ai_context \<Rightarrow> bool" where
  "high_score ctx \<longleftrightarrow> (case ng_ai_confidence_score ctx of None \<Rightarrow> False
     | Some f \<Rightarrow> fge f CONFIDENCE_HIGH_FLOOR)"

text \<open>A reviewed insight that the provider state lets the advisory use.\<close>

definition usable_insight :: "ai_context \<Rightarrow> bool" where
  "usable_insight ctx \<longleftrightarrow> ng_ai_insight_id ctx \<noteq> None
     \<and> ng_ai_insight_state ctx = Some ''AI_REVIEWED'' \<and> ng_circuit_breaker_state ctx \<noteq> ''OPEN''"

definition tier_table :: "ai_runtime \<Rightarrow> ai_context \<Rightarrow> string" where
  "tier_table rt ctx =
    (if ng_ai_finalized_copy ctx then ''FINALIZED_COPY''
     else if ng_execution_type ctx \<in> ai_replay_types then
       (if given (ng_source_artifact_id ctx) then ''FINALIZED_COPY'' else ''UNAVAILABLE'')
     else if ng_ai_insight_state ctx \<in> Some ` ai_in_flight_states then ''IN_FLIGHT''
     else if \<not> usable_insight ctx then ''UNAVAILABLE''
     else if insight_stale rt ctx then ''STALE''
     else if high_score ctx then ''CONFIDENT'' else ''ADVISORY'')"

definition scope_of_tier :: "string \<Rightarrow> string" where
  "scope_of_tier t = (if t = ''CONFIDENT'' then ''FULL''
     else if t \<in> {''ADVISORY'', ''STALE''} then ''LIMITED''
     else if t = ''FINALIZED_COPY'' then ''IMMUTABLE''
     else if t = ''IN_FLIGHT'' then ''DEFERRED'' else ''UNAVAILABLE'')"

lemma score_tier_simps:
  "fst (score_tier (ng_ai_confidence_score ctx)) =
     (if high_score ctx then ''CONFIDENT'' else ''ADVISORY'')"
  by (simp add: score_tier_def high_score_def split: option.split)

lemma score_tier_not_stale [simp]: "fst (score_tier x) \<noteq> ''STALE''" "fst (score_tier x) \<noteq> ''UNAVAILABLE''"
  by (simp_all add: score_tier_def split: option.split)

text \<open>The parts of an assessment that the tier determines.\<close>

definition follows :: "ai_context \<Rightarrow> string \<Rightarrow> ai_assessment \<Rightarrow> bool" where
  "follows ctx t r \<longleftrightarrow> na_ai_governance_tier r = t \<and> na_advisory_scope r = scope_of_tier t
     \<and> na_advisory_recommended_intervention r =
         (if t = ''CONFIDENT'' then ng_ai_recommended_intervention ctx else None)
     \<and> (na_live_inference_suppressed r \<longleftrightarrow> t \<in> {''UNAVAILABLE'', ''FINALIZED_COPY''})
     \<and> (na_origin_source r, na_origin_authority r, na_actor_identity r) =
         (ng_origin_source ctx, ng_origin_authority ctx, ng_actor_identity ctx)"

lemma factories_follow:
  "follows ctx ''UNAVAILABLE'' (make_blocked_ai_assessment rt ctx cs p b x)"
  "follows ctx ''FINALIZED_COPY'' (make_finalized_copy_assessment rt ctx cs p)"
  "follows ctx ''UNAVAILABLE'' (make_replay_ai_assessment rt ctx cs p b ''NONE'')"
  "follows ctx ''FINALIZED_COPY'' (make_replay_ai_assessment rt ctx cs p b ''FINALIZED_COPY'')"
  "follows ctx ''UNAVAILABLE'' (make_unavailable_ai_assessment rt ctx cs p b d z)"
  "follows ctx ''IN_FLIGHT'' (make_in_flight_assessment rt ctx cs p b)"
  by (simp_all add: follows_def ai_records scope_of_tier_def)

lemma factories_ineligible:
  "\<not> na_eligible_for_snapshot (make_blocked_ai_assessment rt ctx cs p b x)"
  "\<not> na_eligible_for_snapshot (make_finalized_copy_assessment rt ctx cs p)"
  "\<not> na_eligible_for_snapshot (make_replay_ai_assessment rt ctx cs p b y)"
  "\<not> na_eligible_for_snapshot (make_unavailable_ai_assessment rt ctx cs p b d z)"
  "\<not> na_eligible_for_snapshot (make_in_flight_assessment rt ctx cs p b)"
  by (simp_all add: ai_records Let_def)

lemma reviewed_open:
  "ng_circuit_breaker_state ctx = ''OPEN'' \<Longrightarrow>
     follows ctx ''UNAVAILABLE'' (reviewed_assessment rt ctx b ms age st sc)
     \<and> \<not> na_eligible_for_snapshot (reviewed_assessment rt ctx b ms age st sc)"
  by (simp add: reviewed_assessment_def Let_def case_prod_unfold factories_follow
      factories_ineligible)

lemma reviewed_closed:
  fixes rt ctx b ms age st sc
  defines "r \<equiv> reviewed_assessment rt ctx b ms age st sc"
    and "t \<equiv> (if st \<noteq> None then ''STALE'' else if high_score ctx then ''CONFIDENT'' else ''ADVISORY'')"
  assumes "ng_circuit_breaker_state ctx \<noteq> ''OPEN''"
  shows "follows ctx t r" and "na_eligible_for_snapshot r \<longleftrightarrow>
      fst (snapshot_eligibility ctx t (st \<noteq> None) (ai_provider_divergence ctx b))"
  using assms(3) unfolding r_def t_def reviewed_assessment_def Let_def case_prod_unfold
  by (simp_all add: follows_def score_tier_simps scope_of_tier_def)

lemma bound_ttl_resolved: "bound_ttl (fst (resolve_ai_thresholds (ai_rule_set ctx))) = ai_ttl ctx"
  by (simp add: bound_ttl_def resolve_ai_thresholds_def ai_threshold_keys_def ai_ttl_def Let_def)

lemma stale_check_result:
  "stale_check rt age ttl = Inr (st, sc) \<Longrightarrow>
     st \<noteq> None \<longleftrightarrow> ttl \<noteq> VStr UNKNOWN_V0 \<and>
       (case py_float (rt_float_of_text rt) ttl of Inr t \<Rightarrow> fgt age t | _ \<Rightarrow> False)"
  by (cases "py_float (rt_float_of_text rt) ttl")
    (auto simp: stale_check_def tolerate_def split: if_split_asm)

lemma assess_reviewed_Inr:
  assumes "assess_reviewed rt ctx (fst (resolve_ai_thresholds (ai_rule_set ctx))) ms = Inr r"
  obtains age st sc where "r = reviewed_assessment rt ctx
      (fst (resolve_ai_thresholds (ai_rule_set ctx))) ms age st sc"
    and "st \<noteq> None \<longleftrightarrow> insight_stale rt ctx"
proof -
  from assms obtain age st sc
    where age: "compute_insight_age_hours rt (ng_ai_generated_at ctx) = Inr age"
      and st: "stale_check rt age (ai_ttl ctx) = Inr (st, sc)"
      and r: "reviewed_assessment rt ctx (fst (resolve_ai_thresholds (ai_rule_set ctx))) ms age st sc = r"
    by (auto simp: assess_reviewed_def bind_res_Inr_iff bound_ttl_resolved)
  have "st \<noteq> None \<longleftrightarrow> insight_stale rt ctx"
    unfolding stale_check_result [OF st] insight_stale_def age by (simp split: sum.split)
  with r that show thesis by blast
qed

lemma assess_reviewed_Inl: "assess_reviewed rt ctx b ms = Inl e \<Longrightarrow> e \<notin> {ValueError, TypeError}"
  unfolding assess_reviewed_def
  by (auto simp: bind_Inl_iff tolerate_Inl compute_insight_age_hours_def stale_check_def
      split: if_split_asm)

definition ai_missing :: "ai_context \<Rightarrow> string list" where
  "ai_missing ctx = snd (resolve_ai_thresholds (ai_rule_set ctx))"

text \<open>The contexts whose evaluation reaches the rules for a reviewed insight.\<close>

definition reaches_review :: "ai_context \<Rightarrow> bool" where
  "reaches_review ctx \<longleftrightarrow> \<not> ng_ai_finalized_copy ctx \<and> ng_execution_type ctx \<notin> ai_replay_types
     \<and> ng_ai_insight_id ctx \<noteq> None \<and> ng_ai_insight_state ctx = Some ''AI_REVIEWED''"

lemma evaluate_reaches_review:
  "reaches_review ctx \<Longrightarrow> ai_evaluate rt ctx =
     assess_reviewed rt ctx (fst (resolve_ai_thresholds (ai_rule_set ctx))) (ai_missing ctx)"
  by (auto simp: reaches_review_def ai_evaluate_def ai_rule_set_def ai_missing_def
      ai_in_flight_states_def Let_def case_prod_unfold)

lemma evaluate_early:
  assumes "\<not> reaches_review ctx"
  shows "\<exists>r. ai_evaluate rt ctx = Inr r \<and> follows ctx (tier_table rt ctx) r
    \<and> \<not> na_eligible_for_snapshot r"
proof -
  consider "ng_ai_finalized_copy ctx"
    | "\<not> ng_ai_finalized_copy ctx" "ng_execution_type ctx \<in> ai_replay_types"
    | "\<not> ng_ai_finalized_copy ctx" "ng_execution_type ctx \<notin> ai_replay_types"
      "ng_ai_insight_state ctx \<in> Some ` ai_in_flight_states"
    | "\<not> ng_ai_finalized_copy ctx" "ng_execution_type ctx \<notin> ai_replay_types"
      "ng_ai_insight_state ctx \<notin> Some ` ai_in_flight_states" "ng_ai_insight_id ctx = None"
    | "\<not> ng_ai_finalized_copy ctx" "ng_execution_type ctx \<notin> ai_replay_types"
      "ng_ai_insight_state ctx \<notin> Some ` ai_in_flight_states" "ng_ai_insight_id ctx \<noteq> None"
      "ng_ai_insight_state ctx \<noteq> Some ''AI_REVIEWED''"
    using assms unfolding reaches_review_def by blast
  then show ?thesis
    by cases (simp_all add: ai_evaluate_def tier_table_def usable_insight_def factories_follow
      factories_ineligible Let_def case_prod_unfold)
qed

lemma evaluate_review:
  assumes "reaches_review ctx" and "ai_evaluate rt ctx = Inr r"
  shows "follows ctx (tier_table rt ctx) r"
    and "na_eligible_for_snapshot r \<longleftrightarrow> usable_insight ctx
      \<and> fst (snapshot_eligibility ctx (tier_table rt ctx) (insight_stale rt ctx)
          (ai_provider_divergence ctx (fst (resolve_ai_thresholds (ai_rule_set ctx)))))"
proof -
  let ?b = "fst (resolve_ai_thresholds (ai_rule_set ctx))"
  obtain age st sc where r: "r = reviewed_assessment rt ctx ?b (ai_missing ctx) age st sc"
    and st: "st \<noteq> None \<longleftrightarrow> insight_stale rt ctx"
    using assms assess_reviewed_Inr by (metis evaluate_reaches_review)
  have early: "\<not> ng_ai_finalized_copy ctx" "ng_execution_type ctx \<notin> ai_replay_types"
    "ng_ai_insight_state ctx \<notin> Some ` ai_in_flight_states"
    using assms(1) by (auto simp: reaches_review_def ai_in_flight_states_def)
  have usable: "usable_insight ctx \<longleftrightarrow> ng_circuit_breaker_state ctx \<noteq> ''OPEN''"
    using assms(1) by (simp add: reaches_review_def usable_insight_def)
  note closed = reviewed_closed [where ctx = ctx and rt = rt and b = ?b and ms = "ai_missing ctx"
      and age = age and st = st and sc = sc, folded r, unfolded st]
  show "follows ctx (tier_table rt ctx) r"
    using early usable reviewed_open [of ctx rt ?b "ai_missing ctx" age st sc, folded r] closed(1)
    by (cases "ng_circuit_breaker_state ctx = ''OPEN''") (simp_all add: tier_table_def)
  show "na_eligible_for_snapshot r \<longleftrightarrow> usable_insight ctx
      \<and> fst (snapshot_eligibility ctx (tier_table rt ctx) (insight_stale rt ctx)
          (ai_provider_divergence ctx ?b))"
    using early usable reviewed_open [of ctx rt ?b "ai_missing ctx" age st sc, folded r] closed(2)
    by (cases "ng_circuit_breaker_state ctx = ''OPEN''") (simp_all add: tier_table_def)
qed

section \<open>Properties\<close>

text \<open>
  C15. The advisory follows the tier table: an assessment that is returned has the tier of the
  table (UNAVAILABLE when refused), the scope of that tier, a recommendation only in the tier
  CONFIDENT, live inference suppressed exactly in the tiers UNAVAILABLE and FINALIZED_COPY, the
  attribution of its context, and is logged on one line; an exception that escapes is neither a
  \<^verbatim>\<open>ValueError\<close> nor a \<^verbatim>\<open>TypeError\<close> and nothing is logged then.
\<close>

theorem advisory_follows_tier_table:
  "case assess_ai_orchestration rt ctx s of
     (Inl e, s') \<Rightarrow> e \<notin> {ValueError, TypeError} \<and> events s' = events s
   | (Inr r, s') \<Rightarrow>
       (let t = (if ai_precondition_gate (keys s) ctx = [] then tier_table rt ctx else ''UNAVAILABLE'')
        in na_ai_governance_tier r = t \<and> na_advisory_scope r = scope_of_tier t
         \<and> na_advisory_recommended_intervention r =
             (if t = ''CONFIDENT'' then ng_ai_recommended_intervention ctx else None)
         \<and> (na_live_inference_suppressed r \<longleftrightarrow> t \<in> {''UNAVAILABLE'', ''FINALIZED_COPY''})
         \<and> (na_origin_source r, na_origin_authority r, na_actor_identity r) =
             (ng_origin_source ctx, ng_origin_authority ctx, ng_actor_identity ctx)
         \<and> events s' = events s @ [emit_ai_event_log rt r (ng_student_id_opaque ctx)])"
proof (cases "ai_precondition_gate (keys s) ctx = []")
  case False
  then show ?thesis
    using factories_follow(1) [of ctx rt "ai_precondition_gate (keys s) ctx" "[''RULE_0'']" "[]"
        "Some (hd (ai_precondition_gate (keys s) ctx))"]
    by (simp add: assess_ai_orchestration_def Let_def follows_def)
next
  case True
  show ?thesis
  proof (cases "ai_evaluate rt ctx")
    case (Inl e)
    then have "reaches_review ctx" using evaluate_early [of ctx rt] by auto
    with Inl have "e \<notin> {ValueError, TypeError}"
      using assess_reviewed_Inl by (metis evaluate_reaches_review)
    with True Inl show ?thesis by (simp add: assess_ai_orchestration_def Let_def)
  next
    case (Inr r)
    have "follows ctx (tier_table rt ctx) r"
    proof (cases "reaches_review ctx")
      case True
      then show ?thesis using Inr by (rule evaluate_review(1))
    next
      case False
      with Inr show ?thesis using evaluate_early [of ctx rt] by auto
    qed
    with True Inr show ?thesis
      by (simp add: assess_ai_orchestration_def Let_def follows_def)
  qed
qed

text \<open>
  Snapshot eligibility is earned: an assessment is eligible exactly for a call that passed
  the gate, an original execution of a reviewed insight that is not finalized, with the circuit
  not open, fresh, scored high enough, of the configured provider, and without a compliance hold.
\<close>

theorem snapshot_eligible_iff:
  "case fst (assess_ai_orchestration rt ctx s) of
     Inl e \<Rightarrow> e \<notin> {ValueError, TypeError}
   | Inr r \<Rightarrow> na_eligible_for_snapshot r \<longleftrightarrow>
       ai_precondition_gate (keys s) ctx = [] \<and> ng_execution_type ctx = ''original''
     \<and> \<not> ng_ai_finalized_copy ctx \<and> usable_insight ctx \<and> \<not> insight_stale rt ctx
     \<and> high_score ctx \<and> \<not> ng_compliance_hold_flag ctx
     \<and> \<not> ai_provider_divergence ctx (fst (resolve_ai_thresholds (ai_rule_set ctx)))"
proof (cases "ai_precondition_gate (keys s) ctx = []")
  case False
  then show ?thesis by (simp add: assess_ai_orchestration_def Let_def factories_ineligible)
next
  case True
  have run: "fst (assess_ai_orchestration rt ctx s) = ai_evaluate rt ctx"
    using True by (simp add: assess_ai_orchestration_def Let_def split: sum.split)
  show ?thesis
  proof (cases "ai_evaluate rt ctx")
    case (Inl e)
    then have "reaches_review ctx" using evaluate_early [of ctx rt] by auto
    with Inl have "e \<notin> {ValueError, TypeError}"
      using assess_reviewed_Inl by (metis evaluate_reaches_review)
    then show ?thesis by (simp add: run Inl)
  next
    case (Inr r)
    show ?thesis
    proof (cases "reaches_review ctx")
      case False
      then have "\<not> na_eligible_for_snapshot r" using Inr evaluate_early [of ctx rt] by auto
      with False show ?thesis
        by (auto simp: run Inr True reaches_review_def usable_insight_def ai_replay_types_def)
    next
      case review: True
      have original: "ng_execution_type ctx = ''original''"
        using True review by (auto simp: ai_precondition_gate_def reaches_review_def
            ai_execution_types_def ai_replay_types_def)
      have table: "tier_table rt ctx = ''CONFIDENT'' \<longleftrightarrow>
          usable_insight ctx \<and> \<not> insight_stale rt ctx \<and> high_score ctx"
        using review by (auto simp: tier_table_def reaches_review_def ai_in_flight_states_def)
      show ?thesis
        using evaluate_review(2) [OF review Inr] review original
        by (auto simp: run Inr True snapshot_eligibility_def table reaches_review_def)
    qed
  qed
qed

text \<open>
  An insight without a readable date is never stale: when the generation timestamp is missing
  or cannot be parsed, its age is taken as zero hours, so under any non-negative time to live a
  reviewed insight with a high score is served as CONFIDENT, with its recommendation, however old
  it is.
\<close>

theorem undated_insight_confident:
  assumes "ai_precondition_gate (keys s) ctx = []" and "reaches_review ctx"
    and "usable_insight ctx" and "high_score ctx"
    and "\<not> given (ng_ai_generated_at ctx)
       \<or> rt_age_hours rt (the (ng_ai_generated_at ctx)) \<in> {Inl ValueError, Inl TypeError}"
    and "ai_ttl ctx = VFloat (Fin q)" and "0 \<le> q"
  shows "\<exists>r. fst (assess_ai_orchestration rt ctx s) = Inr r
    \<and> na_ai_governance_tier r = ''CONFIDENT''
    \<and> na_advisory_recommended_intervention r = ng_ai_recommended_intervention ctx"
proof -
  have age: "compute_insight_age_hours rt (ng_ai_generated_at ctx) = Inr (Fin 0)"
    using assms(5) by (auto simp: compute_insight_age_hours_def)
  have ttl: "bound_ttl (fst (resolve_ai_thresholds (ai_rule_set ctx))) = VFloat (Fin q)"
    by (simp add: bound_ttl_resolved assms(6))
  have "stale_check rt (Fin 0) (VFloat (Fin q)) = Inr (None, [])"
    using assms(7) by (simp add: stale_check_def)
  then obtain r where r: "ai_evaluate rt ctx = Inr r"
    by (simp add: evaluate_reaches_review [OF assms(2)] assess_reviewed_def age ttl)
  have "\<not> insight_stale rt ctx" using assms(7) by (simp add: insight_stale_def age assms(6))
  then have "tier_table rt ctx = ''CONFIDENT''"
    using assms(2-4) by (auto simp: tier_table_def reaches_review_def ai_in_flight_states_def)
  with evaluate_review(1) [OF assms(2) r] r assms(1) show ?thesis
    by (simp add: assess_ai_orchestration_def Let_def follows_def)
qed

definition sample_ai_runtime :: ai_runtime where
  "sample_ai_runtime = runtime.extend (sample_runtime 1) \<lparr>rt_minus = (\<lambda>a b. Fin 0)\<rparr>"

definition sample_insight :: ai_context where
  "sample_insight = \<lparr>ng_config_version_id = Some ''v1'', ng_execution_mode = ''LIVE'',
     ng_execution_type = ''original'', ng_correlation_id = Some ''c-1'',
     ng_config_rule_set = Some [(''ai_insight_ttl_hours'', VFloat (Fin 24))],
     ng_causation_id = None, ng_upstream_intent_id = None, ng_idempotency_key = Some ''k-1'',
     ng_compliance_hold_flag = False, ng_origin_source = Some ''runtime'',
     ng_origin_authority = Some ''system'', ng_actor_identity = Some ''worker'',
     ng_attribution_timestamp = None, ng_upstream_correlation_id = None,
     ng_ai_insight_id = Some ''i-1'', ng_ai_insight_state = Some ''AI_REVIEWED'',
     ng_ai_insight_version = Some 1, ng_ai_generated_at = Some ''not a date'',
     ng_ai_confidence_score = Some (Fin (9 / 10)), ng_ai_prompt_version = None,
     ng_ai_model_used = Some ''gpt'', ng_ai_finalized_copy = False, ng_ai_risk_summary = None,
     ng_ai_recommended_intervention = Some ''MEETING'', ng_ai_sentiment = None,
     ng_circuit_breaker_state = ''CLOSED'', ng_historical_config_version_id = None,
     ng_source_artifact_id = None, ng_student_id_opaque = Some ''s-1''\<rparr>"

theorem undated_insight_confident_witness:
  "\<exists>r. fst (assess_ai_orchestration sample_ai_runtime sample_insight empty_store) = Inr r
    \<and> na_ai_governance_tier r = ''CONFIDENT''
    \<and> na_advisory_recommended_intervention r = ng_ai_recommended_intervention sample_insight"
proof (rule undated_insight_confident [where q = 24])
  show "ai_precondition_gate (keys empty_store) sample_insight = []" by code_simp
  show "reaches_review sample_insight" by code_simp
  show "usable_insight sample_insight" by code_simp
  show "high_score sample_insight" by code_simp
  show "\<not> given (ng_ai_generated_at sample_insight)
      \<or> rt_age_hours sample_ai_runtime (the (ng_ai_generated_at sample_insight))
          \<in> {Inl ValueError, Inl TypeError}"
    by (simp add: sample_ai_runtime_def sample_runtime_def runtime.defs)
  show "ai_ttl sample_insight = VFloat (Fin 24)"
    by (simp add: ai_ttl_def ai_rule_set_def sample_insight_def)
qed simp

end
