(* ===== verification/InsightCache.thy ===== *)
theory InsightCache
  imports CaseActions
begin

text \<open>
  On-demand insight generation, \<^verbatim>\<open>get_or_generate\<close> and
  \<^verbatim>\<open>_serialize_insight\<close> of \<^verbatim>\<open>app/services/ai_insights.py\<close>, over an
  explicit table of insights. An instant is a number of microseconds. \<open>insight_env\<close> holds what one
  call reads: the clock, the row time and identifier the database assigns, the new correlation
  identifier, the settings, the language model (a parameter: the text it returns, if any, or the
  name of the exception it raises), \<^verbatim>\<open>str\<close> of a field value and the ISO text of an
  instant. The em dash of the placeholder text is written as its three UTF-8 bytes. Of rows with the same creation time, whose order the query leaves open, the newest is
  taken.
\<close>

section \<open>Rows and environment\<close>

record cached_insight =
  ci_id :: int
  ci_user_id :: int
  ci_insight_type :: string
  ci_content_text :: "string option"
  ci_model_used :: "string option"
  ci_is_finalized :: bool
  ci_correlation_id :: "string option"
  ci_execution_mode :: string
  ci_execution_type :: string
  ci_governance_scope :: string
  ci_origin_source :: "string option"
  ci_origin_authority :: "string option"
  ci_is_replay :: bool
  ci_created_at :: int
  ci_expires_at :: "int option"

record insight_env =
  ie_now :: int
  ie_row_time :: int
  ie_row_id :: int
  ie_correlation_id :: string
  ie_mode :: execution_mode
  ie_api_key :: string
  ie_llm_model :: string
  ie_llm :: "string \<Rightarrow> string + string option"
  ie_show :: "pyval \<Rightarrow> string"
  ie_iso :: "int \<Rightarrow> string"

definition INSIGHT_TTL :: int where
  "INSIGHT_TTL = 24 * 3600 * 1000000"

section \<open>Prompt\<close>

definition context_fields :: "string list" where
  "context_fields = [''PathName'', ''AttendancePercentage'', ''LastLoginDays'', ''ActiveStatus'',
     ''StatusI'', ''StatusII'', ''Past10DaysLogon'']"

definition context_text :: "(pyval \<Rightarrow> string) \<Rightarrow> pydict \<Rightarrow> string" where
  "context_text sh student =
    (let parts = map (\<lambda>k. k @ ''='' @ sh (dict_get student k))
           (filter (\<lambda>k. dict_get student k \<noteq> VNone) context_fields);
         text = join ''; '' parts
     in if text \<noteq> [] then text else ''no context available'')"

text \<open>The prompt of a type: the text around the context.\<close>

definition insight_prompts :: "(string \<times> string \<times> string) list" where
  "insight_prompts =
    [(''OUTREACH_DRAFT'',
      ''Draft a concise, professional outreach message for a student at risk. Student context (no PII): '',
      ''. Keep under 150 words.''),
     (''INTERVENTION'',
      ''Recommend an intervention strategy for a student showing these risk signals: '',
      ''. Be specific and actionable.''),
     (''RISK_EXPLANATION'',
      ''Explain in plain language why this student is flagged as at-risk based on: '',
      ''. Use 2-3 sentences.''),
     (''INTERVIEW_COACHING'',
      ''Provide 3 targeted interview coaching tips for a student with this profile: '', ''.'')]"

definition insight_prompt :: "string \<Rightarrow> string \<Rightarrow> string" where
  "insight_prompt insight_type context =
    (case map_of insight_prompts insight_type of
       None \<Rightarrow> ''Assess this student: '' @ context @ ''.''
     | Some (before, after) \<Rightarrow> before @ context @ after)"

section \<open>Generation\<close>

text \<open>The text and the model of a new insight.\<close>

definition generate_content :: "insight_env \<Rightarrow> string \<Rightarrow> pydict \<Rightarrow> string \<times> string option" where
  "generate_content env insight_type student =
    (if ie_api_key env = [] then
       (''[AI advisory: '' @ insight_type @ '' '' @ [char_of (226 :: nat), char_of (128 :: nat), char_of (148 :: nat)]
        @ '' LLM_API_KEY not configured. Shadow mode: governance assessment only.]'', None)
     else case ie_llm env (insight_prompt insight_type (context_text (ie_show env) student)) of
         Inl exception \<Rightarrow> (''[AI generation failed: '' @ exception @ '']'', None)
       | Inr content \<Rightarrow> ((case content of None \<Rightarrow> [] | Some t \<Rightarrow> t), Some (ie_llm_model env)))"

definition generate_insight :: "insight_env \<Rightarrow> int \<Rightarrow> string \<Rightarrow> pydict \<Rightarrow> cached_insight" where
  "generate_insight env user_id insight_type student =
    (let (content_text, model_used) = generate_content env insight_type student;
         mode = str_of_mode (ie_mode env);
         scope = (if mode = ''REPLAY'' then ''REPLAY_ONLY'' else ''SHADOW_ONLY'')
     in \<lparr>ci_id = ie_row_id env, ci_user_id = user_id, ci_insight_type = insight_type,
         ci_content_text = Some content_text, ci_model_used = model_used,
         ci_is_finalized = False, ci_correlation_id = Some (ie_correlation_id env),
         ci_execution_mode = mode, ci_execution_type = ''original'',
         ci_governance_scope = scope, ci_origin_source = Some ''get_or_generate'',
         ci_origin_authority = Some ''ai_insights_service'', ci_is_replay = (mode = ''REPLAY''),
         ci_created_at = ie_row_time env, ci_expires_at = Some (ie_now env + INSIGHT_TTL)\<rparr>)"

text \<open>\<^verbatim>\<open>order_by(created_at.desc()).limit(1)\<close> over the rows of the student and type.\<close>

fun newest :: "cached_insight list \<Rightarrow> cached_insight option" where
  "newest [] = None"
| "newest (r # rs) = (case newest rs of None \<Rightarrow> Some r
     | Some x \<Rightarrow> if ci_created_at r > ci_created_at x then Some r else Some x)"

definition latest_insight :: "int \<Rightarrow> string \<Rightarrow> cached_insight list \<Rightarrow> cached_insight option" where
  "latest_insight user_id insight_type rows =
     newest (filter (\<lambda>r. ci_user_id r = user_id \<and> ci_insight_type r = insight_type) rows)"

record insight_view =
  iv_id :: int
  iv_user_id :: int
  iv_insight_type :: string
  iv_content :: "string option"
  iv_model :: "string option"
  iv_created_at :: "string option"
  iv_expires_at :: "string option"
  iv_is_finalized :: bool
  iv_execution_mode :: string
  iv_governance_scope :: string
  iv_correlation_id :: "string option"

definition serialize_insight :: "(int \<Rightarrow> string) \<Rightarrow> cached_insight \<Rightarrow> insight_view" where
  "serialize_insight fmt r =
    \<lparr>iv_id = ci_id r, iv_user_id = ci_user_id r, iv_insight_type = ci_insight_type r,
     iv_content = ci_content_text r, iv_model = ci_model_used r,
     iv_created_at = Some (fmt (ci_created_at r)),
     iv_expires_at = map_option fmt (ci_expires_at r), iv_is_finalized = ci_is_finalized r,
     iv_execution_mode = ci_execution_mode r, iv_governance_scope = ci_governance_scope r,
     iv_correlation_id = ci_correlation_id r\<rparr>"

definition servable :: "int \<Rightarrow> cached_insight \<Rightarrow> bool" where
  "servable now r \<longleftrightarrow> \<not> ci_is_finalized r
     \<and> \<not> (case ci_expires_at r of None \<Rightarrow> False | Some e \<Rightarrow> e < now)"

definition get_or_generate ::
  "insight_env \<Rightarrow> int \<Rightarrow> string \<Rightarrow> pydict \<Rightarrow> cached_insight list
   \<Rightarrow> insight_view \<times> cached_insight list" where
  "get_or_generate env user_id insight_type student rows =
    (case latest_insight user_id insight_type rows of
       Some r \<Rightarrow>
         if servable (ie_now env) r then (serialize_insight (ie_iso env) r, rows)
         else let n = generate_insight env user_id insight_type student
              in (serialize_insight (ie_iso env) n, rows @ [n])
     | None \<Rightarrow>
         let n = generate_insight env user_id insight_type student
         in (serialize_insight (ie_iso env) n, rows @ [n]))"

end
