(* ===== verification/InsightCacheProps.thy ===== *)
theory InsightCacheProps
  imports InsightCache
begin

text \<open>
  What on-demand generation promises: the table only grows, an unfinalized insight is served
  unchanged until it expires, and a finalized one is never served but superseded.
\<close>

lemma newest_None [simp]: "newest rs = None \<longleftrightarrow> rs = []"
  by (cases rs) (simp_all split: option.split)

lemma newest_mem: "newest rs = Some x \<Longrightarrow> x \<in> set rs"
  by (induction rs arbitrary: x) (auto split: option.splits if_split_asm)

lemma newest_append:
  assumes "\<forall>r \<in> set rs. ci_created_at r \<le> ci_created_at n"
  shows "newest (rs @ [n]) = Some n"
  using assms by (induction rs) auto

lemma latest_after_generate:
  assumes "\<forall>r \<in> set rows. ci_created_at r \<le> ie_row_time env"
  shows "latest_insight u t (rows @ [generate_insight env u t student]) =
    Some (generate_insight env u t student)"
  using assms
  by (simp add: latest_insight_def generate_insight_def Let_def case_prod_unfold newest_append)

lemma generated_servable:
  "now \<le> ie_now env + INSIGHT_TTL \<Longrightarrow> servable now (generate_insight env u t student)"
  by (simp add: servable_def generate_insight_def Let_def case_prod_unfold)

lemma get_servable:
  "latest_insight u t rows = Some r \<Longrightarrow> servable (ie_now env) r \<Longrightarrow>
     get_or_generate env u t student rows = (serialize_insight (ie_iso env) r, rows)"
  by (simp add: get_or_generate_def)

lemma get_unservable:
  "(\<And>r. latest_insight u t rows = Some r \<Longrightarrow> \<not> servable (ie_now env) r) \<Longrightarrow>
     get_or_generate env u t student rows =
       (serialize_insight (ie_iso env) (generate_insight env u t student),
        rows @ [generate_insight env u t student])"
  by (simp add: get_or_generate_def Let_def split: option.split)

text \<open>A clock that does not run backwards over a sequence of calls.\<close>

type_synonym insight_call = "insight_env \<times> pydict"

fun get_all ::
  "int \<Rightarrow> string \<Rightarrow> insight_call list \<Rightarrow> cached_insight list \<Rightarrow> insight_view list \<times> cached_insight list"
where
  "get_all u t [] rows = ([], rows)"
| "get_all u t (c # cs) rows =
    (let (v, rows1) = get_or_generate (fst c) u t (snd c) rows; (vs, rows2) = get_all u t cs rows1
     in (v # vs, rows2))"

lemma get_all_served:
  assumes "latest_insight u t rows = Some r"
    and "\<forall>c \<in> set cs. servable (ie_now (fst c)) r"
  shows "get_all u t cs rows = (map (\<lambda>c. serialize_insight (ie_iso (fst c)) r) cs, rows)"
  using assms by (induction cs) (simp_all add: get_servable)

text \<open>
  The language model is asked at most once per day: after a call that generated an insight,
  every later call for the same student and type within the 24 hours returns that insight and
  leaves the table as it is, whatever the student's data are by then.
\<close>

theorem generated_once_per_ttl:
  assumes "\<forall>r \<in> set rows. ci_created_at r \<le> ie_row_time env"
    and "\<And>r. latest_insight u t rows = Some r \<Longrightarrow> \<not> servable (ie_now env) r"
    and "\<forall>c \<in> set cs. ie_now (fst c) \<le> ie_now env + INSIGHT_TTL"
  shows "get_all u t ((env, student) # cs) rows =
    (let n = generate_insight env u t student
     in (map (\<lambda>c. serialize_insight (ie_iso (fst c)) n) ((env, student) # cs), rows @ [n]))"
proof -
  let ?n = "generate_insight env u t student"
  have "get_all u t cs (rows @ [?n]) =
      (map (\<lambda>c. serialize_insight (ie_iso (fst c)) ?n) cs, rows @ [?n])"
    by (rule get_all_served [OF latest_after_generate [OF assms(1)]])
      (use assms(3) in \<open>auto intro: generated_servable\<close>)
  then show ?thesis by (simp add: get_unservable [OF assms(2)] Let_def)
qed

definition sample_insight_env :: "int \<Rightarrow> insight_env" where
  "sample_insight_env n = \<lparr>ie_now = n, ie_row_time = n, ie_row_id = n, ie_correlation_id = ''c'',
     ie_mode = SHADOW, ie_api_key = ''k'', ie_llm_model = ''m'',
     ie_llm = (\<lambda>prompt. Inr (Some prompt)), ie_show = (\<lambda>v. ''?''), ie_iso = show_int\<rparr>"

theorem generated_once_per_ttl_witness:
  "get_all 7 ''INTERVENTION'' [(sample_insight_env 10, [] :: pydict), (sample_insight_env 20, [])] [] =
    (let n = generate_insight (sample_insight_env 10) 7 ''INTERVENTION'' []
     in (map (\<lambda>c. serialize_insight (ie_iso (fst c)) n)
           [(sample_insight_env 10, [] :: pydict), (sample_insight_env 20, [])], [] @ [n]))"
  by (rule generated_once_per_ttl)
    (simp_all add: latest_insight_def sample_insight_env_def INSIGHT_TTL_def)

text \<open>
  A finalized insight is never served: when the latest insight of a student and type is
  finalized, the endpoint generates and stores another one that is not finalized and returns it,
  and from then on the later calls of the day get the replacement; the finalized row stays in the
  table.
\<close>

theorem finalized_insight_superseded:
  assumes "latest_insight u t rows = Some r" and "ci_is_finalized r"
    and "\<forall>r \<in> set rows. ci_created_at r \<le> ie_row_time env"
    and "\<forall>c \<in> set cs. ie_now (fst c) \<le> ie_now env + INSIGHT_TTL"
  shows "\<exists>n. \<not> ci_is_finalized n \<and> r \<in> set rows
    \<and> get_all u t ((env, student) # cs) rows =
        (map (\<lambda>c. serialize_insight (ie_iso (fst c)) n) ((env, student) # cs), rows @ [n])"
proof -
  let ?n = "generate_insight env u t student"
  have "get_or_generate env u t student rows = (serialize_insight (ie_iso env) ?n, rows @ [?n])"
    by (rule get_unservable) (use assms(1,2) in \<open>simp add: servable_def\<close>)
  moreover have "get_all u t cs (rows @ [?n]) =
      (map (\<lambda>c. serialize_insight (ie_iso (fst c)) ?n) cs, rows @ [?n])"
    by (rule get_all_served [OF latest_after_generate [OF assms(3)]])
      (use assms(4) in \<open>auto intro: generated_servable\<close>)
  moreover have "r \<in> set rows"
    using newest_mem assms(1) unfolding latest_insight_def by fastforce
  moreover have "\<not> ci_is_finalized ?n"
    by (simp add: generate_insight_def Let_def case_prod_unfold)
  ultimately show ?thesis by (intro exI [of _ ?n]) simp
qed

definition sample_finalized :: cached_insight where
  "sample_finalized = (generate_insight (sample_insight_env 10) 7 ''INTERVENTION'' [])
     \<lparr>ci_is_finalized := True\<rparr>"

theorem finalized_insight_superseded_witness:
  "\<exists>n. \<not> ci_is_finalized n \<and> sample_finalized \<in> set [sample_finalized]
    \<and> get_all 7 ''INTERVENTION'' [(sample_insight_env 20, [] :: pydict)] [sample_finalized] =
        (map (\<lambda>c. serialize_insight (ie_iso (fst c)) n) [(sample_insight_env 20, [] :: pydict)],
         [sample_finalized] @ [n])"
  by (rule finalized_insight_superseded)
    (simp_all add: latest_insight_def sample_finalized_def sample_insight_env_def
      generate_insight_def Let_def case_prod_unfold)

end
