(* ===== verification/Timeline.thy ===== *)
theory Timeline
  imports IdempotentService "HOL-Library.List_Lexorder" "HOL-Library.Char_ord"
begin

text \<open>
  The timeline lineage service, \<^verbatim>\<open>app/services/_timeline_types.py\<close>,
  \<^verbatim>\<open>_timeline_helpers.py\<close> and \<^verbatim>\<open>timeline.py\<close>: context and record,
  the gate with the key set, event type and authority, the four record factories, the log line,
  Rules 0--12, and the operational timeline of a student, which merges the rows of six tables and
  sorts them newest first. The service is an instance of \<open>strict_idempotent_service\<close>.
\<close>

section \<open>Input and output\<close>

definition timeline_execution_modes :: "string set" where
  "timeline_execution_modes = {''SHADOW'', ''LIVE''}"

definition timeline_execution_types :: "string set" where
  "timeline_execution_types = {''original'', ''replay'', ''regeneration'', ''recovery''}"

definition timeline_replay_types :: "string set" where
  "timeline_replay_types = {''replay'', ''regeneration''}"

definition sql_server_origins :: "string set" where
  "sql_server_origins = {''mirrored_sql_server''}"

definition source_event_type_map :: "(string \<times> string) list" where
  "source_event_type_map =
    [(''outreach_history'', ''ORCHESTRATION''), (''state_transition_log'', ''STATE_CHANGE''),
     (''student_notes'', ''NOTE''), (''ai_insights'', ''AI_LIFECYCLE''),
     (''ghl_messages'', ''COMMUNICATION''), (''student_campaign_activity'', ''COMMUNICATION''),
     (''student_quick_action_log'', ''GOVERNANCE_TRANSITION''),
     (''snapshot_lifecycle_log'', ''SNAPSHOT_LIFECYCLE''),
     (''report_lifecycle_log'', ''GOVERNANCE_TRANSITION''),
     (''config_version_registry'', ''CONFIG_TRANSITION''),
     (''compliance_audit'', ''COMPLIANCE_LIFECYCLE''),
     (''orchestration_coordinator'', ''ORCHESTRATION'')]"

definition timeline_threshold_keys :: "string list" where
  "timeline_threshold_keys =
    [''timeline_max_events_per_student'', ''timeline_retention_days'',
     ''timeline_replay_window_days'']"

record timeline_context =
  ti_config_version_id :: "string option"
  ti_execution_mode :: string
  ti_execution_type :: string
  ti_correlation_id :: "string option"
  ti_config_rule_set :: "pydict option"
  ti_causation_id :: "string option"
  ti_orchestration_cycle_id :: "string option"
  ti_idempotency_key :: "string option"
  ti_maintenance_mode_active :: bool
  ti_origin_source :: "string option"
  ti_origin_authority :: "string option"
  ti_actor_identity :: "string option"
  ti_attribution_timestamp :: "string option"
  ti_upstream_correlation_id :: "string option"
  ti_event_type_hint :: "string option"
  ti_raw_event_source :: "string option"
  ti_execution_state_before :: "string option"
  ti_execution_state_after :: "string option"
  ti_finalized_lineage_detected :: bool
  ti_source_artifact_id :: "string option"
  ti_historical_config_version_id :: "string option"
  ti_student_id_opaque :: "string option"

record timeline_record =
  to_governance_scope :: string
  to_event_type :: "string option"
  to_lineage_visibility :: string
  to_is_replay :: bool
  to_live_effects_suppressed :: bool
  to_origin_source :: "string option"
  to_origin_authority :: "string option"
  to_actor_identity :: "string option"
  to_attribution_timestamp :: "string option"
  to_upstream_correlation_id :: "string option"
  to_authoritative_source :: string
  to_config_version_id :: "string option"
  to_historical_config_version_id :: "string option"
  to_threshold_bindings :: pydict
  to_event_id :: string
  to_correlation_id :: "string option"
  to_causation_id :: "string option"
  to_orchestration_cycle_id :: "string option"
  to_execution_type :: string
  to_execution_mode :: string
  to_rule_path_taken :: "string list"
  to_duration_ms :: int
  to_outcome :: string
  to_error_class :: "string option"
  to_execution_state_before :: "string option"
  to_execution_state_after :: "string option"
  to_causation_chain_preserved :: bool
  to_append_only_enforced :: bool
  to_finalized_lineage_protected :: bool
  to_replay_lineage_preserved :: bool
  to_sql_server_authority_preserved :: bool
  to_lineage_emit_authorized :: bool
  to_degraded :: bool
  to_degradation_flags :: "string list"
  to_degradation_cause :: "string option"
  to_reason_codes :: "string list"
  to_orchestration_blocked :: bool
  to_blocking_reason :: "string option"
  to_orchestration_continues :: bool

section \<open>Record factories and log line\<close>

definition unknown_timeline_bindings :: pydict where
  "unknown_timeline_bindings = map (\<lambda>k. (k, VStr UNKNOWN_V0)) timeline_threshold_keys"

definition make_blocked_lineage_record ::
  "runtime \<Rightarrow> timeline_context \<Rightarrow> string list \<Rightarrow> string list \<Rightarrow> pydict \<Rightarrow> string option
   \<Rightarrow> timeline_record" where
  "make_blocked_lineage_record rt ctx codes rule_path threshold_bindings blocking_reason =
    \<lparr>to_governance_scope = ''UNAVAILABLE'', to_event_type = None,
     to_lineage_visibility = ''SHADOW_VISIBLE'',
     to_is_replay = (ti_execution_type ctx \<in> timeline_replay_types),
     to_live_effects_suppressed = True, to_origin_source = ti_origin_source ctx,
     to_origin_authority = ti_origin_authority ctx, to_actor_identity = ti_actor_identity ctx,
     to_attribution_timestamp = ti_attribution_timestamp ctx,
     to_upstream_correlation_id = ti_upstream_correlation_id ctx,
     to_authoritative_source = ''system_automated'',
     to_config_version_id = ti_config_version_id ctx,
     to_historical_config_version_id = ti_historical_config_version_id ctx,
     to_threshold_bindings = threshold_bindings, to_event_id = rt_uuid rt,
     to_correlation_id = ti_correlation_id ctx, to_causation_id = ti_causation_id ctx,
     to_orchestration_cycle_id = ti_orchestration_cycle_id ctx,
     to_execution_type = ti_execution_type ctx, to_execution_mode = ti_execution_mode ctx,
     to_rule_path_taken = rule_path, to_duration_ms = rt_duration_ms rt, to_outcome = ''failure'',
     to_error_class = Some ''GovernancePreconditionError'',
     to_execution_state_before = ti_execution_state_before ctx,
     to_execution_state_after = ti_execution_state_after ctx,
     to_causation_chain_preserved = given (ti_causation_id ctx), to_append_only_enforced = True,
     to_finalized_lineage_protected = True, to_replay_lineage_preserved = True,
     to_sql_server_authority_preserved = True, to_lineage_emit_authorized = False,
     to_degraded = False, to_degradation_flags = [], to_degradation_cause = None,
     to_reason_codes = codes, to_orchestration_blocked = True,
     to_blocking_reason = blocking_reason, to_orchestration_continues = False\<rparr>"

definition make_maintenance_lineage_record ::
  "runtime \<Rightarrow> timeline_context \<Rightarrow> string list \<Rightarrow> string list \<Rightarrow> timeline_record" where
  "make_maintenance_lineage_record rt ctx codes rule_path =
    \<lparr>to_governance_scope = ''MAINTENANCE'', to_event_type = None,
     to_lineage_visibility = ''SHADOW_VISIBLE'', to_is_replay = False,
     to_live_effects_suppressed = True, to_origin_source = ti_origin_source ctx,
     to_origin_authority = ti_origin_authority ctx, to_actor_identity = ti_actor_identity ctx,
     to_attribution_timestamp = ti_attribution_timestamp ctx,
     to_upstream_correlation_id = ti_upstream_correlation_id ctx,
     to_authoritative_source = ''system_automated'',
     to_config_version_id = ti_config_version_id ctx, to_historical_config_version_id = None,
     to_threshold_bindings = unknown_timeline_bindings, to_event_id = rt_uuid rt,
     to_correlation_id = ti_correlation_id ctx, to_causation_id = ti_causation_id ctx,
     to_orchestration_cycle_id = ti_orchestration_cycle_id ctx,
     to_execution_type = ti_execution_type ctx, to_execution_mode = ti_execution_mode ctx,
     to_rule_path_taken = rule_path, to_duration_ms = rt_duration_ms rt, to_outcome = ''success'',
     to_error_class = None, to_execution_state_before = ti_execution_state_before ctx,
     to_execution_state_after = ti_execution_state_after ctx,
     to_causation_chain_preserved = given (ti_causation_id ctx), to_append_only_enforced = True,
     to_finalized_lineage_protected = True, to_replay_lineage_preserved = True,
     to_sql_server_authority_preserved = True, to_lineage_emit_authorized = False,
     to_degraded = False, to_degradation_flags = [], to_degradation_cause = None,
     to_reason_codes = codes, to_orchestration_blocked = False, to_blocking_reason = None,
     to_orchestration_continues = False\<rparr>"

definition make_replay_lineage_record ::
  "runtime \<Rightarrow> timeline_context \<Rightarrow> string list \<Rightarrow> string list \<Rightarrow> pydict \<Rightarrow> timeline_record" where
  "make_replay_lineage_record rt ctx codes rule_path threshold_bindings =
    (let source_missing = \<not> given (ti_source_artifact_id ctx)
     in \<lparr>to_governance_scope = ''REPLAY_ONLY'', to_event_type = None,
         to_lineage_visibility = ''REPLAY_ONLY'', to_is_replay = True,
         to_live_effects_suppressed = True, to_origin_source = ti_origin_source ctx,
         to_origin_authority = ti_origin_authority ctx, to_actor_identity = ti_actor_identity ctx,
         to_attribution_timestamp = ti_attribution_timestamp ctx,
         to_upstream_correlation_id = ti_upstream_correlation_id ctx,
         to_authoritative_source = ''system_automated'',
         to_config_version_id = ti_config_version_id ctx,
         to_historical_config_version_id = ti_historical_config_version_id ctx,
         to_threshold_bindings = threshold_bindings, to_event_id = rt_uuid rt,
         to_correlation_id = ti_correlation_id ctx, to_causation_id = ti_causation_id ctx,
         to_orchestration_cycle_id = ti_orchestration_cycle_id ctx,
         to_execution_type = ti_execution_type ctx, to_execution_mode = ti_execution_mode ctx,
         to_rule_path_taken = rule_path, to_duration_ms = rt_duration_ms rt,
         to_outcome = (if source_missing then ''degraded'' else ''success''),
         to_error_class = None, to_execution_state_before = ti_execution_state_before ctx,
         to_execution_state_after = ti_execution_state_after ctx,
         to_causation_chain_preserved = given (ti_causation_id ctx),
         to_append_only_enforced = True, to_finalized_lineage_protected = True,
         to_replay_lineage_preserved = True, to_sql_server_authority_preserved = True,
         to_lineage_emit_authorized = False, to_degraded = source_missing,
         to_degradation_flags = code_if source_missing ''REPLAY_SOURCE_ARTIFACT_MISSING'',
         to_degradation_cause = (if source_missing then Some ''REPLAY_SOURCE_ARTIFACT_MISSING'' else None),
         to_reason_codes = codes, to_orchestration_blocked = False, to_blocking_reason = None,
         to_orchestration_continues = True\<rparr>)"

definition make_lineage_record ::
  "runtime \<Rightarrow> timeline_context \<Rightarrow> string list \<Rightarrow> string list \<Rightarrow> pydict \<Rightarrow> string \<Rightarrow> string option
   \<Rightarrow> string \<Rightarrow> bool \<Rightarrow> string \<Rightarrow> bool \<Rightarrow> bool \<Rightarrow> bool \<Rightarrow> string list \<Rightarrow> string option \<Rightarrow> string
   \<Rightarrow> timeline_record" where
  "make_lineage_record rt ctx codes rule_path threshold_bindings governance_scope event_type
     lineage_visibility causation_chain_preserved authoritative_source
     sql_server_authority_preserved lineage_emit_authorized degraded degradation_flags
     degradation_cause outcome =
    \<lparr>to_governance_scope = governance_scope, to_event_type = event_type,
     to_lineage_visibility = lineage_visibility, to_is_replay = False,
     to_live_effects_suppressed = (governance_scope \<noteq> ''AUTHORIZED''),
     to_origin_source = ti_origin_source ctx, to_origin_authority = ti_origin_authority ctx,
     to_actor_identity = ti_actor_identity ctx,
     to_attribution_timestamp = ti_attribution_timestamp ctx,
     to_upstream_correlation_id = ti_upstream_correlation_id ctx,
     to_authoritative_source = authoritative_source,
     to_config_version_id = ti_config_version_id ctx,
     to_historical_config_version_id = ti_historical_config_version_id ctx,
     to_threshold_bindings = threshold_bindings, to_event_id = rt_uuid rt,
     to_correlation_id = ti_correlation_id ctx, to_causation_id = ti_causation_id ctx,
     to_orchestration_cycle_id = ti_orchestration_cycle_id ctx,
     to_execution_type = ti_execution_type ctx, to_execution_mode = ti_execution_mode ctx,
     to_rule_path_taken = rule_path, to_duration_ms = rt_duration_ms rt, to_outcome = outcome,
     to_error_class = None, to_execution_state_before = ti_execution_state_before ctx,
     to_execution_state_after = ti_execution_state_after ctx,
     to_causation_chain_preserved = causation_chain_preserved, to_append_only_enforced = True,
     to_finalized_lineage_protected = True, to_replay_lineage_preserved = True,
     to_sql_server_authority_preserved = sql_server_authority_preserved,
     to_lineage_emit_authorized = lineage_emit_authorized, to_degraded = degraded,
     to_degradation_flags = degradation_flags, to_degradation_cause = degradation_cause,
     to_reason_codes = codes, to_orchestration_blocked = False, to_blocking_reason = None,
     to_orchestration_continues = (governance_scope \<noteq> ''UNAVAILABLE'')\<rparr>"

definition emit_timeline_event_log :: "runtime \<Rightarrow> timeline_record \<Rightarrow> log_line" where
  "emit_timeline_event_log rt r =
    (let level = (if to_degraded r \<or> to_orchestration_blocked r then ''warning'' else ''info'')
     in LogJson level
      [(''timestamp'', VStr (rt_now_iso rt)), (''level'', VStr level),
       (''service'', VStr ''timeline_lineage''),
       (''event'', VStr (if to_orchestration_blocked r then ''timeline_blocked'' else ''timeline_classified'')),
       (''event_id'', VStr (to_event_id r)), (''governance_scope'', VStr (to_governance_scope r)),
       (''event_type'', opt_val (to_event_type r)),
       (''lineage_visibility'', VStr (to_lineage_visibility r)),
       (''is_replay'', VBool (to_is_replay r)),
       (''live_effects_suppressed'', VBool (to_live_effects_suppressed r)),
       (''execution_mode'', VStr (to_execution_mode r)),
       (''execution_type'', VStr (to_execution_type r)),
       (''correlation_id'', opt_val (to_correlation_id r)),
       (''causation_id'', opt_val (to_causation_id r)),
       (''orchestration_cycle_id'', opt_val (to_orchestration_cycle_id r)),
       (''config_version_id'', opt_val (to_config_version_id r)),
       (''rule_path_taken'', str_list (to_rule_path_taken r)), (''outcome'', VStr (to_outcome r)),
       (''error_class'', opt_val (to_error_class r)),
       (''lineage_emit_authorized'', VBool (to_lineage_emit_authorized r)),
       (''causation_chain_preserved'', VBool (to_causation_chain_preserved r)),
       (''append_only_enforced'', VBool (to_append_only_enforced r)),
       (''finalized_lineage_protected'', VBool (to_finalized_lineage_protected r)),
       (''replay_lineage_preserved'', VBool (to_replay_lineage_preserved r)),
       (''sql_server_authority_preserved'', VBool (to_sql_server_authority_preserved r)),
       (''authoritative_source'', VStr (to_authoritative_source r)),
       (''execution_state_before'', opt_val (to_execution_state_before r)),
       (''execution_state_after'', opt_val (to_execution_state_after r)),
       (''degraded'', VBool (to_degraded r)),
       (''degradation_cause'', opt_val (to_degradation_cause r)),
       (''degradation_flags'', str_list (to_degradation_flags r)),
       (''orchestration_blocked'', VBool (to_orchestration_blocked r)),
       (''blocking_reason'', opt_val (to_blocking_reason r)),
       (''orchestration_continues'', VBool (to_orchestration_continues r)),
       (''reason_codes'', str_list (to_reason_codes r)),
       (''duration_ms'', VInt (to_duration_ms r))])"

section \<open>Gate, thresholds and classification\<close>

definition timeline_precondition_gate :: "string set \<Rightarrow> timeline_context \<Rightarrow> string list" where
  "timeline_precondition_gate idempotency_keys ctx =
     code_if (ti_execution_mode ctx \<notin> timeline_execution_modes) ''INVALID_EXECUTION_MODE''
   @ code_if (ti_execution_type ctx \<notin> timeline_execution_types) ''INVALID_EXECUTION_TYPE''
   @ code_if (\<not> given (ti_config_version_id ctx)) ''CONFIG_VERSION_ID_MISSING''
   @ code_if (\<not> given (ti_correlation_id ctx)) ''CORRELATION_ID_MISSING''
   @ code_if (\<not> given (ti_origin_source ctx)) ''ORIGIN_SOURCE_MISSING''
   @ code_if (\<not> given (ti_origin_authority ctx)) ''ORIGIN_AUTHORITY_MISSING''
   @ code_if (\<not> given (ti_actor_identity ctx)) ''ACTOR_IDENTITY_MISSING''
   @ code_if (given (ti_idempotency_key ctx) \<and> the (ti_idempotency_key ctx) \<in> idempotency_keys)
       ''IDEMPOTENCY_DUPLICATE_DETECTED''"

definition resolve_timeline_thresholds :: "pydict \<Rightarrow> pydict \<times> string list" where
  "resolve_timeline_thresholds rule_set =
    (let bound = (\<lambda>k. has_key rule_set k \<and> dict_get rule_set k \<noteq> VStr UNKNOWN_V0)
     in (map (\<lambda>k. (k, if bound k then dict_get rule_set k else VStr UNKNOWN_V0))
           timeline_threshold_keys,
         filter (\<lambda>k. \<not> bound k) timeline_threshold_keys))"

definition classify_event_type :: "timeline_context \<Rightarrow> string" where
  "classify_event_type ctx =
    (let hint = ti_event_type_hint ctx;
         source_type = (if given (ti_raw_event_source ctx)
           then map_of source_event_type_map (the (ti_raw_event_source ctx)) else None)
     in case source_type of
          Some t \<Rightarrow> if given hint \<and> hint \<noteq> Some ''UNKNOWN'' then the hint else t
        | None \<Rightarrow> if given hint then the hint else ''UNKNOWN'')"

definition classify_authoritative_source :: "timeline_context \<Rightarrow> string" where
  "classify_authoritative_source ctx =
    (let origin = ti_origin_source ctx
     in if origin \<in> Some ` sql_server_origins then ''sql_server_authoritative''
        else if origin = Some ''ghl'' then ''ghl_sync''
        else if origin \<in> {Some ''operator'', Some ''platform_manual''} then ''operator_authorized''
        else if origin = Some ''ai_subsystem'' then ''ai_subsystem''
        else if origin = Some ''compliance_pathway'' then ''compliance_authorized''
        else ''system_automated'')"

section \<open>The classification\<close>

text \<open>Rules 3--12 for an original or recovery execution outside maintenance.\<close>

definition timeline_classify :: "runtime \<Rightarrow> timeline_context \<Rightarrow> timeline_record" where
  "timeline_classify rt ctx =
    (let rule_set = (case ti_config_rule_set ctx of None \<Rightarrow> [] | Some d \<Rightarrow> d);
         (threshold_bindings, missing) = resolve_timeline_thresholds rule_set;
         missing_flags = map (\<lambda>k. ''CONFIG_THRESHOLD_MISSING_'' @ upper k) missing;
         causation_chain_preserved = given (ti_causation_id ctx);
         degradation_flags = missing_flags
           @ code_if (\<not> causation_chain_preserved) ''CAUSATION_CHAIN_INCOMPLETE'';
         event_type = classify_event_type ctx;
         codes = missing_flags
           @ code_if (ti_finalized_lineage_detected ctx) ''FINALIZED_LINEAGE_PROTECTED''
           @ code_if (\<not> causation_chain_preserved) ''CAUSATION_CHAIN_INCOMPLETE''
           @ code_if (event_type \<noteq> []) (''EVENT_TYPE_'' @ event_type)
           @ code_if (ti_origin_source ctx \<in> Some ` sql_server_origins) ''SQL_SERVER_AUTHORITY_PRESERVED''
           @ code_if (ti_execution_mode ctx \<noteq> ''SHADOW'') ''LIVE_SCOPE_SHADOW_ONLY_PHASE11'';
         lineage_visibility = (if ti_finalized_lineage_detected ctx then ''FINALIZED_PROTECTED''
           else ''SHADOW_VISIBLE'');
         degraded = (degradation_flags \<noteq> [])
     in make_lineage_record rt ctx codes
          [''RULE_0'', ''RULE_1'', ''RULE_2'', ''RULE_3'', ''RULE_4'', ''RULE_5'', ''RULE_6'',
           ''RULE_7'', ''RULE_8'', ''RULE_9'', ''RULE_10'', ''RULE_11'', ''RULE_12'']
          threshold_bindings ''SHADOW_ONLY'' (Some event_type) lineage_visibility
          causation_chain_preserved (classify_authoritative_source ctx) True False degraded
          degradation_flags (if degraded then Some (hd degradation_flags) else None)
          ''shadow_only'')"

definition timeline_evaluate :: "runtime \<Rightarrow> timeline_context \<Rightarrow> timeline_record" where
  "timeline_evaluate rt ctx =
    (if ti_maintenance_mode_active ctx then
       make_maintenance_lineage_record rt ctx [''MAINTENANCE_MODE_ACTIVE''] [''RULE_0'', ''RULE_1'']
     else if ti_execution_type ctx \<in> timeline_replay_types then
       make_replay_lineage_record rt ctx
         (''REPLAY_MODE_ACTIVE''
           # code_if (\<not> given (ti_source_artifact_id ctx)) ''REPLAY_SOURCE_ARTIFACT_MISSING'')
         [''RULE_0'', ''RULE_1'', ''RULE_2''] []
     else timeline_classify rt ctx)"

definition classify_timeline_event ::
  "runtime \<Rightarrow> timeline_context \<Rightarrow> store \<Rightarrow> timeline_record \<times> store" where
  "classify_timeline_event rt ctx s =
    (let gate_codes = timeline_precondition_gate (keys s) ctx
     in if gate_codes \<noteq> [] then
          let r = make_blocked_lineage_record rt ctx gate_codes [''RULE_0''] [] (Some (hd gate_codes))
          in (r, emit (emit_timeline_event_log rt r) s)
        else
          let s1 = (if given (ti_idempotency_key ctx) \<and> ti_execution_type ctx = ''original''
                    then register (ti_idempotency_key ctx) s else s);
              r = timeline_evaluate rt ctx
          in (r, emit (emit_timeline_event_log rt r) s1))"

section \<open>The service is idempotent\<close>

lemmas timeline_records = make_blocked_lineage_record_def make_maintenance_lineage_record_def
  make_replay_lineage_record_def make_lineage_record_def

abbreviation timeline_serve ::
  "runtime \<times> timeline_context \<Rightarrow> store \<Rightarrow> timeline_record \<times> store" where
  "timeline_serve c s \<equiv> classify_timeline_event (fst c) (snd c) s"

lemma timeline_evaluate_not_blocked [simp]: "\<not> to_orchestration_blocked (timeline_evaluate rt ctx)"
  by (simp add: timeline_evaluate_def timeline_classify_def timeline_records Let_def
      case_prod_unfold)

lemma timeline_blocked_iff:
  "to_orchestration_blocked (fst (classify_timeline_event rt ctx s)) \<longleftrightarrow>
     timeline_precondition_gate (keys s) ctx \<noteq> []"
  by (simp add: classify_timeline_event_def make_blocked_lineage_record_def Let_def)

lemma timeline_keys:
  "keys (snd (classify_timeline_event rt ctx s)) =
     (if timeline_precondition_gate (keys s) ctx = [] \<and> given (ti_idempotency_key ctx)
         \<and> ti_execution_type ctx = ''original''
      then insert (the (ti_idempotency_key ctx)) (keys s) else keys s)"
  by (auto simp: classify_timeline_event_def Let_def given_iff)

lemma timeline_events:
  "events (snd (classify_timeline_event rt ctx s)) =
     events s @ [emit_timeline_event_log rt (fst (classify_timeline_event rt ctx s))]"
  by (simp add: classify_timeline_event_def Let_def)

lemma timeline_duplicate_gated:
  "given (ti_idempotency_key ctx) \<Longrightarrow> the (ti_idempotency_key ctx) \<in> ks \<Longrightarrow>
     timeline_precondition_gate ks ctx \<noteq> []"
  by (simp add: timeline_precondition_gate_def)

interpretation timeline_service: strict_idempotent_service timeline_serve
  "ti_idempotency_key \<circ> snd" "\<lambda>c. ti_execution_type (snd c) = ''original''"
  to_orchestration_blocked
proof unfold_locales
qed (auto simp: timeline_keys timeline_blocked_iff timeline_events timeline_duplicate_gated)

section \<open>The operational timeline of a student\<close>

text \<open>
  The rows of the six tables, with the columns the timeline reads and the text columns it leaves
  out; times are ISO texts. An event
  is the dictionary that the endpoint returns.
\<close>

record tl_outreach =
  th_user_id :: int
  th_created_at :: "string option"
  th_attempt_number :: int
  th_channel :: "string option"
  th_action :: "string option"
  th_execution_mode :: "string option"
  th_simulated_status :: "string option"
  th_decision :: "string option"
  th_state_before :: "string option"
  th_state_after :: "string option"
  th_correlation_id :: "string option"
  th_is_replay :: bool

record tl_transition =
  tt_user_id :: int
  tt_created_at :: "string option"
  tt_from_state :: "string option"
  tt_to_state :: "string option"
  tt_trigger :: "string option"
  tt_actor :: "string option"
  tt_execution_mode :: "string option"
  tt_correlation_id :: "string option"
  tt_is_replay :: bool

record tl_note =
  tn_user_id :: int
  tn_created_at :: "string option"
  tn_author :: "string option"
  tn_content :: string
  tn_note_type :: "string option"
  tn_is_ai_generated :: bool

record tl_insight =
  tg_user_id :: int
  tg_created_at :: "string option"
  tg_insight_type :: "string option"
  tg_content_text :: "string option"
  tg_execution_mode :: "string option"
  tg_is_finalized :: bool
  tg_correlation_id :: "string option"
  tg_is_replay :: bool

record tl_message =
  tm_user_id :: "int option"
  tm_ghl_created_at :: "string option"
  tm_synced_at :: "string option"
  tm_direction :: "string option"
  tm_channel :: "string option"
  tm_status :: "string option"
  tm_body :: "string option"

record tl_activity =
  ta_student_user_id :: int
  ta_activity_date :: "string option"
  ta_created_at :: "string option"
  ta_activity_type :: "string option"
  ta_activity_label :: "string option"
  ta_channel :: "string option"
  ta_subject :: "string option"
  ta_message_body :: "string option"
  ta_source :: "string option"
  ta_execution_mode :: "string option"

record timeline_tables =
  db_outreach :: "tl_outreach list"
  db_transition_log :: "tl_transition list"
  db_notes :: "tl_note list"
  db_ai_insights :: "tl_insight list"
  db_messages :: "tl_message list"
  db_activities :: "tl_activity list"

definition outreach_event :: "tl_outreach \<Rightarrow> pydict" where
  "outreach_event h =
    [(''type'', VStr ''outreach''), (''created_at'', opt_val (th_created_at h)),
     (''attempt_number'', VInt (th_attempt_number h)), (''channel'', opt_val (th_channel h)),
     (''action'', opt_val (th_action h)), (''execution_mode'', opt_val (th_execution_mode h)),
     (''simulated_status'', opt_val (th_simulated_status h)),
     (''decision'', opt_val (th_decision h)), (''state_before'', opt_val (th_state_before h)),
     (''state_after'', opt_val (th_state_after h)),
     (''correlation_id'', opt_val (th_correlation_id h)), (''is_replay'', VBool (th_is_replay h))]"

definition transition_event :: "tl_transition \<Rightarrow> pydict" where
  "transition_event t =
    [(''type'', VStr ''transition''), (''created_at'', opt_val (tt_created_at t)),
     (''from_state'', opt_val (tt_from_state t)), (''to_state'', opt_val (tt_to_state t)),
     (''trigger'', opt_val (tt_trigger t)), (''actor'', opt_val (tt_actor t)),
     (''execution_mode'', opt_val (tt_execution_mode t)),
     (''correlation_id'', opt_val (tt_correlation_id t)), (''is_replay'', VBool (tt_is_replay t))]"

definition note_event :: "tl_note \<Rightarrow> pydict" where
  "note_event n =
    [(''type'', VStr ''note''), (''created_at'', opt_val (tn_created_at n)),
     (''author'', opt_val (tn_author n)), (''note_type'', opt_val (tn_note_type n)),
     (''is_ai_generated'', VBool (tn_is_ai_generated n))]"

definition insight_event :: "tl_insight \<Rightarrow> pydict" where
  "insight_event i =
    [(''type'', VStr ''ai_insight''), (''created_at'', opt_val (tg_created_at i)),
     (''insight_type'', opt_val (tg_insight_type i)),
     (''execution_mode'', opt_val (tg_execution_mode i)),
     (''is_finalized'', VBool (tg_is_finalized i)),
     (''correlation_id'', opt_val (tg_correlation_id i)), (''is_replay'', VBool (tg_is_replay i))]"

text \<open>\<^verbatim>\<open>a or b\<close> of two optional times.\<close>

definition or_time :: "string option \<Rightarrow> string option \<Rightarrow> string option" where
  "or_time a b = (if a \<noteq> None then a else b)"

definition message_event :: "tl_message \<Rightarrow> pydict" where
  "message_event m =
    [(''type'', VStr ''ghl_message''),
     (''created_at'', opt_val (or_time (tm_ghl_created_at m) (tm_synced_at m))),
     (''direction'', opt_val (tm_direction m)), (''channel'', opt_val (tm_channel m)),
     (''status'', opt_val (tm_status m))]"

definition activity_event :: "tl_activity \<Rightarrow> pydict" where
  "activity_event a =
    [(''type'', VStr ''campaign_activity''),
     (''created_at'', opt_val (or_time (ta_activity_date a) (ta_created_at a))),
     (''activity_type'', opt_val (ta_activity_type a)),
     (''activity_label'', opt_val (ta_activity_label a)), (''channel'', opt_val (ta_channel a)),
     (''subject'', opt_val (ta_subject a)), (''source'', opt_val (ta_source a)),
     (''execution_mode'', opt_val (ta_execution_mode a))]"

definition merged_events :: "int \<Rightarrow> timeline_tables \<Rightarrow> pydict list" where
  "merged_events user_id d =
     map outreach_event (filter (\<lambda>h. th_user_id h = user_id) (db_outreach d))
   @ map transition_event (filter (\<lambda>t. tt_user_id t = user_id) (db_transition_log d))
   @ map note_event (filter (\<lambda>n. tn_user_id n = user_id) (db_notes d))
   @ map insight_event (filter (\<lambda>i. tg_user_id i = user_id) (db_ai_insights d))
   @ map message_event (filter (\<lambda>m. tm_user_id m = Some user_id) (db_messages d))
   @ map activity_event (filter (\<lambda>a. ta_student_user_id a = user_id) (db_activities d))"

text \<open>\<^verbatim>\<open>e["created_at"] or ""\<close>\<close>

definition event_time :: "pydict \<Rightarrow> string" where
  "event_time e = (case dict_get e ''created_at'' of VStr s \<Rightarrow> s | _ \<Rightarrow> [])"

text \<open>
  \<^verbatim>\<open>sort(key=k, reverse=True)\<close>: descending, and elements with equal keys keep their
  order.
\<close>

definition sort_newest :: "pydict list \<Rightarrow> pydict list" where
  "sort_newest es = rev (sort_key event_time (rev es))"

definition build_timeline :: "int \<Rightarrow> timeline_tables \<Rightarrow> pydict list" where
  "build_timeline user_id d = sort_newest (merged_events user_id d)"

end
