(* ===== verification/TimelineProps.thy ===== *)
theory TimelineProps
  imports Timeline "HOL-Library.Multiset"
begin

text \<open>
  What the timeline service promises: a lineage record never carries emission authority and is
  always logged, the event type is the caller's hint whenever there is one, and the operational
  timeline is a stable newest-first permutation of the student's rows that shows no content.
\<close>

section \<open>Lineage records\<close>

lemma timeline_classify_fields:
  "to_event_type (timeline_classify rt ctx) = Some (classify_event_type ctx)"
  "to_governance_scope (timeline_classify rt ctx) = ''SHADOW_ONLY''"
  "\<not> to_lineage_emit_authorized (timeline_classify rt ctx)"
  "to_live_effects_suppressed (timeline_classify rt ctx)"
  "to_finalized_lineage_protected (timeline_classify rt ctx)"
  "to_replay_lineage_preserved (timeline_classify rt ctx)"
  "to_append_only_enforced (timeline_classify rt ctx)"
  "to_origin_source (timeline_classify rt ctx) = ti_origin_source ctx"
  "to_origin_authority (timeline_classify rt ctx) = ti_origin_authority ctx"
  "to_actor_identity (timeline_classify rt ctx) = ti_actor_identity ctx"
  "to_correlation_id (timeline_classify rt ctx) = ti_correlation_id ctx"
  "to_is_replay (timeline_classify rt ctx) = False"
  unfolding timeline_classify_def Let_def case_prod_unfold by (simp_all add: make_lineage_record_def)

definition timeline_scope :: "string set \<Rightarrow> timeline_context \<Rightarrow> string" where
  "timeline_scope ks ctx =
    (if timeline_precondition_gate ks ctx \<noteq> [] then ''UNAVAILABLE''
     else if ti_maintenance_mode_active ctx then ''MAINTENANCE''
     else if ti_execution_type ctx \<in> timeline_replay_types then ''REPLAY_ONLY''
     else ''SHADOW_ONLY'')"

text \<open>
  Lineage records have no authority: on every path the emission is not authorized, live effects
  are suppressed, the three lineage guarantees are set, the scope follows the path, the
  attribution is passed on and one line is logged.
\<close>

theorem lineage_without_authority:
  "let (r, s') = classify_timeline_event rt ctx s in
     \<not> to_lineage_emit_authorized r \<and> to_live_effects_suppressed r
   \<and> to_append_only_enforced r \<and> to_finalized_lineage_protected r \<and> to_replay_lineage_preserved r
   \<and> to_governance_scope r = timeline_scope (keys s) ctx
   \<and> (to_origin_source r, to_origin_authority r, to_actor_identity r, to_correlation_id r) =
       (ti_origin_source ctx, ti_origin_authority ctx, ti_actor_identity ctx, ti_correlation_id ctx)
   \<and> events s' = events s @ [emit_timeline_event_log rt r]"
  unfolding classify_timeline_event_def timeline_evaluate_def timeline_scope_def
  by (simp add: Let_def timeline_classify_fields make_blocked_lineage_record_def
      make_maintenance_lineage_record_def make_replay_lineage_record_def)

text \<open>
  The caller's hint is the event type: for a call that is classified, any hint other than the
  word UNKNOWN, whether it names a known event type or not, becomes the event type and overrides
  the canonical type of the source; only without a hint does the source table decide.
\<close>

theorem hint_overrides_source:
  assumes "timeline_scope (keys s) ctx = ''SHADOW_ONLY''"
  shows "to_event_type (fst (classify_timeline_event rt ctx s)) =
    Some (if given (ti_event_type_hint ctx) \<and> ti_event_type_hint ctx \<noteq> Some ''UNKNOWN''
          then the (ti_event_type_hint ctx)
          else if given (ti_raw_event_source ctx) then
            (case map_of source_event_type_map (the (ti_raw_event_source ctx)) of
               None \<Rightarrow> ''UNKNOWN'' | Some t \<Rightarrow> t)
          else ''UNKNOWN'')"
  using assms
  by (cases "given (ti_event_type_hint ctx)"; cases "given (ti_raw_event_source ctx)")
    (auto simp: classify_timeline_event_def timeline_evaluate_def timeline_scope_def Let_def
      timeline_classify_fields classify_event_type_def given_iff split: option.split if_split_asm)

definition sample_lineage :: timeline_context where
  "sample_lineage = \<lparr>ti_config_version_id = Some ''v1'', ti_execution_mode = ''SHADOW'',
     ti_execution_type = ''original'', ti_correlation_id = Some ''c-1'',
     ti_config_rule_set = None, ti_causation_id = None, ti_orchestration_cycle_id = None,
     ti_idempotency_key = Some ''k-1'', ti_maintenance_mode_active = False,
     ti_origin_source = Some ''ghl'', ti_origin_authority = Some ''webhook'',
     ti_actor_identity = Some ''ghl'', ti_attribution_timestamp = None,
     ti_upstream_correlation_id = None, ti_event_type_hint = Some ''NO_SUCH_TYPE'',
     ti_raw_event_source = Some ''ghl_messages'', ti_execution_state_before = None,
     ti_execution_state_after = None, ti_finalized_lineage_detected = False,
     ti_source_artifact_id = None, ti_historical_config_version_id = None,
     ti_student_id_opaque = None\<rparr>"

theorem hint_overrides_source_witness:
  "to_event_type (fst (classify_timeline_event (sample_runtime 1) sample_lineage empty_store)) =
     Some ''NO_SUCH_TYPE''"
proof -
  have "timeline_scope (keys empty_store) sample_lineage = ''SHADOW_ONLY''" by code_simp
  from hint_overrides_source [OF this] show ?thesis by (simp add: sample_lineage_def)
qed

section \<open>The operational timeline\<close>

lemma sort_newest_stable:
  "filter (\<lambda>e. event_time e = t) (sort_newest es) = filter (\<lambda>e. event_time e = t) es"
proof -
  have "filter (\<lambda>e. event_time e = t) (sort_key event_time (rev es)) =
      filter (\<lambda>e. event_time e = t) (rev es)"
    using sort_key_stable [of event_time t "rev es"] by simp
  then show ?thesis by (simp add: sort_newest_def flip: rev_filter)
qed

text \<open>The same tables with other content texts.\<close>

definition same_but_content :: "timeline_tables \<Rightarrow> timeline_tables \<Rightarrow> bool" where
  "same_but_content d d' \<longleftrightarrow>
     db_outreach d = db_outreach d' \<and> db_transition_log d = db_transition_log d'
   \<and> map (\<lambda>n. n\<lparr>tn_content := []\<rparr>) (db_notes d) = map (\<lambda>n. n\<lparr>tn_content := []\<rparr>) (db_notes d')
   \<and> map (\<lambda>i. i\<lparr>tg_content_text := None\<rparr>) (db_ai_insights d) =
       map (\<lambda>i. i\<lparr>tg_content_text := None\<rparr>) (db_ai_insights d')
   \<and> map (\<lambda>m. m\<lparr>tm_body := None\<rparr>) (db_messages d) = map (\<lambda>m. m\<lparr>tm_body := None\<rparr>) (db_messages d')
   \<and> map (\<lambda>a. a\<lparr>ta_message_body := None\<rparr>) (db_activities d) =
       map (\<lambda>a. a\<lparr>ta_message_body := None\<rparr>) (db_activities d')"

text \<open>A view of rows that an erasure does not change is the view of the erased rows.\<close>

lemma view_of_erased:
  assumes "\<And>x. f (e x) = f x" and "\<And>x. P (e x) = P x" and "map e xs = map e ys"
  shows "map f (filter P xs) = map f (filter P ys)"
proof -
  have view: "map f (filter P zs) = map f (filter P (map e zs))" for zs
    using assms(1,2) by (induction zs) simp_all
  show ?thesis using view [of xs] view [of ys] assms(3) by simp
qed

text \<open>
  C19. The timeline of a student is complete, newest first, stable and free of content: it is a
  permutation of exactly the events of the student's rows, its times never increase, events of
  the same time stay in table order, and it does not depend on the text of notes, insights,
  messages or activities.
\<close>

theorem timeline_sorted_permutation:
  assumes "same_but_content d d'"
  shows "mset (build_timeline u d) = mset (merged_events u d)
    \<and> sorted_wrt (\<lambda>x y. event_time y \<le> event_time x) (build_timeline u d)
    \<and> (\<forall>t. filter (\<lambda>e. event_time e = t) (build_timeline u d) =
          filter (\<lambda>e. event_time e = t) (merged_events u d))
    \<and> build_timeline u d' = build_timeline u d"
proof (intro conjI allI)
  show "mset (build_timeline u d) = mset (merged_events u d)"
    by (simp add: build_timeline_def sort_newest_def)
  show "sorted_wrt (\<lambda>x y. event_time y \<le> event_time x) (build_timeline u d)"
    using sorted_sort_key [of event_time "rev (merged_events u d)"]
    by (simp add: build_timeline_def sort_newest_def sorted_wrt_rev sorted_map)
  show "filter (\<lambda>e. event_time e = t) (build_timeline u d) =
      filter (\<lambda>e. event_time e = t) (merged_events u d)" for t
    by (simp add: build_timeline_def sort_newest_stable)
  have "map note_event (filter (\<lambda>n. tn_user_id n = u) (db_notes d)) =
      map note_event (filter (\<lambda>n. tn_user_id n = u) (db_notes d'))"
    by (rule view_of_erased [where e = "\<lambda>n. n\<lparr>tn_content := []\<rparr>"])
      (use assms in \<open>simp_all add: note_event_def same_but_content_def\<close>)
  moreover have "map insight_event (filter (\<lambda>i. tg_user_id i = u) (db_ai_insights d)) =
      map insight_event (filter (\<lambda>i. tg_user_id i = u) (db_ai_insights d'))"
    by (rule view_of_erased [where e = "\<lambda>i. i\<lparr>tg_content_text := None\<rparr>"])
      (use assms in \<open>simp_all add: insight_event_def same_but_content_def\<close>)
  moreover have "map message_event (filter (\<lambda>m. tm_user_id m = Some u) (db_messages d)) =
      map message_event (filter (\<lambda>m. tm_user_id m = Some u) (db_messages d'))"
    by (rule view_of_erased [where e = "\<lambda>m. m\<lparr>tm_body := None\<rparr>"])
      (use assms in \<open>simp_all add: message_event_def same_but_content_def\<close>)
  moreover have "map activity_event (filter (\<lambda>a. ta_student_user_id a = u) (db_activities d)) =
      map activity_event (filter (\<lambda>a. ta_student_user_id a = u) (db_activities d'))"
    by (rule view_of_erased [where e = "\<lambda>a. a\<lparr>ta_message_body := None\<rparr>"])
      (use assms in \<open>simp_all add: activity_event_def same_but_content_def\<close>)
  ultimately show "build_timeline u d' = build_timeline u d"
    using assms by (simp add: build_timeline_def merged_events_def same_but_content_def)
qed

definition sample_tables :: "string \<Rightarrow> timeline_tables" where
  "sample_tables text = \<lparr>db_outreach = [], db_transition_log = [],
     db_notes = [\<lparr>tn_user_id = 7, tn_created_at = Some ''2026-01-05'', tn_author = None,
       tn_content = text, tn_note_type = None, tn_is_ai_generated = False\<rparr>],
     db_ai_insights = [], db_messages = [], db_activities = []\<rparr>"

theorem timeline_sorted_permutation_witness:
  "build_timeline 7 (sample_tables ''private'') = build_timeline 7 (sample_tables [])"
proof -
  have "same_but_content (sample_tables []) (sample_tables ''private'')"
    by (simp add: same_but_content_def sample_tables_def)
  from timeline_sorted_permutation [OF this] show ?thesis by simp
qed

end
