(* ===== verification/SyncCoordination.thy ===== *)
theory SyncCoordination
  imports Coordination
begin

text \<open>
  The synchronization coordination, \<^verbatim>\<open>app/services/_sync_types.py\<close>,
  \<^verbatim>\<open>_sync_helpers.py\<close> and \<^verbatim>\<open>coordinate_sync_cycle\<close> of
  \<^verbatim>\<open>sync.py\<close>: context and record, the gate with the key set, thresholds, the intent, the
  four record factories, the log line and Rules 0--13. The service is an instance of
  \<open>strict_idempotent_service\<close>.
\<close>

section \<open>Input and output\<close>

definition sync_execution_modes :: "string set" where
  "sync_execution_modes = {''SHADOW'', ''LIVE''}"

definition sync_execution_types :: "string set" where
  "sync_execution_types = {''original'', ''replay'', ''regeneration'', ''recovery''}"

definition sync_replay_types :: "string set" where
  "sync_replay_types = {''replay'', ''regeneration''}"

definition sync_threshold_keys :: "string list" where
  "sync_threshold_keys =
    [''sync_batch_size'', ''sql_server_max_sync_age_hours'', ''sync_max_retry_attempts'',
     ''sync_conflict_threshold'', ''sync_lag_escalation_hours'']"

record sync_context =
  yi_config_version_id :: "string option"
  yi_execution_mode :: string
  yi_execution_type :: string
  yi_correlation_id :: "string option"
  yi_config_rule_set :: "pydict option"
  yi_causation_id :: "string option"
  yi_orchestration_cycle_id :: "string option"
  yi_idempotency_key :: "string option"
  yi_maintenance_mode_active :: bool
  yi_compliance_hold_flag :: bool
  yi_origin_source :: "string option"
  yi_origin_authority :: "string option"
  yi_actor_identity :: "string option"
  yi_attribution_timestamp :: "string option"
  yi_upstream_correlation_id :: "string option"
  yi_sync_domain :: string
  yi_rows_scanned :: int
  yi_rows_valid :: int
  yi_rows_invalid :: int
  yi_sql_server_available :: bool
  yi_sync_lag_hours :: pyfloat
  yi_circuit_breaker_state :: string
  yi_finalized_artifacts_detected :: int
  yi_historical_config_version_id :: "string option"
  yi_source_artifact_id :: "string option"

record sync_record =
  yo_governance_scope :: string
  yo_sync_intent :: "string option"
  yo_is_replay :: bool
  yo_live_effects_suppressed :: bool
  yo_origin_source :: "string option"
  yo_origin_authority :: "string option"
  yo_actor_identity :: "string option"
  yo_attribution_timestamp :: "string option"
  yo_upstream_correlation_id :: "string option"
  yo_authoritative_source :: string
  yo_config_version_id :: "string option"
  yo_historical_config_version_id :: "string option"
  yo_threshold_bindings :: pydict
  yo_event_id :: string
  yo_correlation_id :: "string option"
  yo_causation_id :: "string option"
  yo_orchestration_cycle_id :: "string option"
  yo_execution_type :: string
  yo_execution_mode :: string
  yo_rule_path_taken :: "string list"
  yo_duration_ms :: int
  yo_outcome :: string
  yo_error_class :: "string option"
  yo_sync_domain :: string
  yo_rows_scanned :: int
  yo_rows_valid :: int
  yo_rows_invalid :: int
  yo_dispatch_authorized :: bool
  yo_sync_blocked_reason :: "string option"
  yo_sql_server_read_only_enforced :: bool
  yo_conflict_preservation_required :: bool
  yo_finalized_artifacts_protected :: bool
  yo_finalized_artifacts_detected :: int
  yo_append_only_lineage_preserved :: bool
  yo_degraded :: bool
  yo_degradation_flags :: "string list"
  yo_degradation_cause :: "string option"
  yo_reason_codes :: "string list"
  yo_orchestration_blocked :: bool
  yo_blocking_reason :: "string option"
  yo_orchestration_continues :: bool

section \<open>Record factories and log line\<close>

definition unknown_sync_bindings :: pydict where
  "unknown_sync_bindings = map (\<lambda>k. (k, VStr UNKNOWN_V0)) sync_threshold_keys"

definition make_blocked_sync_record ::
  "runtime \<Rightarrow> sync_context \<Rightarrow> string list \<Rightarrow> string list \<Rightarrow> pydict \<Rightarrow> string option \<Rightarrow> sync_record" where
  "make_blocked_sync_record rt ctx codes rule_path threshold_bindings blocking_reason =
    \<lparr>yo_governance_scope = ''UNAVAILABLE'', yo_sync_intent = None,
     yo_is_replay = (yi_execution_type ctx \<in> sync_replay_types),
     yo_live_effects_suppressed = True, yo_origin_source = yi_origin_source ctx,
     yo_origin_authority = yi_origin_authority ctx, yo_actor_identity = yi_actor_identity ctx,
     yo_attribution_timestamp = yi_attribution_timestamp ctx,
     yo_upstream_correlation_id = yi_upstream_correlation_id ctx,
     yo_authoritative_source = ''sql_server_authoritative'',
     yo_config_version_id = yi_config_version_id ctx,
     yo_historical_config_version_id = yi_historical_config_version_id ctx,
     yo_threshold_bindings = threshold_bindings, yo_event_id = rt_uuid rt,
     yo_correlation_id = yi_correlation_id ctx, yo_causation_id = yi_causation_id ctx,
     yo_orchestration_cycle_id = yi_orchestration_cycle_id ctx,
     yo_execution_type = yi_execution_type ctx, yo_execution_mode = yi_execution_mode ctx,
     yo_rule_path_taken = rule_path, yo_duration_ms = rt_duration_ms rt, yo_outcome = ''failure'',
     yo_error_class = Some ''GovernancePreconditionError'', yo_sync_domain = yi_sync_domain ctx,
     yo_rows_scanned = yi_rows_scanned ctx, yo_rows_valid = yi_rows_valid ctx,
     yo_rows_invalid = yi_rows_invalid ctx, yo_dispatch_authorized = False,
     yo_sync_blocked_reason = blocking_reason, yo_sql_server_read_only_enforced = True,
     yo_conflict_preservation_required = False, yo_finalized_artifacts_protected = True,
     yo_finalized_artifacts_detected = yi_finalized_artifacts_detected ctx,
     yo_append_only_lineage_preserved = True, yo_degraded = False, yo_degradation_flags = [],
     yo_degradation_cause = None, yo_reason_codes = codes, yo_orchestration_blocked = True,
     yo_blocking_reason = blocking_reason, yo_orchestration_continues = False\<rparr>"

definition make_maintenance_sync_record ::
  "runtime \<Rightarrow> sync_context \<Rightarrow> string list \<Rightarrow> string list \<Rightarrow> sync_record" where
  "make_maintenance_sync_record rt ctx codes rule_path =
    \<lparr>yo_governance_scope = ''MAINTENANCE'', yo_sync_intent = None, yo_is_replay = False,
     yo_live_effects_suppressed = True, yo_origin_source = yi_origin_source ctx,
     yo_origin_authority = yi_origin_authority ctx, yo_actor_identity = yi_actor_identity ctx,
     yo_attribution_timestamp = yi_attribution_timestamp ctx,
     yo_upstream_correlation_id = yi_upstream_correlation_id ctx,
     yo_authoritative_source = ''sql_server_authoritative'',
     yo_config_version_id = yi_config_version_id ctx, yo_historical_config_version_id = None,
     yo_threshold_bindings = unknown_sync_bindings, yo_event_id = rt_uuid rt,
     yo_correlation_id = yi_correlation_id ctx, yo_causation_id = yi_causation_id ctx,
     yo_orchestration_cycle_id = yi_orchestration_cycle_id ctx,
     yo_execution_type = yi_execution_type ctx, yo_execution_mode = yi_execution_mode ctx,
     yo_rule_path_taken = rule_path, yo_duration_ms = rt_duration_ms rt, yo_outcome = ''success'',
     yo_error_class = None, yo_sync_domain = yi_sync_domain ctx, yo_rows_scanned = 0,
     yo_rows_valid = 0, yo_rows_invalid = 0, yo_dispatch_authorized = False,
     yo_sync_blocked_reason = Some ''MAINTENANCE_MODE_SUSPENDED'',
     yo_sql_server_read_only_enforced = True, yo_conflict_preservation_required = False,
     yo_finalized_artifacts_protected = True, yo_finalized_artifacts_detected = 0,
     yo_append_only_lineage_preserved = True, yo_degraded = False, yo_degradation_flags = [],
     yo_degradation_cause = None, yo_reason_codes = codes, yo_orchestration_blocked = False,
     yo_blocking_reason = None, yo_orchestration_continues = False\<rparr>"

definition make_replay_sync_record ::
  "runtime \<Rightarrow> sync_context \<Rightarrow> string list \<Rightarrow> string list \<Rightarrow> pydict \<Rightarrow> sync_record" where
  "make_replay_sync_record rt ctx codes rule_path threshold_bindings =
    (let source_missing = \<not> given (yi_source_artifact_id ctx)
     in \<lparr>yo_governance_scope = ''REPLAY_ONLY'', yo_sync_intent = None, yo_is_replay = True,
         yo_live_effects_suppressed = True, yo_origin_source = yi_origin_source ctx,
         yo_origin_authority = yi_origin_authority ctx, yo_actor_identity = yi_actor_identity ctx,
         yo_attribution_timestamp = yi_attribution_timestamp ctx,
         yo_upstream_correlation_id = yi_upstream_correlation_id ctx,
         yo_authoritative_source = ''sql_server_authoritative'',
         yo_config_version_id = yi_config_version_id ctx,
         yo_historical_config_version_id = yi_historical_config_version_id ctx,
         yo_threshold_bindings = threshold_bindings, yo_event_id = rt_uuid rt,
         yo_correlation_id = yi_correlation_id ctx, yo_causation_id = yi_causation_id ctx,
         yo_orchestration_cycle_id = yi_orchestration_cycle_id ctx,
         yo_execution_type = yi_execution_type ctx, yo_execution_mode = yi_execution_mode ctx,
         yo_rule_path_taken = rule_path, yo_duration_ms = rt_duration_ms rt,
         yo_outcome = (if source_missing then ''degraded'' else ''success''),
         yo_error_class = None, yo_sync_domain = yi_sync_domain ctx,
         yo_rows_scanned = yi_rows_scanned ctx, yo_rows_valid = yi_rows_valid ctx,
         yo_rows_invalid = yi_rows_invalid ctx, yo_dispatch_authorized = False,
         yo_sync_blocked_reason = Some ''REPLAY_LIVE_SYNC_PROHIBITED'',
         yo_sql_server_read_only_enforced = True, yo_conflict_preservation_required = False,
         yo_finalized_artifacts_protected = True,
         yo_finalized_artifacts_detected = yi_finalized_artifacts_detected ctx,
         yo_append_only_lineage_preserved = True, yo_degraded = source_missing,
         yo_degradation_flags = code_if source_missing ''REPLAY_SOURCE_ARTIFACT_MISSING'',
         yo_degradation_cause = (if source_missing then Some ''REPLAY_SOURCE_ARTIFACT_MISSING'' else None),
         yo_reason_codes = codes, yo_orchestration_blocked = False, yo_blocking_reason = None,
         yo_orchestration_continues = True\<rparr>)"

definition make_sync_coordination_record ::
  "runtime \<Rightarrow> sync_context \<Rightarrow> string list \<Rightarrow> string list \<Rightarrow> pydict \<Rightarrow> string \<Rightarrow> string option \<Rightarrow> bool
   \<Rightarrow> string option \<Rightarrow> bool \<Rightarrow> bool \<Rightarrow> string list \<Rightarrow> string option \<Rightarrow> string \<Rightarrow> sync_record" where
  "make_sync_coordination_record rt ctx codes rule_path threshold_bindings governance_scope
     sync_intent dispatch_authorized sync_blocked_reason conflict_preservation_required degraded
     degradation_flags degradation_cause outcome =
    \<lparr>yo_governance_scope = governance_scope, yo_sync_intent = sync_intent, yo_is_replay = False,
     yo_live_effects_suppressed = (governance_scope \<noteq> ''AUTHORIZED''),
     yo_origin_source = yi_origin_source ctx, yo_origin_authority = yi_origin_authority ctx,
     yo_actor_identity = yi_actor_identity ctx,
     yo_attribution_timestamp = yi_attribution_timestamp ctx,
     yo_upstream_correlation_id = yi_upstream_correlation_id ctx,
     yo_authoritative_source = ''sql_server_authoritative'',
     yo_config_version_id = yi_config_version_id ctx,
     yo_historical_config_version_id = yi_historical_config_version_id ctx,
     yo_threshold_bindings = threshold_bindings, yo_event_id = rt_uuid rt,
     yo_correlation_id = yi_correlation_id ctx, yo_causation_id = yi_causation_id ctx,
     yo_orchestration_cycle_id = yi_orchestration_cycle_id ctx,
     yo_execution_type = yi_execution_type ctx, yo_execution_mode = yi_execution_mode ctx,
     yo_rule_path_taken = rule_path, yo_duration_ms = rt_duration_ms rt, yo_outcome = outcome,
     yo_error_class = None, yo_sync_domain = yi_sync_domain ctx,
     yo_rows_scanned = yi_rows_scanned ctx, yo_rows_valid = yi_rows_valid ctx,
     yo_rows_invalid = yi_rows_invalid ctx, yo_dispatch_authorized = dispatch_authorized,
     yo_sync_blocked_reason = sync_blocked_reason, yo_sql_server_read_only_enforced = True,
     yo_conflict_preservation_required = conflict_preservation_required,
     yo_finalized_artifacts_protected = True,
     yo_finalized_artifacts_detected = yi_finalized_artifacts_detected ctx,
     yo_append_only_lineage_preserved = True, yo_degraded = degraded,
     yo_degradation_flags = degradation_flags, yo_degradation_cause = degradation_cause,
     yo_reason_codes = codes, yo_orchestration_blocked = False, yo_blocking_reason = None,
     yo_orchestration_continues = (governance_scope \<noteq> ''UNAVAILABLE'')\<rparr>"

definition emit_sync_event_log :: "runtime \<Rightarrow> sync_record \<Rightarrow> log_line" where
  "emit_sync_event_log rt r =
    (let level = (if yo_degraded r \<or> yo_orchestration_blocked r then ''warning'' else ''info'')
     in LogJson level
      [(''timestamp'', VStr (rt_now_iso rt)), (''level'', VStr level),
       (''service'', VStr ''sync_orchestration''),
       (''event'', VStr (if yo_orchestration_blocked r then ''sync_blocked'' else ''sync_coordinated'')),
       (''event_id'', VStr (yo_event_id r)), (''governance_scope'', VStr (yo_governance_scope r)),
       (''sync_intent'', opt_val (yo_sync_intent r)), (''sync_domain'', VStr (yo_sync_domain r)),
       (''is_replay'', VBool (yo_is_replay r)),
       (''live_effects_suppressed'', VBool (yo_live_effects_suppressed r)),
       (''execution_mode'', VStr (yo_execution_mode r)),
       (''execution_type'', VStr (yo_execution_type r)),
       (''correlation_id'', opt_val (yo_correlation_id r)),
       (''causation_id'', opt_val (yo_causation_id r)),
       (''orchestration_cycle_id'', opt_val (yo_orchestration_cycle_id r)),
       (''config_version_id'', opt_val (yo_config_version_id r)),
       (''rule_path_taken'', str_list (yo_rule_path_taken r)), (''outcome'', VStr (yo_outcome r)),
       (''error_class'', opt_val (yo_error_class r)),
       (''dispatch_authorized'', VBool (yo_dispatch_authorized r)),
       (''sync_blocked_reason'', opt_val (yo_sync_blocked_reason r)),
       (''degraded'', VBool (yo_degraded r)),
       (''degradation_cause'', opt_val (yo_degradation_cause r)),
       (''degradation_flags'', str_list (yo_degradation_flags r)),
       (''sql_server_read_only_enforced'', VBool (yo_sql_server_read_only_enforced r)),
       (''conflict_preservation_required'', VBool (yo_conflict_preservation_required r)),
       (''finalized_artifacts_protected'', VBool (yo_finalized_artifacts_protected r)),
       (''finalized_artifacts_detected'', VInt (yo_finalized_artifacts_detected r)),
       (''append_only_lineage_preserved'', VBool (yo_append_only_lineage_preserved r)),
       (''authoritative_source'', VStr (yo_authoritative_source r)),
       (''rows_scanned'', VInt (yo_rows_scanned r)), (''rows_valid'', VInt (yo_rows_valid r)),
       (''rows_invalid'', VInt (yo_rows_invalid r)),
       (''orchestration_blocked'', VBool (yo_orchestration_blocked r)),
       (''blocking_reason'', opt_val (yo_blocking_reason r)),
       (''orchestration_continues'', VBool (yo_orchestration_continues r)),
       (''reason_codes'', str_list (yo_reason_codes r)),
       (''duration_ms'', VInt (yo_duration_ms r))])"

section \<open>Gate, thresholds and intent\<close>

definition sync_precondition_gate :: "string set \<Rightarrow> sync_context \<Rightarrow> string list" where
  "sync_precondition_gate idempotency_keys ctx =
     code_if (yi_execution_mode ctx \<notin> sync_execution_modes) ''INVALID_EXECUTION_MODE''
   @ code_if (yi_execution_type ctx \<notin> sync_execution_types) ''INVALID_EXECUTION_TYPE''
   @ code_if (\<not> given (yi_config_version_id ctx)) ''CONFIG_VERSION_ID_MISSING''
   @ code_if (\<not> given (yi_correlation_id ctx)) ''CORRELATION_ID_MISSING''
   @ code_if (\<not> given (yi_origin_source ctx)) ''ORIGIN_SOURCE_MISSING''
   @ code_if (\<not> given (yi_origin_authority ctx)) ''ORIGIN_AUTHORITY_MISSING''
   @ code_if (\<not> given (yi_actor_identity ctx)) ''ACTOR_IDENTITY_MISSING''
   @ code_if (given (yi_idempotency_key ctx) \<and> the (yi_idempotency_key ctx) \<in> idempotency_keys)
       ''IDEMPOTENCY_DUPLICATE_DETECTED''"

definition resolve_sync_thresholds :: "pydict \<Rightarrow> pydict \<times> string list" where
  "resolve_sync_thresholds rule_set =
    (let bound = (\<lambda>k. has_key rule_set k \<and> dict_get rule_set k \<noteq> VStr UNKNOWN_V0)
     in (map (\<lambda>k. (k, if bound k then dict_get rule_set k else VStr UNKNOWN_V0)) sync_threshold_keys,
         filter (\<lambda>k. \<not> bound k) sync_threshold_keys))"

text \<open>The lag exceeds a usable threshold; a malformed one counts as unknown.\<close>

definition lag_exceeded :: "runtime \<Rightarrow> sync_context \<Rightarrow> pydict \<Rightarrow> bool res" where
  "lag_exceeded rt ctx bindings =
    (let lag_threshold = dict_get bindings ''sql_server_max_sync_age_hours''
     in if bound_threshold lag_threshold
        then tolerate False (bind_res (py_float (rt_float_of_text rt) lag_threshold)
          (\<lambda>f. Inr (fgt (yi_sync_lag_hours ctx) f)))
        else Inr False)"

definition classify_sync_intent :: "runtime \<Rightarrow> sync_context \<Rightarrow> pydict \<Rightarrow> bool \<Rightarrow> string res" where
  "classify_sync_intent rt ctx bindings sync_blocked =
    (if sync_blocked then Inr ''HOLD''
     else if \<not> yi_sql_server_available ctx then Inr ''DEFER_STALE''
     else bind_res (lag_exceeded rt ctx bindings) (\<lambda>stale.
       if stale then Inr ''DEFER_STALE''
       else if yi_rows_invalid ctx > 0 then Inr ''RECONCILE_CONFLICTS''
       else Inr ''INGEST_AUTHORITATIVE''))"

section \<open>The coordination cycle\<close>

text \<open>Rules 3--13 for an original or recovery execution outside maintenance.\<close>

definition sync_coordinate :: "runtime \<Rightarrow> sync_context \<Rightarrow> sync_record res" where
  "sync_coordinate rt ctx =
    (let rule_set = (case yi_config_rule_set ctx of None \<Rightarrow> [] | Some d \<Rightarrow> d);
         (bindings, missing) = resolve_sync_thresholds rule_set;
         missing_flags = map (\<lambda>k. ''CONFIG_THRESHOLD_MISSING_'' @ upper k) missing;
         circuit_open = (yi_circuit_breaker_state ctx = ''OPEN'');
         unavailable = (\<not> yi_sql_server_available ctx);
         hold = yi_compliance_hold_flag ctx;
         sync_blocked = (circuit_open \<or> unavailable \<or> hold);
         sync_blocked_reason = (if circuit_open then Some ''CIRCUIT_BREAKER_OPEN''
           else if unavailable then Some ''SQL_SERVER_UNAVAILABLE''
           else if hold then Some ''COMPLIANCE_HOLD_ACTIVE'' else None)
     in bind_res (lag_exceeded rt ctx bindings) (\<lambda>lagging.
        bind_res (classify_sync_intent rt ctx bindings sync_blocked) (\<lambda>sync_intent.
        let raised_flags = code_if circuit_open ''CIRCUIT_BREAKER_OPEN''
              @ code_if unavailable ''SQL_SERVER_UNAVAILABLE''
              @ code_if lagging ''SYNC_LAG_EXCEEDED''
              @ code_if hold ''COMPLIANCE_HOLD_SYNC_BLOCKED'';
            degradation_flags = missing_flags @ raised_flags;
            (governance_scope, outcome, scope_codes) =
              (if sync_blocked then (''UNAVAILABLE'', ''degraded'', [])
               else if yi_execution_mode ctx = ''SHADOW'' then (''SHADOW_ONLY'', ''shadow_only'', [])
               else (''SHADOW_ONLY'', ''shadow_only'', [''LIVE_SCOPE_SHADOW_ONLY_PHASE11'']));
            codes = missing_flags @ [''SQL_SERVER_READ_ONLY_BOUNDARY_ENFORCED'']
              @ code_if (yi_finalized_artifacts_detected ctx > 0)
                  (''FINALIZED_ARTIFACTS_PROTECTED_'' @ show_int (yi_finalized_artifacts_detected ctx))
              @ raised_flags @ [''INTENT_'' @ sync_intent] @ scope_codes;
            degraded = (degradation_flags \<noteq> [])
        in Inr (make_sync_coordination_record rt ctx codes
             [''RULE_0'', ''RULE_1'', ''RULE_2'', ''RULE_3'', ''RULE_4'', ''RULE_5'', ''RULE_6'',
              ''RULE_7'', ''RULE_8'', ''RULE_9'', ''RULE_10'', ''RULE_11'', ''RULE_12'', ''RULE_13'']
             bindings governance_scope (Some sync_intent) False sync_blocked_reason
             (yi_rows_invalid ctx > 0) degraded degradation_flags
             (if degraded then Some (hd degradation_flags) else None) outcome))))"

definition sync_evaluate :: "runtime \<Rightarrow> sync_context \<Rightarrow> sync_record res" where
  "sync_evaluate rt ctx =
    (if yi_maintenance_mode_active ctx then
       Inr (make_maintenance_sync_record rt ctx [''MAINTENANCE_MODE_ACTIVE''] [''RULE_0'', ''RULE_1''])
     else if yi_execution_type ctx \<in> sync_replay_types then
       Inr (make_replay_sync_record rt ctx
         (''REPLAY_MODE_ACTIVE''
           # code_if (\<not> given (yi_source_artifact_id ctx)) ''REPLAY_SOURCE_ARTIFACT_MISSING'')
         [''RULE_0'', ''RULE_1'', ''RULE_2''] [])
     else sync_coordinate rt ctx)"

text \<open>Each record that is returned has been logged; an exception that escapes has not.\<close>

definition coordinate_sync_cycle ::
  "runtime \<Rightarrow> sync_context \<Rightarrow> store \<Rightarrow> sync_record res \<times> store" where
  "coordinate_sync_cycle rt ctx s =
    (let gate_codes = sync_precondition_gate (keys s) ctx;
         logged = (\<lambda>r. emit (emit_sync_event_log rt r))
     in if gate_codes \<noteq> [] then
          let r = make_blocked_sync_record rt ctx gate_codes [''RULE_0''] [] (Some (hd gate_codes))
          in (Inr r, logged r s)
        else
          let s1 = (if given (yi_idempotency_key ctx) \<and> yi_execution_type ctx = ''original''
                    then register (yi_idempotency_key ctx) s else s)
          in case sync_evaluate rt ctx of
               Inl e \<Rightarrow> (Inl e, s1)
             | Inr r \<Rightarrow> (Inr r, logged r s1))"

section \<open>The service is idempotent\<close>

lemmas sync_records = make_blocked_sync_record_def make_maintenance_sync_record_def
  make_replay_sync_record_def make_sync_coordination_record_def

abbreviation sync_serve ::
  "runtime \<times> sync_context \<Rightarrow> store \<Rightarrow> sync_record res \<times> store" where
  "sync_serve c s \<equiv> coordinate_sync_cycle (fst c) (snd c) s"

definition sync_refused :: "sync_record res \<Rightarrow> bool" where
  "sync_refused x = (case x of Inl e \<Rightarrow> False | Inr r \<Rightarrow> yo_orchestration_blocked r)"

lemma sync_coordinate_not_blocked:
  "sync_coordinate rt ctx = Inr r \<Longrightarrow> \<not> yo_orchestration_blocked r"
  unfolding sync_coordinate_def Let_def case_prod_unfold bind_res_Inr_iff
  by (auto simp: make_sync_coordination_record_def)

lemma sync_evaluate_not_blocked:
  "sync_evaluate rt ctx = Inr r \<Longrightarrow> \<not> yo_orchestration_blocked r"
  by (auto simp: sync_evaluate_def sync_records Let_def sync_coordinate_not_blocked
      split: if_split_asm)

lemma sync_refused_iff:
  "sync_refused (fst (coordinate_sync_cycle rt ctx s)) \<longleftrightarrow>
     sync_precondition_gate (keys s) ctx \<noteq> []"
  by (auto simp: coordinate_sync_cycle_def Let_def sync_refused_def make_blocked_sync_record_def
      sync_evaluate_not_blocked split: sum.split)

lemma sync_keys:
  "keys (snd (coordinate_sync_cycle rt ctx s)) =
     (if sync_precondition_gate (keys s) ctx = [] \<and> given (yi_idempotency_key ctx)
         \<and> yi_execution_type ctx = ''original''
      then insert (the (yi_idempotency_key ctx)) (keys s) else keys s)"
  by (auto simp: coordinate_sync_cycle_def Let_def given_iff split: sum.split)

lemma sync_events:
  "events (snd (coordinate_sync_cycle rt ctx s)) = events s @
     (case fst (coordinate_sync_cycle rt ctx s) of Inl e \<Rightarrow> []
      | Inr r \<Rightarrow> [emit_sync_event_log rt r])"
  by (simp add: coordinate_sync_cycle_def Let_def split: sum.split)

lemma sync_duplicate_gated:
  "given (yi_idempotency_key ctx) \<Longrightarrow> the (yi_idempotency_key ctx) \<in> ks \<Longrightarrow>
     sync_precondition_gate ks ctx \<noteq> []"
  by (simp add: sync_precondition_gate_def)

interpretation sync_service: strict_idempotent_service sync_serve
  "yi_idempotency_key \<circ> snd" "\<lambda>c. yi_execution_type (snd c) = ''original''" sync_refused
proof unfold_locales
qed (auto simp: sync_keys sync_refused_iff sync_events sync_duplicate_gated)

end
