(* ===== verification/SyncProps.thy ===== *)
theory SyncProps
  imports SyncCoordination
begin

text \<open>
  What the synchronization coordination promises: no cycle is dispatched, the intent follows a
  table whose deferral row for an unavailable source is never reached, an idempotency key is
  accepted once, and only an overflow escapes, unlogged.
\<close>

section \<open>Errors of the lag threshold\<close>

lemma lag_exceeded_Inl: "lag_exceeded rt ctx b = Inl e \<Longrightarrow> e = OverflowError"
  by (auto simp: lag_exceeded_def Let_def tolerate_Inl bind_Inl_iff dest: py_float_errors
      split: if_split_asm)

lemma classify_sync_intent_Inl: "classify_sync_intent rt ctx b t = Inl e \<Longrightarrow> e = OverflowError"
  by (auto simp: classify_sync_intent_def bind_Inl_iff dest: lag_exceeded_Inl split: if_split_asm)

lemma sync_coordinate_Inl: "sync_coordinate rt ctx = Inl e \<Longrightarrow> e = OverflowError"
  unfolding sync_coordinate_def Let_def case_prod_unfold bind_Inl_iff
  by (auto dest: classify_sync_intent_Inl lag_exceeded_Inl)

section \<open>The cycle, path by path\<close>

definition sync_bindings :: "sync_context \<Rightarrow> pydict" where
  "sync_bindings ctx = fst (resolve_sync_thresholds
     (case yi_config_rule_set ctx of None \<Rightarrow> [] | Some d \<Rightarrow> d))"

definition sync_source_blocked :: "sync_context \<Rightarrow> bool" where
  "sync_source_blocked ctx \<longleftrightarrow> yi_circuit_breaker_state ctx = ''OPEN''
     \<or> \<not> yi_sql_server_available ctx \<or> yi_compliance_hold_flag ctx"

text \<open>The calls that reach Rule 3.\<close>

definition sync_coordinated :: "string set \<Rightarrow> sync_context \<Rightarrow> bool" where
  "sync_coordinated ks ctx \<longleftrightarrow> sync_precondition_gate ks ctx = []
     \<and> \<not> yi_maintenance_mode_active ctx \<and> yi_execution_type ctx \<notin> sync_replay_types"

definition sync_scope :: "string set \<Rightarrow> sync_context \<Rightarrow> string" where
  "sync_scope ks ctx =
    (if sync_precondition_gate ks ctx \<noteq> [] then ''UNAVAILABLE''
     else if yi_maintenance_mode_active ctx then ''MAINTENANCE''
     else if yi_execution_type ctx \<in> sync_replay_types then ''REPLAY_ONLY''
     else if sync_source_blocked ctx then ''UNAVAILABLE'' else ''SHADOW_ONLY'')"

lemma sync_coordinate_fields:
  assumes "sync_coordinate rt ctx = Inr r"
  shows "yo_governance_scope r = (if sync_source_blocked ctx then ''UNAVAILABLE'' else ''SHADOW_ONLY'')"
    and "\<not> yo_dispatch_authorized r" and "yo_live_effects_suppressed r"
    and "yo_sql_server_read_only_enforced r" and "yo_finalized_artifacts_protected r"
    and "yo_append_only_lineage_preserved r"
    and "yo_origin_source r = yi_origin_source ctx"
    and "yo_origin_authority r = yi_origin_authority ctx"
    and "yo_actor_identity r = yi_actor_identity ctx"
    and "yo_correlation_id r = yi_correlation_id ctx"
    and "yo_conflict_preservation_required r \<longleftrightarrow> yi_rows_invalid ctx > 0"
  using assms unfolding sync_coordinate_def Let_def case_prod_unfold bind_res_Inr_iff
  by (auto simp: make_sync_coordination_record_def sync_source_blocked_def)

lemma sync_coordinate_intent:
  assumes "sync_coordinate rt ctx = Inr r"
  obtains stale i where "lag_exceeded rt ctx (sync_bindings ctx) = Inr stale"
    and "classify_sync_intent rt ctx (sync_bindings ctx) (sync_source_blocked ctx) = Inr i"
    and "yo_sync_intent r = Some i"
  using assms unfolding sync_coordinate_def Let_def case_prod_unfold bind_res_Inr_iff
  by (auto simp: make_sync_coordination_record_def sync_source_blocked_def
      simp flip: sync_bindings_def)

lemma classify_sync_intent_total:
  "lag_exceeded rt ctx b = Inr l \<Longrightarrow> \<exists>i. classify_sync_intent rt ctx b t = Inr i"
  by (simp add: classify_sync_intent_def)

lemma sync_coordinate_total:
  assumes "lag_exceeded rt ctx (sync_bindings ctx) = Inr l"
  shows "\<exists>r. sync_coordinate rt ctx = Inr r"
proof -
  from classify_sync_intent_total [OF assms]
  obtain i where "classify_sync_intent rt ctx (sync_bindings ctx) (yi_circuit_breaker_state ctx = ''OPEN''
      \<or> \<not> yi_sql_server_available ctx \<or> yi_compliance_hold_flag ctx) = Inr i" by blast
  with assms show ?thesis
    unfolding sync_coordinate_def Let_def case_prod_unfold sync_bindings_def
    by (simp only: bind_res_simps) blast
qed

lemma sync_coordinated_result:
  "sync_coordinated (keys s) ctx \<Longrightarrow> fst (coordinate_sync_cycle rt ctx s) = sync_coordinate rt ctx"
  by (simp add: sync_coordinated_def coordinate_sync_cycle_def sync_evaluate_def Let_def
      split: sum.split)

text \<open>
  Synchronization coordination has no authority: no dispatch, live effects suppressed, the
  read-only, finalization and lineage guarantees set on every path, the scope follows the path,
  attribution is passed on, the record is logged; only an overflow escapes, unlogged.
\<close>

theorem sync_without_authority:
  "case coordinate_sync_cycle rt ctx s of
     (Inl e, s') \<Rightarrow> e = OverflowError \<and> sync_coordinated (keys s) ctx \<and> events s' = events s
   | (Inr r, s') \<Rightarrow> \<not> yo_dispatch_authorized r \<and> yo_live_effects_suppressed r
       \<and> yo_sql_server_read_only_enforced r \<and> yo_finalized_artifacts_protected r
       \<and> yo_append_only_lineage_preserved r \<and> yo_governance_scope r = sync_scope (keys s) ctx
       \<and> (yo_origin_source r, yo_origin_authority r, yo_actor_identity r, yo_correlation_id r) =
           (yi_origin_source ctx, yi_origin_authority ctx, yi_actor_identity ctx,
            yi_correlation_id ctx)
       \<and> events s' = events s @ [emit_sync_event_log rt r]"
proof (cases "sync_coordinated (keys s) ctx")
  case True
  show ?thesis
  proof (cases "sync_coordinate rt ctx")
    case (Inl e)
    with True sync_coordinate_Inl [OF Inl] show ?thesis
      by (simp add: sync_coordinated_def coordinate_sync_cycle_def sync_evaluate_def Let_def)
  next
    case (Inr r)
    with True sync_coordinate_fields [OF Inr] show ?thesis
      by (simp add: sync_coordinated_def coordinate_sync_cycle_def sync_evaluate_def sync_scope_def
          Let_def)
  qed
next
  case False
  then show ?thesis
    by (auto simp: sync_coordinated_def coordinate_sync_cycle_def sync_evaluate_def sync_scope_def
        Let_def make_blocked_sync_record_def make_maintenance_sync_record_def
        make_replay_sync_record_def)
qed

section \<open>The intent\<close>

text \<open>An abstract table: the lag of a source is stale above a usable threshold.\<close>

definition sync_stale :: "runtime \<Rightarrow> sync_context \<Rightarrow> bool" where
  "sync_stale rt ctx \<longleftrightarrow> lag_exceeded rt ctx (sync_bindings ctx) = Inr True"

definition sync_intent_table :: "bool \<Rightarrow> bool \<Rightarrow> bool \<Rightarrow> string" where
  "sync_intent_table blocked stale invalid =
    (if blocked then ''HOLD'' else if stale then ''DEFER_STALE''
     else if invalid then ''RECONCILE_CONFLICTS'' else ''INGEST_AUTHORITATIVE'')"

text \<open>
  The synchronization intent is a function of three facts: a blocked source (open circuit
  breaker, unavailable SQL Server or compliance hold) gives HOLD, a lag above a usable threshold
  DEFER_STALE, invalid rows RECONCILE_CONFLICTS and nothing of these INGEST_AUTHORITATIVE. In
  particular an unavailable source never defers, and the scope is UNAVAILABLE exactly for HOLD.
\<close>

theorem sync_intent_follows_table:
  assumes "sync_coordinated (keys s) ctx"
    and "fst (coordinate_sync_cycle rt ctx s) = Inr r"
  shows "yo_sync_intent r = Some (sync_intent_table (sync_source_blocked ctx) (sync_stale rt ctx)
      (yi_rows_invalid ctx > 0))
    \<and> (yo_governance_scope r = ''UNAVAILABLE'' \<longleftrightarrow> yo_sync_intent r = Some ''HOLD'')
    \<and> (yo_sync_intent r = Some ''DEFER_STALE'' \<longleftrightarrow> yi_sql_server_available ctx
        \<and> \<not> sync_source_blocked ctx \<and> sync_stale rt ctx)"
proof -
  from assms have r: "sync_coordinate rt ctx = Inr r" by (simp add: sync_coordinated_result)
  then obtain stale i where l: "lag_exceeded rt ctx (sync_bindings ctx) = Inr stale"
    and c: "classify_sync_intent rt ctx (sync_bindings ctx) (sync_source_blocked ctx) = Inr i"
    and i: "yo_sync_intent r = Some i" by (rule sync_coordinate_intent)
  from l c have "i = sync_intent_table (sync_source_blocked ctx) (sync_stale rt ctx)
      (yi_rows_invalid ctx > 0)"
    by (auto simp: classify_sync_intent_def sync_intent_table_def sync_stale_def
        sync_source_blocked_def split: if_split_asm)
  with i sync_coordinate_fields(1) [OF r] show ?thesis
    by (auto simp: sync_intent_table_def sync_source_blocked_def)
qed

definition sample_sync :: sync_context where
  "sample_sync = \<lparr>yi_config_version_id = Some ''v1'', yi_execution_mode = ''SHADOW'',
     yi_execution_type = ''original'', yi_correlation_id = Some ''c-1'',
     yi_config_rule_set = Some [(''sql_server_max_sync_age_hours'', VInt 24)],
     yi_causation_id = None, yi_orchestration_cycle_id = None,
     yi_idempotency_key = Some ''k-1'', yi_maintenance_mode_active = False,
     yi_compliance_hold_flag = False, yi_origin_source = Some ''mirrored_sql_server'',
     yi_origin_authority = Some ''sql_server'', yi_actor_identity = Some ''sync'',
     yi_attribution_timestamp = None, yi_upstream_correlation_id = None,
     yi_sync_domain = ''FULL'', yi_rows_scanned = 10, yi_rows_valid = 10, yi_rows_invalid = 0,
     yi_sql_server_available = True, yi_sync_lag_hours = Fin 25,
     yi_circuit_breaker_state = ''CLOSED'', yi_finalized_artifacts_detected = 0,
     yi_historical_config_version_id = None, yi_source_artifact_id = None\<rparr>"

lemma sample_sync_facts:
  "sync_coordinated (keys empty_store) sample_sync"
  "lag_exceeded (sample_runtime 1) sample_sync (sync_bindings sample_sync) = Inr True"
  "\<not> sync_source_blocked sample_sync"
proof -
  show "sync_coordinated (keys empty_store) sample_sync"
    by (simp add: sync_coordinated_def sync_precondition_gate_def sync_execution_modes_def
        sync_execution_types_def sync_replay_types_def sample_sync_def empty_store_def)
  have r: "round53 24 = 24" by code_simp
  show "lag_exceeded (sample_runtime 1) sample_sync (sync_bindings sample_sync) = Inr True"
    by (simp add: lag_exceeded_def sync_bindings_def resolve_sync_thresholds_def
        sync_threshold_keys_def bound_threshold_def float_of_int_def r sample_sync_def Let_def)
  show "\<not> sync_source_blocked sample_sync"
    by (simp add: sync_source_blocked_def sample_sync_def)
qed

theorem sync_intent_follows_table_witness:
  "\<exists>r. fst (coordinate_sync_cycle (sample_runtime 1) sample_sync empty_store) = Inr r
     \<and> yo_sync_intent r = Some ''DEFER_STALE''"
proof -
  from sync_coordinate_total [OF sample_sync_facts(2)]
  have "\<exists>r. sync_coordinate (sample_runtime 1) sample_sync = Inr r" .
  then obtain r where r: "fst (coordinate_sync_cycle (sample_runtime 1) sample_sync empty_store) = Inr r"
    using sync_coordinated_result [OF sample_sync_facts(1)] by auto
  have table: "sync_intent_table (sync_source_blocked sample_sync)
      (sync_stale (sample_runtime 1) sample_sync) (yi_rows_invalid sample_sync > 0) = ''DEFER_STALE''"
    using sample_sync_facts(2,3) by (simp add: sync_stale_def sync_intent_table_def)
  from sync_intent_follows_table [OF sample_sync_facts(1) r]
  have "yo_sync_intent r = Some ''DEFER_STALE''" unfolding table by (rule conjunct1)
  with r show ?thesis by blast
qed

end
