(* ===== verification/Cells.thy ===== *)
theory Cells
  imports Prelude "HOL-Library.AList"
begin

text \<open>
  Values of database columns as Python sees them, rows, and the conversions that the
  synchronization, payment, segmentation, snapshot and report code applies to them. A student
  record is a map from column names to cells; a column it does not have reads as
  \<^verbatim>\<open>None\<close>. Conversions of texts and rounding of arithmetic are parameters.
\<close>

section \<open>Values of a column\<close>

datatype cell =
    CNull
  | CBool bool
  | CInt int
  | CFloat pyfloat
  | CDecimal rat
  | CText string
  | CTime string
  | CJson "(string \<times> cell) list"

type_synonym row = "(string \<times> cell) list"

fun cell_truthy :: "cell \<Rightarrow> bool" where
  "cell_truthy CNull = False"
| "cell_truthy (CBool b) = b"
| "cell_truthy (CInt n) = (n \<noteq> 0)"
| "cell_truthy (CFloat f) = (f \<noteq> Fin 0)"
| "cell_truthy (CDecimal q) = (q \<noteq> 0)"
| "cell_truthy (CText s) = (s \<noteq> [])"
| "cell_truthy (CTime t) = True"
| "cell_truthy (CJson d) = (d \<noteq> [])"

text \<open>\<^verbatim>\<open>int(v)\<close>\<close>

fun cell_int :: "cell \<Rightarrow> int res" where
  "cell_int (CBool b) = py_int (VBool b)"
| "cell_int (CInt n) = Inr n"
| "cell_int (CFloat f) = py_int (VFloat f)"
| "cell_int (CDecimal q) = Inr (trunc_rat q)"
| "cell_int (CText s) = py_int (VStr s)"
| "cell_int _ = Inl TypeError"

text \<open>\<^verbatim>\<open>row.get(k)\<close> and \<^verbatim>\<open>a or b\<close>\<close>

definition get :: "row \<Rightarrow> string \<Rightarrow> cell" where
  "get r k = (case map_of r k of None \<Rightarrow> CNull | Some v \<Rightarrow> v)"

definition or_cell :: "cell \<Rightarrow> cell \<Rightarrow> cell" where
  "or_cell a b = (if cell_truthy a then a else b)"

type_synonym student = "string \<rightharpoonup> cell"

text \<open>\<^verbatim>\<open>s.get(k)\<close> of a student record\<close>

definition attr :: "student \<Rightarrow> string \<Rightarrow> cell" where
  "attr s k = (case s k of None \<Rightarrow> CNull | Some v \<Rightarrow> v)"

lemma or_cell_simps [simp]:
  "or_cell CNull d = d" "cell_truthy v \<Longrightarrow> or_cell v d = v"
  by (simp_all add: or_cell_def)

section \<open>Floats\<close>

text \<open>
  What the float arithmetic of the platform is: the conversion of texts and decimals, the rounded
  difference, and the percentage rounded to one decimal.
\<close>

record float_lib =
  fl_of_text :: "string \<Rightarrow> pyfloat option"
  fl_of_decimal :: "rat \<Rightarrow> pyfloat"
  fl_sub :: "pyfloat \<Rightarrow> pyfloat \<Rightarrow> pyfloat"
  fl_pct :: "pyfloat \<Rightarrow> pyfloat \<Rightarrow> pyfloat"

text \<open>\<^verbatim>\<open>float(v)\<close>\<close>

fun cell_float :: "float_lib \<Rightarrow> cell \<Rightarrow> pyfloat res" where
  "cell_float L (CBool b) = Inr (Fin (if b then 1 else 0))"
| "cell_float L (CInt n) = float_of_int n"
| "cell_float L (CFloat f) = Inr f"
| "cell_float L (CDecimal q) = Inr (fl_of_decimal L q)"
| "cell_float L (CText s) = (case fl_of_text L s of None \<Rightarrow> Inl ValueError | Some f \<Rightarrow> Inr f)"
| "cell_float L _ = Inl TypeError"

text \<open>\<^verbatim>\<open>float(s.get(k) or 0)\<close>\<close>

definition float_field :: "float_lib \<Rightarrow> student \<Rightarrow> string \<Rightarrow> pyfloat res" where
  "float_field L s k = cell_float L (or_cell (attr s k) (CInt 0))"

text \<open>\<^verbatim>\<open>max(0.0, x)\<close>: the first argument unless the second is greater.\<close>

definition max_zero :: "pyfloat \<Rightarrow> pyfloat" where
  "max_zero x = (if fgt x (Fin 0) then x else Fin 0)"

lemma max_zero_nonneg: "fge (max_zero x) (Fin 0)"
  by (cases x) (auto simp: max_zero_def fge_def fgt_def)

lemma fgt_fge: "fgt x y \<Longrightarrow> fge x y"
  by (simp add: fge_def fgt_def)

section \<open>Texts\<close>

text \<open>\<^verbatim>\<open>needle in hay\<close>\<close>

fun starts_with :: "string \<Rightarrow> string \<Rightarrow> bool" where
  "starts_with [] s = True"
| "starts_with (c # cs) [] = False"
| "starts_with (c # cs) (d # ds) = (c = d \<and> starts_with cs ds)"

fun contains :: "string \<Rightarrow> string \<Rightarrow> bool" where
  "contains p [] = (p = [])"
| "contains p (c # s) = (starts_with p (c # s) \<or> contains p s)"

lemma starts_with_iff: "starts_with p s \<longleftrightarrow> (\<exists>t. s = p @ t)"
  by (induction p s rule: starts_with.induct) auto

lemma contains_iff: "contains p s \<longleftrightarrow> (\<exists>u t. s = u @ p @ t)"
proof (induction s)
  case (Cons c s)
  note IH = Cons
  show ?case
  proof
    assume "contains p (c # s)"
    then consider t where "c # s = p @ t" | "contains p s" by (auto simp: starts_with_iff)
    then show "\<exists>u t. c # s = u @ p @ t"
    proof cases
      case 1
      then have "c # s = [] @ p @ t" by simp
      then show ?thesis by blast
    next
      case 2
      then obtain u t where "s = u @ p @ t" using Cons by blast
      then have "c # s = (c # u) @ p @ t" by simp
      then show ?thesis by blast
    qed
  next
    assume "\<exists>u t. c # s = u @ p @ t"
    then obtain u t where "c # s = u @ p @ t" by blast
    then show "contains p (c # s)"
    proof (cases u)
      case Nil
      with \<open>c # s = u @ p @ t\<close> have "starts_with p (c # s)" by (auto simp: starts_with_iff)
      then show ?thesis by simp
    next
      case (Cons d v)
      with \<open>c # s = u @ p @ t\<close> IH show ?thesis by auto
    qed
  qed
qed auto

text \<open>The text of a value in a formatted string.\<close>

definition cell_text :: "(cell \<Rightarrow> string) \<Rightarrow> cell \<Rightarrow> string" where
  "cell_text str v = (case v of CText s \<Rightarrow> s | _ \<Rightarrow> str v)"

section \<open>Errors\<close>

datatype call_error = Py py_error | AttributeError | DatabaseError

type_synonym 'a call_res = "call_error + 'a"


text \<open>A conversion inside a call, and sequencing of calls.\<close>

definition lift_call :: "'a res \<Rightarrow> 'a call_res" where
  "lift_call m = (case m of Inl e \<Rightarrow> Inl (Py e) | Inr a \<Rightarrow> Inr a)"

definition bind_call :: "'a call_res \<Rightarrow> ('a \<Rightarrow> 'b call_res) \<Rightarrow> 'b call_res" where
  "bind_call m f = (case m of Inl e \<Rightarrow> Inl e | Inr a \<Rightarrow> f a)"

lemma bind_call_Inr: "bind_call m f = Inr b \<longleftrightarrow> (\<exists>a. m = Inr a \<and> f a = Inr b)"
  by (cases m) (auto simp: bind_call_def)

lemma lift_call_Inr [simp]: "lift_call m = Inr a \<longleftrightarrow> m = Inr a"
  by (cases m) (auto simp: lift_call_def)

lemma bind_call_simps [simp]: "bind_call (Inl e) f = Inl e" "bind_call (Inr a) f = f a"
  by (simp_all add: bind_call_def)

lemma bind_call_Inl: "bind_call m f = Inl e \<longleftrightarrow> m = Inl e \<or> (\<exists>a. m = Inr a \<and> f a = Inl e)"
  by (cases m) auto

end
