(* ===== verification/CellStore.thy ===== *)
theory CellStore
  imports Main
begin

text \<open>
  The contract of a database that is written by statements, as a locale: a statement overwrites
  the cells it names and leaves every other cell, and two databases with the same cells are the
  same. Whatever satisfies it can repeat a batch of statements without effect, and the last
  statement that names a cell decides it. \<open>MirrorSync\<close> interprets it on the upserts of the
  synchronization.
\<close>

definition batch_writes :: "('s \<Rightarrow> 'l \<rightharpoonup> 'v) \<Rightarrow> 's list \<Rightarrow> 'l \<rightharpoonup> 'v" where
  "batch_writes wr ss = foldl (\<lambda>m s. m ++ wr s) Map.empty ss"

lemma foldl_map_add: "foldl (\<lambda>m s. m ++ wr s) m ss = m ++ foldl (\<lambda>m s. m ++ wr s) Map.empty ss"
proof (induction ss arbitrary: m)
  case (Cons s ss)
  show ?case
    using Cons [of "m ++ wr s"] Cons [of "wr s"] by (simp add: map_add_assoc)
qed simp

lemma batch_writes_simps [simp]:
  "batch_writes wr [] = Map.empty"
  "batch_writes wr (s # ss) = wr s ++ batch_writes wr ss"
  using foldl_map_add [of wr "wr s" ss] by (simp_all add: batch_writes_def)

lemma batch_writes_append:
  "batch_writes wr (ss @ ss') = batch_writes wr ss ++ batch_writes wr ss'"
  by (induction ss) simp_all

lemma batch_writes_None:
  "batch_writes wr ss l = None \<longleftrightarrow> (\<forall>s \<in> set ss. wr s l = None)"
  by (induction ss) (auto simp: map_add_None)

lemma batch_writes_cases:
  assumes "batch_writes wr ss l = Some v"
  obtains s where "s \<in> set ss" and "wr s l = Some v"
  using assms by (induction ss) (auto simp: map_add_Some_iff)

locale cell_store =
  fixes exec :: "'s \<Rightarrow> 'd \<Rightarrow> 'd"
    and cells :: "'d \<Rightarrow> 'l \<rightharpoonup> 'v"
    and writes :: "'s \<Rightarrow> 'l \<rightharpoonup> 'v"
  assumes cells_exec: "cells (exec s d) = cells d ++ writes s"
    and cells_inj: "cells d = cells d' \<Longrightarrow> d = d'"
begin

lemma cells_batch: "cells (fold exec ss d) = cells d ++ batch_writes writes ss"
  by (induction ss arbitrary: d) (simp_all add: cells_exec map_add_assoc)

lemma batch_idempotent: "fold exec ss (fold exec ss d) = fold exec ss d"
  by (rule cells_inj) (auto simp: cells_batch map_add_def fun_eq_iff split: option.split)

lemma batch_frame:
  "(\<And>s. s \<in> set ss \<Longrightarrow> writes s l = None) \<Longrightarrow> cells (fold exec ss d) l = cells d l"
  by (simp add: cells_batch map_add_dom_app_simps(3) domIff batch_writes_None)

lemma batch_written:
  assumes "s \<in> set ss" and "writes s l \<noteq> None"
  obtains s' where "s' \<in> set ss" and "cells (fold exec ss d) l = writes s' l" and "writes s' l \<noteq> None"
proof -
  from assms have "batch_writes writes ss l \<noteq> None" by (auto simp: batch_writes_None)
  then obtain v where v: "batch_writes writes ss l = Some v" by blast
  from v obtain s' where "s' \<in> set ss" "writes s' l = Some v" by (rule batch_writes_cases)
  with v that show ?thesis by (simp add: cells_batch map_add_Some_iff)
qed

end

end
