(* ===== verification/MirrorSync.thy ===== *)
theory MirrorSync
  imports Cells CellStore
begin

text \<open>
  The operational synchronization of \<^verbatim>\<open>app/services/sync.py\<close> and the fetches of
  \<^verbatim>\<open>app/database.py\<close> it calls: rows of SQL Server are filtered, coerced and
  upserted into the PostgreSQL mirrors, in one transaction per call.

  A row is an association list of column names and cells. A mirror maps a primary key to the
  other columns of its row. A call that raises leaves the database as it was, because the session
  is closed without a commit. \<open>source_lib\<close> holds what the code takes from libraries: texts of
  values, conversion of timestamps, and what the database driver accepts.
\<close>

section \<open>The database\<close>

datatype mirror_table = Students | Mentors | InterviewPrep | MonthState string

text \<open>
  A row of \<^verbatim>\<open>student_campaign_activity\<close>: the columns an insert sends, and the two the database
  fills, the identifier from its sequence and \<^verbatim>\<open>created_at\<close> with the start of the transaction.
\<close>

record activity_values =
  ca_student_user_id :: int
  ca_activity_date :: "string option"
  ca_activity_type :: string
  ca_activity_label :: "string option"
  ca_channel :: string
  ca_subject :: "string option"
  ca_message_body :: string
  ca_source :: string
  ca_created_by :: cell
  ca_execution_mode :: string
  ca_shadow_only :: bool
  ca_correlation_id :: "string option"
  ca_causation_id :: "string option"
  ca_config_version_id :: "string option"
  ca_execution_type :: string
  ca_governance_scope :: string
  ca_is_replay :: bool
  ca_attribution_complete :: bool

record activity = activity_values +
  ca_id :: int
  ca_created_at :: string

type_synonym mirrors = "mirror_table \<Rightarrow> int \<Rightarrow> (string \<rightharpoonup> cell) option"

record sync_db =
  sd_mirrors :: mirrors
  sd_activities :: "activity list"

record sync_state =
  sy_db :: sync_db
  sy_log :: "log_line list"

text \<open>What the libraries do: the texts of values, the Unicode case mappings,
  \<^verbatim>\<open>json.dumps\<close>, ISO timestamps, and the keys, values and rows the driver accepts.\<close>

record source_lib =
  sl_str :: "cell \<Rightarrow> string"
  sl_upper :: "string \<Rightarrow> string"
  sl_lower :: "string \<Rightarrow> string"
  sl_dumps :: "row \<Rightarrow> string"
  sl_utc :: "string \<Rightarrow> string"
  sl_parse_iso :: "string \<Rightarrow> string option"
  sl_accepts :: "mirror_table \<Rightarrow> string \<Rightarrow> cell \<Rightarrow> bool"
  sl_accepts_key :: "cell \<Rightarrow> int option"
  sl_accepts_activity :: "activity_values \<Rightarrow> bool"

text \<open>
  An upsert: the statement \<^verbatim>\<open>INSERT ... ON CONFLICT DO UPDATE\<close> on the primary key sets
  exactly the given columns.
\<close>

datatype statement = Upsert (stmt_table: mirror_table) (stmt_key: cell) (stmt_values: row)

definition upsert :: "mirror_table \<Rightarrow> int \<Rightarrow> row \<Rightarrow> mirrors \<Rightarrow> mirrors" where
  "upsert t k vs M = M(t := (M t)(k \<mapsto>
     (case M t k of None \<Rightarrow> Map.empty | Some r \<Rightarrow> r) ++ map_of vs))"

text \<open>The driver rejects a key or a value that does not fit its column.\<close>

definition execute :: "source_lib \<Rightarrow> statement \<Rightarrow> mirrors \<Rightarrow> mirrors call_res" where
  "execute lib s M =
    (case sl_accepts_key lib (stmt_key s) of
       None \<Rightarrow> Inl DatabaseError
     | Some k \<Rightarrow>
         (if list_all (\<lambda>(c, v). sl_accepts lib (stmt_table s) c v) (stmt_values s)
          then Inr (upsert (stmt_table s) k (stmt_values s) M) else Inl DatabaseError))"

text \<open>
  The mirrors are a \<open>cell_store\<close>: a location is a table, a key and a column, or the existence of
  the row.
\<close>

type_synonym location = "mirror_table \<times> int \<times> string option"

fun mirror_cells :: "mirrors \<Rightarrow> location \<rightharpoonup> cell" where
  "mirror_cells M (t, k, None) = (if M t k = None then None else Some CNull)"
| "mirror_cells M (t, k, Some c) = (case M t k of None \<Rightarrow> None | Some r \<Rightarrow> r c)"

fun upsert_writes :: "mirror_table \<times> int \<times> row \<Rightarrow> location \<rightharpoonup> cell" where
  "upsert_writes (t, k, vs) (t', k', None) = (if t' = t \<and> k' = k then Some CNull else None)"
| "upsert_writes (t, k, vs) (t', k', Some c) = (if t' = t \<and> k' = k then map_of vs c else None)"

definition run_upsert :: "mirror_table \<times> int \<times> row \<Rightarrow> mirrors \<Rightarrow> mirrors" where
  "run_upsert s = upsert (fst s) (fst (snd s)) (snd (snd s))"

lemma mirror_cells_upsert:
  "mirror_cells (run_upsert s M) l = (mirror_cells M ++ upsert_writes s) l"
proof (cases s)
  case s: (fields t k vs)
  obtain t' k' c where l: "l = (t', k', c)" by (cases l)
  show ?thesis
    by (cases c)
      (auto simp: s l run_upsert_def upsert_def map_add_def fun_upd_apply split: option.split)
qed

lemma mirror_cells_inj:
  assumes "mirror_cells M = mirror_cells M'"
  shows "M = M'"
proof (intro ext)
  fix t k
  have row: "mirror_cells M (t, k, c) = mirror_cells M' (t, k, c)" for c using assms by simp
  show "M t k = M' t k"
    using row [of None] row [of "Some c" for c]
    by (cases "M t k"; cases "M' t k") (auto simp: fun_eq_iff split: if_split_asm)
qed

interpretation mirror_store: cell_store run_upsert mirror_cells upsert_writes
proof unfold_locales
qed (rule ext, rule mirror_cells_upsert, erule mirror_cells_inj)

section \<open>The loop over the fetched rows\<close>

text \<open>
  The loops of the imports: each row is skipped (no statement), raises, or is written by its
  statements; \<open>counts\<close> holds the counter of each table.
\<close>

type_synonym counts = "mirror_table \<Rightarrow> int"

fun execute_all ::
  "source_lib \<Rightarrow> statement list \<Rightarrow> counts \<times> mirrors \<Rightarrow> (counts \<times> mirrors) call_res" where
  "execute_all lib [] st = Inr st"
| "execute_all lib (s # ss) (cnt, M) =
     (case execute lib s M of
        Inl e \<Rightarrow> Inl e
      | Inr M' \<Rightarrow> execute_all lib ss (cnt(stmt_table s := cnt (stmt_table s) + 1), M'))"

fun import_rows ::
  "source_lib \<Rightarrow> (row \<Rightarrow> statement list call_res) \<Rightarrow> row list \<Rightarrow> counts \<times> mirrors
   \<Rightarrow> (counts \<times> mirrors) call_res" where
  "import_rows lib plan [] st = Inr st"
| "import_rows lib plan (r # rs) st =
     (case plan r of
        Inl e \<Rightarrow> Inl e
      | Inr ss \<Rightarrow>
          (case execute_all lib ss st of
             Inl e \<Rightarrow> Inl e
           | Inr st' \<Rightarrow> import_rows lib plan rs st'))"

text \<open>The transaction: an exception leaves the database as it was.\<close>

definition run_import ::
  "source_lib \<Rightarrow> (row \<Rightarrow> statement list call_res) \<Rightarrow> row list
   \<Rightarrow> (counts \<Rightarrow> pydict) \<Rightarrow> (counts \<Rightarrow> pydict) \<Rightarrow> sync_state \<Rightarrow> pydict call_res \<times> sync_state" where
  "run_import lib plan rows line result st =
    (case import_rows lib plan rows (\<lambda>t. 0, sd_mirrors (sy_db st)) of
       Inl e \<Rightarrow> (Inl e, st)
     | Inr (cnt, M) \<Rightarrow>
         (Inr (result cnt),
          st\<lparr>sy_db := (sy_db st)\<lparr>sd_mirrors := M\<rparr>,
             sy_log := sy_log st @ [LogJson ''info'' (line cnt)]\<rparr>))"

section \<open>The fetches of database.py\<close>

text \<open>
  The result of a query is an argument: its rows, or the text of the exception it raised. The
  fetch of the engagement events computes one more column inside its \<^verbatim>\<open>try\<close> block.
\<close>

type_synonym fetched = "row list \<times> string option"

definition fetch_rows :: "bool \<Rightarrow> (string + row list) \<Rightarrow> fetched" where
  "fetch_rows configured query =
    (if \<not> configured then ([], Some ''not_configured'')
     else case query of Inl msg \<Rightarrow> ([], Some msg) | Inr rows \<Rightarrow> (rows, None))"

fun upper_event :: "source_lib \<Rightarrow> cell \<Rightarrow> string option" where
  "upper_event lib (CText s) = Some (sl_upper lib s)"
| "upper_event lib _ = None"

definition with_activity_type :: "source_lib \<Rightarrow> row \<Rightarrow> row option" where
  "with_activity_type lib d =
     map_option (\<lambda>t. AList.update ''_activity_type'' (CText t) d)
       (upper_event lib (or_cell (get d ''event_type'') (CText ''EVENT'')))"

definition fetch_retool :: "source_lib \<Rightarrow> bool \<Rightarrow> string \<Rightarrow> (string + row list) \<Rightarrow> fetched" where
  "fetch_retool lib configured no_upper query =
    (if \<not> configured then ([], Some ''not_configured'')
     else case query of
         Inl msg \<Rightarrow> ([], Some msg)
       | Inr rows \<Rightarrow>
           (if list_all (\<lambda>d. with_activity_type lib d \<noteq> None) rows
            then (map (the \<circ> with_activity_type lib) rows, None)
            else ([], Some no_upper)))"

text \<open>\<^verbatim>\<open>if error:\<close> the call logs a warning, reports failure and does nothing else.\<close>

definition fetch_failed :: "string \<Rightarrow> string \<Rightarrow> pydict \<Rightarrow> sync_state \<Rightarrow> pydict call_res \<times> sync_state" where
  "fetch_failed event error result st =
     (Inr result, st\<lparr>sy_log := sy_log st @
        [LogJson ''warning'' [(''service'', VStr ''sync''), (''event'', VStr event),
          (''error'', VStr error)]]\<rparr>)"

definition failed_result :: "string \<Rightarrow> pydict" where
  "failed_result error = [(''synced'', VInt 0), (''total_fetched'', VInt 0),
     (''error'', VStr error), (''status'', VStr ''failed'')]"

definition synced_result :: "int \<Rightarrow> row list \<Rightarrow> pydict" where
  "synced_result n rows = [(''synced'', VInt n), (''total_fetched'', VInt (int (length rows))),
     (''error'', VNone), (''status'', VStr ''ok'')]"

definition complete_entry :: "string \<Rightarrow> int \<Rightarrow> row list \<Rightarrow> pydict" where
  "complete_entry event n rows = [(''service'', VStr ''sync''), (''event'', VStr event),
     (''synced'', VInt n), (''total_fetched'', VInt (int (length rows)))]"

section \<open>Students\<close>

datatype column_type = TInteger | TString | TFloat | TDateTime | TBoolean

definition model_col_types :: "(string \<times> column_type) list" where
  "model_col_types =
    [(''UserID'', TInteger), (''FirstName'', TString), (''LastName'', TString),
     (''Email'', TString), (''PhoneNumber'', TString), (''PathName'', TString),
     (''HWsBehind'', TInteger), (''AvgEffRating'', TFloat), (''LastActivityDays'', TInteger),
     (''AttendancePercentage'', TFloat), (''CurrentSection'', TString),
     (''IPBCStartDate'', TDateTime), (''Past10DaysLogon'', TInteger),
     (''Total_Payments'', TFloat), (''Total_Credits'', TFloat), (''PaymentBalance'', TFloat),
     (''ClassValue'', TFloat), (''FeePaid'', TBoolean), (''ClassFeesPaid'', TFloat),
     (''ClassName'', TString), (''ClassSignupsID'', TString), (''ActiveStatus'', TString),
     (''StatusI'', TString), (''StatusII'', TString), (''StudentStartDate'', TDateTime),
     (''ClassStartDate'', TDateTime), (''LastActivitySection'', TString),
     (''LastLoginDays'', TInteger), (''LastSubmitted'', TString), (''plan_name'', TString),
     (''down_payment_amt'', TFloat)]"

definition known_columns :: "row \<Rightarrow> row" where
  "known_columns r = filter (\<lambda>(k, v). k \<in> set (map fst model_col_types)) r"

text \<open>The coercion of a value to the type of its column.\<close>

definition coerce_cell :: "source_lib \<Rightarrow> string \<Rightarrow> cell \<Rightarrow> cell" where
  "coerce_cell lib col v =
    (if v = CNull then CNull
     else case map_of model_col_types col of
         Some TBoolean \<Rightarrow> CBool (cell_truthy v)
       | Some TString \<Rightarrow> (case v of CText s \<Rightarrow> v | _ \<Rightarrow> CText (sl_str lib v))
       | _ \<Rightarrow> v)"

text \<open>\<^verbatim>\<open>setdefault(c, d)\<close> and \<^verbatim>\<open>if values.get(c) is None: values[c] = d\<close>\<close>

definition set_default :: "string \<Rightarrow> cell \<Rightarrow> row \<Rightarrow> row" where
  "set_default c d vs = (if map_of vs c = None then AList.update c d vs else vs)"

definition replace_none :: "string \<Rightarrow> cell \<Rightarrow> row \<Rightarrow> row" where
  "replace_none c d vs = (if get vs c = CNull then AList.update c d vs else vs)"

definition null_defaults :: "(string \<times> cell) list" where
  "null_defaults = [(''HWsBehind'', CInt 0), (''AvgEffRating'', CFloat (Fin 0)),
     (''LastActivityDays'', CInt 0)]"

definition with_defaults :: "row \<Rightarrow> row" where
  "with_defaults vs =
     fold (case_prod replace_none) null_defaults (fold (case_prod set_default) null_defaults vs)"

definition student_values :: "source_lib \<Rightarrow> row \<Rightarrow> row" where
  "student_values lib vs = with_defaults (map (\<lambda>(c, v). (c, coerce_cell lib c v)) vs)"

text \<open>The key column is not updated: it is the key of the row.\<close>

definition upsert_student :: "row \<Rightarrow> statement" where
  "upsert_student vs = Upsert Students (get vs ''UserID'') (AList.delete ''UserID'' vs)"

definition student_plan :: "source_lib \<Rightarrow> row \<Rightarrow> statement list call_res" where
  "student_plan lib r =
    (let vs = known_columns r
     in if \<not> cell_truthy (get vs ''UserID'') then Inr []
        else Inr [upsert_student (student_values lib vs)])"

definition sync_from_mssql ::
  "source_lib \<Rightarrow> fetched \<Rightarrow> sync_state \<Rightarrow> pydict call_res \<times> sync_state" where
  "sync_from_mssql lib fetched st =
    (let (rows, error) = fetched
     in if given error then fetch_failed ''mssql_fetch_failed'' (the error) (failed_result (the error)) st
        else run_import lib (student_plan lib) rows
          (\<lambda>cnt. complete_entry ''mssql_sync_complete'' (cnt Students) rows)
          (\<lambda>cnt. [(''status'', VStr ''success''), (''rows_scanned'', VInt (int (length rows))),
             (''added'', VInt (cnt Students)), (''updated'', VInt 0), (''rows_failed'', VInt 0),
             (''error'', VNone)]) st)"

section \<open>IPBC students and mentors\<close>

definition mentor_values :: "string \<Rightarrow> row \<Rightarrow> row" where
  "mentor_values now r =
    [(''mm_mentor'', get r ''MM_Mentor''), (''mentor_email'', get r ''MentorEmail''),
     (''supermentor'', get r ''SuperMentor''), (''supermentor_email'', get r ''SuperMentorEmail''),
     (''ipbc_instructor'', CNull), (''ipbc_instructor_email'', CNull), (''synced_at'', CTime now)]"

definition ipbc_renames :: "(string \<times> string) list" where
  "ipbc_renames = [(''IPBC_StartDate'', ''IPBCStartDate'')]"

definition renamed :: "row \<Rightarrow> row" where
  "renamed r = fold (\<lambda>(k, v). AList.update
     (case map_of ipbc_renames k of None \<Rightarrow> k | Some k' \<Rightarrow> k') v) r []"

definition ipbc_plan :: "source_lib \<Rightarrow> string \<Rightarrow> row \<Rightarrow> statement list call_res" where
  "ipbc_plan lib now r =
    (if \<not> cell_truthy (get r ''UserID'') then Inr []
     else case cell_int (get r ''UserID'') of
         Inl e \<Rightarrow> (if e \<in> {TypeError, ValueError} then Inr [] else Inl (Py e))
       | Inr uid \<Rightarrow>
           Inr (upsert_student (student_values lib
               (AList.update ''UserID'' (CInt uid) (known_columns (renamed r))))
             # (if cell_truthy (get r ''MM_Mentor'') \<or> cell_truthy (get r ''SuperMentor'')
                then [Upsert Mentors (CInt uid) (mentor_values now r)] else [])))"

definition sync_ipbc_students ::
  "source_lib \<Rightarrow> string \<Rightarrow> fetched \<Rightarrow> sync_state \<Rightarrow> pydict call_res \<times> sync_state" where
  "sync_ipbc_students lib now fetched st =
    (let (rows, error) = fetched
     in if given error then fetch_failed ''ipbc_fetch_failed'' (the error)
          [(''synced'', VInt 0), (''mentorship_synced'', VInt 0), (''total_fetched'', VInt 0),
           (''error'', VStr (the error)), (''status'', VStr ''failed'')] st
        else run_import lib (ipbc_plan lib now) rows
          (\<lambda>cnt. [(''service'', VStr ''sync''), (''event'', VStr ''ipbc_sync_complete''),
             (''students_synced'', VInt (cnt Students)), (''mentors_synced'', VInt (cnt Mentors)),
             (''total_fetched'', VInt (int (length rows)))])
          (\<lambda>cnt. [(''students_synced'', VInt (cnt Students)),
             (''mentorship_synced'', VInt (cnt Mentors)),
             (''total_fetched'', VInt (int (length rows))), (''error'', VNone),
             (''status'', VStr ''ok'')]) st)"

definition mentor_plan :: "string \<Rightarrow> row \<Rightarrow> statement list call_res" where
  "mentor_plan now r =
    (let uid = or_cell (or_cell (get r ''UserID'') (get r ''user_id'')) (get r ''StudentID'')
     in if \<not> cell_truthy uid then Inr []
        else case cell_int uid of
               Inl e \<Rightarrow> Inl (Py e)
             | Inr n \<Rightarrow> Inr [Upsert Mentors (CInt n) (mentor_values now r)])"

definition sync_mentorship_assignments ::
  "source_lib \<Rightarrow> string \<Rightarrow> fetched \<Rightarrow> sync_state \<Rightarrow> pydict call_res \<times> sync_state" where
  "sync_mentorship_assignments lib now fetched st =
    (let (rows, error) = fetched
     in if given error
        then fetch_failed ''mentorship_fetch_failed'' (the error) (failed_result (the error)) st
        else run_import lib (mentor_plan now) rows
          (\<lambda>cnt. complete_entry ''mentorship_sync_complete'' (cnt Mentors) rows)
          (\<lambda>cnt. synced_result (cnt Mentors) rows) st)"

section \<open>Interview preparation\<close>

definition interview_plan :: "string \<Rightarrow> row \<Rightarrow> statement list call_res" where
  "interview_plan now r =
    (if \<not> cell_truthy (get r ''UserID'') then Inr []
     else case cell_int (get r ''UserID'') of
            Inl e \<Rightarrow> Inl (Py e)
          | Inr n \<Rightarrow> Inr [Upsert InterviewPrep (CInt n) [(''raw_data'', CJson r), (''synced_at'', CTime now)]])"

definition sync_interview_prep ::
  "source_lib \<Rightarrow> string \<Rightarrow> fetched \<Rightarrow> sync_state \<Rightarrow> pydict call_res \<times> sync_state" where
  "sync_interview_prep lib now fetched st =
    (let (rows, error) = fetched
     in if given error
        then fetch_failed ''interview_prep_fetch_failed'' (the error) (failed_result (the error)) st
        else run_import lib (interview_plan now) rows
          (\<lambda>cnt. complete_entry ''interview_prep_sync_complete'' (cnt InterviewPrep) rows)
          (\<lambda>cnt. synced_result (cnt InterviewPrep) rows) st)"

section \<open>Month-end capture\<close>

definition mirror_cols :: "string list" where
  "mirror_cols =
    [''UserID'', ''FirstName'', ''LastName'', ''Email'', ''PhoneNumber'', ''PathName'',
     ''HWsBehind'', ''AvgEffRating'', ''LastActivityDays'', ''AttendancePercentage'',
     ''CurrentSection'', ''IPBCStartDate'', ''Past10DaysLogon'', ''Total_Payments'',
     ''Total_Credits'', ''PaymentBalance'', ''ClassValue'', ''FeePaid'', ''ClassFeesPaid'',
     ''ClassName'', ''ClassSignupsID'', ''ActiveStatus'', ''StatusI'', ''StatusII'',
     ''StudentStartDate'', ''ClassStartDate'', ''LastActivitySection'', ''LastLoginDays'',
     ''LastSubmitted'']"

definition capture_bool_cols :: "string list" where
  "capture_bool_cols = [''FeePaid'']"

definition capture_str_cols :: "string list" where
  "capture_str_cols =
    [''FirstName'', ''LastName'', ''Email'', ''PhoneNumber'', ''PathName'', ''CurrentSection'',
     ''ClassName'', ''ClassSignupsID'', ''ActiveStatus'', ''StatusI'', ''StatusII'',
     ''LastActivitySection'', ''LastSubmitted'']"

definition capture_int_cols :: "string list" where
  "capture_int_cols = [''UserID'', ''HWsBehind'', ''LastActivityDays'', ''Past10DaysLogon'', ''LastLoginDays'']"

fun is_int_cell :: "cell \<Rightarrow> bool" where
  "is_int_cell (CInt n) = True"
| "is_int_cell (CBool b) = True"
| "is_int_cell _ = False"

definition capture_coerce :: "source_lib \<Rightarrow> string \<Rightarrow> cell \<Rightarrow> cell res" where
  "capture_coerce lib col v =
    (if v = CNull then Inr CNull
     else if col \<in> set capture_bool_cols then Inr (CBool (cell_truthy v))
     else if col \<in> set capture_str_cols \<and> \<not> (\<exists>s. v = CText s) then Inr (CText (sl_str lib v))
     else if col \<in> set capture_int_cols \<and> \<not> is_int_cell v
     then tolerate v (bind_res (cell_int v) (\<lambda>n. Inr (CInt n)))
     else Inr v)"

fun capture_cells :: "source_lib \<Rightarrow> row \<Rightarrow> string list \<Rightarrow> row res" where
  "capture_cells lib r [] = Inr []"
| "capture_cells lib r (c # cs) =
     bind_res (capture_coerce lib c (get r c)) (\<lambda>v.
     bind_res (capture_cells lib r cs) (\<lambda>vs. Inr ((c, v) # vs)))"

definition capture_plan :: "source_lib \<Rightarrow> string \<Rightarrow> string \<Rightarrow> row \<Rightarrow> statement list call_res" where
  "capture_plan lib month now r =
    (if \<not> cell_truthy (get r ''UserID'') then Inr []
     else case capture_cells lib r mirror_cols of
         Inl e \<Rightarrow> Inl (Py e)
       | Inr vs \<Rightarrow>
           Inr [Upsert (MonthState month) (get vs ''UserID'')
                ((''captured_at'', CTime now)
                 # fold (case_prod replace_none) null_defaults (AList.delete ''UserID'' vs))])"

text \<open>The rows are those of the mirror of students, in the order the database returns them.\<close>

definition capture_month_state ::
  "source_lib \<Rightarrow> string \<Rightarrow> string \<Rightarrow> row list \<Rightarrow> sync_state \<Rightarrow> pydict call_res \<times> sync_state" where
  "capture_month_state lib month now rows st =
     run_import lib (capture_plan lib month now) rows
       (\<lambda>cnt. [(''service'', VStr ''sync''), (''event'', VStr ''month_state_captured''),
          (''snapshot_month'', VStr month), (''count'', VInt (cnt (MonthState month))),
          (''source'', VStr ''pg_mirror'')])
       (\<lambda>cnt. [(''snapshot_month'', VStr month), (''captured'', VInt (cnt (MonthState month))),
          (''source'', VStr ''pg_mirror''), (''status'', VStr ''ok'')]) st"

section \<open>Campaign activity\<close>

definition activity_date_of :: "source_lib \<Rightarrow> cell \<Rightarrow> string option" where
  "activity_date_of lib created_at =
    (case created_at of
       CTime t \<Rightarrow> Some (sl_utc lib t)
     | CText s \<Rightarrow> (if s = [] then None else sl_parse_iso lib s)
     | _ \<Rightarrow> None)"

text \<open>Lower-casing, upper-casing and slicing need text: other values have no such method.\<close>

definition raw_row :: "row \<Rightarrow> row" where
  "raw_row r = map (\<lambda>(k, v). (k, case v of CTime t \<Rightarrow> CText t | _ \<Rightarrow> v))
     (filter (\<lambda>(k, v). \<not> (\<exists>s. k = CHR ''_'' # s)) r)"

definition campaign_activity :: "source_lib \<Rightarrow> row \<Rightarrow> activity_values option call_res" where
  "campaign_activity lib r =
    (let uid = or_cell (get r ''user_id'') (get r ''UserID'');
         event_type = or_cell (or_cell (get r ''event_type'') (get r ''_activity_type'')) (CText ''EVENT'')
     in if \<not> cell_truthy uid then Inr None
        else case cell_int uid of Inl e \<Rightarrow> Inl (Py e) | Inr n \<Rightarrow>
          (case event_type of
             CText et \<Rightarrow>
               (case or_cell (get r ''channel'') (CText []) of
                  CText ch \<Rightarrow>
                    (if cell_truthy (get r ''agent_name'') \<and> \<not> (\<exists>s. get r ''agent_name'' = CText s)
                     then Inl (Py TypeError)
                     else case or_cell (get r ''message'') (CText (sl_dumps lib (raw_row r))) of
                         CText body \<Rightarrow> Inr (Some
                           \<lparr>ca_student_user_id = n,
                            ca_activity_date = activity_date_of lib (get r ''created_at''),
                            ca_activity_type = sl_upper lib et, ca_activity_label = Some (take 200 et),
                            ca_channel = (if ch = [] then ''system'' else sl_lower lib ch),
                            ca_subject = (case get r ''agent_name'' of
                              CText s \<Rightarrow> if s = [] then None else Some (take 300 s) | _ \<Rightarrow> None),
                            ca_message_body = take 2000 body, ca_source = ''engagement_events'',
                            ca_created_by = get r ''agent_name'', ca_execution_mode = ''SHADOW'',
                            ca_shadow_only = True, ca_correlation_id = None, ca_causation_id = None,
                            ca_config_version_id = None, ca_execution_type = ''original'',
                            ca_governance_scope = ''SHADOW_ONLY'', ca_is_replay = False,
                            ca_attribution_complete = False\<rparr>)
                       | _ \<Rightarrow> Inl (Py TypeError))
                | _ \<Rightarrow> Inl AttributeError)
           | _ \<Rightarrow> Inl AttributeError))"

fun campaign_rows :: "source_lib \<Rightarrow> row list \<Rightarrow> activity_values list call_res" where
  "campaign_rows lib [] = Inr []"
| "campaign_rows lib (r # rs) =
     (case campaign_activity lib r of
        Inl e \<Rightarrow> Inl e
      | Inr a \<Rightarrow> (case campaign_rows lib rs of
                     Inl e \<Rightarrow> Inl e
                   | Inr as \<Rightarrow> Inr (case a of None \<Rightarrow> as | Some x \<Rightarrow> x # as)))"

text \<open>
  The inserts: \<open>now\<close> is the start of the transaction and \<open>new_id\<close> gives the identifiers the
  sequence of the table hands out during the call.
\<close>

definition inserted :: "string \<Rightarrow> (nat \<Rightarrow> int) \<Rightarrow> activity_values list \<Rightarrow> activity list" where
  "inserted now new_id as =
     map (\<lambda>(n, a). activity_values.extend a (activity.fields (new_id n) now)) (enumerate 0 as)"

definition sync_campaign_activity ::
  "source_lib \<Rightarrow> string \<Rightarrow> (nat \<Rightarrow> int) \<Rightarrow> fetched \<Rightarrow> sync_state \<Rightarrow> pydict call_res \<times> sync_state" where
  "sync_campaign_activity lib now new_id fetched st =
    (let (rows, error) = fetched
     in if given error
        then fetch_failed ''retool_outreach_fetch_failed'' (the error) (failed_result (the error)) st
        else
          let kept = filter (\<lambda>a. ca_source a \<noteq> ''engagement_events'') (sd_activities (sy_db st))
          in case campaign_rows lib rows of
               Inl e \<Rightarrow> (Inl e, st)
             | Inr as \<Rightarrow>
                 (if list_all (sl_accepts_activity lib) as then
                    (Inr (synced_result (int (length as)) rows),
                     st\<lparr>sy_db := (sy_db st)\<lparr>sd_activities := kept @ inserted now new_id as\<rparr>,
                        sy_log := sy_log st @ [LogJson ''info''
                          (complete_entry ''campaign_activity_sync_complete'' (int (length as)) rows)]\<rparr>)
                  else (Inl DatabaseError, st)))"

end
