(* ===== verification/MirrorSyncProps.thy ===== *)
theory MirrorSyncProps
  imports MirrorSync
begin

text \<open>
  What the imports promise: a call writes all rows of its fetch or nothing, repeating it changes
  nothing, synced students have the values that are never null, and a malformed identifier is
  skipped by one import and fatal to another. The replacement of campaign activities trusts the
  text of an error: a failure without text erases them.
\<close>

section \<open>An import is a batch of upserts\<close>

fun accepted :: "source_lib \<Rightarrow> statement list \<Rightarrow> (mirror_table \<times> int \<times> row) list option" where
  "accepted lib [] = Some []"
| "accepted lib (s # ss) =
     (case sl_accepts_key lib (stmt_key s) of
        None \<Rightarrow> None
      | Some k \<Rightarrow>
          (if list_all (\<lambda>(c, v). sl_accepts lib (stmt_table s) c v) (stmt_values s)
           then map_option ((#) (stmt_table s, k, stmt_values s)) (accepted lib ss) else None))"

fun written ::
  "source_lib \<Rightarrow> (row \<Rightarrow> statement list call_res) \<Rightarrow> row list \<Rightarrow> (mirror_table \<times> int \<times> row) list option" where
  "written lib plan [] = Some []"
| "written lib plan (r # rs) =
     (case plan r of
        Inl e \<Rightarrow> None
      | Inr ss \<Rightarrow>
          (case accepted lib ss of
             None \<Rightarrow> None
           | Some ts \<Rightarrow> map_option ((@) ts) (written lib plan rs)))"

definition table_count :: "(mirror_table \<times> int \<times> row) list \<Rightarrow> mirror_table \<Rightarrow> int" where
  "table_count ts t = int (length (filter (\<lambda>s. fst s = t) ts))"

lemma table_count_simps [simp]:
  "table_count [] t = 0"
  "table_count (s # ts) t = (if fst s = t then 1 else 0) + table_count ts t"
  "table_count (ts @ us) t = table_count ts t + table_count us t"
  by (simp_all add: table_count_def)

lemma execute_all_accepted:
  "execute_all lib ss (cnt, M) =
     (case accepted lib ss of
        None \<Rightarrow> Inl DatabaseError
      | Some ts \<Rightarrow> Inr (\<lambda>t. cnt t + table_count ts t, fold run_upsert ts M))"
  by (induction ss arbitrary: cnt M)
    (auto simp: execute_def run_upsert_def fun_eq_iff split: option.split)

text \<open>The result of the loop: it fails, or the counters and mirrors of the written rows.\<close>

lemma import_rows_written:
  "case written lib plan rs of
     None \<Rightarrow> (\<exists>e. import_rows lib plan rs (cnt, M) = Inl e)
   | Some ts \<Rightarrow> import_rows lib plan rs (cnt, M) =
       Inr (\<lambda>t. cnt t + table_count ts t, fold run_upsert ts M)"
proof (induction rs arbitrary: cnt M)
  case (Cons r rs)
  show ?case
  proof (cases "plan r")
    case (Inr ss)
    show ?thesis
    proof (cases "accepted lib ss")
      case (Some ts)
      show ?thesis
        using Inr Some Cons [of "\<lambda>t. cnt t + table_count ts t" "fold run_upsert ts M"]
        by (cases "written lib plan rs") (simp_all add: execute_all_accepted add.assoc)
    qed (use Inr in \<open>simp add: execute_all_accepted\<close>)
  qed simp
qed simp

lemma run_import_cases:
  obtains (raised) e where "written lib plan rows = None"
    and "run_import lib plan rows line result st = (Inl e, st)"
  | (committed) ts where "written lib plan rows = Some ts"
    and "run_import lib plan rows line result st =
      (Inr (result (table_count ts)),
       st\<lparr>sy_db := (sy_db st)\<lparr>sd_mirrors := fold run_upsert ts (sd_mirrors (sy_db st))\<rparr>,
          sy_log := sy_log st @ [LogJson ''info'' (line (table_count ts))]\<rparr>)"
  using import_rows_written [of lib plan rows "\<lambda>t. 0" "sd_mirrors (sy_db st)"]
  by (cases "written lib plan rows") (auto simp: run_import_def)

section \<open>Repeating an import\<close>

text \<open>
  What an import writes is stamped: the mirrors of mentors and interview preparation with
  \<^verbatim>\<open>synced_at\<close>, the captured months with \<^verbatim>\<open>captured_at\<close>, the campaign activities with an
  identifier and \<^verbatim>\<open>created_at\<close>. The content of a database is what remains without the stamps.
\<close>

definition stamp_columns :: "string set" where
  "stamp_columns = {''synced_at'', ''captured_at''}"

definition unstamped :: "mirrors \<Rightarrow> mirrors" where
  "unstamped M t k = map_option (\<lambda>r. r |` (- stamp_columns)) (M t k)"

definition same_content :: "sync_db \<Rightarrow> sync_db \<Rightarrow> bool" where
  "same_content db db' \<longleftrightarrow> unstamped (sd_mirrors db) = unstamped (sd_mirrors db')
     \<and> filter (\<lambda>a. ca_source a \<noteq> ''engagement_events'') (sd_activities db)
        = filter (\<lambda>a. ca_source a \<noteq> ''engagement_events'') (sd_activities db')
     \<and> map activity_values.truncate (sd_activities db) = map activity_values.truncate (sd_activities db')"

text \<open>
  An import at a time, with the identifiers the database hands out. It is repeatable if, called
  again at any time on the state it left, it gives the same result and the same content; it is
  atomic if, when it raises, database and log are as before.
\<close>

type_synonym timed_import = "string \<Rightarrow> (nat \<Rightarrow> int) \<Rightarrow> sync_state \<Rightarrow> pydict call_res \<times> sync_state"

definition repeatable :: "timed_import \<Rightarrow> bool" where
  "repeatable f \<longleftrightarrow> (\<forall>st now now' new_id new_id'. let (res, st1) = f now new_id st; (res', st2) = f now' new_id' st1
     in res' = res \<and> same_content (sy_db st2) (sy_db st1))"

definition atomic :: "timed_import \<Rightarrow> bool" where
  "atomic f \<longleftrightarrow> (\<forall>st now new_id e. fst (f now new_id st) = Inl e \<longrightarrow> snd (f now new_id st) = st)"

text \<open>The driver takes every time stamp in the stamp columns.\<close>

definition accepts_stamps :: "source_lib \<Rightarrow> bool" where
  "accepts_stamps lib \<longleftrightarrow> (\<forall>now. sl_accepts lib Mentors ''synced_at'' (CTime now)
     \<and> sl_accepts lib InterviewPrep ''synced_at'' (CTime now)
     \<and> (\<forall>month. sl_accepts lib (MonthState month) ''captured_at'' (CTime now)))"

lemma same_content_refl [simp]: "same_content db db"
  by (simp add: same_content_def)

text \<open>Writes without their stamps act on the content.\<close>

definition strip :: "(mirror_table \<times> int \<times> row) list \<Rightarrow> (mirror_table \<times> int \<times> row) list" where
  "strip ts = map (\<lambda>(t, k, vs). (t, k, filter (\<lambda>(c, v). c \<notin> stamp_columns) vs)) ts"

lemma map_of_unstamped: "map_of (filter (\<lambda>(c, v). c \<notin> S) vs) = map_of vs |` (- S)"
  by (induction vs) (auto simp: restrict_map_def fun_eq_iff)

lemma restrict_add: "(f ++ g) |` A = (f |` A) ++ (g |` A)"
  by (auto simp: fun_eq_iff restrict_map_def map_add_def)

lemma unstamped_upsert:
  "unstamped (run_upsert (t, k, vs) M) = run_upsert (t, k, filter (\<lambda>(c, v). c \<notin> stamp_columns) vs) (unstamped M)"
  by (auto simp: unstamped_def run_upsert_def upsert_def fun_eq_iff map_of_unstamped restrict_add split: option.split)

lemma unstamped_fold: "unstamped (fold run_upsert ts M) = fold run_upsert (strip ts) (unstamped M)"
  by (induction ts arbitrary: M) (auto simp: strip_def unstamped_upsert)

lemma table_count_strip: "table_count (strip ts) = table_count ts"
  by (rule ext, induction ts) (auto simp: strip_def)

lemma unstamped_twice:
  "strip ts' = strip ts \<Longrightarrow> unstamped (fold run_upsert ts' (fold run_upsert ts M)) = unstamped (fold run_upsert ts M)"
  by (simp add: unstamped_fold mirror_store.batch_idempotent)

text \<open>Statements that differ in their stamps only, and plans of such statements.\<close>

definition same_statement :: "source_lib \<Rightarrow> statement \<Rightarrow> statement \<Rightarrow> bool" where
  "same_statement lib s s' \<longleftrightarrow> stmt_table s = stmt_table s' \<and> stmt_key s = stmt_key s'
     \<and> filter (\<lambda>(c, v). c \<notin> stamp_columns) (stmt_values s) = filter (\<lambda>(c, v). c \<notin> stamp_columns) (stmt_values s')
     \<and> list_all (\<lambda>(c, v). sl_accepts lib (stmt_table s) c v) (stmt_values s)
       = list_all (\<lambda>(c, v). sl_accepts lib (stmt_table s) c v) (stmt_values s')"

definition same_plan :: "source_lib \<Rightarrow> statement list call_res \<Rightarrow> statement list call_res \<Rightarrow> bool" where
  "same_plan lib = rel_sum (=) (list_all2 (same_statement lib))"

lemma same_plan_refl [simp]: "same_plan lib p p"
  by (cases p) (simp_all add: same_plan_def list_all2_refl same_statement_def)

lemma strip_accepted:
  "list_all2 (same_statement lib) ss ss' \<Longrightarrow> map_option strip (accepted lib ss) = map_option strip (accepted lib ss')"
proof (induction rule: list_all2_induct)
  case (Cons s ss s' ss')
  then show ?case
    by (cases "accepted lib ss"; cases "accepted lib ss'")
      (auto simp: same_statement_def strip_def split: option.split)
qed simp

lemma strip_written:
  assumes "\<And>r. same_plan lib (plan r) (plan' r)"
  shows "map_option strip (written lib plan rs) = map_option strip (written lib plan' rs)"
proof (induction rs)
  case (Cons r rs)
  show ?case
  proof (cases "plan r")
    case (Inl e)
    then show ?thesis using assms [of r] by (cases "plan' r") (simp_all add: same_plan_def)
  next
    case (Inr ss)
    then obtain ss' where p: "plan' r = Inr ss'" "list_all2 (same_statement lib) ss ss'"
      using assms [of r] by (cases "plan' r") (simp_all add: same_plan_def)
    from strip_accepted [OF p(2)] Cons Inr p(1) show ?thesis
      by (cases "accepted lib ss"; cases "accepted lib ss'"; cases "written lib plan rs"; cases "written lib plan' rs")
        (simp_all add: strip_def)
  qed
qed simp

lemma same_error:
  assumes "\<And>r. same_plan lib (plan r) (plan' r)"
  shows "import_rows lib plan rs (cnt, M) = Inl e \<Longrightarrow> import_rows lib plan' rs (cnt', M') = Inl e"
proof (induction rs arbitrary: cnt M cnt' M')
  case (Cons r rs)
  show ?case
  proof (cases "plan r")
    case (Inl e)
    then show ?thesis using assms [of r] Cons.prems by (cases "plan' r") (simp_all add: same_plan_def)
  next
    case (Inr ss)
    then obtain ss' where p: "plan' r = Inr ss'" "list_all2 (same_statement lib) ss ss'"
      using assms [of r] by (cases "plan' r") (simp_all add: same_plan_def)
    with strip_accepted [OF p(2)] Inr Cons.prems show ?thesis
      by (cases "accepted lib ss"; cases "accepted lib ss'") (auto simp: execute_all_accepted intro: Cons.IH)
  qed
qed simp

lemma run_import_repeatable:
  assumes "\<And>now now' r. same_plan lib (plan now r) (plan now' r)"
  shows "repeatable (\<lambda>now new_id. run_import lib (plan now) rows line result)"
  unfolding repeatable_def Let_def case_prod_unfold
proof (intro allI)
  fix st now now'
  let ?f = "\<lambda>now. run_import lib (plan now) rows line result"
  have strip: "map_option strip (written lib (plan now) rows) = map_option strip (written lib (plan now') rows)"
    using strip_written assms by blast
  show "fst (?f now' (snd (?f now st))) = fst (?f now st)
      \<and> same_content (sy_db (snd (?f now' (snd (?f now st))))) (sy_db (snd (?f now st)))"
  proof (cases rule: run_import_cases [of lib "plan now" rows line result st])
    case (raised e)
    then have "import_rows lib (plan now) rows (\<lambda>t. 0, sd_mirrors (sy_db st)) = Inl e"
      by (auto simp: run_import_def split: sum.split_asm)
    then have "import_rows lib (plan now') rows (\<lambda>t. 0, sd_mirrors (sy_db st)) = Inl e"
      using same_error assms by blast
    then show ?thesis using raised(2) by (simp add: run_import_def)
  next
    case (committed ts)
    note first = committed
    show ?thesis
    proof (cases rule: run_import_cases [of lib "plan now'" rows line result "snd (?f now st)"])
      case (committed ts')
      then have "strip ts' = strip ts" using first(1) strip by simp
      then have "table_count ts' = table_count ts" "unstamped (fold run_upsert ts' (fold run_upsert ts M))
          = unstamped (fold run_upsert ts M)" for M
        using table_count_strip [of ts] table_count_strip [of ts'] unstamped_twice [of ts' ts M] by simp_all
      then show ?thesis using first(2) committed(2) by (simp add: same_content_def)
    qed (use first strip in simp)
  qed
qed

lemma run_import_atomic: "atomic (\<lambda>now new_id. run_import lib (plan now) rows line result)"
  unfolding atomic_def
proof (intro allI impI)
  fix st now e
  assume "fst (run_import lib (plan now) rows line result st) = Inl e"
  then show "snd (run_import lib (plan now) rows line result st) = st"
    by (cases rule: run_import_cases [of lib "plan now" rows line result st]) simp_all
qed

lemma fetch_failed_contract: "repeatable (\<lambda>now new_id. fetch_failed event error result)"
    "atomic (\<lambda>now new_id. fetch_failed event error result)"
  by (simp_all add: repeatable_def atomic_def fetch_failed_def)

lemma stamped_plans:
  assumes "accepts_stamps lib"
  shows "same_plan lib (mentor_plan now r) (mentor_plan now' r)"
    and "same_plan lib (interview_plan now r) (interview_plan now' r)"
    and "same_plan lib (ipbc_plan lib now r) (ipbc_plan lib now' r)"
    and "same_plan lib (capture_plan lib month now r) (capture_plan lib month now' r)"
proof -
  have refl: "same_statement lib s s" for s by (simp add: same_statement_def)
  have mentor: "same_statement lib (Upsert Mentors k (mentor_values now r)) (Upsert Mentors k (mentor_values now' r))" for k
    using assms by (simp add: same_statement_def mentor_values_def accepts_stamps_def stamp_columns_def)
  then show "same_plan lib (mentor_plan now r) (mentor_plan now' r)"
    by (auto simp: mentor_plan_def same_plan_def Let_def split: sum.split)
  show "same_plan lib (ipbc_plan lib now r) (ipbc_plan lib now' r)"
    using mentor refl by (auto simp: ipbc_plan_def same_plan_def split: sum.split)
  show "same_plan lib (interview_plan now r) (interview_plan now' r)"
    using assms by (auto simp: interview_plan_def same_plan_def same_statement_def accepts_stamps_def
        stamp_columns_def split: sum.split)
  show "same_plan lib (capture_plan lib month now r) (capture_plan lib month now' r)"
    using assms by (auto simp: capture_plan_def same_plan_def same_statement_def accepts_stamps_def
        stamp_columns_def split: sum.split)
qed

lemmas import_contract = run_import_repeatable run_import_atomic fetch_failed_contract

lemma imports_contract:
  assumes "accepts_stamps lib"
  shows "repeatable (\<lambda>now new_id. sync_from_mssql lib fetched)" "atomic (\<lambda>now new_id. sync_from_mssql lib fetched)"
    "repeatable (\<lambda>now new_id. sync_ipbc_students lib now fetched)"
    "atomic (\<lambda>now new_id. sync_ipbc_students lib now fetched)"
    "repeatable (\<lambda>now new_id. sync_mentorship_assignments lib now fetched)"
    "atomic (\<lambda>now new_id. sync_mentorship_assignments lib now fetched)"
    "repeatable (\<lambda>now new_id. sync_interview_prep lib now fetched)"
    "atomic (\<lambda>now new_id. sync_interview_prep lib now fetched)"
    "repeatable (\<lambda>now new_id. capture_month_state lib month now rows)"
    "atomic (\<lambda>now new_id. capture_month_state lib month now rows)"
  unfolding sync_from_mssql_def sync_ipbc_students_def sync_mentorship_assignments_def
    sync_interview_prep_def capture_month_state_def Let_def case_prod_unfold
  by (cases "given (snd fetched)"; simp add: import_contract stamped_plans [OF assms])+

lemma inserted_simps:
  "map activity_values.truncate (inserted now new_id as) = as"
  "map ca_id (inserted now new_id as) = map new_id [0..<length as]"
  "\<forall>a \<in> set (inserted now new_id as). ca_created_at a = now"
  "length (inserted now new_id as) = length as"
proof -
  have "map activity_values.truncate (inserted now new_id as) = map snd (enumerate 0 as)"
    unfolding inserted_def map_map by (rule map_cong) (auto simp: activity_values.defs activity.defs)
  then show "map activity_values.truncate (inserted now new_id as) = as" by simp
  have "map ca_id (inserted now new_id as) = map new_id (map fst (enumerate 0 as))"
    unfolding inserted_def map_map by (rule map_cong) (auto simp: activity_values.defs activity.defs)
  then show "map ca_id (inserted now new_id as) = map new_id [0..<length as]" by simp
qed (auto simp: inserted_def activity_values.defs activity.defs)

definition imported :: "sync_db \<Rightarrow> activity list" where
  "imported db = filter (\<lambda>a. ca_source a = ''engagement_events'') (sd_activities db)"

lemma campaign_source: "campaign_activity lib r = Inr (Some a) \<Longrightarrow> ca_source a = ''engagement_events''"
  by (auto simp: campaign_activity_def Let_def split: if_split_asm sum.split_asm cell.split_asm)

lemma campaign_sources: "campaign_rows lib rs = Inr as \<Longrightarrow> \<forall>a \<in> set as. ca_source a = ''engagement_events''"
proof (induction rs arbitrary: as)
  case (Cons r rs)
  then show ?case by (auto dest: campaign_source split: sum.split_asm option.split_asm)
qed simp

lemma inserted_source:
  assumes "\<forall>a \<in> set as. ca_source a = ''engagement_events''"
  shows "filter (\<lambda>a. ca_source a = ''engagement_events'') (inserted now new_id as) = inserted now new_id as"
    and "filter (\<lambda>a. ca_source a \<noteq> ''engagement_events'') (inserted now new_id as) = []"
proof -
  have "\<forall>a \<in> set (inserted now new_id as). ca_source a = ''engagement_events''"
    using assms set_zip_rightD
    by (fastforce simp: inserted_def activity_values.defs activity.defs enumerate_eq_zip)
  then show "filter (\<lambda>a. ca_source a = ''engagement_events'') (inserted now new_id as) = inserted now new_id as"
    and "filter (\<lambda>a. ca_source a \<noteq> ''engagement_events'') (inserted now new_id as) = []"
    by (simp_all add: filter_empty_conv)
qed

lemma sync_campaign_cases:
  obtains (failed) err where "snd fetched = Some err" and "\<And>now new_id st. sync_campaign_activity lib now new_id fetched st
      = fetch_failed ''retool_outreach_fetch_failed'' err (failed_result err) st"
  | (raised) e where "\<And>now new_id st. sync_campaign_activity lib now new_id fetched st = (Inl e, st)"
  | (replaced) as line where "\<forall>a \<in> set as. ca_source a = ''engagement_events''"
    and "\<And>now new_id st. sync_campaign_activity lib now new_id fetched st
      = (Inr (synced_result (int (length as)) (fst fetched)),
         st\<lparr>sy_db := (sy_db st)\<lparr>sd_activities := filter (\<lambda>a. ca_source a \<noteq> ''engagement_events'') (sd_activities (sy_db st))
             @ inserted now new_id as\<rparr>, sy_log := sy_log st @ [line]\<rparr>)"
proof (cases "given (snd fetched)")
  case True
  then obtain err where "snd fetched = Some err" by (cases "snd fetched") simp_all
  with True that(1) show thesis by (simp add: sync_campaign_activity_def Let_def case_prod_unfold)
next
  case False
  show thesis
  proof (cases "campaign_rows lib (fst fetched)")
    case (Inl e)
    then show thesis using False that(2) by (auto simp: sync_campaign_activity_def Let_def case_prod_unfold)
  next
    case (Inr as)
    show thesis
    proof (cases "list_all (sl_accepts_activity lib) as")
      case True
      with Inr False show thesis
        by (intro that(3) [OF campaign_sources [OF Inr]])
          (auto simp: sync_campaign_activity_def Let_def case_prod_unfold)
    next
      case no: False
      with Inr False show thesis
        by (intro that(2)) (auto simp: sync_campaign_activity_def Let_def case_prod_unfold)
    qed
  qed
qed

lemma campaign_contract:
  "repeatable (\<lambda>now new_id. sync_campaign_activity lib now new_id fetched)
    \<and> atomic (\<lambda>now new_id. sync_campaign_activity lib now new_id fetched)"
proof (cases rule: sync_campaign_cases [of fetched lib])
  case (replaced as line)
  then show ?thesis
    by (simp add: repeatable_def atomic_def same_content_def inserted_simps inserted_source)
qed (simp_all add: repeatable_def atomic_def fetch_failed_def)

text \<open>
  C18. Each of six imports from SQL Server (students, IPBC students with their mentors, mentors,
  interview preparation, campaign activities, month-end captures) can be repeated with the same fetch
  at any later time and is atomic: on the state it left it gives the same result and leaves the
  same content, so up to \<^verbatim>\<open>synced_at\<close>, \<^verbatim>\<open>captured_at\<close>, and the identifiers and \<^verbatim>\<open>created_at\<close> of the
  imported activities; and when it raises it has changed nothing. The imported activities
  do not keep their identity: after every successful import all of them have new identifiers and
  were created at its time. The driver is assumed to take every time stamp.
\<close>

theorem imports_repeatable_and_atomic:
  assumes "accepts_stamps lib"
  shows "list_all (\<lambda>f. repeatable f \<and> atomic f)
     [\<lambda>now new_id. sync_from_mssql lib fetched, \<lambda>now new_id. sync_ipbc_students lib now fetched,
      \<lambda>now new_id. sync_mentorship_assignments lib now fetched,
      \<lambda>now new_id. sync_interview_prep lib now fetched,
      \<lambda>now new_id. sync_campaign_activity lib now new_id fetched,
      \<lambda>now new_id. capture_month_state lib month now rows]
    \<and> (\<forall>now new_id st res st'. sync_campaign_activity lib now new_id fetched st = (Inr res, st')
         \<and> dict_get res ''status'' = VStr ''ok'' \<longrightarrow>
         dict_get res ''synced'' = VInt (int (length (imported (sy_db st'))))
         \<and> map ca_id (imported (sy_db st')) = map new_id [0..<length (imported (sy_db st'))]
         \<and> (\<forall>a \<in> set (imported (sy_db st')). ca_created_at a = now))"
proof
  show "list_all (\<lambda>f. repeatable f \<and> atomic f)
     [\<lambda>now new_id. sync_from_mssql lib fetched, \<lambda>now new_id. sync_ipbc_students lib now fetched,
      \<lambda>now new_id. sync_mentorship_assignments lib now fetched,
      \<lambda>now new_id. sync_interview_prep lib now fetched,
      \<lambda>now new_id. sync_campaign_activity lib now new_id fetched,
      \<lambda>now new_id. capture_month_state lib month now rows]"
    by (simp add: imports_contract [OF assms] campaign_contract)
next
  show "\<forall>now new_id st res st'. sync_campaign_activity lib now new_id fetched st = (Inr res, st')
         \<and> dict_get res ''status'' = VStr ''ok'' \<longrightarrow>
         dict_get res ''synced'' = VInt (int (length (imported (sy_db st'))))
         \<and> map ca_id (imported (sy_db st')) = map new_id [0..<length (imported (sy_db st'))]
         \<and> (\<forall>a \<in> set (imported (sy_db st')). ca_created_at a = now)"
  proof (cases rule: sync_campaign_cases [of fetched lib])
    case (replaced as line)
    then show ?thesis
      by (auto simp: imported_def inserted_source synced_result_def inserted_simps dict_get_def)
  qed (auto simp: fetch_failed_def failed_result_def dict_get_def)
qed

section \<open>Students\<close>

lemma accepted_member:
  "accepted lib ss = Some ts \<Longrightarrow> x \<in> set ts \<longleftrightarrow>
     (\<exists>s \<in> set ss. \<exists>k. sl_accepts_key lib (stmt_key s) = Some k
        \<and> x = (stmt_table s, k, stmt_values s))"
  by (induction ss arbitrary: ts) (auto split: option.split_asm if_split_asm)

lemma written_member:
  "written lib plan rs = Some ts \<Longrightarrow> x \<in> set ts \<longleftrightarrow>
     (\<exists>r \<in> set rs. \<exists>ss. plan r = Inr ss \<and> (\<exists>s \<in> set ss. \<exists>k.
        sl_accepts_key lib (stmt_key s) = Some k \<and> x = (stmt_table s, k, stmt_values s)))"
proof (induction rs arbitrary: ts)
  case (Cons r rs)
  from Cons.prems obtain ss us vs where p: "plan r = Inr ss" "accepted lib ss = Some us"
      "written lib plan rs = Some vs" and ts: "ts = us @ vs"
    by (auto split: sum.split_asm option.split_asm)
  show ?case using p Cons.IH [OF p(3)] accepted_member [OF p(2)] by (auto simp: ts)
qed simp

lemma map_of_keys: "map_of (filter (\<lambda>(k, v). P k) r) c = (if P c then map_of r c else None)"
  by (induction r) auto

lemma get_known_columns:
  "get (known_columns r) c = (if c \<in> set (map fst model_col_types) then get r c else CNull)"
  by (simp add: known_columns_def get_def map_of_keys)

lemma map_of_map_keyed: "map_of (map (\<lambda>(c, v). (c, f c v)) vs) c = map_option (f c) (map_of vs c)"
  by (induction vs) auto

lemma get_coerced: "get (map (\<lambda>(c, v). (c, coerce_cell lib c v)) vs) c = coerce_cell lib c (get vs c)"
  by (simp add: get_def map_of_map_keyed coerce_cell_def split: option.split)

lemma coerce_cell_None [simp]: "coerce_cell lib c v = CNull \<longleftrightarrow> v = CNull"
  by (auto simp: coerce_cell_def split: option.split column_type.split cell.split)

lemma map_of_set_default:
  "map_of (set_default c d vs) c' = (if c' = c \<and> map_of vs c = None then Some d else map_of vs c')"
  by (simp add: set_default_def AList.update_conv')

lemma map_of_replace_none:
  "map_of (replace_none c d vs) c' = (if c' = c \<and> get vs c = CNull then Some d else map_of vs c')"
  by (simp add: replace_none_def AList.update_conv')

lemma get_set_default: "get (set_default c d vs) c' = (if c' = c \<and> map_of vs c = None then d else get vs c')"
  by (simp add: get_def map_of_set_default)

lemma get_replace_none: "get (replace_none c d vs) c' = (if c' = c \<and> get vs c = CNull then d else get vs c')"
  by (simp add: get_def [of "replace_none c d vs"] map_of_replace_none get_def [of vs c'])

lemma get_absent: "map_of vs c = None \<Longrightarrow> get vs c = CNull"
  by (simp add: get_def)

lemma get_with_defaults:
  "c \<notin> fst ` set null_defaults \<Longrightarrow> get (with_defaults vs) c = get vs c"
  "get (with_defaults vs) ''HWsBehind'' \<noteq> CNull"
  "get (with_defaults vs) ''AvgEffRating'' \<noteq> CNull"
  "get (with_defaults vs) ''LastActivityDays'' \<noteq> CNull"
  by (simp_all add: with_defaults_def null_defaults_def get_set_default get_replace_none)

lemma get_student_values:
  "get (student_values lib (known_columns r)) ''UserID'' = get r ''UserID''"
  by (simp add: student_values_def get_with_defaults null_defaults_def get_coerced
      get_known_columns) (simp add: model_col_types_def coerce_cell_def)

lemma student_values_complete:
  "c \<in> fst ` set null_defaults \<Longrightarrow> get (student_values lib vs) c \<noteq> CNull"
  by (auto simp: student_values_def null_defaults_def get_with_defaults)

text \<open>The rows of a fetch that name a student.\<close>

definition student_rows :: "row list \<Rightarrow> row list" where
  "student_rows rows = filter (\<lambda>r. cell_truthy (get r ''UserID'')) rows"

lemma student_plan_eq:
  "student_plan lib r = Inr (if cell_truthy (get r ''UserID'')
     then [upsert_student (student_values lib (known_columns r))] else [])"
proof -
  have "get (known_columns r) ''UserID'' = get r ''UserID''"
    by (simp add: get_known_columns model_col_types_def)
  then show ?thesis by (simp add: student_plan_def Let_def)
qed

lemma student_count:
  "written lib (student_plan lib) rows = Some ts \<Longrightarrow>
     table_count ts Students = int (length (student_rows rows))"
proof (induction rows arbitrary: ts)
  case (Cons r rs)
  then show ?case
    by (auto simp: student_plan_eq student_rows_def upsert_student_def
        split: if_split_asm option.split_asm)
qed (simp add: student_rows_def)

text \<open>The upsert of each written student row.\<close>

lemma student_written:
  assumes "written lib (student_plan lib) rows = Some ts"
  shows "x \<in> set ts \<longleftrightarrow> (\<exists>r \<in> set (student_rows rows). \<exists>k.
     sl_accepts_key lib (get r ''UserID'') = Some k
     \<and> x = (Students, k, AList.delete ''UserID'' (student_values lib (known_columns r))))"
  by (auto simp: written_member [OF assms] student_plan_eq student_rows_def upsert_student_def
      get_student_values split: if_split_asm)

lemma written_key:
  assumes "written lib plan rs = Some ts" and "r \<in> set rs" and "plan r = Inr ss" and "s \<in> set ss"
  shows "\<exists>k. sl_accepts_key lib (stmt_key s) = Some k"
proof -
  have acc: "accepted lib us = Some vs \<Longrightarrow> s \<in> set us \<Longrightarrow> \<exists>k. sl_accepts_key lib (stmt_key s) = Some k"
    for us vs by (induction us arbitrary: vs) (auto split: option.split_asm if_split_asm)
  from assms acc show ?thesis
    by (induction rs arbitrary: ts) (auto split: sum.split_asm option.split_asm)
qed

text \<open>What an upsert of a student row writes into the columns that must not be null.\<close>

lemma student_upsert_fills:
  assumes "s = (Students, k, AList.delete ''UserID'' (student_values lib vs))"
    and "c \<in> fst ` set null_defaults"
  shows "\<exists>v. upsert_writes s (Students, k, Some c) = Some v \<and> v \<noteq> CNull"
  using student_values_complete [OF assms(2), of lib vs] assms(2)
  by (auto simp: assms(1) AList.delete_conv' get_def null_defaults_def split: option.split_asm)

lemma student_filled:
  assumes w: "written lib (student_plan lib) rows = Some ts"
    and r: "r \<in> set (student_rows rows)" and k: "sl_accepts_key lib (get r ''UserID'') = Some k"
    and c: "c \<in> fst ` set null_defaults"
  shows "\<exists>v. mirror_cells (fold run_upsert ts M) (Students, k, Some c) = Some v \<and> v \<noteq> CNull"
proof -
  let ?s = "(Students, k, AList.delete ''UserID'' (student_values lib (known_columns r)))"
  from r k w have "?s \<in> set ts" by (auto simp: student_written)
  moreover have "upsert_writes ?s (Students, k, Some c) \<noteq> None"
    using student_upsert_fills [OF refl c, of k lib "known_columns r"] by auto
  ultimately obtain s' where s': "s' \<in> set ts"
      "mirror_cells (fold run_upsert ts M) (Students, k, Some c) = upsert_writes s' (Students, k, Some c)"
      "upsert_writes s' (Students, k, Some c) \<noteq> None"
    by (rule mirror_store.batch_written)
  from s'(1) w obtain r' k' where
    s'': "s' = (Students, k', AList.delete ''UserID'' (student_values lib (known_columns r')))"
    by (auto simp: student_written)
  moreover from s'' s'(3) have "k' = k" by (auto split: if_split_asm)
  ultimately show ?thesis using student_upsert_fills [OF _ c, of s' k lib "known_columns r'"] s'(2) by simp
qed

lemma student_row_filled:
  assumes w: "written lib (student_plan lib) rows = Some ts" and r: "r \<in> set (student_rows rows)"
  shows "\<exists>k cells. sl_accepts_key lib (get r ''UserID'') = Some k
    \<and> fold run_upsert ts M Students k = Some cells
    \<and> (\<forall>c \<in> fst ` set null_defaults. \<exists>v. cells c = Some v \<and> v \<noteq> CNull)"
proof -
  from r have "\<exists>k. sl_accepts_key lib (stmt_key (upsert_student
      (student_values lib (known_columns r)))) = Some k"
    by (intro written_key [OF w, of r]) (auto simp: student_rows_def student_plan_eq)
  then obtain k where k: "sl_accepts_key lib (get r ''UserID'') = Some k"
    by (auto simp: upsert_student_def get_student_values)
  note filled = student_filled [OF w r k, of _ M]
  then have "\<exists>v. mirror_cells (fold run_upsert ts M) (Students, k, Some ''HWsBehind'') = Some v"
    by (auto simp: null_defaults_def)
  then obtain cells where "fold run_upsert ts M Students k = Some cells"
    by (auto split: option.split_asm)
  with filled k show ?thesis by auto
qed

lemma mirrors_frame:
  assumes "\<And>s. s \<in> set ts \<Longrightarrow> fst s \<noteq> t \<or> fst (snd s) \<noteq> k"
  shows "fold run_upsert ts M t k = M t k"
proof -
  have quiet: "upsert_writes s (t, k, c) = None" if "s \<in> set ts" for s c
    using assms [OF that] by (cases s; cases c) auto
  have frame: "mirror_cells (fold run_upsert ts M) (t, k, c) = mirror_cells M (t, k, c)" for c
    by (rule mirror_store.batch_frame) (rule quiet)
  show ?thesis
    using frame [of None] frame [of "Some c" for c]
    by (cases "fold run_upsert ts M t k"; cases "M t k") (auto simp: fun_eq_iff split: if_split_asm)
qed

lemma sync_from_mssql_committed:
  assumes "sync_from_mssql lib (rows, None) st = (Inr res, st')"
  obtains ts where "written lib (student_plan lib) rows = Some ts"
    and "sd_mirrors (sy_db st') = fold run_upsert ts (sd_mirrors (sy_db st))"
    and "dict_get res ''added'' = VInt (table_count ts Students)"
    and "dict_get res ''updated'' = VInt 0"
  using assms unfolding sync_from_mssql_def Let_def case_prod_conv
  by (cases rule: run_import_cases [of lib "student_plan lib" rows
        "\<lambda>cnt. complete_entry ''mssql_sync_complete'' (cnt Students) rows"
        "\<lambda>cnt. [(''status'', VStr ''success''), (''rows_scanned'', VInt (int (length rows))),
           (''added'', VInt (cnt Students)), (''updated'', VInt 0), (''rows_failed'', VInt 0),
           (''error'', VNone)]" st]) auto


definition sample_lib :: source_lib where
  "sample_lib = \<lparr>sl_str = (\<lambda>v. ''text''), sl_upper = upper, sl_lower = lower, sl_dumps = (\<lambda>r. ''json''),
     sl_utc = id, sl_parse_iso = (\<lambda>s. None), sl_accepts = (\<lambda>t c v. True),
     sl_accepts_key = (\<lambda>v. case v of CInt n \<Rightarrow> Some n | _ \<Rightarrow> None),
     sl_accepts_activity = (\<lambda>a. True)\<rparr>"

definition sample_state :: sync_state where
  "sample_state = \<lparr>sy_db = \<lparr>sd_mirrors = (\<lambda>t k. if k = 7 then Some Map.empty else None), sd_activities = []\<rparr>,
     sy_log = []\<rparr>"

text \<open>One engagement event, imported at two times.\<close>

definition sample_event :: row where
  "sample_event = [(''user_id'', CInt 7), (''event_type'', CText ''Call''), (''channel'', CText ''CALL''),
     (''agent_name'', CText ''Ada''), (''message'', CText ''left a message''), (''created_at'', CTime ''2026-03-01'')]"

definition imported_at :: "string \<Rightarrow> int \<Rightarrow> sync_state \<Rightarrow> sync_state" where
  "imported_at now first_id st =
     snd (sync_campaign_activity sample_lib now (\<lambda>n. first_id + int n) ([sample_event], None) st)"

lemma sample_import:
  "fst (sync_campaign_activity sample_lib now new_id ([sample_event], None) st) = Inr (synced_result 1 [sample_event])"
  by (simp add: sync_campaign_activity_def campaign_activity_def Let_def get_def sample_event_def
      sample_lib_def case_prod_unfold or_cell_def)

theorem imports_repeatable_and_atomic_witness:
  "let st1 = imported_at ''2026-03-02'' 1 sample_state; st2 = imported_at ''2026-03-03'' 2 st1
   in same_content (sy_db st2) (sy_db st1)
     \<and> map (\<lambda>a. (ca_id a, ca_created_at a)) (imported (sy_db st1)) = [(1, ''2026-03-02'')]
     \<and> map (\<lambda>a. (ca_id a, ca_created_at a)) (imported (sy_db st2)) = [(2, ''2026-03-03'')]"
proof -
  let ?run = "\<lambda>now new_id. sync_campaign_activity sample_lib now new_id ([sample_event], None)"
  have lib: "accepts_stamps sample_lib" by (simp add: accepts_stamps_def sample_lib_def)
  note all = imports_repeatable_and_atomic [OF lib, of "([sample_event], None)" "[]" "[]"]
  have stamps: "map (\<lambda>a. (ca_id a, ca_created_at a)) (imported (sy_db (imported_at now k st))) = [(k, now)]" for now k st
  proof -
    obtain st' where run: "?run now (\<lambda>n. k + int n) st = (Inr (synced_result 1 [sample_event]), st')"
      using sample_import [of now "\<lambda>n. k + int n" st] by (metis prod.collapse)
    have ok: "dict_get (synced_result 1 [sample_event]) ''status'' = VStr ''ok''"
      "dict_get (synced_result 1 [sample_event]) ''synced'' = VInt 1"
      by (simp_all add: synced_result_def dict_get_def)
    have "length (imported (sy_db st')) = 1"
      "map ca_id (imported (sy_db st')) = map (\<lambda>n. k + int n) [0..<length (imported (sy_db st'))]"
      "\<forall>a \<in> set (imported (sy_db st')). ca_created_at a = now"
      using all [THEN conjunct2, rule_format, OF conjI [OF run ok(1)]] ok(2) by simp_all
    then show ?thesis by (cases "imported (sy_db st')") (auto simp: imported_at_def run)
  qed
  have "repeatable ?run" using all by simp
  then have "same_content (sy_db (imported_at ''2026-03-03'' 2 st)) (sy_db st)"
    if "st = imported_at ''2026-03-02'' 1 sample_state" for st
    unfolding repeatable_def Let_def case_prod_unfold that imported_at_def by blast
  with stamps show ?thesis by (simp add: Let_def)
qed


section \<open>Malformed identifiers\<close>

definition id_readable :: "row \<Rightarrow> bool" where
  "id_readable r \<longleftrightarrow> cell_int (get r ''UserID'') \<notin> {Inl TypeError, Inl ValueError}"

lemma written_skip:
  assumes "\<And>r. \<not> P r \<Longrightarrow> plan r = Inr []"
  shows "written lib plan (filter P rs) = written lib plan rs"
  proof (induction rs)
  case (Cons r rs)
  have "map_option ((@) []) (written lib plan rs) = written lib plan rs"
    by (cases "written lib plan rs") simp_all
  with Cons assms show ?case by (cases "P r") (simp_all split: sum.split option.split)
qed simp

lemma written_raise: "r \<in> set rs \<Longrightarrow> plan r = Inl e \<Longrightarrow> written lib plan rs = None"
  by (induction rs) (auto split: sum.split option.split)

text \<open>
  A row whose identifier is not a number has two fates: the import of IPBC students skips it,
  writing the same mirrors as for the fetch without such rows, while the import of mentors of the
  same source raises and writes nothing, whatever the other rows are.
\<close>

theorem malformed_identifier:
  assumes "r \<in> set rows" and "cell_truthy (get r ''UserID'')" and "\<not> id_readable r"
  shows "(\<exists>e. sync_mentorship_assignments lib now (rows, None) st = (Inl e, st))
    \<and> sy_db (snd (sync_ipbc_students lib now (rows, None) st)) =
        sy_db (snd (sync_ipbc_students lib now (filter id_readable rows, None) st))"
proof
  from assms(3) obtain e where e: "cell_int (get r ''UserID'') = Inl e" by (auto simp: id_readable_def)
  with assms(2) have "mentor_plan now r = Inl (Py e)" by (simp add: mentor_plan_def or_cell_def)
  then have "written lib (mentor_plan now) rows = None"
    using written_raise [where plan = "mentor_plan now", OF assms(1)] by simp
  then
  show "\<exists>e. sync_mentorship_assignments lib now (rows, None) st = (Inl e, st)"
    unfolding sync_mentorship_assignments_def Let_def case_prod_conv
    by (cases rule: run_import_cases [of lib "mentor_plan now" rows
          "\<lambda>cnt. complete_entry ''mentorship_sync_complete'' (cnt Mentors) rows"
          "\<lambda>cnt. synced_result (cnt Mentors) rows" st]) auto
  have "ipbc_plan lib now r = Inr []" if "\<not> id_readable r" for r
    using that by (auto simp: ipbc_plan_def id_readable_def)
  then have w: "written lib (ipbc_plan lib now) (filter id_readable rows) =
      written lib (ipbc_plan lib now) rows" by (rule written_skip)
  have db: "sy_db (snd (run_import lib plan rows line result st)) =
      (case written lib plan rows of None \<Rightarrow> sy_db st
       | Some ts \<Rightarrow> (sy_db st)\<lparr>sd_mirrors := fold run_upsert ts (sd_mirrors (sy_db st))\<rparr>)"
    for plan rows line result
    by (cases rule: run_import_cases [of lib plan rows line result st]) auto
  show "sy_db (snd (sync_ipbc_students lib now (rows, None) st)) =
      sy_db (snd (sync_ipbc_students lib now (filter id_readable rows, None) st))"
    by (simp add: sync_ipbc_students_def db w)
qed

theorem malformed_identifier_witness:
  "\<exists>e. sync_mentorship_assignments sample_lib ''now''
     ([[(''UserID'', CText ''A-17'')], [(''UserID'', CInt 7)]], None) sample_state = (Inl e, sample_state)"
proof -
  have "[(''UserID'', CText ''A-17'')] \<in> set [[(''UserID'', CText ''A-17'')], [(''UserID'', CInt 7)]]"
    by simp
  moreover have "cell_truthy (get [(''UserID'', CText ''A-17'')] ''UserID'')" by (simp add: get_def)
  moreover have "parse_int ''A-17'' = None" by code_simp
  then have "\<not> id_readable [(''UserID'', CText ''A-17'')]"
    by (simp add: id_readable_def get_def)
  ultimately show ?thesis by (rule malformed_identifier [THEN conjunct1])
qed

section \<open>Failed fetches\<close>

text \<open>
  A failed query of the engagement events is recognized by its error text only: with a text
  the database is unchanged and the call reports failure; an exception without text counts as an
  empty fetch, all imported activities are deleted, and the call reports success.
\<close>

theorem textless_failure_erases_activities:
  "let (res, st') = sync_campaign_activity lib now new_id (fetch_retool lib True no_upper (Inl msg)) st
   in if msg = [] then
        res = Inr (synced_result 0 []) \<and> sd_mirrors (sy_db st') = sd_mirrors (sy_db st)
        \<and> sd_activities (sy_db st') =
            filter (\<lambda>a. ca_source a \<noteq> ''engagement_events'') (sd_activities (sy_db st))
      else res = Inr (failed_result msg) \<and> sy_db st' = sy_db st"
  by (simp add: sync_campaign_activity_def fetch_retool_def fetch_failed_def inserted_def)

end
