(* ===== verification/Correlation.thy ===== *)
theory Correlation
  imports Prelude "HOL-Library.AList"
begin

text \<open>
  The attribution middleware, \<^verbatim>\<open>app/middleware/correlation.py\<close> with
  \<^verbatim>\<open>_correlation_types.py\<close> and \<^verbatim>\<open>_correlation_helpers.py\<close>: the gate
  over the attribution headers of a request (Rule 0), the resolution of correlation identifier,
  mode, type and scope (Rules 1--6), the log lines (Rules 7 and 9) and the call of the handler.

  Headers are read by a function of the header name; the handler is a function of the attribution
  that returns a response or raises. Names of response headers are kept in lower case.
\<close>

section \<open>Types\<close>

definition mw_execution_modes :: "string set" where
  "mw_execution_modes =
    {''LIVE'', ''SHADOW'', ''REPLAY'', ''REGENERATION'', ''DEGRADED'', ''MAINTENANCE''}"

definition mw_execution_types :: "string set" where
  "mw_execution_types = {''original'', ''replay'', ''regeneration'', ''recovery''}"

definition mw_replay_types :: "string set" where
  "mw_replay_types = {''replay'', ''regeneration''}"

definition mw_replay_modes :: "string set" where
  "mw_replay_modes = {''REPLAY'', ''REGENERATION''}"

record attribution_context =
  xc_correlation_id :: string
  xc_causation_id :: "string option"
  xc_config_version_id :: "string option"
  xc_execution_mode :: string
  xc_execution_type :: string
  xc_governance_scope :: string
  xc_orchestration_cycle_id :: "string option"
  xc_origin_source :: "string option"
  xc_origin_authority :: "string option"
  xc_historical_config_version_id :: "string option"
  xc_attribution_timestamp :: "string option"
  xc_correlation_id_generated :: bool
  xc_is_replay :: bool
  xc_attribution_complete :: bool
  xc_live_effects_suppressed :: bool
  xc_rule_path_taken :: "string list"

record propagation_record =
  xp_propagation_id :: string
  xp_timestamp :: string
  xp_event :: string
  xp_correlation_id :: string
  xp_causation_id :: "string option"
  xp_config_version_id :: "string option"
  xp_execution_mode :: string
  xp_execution_type :: string
  xp_governance_scope :: string
  xp_orchestration_cycle_id :: "string option"
  xp_origin_source :: "string option"
  xp_origin_authority :: "string option"
  xp_historical_config_version_id :: "string option"
  xp_attribution_timestamp :: "string option"
  xp_correlation_id_generated :: bool
  xp_is_replay :: bool
  xp_attribution_complete :: bool
  xp_live_effects_suppressed :: bool
  xp_blocked :: bool
  xp_blocking_codes :: "string list"
  xp_blocking_reason :: "string option"
  xp_path :: string
  xp_method :: string
  xp_outcome :: string
  xp_duration_ms :: "int option"
  xp_rule_path_taken :: "string list"

section \<open>Rule 0: the gate\<close>

definition check_execution_mode :: "string \<Rightarrow> string list" where
  "check_execution_mode m = code_if (m \<notin> mw_execution_modes) ''INVALID_EXECUTION_MODE''"

definition check_execution_type :: "string \<Rightarrow> string list" where
  "check_execution_type t = code_if (t \<notin> mw_execution_types) ''INVALID_EXECUTION_TYPE''"

definition check_replay_lineage :: "string \<Rightarrow> string option \<Rightarrow> string list" where
  "check_replay_lineage t historical =
     code_if (t \<in> mw_replay_types \<and> \<not> given historical) ''REPLAY_LINEAGE_INCOMPLETE''"

definition check_attribution_partial :: "string option \<Rightarrow> string option \<Rightarrow> string list" where
  "check_attribution_partial origin_source origin_authority =
     code_if (given origin_source \<noteq> given origin_authority) ''ATTRIBUTION_PARTIAL''"

definition mw_precondition_gate ::
  "string option \<Rightarrow> string option \<Rightarrow> string option \<Rightarrow> string option \<Rightarrow> string option \<Rightarrow> string list" where
  "mw_precondition_gate mode typ historical origin_source origin_authority =
     (case mode of None \<Rightarrow> [] | Some m \<Rightarrow> check_execution_mode m)
   @ (case typ of None \<Rightarrow> []
      | Some t \<Rightarrow> check_execution_type t
          @ (if check_execution_type t = [] then check_replay_lineage t historical else []))
   @ check_attribution_partial origin_source origin_authority"

section \<open>Rules 1--6: the attribution of a request\<close>

definition resolve_correlation_id :: "runtime \<Rightarrow> string option \<Rightarrow> string \<times> bool" where
  "resolve_correlation_id rt header =
     (if given header then (the header, False) else (rt_uuid rt, True))"

definition resolve_execution_mode :: "string option \<Rightarrow> string \<Rightarrow> string" where
  "resolve_execution_mode header settings_mode =
     (if given header \<and> the header \<in> mw_execution_modes then the header else settings_mode)"

definition resolve_execution_type :: "string option \<Rightarrow> string" where
  "resolve_execution_type header =
     (if given header \<and> the header \<in> mw_execution_types then the header else ''original'')"

definition mw_governance_scope :: "string \<Rightarrow> string \<Rightarrow> string" where
  "mw_governance_scope mode typ =
     (if typ \<in> mw_replay_types then ''REPLAY_ONLY''
      else if mode \<in> mw_replay_modes then ''REPLAY_ONLY''
      else if mode = ''MAINTENANCE'' then ''MAINTENANCE''
      else ''SHADOW_ONLY'')"

definition build_attribution_context ::
  "string \<Rightarrow> string option \<Rightarrow> string option \<Rightarrow> string \<Rightarrow> string \<Rightarrow> string \<Rightarrow> string option \<Rightarrow> string option
   \<Rightarrow> string option \<Rightarrow> string option \<Rightarrow> string option \<Rightarrow> bool \<Rightarrow> string list \<Rightarrow> attribution_context" where
  "build_attribution_context correlation_id causation_id config_version_id mode typ scope cycle_id
     origin_source origin_authority historical timestamp generated rule_path =
    \<lparr>xc_correlation_id = correlation_id, xc_causation_id = causation_id,
     xc_config_version_id = config_version_id, xc_execution_mode = mode,
     xc_execution_type = typ, xc_governance_scope = scope,
     xc_orchestration_cycle_id = cycle_id, xc_origin_source = origin_source,
     xc_origin_authority = origin_authority, xc_historical_config_version_id = historical,
     xc_attribution_timestamp = timestamp, xc_correlation_id_generated = generated,
     xc_is_replay = (typ \<in> mw_replay_types),
     xc_attribution_complete = (given origin_source \<and> given origin_authority),
     xc_live_effects_suppressed = (scope \<noteq> ''AUTHORIZED''), xc_rule_path_taken = rule_path\<rparr>"

definition make_blocked_context ::
  "string \<Rightarrow> string option \<Rightarrow> string option \<Rightarrow> string list \<Rightarrow> attribution_context" where
  "make_blocked_context correlation_id mode typ rule_path =
    (let m = (case mode of Some x \<Rightarrow> if x \<in> mw_execution_modes then x else ''SHADOW'' | None \<Rightarrow> ''SHADOW'');
         t = (case typ of Some x \<Rightarrow> if x \<in> mw_execution_types then x else ''original'' | None \<Rightarrow> ''original'')
     in \<lparr>xc_correlation_id = correlation_id, xc_causation_id = None, xc_config_version_id = None,
         xc_execution_mode = m, xc_execution_type = t,
         xc_governance_scope = mw_governance_scope m t, xc_orchestration_cycle_id = None,
         xc_origin_source = None, xc_origin_authority = None,
         xc_historical_config_version_id = None, xc_attribution_timestamp = None,
         xc_correlation_id_generated = False, xc_is_replay = (t \<in> mw_replay_types),
         xc_attribution_complete = False, xc_live_effects_suppressed = True,
         xc_rule_path_taken = rule_path\<rparr>)"

section \<open>Observability\<close>

definition make_propagation_record ::
  "runtime \<Rightarrow> attribution_context \<Rightarrow> string \<Rightarrow> string \<Rightarrow> string \<Rightarrow> bool \<Rightarrow> string list \<Rightarrow> string option
   \<Rightarrow> string \<Rightarrow> int option \<Rightarrow> propagation_record" where
  "make_propagation_record rt ctx event path http_method blocked blocking_codes blocking_reason outcome
     duration_ms =
    \<lparr>xp_propagation_id = rt_uuid rt, xp_timestamp = rt_now_iso rt, xp_event = event,
     xp_correlation_id = xc_correlation_id ctx, xp_causation_id = xc_causation_id ctx,
     xp_config_version_id = xc_config_version_id ctx,
     xp_execution_mode = xc_execution_mode ctx, xp_execution_type = xc_execution_type ctx,
     xp_governance_scope = xc_governance_scope ctx,
     xp_orchestration_cycle_id = xc_orchestration_cycle_id ctx,
     xp_origin_source = xc_origin_source ctx, xp_origin_authority = xc_origin_authority ctx,
     xp_historical_config_version_id = xc_historical_config_version_id ctx,
     xp_attribution_timestamp = xc_attribution_timestamp ctx,
     xp_correlation_id_generated = xc_correlation_id_generated ctx,
     xp_is_replay = xc_is_replay ctx, xp_attribution_complete = xc_attribution_complete ctx,
     xp_live_effects_suppressed = xc_live_effects_suppressed ctx, xp_blocked = blocked,
     xp_blocking_codes = blocking_codes, xp_blocking_reason = blocking_reason, xp_path = path,
     xp_method = http_method, xp_outcome = outcome, xp_duration_ms = duration_ms,
     xp_rule_path_taken = xc_rule_path_taken ctx\<rparr>"

definition emit_propagation_log :: "propagation_record \<Rightarrow> log_line" where
  "emit_propagation_log r =
    (let level = (if xp_blocked r \<or> xp_outcome r = ''blocked'' then ''warning'' else ''info'')
     in LogJson level
      [(''timestamp'', VStr (xp_timestamp r)), (''level'', VStr level),
       (''service'', VStr ''attribution_middleware''), (''event'', VStr (xp_event r)),
       (''propagation_id'', VStr (xp_propagation_id r)),
       (''correlation_id'', VStr (xp_correlation_id r)),
       (''causation_id'', opt_val (xp_causation_id r)),
       (''config_version_id'', opt_val (xp_config_version_id r)),
       (''execution_mode'', VStr (xp_execution_mode r)),
       (''execution_type'', VStr (xp_execution_type r)),
       (''governance_scope'', VStr (xp_governance_scope r)),
       (''orchestration_cycle_id'', opt_val (xp_orchestration_cycle_id r)),
       (''origin_source'', opt_val (xp_origin_source r)),
       (''origin_authority'', opt_val (xp_origin_authority r)),
       (''historical_config_version_id'', opt_val (xp_historical_config_version_id r)),
       (''correlation_id_generated'', VBool (xp_correlation_id_generated r)),
       (''is_replay'', VBool (xp_is_replay r)),
       (''attribution_complete'', VBool (xp_attribution_complete r)),
       (''live_effects_suppressed'', VBool (xp_live_effects_suppressed r)),
       (''blocked'', VBool (xp_blocked r)), (''blocking_codes'', str_list (xp_blocking_codes r)),
       (''blocking_reason'', opt_val (xp_blocking_reason r)), (''path'', VStr (xp_path r)),
       (''method'', VStr (xp_method r)), (''outcome'', VStr (xp_outcome r)),
       (''duration_ms'', (case xp_duration_ms r of None \<Rightarrow> VNone | Some n \<Rightarrow> VInt n)),
       (''rule_path_taken'', str_list (xp_rule_path_taken r))])"

section \<open>The middleware\<close>

record request =
  rq_header :: "string \<Rightarrow> string option"
  rq_path :: string
  rq_method :: string

record response =
  rp_status :: int
  rp_headers :: "(string \<times> string) list"
  rp_body :: pydict

text \<open>\<^verbatim>\<open>response.headers[k] = v\<close>\<close>

definition set_header :: "string \<Rightarrow> string \<Rightarrow> response \<Rightarrow> response" where
  "set_header k v r = r\<lparr>rp_headers := AList.update (lower k) v (rp_headers r)\<rparr>"

definition blocked_response :: "string \<Rightarrow> string list \<Rightarrow> response" where
  "blocked_response correlation_id codes =
    \<lparr>rp_status = 400, rp_headers = [(lower ''X-Correlation-ID'', correlation_id)],
     rp_body = [(''status'', VStr ''error''), (''data'', VNone),
       (''error'', VDict [(''code'', VStr ''ATTRIBUTION_GOVERNANCE_GATE_FAILED''),
          (''message'', VStr ''Attribution governance precondition failed''),
          (''blocking_codes'', str_list codes)])]\<rparr>"

definition request_gate :: "request \<Rightarrow> string list" where
  "request_gate rq = mw_precondition_gate (rq_header rq ''X-Execution-Mode'')
     (rq_header rq ''X-Execution-Type'') (rq_header rq ''X-Historical-Config-Version-ID'')
     (rq_header rq ''X-Origin-Source'') (rq_header rq ''X-Origin-Authority'')"

text \<open>Rules 1--6, ending with the context that the handlers find in the state of the request.\<close>

definition request_attribution :: "string \<Rightarrow> runtime \<Rightarrow> request \<Rightarrow> attribution_context" where
  "request_attribution settings_mode rt rq =
    (let (correlation_id, generated) =
           resolve_correlation_id rt (rq_header rq ''X-Correlation-ID'');
         mode = resolve_execution_mode (rq_header rq ''X-Execution-Mode'') settings_mode;
         typ = resolve_execution_type (rq_header rq ''X-Execution-Type'');
         scope = mw_governance_scope mode typ
     in build_attribution_context correlation_id (rq_header rq ''X-Causation-ID'')
          (rq_header rq ''X-Config-Version-ID'') mode typ scope
          (rq_header rq ''X-Orchestration-Cycle-ID'') (rq_header rq ''X-Origin-Source'')
          (rq_header rq ''X-Origin-Authority'') (rq_header rq ''X-Historical-Config-Version-ID'')
          (rq_header rq ''X-Attribution-Timestamp'') generated
          [''RULE_0_GOVERNANCE_GATE'', ''RULE_1_CORRELATION_ID'', ''RULE_2_EXECUTION_MODE'',
           ''RULE_3_EXECUTION_TYPE'', ''RULE_4_GOVERNANCE_SCOPE'',
           ''RULE_5_ATTRIBUTION_COMPLETENESS'', ''RULE_6_CONTEXT_BUILD''])"

definition attributed_response :: "attribution_context \<Rightarrow> response \<Rightarrow> response" where
  "attributed_response ctx r =
    (let r1 = set_header ''X-Governance-Scope'' (xc_governance_scope ctx)
           (set_header ''X-Execution-Mode'' (xc_execution_mode ctx)
             (set_header ''X-Correlation-ID'' (xc_correlation_id ctx) r))
     in if given (xc_causation_id ctx) then set_header ''X-Causation-ID'' (the (xc_causation_id ctx)) r1
        else r1)"

text \<open>
  The result is what the server gets (the text of an exception, or a response), the attribution
  the handler was called with, if any, and the lines logged. \<open>rs 0\<close> generates the correlation
  identifier, \<open>rs 1\<close> and \<open>rs 2\<close> the two log records.
\<close>

definition dispatch_request ::
  "string \<Rightarrow> (nat \<Rightarrow> runtime) \<Rightarrow> request \<Rightarrow> (attribution_context \<Rightarrow> string + response)
   \<Rightarrow> (string + response) \<times> attribution_context option \<times> log_line list" where
  "dispatch_request settings_mode rs rq call_next =
    (let codes = request_gate rq
     in if codes \<noteq> [] then
          let correlation_id = fst (resolve_correlation_id (rs 0) (rq_header rq ''X-Correlation-ID''));
              ctx = make_blocked_context correlation_id (rq_header rq ''X-Execution-Mode'')
                (rq_header rq ''X-Execution-Type'') [''RULE_0_GOVERNANCE_GATE''];
              record = make_propagation_record (rs 1) ctx ''attribution_blocked'' (rq_path rq)
                (rq_method rq) True codes (Some (join ''; '' codes)) ''blocked''
                (Some (rt_duration_ms (rs 1)))
          in (Inr (blocked_response correlation_id codes), None, [emit_propagation_log record])
        else
          let ctx = request_attribution settings_mode (rs 0) rq;
              request_record = make_propagation_record (rs 1) ctx ''api_request_received''
                (rq_path rq) (rq_method rq) False [] None ''propagated'' None;
              request_line = emit_propagation_log request_record
          in case call_next ctx of
               Inl exc \<Rightarrow> (Inl exc, Some ctx, [request_line])
             | Inr response \<Rightarrow>
                 let response_record = make_propagation_record (rs 2) ctx
                       ''api_response_dispatched'' (rq_path rq) (rq_method rq) False [] None
                       ''propagated'' (Some (rt_duration_ms (rs 2)))
                 in (Inr (attributed_response ctx response), Some ctx,
                     [request_line, emit_propagation_log response_record]))"

end
