(* ===== verification/CorrelationProps.thy ===== *)
theory CorrelationProps
  imports Correlation CaseActions
begin

text \<open>
  What the middleware promises: a request with contradictory headers never reaches a handler, an
  accepted one carries an attribution of a known mode and type, without authority, whose identifier is returned in the
  response, every path is logged, and where the log is less precise than its documentation.
\<close>

fun logged_field :: "log_line \<Rightarrow> string \<Rightarrow> pyval" where
  "logged_field (LogJson level d) k = dict_get d k"
| "logged_field (LogText level t) k = VNone"

definition header_of :: "response \<Rightarrow> string \<Rightarrow> string option" where
  "header_of r k = map_of (rp_headers r) (lower k)"

lemma header_of_set [simp]:
  "header_of (set_header k v r) k' = (if lower k' = lower k then Some v else header_of r k')"
  by (simp add: header_of_def set_header_def AList.update_conv')

lemma set_header_status [simp]:
  "rp_status (set_header k v r) = rp_status r" "rp_body (set_header k v r) = rp_body r"
  by (simp_all add: set_header_def)

lemma lower_header_names:
  "lower ''X-Correlation-ID'' = ''x-correlation-id''" "lower ''X-Execution-Mode'' = ''x-execution-mode''"
  "lower ''X-Governance-Scope'' = ''x-governance-scope''" "lower ''X-Causation-ID'' = ''x-causation-id''"
  by code_simp+

lemma attributed_headers:
  "header_of (attributed_response c r) ''X-Correlation-ID'' = Some (xc_correlation_id c)"
  "header_of (attributed_response c r) ''X-Execution-Mode'' = Some (xc_execution_mode c)"
  "header_of (attributed_response c r) ''X-Governance-Scope'' = Some (xc_governance_scope c)"
  "given (xc_causation_id c) \<Longrightarrow>
     header_of (attributed_response c r) ''X-Causation-ID'' = xc_causation_id c"
  "rp_status (attributed_response c r) = rp_status r" "rp_body (attributed_response c r) = rp_body r"
  by (auto simp: attributed_response_def Let_def lower_header_names given_iff simp del: lower_simps)

text \<open>The attribution of a request, field by field.\<close>

definition request_id :: "runtime \<Rightarrow> request \<Rightarrow> string" where
  "request_id rt rq = (if given (rq_header rq ''X-Correlation-ID'')
     then the (rq_header rq ''X-Correlation-ID'') else rt_uuid rt)"

lemma request_attribution_fields:
  "xc_correlation_id (request_attribution m rt rq) = request_id rt rq"
  "xc_correlation_id_generated (request_attribution m rt rq) \<longleftrightarrow> \<not> given (rq_header rq ''X-Correlation-ID'')"
  "xc_causation_id (request_attribution m rt rq) = rq_header rq ''X-Causation-ID''"
  "xc_governance_scope (request_attribution m rt rq) \<in> {''REPLAY_ONLY'', ''MAINTENANCE'', ''SHADOW_ONLY''}"
  "xc_live_effects_suppressed (request_attribution m rt rq)"
  "xc_origin_source (request_attribution m rt rq) = rq_header rq ''X-Origin-Source''"
  "xc_origin_authority (request_attribution m rt rq) = rq_header rq ''X-Origin-Authority''"
  by (auto simp: request_attribution_def resolve_correlation_id_def build_attribution_context_def
      mw_governance_scope_def request_id_def Let_def)

lemma gate_complete_attribution:
  assumes "request_gate rq = []"
  shows "given (rq_header rq ''X-Origin-Source'') = given (rq_header rq ''X-Origin-Authority'')"
    and "xc_execution_type (request_attribution m rt rq) \<in> mw_replay_types \<Longrightarrow>
      given (rq_header rq ''X-Historical-Config-Version-ID'')"
  using assms
  by (auto simp: request_gate_def mw_precondition_gate_def check_attribution_partial_def
      check_replay_lineage_def check_execution_type_def request_attribution_def
      resolve_execution_type_def build_attribution_context_def mw_replay_types_def Let_def
      split: option.split_asm if_split_asm prod.split_asm)

text \<open>Of an accepted request the mode is that of the header, or else of the settings; mode and type are known.\<close>

lemma gate_known_mode:
  assumes "request_gate rq = []"
  shows "xc_execution_mode (request_attribution m rt rq) = (case rq_header rq ''X-Execution-Mode'' of None \<Rightarrow> m | Some h \<Rightarrow> h)"
    and "m \<in> mw_execution_modes \<Longrightarrow> xc_execution_mode (request_attribution m rt rq) \<in> mw_execution_modes"
    and "xc_execution_type (request_attribution m rt rq) = (case rq_header rq ''X-Execution-Type'' of None \<Rightarrow> ''original'' | Some t \<Rightarrow> t)"
    and "xc_execution_type (request_attribution m rt rq) \<in> mw_execution_types"
proof -
  have h: "h \<in> mw_execution_modes \<and> h \<noteq> []" if "rq_header rq ''X-Execution-Mode'' = Some h" for h
    using assms that by (auto simp: request_gate_def mw_precondition_gate_def check_execution_mode_def mw_execution_modes_def)
  have t: "t \<in> mw_execution_types \<and> t \<noteq> []" if "rq_header rq ''X-Execution-Type'' = Some t" for t
    using assms that by (auto simp: request_gate_def mw_precondition_gate_def check_execution_type_def mw_execution_types_def)
  show mode: "xc_execution_mode (request_attribution m rt rq) = (case rq_header rq ''X-Execution-Mode'' of None \<Rightarrow> m | Some h \<Rightarrow> h)"
    using h by (cases "rq_header rq ''X-Execution-Mode''")
      (auto simp: request_attribution_def resolve_execution_mode_def build_attribution_context_def Let_def case_prod_unfold given_iff)
  show kind: "xc_execution_type (request_attribution m rt rq) = (case rq_header rq ''X-Execution-Type'' of None \<Rightarrow> ''original'' | Some t \<Rightarrow> t)"
    using t by (cases "rq_header rq ''X-Execution-Type''")
      (auto simp: request_attribution_def resolve_execution_type_def build_attribution_context_def Let_def case_prod_unfold given_iff)
  show "m \<in> mw_execution_modes \<Longrightarrow> xc_execution_mode (request_attribution m rt rq) \<in> mw_execution_modes"
    unfolding mode using h by (auto split: option.split)
  have "''original'' \<in> mw_execution_types" by (simp add: mw_execution_types_def)
  then show "xc_execution_type (request_attribution m rt rq) \<in> mw_execution_types"
    unfolding kind using t by (auto split: option.split)
qed

lemma settings_mode_known: "enum_value m \<in> mw_execution_modes"
  by (cases m) (simp_all add: mw_execution_modes_def)

text \<open>An attribution the middleware may hand to a handler, under the mode of the settings.\<close>

definition contained_attribution :: "execution_mode \<Rightarrow> runtime \<Rightarrow> request \<Rightarrow> attribution_context \<Rightarrow> bool" where
  "contained_attribution m rt rq c \<longleftrightarrow> xc_correlation_id c = request_id rt rq
     \<and> xc_execution_mode c = (case rq_header rq ''X-Execution-Mode'' of None \<Rightarrow> enum_value m | Some h \<Rightarrow> h)
     \<and> xc_execution_mode c \<in> mw_execution_modes
     \<and> xc_execution_type c = (case rq_header rq ''X-Execution-Type'' of None \<Rightarrow> ''original'' | Some t \<Rightarrow> t)
     \<and> xc_execution_type c \<in> mw_execution_types
     \<and> xc_governance_scope c \<in> {''REPLAY_ONLY'', ''MAINTENANCE'', ''SHADOW_ONLY''}
     \<and> xc_live_effects_suppressed c
     \<and> (given (xc_origin_source c) \<longleftrightarrow> given (xc_origin_authority c))
     \<and> (xc_execution_type c \<in> mw_replay_types \<longrightarrow>
          given (rq_header rq ''X-Historical-Config-Version-ID''))"

lemma accepted_contained:
  "request_gate rq = [] \<Longrightarrow> contained_attribution m rt rq (request_attribution (enum_value m) rt rq)"
  unfolding contained_attribution_def
  by (intro conjI impI request_attribution_fields gate_complete_attribution(2) gate_known_mode settings_mode_known)
    (simp_all add: request_attribution_fields gate_complete_attribution(1))

text \<open>
  C20. Requests are attributed before they are handled: a request whose headers fail the gate never
  reaches the handler, is answered with status 400 under its correlation identifier and logged
  once; any other request reaches it with the mode and type of its headers, or those of the settings
  and of an original request, both among the known ones, and with an attribution that is complete or
  absent, has the lineage of a replay, suppresses live effects and is never AUTHORIZED; its response
  carries identifier, mode and scope and is logged twice. A handler that raises leaves one line only.
\<close>

theorem requests_attributed:
  "let (res, seen, lines) = dispatch_request (enum_value m) rs rq call_next
   in if request_gate rq \<noteq> [] then
        seen = None \<and> length lines = 1
        \<and> (case res of Inl exc \<Rightarrow> False
           | Inr r \<Rightarrow> rp_status r = 400 \<and> header_of r ''X-Correlation-ID'' = Some (request_id (rs 0) rq))
      else (case seen of None \<Rightarrow> False
        | Some c \<Rightarrow> contained_attribution m (rs 0) rq c
            \<and> (case (res, call_next c) of
                 (Inl exc, Inl exc') \<Rightarrow> exc = exc' \<and> length lines = 1
               | (Inr r, Inr r') \<Rightarrow> length lines = 2 \<and> rp_status r = rp_status r' \<and> rp_body r = rp_body r'
                   \<and> header_of r ''X-Correlation-ID'' = Some (request_id (rs 0) rq)
                   \<and> header_of r ''X-Execution-Mode'' = Some (xc_execution_mode c)
                   \<and> header_of r ''X-Governance-Scope'' = Some (xc_governance_scope c)
               | _ \<Rightarrow> False))"
proof (cases "request_gate rq = []")
  case True
  then show ?thesis
    using accepted_contained [OF True, of m "rs 0"]
    by (auto simp: dispatch_request_def Let_def attributed_headers request_attribution_fields(1)
        split: sum.split)
next
  case False
  then show ?thesis
    by (simp add: dispatch_request_def Let_def blocked_response_def header_of_def request_id_def
        resolve_correlation_id_def)
qed

text \<open>
  What the log says of a request: the rule path of every line is the one of the context, so a
  response is logged with Rules 0 to 6 only and a refusal with Rule 0; and a refused request is
  logged as if its correlation identifier came from the caller, also when it was generated.
\<close>

definition context_rules :: "string list" where
  "context_rules = [''RULE_0_GOVERNANCE_GATE'', ''RULE_1_CORRELATION_ID'', ''RULE_2_EXECUTION_MODE'',
     ''RULE_3_EXECUTION_TYPE'', ''RULE_4_GOVERNANCE_SCOPE'', ''RULE_5_ATTRIBUTION_COMPLETENESS'',
     ''RULE_6_CONTEXT_BUILD'']"

lemma logged_path:
  "logged_field (emit_propagation_log r) ''rule_path_taken'' = str_list (xp_rule_path_taken r)"
  "logged_field (emit_propagation_log r) ''correlation_id_generated'' = VBool (xp_correlation_id_generated r)"
  by (simp_all add: emit_propagation_log_def Let_def)

lemma attribution_logged:
  "xc_rule_path_taken (request_attribution m rt rq) = context_rules"
  by (simp add: request_attribution_def build_attribution_context_def context_rules_def Let_def
      case_prod_unfold)

lemma propagated_fields:
  "xp_rule_path_taken (make_propagation_record rt c e p h b bc br oc d) = xc_rule_path_taken c"
  "xp_correlation_id_generated (make_propagation_record rt c e p h b bc br oc d) =
     xc_correlation_id_generated c"
  "xc_rule_path_taken (make_blocked_context i m t rules) = rules"
  "\<not> xc_correlation_id_generated (make_blocked_context i m t rules)"
  by (simp_all add: make_propagation_record_def make_blocked_context_def Let_def)

theorem logged_rule_path:
  "let (res, seen, lines) = dispatch_request settings_mode rs rq call_next;
       refused = (request_gate rq \<noteq> [])
   in list_all (\<lambda>l.
        logged_field l ''rule_path_taken'' =
          str_list (if refused then [''RULE_0_GOVERNANCE_GATE''] else context_rules)
      \<and> logged_field l ''correlation_id_generated'' =
          VBool (\<not> refused \<and> \<not> given (rq_header rq ''X-Correlation-ID''))) lines"
  by (cases "request_gate rq = []")
    (simp_all add: dispatch_request_def Let_def logged_path propagated_fields attribution_logged
      request_attribution_fields(2) split: sum.split)

text \<open>
  The mode header of a request overrides the mode the service is configured with: when it is
  given, the configuration has no influence on the request.
\<close>

theorem mode_header_overrides:
  assumes "rq_header rq ''X-Execution-Mode'' = Some m" and "request_gate rq = []"
  shows "dispatch_request s rs rq call_next = dispatch_request s' rs rq call_next"
    and "xc_execution_mode (request_attribution s rt rq) = m"
proof -
  from assms have "m \<in> mw_execution_modes" "m \<noteq> []"
    by (auto simp: request_gate_def mw_precondition_gate_def check_execution_mode_def
        mw_execution_modes_def)
  with assms(1) have mode: "resolve_execution_mode (rq_header rq ''X-Execution-Mode'') s = m" for s
    by (simp add: resolve_execution_mode_def)
  have "request_attribution s (rs 0) rq = request_attribution s' (rs 0) rq"
    by (simp only: request_attribution_def mode)
  then show "dispatch_request s rs rq call_next = dispatch_request s' rs rq call_next"
    by (simp only: dispatch_request_def)
  show "xc_execution_mode (request_attribution s rt rq) = m"
    by (simp add: request_attribution_def mode build_attribution_context_def Let_def case_prod_unfold)
qed

end
