(* ===== verification/Payment.thy ===== *)
theory Payment
  imports Cells
begin

text \<open>
  The payment calculations of \<^verbatim>\<open>app/services/payment.py\<close>: the balance with the
  correction of bundle deals, the risk label, and the row of the reconciliation table.
\<close>

section \<open>Balance and risk\<close>

definition is_bundle :: "pyfloat \<Rightarrow> pyfloat \<Rightarrow> pyfloat \<Rightarrow> bool" where
  "is_bundle total_credits stored_balance class_value \<longleftrightarrow>
     fgt total_credits (Fin 0) \<and> feq stored_balance (Fin 0) \<and> fgt class_value (Fin 0)"

definition compute_balance :: "float_lib \<Rightarrow> student \<Rightarrow> pyfloat res" where
  "compute_balance L s =
     bind_res (float_field L s ''Total_Payments'') (\<lambda>total_payments.
     bind_res (float_field L s ''Total_Credits'') (\<lambda>total_credits.
     bind_res (float_field L s ''ClassValue'') (\<lambda>class_value.
     bind_res (float_field L s ''PaymentBalance'') (\<lambda>stored_balance.
       Inr (if is_bundle total_credits stored_balance class_value
            then max_zero (fl_sub L (fl_sub L class_value total_payments) total_credits)
            else stored_balance)))))"

definition payment_risk_label :: "pyfloat \<Rightarrow> string" where
  "payment_risk_label b =
     (if fgt b (Fin 1000) then ''HIGH'' else if fgt b (Fin 0) then ''MEDIUM'' else ''CLEAR'')"

section \<open>The reconciliation row\<close>

definition display_name :: "(cell \<Rightarrow> string) \<Rightarrow> student \<Rightarrow> string" where
  "display_name str s =
     (let name = strip (cell_text str (or_cell (attr s ''FirstName'') (CText [])) @ '' ''
            @ cell_text str (or_cell (attr s ''LastName'') (CText [])))
      in if name \<noteq> [] then name else ''#'' @ cell_text str (attr s ''UserID''))"

text \<open>\<^verbatim>\<open>{**d, ...}\<close>: the computed keys override the columns.\<close>

definition build_payment_row :: "float_lib \<Rightarrow> (cell \<Rightarrow> string) \<Rightarrow> row \<Rightarrow> row res" where
  "build_payment_row L str d =
     (let s = map_of d in
      bind_res (float_field L s ''Total_Credits'') (\<lambda>total_credits.
      bind_res (float_field L s ''PaymentBalance'') (\<lambda>stored_balance.
      bind_res (float_field L s ''ClassValue'') (\<lambda>class_value.
      bind_res (compute_balance L s) (\<lambda>actual_bal.
      bind_res (float_field L s ''Total_Payments'') (\<lambda>total_payments.
      let pct_paid = (if class_value \<noteq> Fin 0 then fl_pct L total_payments class_value else Fin 0);
          d1 = (case attr s ''IPBCStartDate'' of
                  CTime t \<Rightarrow> AList.update ''IPBCStartDate'' (CText t) d | _ \<Rightarrow> d)
      in Inr (fold (case_prod AList.update)
           [(''display_name'', CText (display_name str s)), (''actual_balance'', CFloat actual_bal),
            (''is_bundle_deal'', CBool (is_bundle total_credits stored_balance class_value)),
            (''pct_paid'', CFloat pct_paid), (''payment_risk'', CText (payment_risk_label actual_bal)),
            (''plan_name'', attr (map_of d1) ''plan_name''),
            (''down_payment_amt'', attr (map_of d1) ''down_payment_amt'')] d1)))))))"

section \<open>Facts\<close>

lemma compute_balance_Inr:
  "compute_balance L s = Inr b \<longleftrightarrow> (\<exists>tp tc cv sb. float_field L s ''Total_Payments'' = Inr tp
     \<and> float_field L s ''Total_Credits'' = Inr tc \<and> float_field L s ''ClassValue'' = Inr cv
     \<and> float_field L s ''PaymentBalance'' = Inr sb
     \<and> b = (if is_bundle tc sb cv then max_zero (fl_sub L (fl_sub L cv tp) tc) else sb))"
  by (auto simp: compute_balance_def bind_res_Inr_iff)

lemma map_of_updates: "map_of (fold (case_prod AList.update) kvs d) = map_of d ++ map_of (rev kvs)"
  by (induction kvs arbitrary: d) (auto simp: AList.update_conv' fun_eq_iff map_add_def
      split: option.split)

text \<open>
  The reconciliation row of a student is consistent: its balance is the one computed for the
  student, the deal is flagged as a bundle exactly when the balance was recomputed from class
  value, payments and credits, a recomputed balance is never negative, any other is the stored
  one, and the risk label is that of the balance.
\<close>

theorem payment_row_consistent:
  assumes "build_payment_row L str d = Inr r"
  shows "\<exists>b tp tc cv sb. compute_balance L (map_of d) = Inr b \<and> attr (map_of r) ''actual_balance'' = CFloat b
    \<and> attr (map_of r) ''payment_risk'' = CText (payment_risk_label b)
    \<and> attr (map_of r) ''is_bundle_deal'' = CBool (is_bundle tc sb cv)
    \<and> float_field L (map_of d) ''Total_Payments'' = Inr tp
    \<and> float_field L (map_of d) ''Total_Credits'' = Inr tc
    \<and> float_field L (map_of d) ''ClassValue'' = Inr cv
    \<and> float_field L (map_of d) ''PaymentBalance'' = Inr sb
    \<and> (if is_bundle tc sb cv then b = max_zero (fl_sub L (fl_sub L cv tp) tc) \<and> fge b (Fin 0)
       else b = sb)"
proof -
  from assms obtain tc sb cv b tp d1 pct where
    f: "float_field L (map_of d) ''Total_Credits'' = Inr tc" "float_field L (map_of d) ''PaymentBalance'' = Inr sb"
      "float_field L (map_of d) ''ClassValue'' = Inr cv" "compute_balance L (map_of d) = Inr b"
      "float_field L (map_of d) ''Total_Payments'' = Inr tp"
    and r: "r = fold (case_prod AList.update)
           [(''display_name'', CText (display_name str (map_of d))), (''actual_balance'', CFloat b),
            (''is_bundle_deal'', CBool (is_bundle tc sb cv)),
            (''pct_paid'', CFloat pct), (''payment_risk'', CText (payment_risk_label b)),
            (''plan_name'', attr (map_of d1) ''plan_name''),
            (''down_payment_amt'', attr (map_of d1) ''down_payment_amt'')] d1"
    unfolding build_payment_row_def Let_def bind_res_Inr_iff by blast
  have "attr (map_of r) ''actual_balance'' = CFloat b"
    "attr (map_of r) ''payment_risk'' = CText (payment_risk_label b)"
    "attr (map_of r) ''is_bundle_deal'' = CBool (is_bundle tc sb cv)"
    unfolding r map_of_updates by (simp_all add: attr_def)
  moreover from f have "if is_bundle tc sb cv
      then b = max_zero (fl_sub L (fl_sub L cv tp) tc) \<and> fge b (Fin 0) else b = sb"
    by (auto simp: compute_balance_Inr max_zero_nonneg)
  ultimately show ?thesis using f by blast
qed

definition sample_floats :: float_lib where
  "sample_floats = \<lparr>fl_of_text = (\<lambda>s. None), fl_of_decimal = Fin,
     fl_sub = (\<lambda>x y. case (x, y) of (Fin a, Fin b) \<Rightarrow> Fin (a - b) | _ \<Rightarrow> NaN),
     fl_pct = (\<lambda>x y. Fin 0)\<rparr>"

definition sample_bundle :: row where
  "sample_bundle = [(''UserID'', CInt 7), (''Total_Payments'', CFloat (Fin 300)),
     (''Total_Credits'', CFloat (Fin 500)), (''ClassValue'', CFloat (Fin 2000)),
     (''PaymentBalance'', CFloat (Fin 0))]"

theorem payment_row_consistent_witness:
  "\<exists>r. build_payment_row sample_floats (\<lambda>v. []) sample_bundle = Inr r
     \<and> attr (map_of r) ''actual_balance'' = CFloat (Fin 1200)"
proof -
  have fields: "float_field sample_floats (map_of sample_bundle) ''Total_Payments'' = Inr (Fin 300)"
    "float_field sample_floats (map_of sample_bundle) ''Total_Credits'' = Inr (Fin 500)"
    "float_field sample_floats (map_of sample_bundle) ''ClassValue'' = Inr (Fin 2000)"
    "float_field sample_floats (map_of sample_bundle) ''PaymentBalance'' = Inr (Fin 0)"
    by (simp_all add: float_field_def sample_bundle_def attr_def or_cell_def)
      (simp add: float_of_int_def round53_def bitlen.simps)
  have balance: "compute_balance sample_floats (map_of sample_bundle) = Inr (Fin 1200)"
    by (simp add: compute_balance_def fields is_bundle_def max_zero_def)
      (simp add: sample_floats_def)
  obtain r where r: "build_payment_row sample_floats (\<lambda>v. []) sample_bundle = Inr r"
    by (simp add: build_payment_row_def fields balance Let_def)
  from payment_row_consistent [OF r] r show ?thesis by (auto simp: balance)
qed

end
