(* ===== verification/Segmentation.thy ===== *)
theory Segmentation
  imports Cells
begin

text \<open>
  The operational cohorts of \<^verbatim>\<open>app/services/segmentation.py\<close>: classification of a
  student, counts per segment, and the filters of the roles. \<open>segment_env\<close> holds the clock and
  the library conversions: whole days since a timestamp, parsing of a timestamp, text of a value.
\<close>

record segment_env =
  sg_days_since :: "string \<Rightarrow> int"
  sg_parse_iso :: "string \<Rightarrow> string option"
  sg_str :: "cell \<Rightarrow> string"
  sg_floats :: float_lib

definition ALL_SEGMENTS :: "string list" where
  "ALL_SEGMENTS = [''NEWCOMERS'', ''HYPER_ACTIVE'', ''CAP_HOPEFULS'', ''LAUNCH_HOPEFULS'', ''PLACEMENT_HOPEFULS'']"

section \<open>Classification\<close>

definition section_of :: "segment_env \<Rightarrow> student \<Rightarrow> string" where
  "section_of env s = cell_text (sg_str env)
     (or_cell (or_cell (or_cell (attr s ''LastActivitySection'') (attr s ''CurrentSection''))
       (attr s ''PathName'')) (CText []))"

text \<open>A start that is neither text nor a timestamp has no \<^verbatim>\<open>replace\<close>.\<close>

definition newcomer :: "segment_env \<Rightarrow> student \<Rightarrow> bool call_res" where
  "newcomer env s =
    (case or_cell (attr s ''IPBCStartDate'') (attr s ''StudentStartDate'') of
       CNull \<Rightarrow> Inr False
     | CText t \<Rightarrow> (case sg_parse_iso env t of None \<Rightarrow> Inr False | Some d \<Rightarrow> Inr (sg_days_since env d \<le> 90))
     | CTime t \<Rightarrow> Inr (sg_days_since env t \<le> 90)
     | _ \<Rightarrow> Inl AttributeError)"

definition classify_student :: "segment_env \<Rightarrow> student \<Rightarrow> string list call_res" where
  "classify_student env s =
     bind_call (newcomer env s) (\<lambda>new.
     bind_call (lift_call (cell_int (or_cell (attr s ''Past10DaysLogon'') (CInt 0)))) (\<lambda>logons.
     bind_call (lift_call (float_field (sg_floats env) s ''AvgEffRating'')) (\<lambda>eff.
     bind_call (lift_call (float_field (sg_floats env) s ''AttendancePercentage'')) (\<lambda>attendance.
     let sec = section_of env s
     in Inr (code_if new ''NEWCOMERS''
       @ code_if (logons \<ge> 7 \<and> fgt eff (Fin 90)) ''HYPER_ACTIVE''
       @ code_if (fgt attendance (Fin 50)) ''CAP_HOPEFULS''
       @ code_if (fgt attendance (Fin 70) \<and> contains ''CAP Project'' sec) ''LAUNCH_HOPEFULS''
       @ code_if (fgt attendance (Fin 70) \<and> contains ''Launch'' sec) ''PLACEMENT_HOPEFULS'')))))"

section \<open>Summary\<close>

text \<open>The counter of each segment; every segment of a student is one of the five.\<close>

type_synonym segment_counts = "(string \<times> int) list"

definition bump :: "segment_counts \<Rightarrow> string \<Rightarrow> segment_counts" where
  "bump counts seg = map (\<lambda>(k, n). (k, if k = seg then n + 1 else n)) counts"

fun summarize :: "segment_env \<Rightarrow> student list \<Rightarrow> segment_counts \<Rightarrow> segment_counts call_res" where
  "summarize env [] counts = Inr counts"
| "summarize env (s # ss) counts =
     bind_call (classify_student env s) (\<lambda>segs. summarize env ss (foldl bump counts segs))"

definition segment_summary :: "segment_env \<Rightarrow> student list \<Rightarrow> segment_counts call_res" where
  "segment_summary env students = summarize env students (map (\<lambda>k. (k, 0)) ALL_SEGMENTS)"

section \<open>Roles\<close>

definition filter_by_role :: "segment_env \<Rightarrow> student list \<Rightarrow> string option \<Rightarrow> string option \<Rightarrow> student list" where
  "filter_by_role env students role sec =
    (if \<not> given role \<or> role = Some ''Support'' then students
     else if role = Some ''Placement Team'' then
       filter (\<lambda>s. contains ''Launch'' (section_of env s) \<or> contains ''Placement'' (section_of env s)) students
     else if role = Some ''Instructor'' \<and> given sec then
       filter (\<lambda>s. contains (the sec) (section_of env s)) students
     else students)"

section \<open>Facts\<close>

text \<open>The segments of a student as an independent table.\<close>

definition in_segment :: "segment_env \<Rightarrow> student \<Rightarrow> string \<Rightarrow> bool" where
  "in_segment env s k \<longleftrightarrow>
     k = ''NEWCOMERS'' \<and> newcomer env s = Inr True
   \<or> k = ''HYPER_ACTIVE'' \<and> (\<exists>n e. cell_int (or_cell (attr s ''Past10DaysLogon'') (CInt 0)) = Inr n \<and> n \<ge> 7
        \<and> float_field (sg_floats env) s ''AvgEffRating'' = Inr e \<and> fgt e (Fin 90))
   \<or> (\<exists>a. float_field (sg_floats env) s ''AttendancePercentage'' = Inr a
        \<and> (k = ''CAP_HOPEFULS'' \<and> fgt a (Fin 50)
           \<or> k = ''LAUNCH_HOPEFULS'' \<and> fgt a (Fin 70) \<and> contains ''CAP Project'' (section_of env s)
           \<or> k = ''PLACEMENT_HOPEFULS'' \<and> fgt a (Fin 70) \<and> contains ''Launch'' (section_of env s)))"

lemma classified_in_segment:
  assumes "classify_student env s = Inr segs"
  shows "segs = filter (in_segment env s) ALL_SEGMENTS"
  using assms unfolding classify_student_def bind_call_Inr lift_call_Inr Let_def
  by (auto simp: ALL_SEGMENTS_def in_segment_def code_if_def)

lemma bump_keys: "map fst (bump counts seg) = map fst counts"
  by (auto simp: bump_def)

lemma bump_value:
  "distinct (map fst counts) \<Longrightarrow>
     map_of (bump counts seg) k = map_option (\<lambda>n. if k = seg then n + 1 else n) (map_of counts k)"
  by (induction counts) (auto simp: bump_def)

lemma foldl_bump:
  assumes "distinct segs" and "distinct (map fst counts)"
  shows "map_of (foldl bump counts segs) k =
    map_option (\<lambda>n. if k \<in> set segs then n + 1 else n) (map_of counts k)"
    and "map fst (foldl bump counts segs) = map fst counts"
  using assms
proof (induction segs arbitrary: counts)
  case (Cons x xs)
  {
    case 1
    with Cons.IH(1) [of "bump counts x"] show ?case
      by (cases "map_of counts k") (auto simp: bump_keys bump_value)
  next
    case 2
    with Cons.IH(2) [of "bump counts x"] show ?case by (simp add: bump_keys)
  }
qed (simp_all add: option.map_ident)

lemma summarize_counts:
  assumes "summarize env ss counts = Inr res" and "distinct (map fst counts)"
  shows "map_of res k = map_option (\<lambda>n. n + (if k \<in> set ALL_SEGMENTS
      then int (length (filter (\<lambda>s. in_segment env s k) ss)) else 0)) (map_of counts k)"
  using assms
proof (induction ss arbitrary: counts)
  case Nil
  then show ?case by (cases "map_of counts k") simp_all
next
  case (Cons s ss)
  then obtain segs where c: "classify_student env s = Inr segs"
    and rest: "summarize env ss (foldl bump counts segs) = Inr res" by (auto simp: bind_call_Inr)
  have segs: "segs = filter (in_segment env s) ALL_SEGMENTS" using c by (rule classified_in_segment)
  then have d: "distinct segs" by (simp add: ALL_SEGMENTS_def)
  from Cons.IH [OF rest] foldl_bump [OF d Cons.prems(2)] Cons.prems(2) segs show ?case
    by (cases "map_of counts k") auto
qed

text \<open>
  The summary of a list of students counts, for each of the five segments, exactly the students
  that the segment table puts into it, and the segments nest: a student of the Launch or Placement
  hopefuls is also one of the CAP hopefuls, so neither count exceeds theirs.
\<close>

theorem segment_summary_counts:
  assumes "segment_summary env students = Inr counts"
  shows "(\<forall>k \<in> set ALL_SEGMENTS.
      map_of counts k = Some (int (length (filter (\<lambda>s. in_segment env s k) students))))
    \<and> the (map_of counts ''LAUNCH_HOPEFULS'') \<le> the (map_of counts ''CAP_HOPEFULS'')
    \<and> the (map_of counts ''PLACEMENT_HOPEFULS'') \<le> the (map_of counts ''CAP_HOPEFULS'')"
proof -
  have "distinct (map fst (map (\<lambda>k. (k, 0 :: int)) ALL_SEGMENTS))" by (simp add: ALL_SEGMENTS_def)
  from summarize_counts [OF assms [unfolded segment_summary_def] this]
  have counts: "map_of counts k = Some (int (length (filter (\<lambda>s. in_segment env s k) students)))"
    if "k \<in> set ALL_SEGMENTS" for k using that by (auto simp: ALL_SEGMENTS_def)
  have nest: "in_segment env s ''CAP_HOPEFULS''"
    if "in_segment env s k" "k = ''LAUNCH_HOPEFULS'' \<or> k = ''PLACEMENT_HOPEFULS''" for s k
  proof -
    have "fgt a (Fin 70) \<Longrightarrow> fgt a (Fin 50)" for a by (cases a) (simp_all add: fgt_def)
    with that show ?thesis by (auto simp: in_segment_def)
  qed
  have le: "length (filter (\<lambda>s. in_segment env s k) students)
      \<le> length (filter (\<lambda>s. in_segment env s ''CAP_HOPEFULS'') students)"
    if "k = ''LAUNCH_HOPEFULS'' \<or> k = ''PLACEMENT_HOPEFULS''" for k
    using nest [OF _ that] by (induction students) auto
  show ?thesis using counts le by (auto simp: ALL_SEGMENTS_def)
qed

definition sample_env :: segment_env where
  "sample_env = \<lparr>sg_days_since = (\<lambda>t. 10), sg_parse_iso = (\<lambda>t. None), sg_str = (\<lambda>v. []),
     sg_floats = \<lparr>fl_of_text = (\<lambda>s. None), fl_of_decimal = Fin, fl_sub = (\<lambda>x y. x), fl_pct = (\<lambda>x y. x)\<rparr>\<rparr>"

definition sample_launch :: student where
  "sample_launch = [''AttendancePercentage'' \<mapsto> CFloat (Fin 80), ''LastActivitySection'' \<mapsto> CText ''Launch 2'',
     ''AvgEffRating'' \<mapsto> CFloat (Fin 50), ''Past10DaysLogon'' \<mapsto> CInt 3]"

theorem segment_summary_counts_witness:
  "\<exists>counts. segment_summary sample_env [sample_launch] = Inr counts
     \<and> the (map_of counts ''PLACEMENT_HOPEFULS'') \<le> the (map_of counts ''CAP_HOPEFULS'')"
proof -
  have "\<exists>segs. classify_student sample_env sample_launch = Inr segs"
    by (simp add: classify_student_def newcomer_def sample_launch_def attr_def float_field_def
        bind_call_def lift_call_def Let_def)
  then obtain counts where "segment_summary sample_env [sample_launch] = Inr counts"
    by (auto simp: segment_summary_def bind_call_def)
  with segment_summary_counts [OF this] show ?thesis by blast
qed

end
