(* ===== verification/PaymentSync.thy ===== *)
theory PaymentSync
  imports MirrorSync "HOL-Library.List_Lexorder" "HOL-Library.Char_ord"
begin

text \<open>
  The payment synchronization of \<^verbatim>\<open>app/services/payment_sync.py\<close> over the state of
  \<open>MirrorSync\<close>: payment totals and payment plans are patched into existing students by
  \<^verbatim>\<open>UPDATE\<close> statements, placement interviews are upserted into the interview
  preparation. The results of the SQL Server queries are arguments.
\<close>

section \<open>Patching a student\<close>

text \<open>The statement updates the row if it exists, and tells how many rows it found.\<close>

definition patch_student :: "int \<Rightarrow> row \<Rightarrow> mirrors \<Rightarrow> mirrors \<times> bool" where
  "patch_student k vs M =
    (case M Students k of
       None \<Rightarrow> (M, False)
     | Some r \<Rightarrow> (M(Students := (M Students)(k \<mapsto> r ++ map_of vs)), True))"

definition execute_patch :: "source_lib \<Rightarrow> int \<Rightarrow> row \<Rightarrow> mirrors \<Rightarrow> (mirrors \<times> bool) call_res" where
  "execute_patch lib uid vs M =
    (case sl_accepts_key lib (CInt uid) of
       None \<Rightarrow> Inl DatabaseError
     | Some k \<Rightarrow>
         (if list_all (\<lambda>(c, v). sl_accepts lib Students c v) vs then Inr (patch_student k vs M)
          else Inl DatabaseError))"

text \<open>A patching import: a row is skipped, or patches a student, or raises.\<close>

type_synonym patch = "(int \<times> row) option"

fun patch_rows ::
  "source_lib \<Rightarrow> (row \<Rightarrow> patch call_res) \<Rightarrow> row list \<Rightarrow> int \<times> int \<times> mirrors
   \<Rightarrow> (int \<times> int \<times> mirrors) call_res" where
  "patch_rows lib plan [] st = Inr st"
| "patch_rows lib plan (r # rs) (updated, skipped, M) =
     bind_call (plan r) (\<lambda>p.
       (case p of
          None \<Rightarrow> patch_rows lib plan rs (updated, skipped + 1, M)
        | Some (uid, vs) \<Rightarrow>
            bind_call (execute_patch lib uid vs M) (\<lambda>(M', found).
              patch_rows lib plan rs
                (if found then (updated + 1, skipped, M') else (updated, skipped + 1, M')))))"

text \<open>The transaction, as in \<open>MirrorSync\<close>.\<close>

definition run_patches ::
  "source_lib \<Rightarrow> (row \<Rightarrow> patch call_res) \<Rightarrow> row list \<Rightarrow> (int \<Rightarrow> int \<Rightarrow> pydict)
   \<Rightarrow> (int \<Rightarrow> int \<Rightarrow> pydict) \<Rightarrow> sync_state \<Rightarrow> pydict call_res \<times> sync_state" where
  "run_patches lib plan rows line result st =
    (case patch_rows lib plan rows (0, 0, sd_mirrors (sy_db st)) of
       Inl e \<Rightarrow> (Inl e, st)
     | Inr (updated, skipped, M) \<Rightarrow>
         (Inr (result updated skipped),
          st\<lparr>sy_db := (sy_db st)\<lparr>sd_mirrors := M\<rparr>,
             sy_log := sy_log st @ [LogJson ''info'' (line updated skipped)]\<rparr>))"

definition payment_failed :: "string \<Rightarrow> string \<Rightarrow> pydict \<Rightarrow> sync_state \<Rightarrow> pydict call_res \<times> sync_state" where
  "payment_failed event error result st =
     (Inr result, st\<lparr>sy_log := sy_log st @ [LogJson ''warning''
        [(''service'', VStr ''payment_sync''), (''event'', VStr event), (''error'', VStr error)]]\<rparr>)"

definition fetch_payment_rows :: "bool \<Rightarrow> (string + row list) \<Rightarrow> fetched" where
  "fetch_payment_rows configured query =
    (if \<not> configured then ([], Some ''SQL Server not configured'')
     else case query of Inl msg \<Rightarrow> ([], Some msg) | Inr rows \<Rightarrow> (rows, None))"

section \<open>Payment totals\<close>

definition payment_plan :: "float_lib \<Rightarrow> row \<Rightarrow> patch call_res" where
  "payment_plan L r =
    (let f = (\<lambda>k. lift_call (float_field L (map_of r) k))
     in if \<not> cell_truthy (get r ''UserID'') then Inr None
        else bind_call (f ''Total_Payments'') (\<lambda>total_payments.
             bind_call (f ''ClassValue'') (\<lambda>class_value.
             bind_call (f ''ClassFeesPaid'') (\<lambda>class_fees_paid.
             bind_call (f ''PaymentBalance'') (\<lambda>payment_balance.
             bind_call (lift_call (cell_int (get r ''UserID''))) (\<lambda>uid.
             Inr (Some (uid, [(''Total_Payments'', CFloat total_payments),
               (''ClassValue'', CFloat class_value), (''ClassFeesPaid'', CFloat class_fees_paid),
               (''PaymentBalance'', CFloat payment_balance)]))))))))"

definition sync_payments ::
  "source_lib \<Rightarrow> float_lib \<Rightarrow> fetched \<Rightarrow> sync_state \<Rightarrow> pydict call_res \<times> sync_state" where
  "sync_payments lib L fetched st =
    (let (rows, error) = fetched; n = VInt (int (length rows))
     in if given error then payment_failed ''payment_fetch_failed'' (the error) (failed_result (the error)) st
        else run_patches lib (payment_plan L) rows
          (\<lambda>updated skipped. [(''service'', VStr ''payment_sync''), (''event'', VStr ''payment_sync_complete''),
             (''total_fetched'', n), (''updated'', VInt updated), (''skipped'', VInt skipped)])
          (\<lambda>updated skipped. [(''status'', VStr ''ok''), (''total_fetched'', n),
             (''updated'', VInt updated), (''skipped'', VInt skipped), (''error'', VNone)]) st)"

section \<open>Payment plans\<close>

definition normalize_email :: "source_lib \<Rightarrow> cell \<Rightarrow> string" where
  "normalize_email lib v = sl_lower lib (strip (cell_text (sl_str lib) v))"

text \<open>\<^verbatim>\<open>(v or "").strip().lower()\<close>: only texts have \<^verbatim>\<open>strip\<close>.\<close>

definition name_part :: "source_lib \<Rightarrow> cell \<Rightarrow> string call_res" where
  "name_part lib v = (case or_cell v (CText []) of CText s \<Rightarrow> Inr (sl_lower lib (strip s)) | _ \<Rightarrow> Inl AttributeError)"

definition name_key :: "source_lib \<Rightarrow> row \<Rightarrow> string option call_res" where
  "name_key lib r =
     bind_call (name_part lib (get r ''FirstName'')) (\<lambda>fn.
     bind_call (name_part lib (get r ''LastName'')) (\<lambda>ln.
       Inr (if fn \<noteq> [] \<and> ln \<noteq> [] then Some (fn @ ''|'' @ ln) else None)))"

definition view_cols :: "source_lib \<Rightarrow> row list \<Rightarrow> string list" where
  "view_cols lib plan_rows = (case plan_rows of [] \<Rightarrow> [] | r # rs \<Rightarrow> sort (remdups (map (sl_lower lib \<circ> fst) r)))"

type_synonym plan_index = "(string \<rightharpoonup> row) \<times> (string \<rightharpoonup> row)"

fun index_plans :: "source_lib \<Rightarrow> bool \<Rightarrow> bool \<Rightarrow> row list \<Rightarrow> plan_index \<Rightarrow> plan_index call_res" where
  "index_plans lib has_email has_name [] ix = Inr ix"
| "index_plans lib has_email has_name (r # rs) (by_email, by_name) =
     (let by_email' = (if has_email \<and> cell_truthy (get r ''Email'')
            then by_email(normalize_email lib (get r ''Email'') \<mapsto> r) else by_email)
      in if has_name then
           bind_call (name_key lib r) (\<lambda>k. index_plans lib has_email has_name rs
             (by_email', case k of None \<Rightarrow> by_name | Some x \<Rightarrow> by_name(x \<mapsto> r)))
         else index_plans lib has_email has_name rs (by_email', by_name))"

definition find_plan :: "source_lib \<Rightarrow> bool \<Rightarrow> bool \<Rightarrow> plan_index \<Rightarrow> row \<Rightarrow> row option call_res" where
  "find_plan lib has_email has_name ix student =
    (let by_email = (if has_email \<and> cell_truthy (get student ''Email'')
           then fst ix (normalize_email lib (get student ''Email'')) else None)
     in if by_email = None \<and> has_name then
          bind_call (name_key lib student) (\<lambda>k. Inr (case k of None \<Rightarrow> None | Some x \<Rightarrow> snd ix x))
        else Inr by_email)"

definition plan_patch ::
  "source_lib \<Rightarrow> float_lib \<Rightarrow> bool \<Rightarrow> bool \<Rightarrow> plan_index \<Rightarrow> row \<Rightarrow> patch call_res" where
  "plan_patch lib L has_email has_name ix student =
    (if \<not> cell_truthy (get student ''UserID'') then Inr None
     else case cell_int (get student ''UserID'') of
         Inl e \<Rightarrow> (if e \<in> {TypeError, ValueError} then Inr None else Inl (Py e))
       | Inr uid \<Rightarrow>
           bind_call (find_plan lib has_email has_name ix student) (\<lambda>found.
             (case found of
                None \<Rightarrow> Inr None
              | Some p \<Rightarrow>
                  (let plan_name = or_cell (get p ''PlanName'') (get p ''planname'')
                   in bind_call (lift_call (cell_float L (or_cell (or_cell (get p ''DOWNPAYMENTAMT'')
                          (get p ''downpaymentamt'')) (CInt 0)))) (\<lambda>down_pmt.
                      Inr (Some (uid,
                        [(''plan_name'', if cell_truthy plan_name
                            then CText (cell_text (sl_str lib) plan_name) else CNull),
                         (''down_payment_amt'', CFloat down_pmt)])))))))"

text \<open>The note of the last warning is given up to its dash.\<close>

definition sync_ipbc_payment_plans ::
  "source_lib \<Rightarrow> float_lib \<Rightarrow> fetched \<Rightarrow> fetched \<Rightarrow> sync_state \<Rightarrow> pydict call_res \<times> sync_state" where
  "sync_ipbc_payment_plans lib L plans students st =
    (let (plan_rows, err1) = plans; (student_rows, err2) = students;
         failed = (\<lambda>err. [(''synced'', VInt 0), (''error'', VStr err), (''status'', VStr ''failed'')]);
         cols = view_cols lib plan_rows;
         has_email = (''email'' \<in> set cols);
         has_name = (''firstname'' \<in> set cols \<and> ''lastname'' \<in> set cols);
         counts = [(''plan_rows_fetched'', VInt (int (length plan_rows))),
           (''student_rows_fetched'', VInt (int (length student_rows)))]
     in if given err1 then payment_failed ''ipbc_plan_fetch_failed'' (the err1) (failed (the err1)) st
        else if given err2 then
          payment_failed ''ipbc_student_email_fetch_failed'' (the err2) (failed (the err2)) st
        else if plan_rows = [] then
          (Inr [(''synced'', VInt 0), (''error'', VNone), (''status'', VStr ''ok''), (''note'', VStr ''no_plan_rows'')], st)
        else case index_plans lib has_email has_name plan_rows (Map.empty, Map.empty) of
            Inl e \<Rightarrow> (Inl e, st)
          | Inr ix \<Rightarrow>
              (if \<not> has_email \<and> \<not> has_name then
                 (Inr [(''synced'', VInt 0), (''error'', VStr ''no_join_key''), (''status'', VStr ''failed''),
                    (''view_cols'', str_list cols)],
                  st\<lparr>sy_log := sy_log st @ [LogJson ''warning''
                    [(''service'', VStr ''payment_sync''), (''event'', VStr ''ipbc_plan_no_join_key''),
                     (''view_cols'', str_list cols), (''note'', VStr ''vw_IPBC_DownPaymentTracking has neither Email nor FirstName+LastName'')]]\<rparr>)
               else run_patches lib (plan_patch lib L has_email has_name ix) student_rows
                 (\<lambda>updated skipped. [(''service'', VStr ''payment_sync''),
                    (''event'', VStr ''ipbc_plan_sync_complete'')] @ counts
                    @ [(''updated'', VInt updated), (''skipped'', VInt skipped),
                       (''join_key'', VStr (if has_email then ''email'' else ''name''))])
                 (\<lambda>updated skipped. [(''status'', VStr ''ok'')] @ counts
                    @ [(''updated'', VInt updated), (''skipped'', VInt skipped), (''error'', VNone)]) st))"

section \<open>Placement interviews\<close>

definition serializable :: "row \<Rightarrow> row" where
  "serializable r = map (\<lambda>(k, v). (k, case v of CTime t \<Rightarrow> CText t | _ \<Rightarrow> v)) r"

definition placement_plan :: "string \<Rightarrow> row \<Rightarrow> statement list call_res" where
  "placement_plan now r =
    (if \<not> cell_truthy (get r ''CandidateID'') then Inr []
     else bind_call (lift_call (cell_int (get r ''CandidateID''))) (\<lambda>n.
       Inr [Upsert InterviewPrep (CInt n) [(''raw_data'', CJson (serializable r)), (''synced_at'', CTime now)]]))"

definition sync_placement_interviews ::
  "source_lib \<Rightarrow> string \<Rightarrow> fetched \<Rightarrow> sync_state \<Rightarrow> pydict call_res \<times> sync_state" where
  "sync_placement_interviews lib now fetched st =
    (let (rows, error) = fetched; n = VInt (int (length rows))
     in if given error
        then payment_failed ''placement_interview_fetch_failed'' (the error) (failed_result (the error)) st
        else run_import lib (placement_plan now) rows
          (\<lambda>cnt. [(''service'', VStr ''payment_sync''), (''event'', VStr ''placement_interview_sync_complete''),
             (''total_fetched'', n), (''synced'', VInt (cnt InterviewPrep))])
          (\<lambda>cnt. [(''status'', VStr ''ok''), (''total_fetched'', n),
             (''synced'', VInt (cnt InterviewPrep)), (''error'', VNone)]) st)"

section \<open>What a patching import changes\<close>

text \<open>
  The columns \<open>cs\<close> are the only ones that differ between two mirrors of students, which hold the
  same students; other tables are equal.
\<close>

definition patched_only :: "string set \<Rightarrow> mirrors \<Rightarrow> mirrors \<Rightarrow> bool" where
  "patched_only cs M M' \<longleftrightarrow> (\<forall>t. t \<noteq> Students \<longrightarrow> M' t = M t)
     \<and> (\<forall>k. case (M Students k, M' Students k) of
          (None, None) \<Rightarrow> True
        | (Some r, Some r') \<Rightarrow> (\<forall>c. c \<notin> cs \<longrightarrow> r' c = r c)
        | _ \<Rightarrow> False)"

lemma patched_only_refl: "patched_only cs M M"
  by (simp add: patched_only_def split: option.split)

lemma patched_only_trans:
  assumes "patched_only cs M M'" and "patched_only cs M' M''"
  shows "patched_only cs M M''"
  unfolding patched_only_def
proof (intro conjI allI impI)
  fix k
  from assms have "case (M Students k, M' Students k) of (None, None) \<Rightarrow> True
        | (Some r, Some r') \<Rightarrow> (\<forall>c. c \<notin> cs \<longrightarrow> r' c = r c) | _ \<Rightarrow> False"
    and "case (M' Students k, M'' Students k) of (None, None) \<Rightarrow> True
        | (Some r, Some r') \<Rightarrow> (\<forall>c. c \<notin> cs \<longrightarrow> r' c = r c) | _ \<Rightarrow> False"
    unfolding patched_only_def by blast+
  then show "case (M Students k, M'' Students k) of (None, None) \<Rightarrow> True
        | (Some r, Some r') \<Rightarrow> (\<forall>c. c \<notin> cs \<longrightarrow> r' c = r c) | _ \<Rightarrow> False"
    by (cases "M Students k"; cases "M' Students k"; cases "M'' Students k") simp_all
qed (use assms in \<open>simp add: patched_only_def\<close>)

lemma patch_student_only:
  assumes "fst ` set vs \<subseteq> cs"
  shows "patched_only cs M (fst (patch_student k vs M))"
proof (cases "M Students k")
  case (Some r)
  have "(r ++ map_of vs) c = r c" if "c \<notin> cs" for c
    using that assms by (auto simp: map_add_def map_of_eq_None_iff split: option.split)
      (metis image_eqI map_of_SomeD option.distinct(1) subsetD fst_conv)
  with Some show ?thesis
    by (auto simp: patch_student_def patched_only_def split: option.split)
qed (simp add: patch_student_def patched_only_refl)

lemma patch_rows_only:
  assumes "patch_rows lib plan rs (u, s, M) = Inr (u', s', M')"
    and "\<And>r k vs. plan r = Inr (Some (k, vs)) \<Longrightarrow> fst ` set vs \<subseteq> cs"
  shows "patched_only cs M M' \<and> u' + s' = u + s + int (length rs) \<and> u \<le> u' \<and> s \<le> s'"
  using assms(1)
proof (induction rs arbitrary: u s M)
  case (Cons r rs)
  from Cons.prems obtain p where p: "plan r = Inr p" by (auto simp: bind_call_Inr)
  show ?case
  proof (cases p)
    case None
    with p Cons.prems Cons.IH [of u "s + 1" M] show ?thesis by simp
  next
    case (Some q)
    then obtain uid vs where q: "p = Some (uid, vs)" by (cases q) auto
    with p Cons.prems obtain M1 found where e: "execute_patch lib uid vs M = Inr (M1, found)"
      and rest: "patch_rows lib plan rs
        (if found then (u + 1, s, M1) else (u, s + 1, M1)) = Inr (u', s', M')"
      by (auto simp: bind_call_Inr)
    from e obtain k where "patch_student k vs M = (M1, found)"
      by (auto simp: execute_patch_def split: option.split_asm if_split_asm)
    with patch_student_only [OF assms(2), of r uid vs M k] p q have "patched_only cs M M1" by simp
    moreover from rest Cons.IH [of "if found then u + 1 else u" "if found then s else s + 1" M1]
    have "patched_only cs M1 M' \<and> u' + s' = u + s + 1 + int (length rs) \<and> u \<le> u' \<and> s \<le> s'"
      by (auto split: if_split_asm)
    ultimately show ?thesis by (auto intro: patched_only_trans)
  qed
qed (simp add: patched_only_refl)

definition payment_columns :: "string set" where
  "payment_columns = {''Total_Payments'', ''ClassValue'', ''ClassFeesPaid'', ''PaymentBalance''}"

text \<open>
  The synchronization of payments patches and never creates: when it returns without an error,
  the same students exist as before, only the four payment columns of them may differ, credits and
  the paid flag included in the rest, no other table is touched, and updated and skipped rows
  account for every row fetched.
\<close>

theorem payments_patch_only:
  assumes "sync_payments lib L (rows, None) st = (Inr res, st')"
  shows "patched_only payment_columns (sd_mirrors (sy_db st)) (sd_mirrors (sy_db st'))
    \<and> sd_activities (sy_db st') = sd_activities (sy_db st)
    \<and> (\<exists>u s. 0 \<le> u \<and> 0 \<le> s \<and> u + s = int (length rows)
         \<and> dict_get res ''updated'' = VInt u \<and> dict_get res ''skipped'' = VInt s)"
proof -
  from assms obtain u s M where
    run: "patch_rows lib (payment_plan L) rows (0, 0, sd_mirrors (sy_db st)) = Inr (u, s, M)"
    and st': "sd_mirrors (sy_db st') = M" "sd_activities (sy_db st') = sd_activities (sy_db st)"
    and res: "dict_get res ''updated'' = VInt u" "dict_get res ''skipped'' = VInt s"
    by (auto simp: sync_payments_def run_patches_def Let_def split: sum.split_asm)
  have "fst ` set vs \<subseteq> payment_columns" if "payment_plan L r = Inr (Some (k, vs))" for r k vs
    using that by (auto simp: payment_plan_def payment_columns_def bind_call_Inr Let_def split: if_split_asm)
  from patch_rows_only [OF run this] st' res show ?thesis by auto
qed

section \<open>The join of the plans\<close>

lemma index_plans_no_email:
  assumes "\<forall>r \<in> set rs. get r ''Email'' = CNull"
  shows "index_plans lib he False rs (Map.empty, Map.empty) = Inr (Map.empty, Map.empty)"
  using assms by (induction rs) simp_all

lemma patch_rows_nothing:
  assumes "\<And>r p. plan r = Inr p \<Longrightarrow> p = None"
  shows "case patch_rows lib plan rs (u, s, M) of Inl e \<Rightarrow> True
    | Inr x \<Rightarrow> x = (u, s + int (length rs), M)"
proof (induction rs arbitrary: s)
  case (Cons r rs)
  show ?case
  proof (cases "plan r")
    case (Inr p)
    with assms have "plan r = Inr None" by simp
    with Cons [of "s + 1"] show ?thesis by (simp split: sum.split_asm)
  qed simp
qed simp

text \<open>
  The join column of the plans is looked for without regard to case but read with it: when the
  view has an e-mail column of another spelling and no name columns, no student is matched. The
  call reports success with every student skipped, and the database does not change.
\<close>

theorem misspelt_email_column:
  assumes "plan_rows \<noteq> []" and "''email'' \<in> set (view_cols lib plan_rows)"
    and "''firstname'' \<notin> set (view_cols lib plan_rows)"
    and "\<forall>r \<in> set plan_rows. map_of r ''Email'' = None"
  shows "let (res, st') = sync_ipbc_payment_plans lib L (plan_rows, None) (students, None) st
    in sy_db st' = sy_db st
     \<and> (case res of Inl e \<Rightarrow> True
        | Inr d \<Rightarrow> dict_get d ''status'' = VStr ''ok'' \<and> dict_get d ''updated'' = VInt 0
            \<and> dict_get d ''skipped'' = VInt (int (length students)))"
proof -
  have "index_plans lib True False plan_rows (Map.empty, Map.empty) = Inr (Map.empty, Map.empty)"
    using assms(4) by (intro index_plans_no_email) (simp add: get_def)
  moreover have none: "p = None" if "plan_patch lib L True False (Map.empty, Map.empty) r = Inr p" for r p
    using that by (auto simp: plan_patch_def find_plan_def split: if_split_asm sum.split_asm)
  have "case patch_rows lib (plan_patch lib L True False (Map.empty, Map.empty)) students
      (0, 0, sd_mirrors (sy_db st)) of Inl e \<Rightarrow> True
    | Inr x \<Rightarrow> x = (0, 0 + int (length students), sd_mirrors (sy_db st))"
    by (rule patch_rows_nothing) (rule none)
  ultimately show ?thesis
    using assms(1-3)
    by (cases "patch_rows lib (plan_patch lib L True False (Map.empty, Map.empty)) students
      (0, 0, sd_mirrors (sy_db st))")
      (simp_all add: sync_ipbc_payment_plans_def run_patches_def Let_def)
qed

definition plain_lib :: source_lib where
  "plain_lib = \<lparr>sl_str = (\<lambda>v. []), sl_upper = upper, sl_lower = lower, sl_dumps = (\<lambda>r. []), sl_utc = id,
     sl_parse_iso = (\<lambda>s. None), sl_accepts = (\<lambda>t c v. True),
     sl_accepts_key = (\<lambda>v. case v of CInt n \<Rightarrow> Some n | _ \<Rightarrow> None), sl_accepts_activity = (\<lambda>a. True)\<rparr>"

definition plain_floats :: float_lib where
  "plain_floats = \<lparr>fl_of_text = (\<lambda>s. None), fl_of_decimal = Fin, fl_sub = (\<lambda>x y. x), fl_pct = (\<lambda>x y. x)\<rparr>"

definition one_student :: sync_state where
  "one_student = \<lparr>sy_db = \<lparr>sd_mirrors = (\<lambda>t k. if t = Students \<and> k = 7 then Some Map.empty else None),
     sd_activities = []\<rparr>, sy_log = []\<rparr>"

theorem payments_patch_only_witness:
  "\<exists>res st'. sync_payments plain_lib plain_floats ([[(''UserID'', CInt 7)], [(''UserID'', CInt 8)]], None)
       one_student = (Inr res, st')
     \<and> patched_only payment_columns (sd_mirrors (sy_db one_student)) (sd_mirrors (sy_db st'))"
proof -
  have zero: "float_of_int 0 = Inr (Fin 0)" by (simp add: float_of_int_def round53_def bitlen.simps)
  have "\<exists>res st'. sync_payments plain_lib plain_floats
      ([[(''UserID'', CInt 7)], [(''UserID'', CInt 8)]], None) one_student = (Inr res, st')"
    by (simp add: sync_payments_def run_patches_def payment_plan_def get_def attr_def float_field_def
        lift_call_def execute_patch_def patch_student_def plain_lib_def one_student_def zero Let_def)
  then obtain res st' where run: "sync_payments plain_lib plain_floats
      ([[(''UserID'', CInt 7)], [(''UserID'', CInt 8)]], None) one_student = (Inr res, st')" by blast
  from payments_patch_only [OF run] run show ?thesis by blast
qed

theorem misspelt_email_column_witness:
  "sy_db (snd (sync_ipbc_payment_plans plain_lib plain_floats
      ([[(''EMAIL'', CText ''a@b.c''), (''PlanName'', CText ''Gold'')]], None)
      ([[(''UserID'', CInt 7), (''Email'', CText ''a@b.c'')]], None) one_student)) = sy_db one_student"
proof -
  let ?plans = "[[(''EMAIL'', CText ''a@b.c''), (''PlanName'', CText ''Gold'')]] :: row list"
  have low: "lower ''EMAIL'' = ''email''" "lower ''PlanName'' = ''planname''" by code_simp+
  have "''email'' \<in> set (view_cols plain_lib ?plans)" "''firstname'' \<notin> set (view_cols plain_lib ?plans)"
    using low by (simp_all add: view_cols_def plain_lib_def del: lower_simps)
  from misspelt_email_column [of ?plans, OF _ this] show ?thesis
    by (simp add: case_prod_unfold Let_def)
qed

end
