(* ===== verification/Narratives.thy ===== *)
theory Narratives
  imports InsightCache MirrorSync
begin

text \<open>
  The monthly narratives of \<^verbatim>\<open>app/services/_narrative_generation.py\<close> over the table
  of insights of \<open>InsightCache\<close>: the prompt of a student, one call of the language model for the
  missing types, and the batch over all students of the mirror. \<open>narrative_env\<close> holds what one
  student's call reads: the model (a parameter: the text of an exception, or the parsed JSON
  object), texts and rounding of values, and the identifiers and row time of the new rows. The
  constant system prompt is part of the model.
\<close>

definition NARRATIVE_TYPES :: "string list" where
  "NARRATIVE_TYPES = [''risk_summary'', ''progress_summary'', ''monthly_narrative'',
     ''intervention_recommendation'', ''sentiment_analysis'']"

record narrative_env =
  nv_llm :: "string \<Rightarrow> string + row"
  nv_model :: string
  nv_str :: "cell \<Rightarrow> string"
  nv_error :: "py_error \<Rightarrow> string"
  nv_round1 :: "pyfloat \<Rightarrow> pyfloat"
  nv_floats :: float_lib
  nv_row_id :: "nat \<Rightarrow> int"
  nv_row_time :: int
  nv_correlation_id :: "nat \<Rightarrow> string"

section \<open>The prompt\<close>

definition nl :: string where "nl = [CHR 0x0A]"

definition build_context :: "narrative_env \<Rightarrow> student \<Rightarrow> string res" where
  "build_context env s =
    (let show = cell_text (nv_str env);
         value = (\<lambda>k d. show (or_cell (attr s k) d))
     in bind_res (cell_float (nv_floats env) (or_cell (attr s ''p_AvgEffRating'') (CFloat (Fin 0)))) (\<lambda>eff.
        Inr (''Program: '' @ value ''PathName'' (CText ''Unknown'') @ nl
          @ ''Section: '' @ value ''section'' (CText ''Unknown'') @ nl
          @ ''Attendance: '' @ value ''AttendancePercentage'' (CInt 0) @ ''%'' @ nl
          @ ''HWs behind: '' @ value ''p_HWsBehind'' (CInt 0) @ nl
          @ ''Efficiency rating: '' @ show (CFloat (nv_round1 env eff)) @ ''/5'' @ nl
          @ ''Days since last activity: '' @ value ''p_LastActivityDays'' (CInt 0) @ nl
          @ ''Days since last login: '' @ value ''p_LastLoginDays'' (CInt 0) @ nl
          @ ''Recent 10-day logins: '' @ value ''Past10DaysLogon'' (CInt 0) @ nl
          @ ''Payment balance owed: $'' @ value ''PaymentBalance'' (CInt 0) @ nl
          @ ''Fee paid: '' @ (if cell_truthy (attr s ''FeePaid'') then ''Yes'' else ''No'') @ nl
          @ ''Active status: '' @ value ''ActiveStatus'' (CText ''Unknown'') @ nl
          @ ''Status I: '' @ value ''StatusI'' (CText []) @ nl
          @ ''Status II: '' @ value ''StatusII'' (CText []))))"

section \<open>One student\<close>

record narrative_result =
  nr_generated :: "string list"
  nr_skipped :: "string set"
  nr_error :: "string option"

definition finalized_types :: "int \<Rightarrow> cached_insight list \<Rightarrow> string set" where
  "finalized_types user_id rows = {t. t \<in> set NARRATIVE_TYPES
     \<and> list_ex (\<lambda>r. ci_user_id r = user_id \<and> ci_is_finalized r \<and> ci_insight_type r = t) rows}"

definition narrative_row :: "narrative_env \<Rightarrow> int \<Rightarrow> nat \<Rightarrow> string \<Rightarrow> cell \<Rightarrow> cached_insight" where
  "narrative_row env user_id i insight_type content =
    \<lparr>ci_id = nv_row_id env i, ci_user_id = user_id, ci_insight_type = insight_type,
     ci_content_text = Some (cell_text (nv_str env) content), ci_model_used = Some (nv_model env),
     ci_is_finalized = True, ci_correlation_id = Some (nv_correlation_id env i),
     ci_execution_mode = ''SHADOW'', ci_execution_type = ''original'',
     ci_governance_scope = ''SHADOW_ONLY'', ci_origin_source = Some ''generate_monthly_narratives'',
     ci_origin_authority = Some ''narrative_generation_service'', ci_is_replay = False,
     ci_created_at = nv_row_time env, ci_expires_at = None\<rparr>"

text \<open>The needed types whose content the model returned, with their positions.\<close>

definition answered :: "row \<Rightarrow> string list \<Rightarrow> string list" where
  "answered narratives needed = filter (\<lambda>t. cell_truthy (get narratives t)) needed"

definition generate_student_narratives ::
  "narrative_env \<Rightarrow> int \<Rightarrow> student \<Rightarrow> cached_insight list \<Rightarrow> narrative_result \<times> cached_insight list" where
  "generate_student_narratives env user_id s rows =
    (let already_finalized = finalized_types user_id rows;
         needed = filter (\<lambda>t. t \<notin> already_finalized) NARRATIVE_TYPES;
         failed = (\<lambda>e. (\<lparr>nr_generated = [], nr_skipped = already_finalized, nr_error = Some e\<rparr>, rows))
     in if needed = [] then
          (\<lparr>nr_generated = [], nr_skipped = already_finalized, nr_error = None\<rparr>, rows)
        else case build_context env s of
            Inl e \<Rightarrow> failed (nv_error env e)
          | Inr prompt \<Rightarrow>
              (case nv_llm env prompt of
                 Inl e \<Rightarrow> failed e
               | Inr narratives \<Rightarrow>
                   let generated = answered narratives needed
                   in (\<lparr>nr_generated = generated, nr_skipped = already_finalized, nr_error = None\<rparr>,
                       rows @ map (\<lambda>(i, t). narrative_row env user_id i t (get narratives t))
                         (zip [0..<length generated] generated))))"

section \<open>The batch\<close>

record narrative_counts =
  nc_new :: int
  nc_skipped :: int
  nc_failed :: int
  nc_errors :: "(int \<times> string) list"

text \<open>The record of a row of the mirror: its columns are those of the model.\<close>

definition orm_student :: "int \<Rightarrow> student \<Rightarrow> student" where
  "orm_student uid cells =
     (\<lambda>c. if c = ''UserID'' then Some (CInt uid)
          else if c \<in> set (map fst model_col_types) then Some (attr cells c) else None)"

definition count_narrative :: "int \<Rightarrow> narrative_result \<Rightarrow> narrative_counts \<Rightarrow> narrative_counts" where
  "count_narrative user_id r c =
    (if given (nr_error r) then
       c\<lparr>nc_failed := nc_failed c + 1,
         nc_errors := nc_errors c
           @ (if length (nc_errors c) < 10 then [(user_id, the (nr_error r))] else [])\<rparr>
     else if nr_generated r \<noteq> [] then c\<lparr>nc_new := nc_new c + 1\<rparr>
     else c\<lparr>nc_skipped := nc_skipped c + 1\<rparr>)"

definition progress_line :: "int \<Rightarrow> int \<Rightarrow> narrative_counts \<Rightarrow> log_line list" where
  "progress_line i n c =
    (if i mod 25 = 0 \<or> i = n then
       [LogJson ''info'' [(''event'', VStr ''narrative_generation_progress''), (''processed'', VInt i),
          (''total'', VInt n), (''new'', VInt (nc_new c)), (''skipped'', VInt (nc_skipped c)),
          (''failed'', VInt (nc_failed c))]]
     else [])"

fun narrative_loop ::
  "(nat \<Rightarrow> narrative_env) \<Rightarrow> int \<Rightarrow> nat \<Rightarrow> (int \<times> student) list
   \<Rightarrow> narrative_counts \<times> cached_insight list \<times> log_line list
   \<Rightarrow> narrative_counts \<times> cached_insight list \<times> log_line list" where
  "narrative_loop envs n i [] st = st"
| "narrative_loop envs n i ((uid, cells) # ss) (c, rows, lines) =
     (let (r, rows') = generate_student_narratives (envs i) uid (orm_student uid cells) rows;
          c' = count_narrative uid r c
      in narrative_loop envs n (Suc i) ss
           (c', rows', lines @ progress_line (int i) n c'))"

definition generate_all_monthly_narratives ::
  "string \<Rightarrow> string \<Rightarrow> (nat \<Rightarrow> narrative_env) \<Rightarrow> (int \<times> student) list \<Rightarrow> cached_insight list
   \<Rightarrow> (string + narrative_counts) \<times> cached_insight list \<times> log_line list" where
  "generate_all_monthly_narratives api_key model envs students rows =
    (if api_key = [] then (Inl ''LLM_API_KEY not configured in .env'', rows, [])
     else let (c, rows', lines) =
              narrative_loop (\<lambda>i. (envs i)\<lparr>nv_model := model\<rparr>) (int (length students)) 1 students
                (\<lparr>nc_new = 0, nc_skipped = 0, nc_failed = 0, nc_errors = []\<rparr>, rows, [])
          in (Inr c, rows', lines))"

section \<open>What the prompt says\<close>

definition prompt_columns :: "string set" where
  "prompt_columns = {''PathName'', ''AttendancePercentage'', ''Past10DaysLogon'', ''PaymentBalance'',
     ''FeePaid'', ''ActiveStatus'', ''StatusI'', ''StatusII''}"

lemma attr_orm:
  "attr (orm_student uid cells) c =
     (if c = ''UserID'' then CInt uid
      else if c \<in> set (map fst model_col_types) then attr cells c else CNull)"
  unfolding attr_def [of "orm_student uid cells"] by (simp add: orm_student_def)

lemma orm_attr:
  "c \<in> prompt_columns \<Longrightarrow> attr (orm_student uid cells) c = attr cells c"
  "attr (orm_student uid cells) ''section'' = CNull"
  "attr (orm_student uid cells) ''p_HWsBehind'' = CNull"
  "attr (orm_student uid cells) ''p_AvgEffRating'' = CNull"
  "attr (orm_student uid cells) ''p_LastActivityDays'' = CNull"
  "attr (orm_student uid cells) ''p_LastLoginDays'' = CNull"
  by (auto simp: attr_orm prompt_columns_def model_col_types_def)

text \<open>
  The narratives are blind to the academic signals: for two students that agree on path,
  attendance, recent logins, balance, fee and status columns the model gets the same prompt,
  whatever their homework backlog, efficiency, inactivity, last login and section are; the rows
  and results then differ at most in the student's identifier.
\<close>

theorem narratives_blind:
  assumes "\<forall>c \<in> prompt_columns. attr cells c = attr cells' c"
  shows "build_context env (orm_student uid cells) = build_context env (orm_student uid' cells')
    \<and> generate_student_narratives env uid (orm_student uid cells) rows =
      generate_student_narratives env uid (orm_student uid cells') rows"
proof -
  have col: "attr (orm_student u cells) c = attr (orm_student u' cells') c" if "c \<in> prompt_columns" for u u' c
    using assms that by (simp add: orm_attr(1))
  have same: "build_context env (orm_student u cells) = build_context env (orm_student u' cells')" for u u'
    unfolding build_context_def Let_def
    using col [of "''PathName''" u u'] col [of "''AttendancePercentage''" u u'] col [of "''Past10DaysLogon''" u u']
      col [of "''PaymentBalance''" u u'] col [of "''FeePaid''" u u'] col [of "''ActiveStatus''" u u']
      col [of "''StatusI''" u u'] col [of "''StatusII''" u u']
    by (simp add: orm_attr(2-6) prompt_columns_def)
  have "generate_student_narratives env uid (orm_student uid cells) rows =
      generate_student_narratives env uid (orm_student uid cells') rows"
    by (simp only: generate_student_narratives_def same [of uid uid])
  with same [of uid uid'] show ?thesis by blast
qed

definition sample_narrative_env :: narrative_env where
  "sample_narrative_env = \<lparr>nv_llm = (\<lambda>p. Inl ''timeout''), nv_model = ''m'', nv_str = (\<lambda>v. []),
     nv_error = (\<lambda>e. ''error''), nv_round1 = id,
     nv_floats = \<lparr>fl_of_text = (\<lambda>s. None), fl_of_decimal = Fin, fl_sub = (\<lambda>x y. x), fl_pct = (\<lambda>x y. x)\<rparr>,
     nv_row_id = int, nv_row_time = 0, nv_correlation_id = show_nat\<rparr>"

theorem narratives_blind_witness:
  "build_context sample_narrative_env (orm_student 7 [''HWsBehind'' \<mapsto> CInt 9, ''LastActivityDays'' \<mapsto> CInt 40]) =
   build_context sample_narrative_env (orm_student 8 [''HWsBehind'' \<mapsto> CInt 0, ''LastActivityDays'' \<mapsto> CInt 1])"
proof -
  have "\<forall>c \<in> prompt_columns. attr [''HWsBehind'' \<mapsto> CInt 9, ''LastActivityDays'' \<mapsto> CInt 40] c =
      attr [''HWsBehind'' \<mapsto> CInt 0, ''LastActivityDays'' \<mapsto> CInt 1] c"
    by (simp add: prompt_columns_def attr_def)
  from narratives_blind [OF this] show ?thesis by (rule conjunct1)
qed

section \<open>Narratives are generated once\<close>

text \<open>A student has at most one finalized narrative of each type.\<close>

definition narrated :: "int \<Rightarrow> string \<Rightarrow> cached_insight list \<Rightarrow> nat" where
  "narrated uid t rows = length (filter (\<lambda>r. ci_user_id r = uid \<and> ci_is_finalized r \<and> ci_insight_type r = t) rows)"

definition narrated_once :: "cached_insight list \<Rightarrow> bool" where
  "narrated_once rows \<longleftrightarrow> (\<forall>uid. \<forall>t \<in> set NARRATIVE_TYPES. narrated uid t rows \<le> 1)"

lemma narrated_zero:
  "t \<in> set NARRATIVE_TYPES \<Longrightarrow> narrated uid t rows = 0 \<longleftrightarrow> t \<notin> finalized_types uid rows"
  by (auto simp: narrated_def finalized_types_def filter_empty_conv list_ex_iff)

lemma count_typed:
  assumes "distinct ts"
  shows "length (filter (\<lambda>p. snd p = t) (zip [k..<k + length ts] ts)) = (if t \<in> set ts then 1 else 0)"
  using assms
proof (induction ts arbitrary: k)
  case (Cons x xs)
  have "[k..<k + length (x # xs)] = k # [Suc k..<Suc k + length xs]" by (simp add: upt_rec)
  with Cons.IH [of "Suc k"] Cons.prems show ?case by auto
qed simp

lemma student_narratives_cases:
  obtains (kept) r where "generate_student_narratives env uid s rows = (r, rows)" and "nr_generated r = []"
  | (added) narratives ts where "distinct ts" and "set ts \<subseteq> set NARRATIVE_TYPES - finalized_types uid rows"
    and "generate_student_narratives env uid s rows =
      (\<lparr>nr_generated = ts, nr_skipped = finalized_types uid rows, nr_error = None\<rparr>,
       rows @ map (\<lambda>(i, t). narrative_row env uid i t (get narratives t)) (zip [0..<length ts] ts))"
proof -
  let ?fin = "finalized_types uid rows"
  let ?needed = "filter (\<lambda>t. t \<notin> ?fin) NARRATIVE_TYPES"
  have d: "distinct (answered n ?needed)" and sub: "set (answered n ?needed) \<subseteq> set NARRATIVE_TYPES - ?fin" for n
    by (auto simp: answered_def NARRATIVE_TYPES_def)
  consider "?needed = []" | (raised) e where "?needed \<noteq> []" "build_context env s = Inl e"
    | (failed) p e where "?needed \<noteq> []" "build_context env s = Inr p" "nv_llm env p = Inl e"
    | (ok) p n where "?needed \<noteq> []" "build_context env s = Inr p" "nv_llm env p = Inr n"
    by (cases "build_context env s"; cases "nv_llm env (projr (build_context env s))") auto
  then show thesis
  proof cases
    case 1
    then show thesis
      by (intro kept [where r = "fst (generate_student_narratives env uid s rows)"])
        (simp_all add: generate_student_narratives_def)
  next
    case raised
    then show thesis
      by (intro kept [where r = "fst (generate_student_narratives env uid s rows)"])
        (simp_all add: generate_student_narratives_def)
  next
    case failed
    then show thesis
      by (intro kept [where r = "fst (generate_student_narratives env uid s rows)"])
        (simp_all add: generate_student_narratives_def)
  next
    case ok
    then show thesis by (intro added [OF d sub]) (simp add: generate_student_narratives_def Let_def)
  qed
qed

lemma narrated_append: "narrated uid t (rows @ rows') = narrated uid t rows + narrated uid t rows'"
  by (simp add: narrated_def)

lemma narrative_row_fields [simp]:
  "ci_user_id (narrative_row env uid i t v) = uid" "ci_is_finalized (narrative_row env uid i t v)"
  "ci_insight_type (narrative_row env uid i t v) = t"
  by (simp_all add: narrative_row_def)

lemma narrated_new:
  "narrated uid' t (map (\<lambda>p. narrative_row env uid (fst p) (snd p) (f (snd p))) ps) =
     (if uid' = uid then length (filter (\<lambda>p. snd p = t) ps) else 0)"
  unfolding narrated_def by (induction ps) (auto simp del: filter_map)

lemma student_keeps_once:
  assumes "narrated_once rows"
  shows "narrated_once (snd (generate_student_narratives env uid s rows))"
  unfolding narrated_once_def
proof (intro allI ballI)
  fix uid' t assume t: "t \<in> set NARRATIVE_TYPES"
  from assms t have old: "narrated uid' t rows \<le> 1" by (simp add: narrated_once_def)
  show "narrated uid' t (snd (generate_student_narratives env uid s rows)) \<le> 1"
  proof (cases rule: student_narratives_cases [of env uid s rows])
    case (added narratives ts)
    have "length (filter (\<lambda>p. snd p = t) (zip [0..<length ts] ts)) = (if t \<in> set ts then 1 else 0)"
      using count_typed [OF added(1), of t 0] by simp
    moreover have "t \<in> set ts \<Longrightarrow> narrated uid t rows = 0" using added(2) narrated_zero [OF t] by blast
    ultimately show ?thesis
      using old by (cases "uid' = uid") (simp_all add: added(3) narrated_append narrated_new case_prod_unfold)
  qed (use old in simp)
qed

definition counted :: "narrative_counts \<Rightarrow> int" where
  "counted c = nc_new c + nc_skipped c + nc_failed c"

lemma count_narrative_counted:
  "counted (count_narrative uid r c) = counted c + 1"
  "length (nc_errors c) \<le> 10 \<Longrightarrow> length (nc_errors (count_narrative uid r c)) \<le> 10"
  by (simp_all add: counted_def count_narrative_def)

lemma narrative_loop_invariant:
  assumes "narrated_once rows" and "length (nc_errors c) \<le> 10"
  shows "let (c', rows', lines') = narrative_loop envs n i ss (c, rows, lines)
    in narrated_once rows' \<and> take (length rows) rows' = rows
     \<and> counted c' = counted c + int (length ss) \<and> length (nc_errors c') \<le> 10"
  using assms
proof (induction ss arbitrary: i c rows lines)
  case (Cons x ss)
  obtain uid cells where x: "x = (uid, cells)" by (cases x)
  let ?g = "generate_student_narratives (envs i) uid (orm_student uid cells) rows"
  let ?c = "count_narrative uid (fst ?g) c"
  have grows: "take (length rows) (snd ?g) = rows"
    by (cases rule: student_narratives_cases [of "envs i" uid "orm_student uid cells" rows]) simp_all
  obtain c' rows' lines' where run: "narrative_loop envs n (Suc i) ss
      (?c, snd ?g, lines @ progress_line (int i) n ?c) = (c', rows', lines')"
    using prod_cases3 by blast
  from Cons.IH [where i = "Suc i" and rows = "snd ?g" and c = ?c and lines = "lines @ progress_line (int i) n ?c",
      OF student_keeps_once [OF Cons.prems(1)] count_narrative_counted(2) [OF Cons.prems(2)]] run
  have "narrated_once rows'" "take (length (snd ?g)) rows' = snd ?g"
    "counted c' = counted ?c + int (length ss)" "length (nc_errors c') \<le> 10" by simp_all
  moreover from this(2) grows have "take (length rows) rows' = rows"
    by (metis min.absorb1 length_take nat_le_linear take_all take_take)
  ultimately show ?case
    using run by (simp add: x case_prod_unfold Let_def count_narrative_counted(1))
qed (simp add: counted_def)

text \<open>
  C21. Narratives are final and generated once for good: however often the batch runs, in whatever
  month and with whatever model, existing insights are kept, no student ever has two finalized
  narratives of a type, and each run counts every student exactly once and reports at most ten
  errors. A narrative written in the first month is never renewed in a later one.
\<close>

theorem narratives_once_for_good:
  assumes "narrated_once rows"
  shows "let (res, rows', lines) = generate_all_monthly_narratives api_key model envs students rows
    in narrated_once rows' \<and> take (length rows) rows' = rows
     \<and> (case res of Inl e \<Rightarrow> rows' = rows
        | Inr c \<Rightarrow> nc_new c + nc_skipped c + nc_failed c = int (length students)
            \<and> length (nc_errors c) \<le> 10)"
  using assms narrative_loop_invariant [OF assms, of "\<lparr>nc_new = 0, nc_skipped = 0, nc_failed = 0, nc_errors = []\<rparr>"
      "\<lambda>i. (envs i)\<lparr>nv_model := model\<rparr>" "int (length students)" 1 students "[]"]
  by (auto simp: generate_all_monthly_narratives_def Let_def counted_def split: prod.split_asm)

theorem narratives_once_for_good_witness:
  "narrated_once (fst (snd (generate_all_monthly_narratives ''key'' ''m'' (\<lambda>i. sample_narrative_env)
     [(7, Map.empty)] [])))"
proof -
  have "narrated_once []" by (simp add: narrated_once_def narrated_def)
  from narratives_once_for_good [OF this] show ?thesis by (simp add: case_prod_unfold Let_def)
qed

end
