(* ===== verification/Dates.thy ===== *)
theory Dates
  imports Cells
begin

text \<open>
  Calendar dates as proleptic ordinals, as the standard library counts them, instants as
  microseconds, the month windows of snapshots and reports, and the helpers of
  \<^verbatim>\<open>app/utils/date_utils.py\<close>.
\<close>

section \<open>Ordinals\<close>

definition is_leap :: "int \<Rightarrow> bool" where
  "is_leap y \<longleftrightarrow> y mod 4 = 0 \<and> (y mod 100 \<noteq> 0 \<or> y mod 400 = 0)"

definition days_in_month :: "int \<Rightarrow> int \<Rightarrow> int" where
  "days_in_month y m =
     (if m = 2 then (if is_leap y then 29 else 28) else if m \<in> {4, 6, 9, 11} then 30 else 31)"

definition days_before_year :: "int \<Rightarrow> int" where
  "days_before_year y = (y - 1) * 365 + (y - 1) div 4 - (y - 1) div 100 + (y - 1) div 400"

definition days_before_month :: "int \<Rightarrow> int \<Rightarrow> int" where
  "days_before_month y m =
     [0, 31, 59, 90, 120, 151, 181, 212, 243, 273, 304, 334] ! nat (m - 1)
     + (if m > 2 \<and> is_leap y then 1 else 0)"

definition ordinal :: "int \<Rightarrow> int \<Rightarrow> int \<Rightarrow> int" where
  "ordinal y m d = days_before_year y + days_before_month y m + d"

text \<open>A month is a pair of year and month number; \<^verbatim>\<open>date(y, m, 1)\<close> needs a year up to 9999.\<close>

type_synonym month = "int \<times> int"

definition valid_month :: "month \<Rightarrow> bool" where
  "valid_month ym \<longleftrightarrow> 1 \<le> fst ym \<and> fst ym \<le> 9999 \<and> 1 \<le> snd ym \<and> snd ym \<le> 12"

definition next_month :: "month \<Rightarrow> month" where
  "next_month ym = (if snd ym = 12 then (fst ym + 1, 1) else (fst ym, snd ym + 1))"

definition first_day :: "month \<Rightarrow> int res" where
  "first_day ym = (if valid_month ym then Inr (ordinal (fst ym) (snd ym) 1) else Inl ValueError)"

definition month_last_day :: "month \<Rightarrow> int res" where
  "month_last_day ym = bind_res (first_day (next_month ym)) (\<lambda>d. Inr (d - 1))"

section \<open>Instants\<close>

definition day_micros :: int where "day_micros = 86400 * 1000000"

definition epoch_day :: int where "epoch_day = 719163"

definition instant_of_day :: "int \<Rightarrow> int" where
  "instant_of_day d = (d - epoch_day) * day_micros"

definition day_of_instant :: "int \<Rightarrow> int" where
  "day_of_instant t = t div day_micros + epoch_day"

lemma day_of_instant_of_day [simp]: "day_of_instant (instant_of_day d) = d"
  by (simp add: day_of_instant_def instant_of_day_def day_micros_def)

text \<open>The window of a month: its first instant and that of the next month.\<close>

definition month_window :: "month \<Rightarrow> (int \<times> int) res" where
  "month_window ym = bind_res (first_day ym) (\<lambda>a. bind_res (first_day (next_month ym)) (\<lambda>b.
     Inr (instant_of_day a, instant_of_day b)))"

section \<open>The month texts\<close>

definition pad :: "nat \<Rightarrow> string \<Rightarrow> string" where
  "pad n s = replicate (n - length s) (CHR ''0'') @ s"

text \<open>\<^verbatim>\<open>str(date(y, m, 1))\<close>\<close>

definition month_text :: "month \<Rightarrow> string" where
  "month_text ym = pad 4 (show_int (fst ym)) @ ''-'' @ pad 2 (show_int (snd ym)) @ ''-01''"

section \<open>date_utils.py\<close>

text \<open>Whole days since a timestamp, parsing and texts of values are library functions.\<close>

record date_env =
  de_days_since :: "string \<Rightarrow> int"
  de_parse_iso :: "string \<Rightarrow> string option"
  de_parse_submitted :: "string \<Rightarrow> string option"
  de_str :: "cell \<Rightarrow> string"

definition to_isostr :: "date_env \<Rightarrow> cell \<Rightarrow> string option" where
  "to_isostr env v = (case v of CNull \<Rightarrow> None | CTime t \<Rightarrow> Some t | _ \<Rightarrow> Some (cell_text (de_str env) v))"

definition weeks_in_program :: "date_env \<Rightarrow> cell \<Rightarrow> int option call_res" where
  "weeks_in_program env v =
    (if \<not> cell_truthy v then Inr None
     else case v of
         CText s \<Rightarrow> Inr (map_option (\<lambda>t. max 0 (de_days_since env t div 7)) (de_parse_iso env s))
       | CTime t \<Rightarrow> Inr (Some (max 0 (de_days_since env t div 7)))
       | _ \<Rightarrow> Inl AttributeError)"

text \<open>The parameter takes the text of the value: cleaning, parsing and time zone of the code.\<close>

definition hw_submitted_days :: "date_env \<Rightarrow> cell \<Rightarrow> int option \<Rightarrow> int option" where
  "hw_submitted_days env v fallback =
    (if \<not> cell_truthy v then fallback
     else case de_parse_submitted env (cell_text (de_str env) v) of
         None \<Rightarrow> fallback | Some t \<Rightarrow> Some (max 0 (de_days_since env t)))"

definition active_student_flag :: "date_env \<Rightarrow> cell \<Rightarrow> int" where
  "active_student_flag env v =
    (let raw = lower (strip (cell_text (de_str env) (or_cell v (CText []))))
     in if raw \<in> {''1'', ''active'', ''true'', ''yes''} then 1 else 0)"

section \<open>Facts\<close>

lemma div_step:
  fixes y n :: int
  assumes "0 < n"
  shows "y div n = (y - 1) div n + (if y mod n = 0 then 1 else 0)"
proof (cases "y mod n = 0")
  case True
  then have "y - 1 = n * (y div n - 1) + (n - 1)" by (auto simp: algebra_simps)
  with assms have "(y - 1) div n = y div n - 1" by (intro int_div_pos_eq [where r = "n - 1"]) auto
  with True show ?thesis by simp
next
  case False
  with pos_mod_sign [OF assms, of y] have "0 < y mod n" by linarith
  moreover have "y - 1 = n * (y div n) + (y mod n - 1)" by (simp add: algebra_simps)
  ultimately have "(y - 1) div n = y div n"
    using pos_mod_bound [OF assms, of y] by (intro int_div_pos_eq [where r = "y mod n - 1"]) auto
  with False show ?thesis by simp
qed

lemma leap_nesting:
  "(y :: int) mod 400 = 0 \<Longrightarrow> y mod 100 = 0" "(y :: int) mod 100 = 0 \<Longrightarrow> y mod 4 = 0"
  by (auto simp: mod_eq_0_iff_dvd intro: dvd_trans)

lemma leap_cases:
  "(c \<Longrightarrow> b) \<Longrightarrow> (b \<Longrightarrow> a) \<Longrightarrow> (if a \<and> (\<not> b \<or> c) then 366 else 365) =
     (365 :: int) + (if a then 1 else 0) - (if b then 1 else 0) + (if c then 1 else 0)"
  by auto

lemma year_length:
  "days_before_year (y + 1) = days_before_year y + (if is_leap y then 366 else 365)"
proof -
  let ?i = "\<lambda>n. if y mod n = 0 then (1 :: int) else 0"
  have leap: "(if is_leap y then 366 else 365) = 365 + ?i 4 - ?i 100 + ?i 400"
    unfolding is_leap_def by (rule leap_cases) (erule leap_nesting)+
  have e4: "y div 4 = (y - 1) div 4 + ?i 4" and e100: "y div 100 = (y - 1) div 100 + ?i 100"
    and e400: "y div 400 = (y - 1) div 400 + ?i 400" by (rule div_step, simp)+
  have "days_before_year (y + 1) = y * 365 + y div 4 - y div 100 + y div 400"
    by (simp add: days_before_year_def)
  also have "\<dots> = y * 365 + ((y - 1) div 4 + ?i 4) - ((y - 1) div 100 + ?i 100) + ((y - 1) div 400 + ?i 400)"
    by (subst e4, subst e100, subst e400) (rule refl)
  finally show ?thesis unfolding leap days_before_year_def by (simp only: algebra_simps)
qed

lemma month_length:
  "m \<in> {1, 2, 3, 4, 5, 6, 7, 8, 9, 10, 11} \<Longrightarrow>
     days_before_month y (m + 1) = days_before_month y m + days_in_month y m"
  by (auto simp: days_before_month_def days_in_month_def nth_Cons')

lemma december: "days_before_month y 12 + 31 = (if is_leap y then 366 else 365)"
  by (simp add: days_before_month_def)

lemma month_number:
  "1 \<le> (m :: int) \<Longrightarrow> m \<le> 12 \<Longrightarrow> m \<noteq> 12 \<Longrightarrow> m \<in> {1, 2, 3, 4, 5, 6, 7, 8, 9, 10, 11}"
  by simp presburger

text \<open>The last day of a month is the one of the calendar, leap years and December included.\<close>

lemma month_last_day_calendar:
  assumes "valid_month ym" and "ym \<noteq> (9999, 12)"
  shows "month_last_day ym = Inr (ordinal (fst ym) (snd ym) (days_in_month (fst ym) (snd ym)))"
proof (cases "snd ym = 12")
  case True
  with assms have "valid_month (next_month ym)" by (cases ym) (auto simp: valid_month_def next_month_def)
  moreover have "days_before_month (fst ym + 1) 1 = 0" by (simp add: days_before_month_def)
  ultimately show ?thesis
    using True year_length [of "fst ym"] december [of "fst ym"]
    by (simp add: month_last_day_def first_day_def next_month_def ordinal_def days_in_month_def)
next
  case False
  with assms have "valid_month (next_month ym)" by (auto simp: valid_month_def next_month_def)
  moreover from False assms(1) have "snd ym \<in> {1, 2, 3, 4, 5, 6, 7, 8, 9, 10, 11}"
    by (intro month_number) (auto simp: valid_month_def)
  ultimately show ?thesis
    using False month_length [of "snd ym" "fst ym"]
    by (simp add: month_last_day_def first_day_def next_month_def ordinal_def)
qed

end
