(* ===== verification/Warehouse.thy ===== *)
theory Warehouse
  imports Dates MirrorSync InsightCache
begin

text \<open>
  The warehouse tables that snapshots and reports are written to, the platform tables they read,
  and operations on column values that both services use. Rows of the platform tables that carry
  the time of their creation are paired with it; an instant is a number of microseconds.
\<close>

section \<open>Values\<close>

text \<open>\<^verbatim>\<open>json.dumps\<close> accepts neither decimals nor timestamps.\<close>

datatype json = JCell cell | JList "json list" | JObj "(string \<times> json) list"

primrec dumpable_cell :: "cell \<Rightarrow> bool" where
  "dumpable_cell CNull = True"
| "dumpable_cell (CBool b) = True"
| "dumpable_cell (CInt n) = True"
| "dumpable_cell (CFloat f) = True"
| "dumpable_cell (CDecimal q) = False"
| "dumpable_cell (CText s) = True"
| "dumpable_cell (CTime t) = False"
| "dumpable_cell (CJson d) = list_all snd (map (map_prod id dumpable_cell) d)"

primrec dumpable :: "json \<Rightarrow> bool" where
  "dumpable (JCell c) = dumpable_cell c"
| "dumpable (JList js) = list_all id (map dumpable js)"
| "dumpable (JObj kvs) = list_all snd (map (map_prod id dumpable) kvs)"

definition text_cell :: "string option \<Rightarrow> cell" where
  "text_cell s = (case s of None \<Rightarrow> CNull | Some t \<Rightarrow> CText t)"

definition int_cell :: "int option \<Rightarrow> cell" where
  "int_cell n = (case n of None \<Rightarrow> CNull | Some i \<Rightarrow> CInt i)"

text \<open>The exact value of a number, for comparisons.\<close>

fun cell_number :: "cell \<Rightarrow> pyfloat res" where
  "cell_number (CBool b) = Inr (Fin (if b then 1 else 0))"
| "cell_number (CInt n) = Inr (Fin (of_int n))"
| "cell_number (CFloat f) = Inr f"
| "cell_number (CDecimal q) = Inr (Fin q)"
| "cell_number _ = Inl TypeError"

text \<open>\<^verbatim>\<open>a - b\<close> on what integer and float columns hold\<close>

fun whole :: "cell \<Rightarrow> int option" where
  "whole (CInt n) = Some n"
| "whole (CBool b) = Some (if b then 1 else 0)"
| "whole _ = None"

fun real_column :: "cell \<Rightarrow> bool" where
  "real_column (CFloat f) = True"
| "real_column (CInt n) = True"
| "real_column (CBool b) = True"
| "real_column _ = False"

definition cell_sub :: "float_lib \<Rightarrow> cell \<Rightarrow> cell \<Rightarrow> cell res" where
  "cell_sub L a b =
    (case (whole a, whole b) of
       (Some m, Some n) \<Rightarrow> Inr (CInt (m - n))
     | _ \<Rightarrow> if real_column a \<and> real_column b
           then bind_res (cell_float L a) (\<lambda>x. bind_res (cell_float L b) (\<lambda>y. Inr (CFloat (fl_sub L x y))))
           else Inl TypeError)"

text \<open>\<^verbatim>\<open>max(z, a)\<close> for a zero \<open>z\<close>, which is kept unless \<open>a\<close> is greater\<close>

definition cell_max_zero :: "cell \<Rightarrow> cell \<Rightarrow> cell res" where
  "cell_max_zero z a = bind_res (cell_number a) (\<lambda>x. Inr (if fgt x (Fin 0) then a else z))"

section \<open>Tables\<close>

record snapshot =
  ss_id :: int
  ss_student_id :: int
  ss_month :: month
  ss_status :: string
  ss_lineage_version :: int
  ss_cells :: row

record narrative_copy =
  na_snapshot_id :: int
  na_texts :: "(string \<times> string option) list"

record monthly_report =
  mr_id :: int
  mr_cohort_id :: string
  mr_report_month :: month
  mr_template_version :: string
  mr_lineage_version :: int
  mr_status :: string
  mr_key :: string
  mr_fingerprint :: json
  mr_content :: json
  mr_generated_at :: int
  mr_published_at :: int
  mr_generated_by :: string
  mr_correlation_id :: "string option"
  mr_execution_mode :: string

record warehouse =
  wh_snapshots :: "snapshot list"
  wh_narratives :: "narrative_copy list"
  wh_reports :: "monthly_report list"
  wh_log :: "log_line list"

definition wh_emit :: "string \<Rightarrow> pydict \<Rightarrow> warehouse \<Rightarrow> warehouse" where
  "wh_emit level d wh = wh\<lparr>wh_log := wh_log wh @ [LogJson level d]\<rparr>"

lemma wh_emit_simps [simp]:
  "wh_snapshots (wh_emit l d wh) = wh_snapshots wh" "wh_narratives (wh_emit l d wh) = wh_narratives wh"
  "wh_reports (wh_emit l d wh) = wh_reports wh"
  by (simp_all add: wh_emit_def)

text \<open>The columns \<^verbatim>\<open>execution_mode\<close> of both tables have ten characters.\<close>

definition mode_fits :: "string \<Rightarrow> bool" where
  "mode_fits execution_mode \<longleftrightarrow> length execution_mode \<le> 10"

section \<open>Sources\<close>

record platform_tables =
  pl_db :: sync_db
  pl_history :: "(int \<times> history_row) list"
  pl_transitions :: "(int \<times> transition_row) list"
  pl_insights :: "cached_insight list"
  pl_tracking :: "tracking_row list"

text \<open>
  What one call takes from libraries: float arithmetic, today's date and the clock, the instant of
  a stored timestamp, texts of dates, instants and values, what a query returns for a JSON column
  written with a channel breakdown, the test for identifiers in UUID form, a new identifier, the
  digest of a text, the rounded quotient, and the rows the driver accepts.
\<close>

record snapshot_env =
  se_floats :: float_lib
  se_today :: int
  se_now :: int
  se_instant :: "string \<Rightarrow> int"
  se_date_text :: "int \<Rightarrow> string"
  se_iso :: "int \<Rightarrow> string"
  se_str :: "cell \<Rightarrow> string"
  se_jsonb :: "(string \<times> int) list \<Rightarrow> cell"
  se_uuid :: "string \<Rightarrow> bool"
  se_new_uuid :: string
  se_sha256 :: "string \<Rightarrow> string"
  se_round3 :: "int \<Rightarrow> int \<Rightarrow> pyfloat"
  se_accepts :: "row \<Rightarrow> bool"

text \<open>The state transitions of a student in a window, oldest first.\<close>

definition transition_entry :: "snapshot_env \<Rightarrow> int \<times> transition_row \<Rightarrow> row" where
  "transition_entry env r =
    [(''transition_date'', CText (se_iso env (fst r))), (''from_state'', CText (st_from_state (snd r))),
     (''to_state'', CText (st_to_state (snd r))), (''trigger'', CText (st_trigger (snd r))),
     (''actor'', CText (st_actor (snd r))), (''correlation_id'', CText (st_correlation_id (snd r))),
     (''execution_mode'', CText (st_execution_mode (snd r)))]"

definition student_transitions :: "int \<Rightarrow> platform_tables \<Rightarrow> (int \<times> transition_row) list" where
  "student_transitions sid src =
     sort_key fst (filter (\<lambda>r. st_user_id (snd r) = sid) (pl_transitions src))"

section \<open>Facts\<close>

lemma fresh_id_above: "i \<in> set ids \<Longrightarrow> i < fresh_id ids"
  by (induction ids) (auto simp: fresh_id_def)

lemma fresh_id_positive: "0 < fresh_id ids"
proof -
  have "0 \<le> foldr max ids (0 :: int)" by (induction ids) auto
  then show ?thesis by (simp add: fresh_id_def)
qed

lemma cell_sub_ints [simp]: "cell_sub L (CInt m) (CInt n) = Inr (CInt (m - n))"
  by (simp add: cell_sub_def)

lemma cell_max_zero_int [simp]: "cell_max_zero (CInt 0) (CInt n) = Inr (CInt (max 0 n))"
  by (simp add: cell_max_zero_def max_def)

end
