(* ===== verification/Snapshot.thy ===== *)
theory Snapshot
  imports Warehouse Payment Narratives
begin

text \<open>
  Snapshot assembly, \<^verbatim>\<open>app/services/snapshot.py\<close>: the state of a student for a month is
  taken from the captured history or the live mirror, combined with the outreach of the month and
  the finalized narratives, and stored once per student and month. A month stands for the date of
  its first day, which all callers pass. A call that raises leaves the warehouse as it was.
\<close>

section \<open>Segment and weeks\<close>

text \<open>\<^verbatim>\<open>(v or "").lower()\<close> and \<^verbatim>\<open>v.date()\<close>\<close>

definition cell_lower :: "cell \<Rightarrow> string call_res" where
  "cell_lower v = (case or_cell v (CText []) of CText s \<Rightarrow> Inr (lower s) | _ \<Rightarrow> Inl AttributeError)"

definition cell_date :: "snapshot_env \<Rightarrow> cell \<Rightarrow> int call_res" where
  "cell_date env v =
    (case v of CTime t \<Rightarrow> Inr (day_of_instant (se_instant env t)) | _ \<Rightarrow> Inl AttributeError)"

definition classify_segment :: "snapshot_env \<Rightarrow> student \<Rightarrow> string call_res" where
  "classify_segment env s =
     bind_call (cell_lower (attr s ''CurrentSection'')) (\<lambda>sec.
     if contains ''launch'' sec then Inr ''PLACEMENT_HOPEFULS''
     else if contains ''cap'' sec then Inr ''LAUNCH_HOPEFULS''
     else bind_call (lift_call (cell_number (or_cell (attr s ''AttendancePercentage'') (CFloat (Fin 0))))) (\<lambda>att.
       if fgt att (Fin 50) then Inr ''CAP_HOPEFULS''
       else if cell_truthy (attr s ''IPBCStartDate'')
       then bind_call (cell_date env (attr s ''IPBCStartDate'')) (\<lambda>start.
              Inr (if se_today env - start \<le> 90 then ''NEWCOMERS'' else ''ENGAGEMENT''))
       else Inr ''ENGAGEMENT''))"

definition snapshot_weeks :: "snapshot_env \<Rightarrow> student \<Rightarrow> int option call_res" where
  "snapshot_weeks env s =
    (if \<not> cell_truthy (attr s ''IPBCStartDate'') then Inr None
     else bind_call (cell_date env (attr s ''IPBCStartDate'')) (\<lambda>start.
       Inr (Some ((se_today env - start) div 7))))"

section \<open>Outreach of the month\<close>

record outreach_summary =
  os_total :: int
  os_channels :: "string set"
  os_last_contact :: "int option"
  os_days_since_contact :: "int option"
  os_breakdown :: "(string \<times> int) list"
  os_total_responses :: int

definition later :: "int \<Rightarrow> int option \<Rightarrow> int option" where
  "later ts l = (case l of None \<Rightarrow> Some ts | Some t \<Rightarrow> Some (if ts > t then ts else t))"

definition tally :: "string \<Rightarrow> (string \<times> int) list \<Rightarrow> (string \<times> int) list" where
  "tally c d = AList.update c ((case map_of d c of None \<Rightarrow> 0 | Some n \<Rightarrow> n) + 1) d"

text \<open>The end of the window is the first instant of the next month, and included.\<close>

definition in_window :: "int \<times> int \<Rightarrow> int \<Rightarrow> bool" where
  "in_window w t \<longleftrightarrow> fst w \<le> t \<and> t \<le> snd w"

definition activity_instant :: "snapshot_env \<Rightarrow> activity \<Rightarrow> int option" where
  "activity_instant env c = map_option (se_instant env) (ca_activity_date c)"

definition month_outreach :: "platform_tables \<Rightarrow> int \<Rightarrow> int \<times> int \<Rightarrow> (int \<times> history_row) list" where
  "month_outreach src sid w = filter (\<lambda>r. oh_user_id (snd r) = sid \<and> in_window w (fst r)) (pl_history src)"

definition month_activities :: "snapshot_env \<Rightarrow> platform_tables \<Rightarrow> int \<Rightarrow> int \<times> int \<Rightarrow> activity list" where
  "month_activities env src sid w = filter (\<lambda>c. ca_student_user_id c = sid
     \<and> (case activity_instant env c of None \<Rightarrow> False | Some t \<Rightarrow> in_window w t)) (sd_activities (pl_db src))"

definition channels_used :: "(int \<times> history_row) list \<Rightarrow> activity list \<Rightarrow> string list" where
  "channels_used oh ca =
     map the (filter given (map (oh_channel \<circ> snd) oh)) @ filter (\<lambda>c. c \<noteq> []) (map ca_channel ca)"

definition last_contact_of :: "snapshot_env \<Rightarrow> (int \<times> history_row) list \<Rightarrow> activity list \<Rightarrow> int option" where
  "last_contact_of env oh ca = fold later (map fst oh @ map (the \<circ> activity_instant env) ca) None"

definition get_outreach_summary ::
  "snapshot_env \<Rightarrow> platform_tables \<Rightarrow> int \<Rightarrow> int \<times> int \<Rightarrow> outreach_summary" where
  "get_outreach_summary env src sid w =
    (let oh = month_outreach src sid w; ca = month_activities env src sid w;
         used = channels_used oh ca; last_contact = last_contact_of env oh ca
     in \<lparr>os_total = int (length oh) + int (length ca), os_channels = set used,
         os_last_contact = last_contact,
         os_days_since_contact = map_option (\<lambda>t. (se_now env - t) div day_micros) last_contact,
         os_breakdown = fold tally used [],
         os_total_responses = int (length (filter (\<lambda>r. oh_state_after (snd r) = Some ''RESPONDED'') oh))\<rparr>)"

section \<open>Narratives and transitions\<close>

text \<open>The texts per type, the governance tier, and whether there is any.\<close>

definition finalized_insight :: "platform_tables \<Rightarrow> int \<Rightarrow> string \<Rightarrow> cached_insight option" where
  "finalized_insight src sid t =
     newest (filter (\<lambda>r. ci_user_id r = sid \<and> ci_insight_type r = t \<and> ci_is_finalized r) (pl_insights src))"

definition get_ai_narratives :: "platform_tables \<Rightarrow> int \<Rightarrow> (string \<times> string option) list \<times> string \<times> bool" where
  "get_ai_narratives src sid =
    (let found = map (\<lambda>t. (t, finalized_insight src sid t)) NARRATIVE_TYPES;
         any_available = list_ex (\<lambda>p. snd p \<noteq> None) found
     in (map (\<lambda>(t, r). (t, Option.bind r ci_content_text)) found,
         if any_available then ''FINALIZED_COPY'' else ''UNAVAILABLE'', any_available))"

definition snapshot_transitions :: "snapshot_env \<Rightarrow> platform_tables \<Rightarrow> int \<Rightarrow> int \<times> int \<Rightarrow> row list" where
  "snapshot_transitions env src sid w =
     map (transition_entry env) (filter (\<lambda>r. in_window w (fst r)) (student_transitions sid src))"

section \<open>The state of the student\<close>

definition relative_fields :: "string list" where
  "relative_fields = [''LastActivityDays'', ''LastLoginDays'']"

definition adjust_field :: "float_lib \<Rightarrow> int \<Rightarrow> string \<Rightarrow> student \<Rightarrow> student res" where
  "adjust_field L offset k s =
    (if attr s k = CNull then Inr s
     else bind_res (cell_sub L (attr s k) (CInt offset)) (\<lambda>d.
          bind_res (cell_max_zero (CInt 0) d) (\<lambda>v. Inr (s(k \<mapsto> v)))))"

definition adjust_relative_fields :: "snapshot_env \<Rightarrow> student \<Rightarrow> month \<Rightarrow> student res" where
  "adjust_relative_fields env s ym =
    (case attr s ''captured_at'' of
       CTime t \<Rightarrow>
         bind_res (month_last_day ym) (\<lambda>month_end.
           let offset = day_of_instant (se_instant env t) - month_end
           in if offset \<le> 0 then Inr s
              else bind_res (adjust_field (se_floats env) offset (relative_fields ! 0) s)
                     (adjust_field (se_floats env) offset (relative_fields ! 1)))
     | v \<Rightarrow> if cell_truthy v then bind_res (month_last_day ym) (\<lambda>_. Inl TypeError) else Inr s)"

text \<open>The columns read from the history; the live row has those of the model.\<close>

definition history_columns :: "string list" where
  "history_columns = [''UserID'', ''FirstName'', ''LastName'', ''Email'', ''PhoneNumber'', ''PathName'',
     ''HWsBehind'', ''AvgEffRating'', ''LastActivityDays'', ''AttendancePercentage'', ''CurrentSection'',
     ''IPBCStartDate'', ''Past10DaysLogon'', ''Total_Payments'', ''Total_Credits'', ''PaymentBalance'',
     ''ClassValue'', ''FeePaid'', ''ClassFeesPaid'', ''ClassName'', ''ClassSignupsID'', ''ActiveStatus'',
     ''StatusI'', ''StatusII'', ''StudentStartDate'', ''ClassStartDate'', ''LastActivitySection'',
     ''LastLoginDays'', ''LastSubmitted'', ''captured_at'']"

definition history_student :: "int \<Rightarrow> student \<Rightarrow> student" where
  "history_student uid cells =
     (\<lambda>c. if c = ''UserID'' then Some (CInt uid)
          else if c \<in> set history_columns then Some (attr cells c) else None)"

definition get_student_for_month ::
  "snapshot_env \<Rightarrow> platform_tables \<Rightarrow> int \<Rightarrow> month \<Rightarrow> student option res" where
  "get_student_for_month env src sid ym =
    (let M = sd_mirrors (pl_db src)
     in case M (MonthState (month_text ym)) sid of
          Some cells \<Rightarrow> bind_res (adjust_relative_fields env (history_student sid cells) ym) (Inr \<circ> Some)
        | None \<Rightarrow> Inr (map_option (orm_student sid) (M Students sid)))"

section \<open>Storing a snapshot\<close>

definition fingerprint_schema_version :: string where "fingerprint_schema_version = ''0003''"

definition report_template_version :: string where "report_template_version = ''1.0''"

definition existing_finalized_snapshot_id :: "int \<Rightarrow> month \<Rightarrow> warehouse \<Rightarrow> int option" where
  "existing_finalized_snapshot_id sid ym wh =
     map_option ss_id (find (\<lambda>r. ss_student_id r = sid \<and> ss_month r = ym \<and> ss_status r = ''FINALIZED'')
       (wh_snapshots wh))"

text \<open>The columns copied from the student, with their names in the snapshot.\<close>

definition copied_columns :: "(string \<times> string) list" where
  "copied_columns = [(''ss_first_name'', ''FirstName''), (''ss_last_name'', ''LastName''),
     (''ss_email'', ''Email''), (''ss_phone_number'', ''PhoneNumber''), (''ss_path_name'', ''PathName''),
     (''ss_hws_behind'', ''HWsBehind''), (''ss_avg_eff_rating'', ''AvgEffRating''),
     (''ss_last_activity_days'', ''LastActivityDays''), (''ss_attendance_percentage'', ''AttendancePercentage''),
     (''ss_current_section'', ''CurrentSection''), (''ss_ipbc_start_date'', ''IPBCStartDate''),
     (''ss_past_10_days_logon'', ''Past10DaysLogon''), (''ss_total_payments'', ''Total_Payments''),
     (''ss_total_credits'', ''Total_Credits''), (''ss_payment_balance'', ''PaymentBalance''),
     (''ss_class_value'', ''ClassValue''), (''ss_fee_paid'', ''FeePaid''), (''ss_class_fees_paid'', ''ClassFeesPaid''),
     (''ss_class_name'', ''ClassName''), (''ss_class_signups_id'', ''ClassSignupsID''),
     (''ss_active_status'', ''ActiveStatus''), (''ss_status_i'', ''StatusI''), (''ss_status_ii'', ''StatusII''),
     (''ss_student_start_date'', ''StudentStartDate''), (''ss_class_start_date'', ''ClassStartDate''),
     (''ss_last_activity_section'', ''LastActivitySection''), (''ss_last_login_days'', ''LastLoginDays''),
     (''ss_last_submitted'', ''LastSubmitted'')]"

definition has_credits :: "float_lib \<Rightarrow> student \<Rightarrow> bool res" where
  "has_credits L s =
    (if attr s ''Total_Credits'' = CNull then Inr False
     else bind_res (float_field L s ''Total_Credits'') (\<lambda>c. Inr (fgt c (Fin 0))))"

definition snapshot_cells ::
  "snapshot_env \<Rightarrow> student \<Rightarrow> pyfloat \<Rightarrow> string \<Rightarrow> string \<Rightarrow> int option \<Rightarrow> bool \<Rightarrow> outreach_summary
   \<Rightarrow> string \<Rightarrow> string \<Rightarrow> string \<Rightarrow> row" where
  "snapshot_cells env s balance p_risk segment weeks credits contacts execution_mode cfg corr =
     [(''execution_mode'', CText execution_mode), (''correlation_id'', CText corr)]
     @ map (map_prod id (attr s)) copied_columns
     @ [(''segment_classification'', CText segment), (''payment_risk_label'', CText p_risk),
        (''actual_balance'', CFloat balance), (''is_bundle_deal'', CBool credits),
        (''weeks_in_program'', int_cell weeks), (''days_since_last_submission'', attr s ''LastActivityDays''),
        (''total_outreach_attempts'', CInt (os_total contacts)), (''total_responses'', CInt (os_total_responses contacts)),
        (''last_contact_date'',
          (case os_last_contact contacts of None \<Rightarrow> CNull | Some t \<Rightarrow> CTime (se_date_text env (day_of_instant t)))),
        (''days_since_last_contact'', int_cell (os_days_since_contact contacts)),
        (''channel_breakdown_json'', se_jsonb env (os_breakdown contacts)),
        (''fingerprint_schema_version'', CText fingerprint_schema_version),
        (''fingerprint_config_registry_version'', CText cfg),
        (''fingerprint_report_template_version'', CText report_template_version),
        (''fingerprint_computed_at'', CTime (se_iso env (se_now env))),
        (''finalized_at'', CTime (se_iso env (se_now env)))]"

text \<open>The columns of the companion row; a type that is missing reads as \<^verbatim>\<open>None\<close>.\<close>

definition narrative_columns :: "(string \<times> string) list" where
  "narrative_columns = [(''risk_summary_text'', ''risk_summary''), (''progress_summary_text'', ''progress_summary''),
     (''monthly_narrative_text'', ''monthly_narrative''),
     (''intervention_recommendation_text'', ''intervention_recommendation''),
     (''trend_interpretation_text'', ''sentiment_analysis'')]"

text \<open>
  The driver rejects what does not fit the columns, and the database a second finalized row of
  the student and month. The state transitions are passed and not stored.
\<close>

definition insert_snapshot ::
  "snapshot_env \<Rightarrow> int \<Rightarrow> month \<Rightarrow> student \<Rightarrow> pyfloat \<Rightarrow> string \<Rightarrow> string \<Rightarrow> int option
   \<Rightarrow> outreach_summary \<Rightarrow> (string \<times> string option) list \<Rightarrow> row list \<Rightarrow> string \<Rightarrow> string \<Rightarrow> string
   \<Rightarrow> warehouse \<Rightarrow> (int \<times> warehouse) call_res" where
  "insert_snapshot env sid ym s balance p_risk segment weeks contacts narratives transitions execution_mode cfg corr wh =
    (if \<not> se_uuid env corr then Inl (Py ValueError)
     else bind_call (lift_call (has_credits (se_floats env) s)) (\<lambda>credits.
       let cs = snapshot_cells env s balance p_risk segment weeks credits contacts execution_mode cfg corr;
           snap_id = fresh_id (map ss_id (wh_snapshots wh))
       in if \<not> mode_fits execution_mode \<or> \<not> se_accepts env cs \<or> existing_finalized_snapshot_id sid ym wh \<noteq> None
          then Inl DatabaseError
          else Inr (snap_id, wh\<lparr>
            wh_snapshots := wh_snapshots wh @
              [\<lparr>ss_id = snap_id, ss_student_id = sid, ss_month = ym, ss_status = ''FINALIZED'',
                ss_lineage_version = 1, ss_cells = cs\<rparr>],
            wh_narratives := wh_narratives wh @
              [\<lparr>na_snapshot_id = snap_id,
                na_texts = map (map_prod id (\<lambda>t. Option.bind (map_of narratives t) id)) narrative_columns\<rparr>]\<rparr>)))"

section \<open>Assembly\<close>

definition exists_result :: "int \<Rightarrow> int \<Rightarrow> month \<Rightarrow> pydict" where
  "exists_result snap_id sid ym =
    [(''status'', VStr ''exists''), (''snapshot_id'', VInt snap_id), (''student_id'', VInt sid),
     (''snapshot_month'', VStr (month_text ym))]"

definition missing_result :: "int \<Rightarrow> month \<Rightarrow> pydict" where
  "missing_result sid ym =
    [(''status'', VStr ''error''),
     (''error'', VStr (''student '' @ show_int sid @ '' not found in ai_chatbot_triggerdata'')),
     (''student_id'', VInt sid), (''snapshot_month'', VStr (month_text ym))]"

definition created_result ::
  "int \<Rightarrow> int \<Rightarrow> month \<Rightarrow> string \<Rightarrow> string \<Rightarrow> bool \<Rightarrow> string \<Rightarrow> pydict" where
  "created_result snap_id sid ym segment p_risk ai_available execution_mode =
    [(''status'', VStr ''created''), (''snapshot_id'', VInt snap_id), (''student_id'', VInt sid),
     (''snapshot_month'', VStr (month_text ym)), (''segment'', VStr segment), (''payment_risk'', VStr p_risk),
     (''ai_available'', VBool ai_available), (''execution_mode'', VStr execution_mode)]"

definition assembled_line ::
  "int \<Rightarrow> int \<Rightarrow> month \<Rightarrow> string \<Rightarrow> string \<Rightarrow> bool \<Rightarrow> string \<Rightarrow> string \<Rightarrow> pydict" where
  "assembled_line snap_id sid ym segment p_risk ai_available execution_mode corr =
    [(''service'', VStr ''snapshot''), (''event'', VStr ''snapshot_assembled''), (''student_id'', VInt sid),
     (''snapshot_month'', VStr (month_text ym)), (''snapshot_id'', VInt snap_id),
     (''execution_mode'', VStr execution_mode), (''segment'', VStr segment), (''payment_risk'', VStr p_risk),
     (''ai_available'', VBool ai_available), (''correlation_id'', VStr corr)]"

definition assemble_new ::
  "snapshot_env \<Rightarrow> platform_tables \<Rightarrow> int \<Rightarrow> month \<Rightarrow> string \<Rightarrow> string \<Rightarrow> string \<Rightarrow> student \<Rightarrow> warehouse
   \<Rightarrow> (pydict \<times> warehouse) call_res" where
  "assemble_new env src sid ym execution_mode cfg corr s wh =
     bind_call (lift_call (compute_balance (se_floats env) s)) (\<lambda>balance.
     bind_call (classify_segment env s) (\<lambda>segment.
     bind_call (snapshot_weeks env s) (\<lambda>weeks.
     bind_call (lift_call (month_window ym)) (\<lambda>w.
     let p_risk = payment_risk_label balance;
         (narratives, ai_tier, ai_available) = get_ai_narratives src sid
     in bind_call (insert_snapshot env sid ym s balance p_risk segment weeks
            (get_outreach_summary env src sid w) narratives (snapshot_transitions env src sid w)
            execution_mode cfg corr wh) (\<lambda>(snap_id, wh').
        Inr (created_result snap_id sid ym segment p_risk ai_available execution_mode,
             wh_emit ''info'' (assembled_line snap_id sid ym segment p_risk ai_available execution_mode corr) wh'))))))"

definition assemble_snapshot ::
  "snapshot_env \<Rightarrow> platform_tables \<Rightarrow> int \<Rightarrow> month \<Rightarrow> string \<Rightarrow> string option \<Rightarrow> string option \<Rightarrow> warehouse
   \<Rightarrow> pydict call_res \<times> warehouse" where
  "assemble_snapshot env src sid ym execution_mode config_version_id correlation_id wh =
    (let cfg = (if given config_version_id then the config_version_id else ''UNKNOWN_V0'');
         corr = (if given correlation_id then the correlation_id else se_new_uuid env);
         existing = existing_finalized_snapshot_id sid ym wh
     in if existing \<noteq> None \<and> existing \<noteq> Some 0 then (Inr (exists_result (the existing) sid ym), wh)
        else case get_student_for_month env src sid ym of
            Inl e \<Rightarrow> (Inl (Py e), wh)
          | Inr None \<Rightarrow> (Inr (missing_result sid ym), wh)
          | Inr (Some s) \<Rightarrow>
              (case assemble_new env src sid ym execution_mode cfg corr s wh of
                 Inl e \<Rightarrow> (Inl e, wh)
               | Inr (res, wh') \<Rightarrow> (Inr res, wh')))"

text \<open>
  The batch over the students of the mirror: counters of created, skipped and missing students.
  \<open>envs\<close> holds what each call reads.
\<close>

record assembly_counts =
  an_created :: int
  an_skipped :: int
  an_errors :: int

definition count_assembly :: "int \<Rightarrow> pydict \<Rightarrow> assembly_counts \<times> warehouse \<Rightarrow> assembly_counts \<times> warehouse" where
  "count_assembly sid r st =
    (let (c, wh) = st
     in if dict_get r ''status'' = VStr ''created'' then (c\<lparr>an_created := an_created c + 1\<rparr>, wh)
        else if dict_get r ''status'' = VStr ''exists'' then (c\<lparr>an_skipped := an_skipped c + 1\<rparr>, wh)
        else (c\<lparr>an_errors := an_errors c + 1\<rparr>,
              wh_emit ''warning'' [(''service'', VStr ''snapshot''), (''event'', VStr ''snapshot_error''),
                (''student_id'', VInt sid), (''error'', dict_get r ''error'')] wh))"

fun assemble_loop ::
  "(nat \<Rightarrow> snapshot_env) \<Rightarrow> platform_tables \<Rightarrow> month \<Rightarrow> string \<Rightarrow> string option \<Rightarrow> nat \<Rightarrow> int list
   \<Rightarrow> assembly_counts \<times> warehouse \<Rightarrow> assembly_counts call_res \<times> warehouse" where
  "assemble_loop envs src ym execution_mode cfg i [] (c, wh) = (Inr c, wh)"
| "assemble_loop envs src ym execution_mode cfg i (sid # sids) (c, wh) =
    (case assemble_snapshot (envs i) src sid ym execution_mode cfg None wh of
       (Inl e, wh') \<Rightarrow> (Inl e, wh')
     | (Inr r, wh') \<Rightarrow>
         assemble_loop envs src ym execution_mode cfg (Suc i) sids (count_assembly sid r (c, wh')))"

definition assemble_all_active_snapshots ::
  "(nat \<Rightarrow> snapshot_env) \<Rightarrow> platform_tables \<Rightarrow> int list \<Rightarrow> month \<Rightarrow> string \<Rightarrow> string option \<Rightarrow> warehouse
   \<Rightarrow> pydict call_res \<times> warehouse" where
  "assemble_all_active_snapshots envs src user_ids ym execution_mode cfg wh =
    (case assemble_loop envs src ym execution_mode cfg 0 user_ids
        (\<lparr>an_created = 0, an_skipped = 0, an_errors = 0\<rparr>, wh) of
       (Inl e, wh') \<Rightarrow> (Inl e, wh')
     | (Inr c, wh') \<Rightarrow>
         (Inr [(''snapshot_month'', VStr (month_text ym)), (''total'', VInt (int (length user_ids))),
            (''created'', VInt (an_created c)), (''skipped_existing'', VInt (an_skipped c)),
            (''errors'', VInt (an_errors c)), (''execution_mode'', VStr execution_mode)], wh'))"

end
