(* ===== verification/SnapshotProps.thy ===== *)
theory SnapshotProps
  imports Snapshot
begin

text \<open>
  What the assembly of snapshots does to the warehouse: it appends at most one row per call, and
  none when the student has one for the month; a batch can be repeated; and what the adjustment
  of a late capture and the classifier yield.
\<close>

section \<open>One call\<close>

definition finalized_for :: "int \<Rightarrow> month \<Rightarrow> snapshot \<Rightarrow> bool" where
  "finalized_for sid ym r \<longleftrightarrow> ss_student_id r = sid \<and> ss_month r = ym \<and> ss_status r = ''FINALIZED''"

definition has_snapshot :: "int \<Rightarrow> month \<Rightarrow> warehouse \<Rightarrow> bool" where
  "has_snapshot sid ym wh \<longleftrightarrow> list_ex (finalized_for sid ym) (wh_snapshots wh)"

text \<open>Identifiers come from a sequence that starts at one.\<close>

definition ids_positive :: "warehouse \<Rightarrow> bool" where
  "ids_positive wh \<longleftrightarrow> list_all (\<lambda>r. ss_id r > 0) (wh_snapshots wh)"

lemma lift_call_simps [simp]: "lift_call (Inr a) = Inr a" "lift_call (Inl e) = Inl (Py e)"
  by (simp_all add: lift_call_def)

lemma existing_None: "existing_finalized_snapshot_id sid ym wh = None \<longleftrightarrow> \<not> has_snapshot sid ym wh"
  by (auto simp: existing_finalized_snapshot_id_def has_snapshot_def finalized_for_def list_ex_iff
      find_None_iff)

lemma existing_Some:
  "existing_finalized_snapshot_id sid ym wh = Some i \<Longrightarrow>
    \<exists>r \<in> set (wh_snapshots wh). finalized_for sid ym r \<and> ss_id r = i"
  by (auto simp: existing_finalized_snapshot_id_def finalized_for_def find_Some_iff)

text \<open>What a successful insertion writes.\<close>

definition snapshot_added ::
  "int \<Rightarrow> month \<Rightarrow> row \<Rightarrow> warehouse \<Rightarrow> warehouse \<Rightarrow> bool" where
  "snapshot_added sid ym cs wh wh' \<longleftrightarrow>
     (let i = fresh_id (map ss_id (wh_snapshots wh))
      in wh_snapshots wh' = wh_snapshots wh @ [\<lparr>ss_id = i, ss_student_id = sid, ss_month = ym,
              ss_status = ''FINALIZED'', ss_lineage_version = 1, ss_cells = cs\<rparr>]
         \<and> (\<exists>ts. wh_narratives wh' = wh_narratives wh @ [\<lparr>na_snapshot_id = i, na_texts = ts\<rparr>])
         \<and> wh_reports wh' = wh_reports wh)"

lemma assemble_new_Inr:
  assumes "assemble_new env src sid ym mode cfg corr s wh = Inr (res, wh')"
  obtains balance segment weeks w credits where "compute_balance (se_floats env) s = Inr balance"
    and "classify_segment env s = Inr segment" and "snapshot_weeks env s = Inr weeks"
    and "has_credits (se_floats env) s = Inr credits" and "\<not> has_snapshot sid ym wh" and "mode_fits mode"
    and "snapshot_added sid ym (snapshot_cells env s balance (payment_risk_label balance) segment weeks
      credits (get_outreach_summary env src sid w) mode cfg corr) wh wh'"
    and "dict_get res ''status'' = VStr ''created''"
    and "month_window ym = Inr w"
proof -
  from assms obtain balance segment weeks w where
    b: "compute_balance (se_floats env) s = Inr balance" and sg: "classify_segment env s = Inr segment"
    and wk: "snapshot_weeks env s = Inr weeks" and w: "month_window ym = Inr w"
    unfolding assemble_new_def bind_call_Inr lift_call_Inr by blast
  obtain ns tier av where n: "get_ai_narratives src sid = (ns, tier, av)" by (cases "get_ai_narratives src sid")
  from assms b sg wk w n obtain i wh1 where
    ins: "insert_snapshot env sid ym s balance (payment_risk_label balance) segment weeks
      (get_outreach_summary env src sid w) ns (snapshot_transitions env src sid w) mode cfg corr wh = Inr (i, wh1)"
    and res: "res = created_result i sid ym segment (payment_risk_label balance) av mode"
    and wh': "wh' = wh_emit ''info''
      (assembled_line i sid ym segment (payment_risk_label balance) av mode corr) wh1"
    by (auto simp: assemble_new_def Let_def bind_call_Inr)
  let ?cs = "\<lambda>credits. snapshot_cells env s balance (payment_risk_label balance) segment weeks
      credits (get_outreach_summary env src sid w) mode cfg corr"
  from ins obtain credits where c: "has_credits (se_floats env) s = Inr credits"
    and fits: "mode_fits mode" and nof: "existing_finalized_snapshot_id sid ym wh = None"
    by (auto simp: insert_snapshot_def bind_call_Inr Let_def split: if_split_asm)
  have "snapshot_added sid ym (?cs credits) wh wh'"
    using ins c unfolding wh' by (auto simp: insert_snapshot_def snapshot_added_def Let_def split: if_split_asm)
  moreover have "dict_get res ''status'' = VStr ''created''" by (simp add: res created_result_def)
  ultimately show thesis using that b sg wk c w fits nof by (simp add: existing_None)
qed

lemma result_status [simp]:
  "dict_get (exists_result i sid ym) ''status'' = VStr ''exists''"
  "dict_get (missing_result sid ym) ''status'' = VStr ''error''"
  by (simp_all add: exists_result_def missing_result_def)

lemma assemble_snapshot_cases:
  obtains (raised) e where "assemble_snapshot env src sid ym mode cfg corr wh = (Inl e, wh)"
  | (present) i where "assemble_snapshot env src sid ym mode cfg corr wh = (Inr (exists_result i sid ym), wh)"
      and "existing_finalized_snapshot_id sid ym wh = Some i" and "i \<noteq> 0"
  | (missing) "assemble_snapshot env src sid ym mode cfg corr wh = (Inr (missing_result sid ym), wh)"
      and "get_student_for_month env src sid ym = Inr None"
  | (added) s cfg' corr' res wh' where "assemble_snapshot env src sid ym mode cfg corr wh = (Inr res, wh')"
      and "get_student_for_month env src sid ym = Inr (Some s)"
      and "assemble_new env src sid ym mode cfg' corr' s wh = Inr (res, wh')"
proof -
  let ?ex = "existing_finalized_snapshot_id sid ym wh"
  consider i where "?ex = Some i" "i \<noteq> 0" | "?ex = None \<or> ?ex = Some 0" by (cases ?ex) auto
  then show thesis
  proof cases
    case 1
    then show thesis by (intro present) (simp_all add: assemble_snapshot_def)
  next
    case none: 2
    show thesis
    proof (cases "get_student_for_month env src sid ym")
      case (Inl e)
      with none show thesis by (intro raised [of "Py e"]) (auto simp: assemble_snapshot_def)
    next
      case (Inr so)
      show thesis
      proof (cases so)
        case None
        with none Inr show thesis by (intro missing) (auto simp: assemble_snapshot_def)
      next
        case (Some s)
        let ?cfg = "if given cfg then the cfg else ''UNKNOWN_V0''"
        let ?corr = "if given corr then the corr else se_new_uuid env"
        have eq: "assemble_snapshot env src sid ym mode cfg corr wh =
            (case assemble_new env src sid ym mode ?cfg ?corr s wh of
               Inl e \<Rightarrow> (Inl e, wh) | Inr (res, wh') \<Rightarrow> (Inr res, wh'))"
          unfolding assemble_snapshot_def Let_def using none Inr Some by auto
        show thesis
        proof (cases "assemble_new env src sid ym mode ?cfg ?corr s wh")
          case (Inl e)
          with eq show thesis by (intro raised [of e]) simp
        next
          case new: (Inr x)
          obtain res wh' where x: "x = (res, wh')" by (cases x)
          show thesis
            by (rule added [OF _ _ new [unfolded x]]) (use eq new x Inr Some in simp_all)
        qed
      qed
    qed
  qed
qed

section \<open>Well-formed warehouses\<close>

text \<open>
  The types of the columns that the service computes: one of five segments and three risk labels,
  a balance, a flag, at most as many responses as contacts, and contact columns that are empty
  together.
\<close>

definition segment_values :: "string list" where
  "segment_values = [''NEWCOMERS'', ''ENGAGEMENT'', ''CAP_HOPEFULS'', ''LAUNCH_HOPEFULS'', ''PLACEMENT_HOPEFULS'']"

definition risk_values :: "string list" where
  "risk_values = [''HIGH'', ''MEDIUM'', ''CLEAR'']"

definition well_typed_cells :: "row \<Rightarrow> bool" where
  "well_typed_cells cs \<longleftrightarrow>
     list_ex (\<lambda>v. get cs ''segment_classification'' = CText v) segment_values
     \<and> list_ex (\<lambda>v. get cs ''payment_risk_label'' = CText v) risk_values
     \<and> (case (get cs ''actual_balance'', get cs ''is_bundle_deal'', get cs ''execution_mode'') of
          (CFloat b, CBool c, CText m) \<Rightarrow> mode_fits m | _ \<Rightarrow> False)
     \<and> (case (get cs ''total_outreach_attempts'', get cs ''total_responses'') of
          (CInt n, CInt k) \<Rightarrow> 0 \<le> k \<and> k \<le> n
            \<and> (n = 0 \<longleftrightarrow> get cs ''last_contact_date'' = CNull)
            \<and> (n = 0 \<longleftrightarrow> get cs ''days_since_last_contact'' = CNull)
        | _ \<Rightarrow> False)"

definition wf_snapshot :: "snapshot \<Rightarrow> bool" where
  "wf_snapshot r \<longleftrightarrow> 0 < ss_id r \<and> ss_status r = ''FINALIZED'' \<and> ss_lineage_version r = 1
     \<and> well_typed_cells (ss_cells r)"

definition wf_snapshots :: "warehouse \<Rightarrow> bool" where
  "wf_snapshots wh \<longleftrightarrow> list_all wf_snapshot (wh_snapshots wh)
     \<and> distinct (map ss_id (wh_snapshots wh))
     \<and> distinct (map (\<lambda>r. (ss_student_id r, ss_month r)) (wh_snapshots wh))
     \<and> map na_snapshot_id (wh_narratives wh) = map ss_id (wh_snapshots wh)"

lemma classified:
  assumes "classify_segment env s = Inr segment"
  shows "segment \<in> set segment_values"
  using assms by (auto simp: classify_segment_def segment_values_def bind_call_Inr split: if_split_asm)

lemma labelled: "payment_risk_label b \<in> set risk_values"
  by (simp add: payment_risk_label_def risk_values_def)

lemma fold_later:
  "fold later ts (Some t) \<noteq> None" "fold later ts None = None \<longleftrightarrow> ts = []"
proof -
  show some: "fold later ts (Some t) \<noteq> None" for t ts
    by (induction ts arbitrary: t) (simp_all add: later_def)
  show "fold later ts None = None \<longleftrightarrow> ts = []"
    using some [of "tl ts" "hd ts"] by (cases ts) (auto simp: later_def)
qed

lemma outreach_summary_contacts:
  fixes env src sid w defines o': "o' \<equiv> get_outreach_summary env src sid w"
  shows "0 \<le> os_total_responses o'" and "os_total_responses o' \<le> os_total o'"
    and "os_last_contact o' = None \<longleftrightarrow> os_total o' = 0"
    and "os_days_since_contact o' = None \<longleftrightarrow> os_total o' = 0"
proof -
  have "length (filter P oh) \<le> length oh + n" for P :: "int \<times> history_row \<Rightarrow> bool" and oh n
    by (rule trans_le_add1) simp
  then show "0 \<le> os_total_responses o'" and "os_total_responses o' \<le> os_total o'"
    by (simp_all add: o' get_outreach_summary_def Let_def flip: of_nat_add)
  show "os_last_contact o' = None \<longleftrightarrow> os_total o' = 0"
    by (simp add: o' get_outreach_summary_def Let_def last_contact_of_def fold_later(2)
        add_nonneg_eq_0_iff del: fold_append)
  then show "os_days_since_contact o' = None \<longleftrightarrow> os_total o' = 0"
    by (simp add: o' get_outreach_summary_def Let_def)
qed

lemma snapshot_cells_get:
  fixes env s balance p_risk segment weeks credits contacts mode cfg corr
  defines cs: "cs \<equiv> snapshot_cells env s balance p_risk segment weeks credits contacts mode cfg corr"
  shows "get cs ''segment_classification'' = CText segment" and "get cs ''payment_risk_label'' = CText p_risk"
    and "get cs ''actual_balance'' = CFloat balance" and "get cs ''is_bundle_deal'' = CBool credits"
    and "get cs ''execution_mode'' = CText mode"
    and "get cs ''total_outreach_attempts'' = CInt (os_total contacts)"
    and "get cs ''total_responses'' = CInt (os_total_responses contacts)"
    and "get cs ''last_contact_date'' = CNull \<longleftrightarrow> os_last_contact contacts = None"
    and "get cs ''days_since_last_contact'' = int_cell (os_days_since_contact contacts)"
    and "get cs ''ss_total_credits'' = attr s ''Total_Credits''"
    and "get cs ''ss_last_activity_days'' = attr s ''LastActivityDays''"
  by (simp_all add: cs snapshot_cells_def copied_columns_def get_def split: option.split)

lemma snapshot_cells_typed:
  assumes "segment \<in> set segment_values" and "p_risk \<in> set risk_values" and "mode_fits mode"
  shows "well_typed_cells (snapshot_cells env s balance p_risk segment weeks credits
    (get_outreach_summary env src sid w) mode cfg corr)"
  using assms outreach_summary_contacts [of env src sid w]
  by (auto simp: well_typed_cells_def snapshot_cells_get list_ex_iff int_cell_def split: option.split)

lemma added_wf:
  assumes wf: "wf_snapshots wh" and new: "\<not> has_snapshot sid ym wh" and cs: "well_typed_cells cs"
    and added: "snapshot_added sid ym cs wh wh'"
  shows "wf_snapshots wh'"
proof -
  let ?i = "fresh_id (map ss_id (wh_snapshots wh))"
  have "?i \<notin> set (map ss_id (wh_snapshots wh))" using fresh_id_above by fastforce
  moreover from wf new have "(sid, ym) \<notin> set (map (\<lambda>r. (ss_student_id r, ss_month r)) (wh_snapshots wh))"
    by (auto simp: wf_snapshots_def wf_snapshot_def list_all_iff has_snapshot_def finalized_for_def list_ex_iff)
  ultimately show ?thesis
    using wf cs added by (auto simp: wf_snapshots_def wf_snapshot_def snapshot_added_def Let_def fresh_id_positive)
qed

lemma assemble_new_wf:
  assumes "wf_snapshots wh" and "assemble_new env src sid ym mode cfg corr s wh = Inr (res, wh')"
  shows "wf_snapshots wh'"
  by (rule assemble_new_Inr [OF assms(2)])
    (rule added_wf [OF assms(1)], assumption, rule snapshot_cells_typed; simp add: classified labelled)

lemma assemble_snapshot_wf:
  assumes "wf_snapshots wh"
  shows "wf_snapshots (snd (assemble_snapshot env src sid ym mode cfg corr wh))"
  by (cases rule: assemble_snapshot_cases [of env src sid ym mode cfg corr wh])
    (use assms assemble_new_wf in auto)

section \<open>Growth and batches\<close>

text \<open>The tables of snapshots and narratives only grow, and reports are not touched.\<close>

definition extends :: "warehouse \<Rightarrow> warehouse \<Rightarrow> bool" where
  "extends wh wh' \<longleftrightarrow> (\<exists>new. wh_snapshots wh' = wh_snapshots wh @ new)
     \<and> (\<exists>new. wh_narratives wh' = wh_narratives wh @ new) \<and> wh_reports wh' = wh_reports wh"

lemma extends_refl [simp]: "extends wh wh"
  by (simp add: extends_def)

lemma extends_emit [simp]: "extends wh (wh_emit l d wh') \<longleftrightarrow> extends wh wh'"
  by (simp add: extends_def)

lemma extends_trans: "extends wh wh' \<Longrightarrow> extends wh' wh'' \<Longrightarrow> extends wh wh''"
  by (auto simp: extends_def)

lemma has_snapshot_mono: "extends wh wh' \<Longrightarrow> has_snapshot sid ym wh \<Longrightarrow> has_snapshot sid ym wh'"
  by (auto simp: extends_def has_snapshot_def)

lemma added_extends: "snapshot_added sid ym cs wh wh' \<Longrightarrow> extends wh wh' \<and> has_snapshot sid ym wh'"
  by (auto simp: snapshot_added_def extends_def has_snapshot_def finalized_for_def Let_def)

lemma assemble_snapshot_outcome:
  assumes "assemble_snapshot env src sid ym mode cfg corr wh = (r, wh')"
  shows "extends wh wh'"
    and "r = Inr res \<Longrightarrow> dict_get res ''status'' \<in> {VStr ''created'', VStr ''exists''} \<Longrightarrow> has_snapshot sid ym wh'"
    and "r = Inr res \<Longrightarrow> dict_get res ''status'' \<in> {VStr ''created'', VStr ''exists'', VStr ''error''}"
proof -
  have "extends wh wh' \<and> (\<forall>res. r = Inr res \<longrightarrow>
      (dict_get res ''status'' \<in> {VStr ''created'', VStr ''exists''} \<longrightarrow> has_snapshot sid ym wh')
      \<and> dict_get res ''status'' \<in> {VStr ''created'', VStr ''exists'', VStr ''error''})"
  proof (cases rule: assemble_snapshot_cases [of env src sid ym mode cfg corr wh])
    case (present i)
    then show ?thesis using assms existing_None [of sid ym wh] by auto
  next
    case (added s cfg' corr' res wh1)
    from added(3) have "dict_get res ''status'' = VStr ''created'' \<and> extends wh wh1 \<and> has_snapshot sid ym wh1"
      by (rule assemble_new_Inr) (simp add: added_extends)
    with added(1) assms show ?thesis by simp
  qed (use assms in auto)
  then show "extends wh wh'"
    and "r = Inr res \<Longrightarrow> dict_get res ''status'' \<in> {VStr ''created'', VStr ''exists''} \<Longrightarrow> has_snapshot sid ym wh'"
    and "r = Inr res \<Longrightarrow> dict_get res ''status'' \<in> {VStr ''created'', VStr ''exists'', VStr ''error''}"
    by blast+
qed

lemma count_assembly_cases:
  "count_assembly sid r (c, wh) =
     (if dict_get r ''status'' = VStr ''created'' then (c\<lparr>an_created := an_created c + 1\<rparr>, wh)
      else if dict_get r ''status'' = VStr ''exists'' then (c\<lparr>an_skipped := an_skipped c + 1\<rparr>, wh)
      else (c\<lparr>an_errors := an_errors c + 1\<rparr>,
              wh_emit ''warning'' [(''service'', VStr ''snapshot''), (''event'', VStr ''snapshot_error''),
                (''student_id'', VInt sid), (''error'', dict_get r ''error'')] wh))"
  by (simp add: count_assembly_def)

definition assembled :: "assembly_counts \<Rightarrow> int" where
  "assembled c = an_created c + an_skipped c + an_errors c"

lemma assemble_loop_outcome:
  assumes "assemble_loop envs src ym mode cfg i sids (c, wh) = (r, wh')"
  shows "extends wh wh' \<and> (wf_snapshots wh \<longrightarrow> wf_snapshots wh')
    \<and> (\<forall>c'. r = Inr c' \<longrightarrow> assembled c' = assembled c + int (length sids) \<and> an_created c \<le> an_created c'
        \<and> an_skipped c \<le> an_skipped c' \<and> an_errors c \<le> an_errors c'
        \<and> (an_errors c' = an_errors c \<longrightarrow> (\<forall>sid \<in> set sids. has_snapshot sid ym wh')))"
  using assms
proof (induction sids arbitrary: i c wh)
  case (Cons sid sids)
  obtain r1 wh1 where one: "assemble_snapshot (envs i) src sid ym mode cfg None wh = (r1, wh1)"
    by (cases "assemble_snapshot (envs i) src sid ym mode cfg None wh")
  note out = assemble_snapshot_outcome [OF one]
  have wf: "wf_snapshots wh \<longrightarrow> wf_snapshots wh1"
    using assemble_snapshot_wf [of wh "envs i" src sid ym mode cfg None] one by simp
  show ?case
  proof (cases r1)
    case (Inl e)
    with Cons.prems one wf out(1) show ?thesis by auto
  next
    case (Inr res)
    obtain c2 wh2 where c2: "count_assembly sid res (c, wh1) = (c2, wh2)"
      by (cases "count_assembly sid res (c, wh1)")
    with Cons.prems one Inr
    have "assemble_loop envs src ym mode cfg (Suc i) sids (c2, wh2) = (r, wh')" by simp
    note IH = Cons.IH [OF this]
    have ext: "extends wh wh2" and wf2: "wf_snapshots wh \<longrightarrow> wf_snapshots wh2"
      and same: "has_snapshot sid ym wh1 \<Longrightarrow> has_snapshot sid ym wh2"
      using c2 out(1) wf
      by (auto simp: count_assembly_cases wf_snapshots_def has_snapshot_def split: if_split_asm)
    have cnt: "assembled c2 = assembled c + 1" "an_created c \<le> an_created c2"
      "an_skipped c \<le> an_skipped c2" "an_errors c \<le> an_errors c2"
      using c2 by (auto simp: count_assembly_cases assembled_def split: if_split_asm)
    have done1: "has_snapshot sid ym wh2" if "an_errors c2 = an_errors c"
      using that c2 out(2) [OF Inr] same by (auto simp: count_assembly_cases split: if_split_asm)
    have done2: "an_errors c2 = an_errors c \<and> an_errors c' = an_errors c2"
      if "r = Inr c'" "an_errors c' = an_errors c" for c'
      using that IH cnt(4) by auto
    have "\<forall>s \<in> set (sid # sids). has_snapshot s ym wh'" if "r = Inr c'" "an_errors c' = an_errors c" for c'
      using done2 [OF that] done1 IH that(1) has_snapshot_mono [of wh2 wh' sid ym] by auto
    with IH cnt ext wf2 show ?thesis
      by (auto intro: extends_trans)
  qed
qed (auto simp: assembled_def)

lemma assemble_loop_present:
  assumes "wf_snapshots wh" and "\<forall>sid \<in> set sids. has_snapshot sid ym wh"
  shows "assemble_loop envs src ym mode cfg i sids (c, wh) =
    (Inr (c\<lparr>an_skipped := an_skipped c + int (length sids)\<rparr>), wh)"
  using assms
proof (induction sids arbitrary: i c)
  case (Cons sid sids)
  obtain k where k: "existing_finalized_snapshot_id sid ym wh = Some k"
    using Cons.prems(2) existing_None [of sid ym wh] by auto
  have "k \<noteq> 0"
    using existing_Some [OF k] Cons.prems(1)
    by (auto simp: wf_snapshots_def wf_snapshot_def list_all_iff)
  with k have "assemble_snapshot (envs i) src sid ym mode cfg None wh = (Inr (exists_result k sid ym), wh)"
    by (simp add: assemble_snapshot_def)
  with Cons show ?case by (simp add: count_assembly_cases)
qed simp

text \<open>
  A batch without errors leaves nothing to do: every student of the mirror has a snapshot of
  the month, the counters add up to the students, and a second batch in any mode, with any
  configuration, sources and clocks creates nothing, skips every student and changes no table.
\<close>

theorem snapshot_batch_repeatable:
  assumes "wf_snapshots wh"
    and "assemble_all_active_snapshots envs src user_ids ym mode cfg wh = (Inr res, wh')"
    and "dict_get res ''errors'' = VInt 0"
  shows "list_all (\<lambda>sid. has_snapshot sid ym wh') user_ids
    \<and> (case (dict_get res ''created'', dict_get res ''skipped_existing'') of
         (VInt c, VInt s) \<Rightarrow> 0 \<le> c \<and> 0 \<le> s \<and> c + s = int (length user_ids) | _ \<Rightarrow> False)
    \<and> assemble_all_active_snapshots envs' src' user_ids ym mode' cfg' wh' =
        (Inr [(''snapshot_month'', VStr (month_text ym)), (''total'', VInt (int (length user_ids))),
            (''created'', VInt 0), (''skipped_existing'', VInt (int (length user_ids))),
            (''errors'', VInt 0), (''execution_mode'', VStr mode')], wh')"
proof -
  let ?c0 = "\<lparr>an_created = 0, an_skipped = 0, an_errors = 0\<rparr>"
  from assms(2) obtain c where loop: "assemble_loop envs src ym mode cfg 0 user_ids (?c0, wh) = (Inr c, wh')"
    and res: "dict_get res ''created'' = VInt (an_created c)"
      "dict_get res ''skipped_existing'' = VInt (an_skipped c)" "dict_get res ''errors'' = VInt (an_errors c)"
    by (auto simp: assemble_all_active_snapshots_def split: prod.split_asm sum.split_asm)
  note out = assemble_loop_outcome [OF loop]
  from out assms(1,3) res(3) have wf: "wf_snapshots wh'"
    and all: "\<forall>sid \<in> set user_ids. has_snapshot sid ym wh'"
    and cnt: "an_created c + an_skipped c = int (length user_ids)" "0 \<le> an_created c" "0 \<le> an_skipped c"
    by (auto simp: assembled_def)
  have "assemble_loop envs' src' ym mode' cfg' 0 user_ids (?c0, wh') =
      (Inr (?c0\<lparr>an_skipped := int (length user_ids)\<rparr>), wh')"
    using assemble_loop_present [OF wf all, where c = ?c0] by simp
  with all cnt res show ?thesis
    by (simp add: assemble_all_active_snapshots_def list_all_iff)
qed

section \<open>Late captures\<close>

text \<open>
  C24. The relative fields of a captured month are moved back to the end of the month: captured by
  then they are kept, captured later each is lowered by the days between and never below zero, so
  it lies between zero and what was captured; every other column of the history is passed on
  unchanged.
\<close>

theorem relative_fields_at_month_end:
  assumes "sd_mirrors (pl_db src) (MonthState (month_text ym)) sid = Some cells"
    and "attr cells ''captured_at'' = CTime t"
    and "attr cells ''LastActivityDays'' = CInt v" and "attr cells ''LastLoginDays'' = CInt u"
    and "0 \<le> v" and "0 \<le> u" and "valid_month ym" and "ym \<noteq> (9999, 12)"
  shows "let late = day_of_instant (se_instant env t) - ordinal (fst ym) (snd ym) (days_in_month (fst ym) (snd ym))
    in case get_student_for_month env src sid ym of
         Inr (Some s) \<Rightarrow>
           (case (attr s ''LastActivityDays'', attr s ''LastLoginDays'') of
              (CInt v', CInt u') \<Rightarrow>
                v' = max 0 (v - max 0 late) \<and> u' = max 0 (u - max 0 late) \<and> v' \<in> {0..v} \<and> u' \<in> {0..u}
            | _ \<Rightarrow> False)
           \<and> list_all (\<lambda>c. attr s c = attr cells c)
               (filter (\<lambda>c. c \<notin> set relative_fields \<and> c \<noteq> ''UserID'') history_columns)
       | _ \<Rightarrow> False"
proof -
  let ?h = "history_student sid cells"
  have h: "attr ?h ''captured_at'' = CTime t" "attr ?h ''LastActivityDays'' = CInt v"
    "attr ?h ''LastLoginDays'' = CInt u"
    using assms(2-4) by (simp_all add: attr_def history_student_def history_columns_def split: option.splits)
  have other: "attr ?h c = attr cells c" if "c \<in> set history_columns" "c \<noteq> ''UserID''" for c
    using that by (simp add: attr_def history_student_def)
  have upd: "attr (s(k \<mapsto> x)) c = (if c = k then x else attr s c)" for s k x c
    by (simp add: attr_def)
  show ?thesis
    using assms(1,5-8) h
    by (auto simp: get_student_for_month_def adjust_relative_fields_def month_last_day_calendar Let_def
        adjust_field_def relative_fields_def list_all_iff other upd)
qed

section \<open>Witnesses\<close>

definition sample_snapshot_env :: snapshot_env where
  "sample_snapshot_env = \<lparr>se_floats = sample_floats, se_today = 739000, se_now = 1000, se_instant = (\<lambda>t. 0),
     se_date_text = show_int, se_iso = show_int, se_str = (\<lambda>c. []), se_jsonb = (\<lambda>b. CNull),
     se_uuid = (\<lambda>s. True), se_new_uuid = ''1'', se_sha256 = id, se_round3 = (\<lambda>a b. Fin 0),
     se_accepts = (\<lambda>r. True)\<rparr>"

definition sample_tables :: "student \<Rightarrow> platform_tables" where
  "sample_tables cells = \<lparr>pl_db = \<lparr>sd_mirrors = (\<lambda>t k. if k = 7 then Some cells else None), sd_activities = []\<rparr>,
     pl_history = [], pl_transitions = [], pl_insights = [], pl_tracking = []\<rparr>"

definition empty_warehouse :: warehouse where
  "empty_warehouse = \<lparr>wh_snapshots = [], wh_narratives = [], wh_reports = [], wh_log = []\<rparr>"

definition captured_student :: student where
  "captured_student = [''captured_at'' \<mapsto> CTime ''1970-01-03'', ''CurrentSection'' \<mapsto> CText ''Cap Project'',
     ''Total_Credits'' \<mapsto> CFloat (Fin 100), ''LastActivityDays'' \<mapsto> CInt 5, ''LastLoginDays'' \<mapsto> CInt 1]"

lemma relative_fields_at_month_end_witness:
  "case get_student_for_month (sample_snapshot_env\<lparr>se_instant := (\<lambda>t. 3 * day_micros)\<rparr>)
       (sample_tables captured_student) 7 (1969, 12) of
     Inr (Some s) \<Rightarrow> attr s ''LastActivityDays'' = CInt 1 \<and> attr s ''LastLoginDays'' = CInt 0 | _ \<Rightarrow> False"
proof -
  have "ordinal 1969 12 (days_in_month 1969 12) = 719162"
    by (simp add: ordinal_def days_before_year_def days_before_month_def days_in_month_def is_leap_def)
  then show ?thesis
    using relative_fields_at_month_end [where src = "sample_tables captured_student" and ym = "(1969, 12)"
        and sid = 7 and cells = captured_student and v = 5 and u = 1 and t = "''1970-01-03''"
        and env = "sample_snapshot_env\<lparr>se_instant := (\<lambda>t. 3 * day_micros)\<rparr>"]
    by (auto simp: sample_tables_def captured_student_def attr_def valid_month_def Let_def
        day_of_instant_def day_micros_def epoch_day_def split: sum.splits option.splits cell.splits)
qed

lemma sample_created:
  "\<exists>s res wh'. get_student_for_month sample_snapshot_env (sample_tables captured_student) 7 (2024, 2) = Inr (Some s)
     \<and> attr s ''Total_Credits'' = CFloat (Fin 100)
     \<and> assemble_snapshot sample_snapshot_env (sample_tables captured_student) 7 (2024, 2) ''SHADOW'' None None
         empty_warehouse = (Inr res, wh') \<and> dict_get res ''status'' = VStr ''created''"
proof -
  have low: "cell_lower (CText ''Cap Project'') = Inr ''cap project''" by code_simp
  have zero: "float_of_int 0 = Inr (Fin 0)" by (simp add: float_of_int_def round53_def bitlen.simps)
  let ?src = "sample_tables captured_student"
  obtain s where s: "get_student_for_month sample_snapshot_env ?src 7 (2024, 2) = Inr (Some s)"
    and cols: "attr s ''CurrentSection'' = CText ''Cap Project''" "attr s ''IPBCStartDate'' = CNull"
      "attr s ''Total_Credits'' = CFloat (Fin 100)" "attr s ''Total_Payments'' = CNull"
      "attr s ''ClassValue'' = CNull" "attr s ''PaymentBalance'' = CNull"
    by (auto simp: get_student_for_month_def sample_tables_def adjust_relative_fields_def attr_def
        history_student_def history_columns_def captured_student_def month_last_day_def first_day_def
        next_month_def valid_month_def ordinal_def days_before_year_def days_before_month_def
        sample_snapshot_env_def day_of_instant_def epoch_day_def Let_def)
  have bal: "compute_balance (se_floats sample_snapshot_env) s = Inr (Fin 0)"
    by (simp add: compute_balance_def float_field_def or_cell_def cols zero is_bundle_def fgt_Fin)
  have seg: "classify_segment sample_snapshot_env s = Inr ''LAUNCH_HOPEFULS''"
    by (simp add: classify_segment_def cols low)
  have wk: "snapshot_weeks sample_snapshot_env s = Inr None" by (simp add: snapshot_weeks_def cols)
  have w: "\<exists>w. month_window (2024, 2) = Inr w"
    by (simp add: month_window_def first_day_def valid_month_def next_month_def)
  have env: "se_uuid sample_snapshot_env k" "se_accepts sample_snapshot_env r" for k r
    by (simp_all add: sample_snapshot_env_def)
  have cr: "has_credits (se_floats sample_snapshot_env) s = Inr True"
    by (simp add: has_credits_def cols float_field_def or_cell_def fgt_Fin)
  have "\<exists>wh' n av. assemble_new sample_snapshot_env ?src 7 (2024, 2) ''SHADOW'' ''UNKNOWN_V0'' ''1'' s empty_warehouse
      = Inr (created_result n 7 (2024, 2) ''LAUNCH_HOPEFULS'' (payment_risk_label (Fin 0)) av ''SHADOW'', wh')"
    using w by (fastforce simp: assemble_new_def bal seg wk insert_snapshot_def cr Let_def mode_fits_def
        env existing_finalized_snapshot_id_def empty_warehouse_def split: prod.split)
  then obtain wh' n av where "assemble_new sample_snapshot_env ?src 7 (2024, 2) ''SHADOW'' ''UNKNOWN_V0'' ''1'' s empty_warehouse
      = Inr (created_result n 7 (2024, 2) ''LAUNCH_HOPEFULS'' (payment_risk_label (Fin 0)) av ''SHADOW'', wh')" by blast
  moreover have "se_new_uuid sample_snapshot_env = ''1''" by (simp add: sample_snapshot_env_def)
  ultimately show ?thesis
    using s cols(3) by (simp add: assemble_snapshot_def
        existing_finalized_snapshot_id_def empty_warehouse_def created_result_def Let_def)
qed

lemma sample_assembled:
  "\<exists>res wh'. assemble_all_active_snapshots (\<lambda>i. sample_snapshot_env) (sample_tables captured_student) [7]
     (2024, 2) ''SHADOW'' None empty_warehouse = (Inr res, wh') \<and> dict_get res ''errors'' = VInt 0
     \<and> dict_get res ''created'' = VInt 1"
  using sample_created by (auto simp: assemble_all_active_snapshots_def count_assembly_cases)

lemma snapshot_batch_repeatable_witness:
  "\<exists>wh'. has_snapshot 7 (2024, 2) wh' \<and> fst (assemble_all_active_snapshots (\<lambda>i. sample_snapshot_env)
     (sample_tables captured_student) [7] (2024, 2) ''LIVE'' None wh')
     = Inr [(''snapshot_month'', VStr (month_text (2024, 2))), (''total'', VInt 1), (''created'', VInt 0),
         (''skipped_existing'', VInt 1), (''errors'', VInt 0), (''execution_mode'', VStr ''LIVE'')]"
proof -
  obtain res wh' where run: "assemble_all_active_snapshots (\<lambda>i. sample_snapshot_env)
      (sample_tables captured_student) [7] (2024, 2) ''SHADOW'' None empty_warehouse = (Inr res, wh')"
    and ok: "dict_get res ''errors'' = VInt 0"
    using sample_assembled by blast
  have "wf_snapshots empty_warehouse" by (simp add: wf_snapshots_def empty_warehouse_def)
  from snapshot_batch_repeatable [OF this run ok] show ?thesis by (intro exI [of _ wh']) simp
qed

end
