(* ===== verification/ReportSections.thy ===== *)
theory ReportSections
  imports Snapshot
begin

text \<open>
  The sections of a monthly report that are computed from stored snapshots, outreach and state
  transitions, \<^verbatim>\<open>app/services/_report_helpers.py\<close>. A dictionary or list that ends in the
  report is a JSON value; the queries are filters, sorts and limits over the tables. Months order
  by their number of months.
\<close>

section \<open>Trends\<close>

definition month_index :: "month \<Rightarrow> int" where
  "month_index ym = fst ym * 12 + snd ym"

definition finalized_of :: "int \<Rightarrow> warehouse \<Rightarrow> snapshot list" where
  "finalized_of sid wh = rev (sort_key (month_index \<circ> ss_month)
     (filter (\<lambda>r. ss_student_id r = sid \<and> ss_status r = ''FINALIZED'') (wh_snapshots wh)))"

definition trend_history :: "int \<Rightarrow> month \<Rightarrow> warehouse \<Rightarrow> snapshot list" where
  "trend_history sid ym wh =
     take 3 (filter (\<lambda>r. month_index (ss_month r) \<le> month_index ym) (finalized_of sid wh))"

definition derive_submission_momentum :: "float_lib \<Rightarrow> snapshot list \<Rightarrow> string res" where
  "derive_submission_momentum L history =
    (case history of
       r0 # r1 # _ \<Rightarrow>
         let curr = get (ss_cells r0) ''ss_last_activity_days''; prev = get (ss_cells r1) ''ss_last_activity_days''
         in if curr = CNull \<or> prev = CNull then Inr ''INSUFFICIENT_DATA''
            else bind_res (cell_sub L curr prev) (\<lambda>d. bind_res (cell_number d) (\<lambda>delta.
              Inr (if fgt (Fin (- 3)) delta then ''IMPROVING''
                   else if fgt delta (Fin 3) then ''DECLINING'' else ''STABLE'')))
     | _ \<Rightarrow> Inr ''INSUFFICIENT_DATA'')"

definition trend_series :: "string \<Rightarrow> string \<Rightarrow> snapshot list \<Rightarrow> json" where
  "trend_series key column history = JList (map (\<lambda>r.
     JObj [(''month'', JCell (CText (month_text (ss_month r)))), (key, JCell (get (ss_cells r) column))]) history)"

type_synonym json_dict = "(string \<times> json) list"

definition load_trend_data :: "float_lib \<Rightarrow> int \<Rightarrow> month \<Rightarrow> warehouse \<Rightarrow> json_dict res" where
  "load_trend_data L sid ym wh =
    (let history = trend_history sid ym wh
     in bind_res (derive_submission_momentum L history) (\<lambda>momentum. Inr
       [(''hw_velocity'', trend_series ''hws_behind'' ''ss_hws_behind'' history),
        (''efficiency_trend'', trend_series ''avg_eff_rating'' ''ss_avg_eff_rating'' history),
        (''attendance_trend'', trend_series ''attendance_pct'' ''ss_attendance_percentage'' history),
        (''balance_trend'', trend_series ''balance'' ''actual_balance'' history),
        (''section_progression'', trend_series ''section'' ''ss_current_section'' history),
        (''submission_momentum'', JCell (CText momentum)),
        (''months_of_data'', JCell (CInt (int (length history))))]))"

section \<open>Outreach intelligence\<close>

text \<open>Attempts and responses per channel, in the order of the first contact.\<close>

type_synonym channel_counts = "(string \<times> int \<times> int) list"

definition is_response :: "history_row \<Rightarrow> bool" where
  "is_response r \<longleftrightarrow> oh_state_after r \<in> {Some ''RESPONDED'', Some ''ANALYZED'', Some ''RESOLVED''}"

definition count_contact :: "int \<times> history_row \<Rightarrow> channel_counts \<Rightarrow> channel_counts" where
  "count_contact r stats =
    (let ch = (if given (oh_channel (snd r)) then the (oh_channel (snd r)) else ''UNKNOWN'');
         (a, n) = (case map_of stats ch of None \<Rightarrow> (0, 0) | Some x \<Rightarrow> x)
     in AList.update ch (a + 1, if is_response (snd r) then n + 1 else n) stats)"

definition compute_avg_days_to_response :: "int list \<Rightarrow> int list \<Rightarrow> int option" where
  "compute_avg_days_to_response contacted responded =
    (if contacted = [] \<or> responded = [] then None
     else let first_contact = Min (set contacted);
              after_contact = filter (\<lambda>r. r \<ge> first_contact) responded
          in if after_contact = [] then None
             else Some (max 0 ((Min (set after_contact) - first_contact) div day_micros)))"

text \<open>\<^verbatim>\<open>max(items, key=rate)\<close>: the first item that no later one exceeds\<close>

fun best_channel :: "(string \<times> pyfloat) option \<Rightarrow> (string \<times> pyfloat) list \<Rightarrow> string option" where
  "best_channel b [] = map_option fst b"
| "best_channel None (x # xs) = best_channel (Some x) xs"
| "best_channel (Some b) (x # xs) = best_channel (Some (if fgt (snd x) (snd b) then x else b)) xs"

definition month_contacts :: "platform_tables \<Rightarrow> int \<Rightarrow> int \<times> int \<Rightarrow> (int \<times> history_row) list" where
  "month_contacts src sid w = sort_key fst
     (filter (\<lambda>r. oh_user_id (snd r) = sid \<and> fst w \<le> fst r \<and> fst r < snd w) (pl_history src))"

definition response_rate :: "snapshot_env \<Rightarrow> int \<times> int \<Rightarrow> pyfloat" where
  "response_rate env x = (if fst x \<noteq> 0 then se_round3 env (snd x) (fst x) else Fin 0)"

definition load_outreach_intelligence :: "snapshot_env \<Rightarrow> platform_tables \<Rightarrow> int \<Rightarrow> int \<times> int \<Rightarrow> json_dict" where
  "load_outreach_intelligence env src sid w =
    (let records = month_contacts src sid w;
         stats = fold count_contact records [];
         total_att = sum_list (map (fst \<circ> snd) stats); total_resp = sum_list (map (snd \<circ> snd) stats);
         fatigue_score = total_att - total_resp;
         contacted = map fst (filter (\<lambda>r. oh_state_after (snd r) = Some ''CONTACTED'') records);
         responded = map fst (filter (\<lambda>r. is_response (snd r)) records)
     in [(''channel_response_rates'', JObj (map (\<lambda>(ch, x). (ch, JObj [(''attempts'', JCell (CInt (fst x))),
            (''responses'', JCell (CInt (snd x))), (''response_rate'', JCell (CFloat (response_rate env x)))])) stats)),
         (''total_attempts'', JCell (CInt total_att)), (''total_responses'', JCell (CInt total_resp)),
         (''fatigue_score'', JCell (CInt fatigue_score)),
         (''fatigue_flag'', JCell (CBool (fatigue_score \<ge> 3 \<and> total_resp = 0))),
         (''avg_days_to_response'', JCell (int_cell (compute_avg_days_to_response contacted responded))),
         (''most_responsive_channel'',
            JCell (text_cell (best_channel None (map (map_prod id (response_rate env)) stats))))])"

section \<open>Lifecycle\<close>

fun contact_response_delta :: "int option \<Rightarrow> (int \<times> transition_row) list \<Rightarrow> int option" where
  "contact_response_delta c [] = None"
| "contact_response_delta c (x # xs) =
    (let to = st_to_state (snd x);
         c' = (if to = ''CONTACTED'' \<and> c = None then Some (fst x) else c)
     in case c' of
          Some ca \<Rightarrow> if to \<in> {''RESPONDED'', ''ANALYZED''} then Some (max 0 ((fst x - ca) div day_micros))
                     else contact_response_delta c' xs
        | None \<Rightarrow> contact_response_delta c' xs)"

definition compute_contact_response_delta :: "(int \<times> transition_row) list \<Rightarrow> int option" where
  "compute_contact_response_delta = contact_response_delta None"

definition compute_segment_tenure :: "int \<Rightarrow> warehouse \<Rightarrow> int \<times> cell" where
  "compute_segment_tenure sid wh =
    (case take 6 (finalized_of sid wh) of
       [] \<Rightarrow> (0, CNull)
     | r # rs \<Rightarrow>
         let seg = (\<lambda>x. get (ss_cells x) ''segment_classification'')
         in (int (length (filter (\<lambda>x. seg x = seg r) (r # rs))), seg r))"

text \<open>\<^verbatim>\<open>ORDER BY updated_at DESC LIMIT 1\<close>\<close>

definition current_case :: "platform_tables \<Rightarrow> int \<Rightarrow> tracking_row option" where
  "current_case src sid =
    (case rev (sort_key tr_updated_at (filter (\<lambda>r. tr_user_id r = sid) (pl_tracking src))) of
       [] \<Rightarrow> None | r # _ \<Rightarrow> Some r)"

definition load_lifecycle_patterns :: "snapshot_env \<Rightarrow> platform_tables \<Rightarrow> int \<Rightarrow> warehouse \<Rightarrow> json_dict" where
  "load_lifecycle_patterns env src sid wh =
    (let trans_list = student_transitions sid src;
         current = current_case src sid;
         column = (\<lambda>f. JCell (case current of None \<Rightarrow> CNull | Some r \<Rightarrow> f r));
         moment = (\<lambda>t. text_cell (map_option (se_iso env) t));
         (segment_tenure, current_segment) = compute_segment_tenure sid wh
     in [(''current_lifecycle_state'', column (CText \<circ> tr_state)),
         (''current_attempt_number'', column (CInt \<circ> tr_current_attempt)),
         (''last_contact_at'', column (moment \<circ> tr_last_contact_at)),
         (''next_retry_at'', column (moment \<circ> tr_next_retry_at)),
         (''total_state_transitions'', JCell (CInt (int (length trans_list)))),
         (''intervention_cycle_count'', JCell (CInt (int (length
            (filter (\<lambda>t. st_to_state (snd t) = ''INTERVENTION_REQUIRED'') trans_list))))),
         (''days_first_contact_to_response'', JCell (int_cell (compute_contact_response_delta trans_list))),
         (''segment_tenure_months'', JCell (CInt segment_tenure)),
         (''current_segment'', JCell current_segment)])"

section \<open>Section builders\<close>

definition trend_get :: "json_dict \<Rightarrow> string \<Rightarrow> json \<Rightarrow> string \<times> json" where
  "trend_get trend k d = (k, case map_of trend k of None \<Rightarrow> d | Some j \<Rightarrow> j)"

definition build_academic_trends :: "json_dict \<Rightarrow> json" where
  "build_academic_trends trend = JObj [trend_get trend ''hw_velocity'' (JList []),
     trend_get trend ''efficiency_trend'' (JList []), trend_get trend ''section_progression'' (JList []),
     trend_get trend ''submission_momentum'' (JCell (CText ''INSUFFICIENT_DATA'')),
     trend_get trend ''months_of_data'' (JCell (CInt 1))]"

definition activity_pattern :: "pyfloat \<Rightarrow> pyfloat \<Rightarrow> pyfloat \<Rightarrow> string" where
  "activity_pattern login activity gap =
    (if fgt activity (Fin 14) then ''INACTIVE'' else if fgt gap (Fin 5) then ''ACTIVE_NON_SUBMITTER''
     else if fge (Fin 1) login \<and> fge (Fin 3) activity then ''CONSISTENT'' else ''MODERATE'')"

definition gap_interpretation :: "pyfloat \<Rightarrow> pyfloat \<Rightarrow> string" where
  "gap_interpretation activity gap =
    (if fgt gap (Fin 5) then ''ACTIVE_NON_SUBMITTER''
     else if fgt activity (Fin 14) then ''INACTIVE'' else ''ENGAGED'')"

definition build_engagement_depth :: "float_lib \<Rightarrow> row \<Rightarrow> json_dict \<Rightarrow> json res" where
  "build_engagement_depth L snap trend =
    (let login_days = or_cell (get snap ''ss_last_login_days'') (CInt 0);
         activity_days = or_cell (get snap ''ss_last_activity_days'') (CInt 0)
     in bind_res (cell_sub L login_days activity_days) (\<lambda>gap.
        bind_res (cell_number login_days) (\<lambda>l.
        bind_res (cell_number activity_days) (\<lambda>a.
        bind_res (cell_number gap) (\<lambda>g. Inr (JObj
          [(''login_submission_gap'', JCell gap), (''gap_interpretation'', JCell (CText (gap_interpretation a g))),
           (''peak_activity_logins_10d'', JCell (get snap ''ss_past_10_days_logon'')),
           (''activity_pattern'', JCell (CText (activity_pattern l a g))),
           trend_get trend ''attendance_trend'' (JList [])]))))))"

definition payment_behavior :: "cell \<Rightarrow> pyfloat \<Rightarrow> pyfloat \<Rightarrow> pyfloat \<Rightarrow> string" where
  "payment_behavior bundle class_value total_payments total_credits =
    (if cell_truthy bundle then ''BUNDLE_DEAL'' else if fgt total_credits (Fin 0) then ''PARTIAL_CREDIT''
     else if fge total_payments class_value \<and> fgt class_value (Fin 0) then ''FULLY_PAID''
     else if fgt total_payments (Fin 0) then ''INSTALLMENT'' else ''UNPAID'')"

definition cell_is_zero :: "cell \<Rightarrow> bool" where
  "cell_is_zero v = (case cell_number v of Inl e \<Rightarrow> False | Inr x \<Rightarrow> feq x (Fin 0))"

definition build_financial_trends :: "float_lib \<Rightarrow> row \<Rightarrow> json_dict \<Rightarrow> json res" where
  "build_financial_trends L snap trend =
    (let column = (\<lambda>k. or_cell (get snap k) (CInt 0)); class_value = column ''ss_class_value'';
         total_payments = column ''ss_total_payments''; total_credits = column ''ss_total_credits'';
         class_fees_paid = column ''ss_class_fees_paid''; fee_paid = get snap ''ss_fee_paid''
     in bind_res (cell_sub L class_value total_payments) (\<lambda>d. bind_res (cell_sub L d total_credits) (\<lambda>d.
        bind_res (cell_max_zero (CFloat (Fin 0)) d) (\<lambda>remaining.
        bind_res (cell_number class_value) (\<lambda>cv. bind_res (cell_number total_payments) (\<lambda>tp.
        bind_res (cell_number total_credits) (\<lambda>tc. Inr (JObj
          [trend_get trend ''balance_trend'' (JList []),
           (''payment_behavior'', JCell (CText (payment_behavior (get snap ''is_bundle_deal'') cv tp tc))),
           (''remaining_after_credits'', JCell remaining),
           (''enrollment_fee_only'', JCell (CBool (fee_paid = CBool True \<and> cell_is_zero class_fees_paid))),
           (''fee_structure'', JObj [(''enrollment_fee_paid'', JCell fee_paid), (''class_fees_paid'', JCell class_fees_paid),
              (''total_credits'', JCell total_credits), (''class_value'', JCell class_value)])]))))))))"

end
