(* ===== verification/Report.thy ===== *)
theory Report
  imports ReportSections
begin

text \<open>
  Monthly reports, \<^verbatim>\<open>app/services/report.py\<close>: a report is built from the finalized
  snapshot of a student and month, and published by updating the published row in place or
  inserting one under its idempotency key. A call that raises leaves the warehouse as it was.
\<close>

section \<open>Reading the snapshot\<close>

definition report_columns :: "string list" where
  "report_columns = [''execution_mode'', ''finalized_at'', ''ss_first_name'', ''ss_last_name'', ''ss_email'',
     ''ss_phone_number'', ''ss_path_name'', ''ss_hws_behind'', ''ss_avg_eff_rating'', ''ss_last_activity_days'',
     ''ss_attendance_percentage'', ''ss_current_section'', ''ss_ipbc_start_date'', ''ss_total_payments'',
     ''ss_total_credits'', ''ss_payment_balance'', ''ss_class_value'', ''ss_fee_paid'', ''ss_class_fees_paid'',
     ''ss_class_name'', ''ss_active_status'', ''ss_status_i'', ''ss_status_ii'', ''ss_last_activity_section'',
     ''ss_last_login_days'', ''ss_last_submitted'', ''segment_classification'', ''payment_risk_label'',
     ''actual_balance'', ''is_bundle_deal'', ''weeks_in_program'', ''days_since_last_submission'',
     ''total_outreach_attempts'', ''total_responses'', ''last_contact_date'', ''days_since_last_contact'',
     ''channel_breakdown_json'', ''fingerprint_schema_version'', ''fingerprint_config_registry_version'',
     ''fingerprint_report_template_version'', ''fingerprint_computed_at'']"

definition narrative_texts :: "int \<Rightarrow> warehouse \<Rightarrow> row" where
  "narrative_texts snapshot_id wh =
    (let copy = find (\<lambda>n. na_snapshot_id n = snapshot_id) (wh_narratives wh)
     in map (\<lambda>(c, _). (c, case copy of None \<Rightarrow> CNull
          | Some n \<Rightarrow> text_cell (Option.bind (map_of (na_texts n) c) id))) narrative_columns)"

definition snapshot_row :: "snapshot \<Rightarrow> warehouse \<Rightarrow> row" where
  "snapshot_row r wh =
     [(''snapshot_id'', CInt (ss_id r)), (''student_id'', CInt (ss_student_id r)),
      (''snapshot_month'', CText (month_text (ss_month r))), (''status'', CText (ss_status r)),
      (''lineage_version'', CInt (ss_lineage_version r))]
     @ map (\<lambda>c. (c, get (ss_cells r) c)) report_columns @ narrative_texts (ss_id r) wh"

definition load_finalized_snapshot :: "int \<Rightarrow> month \<Rightarrow> warehouse \<Rightarrow> snapshot option" where
  "load_finalized_snapshot sid ym wh =
    (case rev (sort_key ss_lineage_version (filter (\<lambda>r. ss_student_id r = sid \<and> ss_month r = ym
        \<and> ss_status r = ''FINALIZED'') (wh_snapshots wh))) of [] \<Rightarrow> None | r # _ \<Rightarrow> Some r)"

text \<open>The state history of the month, without the first instant of the next one.\<close>

definition load_state_transitions :: "snapshot_env \<Rightarrow> platform_tables \<Rightarrow> int \<Rightarrow> int \<times> int \<Rightarrow> row list" where
  "load_state_transitions env src sid w =
     map (transition_entry env) (filter (\<lambda>r. fst w \<le> fst r \<and> fst r < snd w) (student_transitions sid src))"

section \<open>Content\<close>

definition derive_risk_level :: "row \<Rightarrow> string res" where
  "derive_risk_level snap =
     bind_res (cell_number (or_cell (get snap ''ss_hws_behind'') (CInt 0))) (\<lambda>hws.
     if fge hws (Fin 3) then Inr ''HIGH''
     else bind_res (cell_number (or_cell (get snap ''ss_last_activity_days'') (CInt 0))) (\<lambda>inactivity.
       Inr (if fgt inactivity (Fin 14) then ''HIGH''
            else if fge hws (Fin 1) \<or> fgt inactivity (Fin 7) then ''MEDIUM'' else ''LOW'')))"

definition report_version :: string where "report_version = ''1.2''"

definition no_narrative :: string where
  "no_narrative = ''No narrative available at time of finalization.''"

definition ai_available_in :: "row \<Rightarrow> bool" where
  "ai_available_in snap \<longleftrightarrow> list_ex (\<lambda>c. cell_truthy (get snap c))
     [''risk_summary_text'', ''progress_summary_text'', ''monthly_narrative_text'', ''intervention_recommendation_text'']"

definition cells_json :: "row \<Rightarrow> json" where
  "cells_json r = JObj (map (map_prod id JCell) r)"

definition identity_section :: "snapshot_env \<Rightarrow> row \<Rightarrow> json" where
  "identity_section env snap =
    (let name = (\<lambda>k. cell_text (se_str env) (or_cell (get snap k) (CText [])));
         start = get snap ''ss_ipbc_start_date''
     in cells_json [(''full_name'', CText (strip (name ''ss_first_name'' @ '' '' @ name ''ss_last_name''))),
          (''user_id'', get snap ''student_id''), (''email'', get snap ''ss_email''),
          (''phone'', get snap ''ss_phone_number''), (''program_path'', get snap ''ss_path_name''),
          (''ipbc_start_date'', if cell_truthy start then CText (take 10 (cell_text (se_str env) start)) else CNull),
          (''weeks_in_program'', get snap ''weeks_in_program'')])"

definition academic_section :: "row \<Rightarrow> json" where
  "academic_section snap = cells_json [(''hws_behind'', get snap ''ss_hws_behind''),
     (''avg_eff_rating'', get snap ''ss_avg_eff_rating''), (''hw_submitted_days_ago'', get snap ''days_since_last_submission''),
     (''attendance_pct'', get snap ''ss_attendance_percentage''),
     (''active_status'', or_cell (get snap ''ss_active_status'') (CText ''Unknown'')),
     (''current_section'', get snap ''ss_current_section''), (''status_i'', get snap ''ss_status_i''),
     (''status_ii'', get snap ''ss_status_ii'')]"

definition engagement_section :: "row \<Rightarrow> json" where
  "engagement_section snap = cells_json [(''last_activity_days'', get snap ''ss_last_activity_days''),
     (''last_login_days'', get snap ''ss_last_login_days''),
     (''current_class_name'', or_cell (get snap ''ss_class_name'') (get snap ''ss_current_section'')),
     (''last_activity_section'', get snap ''ss_last_activity_section''), (''last_submitted'', get snap ''ss_last_submitted'')]"

definition financial_section :: "row \<Rightarrow> json" where
  "financial_section snap = cells_json [(''class_value'', get snap ''ss_class_value''),
     (''total_payments'', get snap ''ss_total_payments''), (''total_credits'', get snap ''ss_total_credits''),
     (''payment_balance_stored'', get snap ''ss_payment_balance''), (''actual_balance'', get snap ''actual_balance''),
     (''fee_paid'', get snap ''ss_fee_paid''), (''class_fees_paid'', get snap ''ss_class_fees_paid''),
     (''is_bundle_deal'', get snap ''is_bundle_deal'')]"

definition outreach_section :: "snapshot_env \<Rightarrow> row \<Rightarrow> json" where
  "outreach_section env snap = cells_json [(''total_attempts'', or_cell (get snap ''total_outreach_attempts'') (CInt 0)),
     (''channels_used'', or_cell (get snap ''channel_breakdown_json'') (CJson [])),
     (''last_contact_date'', (let d = get snap ''last_contact_date''
        in if cell_truthy d then CText (cell_text (se_str env) d) else CNull)),
     (''days_since_last_contact'', get snap ''days_since_last_contact''),
     (''total_responses'', or_cell (get snap ''total_responses'') (CInt 0)),
     (''response_received'', CBool (cell_truthy (get snap ''total_responses'')))]"

definition narratives_section :: "row \<Rightarrow> json" where
  "narratives_section snap =
    (let shown = (\<lambda>c. or_cell (get snap c) (CText no_narrative)); available = ai_available_in snap
     in cells_json [(''risk_summary'', shown ''risk_summary_text''), (''progress_summary'', shown ''progress_summary_text''),
          (''monthly_narrative'', shown ''monthly_narrative_text''),
          (''intervention_recommendation'', shown ''intervention_recommendation_text''),
          (''sentiment_classification'', shown ''trend_interpretation_text''),
          (''ai_governance_tier'', CText (if available then ''FINALIZED_COPY'' else ''UNAVAILABLE'')),
          (''ai_content_available'', CBool available)])"

text \<open>The stored fingerprint time is a timestamp, shown in its ISO form.\<close>

definition iso_cell :: "cell \<Rightarrow> cell call_res" where
  "iso_cell v = (if \<not> cell_truthy v then Inr CNull
     else case v of CTime t \<Rightarrow> Inr (CText t) | _ \<Rightarrow> Inl AttributeError)"

definition governance_section :: "snapshot_env \<Rightarrow> row \<Rightarrow> int \<Rightarrow> int \<Rightarrow> cell \<Rightarrow> json" where
  "governance_section env snap generated_at lineage_version computed_at =
     cells_json [(''snapshot_id'', get snap ''snapshot_id''), (''snapshot_month'', get snap ''snapshot_month''),
       (''lifecycle_state'', get snap ''status''), (''fingerprint_schema_version'', get snap ''fingerprint_schema_version''),
       (''fingerprint_config_registry_version'', get snap ''fingerprint_config_registry_version''),
       (''fingerprint_report_template_version'', get snap ''fingerprint_report_template_version''),
       (''fingerprint_computed_at'', computed_at),
       (''execution_mode_at_finalization'', get snap ''execution_mode''),
       (''report_generated_date'', CText (se_iso env generated_at)), (''report_lineage_version'', CInt lineage_version)]"

definition build_report_content ::
  "snapshot_env \<Rightarrow> row \<Rightarrow> row list \<Rightarrow> int \<Rightarrow> int \<Rightarrow> json_dict \<Rightarrow> json_dict \<Rightarrow> json_dict \<Rightarrow> json call_res" where
  "build_report_content env snap state_history generated_at lineage_version trend outreach_intel lifecycle =
     bind_call (lift_call (derive_risk_level snap)) (\<lambda>risk_level.
     bind_call (lift_call (build_engagement_depth (se_floats env) snap trend)) (\<lambda>depth.
     bind_call (lift_call (build_financial_trends (se_floats env) snap trend)) (\<lambda>financial.
     bind_call (iso_cell (get snap ''fingerprint_computed_at'')) (\<lambda>computed_at.
     Inr (JObj [(''report_version'', JCell (CText report_version)), (''student_id'', JCell (get snap ''student_id'')),
       (''snapshot_month'', JCell (get snap ''snapshot_month'')),
       (''generated_at'', JCell (CText (se_iso env generated_at))), (''lineage_version'', JCell (CInt lineage_version)),
       (''sections'', JObj
         [(''identity'', identity_section env snap),
          (''risk_priority'', cells_json [(''risk_level'', CText risk_level),
             (''payment_risk_label'', or_cell (get snap ''payment_risk_label'') (CText ''UNKNOWN'')),
             (''segment_classification'', get snap ''segment_classification'')]),
          (''academic_performance'', academic_section snap),
          (''academic_trends'', build_academic_trends trend),
          (''engagement'', engagement_section snap), (''engagement_depth'', depth),
          (''financial'', financial_section snap), (''financial_trends'', financial),
          (''outreach_summary'', outreach_section env snap), (''outreach_intelligence'', JObj outreach_intel),
          (''lifecycle_patterns'', JObj lifecycle), (''ai_narratives'', narratives_section snap),
          (''state_history'', JList (map cells_json state_history)),
          (''governance_metadata'', governance_section env snap generated_at lineage_version computed_at)])])))))"

section \<open>Publication\<close>

definition report_key_text :: "int \<Rightarrow> month \<Rightarrow> int \<Rightarrow> string" where
  "report_key_text sid ym lineage_version = ''student:'' @ show_int sid @ ''|month:'' @ month_text ym
     @ ''|lineage:'' @ show_int lineage_version @ ''|template:'' @ report_version"

definition report_idempotency_key :: "snapshot_env \<Rightarrow> int \<Rightarrow> month \<Rightarrow> int \<Rightarrow> string" where
  "report_idempotency_key env sid ym lineage_version =
     take 48 (se_sha256 env (report_key_text sid ym lineage_version))"

definition published_report :: "string \<Rightarrow> month \<Rightarrow> int \<Rightarrow> monthly_report \<Rightarrow> bool" where
  "published_report cohort ym lineage_version r \<longleftrightarrow> mr_cohort_id r = cohort \<and> mr_report_month r = ym
     \<and> mr_lineage_version r = lineage_version \<and> mr_status r = ''REPORT_PUBLISHED''"

definition refresh_report :: "json \<Rightarrow> json \<Rightarrow> string \<Rightarrow> int \<Rightarrow> monthly_report \<Rightarrow> monthly_report" where
  "refresh_report content fp key now r = r\<lparr>mr_content := content, mr_template_version := report_version,
     mr_key := key, mr_generated_at := now, mr_published_at := now, mr_fingerprint := fp\<rparr>"

definition new_report ::
  "int \<Rightarrow> string \<Rightarrow> month \<Rightarrow> int \<Rightarrow> string \<Rightarrow> json \<Rightarrow> json \<Rightarrow> int \<Rightarrow> string \<Rightarrow> string \<Rightarrow> monthly_report" where
  "new_report i cohort ym lineage_version key fp content now corr execution_mode =
     \<lparr>mr_id = i, mr_cohort_id = cohort, mr_report_month = ym, mr_template_version = report_version,
      mr_lineage_version = lineage_version, mr_status = ''REPORT_PUBLISHED'', mr_key = key, mr_fingerprint = fp,
      mr_content = content, mr_generated_at = now, mr_published_at = now, mr_generated_by = ''report_service'',
      mr_correlation_id = Some corr, mr_execution_mode = execution_mode\<rparr>"

text \<open>
  The unique index on the key rejects an update that would give two rows one key; an insertion
  with a key in use does nothing.
\<close>

definition insert_monthly_report ::
  "snapshot_env \<Rightarrow> int \<Rightarrow> month \<Rightarrow> int \<Rightarrow> json \<Rightarrow> string \<Rightarrow> int \<Rightarrow> string \<Rightarrow> warehouse
   \<Rightarrow> (int \<times> warehouse) call_res" where
  "insert_monthly_report env sid ym snapshot_id content execution_mode lineage_version corr wh =
    (let idem_key = report_idempotency_key env sid ym lineage_version;
         fp = JObj [(''snapshot_id'', JCell (CInt snapshot_id))];
         cohort = show_int sid; published = published_report cohort ym lineage_version; rs = wh_reports wh
     in if \<not> dumpable content then Inl (Py TypeError)
        else if \<not> se_uuid env corr then Inl (Py ValueError)
        else case filter published rs of
            r # _ \<Rightarrow>
              if list_ex (\<lambda>x. \<not> published x \<and> mr_key x = idem_key) rs then Inl DatabaseError
              else Inr (mr_id r, wh\<lparr>wh_reports := map (\<lambda>x. if published x
                     then refresh_report content fp idem_key (se_now env) x else x) rs\<rparr>)
          | [] \<Rightarrow>
              if \<not> mode_fits execution_mode then Inl DatabaseError
              else case find (\<lambda>x. mr_key x = idem_key) rs of
                  Some x \<Rightarrow> Inr (mr_id x, wh)
                | None \<Rightarrow>
                    let i = fresh_id (map mr_id rs)
                    in Inr (i, wh\<lparr>wh_reports := rs @ [new_report i cohort ym lineage_version idem_key fp content
                         (se_now env) corr execution_mode]\<rparr>))"

section \<open>Reports of a student and of a cohort\<close>

definition no_snapshot_result :: "int \<Rightarrow> month \<Rightarrow> pydict" where
  "no_snapshot_result sid ym = [(''status'', VStr ''error''),
     (''error'', VStr (''No FINALIZED snapshot for student '' @ show_int sid @ '' month '' @ month_text ym
        @ ''. Run POST /reports/snapshots/assemble first.'')),
     (''student_id'', VInt sid), (''snapshot_month'', VStr (month_text ym))]"

definition report_result :: "int \<Rightarrow> int \<Rightarrow> month \<Rightarrow> string \<Rightarrow> pydict" where
  "report_result report_id sid ym execution_mode = [(''status'', VStr ''ok''), (''report_id'', VInt report_id),
     (''student_id'', VInt sid), (''snapshot_month'', VStr (month_text ym)), (''execution_mode'', VStr execution_mode)]"

definition report_line :: "int \<Rightarrow> int \<Rightarrow> month \<Rightarrow> string \<Rightarrow> string \<Rightarrow> pydict" where
  "report_line report_id sid ym execution_mode corr = [(''service'', VStr ''report''),
     (''event'', VStr ''monthly_report_generated''), (''student_id'', VInt sid),
     (''snapshot_month'', VStr (month_text ym)), (''report_id'', VInt report_id),
     (''execution_mode'', VStr execution_mode), (''correlation_id'', VStr corr)]"

text \<open>The content of the report, for a snapshot that was found.\<close>

definition report_content_for ::
  "snapshot_env \<Rightarrow> platform_tables \<Rightarrow> int \<Rightarrow> month \<Rightarrow> snapshot \<Rightarrow> warehouse \<Rightarrow> json call_res" where
  "report_content_for env src sid ym r wh =
     bind_call (lift_call (month_window ym)) (\<lambda>w.
     bind_call (lift_call (load_trend_data (se_floats env) sid ym wh)) (\<lambda>trend.
     build_report_content env (snapshot_row r wh) (load_state_transitions env src sid w) (se_now env)
       (if ss_lineage_version r \<noteq> 0 then ss_lineage_version r else 1) trend
       (load_outreach_intelligence env src sid w) (load_lifecycle_patterns env src sid wh)))"

text \<open>The result is the dictionary of the code, with the report content beside it.\<close>

definition generate_student_report ::
  "snapshot_env \<Rightarrow> platform_tables \<Rightarrow> int \<Rightarrow> month \<Rightarrow> string \<Rightarrow> string option \<Rightarrow> warehouse
   \<Rightarrow> (pydict \<times> json option) call_res \<times> warehouse" where
  "generate_student_report env src sid ym execution_mode correlation_id wh =
    (let corr = (if given correlation_id then the correlation_id else se_new_uuid env)
     in case load_finalized_snapshot sid ym wh of
          None \<Rightarrow> (Inr (no_snapshot_result sid ym, None), wh)
        | Some r \<Rightarrow>
            (case bind_call (report_content_for env src sid ym r wh) (\<lambda>content.
                bind_call (insert_monthly_report env sid ym (ss_id r) content execution_mode
                  (if ss_lineage_version r \<noteq> 0 then ss_lineage_version r else 1) corr wh) (\<lambda>(report_id, wh').
                Inr (report_id, content, wh'))) of
               Inl e \<Rightarrow> (Inl e, wh)
             | Inr (report_id, content, wh') \<Rightarrow>
                 (Inr (report_result report_id sid ym execution_mode, Some content),
                  wh_emit ''info'' (report_line report_id sid ym execution_mode corr) wh')))"

text \<open>The most recent published report of a student and month, \<^verbatim>\<open>ORDER BY id DESC\<close>\<close>

definition get_report_content ::
  "snapshot_env \<Rightarrow> int \<Rightarrow> int \<Rightarrow> int \<Rightarrow> warehouse \<Rightarrow> (pydict \<times> json) option res" where
  "get_report_content env sid year month_no wh =
     bind_res (first_day (year, month_no)) (\<lambda>_. Inr
       (case rev (sort_key mr_id (filter (\<lambda>r. mr_cohort_id r = show_int sid \<and> mr_report_month r = (year, month_no)
           \<and> mr_status r = ''REPORT_PUBLISHED'') (wh_reports wh))) of
          [] \<Rightarrow> None
        | r # _ \<Rightarrow> Some ([(''report_id'', VInt (mr_id r)), (''student_id'', VInt sid),
            (''report_month'', VStr (month_text (year, month_no))), (''execution_mode'', VStr (mr_execution_mode r)),
            (''generated_at'', VStr (se_iso env (mr_generated_at r))),
            (''lineage_version'', VInt (mr_lineage_version r))], mr_content r)))"

definition cohort_students :: "string \<Rightarrow> month \<Rightarrow> warehouse \<Rightarrow> int list" where
  "cohort_students cohort ym wh = map ss_student_id (filter (\<lambda>r. ss_month r = ym \<and> ss_status r = ''FINALIZED''
     \<and> get (ss_cells r) ''segment_classification'' = CText cohort) (wh_snapshots wh))"

fun cohort_loop ::
  "(nat \<Rightarrow> snapshot_env) \<Rightarrow> platform_tables \<Rightarrow> month \<Rightarrow> string \<Rightarrow> nat \<Rightarrow> int list \<Rightarrow> (int \<times> int) \<times> warehouse
   \<Rightarrow> (int \<times> int) call_res \<times> warehouse" where
  "cohort_loop envs src ym execution_mode i [] (c, wh) = (Inr c, wh)"
| "cohort_loop envs src ym execution_mode i (sid # sids) ((generated, errors), wh) =
    (case generate_student_report (envs i) src sid ym execution_mode None wh of
       (Inl e, wh') \<Rightarrow> (Inl e, wh')
     | (Inr (r, _), wh') \<Rightarrow>
         cohort_loop envs src ym execution_mode (Suc i) sids
           ((if dict_get r ''status'' = VStr ''ok'' then (generated + 1, errors) else (generated, errors + 1)), wh'))"

definition generate_cohort_report ::
  "(nat \<Rightarrow> snapshot_env) \<Rightarrow> platform_tables \<Rightarrow> string \<Rightarrow> month \<Rightarrow> string \<Rightarrow> warehouse \<Rightarrow> pydict call_res \<times> warehouse" where
  "generate_cohort_report envs src cohort ym execution_mode wh =
    (let sids = cohort_students cohort ym wh
     in case cohort_loop envs src ym execution_mode 0 sids ((0, 0), wh) of
          (Inl e, wh') \<Rightarrow> (Inl e, wh')
        | (Inr (generated, errors), wh') \<Rightarrow>
            (Inr [(''cohort_id'', VStr cohort), (''report_month'', VStr (month_text ym)),
               (''total'', VInt (int (length sids))), (''generated'', VInt generated), (''errors'', VInt errors),
               (''execution_mode'', VStr execution_mode)], wh'))"

end
