(* ===== verification/ScheduledJobs.thy ===== *)
theory ScheduledJobs
  imports Report PaymentSync
begin

text \<open>
  The bodies of the scheduled jobs, \<^verbatim>\<open>app/services/_scheduled_jobs.py\<close>: monthly snapshots
  and reports, the nightly refresh of the mirrors, and the capture at the end of a month. Each
  step has a database session of its own, so what a step committed stays when a later one raises;
  the exception is logged and raised again. \<open>job_env\<close> holds the clock texts of the log lines, the
  correlation identifier, and the class name and text of an exception.
\<close>

record job_env =
  je_now_iso :: "nat \<Rightarrow> string"
  je_correlation_id :: string
  je_error :: "call_error \<Rightarrow> string \<times> string"

definition job_line :: "job_env \<Rightarrow> nat \<Rightarrow> string \<Rightarrow> string \<Rightarrow> pydict \<Rightarrow> pydict" where
  "job_line env n level event entries =
     [(''timestamp'', VStr (je_now_iso env n)), (''level'', VStr level), (''service'', VStr ''scheduled_jobs''),
      (''event'', VStr event)] @ entries @ [(''correlation_id'', VStr (je_correlation_id env))]"

definition failure_fields :: "job_env \<Rightarrow> call_error \<Rightarrow> pydict" where
  "failure_fields env e = [(''error_class'', VStr (fst (je_error env e))), (''error'', VStr (snd (je_error env e)))]"

section \<open>Monthly reports\<close>

definition report_segments :: "string list" where
  "report_segments = [''NEWCOMERS'', ''ENGAGEMENT'', ''CAP_HOPEFULS'', ''LAUNCH_HOPEFULS'', ''PLACEMENT_HOPEFULS'']"

definition int_field :: "pydict \<Rightarrow> string \<Rightarrow> int" where
  "int_field d k = (case dict_get d k of VInt n \<Rightarrow> n | _ \<Rightarrow> 0)"

text \<open>The reports of the segments, with the totals; \<open>envs k\<close> is what the cohort \<open>k\<close> reads.\<close>

fun segment_loop ::
  "(nat \<Rightarrow> nat \<Rightarrow> snapshot_env) \<Rightarrow> platform_tables \<Rightarrow> month \<Rightarrow> string \<Rightarrow> nat \<Rightarrow> string list \<Rightarrow> (int \<times> int) \<times> warehouse
   \<Rightarrow> (int \<times> int) call_res \<times> warehouse" where
  "segment_loop envs src ym execution_mode k [] (c, wh) = (Inr c, wh)"
| "segment_loop envs src ym execution_mode k (seg # segs) ((generated, errors), wh) =
    (case generate_cohort_report (envs k) src seg ym execution_mode wh of
       (Inl e, wh') \<Rightarrow> (Inl e, wh')
     | (Inr r, wh') \<Rightarrow> segment_loop envs src ym execution_mode (Suc k) segs
         ((generated + int_field r ''generated'', errors + int_field r ''errors''), wh'))"

definition run_monthly_reports ::
  "job_env \<Rightarrow> (nat \<Rightarrow> snapshot_env) \<Rightarrow> (nat \<Rightarrow> nat \<Rightarrow> snapshot_env) \<Rightarrow> platform_tables \<Rightarrow> int list \<Rightarrow> month \<Rightarrow> string
   \<Rightarrow> string option \<Rightarrow> warehouse \<Rightarrow> unit call_res \<times> warehouse" where
  "run_monthly_reports je senvs renvs src user_ids ym execution_mode cfg wh =
    (let month = (''snapshot_month'', VStr (month_text ym)); mode = (''execution_mode'', VStr execution_mode);
         failed = (\<lambda>e wh'. (Inl e, wh_emit ''error''
           (job_line je 3 ''error'' ''monthly_report_job_failed'' (failure_fields je e @ [month])) wh'));
         wh0 = wh_emit ''info'' (job_line je 0 ''info'' ''monthly_report_job_started'' [month, mode]) wh
     in case assemble_all_active_snapshots senvs src user_ids ym execution_mode cfg wh0 of
          (Inl e, wh1) \<Rightarrow> failed e wh1
        | (Inr snap_result, wh1) \<Rightarrow>
            let wh2 = wh_emit ''info'' (job_line je 1 ''info'' ''monthly_snapshots_assembled''
                  [month, (''result'', VDict snap_result)]) wh1
            in case segment_loop renvs src ym execution_mode 0 report_segments ((0, 0), wh2) of
                 (Inl e, wh3) \<Rightarrow> failed e wh3
               | (Inr (total_generated, total_errors), wh3) \<Rightarrow>
                   (Inr (), wh_emit ''info'' (job_line je 2 ''info'' ''monthly_report_job_completed''
                      [month, (''segments_processed'', VInt (int (length report_segments))),
                       (''total_generated'', VInt total_generated), (''total_errors'', VInt total_errors), mode]) wh3))"

section \<open>Nightly refresh\<close>

definition sync_emit :: "string \<Rightarrow> pydict \<Rightarrow> sync_state \<Rightarrow> sync_state" where
  "sync_emit level d st = st\<lparr>sy_log := sy_log st @ [LogJson level d]\<rparr>"

text \<open>The named steps in turn, collecting their results; the first exception ends the sequence.\<close>

fun sync_steps ::
  "(string \<times> (sync_state \<Rightarrow> pydict call_res \<times> sync_state)) list \<Rightarrow> sync_state
   \<Rightarrow> (string \<times> pydict) list call_res \<times> sync_state" where
  "sync_steps [] st = (Inr [], st)"
| "sync_steps ((name, run) # steps) st =
    (case run st of
       (Inl e, st1) \<Rightarrow> (Inl e, st1)
     | (Inr r, st1) \<Rightarrow>
         (case sync_steps steps st1 of
            (Inl e, st2) \<Rightarrow> (Inl e, st2) | (Inr rs, st2) \<Rightarrow> (Inr ((name, r) # rs), st2)))"

record daily_fetches =
  df_students :: fetched
  df_ipbc :: fetched
  df_payments :: fetched
  df_activity :: fetched
  df_now :: string
  df_activity_start :: string
  df_new_id :: "nat \<Rightarrow> int"

definition daily_steps ::
  "source_lib \<Rightarrow> float_lib \<Rightarrow> daily_fetches \<Rightarrow> (string \<times> (sync_state \<Rightarrow> pydict call_res \<times> sync_state)) list" where
  "daily_steps lib L f =
     [(''mssql'', sync_from_mssql lib (df_students f)), (''ipbc'', sync_ipbc_students lib (df_now f) (df_ipbc f)),
      (''payments'', sync_payments lib L (df_payments f)),
      (''campaign_activity'', sync_campaign_activity lib (df_activity_start f) (df_new_id f) (df_activity f))]"

definition step_status :: "pydict \<Rightarrow> pyval" where
  "step_status r = (if has_key r ''status'' then dict_get r ''status'' else VStr ''done'')"

definition run_daily_mssql_sync ::
  "job_env \<Rightarrow> source_lib \<Rightarrow> float_lib \<Rightarrow> daily_fetches \<Rightarrow> sync_state \<Rightarrow> unit call_res \<times> sync_state" where
  "run_daily_mssql_sync je lib L f st =
    (case sync_steps (daily_steps lib L f) (sync_emit ''info''
        (job_line je 0 ''info'' ''daily_mssql_sync_job_started'' []) st) of
       (Inl e, st1) \<Rightarrow> (Inl e, sync_emit ''error''
          (job_line je 2 ''error'' ''daily_mssql_sync_job_failed'' (failure_fields je e)) st1)
     | (Inr results, st1) \<Rightarrow> (Inr (), sync_emit ''info'' (job_line je 1 ''info'' ''daily_mssql_sync_job_completed''
          [(''statuses'', VDict (map (map_prod id step_status) results))]) st1))"

section \<open>Capture at the end of a month\<close>

definition run_month_end_capture ::
  "job_env \<Rightarrow> source_lib \<Rightarrow> month \<Rightarrow> string \<Rightarrow> row list \<Rightarrow> sync_state \<Rightarrow> unit call_res \<times> sync_state" where
  "run_month_end_capture je lib ym now rows st =
    (let month = (''snapshot_month'', VStr (month_text ym))
     in case capture_month_state lib (month_text ym) now rows (sync_emit ''info''
         (job_line je 0 ''info'' ''month_end_capture_job_started'' [month]) st) of
          (Inl e, st1) \<Rightarrow> (Inl e, sync_emit ''error''
             (job_line je 2 ''error'' ''month_end_capture_job_failed'' (failure_fields je e @ [month])) st1)
        | (Inr r, st1) \<Rightarrow> (Inr (), sync_emit ''info'' (job_line je 1 ''info'' ''month_end_capture_job_completed''
             [month, (''captured'', if has_key r ''captured'' then dict_get r ''captured'' else VInt 0)]) st1))"

end
