(* ===== verification/ReportProps.thy ===== *)
theory ReportProps
  imports ScheduledJobs SnapshotProps
begin

text \<open>
  Reports: the warehouse stays well formed over any sequence of assemblies and reports, a
  published report is read back, the monthly job reaches every snapshot of its month, and what
  the sections say.
\<close>

section \<open>Well-formed reports\<close>

text \<open>
  Every report is published, belongs to a stored snapshot and has the key of its student and
  month under the digest \<open>H\<close>; identifiers and pairs of student and month are unique.
\<close>

definition report_key :: "(string \<Rightarrow> string) \<Rightarrow> int \<Rightarrow> month \<Rightarrow> string" where
  "report_key H sid ym = take 48 (H (report_key_text sid ym 1))"

definition wf_report :: "(string \<Rightarrow> string) \<Rightarrow> snapshot list \<Rightarrow> monthly_report \<Rightarrow> bool" where
  "wf_report H snaps r \<longleftrightarrow> mr_status r = ''REPORT_PUBLISHED'' \<and> mr_lineage_version r = 1
     \<and> list_ex (\<lambda>s. mr_cohort_id r = show_int (ss_student_id s) \<and> mr_report_month r = ss_month s
         \<and> mr_key r = report_key H (ss_student_id s) (ss_month s)) snaps"

definition wf_reports :: "(string \<Rightarrow> string) \<Rightarrow> warehouse \<Rightarrow> bool" where
  "wf_reports H wh \<longleftrightarrow> list_all (wf_report H (wh_snapshots wh)) (wh_reports wh)
     \<and> distinct (map mr_id (wh_reports wh))
     \<and> distinct (map (\<lambda>r. (mr_cohort_id r, mr_report_month r)) (wh_reports wh))"

definition has_report :: "int \<Rightarrow> month \<Rightarrow> warehouse \<Rightarrow> bool" where
  "has_report sid ym wh \<longleftrightarrow> list_ex (published_report (show_int sid) ym 1) (wh_reports wh)"

text \<open>No two snapshots share a key.\<close>

definition digest_separates :: "(string \<Rightarrow> string) \<Rightarrow> warehouse \<Rightarrow> bool" where
  "digest_separates H wh \<longleftrightarrow>
     distinct (map (\<lambda>s. report_key H (ss_student_id s) (ss_month s)) (wh_snapshots wh))"

text \<open>What never changes of a report.\<close>

definition report_identity :: "monthly_report \<Rightarrow> int \<times> string \<times> month \<times> int \<times> string \<times> string option \<times> string" where
  "report_identity r = (mr_id r, mr_cohort_id r, mr_report_month r, mr_lineage_version r, mr_status r,
     mr_correlation_id r, mr_execution_mode r)"

definition grows :: "warehouse \<Rightarrow> warehouse \<Rightarrow> bool" where
  "grows wh wh' \<longleftrightarrow> (\<exists>new. wh_snapshots wh' = wh_snapshots wh @ new)
     \<and> (\<exists>new. wh_narratives wh' = wh_narratives wh @ new)
     \<and> (\<exists>new. map report_identity (wh_reports wh') = map report_identity (wh_reports wh) @ new)"

lemma extends_grows: "extends wh wh' \<Longrightarrow> grows wh wh'"
  by (simp add: extends_def grows_def)

lemma grows_refl [simp]: "grows wh wh"
  by (simp add: grows_def)

lemma grows_trans: "grows wh wh' \<Longrightarrow> grows wh' wh'' \<Longrightarrow> grows wh wh''"
  by (force simp: grows_def)

lemma grows_emit [simp]: "grows wh (wh_emit l d wh') \<longleftrightarrow> grows wh wh'"
  by (simp add: grows_def)

lemma wf_emit [simp]:
  "wf_snapshots (wh_emit l d wh) \<longleftrightarrow> wf_snapshots wh" "wf_reports H (wh_emit l d wh) \<longleftrightarrow> wf_reports H wh"
  by (simp_all add: wf_snapshots_def wf_reports_def)

lemma wf_reports_extends: "extends wh wh' \<Longrightarrow> wf_reports H wh \<Longrightarrow> wf_reports H wh'"
  by (auto simp: extends_def wf_reports_def wf_report_def list_all_iff)

section \<open>Publication\<close>

lemma published_iff:
  assumes "wf_reports H wh" and "x \<in> set (wh_reports wh)"
  shows "published_report cohort ym 1 x \<longleftrightarrow> mr_cohort_id x = cohort \<and> mr_report_month x = ym"
  using assms by (auto simp: wf_reports_def wf_report_def list_all_iff published_report_def)

lemma refresh_fields [simp]:
  "mr_id (refresh_report c f k n r) = mr_id r" "mr_cohort_id (refresh_report c f k n r) = mr_cohort_id r"
  "mr_report_month (refresh_report c f k n r) = mr_report_month r"
  "mr_lineage_version (refresh_report c f k n r) = mr_lineage_version r"
  "mr_status (refresh_report c f k n r) = mr_status r" "mr_key (refresh_report c f k n r) = k"
  "mr_content (refresh_report c f k n r) = c" "report_identity (refresh_report c f k n r) = report_identity r"
  by (simp_all add: refresh_report_def report_identity_def)

lemma new_report_fields [simp]:
  "mr_id (new_report i c ym l k f ct n u e) = i" "mr_cohort_id (new_report i c ym l k f ct n u e) = c"
  "mr_report_month (new_report i c ym l k f ct n u e) = ym" "mr_lineage_version (new_report i c ym l k f ct n u e) = l"
  "mr_status (new_report i c ym l k f ct n u e) = ''REPORT_PUBLISHED''"
  "mr_key (new_report i c ym l k f ct n u e) = k" "mr_content (new_report i c ym l k f ct n u e) = ct"
  by (simp_all add: new_report_def)

text \<open>The three outcomes of a successful publication.\<close>

lemma insert_monthly_report_cases:
  assumes "insert_monthly_report env sid ym snap_id content mode 1 corr wh = Inr (i, wh')"
  obtains (refreshed) r where "r \<in> set (wh_reports wh)" and "published_report (show_int sid) ym 1 r" and "i = mr_id r"
      and "wh' = wh\<lparr>wh_reports := map (\<lambda>x. if published_report (show_int sid) ym 1 x
        then refresh_report content (JObj [(''snapshot_id'', JCell (CInt snap_id))]) (report_key (se_sha256 env) sid ym)
               (se_now env) x else x) (wh_reports wh)\<rparr>"
  | (collision) x where "wh' = wh" and "x \<in> set (wh_reports wh)" and "mr_key x = report_key (se_sha256 env) sid ym"
      and "\<not> has_report sid ym wh"
  | (inserted) fp n where "i = fresh_id (map mr_id (wh_reports wh))" and "\<not> has_report sid ym wh"
      and "wh' = wh\<lparr>wh_reports := wh_reports wh @ [new_report i (show_int sid) ym 1
        (report_key (se_sha256 env) sid ym) fp content n corr mode]\<rparr>"
proof -
  let ?p = "published_report (show_int sid) ym 1"
  have key: "report_idempotency_key env sid ym 1 = report_key (se_sha256 env) sid ym"
    by (simp add: report_idempotency_key_def report_key_def)
  note ins = assms [unfolded insert_monthly_report_def key Let_def]
  show thesis
  proof (cases "filter ?p (wh_reports wh)")
    case (Cons r rs)
    then have "r \<in> set (filter ?p (wh_reports wh))" by simp
    then have "r \<in> set (wh_reports wh)" "?p r" by simp_all
    with Cons ins show thesis by (intro refreshed [of r]) (auto split: if_split_asm)
  next
    case Nil
    then have none: "\<not> has_report sid ym wh" by (auto simp: has_report_def list_ex_iff filter_empty_conv)
    show thesis
    proof (cases "find (\<lambda>x. mr_key x = report_key (se_sha256 env) sid ym) (wh_reports wh)")
      case None
      with Nil ins none show thesis by (intro inserted) (auto split: if_split_asm)
    next
      case (Some x)
      then have "x \<in> set (wh_reports wh)" "mr_key x = report_key (se_sha256 env) sid ym"
        by (auto simp: find_Some_iff)
      with Nil ins none Some show thesis by (intro collision [of x]) (auto split: if_split_asm)
    qed
  qed
qed

lemma insert_monthly_report_wf:
  assumes wf: "wf_reports H wh" and env: "se_sha256 env = H" and snap: "has_snapshot sid ym wh"
    and ins: "insert_monthly_report env sid ym snap_id content mode 1 corr wh = Inr (i, wh')"
  shows "wf_reports H wh' \<and> grows wh wh' \<and> wh_snapshots wh' = wh_snapshots wh"
proof -
  from snap obtain s where s: "s \<in> set (wh_snapshots wh)" "ss_student_id s = sid" "ss_month s = ym"
    by (auto simp: has_snapshot_def finalized_for_def list_ex_iff)
  from ins show ?thesis
  proof (cases rule: insert_monthly_report_cases)
    case (refreshed r)
    let ?f = "\<lambda>x. if published_report (show_int sid) ym 1 x then refresh_report content
      (JObj [(''snapshot_id'', JCell (CInt snap_id))]) (report_key (se_sha256 env) sid ym) (se_now env) x else x"
    have same: "map mr_id (map ?f rs) = map mr_id rs" "map report_identity (map ?f rs) = map report_identity rs"
      "map (\<lambda>r. (mr_cohort_id r, mr_report_month r)) (map ?f rs) = map (\<lambda>r. (mr_cohort_id r, mr_report_month r)) rs" for rs
      by (induction rs) simp_all
    have "wf_report H (wh_snapshots wh) (?f x)" if "x \<in> set (wh_reports wh)" for x
      using that wf s env by (auto simp: wf_reports_def wf_report_def list_all_iff list_ex_iff published_report_def)
    then have all: "list_all (wf_report H (wh_snapshots wh)) (map ?f (wh_reports wh))"
      by (simp only: list_all_iff list.set_map ball_simps) blast
    define rs' where "rs' = map ?f (wh_reports wh)"
    have "wh' = wh\<lparr>wh_reports := rs'\<rparr>" using refreshed(4) unfolding rs'_def .
    with wf all [folded rs'_def] same [of "wh_reports wh", folded rs'_def] show ?thesis
      by (simp add: wf_reports_def grows_def)
  next
    case (collision x)
    with wf show ?thesis by simp
  next
    case (inserted fp n)
    have "i \<notin> set (map mr_id (wh_reports wh))" using inserted(1) fresh_id_above by fastforce
    moreover have "(show_int sid, ym) \<notin> set (map (\<lambda>r. (mr_cohort_id r, mr_report_month r)) (wh_reports wh))"
      using inserted(2) published_iff [OF wf] by (auto simp: has_report_def list_ex_iff)
    ultimately show ?thesis
      using inserted(3) wf s env
      by (auto simp: wf_reports_def wf_report_def grows_def list_ex_iff)
  qed
qed

text \<open>A published report has the content it was given, unless its key belongs to another one.\<close>

lemma insert_monthly_report_content:
  assumes wf: "wf_reports H wh" and env: "se_sha256 env = H" and sep: "digest_separates H wh"
    and snap: "has_snapshot sid ym wh"
    and ins: "insert_monthly_report env sid ym snap_id content mode 1 corr wh = Inr (i, wh')"
  shows "\<exists>r \<in> set (wh_reports wh'). published_report (show_int sid) ym 1 r \<and> mr_id r = i \<and> mr_content r = content"
  using ins
proof (cases rule: insert_monthly_report_cases)
  case (refreshed r)
  let ?new = "refresh_report content (JObj [(''snapshot_id'', JCell (CInt snap_id))])
      (report_key (se_sha256 env) sid ym) (se_now env) r"
  from refreshed(1,2,4) have "?new \<in> set (wh_reports wh')" by force
  moreover have "published_report (show_int sid) ym 1 ?new" "mr_id ?new = i" "mr_content ?new = content"
    using refreshed by (simp_all add: published_report_def)
  ultimately show ?thesis by blast
next
  case (collision x)
  from wf collision obtain s where s: "s \<in> set (wh_snapshots wh)" "mr_cohort_id x = show_int (ss_student_id s)"
      "mr_report_month x = ss_month s" "mr_key x = report_key H (ss_student_id s) (ss_month s)"
    by (auto simp: wf_reports_def wf_report_def list_all_iff list_ex_iff)
  from snap obtain s' where s': "s' \<in> set (wh_snapshots wh)" "ss_student_id s' = sid" "ss_month s' = ym"
    by (auto simp: has_snapshot_def finalized_for_def list_ex_iff)
  with sep s collision(3) env have "s = s'"
    by (auto simp: digest_separates_def distinct_map inj_on_def)
  with s s' collision(2,4) have False
    using published_iff [OF wf] by (auto simp: has_report_def list_ex_iff)
  then show ?thesis ..
next
  case (inserted fp n)
  then show ?thesis by (auto simp: published_report_def)
qed

section \<open>Reports of a student\<close>

lemma load_finalized:
  "load_finalized_snapshot sid ym wh = Some r \<Longrightarrow> r \<in> set (wh_snapshots wh) \<and> finalized_for sid ym r"
  "load_finalized_snapshot sid ym wh = None \<longleftrightarrow> \<not> has_snapshot sid ym wh"
proof -
  let ?rs = "sort_key ss_lineage_version (filter (\<lambda>r. ss_student_id r = sid \<and> ss_month r = ym
        \<and> ss_status r = ''FINALIZED'') (wh_snapshots wh))"
  have set: "set (rev ?rs) = {r \<in> set (wh_snapshots wh). finalized_for sid ym r}"
    by (auto simp: finalized_for_def)
  {
    assume "load_finalized_snapshot sid ym wh = Some r"
    then have "r \<in> set (rev ?rs)" by (cases "rev ?rs") (simp_all add: load_finalized_snapshot_def)
    with set show "r \<in> set (wh_snapshots wh) \<and> finalized_for sid ym r" by simp
  }
  have "rev ?rs = [] \<longleftrightarrow> set (rev ?rs) = {}" by (simp only: set_empty)
  then have "rev ?rs = [] \<longleftrightarrow> \<not> has_snapshot sid ym wh"
    unfolding set by (auto simp: has_snapshot_def list_ex_iff)
  then show "load_finalized_snapshot sid ym wh = None \<longleftrightarrow> \<not> has_snapshot sid ym wh"
    by (cases "rev ?rs") (simp_all add: load_finalized_snapshot_def)
qed

lemma generate_student_report_cases:
  assumes "wf_snapshots wh"
  obtains (raised) e where "generate_student_report env src sid ym mode corr wh = (Inl e, wh)"
  | (missing) "generate_student_report env src sid ym mode corr wh = (Inr (no_snapshot_result sid ym, None), wh)"
      and "\<not> has_snapshot sid ym wh"
  | (ok) i content r wh1 corr' where "has_snapshot sid ym wh"
      and "report_content_for env src sid ym r wh = Inr content" and "r \<in> set (wh_snapshots wh)"
      and "finalized_for sid ym r"
      and "insert_monthly_report env sid ym (ss_id r) content mode 1 corr' wh = Inr (i, wh1)"
      and "generate_student_report env src sid ym mode corr wh = (Inr (report_result i sid ym mode, Some content),
        wh_emit ''info'' (report_line i sid ym mode corr') wh1)"
proof (cases "load_finalized_snapshot sid ym wh")
  case None
  with load_finalized(2) [of sid ym wh] show thesis
    by (intro missing) (simp_all add: generate_student_report_def Let_def)
next
  case (Some r)
  note r = load_finalized(1) [OF Some]
  with assms have one: "ss_lineage_version r = 1" by (auto simp: wf_snapshots_def wf_snapshot_def list_all_iff)
  let ?corr = "if given corr then the corr else se_new_uuid env"
  let ?c = "report_content_for env src sid ym r wh"
  show thesis
  proof (cases ?c)
    case (Inl e)
    with Some show thesis by (intro raised [of e]) (simp add: generate_student_report_def)
  next
    case content: (Inr content)
    show thesis
    proof (cases "insert_monthly_report env sid ym (ss_id r) content mode 1 ?corr wh")
      case (Inl e)
      with Some one content show thesis by (intro raised [of e]) (simp add: generate_student_report_def Let_def)
    next
      case (Inr x)
      obtain i wh1 where "x = (i, wh1)" by (cases x)
      with Inr Some one content r load_finalized(2) [of sid ym wh] show thesis
        by (intro ok [of r content ?corr i wh1]) (simp_all add: generate_student_report_def Let_def)
    qed
  qed
qed

lemma report_keeps:
  assumes "wf_snapshots wh" and "wf_reports H wh" and "se_sha256 env = H"
    and "generate_student_report env src sid ym mode corr wh = (res, wh')"
  shows "wf_snapshots wh' \<and> wf_reports H wh' \<and> grows wh wh' \<and> wh_snapshots wh' = wh_snapshots wh"
proof (cases rule: generate_student_report_cases [OF assms(1), of env src sid ym mode corr, case_names raised missing ok])
  case (ok i content r wh1 corr')
  have "wh_narratives wh1 = wh_narratives wh"
    using ok(5) by (rule insert_monthly_report_cases) auto
  with insert_monthly_report_wf [OF assms(2,3) ok(1,5)] ok(6) assms(1,4) show ?thesis
    by (auto simp: wf_snapshots_def)
qed (use assms in auto)

section \<open>Histories of the warehouse\<close>

text \<open>
  What the services do to the warehouse: they assemble a snapshot, generate a report, or log, for
  any arguments, sources and clocks; the digest is one function.
\<close>

inductive warehouse_step :: "(string \<Rightarrow> string) \<Rightarrow> warehouse \<Rightarrow> warehouse \<Rightarrow> bool" for H where
  assemble: "assemble_snapshot env src sid ym mode cfg corr wh = (r, wh') \<Longrightarrow> warehouse_step H wh wh'"
| report: "se_sha256 env = H \<Longrightarrow> generate_student_report env src sid ym mode corr wh = (r, wh')
    \<Longrightarrow> warehouse_step H wh wh'"
| log: "warehouse_step H wh (wh_emit level d wh)"

abbreviation warehouse_history :: "(string \<Rightarrow> string) \<Rightarrow> warehouse \<Rightarrow> warehouse \<Rightarrow> bool" where
  "warehouse_history H \<equiv> (warehouse_step H)\<^sup>*\<^sup>*"

lemma step_keeps:
  assumes "warehouse_step H wh wh'" and "wf_snapshots wh" and "wf_reports H wh"
  shows "wf_snapshots wh' \<and> wf_reports H wh' \<and> grows wh wh'"
  using assms
proof cases
  case (assemble env src sid ym mode cfg corr r)
  note ext = assemble_snapshot_outcome(1) [OF assemble]
  have "wf_snapshots wh'"
    using assemble_snapshot_wf [OF assms(2), of env src sid ym mode cfg corr] assemble by simp
  with ext assms(3) show ?thesis by (simp add: extends_grows wf_reports_extends)
next
  case (report env src sid ym mode corr r)
  then show ?thesis using report_keeps assms by blast
qed (use assms in simp)

text \<open>
  C22. The warehouse keeps its shape over any sequence of snapshot assemblies and reports, with any
  arguments, sources and clocks: every stored snapshot is well typed (one of five segments and of
  three risk labels, at most as many responses as contacts, contact columns empty together), a
  student has at most one snapshot and one published report per month, each snapshot has exactly
  one row of narratives; no row is ever lost, snapshots and narratives never change, and a report
  keeps its identity (identifier, cohort, month, lineage, status, correlation and mode), while a
  later run may replace its content, template, key, fingerprint and times.
\<close>

theorem warehouse_well_formed:
  assumes "warehouse_history H wh wh'" and "wf_snapshots wh" and "wf_reports H wh"
  shows "wf_snapshots wh' \<and> wf_reports H wh' \<and> grows wh wh'"
  using assms(1)
proof (induction rule: rtranclp_induct)
  case base
  with assms show ?case by simp
next
  case (step wh1 wh2)
  with step_keeps [OF step.hyps(2)] show ?case by (blast intro: grows_trans)
qed

section \<open>Publish and read\<close>

lemma filter_distinct_key:
  "distinct (map f xs) \<Longrightarrow> x \<in> set xs \<Longrightarrow> filter (\<lambda>y. f y = f x) xs = [x]"
proof (induction xs)
  case (Cons a xs)
  show ?case
  proof (cases "x = a")
    case True
    with Cons.prems have "filter (\<lambda>y. f y = f x) xs = []" by (auto simp: filter_empty_conv image_iff)
    with True show ?thesis by simp
  next
    case False
    with Cons have "f a \<noteq> f x" by (auto simp: image_iff)
    with False Cons show ?thesis by simp
  qed
qed simp

lemma only_published:
  assumes wf: "wf_reports H wh" and r: "r \<in> set (wh_reports wh)" and p: "published_report (show_int sid) ym 1 r"
  shows "filter (published_report (show_int sid) ym 1) (wh_reports wh) = [r]"
proof -
  from p have key: "mr_cohort_id r = show_int sid" "mr_report_month r = ym" by (simp_all add: published_report_def)
  have "filter (published_report (show_int sid) ym 1) (wh_reports wh)
      = filter (\<lambda>x. (mr_cohort_id x, mr_report_month x) = (mr_cohort_id r, mr_report_month r)) (wh_reports wh)"
    by (rule filter_cong) (auto simp: published_iff [OF wf] key)
  also have "\<dots> = [r]" using wf r by (intro filter_distinct_key) (simp_all add: wf_reports_def)
  finally show ?thesis .
qed

lemma get_report_content_published:
  assumes wf: "wf_reports H wh" and r: "r \<in> set (wh_reports wh)"
    and p: "published_report (show_int sid) ym 1 r" and valid: "valid_month ym"
  shows "\<exists>d. get_report_content env sid (fst ym) (snd ym) wh = Inr (Some (d, mr_content r))
    \<and> dict_get d ''report_id'' = VInt (mr_id r)"
proof -
  have "filter (\<lambda>x. mr_cohort_id x = show_int sid \<and> mr_report_month x = ym \<and> mr_status x = ''REPORT_PUBLISHED'')
      (wh_reports wh) = filter (published_report (show_int sid) ym 1) (wh_reports wh)"
    using wf by (intro filter_cong) (auto simp: published_report_def wf_reports_def wf_report_def list_all_iff)
  with only_published [OF wf r p] valid show ?thesis
    by (simp add: get_report_content_def first_day_def)
qed

lemma report_published:
  assumes "wf_snapshots wh" and "wf_reports H wh" and "digest_separates H wh" and "se_sha256 env = H"
    and "generate_student_report env src sid ym mode corr wh = (Inr (res, Some content), wh')"
  shows "\<exists>r \<in> set (wh_reports wh'). published_report (show_int sid) ym 1 r
    \<and> dict_get res ''report_id'' = VInt (mr_id r) \<and> mr_content r = content"
proof (cases rule: generate_student_report_cases [OF assms(1), of env src sid ym mode corr, case_names raised missing ok])
  case (ok i c r wh1 corr')
  from insert_monthly_report_content [OF assms(2,4,3) ok(1,5)] ok(6) assms(5)
  show ?thesis by (auto simp: report_result_def)
qed (use assms(5) in auto)

lemma republished:
  assumes "wf_snapshots wh" and wf: "wf_reports H wh" and r: "r \<in> set (wh_reports wh)"
    and p: "published_report (show_int sid) ym 1 r" and snap: "has_snapshot sid ym wh"
  shows "case generate_student_report env src sid ym mode corr wh of
      (Inl e, wh2) \<Rightarrow> wh2 = wh
    | (Inr (res, c), wh2) \<Rightarrow> dict_get res ''report_id'' = VInt (mr_id r)
        \<and> map report_identity (wh_reports wh2) = map report_identity (wh_reports wh)"
proof (cases rule: generate_student_report_cases [OF assms(1), of env src sid ym mode corr, case_names raised missing ok])
  case (ok i c s wh1 corr')
  from ok(5) show ?thesis
  proof (cases rule: insert_monthly_report_cases)
    case (refreshed r')
    then have "r' \<in> set (filter (published_report (show_int sid) ym 1) (wh_reports wh))" by simp
    then have "r' = r" unfolding only_published [OF wf r p] by simp
    with refreshed ok(6) show ?thesis by (simp add: report_result_def if_distrib cong: if_cong)
  qed (use r p in \<open>auto simp: has_report_def list_ex_iff\<close>)
qed (use snap in auto)

text \<open>
  C23. A report is read back as it was published: after a report of a student is generated with a
  content, reading the report of the student and month returns exactly this content under the
  identifier the call returned; generating it again, at any later time, replaces the content
  under the same identifier and adds no report. Keys of different snapshots must differ.
\<close>

theorem published_report_read_back:
  assumes "wf_snapshots wh" and "wf_reports H wh" and "digest_separates H wh" and "se_sha256 env = H"
    and "generate_student_report env src sid ym mode corr wh = (Inr (res, Some content), wh')"
    and "valid_month ym"
  shows "(case get_report_content env' sid (fst ym) (snd ym) wh' of
      Inr (Some (d, c)) \<Rightarrow> c = content \<and> dict_get d ''report_id'' = dict_get res ''report_id''
    | _ \<Rightarrow> False)
    \<and> (case generate_student_report env2 src2 sid ym mode2 corr2 wh' of
        (Inl e, wh2) \<Rightarrow> wh2 = wh'
      | (Inr (res2, c), wh2) \<Rightarrow> dict_get res2 ''report_id'' = dict_get res ''report_id''
          \<and> map report_identity (wh_reports wh2) = map report_identity (wh_reports wh'))"
proof -
  from report_published [OF assms(1-5)] obtain r where r: "r \<in> set (wh_reports wh')"
      "published_report (show_int sid) ym 1 r" "dict_get res ''report_id'' = VInt (mr_id r)" "mr_content r = content"
    by blast
  from report_keeps [OF assms(1,2,4,5)] have wf: "wf_snapshots wh'" "wf_reports H wh'"
    and same: "wh_snapshots wh' = wh_snapshots wh" by simp_all
  have "has_snapshot sid ym wh"
    by (cases rule: generate_student_report_cases [OF assms(1), of env src sid ym mode corr])
      (use assms(5) in auto)
  with same have "has_snapshot sid ym wh'" by (simp add: has_snapshot_def)
  from republished [OF wf r(1,2) this, of env2 src2 mode2 corr2]
    get_report_content_published [OF wf(2) r(1,2) assms(6), of env'] r(3,4)
  show ?thesis by (auto split: sum.split sum.split_asm)
qed

section \<open>The monthly job\<close>

lemma has_report_grows: "grows wh wh' \<Longrightarrow> has_report sid ym wh \<Longrightarrow> has_report sid ym wh'"
proof -
  assume "grows wh wh'" and "has_report sid ym wh"
  let ?id = "\<lambda>x. \<exists>i c m. x = (i, show_int sid, ym, 1 :: int, ''REPORT_PUBLISHED'', c :: string option, m :: string)"
  have iff: "has_report sid ym w \<longleftrightarrow> (\<exists>x \<in> set (map report_identity (wh_reports w)). ?id x)" for w
    by (auto simp: has_report_def list_ex_iff published_report_def report_identity_def)
  from \<open>grows wh wh'\<close> obtain n where
    "map report_identity (wh_reports wh') = map report_identity (wh_reports wh) @ n"
    by (auto simp: grows_def)
  moreover from \<open>has_report sid ym wh\<close> obtain x where "x \<in> set (map report_identity (wh_reports wh))" "?id x"
    unfolding iff by blast
  ultimately have "x \<in> set (map report_identity (wh_reports wh'))" by simp
  with \<open>?id x\<close> show "has_report sid ym wh'" unfolding iff by blast
qed

text \<open>What a part of the job maintains: the shape of the warehouse, its snapshots, and growth.\<close>

definition job_keeps :: "(string \<Rightarrow> string) \<Rightarrow> warehouse \<Rightarrow> warehouse \<Rightarrow> bool" where
  "job_keeps H wh wh' \<longleftrightarrow> wf_snapshots wh' \<and> wf_reports H wh' \<and> grows wh wh' \<and> wh_snapshots wh' = wh_snapshots wh"

lemma job_keeps_trans: "job_keeps H wh wh' \<Longrightarrow> job_keeps H wh' wh'' \<Longrightarrow> job_keeps H wh wh''"
  by (auto simp: job_keeps_def intro: grows_trans)

lemma cohort_loop_covers:
  assumes "cohort_loop envs src ym mode i sids ((g, e), wh) = (Inr (g', e'), wh')"
    and "wf_snapshots wh" and "wf_reports H wh" and "digest_separates H wh" and "\<And>i. se_sha256 (envs i) = H"
    and "\<forall>sid \<in> set sids. has_snapshot sid ym wh"
  shows "g' = g + int (length sids) \<and> e' = e \<and> job_keeps H wh wh' \<and> (\<forall>sid \<in> set sids. has_report sid ym wh')"
  using assms(1-4,6)
proof (induction sids arbitrary: i g wh)
  case (Cons sid sids)
  show ?case
  proof (cases rule: generate_student_report_cases [OF Cons.prems(2), of "envs i" src sid ym mode None,
        case_names raised missing ok])
    case (raised e)
    with Cons.prems(1) show ?thesis by simp
  next
    case missing
    with Cons.prems(5) show ?thesis by simp
  next
    case (ok k content r wh1 corr')
    let ?wh2 = "wh_emit ''info'' (report_line k sid ym mode corr') wh1"
    have keeps: "job_keeps H wh ?wh2"
      using report_keeps [OF Cons.prems(2,3) assms(5) ok(6)] by (simp add: job_keeps_def)
    then have same: "wh_snapshots ?wh2 = wh_snapshots wh" by (simp add: job_keeps_def)
    have "has_report sid ym ?wh2"
      using report_published [OF Cons.prems(2-4) assms(5) ok(6)] by (auto simp: has_report_def list_ex_iff)
    moreover have "cohort_loop envs src ym mode (Suc i) sids ((g + 1, e), ?wh2) = (Inr (g', e'), wh')"
      using Cons.prems(1) ok(6) by (simp add: report_result_def)
    then have "g' = g + 1 + int (length sids) \<and> e' = e \<and> job_keeps H ?wh2 wh'
        \<and> (\<forall>sid \<in> set sids. has_report sid ym wh')"
    proof (rule Cons.IH)
      show "wf_snapshots ?wh2" "wf_reports H ?wh2" using keeps by (simp_all add: job_keeps_def)
      show "digest_separates H ?wh2" using Cons.prems(4) same by (simp add: digest_separates_def)
      show "\<forall>sid \<in> set sids. has_snapshot sid ym ?wh2" using Cons.prems(5) same by (simp add: has_snapshot_def)
    qed
    moreover from this have "job_keeps H wh wh'" using keeps job_keeps_trans by blast
    moreover from calculation have "has_report sid ym wh'"
      using has_report_grows [of ?wh2 wh' sid ym] by (simp add: job_keeps_def)
    ultimately show ?thesis by simp
  qed
qed (simp add: job_keeps_def)

lemma cohort_report_covers:
  assumes "generate_cohort_report envs src cohort ym mode wh = (Inr res, wh')"
    and "wf_snapshots wh" and "wf_reports H wh" and "digest_separates H wh" and "\<And>i. se_sha256 (envs i) = H"
  shows "int_field res ''generated'' = int (length (cohort_students cohort ym wh)) \<and> int_field res ''errors'' = 0
    \<and> job_keeps H wh wh' \<and> (\<forall>sid \<in> set (cohort_students cohort ym wh). has_report sid ym wh')"
proof -
  from assms(1) obtain g e where loop: "cohort_loop envs src ym mode 0 (cohort_students cohort ym wh) ((0, 0), wh) = (Inr (g, e), wh')"
    and res: "int_field res ''generated'' = g" "int_field res ''errors'' = e"
    by (auto simp: generate_cohort_report_def int_field_def Let_def split: prod.split_asm sum.split_asm)
  have "\<forall>sid \<in> set (cohort_students cohort ym wh). has_snapshot sid ym wh"
    by (auto simp: cohort_students_def has_snapshot_def finalized_for_def list_ex_iff)
  from cohort_loop_covers [OF loop assms(2-5) this] res show ?thesis by auto
qed

lemma segment_loop_covers:
  assumes "segment_loop envs src ym mode k segs ((g, e), wh) = (Inr (g', e'), wh')"
    and "wf_snapshots wh" and "wf_reports H wh" and "digest_separates H wh" and "\<And>k i. se_sha256 (envs k i) = H"
  shows "g' = g + sum_list (map (\<lambda>seg. int (length (cohort_students seg ym wh))) segs) \<and> e' = e \<and> job_keeps H wh wh'
    \<and> (\<forall>seg \<in> set segs. \<forall>sid \<in> set (cohort_students seg ym wh). has_report sid ym wh')"
  using assms(1-4)
proof (induction segs arbitrary: k g e wh)
  case (Cons seg segs)
  obtain r1 wh1 where one: "generate_cohort_report (envs k) src seg ym mode wh = (r1, wh1)"
    by (cases "generate_cohort_report (envs k) src seg ym mode wh")
  show ?case
  proof (cases r1)
    case (Inl x)
    with Cons.prems(1) one show ?thesis by simp
  next
    case (Inr res)
    note c = cohort_report_covers [OF one [unfolded Inr] Cons.prems(2-4) assms(5)]
    then have keeps: "job_keeps H wh wh1" by simp
    then have same: "wh_snapshots wh1 = wh_snapshots wh" by (simp add: job_keeps_def)
    then have cohorts: "cohort_students seg ym wh1 = cohort_students seg ym wh" for seg
      by (simp add: cohort_students_def)
    have "segment_loop envs src ym mode (Suc k) segs
        ((g + int_field res ''generated'', e + int_field res ''errors''), wh1) = (Inr (g', e'), wh')"
      using Cons.prems(1) one Inr by simp
    then have "g' = g + int_field res ''generated'' + sum_list (map (\<lambda>seg. int (length (cohort_students seg ym wh1))) segs)
        \<and> e' = e + int_field res ''errors'' \<and> job_keeps H wh1 wh'
        \<and> (\<forall>seg \<in> set segs. \<forall>sid \<in> set (cohort_students seg ym wh1). has_report sid ym wh')"
    proof (rule Cons.IH)
      show "wf_snapshots wh1" "wf_reports H wh1" using keeps by (simp_all add: job_keeps_def)
      show "digest_separates H wh1" using Cons.prems(4) same by (simp add: digest_separates_def)
    qed
    moreover from this have "job_keeps H wh wh'" using keeps job_keeps_trans by blast
    moreover from calculation have "has_report sid ym wh1 \<Longrightarrow> has_report sid ym wh'" for sid
      using has_report_grows [of wh1 wh' sid ym] by (simp add: job_keeps_def)
    ultimately show ?thesis using c by (simp add: cohorts)
  qed
qed (simp add: job_keeps_def)

lemma cohort_loop_keeps:
  assumes "cohort_loop envs src ym mode i sids (c, wh) = (r, wh')"
    and "wf_snapshots wh" and "wf_reports H wh" and "\<And>i. se_sha256 (envs i) = H"
  shows "job_keeps H wh wh'"
  using assms(1-3)
proof (induction sids arbitrary: i c wh)
  case (Cons sid sids)
  obtain g e where c: "c = (g, e)" by (cases c)
  obtain r1 wh1 where one: "generate_student_report (envs i) src sid ym mode None wh = (r1, wh1)"
    by (cases "generate_student_report (envs i) src sid ym mode None wh")
  from report_keeps [OF Cons.prems(2,3) assms(4) one] have keeps: "job_keeps H wh wh1" by (simp add: job_keeps_def)
  show ?case
  proof (cases r1)
    case (Inl x)
    with Cons.prems(1) one keeps c show ?thesis by simp
  next
    case (Inr x)
    with Cons.prems(1) one c Cons.IH [of "Suc i" _ wh1] keeps
    have "job_keeps H wh1 wh'" by (cases x) (auto simp: job_keeps_def)
    with keeps show ?thesis by (rule job_keeps_trans)
  qed
qed (simp add: job_keeps_def)

lemma segment_loop_keeps:
  assumes "segment_loop envs src ym mode k segs (c, wh) = (r, wh')"
    and "wf_snapshots wh" and "wf_reports H wh" and "\<And>k i. se_sha256 (envs k i) = H"
  shows "job_keeps H wh wh'"
  using assms(1-3)
proof (induction segs arbitrary: k c wh)
  case (Cons seg segs)
  obtain g e where c: "c = (g, e)" by (cases c)
  obtain r1 wh1 where one: "generate_cohort_report (envs k) src seg ym mode wh = (r1, wh1)"
    by (cases "generate_cohort_report (envs k) src seg ym mode wh")
  then have "\<exists>r. cohort_loop (envs k) src ym mode 0 (cohort_students seg ym wh) ((0, 0), wh) = (r, wh1)"
    by (auto simp: generate_cohort_report_def Let_def split: prod.split_asm sum.split_asm)
  then obtain r2 where "cohort_loop (envs k) src ym mode 0 (cohort_students seg ym wh) ((0, 0), wh) = (r2, wh1)" ..
  from cohort_loop_keeps [OF this Cons.prems(2,3)] assms(4) have keeps: "job_keeps H wh wh1" by simp
  show ?case
  proof (cases r1)
    case (Inl x)
    with Cons.prems(1) one keeps c show ?thesis by simp
  next
    case (Inr x)
    with Cons.prems(1) one c Cons.IH [of "Suc k" _ wh1] keeps
    have "job_keeps H wh1 wh'" by (auto simp: job_keeps_def)
    with keeps show ?thesis by (rule job_keeps_trans)
  qed
qed (simp add: job_keeps_def)

lemma one_segment:
  assumes "wf_snapshot r"
  shows "\<exists>seg \<in> set report_segments. get (ss_cells r) ''segment_classification'' = CText seg"
  using assms
  by (auto simp: wf_snapshot_def well_typed_cells_def segment_values_def report_segments_def list_ex_iff)

lemma segments_partition:
  assumes "\<forall>r \<in> set rs. wf_snapshot r"
  shows "sum_list (map (\<lambda>seg. int (length (filter (\<lambda>r. ss_month r = ym \<and> ss_status r = ''FINALIZED''
      \<and> get (ss_cells r) ''segment_classification'' = CText seg) rs))) report_segments)
    = int (length (filter (\<lambda>r. ss_month r = ym) rs))"
  using assms
proof (induction rs)
  case Nil
  show ?case by (simp add: report_segments_def)
next
  case (Cons r rs)
  from Cons.prems have status: "ss_status r = ''FINALIZED''" by (simp add: wf_snapshot_def)
  from one_segment [of r] Cons.prems obtain seg where
    seg: "seg \<in> set report_segments" "get (ss_cells r) ''segment_classification'' = CText seg" by auto
  show ?case
    using Cons.IH Cons.prems seg status by (auto simp: report_segments_def)
qed

lemma snapshot_in_cohort:
  assumes "wf_snapshots wh" and "r \<in> set (wh_snapshots wh)" and "ss_month r = ym"
  shows "\<exists>seg \<in> set report_segments. ss_student_id r \<in> set (cohort_students seg ym wh)"
proof -
  from assms have "wf_snapshot r" by (auto simp: wf_snapshots_def list_all_iff)
  with one_segment [of r] assms show ?thesis by (force simp: cohort_students_def wf_snapshot_def)
qed

lemma monthly_reports_cover:
  assumes "run_monthly_reports je senvs renvs src user_ids ym mode cfg wh = (Inr (), wh')"
    and "wf_snapshots wh" and "wf_reports H wh" and "\<And>k i. se_sha256 (renvs k i) = H"
    and "digest_separates H wh'"
  shows "wf_snapshots wh' \<and> wf_reports H wh' \<and> grows wh wh'
    \<and> (\<forall>r \<in> set (wh_snapshots wh'). ss_month r = ym \<longrightarrow> has_report (ss_student_id r) ym wh')
    \<and> (let n = int (length (filter (\<lambda>r. ss_month r = ym) (wh_snapshots wh')))
        in last (wh_log wh') = LogJson ''info'' (job_line je 2 ''info'' ''monthly_report_job_completed''
             [(''snapshot_month'', VStr (month_text ym)), (''segments_processed'', VInt 5),
              (''total_generated'', VInt n), (''total_errors'', VInt 0), (''execution_mode'', VStr mode)]))"
proof -
  let ?wh0 = "wh_emit ''info'' (job_line je 0 ''info'' ''monthly_report_job_started''
     [(''snapshot_month'', VStr (month_text ym)), (''execution_mode'', VStr mode)]) wh"
  from assms(1) obtain sr wh1 wh2 g e wh3 where
    asm: "assemble_all_active_snapshots senvs src user_ids ym mode cfg ?wh0 = (Inr sr, wh1)"
    and wh2: "wh2 = wh_emit ''info'' (job_line je 1 ''info'' ''monthly_snapshots_assembled''
        [(''snapshot_month'', VStr (month_text ym)), (''result'', VDict sr)]) wh1"
    and seg: "segment_loop renvs src ym mode 0 report_segments ((0, 0), wh2) = (Inr (g, e), wh3)"
    and wh': "wh' = wh_emit ''info'' (job_line je 2 ''info'' ''monthly_report_job_completed''
        [(''snapshot_month'', VStr (month_text ym)), (''segments_processed'', VInt (int (length report_segments))),
         (''total_generated'', VInt g), (''total_errors'', VInt e), (''execution_mode'', VStr mode)]) wh3"
    by (auto simp: run_monthly_reports_def Let_def split: prod.split_asm sum.split_asm)
  from asm obtain c where loop: "assemble_loop senvs src ym mode cfg 0 user_ids
      (\<lparr>an_created = 0, an_skipped = 0, an_errors = 0\<rparr>, ?wh0) = (Inr c, wh1)"
    by (auto simp: assemble_all_active_snapshots_def split: prod.split_asm sum.split_asm)
  have one: "wf_snapshots wh2" "wf_reports H wh2" "grows wh wh2"
    using assemble_loop_outcome [OF loop] assms(2,3) wf_reports_extends [of ?wh0 wh1 H] extends_grows [of ?wh0 wh1]
    unfolding wh2 by (simp_all add: grows_def)
  from segment_loop_keeps [OF seg one(1,2) assms(4)] have same: "wh_snapshots wh3 = wh_snapshots wh2"
    by (simp add: job_keeps_def)
  with assms(5) have "digest_separates H wh2" by (simp add: wh' digest_separates_def)
  note covers = segment_loop_covers [OF seg one(1,2) this assms(4)]
  have total: "g = int (length (filter (\<lambda>r. ss_month r = ym) (wh_snapshots wh3)))"
    using covers segments_partition [of "wh_snapshots wh2" ym] one(1) same
    by (simp add: cohort_students_def wf_snapshots_def list_all_iff)
  have keeps: "wf_snapshots wh3" "wf_reports H wh3" "grows wh wh3" and "e = 0"
    using covers one(3) by (auto simp: job_keeps_def intro: grows_trans)
  have "has_report (ss_student_id r) ym wh3" if "r \<in> set (wh_snapshots wh3)" "ss_month r = ym" for r
    using snapshot_in_cohort [OF one(1), of r ym] that covers same by auto
  with keeps total \<open>e = 0\<close> show ?thesis
    by (simp add: wh' wh_emit_def report_segments_def has_report_def wf_snapshots_def wf_reports_def grows_def)
qed

text \<open>
  The monthly job reaches every student: when it ends without an exception, every snapshot of
  the month, whether assembled now or before, has a published report, because the five segments it
  runs through are exactly those a snapshot can have; the completion line counts each of them once
  and no error, and the warehouse keeps its shape and loses no row.
\<close>

theorem monthly_job_reports_everyone:
  assumes "run_monthly_reports je senvs renvs src user_ids ym mode cfg wh = (Inr (), wh')"
    and "wf_snapshots wh" and "wf_reports H wh" and "\<And>k i. se_sha256 (renvs k i) = H"
    and "digest_separates H wh'"
  shows "wf_snapshots wh' \<and> wf_reports H wh' \<and> grows wh wh'
    \<and> list_all (\<lambda>r. has_report (ss_student_id r) ym wh') (filter (\<lambda>r. ss_month r = ym) (wh_snapshots wh'))
    \<and> last (wh_log wh') = LogJson ''info'' (job_line je 2 ''info'' ''monthly_report_job_completed''
         [(''snapshot_month'', VStr (month_text ym)), (''segments_processed'', VInt 5),
          (''total_generated'', VInt (int (length (filter (\<lambda>r. ss_month r = ym) (wh_snapshots wh'))))),
          (''total_errors'', VInt 0), (''execution_mode'', VStr mode)])"
  using monthly_reports_cover [OF assms] by (simp add: list_all_iff)

section \<open>What the sections say\<close>

lemma get_append: "get (r @ r') c = (if c \<in> fst ` set r then get r c else get r' c)"
  by (induction r) (auto simp: get_def)

lemma get_columns: "get (map (\<lambda>c. (c, f c)) cs) c = (if c \<in> set cs then f c else CNull)"
  by (induction cs) (auto simp: get_def)

text \<open>A report reads the stored columns it selects; the logins of the last ten days are not among them.\<close>

lemma snapshot_row_get:
  "c \<in> set report_columns \<Longrightarrow> get (snapshot_row r wh) c = get (ss_cells r) c"
  "get (snapshot_row r wh) ''ss_past_10_days_logon'' = CNull"
proof -
  let ?own = "[(''snapshot_id'', CInt (ss_id r)), (''student_id'', CInt (ss_student_id r)),
      (''snapshot_month'', CText (month_text (ss_month r))), (''status'', CText (ss_status r)),
      (''lineage_version'', CInt (ss_lineage_version r))]"
  have own: "fst ` set ?own \<inter> set report_columns = {}" by (simp add: report_columns_def)
  have fst: "fst ` set (map (\<lambda>c. (c, g c)) cs) = set cs" for g :: "string \<Rightarrow> cell" and cs by force
  show "c \<in> set report_columns \<Longrightarrow> get (snapshot_row r wh) c = get (ss_cells r) c"
    unfolding snapshot_row_def get_append [of ?own] get_append [of "map (\<lambda>c. (c, get (ss_cells r) c)) report_columns"] fst
    using own by (auto simp: get_columns)
  have "''ss_past_10_days_logon'' \<notin> set report_columns" by (simp add: report_columns_def)
  moreover have "get (narrative_texts i wh) ''ss_past_10_days_logon'' = CNull" for i
    by (simp add: narrative_texts_def narrative_columns_def get_def Let_def)
  ultimately show "get (snapshot_row r wh) ''ss_past_10_days_logon'' = CNull"
    unfolding snapshot_row_def get_append [of ?own] get_append [of "map (\<lambda>c. (c, get (ss_cells r) c)) report_columns"] fst
    by simp
qed

text \<open>
  The engagement section of a report, for a student with whole numbers of days: the logins of
  the last ten days are never shown, although the snapshot stores them, because the report does
  not select the column; and the two labels follow different orders, so a student without
  activity for more than two weeks whose last login is over five days older than that is INACTIVE
  in one and ACTIVE_NON_SUBMITTER in the other.
\<close>

theorem engagement_labels:
  assumes "get (ss_cells r) ''ss_last_login_days'' = CInt l" and "get (ss_cells r) ''ss_last_activity_days'' = CInt a"
  shows "build_engagement_depth L (snapshot_row r wh) trend = Inr (JObj
    [(''login_submission_gap'', JCell (CInt (l - a))),
     (''gap_interpretation'', JCell (CText (if l - a > 5 then ''ACTIVE_NON_SUBMITTER''
        else if a > 14 then ''INACTIVE'' else ''ENGAGED''))),
     (''peak_activity_logins_10d'', JCell CNull),
     (''activity_pattern'', JCell (CText (if a > 14 then ''INACTIVE'' else if l - a > 5 then ''ACTIVE_NON_SUBMITTER''
        else if l \<le> 1 \<and> a \<le> 3 then ''CONSISTENT'' else ''MODERATE''))),
     trend_get trend ''attendance_trend'' (JList [])])"
proof -
  have cols: "get (snapshot_row r wh) ''ss_last_login_days'' = CInt l"
    "get (snapshot_row r wh) ''ss_last_activity_days'' = CInt a"
    by (simp_all add: snapshot_row_get(1) report_columns_def assms)
  have or: "or_cell (CInt n) (CInt 0) = CInt n" for n by (simp add: or_cell_def)
  have num: "fgt (Fin (of_int m)) (Fin (numeral k)) \<longleftrightarrow> m > numeral k"
    "fge (Fin (numeral k)) (Fin (of_int m)) \<longleftrightarrow> m \<le> numeral k" "fge (Fin 1) (Fin (of_int m)) \<longleftrightarrow> m \<le> 1" for m k
    by (simp_all add: fgt_Fin fge_Fin)
  show ?thesis
    by (simp add: build_engagement_depth_def cols or snapshot_row_get(2) gap_interpretation_def
        activity_pattern_def num del: of_int_diff)
qed

lemma engagement_labels_witness:
  "\<forall>L wh. build_engagement_depth L (snapshot_row \<lparr>ss_id = 1, ss_student_id = 7, ss_month = (2024, 2),
       ss_status = ''FINALIZED'', ss_lineage_version = 1,
       ss_cells = [(''ss_last_login_days'', CInt 30), (''ss_last_activity_days'', CInt 20),
         (''ss_past_10_days_logon'', CInt 0)]\<rparr> wh) [] = Inr (JObj
     [(''login_submission_gap'', JCell (CInt 10)), (''gap_interpretation'', JCell (CText ''ACTIVE_NON_SUBMITTER'')),
      (''peak_activity_logins_10d'', JCell CNull), (''activity_pattern'', JCell (CText ''INACTIVE'')),
      (''attendance_trend'', JList [])])"
  by (intro allI, subst engagement_labels [where l = 30 and a = 20]) (simp_all add: get_def trend_get_def)

lemma float_zero: "float_of_int 0 = Inr (Fin 0)"
  by (simp add: float_of_int_def round53_def bitlen.simps)

text \<open>A credit column, its flag and the number the financial section reads.\<close>

definition credit_cell :: "rat option \<Rightarrow> cell" where
  "credit_cell credits = (case credits of None \<Rightarrow> CNull | Some q \<Rightarrow> CFloat (Fin q))"

definition some_credits :: "rat option \<Rightarrow> bool" where
  "some_credits credits = (case credits of None \<Rightarrow> False | Some q \<Rightarrow> q > 0)"

lemma credit_flag:
  "attr s ''Total_Credits'' = credit_cell credits \<Longrightarrow> has_credits L s = Inr (some_credits credits)"
  by (auto simp: has_credits_def credit_cell_def some_credits_def float_field_def or_cell_def float_zero fgt_Fin
      split: option.split)

lemma credit_number:
  "cell_number (or_cell (credit_cell credits) (CInt 0)) = Inr x \<Longrightarrow> fgt x (Fin 0) \<longleftrightarrow> some_credits credits"
  by (auto simp: credit_cell_def some_credits_def or_cell_def fgt_Fin split: option.split_asm if_split_asm)

lemma financial_behavior:
  assumes "build_financial_trends L snap trend = Inr j" and "get snap ''is_bundle_deal'' = CBool (some_credits credits)"
    and "get snap ''ss_total_credits'' = credit_cell credits"
  shows "\<exists>sec b. j = JObj sec \<and> map_of sec ''payment_behavior'' = Some (JCell (CText b))
    \<and> (if some_credits credits then b = ''BUNDLE_DEAL'' else b \<in> {''FULLY_PAID'', ''INSTALLMENT'', ''UNPAID''})"
proof -
  let ?col = "\<lambda>k. or_cell (get snap k) (CInt 0)"
  from assms(1) obtain rem cv tp tc where tc: "cell_number (?col ''ss_total_credits'') = Inr tc"
    and j: "j = JObj [trend_get trend ''balance_trend'' (JList []),
           (''payment_behavior'', JCell (CText (payment_behavior (get snap ''is_bundle_deal'') cv tp tc))),
           (''remaining_after_credits'', JCell rem),
           (''enrollment_fee_only'', JCell (CBool (get snap ''ss_fee_paid'' = CBool True
              \<and> cell_is_zero (?col ''ss_class_fees_paid'')))),
           (''fee_structure'', JObj [(''enrollment_fee_paid'', JCell (get snap ''ss_fee_paid'')),
              (''class_fees_paid'', JCell (?col ''ss_class_fees_paid'')),
              (''total_credits'', JCell (?col ''ss_total_credits'')), (''class_value'', JCell (?col ''ss_class_value''))])]"
    unfolding build_financial_trends_def Let_def bind_res_Inr_iff by auto
  show ?thesis
    using credit_number [OF tc [unfolded assms(3)]] assms(2)
    by (auto simp: j trend_get_def payment_behavior_def)
qed

text \<open>
  A snapshot marks a bundle deal for any credits above zero, whatever the class value and the
  stored balance are, while its balance and risk label apply the narrower rule of the payment
  service; hence PARTIAL_CREDIT never appears in a report of an assembled snapshot: a student with
  any credits is reported as BUNDLE_DEAL. Credits are a float column or missing.
\<close>

theorem credits_always_bundle:
  assumes "assemble_snapshot env src sid ym mode cfg corr wh = (Inr res, wh')"
    and "dict_get res ''status'' = VStr ''created''"
    and "get_student_for_month env src sid ym = Inr (Some s)"
    and "attr s ''Total_Credits'' = credit_cell credits"
  shows "let snap = snapshot_row (last (wh_snapshots wh')) wh'
    in get snap ''is_bundle_deal'' = CBool (some_credits credits)
      \<and> (case compute_balance (se_floats env) s of Inl e \<Rightarrow> False
          | Inr b \<Rightarrow> get snap ''actual_balance'' = CFloat b
              \<and> get snap ''payment_risk_label'' = CText (payment_risk_label b))
      \<and> (case build_financial_trends L snap trend of
           Inr (JObj sec) \<Rightarrow>
             list_ex (\<lambda>b. map_of sec ''payment_behavior'' = Some (JCell (CText b)))
               (if some_credits credits then [''BUNDLE_DEAL''] else [''FULLY_PAID'', ''INSTALLMENT'', ''UNPAID''])
         | Inr _ \<Rightarrow> False | Inl e \<Rightarrow> True)"
proof -
  obtain cfg' corr' where new: "assemble_new env src sid ym mode cfg' corr' s wh = Inr (res, wh')"
    using assms(1-3) by (cases rule: assemble_snapshot_cases [of env src sid ym mode cfg corr wh]) auto
  then obtain balance segment weeks w c where b: "compute_balance (se_floats env) s = Inr balance"
    and c: "has_credits (se_floats env) s = Inr c"
    and added: "snapshot_added sid ym (snapshot_cells env s balance (payment_risk_label balance) segment weeks
      c (get_outreach_summary env src sid w) mode cfg' corr') wh wh'"
    by (rule assemble_new_Inr)
  from c credit_flag [OF assms(4)] have flag: "c = some_credits credits" by simp
  let ?snap = "snapshot_row (last (wh_snapshots wh')) wh'"
  have cols: "get ?snap ''is_bundle_deal'' = CBool (some_credits credits)" "get ?snap ''actual_balance'' = CFloat balance"
    "get ?snap ''payment_risk_label'' = CText (payment_risk_label balance)"
    "get ?snap ''ss_total_credits'' = credit_cell credits"
    using added assms(4) flag
    by (simp_all add: snapshot_row_get(1) report_columns_def snapshot_added_def Let_def snapshot_cells_get)
  show ?thesis
  proof (cases "build_financial_trends L ?snap trend")
    case (Inr j)
    from financial_behavior [OF Inr cols(1,4)] show ?thesis
      using Inr b cols by (auto split: if_split_asm)
  qed (use b cols in simp)
qed

section \<open>The boundary of a month\<close>

text \<open>
  A contact at the first instant of a month is counted in two snapshots: the window of the
  snapshot service includes the end of the month, so the contact belongs to the month before and
  to its own, while the reports, which leave the end out, count it once.
\<close>

theorem boundary_contact_counted_twice:
  assumes "(t, contact) \<in> set (pl_history src)" and "month_window ym = Inr (a, t)"
    and "month_window (next_month ym) = Inr (t, c)"
  shows "let sid = oh_user_id contact
    in (t, contact) \<in> set (month_outreach src sid (a, t)) \<and> (t, contact) \<in> set (month_outreach src sid (t, c))
      \<and> (t, contact) \<notin> set (month_contacts src sid (a, t)) \<and> (t, contact) \<in> set (month_contacts src sid (t, c))"
proof -
  have pos: "0 < day_micros" by (simp add: day_micros_def)
  have later_month: "first_day ym = Inr d \<Longrightarrow> first_day (next_month ym) = Inr d' \<Longrightarrow> d < d'" for ym d d'
  proof -
    assume "first_day ym = Inr d" and "first_day (next_month ym) = Inr d'"
    then have v: "valid_month ym" "valid_month (next_month ym)" and d: "d = ordinal (fst ym) (snd ym) 1"
      by (simp_all add: first_day_def split: if_split_asm)
    from v have "ym \<noteq> (9999, 12)" by (auto simp: valid_month_def next_month_def)
    from month_last_day_calendar [OF v(1) this] \<open>first_day (next_month ym) = Inr d'\<close>
    have "d' - 1 = ordinal (fst ym) (snd ym) (days_in_month (fst ym) (snd ym))" by (simp add: month_last_day_def)
    moreover have "28 \<le> days_in_month (fst ym) (snd ym)" by (simp add: days_in_month_def)
    ultimately show "d < d'" using d by (simp add: ordinal_def)
  qed
  from assms(2) obtain d d' where "first_day ym = Inr d" "first_day (next_month ym) = Inr d'"
    and at: "a = instant_of_day d" "t = instant_of_day d'"
    by (auto simp: month_window_def bind_res_Inr_iff)
  with later_month pos have at: "a < t" by (simp add: instant_of_day_def)
  from assms(3) obtain e e' where "first_day (next_month ym) = Inr e" "first_day (next_month (next_month ym)) = Inr e'"
    and "t = instant_of_day e" "c = instant_of_day e'"
    by (auto simp: month_window_def bind_res_Inr_iff)
  with later_month pos have "t < c" by (simp add: instant_of_day_def)
  with at assms(1) show ?thesis by (simp add: month_outreach_def month_contacts_def in_window_def Let_def)
qed

section \<open>Witnesses\<close>

definition sample_row :: row where
  "sample_row = [(''segment_classification'', CText ''NEWCOMERS''), (''payment_risk_label'', CText ''CLEAR''),
     (''actual_balance'', CFloat (Fin 0)), (''is_bundle_deal'', CBool False), (''execution_mode'', CText ''SHADOW''),
     (''total_outreach_attempts'', CInt 0), (''total_responses'', CInt 0)]"

definition sample_snapshot :: snapshot where
  "sample_snapshot = \<lparr>ss_id = 1, ss_student_id = 7, ss_month = (2024, 2), ss_status = ''FINALIZED'',
     ss_lineage_version = 1, ss_cells = sample_row\<rparr>"

definition sample_warehouse :: warehouse where
  "sample_warehouse = empty_warehouse\<lparr>wh_snapshots := [sample_snapshot],
     wh_narratives := [\<lparr>na_snapshot_id = 1, na_texts = []\<rparr>]\<rparr>"

lemma sample_wf: "wf_snapshots sample_warehouse" "wf_reports id sample_warehouse" "digest_separates id sample_warehouse"
  by (simp_all add: sample_warehouse_def wf_snapshots_def wf_reports_def digest_separates_def wf_snapshot_def
      sample_snapshot_def well_typed_cells_def sample_row_def get_def segment_values_def risk_values_def
      mode_fits_def empty_warehouse_def)

lemma dumpable_cells: "dumpable (cells_json r) \<longleftrightarrow> (\<forall>x \<in> set r. dumpable_cell (snd x))"
  by (auto simp: cells_json_def list_all_iff)

lemma dumpable_get: "\<forall>x \<in> set r. dumpable_cell (snd x) \<Longrightarrow> dumpable_cell (get r c)"
  by (induction r) (auto simp: get_def)

lemma dumpable_or: "dumpable_cell a \<Longrightarrow> dumpable_cell b \<Longrightarrow> dumpable_cell (or_cell a b)"
  by (simp add: or_cell_def)

abbreviation sample_report_row :: row where
  "sample_report_row \<equiv> snapshot_row sample_snapshot sample_warehouse"

lemma sample_report_cells:
  "dumpable_cell (get sample_report_row c)"
  "get sample_report_row ''ss_hws_behind'' = CNull" "get sample_report_row ''ss_last_activity_days'' = CNull"
  "get sample_report_row ''ss_last_login_days'' = CNull" "get sample_report_row ''ss_class_value'' = CNull"
  "get sample_report_row ''ss_total_payments'' = CNull" "get sample_report_row ''ss_total_credits'' = CNull"
  "get sample_report_row ''fingerprint_computed_at'' = CNull"
proof -
  have row: "dumpable_cell (get sample_row c)" for c
    by (rule dumpable_get) (simp add: sample_row_def)
  have "dumpable_cell (snd x)" if "x \<in> set sample_report_row" for x
    using that row by (auto simp: snapshot_row_def narrative_texts_def sample_snapshot_def sample_warehouse_def
        text_cell_def Let_def split: option.split)
  then show "dumpable_cell (get sample_report_row c)" by (intro dumpable_get) blast
next
  have own: "get sample_report_row c = get sample_row c" if "c \<in> set report_columns" for c
    using that by (simp add: snapshot_row_get(1)) (simp add: sample_snapshot_def)
  have null: "get sample_row ''ss_hws_behind'' = CNull" "get sample_row ''ss_last_activity_days'' = CNull"
    "get sample_row ''ss_last_login_days'' = CNull" "get sample_row ''ss_class_value'' = CNull"
    "get sample_row ''ss_total_payments'' = CNull" "get sample_row ''ss_total_credits'' = CNull"
    "get sample_row ''fingerprint_computed_at'' = CNull"
    by (simp_all add: sample_row_def get_def)
  show "get sample_report_row ''ss_hws_behind'' = CNull" "get sample_report_row ''ss_last_activity_days'' = CNull"
    "get sample_report_row ''ss_last_login_days'' = CNull" "get sample_report_row ''ss_class_value'' = CNull"
    "get sample_report_row ''ss_total_payments'' = CNull" "get sample_report_row ''ss_total_credits'' = CNull"
    "get sample_report_row ''fingerprint_computed_at'' = CNull"
    by (simp_all add: own null report_columns_def)
qed

lemma sample_content:
  "\<exists>content. report_content_for sample_snapshot_env (sample_tables Map.empty) 7 (2024, 2) sample_snapshot sample_warehouse
     = Inr content \<and> dumpable content"
proof -
  let ?L = "se_floats sample_snapshot_env"
  let ?h = "trend_history 7 (2024, 2) sample_warehouse"
  have h: "?h = [sample_snapshot]"
    by (simp add: trend_history_def finalized_of_def sample_warehouse_def sample_snapshot_def month_index_def)
  obtain trend where trend: "load_trend_data ?L 7 (2024, 2) sample_warehouse = Inr trend"
    and dt: "\<forall>x \<in> set trend. dumpable (snd x)"
    using h by (auto simp: load_trend_data_def derive_submission_momentum_def trend_series_def sample_snapshot_def
        get_def sample_row_def Let_def)
  have tg: "dumpable (snd (trend_get trend k d))" if "dumpable d" for k d
    using that dt by (fastforce simp: trend_get_def dest: map_of_SomeD split: option.split)
  obtain w where w: "month_window (2024, 2) = Inr w"
    by (auto simp: month_window_def first_day_def valid_month_def next_month_def)
  let ?src = "sample_tables Map.empty"
  have empty: "month_contacts ?src 7 w = []" "student_transitions 7 ?src = []" "current_case ?src 7 = None"
    by (simp_all add: month_contacts_def student_transitions_def current_case_def sample_tables_def)
  have intel: "dumpable (JObj (load_outreach_intelligence sample_snapshot_env ?src 7 w))"
    by (simp add: load_outreach_intelligence_def empty compute_avg_days_to_response_def int_cell_def text_cell_def)
  have "finalized_of 7 sample_warehouse = [sample_snapshot]"
    by (simp add: finalized_of_def sample_warehouse_def sample_snapshot_def)
  then have life: "dumpable (JObj (load_lifecycle_patterns sample_snapshot_env ?src 7 sample_warehouse))"
    by (simp add: load_lifecycle_patterns_def empty compute_segment_tenure_def compute_contact_response_delta_def
        sample_snapshot_def sample_row_def get_def int_cell_def Let_def)
  have states: "load_state_transitions sample_snapshot_env ?src 7 w = []"
    by (simp add: load_state_transitions_def empty)
  note c = sample_report_cells
  have zero: "cell_sub L (CInt 0) (CInt 0) = Inr (CInt 0)" for L by simp
  have risk: "derive_risk_level sample_report_row = Inr ''LOW''"
    by (simp add: derive_risk_level_def c fge_Fin fgt_Fin)
  obtain depth where depth: "build_engagement_depth ?L sample_report_row trend = Inr depth" and dd: "dumpable depth"
    using tg [of "JList []"] c(1) by (simp add: build_engagement_depth_def c zero trend_get_def)
  obtain fin where fin: "build_financial_trends ?L sample_report_row trend = Inr fin" and df: "dumpable fin"
    using tg [of "JList []"] c(1)
    by (simp add: build_financial_trends_def c zero cell_max_zero_def fgt_Fin trend_get_def Let_def dumpable_or)
  have sections: "dumpable (identity_section sample_snapshot_env sample_report_row)"
    "dumpable (academic_section sample_report_row)" "dumpable (engagement_section sample_report_row)"
    "dumpable (financial_section sample_report_row)" "dumpable (outreach_section sample_snapshot_env sample_report_row)"
    "dumpable (narratives_section sample_report_row)"
    "dumpable (governance_section sample_snapshot_env sample_report_row n 1 CNull)" for n
    by (simp_all add: identity_section_def academic_section_def engagement_section_def financial_section_def
        outreach_section_def narratives_section_def governance_section_def dumpable_cells dumpable_or c(1) Let_def)
  have academic: "dumpable (build_academic_trends trend)"
    using tg by (simp add: build_academic_trends_def trend_get_def)
  show ?thesis
    using sections academic intel life dd df c(1)
    by (simp add: report_content_for_def w trend sample_snapshot_def [THEN arg_cong, of ss_lineage_version] states
        build_report_content_def risk depth fin iso_cell_def c dumpable_cells dumpable_or)
qed

lemma report_content_same:
  assumes "wh_snapshots wh = wh_snapshots wh'" and "wh_narratives wh = wh_narratives wh'"
  shows "report_content_for env src sid ym r wh = report_content_for env src sid ym r wh'"
  by (simp add: report_content_for_def load_trend_data_def trend_history_def finalized_of_def snapshot_row_def
      narrative_texts_def load_lifecycle_patterns_def compute_segment_tenure_def assms)

lemma sample_generated:
  assumes "wh_snapshots wh = wh_snapshots sample_warehouse" and "wh_narratives wh = wh_narratives sample_warehouse"
    and "wh_reports wh = []"
  shows "\<exists>i content wh'. generate_student_report sample_snapshot_env (sample_tables Map.empty) 7 (2024, 2) ''SHADOW'' None
     wh = (Inr (report_result i 7 (2024, 2) ''SHADOW'', Some content), wh')"
proof -
  obtain content where c: "report_content_for sample_snapshot_env (sample_tables Map.empty) 7 (2024, 2) sample_snapshot
      wh = Inr content" and d: "dumpable content"
    using sample_content report_content_same [OF assms(1,2)] by auto
  have load: "load_finalized_snapshot 7 (2024, 2) wh = Some sample_snapshot"
    by (simp add: load_finalized_snapshot_def assms(1) sample_warehouse_def) (simp add: sample_snapshot_def)
  have ids: "ss_id sample_snapshot = 1" "ss_lineage_version sample_snapshot = 1" by (simp_all add: sample_snapshot_def)
  have "\<exists>i wh'. insert_monthly_report sample_snapshot_env 7 (2024, 2) 1 content ''SHADOW'' 1 k wh = Inr (i, wh')" for k
    using d by (simp add: insert_monthly_report_def assms(3) mode_fits_def sample_snapshot_env_def Let_def)
  then obtain i wh' where "insert_monthly_report sample_snapshot_env 7 (2024, 2) 1 content ''SHADOW'' 1
      (se_new_uuid sample_snapshot_env) wh = Inr (i, wh')" by blast
  then show ?thesis by (fastforce simp: generate_student_report_def load c ids Let_def)
qed

lemma sample_no_reports: "wh_reports sample_warehouse = []"
  by (simp add: sample_warehouse_def empty_warehouse_def)

lemma sample_sha: "se_sha256 sample_snapshot_env = id"
  by (simp add: sample_snapshot_env_def)

lemma published_report_read_back_witness:
  "\<exists>content wh'. case get_report_content sample_snapshot_env 7 2024 2 wh' of
      Inr (Some (d, c)) \<Rightarrow> c = content \<and> has_report 7 (2024, 2) wh' | _ \<Rightarrow> False"
proof -
  obtain i content wh' where run: "generate_student_report sample_snapshot_env (sample_tables Map.empty) 7 (2024, 2)
      ''SHADOW'' None sample_warehouse = (Inr (report_result i 7 (2024, 2) ''SHADOW'', Some content), wh')"
    using sample_generated [OF refl refl sample_no_reports] by blast
  have v: "valid_month (2024, 2)" by (simp add: valid_month_def)
  have "has_report 7 (2024, 2) wh'"
    using report_published [OF sample_wf sample_sha run] by (auto simp: has_report_def list_ex_iff)
  with published_report_read_back [OF sample_wf sample_sha run v, of sample_snapshot_env] show ?thesis
    by (intro exI [of _ content] exI [of _ wh']) (auto split: sum.splits option.splits)
qed

lemma warehouse_well_formed_witness:
  "\<exists>wh'. warehouse_history id sample_warehouse wh' \<and> wf_reports id wh' \<and> grows sample_warehouse wh'
     \<and> has_report 7 (2024, 2) wh'"
proof -
  obtain i content wh' where run: "generate_student_report sample_snapshot_env (sample_tables Map.empty) 7 (2024, 2)
      ''SHADOW'' None sample_warehouse = (Inr (report_result i 7 (2024, 2) ''SHADOW'', Some content), wh')"
    using sample_generated [OF refl refl sample_no_reports] by blast
  have hist: "warehouse_history id sample_warehouse wh'"
    using warehouse_step.report [OF sample_sha run] by blast
  have "has_report 7 (2024, 2) wh'"
    using report_published [OF sample_wf sample_sha run] by (auto simp: has_report_def list_ex_iff)
  with hist warehouse_well_formed [OF hist sample_wf(1,2)] show ?thesis by blast
qed

definition sample_job_env :: job_env where
  "sample_job_env = \<lparr>je_now_iso = (\<lambda>n. ''now''), je_correlation_id = ''1'', je_error = (\<lambda>e. ([], []))\<rparr>"

lemma monthly_job_reports_everyone_witness:
  "\<exists>wh'. has_report 7 (2024, 2) wh' \<and> run_monthly_reports sample_job_env (\<lambda>i. sample_snapshot_env)
     (\<lambda>k i. sample_snapshot_env) (sample_tables Map.empty) [] (2024, 2) ''SHADOW'' None sample_warehouse = (Inr (), wh')"
proof -
  let ?src = "sample_tables Map.empty" and ?envs = "\<lambda>i :: nat. sample_snapshot_env"
  let ?m = "(''snapshot_month'', VStr (month_text (2024, 2)))" and ?x = "(''execution_mode'', VStr ''SHADOW'')"
  define wh0 where "wh0 = wh_emit ''info'' (job_line sample_job_env 0 ''info'' ''monthly_report_job_started'' [?m, ?x]) sample_warehouse"
  obtain sr where asm: "assemble_all_active_snapshots ?envs ?src [] (2024, 2) ''SHADOW'' None wh0 = (Inr sr, wh0)"
    by (auto simp: assemble_all_active_snapshots_def)
  define wh2 where "wh2 = wh_emit ''info'' (job_line sample_job_env 1 ''info'' ''monthly_snapshots_assembled''
     [?m, (''result'', VDict sr)]) wh0"
  have wh2: "wh_snapshots wh2 = wh_snapshots sample_warehouse" "wh_narratives wh2 = wh_narratives sample_warehouse"
    "wh_reports wh2 = []" "wf_snapshots wh2" "wf_reports id wh2" "digest_separates id wh2"
    using sample_wf by (simp_all add: wh2_def wh0_def sample_no_reports digest_separates_def)
  have cohort: "cohort_students seg (2024, 2) w = (if seg = ''NEWCOMERS'' then [7] else [])"
    if "wh_snapshots w = wh_snapshots sample_warehouse" for w seg
    by (simp add: cohort_students_def that sample_warehouse_def sample_snapshot_def sample_row_def get_def)
  obtain i content wh3 where run: "generate_student_report sample_snapshot_env ?src 7 (2024, 2) ''SHADOW'' None wh2
      = (Inr (report_result i 7 (2024, 2) ''SHADOW'', Some content), wh3)"
    using sample_generated [OF wh2(1-3)] by blast
  have same: "wh_snapshots wh3 = wh_snapshots sample_warehouse"
    using report_keeps [OF wh2(4,5) sample_sha run] wh2(1) by simp
  have seg: "segment_loop (\<lambda>k. ?envs) ?src (2024, 2) ''SHADOW'' 0 report_segments ((0, 0), wh2) = (Inr (1, 0), wh3)"
    by (simp add: report_segments_def generate_cohort_report_def cohort [OF wh2(1)] cohort [OF same] run Let_def
        report_result_def int_field_def)
  have "\<exists>wh'. run_monthly_reports sample_job_env ?envs (\<lambda>k. ?envs) ?src [] (2024, 2) ''SHADOW'' None sample_warehouse
      = (Inr (), wh') \<and> wh_snapshots wh' = wh_snapshots wh3"
    using seg asm by (simp add: run_monthly_reports_def Let_def del: One_nat_def flip: wh0_def wh2_def)
  then obtain wh' where job: "run_monthly_reports sample_job_env ?envs (\<lambda>k. ?envs) ?src [] (2024, 2) ''SHADOW'' None
      sample_warehouse = (Inr (), wh')" and snaps: "wh_snapshots wh' = wh_snapshots wh3" by blast
  have "digest_separates id wh'" using sample_wf(3) snaps same by (simp add: digest_separates_def)
  from monthly_job_reports_everyone [OF job sample_wf(1,2) sample_sha this] snaps same job
  show ?thesis by (auto simp: sample_warehouse_def sample_snapshot_def)
qed

lemma credits_always_bundle_witness:
  "\<exists>wh'. get (snapshot_row (last (wh_snapshots wh')) wh') ''is_bundle_deal'' = CBool True"
proof -
  obtain s res wh' where s: "get_student_for_month sample_snapshot_env (sample_tables captured_student) 7 (2024, 2) = Inr (Some s)"
    and credits: "attr s ''Total_Credits'' = credit_cell (Some 100)"
    and run: "assemble_snapshot sample_snapshot_env (sample_tables captured_student) 7 (2024, 2) ''SHADOW'' None None
      empty_warehouse = (Inr res, wh')" and ok: "dict_get res ''status'' = VStr ''created''"
    using sample_created by (auto simp: credit_cell_def)
  from credits_always_bundle [OF run ok s credits] show ?thesis by (auto simp: some_credits_def Let_def)
qed

lemma boundary_contact_counted_twice_witness:
  "let src = (sample_tables Map.empty)\<lparr>pl_history := [(day_micros * 31, history_args)]\<rparr>
   in (day_micros * 31, history_args) \<in> set (month_outreach src 0 (0, day_micros * 31))"
proof -
  have w: "month_window (1970, 1) = Inr (0, day_micros * 31)" "month_window (next_month (1970, 1)) = Inr (day_micros * 31, day_micros * 59)"
    by (simp_all add: month_window_def first_day_def valid_month_def next_month_def ordinal_def days_before_year_def
        days_before_month_def is_leap_def instant_of_day_def epoch_day_def)
  show ?thesis
    using boundary_contact_counted_twice [OF _ w, of history_args "(sample_tables Map.empty)\<lparr>pl_history := [(day_micros * 31, history_args)]\<rparr>"]
    by (simp add: Let_def history_args_def)
qed

end
