(* ===== verification/SqlSchema.thy ===== *)
theory SqlSchema
  imports Cells
begin

text \<open>
  Database schemas as data: columns, tables, indexes, roles and privileges, and what the statements
  of the migrations and of the start-up code do to them. A statement that the database refuses is
  \<open>None\<close>. A table is named by its schema and its name; an integer key is numbered by a sequence of
  its own, and what a role may do with the sequence is a privilege on the table.
\<close>

section \<open>Columns and tables\<close>

datatype sql_type = SInteger | SFloat | SBoolean | SString nat | SText | SDateTime bool | SDate | SUuid | SJsonb

datatype default_value = Literal string | Expression string

record column =
  co_type :: sql_type
  co_nullable :: bool
  co_default :: "default_value option"

definition required :: "sql_type \<Rightarrow> column" where
  "required t = \<lparr>co_type = t, co_nullable = False, co_default = None\<rparr>"

definition optional :: "sql_type \<Rightarrow> column" where
  "optional t = \<lparr>co_type = t, co_nullable = True, co_default = None\<rparr>"

definition defaulted :: "sql_type \<Rightarrow> default_value \<Rightarrow> column" where
  "defaulted t d = \<lparr>co_type = t, co_nullable = False, co_default = Some d\<rparr>"

type_synonym tname = "string \<times> string"

abbreviation pub :: "string \<Rightarrow> tname" where "pub n \<equiv> (''public'', n)"
abbreviation ware :: "string \<Rightarrow> tname" where "ware n \<equiv> (''warehouse'', n)"
abbreviation audit :: "string \<Rightarrow> tname" where "audit n \<equiv> (''compliance_audit'', n)"

text \<open>A foreign key: its columns, the table it refers to, and the action on deletion.\<close>

record table =
  tb_columns :: "(string \<times> column) list"
  tb_primary_key :: "string list"
  tb_foreign_keys :: "(string list \<times> tname \<times> string option) list"
  tb_uniques :: "string list list"

text \<open>An index; a partial one covers the rows with a given status.\<close>

record index =
  ix_table :: tname
  ix_columns :: "string list"
  ix_unique :: bool
  ix_status :: "string option"

definition index_on :: "tname \<Rightarrow> string list \<Rightarrow> index" where
  "index_on n cs = \<lparr>ix_table = n, ix_columns = cs, ix_unique = False, ix_status = None\<rparr>"

definition unique_on :: "tname \<Rightarrow> string list \<Rightarrow> index" where
  "unique_on n cs = \<lparr>ix_table = n, ix_columns = cs, ix_unique = True, ix_status = None\<rparr>"

definition unique_for_status :: "tname \<Rightarrow> string list \<Rightarrow> string \<Rightarrow> index" where
  "unique_for_status n cs s = \<lparr>ix_table = n, ix_columns = cs, ix_unique = True, ix_status = Some s\<rparr>"

datatype privilege =
    UsageOn string
  | CanSelect tname
  | CanInsert tname
  | CanUpdate tname "string list"
  | CanNumber tname

record database =
  dm_schemas :: "string list"
  dm_tables :: "(tname \<times> table) list"
  dm_indexes :: "(string \<times> index) list"
  dm_roles :: "string list"
  dm_grants :: "(string \<times> privilege) set"

definition empty_database :: "string list \<Rightarrow> database" where
  "empty_database roles = \<lparr>dm_schemas = [''public''], dm_tables = [], dm_indexes = [], dm_roles = roles, dm_grants = {}\<rparr>"

section \<open>Statements\<close>

datatype access =
    GrantUsage string
  | GrantSelectAll string
  | GrantSelect tname
  | GrantInsert tname
  | GrantUpdate tname "string list"
  | GrantNumbersAll string
  | GrantNumbers tname
  | RevokeUpdate tname "string list"
  | RevokeTable tname
  | RevokeTablesOf string
  | RevokeNumbersOf string
  | RevokeNumbers tname
  | RevokeUsage string

text \<open>
  \<open>CreateMissing\<close> is what \<^verbatim>\<open>create_all\<close> does for one table of the models;
  \<open>IfRole\<close> is a block of privileges guarded by the existence of the role, \<open>Access\<close> one without guard.
\<close>

datatype ddl =
    CreateSchema string
  | CreateTable tname table
  | CreateMissing tname table "(string \<times> index) list"
  | AddColumn tname string column
  | CreateIndex string index
  | CreateIndexMissing string index
  | IfRole string "access list"
  | Access string "access list"
  | DropIndex string
  | DropTable tname
  | DropSchema string

definition tables_of :: "string \<Rightarrow> database \<Rightarrow> tname list" where
  "tables_of s d = filter (\<lambda>n. fst n = s) (map fst (dm_tables d))"

fun table_of :: "privilege \<Rightarrow> tname option" where
  "table_of (UsageOn s) = None"
| "table_of (CanSelect n) = Some n"
| "table_of (CanInsert n) = Some n"
| "table_of (CanUpdate n cs) = Some n"
| "table_of (CanNumber n) = Some n"

fun numbering :: "privilege \<Rightarrow> bool" where
  "numbering (CanNumber n) = True"
| "numbering _ = False"

definition grant :: "string \<Rightarrow> privilege list \<Rightarrow> database \<Rightarrow> database" where
  "grant role ps d = d\<lparr>dm_grants := dm_grants d \<union> Pair role ` set ps\<rparr>"

definition revoke :: "string \<Rightarrow> (privilege \<Rightarrow> bool) \<Rightarrow> database \<Rightarrow> database" where
  "revoke role P d = d\<lparr>dm_grants := Set.filter (\<lambda>g. \<not> (fst g = role \<and> P (snd g))) (dm_grants d)\<rparr>"

fun exec_access :: "string \<Rightarrow> access \<Rightarrow> database \<Rightarrow> database option" where
  "exec_access role (GrantUsage s) d = (if s \<in> set (dm_schemas d) then Some (grant role [UsageOn s] d) else None)"
| "exec_access role (GrantSelectAll s) d = Some (grant role (map CanSelect (tables_of s d)) d)"
| "exec_access role (GrantSelect n) d = (if n \<in> fst ` set (dm_tables d) then Some (grant role [CanSelect n] d) else None)"
| "exec_access role (GrantInsert n) d = (if n \<in> fst ` set (dm_tables d) then Some (grant role [CanInsert n] d) else None)"
| "exec_access role (GrantUpdate n cs) d =
     (if n \<in> fst ` set (dm_tables d) then Some (grant role [CanUpdate n cs] d) else None)"
| "exec_access role (GrantNumbersAll s) d = Some (grant role (map CanNumber (tables_of s d)) d)"
| "exec_access role (GrantNumbers n) d = (if n \<in> fst ` set (dm_tables d) then Some (grant role [CanNumber n] d) else None)"
| "exec_access role (RevokeUpdate n cs) d = Some (revoke role (\<lambda>p. p = CanUpdate n cs) d)"
| "exec_access role (RevokeTable n) d = Some (revoke role (\<lambda>p. table_of p = Some n \<and> \<not> numbering p) d)"
| "exec_access role (RevokeTablesOf s) d =
     Some (revoke role (\<lambda>p. (case table_of p of None \<Rightarrow> False | Some n \<Rightarrow> fst n = s) \<and> \<not> numbering p) d)"
| "exec_access role (RevokeNumbersOf s) d =
     Some (revoke role (\<lambda>p. (case table_of p of None \<Rightarrow> False | Some n \<Rightarrow> fst n = s) \<and> numbering p) d)"
| "exec_access role (RevokeNumbers n) d = Some (revoke role (\<lambda>p. p = CanNumber n) d)"
| "exec_access role (RevokeUsage s) d = Some (revoke role (\<lambda>p. p = UsageOn s) d)"

text \<open>The tables another one refers to, itself apart.\<close>

definition references :: "tname \<times> table \<Rightarrow> tname list" where
  "references nt = filter (\<lambda>n. n \<noteq> fst nt) (map (fst \<circ> snd) (tb_foreign_keys (snd nt)))"

definition add_table :: "tname \<Rightarrow> table \<Rightarrow> database \<Rightarrow> database option" where
  "add_table n t d =
    (if fst n \<in> set (dm_schemas d) \<and> list_all (\<lambda>m. m \<in> fst ` set (dm_tables d)) (references (n, t))
     then Some (d\<lparr>dm_tables := dm_tables d @ [(n, t)]\<rparr>) else None)"

definition index_fits :: "index \<Rightarrow> database \<Rightarrow> bool" where
  "index_fits i d =
    (case map_of (dm_tables d) (ix_table i) of
       None \<Rightarrow> False
     | Some t \<Rightarrow> list_all (\<lambda>c. c \<in> fst ` set (tb_columns t)) (ix_columns i))"

definition add_index :: "string \<Rightarrow> index \<Rightarrow> database \<Rightarrow> database option" where
  "add_index k i d =
    (if k \<notin> fst ` set (dm_indexes d) \<and> index_fits i d then Some (d\<lparr>dm_indexes := dm_indexes d @ [(k, i)]\<rparr>) else None)"

definition about :: "tname set \<Rightarrow> string set \<Rightarrow> privilege \<Rightarrow> bool" where
  "about N S p \<longleftrightarrow> (case p of UsageOn s \<Rightarrow> s \<in> S | _ \<Rightarrow> the (table_of p) \<in> N)"

text \<open>The database without some tables and schemas, with the indexes and privileges on them.\<close>

definition without :: "tname set \<Rightarrow> string set \<Rightarrow> database \<Rightarrow> database" where
  "without N S d = d\<lparr>dm_schemas := filter (\<lambda>s. s \<notin> S) (dm_schemas d),
     dm_tables := filter (\<lambda>x. fst x \<notin> N) (dm_tables d),
     dm_indexes := filter (\<lambda>x. ix_table (snd x) \<notin> N) (dm_indexes d),
     dm_grants := Set.filter (\<lambda>g. \<not> about N S (snd g)) (dm_grants d)\<rparr>"

definition no_dependents :: "tname \<Rightarrow> database \<Rightarrow> bool" where
  "no_dependents n d \<longleftrightarrow> list_all (\<lambda>x. fst x = n \<or> n \<notin> set (references x)) (dm_tables d)"

text \<open>\<^verbatim>\<open>DROP SCHEMA ... CASCADE\<close> also drops the foreign keys into the schema.\<close>

definition drop_schema :: "string \<Rightarrow> database \<Rightarrow> database" where
  "drop_schema s d =
    (let N = Set.filter (\<lambda>n. fst n = s) (fst ` set (dm_tables d))
     in without N {s} (d\<lparr>dm_tables := map (map_prod id
          (tb_foreign_keys_update (filter (\<lambda>k. fst (snd k) \<notin> N)))) (dm_tables d)\<rparr>))"

primrec each :: "('a \<Rightarrow> 's \<Rightarrow> 's option) \<Rightarrow> 'a list \<Rightarrow> 's \<Rightarrow> 's option" where
  "each f [] s = Some s"
| "each f (x # xs) s = Option.bind (f x s) (each f xs)"

fun exec_ddl :: "ddl \<Rightarrow> database \<Rightarrow> database option" where
  "exec_ddl (CreateSchema s) d = Some (if s \<in> set (dm_schemas d) then d else d\<lparr>dm_schemas := dm_schemas d @ [s]\<rparr>)"
| "exec_ddl (CreateTable n t) d = (if n \<in> fst ` set (dm_tables d) then None else add_table n t d)"
| "exec_ddl (CreateMissing n t is) d =
     (if n \<in> fst ` set (dm_tables d) then Some d
      else Option.bind (add_table n t d) (each (\<lambda>(k, i). add_index k i) is))"
| "exec_ddl (AddColumn n c co) d =
     (case map_of (dm_tables d) n of
        None \<Rightarrow> None
      | Some t \<Rightarrow> Some (if c \<in> fst ` set (tb_columns t) then d
                       else d\<lparr>dm_tables := AList.update n (t\<lparr>tb_columns := tb_columns t @ [(c, co)]\<rparr>) (dm_tables d)\<rparr>))"
| "exec_ddl (CreateIndex k i) d = add_index k i d"
| "exec_ddl (CreateIndexMissing k i) d = (if k \<in> fst ` set (dm_indexes d) then Some d else add_index k i d)"
| "exec_ddl (IfRole role as) d = (if role \<in> set (dm_roles d) then each (exec_access role) as d else Some d)"
| "exec_ddl (Access role as) d = each (exec_access role) as d"
| "exec_ddl (DropIndex k) d =
     (if k \<in> fst ` set (dm_indexes d) then Some (d\<lparr>dm_indexes := filter (\<lambda>x. fst x \<noteq> k) (dm_indexes d)\<rparr>) else None)"
| "exec_ddl (DropTable n) d =
     (if n \<in> fst ` set (dm_tables d) \<and> no_dependents n d then Some (without {n} {} d) else None)"
| "exec_ddl (DropSchema s) d = Some (drop_schema s d)"

definition exec_all :: "ddl list \<Rightarrow> database \<Rightarrow> database option" where
  "exec_all = each exec_ddl"

lemma index_simps [simp]:
  "ix_table (index_on n cs) = n" "ix_columns (index_on n cs) = cs" "ix_table (unique_on n cs) = n"
  "ix_columns (unique_on n cs) = cs" "ix_table (unique_for_status n cs s) = n" "ix_columns (unique_for_status n cs s) = cs"
  by (simp_all add: index_on_def unique_on_def unique_for_status_def)

end
