(* ===== verification/Migrations.thy ===== *)
theory Migrations
  imports SqlSchema
begin

text \<open>
  The migrations \<^verbatim>\<open>alembic/versions/0001_baseline.py\<close> to
  \<^verbatim>\<open>0004_student_mirror_history.py\<close>: the tables each revision creates, and the statements
  of its upgrade and downgrade in their order. The rows the third one inserts are in the theory of
  the configuration registry.
\<close>

section \<open>Revision 0001: baseline\<close>

definition v1_ai_chatbot_triggerdata :: table where
  "v1_ai_chatbot_triggerdata =
    \<lparr>tb_columns =
       [(''UserID'', required SInteger), (''FirstName'', optional (SString 100)),
        (''LastName'', optional (SString 100)), (''Email'', optional (SString 255)),
        (''PhoneNumber'', optional (SString 50)), (''PathName'', optional (SString 100)),
        (''HWsBehind'', defaulted SInteger (Literal ''0'')),
        (''AvgEffRating'', defaulted SFloat (Literal ''0.0'')),
        (''LastActivityDays'', defaulted SInteger (Literal ''0'')), (''AttendancePercentage'', optional SFloat),
        (''CurrentSection'', optional (SString 200)), (''IPBCStartDate'', optional (SDateTime False)),
        (''Past10DaysLogon'', optional SInteger), (''Total_Payments'', optional SFloat),
        (''Total_Credits'', optional SFloat), (''PaymentBalance'', optional SFloat),
        (''ClassValue'', optional SFloat), (''FeePaid'', optional SBoolean),
        (''ClassFeesPaid'', optional SFloat), (''ClassName'', optional (SString 200)),
        (''ClassSignupsID'', optional (SString 100)), (''ActiveStatus'', optional (SString 50)),
        (''StatusI'', optional (SString 100)), (''StatusII'', optional (SString 100)),
        (''StudentStartDate'', optional (SDateTime False)), (''ClassStartDate'', optional (SDateTime False)),
        (''LastActivitySection'', optional (SString 300)), (''LastLoginDays'', optional SInteger),
        (''LastSubmitted'', optional (SString 200))],
     tb_primary_key = [''UserID''],
     tb_foreign_keys = [],
     tb_uniques = []\<rparr>"

definition v1_student_interview_prep :: table where
  "v1_student_interview_prep =
    \<lparr>tb_columns =
       [(''user_id'', required SInteger), (''raw_data'', optional SJsonb),
        (''synced_at'', defaulted (SDateTime True) (Expression ''now()''))],
     tb_primary_key = [''user_id''],
     tb_foreign_keys = [],
     tb_uniques = []\<rparr>"

definition v1_student_outreach_tracking :: table where
  "v1_student_outreach_tracking =
    \<lparr>tb_columns =
       [(''id'', required SInteger), (''user_id'', required SInteger),
        (''checkpoint_type'', required (SString 50)),
        (''state'', defaulted (SString 50) (Literal ''ELIGIBLE'')),
        (''current_attempt'', defaulted SInteger (Literal ''0'')),
        (''last_contact_at'', optional (SDateTime True)), (''next_retry_at'', optional (SDateTime True)),
        (''created_at'', defaulted (SDateTime True) (Expression ''now()'')),
        (''updated_at'', defaulted (SDateTime True) (Expression ''now()''))],
     tb_primary_key = [''id''],
     tb_foreign_keys = [],
     tb_uniques = [[''user_id'', ''checkpoint_type'']]\<rparr>"

definition v1_outreach_history :: table where
  "v1_outreach_history =
    \<lparr>tb_columns =
       [(''id'', required SInteger), (''tracking_id'', required SInteger), (''user_id'', required SInteger),
        (''checkpoint_type'', required (SString 50)), (''attempt_number'', required SInteger),
        (''channel'', optional (SString 20)), (''action'', optional (SString 50)),
        (''execution_mode'', defaulted (SString 10) (Literal ''SHADOW'')),
        (''simulated_status'', defaulted (SString 20) (Literal ''NOT_SENT'')), (''payload'', optional SJsonb),
        (''response_payload'', optional SJsonb), (''llm_analysis'', optional SJsonb),
        (''decision'', optional (SString 50)), (''state_before'', optional (SString 50)),
        (''state_after'', optional (SString 50)),
        (''created_at'', defaulted (SDateTime True) (Expression ''now()''))],
     tb_primary_key = [''id''],
     tb_foreign_keys = [([''tracking_id''], (pub ''student_outreach_tracking''), Some ''CASCADE'')],
     tb_uniques = []\<rparr>"

definition v1_state_transition_log :: table where
  "v1_state_transition_log =
    \<lparr>tb_columns =
       [(''id'', required SInteger), (''tracking_id'', required SInteger), (''user_id'', required SInteger),
        (''from_state'', required (SString 50)), (''to_state'', required (SString 50)),
        (''trigger'', optional (SString 100)), (''actor'', defaulted (SString 50) (Literal ''system'')),
        (''meta'', optional SJsonb), (''created_at'', defaulted (SDateTime True) (Expression ''now()''))],
     tb_primary_key = [''id''],
     tb_foreign_keys = [([''tracking_id''], (pub ''student_outreach_tracking''), Some ''CASCADE'')],
     tb_uniques = []\<rparr>"

definition v1_processed_events :: table where
  "v1_processed_events =
    \<lparr>tb_columns =
       [(''id'', required SInteger), (''event_hash'', required (SString 64)),
        (''event_type'', optional (SString 50)), (''user_id'', optional SInteger),
        (''raw_payload'', optional SJsonb),
        (''processed_at'', defaulted (SDateTime True) (Expression ''now()''))],
     tb_primary_key = [''id''],
     tb_foreign_keys = [],
     tb_uniques = [[''event_hash'']]\<rparr>"

definition v1_student_notes :: table where
  "v1_student_notes =
    \<lparr>tb_columns =
       [(''id'', required SInteger), (''user_id'', required SInteger),
        (''author'', defaulted (SString 100) (Literal ''system'')), (''content'', required SText),
        (''is_ai_generated'', defaulted SBoolean (Literal ''false'')), (''note_type'', optional (SString 50)),
        (''visibility'', optional (SString 50)),
        (''created_at'', defaulted (SDateTime True) (Expression ''now()''))],
     tb_primary_key = [''id''],
     tb_foreign_keys = [],
     tb_uniques = []\<rparr>"

definition v1_ai_insights :: table where
  "v1_ai_insights =
    \<lparr>tb_columns =
       [(''id'', required SInteger), (''user_id'', required SInteger),
        (''insight_type'', required (SString 50)), (''content_text'', optional SText),
        (''content_json'', optional SJsonb), (''model_used'', optional (SString 100)),
        (''created_at'', defaulted (SDateTime True) (Expression ''now()'')),
        (''expires_at'', optional (SDateTime True))],
     tb_primary_key = [''id''],
     tb_foreign_keys = [],
     tb_uniques = []\<rparr>"

definition v1_ghl_messages :: table where
  "v1_ghl_messages =
    \<lparr>tb_columns =
       [(''id'', required SInteger), (''ghl_message_id'', required (SString 100)),
        (''user_id'', optional SInteger), (''direction'', defaulted (SString 20) (Literal ''INBOUND'')),
        (''channel'', defaulted (SString 30) (Literal ''UNKNOWN'')), (''body'', optional SText),
        (''status'', optional (SString 50)), (''ghl_created_at'', optional (SDateTime True)),
        (''synced_at'', defaulted (SDateTime True) (Expression ''now()''))],
     tb_primary_key = [''id''],
     tb_foreign_keys = [],
     tb_uniques = [[''ghl_message_id'']]\<rparr>"

definition v1_student_campaign_activity :: table where
  "v1_student_campaign_activity =
    \<lparr>tb_columns =
       [(''id'', required SInteger), (''student_user_id'', required SInteger),
        (''activity_date'', optional (SDateTime True)), (''activity_type'', optional (SString 100)),
        (''activity_label'', optional (SString 200)), (''channel'', optional (SString 50)),
        (''subject'', optional (SString 300)), (''message_body'', optional SText),
        (''source'', defaulted (SString 100) (Literal ''operator'')), (''created_by'', optional (SString 100)),
        (''created_at'', defaulted (SDateTime True) (Expression ''now()'')),
        (''execution_mode'', defaulted (SString 20) (Literal ''SHADOW'')),
        (''shadow_only'', defaulted SBoolean (Literal ''true''))],
     tb_primary_key = [''id''],
     tb_foreign_keys = [],
     tb_uniques = []\<rparr>"

definition v1_student_quick_action_log :: table where
  "v1_student_quick_action_log =
    \<lparr>tb_columns =
       [(''id'', required SInteger), (''student_user_id'', required SInteger),
        (''action_key'', required (SString 100)), (''action_label'', optional (SString 200)),
        (''tab_name'', optional (SString 50)), (''status'', defaulted (SString 50) (Literal ''LOGGED'')),
        (''payload_json'', optional SJsonb), (''created_by'', optional (SString 100)),
        (''created_at'', defaulted (SDateTime True) (Expression ''now()'')),
        (''execution_mode'', defaulted (SString 20) (Literal ''SHADOW''))],
     tb_primary_key = [''id''],
     tb_foreign_keys = [],
     tb_uniques = []\<rparr>"

definition upgrade_0001 :: "ddl list" where
  "upgrade_0001 =
    [CreateTable (pub ''ai_chatbot_triggerdata'') v1_ai_chatbot_triggerdata,
     CreateTable (pub ''student_interview_prep'') v1_student_interview_prep,
     CreateTable (pub ''student_outreach_tracking'') v1_student_outreach_tracking,
     CreateIndex ''ix_sot_state'' (index_on (pub ''student_outreach_tracking'') [''state'']),
     CreateIndex ''ix_sot_user_id'' (index_on (pub ''student_outreach_tracking'') [''user_id'']),
     CreateIndex ''ix_sot_updated_at'' (index_on (pub ''student_outreach_tracking'') [''updated_at'']),
     CreateTable (pub ''outreach_history'') v1_outreach_history,
     CreateIndex ''ix_oh_user_id'' (index_on (pub ''outreach_history'') [''user_id'']),
     CreateIndex ''ix_oh_tracking_id'' (index_on (pub ''outreach_history'') [''tracking_id'']),
     CreateIndex ''ix_oh_created_at'' (index_on (pub ''outreach_history'') [''created_at'']),
     CreateIndex ''ix_oh_checkpoint'' (index_on (pub ''outreach_history'') [''checkpoint_type'']),
     CreateTable (pub ''state_transition_log'') v1_state_transition_log,
     CreateIndex ''ix_stl_tracking_id'' (index_on (pub ''state_transition_log'') [''tracking_id'']),
     CreateIndex ''ix_stl_user_id'' (index_on (pub ''state_transition_log'') [''user_id'']),
     CreateIndex ''ix_stl_created_at'' (index_on (pub ''state_transition_log'') [''created_at'']),
     CreateTable (pub ''processed_events'') v1_processed_events,
     CreateTable (pub ''student_notes'') v1_student_notes,
     CreateIndex ''ix_snotes_user_id'' (index_on (pub ''student_notes'') [''user_id'']),
     CreateTable (pub ''ai_insights'') v1_ai_insights,
     CreateIndex ''ix_ai_user_id'' (index_on (pub ''ai_insights'') [''user_id'']),
     CreateIndex ''ix_ai_type'' (index_on (pub ''ai_insights'') [''insight_type'']),
     CreateTable (pub ''ghl_messages'') v1_ghl_messages,
     CreateIndex ''ix_ghl_user_id'' (index_on (pub ''ghl_messages'') [''user_id'']),
     CreateIndex ''ix_ghl_synced_at'' (index_on (pub ''ghl_messages'') [''synced_at'']),
     CreateTable (pub ''student_campaign_activity'') v1_student_campaign_activity,
     CreateIndex ''ix_sca_student_user_id'' (index_on (pub ''student_campaign_activity'') [''student_user_id'']),
     CreateIndex ''ix_sca_created_at'' (index_on (pub ''student_campaign_activity'') [''created_at'']),
     CreateTable (pub ''student_quick_action_log'') v1_student_quick_action_log,
     CreateIndex ''ix_sqal_student_user_id'' (index_on (pub ''student_quick_action_log'') [''student_user_id''])]"

definition downgrade_0001 :: "ddl list" where
  "downgrade_0001 =
    [DropTable (pub ''student_quick_action_log''),
     DropTable (pub ''student_campaign_activity''),
     DropTable (pub ''ghl_messages''),
     DropTable (pub ''ai_insights''),
     DropTable (pub ''student_notes''),
     DropTable (pub ''processed_events''),
     DropTable (pub ''state_transition_log''),
     DropTable (pub ''outreach_history''),
     DropTable (pub ''student_outreach_tracking''),
     DropTable (pub ''student_interview_prep''),
     DropTable (pub ''ai_chatbot_triggerdata'')]"

section \<open>Revision 0002: warehouse and compliance audit\<close>

definition v2_student_snapshots :: table where
  "v2_student_snapshots =
    \<lparr>tb_columns =
       [(''id'', required SInteger), (''student_id'', required SInteger), (''snapshot_month'', required SDate),
        (''status'', required (SString 50)), (''lineage_version'', defaulted SInteger (Literal ''1'')),
        (''parent_snapshot_id'', optional SInteger),
        (''potentially_divergent'', defaulted SBoolean (Literal ''false'')),
        (''finalized_at'', optional (SDateTime True)), (''correlation_id'', optional SUuid),
        (''ss_first_name'', optional (SString 100)), (''ss_last_name'', optional (SString 100)),
        (''ss_email'', optional (SString 255)), (''ss_phone_number'', optional (SString 50)),
        (''ss_path_name'', optional (SString 100)), (''ss_hws_behind'', optional SInteger),
        (''ss_avg_eff_rating'', optional SFloat), (''ss_last_activity_days'', optional SInteger),
        (''ss_attendance_percentage'', optional SFloat), (''ss_current_section'', optional (SString 200)),
        (''ss_ipbc_start_date'', optional (SDateTime False)), (''ss_past_10_days_logon'', optional SInteger),
        (''ss_total_payments'', optional SFloat), (''ss_total_credits'', optional SFloat),
        (''ss_payment_balance'', optional SFloat), (''ss_class_value'', optional SFloat),
        (''ss_fee_paid'', optional SBoolean), (''ss_class_fees_paid'', optional SFloat),
        (''ss_class_name'', optional (SString 200)), (''ss_class_signups_id'', optional (SString 100)),
        (''ss_active_status'', optional (SString 50)), (''ss_status_i'', optional (SString 100)),
        (''ss_status_ii'', optional (SString 100)), (''ss_student_start_date'', optional (SDateTime False)),
        (''ss_class_start_date'', optional (SDateTime False)),
        (''ss_last_activity_section'', optional (SString 300)), (''ss_last_login_days'', optional SInteger),
        (''ss_last_submitted'', optional (SString 200)), (''segment_classification'', optional (SString 30)),
        (''payment_risk_label'', optional (SString 20)), (''hw_risk_score'', optional (SString 20)),
        (''actual_balance'', optional SFloat), (''is_bundle_deal'', optional SBoolean),
        (''weeks_in_program'', optional SInteger), (''days_since_last_submission'', optional SInteger),
        (''total_outreach_attempts'', optional SInteger), (''total_responses'', optional SInteger),
        (''last_contact_date'', optional SDate), (''days_since_last_contact'', optional SInteger),
        (''channel_breakdown_json'', optional SJsonb), (''fingerprint_schema_version'', optional SText),
        (''fingerprint_config_registry_version'', optional SText),
        (''fingerprint_report_template_version'', optional SText),
        (''fingerprint_ai_versions_json'', optional SJsonb),
        (''fingerprint_computed_at'', optional (SDateTime True)),
        (''created_at'', defaulted (SDateTime True) (Expression ''now()'')),
        (''execution_mode'', defaulted (SString 10) (Literal ''SHADOW'')),
        (''generated_by'', optional (SString 100))],
     tb_primary_key = [''id''],
     tb_foreign_keys = [([''parent_snapshot_id''], (ware ''student_snapshots''), None)],
     tb_uniques = []\<rparr>"

definition v2_snapshot_ai_narratives :: table where
  "v2_snapshot_ai_narratives =
    \<lparr>tb_columns =
       [(''id'', required SInteger), (''snapshot_id'', required SInteger),
        (''risk_summary_text'', optional SText), (''progress_summary_text'', optional SText),
        (''monthly_narrative_text'', optional SText), (''intervention_recommendation_text'', optional SText),
        (''trend_interpretation_text'', optional SText), (''copied_at'', required (SDateTime True)),
        (''ai_source_insight_id_hint'', optional SInteger)],
     tb_primary_key = [''id''],
     tb_foreign_keys = [([''snapshot_id''], (ware ''student_snapshots''), None)],
     tb_uniques = []\<rparr>"

definition v2_monthly_reports :: table where
  "v2_monthly_reports =
    \<lparr>tb_columns =
       [(''id'', required SInteger), (''cohort_id'', required (SString 200)),
        (''report_month'', required SDate), (''template_version'', required (SString 100)),
        (''lineage_version'', defaulted SInteger (Literal ''1'')), (''parent_report_id'', optional SInteger),
        (''status'', required (SString 50)),
        (''potentially_divergent'', defaulted SBoolean (Literal ''false'')),
        (''source_snapshot_fingerprint_json'', optional SJsonb), (''report_idempotency_key'', required SText),
        (''report_content_json'', optional SJsonb), (''aggregate_stats_json'', optional SJsonb),
        (''generated_at'', optional (SDateTime True)), (''published_at'', optional (SDateTime True)),
        (''generated_by'', optional (SString 100)), (''correlation_id'', optional SUuid),
        (''execution_mode'', defaulted (SString 10) (Literal ''SHADOW''))],
     tb_primary_key = [''id''],
     tb_foreign_keys = [([''parent_report_id''], (ware ''monthly_reports''), None)],
     tb_uniques = []\<rparr>"

definition v2_report_audit_log :: table where
  "v2_report_audit_log =
    \<lparr>tb_columns =
       [(''id'', required SInteger), (''report_id'', required SInteger),
        (''event_type'', required (SString 100)), (''report_idempotency_key'', optional SText),
        (''source_snapshot_fingerprint_json'', optional SJsonb), (''event_details_json'', optional SJsonb),
        (''correlation_id'', optional SUuid), (''actor'', optional (SString 100)),
        (''created_at'', defaulted (SDateTime True) (Expression ''now()''))],
     tb_primary_key = [''id''],
     tb_foreign_keys = [([''report_id''], (ware ''monthly_reports''), None)],
     tb_uniques = []\<rparr>"

definition v2_deletion_log :: table where
  "v2_deletion_log =
    \<lparr>tb_columns =
       [(''id'', required SInteger), (''workflow_id'', required SUuid),
        (''sequence_number'', required SInteger), (''entry_type'', required (SString 40)),
        (''student_id'', required SInteger), (''action_type'', required (SString 50)),
        (''authorization_timestamp'', optional (SDateTime True)), (''authorized_by'', optional (SString 200)),
        (''executed_by'', optional (SString 200)), (''audit_rationale'', required SText),
        (''scope_manifest_id'', optional SUuid), (''affected_tables_json'', optional SJsonb),
        (''affected_record_count'', optional SInteger), (''execution_details_json'', optional SJsonb),
        (''outcome'', optional (SString 50)), (''correlation_id'', optional SUuid),
        (''created_at'', defaulted (SDateTime True) (Expression ''now()''))],
     tb_primary_key = [''id''],
     tb_foreign_keys = [],
     tb_uniques = []\<rparr>"

definition v2_scope_manifests :: table where
  "v2_scope_manifests =
    \<lparr>tb_columns =
       [(''id'', required SInteger), (''manifest_id'', required SUuid), (''workflow_id'', required SUuid),
        (''student_id'', required SInteger), (''captured_at'', required (SDateTime True)),
        (''manifest_version'', defaulted SInteger (Literal ''1'')), (''tables_in_scope_json'', required SJsonb),
        (''created_at'', defaulted (SDateTime True) (Expression ''now()''))],
     tb_primary_key = [''id''],
     tb_foreign_keys = [],
     tb_uniques = []\<rparr>"

definition upgrade_0002 :: "ddl list" where
  "upgrade_0002 =
    [CreateSchema ''warehouse'',
     CreateSchema ''compliance_audit'',
     Access ''PUBLIC'' [RevokeUsage ''warehouse''],
     Access ''PUBLIC'' [RevokeUsage ''compliance_audit''],
     CreateTable (ware ''student_snapshots'') v2_student_snapshots,
     CreateIndex ''uq_wss_finalized_student_month'' (unique_for_status (ware ''student_snapshots'') [''student_id'', ''snapshot_month''] ''FINALIZED''),
     CreateIndex ''ix_wss_student_month'' (index_on (ware ''student_snapshots'') [''student_id'', ''snapshot_month'']),
     CreateIndex ''ix_wss_month_segment'' (index_on (ware ''student_snapshots'') [''snapshot_month'', ''segment_classification'']),
     CreateIndex ''ix_wss_student_id'' (index_on (ware ''student_snapshots'') [''student_id'']),
     CreateIndex ''ix_wss_fp_config'' (index_on (ware ''student_snapshots'') [''fingerprint_config_registry_version'']),
     CreateIndex ''ix_wss_fp_schema'' (index_on (ware ''student_snapshots'') [''fingerprint_schema_version'']),
     CreateTable (ware ''snapshot_ai_narratives'') v2_snapshot_ai_narratives,
     CreateIndex ''uq_wsan_snapshot_id'' (unique_on (ware ''snapshot_ai_narratives'') [''snapshot_id'']),
     CreateTable (ware ''monthly_reports'') v2_monthly_reports,
     CreateIndex ''uq_wmr_idempotency_key'' (unique_on (ware ''monthly_reports'') [''report_idempotency_key'']),
     CreateIndex ''uq_wmr_published_lineage'' (unique_for_status (ware ''monthly_reports'') [''cohort_id'', ''report_month'', ''lineage_version''] ''REPORT_PUBLISHED''),
     CreateIndex ''ix_wmr_cohort_month_status'' (index_on (ware ''monthly_reports'') [''cohort_id'', ''report_month'', ''status'']),
     CreateTable (ware ''report_audit_log'') v2_report_audit_log,
     CreateIndex ''ix_wral_report_id'' (index_on (ware ''report_audit_log'') [''report_id'']),
     CreateIndex ''ix_wral_correlation'' (index_on (ware ''report_audit_log'') [''correlation_id'']),
     CreateIndex ''ix_wral_created_at'' (index_on (ware ''report_audit_log'') [''created_at'']),
     CreateIndex ''ix_wral_event_type'' (index_on (ware ''report_audit_log'') [''event_type'']),
     CreateTable (audit ''deletion_log'') v2_deletion_log,
     CreateIndex ''ix_cadl_workflow_id'' (index_on (audit ''deletion_log'') [''workflow_id'']),
     CreateIndex ''ix_cadl_student_id'' (index_on (audit ''deletion_log'') [''student_id'']),
     CreateIndex ''ix_cadl_created_at'' (index_on (audit ''deletion_log'') [''created_at'']),
     CreateIndex ''ix_cadl_student_created'' (index_on (audit ''deletion_log'') [''student_id'', ''created_at'']),
     CreateTable (audit ''scope_manifests'') v2_scope_manifests,
     CreateIndex ''uq_casm_manifest_id'' (unique_on (audit ''scope_manifests'') [''manifest_id'']),
     CreateIndex ''ix_casm_workflow_version'' (index_on (audit ''scope_manifests'') [''workflow_id'', ''manifest_version'']),
     CreateIndex ''ix_casm_student_id'' (index_on (audit ''scope_manifests'') [''student_id'']),
     IfRole ''app_service_user''
        [GrantUsage ''warehouse'', GrantSelectAll ''warehouse'', GrantUsage ''compliance_audit'',
         GrantSelectAll ''compliance_audit''],
     IfRole ''finalization_service_user''
        [GrantUsage ''warehouse'', GrantInsert (ware ''student_snapshots''),
         GrantInsert (ware ''snapshot_ai_narratives''), GrantInsert (ware ''monthly_reports''),
         GrantInsert (ware ''report_audit_log''), GrantNumbersAll ''warehouse''],
     IfRole ''compliance_pathway_user''
        [GrantUsage ''compliance_audit'', GrantInsert (audit ''deletion_log''),
         GrantInsert (audit ''scope_manifests''), GrantNumbersAll ''compliance_audit'',
         GrantUsage ''warehouse'', GrantUpdate (ware ''student_snapshots'') [''status'']]]"

definition downgrade_0002 :: "ddl list" where
  "downgrade_0002 =
    [IfRole ''compliance_pathway_user''
        [RevokeUpdate (ware ''student_snapshots'') [''status''], RevokeTable (audit ''deletion_log''),
         RevokeTable (audit ''scope_manifests''), RevokeNumbersOf ''compliance_audit'',
         RevokeUsage ''compliance_audit'', RevokeUsage ''warehouse''],
     IfRole ''finalization_service_user''
        [RevokeTable (ware ''student_snapshots''), RevokeTable (ware ''snapshot_ai_narratives''),
         RevokeTable (ware ''monthly_reports''), RevokeTable (ware ''report_audit_log''),
         RevokeNumbersOf ''warehouse'', RevokeUsage ''warehouse''],
     IfRole ''app_service_user''
        [RevokeTablesOf ''warehouse'', RevokeTablesOf ''compliance_audit'', RevokeUsage ''warehouse'',
         RevokeUsage ''compliance_audit''],
     DropTable (audit ''scope_manifests''),
     DropTable (audit ''deletion_log''),
     DropTable (ware ''report_audit_log''),
     DropTable (ware ''snapshot_ai_narratives''),
     DropTable (ware ''monthly_reports''),
     DropTable (ware ''student_snapshots''),
     DropSchema ''compliance_audit'',
     DropSchema ''warehouse'']"

section \<open>Revision 0003: configuration registry\<close>

definition v3_config_version_registry :: table where
  "v3_config_version_registry =
    \<lparr>tb_columns =
       [(''id'', required SInteger), (''version_number'', required SInteger),
        (''status'', required (SString 50)), (''prior_version_id'', optional SInteger),
        (''superseded_by_version_id'', optional SInteger), (''effective_from'', optional (SDateTime True)),
        (''activated_at'', optional (SDateTime True)), (''activated_by'', optional (SString 200)),
        (''deactivated_at'', optional (SDateTime True)), (''proposed_by'', optional (SString 200)),
        (''approved_by'', optional (SString 200)), (''approval_timestamp'', optional (SDateTime True)),
        (''change_rationale'', optional SText), (''governance_notes'', optional SText),
        (''cap_hopeful_min_percomp'', required SFloat), (''launch_hopeful_min_percomp'', required SFloat),
        (''cap_section_exclusion_patterns_json'', required SJsonb),
        (''launch_section_inclusion_pattern'', required SText),
        (''placement_section_inclusion_pattern'', required SText),
        (''hw_at_risk_min_behind'', required SInteger), (''hw_at_risk_max_eff_rating'', required SFloat),
        (''hw_critical_min_behind'', required SInteger), (''hw_critical_max_eff_rating'', required SFloat),
        (''payment_medium_threshold'', required SFloat), (''payment_high_threshold'', required SFloat),
        (''payment_deviation_alert_threshold'', optional SFloat), (''priority_hw_weight'', required SFloat),
        (''priority_hw_cap'', required SFloat), (''priority_eff_weight'', required SFloat),
        (''priority_eff_cap'', required SFloat), (''priority_inactivity_weight'', required SFloat),
        (''priority_inactivity_cap'', required SFloat), (''ai_insight_ttl_hours'', required SInteger),
        (''outreach_retry_window_days'', required SInteger),
        (''placement_inactivity_alert_days'', required SInteger),
        (''access_revocation_alert_hours'', required SInteger), (''ai_llm_provider'', required SText),
        (''outreach_provider'', required SText), (''rule_set_snapshot_json'', optional SJsonb),
        (''created_at'', defaulted (SDateTime True) (Expression ''now()''))],
     tb_primary_key = [''id''],
     tb_foreign_keys = [([''prior_version_id''], (pub ''config_version_registry''), None), ([''superseded_by_version_id''], (pub ''config_version_registry''), None)],
     tb_uniques = []\<rparr>"

definition upgrade_0003 :: "ddl list" where
  "upgrade_0003 =
    [CreateTable (pub ''config_version_registry'') v3_config_version_registry,
     CreateIndex ''uq_cvr_version_number'' (unique_on (pub ''config_version_registry'') [''version_number'']),
     CreateIndex ''ix_cvr_prior_version_id'' (index_on (pub ''config_version_registry'') [''prior_version_id'']),
     CreateIndex ''ix_cvr_activated_at'' (index_on (pub ''config_version_registry'') [''activated_at'']),
     CreateIndex ''ix_cvr_status'' (index_on (pub ''config_version_registry'') [''status'']),
     CreateIndex ''uq_cvr_active_singleton'' (unique_for_status (pub ''config_version_registry'') [] ''ACTIVE''),
     IfRole ''app_service_user''
        [GrantSelect (pub ''config_version_registry'')],
     IfRole ''finalization_service_user''
        [GrantSelect (pub ''config_version_registry'')],
     IfRole ''config_admin_user''
        [GrantSelect (pub ''config_version_registry''), GrantInsert (pub ''config_version_registry''),
         GrantUpdate (pub ''config_version_registry'') [''status'', ''superseded_by_version_id'', ''deactivated_at''],
         GrantNumbers (pub ''config_version_registry'')]]"

definition downgrade_0003 :: "ddl list" where
  "downgrade_0003 =
    [IfRole ''config_admin_user''
        [RevokeTable (pub ''config_version_registry''), RevokeNumbers (pub ''config_version_registry'')],
     IfRole ''finalization_service_user''
        [RevokeTable (pub ''config_version_registry'')],
     IfRole ''app_service_user''
        [RevokeTable (pub ''config_version_registry'')],
     DropTable (pub ''config_version_registry'')]"

section \<open>Revision 0004: history of the mirror\<close>

definition v4_student_mirror_history :: table where
  "v4_student_mirror_history =
    \<lparr>tb_columns =
       [(''id'', required SInteger), (''snapshot_month'', required SDate),
        (''captured_at'', defaulted (SDateTime True) (Expression ''now()'')), (''UserID'', required SInteger),
        (''FirstName'', optional (SString 100)), (''LastName'', optional (SString 100)),
        (''Email'', optional (SString 255)), (''PhoneNumber'', optional (SString 50)),
        (''PathName'', optional (SString 100)), (''HWsBehind'', defaulted SInteger (Literal ''0'')),
        (''AvgEffRating'', defaulted SFloat (Literal ''0.0'')),
        (''LastActivityDays'', defaulted SInteger (Literal ''0'')), (''AttendancePercentage'', optional SFloat),
        (''CurrentSection'', optional (SString 200)), (''IPBCStartDate'', optional (SDateTime False)),
        (''Past10DaysLogon'', optional SInteger), (''Total_Payments'', optional SFloat),
        (''Total_Credits'', optional SFloat), (''PaymentBalance'', optional SFloat),
        (''ClassValue'', optional SFloat), (''FeePaid'', optional SBoolean),
        (''ClassFeesPaid'', optional SFloat), (''ClassName'', optional (SString 200)),
        (''ClassSignupsID'', optional (SString 100)), (''ActiveStatus'', optional (SString 50)),
        (''StatusI'', optional (SString 100)), (''StatusII'', optional (SString 100)),
        (''StudentStartDate'', optional (SDateTime False)), (''ClassStartDate'', optional (SDateTime False)),
        (''LastActivitySection'', optional (SString 300)), (''LastLoginDays'', optional SInteger),
        (''LastSubmitted'', optional (SString 200))],
     tb_primary_key = [''id''],
     tb_foreign_keys = [],
     tb_uniques = [[''snapshot_month'', ''UserID'']]\<rparr>"

definition upgrade_0004 :: "ddl list" where
  "upgrade_0004 =
    [CreateTable (pub ''student_mirror_history'') v4_student_mirror_history,
     CreateIndex ''ix_smh_snapshot_month'' (index_on (pub ''student_mirror_history'') [''snapshot_month'']),
     CreateIndex ''ix_smh_user_id'' (index_on (pub ''student_mirror_history'') [''UserID''])]"

definition downgrade_0004 :: "ddl list" where
  "downgrade_0004 =
    [DropIndex ''ix_smh_user_id'',
     DropIndex ''ix_smh_snapshot_month'',
     DropTable (pub ''student_mirror_history'')]"

section \<open>The chain\<close>

text \<open>Each revision with the one it follows, its upgrade and its downgrade.\<close>

definition revisions :: "(string \<times> string option \<times> ddl list \<times> ddl list) list" where
  "revisions = [(''0001'', None, upgrade_0001, downgrade_0001), (''0002'', Some ''0001'', upgrade_0002, downgrade_0002),
     (''0003'', Some ''0002'', upgrade_0003, downgrade_0003), (''0004'', Some ''0003'', upgrade_0004, downgrade_0004)]"

text \<open>\<^verbatim>\<open>alembic upgrade head\<close> on a database without any revision\<close>

definition upgrade_head :: "ddl list" where
  "upgrade_head = concat (map (\<lambda>(v, prev, ups, downs). ups) revisions)"

section \<open>Names of the columns\<close>

lemma v1_ai_chatbot_triggerdata_facts [simp]:
  "tb_foreign_keys v1_ai_chatbot_triggerdata = []"
  "fst ` set (tb_columns v1_ai_chatbot_triggerdata) =
    {''UserID'', ''FirstName'', ''LastName'', ''Email'', ''PhoneNumber'', ''PathName'', ''HWsBehind'',
     ''AvgEffRating'', ''LastActivityDays'', ''AttendancePercentage'', ''CurrentSection'', ''IPBCStartDate'',
     ''Past10DaysLogon'', ''Total_Payments'', ''Total_Credits'', ''PaymentBalance'', ''ClassValue'',
     ''FeePaid'', ''ClassFeesPaid'', ''ClassName'', ''ClassSignupsID'', ''ActiveStatus'', ''StatusI'',
     ''StatusII'', ''StudentStartDate'', ''ClassStartDate'', ''LastActivitySection'', ''LastLoginDays'',
     ''LastSubmitted''}"
  by (simp_all add: v1_ai_chatbot_triggerdata_def)

lemma v1_student_interview_prep_facts [simp]:
  "tb_foreign_keys v1_student_interview_prep = []"
  "fst ` set (tb_columns v1_student_interview_prep) =
    {''user_id'', ''raw_data'', ''synced_at''}"
  by (simp_all add: v1_student_interview_prep_def)

lemma v1_student_outreach_tracking_facts [simp]:
  "tb_foreign_keys v1_student_outreach_tracking = []"
  "fst ` set (tb_columns v1_student_outreach_tracking) =
    {''id'', ''user_id'', ''checkpoint_type'', ''state'', ''current_attempt'', ''last_contact_at'',
     ''next_retry_at'', ''created_at'', ''updated_at''}"
  by (simp_all add: v1_student_outreach_tracking_def)

lemma v1_outreach_history_facts [simp]:
  "tb_foreign_keys v1_outreach_history = [([''tracking_id''], (pub ''student_outreach_tracking''), Some ''CASCADE'')]"
  "fst ` set (tb_columns v1_outreach_history) =
    {''id'', ''tracking_id'', ''user_id'', ''checkpoint_type'', ''attempt_number'', ''channel'', ''action'',
     ''execution_mode'', ''simulated_status'', ''payload'', ''response_payload'', ''llm_analysis'',
     ''decision'', ''state_before'', ''state_after'', ''created_at''}"
  by (simp_all add: v1_outreach_history_def)

lemma v1_state_transition_log_facts [simp]:
  "tb_foreign_keys v1_state_transition_log = [([''tracking_id''], (pub ''student_outreach_tracking''), Some ''CASCADE'')]"
  "fst ` set (tb_columns v1_state_transition_log) =
    {''id'', ''tracking_id'', ''user_id'', ''from_state'', ''to_state'', ''trigger'', ''actor'', ''meta'',
     ''created_at''}"
  by (simp_all add: v1_state_transition_log_def)

lemma v1_processed_events_facts [simp]:
  "tb_foreign_keys v1_processed_events = []"
  "fst ` set (tb_columns v1_processed_events) =
    {''id'', ''event_hash'', ''event_type'', ''user_id'', ''raw_payload'', ''processed_at''}"
  by (simp_all add: v1_processed_events_def)

lemma v1_student_notes_facts [simp]:
  "tb_foreign_keys v1_student_notes = []"
  "fst ` set (tb_columns v1_student_notes) =
    {''id'', ''user_id'', ''author'', ''content'', ''is_ai_generated'', ''note_type'', ''visibility'',
     ''created_at''}"
  by (simp_all add: v1_student_notes_def)

lemma v1_ai_insights_facts [simp]:
  "tb_foreign_keys v1_ai_insights = []"
  "fst ` set (tb_columns v1_ai_insights) =
    {''id'', ''user_id'', ''insight_type'', ''content_text'', ''content_json'', ''model_used'', ''created_at'',
     ''expires_at''}"
  by (simp_all add: v1_ai_insights_def)

lemma v1_ghl_messages_facts [simp]:
  "tb_foreign_keys v1_ghl_messages = []"
  "fst ` set (tb_columns v1_ghl_messages) =
    {''id'', ''ghl_message_id'', ''user_id'', ''direction'', ''channel'', ''body'', ''status'',
     ''ghl_created_at'', ''synced_at''}"
  by (simp_all add: v1_ghl_messages_def)

lemma v1_student_campaign_activity_facts [simp]:
  "tb_foreign_keys v1_student_campaign_activity = []"
  "fst ` set (tb_columns v1_student_campaign_activity) =
    {''id'', ''student_user_id'', ''activity_date'', ''activity_type'', ''activity_label'', ''channel'',
     ''subject'', ''message_body'', ''source'', ''created_by'', ''created_at'', ''execution_mode'',
     ''shadow_only''}"
  by (simp_all add: v1_student_campaign_activity_def)

lemma v1_student_quick_action_log_facts [simp]:
  "tb_foreign_keys v1_student_quick_action_log = []"
  "fst ` set (tb_columns v1_student_quick_action_log) =
    {''id'', ''student_user_id'', ''action_key'', ''action_label'', ''tab_name'', ''status'', ''payload_json'',
     ''created_by'', ''created_at'', ''execution_mode''}"
  by (simp_all add: v1_student_quick_action_log_def)

lemma v2_student_snapshots_facts [simp]:
  "tb_foreign_keys v2_student_snapshots = [([''parent_snapshot_id''], (ware ''student_snapshots''), None)]"
  "fst ` set (tb_columns v2_student_snapshots) =
    {''id'', ''student_id'', ''snapshot_month'', ''status'', ''lineage_version'', ''parent_snapshot_id'',
     ''potentially_divergent'', ''finalized_at'', ''correlation_id'', ''ss_first_name'', ''ss_last_name'',
     ''ss_email'', ''ss_phone_number'', ''ss_path_name'', ''ss_hws_behind'', ''ss_avg_eff_rating'',
     ''ss_last_activity_days'', ''ss_attendance_percentage'', ''ss_current_section'', ''ss_ipbc_start_date'',
     ''ss_past_10_days_logon'', ''ss_total_payments'', ''ss_total_credits'', ''ss_payment_balance'',
     ''ss_class_value'', ''ss_fee_paid'', ''ss_class_fees_paid'', ''ss_class_name'', ''ss_class_signups_id'',
     ''ss_active_status'', ''ss_status_i'', ''ss_status_ii'', ''ss_student_start_date'',
     ''ss_class_start_date'', ''ss_last_activity_section'', ''ss_last_login_days'', ''ss_last_submitted'',
     ''segment_classification'', ''payment_risk_label'', ''hw_risk_score'', ''actual_balance'',
     ''is_bundle_deal'', ''weeks_in_program'', ''days_since_last_submission'', ''total_outreach_attempts'',
     ''total_responses'', ''last_contact_date'', ''days_since_last_contact'', ''channel_breakdown_json'',
     ''fingerprint_schema_version'', ''fingerprint_config_registry_version'',
     ''fingerprint_report_template_version'', ''fingerprint_ai_versions_json'', ''fingerprint_computed_at'',
     ''created_at'', ''execution_mode'', ''generated_by''}"
  by (simp_all add: v2_student_snapshots_def)

lemma v2_snapshot_ai_narratives_facts [simp]:
  "tb_foreign_keys v2_snapshot_ai_narratives = [([''snapshot_id''], (ware ''student_snapshots''), None)]"
  "fst ` set (tb_columns v2_snapshot_ai_narratives) =
    {''id'', ''snapshot_id'', ''risk_summary_text'', ''progress_summary_text'', ''monthly_narrative_text'',
     ''intervention_recommendation_text'', ''trend_interpretation_text'', ''copied_at'',
     ''ai_source_insight_id_hint''}"
  by (simp_all add: v2_snapshot_ai_narratives_def)

lemma v2_monthly_reports_facts [simp]:
  "tb_foreign_keys v2_monthly_reports = [([''parent_report_id''], (ware ''monthly_reports''), None)]"
  "fst ` set (tb_columns v2_monthly_reports) =
    {''id'', ''cohort_id'', ''report_month'', ''template_version'', ''lineage_version'', ''parent_report_id'',
     ''status'', ''potentially_divergent'', ''source_snapshot_fingerprint_json'', ''report_idempotency_key'',
     ''report_content_json'', ''aggregate_stats_json'', ''generated_at'', ''published_at'', ''generated_by'',
     ''correlation_id'', ''execution_mode''}"
  by (simp_all add: v2_monthly_reports_def)

lemma v2_report_audit_log_facts [simp]:
  "tb_foreign_keys v2_report_audit_log = [([''report_id''], (ware ''monthly_reports''), None)]"
  "fst ` set (tb_columns v2_report_audit_log) =
    {''id'', ''report_id'', ''event_type'', ''report_idempotency_key'', ''source_snapshot_fingerprint_json'',
     ''event_details_json'', ''correlation_id'', ''actor'', ''created_at''}"
  by (simp_all add: v2_report_audit_log_def)

lemma v2_deletion_log_facts [simp]:
  "tb_foreign_keys v2_deletion_log = []"
  "fst ` set (tb_columns v2_deletion_log) =
    {''id'', ''workflow_id'', ''sequence_number'', ''entry_type'', ''student_id'', ''action_type'',
     ''authorization_timestamp'', ''authorized_by'', ''executed_by'', ''audit_rationale'',
     ''scope_manifest_id'', ''affected_tables_json'', ''affected_record_count'', ''execution_details_json'',
     ''outcome'', ''correlation_id'', ''created_at''}"
  by (simp_all add: v2_deletion_log_def)

lemma v2_scope_manifests_facts [simp]:
  "tb_foreign_keys v2_scope_manifests = []"
  "fst ` set (tb_columns v2_scope_manifests) =
    {''id'', ''manifest_id'', ''workflow_id'', ''student_id'', ''captured_at'', ''manifest_version'',
     ''tables_in_scope_json'', ''created_at''}"
  by (simp_all add: v2_scope_manifests_def)

lemma v3_config_version_registry_facts [simp]:
  "tb_foreign_keys v3_config_version_registry = [([''prior_version_id''], (pub ''config_version_registry''), None), ([''superseded_by_version_id''], (pub ''config_version_registry''), None)]"
  "fst ` set (tb_columns v3_config_version_registry) =
    {''id'', ''version_number'', ''status'', ''prior_version_id'', ''superseded_by_version_id'',
     ''effective_from'', ''activated_at'', ''activated_by'', ''deactivated_at'', ''proposed_by'',
     ''approved_by'', ''approval_timestamp'', ''change_rationale'', ''governance_notes'',
     ''cap_hopeful_min_percomp'', ''launch_hopeful_min_percomp'', ''cap_section_exclusion_patterns_json'',
     ''launch_section_inclusion_pattern'', ''placement_section_inclusion_pattern'', ''hw_at_risk_min_behind'',
     ''hw_at_risk_max_eff_rating'', ''hw_critical_min_behind'', ''hw_critical_max_eff_rating'',
     ''payment_medium_threshold'', ''payment_high_threshold'', ''payment_deviation_alert_threshold'',
     ''priority_hw_weight'', ''priority_hw_cap'', ''priority_eff_weight'', ''priority_eff_cap'',
     ''priority_inactivity_weight'', ''priority_inactivity_cap'', ''ai_insight_ttl_hours'',
     ''outreach_retry_window_days'', ''placement_inactivity_alert_days'', ''access_revocation_alert_hours'',
     ''ai_llm_provider'', ''outreach_provider'', ''rule_set_snapshot_json'', ''created_at''}"
  by (simp_all add: v3_config_version_registry_def)

lemma v4_student_mirror_history_facts [simp]:
  "tb_foreign_keys v4_student_mirror_history = []"
  "fst ` set (tb_columns v4_student_mirror_history) =
    {''id'', ''snapshot_month'', ''captured_at'', ''UserID'', ''FirstName'', ''LastName'', ''Email'',
     ''PhoneNumber'', ''PathName'', ''HWsBehind'', ''AvgEffRating'', ''LastActivityDays'',
     ''AttendancePercentage'', ''CurrentSection'', ''IPBCStartDate'', ''Past10DaysLogon'', ''Total_Payments'',
     ''Total_Credits'', ''PaymentBalance'', ''ClassValue'', ''FeePaid'', ''ClassFeesPaid'', ''ClassName'',
     ''ClassSignupsID'', ''ActiveStatus'', ''StatusI'', ''StatusII'', ''StudentStartDate'', ''ClassStartDate'',
     ''LastActivitySection'', ''LastLoginDays'', ''LastSubmitted''}"
  by (simp_all add: v4_student_mirror_history_def)

end
