(* ===== verification/OrmModels.thy ===== *)
theory OrmModels
  imports SqlSchema
begin

text \<open>
  The tables of \<^verbatim>\<open>app/models.py\<close> as \<^verbatim>\<open>create_all\<close> builds
  them, and the start-up schema changes of \<^verbatim>\<open>init_db\<close> in
  \<^verbatim>\<open>app/database.py\<close>. Defaults that the models keep in Python are not part of the
  schema.
\<close>

section \<open>Models\<close>

definition orm_ai_chatbot_triggerdata :: table where
  "orm_ai_chatbot_triggerdata =
    \<lparr>tb_columns =
       [(''UserID'', required SInteger), (''FirstName'', optional (SString 100)),
        (''LastName'', optional (SString 100)), (''Email'', optional (SString 255)),
        (''PhoneNumber'', optional (SString 50)), (''PathName'', optional (SString 100)),
        (''HWsBehind'', required SInteger), (''AvgEffRating'', required SFloat),
        (''LastActivityDays'', required SInteger), (''AttendancePercentage'', optional SFloat),
        (''CurrentSection'', optional (SString 200)), (''IPBCStartDate'', optional (SDateTime False)),
        (''Past10DaysLogon'', optional SInteger), (''Total_Payments'', optional SFloat),
        (''Total_Credits'', optional SFloat), (''PaymentBalance'', optional SFloat),
        (''ClassValue'', optional SFloat), (''FeePaid'', optional SBoolean),
        (''ClassFeesPaid'', optional SFloat), (''ClassName'', optional (SString 200)),
        (''ClassSignupsID'', optional (SString 100)), (''ActiveStatus'', optional (SString 50)),
        (''StatusI'', optional (SString 100)), (''StatusII'', optional (SString 100)),
        (''StudentStartDate'', optional (SDateTime False)), (''ClassStartDate'', optional (SDateTime False)),
        (''LastActivitySection'', optional (SString 300)), (''LastLoginDays'', optional SInteger),
        (''LastSubmitted'', optional (SString 200)), (''plan_name'', optional (SString 200)),
        (''down_payment_amt'', optional SFloat)],
     tb_primary_key = [''UserID''],
     tb_foreign_keys = [],
     tb_uniques = []\<rparr>"

definition orm_student_interview_prep :: table where
  "orm_student_interview_prep =
    \<lparr>tb_columns =
       [(''user_id'', required SInteger), (''raw_data'', optional SJsonb),
        (''synced_at'', defaulted (SDateTime True) (Expression ''now()''))],
     tb_primary_key = [''user_id''],
     tb_foreign_keys = [],
     tb_uniques = []\<rparr>"

definition orm_student_outreach_tracking :: table where
  "orm_student_outreach_tracking =
    \<lparr>tb_columns =
       [(''id'', required SInteger), (''user_id'', required SInteger),
        (''checkpoint_type'', required (SString 50)), (''state'', required (SString 50)),
        (''current_attempt'', required SInteger), (''last_contact_at'', optional (SDateTime True)),
        (''next_retry_at'', optional (SDateTime True)), (''correlation_id'', optional (SString 36)),
        (''execution_mode'', required (SString 20)),
        (''created_at'', defaulted (SDateTime True) (Expression ''now()'')),
        (''updated_at'', defaulted (SDateTime True) (Expression ''now()''))],
     tb_primary_key = [''id''],
     tb_foreign_keys = [],
     tb_uniques = [[''user_id'', ''checkpoint_type'']]\<rparr>"

definition orm_outreach_history :: table where
  "orm_outreach_history =
    \<lparr>tb_columns =
       [(''id'', required SInteger), (''tracking_id'', required SInteger), (''user_id'', required SInteger),
        (''checkpoint_type'', required (SString 50)), (''attempt_number'', required SInteger),
        (''channel'', optional (SString 20)), (''action'', optional (SString 50)),
        (''execution_mode'', required (SString 20)), (''simulated_status'', required (SString 20)),
        (''payload'', optional SJsonb), (''response_payload'', optional SJsonb),
        (''llm_analysis'', optional SJsonb), (''decision'', optional (SString 50)),
        (''state_before'', optional (SString 50)), (''state_after'', optional (SString 50)),
        (''correlation_id'', optional (SString 36)), (''causation_id'', optional (SString 36)),
        (''config_version_id'', optional (SString 100)), (''execution_type'', required (SString 30)),
        (''governance_scope'', required (SString 30)), (''orchestration_cycle_id'', optional (SString 36)),
        (''origin_source'', optional (SString 100)), (''origin_authority'', optional (SString 100)),
        (''is_replay'', required SBoolean), (''attribution_complete'', required SBoolean),
        (''idempotency_key'', optional (SString 200)), (''replay_context'', optional SJsonb),
        (''created_at'', defaulted (SDateTime True) (Expression ''now()''))],
     tb_primary_key = [''id''],
     tb_foreign_keys = [([''tracking_id''], (pub ''student_outreach_tracking''), None)],
     tb_uniques = []\<rparr>"

definition orm_state_transition_log :: table where
  "orm_state_transition_log =
    \<lparr>tb_columns =
       [(''id'', required SInteger), (''tracking_id'', required SInteger), (''user_id'', required SInteger),
        (''from_state'', required (SString 50)), (''to_state'', required (SString 50)),
        (''trigger'', required (SString 100)), (''actor'', required (SString 50)), (''meta'', optional SJsonb),
        (''correlation_id'', optional (SString 36)), (''causation_id'', optional (SString 36)),
        (''config_version_id'', optional (SString 100)), (''execution_mode'', required (SString 20)),
        (''execution_type'', required (SString 30)), (''governance_scope'', required (SString 30)),
        (''origin_source'', optional (SString 100)), (''origin_authority'', optional (SString 100)),
        (''is_replay'', required SBoolean), (''attribution_complete'', required SBoolean),
        (''created_at'', defaulted (SDateTime True) (Expression ''now()''))],
     tb_primary_key = [''id''],
     tb_foreign_keys = [([''tracking_id''], (pub ''student_outreach_tracking''), None)],
     tb_uniques = []\<rparr>"

definition orm_processed_events :: table where
  "orm_processed_events =
    \<lparr>tb_columns =
       [(''id'', required SInteger), (''event_hash'', required (SString 64)),
        (''event_type'', optional (SString 50)), (''user_id'', optional SInteger),
        (''raw_payload'', optional SJsonb), (''correlation_id'', optional (SString 36)),
        (''execution_mode'', required (SString 20)), (''execution_type'', required (SString 30)),
        (''governance_scope'', required (SString 30)),
        (''processed_at'', defaulted (SDateTime True) (Expression ''now()''))],
     tb_primary_key = [''id''],
     tb_foreign_keys = [],
     tb_uniques = [[''event_hash'']]\<rparr>"

definition orm_student_notes :: table where
  "orm_student_notes =
    \<lparr>tb_columns =
       [(''id'', required SInteger), (''user_id'', required SInteger), (''author'', required (SString 100)),
        (''content'', required SText), (''is_ai_generated'', required SBoolean),
        (''note_type'', optional (SString 50)), (''visibility'', optional (SString 50)),
        (''created_at'', defaulted (SDateTime True) (Expression ''now()''))],
     tb_primary_key = [''id''],
     tb_foreign_keys = [],
     tb_uniques = []\<rparr>"

definition orm_ai_insights :: table where
  "orm_ai_insights =
    \<lparr>tb_columns =
       [(''id'', required SInteger), (''user_id'', required SInteger),
        (''insight_type'', required (SString 50)), (''content_text'', optional SText),
        (''content_json'', optional SJsonb), (''model_used'', optional (SString 100)),
        (''is_finalized'', required SBoolean), (''finalized_at'', optional (SDateTime True)),
        (''correlation_id'', optional (SString 36)), (''causation_id'', optional (SString 36)),
        (''config_version_id'', optional (SString 100)), (''execution_mode'', required (SString 20)),
        (''execution_type'', required (SString 30)), (''governance_scope'', required (SString 30)),
        (''origin_source'', optional (SString 100)), (''origin_authority'', optional (SString 100)),
        (''is_replay'', required SBoolean), (''created_at'', defaulted (SDateTime True) (Expression ''now()'')),
        (''expires_at'', optional (SDateTime True))],
     tb_primary_key = [''id''],
     tb_foreign_keys = [],
     tb_uniques = []\<rparr>"

definition orm_ghl_messages :: table where
  "orm_ghl_messages =
    \<lparr>tb_columns =
       [(''id'', required SInteger), (''ghl_message_id'', required (SString 100)),
        (''user_id'', optional SInteger), (''direction'', required (SString 20)),
        (''channel'', required (SString 30)), (''body'', optional SText), (''status'', optional (SString 50)),
        (''ghl_created_at'', optional (SDateTime True)),
        (''synced_at'', defaulted (SDateTime True) (Expression ''now()''))],
     tb_primary_key = [''id''],
     tb_foreign_keys = [],
     tb_uniques = [[''ghl_message_id'']]\<rparr>"

definition orm_student_campaign_activity :: table where
  "orm_student_campaign_activity =
    \<lparr>tb_columns =
       [(''id'', required SInteger), (''student_user_id'', required SInteger),
        (''activity_date'', optional (SDateTime True)), (''activity_type'', optional (SString 100)),
        (''activity_label'', optional (SString 200)), (''channel'', optional (SString 50)),
        (''subject'', optional (SString 300)), (''message_body'', optional SText),
        (''source'', required (SString 100)), (''created_by'', optional (SString 100)),
        (''execution_mode'', required (SString 20)), (''shadow_only'', required SBoolean),
        (''correlation_id'', optional (SString 36)), (''causation_id'', optional (SString 36)),
        (''config_version_id'', optional (SString 100)), (''execution_type'', required (SString 30)),
        (''governance_scope'', required (SString 30)), (''is_replay'', required SBoolean),
        (''attribution_complete'', required SBoolean),
        (''created_at'', defaulted (SDateTime True) (Expression ''now()''))],
     tb_primary_key = [''id''],
     tb_foreign_keys = [],
     tb_uniques = []\<rparr>"

definition orm_mentorship_assignments :: table where
  "orm_mentorship_assignments =
    \<lparr>tb_columns =
       [(''user_id'', required SInteger), (''mm_mentor'', optional (SString 200)),
        (''mentor_email'', optional (SString 255)), (''supermentor'', optional (SString 200)),
        (''supermentor_email'', optional (SString 255)), (''ipbc_instructor'', optional (SString 200)),
        (''ipbc_instructor_email'', optional (SString 255)),
        (''synced_at'', defaulted (SDateTime True) (Expression ''now()''))],
     tb_primary_key = [''user_id''],
     tb_foreign_keys = [],
     tb_uniques = []\<rparr>"

definition orm_student_quick_action_log :: table where
  "orm_student_quick_action_log =
    \<lparr>tb_columns =
       [(''id'', required SInteger), (''student_user_id'', required SInteger),
        (''action_key'', required (SString 100)), (''action_label'', optional (SString 200)),
        (''tab_name'', optional (SString 50)), (''status'', required (SString 50)),
        (''payload_json'', optional SJsonb), (''created_by'', optional (SString 100)),
        (''execution_mode'', required (SString 20)), (''correlation_id'', optional (SString 36)),
        (''causation_id'', optional (SString 36)), (''config_version_id'', optional (SString 100)),
        (''execution_type'', required (SString 30)), (''governance_scope'', required (SString 30)),
        (''is_replay'', required SBoolean), (''attribution_complete'', required SBoolean),
        (''created_at'', defaulted (SDateTime True) (Expression ''now()''))],
     tb_primary_key = [''id''],
     tb_foreign_keys = [],
     tb_uniques = []\<rparr>"

text \<open>The tables with their indexes, those that are referred to first.\<close>

definition orm_tables :: "ddl list" where
  "orm_tables =
    [CreateMissing (pub ''ai_chatbot_triggerdata'') orm_ai_chatbot_triggerdata
        [],
     CreateMissing (pub ''student_interview_prep'') orm_student_interview_prep
        [],
     CreateMissing (pub ''student_outreach_tracking'') orm_student_outreach_tracking
        [(''ix_sot_state'', index_on (pub ''student_outreach_tracking'') [''state'']),
         (''ix_sot_user_id'', index_on (pub ''student_outreach_tracking'') [''user_id'']),
         (''ix_sot_updated_at'', index_on (pub ''student_outreach_tracking'') [''updated_at''])],
     CreateMissing (pub ''outreach_history'') orm_outreach_history
        [(''ix_oh_user_id'', index_on (pub ''outreach_history'') [''user_id'']),
         (''ix_oh_tracking_id'', index_on (pub ''outreach_history'') [''tracking_id'']),
         (''ix_oh_created_at'', index_on (pub ''outreach_history'') [''created_at'']),
         (''ix_oh_checkpoint'', index_on (pub ''outreach_history'') [''checkpoint_type'']),
         (''ix_oh_is_replay'', index_on (pub ''outreach_history'') [''is_replay'']),
         (''ix_oh_correlation_id'', index_on (pub ''outreach_history'') [''correlation_id''])],
     CreateMissing (pub ''state_transition_log'') orm_state_transition_log
        [(''ix_stl_tracking_id'', index_on (pub ''state_transition_log'') [''tracking_id'']),
         (''ix_stl_user_id'', index_on (pub ''state_transition_log'') [''user_id'']),
         (''ix_stl_created_at'', index_on (pub ''state_transition_log'') [''created_at'']),
         (''ix_stl_is_replay'', index_on (pub ''state_transition_log'') [''is_replay'']),
         (''ix_stl_correlation_id'', index_on (pub ''state_transition_log'') [''correlation_id''])],
     CreateMissing (pub ''processed_events'') orm_processed_events
        [],
     CreateMissing (pub ''student_notes'') orm_student_notes
        [(''ix_snotes_user_id'', index_on (pub ''student_notes'') [''user_id''])],
     CreateMissing (pub ''ai_insights'') orm_ai_insights
        [(''ix_ai_user_id'', index_on (pub ''ai_insights'') [''user_id'']),
         (''ix_ai_type'', index_on (pub ''ai_insights'') [''insight_type'']),
         (''ix_ai_is_finalized'', index_on (pub ''ai_insights'') [''is_finalized'']),
         (''ix_ai_is_replay'', index_on (pub ''ai_insights'') [''is_replay'']),
         (''ix_ai_correlation_id'', index_on (pub ''ai_insights'') [''correlation_id''])],
     CreateMissing (pub ''ghl_messages'') orm_ghl_messages
        [(''ix_ghl_user_id'', index_on (pub ''ghl_messages'') [''user_id'']),
         (''ix_ghl_synced_at'', index_on (pub ''ghl_messages'') [''synced_at''])],
     CreateMissing (pub ''student_campaign_activity'') orm_student_campaign_activity
        [(''ix_sca_student_user_id'', index_on (pub ''student_campaign_activity'') [''student_user_id'']),
         (''ix_sca_created_at'', index_on (pub ''student_campaign_activity'') [''created_at'']),
         (''ix_sca_is_replay'', index_on (pub ''student_campaign_activity'') [''is_replay''])],
     CreateMissing (pub ''mentorship_assignments'') orm_mentorship_assignments
        [],
     CreateMissing (pub ''student_quick_action_log'') orm_student_quick_action_log
        [(''ix_sqal_student_user_id'', index_on (pub ''student_quick_action_log'') [''student_user_id'']),
         (''ix_sqal_is_replay'', index_on (pub ''student_quick_action_log'') [''is_replay''])]]"

section \<open>Start-up changes\<close>

definition new_trigger_cols :: "(string \<times> sql_type) list" where
  "new_trigger_cols =
    [(''AttendancePercentage'', SFloat), (''CurrentSection'', SString 200),
     (''IPBCStartDate'', SDateTime False), (''Past10DaysLogon'', SInteger), (''Total_Payments'', SFloat),
     (''Total_Credits'', SFloat), (''PaymentBalance'', SFloat), (''ClassValue'', SFloat),
     (''FeePaid'', SBoolean), (''ClassFeesPaid'', SFloat), (''ClassName'', SString 200),
     (''ClassSignupsID'', SString 100), (''ActiveStatus'', SString 50), (''StatusI'', SString 100),
     (''StatusII'', SString 100), (''StudentStartDate'', SDateTime False),
     (''ClassStartDate'', SDateTime False), (''LastActivitySection'', SString 300),
     (''LastLoginDays'', SInteger), (''LastSubmitted'', SString 200), (''plan_name'', SString 200),
     (''down_payment_amt'', SFloat)]"

definition governance_cols :: "(string \<times> string \<times> sql_type \<times> default_value option) list" where
  "governance_cols =
    [(''student_outreach_tracking'', ''correlation_id'', SString 36, None),
     (''student_outreach_tracking'', ''execution_mode'', SString 20, Some (Literal ''SHADOW'')),
     (''outreach_history'', ''correlation_id'', SString 36, None),
     (''outreach_history'', ''causation_id'', SString 36, None),
     (''outreach_history'', ''config_version_id'', SString 100, None),
     (''outreach_history'', ''execution_type'', SString 30, Some (Literal ''original'')),
     (''outreach_history'', ''governance_scope'', SString 30, Some (Literal ''SHADOW_ONLY'')),
     (''outreach_history'', ''orchestration_cycle_id'', SString 36, None),
     (''outreach_history'', ''origin_source'', SString 100, None),
     (''outreach_history'', ''origin_authority'', SString 100, None),
     (''outreach_history'', ''is_replay'', SBoolean, Some (Expression ''FALSE'')),
     (''outreach_history'', ''attribution_complete'', SBoolean, Some (Expression ''FALSE'')),
     (''outreach_history'', ''idempotency_key'', SString 200, None),
     (''outreach_history'', ''replay_context'', SJsonb, None),
     (''state_transition_log'', ''correlation_id'', SString 36, None),
     (''state_transition_log'', ''causation_id'', SString 36, None),
     (''state_transition_log'', ''config_version_id'', SString 100, None),
     (''state_transition_log'', ''execution_mode'', SString 20, Some (Literal ''SHADOW'')),
     (''state_transition_log'', ''execution_type'', SString 30, Some (Literal ''original'')),
     (''state_transition_log'', ''governance_scope'', SString 30, Some (Literal ''SHADOW_ONLY'')),
     (''state_transition_log'', ''origin_source'', SString 100, None),
     (''state_transition_log'', ''origin_authority'', SString 100, None),
     (''state_transition_log'', ''is_replay'', SBoolean, Some (Expression ''FALSE'')),
     (''state_transition_log'', ''attribution_complete'', SBoolean, Some (Expression ''FALSE'')),
     (''processed_events'', ''correlation_id'', SString 36, None),
     (''processed_events'', ''execution_mode'', SString 20, Some (Literal ''SHADOW'')),
     (''processed_events'', ''execution_type'', SString 30, Some (Literal ''original'')),
     (''processed_events'', ''governance_scope'', SString 30, Some (Literal ''SHADOW_ONLY'')),
     (''ai_insights'', ''is_finalized'', SBoolean, Some (Expression ''FALSE'')),
     (''ai_insights'', ''finalized_at'', SDateTime True, None),
     (''ai_insights'', ''correlation_id'', SString 36, None),
     (''ai_insights'', ''causation_id'', SString 36, None),
     (''ai_insights'', ''config_version_id'', SString 100, None),
     (''ai_insights'', ''execution_mode'', SString 20, Some (Literal ''SHADOW'')),
     (''ai_insights'', ''execution_type'', SString 30, Some (Literal ''original'')),
     (''ai_insights'', ''governance_scope'', SString 30, Some (Literal ''SHADOW_ONLY'')),
     (''ai_insights'', ''origin_source'', SString 100, None),
     (''ai_insights'', ''origin_authority'', SString 100, None),
     (''ai_insights'', ''is_replay'', SBoolean, Some (Expression ''FALSE'')),
     (''student_campaign_activity'', ''correlation_id'', SString 36, None),
     (''student_campaign_activity'', ''causation_id'', SString 36, None),
     (''student_campaign_activity'', ''config_version_id'', SString 100, None),
     (''student_campaign_activity'', ''execution_type'', SString 30, Some (Literal ''original'')),
     (''student_campaign_activity'', ''governance_scope'', SString 30, Some (Literal ''SHADOW_ONLY'')),
     (''student_campaign_activity'', ''is_replay'', SBoolean, Some (Expression ''FALSE'')),
     (''student_campaign_activity'', ''attribution_complete'', SBoolean, Some (Expression ''FALSE'')),
     (''student_quick_action_log'', ''correlation_id'', SString 36, None),
     (''student_quick_action_log'', ''causation_id'', SString 36, None),
     (''student_quick_action_log'', ''config_version_id'', SString 100, None),
     (''student_quick_action_log'', ''execution_type'', SString 30, Some (Literal ''original'')),
     (''student_quick_action_log'', ''governance_scope'', SString 30, Some (Literal ''SHADOW_ONLY'')),
     (''student_quick_action_log'', ''is_replay'', SBoolean, Some (Expression ''FALSE'')),
     (''student_quick_action_log'', ''attribution_complete'', SBoolean, Some (Expression ''FALSE''))]"

definition preparation_indexes :: "(string \<times> string \<times> string) list" where
  "preparation_indexes =
    [(''ix_stl_created_at'', ''state_transition_log'', ''created_at''),
     (''ix_sot_updated_at'', ''student_outreach_tracking'', ''updated_at''),
     (''ix_oh_checkpoint'', ''outreach_history'', ''checkpoint_type''),
     (''ix_sca_created_at'', ''student_campaign_activity'', ''created_at''),
     (''ix_oh_is_replay'', ''outreach_history'', ''is_replay''),
     (''ix_oh_correlation_id'', ''outreach_history'', ''correlation_id''),
     (''ix_stl_is_replay'', ''state_transition_log'', ''is_replay''),
     (''ix_stl_correlation_id'', ''state_transition_log'', ''correlation_id''),
     (''ix_ai_is_finalized'', ''ai_insights'', ''is_finalized''),
     (''ix_ai_is_replay'', ''ai_insights'', ''is_replay''),
     (''ix_ai_correlation_id'', ''ai_insights'', ''correlation_id''),
     (''ix_sca_is_replay'', ''student_campaign_activity'', ''is_replay''),
     (''ix_sqal_is_replay'', ''student_quick_action_log'', ''is_replay'')]"

definition governance_column :: "sql_type \<Rightarrow> default_value option \<Rightarrow> column" where
  "governance_column ty d = (case d of None \<Rightarrow> optional ty | Some e \<Rightarrow> defaulted ty e)"

definition init_db :: "ddl list" where
  "init_db = orm_tables
     @ map (\<lambda>(c, ty). AddColumn (pub ''ai_chatbot_triggerdata'') c (optional ty)) new_trigger_cols
     @ [AddColumn (pub ''student_notes'') ''note_type'' (optional (SString 50)),
        AddColumn (pub ''student_notes'') ''visibility'' (optional (SString 50))]
     @ map (\<lambda>(n, c, ty, d). AddColumn (pub n) c (governance_column ty d)) governance_cols
     @ map (\<lambda>(k, n, c). CreateIndexMissing k (index_on (pub n) [c])) preparation_indexes"

section \<open>Names of the columns\<close>

lemma orm_ai_chatbot_triggerdata_facts [simp]:
  "tb_foreign_keys orm_ai_chatbot_triggerdata = []"
  "fst ` set (tb_columns orm_ai_chatbot_triggerdata) =
    {''UserID'', ''FirstName'', ''LastName'', ''Email'', ''PhoneNumber'', ''PathName'', ''HWsBehind'',
     ''AvgEffRating'', ''LastActivityDays'', ''AttendancePercentage'', ''CurrentSection'', ''IPBCStartDate'',
     ''Past10DaysLogon'', ''Total_Payments'', ''Total_Credits'', ''PaymentBalance'', ''ClassValue'',
     ''FeePaid'', ''ClassFeesPaid'', ''ClassName'', ''ClassSignupsID'', ''ActiveStatus'', ''StatusI'',
     ''StatusII'', ''StudentStartDate'', ''ClassStartDate'', ''LastActivitySection'', ''LastLoginDays'',
     ''LastSubmitted'', ''plan_name'', ''down_payment_amt''}"
  by (simp_all add: orm_ai_chatbot_triggerdata_def)

lemma orm_student_interview_prep_facts [simp]:
  "tb_foreign_keys orm_student_interview_prep = []"
  "fst ` set (tb_columns orm_student_interview_prep) =
    {''user_id'', ''raw_data'', ''synced_at''}"
  by (simp_all add: orm_student_interview_prep_def)

lemma orm_student_outreach_tracking_facts [simp]:
  "tb_foreign_keys orm_student_outreach_tracking = []"
  "fst ` set (tb_columns orm_student_outreach_tracking) =
    {''id'', ''user_id'', ''checkpoint_type'', ''state'', ''current_attempt'', ''last_contact_at'',
     ''next_retry_at'', ''correlation_id'', ''execution_mode'', ''created_at'', ''updated_at''}"
  by (simp_all add: orm_student_outreach_tracking_def)

lemma orm_outreach_history_facts [simp]:
  "tb_foreign_keys orm_outreach_history = [([''tracking_id''], (pub ''student_outreach_tracking''), None)]"
  "fst ` set (tb_columns orm_outreach_history) =
    {''id'', ''tracking_id'', ''user_id'', ''checkpoint_type'', ''attempt_number'', ''channel'', ''action'',
     ''execution_mode'', ''simulated_status'', ''payload'', ''response_payload'', ''llm_analysis'',
     ''decision'', ''state_before'', ''state_after'', ''correlation_id'', ''causation_id'',
     ''config_version_id'', ''execution_type'', ''governance_scope'', ''orchestration_cycle_id'',
     ''origin_source'', ''origin_authority'', ''is_replay'', ''attribution_complete'', ''idempotency_key'',
     ''replay_context'', ''created_at''}"
  by (simp_all add: orm_outreach_history_def)

lemma orm_state_transition_log_facts [simp]:
  "tb_foreign_keys orm_state_transition_log = [([''tracking_id''], (pub ''student_outreach_tracking''), None)]"
  "fst ` set (tb_columns orm_state_transition_log) =
    {''id'', ''tracking_id'', ''user_id'', ''from_state'', ''to_state'', ''trigger'', ''actor'', ''meta'',
     ''correlation_id'', ''causation_id'', ''config_version_id'', ''execution_mode'', ''execution_type'',
     ''governance_scope'', ''origin_source'', ''origin_authority'', ''is_replay'', ''attribution_complete'',
     ''created_at''}"
  by (simp_all add: orm_state_transition_log_def)

lemma orm_processed_events_facts [simp]:
  "tb_foreign_keys orm_processed_events = []"
  "fst ` set (tb_columns orm_processed_events) =
    {''id'', ''event_hash'', ''event_type'', ''user_id'', ''raw_payload'', ''correlation_id'',
     ''execution_mode'', ''execution_type'', ''governance_scope'', ''processed_at''}"
  by (simp_all add: orm_processed_events_def)

lemma orm_student_notes_facts [simp]:
  "tb_foreign_keys orm_student_notes = []"
  "fst ` set (tb_columns orm_student_notes) =
    {''id'', ''user_id'', ''author'', ''content'', ''is_ai_generated'', ''note_type'', ''visibility'',
     ''created_at''}"
  by (simp_all add: orm_student_notes_def)

lemma orm_ai_insights_facts [simp]:
  "tb_foreign_keys orm_ai_insights = []"
  "fst ` set (tb_columns orm_ai_insights) =
    {''id'', ''user_id'', ''insight_type'', ''content_text'', ''content_json'', ''model_used'',
     ''is_finalized'', ''finalized_at'', ''correlation_id'', ''causation_id'', ''config_version_id'',
     ''execution_mode'', ''execution_type'', ''governance_scope'', ''origin_source'', ''origin_authority'',
     ''is_replay'', ''created_at'', ''expires_at''}"
  by (simp_all add: orm_ai_insights_def)

lemma orm_ghl_messages_facts [simp]:
  "tb_foreign_keys orm_ghl_messages = []"
  "fst ` set (tb_columns orm_ghl_messages) =
    {''id'', ''ghl_message_id'', ''user_id'', ''direction'', ''channel'', ''body'', ''status'',
     ''ghl_created_at'', ''synced_at''}"
  by (simp_all add: orm_ghl_messages_def)

lemma orm_student_campaign_activity_facts [simp]:
  "tb_foreign_keys orm_student_campaign_activity = []"
  "fst ` set (tb_columns orm_student_campaign_activity) =
    {''id'', ''student_user_id'', ''activity_date'', ''activity_type'', ''activity_label'', ''channel'',
     ''subject'', ''message_body'', ''source'', ''created_by'', ''execution_mode'', ''shadow_only'',
     ''correlation_id'', ''causation_id'', ''config_version_id'', ''execution_type'', ''governance_scope'',
     ''is_replay'', ''attribution_complete'', ''created_at''}"
  by (simp_all add: orm_student_campaign_activity_def)

lemma orm_mentorship_assignments_facts [simp]:
  "tb_foreign_keys orm_mentorship_assignments = []"
  "fst ` set (tb_columns orm_mentorship_assignments) =
    {''user_id'', ''mm_mentor'', ''mentor_email'', ''supermentor'', ''supermentor_email'', ''ipbc_instructor'',
     ''ipbc_instructor_email'', ''synced_at''}"
  by (simp_all add: orm_mentorship_assignments_def)

lemma orm_student_quick_action_log_facts [simp]:
  "tb_foreign_keys orm_student_quick_action_log = []"
  "fst ` set (tb_columns orm_student_quick_action_log) =
    {''id'', ''student_user_id'', ''action_key'', ''action_label'', ''tab_name'', ''status'', ''payload_json'',
     ''created_by'', ''execution_mode'', ''correlation_id'', ''causation_id'', ''config_version_id'',
     ''execution_type'', ''governance_scope'', ''is_replay'', ''attribution_complete'', ''created_at''}"
  by (simp_all add: orm_student_quick_action_log_def)

end
