(* ===== verification/SchemaProps.thy ===== *)
theory SchemaProps
  imports Migrations OrmModels
begin

text \<open>
  Properties of the schema changes: the start-up changes can be repeated and keep what exists, each
  revision is undone by its downgrade, what an upgraded and a fresh installation have in common,
  and what the accounts may do that the migrations provide for.
\<close>

section \<open>Sequences of statements\<close>

lemma each_append: "each f (xs @ ys) s = Option.bind (each f xs s) (each f ys)"
  by (induction xs arbitrary: s) (auto split: Option.bind_split)

lemma exec_all_simps [simp]:
  "exec_all [] d = Some d" "exec_all (op # ops) d = Option.bind (exec_ddl op d) (exec_all ops)"
  by (simp_all add: exec_all_def)

lemma exec_all_append: "exec_all (ops @ ops') d = Option.bind (exec_all ops d) (exec_all ops')"
  by (simp add: exec_all_def each_append)

text \<open>An invariant of every step is one of the sequence.\<close>

lemma each_invariant:
  assumes "each f xs s = Some s'" and "P s"
    and "\<And>x s s'. x \<in> set xs \<Longrightarrow> f x s = Some s' \<Longrightarrow> P s \<Longrightarrow> P s'"
  shows "P s'"
  using assms
proof (induction xs arbitrary: s)
  case (Cons x xs)
  then obtain e where e: "f x s = Some e" and "each f xs e = Some s'" by (auto split: bind_splits)
  have "P e" using Cons.prems(3) [OF _ e] Cons.prems(2) by simp
  then show ?case
    by (rule Cons.IH [OF \<open>each f xs e = Some s'\<close>]) (meson Cons.prems(3) list.set_intros(2))
qed simp

lemma name_iff: "n \<in> fst ` set xs \<longleftrightarrow> (\<exists>v. map_of xs n = Some v)"
  by (metis domD domI dom_map_of_conv_image_fst)

section \<open>Start-up changes\<close>

fun additive :: "ddl \<Rightarrow> bool" where
  "additive (CreateMissing n t is) = True"
| "additive (AddColumn n c co) = True"
| "additive (CreateIndexMissing k i) = True"
| "additive _ = False"

text \<open>The statement finds what it would add.\<close>

fun settled :: "ddl \<Rightarrow> database \<Rightarrow> bool" where
  "settled (CreateMissing n t is) d = (n \<in> fst ` set (dm_tables d))"
| "settled (AddColumn n c co) d = (\<exists>t. map_of (dm_tables d) n = Some t \<and> c \<in> fst ` set (tb_columns t))"
| "settled (CreateIndexMissing k i) d = (k \<in> fst ` set (dm_indexes d))"
| "settled _ d = False"

text \<open>
  The second database has every table, column and index of the first as it was, and the same
  schemas, roles and privileges; columns are only added after the others.
\<close>

definition table_grown :: "table \<Rightarrow> table \<Rightarrow> bool" where
  "table_grown t t' \<longleftrightarrow> (\<exists>cs. t' = t\<lparr>tb_columns := tb_columns t @ cs\<rparr>)"

definition db_grown :: "database \<Rightarrow> database \<Rightarrow> bool" where
  "db_grown d d' \<longleftrightarrow> dm_schemas d' = dm_schemas d \<and> dm_roles d' = dm_roles d \<and> dm_grants d' = dm_grants d
     \<and> (\<forall>n t. map_of (dm_tables d) n = Some t \<longrightarrow> (\<exists>t'. map_of (dm_tables d') n = Some t' \<and> table_grown t t'))
     \<and> (\<exists>is. dm_indexes d' = dm_indexes d @ is)"

lemma table_grown_refl [simp]: "table_grown t t"
  unfolding table_grown_def by (rule exI [of _ "[]"]) simp

lemma table_grown_trans: "table_grown a b \<Longrightarrow> table_grown b c \<Longrightarrow> table_grown a c"
  by (auto simp: table_grown_def)

lemma table_grown_columns: "table_grown t t' \<Longrightarrow> c \<in> fst ` set (tb_columns t) \<Longrightarrow> c \<in> fst ` set (tb_columns t')"
  unfolding table_grown_def by (elim exE) (simp add: image_Un)

lemma db_grown_refl [simp]: "db_grown d d"
  by (simp add: db_grown_def)

lemma db_grown_tables: "db_grown d d' \<Longrightarrow> map_of (dm_tables d) n = Some t
  \<Longrightarrow> \<exists>t'. map_of (dm_tables d') n = Some t' \<and> table_grown t t'"
  unfolding db_grown_def by blast

lemma db_grown_trans:
  assumes "db_grown a b" and "db_grown b c"
  shows "db_grown a c"
proof -
  have "\<exists>t'. map_of (dm_tables c) n = Some t' \<and> table_grown t t'" if "map_of (dm_tables a) n = Some t" for n t
    using db_grown_tables [OF assms(1) that] db_grown_tables [OF assms(2)] table_grown_trans by blast
  then show ?thesis using assms by (auto simp: db_grown_def)
qed

lemma add_index_grown: "add_index k i d = Some d' \<Longrightarrow> db_grown d d' \<and> k \<in> fst ` set (dm_indexes d')"
  by (simp add: add_index_def db_grown_def split: if_splits) auto

lemma add_table_grown:
  assumes "add_table n t d = Some d'" and "n \<notin> fst ` set (dm_tables d)"
  shows "db_grown d d' \<and> n \<in> fst ` set (dm_tables d')"
proof -
  have d': "d' = d\<lparr>dm_tables := dm_tables d @ [(n, t)]\<rparr>"
    using assms(1) by (simp add: add_table_def split: if_splits)
  show ?thesis by (simp add: d' db_grown_def map_add_def)
qed

lemma grown_tables: "db_grown d d' \<Longrightarrow> n \<in> fst ` set (dm_tables d) \<Longrightarrow> n \<in> fst ` set (dm_tables d')"
  unfolding name_iff using db_grown_tables by blast

lemma settled_grown:
  assumes "settled op d" and "db_grown d d'"
  shows "settled op d'"
proof (cases op)
  case (AddColumn n c co)
  then obtain t where t: "map_of (dm_tables d) n = Some t" and c: "c \<in> fst ` set (tb_columns t)"
    using assms(1) by auto
  from db_grown_tables [OF assms(2) t] obtain t' where "map_of (dm_tables d') n = Some t'" and "table_grown t t'"
    by blast
  with c table_grown_columns show ?thesis by (simp add: AddColumn)
next
  case (CreateIndexMissing k i)
  with assms show ?thesis by (auto simp: db_grown_def)
qed (use assms grown_tables in auto)

lemma settled_exec: "settled op d \<Longrightarrow> exec_ddl op d = Some d"
  by (cases op) (auto split: option.splits)

lemma add_column_grown:
  assumes "map_of (dm_tables d) n = Some t" and "cs = [(c, co)]"
  shows "db_grown d (d\<lparr>dm_tables := AList.update n (t\<lparr>tb_columns := tb_columns t @ cs\<rparr>) (dm_tables d)\<rparr>)"
  using assms by (simp add: db_grown_def update_conv') (auto simp: table_grown_def)

lemma create_missing_grown:
  assumes "exec_ddl (CreateMissing n t is) d = Some d'"
  shows "db_grown d d' \<and> n \<in> fst ` set (dm_tables d')"
proof (cases "n \<in> fst ` set (dm_tables d)")
  case False
  then obtain e where e: "add_table n t d = Some e" and each: "each (\<lambda>(k, i). add_index k i) is e = Some d'"
    using assms by (auto split: bind_splits)
  have "db_grown e d'"
    using each db_grown_refl
  proof (rule each_invariant)
    show "db_grown e s'" if "(case x of (k, i) \<Rightarrow> add_index k i) s = Some s'" "db_grown e s" for x s s'
      using that add_index_grown db_grown_trans by (cases x) auto
  qed
  with add_table_grown [OF e False] show ?thesis using grown_tables db_grown_trans by blast
qed (use assms in simp)

lemma additive_exec:
  assumes "exec_ddl op d = Some d'" and "additive op"
  shows "db_grown d d' \<and> settled op d'"
proof (cases op)
  case (CreateMissing n t "is")
  with assms(1) create_missing_grown show ?thesis by (simp del: exec_ddl.simps)
next
  case (AddColumn n c co)
  then obtain t where t: "map_of (dm_tables d) n = Some t" using assms(1) by (auto split: option.splits)
  show ?thesis
  proof (cases "c \<in> fst ` set (tb_columns t)")
    case False
    then have "d' = d\<lparr>dm_tables := AList.update n (t\<lparr>tb_columns := tb_columns t @ [(c, co)]\<rparr>) (dm_tables d)\<rparr>"
      using assms(1) AddColumn t by simp
    with add_column_grown [OF t refl] show ?thesis by (simp add: AddColumn update_conv')
  next
    case True
    then have "d' = d" using assms(1) AddColumn t by simp
    with True t show ?thesis by (simp add: AddColumn)
  qed
next
  case (CreateIndexMissing k i)
  then show ?thesis using assms(1) add_index_grown by (auto split: if_splits)
qed (use assms in auto)

lemma additive_all:
  assumes "exec_all ops d = Some d'" and "list_all additive ops"
  shows "db_grown d d' \<and> list_all (\<lambda>op. settled op d') ops"
  using assms
proof (induction ops arbitrary: d)
  case (Cons op ops)
  then obtain e where e: "exec_ddl op d = Some e" and rest: "exec_all ops e = Some d'" by (auto split: bind_splits)
  have "db_grown d e \<and> settled op e" using additive_exec [OF e] Cons.prems(2) by simp
  with Cons.IH [OF rest] Cons.prems(2) show ?case using settled_grown db_grown_trans by auto
qed simp

lemma settled_all: "list_all (\<lambda>op. settled op d) ops \<Longrightarrow> exec_all ops d = Some d"
  by (induction ops) (auto simp: settled_exec)

lemma init_db_additive: "list_all additive init_db"
  by (auto simp: init_db_def orm_tables_def list_all_iff)

text \<open>
  The start-up changes are safe to repeat: on any database they succeed on, running them again
  changes nothing, and nothing that existed is lost or altered: tables, columns, indexes, schemas,
  roles and privileges stay, columns are only added.
\<close>

theorem init_db_repeatable:
  assumes "exec_all init_db d = Some d'"
  shows "exec_all init_db d' = Some d' \<and> db_grown d d'"
  using additive_all [OF assms init_db_additive] settled_all by blast

section \<open>Downgrades\<close>

text \<open>What a statement creates.\<close>

fun created_tables :: "ddl \<Rightarrow> (tname \<times> table) list" where
  "created_tables (CreateTable n t) = [(n, t)]"
| "created_tables _ = []"

fun created_schemas :: "ddl \<Rightarrow> string list" where
  "created_schemas (CreateSchema s) = [s]"
| "created_schemas _ = []"

fun created_indexes :: "ddl \<Rightarrow> string list" where
  "created_indexes (CreateIndex k i) = [k]"
| "created_indexes _ = []"

text \<open>The privilege statement concerns only the tables \<open>N\<close> and the schemas \<open>S\<close>.\<close>

fun touches :: "tname set \<Rightarrow> string set \<Rightarrow> access \<Rightarrow> bool" where
  "touches N S (GrantUsage s) = (s \<in> S)"
| "touches N S (GrantSelectAll s) = (s \<in> S)"
| "touches N S (GrantSelect n) = (n \<in> N)"
| "touches N S (GrantInsert n) = (n \<in> N)"
| "touches N S (GrantUpdate n cs) = (n \<in> N)"
| "touches N S (GrantNumbersAll s) = (s \<in> S)"
| "touches N S (GrantNumbers n) = (n \<in> N)"
| "touches N S (RevokeUpdate n cs) = (n \<in> N)"
| "touches N S (RevokeTable n) = (n \<in> N)"
| "touches N S (RevokeTablesOf s) = (s \<in> S)"
| "touches N S (RevokeNumbersOf s) = (s \<in> S)"
| "touches N S (RevokeNumbers n) = (n \<in> N)"
| "touches N S (RevokeUsage s) = (s \<in> S)"

fun revoking :: "access \<Rightarrow> bool" where
  "revoking (GrantUsage s) = False"
| "revoking (GrantSelectAll s) = False"
| "revoking (GrantSelect n) = False"
| "revoking (GrantInsert n) = False"
| "revoking (GrantUpdate n cs) = False"
| "revoking (GrantNumbersAll s) = False"
| "revoking (GrantNumbers n) = False"
| "revoking _ = True"

text \<open>A statement of an upgrade, and one a downgrade starts with.\<close>

fun building :: "tname set \<Rightarrow> string set \<Rightarrow> ddl \<Rightarrow> bool" where
  "building N S (CreateSchema s) = (s \<in> S)"
| "building N S (CreateTable n t) = (n \<in> N)"
| "building N S (CreateIndex k i) = (ix_table i \<in> N)"
| "building N S (IfRole r as) = list_all (touches N S) as"
| "building N S (Access r as) = list_all (touches N S) as"
| "building N S _ = False"

fun releasing :: "tname set \<Rightarrow> string set \<Rightarrow> string set \<Rightarrow> ddl \<Rightarrow> bool" where
  "releasing N S K (IfRole r as) = list_all (\<lambda>a. touches N S a \<and> revoking a) as"
| "releasing N S K (DropIndex k) = (k \<in> K)"
| "releasing N S K _ = False"

text \<open>Objects refer to objects that exist.\<close>

definition table_names :: "database \<Rightarrow> tname set" where
  "table_names d = fst ` set (dm_tables d)"

definition wf_database :: "database \<Rightarrow> bool" where
  "wf_database d \<longleftrightarrow> (\<forall>n \<in> table_names d. fst n \<in> set (dm_schemas d))
     \<and> (\<forall>x \<in> set (dm_indexes d). ix_table (snd x) \<in> table_names d)
     \<and> (\<forall>g \<in> dm_grants d. about (table_names d) (set (dm_schemas d)) (snd g))
     \<and> (\<forall>x \<in> set (dm_tables d). set (references x) \<subseteq> table_names d)"

lemma wf_database_empty: "wf_database (empty_database roles)"
  by (simp add: wf_database_def empty_database_def table_names_def)

lemma about_simps [simp]:
  "about N S (UsageOn s) = (s \<in> S)" "about N S (CanSelect n) = (n \<in> N)" "about N S (CanInsert n) = (n \<in> N)"
  "about N S (CanUpdate n cs) = (n \<in> N)" "about N S (CanNumber n) = (n \<in> N)"
  by (simp_all add: about_def)

lemma about_mono: "about N S p \<Longrightarrow> N \<subseteq> N' \<Longrightarrow> S \<subseteq> S' \<Longrightarrow> about N' S' p"
  by (cases p) (auto simp: about_def)

lemma wf_grant:
  assumes "wf_database d" and "\<And>p. p \<in> set ps \<Longrightarrow> about (table_names d) (set (dm_schemas d)) p"
  shows "wf_database (grant r ps d)"
  using assms by (auto simp: wf_database_def grant_def table_names_def)

lemma wf_revoke: "wf_database d \<Longrightarrow> wf_database (revoke r P d)"
  by (auto simp: wf_database_def revoke_def table_names_def)

lemma tables_of_names: "n \<in> set (tables_of s d) \<longleftrightarrow> n \<in> table_names d \<and> fst n = s"
  by (auto simp: tables_of_def table_names_def)

lemma wf_access: "exec_access r a d = Some d' \<Longrightarrow> wf_database d \<Longrightarrow> wf_database d'"
  by (cases a) (auto simp: about_def tables_of_names simp flip: table_names_def
      intro!: wf_grant wf_revoke split: if_splits)

lemma access_frame:
  assumes "exec_access r a d = Some d'"
  shows "dm_tables d' = dm_tables d \<and> dm_schemas d' = dm_schemas d \<and> dm_indexes d' = dm_indexes d \<and> dm_roles d' = dm_roles d"
  using assms by (cases a) (auto simp: grant_def revoke_def split: if_splits)

lemma accesses_frame:
  assumes "each (exec_access r) as d = Some d'"
  shows "dm_tables d' = dm_tables d \<and> dm_schemas d' = dm_schemas d \<and> dm_indexes d' = dm_indexes d \<and> dm_roles d' = dm_roles d"
  by (rule each_invariant [OF assms]) (auto dest: access_frame)

lemma accesses_wf: "each (exec_access r) as d = Some d' \<Longrightarrow> wf_database d \<Longrightarrow> wf_database d'"
  by (erule each_invariant) (auto intro: wf_access)

lemma wf_add_table:
  assumes "add_table n t d = Some d'" and "wf_database d"
  shows "wf_database d'"
proof -
  have d': "d' = d\<lparr>dm_tables := dm_tables d @ [(n, t)]\<rparr>" and "fst n \<in> set (dm_schemas d)"
    and "set (references (n, t)) \<subseteq> table_names d"
    using assms(1) by (auto simp: add_table_def table_names_def list_all_iff split: if_splits)
  moreover have names: "table_names d' = insert n (table_names d)" by (auto simp: d' table_names_def)
  moreover have "about (table_names d') (set (dm_schemas d)) p" if "about (table_names d) (set (dm_schemas d)) p" for p
    using about_mono [OF that] names by auto
  ultimately show ?thesis using assms(2) unfolding wf_database_def names by (auto simp: d')
qed

lemma index_fits_table: "index_fits i d \<Longrightarrow> ix_table i \<in> table_names d"
  by (auto simp: index_fits_def table_names_def name_iff split: option.splits)

lemma wf_add_index:
  assumes "add_index k i d = Some d'" and "wf_database d"
  shows "wf_database d'"
proof -
  have "d' = d\<lparr>dm_indexes := dm_indexes d @ [(k, i)]\<rparr>" and "ix_table i \<in> table_names d"
    using assms(1) index_fits_table by (auto simp: add_index_def split: if_splits)
  with assms(2) show ?thesis by (auto simp: wf_database_def table_names_def)
qed

lemma wf_add_schema: "wf_database d \<Longrightarrow> wf_database (d\<lparr>dm_schemas := dm_schemas d @ [s]\<rparr>)"
  by (auto simp: wf_database_def table_names_def intro: about_mono)

lemma wf_building: "exec_ddl op d = Some d' \<Longrightarrow> building N S op \<Longrightarrow> wf_database d \<Longrightarrow> wf_database d'"
  by (cases op) (auto intro: wf_add_table wf_add_index accesses_wf wf_add_schema split: if_splits)

section \<open>Removal\<close>

lemma without_simps [simp]:
  "dm_schemas (without N S d) = filter (\<lambda>s. s \<notin> S) (dm_schemas d)"
  "dm_tables (without N S d) = filter (\<lambda>x. fst x \<notin> N) (dm_tables d)"
  "dm_indexes (without N S d) = filter (\<lambda>x. ix_table (snd x) \<notin> N) (dm_indexes d)"
  "dm_roles (without N S d) = dm_roles d"
  "dm_grants (without N S d) = {g \<in> dm_grants d. \<not> about N S (snd g)}"
  by (simp_all add: without_def)

lemma about_Un: "about (N \<union> N') (S \<union> S') p \<longleftrightarrow> about N S p \<or> about N' S' p"
  by (cases p) (auto simp: about_def)

lemma without_without: "without N S (without N' S' d) = without (N \<union> N') (S \<union> S') d"
  by (rule database.equality) (auto simp: about_Un intro!: filter_cong)

lemma without_self:
  assumes "wf_database d" and "N \<inter> table_names d = {}" and "S \<inter> set (dm_schemas d) = {}"
  shows "without N S d = d"
proof -
  have "\<not> about N S (snd g)" if "g \<in> dm_grants d" for g
    using that assms by (cases "snd g") (force simp: wf_database_def about_def)+
  moreover have "fst x \<notin> N" if "x \<in> set (dm_tables d)" for x
    using that assms(2) by (auto simp: table_names_def)
  moreover have "ix_table (snd x) \<notin> N" if "x \<in> set (dm_indexes d)" for x
    using that assms(1,2) by (auto simp: wf_database_def)
  moreover have "s \<notin> S" if "s \<in> set (dm_schemas d)" for s using that assms(3) by auto
  ultimately show ?thesis by (intro database.equality) (auto simp: filter_id_conv)
qed

lemma without_grant: "(\<And>p. p \<in> set ps \<Longrightarrow> about N S p) \<Longrightarrow> without N S (grant r ps d) = without N S d"
  by (rule database.equality) (auto simp: grant_def)

lemma without_revoke: "(\<And>p. P p \<Longrightarrow> about N S p) \<Longrightarrow> without N S (revoke r P d) = without N S d"
  by (rule database.equality) (auto simp: revoke_def)

text \<open>The tables \<open>N\<close> include those of the schemas \<open>S\<close>.\<close>

lemma without_access:
  assumes "exec_access r a d = Some d'" and "touches N S a" and "\<And>n. fst n \<in> S \<Longrightarrow> n \<in> N"
  shows "without N S d' = without N S d"
proof -
  have of_table: "about N S p" if "table_of p = Some n" "n \<in> N" for p n using that by (cases p) (auto simp: about_def)
  from assms show ?thesis
    by (cases a) (auto simp: tables_of_names intro!: without_grant without_revoke intro: of_table
        split: if_splits option.splits)
qed

lemma without_accesses:
  assumes "each (exec_access r) as d = Some d'" and "list_all (touches N S) as" and "\<And>n. fst n \<in> S \<Longrightarrow> n \<in> N"
  shows "without N S d' = without N S d"
  by (rule each_invariant [OF assms(1) refl]) (use without_access [OF _ _ assms(3)] assms(2) in \<open>auto simp: list_all_iff\<close>)

lemma without_add_table: "add_table n t d = Some d' \<Longrightarrow> n \<in> N \<Longrightarrow> without N S d' = without N S d"
  by (auto simp: add_table_def without_def split: if_splits)

lemma without_add_index: "add_index k i d = Some d' \<Longrightarrow> ix_table i \<in> N \<Longrightarrow> without N S d' = without N S d"
  by (auto simp: add_index_def without_def split: if_splits)

lemma without_building:
  assumes "exec_ddl op d = Some d'" and "building N S op" and "\<And>n. fst n \<in> S \<Longrightarrow> n \<in> N"
  shows "without N S d' = without N S d"
proof (cases op)
  case (CreateSchema s)
  with assms show ?thesis by (auto simp: without_def split: if_splits)
qed (use assms without_add_table without_add_index without_accesses [OF _ _ assms(3)] in \<open>auto split: if_splits\<close>)

text \<open>Tables that can be dropped in this order.\<close>

fun drop_ok :: "tname list \<Rightarrow> (tname \<times> table) list \<Rightarrow> bool" where
  "drop_ok [] xs = True"
| "drop_ok (n # ns) xs = (n \<in> fst ` set xs \<and> list_all (\<lambda>x. fst x = n \<or> n \<notin> set (references x)) xs
     \<and> drop_ok ns (filter (\<lambda>x. fst x \<noteq> n) xs))"

lemma drop_ok_append:
  assumes "drop_ok ns ys" and "\<forall>x \<in> set xs. fst x \<notin> set ns \<and> set (references x) \<inter> set ns = {}"
  shows "drop_ok ns (xs @ ys)"
  using assms
proof (induction ns arbitrary: xs ys)
  case (Cons n ns)
  have "fst x \<noteq> n" "n \<notin> set (references x)" if "x \<in> set xs" for x using Cons.prems(2) that by auto
  moreover have "drop_ok ns (filter (\<lambda>x. fst x \<noteq> n) xs @ filter (\<lambda>x. fst x \<noteq> n) ys)"
    using Cons.prems by (intro Cons.IH) auto
  ultimately show ?case using Cons.prems(1) by (auto simp: list_all_iff)
qed simp

lemma about_none [simp]: "\<not> about {} {} p"
  by (cases p) auto

lemma about_Diff: "about (A - N) (B - S) p \<longleftrightarrow> about A B p \<and> \<not> about N S p"
  by (cases p) auto

lemma without_none [simp]: "without {} {} d = d"
  by (rule database.equality) auto

lemma table_names_without [simp]: "table_names (without N S d) = table_names d - N"
  by (auto simp: table_names_def)

lemma wf_without:
  assumes "wf_database d" and "\<And>x. x \<in> set (dm_tables d) \<Longrightarrow> fst x \<notin> N \<Longrightarrow> set (references x) \<inter> N = {}"
    and "\<And>n. n \<in> table_names d \<Longrightarrow> n \<notin> N \<Longrightarrow> fst n \<notin> S"
  shows "wf_database (without N S d)"
proof -
  have schemas: "set (dm_schemas (without N S d)) = set (dm_schemas d) - S" by auto
  have refs: "set (references x) \<subseteq> table_names d - N" if "x \<in> set (dm_tables d)" "fst x \<notin> N" for x
    using assms(1) assms(2) [OF that] that(1) by (fastforce simp: wf_database_def)
  show ?thesis
    unfolding wf_database_def schemas table_names_without about_Diff using assms refs by (auto simp: wf_database_def)
qed

lemma wf_drop: "wf_database e \<Longrightarrow> no_dependents n e \<Longrightarrow> wf_database (without {n} {} e)"
  by (rule wf_without) (auto simp: no_dependents_def list_all_iff)

lemma drop_tables:
  assumes "drop_ok ns (dm_tables e)" and "wf_database e"
  shows "exec_all (map DropTable ns) e = Some (without (set ns) {} e) \<and> wf_database (without (set ns) {} e)"
  using assms
proof (induction ns arbitrary: e)
  case (Cons n ns)
  then have n: "no_dependents n e" "n \<in> fst ` set (dm_tables e)" by (auto simp: no_dependents_def list_all_iff)
  have "exec_all (map DropTable ns) (without {n} {} e) = Some (without (set ns) {} (without {n} {} e))
    \<and> wf_database (without (set ns) {} (without {n} {} e))"
    using Cons.prems n by (intro Cons.IH wf_drop) simp_all
  with n show ?case by (simp add: without_without insert_commute)
qed simp

lemma drop_empty_schema:
  assumes "\<forall>n \<in> table_names e. fst n \<noteq> s" and "wf_database e"
  shows "exec_ddl (DropSchema s) e = Some (without {} {s} e) \<and> wf_database (without {} {s} e)"
proof
  have "Set.filter (\<lambda>n. fst n = s) (fst ` set (dm_tables e)) = {}" using assms(1) by (auto simp: table_names_def)
  moreover have "map_prod id (tb_foreign_keys_update (filter (\<lambda>k. True))) = (id :: tname \<times> table \<Rightarrow> _)"
    by (auto simp: fun_eq_iff)
  ultimately show "exec_ddl (DropSchema s) e = Some (without {} {s} e)"
    unfolding exec_ddl.simps drop_schema_def Let_def by (simp only: empty_iff not_False_eq_True list.map_id) simp
  show "wf_database (without {} {s} e)" using assms by (intro wf_without) auto
qed

lemma drop_empty_schemas:
  assumes "\<forall>n \<in> table_names e. fst n \<notin> set ss" and "wf_database e"
  shows "exec_all (map DropSchema ss) e = Some (without {} (set ss) e) \<and> wf_database (without {} (set ss) e)"
  using assms
proof (induction ss arbitrary: e)
  case (Cons s ss)
  have s: "exec_ddl (DropSchema s) e = Some (without {} {s} e) \<and> wf_database (without {} {s} e)"
    using Cons.prems by (intro drop_empty_schema) auto
  have "exec_all (map DropSchema ss) (without {} {s} e) = Some (without {} (set ss) (without {} {s} e))
    \<and> wf_database (without {} (set ss) (without {} {s} e))"
    using Cons.prems s by (intro Cons.IH) (auto simp: table_names_def)
  with s show ?case by (simp add: without_without insert_commute del: exec_ddl.simps)
qed simp

text \<open>The first statements of a downgrade.\<close>

fun dropped_index :: "ddl \<Rightarrow> string list" where
  "dropped_index (DropIndex k) = [k]"
| "dropped_index _ = []"

lemma releasing_access: "list_all (\<lambda>a. touches N S a \<and> revoking a) as \<Longrightarrow> \<exists>e'. each (exec_access r) as e = Some e'"
proof (induction "as" arbitrary: e)
  case (Cons a "as")
  then obtain e1 where "exec_access r a e = Some e1" by (cases a) auto
  with Cons show ?case by auto
qed simp

lemma releasing_exec:
  assumes "releasing N S K op" and "set (dropped_index op) \<subseteq> fst ` set (dm_indexes e)" and "wf_database e"
    and "\<forall>x \<in> set (dm_indexes e). fst x \<in> K \<longrightarrow> ix_table (snd x) \<in> N" and "\<And>n. fst n \<in> S \<Longrightarrow> n \<in> N"
  shows "\<exists>e'. exec_ddl op e = Some e' \<and> dm_tables e' = dm_tables e \<and> dm_schemas e' = dm_schemas e \<and> wf_database e'
    \<and> without N S e' = without N S e \<and> dm_indexes e' = filter (\<lambda>x. fst x \<notin> set (dropped_index op)) (dm_indexes e)"
proof (cases op)
  case (IfRole r "as")
  then obtain e1 where e1: "each (exec_access r) as e = Some e1" using assms(1) releasing_access by fastforce
  have "without N S e1 = without N S e"
    using without_accesses [OF e1 _ assms(5)] assms(1) IfRole by (simp add: list_all_iff)
  with e1 show ?thesis using accesses_frame [OF e1] accesses_wf [OF e1 assms(3)] assms(3) by (auto simp: IfRole)
next
  case (DropIndex k)
  then have k: "k \<in> K" "k \<in> fst ` set (dm_indexes e)" using assms(1,2) by auto
  have "without N S (e\<lparr>dm_indexes := filter (\<lambda>x. fst x \<noteq> k) (dm_indexes e)\<rparr>) = without N S e"
    using assms(4) k(1) by (intro database.equality) (auto intro!: filter_cong)
  moreover have "wf_database (e\<lparr>dm_indexes := filter (\<lambda>x. fst x \<noteq> k) (dm_indexes e)\<rparr>)"
    using assms(3) by (auto simp: wf_database_def table_names_def)
  ultimately show ?thesis using k by (simp add: DropIndex)
qed (use assms(1) in auto)

lemma releasing_all:
  assumes "list_all (releasing N S K) pre" and "distinct (concat (map dropped_index pre))"
    and "set (concat (map dropped_index pre)) \<subseteq> fst ` set (dm_indexes e)" and "wf_database e"
    and "\<forall>x \<in> set (dm_indexes e). fst x \<in> K \<longrightarrow> ix_table (snd x) \<in> N" and closed: "\<And>n. fst n \<in> S \<Longrightarrow> n \<in> N"
  shows "\<exists>e'. exec_all pre e = Some e' \<and> dm_tables e' = dm_tables e \<and> dm_schemas e' = dm_schemas e \<and> wf_database e'
    \<and> without N S e' = without N S e"
  using assms(1-5)
proof (induction pre arbitrary: e)
  case (Cons op pre)
  from Cons.prems(1,3) have "releasing N S K op" and "set (dropped_index op) \<subseteq> fst ` set (dm_indexes e)" by auto
  from releasing_exec [OF this Cons.prems(4,5) closed] obtain e1 where e1: "exec_ddl op e = Some e1"
    "dm_tables e1 = dm_tables e" "dm_schemas e1 = dm_schemas e" "wf_database e1" "without N S e1 = without N S e"
    "dm_indexes e1 = filter (\<lambda>x. fst x \<notin> set (dropped_index op)) (dm_indexes e)" by auto
  have names: "set (concat (map dropped_index pre)) \<subseteq> fst ` set (dm_indexes e1)"
  proof
    fix k assume k: "k \<in> set (concat (map dropped_index pre))"
    then obtain x where "x \<in> set (dm_indexes e)" "fst x = k" using Cons.prems(3) by force
    moreover have "k \<notin> set (dropped_index op)" using k Cons.prems(2) by auto
    ultimately show "k \<in> fst ` set (dm_indexes e1)" using e1(6) by force
  qed
  have "\<forall>x \<in> set (dm_indexes e1). fst x \<in> K \<longrightarrow> ix_table (snd x) \<in> N" using Cons.prems(5) e1(6) by simp
  from Cons.IH [OF _ _ names e1(4) this] Cons.prems(1,2)
  have "\<exists>e'. exec_all pre e1 = Some e' \<and> dm_tables e' = dm_tables e1 \<and> dm_schemas e' = dm_schemas e1 \<and> wf_database e'
    \<and> without N S e' = without N S e1" by simp
  with e1 show ?case by auto
qed simp

section \<open>Upgrades\<close>

lemma building_frame:
  assumes "exec_ddl op d = Some d'" and "building N S op"
  shows "dm_tables d' = dm_tables d @ created_tables op
    \<and> map fst (dm_indexes d') = map fst (dm_indexes d) @ created_indexes op
    \<and> set (dm_schemas d') = set (dm_schemas d) \<union> set (created_schemas op)
    \<and> (\<forall>x \<in> set (dm_indexes d'). x \<in> set (dm_indexes d) \<or> ix_table (snd x) \<in> N)"
  using assms by (cases op) (auto simp: add_table_def add_index_def split: if_splits dest: accesses_frame)

lemma building_all:
  assumes "exec_all ups d = Some d'" and "list_all (building N S) ups" and "wf_database d"
    and closed: "\<And>n. fst n \<in> S \<Longrightarrow> n \<in> N"
  shows "wf_database d' \<and> without N S d' = without N S d
    \<and> dm_tables d' = dm_tables d @ concat (map created_tables ups)
    \<and> map fst (dm_indexes d') = map fst (dm_indexes d) @ concat (map created_indexes ups)
    \<and> set (dm_schemas d') = set (dm_schemas d) \<union> set (concat (map created_schemas ups))
    \<and> (\<forall>x \<in> set (dm_indexes d'). x \<in> set (dm_indexes d) \<or> ix_table (snd x) \<in> N)"
  using assms(1-3)
proof (induction ups arbitrary: d)
  case (Cons op ups)
  then obtain e where e: "exec_ddl op d = Some e" and rest: "exec_all ups e = Some d'" by (auto split: bind_splits)
  have op: "building N S op" and ups: "list_all (building N S) ups" using Cons.prems(2) by auto
  note frame = building_frame [OF e op] and wf = wf_building [OF e op Cons.prems(3)]
  from Cons.IH [OF rest ups wf] frame without_building [OF e op closed] show ?case by fastforce
qed simp

text \<open>Nothing that the upgrade creates exists yet.\<close>

definition new_for :: "ddl list \<Rightarrow> database \<Rightarrow> bool" where
  "new_for ups d \<longleftrightarrow> fst ` set (concat (map created_tables ups)) \<inter> table_names d = {}
     \<and> set (concat (map created_schemas ups)) \<inter> set (dm_schemas d) = {}
     \<and> set (concat (map created_indexes ups)) \<inter> fst ` set (dm_indexes d) = {}"

lemma revision_reversible:
  fixes ups :: "ddl list"
  defines "C \<equiv> concat (map created_tables ups)" and "S \<equiv> set (concat (map created_schemas ups))"
    and "K \<equiv> set (concat (map created_indexes ups))"
  defines "N \<equiv> {n. n \<in> fst ` set C \<or> fst n \<in> S}"
  assumes wf: "wf_database d" and run: "exec_all ups d = Some d'" and new: "new_for ups d"
    and build: "list_all (building N S) ups" and release: "list_all (releasing N S K) pre"
    and once: "distinct (concat (map dropped_index pre))" and own: "set (concat (map dropped_index pre)) \<subseteq> K"
    and drop: "drop_ok ns C" and all: "set ns = fst ` set C" and schemas: "set ss = S"
  shows "exec_all (pre @ map DropTable ns @ map DropSchema ss) d' = Some d"
proof -
  have closed: "\<And>n. fst n \<in> S \<Longrightarrow> n \<in> N" by (simp add: N_def)
  have wf': "wf_database d'" and same: "without N S d' = without N S d" and tables: "dm_tables d' = dm_tables d @ C"
    and names': "map fst (dm_indexes d') = map fst (dm_indexes d) @ concat (map created_indexes ups)"
    and owned: "\<forall>x \<in> set (dm_indexes d'). x \<in> set (dm_indexes d) \<or> ix_table (snd x) \<in> N"
    using building_all [OF run build wf closed] unfolding C_def by blast+
  have fresh: "fst ` set C \<inter> table_names d = {}" "S \<inter> set (dm_schemas d) = {}" "K \<inter> fst ` set (dm_indexes d) = {}"
    using new by (simp_all add: new_for_def C_def S_def K_def)
  have outside: "N \<inter> table_names d = {}" using fresh(1,2) wf by (auto simp: N_def wf_database_def)
  have idx: "fst ` set (dm_indexes d') = fst ` set (dm_indexes d) \<union> K"
    using names' unfolding K_def by (metis set_append set_map)
  have mine: "\<forall>x \<in> set (dm_indexes d'). fst x \<in> K \<longrightarrow> ix_table (snd x) \<in> N" using owned fresh(3) by blast
  have "set (concat (map dropped_index pre)) \<subseteq> fst ` set (dm_indexes d')" using own idx by blast
  from releasing_all [OF release once this wf' mine closed] obtain e where e: "exec_all pre d' = Some e"
    "dm_tables e = dm_tables d'" "dm_schemas e = dm_schemas d'" "wf_database e" "without N S e = without N S d'"
    by blast
  have "\<forall>x \<in> set (dm_tables d). fst x \<notin> set ns \<and> set (references x) \<inter> set ns = {}"
  proof
    fix x assume x: "x \<in> set (dm_tables d)"
    then have "fst x \<in> table_names d" and "set (references x) \<subseteq> table_names d"
      using wf by (auto simp: wf_database_def table_names_def)
    then show "fst x \<notin> set ns \<and> set (references x) \<inter> set ns = {}" using fresh(1) all by blast
  qed
  then have "drop_ok ns (dm_tables e)" using drop_ok_append [OF drop] e(2) tables by simp
  from drop_tables [OF this e(4)] have drops: "exec_all (map DropTable ns) e = Some (without (set ns) {} e)"
    "wf_database (without (set ns) {} e)" by auto
  have names: "table_names e = table_names d \<union> fst ` set C" using e(2) tables by (auto simp: table_names_def)
  then have left: "table_names (without (set ns) {} e) = table_names d" using fresh(1) all by auto
  moreover have "\<forall>n \<in> table_names d. fst n \<notin> set ss" using outside schemas closed by blast
  ultimately have final: "exec_all (map DropSchema ss) (without (set ns) {} e) = Some (without (set ns) S e)"
    "wf_database (without (set ns) S e)"
    using drop_empty_schemas [of "without (set ns) {} e" ss] drops(2) schemas by (auto simp: without_without)
  have "without (set ns) S e = without N S (without (set ns) S e)"
    using final(2) outside left by (intro without_self [symmetric]) auto
  also have "\<dots> = without N S e" using all by (simp add: without_without N_def Un_absorb2 subset_iff)
  also have "\<dots> = d" using e(5) same without_self [OF wf outside fresh(2)] by simp
  finally show ?thesis using e(1) drops(1) final(1) by (simp add: exec_all_append)
qed

text \<open>An upgrade that needs nothing but its own tables and the schemas \<open>S\<close>.\<close>

fun access_ok :: "string set \<Rightarrow> (tname \<times> table) list \<Rightarrow> access \<Rightarrow> bool" where
  "access_ok S T (GrantUsage s) = (s \<in> S)"
| "access_ok S T (GrantSelect n) = (n \<in> fst ` set T)"
| "access_ok S T (GrantInsert n) = (n \<in> fst ` set T)"
| "access_ok S T (GrantUpdate n cs) = (n \<in> fst ` set T)"
| "access_ok S T (GrantNumbers n) = (n \<in> fst ` set T)"
| "access_ok S T _ = True"

fun can_build :: "string set \<Rightarrow> (tname \<times> table) list \<Rightarrow> string set \<Rightarrow> ddl list \<Rightarrow> bool" where
  "can_build S T K [] = True"
| "can_build S T K (CreateSchema s # ops) = can_build (insert s S) T K ops"
| "can_build S T K (CreateTable n t # ops) =
     (n \<notin> fst ` set T \<and> fst n \<in> S \<and> set (references (n, t)) \<subseteq> fst ` set T \<and> can_build S (T @ [(n, t)]) K ops)"
| "can_build S T K (CreateIndex k i # ops) =
     (k \<notin> K \<and> (case map_of T (ix_table i) of None \<Rightarrow> False | Some t \<Rightarrow> set (ix_columns i) \<subseteq> fst ` set (tb_columns t))
      \<and> can_build S T (insert k K) ops)"
| "can_build S T K (IfRole r as # ops) = (list_all (access_ok S T) as \<and> can_build S T K ops)"
| "can_build S T K (Access r as # ops) = (list_all (access_ok S T) as \<and> can_build S T K ops)"
| "can_build S T K (op # ops) = False"

lemma accesses_run:
  assumes "list_all (access_ok S T) as" and "S \<subseteq> set (dm_schemas d)" and "set T \<subseteq> set (dm_tables d)"
  shows "\<exists>d'. each (exec_access r) as d = Some d'"
  using assms
proof (induction "as" arbitrary: d)
  case (Cons a "as")
  then have "\<exists>e. exec_access r a d = Some e" by (cases a) auto
  then obtain e where e: "exec_access r a d = Some e" ..
  have "\<exists>d'. each (exec_access r) as e = Some d'"
    using Cons.IH [of e] Cons.prems access_frame [OF e] by simp
  with e show ?case by auto
qed simp

text \<open>The database holds the tables and indexes of the plan after others that do not concern it.\<close>

definition follows :: "string set \<Rightarrow> (tname \<times> table) list \<Rightarrow> string set \<Rightarrow> ddl list \<Rightarrow> database \<Rightarrow> bool" where
  "follows S T K ops d \<longleftrightarrow> S \<subseteq> set (dm_schemas d) \<and> (\<exists>T0. dm_tables d = T0 @ T
       \<and> fst ` set T0 \<inter> (fst ` set T \<union> fst ` set (concat (map created_tables ops))) = {})
     \<and> fst ` set (dm_indexes d) \<inter> set (concat (map created_indexes ops)) \<subseteq> K"

lemma can_build_step:
  assumes "can_build S T K (op # ops)" and "follows S T K (op # ops) d"
  shows "\<exists>d' S' T' K'. exec_ddl op d = Some d' \<and> can_build S' T' K' ops \<and> follows S' T' K' ops d'"
proof -
  obtain T0 where T0: "dm_tables d = T0 @ T" "fst ` set T0 \<inter> (fst ` set T \<union> fst ` set (concat (map created_tables (op # ops)))) = {}"
    and S: "S \<subseteq> set (dm_schemas d)" and K: "fst ` set (dm_indexes d) \<inter> set (concat (map created_indexes (op # ops))) \<subseteq> K"
    using assms(2) unfolding follows_def by blast
  have access: "\<exists>d' S' T' K'. each (exec_access r) as d = Some d' \<and> can_build S' T' K' ops \<and> follows S' T' K' ops d'"
    if run: "list_all (access_ok S T) as" "can_build S T K ops" "follows S T K ops d" for r "as"
  proof -
    have "set T \<subseteq> set (dm_tables d)" using T0(1) by auto
    from accesses_run [OF run(1) S this] obtain d' where d': "each (exec_access r) as d = Some d'" by blast
    then have "follows S T K ops d'" using run(3) accesses_frame [OF d'] by (simp add: follows_def)
    with d' run(2) show ?thesis by blast
  qed
  show ?thesis
  proof (cases op)
    case (CreateSchema s)
    let ?d = "if s \<in> set (dm_schemas d) then d else d\<lparr>dm_schemas := dm_schemas d @ [s]\<rparr>"
    have "follows (insert s S) T K ops ?d" using T0 S K CreateSchema by (auto simp: follows_def)
    with assms(1) CreateSchema show ?thesis by (metis can_build.simps(2) exec_ddl.simps(1))
  next
    case (CreateTable n t)
    let ?d = "d\<lparr>dm_tables := dm_tables d @ [(n, t)]\<rparr>"
    have "n \<notin> fst ` set (dm_tables d)" and "set (references (n, t)) \<subseteq> fst ` set (dm_tables d)"
      using assms(1) CreateTable T0 by auto
    then have "exec_ddl op d = Some ?d" using assms(1) S CreateTable by (auto simp: add_table_def list_all_iff)
    moreover have "follows S (T @ [(n, t)]) K ops ?d" using T0 S K CreateTable by (auto simp: follows_def)
    ultimately show ?thesis using assms(1) CreateTable by (metis can_build.simps(3))
  next
    case (CreateIndex k i)
    let ?d = "d\<lparr>dm_indexes := dm_indexes d @ [(k, i)]\<rparr>"
    obtain t where t: "map_of T (ix_table i) = Some t" and cols: "set (ix_columns i) \<subseteq> fst ` set (tb_columns t)" and k: "k \<notin> K"
      using assms(1) CreateIndex by (auto split: option.splits)
    have "map_of T0 (ix_table i) = None"
      using T0(2) t name_iff [of "ix_table i" T0] name_iff [of "ix_table i" T] by (metis (no_types, lifting) Un_iff disjoint_iff not_Some_eq)
    then have "index_fits i d" using t cols T0(1) by (auto simp: index_fits_def map_add_def list_all_iff)
    then have "exec_ddl op d = Some ?d" using k K CreateIndex by (auto simp: add_index_def)
    moreover have "follows S T (insert k K) ops ?d" using T0 S K CreateIndex by (auto simp: follows_def)
    ultimately show ?thesis using assms(1) CreateIndex by (metis can_build.simps(4))
  next
    case (IfRole r "as")
    have "follows S T K ops d" using T0 S K IfRole by (auto simp: follows_def)
    with access [of "as" r] assms(1) IfRole show ?thesis by auto
  next
    case (Access r "as")
    have "follows S T K ops d" using T0 S K Access by (auto simp: follows_def)
    with access [of "as" r] assms(1) Access show ?thesis by auto
  qed (use assms(1) in auto)
qed

lemma can_build_runs: "can_build S T K ops \<Longrightarrow> follows S T K ops d \<Longrightarrow> \<exists>d'. exec_all ops d = Some d'"
proof (induction ops arbitrary: S T K d)
  case (Cons op ops)
  from can_build_step [OF Cons.prems] Cons.IH show ?case by fastforce
qed simp

lemma upgrade_runs:
  assumes "can_build {''public''} [] {} ups" and "''public'' \<in> set (dm_schemas d)" and "new_for ups d"
  shows "\<exists>d'. exec_all ups d = Some d'"
proof (rule can_build_runs [OF assms(1)])
  have "fst ` set (dm_tables d) \<inter> fst ` set (concat (map created_tables ups)) = {}"
    using assms(3) by (auto simp: new_for_def table_names_def)
  then show "follows {''public''} [] {} ups d" using assms(2,3) by (auto simp: follows_def new_for_def)
qed

lemmas upgrade_simps = references_def upgrade_0001_def upgrade_0002_def upgrade_0003_def upgrade_0004_def

lemma can_build_0001: "can_build {''public''} [] {} upgrade_0001" by (simp add: upgrade_simps)
lemma can_build_0002: "can_build {''public''} [] {} upgrade_0002" by (simp add: upgrade_simps)
lemma can_build_0003: "can_build {''public''} [] {} upgrade_0003" by (simp add: upgrade_simps)
lemma can_build_0004: "can_build {''public''} [] {} upgrade_0004" by (simp add: upgrade_simps)

lemma reversible_0001:
  assumes "wf_database d" and "exec_all upgrade_0001 d = Some d'" and "new_for upgrade_0001 d"
  shows "exec_all downgrade_0001 d' = Some d"
proof -
  have "exec_all ([] @ map DropTable (map pub [''student_quick_action_log'', ''student_campaign_activity'', ''ghl_messages'',
      ''ai_insights'', ''student_notes'', ''processed_events'', ''state_transition_log'', ''outreach_history'',
      ''student_outreach_tracking'', ''student_interview_prep'', ''ai_chatbot_triggerdata'']) @ map DropSchema []) d' = Some d"
    by (rule revision_reversible [OF assms]) (simp_all add: upgrade_simps insert_commute)
  then show ?thesis by (simp add: downgrade_0001_def)
qed

lemma reversible_0002:
  assumes "wf_database d" and "exec_all upgrade_0002 d = Some d'" and "new_for upgrade_0002 d"
  shows "exec_all downgrade_0002 d' = Some d"
proof -
  have "exec_all (take 3 downgrade_0002 @ map DropTable [audit ''scope_manifests'', audit ''deletion_log'',
      ware ''report_audit_log'', ware ''snapshot_ai_narratives'', ware ''monthly_reports'', ware ''student_snapshots'']
      @ map DropSchema [''compliance_audit'', ''warehouse'']) d' = Some d"
    by (rule revision_reversible [OF assms]) (simp_all add: upgrade_simps downgrade_0002_def insert_commute)
  then show ?thesis by (simp add: downgrade_0002_def)
qed

lemma reversible_0003:
  assumes "wf_database d" and "exec_all upgrade_0003 d = Some d'" and "new_for upgrade_0003 d"
  shows "exec_all downgrade_0003 d' = Some d"
proof -
  have "exec_all (take 3 downgrade_0003 @ map DropTable [pub ''config_version_registry''] @ map DropSchema []) d' = Some d"
    by (rule revision_reversible [OF assms]) (simp_all add: upgrade_simps downgrade_0003_def)
  then show ?thesis by (simp add: downgrade_0003_def)
qed

lemma reversible_0004:
  assumes "wf_database d" and "exec_all upgrade_0004 d = Some d'" and "new_for upgrade_0004 d"
  shows "exec_all downgrade_0004 d' = Some d"
proof -
  have "exec_all (take 2 downgrade_0004 @ map DropTable [pub ''student_mirror_history''] @ map DropSchema []) d' = Some d"
    by (rule revision_reversible [OF assms]) (simp_all add: upgrade_simps downgrade_0004_def)
  then show ?thesis by (simp add: downgrade_0004_def)
qed

text \<open>
  C26. Every revision can be applied and undone: on any database in which every object refers to
  existing ones, whatever else it holds and whichever of the roles exist, when nothing of the
  revision exists yet the upgrade succeeds, and the downgrade of what it made succeeds and gives
  back the same schemas, tables, indexes and privileges.
\<close>

theorem migrations_reversible:
  assumes "(v, base, ups, downs) \<in> set revisions" and "wf_database d" and "''public'' \<in> set (dm_schemas d)"
    and "new_for ups d"
  shows "Option.bind (exec_all ups d) (exec_all downs) = Some d"
proof -
  consider "(ups, downs) = (upgrade_0001, downgrade_0001)" | "(ups, downs) = (upgrade_0002, downgrade_0002)"
    | "(ups, downs) = (upgrade_0003, downgrade_0003)" | "(ups, downs) = (upgrade_0004, downgrade_0004)"
    using assms(1) by (auto simp: revisions_def)
  then show ?thesis
  proof cases
    case 1
    then obtain d' where "exec_all ups d = Some d'" using upgrade_runs [OF can_build_0001] assms by auto
    with reversible_0001 [of d d'] 1 assms show ?thesis by simp
  next
    case 2
    then obtain d' where "exec_all ups d = Some d'" using upgrade_runs [OF can_build_0002] assms by auto
    with reversible_0002 [of d d'] 2 assms show ?thesis by simp
  next
    case 3
    then obtain d' where "exec_all ups d = Some d'" using upgrade_runs [OF can_build_0003] assms by auto
    with reversible_0003 [of d d'] 3 assms show ?thesis by simp
  next
    case 4
    then obtain d' where "exec_all ups d = Some d'" using upgrade_runs [OF can_build_0004] assms by auto
    with reversible_0004 [of d d'] 4 assms show ?thesis by simp
  qed
qed

lemma migrations_reversible_witness:
  "Option.bind (exec_all upgrade_0002 (empty_database [''app_service_user''])) (exec_all downgrade_0002)
     = Some (empty_database [''app_service_user''])"
proof (rule migrations_reversible [OF _ wf_database_empty])
  show "(''0002'', Some ''0001'', upgrade_0002, downgrade_0002) \<in> set revisions" by (simp add: revisions_def)
qed (simp_all add: empty_database_def new_for_def table_names_def upgrade_0002_def)

end
