(* ===== verification/Installations.thy ===== *)
theory Installations
  imports SchemaProps
begin

text \<open>
  Two ways to install the platform compared: the migrations followed by the start-up of the
  application, and the start-up alone. What a sequence of statements makes of the columns, the
  constraints and the indexes is computed from the statements, without the databases between them.
\<close>

section \<open>Tables and indexes after a sequence\<close>

text \<open>What a statement makes of the columns of one table.\<close>

fun table_effect :: "tname \<Rightarrow> ddl \<Rightarrow> (string \<times> column) list option \<Rightarrow> (string \<times> column) list option" where
  "table_effect n (CreateTable m t) cs = (if m = n then Some (tb_columns t) else cs)"
| "table_effect n (CreateMissing m t is) cs = (if m = n \<and> cs = None then Some (tb_columns t) else cs)"
| "table_effect n (AddColumn m c co) cs =
     (if m = n then map_option (\<lambda>cs. if c \<in> fst ` set cs then cs else cs @ [(c, co)]) cs else cs)"
| "table_effect n _ cs = cs"

text \<open>What a statement makes of one table, and of the names of all tables and the indexes.\<close>

fun whole_effect :: "tname \<Rightarrow> ddl \<Rightarrow> table option \<Rightarrow> table option" where
  "whole_effect n (CreateTable m t) x = (if m = n then Some t else x)"
| "whole_effect n (CreateMissing m t is) x = (if m = n \<and> x = None then Some t else x)"
| "whole_effect n (AddColumn m c co) x =
     (if m = n then map_option (\<lambda>t. if c \<in> fst ` set (tb_columns t) then t
        else t\<lparr>tb_columns := tb_columns t @ [(c, co)]\<rparr>) x else x)"
| "whole_effect n _ x = x"

fun index_effect :: "ddl \<Rightarrow> tname list \<times> (string \<times> index) list \<Rightarrow> tname list \<times> (string \<times> index) list" where
  "index_effect (CreateTable m t) (ns, xs) = (m # ns, xs)"
| "index_effect (CreateMissing m t is) (ns, xs) = (if m \<in> set ns then (ns, xs) else (m # ns, xs @ is))"
| "index_effect (CreateIndex k i) (ns, xs) = (ns, xs @ [(k, i)])"
| "index_effect (CreateIndexMissing k i) (ns, xs) = (ns, if k \<in> fst ` set xs then xs else xs @ [(k, i)])"
| "index_effect _ x = x"

definition indexes_after :: "ddl list \<Rightarrow> (string \<times> index) list" where
  "indexes_after ops = snd (fold index_effect ops ([], []))"

text \<open>The primary key, the foreign keys and the unique constraints of a table.\<close>

type_synonym table_constraints = "string list \<times> (string list \<times> tname \<times> string option) list \<times> string list list"

definition constraints_of :: "table \<Rightarrow> table_constraints" where
  "constraints_of t = (tb_primary_key t, tb_foreign_keys t, tb_uniques t)"

fun made_constraints :: "ddl \<Rightarrow> (tname \<times> table_constraints) list" where
  "made_constraints (CreateTable n t) = [(n, constraints_of t)]"
| "made_constraints (CreateMissing n t is) = [(n, constraints_of t)]"
| "made_constraints _ = []"

definition constraints_after :: "ddl list \<Rightarrow> tname \<Rightarrow> table_constraints option" where
  "constraints_after ops = map_of (concat (map made_constraints ops))"

definition constraints_in :: "tname \<Rightarrow> database \<Rightarrow> table_constraints option" where
  "constraints_in n d = map_option constraints_of (map_of (dm_tables d) n)"

definition table_after :: "ddl list \<Rightarrow> tname \<Rightarrow> (string \<times> column) list option" where
  "table_after ops n = fold (table_effect n) ops None"

definition columns_in :: "tname \<Rightarrow> database \<Rightarrow> (string \<times> column) list option" where
  "columns_in n d = map_option tb_columns (map_of (dm_tables d) n)"

fun dropping :: "ddl \<Rightarrow> bool" where
  "dropping (DropTable n) = True"
| "dropping (DropSchema s) = True"
| "dropping (DropIndex k) = True"
| "dropping _ = False"

lemma add_indexes_frame: "each (\<lambda>(k, i). add_index k i) is d = Some d' \<Longrightarrow> dm_tables d' = dm_tables d"
  by (erule each_invariant [where P = "\<lambda>e. dm_tables e = dm_tables d"]) (auto simp: add_index_def split: if_splits)

lemma add_table_tables:
  assumes "add_table m t d = Some d'" and "m \<notin> fst ` set (dm_tables d)"
  shows "map_of (dm_tables d') n = (if m = n then Some t else map_of (dm_tables d) n)"
proof -
  have "map_of (dm_tables d) m = None" using assms(2) name_iff by (metis not_Some_eq)
  with assms(1) show ?thesis
    by (auto simp: add_table_def map_add_def split: if_splits option.split)
qed

lemma create_missing_cases:
  assumes "exec_ddl (CreateMissing m t is) d = Some d'"
  obtains (there) "m \<in> fst ` set (dm_tables d)" "d' = d"
    | (added) e where "m \<notin> fst ` set (dm_tables d)" "add_table m t d = Some e" "dm_tables d' = dm_tables e"
proof (cases "m \<in> fst ` set (dm_tables d)")
  case True
  then have "d' = d" using assms by (simp only: exec_ddl.simps if_True option.inject)
  with True there show ?thesis by blast
next
  case False
  then have "Option.bind (add_table m t d) (each (\<lambda>(k, i). add_index k i) is) = Some d'"
    using assms by (simp only: exec_ddl.simps if_False)
  then obtain e where "add_table m t d = Some e" "each (\<lambda>(k, i). add_index k i) is e = Some d'"
    by (cases "add_table m t d") auto
  with False added add_indexes_frame show ?thesis by blast
qed

lemma exec_tables:
  assumes "exec_ddl op d = Some d'" and "\<not> dropping op"
  shows "map_of (dm_tables d') n = whole_effect n op (map_of (dm_tables d) n)"
proof (cases op)
  case (CreateTable m t)
  then have "add_table m t d = Some d'" and "m \<notin> fst ` set (dm_tables d)" using assms(1) by (simp_all split: if_splits)
  from add_table_tables [OF this] show ?thesis by (simp add: CreateTable)
next
  case (CreateMissing m t "is")
  then have "exec_ddl (CreateMissing m t is) d = Some d'" using assms(1) by simp
  then show ?thesis
  proof (cases rule: create_missing_cases)
    case there
    then obtain t' where "map_of (dm_tables d) m = Some t'" using name_iff by metis
    then show ?thesis using CreateMissing there by auto
  next
    case (added e)
    moreover have "map_of (dm_tables d) m = None" using added(1) name_iff [of m "dm_tables d"] by simp
    ultimately show ?thesis using CreateMissing add_table_tables [OF added(2,1)] by auto
  qed
next
  case (AddColumn m c co)
  then obtain t where t: "map_of (dm_tables d) m = Some t" using assms(1) by (auto split: option.splits)
  show ?thesis
  proof (cases "c \<in> fst ` set (tb_columns t)")
    case True
    then have d': "d' = d" using assms(1) t AddColumn by (simp only: exec_ddl.simps option.simps if_True)
    from True t show ?thesis
      by (cases "m = n") (simp_all only: d' AddColumn whole_effect.simps option.map if_True if_False if_cancel)
  next
    case False
    then have "d' = d\<lparr>dm_tables := AList.update m (t\<lparr>tb_columns := tb_columns t @ [(c, co)]\<rparr>) (dm_tables d)\<rparr>"
      using assms(1) t AddColumn by (simp only: exec_ddl.simps option.simps if_False)
    with False t show ?thesis by (cases "m = n") (simp_all add: AddColumn update_conv')
  qed
next
  case (CreateIndex k i)
  then show ?thesis using assms(1) by (auto simp: add_index_def split: if_splits)
next
  case (CreateIndexMissing k i)
  then show ?thesis using assms(1) by (auto simp: add_index_def split: if_splits)
qed (use assms in \<open>auto split: if_splits dest: accesses_frame\<close>)

lemma exec_columns:
  assumes "exec_ddl op d = Some d'" and "\<not> dropping op"
  shows "columns_in n d' = table_effect n op (columns_in n d)"
  unfolding columns_in_def exec_tables [OF assms]
  by (cases op; cases "map_of (dm_tables d) n") simp_all

lemma exec_constraints:
  assumes "exec_ddl op d = Some d'" and "\<not> dropping op"
  shows "constraints_in n d' = (case constraints_in n d of None \<Rightarrow> map_of (made_constraints op) n | Some c \<Rightarrow> Some c)"
proof (cases op)
  case (CreateTable m t)
  then have "map_of (dm_tables d) m = None"
    using assms(1) name_iff [of m "dm_tables d"] by (simp split: if_split_asm)
  then show ?thesis unfolding constraints_in_def exec_tables [OF assms] CreateTable by (auto split: option.split)
next
  case (AddColumn m c co)
  then show ?thesis unfolding constraints_in_def exec_tables [OF assms]
    by (cases "map_of (dm_tables d) n") (simp_all add: constraints_of_def)
qed (auto simp: constraints_in_def exec_tables [OF assms] split: option.split)

lemma exec_all_constraints:
  assumes "exec_all ops d = Some d'" and "list_all (\<lambda>op. \<not> dropping op) ops"
  shows "constraints_in n d' = (case constraints_in n d of None \<Rightarrow> constraints_after ops n | Some c \<Rightarrow> Some c)"
  using assms
proof (induction ops arbitrary: d)
  case (Cons op ops)
  then obtain e where e: "exec_ddl op d = Some e" "exec_all ops e = Some d'" by (auto split: bind_splits)
  with Cons exec_constraints [OF e(1)] show ?case
    by (auto simp: constraints_after_def map_add_def split: option.split)
qed (simp add: constraints_after_def split: option.split)

lemma installed_constraints:
  assumes "exec_all ops (empty_database roles) = Some d" and "list_all (\<lambda>op. \<not> dropping op) ops"
  shows "constraints_in n d = constraints_after ops n"
proof -
  have "constraints_in n (empty_database roles) = None" by (simp add: constraints_in_def empty_database_def)
  then show ?thesis using exec_all_constraints [OF assms] by simp
qed

lemma add_indexes_added: "each (\<lambda>(k, i). add_index k i) is d = Some d' \<Longrightarrow> dm_indexes d' = dm_indexes d @ is"
  by (induction "is" arbitrary: d) (auto simp: add_index_def split: bind_splits if_splits)

lemma exec_index_effect:
  assumes "exec_ddl op d = Some d'" and "\<not> dropping op" and "set ns = fst ` set (dm_tables d)"
  shows "\<exists>ns'. index_effect op (ns, dm_indexes d) = (ns', dm_indexes d') \<and> set ns' = fst ` set (dm_tables d')"
proof (cases op)
  case (CreateMissing m t "is")
  show ?thesis
  proof (cases "m \<in> fst ` set (dm_tables d)")
    case True
    then show ?thesis using assms CreateMissing by auto
  next
    case False
    then obtain e where e: "add_table m t d = Some e" "each (\<lambda>(k, i). add_index k i) is e = Some d'"
      using assms(1) CreateMissing by (auto split: bind_splits)
    have "dm_indexes d' = dm_indexes d @ is" "dm_tables d' = dm_tables d @ [(m, t)]"
      using e add_indexes_added [OF e(2)] add_indexes_frame [OF e(2)] by (auto simp: add_table_def split: if_splits)
    then show ?thesis using False CreateMissing assms(3) by auto
  qed
next
  case (AddColumn m c co)
  then obtain t where t: "map_of (dm_tables d) m = Some t"
    and d': "d' = d \<or> d' = d\<lparr>dm_tables := AList.update m (t\<lparr>tb_columns := tb_columns t @ [(c, co)]\<rparr>) (dm_tables d)\<rparr>"
    using assms(1) by (auto split: option.splits if_split_asm)
  have "m \<in> fst ` set (dm_tables d)" using t name_iff by (metis option.distinct(1))
  then have "fst ` set (dm_tables d') = fst ` set (dm_tables d)"
    using d' by (elim disjE) (auto simp: dom_update simp del: set_map)
  moreover have "dm_indexes d' = dm_indexes d" using d' by auto
  ultimately show ?thesis using AddColumn assms(3) by simp
next
  case (IfRole role as)
  then have "dm_tables d' = dm_tables d \<and> dm_indexes d' = dm_indexes d"
    using assms(1) accesses_frame by (auto split: if_split_asm)
  then show ?thesis using IfRole assms(3) by simp
next
  case (Access role as)
  then have "dm_tables d' = dm_tables d \<and> dm_indexes d' = dm_indexes d" using assms(1) accesses_frame by auto
  then show ?thesis using Access assms(3) by simp
qed (use assms in \<open>auto simp: add_table_def add_index_def split: if_splits\<close>)

lemma exec_all_indexes:
  assumes "exec_all ops d = Some d'" and "list_all (\<lambda>op. \<not> dropping op) ops" and "set ns = fst ` set (dm_tables d)"
  shows "dm_indexes d' = snd (fold index_effect ops (ns, dm_indexes d))"
  using assms
proof (induction ops arbitrary: d ns)
  case (Cons op ops)
  then obtain e where e: "exec_ddl op d = Some e" "exec_all ops e = Some d'" by (auto split: bind_splits)
  with Cons.prems exec_index_effect [OF e(1), of ns] obtain ns' where
    "index_effect op (ns, dm_indexes d) = (ns', dm_indexes e)" "set ns' = fst ` set (dm_tables e)" by auto
  with Cons.IH [OF e(2)] Cons.prems(2) show ?case by simp
qed simp

lemma installed_indexes:
  assumes "exec_all ops (empty_database roles) = Some d" and "list_all (\<lambda>op. \<not> dropping op) ops"
  shows "dm_indexes d = indexes_after ops"
  using exec_all_indexes [OF assms, of "[]"] by (simp add: empty_database_def indexes_after_def)

lemma exec_all_columns:
  assumes "exec_all ops d = Some d'" and "list_all (\<lambda>op. \<not> dropping op) ops"
  shows "columns_in n d' = fold (table_effect n) ops (columns_in n d)"
  using assms
proof (induction ops arbitrary: d)
  case (Cons op ops)
  then obtain e where e: "exec_ddl op d = Some e" "exec_all ops e = Some d'" by (auto split: bind_splits)
  with Cons exec_columns [OF e(1)] show ?case by simp
qed simp

lemma installed_columns:
  assumes "exec_all ops (empty_database roles) = Some d" and "list_all (\<lambda>op. \<not> dropping op) ops"
  shows "columns_in n d = table_after ops n"
  using exec_all_columns [OF assms] by (simp add: columns_in_def empty_database_def table_after_def)

text \<open>The tables a statement leaves behind.\<close>

fun made_table :: "ddl \<Rightarrow> tname list" where
  "made_table (CreateTable n t) = [n]"
| "made_table (CreateMissing n t is) = [n]"
| "made_table _ = []"

lemma exec_names:
  assumes "exec_ddl op d = Some d'" and "\<not> dropping op"
  shows "table_names d' = table_names d \<union> set (made_table op)"
proof -
  have "n \<in> table_names d' \<longleftrightarrow> n \<in> table_names d \<or> n \<in> set (made_table op)" for n
  proof -
    have names: "n \<in> table_names e \<longleftrightarrow> columns_in n e \<noteq> None" for e
      by (simp add: table_names_def name_iff columns_in_def)
    show ?thesis
      unfolding names exec_columns [OF assms] using assms(1)
      by (cases op) (auto simp: columns_in_def split: option.splits if_splits)
  qed
  then show ?thesis by blast
qed

lemma exec_all_names:
  assumes "exec_all ops d = Some d'" and "list_all (\<lambda>op. \<not> dropping op) ops"
  shows "table_names d' = table_names d \<union> set (concat (map made_table ops))"
  using assms
proof (induction ops arbitrary: d)
  case (Cons op ops)
  then obtain e where e: "exec_ddl op d = Some e" "exec_all ops e = Some d'" by (auto split: bind_splits)
  with Cons exec_names [OF e(1)] show ?case by auto
qed simp

section \<open>Two installations\<close>

text \<open>The columns (type, nullability and server default) in which two tables differ.\<close>

type_synonym drift = "(string \<times> column option \<times> column option) list"

definition column_drift :: "(string \<times> column) list \<Rightarrow> (string \<times> column) list \<Rightarrow> drift" where
  "column_drift a b = filter (\<lambda>(c, x, y). x \<noteq> y) (map (\<lambda>c. (c, map_of a c, map_of b c))
     (map fst a @ filter (\<lambda>c. c \<notin> fst ` set a) (map fst b)))"

definition table_drift :: "tname \<Rightarrow> database \<Rightarrow> database \<Rightarrow> drift option" where
  "table_drift n a b =
    (case (columns_in n a, columns_in n b) of (Some x, Some y) \<Rightarrow> Some (column_drift x y) | _ \<Rightarrow> None)"

lemma head_constructive: "list_all (\<lambda>op. \<not> dropping op) upgrade_head"
  by (simp add: upgrade_head_def revisions_def upgrade_0001_def upgrade_0002_def upgrade_0003_def upgrade_0004_def)

lemma init_db_constructive: "list_all (\<lambda>op. \<not> dropping op) init_db"
  by (auto simp: init_db_def orm_tables_def list_all_iff)

lemmas constructive = head_constructive init_db_constructive

definition planned_drift :: "tname \<Rightarrow> drift option" where
  "planned_drift n = (case (table_after (upgrade_head @ init_db) n, table_after init_db n) of
     (Some x, Some y) \<Rightarrow> Some (column_drift x y) | _ \<Rightarrow> None)"

text \<open>A default of the database that the models have in Python only, and all known differences.\<close>

definition lost :: "string \<Rightarrow> sql_type \<Rightarrow> default_value \<Rightarrow> string \<times> column option \<times> column option" where
  "lost c t d = (c, Some (defaulted t d), Some (required t))"

definition lost_mode :: "string \<times> column option \<times> column option" where
  "lost_mode = lost ''execution_mode'' (SString 20) (Literal ''SHADOW'')"

definition lost_governance :: drift where
  "lost_governance = [lost ''execution_type'' (SString 30) (Literal ''original''),
     lost ''governance_scope'' (SString 30) (Literal ''SHADOW_ONLY'')]"

definition lost_replay :: "string \<times> column option \<times> column option" where
  "lost_replay = lost ''is_replay'' SBoolean (Expression ''FALSE'')"

definition lost_complete :: "string \<times> column option \<times> column option" where
  "lost_complete = lost ''attribution_complete'' SBoolean (Expression ''FALSE'')"

definition known_drift :: "(string \<times> drift) list" where
  "known_drift =
    [(''ai_chatbot_triggerdata'', [lost ''HWsBehind'' SInteger (Literal ''0''), lost ''AvgEffRating'' SFloat (Literal ''0.0''),
        lost ''LastActivityDays'' SInteger (Literal ''0'')]),
     (''student_outreach_tracking'', [lost ''state'' (SString 50) (Literal ''ELIGIBLE''),
        lost ''current_attempt'' SInteger (Literal ''0''), lost_mode]),
     (''outreach_history'', (''execution_mode'', Some (defaulted (SString 10) (Literal ''SHADOW'')), Some (required (SString 20)))
        # lost ''simulated_status'' (SString 20) (Literal ''NOT_SENT'') # lost_governance @ [lost_replay, lost_complete]),
     (''state_transition_log'', (''trigger'', Some (optional (SString 100)), Some (required (SString 100)))
        # lost ''actor'' (SString 50) (Literal ''system'') # lost_mode # lost_governance @ [lost_replay, lost_complete]),
     (''processed_events'', lost_mode # lost_governance),
     (''student_notes'', [lost ''author'' (SString 100) (Literal ''system''), lost ''is_ai_generated'' SBoolean (Literal ''false'')]),
     (''ai_insights'', lost ''is_finalized'' SBoolean (Expression ''FALSE'') # lost_mode # lost_governance @ [lost_replay]),
     (''ghl_messages'', [lost ''direction'' (SString 20) (Literal ''INBOUND''), lost ''channel'' (SString 30) (Literal ''UNKNOWN'')]),
     (''student_campaign_activity'', lost ''source'' (SString 100) (Literal ''operator'') # lost_mode
        # lost ''shadow_only'' SBoolean (Literal ''true'') # lost_governance @ [lost_replay, lost_complete]),
     (''student_quick_action_log'', lost ''status'' (SString 50) (Literal ''LOGGED'') # lost_mode
        # lost_governance @ [lost_replay, lost_complete])]"

definition drift_of :: "tname \<Rightarrow> drift" where
  "drift_of n = (case map_of known_drift (snd n) of None \<Rightarrow> [] | Some ds \<Rightarrow> ds)"

lemma planned_drift_history: "planned_drift (pub ''outreach_history'') = Some (drift_of (pub ''outreach_history''))" by code_simp
lemma planned_drift_transitions: "planned_drift (pub ''state_transition_log'') = Some (drift_of (pub ''state_transition_log''))" by code_simp
lemma planned_drift_students: "planned_drift (pub ''ai_chatbot_triggerdata'') = Some (drift_of (pub ''ai_chatbot_triggerdata''))" by code_simp
lemma planned_drift_prep: "planned_drift (pub ''student_interview_prep'') = Some (drift_of (pub ''student_interview_prep''))" by code_simp
lemma planned_drift_tracking: "planned_drift (pub ''student_outreach_tracking'') = Some (drift_of (pub ''student_outreach_tracking''))" by code_simp
lemma planned_drift_events: "planned_drift (pub ''processed_events'') = Some (drift_of (pub ''processed_events''))" by code_simp
lemma planned_drift_notes: "planned_drift (pub ''student_notes'') = Some (drift_of (pub ''student_notes''))" by code_simp
lemma planned_drift_insights: "planned_drift (pub ''ai_insights'') = Some (drift_of (pub ''ai_insights''))" by code_simp
lemma planned_drift_messages: "planned_drift (pub ''ghl_messages'') = Some (drift_of (pub ''ghl_messages''))" by code_simp
lemma planned_drift_activity: "planned_drift (pub ''student_campaign_activity'') = Some (drift_of (pub ''student_campaign_activity''))" by code_simp
lemma planned_drift_mentors: "planned_drift (pub ''mentorship_assignments'') = Some (drift_of (pub ''mentorship_assignments''))" by code_simp
lemma planned_drift_actions: "planned_drift (pub ''student_quick_action_log'') = Some (drift_of (pub ''student_quick_action_log''))" by code_simp

lemmas planned_drifts = planned_drift_history planned_drift_transitions planned_drift_students planned_drift_prep
  planned_drift_tracking planned_drift_events planned_drift_notes planned_drift_insights planned_drift_messages
  planned_drift_activity planned_drift_mentors planned_drift_actions

text \<open>The tables only the migrations create.\<close>

definition migration_tables :: "tname list" where
  "migration_tables = [ware ''student_snapshots'', ware ''snapshot_ai_narratives'', ware ''monthly_reports'',
     ware ''report_audit_log'', audit ''deletion_log'', audit ''scope_manifests'', pub ''config_version_registry'',
     pub ''student_mirror_history'']"

definition baseline_tables :: "tname list" where
  "baseline_tables = map pub [''ai_chatbot_triggerdata'', ''student_interview_prep'', ''student_outreach_tracking'',
     ''outreach_history'', ''state_transition_log'', ''processed_events'', ''student_notes'', ''ai_insights'',
     ''ghl_messages'', ''student_campaign_activity'', ''student_quick_action_log'']"

definition model_tables :: "tname list" where
  "model_tables = map pub [''ai_chatbot_triggerdata'', ''student_interview_prep'', ''student_outreach_tracking'',
     ''outreach_history'', ''state_transition_log'', ''processed_events'', ''student_notes'', ''ai_insights'',
     ''ghl_messages'', ''student_campaign_activity'', ''mentorship_assignments'', ''student_quick_action_log'']"

lemma head_tables: "concat (map made_table upgrade_head) = baseline_tables @ migration_tables"
  by (simp add: upgrade_head_def revisions_def upgrade_simps migration_tables_def baseline_tables_def)

lemma made_orm: "concat (map made_table orm_tables) = model_tables"
  by (simp add: orm_tables_def model_tables_def)

lemma init_db_tables: "concat (map made_table init_db) = model_tables"
  by (simp add: init_db_def made_orm comp_def case_prod_beta)

lemma baseline_in_models: "set baseline_tables \<subseteq> set model_tables"
  by (simp add: baseline_tables_def model_tables_def)

lemma models_not_migrated: "filter (\<lambda>n. n \<in> set migration_tables) model_tables = []"
  by (simp add: migration_tables_def model_tables_def)

lemma models_beyond_baseline: "filter (\<lambda>n. n \<notin> set baseline_tables) model_tables = [pub ''mentorship_assignments'']"
  by (simp add: baseline_tables_def model_tables_def)

lemma mentors_not_migrated: "pub ''mentorship_assignments'' \<notin> set migration_tables"
  by (simp add: migration_tables_def)

definition linked_tables :: "tname list" where
  "linked_tables = [pub ''outreach_history'', pub ''state_transition_log'']"

definition link_to_case :: "string option \<Rightarrow> string list \<times> (string list \<times> tname \<times> string option) list \<times> string list list" where
  "link_to_case action = ([''id''], [([''tracking_id''], pub ''student_outreach_tracking'', action)], [])"

lemma known_drifts: "n \<in> set model_tables \<Longrightarrow> planned_drift n = Some (drift_of n)"
  using planned_drifts by (auto simp: model_tables_def)

lemma planned_links: "list_all (\<lambda>n. constraints_after init_db n = Some (link_to_case None)) linked_tables"
  by (simp add: constraints_after_def init_db_def orm_tables_def linked_tables_def link_to_case_def constraints_of_def
      orm_outreach_history_def orm_state_transition_log_def)

fun mends :: "tname set \<Rightarrow> ddl \<Rightarrow> bool" where
  "mends N (CreateMissing n t is) = (if n \<in> N then True else fst n = ''public'' \<and> references (n, t) = [] \<and> is = [])"
| "mends N _ = False"

lemma orm_mends: "list_all (mends (set baseline_tables)) orm_tables"
  by (simp add: orm_tables_def baseline_tables_def references_def)

lemma index_frame:
  "fold index_effect (map (\<lambda>(n, c, ty, d). AddColumn (f n) c (g ty d)) xs) s = s"
  by (induction xs) auto

lemma index_frame':
  "fold index_effect (map (\<lambda>(c, ty). AddColumn m c (h ty)) xs) s = s"
  by (induction xs) auto

text \<open>Indexes created outright, by models whose tables exist, and only where missing.\<close>

fun outright :: "ddl \<Rightarrow> bool" where
  "outright (CreateMissing n t is) = False"
| "outright (CreateIndexMissing k i) = False"
| "outright _ = True"

fun made_index :: "ddl \<Rightarrow> (string \<times> index) list" where
  "made_index (CreateIndex k i) = [(k, i)]"
| "made_index _ = []"

lemma fold_outright:
  "list_all outright ops \<Longrightarrow> fold index_effect ops (ns, xs)
     = (rev (concat (map made_table ops)) @ ns, xs @ concat (map made_index ops))"
proof (induction ops arbitrary: ns xs)
  case (Cons op ops)
  then show ?case by (cases op) auto
qed simp

lemma fold_mends:
  "list_all (mends N) ops \<Longrightarrow> N \<subseteq> set ns \<Longrightarrow> \<exists>ns'. fold index_effect ops (ns, xs) = (ns', xs)"
proof (induction ops arbitrary: ns)
  case (Cons op ops)
  then obtain n t "is" where op: "op = CreateMissing n t is" by (cases op) auto
  show ?case
  proof (cases "n \<in> set ns")
    case True
    then show ?thesis using Cons by (simp add: op)
  next
    case False
    then have "n \<notin> N" using Cons.prems(2) by blast
    then have "is = []" using Cons.prems(1) op by simp
    then show ?thesis using False Cons.IH [of "n # ns"] Cons.prems by (auto simp: op)
  qed
qed simp

lemma fold_missing:
  "distinct (map fst ps) \<Longrightarrow> fold index_effect (map (\<lambda>(k, n, c). CreateIndexMissing k (index_on (pub n) [c])) ps) (ns, xs)
     = (ns, xs @ map (\<lambda>(k, n, c). (k, index_on (pub n) [c])) (filter (\<lambda>p. fst p \<notin> fst ` set xs) ps))"
proof (induction ps arbitrary: xs)
  case (Cons p ps)
  obtain k n c where p: "p = (k, n, c)" by (cases p)
  have "filter (\<lambda>q. fst q \<noteq> k \<and> fst q \<notin> fst ` set xs) ps = filter (\<lambda>q. fst q \<notin> fst ` set xs) ps"
    using Cons.prems by (intro filter_cong) (auto simp: p)
  with Cons show ?case by (simp add: p)
qed simp

fun missing_indexes :: "ddl \<Rightarrow> (string \<times> index) list" where
  "missing_indexes (CreateMissing n t is) = is"
| "missing_indexes _ = []"

lemma started_indexes: "indexes_after init_db = concat (map missing_indexes orm_tables)"
  by (simp add: indexes_after_def init_db_def index_frame index_frame' orm_tables_def preparation_indexes_def)

lemma head_outright: "list_all outright upgrade_head"
  by (simp add: upgrade_head_def revisions_def upgrade_simps)

lemma prepared_later: "filter (\<lambda>p. fst p \<notin> fst ` set (concat (map made_index upgrade_head))) preparation_indexes
    = drop 4 preparation_indexes"
  by (simp add: upgrade_head_def revisions_def upgrade_simps preparation_indexes_def)

definition prepared :: "string \<times> string \<times> string \<Rightarrow> string \<times> index" where
  "prepared = (\<lambda>(k, n, c). (k, index_on (pub n) [c]))"

lemma migrated_indexes:
  "indexes_after (upgrade_head @ init_db) = concat (map made_index upgrade_head) @ map prepared (drop 4 preparation_indexes)"
proof -
  let ?ns = "rev (concat (map made_table upgrade_head))" and ?xs = "concat (map made_index upgrade_head)"
  have "set baseline_tables \<subseteq> set ?ns" by (simp only: head_tables set_rev set_append Un_upper1)
  then obtain ns' where orm: "fold index_effect orm_tables (?ns, ?xs) = (ns', ?xs)"
    using fold_mends [OF orm_mends] by blast
  have dist: "distinct (map fst preparation_indexes)" by (simp add: preparation_indexes_def)
  show ?thesis
    unfolding indexes_after_def init_db_def fold_append comp_apply fold_outright [OF head_outright] append_Nil2 append_Nil
      orm index_frame index_frame'
    by (simp only: fold.simps index_effect.simps comp_apply id_apply fold_missing [OF dist] prepared_later prepared_def snd_conv)
qed

lemma shared_indexes:
  "filter (\<lambda>(k, i). ix_table i \<notin> set migration_tables) (concat (map made_index upgrade_head))
    = filter (\<lambda>(k, i). k \<notin> set (map fst (drop 4 preparation_indexes))) (concat (map missing_indexes orm_tables))"
  by (simp add: upgrade_head_def revisions_def upgrade_simps migration_tables_def preparation_indexes_def orm_tables_def)

lemma later_indexes:
  "map prepared (drop 4 preparation_indexes)
    = filter (\<lambda>(k, i). k \<in> set (map fst (drop 4 preparation_indexes))) (concat (map missing_indexes orm_tables))"
  by (simp add: preparation_indexes_def orm_tables_def prepared_def)

lemma planned_indexes:
  "set (filter (\<lambda>(k, i). ix_table i \<notin> set migration_tables) (indexes_after (upgrade_head @ init_db)))
    = set (indexes_after init_db)"
proof -
  have "filter (\<lambda>(k, i). ix_table i \<notin> set migration_tables) (map prepared (drop 4 preparation_indexes))
      = map prepared (drop 4 preparation_indexes)"
    by (simp add: preparation_indexes_def prepared_def migration_tables_def)
  then show ?thesis
    unfolding migrated_indexes started_indexes filter_append shared_indexes by (auto simp: later_indexes)
qed

lemma shared_constraints:
  "constraints_of v1_ai_chatbot_triggerdata = constraints_of orm_ai_chatbot_triggerdata"
  "constraints_of v1_student_interview_prep = constraints_of orm_student_interview_prep"
  "constraints_of v1_student_outreach_tracking = constraints_of orm_student_outreach_tracking"
  "constraints_of v1_processed_events = constraints_of orm_processed_events"
  "constraints_of v1_student_notes = constraints_of orm_student_notes"
  "constraints_of v1_ai_insights = constraints_of orm_ai_insights"
  "constraints_of v1_ghl_messages = constraints_of orm_ghl_messages"
  "constraints_of v1_student_campaign_activity = constraints_of orm_student_campaign_activity"
  "constraints_of v1_student_quick_action_log = constraints_of orm_student_quick_action_log"
  by (simp_all add: constraints_of_def
    v1_ai_chatbot_triggerdata_def orm_ai_chatbot_triggerdata_def
    v1_student_interview_prep_def orm_student_interview_prep_def
    v1_student_outreach_tracking_def orm_student_outreach_tracking_def
    v1_processed_events_def orm_processed_events_def
    v1_student_notes_def orm_student_notes_def
    v1_ai_insights_def orm_ai_insights_def
    v1_ghl_messages_def orm_ghl_messages_def
    v1_student_campaign_activity_def orm_student_campaign_activity_def
    v1_student_quick_action_log_def orm_student_quick_action_log_def)

lemma linked_constraints:
  "constraints_of v1_outreach_history = link_to_case (Some ''CASCADE'')"
  "constraints_of v1_state_transition_log = link_to_case (Some ''CASCADE'')"
  "constraints_of orm_outreach_history = link_to_case None"
  "constraints_of orm_state_transition_log = link_to_case None"
  by (simp_all add: constraints_of_def link_to_case_def v1_outreach_history_def v1_state_transition_log_def
      orm_outreach_history_def orm_state_transition_log_def)

lemma constraints_frame:
  "concat (map made_constraints (map (\<lambda>(n, c, ty, d). AddColumn (f n) c (g ty d)) xs)) = []"
  "concat (map made_constraints (map (\<lambda>(k, n, c). CreateIndexMissing k (h n c)) ys)) = []"
  "concat (map made_constraints (map (\<lambda>(c, ty). AddColumn m c (q ty)) zs)) = []"
  by (auto simp: concat_eq_Nil_conv)

lemma init_db_constraints:
  "concat (map made_constraints init_db) = concat (map made_constraints orm_tables)"
  by (simp only: init_db_def map_append concat_append constraints_frame append_Nil2 list.map concat.simps made_constraints.simps append_Nil)

lemma planned_constraints:
  "list_all (\<lambda>n. constraints_after (upgrade_head @ init_db) n
      = (if n \<in> set linked_tables then Some (link_to_case (Some ''CASCADE'')) else constraints_after init_db n)) model_tables"
  unfolding constraints_after_def map_append concat_append init_db_constraints
  by (simp add: upgrade_head_def revisions_def upgrade_simps orm_tables_def linked_tables_def model_tables_def
      shared_constraints linked_constraints)

text \<open>
  C25. An installation that runs the migrations and one that only starts the application differ after
  start-up in exactly this. The started one lacks the tables of the warehouse, the compliance audit,
  the configuration registry and the mirror history, with their indexes. Of the shared tables the
  started one lacks the server defaults in \<open>known_drift\<close>; the execution mode of the outreach history
  has ten characters in the migrated one and twenty in the other, the trigger of a state transition
  may be null in the migrated one only, and the rows of these two tables are deleted with their case
  in the migrated one only. All other columns, the keys, the unique constraints and the indexes
  agree. The migrations alone create no table of mentorship assignments. (Privileges, the order of
  columns and the names of constraints are not compared.)
\<close>

theorem installations_drift:
  assumes "exec_all upgrade_head (empty_database roles) = Some head" and "exec_all init_db head = Some migrated"
    and "exec_all init_db (empty_database roles) = Some started"
  shows "table_names migrated = table_names started \<union> set migration_tables
    \<and> table_names started \<inter> set migration_tables = {}
    \<and> (\<forall>n \<in> table_names started. table_drift n migrated started = Some (drift_of n)
        \<and> constraints_in n migrated =
            (if n \<in> set linked_tables then Some (link_to_case (Some ''CASCADE'')) else constraints_in n started))
    \<and> set linked_tables \<subseteq> table_names started
    \<and> (\<forall>n \<in> set linked_tables. constraints_in n started = Some (link_to_case None))
    \<and> {(k, i) \<in> set (dm_indexes migrated). ix_table i \<notin> set migration_tables} = set (dm_indexes started)
    \<and> table_names started - table_names head = {pub ''mentorship_assignments''}"
proof -
  have run: "exec_all (upgrade_head @ init_db) (empty_database roles) = Some migrated"
    using assms(1,2) by (simp add: exec_all_append)
  have all: "list_all (\<lambda>op. \<not> dropping op) (upgrade_head @ init_db)" using constructive by simp
  note both = installed_columns [OF run all] installed_columns [OF assms(3) init_db_constructive]
    installed_constraints [OF run all] installed_constraints [OF assms(3) init_db_constructive]
    installed_indexes [OF run all] installed_indexes [OF assms(3) init_db_constructive]
  have drift: "table_drift n migrated started = planned_drift n" for n
    by (simp add: both table_drift_def planned_drift_def)
  have none: "table_names (empty_database roles) = {}" by (simp add: table_names_def empty_database_def)
  have head: "table_names head = set (concat (map made_table upgrade_head))"
    and started: "table_names started = set (concat (map made_table init_db))"
    and migrated: "table_names migrated = table_names head \<union> set (concat (map made_table init_db))"
    using exec_all_names [OF assms(1)] exec_all_names [OF assms(2)] exec_all_names [OF assms(3)] constructive none by simp_all
  have "set model_tables \<inter> set migration_tables = {}" using models_not_migrated by (auto simp: filter_empty_conv)
  moreover have "set model_tables - (set baseline_tables \<union> set migration_tables) = {pub ''mentorship_assignments''}"
    using arg_cong [OF models_beyond_baseline, of set] mentors_not_migrated by (auto simp: set_eq_iff)
  moreover have "\<forall>n \<in> set model_tables. constraints_in n migrated =
      (if n \<in> set linked_tables then Some (link_to_case (Some ''CASCADE'')) else constraints_in n started)"
    using planned_constraints by (simp add: both list_all_iff)
  moreover have "set linked_tables \<subseteq> set model_tables" by (simp add: linked_tables_def model_tables_def)
  moreover have "\<forall>n \<in> set linked_tables. constraints_in n started = Some (link_to_case None)"
    using planned_links by (simp add: both list_all_iff)
  moreover have "{(k, i) \<in> set (dm_indexes migrated). ix_table i \<notin> set migration_tables} = set (dm_indexes started)"
    using planned_indexes by (simp add: both case_prod_unfold)
  ultimately show ?thesis
    unfolding drift migrated head started head_tables init_db_tables
    using baseline_in_models known_drifts by auto
qed

section \<open>The installations exist\<close>

lemma none_kept: "filter (\<lambda>x. f x \<in> B) xs = [] \<Longrightarrow> f ` set xs \<inter> B = {}"
  by (auto simp: filter_empty_conv)

text \<open>Two upgrades in turn, when what they create is different.\<close>

lemma upgrade_then:
  assumes "exec_all ops d0 = Some d" and "list_all (building UNIV UNIV) ops" and "wf_database d0"
    and "''public'' \<in> set (dm_schemas d0)" and "can_build {''public''} [] {} ups" and "new_for ups d0"
    and "filter (\<lambda>x. fst x \<in> fst ` set (concat (map created_tables ops))) (concat (map created_tables ups)) = []"
    and "filter (\<lambda>s. s \<in> set (concat (map created_schemas ops))) (concat (map created_schemas ups)) = []"
    and "filter (\<lambda>k. k \<in> set (concat (map created_indexes ops))) (concat (map created_indexes ups)) = []"
  shows "\<exists>d'. exec_all (ops @ ups) d0 = Some d'"
proof -
  from building_all [OF assms(1-3)]
  have built: "dm_tables d = dm_tables d0 @ concat (map created_tables ops)"
    and idx: "map fst (dm_indexes d) = map fst (dm_indexes d0) @ concat (map created_indexes ops)"
    and schemas: "set (dm_schemas d) = set (dm_schemas d0) \<union> set (concat (map created_schemas ops))" by blast+
  have tables: "table_names d = table_names d0 \<union> fst ` set (concat (map created_tables ops))"
    unfolding table_names_def built by (simp only: set_append image_Un)
  have names: "fst ` set (dm_indexes d) = fst ` set (dm_indexes d0) \<union> set (concat (map created_indexes ops))"
    using arg_cong [OF idx, of set] by (simp only: set_append set_map)
  have "new_for ups d"
  proof -
    have fresh: "fst ` set (concat (map created_tables ups)) \<inter> fst ` set (concat (map created_tables ops)) = {}"
      "set (concat (map created_schemas ups)) \<inter> set (concat (map created_schemas ops)) = {}"
      "set (concat (map created_indexes ups)) \<inter> set (concat (map created_indexes ops)) = {}"
      using none_kept [of fst, OF assms(7)] none_kept [of "\<lambda>s. s", OF assms(8)] none_kept [of "\<lambda>k. k", OF assms(9)]
      by (simp_all only: image_ident)
    show ?thesis
      using assms(6) fresh unfolding new_for_def tables names schemas Int_Un_distrib by (simp only: Un_empty simp_thms)
  qed
  moreover have "''public'' \<in> set (dm_schemas d)" using schemas assms(4) by blast
  ultimately show ?thesis using upgrade_runs [OF assms(5)] assms(1) by (simp add: exec_all_append)
qed

lemma new_for_empty: "''public'' \<notin> set (concat (map created_schemas ups)) \<Longrightarrow> new_for ups (empty_database roles)"
  unfolding new_for_def by (simp add: empty_database_def table_names_def)

lemma empty_public: "''public'' \<in> set (dm_schemas (empty_database roles))"
  by (simp add: empty_database_def)

lemma head_runs: "\<exists>d. exec_all upgrade_head (empty_database roles) = Some d"
proof -
  note follow = upgrade_then [OF _ _ wf_database_empty empty_public]
  obtain d1 where d1: "exec_all upgrade_0001 (empty_database roles) = Some d1"
    using upgrade_runs [OF can_build_0001 empty_public new_for_empty] by (auto simp: upgrade_0001_def)
  obtain d2 where d2: "exec_all (upgrade_0001 @ upgrade_0002) (empty_database roles) = Some d2"
    using follow [OF d1 _ can_build_0002 new_for_empty] by (simp add: upgrade_0001_def upgrade_0002_def) blast
  obtain d3 where d3: "exec_all ((upgrade_0001 @ upgrade_0002) @ upgrade_0003) (empty_database roles) = Some d3"
    using follow [OF d2 _ can_build_0003 new_for_empty] by (simp add: upgrade_0001_def upgrade_0002_def upgrade_0003_def) blast
  have "\<exists>d4. exec_all (((upgrade_0001 @ upgrade_0002) @ upgrade_0003) @ upgrade_0004) (empty_database roles) = Some d4"
    by (rule follow [OF d3 _ can_build_0004 new_for_empty])
      (simp_all add: upgrade_0001_def upgrade_0002_def upgrade_0003_def upgrade_0004_def)
  then show ?thesis by (simp add: upgrade_head_def revisions_def)
qed

fun column_added :: "ddl \<Rightarrow> (tname \<times> string) list" where
  "column_added (AddColumn n c co) = [(n, c)]"
| "column_added _ = []"

definition has_column :: "database \<Rightarrow> tname \<times> string \<Rightarrow> bool" where
  "has_column d x \<longleftrightarrow> (\<exists>cs. columns_in (fst x) d = Some cs \<and> snd x \<in> fst ` set cs)"

lemma has_column_grown:
  assumes "has_column d x" and "db_grown d d'"
  shows "has_column d' x"
proof -
  obtain t where t: "map_of (dm_tables d) (fst x) = Some t" and c: "snd x \<in> fst ` set (tb_columns t)"
    using assms(1) unfolding has_column_def columns_in_def by auto
  from db_grown_tables [OF assms(2) t] obtain t' where "map_of (dm_tables d') (fst x) = Some t'" "table_grown t t'" by blast
  with table_grown_columns c show ?thesis unfolding has_column_def columns_in_def by auto
qed

fun adds_to :: "tname set \<Rightarrow> ddl \<Rightarrow> bool" where
  "adds_to N (AddColumn n c co) = (n \<in> N)"
| "adds_to N _ = False"

lemma adds_to_mono: "list_all (adds_to N) ops \<Longrightarrow> N \<subseteq> N' \<Longrightarrow> list_all (adds_to N') ops"
  by (erule list.pred_mono_strong) (auto elim!: adds_to.elims)

text \<open>Additions to tables that exist succeed, and so do indexes on columns that exist.\<close>

lemma adds_run:
  assumes "list_all (adds_to (table_names d)) ops"
  shows "\<exists>d'. exec_all ops d = Some d' \<and> db_grown d d' \<and> list_all (has_column d') (concat (map column_added ops))"
  using assms
proof (induction ops arbitrary: d)
  case (Cons op ops)
  then obtain n c co where op: "op = AddColumn n c co" and n: "n \<in> table_names d" by (cases op) auto
  then obtain e where e: "exec_ddl op d = Some e" by (auto simp: table_names_def name_iff)
  with additive_exec [OF e] op have grown: "db_grown d e" and settled: "settled (AddColumn n c co) e" by auto
  have "table_names d \<subseteq> table_names e" using grown_tables [OF grown] unfolding table_names_def by blast
  with Cons.prems adds_to_mono have "list_all (adds_to (table_names e)) ops" by auto
  from Cons.IH [OF this] obtain d' where d': "exec_all ops e = Some d'" "db_grown e d'"
    "list_all (has_column d') (concat (map column_added ops))" by blast
  have "has_column e (n, c)" using settled by (auto simp: has_column_def columns_in_def)
  from has_column_grown [OF this d'(2)] d' e grown op show ?case using db_grown_trans by auto
qed simp

lemma indexes_run:
  assumes "list_all (\<lambda>(k, n, c). has_column d (pub n, c)) xs"
  shows "\<exists>d'. exec_all (map (\<lambda>(k, n, c). CreateIndexMissing k (index_on (pub n) [c])) xs) d = Some d'"
  using assms
proof (induction xs arbitrary: d)
  case (Cons x xs)
  obtain k n c where x: "x = (k, n, c)" by (cases x)
  then obtain t where t: "map_of (dm_tables d) (pub n) = Some t" "c \<in> fst ` set (tb_columns t)"
    using Cons.prems by (auto simp: has_column_def columns_in_def)
  then have "index_fits (index_on (pub n) [c]) d" by (simp add: index_fits_def)
  then obtain e where e: "exec_ddl (CreateIndexMissing k (index_on (pub n) [c])) d = Some e"
    by (cases "k \<in> fst ` set (dm_indexes d)") (simp_all add: add_index_def)
  from additive_exec [OF e] have "db_grown d e" by simp
  then have "list_all (\<lambda>(k, n, c). has_column e (pub n, c)) xs"
    using Cons.prems has_column_grown by (fastforce simp: list_all_iff)
  with Cons.IH e x show ?case by fastforce
qed simp

text \<open>The columns of the preparation indexes that no start-up change adds.\<close>

definition older_columns :: "(tname \<times> string) list" where
  "older_columns = [(pub ''state_transition_log'', ''created_at''), (pub ''student_outreach_tracking'', ''updated_at''),
     (pub ''outreach_history'', ''checkpoint_type''), (pub ''student_campaign_activity'', ''created_at'')]"

definition added_columns :: "ddl list" where
  "added_columns = map (\<lambda>(c, ty). AddColumn (pub ''ai_chatbot_triggerdata'') c (optional ty)) new_trigger_cols
     @ [AddColumn (pub ''student_notes'') ''note_type'' (optional (SString 50)),
        AddColumn (pub ''student_notes'') ''visibility'' (optional (SString 50))]
     @ map (\<lambda>(n, c, ty, d). AddColumn (pub n) c (governance_column ty d)) governance_cols"

lemma init_db_parts: "init_db = orm_tables @ added_columns
     @ map (\<lambda>(k, n, c). CreateIndexMissing k (index_on (pub n) [c])) preparation_indexes"
  by (simp add: init_db_def added_columns_def)

lemma preparation_columns: "list_all (\<lambda>(k, n, c). (pub n, c) \<in> set (concat (map column_added added_columns))
     \<or> (pub n, c) \<in> set older_columns) preparation_indexes"
  by (simp add: preparation_indexes_def older_columns_def added_columns_def governance_cols_def)

lemma added_to_models: "list_all (adds_to (set model_tables)) added_columns"
  by (simp add: added_columns_def governance_cols_def new_trigger_cols_def model_tables_def)

lemma init_db_runs:
  assumes "exec_all orm_tables d = Some e" and "set model_tables \<subseteq> table_names e" and "list_all (has_column e) older_columns"
  shows "\<exists>d'. exec_all init_db d = Some d'"
proof -
  have "list_all (adds_to (table_names e)) added_columns" using adds_to_mono [OF added_to_models assms(2)] .
  from adds_run [OF this] obtain f where f: "exec_all added_columns e = Some f" "db_grown e f"
    "list_all (has_column f) (concat (map column_added added_columns))" by blast
  have "list_all (\<lambda>(k, n, c). has_column f (pub n, c)) preparation_indexes"
    using preparation_columns f(2,3) assms(3) has_column_grown by (fastforce simp: list_all_iff)
  from indexes_run [OF this] f(1) assms(1) show ?thesis by (auto simp: init_db_parts exec_all_append)
qed

text \<open>A missing table is created with its indexes.\<close>

fun expand :: "ddl \<Rightarrow> ddl list" where
  "expand (CreateMissing n t is) = CreateTable n t # map (\<lambda>(k, i). CreateIndex k i) is"
| "expand op = [op]"

lemma exec_indexes: "exec_all (map (\<lambda>(k, i). CreateIndex k i) is) d = each (\<lambda>(k, i). add_index k i) is d"
proof (induction "is" arbitrary: d)
  case (Cons x "is")
  show ?case by (cases x) (simp only: list.map prod.case exec_all_simps each.simps exec_ddl.simps Cons.IH [abs_def] bind_def cong: Option.bind_cong)
qed simp

lemma exec_expand: "exec_all (expand op) d = Some d' \<Longrightarrow> exec_ddl op d = Some d'"
  by (cases op) (auto simp: exec_indexes [abs_def] split: if_splits bind_splits)

lemma expand_runs: "exec_all (concat (map expand ops)) d = Some d' \<Longrightarrow> exec_all ops d = Some d'"
proof (induction ops arbitrary: d)
  case (Cons op ops)
  then obtain e where "exec_all (expand op) d = Some e" "exec_all (concat (map expand ops)) e = Some d'"
    by (auto simp: exec_all_append split: bind_splits)
  with Cons.IH exec_expand show ?case by simp
qed simp

lemma can_build_orm: "can_build {''public''} [] {} (concat (map expand orm_tables))"
  by (simp add: orm_tables_def references_def)

lemma orm_tables_run: "\<exists>e. exec_all orm_tables (empty_database roles) = Some e"
proof -
  have "follows {''public''} [] {} ops (empty_database roles)" for ops
    by (auto simp: follows_def empty_database_def)
  from can_build_runs [OF can_build_orm this] expand_runs show ?thesis by blast
qed

lemma orm_tables_constructive: "list_all (\<lambda>op. \<not> dropping op) orm_tables"
  by (simp add: orm_tables_def)

lemma planned_columns:
  assumes "exec_all ops (empty_database roles) = Some d" and "list_all (\<lambda>op. \<not> dropping op) ops"
    and "list_all (\<lambda>(n, c). case table_after ops n of None \<Rightarrow> False | Some cs \<Rightarrow> c \<in> fst ` set cs) xs"
  shows "list_all (has_column d) xs"
  using assms(3) by (auto simp: has_column_def installed_columns [OF assms(1,2)] list_all_iff split: option.splits)

lemma older_in_models:
  "list_all (\<lambda>(n, c). case table_after orm_tables n of None \<Rightarrow> False | Some cs \<Rightarrow> c \<in> fst ` set cs) older_columns"
  by code_simp

lemma older_in_head:
  "list_all (\<lambda>(n, c). case table_after upgrade_head n of None \<Rightarrow> False | Some cs \<Rightarrow> c \<in> fst ` set cs) older_columns"
  by (simp add: older_columns_def table_after_def upgrade_head_def revisions_def upgrade_simps)

lemma started_runs: "\<exists>d'. exec_all init_db (empty_database roles) = Some d'"
proof -
  obtain e where e: "exec_all orm_tables (empty_database roles) = Some e" using orm_tables_run by blast
  have "table_names e = set model_tables"
    using exec_all_names [OF e orm_tables_constructive] made_orm by (simp add: table_names_def empty_database_def)
  with init_db_runs [OF e _ planned_columns [OF e orm_tables_constructive older_in_models]] show ?thesis by simp
qed

lemma exec_schemas:
  assumes "exec_ddl op d = Some d'" and "\<not> dropping op"
  shows "set (dm_schemas d) \<subseteq> set (dm_schemas d')"
proof (cases op)
  case (CreateMissing n t "is")
  then have "additive op" by simp
  from additive_exec [OF assms(1) this] show ?thesis by (simp add: db_grown_def)
next
  case (AddColumn n c co)
  then have "additive op" by simp
  from additive_exec [OF assms(1) this] show ?thesis by (simp add: db_grown_def)
qed (use assms in \<open>auto simp: add_table_def add_index_def split: if_splits dest: accesses_frame\<close>)

lemma exec_all_schemas:
  "exec_all ops d = Some d' \<Longrightarrow> list_all (\<lambda>op. \<not> dropping op) ops \<Longrightarrow> set (dm_schemas d) \<subseteq> set (dm_schemas d')"
proof (induction ops arbitrary: d)
  case (Cons op ops)
  then obtain e where e: "exec_ddl op d = Some e" "exec_all ops e = Some d'" by (auto split: bind_splits)
  with Cons exec_schemas [OF e(1)] show ?case by fastforce
qed simp

text \<open>The model tables that exist are left alone; the others need no index.\<close>

lemma mends_run:
  assumes "list_all (mends N) ops" and "N \<subseteq> table_names d" and "''public'' \<in> set (dm_schemas d)"
  shows "\<exists>e. exec_all ops d = Some e"
  using assms
proof (induction ops arbitrary: d)
  case (Cons op ops)
  then obtain n t "is" where op: "op = CreateMissing n t is" by (cases op) auto
  have "n \<in> table_names d \<or> fst n = ''public'' \<and> references (n, t) = [] \<and> is = []"
    using Cons.prems(1,2) op by (auto split: if_splits)
  then obtain e where e: "exec_ddl op d = Some e"
    using Cons.prems(3) by (cases "n \<in> table_names d") (auto simp: op table_names_def add_table_def)
  then have "db_grown d e \<or> dm_schemas e = dm_schemas d" using additive_exec [OF e] op by simp
  then have "''public'' \<in> set (dm_schemas e)" using Cons.prems(3) by (auto simp: db_grown_def)
  moreover have "N \<subseteq> table_names e" using exec_names [OF e] op Cons.prems(2) by auto
  ultimately show ?case using Cons.IH [of e] Cons.prems(1) e by auto
qed simp

lemma migrated_runs: "\<exists>h d'. exec_all upgrade_head (empty_database roles) = Some h \<and> exec_all init_db h = Some d'"
proof -
  obtain h where h: "exec_all upgrade_head (empty_database roles) = Some h" using head_runs by blast
  have "set baseline_tables \<subseteq> table_names h"
    using exec_all_names [OF h head_constructive] head_tables by auto
  moreover have "''public'' \<in> set (dm_schemas h)"
    using exec_all_schemas [OF h head_constructive] by (auto simp: empty_database_def)
  ultimately obtain e where e: "exec_all orm_tables h = Some e" using mends_run [OF orm_mends] by blast
  have "list_all additive orm_tables" by (simp add: orm_tables_def)
  from additive_all [OF e this] planned_columns [OF h head_constructive older_in_head]
  have older: "list_all (has_column e) older_columns" by (auto simp: list_all_iff intro: has_column_grown)
  have "set model_tables \<subseteq> table_names e" using exec_all_names [OF e orm_tables_constructive] made_orm by simp
  from init_db_runs [OF e this older] h show ?thesis by blast
qed

lemma init_db_repeatable_witness:
  "\<exists>d'. exec_all init_db (empty_database []) = Some d' \<and> exec_all init_db d' = Some d'"
proof -
  obtain d' where "exec_all init_db (empty_database []) = Some d'" using started_runs by blast
  with init_db_repeatable [OF this] show ?thesis by blast
qed

lemma installations_drift_witness:
  "\<exists>head migrated started. exec_all upgrade_head (empty_database []) = Some head \<and> exec_all init_db head = Some migrated
     \<and> exec_all init_db (empty_database []) = Some started
     \<and> table_drift (pub ''student_outreach_tracking'') migrated started
        = Some [lost ''state'' (SString 50) (Literal ''ELIGIBLE''), lost ''current_attempt'' SInteger (Literal ''0''), lost_mode]
     \<and> constraints_in (pub ''outreach_history'') migrated \<noteq> constraints_in (pub ''outreach_history'') started"
proof -
  obtain h m s where runs: "exec_all upgrade_head (empty_database []) = Some h" "exec_all init_db h = Some m"
    "exec_all init_db (empty_database []) = Some s" using migrated_runs started_runs by blast
  note drift = installations_drift [OF runs]
  have linked: "pub ''outreach_history'' \<in> set linked_tables" by (simp add: linked_tables_def)
  with drift have "constraints_in (pub ''outreach_history'') m \<noteq> constraints_in (pub ''outreach_history'') s"
    by (auto simp: link_to_case_def)
  moreover have "pub ''student_outreach_tracking'' \<in> table_names s"
    using exec_all_names [OF runs(3) init_db_constructive] init_db_tables by (simp add: model_tables_def)
  with drift have "table_drift (pub ''student_outreach_tracking'') m s = Some (drift_of (pub ''student_outreach_tracking''))"
    by blast
  moreover have "drift_of (pub ''student_outreach_tracking'')
      = [lost ''state'' (SString 50) (Literal ''ELIGIBLE''), lost ''current_attempt'' SInteger (Literal ''0''), lost_mode]"
    by (simp add: drift_of_def known_drift_def)
  ultimately show ?thesis using runs by auto
qed

end
