(* ===== verification/Accounts.thy ===== *)
theory Accounts
  imports Installations
begin

text \<open>
  What the accounts the migrations provide for may write, as an access matrix, compared with what
  the statements of the snapshot and report services need.
\<close>

section \<open>The access matrix\<close>

fun gives_access :: "access \<Rightarrow> privilege \<Rightarrow> bool" where
  "gives_access (GrantUsage s) p = (p = UsageOn s)"
| "gives_access (GrantSelectAll s) p = (case p of CanSelect n \<Rightarrow> fst n = s | _ \<Rightarrow> False)"
| "gives_access (GrantSelect n) p = (p = CanSelect n)"
| "gives_access (GrantInsert n) p = (p = CanInsert n)"
| "gives_access (GrantUpdate n cs) p = (p = CanUpdate n cs)"
| "gives_access (GrantNumbersAll s) p = (case p of CanNumber n \<Rightarrow> fst n = s | _ \<Rightarrow> False)"
| "gives_access (GrantNumbers n) p = (p = CanNumber n)"
| "gives_access _ p = False"

fun gives :: "string \<times> privilege \<Rightarrow> ddl \<Rightarrow> bool" where
  "gives g (IfRole r as) = (fst g = r \<and> list_ex (\<lambda>a. gives_access a (snd g)) as)"
| "gives g (Access r as) = (fst g = r \<and> list_ex (\<lambda>a. gives_access a (snd g)) as)"
| "gives g _ = False"

lemma access_gives:
  assumes "exec_access r a d = Some d'" and "g \<in> dm_grants d'"
  shows "g \<in> dm_grants d \<or> fst g = r \<and> gives_access a (snd g)"
  using assms by (cases a) (auto simp: grant_def revoke_def tables_of_def split: if_splits)

lemma accesses_give:
  "each (exec_access r) as d = Some d' \<Longrightarrow> g \<in> dm_grants d'
   \<Longrightarrow> g \<in> dm_grants d \<or> fst g = r \<and> list_ex (\<lambda>a. gives_access a (snd g)) as"
proof (induction "as" arbitrary: d)
  case (Cons a "as")
  then obtain e where e: "exec_access r a d = Some e" "each (exec_access r) as e = Some d'" by (auto split: bind_splits)
  from Cons.IH [OF e(2) Cons.prems(2)] access_gives [OF e(1), of g] show ?case by auto
qed simp

lemma no_new_grants:
  assumes "exec_ddl op d = Some d'" and "\<And>r as. op \<noteq> IfRole r as \<and> op \<noteq> Access r as"
  shows "dm_grants d' \<subseteq> dm_grants d"
proof (cases op)
  case (CreateMissing n t "is")
  then have "additive op" by simp
  from additive_exec [OF assms(1) this] show ?thesis by (simp add: db_grown_def)
next
  case (AddColumn n c co)
  then have "additive op" by simp
  from additive_exec [OF assms(1) this] show ?thesis by (simp add: db_grown_def)
qed (use assms in \<open>auto simp: add_table_def add_index_def without_def drop_schema_def Let_def split: if_splits\<close>)

lemma exec_gives:
  assumes "exec_ddl op d = Some d'" and "g \<in> dm_grants d'"
  shows "g \<in> dm_grants d \<or> gives g op"
proof (cases "\<exists>r as. op = IfRole r as \<or> op = Access r as")
  case True
  then obtain r "as" where "op = IfRole r as \<or> op = Access r as" by blast
  then show ?thesis using assms accesses_give [of r "as" d d' g] by (auto split: if_splits)
next
  case False
  with no_new_grants [OF assms(1)] assms(2) show ?thesis by blast
qed

lemma exec_all_gives:
  "exec_all ops d = Some d' \<Longrightarrow> g \<in> dm_grants d' \<Longrightarrow> g \<in> dm_grants d \<or> list_ex (gives g) ops"
proof (induction ops arbitrary: d)
  case (Cons op ops)
  then obtain e where e: "exec_ddl op d = Some e" "exec_all ops e = Some d'" by (auto split: bind_splits)
  from Cons.IH [OF e(2) Cons.prems(2)] exec_gives [OF e(1), of g] show ?case by auto
qed simp

lemma init_db_gives_nothing: "\<not> list_ex (gives g) init_db"
proof -
  have "\<not> gives g op" if "additive op" for op using that by (cases op) auto
  then show ?thesis using init_db_additive by (auto simp: list_ex_iff list_all_iff)
qed

text \<open>Who may insert where, and who may update which columns.\<close>

definition inserters :: "(string \<times> tname) list" where
  "inserters = [(''finalization_service_user'', ware ''student_snapshots''),
     (''finalization_service_user'', ware ''snapshot_ai_narratives''), (''finalization_service_user'', ware ''monthly_reports''),
     (''finalization_service_user'', ware ''report_audit_log''), (''compliance_pathway_user'', audit ''deletion_log''),
     (''compliance_pathway_user'', audit ''scope_manifests''), (''config_admin_user'', pub ''config_version_registry'')]"

definition updaters :: "(string \<times> tname \<times> string list) list" where
  "updaters = [(''compliance_pathway_user'', ware ''student_snapshots'', [''status'']),
     (''config_admin_user'', pub ''config_version_registry'', [''status'', ''superseded_by_version_id'', ''deactivated_at''])]"

lemma head_gives_insert: "list_ex (gives (r, CanInsert n)) upgrade_head \<Longrightarrow> (r, n) \<in> set inserters"
  by (auto simp: upgrade_head_def revisions_def upgrade_simps inserters_def)

lemma head_gives_update: "list_ex (gives (r, CanUpdate n cs)) upgrade_head \<Longrightarrow> (r, n, cs) \<in> set updaters"
  by (auto simp: upgrade_head_def revisions_def upgrade_simps updaters_def)

lemma head_gives_select:
  "list_ex (gives (r, CanSelect n)) upgrade_head
   \<Longrightarrow> r = ''app_service_user'' \<or> n = pub ''config_version_registry''"
  by (auto simp: upgrade_head_def revisions_def upgrade_simps)

section \<open>What the services need\<close>

text \<open>
  An account may run a statement when it holds every privilege the statement needs; an update needs
  the privilege for each column it sets, and reading a column, also to return it, needs selection.
\<close>

definition may :: "database \<Rightarrow> string \<Rightarrow> privilege \<Rightarrow> bool" where
  "may d r p = (case p of
     CanUpdate n cs \<Rightarrow> \<forall>c \<in> set cs. \<exists>cs'. c \<in> set cs' \<and> (r, CanUpdate n cs') \<in> dm_grants d
   | _ \<Rightarrow> (r, p) \<in> dm_grants d)"

definition report_refresh_needs :: "privilege list" where
  "report_refresh_needs = [UsageOn ''warehouse'', CanSelect (ware ''monthly_reports''),
     CanUpdate (ware ''monthly_reports'') [''report_content_json'', ''template_version'', ''report_idempotency_key'',
       ''generated_at'', ''published_at'', ''source_snapshot_fingerprint_json'']]"

definition report_insert_needs :: "privilege list" where
  "report_insert_needs = [UsageOn ''warehouse'', CanSelect (ware ''monthly_reports''),
     CanInsert (ware ''monthly_reports''), CanNumber (ware ''monthly_reports'')]"

definition snapshot_insert_needs :: "privilege list" where
  "snapshot_insert_needs = [UsageOn ''warehouse'', CanSelect (ware ''student_snapshots''),
     CanInsert (ware ''student_snapshots''), CanNumber (ware ''student_snapshots'')]"

definition narrative_backfill_needs :: "privilege list" where
  "narrative_backfill_needs = [UsageOn ''warehouse'', CanSelect (ware ''snapshot_ai_narratives''),
     CanUpdate (ware ''snapshot_ai_narratives'') [''risk_summary_text'', ''progress_summary_text'', ''monthly_narrative_text'',
       ''intervention_recommendation_text'', ''trend_interpretation_text'']]"

lemma granted_after_install:
  assumes "exec_all upgrade_head (empty_database roles) = Some head" and "exec_all init_db head = Some d"
  shows "g \<in> dm_grants d \<Longrightarrow> list_ex (gives g) upgrade_head"
  using exec_all_gives [OF assms(2)] exec_all_gives [OF assms(1)] init_db_gives_nothing
  by (auto simp: empty_database_def)

text \<open>
  C30. On a migrated and started installation, whichever of the accounts exist and their owner apart: the warehouse, the
  compliance audit and the registry are written by the accounts of the access matrix only, the one
  column of the warehouse any account may update is the status of a snapshot, and the account of
  the application may write none of them. So no account may run the statements of the services:
  neither the insertion of a snapshot nor of a report, which also read the table, nor the refresh
  of a report, nor the backfill of narratives.
\<close>

theorem warehouse_accounts:
  assumes "exec_all upgrade_head (empty_database roles) = Some head" and "exec_all init_db head = Some d"
  shows "((r, CanInsert n) \<in> dm_grants d \<longrightarrow> (r, n) \<in> set inserters)
    \<and> ((r, CanUpdate n cs) \<in> dm_grants d \<longrightarrow> (r, n, cs) \<in> set updaters)
    \<and> (\<forall>needs \<in> {snapshot_insert_needs, report_insert_needs, report_refresh_needs, narrative_backfill_needs}.
         \<exists>p \<in> set needs. \<not> may d r p)"
proof (intro conjI impI ballI)
  note granted = granted_after_install [OF assms]
  have ins: "(r, n) \<in> set inserters" if "(r, CanInsert n) \<in> dm_grants d" for r n
    using head_gives_insert [OF granted [OF that]] .
  have upd: "(r, n, cs) \<in> set updaters" if "(r, CanUpdate n cs) \<in> dm_grants d" for r n cs
    using head_gives_update [OF granted [OF that]] .
  have sel: "r = ''app_service_user'' \<or> n = pub ''config_version_registry''" if "(r, CanSelect n) \<in> dm_grants d" for r n
    using head_gives_select [OF granted [OF that]] .
  show "(r, CanInsert n) \<in> dm_grants d \<Longrightarrow> (r, n) \<in> set inserters" by (rule ins)
  show "(r, CanUpdate n cs) \<in> dm_grants d \<Longrightarrow> (r, n, cs) \<in> set updaters" by (rule upd)
  have writes: "\<not> may d ''app_service_user'' (CanInsert n)" for n
    using ins [of "''app_service_user''" n] by (auto simp: may_def inserters_def)
  have reads: "r = ''app_service_user''" if "may d r (CanSelect (ware n))" for n
    using sel [of r "ware n"] that by (simp add: may_def)
  have updates: "\<not> may d r (CanUpdate (ware n) cs)" if "c \<in> set cs" "c \<noteq> ''status''" for n c cs
    using that upd by (fastforce simp: may_def updaters_def)
  have needs_both: "\<exists>p \<in> set ps. \<not> may d r p" if "CanSelect (ware m) \<in> set ps" "CanInsert n \<in> set ps" for ps m n
    using that reads [of m] writes [of n] by (cases "r = ''app_service_user''") blast+
  have needs_update: "\<exists>p \<in> set ps. \<not> may d r p" if "CanUpdate (ware n) (c # cs) \<in> set ps" "c \<noteq> ''status''" for ps n c cs
    using that updates [of c "c # cs" n] by (intro bexI [of _ "CanUpdate (ware n) (c # cs)"]) simp_all
  fix needs
  assume "needs \<in> {snapshot_insert_needs, report_insert_needs, report_refresh_needs, narrative_backfill_needs}"
  then consider "needs = snapshot_insert_needs" | "needs = report_insert_needs" | "needs = report_refresh_needs"
    | "needs = narrative_backfill_needs" by blast
  then show "\<exists>p \<in> set needs. \<not> may d r p"
  proof cases
    case 1
    show ?thesis unfolding 1 by (rule needs_both) (simp_all add: snapshot_insert_needs_def)
  next
    case 2
    show ?thesis unfolding 2 by (rule needs_both) (simp_all add: report_insert_needs_def)
  next
    case 3
    show ?thesis unfolding 3 by (rule needs_update [of "''monthly_reports''" "''report_content_json''"])
      (simp_all add: report_refresh_needs_def)
  next
    case 4
    show ?thesis unfolding 4 by (rule needs_update [of "''snapshot_ai_narratives''" "''risk_summary_text''"])
      (simp_all add: narrative_backfill_needs_def)
  qed
qed

lemma warehouse_accounts_witness:
  "\<exists>head d. exec_all upgrade_head (empty_database [''app_service_user'']) = Some head \<and> exec_all init_db head = Some d
     \<and> (\<exists>p \<in> set report_refresh_needs. \<not> may d ''app_service_user'' p)"
proof -
  obtain head d where run: "exec_all upgrade_head (empty_database [''app_service_user'']) = Some head" "exec_all init_db head = Some d"
    using migrated_runs by blast
  have "\<exists>p \<in> set report_refresh_needs. \<not> may d ''app_service_user'' p"
    using conjunct2 [OF conjunct2 [OF warehouse_accounts [OF run, of "''app_service_user''"]]] by simp
  with run show ?thesis by blast
qed

end
