(* ===== verification/ConfigRegistry.thy ===== *)
theory ConfigRegistry
  imports Scheduler SchemaProps
begin

text \<open>
  The registry of configuration versions: its rows and the constraints of revision 0003, the
  statements its administrator may run, the row the revision seeds, the queries of
  \<^verbatim>\<open>app/database.py\<close> that read it, and the start-up of \<^verbatim>\<open>app/main.py\<close> from the preparation of the
  database over check, loader and bootstrap to the registration of the jobs. A statement the
  database refuses is \<open>None\<close>. Floats are the exact values of the decimal literals as doubles.
\<close>

section \<open>Rows\<close>

record registry_row =
  cv_id :: int
  cv_version_number :: int
  cv_status :: string
  cv_prior_version_id :: "int option"
  cv_superseded_by_version_id :: "int option"
  cv_effective_from :: "string option"
  cv_activated_at :: "string option"
  cv_activated_by :: "string option"
  cv_deactivated_at :: "string option"
  cv_proposed_by :: "string option"
  cv_approved_by :: "string option"
  cv_approval_timestamp :: "string option"
  cv_change_rationale :: "string option"
  cv_governance_notes :: "string option"
  cv_rules :: pydict
  cv_rule_set_snapshot_json :: "pydict option"

definition registry_statuses :: "string set" where
  "registry_statuses = {''PROPOSED'', ''UNDER_REVIEW'', ''APPROVED'', ''ACTIVE'', ''ARCHIVED'', ''SUPERSEDED''}"

text \<open>The rule columns, in the order of the table; all but the deviation alert are required.\<close>

definition rule_columns :: "string list" where
  "rule_columns = [''cap_hopeful_min_percomp'', ''launch_hopeful_min_percomp'', ''cap_section_exclusion_patterns_json'',
     ''launch_section_inclusion_pattern'', ''placement_section_inclusion_pattern'', ''hw_at_risk_min_behind'',
     ''hw_at_risk_max_eff_rating'', ''hw_critical_min_behind'', ''hw_critical_max_eff_rating'',
     ''payment_medium_threshold'', ''payment_high_threshold'', ''payment_deviation_alert_threshold'',
     ''priority_hw_weight'', ''priority_hw_cap'', ''priority_eff_weight'', ''priority_eff_cap'',
     ''priority_inactivity_weight'', ''priority_inactivity_cap'', ''ai_insight_ttl_hours'',
     ''outreach_retry_window_days'', ''placement_inactivity_alert_days'', ''access_revocation_alert_hours'',
     ''ai_llm_provider'', ''outreach_provider'']"

definition rules_complete :: "pydict \<Rightarrow> bool" where
  "rules_complete d \<longleftrightarrow> map fst d = rule_columns
     \<and> list_all (\<lambda>(k, v). k = ''payment_deviation_alert_threshold'' \<or> v \<noteq> VNone) d"

definition name_fits :: "string option \<Rightarrow> bool" where
  "name_fits s = (case s of None \<Rightarrow> True | Some t \<Rightarrow> length t \<le> 200)"

text \<open>The check and null constraints of one row.\<close>

definition row_ok :: "registry_row \<Rightarrow> bool" where
  "row_ok r \<longleftrightarrow> cv_status r \<in> registry_statuses \<and> 0 < cv_version_number r \<and> rules_complete (cv_rules r)
     \<and> name_fits (cv_activated_by r) \<and> name_fits (cv_proposed_by r) \<and> name_fits (cv_approved_by r)"

definition points_to :: "registry_row list \<Rightarrow> int option \<Rightarrow> bool" where
  "points_to rows x = (case x of None \<Rightarrow> True | Some i \<Rightarrow> list_ex (\<lambda>r. cv_id r = i) rows)"

definition active :: "registry_row \<Rightarrow> bool" where
  "active r \<longleftrightarrow> cv_status r = ''ACTIVE''"

text \<open>All constraints of the table: keys, unique indexes, and the pointers between versions.\<close>

definition table_ok :: "registry_row list \<Rightarrow> bool" where
  "table_ok rows \<longleftrightarrow> list_all row_ok rows \<and> distinct (map cv_id rows) \<and> distinct (map cv_version_number rows)
     \<and> length (filter active rows) \<le> 1
     \<and> list_all (\<lambda>r. points_to rows (cv_prior_version_id r) \<and> points_to rows (cv_superseded_by_version_id r)) rows"

record registry =
  rg_rows :: "registry_row list"
  rg_next_id :: int

definition registry_ok :: "registry \<Rightarrow> bool" where
  "registry_ok g \<longleftrightarrow> table_ok (rg_rows g) \<and> list_all (\<lambda>r. cv_id r < rg_next_id g) (rg_rows g)"

section \<open>Statements of the administrator\<close>

text \<open>
  What an \<^verbatim>\<open>UPDATE\<close> may set: the three columns the role has the privilege for; \<open>None\<close> is a
  column the statement does not set.
\<close>

record metadata =
  md_status :: "string option"
  md_superseded_by :: "int option option"
  md_deactivated_at :: "string option option"

definition apply_metadata :: "metadata \<Rightarrow> registry_row \<Rightarrow> registry_row" where
  "apply_metadata m r = r\<lparr>cv_status := case_option (cv_status r) id (md_status m),
     cv_superseded_by_version_id := case_option (cv_superseded_by_version_id r) id (md_superseded_by m),
     cv_deactivated_at := case_option (cv_deactivated_at r) id (md_deactivated_at m)\<rparr>"

datatype registry_statement =
    InsertVersion registry_row
  | UpdateVersions "registry_row \<Rightarrow> bool" metadata

text \<open>Constraints are checked at the end of each statement; the table deciding the new identifier.\<close>

fun exec_registry :: "registry_statement \<Rightarrow> registry \<Rightarrow> registry option" where
  "exec_registry (InsertVersion r) g =
    (let rows = rg_rows g @ [r\<lparr>cv_id := rg_next_id g\<rparr>]
     in if table_ok rows then Some \<lparr>rg_rows = rows, rg_next_id = rg_next_id g + 1\<rparr> else None)"
| "exec_registry (UpdateVersions P m) g =
    (let rows = map (\<lambda>r. if P r then apply_metadata m r else r) (rg_rows g)
     in if table_ok rows then Some (g\<lparr>rg_rows := rows\<rparr>) else None)"

text \<open>The activation the revision documents: supersede the active version, then insert the new one.\<close>

definition superseding :: "int option \<Rightarrow> string \<Rightarrow> metadata" where
  "superseding new_id now = \<lparr>md_status = Some ''SUPERSEDED'', md_superseded_by = Some new_id,
     md_deactivated_at = Some (Some now)\<rparr>"

definition documented_activation :: "int \<Rightarrow> string \<Rightarrow> registry_row \<Rightarrow> registry_statement list" where
  "documented_activation new_id now r =
    [UpdateVersions active (superseding (Some new_id) now), InsertVersion (r\<lparr>cv_status := ''ACTIVE''\<rparr>)]"

section \<open>The seed\<close>

definition seed_rules :: pydict where
  "seed_rules = [(''cap_hopeful_min_percomp'', VFloat (Fin (5404319552844595 / 18014398509481984))),
     (''launch_hopeful_min_percomp'', VFloat (Fin (5314247560297185 / 9007199254740992))),
     (''cap_section_exclusion_patterns_json'', str_list [''%launch%'', ''%CAP%'']),
     (''launch_section_inclusion_pattern'', VStr ''%CAP%''), (''placement_section_inclusion_pattern'', VStr ''%launch%''),
     (''hw_at_risk_min_behind'', VInt 1), (''hw_at_risk_max_eff_rating'', VFloat (Fin 3)),
     (''hw_critical_min_behind'', VInt 3), (''hw_critical_max_eff_rating'', VFloat (Fin 2)),
     (''payment_medium_threshold'', VFloat (Fin (5764607523034235 / 576460752303423488))),
     (''payment_high_threshold'', VFloat (Fin 1000)), (''payment_deviation_alert_threshold'', VNone),
     (''priority_hw_weight'', VFloat (Fin 10)), (''priority_hw_cap'', VFloat (Fin 50)),
     (''priority_eff_weight'', VFloat (Fin 7)), (''priority_eff_cap'', VFloat (Fin 35)),
     (''priority_inactivity_weight'', VFloat (Fin 2)), (''priority_inactivity_cap'', VFloat (Fin 50)),
     (''ai_insight_ttl_hours'', VInt 24), (''outreach_retry_window_days'', VInt 3),
     (''placement_inactivity_alert_days'', VInt 7), (''access_revocation_alert_hours'', VInt 48),
     (''ai_llm_provider'', VStr ''anthropic''), (''outreach_provider'', VStr ''ghl'')]"

text \<open>The snapshot of the rules; one key is not the name of its column.\<close>

definition seed_rule_set :: pydict where
  "seed_rule_set = [(''cap_hopeful_min_percomp'', VFloat (Fin (5404319552844595 / 18014398509481984))),
     (''launch_hopeful_min_percomp'', VFloat (Fin (5314247560297185 / 9007199254740992))),
     (''cap_section_exclusion_patterns'', str_list [''%launch%'', ''%CAP%'']),
     (''launch_section_inclusion_pattern'', VStr ''%CAP%''), (''placement_section_inclusion_pattern'', VStr ''%launch%''),
     (''hw_at_risk_min_behind'', VInt 1), (''hw_at_risk_max_eff_rating'', VFloat (Fin 3)),
     (''hw_critical_min_behind'', VInt 3), (''hw_critical_max_eff_rating'', VFloat (Fin 2)),
     (''payment_medium_threshold'', VFloat (Fin (5764607523034235 / 576460752303423488))),
     (''payment_high_threshold'', VFloat (Fin 1000)), (''payment_deviation_alert_threshold'', VNone),
     (''priority_hw_weight'', VFloat (Fin 10)), (''priority_hw_cap'', VFloat (Fin 50)),
     (''priority_eff_weight'', VFloat (Fin 7)), (''priority_eff_cap'', VFloat (Fin 35)),
     (''priority_inactivity_weight'', VFloat (Fin 2)), (''priority_inactivity_cap'', VFloat (Fin 50)),
     (''ai_insight_ttl_hours'', VInt 24), (''outreach_retry_window_days'', VInt 3),
     (''placement_inactivity_alert_days'', VInt 7), (''access_revocation_alert_hours'', VInt 48),
     (''ai_llm_provider'', VStr ''anthropic''), (''outreach_provider'', VStr ''ghl'')]"

definition seed_row :: "string \<Rightarrow> registry_row" where
  "seed_row now = \<lparr>cv_id = 0, cv_version_number = 1, cv_status = ''ACTIVE'', cv_prior_version_id = None,
     cv_superseded_by_version_id = None, cv_effective_from = Some now, cv_activated_at = Some now,
     cv_activated_by = Some ''system_migration_0003'', cv_deactivated_at = None,
     cv_proposed_by = Some ''system_migration_0003'', cv_approved_by = Some ''system_migration_0003'',
     cv_approval_timestamp = Some now,
     cv_change_rationale = Some (''V1 baseline configuration '' @ [CHR 0x97] @ '' initial platform defaults per spec/01 Sections 12.1 through 12.7. All threshold values derived from SQL operational heuristics. This is the only version that does not require a prior human authorization workflow: it captures pre-existing operational defaults at platform launch.''),
     cv_governance_notes = Some ''Seeded automatically by Alembic migration 0003. No prior version exists.'',
     cv_rules = seed_rules, cv_rule_set_snapshot_json = Some seed_rule_set\<rparr>"

definition seeded_registry :: "string \<Rightarrow> registry option" where
  "seeded_registry now = exec_registry (InsertVersion (seed_row now)) \<lparr>rg_rows = [], rg_next_id = 1\<rparr>"

section \<open>Readers\<close>

text \<open>
  What the start-up meets: the schema and whether it can be reached, the rows of the registry (if
  the schema has its table), the revision \<^verbatim>\<open>alembic\<close> has recorded, and the exceptions, each with
  its class and its text: where the session of the check fails, that of the loader, and that of a
  query on a table that does not exist.
\<close>

type_synonym exception_text = "string \<times> string"

datatype check_stage = Connecting | ReadingRows | Closing

record startup_db =
  sd_connects :: bool
  sd_schema :: database
  sd_registry :: registry
  sd_revision :: "string option"
  sd_check_failure :: "(check_stage \<times> exception_text) option"
  sd_load_failure :: "exception_text option"
  sd_missing_table :: exception_text

definition registry_exists :: "startup_db \<Rightarrow> bool" where
  "registry_exists d \<longleftrightarrow> pub ''config_version_registry'' \<in> fst ` set (dm_tables (sd_schema d))"

definition quoted :: "string \<Rightarrow> string" where
  "quoted s = CHR 0x27 # s @ [CHR 0x27]"

definition config_version_row :: "registry_row \<Rightarrow> config_row" where
  "config_version_row r = \<lparr>cf_version_id = show_int (cv_version_number r), cf_id = cv_id r,
     cf_text = ''ConfigVersionRow(version_id='' @ quoted (show_int (cv_version_number r)) @ '', id='' @ show_int (cv_id r)
       @ '', version_number='' @ show_int (cv_version_number r) @ '', status='' @ quoted (cv_status r) @ '')''\<rparr>"

definition active_rows :: "registry \<Rightarrow> registry_row list" where
  "active_rows g = filter active (rg_rows g)"

text \<open>The loader: its rows, and the warning when it fails.\<close>

definition load_warning :: "exception_text \<Rightarrow> log_line" where
  "load_warning e = LogText ''warning'' (''Config V2 load failed '' @ [char_of (226 :: nat), char_of (128 :: nat), char_of (148 :: nat)]
     @ '' UNKNOWN_V0 degradation path: '' @ fst e @ '': '' @ snd e)"

definition load_active_config_versions :: "startup_db \<Rightarrow> config_row list \<times> log_line list" where
  "load_active_config_versions d =
    (case sd_load_failure d of
       Some e \<Rightarrow> ([], [load_warning e])
     | None \<Rightarrow>
         if registry_exists d then (map config_version_row (active_rows (sd_registry d)), [])
         else ([], [load_warning (sd_missing_table d)]))"

text \<open>
  The check fills its dictionary step by step, so a failure leaves what was read before it. The
  query of the revision has a handler of its own: without its table the revision is null.
\<close>

definition check_state :: "bool \<Rightarrow> int \<Rightarrow> pyval \<Rightarrow> pyval \<Rightarrow> pydict" where
  "check_state found n v revision = [(''config_version_registry_exists'', VBool found), (''active_config_count'', VInt n),
     (''active_config_version_number'', v), (''alembic_current_revision'', revision)]"

definition full_state :: "startup_db \<Rightarrow> pydict" where
  "full_state d =
    (if registry_exists d then
       check_state True (int (length (active_rows (sd_registry d))))
         (case active_rows (sd_registry d) of [r] \<Rightarrow> VInt (cv_version_number r) | _ \<Rightarrow> VNone) (opt_val (sd_revision d))
     else check_state False 0 VNone (opt_val (sd_revision d)))"

definition check_failed :: "exception_text \<Rightarrow> pydict \<Rightarrow> pydict \<times> log_line list" where
  "check_failed e state = (state @ [(''verification_error'', VStr (snd e))],
     [LogText ''error'' (''Startup DB verification failed: '' @ fst e @ '': '' @ snd e)])"

definition verify_startup_db_state :: "startup_db \<Rightarrow> pydict \<times> log_line list" where
  "verify_startup_db_state d =
    (case sd_check_failure d of
       None \<Rightarrow> (full_state d, [])
     | Some (Connecting, e) \<Rightarrow> check_failed e (check_state False 0 VNone VNone)
     | Some (ReadingRows, e) \<Rightarrow>
         if registry_exists d then check_failed e (check_state True 0 VNone VNone) else (full_state d, [])
     | Some (Closing, e) \<Rightarrow> check_failed e (full_state d))"

text \<open>The line of the check is written at level INFO; its field \<^verbatim>\<open>level\<close> follows the count.\<close>

definition startup_check_line :: "runtime \<Rightarrow> pydict \<Rightarrow> log_line" where
  "startup_check_line rt state = LogJson ''info''
     ([(''timestamp'', VStr (rt_now_iso rt)),
       (''level'', VStr (if dict_get state ''active_config_count'' = VInt 1 then ''info'' else ''warning'')),
       (''service'', VStr ''main''), (''event'', VStr ''startup_db_verification'')] @ state)"

section \<open>The jobs of the scheduler\<close>

text \<open>
  The scheduler library keeps the jobs by identifier. Its trigger refuses fields or time zones that
  are not valid (\<open>refuses\<close>), and starting it twice raises.
\<close>

datatype cron = Daily pyval pyval | MonthlyOn int int int | LastDay int int

record job =
  jb_id :: string
  jb_cron :: cron
  jb_timezone :: string
  jb_misfire_grace :: int

record job_scheduler =
  js_running :: bool
  js_jobs :: "job list"

datatype startup_error = DatabaseUnavailable | CronRefused call_error | AlreadyRunning

type_synonym cron_check = "cron \<Rightarrow> string \<Rightarrow> call_error option"
type_synonym job_step = "sched_state \<times> job_scheduler \<Rightarrow> startup_error option \<times> sched_state \<times> job_scheduler"

definition put_job :: "job \<Rightarrow> job_scheduler \<Rightarrow> job_scheduler" where
  "put_job j js = js\<lparr>js_jobs := filter (\<lambda>k. jb_id k \<noteq> jb_id j) (js_jobs js) @ [j]\<rparr>"

definition log_lines :: "log_line list \<Rightarrow> sched_state \<Rightarrow> sched_state" where
  "log_lines ls st = st\<lparr>ss_store := fold emit ls (ss_store st)\<rparr>"

definition scheduler_line :: "runtime \<Rightarrow> string \<Rightarrow> pydict \<Rightarrow> log_line" where
  "scheduler_line rt event d = LogJson ''info''
     ([(''timestamp'', VStr (rt_now_iso rt)), (''level'', VStr ''info''), (''service'', VStr ''scheduler''),
       (''event'', VStr event)] @ d)"

definition start_scheduler :: "runtime \<Rightarrow> cron_check \<Rightarrow> pyval \<Rightarrow> pyval \<Rightarrow> string \<Rightarrow> job_step" where
  "start_scheduler rt refuses hour minute tz = (\<lambda>(st, js).
    case refuses (Daily hour minute) tz of
      Some e \<Rightarrow> (Some (CronRefused e), st, js)
    | None \<Rightarrow>
        let js1 = put_job \<lparr>jb_id = ''governance_orchestration_cycle'', jb_cron = Daily hour minute,
              jb_timezone = tz, jb_misfire_grace = 3600\<rparr> js
        in if js_running js then (Some AlreadyRunning, st, js1)
           else (None, log_lines [scheduler_line rt ''scheduler_started''
             [(''trigger_hour'', hour), (''trigger_minute'', minute), (''timezone'', VStr tz),
              (''execution_mode'', VStr (case ss_config st of None \<Rightarrow> ''SHADOW'' | Some c \<Rightarrow> sg_execution_mode c)),
              (''config_version_id'', opt_val (Option.bind (ss_config st) sg_config_version_id))]] st,
             js1\<lparr>js_running := True\<rparr>))"

definition register_job :: "runtime \<Rightarrow> cron_check \<Rightarrow> job \<Rightarrow> string \<Rightarrow> string \<Rightarrow> job_step" where
  "register_job rt refuses j event cron_text = (\<lambda>(st, js).
    case refuses (jb_cron j) (jb_timezone j) of
      Some e \<Rightarrow> (Some (CronRefused e), st, js)
    | None \<Rightarrow> (None, log_lines [scheduler_line rt event [(''cron'', VStr cron_text), (''timezone'', VStr (jb_timezone j))]] st,
        put_job j js))"

definition start_monthly_report_job :: "runtime \<Rightarrow> cron_check \<Rightarrow> string \<Rightarrow> job_step" where
  "start_monthly_report_job rt refuses tz = register_job rt refuses
     \<lparr>jb_id = ''monthly_report_generation'', jb_cron = MonthlyOn 1 2 0, jb_timezone = tz, jb_misfire_grace = 7200\<rparr>
     ''monthly_report_job_registered'' ''day=1 hour=2 minute=0''"

definition start_daily_sync_job :: "runtime \<Rightarrow> cron_check \<Rightarrow> string \<Rightarrow> job_step" where
  "start_daily_sync_job rt refuses tz = register_job rt refuses
     \<lparr>jb_id = ''daily_mssql_sync'', jb_cron = Daily (VInt 1) (VInt 0), jb_timezone = tz, jb_misfire_grace = 3600\<rparr>
     ''daily_sync_job_registered'' ''hour=1 minute=0''"

definition start_month_end_capture_job :: "runtime \<Rightarrow> cron_check \<Rightarrow> string \<Rightarrow> job_step" where
  "start_month_end_capture_job rt refuses tz = register_job rt refuses
     \<lparr>jb_id = ''month_end_state_capture'', jb_cron = LastDay 23 30, jb_timezone = tz, jb_misfire_grace = 3600\<rparr>
     ''month_end_capture_job_registered'' ''day=last hour=23 minute=30''"

fun run_job_steps :: "job_step list \<Rightarrow> job_step" where
  "run_job_steps [] s = (None, s)"
| "run_job_steps (f # fs) s = (case f s of (Some e, s') \<Rightarrow> (Some e, s') | (None, s') \<Rightarrow> run_job_steps fs s')"

definition start_jobs :: "(nat \<Rightarrow> runtime) \<Rightarrow> cron_check \<Rightarrow> scheduler_timing \<Rightarrow> job_step" where
  "start_jobs rts refuses timing = run_job_steps
     [start_scheduler (rts 2) refuses (tm_trigger_hour timing) (tm_trigger_minute timing) (tm_timezone_str timing),
      start_monthly_report_job (rts 3) refuses ''UTC'', start_daily_sync_job (rts 4) refuses ''UTC'',
      start_month_end_capture_job (rts 5) refuses ''UTC'']"

section \<open>Start-up\<close>

definition application_started_line :: "bootstrap_context \<Rightarrow> log_line" where
  "application_started_line b = LogJson ''info''
     [(''timestamp'', VStr (bc_startup_timestamp b)), (''level'', VStr ''info''), (''service'', VStr ''main''),
      (''event'', VStr ''application_started''), (''execution_mode'', VStr (bc_execution_mode b)),
      (''governance_scope'', VStr (bc_governance_scope b)),
      (''startup_classification'', VStr (bc_startup_classification b)),
      (''config_version_id'', VStr (bc_config_version_id b)),
      (''shadow_containment_active'', VBool (bc_shadow_containment_active b)),
      (''degradation_state'', VBool (bc_degradation_state b)),
      (''degradation_codes'', str_list (bc_degradation_codes b)),
      (''startup_correlation_id'', VStr (bc_startup_correlation_id b))]"

text \<open>
  The whole start-up. \<^verbatim>\<open>init_db\<close> runs in one transaction and has no handler: an unreachable
  database or a refused statement ends the start-up with nothing changed. The readings of the clock
  and the generated identifier are \<open>rts\<close>.
\<close>

definition on_startup :: "(nat \<Rightarrow> runtime) \<Rightarrow> cron_check \<Rightarrow> string \<Rightarrow> int \<Rightarrow> int \<Rightarrow> string
    \<Rightarrow> startup_db \<Rightarrow> sched_state \<Rightarrow> job_scheduler
    \<Rightarrow> (startup_error + bootstrap_context) \<times> startup_db \<times> sched_state \<times> job_scheduler" where
  "on_startup rts refuses execution_mode hour minute timezone d st js =
    (case (if sd_connects d then exec_all init_db (sd_schema d) else None) of
       None \<Rightarrow> (Inl DatabaseUnavailable, d, st, js)
     | Some schema \<Rightarrow>
         let d1 = d\<lparr>sd_schema := schema\<rparr>;
             (state, errors) = verify_startup_db_state d1;
             (rows, warnings) = load_active_config_versions d1;
             st1 = log_lines (errors @ startup_check_line (rts 0) state # warnings) st;
             (b, st2) = startup_wiring (rts 1) execution_mode (Some rows) hour minute timezone st1;
             (failure, st3, js1) = start_jobs rts refuses (bc_scheduler_timing b) (st2, js)
         in case failure of
              Some e \<Rightarrow> (Inl e, d1, st3, js1)
            | None \<Rightarrow> (Inr b, d1, log_lines [application_started_line b] st3, js1))"

end
