(* ===== verification/ConfigRegistryProps.thy ===== *)
theory ConfigRegistryProps
  imports ConfigRegistry Installations "HOL-Library.Sublist"
begin

text \<open>
  Properties of the registry: what no sequence of the administrator's statements can change, which
  activations the constraints admit, and the version the start-up works with.
\<close>

section \<open>Constraints\<close>

text \<open>A version without the columns that may change.\<close>

definition frozen :: "registry_row \<Rightarrow> registry_row" where
  "frozen r = r\<lparr>cv_status := [], cv_superseded_by_version_id := None, cv_deactivated_at := None\<rparr>"

lemma frozen_apply [simp]: "frozen (apply_metadata m r) = frozen r"
  by (simp add: frozen_def apply_metadata_def)

lemma apply_metadata_id [simp]: "cv_id (apply_metadata m r) = cv_id r"
  by (simp add: apply_metadata_def)

lemma exec_registry_ok:
  assumes "exec_registry op g = Some g'" and "registry_ok g"
  shows "registry_ok g'"
  using assms by (cases op) (fastforce simp: registry_ok_def Let_def list_all_iff split: if_splits)+

lemma update_frozen [simp]: "map (frozen \<circ> (\<lambda>r. if P r then apply_metadata m r else r)) rs = map frozen rs"
  by simp

lemma exec_registry_frozen: "exec_registry op g = Some g' \<Longrightarrow> prefix (map frozen (rg_rows g)) (map frozen (rg_rows g'))"
  by (cases op) (auto simp: Let_def simp del: map_eq_conv split: if_splits)

lemma registry_step:
  assumes "exec_registry op g = Some g'" and "registry_ok g \<and> prefix xs (map frozen (rg_rows g))"
  shows "registry_ok g' \<and> prefix xs (map frozen (rg_rows g'))"
  using exec_registry_ok [OF assms(1)] exec_registry_frozen [OF assms(1)] assms(2) prefix_order.trans by blast

lemma points_to_simps [simp]: "points_to rows None" "points_to rows (Some i) \<longleftrightarrow> i \<in> set (map cv_id rows)"
  by (auto simp: points_to_def list_ex_iff)

lemma points_to_cong: "map cv_id xs = map cv_id ys \<Longrightarrow> points_to xs p = points_to ys p"
  by (cases p) (simp_all only: points_to_simps)

lemma points_to_append [simp]: "points_to xs p \<Longrightarrow> points_to (xs @ ys) p"
  by (cases p) auto

lemma update_ids [simp]: "map cv_id (map (\<lambda>r. if P r then apply_metadata m r else r) rows) = map cv_id rows"
  by simp

lemma update_versions [simp]:
  "map cv_version_number (map (\<lambda>r. if P r then apply_metadata m r else r) rows) = map cv_version_number rows"
  by (simp add: apply_metadata_def)

text \<open>Constraints after an update that sets one status and one pointer.\<close>

lemma update_ok:
  assumes "table_ok rows" and "case md_status m of None \<Rightarrow> True | Some s \<Rightarrow> s \<in> registry_statuses"
    and "case md_superseded_by m of None \<Rightarrow> True | Some p \<Rightarrow> points_to rows p"
    and "length (filter active (map (\<lambda>r. if P r then apply_metadata m r else r) rows)) \<le> 1"
  shows "table_ok (map (\<lambda>r. if P r then apply_metadata m r else r) rows)"
proof -
  let ?rows = "map (\<lambda>r. if P r then apply_metadata m r else r) rows"
  have points: "points_to ?rows p = points_to rows p" for p using points_to_cong [OF update_ids] .
  have "row_ok (apply_metadata m r)" if "row_ok r" for r
    using that assms(2) by (auto simp: row_ok_def apply_metadata_def split: option.splits)
  moreover have "points_to rows (cv_superseded_by_version_id (apply_metadata m r))" if "points_to rows (cv_superseded_by_version_id r)" for r
    using that assms(3) by (auto simp: apply_metadata_def split: option.splits)
  moreover have "cv_prior_version_id (apply_metadata m r) = cv_prior_version_id r" for r by (simp add: apply_metadata_def)
  ultimately show ?thesis
    using assms(1,4) unfolding table_ok_def points update_ids update_versions by (auto simp: list_all_iff)
qed

lemma insert_ok:
  assumes "registry_ok g" and "row_ok r" and "cv_version_number r \<notin> cv_version_number ` set (rg_rows g)"
    and "points_to (rg_rows g) (cv_prior_version_id r)" and "cv_superseded_by_version_id r = None"
    and "active r \<Longrightarrow> active_rows g = []"
  shows "table_ok (rg_rows g @ [r\<lparr>cv_id := rg_next_id g\<rparr>])"
proof -
  have "rg_next_id g \<notin> cv_id ` set (rg_rows g)" using assms(1) by (auto simp: registry_ok_def list_all_iff)
  moreover have "row_ok (r\<lparr>cv_id := rg_next_id g\<rparr>)" and "active (r\<lparr>cv_id := rg_next_id g\<rparr>) = active r"
    using assms(2) by (simp_all add: row_ok_def active_def)
  ultimately show ?thesis
    using assms(1,3-6) by (auto simp: registry_ok_def table_ok_def active_rows_def list_all_iff)
qed

text \<open>
  Whatever sequence of statements the administrator of the registry runs, no version and none of
  its rules, authors, rationale or number is ever changed or removed: the versions before it are a
  prefix of those after it up to status, successor and deactivation time. The constraints still
  hold, so never are two versions active.
\<close>

theorem configuration_lineage_append_only:
  assumes "each exec_registry ops g = Some g'" and "registry_ok g"
  shows "registry_ok g' \<and> length (active_rows g') \<le> 1 \<and> prefix (map frozen (rg_rows g)) (map frozen (rg_rows g'))"
proof -
  have "registry_ok g' \<and> prefix (map frozen (rg_rows g)) (map frozen (rg_rows g'))"
    by (rule each_invariant [OF assms(1)]) (use assms(2) registry_step in auto)
  then show ?thesis by (simp add: registry_ok_def table_ok_def active_rows_def)
qed

section \<open>The seed\<close>

definition seeded :: "string \<Rightarrow> registry" where
  "seeded now = \<lparr>rg_rows = [seed_row now\<lparr>cv_id := 1\<rparr>], rg_next_id = 2\<rparr>"

lemma seed_complete: "rules_complete seed_rules"
  by (simp add: rules_complete_def seed_rules_def rule_columns_def str_list_def)

lemma seed_table_ok: "table_ok [seed_row now\<lparr>cv_id := 1\<rparr>]"
  using seed_complete
  by (simp add: table_ok_def row_ok_def seed_row_def registry_statuses_def name_fits_def)

lemma seeded_registry: "seeded_registry now = Some (seeded now)"
  using seed_table_ok by (simp add: seeded_registry_def seeded_def)

lemma seeded_ok: "registry_ok (seeded now)"
  using seed_table_ok by (simp add: registry_ok_def seeded_def)

lemma seeded_active: "active_rows (seeded now) = [seed_row now\<lparr>cv_id := 1\<rparr>]"
  by (simp add: active_rows_def seeded_def active_def seed_row_def)

lemma configuration_lineage_append_only_witness:
  "\<exists>g'. each exec_registry [UpdateVersions active (superseding None ''t''), UpdateVersions active (superseding None ''u'')]
       (seeded ''s'') = Some g'
     \<and> active_rows g' = [] \<and> prefix (map frozen (rg_rows (seeded ''s''))) (map frozen (rg_rows g'))"
proof -
  let ?ops = "[UpdateVersions active (superseding None ''t''), UpdateVersions active (superseding None ''u'')]"
  let ?row = "apply_metadata (superseding None ''t'') (seed_row ''s''\<lparr>cv_id := 1\<rparr>)"
  have off: "\<not> active ?row" by (simp add: active_def apply_metadata_def superseding_def)
  have on: "active (seed_row ''s''\<lparr>cv_id := 1\<rparr>)" by (simp add: active_def seed_row_def)
  have "table_ok (map (\<lambda>r. if active r then apply_metadata (superseding None ''t'') r else r) (rg_rows (seeded ''s'')))"
    using seed_table_ok off on
    by (intro update_ok) (simp_all add: seeded_def superseding_def registry_statuses_def)
  then have ok: "table_ok [?row]" using on by (simp add: seeded_def)
  have run: "each exec_registry ?ops (seeded ''s'') = Some \<lparr>rg_rows = [?row], rg_next_id = 2\<rparr>"
    using ok on off by (simp add: seeded_def)
  from configuration_lineage_append_only [OF run seeded_ok] run off show ?thesis by (simp add: active_rows_def)
qed

section \<open>Activation\<close>

lemma supersede_points:
  assumes "active_rows g \<noteq> []" and "i \<notin> cv_id ` set (rg_rows g)"
  shows "exec_registry (UpdateVersions active (superseding (Some i) now)) g = None"
proof -
  let ?m = "superseding (Some i) now"
  let ?rows = "map (\<lambda>r. if active r then apply_metadata ?m r else r) (rg_rows g)"
  obtain r where r: "r \<in> set (rg_rows g)" "active r" using assms(1) by (auto simp: active_rows_def filter_empty_conv)
  then have "apply_metadata ?m r \<in> set ?rows" by force
  moreover have "cv_superseded_by_version_id (apply_metadata ?m r) = Some i" by (simp add: apply_metadata_def superseding_def)
  moreover have "\<not> points_to ?rows (Some i)" unfolding points_to_cong [OF update_ids] using assms(2) by simp
  ultimately have "\<not> list_all (\<lambda>r. points_to ?rows (cv_prior_version_id r) \<and> points_to ?rows (cv_superseded_by_version_id r)) ?rows"
    unfolding list_all_iff by (metis (no_types, lifting))
  then have "\<not> table_ok ?rows" unfolding table_ok_def by blast
  then show ?thesis by simp
qed

lemma second_active:
  assumes "active_rows g \<noteq> []" and "active r"
  shows "exec_registry (InsertVersion r) g = None"
proof -
  have "active (r\<lparr>cv_id := rg_next_id g\<rparr>)" using assms(2) by (simp add: active_def)
  then show ?thesis using assms(1) by (cases "active_rows g") (auto simp: active_rows_def table_ok_def)
qed

definition set_successor :: "int \<Rightarrow> metadata" where
  "set_successor i = \<lparr>md_status = None, md_superseded_by = Some (Some i), md_deactivated_at = None\<rparr>"

lemma superseded_none: "filter active (map (\<lambda>r. if active r then apply_metadata (superseding p now) r else r) rows) = []"
  by (auto simp: filter_empty_conv active_def apply_metadata_def superseding_def)

lemma successor_active [simp]: "active (apply_metadata (set_successor i) r) = active r"
  by (simp add: active_def apply_metadata_def set_successor_def)

lemma successor_step:
  assumes "registry_ok g" and "i \<in> set (map cv_id (rg_rows g))"
  shows "\<exists>g'. exec_registry (UpdateVersions (\<lambda>x. cv_id x = old) (set_successor i)) g = Some g'
    \<and> registry_ok g' \<and> map cv_version_number (active_rows g') = map cv_version_number (active_rows g)"
proof -
  let ?suc = "\<lambda>x. if cv_id x = old then apply_metadata (set_successor i) x else x"
  have kept: "map cv_version_number (filter active (map ?suc rows)) = map cv_version_number (filter active rows)" for rows
    by (induction rows) (auto simp: apply_metadata_def active_def set_successor_def)
  have "length (filter active (map ?suc (rg_rows g))) = length (filter active (rg_rows g))"
    using arg_cong [OF kept, of length] by (simp only: length_map)
  then have "table_ok (map ?suc (rg_rows g))"
    using assms by (intro update_ok) (auto simp: registry_ok_def table_ok_def set_successor_def)
  then have s: "exec_registry (UpdateVersions (\<lambda>x. cv_id x = old) (set_successor i)) g = Some (g\<lparr>rg_rows := map ?suc (rg_rows g)\<rparr>)"
    by simp
  have "map cv_version_number (active_rows (g\<lparr>rg_rows := map ?suc (rg_rows g)\<rparr>)) = map cv_version_number (active_rows g)"
    unfolding active_rows_def using kept by simp
  with s exec_registry_ok [OF s assms(1)] show ?thesis by blast
qed

lemma deferred_activation:
  assumes "registry_ok g" and "row_ok r" and "active r" and "cv_version_number r \<notin> cv_version_number ` set (rg_rows g)"
    and "points_to (rg_rows g) (cv_prior_version_id r)" and "cv_superseded_by_version_id r = None"
  shows "\<exists>g'. each exec_registry [UpdateVersions active (superseding None now), InsertVersion r,
       UpdateVersions (\<lambda>x. cv_id x = old) (set_successor (rg_next_id g))] g = Some g'
     \<and> registry_ok g' \<and> map cv_version_number (active_rows g') = [cv_version_number r]"
proof -
  let ?sup = "\<lambda>x. if active x then apply_metadata (superseding None now) x else x"
  let ?g1 = "g\<lparr>rg_rows := map ?sup (rg_rows g)\<rparr>"
  have "table_ok (map ?sup (rg_rows g))"
    using assms(1) superseded_none
    by (intro update_ok) (auto simp: registry_ok_def superseding_def registry_statuses_def)
  then have s1: "exec_registry (UpdateVersions active (superseding None now)) g = Some ?g1" by simp
  note ok1 = exec_registry_ok [OF s1 assms(1)]
  let ?new = "r\<lparr>cv_id := rg_next_id g\<rparr>"
  let ?g2 = "\<lparr>rg_rows = rg_rows ?g1 @ [?new], rg_next_id = rg_next_id g + 1\<rparr>"
  have none1: "active_rows ?g1 = []" by (simp add: active_rows_def superseded_none)
  have rows1: "rg_rows ?g1 = map ?sup (rg_rows g)" by simp
  have "cv_version_number ` set (map ?sup (rg_rows g)) = cv_version_number ` set (rg_rows g)"
    by (simp only: set_map [symmetric] update_versions)
  then have fresh1: "cv_version_number r \<notin> cv_version_number ` set (rg_rows ?g1)" unfolding rows1 using assms(4) by metis
  have prior1: "points_to (rg_rows ?g1) (cv_prior_version_id r)"
    unfolding rows1 points_to_cong [OF update_ids] by (rule assms(5))
  have "table_ok (rg_rows ?g1 @ [r\<lparr>cv_id := rg_next_id ?g1\<rparr>])"
    by (rule insert_ok [OF ok1 assms(2) fresh1 prior1 assms(6) none1])
  then have s2: "exec_registry (InsertVersion r) ?g1 = Some ?g2" by simp
  note ok2 = exec_registry_ok [OF s2 ok1]
  have on: "active ?new" using assms(3) by (simp add: active_def)
  then have active2: "active_rows ?g2 = [?new]" using none1 by (simp add: active_rows_def)
  have "rg_next_id g \<in> set (map cv_id (rg_rows ?g2))" by simp
  from successor_step [OF ok2 this] obtain g' where
    s3: "exec_registry (UpdateVersions (\<lambda>x. cv_id x = old) (set_successor (rg_next_id g))) ?g2 = Some g'"
    and g': "registry_ok g'" "map cv_version_number (active_rows g') = map cv_version_number (active_rows ?g2)" by blast
  have "each exec_registry [UpdateVersions active (superseding None now), InsertVersion r,
       UpdateVersions (\<lambda>x. cv_id x = old) (set_successor (rg_next_id g))] g = Some g'"
    by (simp only: each.simps s1 s2 s3 Option.bind.simps)
  with g' active2 show ?thesis by auto
qed

text \<open>
  C28. The activation the revision documents never succeeds: naming the successor before it is
  inserted violates the pointer between versions, and inserting it first leaves two active
  versions. Setting the pointer in a third statement, after the insertion, always succeeds for a
  valid version of a new number and leaves exactly that version active.
\<close>

theorem documented_activation_refused:
  assumes "registry_ok g" and "active_rows g \<noteq> []" and "new_id \<notin> cv_id ` set (rg_rows g)"
    and "row_ok r" and "active r" and "cv_version_number r \<notin> cv_version_number ` set (rg_rows g)"
    and "points_to (rg_rows g) (cv_prior_version_id r)" and "cv_superseded_by_version_id r = None"
  shows "each exec_registry (documented_activation new_id now r) g = None
    \<and> each exec_registry (rev (documented_activation new_id now r)) g = None
    \<and> (\<exists>g'. each exec_registry [UpdateVersions active (superseding None now), InsertVersion r,
           UpdateVersions (\<lambda>x. cv_id x = old) (set_successor (rg_next_id g))] g = Some g'
         \<and> registry_ok g' \<and> map cv_version_number (active_rows g') = [cv_version_number r])"
proof -
  have "active (r\<lparr>cv_status := ''ACTIVE''\<rparr>)" by (simp add: active_def)
  then show ?thesis
    using supersede_points [OF assms(2,3)] second_active [OF assms(2)] deferred_activation [OF assms(1,4-8)]
    unfolding documented_activation_def by simp
qed

lemma documented_activation_refused_witness:
  "each exec_registry (documented_activation 2 ''t'' (seed_row ''t''\<lparr>cv_version_number := 2, cv_prior_version_id := Some 1\<rparr>)) (seeded ''s'') = None
   \<and> (\<exists>g'. map cv_version_number (active_rows g') = [2])"
proof -
  let ?r = "seed_row ''t''\<lparr>cv_version_number := 2, cv_prior_version_id := Some 1\<rparr>"
  have "row_ok ?r" using seed_complete by (simp add: row_ok_def seed_row_def registry_statuses_def name_fits_def)
  moreover have "active ?r" by (simp add: active_def seed_row_def)
  moreover have "active_rows (seeded ''s'') \<noteq> []" by (simp add: seeded_active)
  moreover have "points_to (rg_rows (seeded ''s'')) (cv_prior_version_id ?r)" by (simp add: seeded_def)
  moreover have "cv_version_number ?r \<notin> cv_version_number ` set (rg_rows (seeded ''s''))"
    and "(2 :: int) \<notin> cv_id ` set (rg_rows (seeded ''s''))"
    and "cv_superseded_by_version_id ?r = None" by (simp_all add: seeded_def seed_row_def)
  ultimately have "each exec_registry (documented_activation 2 ''t'' ?r) (seeded ''s'') = None
    \<and> each exec_registry (rev (documented_activation 2 ''t'' ?r)) (seeded ''s'') = None
    \<and> (\<exists>g'. each exec_registry [UpdateVersions active (superseding None ''t''), InsertVersion ?r,
           UpdateVersions (\<lambda>x. cv_id x = 1) (set_successor (rg_next_id (seeded ''s'')))] (seeded ''s'') = Some g'
         \<and> registry_ok g' \<and> map cv_version_number (active_rows g') = [cv_version_number ?r])"
    by (intro documented_activation_refused [OF seeded_ok]) simp_all
  note all = this
  from conjunct2 [OF conjunct2 [OF all]] obtain g' where "map cv_version_number (active_rows g') = [cv_version_number ?r]"
    by (elim exE conjE)
  moreover note conjunct1 [OF all]
  moreover have "cv_version_number ?r = 2" by simp
  ultimately show ?thesis by metis
qed

section \<open>Start-up\<close>

text \<open>The version that is active in the registry, and the one the loader can read.\<close>

definition stored_version :: "startup_db \<Rightarrow> int option" where
  "stored_version d = (if registry_exists d then
     (case active_rows (sd_registry d) of [] \<Rightarrow> None | r # rs \<Rightarrow> Some (cv_version_number r)) else None)"

definition loaded_version :: "startup_db \<Rightarrow> int option" where
  "loaded_version d = (if sd_load_failure d = None then stored_version d else None)"

definition reported_level :: "pydict \<Rightarrow> string" where
  "reported_level state = (if dict_get state ''active_config_count'' = VInt 1 then ''info'' else ''warning'')"

lemma config_row_version_number [simp]: "config_row_version (config_version_row r) = show_int (cv_version_number r)"
  by (simp add: config_row_version_def config_version_row_def)

lemma active_cases:
  assumes "registry_ok g"
  obtains "active_rows g = []" | r where "active_rows g = [r]"
proof -
  have "length (active_rows g) \<le> 1" using assms by (simp add: registry_ok_def table_ok_def active_rows_def)
  with that show ?thesis by (cases "active_rows g" rule: list.exhaust; cases "tl (active_rows g)") auto
qed

lemma load_cases:
  assumes "registry_exists d \<longrightarrow> registry_ok (sd_registry d)"
  obtains (none) "fst (load_active_config_versions d) = []" "loaded_version d = None"
    | (one) r where "fst (load_active_config_versions d) = [config_version_row r]"
        "loaded_version d = Some (cv_version_number r)"
proof (cases "sd_load_failure d = None \<and> registry_exists d")
  case True
  then have "registry_ok (sd_registry d)" using assms by simp
  then show ?thesis
    by (cases rule: active_cases)
      (use none one True in \<open>simp_all add: load_active_config_versions_def loaded_version_def stored_version_def\<close>)
qed (use none in \<open>auto simp: load_active_config_versions_def loaded_version_def stored_version_def split: option.split\<close>)

lemma load_warns: "snd (load_active_config_versions d) =
    (case sd_load_failure d of Some e \<Rightarrow> [load_warning e] | None \<Rightarrow> if registry_exists d then [] else [load_warning (sd_missing_table d)])"
  by (simp add: load_active_config_versions_def split: option.split)

lemma check_level:
  assumes "registry_exists d \<longrightarrow> registry_ok (sd_registry d)" and "sd_check_failure d = None"
  shows "reported_level (fst (verify_startup_db_state d)) = (if stored_version d = None then ''warning'' else ''info'')"
proof (cases "registry_exists d")
  case True
  then have "registry_ok (sd_registry d)" using assms(1) by simp
  then show ?thesis
    by (cases rule: active_cases)
      (use True assms(2) in \<open>simp_all add: verify_startup_db_state_def full_state_def check_state_def stored_version_def
         reported_level_def dict_get_def\<close>)
qed (use assms(2) in \<open>simp add: verify_startup_db_state_def full_state_def check_state_def stored_version_def
         reported_level_def dict_get_def\<close>)

text \<open>What bootstrap and configuration make of the loaded rows.\<close>

lemma emits: "events (fold emit ls s) = events s @ ls"
  by (induction ls arbitrary: s) (simp_all add: emit_def)

lemma log_lines_simps [simp]:
  "events (ss_store (log_lines ls st)) = events (ss_store st) @ ls" "ss_config (log_lines ls st) = ss_config st"
  by (simp_all add: log_lines_def emits)

definition follows_version :: "int option \<Rightarrow> bootstrap_context \<Rightarrow> sched_state \<Rightarrow> bool" where
  "follows_version v b st \<longleftrightarrow> bc_config_version_id b = (case v of None \<Rightarrow> UNKNOWN_V0 | Some n \<Rightarrow> show_int n)
     \<and> (v = None \<longrightarrow> bc_degradation_state b)
     \<and> ''CONFIG_V2_MULTIPLE_ACTIVE_VERSIONS'' \<notin> set (bc_degradation_codes b)
     \<and> (\<exists>c. ss_config st = Some c \<and> sg_config_version_id c = Some (bc_config_version_id b) \<and> sg_config_rule_set c = [])"

lemma follows_version_config: "ss_config st' = ss_config st \<Longrightarrow> follows_version v b st' = follows_version v b st"
  by (simp add: follows_version_def)

lemma wiring_follows:
  assumes "registry_exists d \<longrightarrow> registry_ok (sd_registry d)"
    and "startup_wiring rt mode (Some (fst (load_active_config_versions d))) hour minute tz st = (b, st')"
  shows "follows_version (loaded_version d) b st'"
    and "events (ss_store st') = events (ss_store st) @ [emit_startup_log rt b]"
    and "bc_scheduler_timing b = build_scheduler_timing None hour minute tz"
proof -
  note run = assms(2) [symmetric, unfolded startup_wiring_def initialize_runtime_context_def]
  have mode: "snd (snd (classify_execution_mode mode)) = [] \<or> snd (snd (classify_execution_mode mode)) = [''EXECUTION_MODE_INVALID'']"
    by (simp add: classify_execution_mode_def)
  show "follows_version (loaded_version d) b st'"
    using assms(1)
    by (cases rule: load_cases) (use run mode in
      \<open>auto simp: follows_version_def validate_config_v2_def configure_scheduler_def Let_def case_prod_unfold code_if_def\<close>)
  show "events (ss_store st') = events (ss_store st) @ [emit_startup_log rt b]"
    and "bc_scheduler_timing b = build_scheduler_timing None hour minute tz"
    using run by (simp_all add: Let_def case_prod_unfold configure_scheduler_def emit_def)
qed

text \<open>The jobs: none or all four are registered when the trigger takes UTC.\<close>

definition utc_jobs :: "job list" where
  "utc_jobs = [\<lparr>jb_id = ''monthly_report_generation'', jb_cron = MonthlyOn 1 2 0, jb_timezone = ''UTC'', jb_misfire_grace = 7200\<rparr>,
     \<lparr>jb_id = ''daily_mssql_sync'', jb_cron = Daily (VInt 1) (VInt 0), jb_timezone = ''UTC'', jb_misfire_grace = 3600\<rparr>,
     \<lparr>jb_id = ''month_end_state_capture'', jb_cron = LastDay 23 30, jb_timezone = ''UTC'', jb_misfire_grace = 3600\<rparr>]"

definition cycle_job :: "int \<Rightarrow> int \<Rightarrow> string \<Rightarrow> job" where
  "cycle_job hour minute tz = \<lparr>jb_id = ''governance_orchestration_cycle'', jb_cron = Daily (VInt hour) (VInt minute),
     jb_timezone = tz, jb_misfire_grace = 3600\<rparr>"

definition takes_utc :: "cron_check \<Rightarrow> bool" where
  "takes_utc refuses \<longleftrightarrow> list_all (\<lambda>j. refuses (jb_cron j) (jb_timezone j) = None) utc_jobs"

definition fresh_jobs :: job_scheduler where
  "fresh_jobs = \<lparr>js_running = False, js_jobs = []\<rparr>"

definition job_lines :: "(nat \<Rightarrow> runtime) \<Rightarrow> int \<Rightarrow> int \<Rightarrow> string \<Rightarrow> sched_state \<Rightarrow> log_line list" where
  "job_lines rts hour minute tz st =
    [scheduler_line (rts 2) ''scheduler_started'' [(''trigger_hour'', VInt hour), (''trigger_minute'', VInt minute),
       (''timezone'', VStr tz),
       (''execution_mode'', VStr (case ss_config st of None \<Rightarrow> ''SHADOW'' | Some c \<Rightarrow> sg_execution_mode c)),
       (''config_version_id'', opt_val (Option.bind (ss_config st) sg_config_version_id))],
     scheduler_line (rts 3) ''monthly_report_job_registered'' [(''cron'', VStr ''day=1 hour=2 minute=0''), (''timezone'', VStr ''UTC'')],
     scheduler_line (rts 4) ''daily_sync_job_registered'' [(''cron'', VStr ''hour=1 minute=0''), (''timezone'', VStr ''UTC'')],
     scheduler_line (rts 5) ''month_end_capture_job_registered''
       [(''cron'', VStr ''day=last hour=23 minute=30''), (''timezone'', VStr ''UTC'')]]"

lemma log_lines_join: "log_lines ls (log_lines ks st) = log_lines (ks @ ls) st"
  by (simp add: log_lines_def)

lemma jobs_started:
  assumes "takes_utc refuses" and "refuses (Daily (VInt hour) (VInt minute)) tz = None"
  shows "start_jobs rts refuses (build_scheduler_timing None hour minute tz) (st, fresh_jobs)
      = (None, log_lines (job_lines rts hour minute tz st) st, \<lparr>js_running = True, js_jobs = cycle_job hour minute tz # utc_jobs\<rparr>)"
proof -
  have timing: "build_scheduler_timing None hour minute tz = \<lparr>tm_trigger_hour = VInt hour, tm_trigger_minute = VInt minute,
      tm_timezone_str = tz, tm_config_sourced = False\<rparr>"
    by (simp add: build_scheduler_timing_def timing_value_def dict_get_def)
  show ?thesis
    using assms
    by (simp add: timing start_jobs_def start_scheduler_def fresh_jobs_def put_job_def start_monthly_report_job_def
        start_daily_sync_job_def start_month_end_capture_job_def register_job_def takes_utc_def utc_jobs_def
        cycle_job_def Let_def log_lines_join job_lines_def)
qed

lemma jobs_refused:
  assumes "refuses (Daily (VInt hour) (VInt minute)) tz = Some e"
  shows "start_jobs rts refuses (build_scheduler_timing None hour minute tz) (st, js) = (Some (CronRefused e), st, js)"
  using assms
  by (simp add: start_jobs_def start_scheduler_def build_scheduler_timing_def timing_value_def dict_get_def)

lemma registry_kept:
  assumes "exec_all init_db (sd_schema d) = Some schema"
  shows "registry_exists (d\<lparr>sd_schema := schema\<rparr>) = registry_exists d"
proof -
  have "table_names schema = table_names (sd_schema d) \<union> set model_tables"
    using exec_all_names [OF assms init_db_constructive] init_db_tables by simp
  then show ?thesis by (simp add: registry_exists_def table_names_def model_tables_def set_eq_iff)
qed

lemma versions_kept:
  assumes "registry_exists (d\<lparr>sd_schema := schema\<rparr>) = registry_exists d"
  shows "stored_version (d\<lparr>sd_schema := schema\<rparr>) = stored_version d"
    and "loaded_version (d\<lparr>sd_schema := schema\<rparr>) = loaded_version d"
  using assms by (simp_all add: stored_version_def loaded_version_def)


text \<open>A migrated database with the seeded registry, on which start-up runs, and one out of reach.\<close>

definition reachable_db :: "database \<Rightarrow> startup_db" where
  "reachable_db schema = \<lparr>sd_connects = True, sd_schema = schema, sd_registry = seeded ''t'', sd_revision = Some ''0004'',
     sd_check_failure = None, sd_load_failure = None, sd_missing_table = (''ProgrammingError'', ''missing'')\<rparr>"

definition start_at_18 :: "startup_db \<Rightarrow> (startup_error + bootstrap_context) \<times> startup_db \<times> sched_state \<times> job_scheduler" where
  "start_at_18 d = on_startup sample_runtime (\<lambda>c tz. None) ''SHADOW'' 18 0 ''UTC'' d initial_sched_state fresh_jobs"


end
