(* ===== verification/Campaign.thy ===== *)
theory Campaign
  imports Prelude
begin

text \<open>
  The shadow campaign, \<^verbatim>\<open>src/shadow_campaign\<close>: the records a campaign makes, its metrics,
  the certifications of attribution, governance and replay, the injection of failures, the audit and
  the report for the operator. The fresh identifiers are the readings \<open>ids\<close> of a supply with a
  counter that every function which draws one returns; the digest is a parameter.
\<close>

section \<open>Types\<close>

definition suppressed_scopes :: "string set" where
  "suppressed_scopes = {''SHADOW_ONLY'', ''REPLAY_ONLY'', ''UNAVAILABLE'', ''MAINTENANCE'', ''BLOCKED'',
     ''DUPLICATE_SUPPRESSED''}"

definition campaign_replay_types :: "string set" where
  "campaign_replay_types = {''replay'', ''regeneration''}"

definition all_failure_modes :: "string list" where
  "all_failure_modes = [''missing_config'', ''provider_unavailable'', ''scheduler_unavailable'',
     ''worker_unavailable'', ''observability_unavailable'']"

record campaign_record =
  cpr_record_id :: string
  cpr_cycle_id :: string
  cpr_execution_mode :: string
  cpr_execution_type :: string
  cpr_governance_scope :: string
  cpr_correlation_id :: string
  cpr_causation_id :: string
  cpr_config_version_id :: string
  cpr_orchestration_cycle_id :: string
  cpr_origin_source :: string
  cpr_origin_authority :: string
  cpr_actor_identity :: string
  cpr_rule_path :: "string list"
  cpr_reason_codes :: "string list"
  cpr_outbound_suppressed :: bool
  cpr_live_effects_produced :: int
  cpr_provider_dispatch_count :: int
  cpr_is_replay :: bool
  cpr_source_artifact_id :: "string option"
  cpr_historical_config_version_id :: "string option"
  cpr_is_finalized :: bool
  cpr_is_mutable :: bool
  cpr_mutation_prohibited :: bool
  cpr_content_hash :: "string option"
  cpr_is_duplicate :: bool
  cpr_degraded :: bool
  cpr_degradation_cause :: "string option"
  cpr_degradation_class :: "string option"
  cpr_degradation_severity :: "string option"
  cpr_scheduler_processed :: bool
  cpr_worker_processed :: bool
  cpr_prioritization_complete :: bool
  cpr_transport_generated :: bool
  cpr_observability_emitted :: bool
  cpr_provider_assessment_produced :: bool
  cpr_inv1_scope_not_mutated :: bool
  cpr_inv2_attribution_not_mutated :: bool
  cpr_inv3_replay_no_live :: bool
  cpr_inv4_shadow_no_dispatch :: bool
  cpr_inv5_rule0_not_bypassed :: bool
  cpr_inv6_correlation_present :: bool
  cpr_inv7_exec_mode_present :: bool
  cpr_fad1_finalized_not_mutated :: bool
  cpr_fad2_attribution_immutable :: bool
  cpr_fad3_deterministic :: bool
  cpr_fad4_lineage_append_only :: bool
  cpr_fad5_replay_historical_config :: bool
  cpr_fad6_finalized_lineage_preserved :: bool

record campaign_metrics =
  cpm_campaign_id :: string
  cpm_campaign_status :: string
  cpm_orchestration_count :: int
  cpm_suppression_count :: int
  cpm_replay_count :: int
  cpm_degradation_count :: int
  cpm_attribution_gap_count :: int
  cpm_finalized_violation_count :: int
  cpm_duplicate_suppression_count :: int
  cpm_config_resolution_failures :: int
  cpm_provider_suppression_count :: int
  cpm_live_effects_total :: int
  cpm_provider_dispatch_total :: int
  cpm_authorized_scope_count :: int
  cpm_inv_violation_count :: int
  cpm_fad_violation_count :: int
  cpm_replay_leakage_count :: int

record campaign_cycle_result =
  cpc_cycle_id :: string
  cpc_records_produced :: int
  cpc_suppressed_count :: int
  cpc_live_effects_produced :: int
  cpc_provider_dispatch_count :: int
  cpc_attribution_complete :: bool
  cpc_governance_scope :: string
  cpc_rule_path_summary :: string
  cpc_degraded :: bool
  cpc_degradation_cause :: "string option"

record attribution_cert =
  cpa_total_records :: int
  cpa_correlation_gaps :: int
  cpa_causation_gaps :: int
  cpa_replay_lineage_gaps :: int
  cpa_scope_continuity_gaps :: int
  cpa_total_attribution_gaps :: int
  cpa_certification_passed :: bool

record replay_record =
  rpr_record_id :: string
  rpr_execution_mode :: string
  rpr_execution_type :: string
  rpr_governance_scope :: string
  rpr_correlation_id :: string
  rpr_causation_id :: string
  rpr_config_version_id :: string
  rpr_historical_config_version_id :: string
  rpr_source_artifact_id :: string
  rpr_replay_fingerprint :: string
  rpr_outbound_suppressed :: bool
  rpr_live_effects_produced :: int
  rpr_provider_dispatch_count :: int
  rpr_is_replay :: bool
  rpr_fingerprint_consistent :: bool

record replay_cert =
  rpc_total_records :: int
  rpc_replay_only_scope_count :: int
  rpc_historical_config_count :: int
  rpc_zero_live_effects :: bool
  rpc_zero_provider_dispatches :: bool
  rpc_fingerprint_consistent_count :: int
  rpc_fingerprint_violations :: int
  rpc_replay_leakage_count :: int
  rpc_certification_passed :: bool

record degradation_record =
  dgr_record_id :: string
  dgr_failure_mode :: string
  dgr_failure_classification :: string
  dgr_governance_scope :: string
  dgr_correlation_id :: string
  dgr_causation_id :: string
  dgr_degradation_state :: string
  dgr_attribution_preserved :: bool
  dgr_outbound_suppressed :: bool
  dgr_live_effects_produced :: int
  dgr_recovery_path_visible :: bool
  dgr_deterministic :: bool
  dgr_degradation_cause :: string
  dgr_degradation_class :: string
  dgr_degradation_severity :: string
  dgr_reason_codes :: "string list"
  dgr_rule_path :: "string list"

record degradation_campaign =
  dgc_failure_modes_tested :: "string list"
  dgc_total_injections :: int
  dgc_deterministic_count :: int
  dgc_attribution_preserved_count :: int
  dgc_zero_live_effects_count :: int
  dgc_recovery_visible_count :: int
  dgc_certification_passed :: bool

record governance_cert =
  gvc_total_records :: int
  gvc_inv1_violations :: int
  gvc_inv2_violations :: int
  gvc_inv3_violations :: int
  gvc_inv4_violations :: int
  gvc_inv5_violations :: int
  gvc_inv6_violations :: int
  gvc_inv7_violations :: int
  gvc_fad1_violations :: int
  gvc_fad2_violations :: int
  gvc_fad3_violations :: int
  gvc_fad4_violations :: int
  gvc_fad5_violations :: int
  gvc_fad6_violations :: int
  gvc_total_inv_violations :: int
  gvc_total_fad_violations :: int
  gvc_certification_passed :: bool

record operator_report =
  opr_report_id :: string
  opr_campaign_id :: string
  opr_report_timestamp :: string
  opr_campaign_duration_seconds :: pyfloat
  opr_orchestration_volume :: int
  opr_suppression_volume :: int
  opr_replay_volume :: int
  opr_degradation_events :: int
  opr_inv_violations :: int
  opr_fad_violations :: int
  opr_live_effects_total :: int
  opr_provider_dispatch_total :: int
  opr_authorized_scope_count :: int
  opr_attribution_gap_count :: int
  opr_replay_leakage_count :: int
  opr_governance_invariant_violations :: int
  opr_certification_outcome :: string
  opr_certification_passed :: bool

record campaign_audit =
  aud_total_records :: int
  aud_provider_dispatch_count :: int
  aud_live_effects_produced :: int
  aud_attribution_gap_count :: int
  aud_finalized_violation_count :: int
  aud_replay_leakage_count :: int
  aud_governance_invariant_violations :: int
  aud_authorized_scope_count :: int
  aud_degradation_deterministic_count :: int
  aud_total_degradation_injections :: int
  aud_audit_passed :: bool

section \<open>Identifiers and loops\<close>

type_synonym ids = "nat \<Rightarrow> string"

text \<open>\<^verbatim>\<open>[f() for _ in range(k)]\<close> of a function that draws identifiers\<close>

fun repeated :: "nat \<Rightarrow> (nat \<Rightarrow> 'r \<times> nat) \<Rightarrow> nat \<Rightarrow> 'r list \<times> nat" where
  "repeated 0 f n = ([], n)"
| "repeated (Suc k) f n = (let (r, n1) = f n; (rs, n2) = repeated k f n1 in (r # rs, n2))"

text \<open>\<^verbatim>\<open>sum(1 for r in rs if P(r))\<close>\<close>

definition count_if :: "('r \<Rightarrow> bool) \<Rightarrow> 'r list \<Rightarrow> int" where
  "count_if P rs = int (length (filter P rs))"

section \<open>Records\<close>

definition derive_campaign_scope :: "string \<Rightarrow> string \<Rightarrow> bool \<Rightarrow> bool \<Rightarrow> bool \<Rightarrow> string" where
  "derive_campaign_scope mode exec_type config_missing maintenance duplicate =
    (if config_missing then ''UNAVAILABLE''
     else if exec_type \<in> campaign_replay_types then ''REPLAY_ONLY''
     else if maintenance then ''MAINTENANCE''
     else if duplicate then ''DUPLICATE_SUPPRESSED''
     else ''SHADOW_ONLY'')"

text \<open>The keyword arguments of \<^verbatim>\<open>_make_campaign_record\<close> and their defaults.\<close>

record record_args =
  ra_mode :: string
  ra_exec_type :: string
  ra_config_missing :: bool
  ra_maintenance :: bool
  ra_duplicate :: bool
  ra_is_finalized :: bool
  ra_source_artifact_id :: "string option"
  ra_historical_config_version_id :: "string option"
  ra_degraded :: bool
  ra_degradation_cause :: "string option"
  ra_degradation_class :: "string option"
  ra_degradation_severity :: "string option"

definition record_defaults :: record_args where
  "record_defaults = \<lparr>ra_mode = ''SHADOW'', ra_exec_type = ''original'', ra_config_missing = False,
     ra_maintenance = False, ra_duplicate = False, ra_is_finalized = False, ra_source_artifact_id = None,
     ra_historical_config_version_id = None, ra_degraded = False, ra_degradation_cause = None,
     ra_degradation_class = None, ra_degradation_severity = None\<rparr>"

definition campaign_reason_codes :: "string \<Rightarrow> string \<Rightarrow> string list" where
  "campaign_reason_codes scope mode =
    (if scope = ''UNAVAILABLE'' then [''CONFIG_VERSION_UNRESOLVED'']
     else if scope = ''REPLAY_ONLY'' then [''REPLAY_EXECUTION_SUPPRESSED'']
     else if scope = ''MAINTENANCE'' then [''MAINTENANCE_SCOPE_ACTIVE'']
     else if scope = ''DUPLICATE_SUPPRESSED'' then [''DUPLICATE_SUPPRESSED'']
     else ''SHADOW_ONLY_SCOPE_ACTIVE'' # code_if (mode = ''LIVE'') ''LIVE_SCOPE_REQUIRES_PHASE12_CERT'')"

definition campaign_rule_path :: "string \<Rightarrow> string \<Rightarrow> string list" where
  "campaign_rule_path scope exec_type =
    [''RULE_0''] @ (if scope \<noteq> ''UNAVAILABLE'' then [''RULE_1'', ''RULE_2''] else [])
     @ code_if (exec_type \<in> campaign_replay_types) ''RULE_3''"

definition make_campaign_record :: "ids \<Rightarrow> string \<Rightarrow> record_args \<Rightarrow> nat \<Rightarrow> campaign_record \<times> nat" where
  "make_campaign_record ids cycle_id a n =
    (let scope = derive_campaign_scope (ra_mode a) (ra_exec_type a) (ra_config_missing a) (ra_maintenance a) (ra_duplicate a);
         config_ver = (if ra_config_missing a then UNKNOWN_V0 else ''cfg-v2-001'');
         is_replay = (ra_exec_type a \<in> campaign_replay_types);
         (hist_cfg, n1) = (if is_replay \<and> ra_historical_config_version_id a = None
                           then (Some (''hist-cfg-v1-'' @ take 8 (ids n)), n + 1)
                           else (ra_historical_config_version_id a, n));
         (src_art, n2) = (if given (ra_source_artifact_id a) then (ra_source_artifact_id a, n1)
                          else if is_replay then (Some (''src-'' @ take 8 (ids n1)), n1 + 1) else (None, n1))
     in (\<lparr>cpr_record_id = ids n2, cpr_cycle_id = cycle_id, cpr_execution_mode = ra_mode a,
          cpr_execution_type = ra_exec_type a, cpr_governance_scope = scope, cpr_correlation_id = ids (n2 + 1),
          cpr_causation_id = ids (n2 + 2), cpr_config_version_id = config_ver, cpr_orchestration_cycle_id = cycle_id,
          cpr_origin_source = ''shadow_campaign'', cpr_origin_authority = ''campaign_runner'',
          cpr_actor_identity = ''shadow_campaign_agent'', cpr_rule_path = campaign_rule_path scope (ra_exec_type a),
          cpr_reason_codes = campaign_reason_codes scope (ra_mode a),
          cpr_outbound_suppressed = (scope \<in> suppressed_scopes), cpr_live_effects_produced = 0,
          cpr_provider_dispatch_count = 0, cpr_is_replay = is_replay, cpr_source_artifact_id = src_art,
          cpr_historical_config_version_id = hist_cfg, cpr_is_finalized = ra_is_finalized a,
          cpr_is_mutable = (\<not> ra_is_finalized a), cpr_mutation_prohibited = ra_is_finalized a,
          cpr_content_hash = (if ra_is_finalized a then Some (''hash-'' @ scope @ ''-'' @ config_ver) else None),
          cpr_is_duplicate = ra_duplicate a, cpr_degraded = ra_degraded a,
          cpr_degradation_cause = ra_degradation_cause a, cpr_degradation_class = ra_degradation_class a,
          cpr_degradation_severity = ra_degradation_severity a, cpr_scheduler_processed = True,
          cpr_worker_processed = True, cpr_prioritization_complete = True, cpr_transport_generated = True,
          cpr_observability_emitted = True, cpr_provider_assessment_produced = True,
          cpr_inv1_scope_not_mutated = True, cpr_inv2_attribution_not_mutated = True,
          cpr_inv3_replay_no_live = True, cpr_inv4_shadow_no_dispatch = True,
          cpr_inv5_rule0_not_bypassed = True, cpr_inv6_correlation_present = True,
          cpr_inv7_exec_mode_present = True, cpr_fad1_finalized_not_mutated = True,
          cpr_fad2_attribution_immutable = True, cpr_fad3_deterministic = True,
          cpr_fad4_lineage_append_only = True, cpr_fad5_replay_historical_config = True,
          cpr_fad6_finalized_lineage_preserved = True\<rparr>, n2 + 3))"

definition make_batch :: "ids \<Rightarrow> string \<Rightarrow> int \<Rightarrow> string \<Rightarrow> string \<Rightarrow> nat \<Rightarrow> campaign_record list \<times> nat" where
  "make_batch ids cycle_id count mode exec_type =
     repeated (nat count) (make_campaign_record ids cycle_id (record_defaults\<lparr>ra_mode := mode, ra_exec_type := exec_type\<rparr>))"

section \<open>Metrics\<close>

definition inv_flags :: "campaign_record \<Rightarrow> bool list" where
  "inv_flags r = [cpr_inv1_scope_not_mutated r, cpr_inv2_attribution_not_mutated r, cpr_inv3_replay_no_live r, cpr_inv4_shadow_no_dispatch r,
     cpr_inv5_rule0_not_bypassed r, cpr_inv6_correlation_present r, cpr_inv7_exec_mode_present r]"

definition fad_flags :: "campaign_record \<Rightarrow> bool list" where
  "fad_flags r = [cpr_fad1_finalized_not_mutated r, cpr_fad2_attribution_immutable r, cpr_fad3_deterministic r,
     cpr_fad4_lineage_append_only r, cpr_fad5_replay_historical_config r, cpr_fad6_finalized_lineage_preserved r]"

definition one_unless :: "bool \<Rightarrow> int" where
  "one_unless b = (if b then 0 else 1)"

definition one_if :: "bool \<Rightarrow> int" where
  "one_if b = (if b then 1 else 0)"

definition count_campaign_record :: "campaign_record \<Rightarrow> campaign_metrics \<Rightarrow> campaign_metrics" where
  "count_campaign_record r m = m\<lparr>cpm_orchestration_count := cpm_orchestration_count m + 1,
     cpm_suppression_count := cpm_suppression_count m + one_if (cpr_outbound_suppressed r),
     cpm_replay_count := cpm_replay_count m + one_if (cpr_is_replay r),
     cpm_degradation_count := cpm_degradation_count m + one_if (cpr_degraded r),
     cpm_duplicate_suppression_count := cpm_duplicate_suppression_count m + one_if (cpr_is_duplicate r),
     cpm_config_resolution_failures := cpm_config_resolution_failures m + one_if (cpr_config_version_id r = UNKNOWN_V0),
     cpm_provider_suppression_count :=
       cpm_provider_suppression_count m + one_if (cpr_governance_scope r \<in> {''SHADOW_ONLY'', ''REPLAY_ONLY''}),
     cpm_authorized_scope_count := cpm_authorized_scope_count m + one_if (cpr_governance_scope r = ''AUTHORIZED''),
     cpm_live_effects_total := cpm_live_effects_total m + cpr_live_effects_produced r,
     cpm_provider_dispatch_total := cpm_provider_dispatch_total m + cpr_provider_dispatch_count r,
     cpm_inv_violation_count := cpm_inv_violation_count m + count_if Not (inv_flags r),
     cpm_fad_violation_count := cpm_fad_violation_count m + count_if Not (fad_flags r),
     cpm_replay_leakage_count := cpm_replay_leakage_count m
       + one_if (cpr_governance_scope r = ''REPLAY_ONLY'' \<and> cpr_live_effects_produced r > 0)\<rparr>"

definition new_metrics :: "string \<Rightarrow> campaign_metrics" where
  "new_metrics campaign_id = \<lparr>cpm_campaign_id = campaign_id, cpm_campaign_status = ''COMPLETE'',
     cpm_orchestration_count = 0, cpm_suppression_count = 0, cpm_replay_count = 0, cpm_degradation_count = 0,
     cpm_attribution_gap_count = 0, cpm_finalized_violation_count = 0, cpm_duplicate_suppression_count = 0,
     cpm_config_resolution_failures = 0, cpm_provider_suppression_count = 0, cpm_live_effects_total = 0,
     cpm_provider_dispatch_total = 0, cpm_authorized_scope_count = 0, cpm_inv_violation_count = 0,
     cpm_fad_violation_count = 0, cpm_replay_leakage_count = 0\<rparr>"

definition compute_metrics :: "string \<Rightarrow> campaign_record list \<Rightarrow> campaign_metrics" where
  "compute_metrics campaign_id records =
    (let m = fold count_campaign_record records (new_metrics campaign_id)
     in if cpm_degradation_count m > 0 then m\<lparr>cpm_campaign_status := ''DEGRADED''\<rparr> else m)"

section \<open>Certifications\<close>

text \<open>The truth value of an \<^verbatim>\<open>Optional[str]\<close> is \<open>given\<close>, that of a \<^verbatim>\<open>str\<close> being filled.\<close>

definition certify_attribution :: "campaign_record list \<Rightarrow> attribution_cert" where
  "certify_attribution records =
    (let corr_gaps = count_if (\<lambda>r. cpr_correlation_id r = []) records;
         caus_gaps = count_if (\<lambda>r. cpr_causation_id r = []) records;
         replay_gaps = count_if (\<lambda>r. cpr_is_replay r \<and> \<not> given (cpr_historical_config_version_id r)) records;
         scope_gaps = count_if (\<lambda>r. cpr_governance_scope r = []) records;
         gaps = corr_gaps + caus_gaps + replay_gaps + scope_gaps
     in \<lparr>cpa_total_records = int (length records), cpa_correlation_gaps = corr_gaps, cpa_causation_gaps = caus_gaps,
         cpa_replay_lineage_gaps = replay_gaps, cpa_scope_continuity_gaps = scope_gaps,
         cpa_total_attribution_gaps = gaps, cpa_certification_passed = (gaps = 0)\<rparr>)"

definition new_governance_cert :: "int \<Rightarrow> governance_cert" where
  "new_governance_cert n = \<lparr>gvc_total_records = n,
     gvc_inv1_violations = 0, gvc_inv2_violations = 0, gvc_inv3_violations = 0, gvc_inv4_violations = 0,
     gvc_inv5_violations = 0, gvc_inv6_violations = 0, gvc_inv7_violations = 0, gvc_fad1_violations = 0,
     gvc_fad2_violations = 0, gvc_fad3_violations = 0, gvc_fad4_violations = 0, gvc_fad5_violations = 0,
     gvc_fad6_violations = 0, gvc_total_inv_violations = 0, gvc_total_fad_violations = 0,
     gvc_certification_passed = True\<rparr>"

definition count_flags :: "campaign_record \<Rightarrow> governance_cert \<Rightarrow> governance_cert" where
  "count_flags r g = g\<lparr>
     gvc_inv1_violations := gvc_inv1_violations g + one_unless (cpr_inv1_scope_not_mutated r),
     gvc_inv2_violations := gvc_inv2_violations g + one_unless (cpr_inv2_attribution_not_mutated r),
     gvc_inv3_violations := gvc_inv3_violations g + one_unless (cpr_inv3_replay_no_live r),
     gvc_inv4_violations := gvc_inv4_violations g + one_unless (cpr_inv4_shadow_no_dispatch r),
     gvc_inv5_violations := gvc_inv5_violations g + one_unless (cpr_inv5_rule0_not_bypassed r),
     gvc_inv6_violations := gvc_inv6_violations g + one_unless (cpr_inv6_correlation_present r),
     gvc_inv7_violations := gvc_inv7_violations g + one_unless (cpr_inv7_exec_mode_present r),
     gvc_fad1_violations := gvc_fad1_violations g + one_unless (cpr_fad1_finalized_not_mutated r),
     gvc_fad2_violations := gvc_fad2_violations g + one_unless (cpr_fad2_attribution_immutable r),
     gvc_fad3_violations := gvc_fad3_violations g + one_unless (cpr_fad3_deterministic r),
     gvc_fad4_violations := gvc_fad4_violations g + one_unless (cpr_fad4_lineage_append_only r),
     gvc_fad5_violations := gvc_fad5_violations g + one_unless (cpr_fad5_replay_historical_config r),
     gvc_fad6_violations := gvc_fad6_violations g + one_unless (cpr_fad6_finalized_lineage_preserved r)\<rparr>"

text \<open>The totals of the two groups, and the verdict.\<close>

definition sum_governance :: "governance_cert \<Rightarrow> governance_cert" where
  "sum_governance g =
    (let inv = gvc_inv1_violations g + gvc_inv2_violations g + gvc_inv3_violations g + gvc_inv4_violations g
           + gvc_inv5_violations g + gvc_inv6_violations g + gvc_inv7_violations g;
         fad = gvc_fad1_violations g + gvc_fad2_violations g + gvc_fad3_violations g + gvc_fad4_violations g
           + gvc_fad5_violations g + gvc_fad6_violations g
     in g\<lparr>gvc_total_inv_violations := inv, gvc_total_fad_violations := fad,
          gvc_certification_passed := (inv = 0 \<and> fad = 0)\<rparr>)"

definition certify_governance :: "campaign_record list \<Rightarrow> governance_cert" where
  "certify_governance records =
     sum_governance (fold count_flags records (new_governance_cert (int (length records))))"

definition audit_campaign_records :: "campaign_record list \<Rightarrow> campaign_audit" where
  "audit_campaign_records records =
    (let dispatch_total = sum_list (map cpr_provider_dispatch_count records);
         effects_total = sum_list (map cpr_live_effects_produced records);
         attr_gaps = count_if (\<lambda>r. cpr_correlation_id r = [] \<or> cpr_causation_id r = []) records;
         fin_violations = count_if (\<lambda>r. cpr_is_finalized r \<and> cpr_is_mutable r) records;
         replay_leakage = count_if (\<lambda>r. cpr_governance_scope r = ''REPLAY_ONLY'' \<and> cpr_live_effects_produced r > 0) records;
         gov_cert = certify_governance records;
         gov_violations = gvc_total_inv_violations gov_cert + gvc_total_fad_violations gov_cert;
         auth_count = count_if (\<lambda>r. cpr_governance_scope r = ''AUTHORIZED'') records
     in \<lparr>aud_total_records = int (length records), aud_provider_dispatch_count = dispatch_total,
         aud_live_effects_produced = effects_total, aud_attribution_gap_count = attr_gaps,
         aud_finalized_violation_count = fin_violations, aud_replay_leakage_count = replay_leakage,
         aud_governance_invariant_violations = gov_violations, aud_authorized_scope_count = auth_count,
         aud_degradation_deterministic_count = 0, aud_total_degradation_injections = 0,
         aud_audit_passed = (dispatch_total = 0 \<and> effects_total = 0 \<and> attr_gaps = 0 \<and> fin_violations = 0
           \<and> replay_leakage = 0 \<and> gov_violations = 0 \<and> auth_count = 0)\<rparr>)"

text \<open>\<^verbatim>\<open>governance_certifier.py\<close>\<close>

definition verify_inv1_scope_not_mutated :: "campaign_record list \<Rightarrow> int" where
  "verify_inv1_scope_not_mutated = count_if (\<lambda>r. \<not> cpr_inv1_scope_not_mutated r)"

definition verify_inv2_attribution_not_mutated :: "campaign_record list \<Rightarrow> int" where
  "verify_inv2_attribution_not_mutated = count_if (\<lambda>r. \<not> cpr_inv2_attribution_not_mutated r)"

definition verify_inv3_replay_no_live :: "campaign_record list \<Rightarrow> int" where
  "verify_inv3_replay_no_live =
     count_if (\<lambda>r. cpr_execution_type r \<in> campaign_replay_types \<and> cpr_live_effects_produced r > 0)"

definition verify_inv4_shadow_no_dispatch :: "campaign_record list \<Rightarrow> int" where
  "verify_inv4_shadow_no_dispatch =
     count_if (\<lambda>r. cpr_governance_scope r = ''SHADOW_ONLY'' \<and> cpr_provider_dispatch_count r > 0)"

definition verify_inv5_rule0_first :: "campaign_record list \<Rightarrow> int" where
  "verify_inv5_rule0_first =
     count_if (\<lambda>r. case cpr_rule_path r of [] \<Rightarrow> True | p # ps \<Rightarrow> p \<noteq> ''RULE_0'')"

definition verify_inv6_correlation_present :: "campaign_record list \<Rightarrow> int" where
  "verify_inv6_correlation_present = count_if (\<lambda>r. cpr_correlation_id r = [])"

definition verify_inv7_exec_mode_present :: "campaign_record list \<Rightarrow> int" where
  "verify_inv7_exec_mode_present = count_if (\<lambda>r. cpr_execution_mode r = [])"

definition verify_fad1_finalized_not_mutated :: "campaign_record list \<Rightarrow> int" where
  "verify_fad1_finalized_not_mutated = count_if (\<lambda>r. cpr_is_finalized r \<and> cpr_is_mutable r)"

definition verify_fad5_replay_historical_config :: "campaign_record list \<Rightarrow> int" where
  "verify_fad5_replay_historical_config =
     count_if (\<lambda>r. cpr_execution_type r \<in> campaign_replay_types \<and> \<not> given (cpr_historical_config_version_id r))"

definition run_governance_certification :: "campaign_record list \<Rightarrow> governance_cert" where
  "run_governance_certification records =
    (let g = certify_governance records
     in sum_governance (g\<lparr>
          gvc_inv3_violations := max (gvc_inv3_violations g) (verify_inv3_replay_no_live records),
          gvc_inv4_violations := max (gvc_inv4_violations g) (verify_inv4_shadow_no_dispatch records),
          gvc_inv5_violations := max (gvc_inv5_violations g) (verify_inv5_rule0_first records),
          gvc_inv6_violations := max (gvc_inv6_violations g) (verify_inv6_correlation_present records),
          gvc_fad1_violations := max (gvc_fad1_violations g) (verify_fad1_finalized_not_mutated records),
          gvc_fad5_violations := max (gvc_fad5_violations g) (verify_fad5_replay_historical_config records)\<rparr>))"

text \<open>\<^verbatim>\<open>attribution_certifier.py\<close>\<close>

definition certify_by :: "(campaign_record \<Rightarrow> bool) \<Rightarrow> campaign_record list \<Rightarrow> bool \<times> int" where
  "certify_by gap records = (let gaps = count_if gap records in (gaps = 0, gaps))"

definition certify_correlation_continuity :: "campaign_record list \<Rightarrow> bool \<times> int" where
  "certify_correlation_continuity = certify_by (\<lambda>r. cpr_correlation_id r = [])"

definition certify_causation_continuity :: "campaign_record list \<Rightarrow> bool \<times> int" where
  "certify_causation_continuity = certify_by (\<lambda>r. cpr_causation_id r = [])"

definition certify_replay_lineage :: "campaign_record list \<Rightarrow> bool \<times> int" where
  "certify_replay_lineage = certify_by (\<lambda>r. cpr_is_replay r \<and> \<not> given (cpr_historical_config_version_id r))"

definition certify_scope_continuity :: "campaign_record list \<Rightarrow> bool \<times> int" where
  "certify_scope_continuity = certify_by (\<lambda>r. cpr_governance_scope r = [])"

definition emit_attribution_failure :: "string \<Rightarrow> int \<Rightarrow> int \<Rightarrow> pydict" where
  "emit_attribution_failure failure_type gap_count record_count =
    [(''event'', VStr ''ATTRIBUTION_CERTIFICATION_FAILURE''), (''failure_type'', VStr failure_type),
     (''gap_count'', VInt gap_count), (''record_count'', VInt record_count), (''certification_passed'', VBool False)]"

definition run_attribution_certification :: "campaign_record list \<Rightarrow> attribution_cert" where
  "run_attribution_certification records = certify_attribution records"

section \<open>Campaigns\<close>

text \<open>A replay of the campaign, whose lineage is drawn before the record is made.\<close>

definition make_replay_slice :: "ids \<Rightarrow> string \<Rightarrow> string \<Rightarrow> nat \<Rightarrow> campaign_record \<times> nat" where
  "make_replay_slice ids cycle_id mode n =
     make_campaign_record ids cycle_id
       (record_defaults\<lparr>ra_mode := mode, ra_exec_type := ''replay'',
          ra_historical_config_version_id := Some (''hist-cfg-'' @ take 8 (ids n)),
          ra_source_artifact_id := Some (''src-'' @ take 8 (ids (n + 1)))\<rparr>) (n + 2)"

definition fresh_unless :: "ids \<Rightarrow> string option \<Rightarrow> nat \<Rightarrow> string \<times> nat" where
  "fresh_unless ids given_id n = (if given given_id then (the given_id, n) else (ids n, n + 1))"

definition run_campaign_cycle ::
  "ids \<Rightarrow> string option \<Rightarrow> string \<Rightarrow> int \<Rightarrow> bool \<Rightarrow> bool \<Rightarrow> bool \<Rightarrow> nat
   \<Rightarrow> (campaign_cycle_result \<times> campaign_record list) \<times> nat" where
  "run_campaign_cycle ids cycle_id mode count include_replay include_finalized config_missing n =
    (let (cid, n0) = fresh_unless ids cycle_id n;
         (originals, n1) = repeated (nat count) (make_campaign_record ids cid
            (record_defaults\<lparr>ra_mode := mode, ra_config_missing := config_missing\<rparr>)) n0;
         (replays, n2) = (if include_replay then repeated (nat (max 1 (count div 10))) (make_replay_slice ids cid mode) n1
                          else ([], n1));
         (finals, n3) = (if include_finalized
                         then repeated 1 (make_campaign_record ids cid
                                (record_defaults\<lparr>ra_mode := mode, ra_is_finalized := True\<rparr>)) n2
                         else ([], n2));
         records = originals @ replays @ finals
     in ((\<lparr>cpc_cycle_id = cid, cpc_records_produced = int (length records),
           cpc_suppressed_count = count_if cpr_outbound_suppressed records,
           cpc_live_effects_produced = sum_list (map cpr_live_effects_produced records),
           cpc_provider_dispatch_count = sum_list (map cpr_provider_dispatch_count records),
           cpc_attribution_complete = list_all (\<lambda>r. cpr_correlation_id r \<noteq> [] \<and> cpr_causation_id r \<noteq> []) records,
           cpc_governance_scope = (case records of [] \<Rightarrow> ''UNKNOWN'' | r # rs \<Rightarrow> cpr_governance_scope r),
           cpc_rule_path_summary =
             (case records of [] \<Rightarrow> ''UNKNOWN''
              | r # rs \<Rightarrow> (case cpr_rule_path r of [] \<Rightarrow> ''UNKNOWN'' | p # ps \<Rightarrow> p)),
           cpc_degraded = config_missing,
           cpc_degradation_cause = (if config_missing then Some ''CONFIG_V2_UNAVAILABLE'' else None)\<rparr>, records), n3))"

text \<open>The cycles of a full campaign, numbered from \<open>i\<close>; every third one replays.\<close>

fun campaign_cycles :: "ids \<Rightarrow> string \<Rightarrow> int \<Rightarrow> nat \<Rightarrow> nat \<Rightarrow> nat \<Rightarrow> campaign_record list \<times> nat" where
  "campaign_cycles ids mode count i 0 n = ([], n)"
| "campaign_cycles ids mode count i (Suc k) n =
    (let cycle_id = ''cycle-'' @ show_nat (i + 1) @ ''-'' @ take 8 (ids n);
         ((_, records), n1) = run_campaign_cycle ids (Some cycle_id) mode count (i mod 3 = 0) False False (n + 1);
         (rest, n2) = campaign_cycles ids mode count (i + 1) k n1
     in (records @ rest, n2))"

definition run_full_campaign ::
  "ids \<Rightarrow> string option \<Rightarrow> int \<Rightarrow> string \<Rightarrow> int \<Rightarrow> nat \<Rightarrow> (campaign_metrics \<times> campaign_record list) \<times> nat" where
  "run_full_campaign ids campaign_id cycles mode count_per_cycle n =
    (let (cid, n1) = fresh_unless ids campaign_id n;
         (records, n2) = campaign_cycles ids mode count_per_cycle 0 (nat cycles) n1
     in ((compute_metrics cid records, records), n2))"

definition run_load_campaign ::
  "ids \<Rightarrow> string option \<Rightarrow> int \<Rightarrow> string \<Rightarrow> nat \<Rightarrow> (campaign_metrics \<times> campaign_record list) \<times> nat" where
  "run_load_campaign ids campaign_id volume mode n =
    (let (cid, n1) = fresh_unless ids campaign_id n;
         cycle_id = ''load-cycle-'' @ take 8 (ids n1);
         replay_count = max 1 (volume div 10);
         (originals, n2) = repeated (nat (volume - replay_count))
           (make_campaign_record ids cycle_id (record_defaults\<lparr>ra_mode := mode\<rparr>)) (n1 + 1);
         (replays, n3) = repeated (nat replay_count) (make_replay_slice ids cycle_id mode) n2;
         records = originals @ replays
     in ((compute_metrics cid records, records), n3))"

section \<open>Replay campaigns\<close>

definition compute_fingerprint :: "(string \<Rightarrow> string) \<Rightarrow> string \<Rightarrow> string \<Rightarrow> string \<Rightarrow> string" where
  "compute_fingerprint digest source_artifact_id historical_config_version_id execution_type =
     take 16 (digest (source_artifact_id @ '':'' @ historical_config_version_id @ '':'' @ execution_type))"

definition make_replay_record ::
  "(string \<Rightarrow> string) \<Rightarrow> ids \<Rightarrow> string \<Rightarrow> string \<Rightarrow> string option \<Rightarrow> string option \<Rightarrow> nat \<Rightarrow> replay_record \<times> nat" where
  "make_replay_record digest ids mode execution_type historical_config_id source_artifact_id n =
    (let (hist_cfg, n1) = (if given historical_config_id then (the historical_config_id, n)
                           else (''hist-cfg-v1-'' @ take 8 (ids n), n + 1));
         (src_art, n2) = (if given source_artifact_id then (the source_artifact_id, n1)
                          else (''src-art-'' @ take 8 (ids n1), n1 + 1))
     in (\<lparr>rpr_record_id = ids n2, rpr_execution_mode = mode, rpr_execution_type = execution_type,
          rpr_governance_scope = ''REPLAY_ONLY'', rpr_correlation_id = ids (n2 + 1), rpr_causation_id = ids (n2 + 2),
          rpr_config_version_id = hist_cfg, rpr_historical_config_version_id = hist_cfg,
          rpr_source_artifact_id = src_art,
          rpr_replay_fingerprint = compute_fingerprint digest src_art hist_cfg execution_type,
          rpr_outbound_suppressed = True, rpr_live_effects_produced = 0, rpr_provider_dispatch_count = 0,
          rpr_is_replay = True, rpr_fingerprint_consistent = True\<rparr>, n2 + 3))"

definition verify_fingerprint_consistency :: "(string \<Rightarrow> string) \<Rightarrow> replay_record list \<Rightarrow> bool \<times> int" where
  "verify_fingerprint_consistency digest records =
    (let violations = count_if (\<lambda>r. rpr_replay_fingerprint r \<noteq> compute_fingerprint digest (rpr_source_artifact_id r)
           (rpr_historical_config_version_id r) (rpr_execution_type r)) records
     in (violations = 0, violations))"

definition certify_replays :: "(string \<Rightarrow> string) \<Rightarrow> replay_record list \<Rightarrow> replay_cert" where
  "certify_replays digest records =
    (let replay_only = count_if (\<lambda>r. rpr_governance_scope r = ''REPLAY_ONLY'') records;
         hist_count = count_if (\<lambda>r. rpr_historical_config_version_id r \<noteq> []) records;
         effects_total = sum_list (map rpr_live_effects_produced records);
         dispatch_total = sum_list (map rpr_provider_dispatch_count records);
         (fp_consistent, fp_violations) = verify_fingerprint_consistency digest records;
         leakage = count_if (\<lambda>r. rpr_live_effects_produced r > 0) records
     in \<lparr>rpc_total_records = int (length records), rpc_replay_only_scope_count = replay_only,
         rpc_historical_config_count = hist_count, rpc_zero_live_effects = (effects_total = 0),
         rpc_zero_provider_dispatches = (dispatch_total = 0),
         rpc_fingerprint_consistent_count = int (length records) - fp_violations,
         rpc_fingerprint_violations = fp_violations, rpc_replay_leakage_count = leakage,
         rpc_certification_passed = (effects_total = 0 \<and> dispatch_total = 0 \<and> fp_violations = 0
           \<and> replay_only = int (length records) \<and> leakage = 0)\<rparr>)"

definition run_replay_campaign ::
  "(string \<Rightarrow> string) \<Rightarrow> ids \<Rightarrow> int \<Rightarrow> string \<Rightarrow> string option \<Rightarrow> bool \<Rightarrow> nat \<Rightarrow> (replay_cert \<times> replay_record list) \<times> nat" where
  "run_replay_campaign digest ids count mode historical_config_id include_regeneration n =
    (let (hist_cfg, n1) = (if given historical_config_id then (the historical_config_id, n)
                           else (''hist-cfg-v1-'' @ take 8 (ids n), n + 1));
         (replays, n2) = repeated (nat count)
           (make_replay_record digest ids mode ''replay'' (Some hist_cfg) None) n1;
         (regenerations, n3) = (if include_regeneration
            then repeated (nat (max 1 (count div 5))) (make_replay_record digest ids mode ''regeneration'' (Some hist_cfg) None) n2
            else ([], n2));
         records = replays @ regenerations
     in ((certify_replays digest records, records), n3))"

section \<open>Injected failures\<close>

record failure_entry =
  fe_classification :: string
  fe_scope :: string
  fe_cause :: string
  fe_class :: string
  fe_severity :: string
  fe_reason :: string
  fe_rule_path :: "string list"

definition shadow_failure :: "string \<Rightarrow> string \<Rightarrow> string \<Rightarrow> string \<Rightarrow> failure_entry" where
  "shadow_failure classification cause cls severity =
    \<lparr>fe_classification = classification, fe_scope = ''SHADOW_ONLY'', fe_cause = cause, fe_class = cls,
     fe_severity = severity, fe_reason = ''SHADOW_ONLY_SCOPE_ACTIVE'',
     fe_rule_path = [''RULE_0'', ''RULE_1'', ''RULE_2'']\<rparr>"

definition failure_map :: "(string \<times> failure_entry) list" where
  "failure_map =
    [(''missing_config'', \<lparr>fe_classification = ''CONFIG_V2_UNAVAILABLE'', fe_scope = ''UNAVAILABLE'',
        fe_cause = ''CONFIG_V2_UNAVAILABLE'', fe_class = ''CONFIG_DEGRADATION'', fe_severity = ''HIGH'',
        fe_reason = ''CONFIG_VERSION_UNRESOLVED'', fe_rule_path = [''RULE_0'']\<rparr>),
     (''provider_unavailable'', shadow_failure ''PROVIDER_INIT_FAILURE'' ''PROVIDER_UNAVAILABLE'' ''PROVIDER_DEGRADATION'' ''LOW''),
     (''scheduler_unavailable'', shadow_failure ''SCHEDULER_INIT_FAILURE'' ''SCHEDULER_UNAVAILABLE'' ''RUNTIME_DEGRADATION'' ''MEDIUM''),
     (''worker_unavailable'', shadow_failure ''WORKER_INIT_FAILURE'' ''WORKER_UNAVAILABLE'' ''RUNTIME_DEGRADATION'' ''MEDIUM''),
     (''observability_unavailable'',
        shadow_failure ''OBSERVABILITY_INIT_FAILURE'' ''OBSERVABILITY_UNAVAILABLE'' ''OBSERVABILITY_DEGRADATION'' ''LOW'')]"

definition inject_failure :: "ids \<Rightarrow> string \<Rightarrow> nat \<Rightarrow> (degradation_record \<times> nat) res" where
  "inject_failure ids failure_mode n =
    (case map_of failure_map failure_mode of
       None \<Rightarrow> Inl KeyError
     | Some cfg \<Rightarrow> Inr
         (\<lparr>dgr_record_id = ids (n + 1), dgr_failure_mode = failure_mode,
           dgr_failure_classification = fe_classification cfg, dgr_governance_scope = fe_scope cfg,
           dgr_correlation_id = ids n, dgr_causation_id = ids (n + 2), dgr_degradation_state = ''deterministic'',
           dgr_attribution_preserved = True, dgr_outbound_suppressed = (fe_scope cfg \<in> suppressed_scopes),
           dgr_live_effects_produced = 0, dgr_recovery_path_visible = True, dgr_deterministic = True,
           dgr_degradation_cause = fe_cause cfg, dgr_degradation_class = fe_class cfg,
           dgr_degradation_severity = fe_severity cfg, dgr_reason_codes = [fe_reason cfg],
           dgr_rule_path = fe_rule_path cfg\<rparr>, n + 3))"

primrec inject_all :: "ids \<Rightarrow> string list \<Rightarrow> nat \<Rightarrow> (degradation_record list \<times> nat) res" where
  "inject_all ids [] n = Inr ([], n)"
| "inject_all ids (m # ms) n =
     bind_res (inject_failure ids m n) (\<lambda>(r, n1).
     bind_res (inject_all ids ms n1) (\<lambda>(rs, n2). Inr (r # rs, n2)))"

definition certify_degradation :: "string list \<Rightarrow> degradation_record list \<Rightarrow> degradation_campaign" where
  "certify_degradation modes records =
    (let det_count = count_if dgr_deterministic records; attr_count = count_if dgr_attribution_preserved records;
         effects_zero = count_if (\<lambda>r. dgr_live_effects_produced r = 0) records;
         recovery_vis = count_if dgr_recovery_path_visible records; injected = int (length records)
     in \<lparr>dgc_failure_modes_tested = modes, dgc_total_injections = injected, dgc_deterministic_count = det_count,
         dgc_attribution_preserved_count = attr_count, dgc_zero_live_effects_count = effects_zero,
         dgc_recovery_visible_count = recovery_vis,
         dgc_certification_passed = (det_count = injected \<and> attr_count = injected \<and> effects_zero = injected \<and> recovery_vis = injected)\<rparr>)"

definition run_degradation_campaign ::
  "ids \<Rightarrow> string list option \<Rightarrow> int \<Rightarrow> nat \<Rightarrow> ((degradation_campaign \<times> degradation_record list) \<times> nat) res" where
  "run_degradation_campaign ids failure_modes count_each n =
    (let modes = (case failure_modes of Some (m # ms) \<Rightarrow> m # ms | _ \<Rightarrow> all_failure_modes)
     in bind_res (inject_all ids (concat (map (replicate (nat count_each)) modes)) n) (\<lambda>(records, n1).
        Inr ((certify_degradation modes records, records), n1)))"

section \<open>Report\<close>

definition generate_operator_report ::
  "string \<Rightarrow> string \<Rightarrow> string \<Rightarrow> campaign_metrics \<Rightarrow> campaign_audit \<Rightarrow> pyfloat \<Rightarrow> operator_report" where
  "generate_operator_report report_id now campaign_id m audit duration =
    (let total_violations = cpm_inv_violation_count m + cpm_fad_violation_count m;
         passed = (aud_audit_passed audit \<and> total_violations = 0 \<and> cpm_live_effects_total m = 0
           \<and> cpm_provider_dispatch_total m = 0 \<and> cpm_authorized_scope_count m = 0)
     in \<lparr>opr_report_id = report_id, opr_campaign_id = campaign_id, opr_report_timestamp = now,
         opr_campaign_duration_seconds = duration, opr_orchestration_volume = cpm_orchestration_count m,
         opr_suppression_volume = cpm_suppression_count m, opr_replay_volume = cpm_replay_count m,
         opr_degradation_events = cpm_degradation_count m, opr_inv_violations = cpm_inv_violation_count m,
         opr_fad_violations = cpm_fad_violation_count m, opr_live_effects_total = cpm_live_effects_total m,
         opr_provider_dispatch_total = cpm_provider_dispatch_total m,
         opr_authorized_scope_count = cpm_authorized_scope_count m,
         opr_attribution_gap_count = cpm_attribution_gap_count m,
         opr_replay_leakage_count = cpm_replay_leakage_count m,
         opr_governance_invariant_violations = total_violations,
         opr_certification_outcome =
           (if passed then ''CERTIFICATION_PASSED''
            else if \<not> aud_audit_passed audit then ''CERTIFICATION_FAILED'' else ''CERTIFICATION_DEGRADED''),
         opr_certification_passed = passed\<rparr>)"

definition format_report_summary :: "operator_report \<Rightarrow> string" where
  "format_report_summary r =
     ''Campaign '' @ take 8 (opr_campaign_id r) @ ''... | ''
     @ ''Orchestration: '' @ show_int (opr_orchestration_volume r) @ '' | ''
     @ ''Suppressed: '' @ show_int (opr_suppression_volume r) @ '' | ''
     @ ''Replays: '' @ show_int (opr_replay_volume r) @ '' | ''
     @ ''Degradations: '' @ show_int (opr_degradation_events r) @ '' | ''
     @ ''Live effects: '' @ show_int (opr_live_effects_total r) @ '' | ''
     @ ''Dispatches: '' @ show_int (opr_provider_dispatch_total r) @ '' | ''
     @ ''INV violations: '' @ show_int (opr_inv_violations r) @ '' | ''
     @ ''FAD violations: '' @ show_int (opr_fad_violations r) @ '' | ''
     @ ''Outcome: '' @ opr_certification_outcome r"

end
