(* ===== verification/CampaignProps.thy ===== *)
theory CampaignProps
  imports Campaign
begin

text \<open>
  Properties of the shadow campaign: what its two verdicts on a list of records mean, where they
  differ, and that every campaign the runner can be asked for certifies itself.
\<close>

section \<open>Counting\<close>

lemma count_if_simps [simp]:
  "count_if P [] = 0" "count_if P (r # rs) = one_if (P r) + count_if P rs"
  "count_if P (xs @ ys) = count_if P xs + count_if P ys"
  by (simp_all add: count_if_def one_if_def)

lemma count_if_nonneg [simp]: "0 \<le> count_if P rs"
  by (simp add: count_if_def)

lemma one_if_simps [simp]: "one_if True = 1" "one_if False = 0" "one_unless b = one_if (\<not> b)"
  by (simp_all add: one_if_def one_unless_def)

lemma one_if_nonneg [simp]: "0 \<le> one_if b"
  by (simp add: one_if_def)

lemma one_if_zero [simp]: "one_if b = 0 \<longleftrightarrow> \<not> b"
  by (simp add: one_if_def)

lemma count_if_zero [simp]: "count_if P rs = 0 \<longleftrightarrow> list_all (\<lambda>r. \<not> P r) rs"
  by (simp add: count_if_def filter_empty_conv list_all_iff)

lemma count_if_all: "list_all P rs \<Longrightarrow> count_if P rs = int (length rs)"
  by (induction rs) simp_all

lemma max_zero_iff: "0 \<le> a \<Longrightarrow> 0 \<le> b \<Longrightarrow> max a b = 0 \<longleftrightarrow> a = 0 \<and> b = (0 :: int)"
  by linarith

section \<open>The two verdicts\<close>

definition flags_ok :: "campaign_record \<Rightarrow> bool" where
  "flags_ok r \<longleftrightarrow> list_all id (inv_flags r) \<and> list_all id (fad_flags r)"

definition inv_sum :: "governance_cert \<Rightarrow> int list" where
  "inv_sum g = [gvc_inv1_violations g, gvc_inv2_violations g, gvc_inv3_violations g, gvc_inv4_violations g,
     gvc_inv5_violations g, gvc_inv6_violations g, gvc_inv7_violations g]"

definition fad_sum :: "governance_cert \<Rightarrow> int list" where
  "fad_sum g = [gvc_fad1_violations g, gvc_fad2_violations g, gvc_fad3_violations g, gvc_fad4_violations g,
     gvc_fad5_violations g, gvc_fad6_violations g]"

lemma count_flags_fold:
  "gvc_inv1_violations (fold count_flags rs g) = gvc_inv1_violations g + count_if (\<lambda>r. \<not> cpr_inv1_scope_not_mutated r) rs"
  "gvc_inv2_violations (fold count_flags rs g) = gvc_inv2_violations g + count_if (\<lambda>r. \<not> cpr_inv2_attribution_not_mutated r) rs"
  "gvc_inv3_violations (fold count_flags rs g) = gvc_inv3_violations g + count_if (\<lambda>r. \<not> cpr_inv3_replay_no_live r) rs"
  "gvc_inv4_violations (fold count_flags rs g) = gvc_inv4_violations g + count_if (\<lambda>r. \<not> cpr_inv4_shadow_no_dispatch r) rs"
  "gvc_inv5_violations (fold count_flags rs g) = gvc_inv5_violations g + count_if (\<lambda>r. \<not> cpr_inv5_rule0_not_bypassed r) rs"
  "gvc_inv6_violations (fold count_flags rs g) = gvc_inv6_violations g + count_if (\<lambda>r. \<not> cpr_inv6_correlation_present r) rs"
  "gvc_inv7_violations (fold count_flags rs g) = gvc_inv7_violations g + count_if (\<lambda>r. \<not> cpr_inv7_exec_mode_present r) rs"
  "gvc_fad1_violations (fold count_flags rs g) = gvc_fad1_violations g + count_if (\<lambda>r. \<not> cpr_fad1_finalized_not_mutated r) rs"
  "gvc_fad2_violations (fold count_flags rs g) = gvc_fad2_violations g + count_if (\<lambda>r. \<not> cpr_fad2_attribution_immutable r) rs"
  "gvc_fad3_violations (fold count_flags rs g) = gvc_fad3_violations g + count_if (\<lambda>r. \<not> cpr_fad3_deterministic r) rs"
  "gvc_fad4_violations (fold count_flags rs g) = gvc_fad4_violations g + count_if (\<lambda>r. \<not> cpr_fad4_lineage_append_only r) rs"
  "gvc_fad5_violations (fold count_flags rs g) = gvc_fad5_violations g + count_if (\<lambda>r. \<not> cpr_fad5_replay_historical_config r) rs"
  "gvc_fad6_violations (fold count_flags rs g) = gvc_fad6_violations g + count_if (\<lambda>r. \<not> cpr_fad6_finalized_lineage_preserved r) rs"
  by (induction rs arbitrary: g; simp add: count_flags_def)+

lemmas governance_counts = certify_governance_def sum_governance_def Let_def count_flags_fold new_governance_cert_def

lemma sum_zero: "list_all (\<lambda>x. 0 \<le> x) xs \<Longrightarrow> sum_list xs = 0 \<longleftrightarrow> list_all (\<lambda>x. x = (0 :: int)) xs"
  by (induction xs) (auto simp: add_nonneg_eq_0_iff sum_list_nonneg list_all_iff)

lemma inv_total_zero:
  "gvc_total_inv_violations (certify_governance rs) = 0 \<longleftrightarrow> list_all (\<lambda>r. list_all id (inv_flags r)) rs"
proof -
  have "gvc_total_inv_violations (certify_governance rs) = sum_list (map (\<lambda>P. count_if (\<lambda>r. \<not> P r) rs)
     [cpr_inv1_scope_not_mutated, cpr_inv2_attribution_not_mutated, cpr_inv3_replay_no_live, cpr_inv4_shadow_no_dispatch,
      cpr_inv5_rule0_not_bypassed, cpr_inv6_correlation_present, cpr_inv7_exec_mode_present])"
    by (simp add: governance_counts)
  also have "\<dots> = 0 \<longleftrightarrow> list_all (\<lambda>r. list_all id (inv_flags r)) rs"
    by (subst sum_zero) (auto simp: inv_flags_def list_all_iff)
  finally show ?thesis .
qed

lemma fad_total_zero:
  "gvc_total_fad_violations (certify_governance rs) = 0 \<longleftrightarrow> list_all (\<lambda>r. list_all id (fad_flags r)) rs"
proof -
  have "gvc_total_fad_violations (certify_governance rs) = sum_list (map (\<lambda>P. count_if (\<lambda>r. \<not> P r) rs)
     [cpr_fad1_finalized_not_mutated, cpr_fad2_attribution_immutable, cpr_fad3_deterministic, cpr_fad4_lineage_append_only,
      cpr_fad5_replay_historical_config, cpr_fad6_finalized_lineage_preserved])"
    by (simp add: governance_counts)
  also have "\<dots> = 0 \<longleftrightarrow> list_all (\<lambda>r. list_all id (fad_flags r)) rs"
    by (subst sum_zero) (auto simp: fad_flags_def list_all_iff)
  finally show ?thesis .
qed

lemma totals_nonneg:
  "0 \<le> gvc_total_inv_violations (certify_governance rs)" "0 \<le> gvc_total_fad_violations (certify_governance rs)"
  by (simp_all add: governance_counts)

text \<open>The predicates of a record behind the two verdicts.\<close>

definition governed :: "campaign_record \<Rightarrow> bool" where
  "governed r \<longleftrightarrow> flags_ok r
     \<and> (cpr_execution_type r \<in> campaign_replay_types
        \<longrightarrow> cpr_live_effects_produced r \<le> 0 \<and> given (cpr_historical_config_version_id r))
     \<and> (cpr_governance_scope r = ''SHADOW_ONLY'' \<longrightarrow> cpr_provider_dispatch_count r \<le> 0)
     \<and> (\<exists>ps. cpr_rule_path r = ''RULE_0'' # ps) \<and> cpr_correlation_id r \<noteq> []
     \<and> \<not> (cpr_is_finalized r \<and> cpr_is_mutable r)"

definition audited :: "campaign_record \<Rightarrow> bool" where
  "audited r \<longleftrightarrow> flags_ok r \<and> cpr_provider_dispatch_count r = 0 \<and> cpr_live_effects_produced r = 0
     \<and> cpr_correlation_id r \<noteq> [] \<and> cpr_causation_id r \<noteq> [] \<and> \<not> (cpr_is_finalized r \<and> cpr_is_mutable r)
     \<and> cpr_governance_scope r \<noteq> ''AUTHORIZED''"

lemmas verifications = verify_inv3_replay_no_live_def verify_inv4_shadow_no_dispatch_def verify_inv5_rule0_first_def
  verify_inv6_correlation_present_def verify_fad1_finalized_not_mutated_def verify_fad5_replay_historical_config_def

lemma flags_okD:
  "flags_ok r \<longleftrightarrow> cpr_inv1_scope_not_mutated r \<and> cpr_inv2_attribution_not_mutated r \<and> cpr_inv3_replay_no_live r
     \<and> cpr_inv4_shadow_no_dispatch r \<and> cpr_inv5_rule0_not_bypassed r \<and> cpr_inv6_correlation_present r
     \<and> cpr_inv7_exec_mode_present r \<and> cpr_fad1_finalized_not_mutated r \<and> cpr_fad2_attribution_immutable r
     \<and> cpr_fad3_deterministic r \<and> cpr_fad4_lineage_append_only r \<and> cpr_fad5_replay_historical_config r
     \<and> cpr_fad6_finalized_lineage_preserved r"
  by (simp add: flags_ok_def inv_flags_def fad_flags_def)

lemma certify_counts:
  "gvc_inv1_violations (certify_governance rs) = count_if (\<lambda>r. \<not> cpr_inv1_scope_not_mutated r) rs"
  "gvc_inv2_violations (certify_governance rs) = count_if (\<lambda>r. \<not> cpr_inv2_attribution_not_mutated r) rs"
  "gvc_inv3_violations (certify_governance rs) = count_if (\<lambda>r. \<not> cpr_inv3_replay_no_live r) rs"
  "gvc_inv4_violations (certify_governance rs) = count_if (\<lambda>r. \<not> cpr_inv4_shadow_no_dispatch r) rs"
  "gvc_inv5_violations (certify_governance rs) = count_if (\<lambda>r. \<not> cpr_inv5_rule0_not_bypassed r) rs"
  "gvc_inv6_violations (certify_governance rs) = count_if (\<lambda>r. \<not> cpr_inv6_correlation_present r) rs"
  "gvc_inv7_violations (certify_governance rs) = count_if (\<lambda>r. \<not> cpr_inv7_exec_mode_present r) rs"
  "gvc_fad1_violations (certify_governance rs) = count_if (\<lambda>r. \<not> cpr_fad1_finalized_not_mutated r) rs"
  "gvc_fad2_violations (certify_governance rs) = count_if (\<lambda>r. \<not> cpr_fad2_attribution_immutable r) rs"
  "gvc_fad3_violations (certify_governance rs) = count_if (\<lambda>r. \<not> cpr_fad3_deterministic r) rs"
  "gvc_fad4_violations (certify_governance rs) = count_if (\<lambda>r. \<not> cpr_fad4_lineage_append_only r) rs"
  "gvc_fad5_violations (certify_governance rs) = count_if (\<lambda>r. \<not> cpr_fad5_replay_historical_config r) rs"
  "gvc_fad6_violations (certify_governance rs) = count_if (\<lambda>r. \<not> cpr_fad6_finalized_lineage_preserved r) rs"
  by (simp_all add: governance_counts)

lemma sum_six: "0 \<le> a \<Longrightarrow> 0 \<le> b \<Longrightarrow> 0 \<le> c \<Longrightarrow> 0 \<le> d \<Longrightarrow> 0 \<le> e \<Longrightarrow> 0 \<le> f
   \<Longrightarrow> a + b + c + d + e + f = 0 \<longleftrightarrow> a = 0 \<and> b = 0 \<and> c = 0 \<and> d = 0 \<and> e = 0 \<and> f = (0 :: int)"
  by linarith

lemma sum_seven: "0 \<le> a \<Longrightarrow> 0 \<le> b \<Longrightarrow> 0 \<le> c \<Longrightarrow> 0 \<le> d \<Longrightarrow> 0 \<le> e \<Longrightarrow> 0 \<le> f \<Longrightarrow> 0 \<le> g
   \<Longrightarrow> a + b + c + d + e + f + g = 0
     \<longleftrightarrow> a = 0 \<and> b = 0 \<and> c = 0 \<and> d = 0 \<and> e = 0 \<and> f = 0 \<and> g = (0 :: int)"
  by linarith

lemma max_nonneg: "0 \<le> a \<Longrightarrow> 0 \<le> (max a b :: int)"
  by linarith

lemma rule_zero_first: "\<not> (case p of [] \<Rightarrow> True | q # qs \<Rightarrow> q \<noteq> ''RULE_0'') \<longleftrightarrow> (\<exists>ps. p = ''RULE_0'' # ps)"
  by (cases p) auto

lemma certification_totals:
  "gvc_total_inv_violations (run_governance_certification rs) =
     count_if (\<lambda>r. \<not> cpr_inv1_scope_not_mutated r) rs + count_if (\<lambda>r. \<not> cpr_inv2_attribution_not_mutated r) rs
     + max (count_if (\<lambda>r. \<not> cpr_inv3_replay_no_live r) rs) (verify_inv3_replay_no_live rs)
     + max (count_if (\<lambda>r. \<not> cpr_inv4_shadow_no_dispatch r) rs) (verify_inv4_shadow_no_dispatch rs)
     + max (count_if (\<lambda>r. \<not> cpr_inv5_rule0_not_bypassed r) rs) (verify_inv5_rule0_first rs)
     + max (count_if (\<lambda>r. \<not> cpr_inv6_correlation_present r) rs) (verify_inv6_correlation_present rs)
     + count_if (\<lambda>r. \<not> cpr_inv7_exec_mode_present r) rs"
  "gvc_total_fad_violations (run_governance_certification rs) =
     max (count_if (\<lambda>r. \<not> cpr_fad1_finalized_not_mutated r) rs) (verify_fad1_finalized_not_mutated rs)
     + count_if (\<lambda>r. \<not> cpr_fad2_attribution_immutable r) rs + count_if (\<lambda>r. \<not> cpr_fad3_deterministic r) rs
     + count_if (\<lambda>r. \<not> cpr_fad4_lineage_append_only r) rs
     + max (count_if (\<lambda>r. \<not> cpr_fad5_replay_historical_config r) rs) (verify_fad5_replay_historical_config rs)
     + count_if (\<lambda>r. \<not> cpr_fad6_finalized_lineage_preserved r) rs"
  "gvc_certification_passed (run_governance_certification rs) \<longleftrightarrow>
     gvc_total_inv_violations (run_governance_certification rs) = 0 \<and> gvc_total_fad_violations (run_governance_certification rs) = 0"
  by (simp_all add: run_governance_certification_def sum_governance_def Let_def certify_counts)

lemma certification_inv:
  "gvc_total_inv_violations (run_governance_certification rs) = 0 \<longleftrightarrow>
     list_all (\<lambda>r. list_all id (inv_flags r)
       \<and> \<not> (cpr_execution_type r \<in> campaign_replay_types \<and> cpr_live_effects_produced r > 0)
       \<and> \<not> (cpr_governance_scope r = ''SHADOW_ONLY'' \<and> cpr_provider_dispatch_count r > 0)
       \<and> (\<exists>ps. cpr_rule_path r = ''RULE_0'' # ps) \<and> cpr_correlation_id r \<noteq> []) rs"
  unfolding certification_totals
  by (subst sum_seven)
    (auto simp: max_nonneg max_zero_iff verifications rule_zero_first list_all_iff inv_flags_def simp del: not_less)

lemma certification_fad:
  "gvc_total_fad_violations (run_governance_certification rs) = 0 \<longleftrightarrow>
     list_all (\<lambda>r. list_all id (fad_flags r) \<and> \<not> (cpr_is_finalized r \<and> cpr_is_mutable r)
       \<and> \<not> (cpr_execution_type r \<in> campaign_replay_types \<and> \<not> given (cpr_historical_config_version_id r))) rs"
  unfolding certification_totals
  by (subst sum_six) (auto simp: max_nonneg max_zero_iff verifications list_all_iff fad_flags_def)

lemma certification_iff: "gvc_certification_passed (run_governance_certification rs) \<longleftrightarrow> list_all governed rs"
  unfolding certification_totals(3) certification_inv certification_fad
  by (auto simp: list_all_iff governed_def flags_ok_def)

lemma nonneg_sums:
  "list_all (\<lambda>r. 0 \<le> f r) rs \<Longrightarrow> sum_list (map f rs) = (0 :: int) \<longleftrightarrow> list_all (\<lambda>r. f r = 0) rs"
  by (subst sum_zero) (simp_all add: list_all_iff)

lemma audit_iff:
  assumes "list_all (\<lambda>r. 0 \<le> cpr_provider_dispatch_count r \<and> 0 \<le> cpr_live_effects_produced r) rs"
  shows "aud_audit_passed (audit_campaign_records rs) \<longleftrightarrow> list_all audited rs"
proof -
  have sums: "sum_list (map cpr_provider_dispatch_count rs) = 0 \<longleftrightarrow> list_all (\<lambda>r. cpr_provider_dispatch_count r = 0) rs"
    "sum_list (map cpr_live_effects_produced rs) = 0 \<longleftrightarrow> list_all (\<lambda>r. cpr_live_effects_produced r = 0) rs"
    using assms by (intro nonneg_sums; simp add: list_all_iff)+
  have "gvc_total_inv_violations (certify_governance rs) + gvc_total_fad_violations (certify_governance rs) = 0
    \<longleftrightarrow> list_all flags_ok rs"
    using totals_nonneg [of rs] inv_total_zero [of rs] fad_total_zero [of rs]
    by (auto simp: add_nonneg_eq_0_iff flags_ok_def list_all_iff)
  then show ?thesis
    unfolding audit_campaign_records_def Let_def campaign_audit.simps sums count_if_zero
    by (auto simp: list_all_iff audited_def)
qed

text \<open>
  C29. The two verdicts on campaign records: the governance certification passes exactly when every
  record is governed, the audit, for counts that are not negative, exactly when every record is
  audited. Neither implies the other: the audit, which looks at the flags a record carries about
  itself, passes records whose rules do not start at Rule 0 or whose replay has no historical
  configuration, and the certification passes records of authorized scope with live effects.
\<close>

theorem campaign_verdicts:
  assumes "list_all (\<lambda>r. 0 \<le> cpr_provider_dispatch_count r \<and> 0 \<le> cpr_live_effects_produced r) rs"
  shows "(gvc_certification_passed (run_governance_certification rs) \<longleftrightarrow> list_all governed rs)
    \<and> (aud_audit_passed (audit_campaign_records rs) \<longleftrightarrow> list_all audited rs)
    \<and> (\<forall>r. audited r \<longrightarrow> audited (r\<lparr>cpr_rule_path := []\<rparr>) \<and> \<not> governed (r\<lparr>cpr_rule_path := []\<rparr>))
    \<and> (\<forall>r. governed r \<and> cpr_execution_type r \<notin> campaign_replay_types
        \<longrightarrow> (let r' = r\<lparr>cpr_governance_scope := ''AUTHORIZED'', cpr_live_effects_produced := 1\<rparr> in governed r' \<and> \<not> audited r'))"
  using certification_iff audit_iff [OF assms]
  by (auto simp: governed_def audited_def flags_okD Let_def)

section \<open>Every campaign certifies itself\<close>

lemma repeated_all: "(\<And>n. P (fst (f n))) \<Longrightarrow> list_all P (fst (repeated k f n))"
  by (induction k arbitrary: n) (simp_all add: Let_def case_prod_beta)

lemma repeated_length [simp]: "length (fst (repeated k f n)) = k"
  by (induction k arbitrary: n) (simp_all add: Let_def case_prod_beta)

text \<open>What a record made by the campaign is, for any mode.\<close>

definition campaign_fine :: "campaign_record \<Rightarrow> bool" where
  "campaign_fine r \<longleftrightarrow> governed r \<and> audited r \<and> cpr_outbound_suppressed r \<and> \<not> cpr_degraded r
     \<and> cpr_governance_scope r \<noteq> [] \<and> (cpr_is_replay r \<longrightarrow> given (cpr_historical_config_version_id r))"

lemma scope_cases: "derive_campaign_scope m t c x d \<in> suppressed_scopes"
  "derive_campaign_scope m t c x d \<noteq> ''AUTHORIZED''" "derive_campaign_scope m t c x d \<noteq> []"
  by (simp_all add: derive_campaign_scope_def suppressed_scopes_def)

lemma made_fine:
  assumes "\<And>n. ids n \<noteq> []" and "ra_historical_config_version_id a \<noteq> Some []" and "\<not> ra_degraded a"
  shows "campaign_fine (fst (make_campaign_record ids c a n))"
    and "cpr_is_replay (fst (make_campaign_record ids c a n)) \<longleftrightarrow> ra_exec_type a \<in> campaign_replay_types"
proof -
  let ?r = "fst (make_campaign_record ids c a n)"
  show "cpr_is_replay ?r \<longleftrightarrow> ra_exec_type a \<in> campaign_replay_types"
    by (simp add: make_campaign_record_def Let_def case_prod_beta)
  have flags: "flags_ok ?r" by (simp add: make_campaign_record_def Let_def case_prod_beta flags_okD)
  have plain: "cpr_live_effects_produced ?r = 0" "cpr_provider_dispatch_count ?r = 0" "cpr_correlation_id ?r \<noteq> []"
    "cpr_causation_id ?r \<noteq> []" "cpr_is_mutable ?r = (\<not> cpr_is_finalized ?r)" "cpr_degraded ?r = False"
    using assms by (simp_all add: make_campaign_record_def Let_def case_prod_beta)
  have path: "\<exists>ps. cpr_rule_path ?r = ''RULE_0'' # ps"
    by (simp add: make_campaign_record_def Let_def case_prod_beta campaign_rule_path_def)
  have scope: "cpr_outbound_suppressed ?r" "cpr_governance_scope ?r \<noteq> ''AUTHORIZED''" "cpr_governance_scope ?r \<noteq> []"
    using scope_cases by (simp_all add: make_campaign_record_def Let_def case_prod_beta)
  have hist: "ra_exec_type a \<in> campaign_replay_types \<Longrightarrow> given (cpr_historical_config_version_id ?r)"
    using assms(2) by (auto simp: make_campaign_record_def Let_def case_prod_beta given_iff)
  moreover have "cpr_execution_type ?r = ra_exec_type a" "cpr_is_replay ?r = (ra_exec_type a \<in> campaign_replay_types)"
    by (simp_all add: make_campaign_record_def Let_def case_prod_beta)
  ultimately show "campaign_fine ?r"
    using flags plain path scope by (simp add: campaign_fine_def governed_def audited_def)
qed

lemma slice_fine:
  assumes "\<And>n. ids n \<noteq> []"
  shows "campaign_fine (fst (make_replay_slice ids c mode n))" and "cpr_is_replay (fst (make_replay_slice ids c mode n))"
  unfolding make_replay_slice_def using made_fine [OF assms] by (simp_all add: record_defaults_def campaign_replay_types_def)

lemma original_fine:
  assumes "\<And>n. ids n \<noteq> []"
  shows "campaign_fine (fst (make_campaign_record ids c (record_defaults\<lparr>ra_mode := mode\<rparr>) n))"
    and "\<not> cpr_is_replay (fst (make_campaign_record ids c (record_defaults\<lparr>ra_mode := mode\<rparr>) n))"
  using made_fine [OF assms] by (simp_all add: record_defaults_def campaign_replay_types_def)

text \<open>Metrics of records that are all fine.\<close>

lemma metrics_fold:
  "cpm_orchestration_count (fold count_campaign_record rs m) = cpm_orchestration_count m + int (length rs)"
  "cpm_suppression_count (fold count_campaign_record rs m) = cpm_suppression_count m + count_if cpr_outbound_suppressed rs"
  "cpm_replay_count (fold count_campaign_record rs m) = cpm_replay_count m + count_if cpr_is_replay rs"
  "cpm_degradation_count (fold count_campaign_record rs m) = cpm_degradation_count m + count_if cpr_degraded rs"
  "cpm_authorized_scope_count (fold count_campaign_record rs m)
     = cpm_authorized_scope_count m + count_if (\<lambda>r. cpr_governance_scope r = ''AUTHORIZED'') rs"
  "cpm_live_effects_total (fold count_campaign_record rs m) = cpm_live_effects_total m + sum_list (map cpr_live_effects_produced rs)"
  "cpm_provider_dispatch_total (fold count_campaign_record rs m)
     = cpm_provider_dispatch_total m + sum_list (map cpr_provider_dispatch_count rs)"
  "cpm_inv_violation_count (fold count_campaign_record rs m) = cpm_inv_violation_count m + sum_list (map (count_if Not \<circ> inv_flags) rs)"
  "cpm_fad_violation_count (fold count_campaign_record rs m) = cpm_fad_violation_count m + sum_list (map (count_if Not \<circ> fad_flags) rs)"
  "cpm_attribution_gap_count (fold count_campaign_record rs m) = cpm_attribution_gap_count m"
  "cpm_finalized_violation_count (fold count_campaign_record rs m) = cpm_finalized_violation_count m"
  by (induction rs arbitrary: m; simp add: count_campaign_record_def)+

text \<open>The gap and finalization counters of the metrics are never counted, whatever the records.\<close>

lemma metrics_blind:
  "cpm_attribution_gap_count (compute_metrics cid rs) = 0" "cpm_finalized_violation_count (compute_metrics cid rs) = 0"
  by (simp_all add: compute_metrics_def Let_def metrics_fold new_metrics_def)

lemma sum_list_zero: "list_all (\<lambda>r. f r = (0 :: int)) rs \<Longrightarrow> sum_list (map f rs) = 0"
  by (induction rs) simp_all

lemma fine_flags: "campaign_fine r \<Longrightarrow> count_if Not (inv_flags r) = 0 \<and> count_if Not (fad_flags r) = 0"
  by (auto simp: campaign_fine_def audited_def flags_ok_def list_all_iff)

lemma fine_report:
  assumes "list_all campaign_fine rs"
  shows "opr_certification_outcome (generate_operator_report rid now cid (compute_metrics cid rs) (audit_campaign_records rs) t)
      = ''CERTIFICATION_PASSED''"
    and "gvc_certification_passed (run_governance_certification rs)"
    and "cpa_certification_passed (run_attribution_certification rs)"
    and "cpm_campaign_status (compute_metrics cid rs) = ''COMPLETE''"
    and "cpm_suppression_count (compute_metrics cid rs) = int (length rs)"
    and "cpm_orchestration_count (compute_metrics cid rs) = int (length rs)"
proof -
  have parts: "list_all governed rs" "list_all audited rs" "list_all cpr_outbound_suppressed rs"
    "list_all (\<lambda>r. cpr_live_effects_produced r = 0) rs" "list_all (\<lambda>r. cpr_provider_dispatch_count r = 0) rs"
    "list_all (\<lambda>r. cpr_governance_scope r \<noteq> ''AUTHORIZED'') rs" "list_all (\<lambda>r. \<not> cpr_degraded r) rs"
    "list_all (\<lambda>r. (count_if Not \<circ> inv_flags) r = 0) rs" "list_all (\<lambda>r. (count_if Not \<circ> fad_flags) r = 0) rs"
    "list_all (\<lambda>r. cpr_correlation_id r \<noteq> []) rs" "list_all (\<lambda>r. cpr_causation_id r \<noteq> []) rs"
    "list_all (\<lambda>r. cpr_governance_scope r \<noteq> []) rs"
    "list_all (\<lambda>r. \<not> (cpr_is_replay r \<and> \<not> given (cpr_historical_config_version_id r))) rs"
    using assms fine_flags by (auto simp: list_all_iff campaign_fine_def audited_def)
  then have zero: "list_all (\<lambda>r. 0 \<le> cpr_provider_dispatch_count r \<and> 0 \<le> cpr_live_effects_produced r) rs"
    by (simp add: list_all_iff)
  let ?m = "fold count_campaign_record rs (new_metrics cid)"
  have deg: "cpm_degradation_count ?m = 0" using parts(7) by (simp add: metrics_fold new_metrics_def)
  then have m: "compute_metrics cid rs = ?m" by (simp add: compute_metrics_def Let_def)
  have status: "cpm_campaign_status (fold count_campaign_record rs m) = cpm_campaign_status m" for m
    by (induction rs arbitrary: m) (simp_all add: count_campaign_record_def)
  have "cpm_inv_violation_count ?m = 0" "cpm_fad_violation_count ?m = 0" "cpm_live_effects_total ?m = 0"
    "cpm_provider_dispatch_total ?m = 0" "cpm_authorized_scope_count ?m = 0"
    unfolding metrics_fold using parts(6) sum_list_zero [OF parts(4)] sum_list_zero [OF parts(5)]
      sum_list_zero [OF parts(8)] sum_list_zero [OF parts(9)] by (simp_all add: new_metrics_def comp_def)
  then show "opr_certification_outcome (generate_operator_report rid now cid (compute_metrics cid rs) (audit_campaign_records rs) t)
      = ''CERTIFICATION_PASSED''"
    using audit_iff [OF zero] parts(2) by (simp add: generate_operator_report_def Let_def m)
  show "gvc_certification_passed (run_governance_certification rs)" using certification_iff parts(1) by blast
  have gaps: "count_if (\<lambda>r. cpr_correlation_id r = []) rs = 0" "count_if (\<lambda>r. cpr_causation_id r = []) rs = 0"
    "count_if (\<lambda>r. cpr_governance_scope r = []) rs = 0"
    "count_if (\<lambda>r. cpr_is_replay r \<and> \<not> given (cpr_historical_config_version_id r)) rs = 0"
    unfolding count_if_zero using parts(10-13) by simp_all
  show "cpa_certification_passed (run_attribution_certification rs)"
    using gaps by (simp add: run_attribution_certification_def certify_attribution_def Let_def del: count_if_zero)
  show "cpm_campaign_status (compute_metrics cid rs) = ''COMPLETE''" by (simp add: m status new_metrics_def)
  show "cpm_suppression_count (compute_metrics cid rs) = int (length rs)"
    unfolding m metrics_fold using count_if_all [OF parts(3)] by (simp add: new_metrics_def)
  show "cpm_orchestration_count (compute_metrics cid rs) = int (length rs)"
    unfolding m metrics_fold by (simp add: new_metrics_def)
qed

lemma fine_originals:
  assumes "\<And>n. ids n \<noteq> []"
  shows "list_all campaign_fine (fst (repeated k (make_campaign_record ids c (record_defaults\<lparr>ra_mode := mode\<rparr>)) n))"
    and "count_if cpr_is_replay (fst (repeated k (make_campaign_record ids c (record_defaults\<lparr>ra_mode := mode\<rparr>)) n)) = 0"
  unfolding count_if_zero by (intro repeated_all original_fine [OF assms])+

lemma fine_slices:
  assumes "\<And>n. ids n \<noteq> []"
  shows "list_all campaign_fine (fst (repeated k (make_replay_slice ids c mode) n))"
    and "count_if cpr_is_replay (fst (repeated k (make_replay_slice ids c mode) n)) = int k"
proof -
  show "list_all campaign_fine (fst (repeated k (make_replay_slice ids c mode) n))"
    by (intro repeated_all slice_fine [OF assms])
  have "list_all cpr_is_replay (fst (repeated k (make_replay_slice ids c mode) n))"
    by (intro repeated_all slice_fine [OF assms])
  from count_if_all [OF this] show "count_if cpr_is_replay (fst (repeated k (make_replay_slice ids c mode) n)) = int k" by simp
qed

text \<open>The records of one cycle: the originals and, in a replaying cycle, a tenth of their number.\<close>

definition replays_of :: "int \<Rightarrow> nat" where
  "replays_of count = nat (max 1 (count div 10))"

lemma cycle_records:
  assumes "\<And>n. ids n \<noteq> []"
  shows "list_all campaign_fine (snd (fst (run_campaign_cycle ids cid mode count replay False False n)))
    \<and> length (snd (fst (run_campaign_cycle ids cid mode count replay False False n)))
        = nat count + (if replay then replays_of count else 0)
    \<and> count_if cpr_is_replay (snd (fst (run_campaign_cycle ids cid mode count replay False False n)))
        = int (if replay then replays_of count else 0)"
proof -
  have same: "record_defaults\<lparr>ra_mode := mode, ra_config_missing := False\<rparr> = record_defaults\<lparr>ra_mode := mode\<rparr>"
    by (simp add: record_defaults_def)
  show ?thesis
    using fine_originals [OF assms] fine_slices [OF assms]
    by (simp add: run_campaign_cycle_def Let_def case_prod_beta same replays_of_def del: count_if_zero)
qed

lemma cycles_records:
  assumes "\<And>n. ids n \<noteq> []"
  shows "list_all campaign_fine (fst (campaign_cycles ids mode count i k n))
    \<and> length (fst (campaign_cycles ids mode count i k n))
        = k * nat count + length (filter (\<lambda>j. j mod 3 = 0) [i..<i + k]) * replays_of count
    \<and> count_if cpr_is_replay (fst (campaign_cycles ids mode count i k n))
        = int (length (filter (\<lambda>j. j mod 3 = 0) [i..<i + k]) * replays_of count)"
proof (induction k arbitrary: i n)
  case (Suc k)
  have upt: "length (filter (\<lambda>j. j mod 3 = 0) [i..<Suc (i + k)])
      = (if i mod 3 = 0 then 1 else 0) + length (filter (\<lambda>j. j mod 3 = 0) [Suc i..<Suc (i + k)])"
    by (simp add: upt_conv_Cons del: upt_Suc)
  show ?case
    using cycle_records [of ids, OF assms] Suc.IH
    by (simp add: Let_def case_prod_beta upt algebra_simps del: upt_Suc count_if_zero)
qed simp

text \<open>Replays.\<close>

lemma replay_fine:
  "let r = fst (make_replay_record digest ids mode ty cfg src n)
   in rpr_governance_scope r = ''REPLAY_ONLY'' \<and> rpr_live_effects_produced r = 0 \<and> rpr_provider_dispatch_count r = 0
    \<and> rpr_replay_fingerprint r = compute_fingerprint digest (rpr_source_artifact_id r) (rpr_historical_config_version_id r)
        (rpr_execution_type r)"
  by (simp add: make_replay_record_def Let_def case_prod_beta)

lemma replays_certified:
  assumes "list_all (\<lambda>r. rpr_governance_scope r = ''REPLAY_ONLY'' \<and> rpr_live_effects_produced r = 0
     \<and> rpr_provider_dispatch_count r = 0 \<and> rpr_replay_fingerprint r = compute_fingerprint digest (rpr_source_artifact_id r)
        (rpr_historical_config_version_id r) (rpr_execution_type r)) rs"
  shows "rpc_certification_passed (certify_replays digest rs)"
proof -
  have "list_all (\<lambda>r. rpr_governance_scope r = ''REPLAY_ONLY'') rs"
    and zero: "list_all (\<lambda>r. rpr_live_effects_produced r = 0) rs" "list_all (\<lambda>r. rpr_provider_dispatch_count r = 0) rs"
    using assms by (auto simp: list_all_iff)
  from count_if_all [OF this(1)] sum_list_zero [OF zero(1)] sum_list_zero [OF zero(2)] assms zero show ?thesis
    by (auto simp: certify_replays_def verify_fingerprint_consistency_def Let_def list_all_iff)
qed

lemma replay_campaign_certified: "rpc_certification_passed (fst (fst (run_replay_campaign digest ids count mode cfg regen n)))"
proof -
  have "list_all (\<lambda>r. rpr_governance_scope r = ''REPLAY_ONLY'' \<and> rpr_live_effects_produced r = 0
     \<and> rpr_provider_dispatch_count r = 0 \<and> rpr_replay_fingerprint r = compute_fingerprint digest (rpr_source_artifact_id r)
        (rpr_historical_config_version_id r) (rpr_execution_type r))
     (fst (repeated k (make_replay_record digest ids mode ty c s) m))" for k ty c s m
    by (rule repeated_all) (use replay_fine in \<open>simp add: Let_def\<close>)
  then show ?thesis
    unfolding run_replay_campaign_def Let_def case_prod_beta fst_conv snd_conv
    by (intro replays_certified) (simp split: if_split)
qed

text \<open>Failures.\<close>

definition injected :: "degradation_record \<Rightarrow> bool" where
  "injected r \<longleftrightarrow> dgr_deterministic r \<and> dgr_attribution_preserved r \<and> dgr_live_effects_produced r = 0
     \<and> dgr_recovery_path_visible r"

lemma inject_known: "m \<in> set all_failure_modes \<Longrightarrow> \<exists>r n'. inject_failure ids m n = Inr (r, n') \<and> injected r"
  by (auto simp: inject_failure_def failure_map_def all_failure_modes_def injected_def)

lemma inject_all_known:
  "set ms \<subseteq> set all_failure_modes \<Longrightarrow> \<exists>rs n'. inject_all ids ms n = Inr (rs, n') \<and> list_all injected rs \<and> length rs = length ms"
proof (induction ms arbitrary: n)
  case (Cons m ms)
  then obtain r n1 where "inject_failure ids m n = Inr (r, n1)" "injected r" using inject_known by (metis list.set_intros(1) subsetD)
  moreover obtain rs n2 where "inject_all ids ms n1 = Inr (rs, n2)" "list_all injected rs" "length rs = length ms"
    using Cons.IH [of n1] Cons.prems by auto
  ultimately show ?case by (simp add: bind_res_def)
qed simp

lemma degradation_certified: "list_all injected rs \<Longrightarrow> dgc_certification_passed (certify_degradation ms rs)"
  by (simp add: certify_degradation_def Let_def) (simp add: count_if_all list_all_iff injected_def)

lemma degradation_campaign_certified:
  assumes "case modes of None \<Rightarrow> True | Some ms \<Rightarrow> set ms \<subseteq> set all_failure_modes"
  shows "\<exists>c rs n'. run_degradation_campaign ids modes k n = Inr ((c, rs), n') \<and> dgc_certification_passed c"
proof -
  let ?ms = "case modes of Some (m # ms) \<Rightarrow> m # ms | _ \<Rightarrow> all_failure_modes"
  have "set (concat (map (replicate (nat k)) ?ms)) \<subseteq> set all_failure_modes"
    using assms by (auto split: option.splits list.splits)
  from inject_all_known [OF this] obtain rs n' where
    "inject_all ids (concat (map (replicate (nat k)) ?ms)) n = Inr (rs, n')" "list_all injected rs" by blast
  with degradation_certified show ?thesis by (simp add: run_degradation_campaign_def Let_def bind_res_def)
qed

text \<open>
  A shadow campaign certifies whatever it is asked to do. For every mode, also an unknown or
  empty one, and all counts, also none, a full campaign reports CERTIFICATION_PASSED, passes the
  certifications of governance and attribution, suppresses every record, and produces per cycle its
  records and, in every third cycle from the first on, a tenth more replays, at least one; the
  replay campaign is certified too, and the degradation campaign for all known failure modes, even
  when nothing is injected. Nothing of the platform enters the result.
\<close>

theorem campaigns_certify_themselves:
  assumes "\<forall>n. ids n \<noteq> []"
    and "run_full_campaign ids cid cycles mode count n = ((metrics, records), n')"
    and "case modes of None \<Rightarrow> True | Some ms \<Rightarrow> set ms \<subseteq> set all_failure_modes"
  shows "opr_certification_outcome (generate_operator_report rid now c metrics (audit_campaign_records records) t)
        = ''CERTIFICATION_PASSED''
    \<and> gvc_certification_passed (run_governance_certification records)
    \<and> cpa_certification_passed (run_attribution_certification records)
    \<and> cpm_suppression_count metrics = cpm_orchestration_count metrics
    \<and> cpm_orchestration_count metrics = int (nat cycles * nat count) + cpm_replay_count metrics
    \<and> cpm_replay_count metrics = int (length (filter (\<lambda>j. j mod 3 = 0) [0..<nat cycles]) * nat (max 1 (count div 10)))
    \<and> rpc_certification_passed (fst (fst (run_replay_campaign digest ids count mode cfg regen n)))
    \<and> (\<exists>d rs n'. run_degradation_campaign ids modes k n = Inr ((d, rs), n') \<and> dgc_certification_passed d)"
proof -
  have ids: "\<And>n. ids n \<noteq> []" using assms(1) by blast
  obtain i where i: "metrics = compute_metrics i records"
    and records: "\<exists>m. records = fst (campaign_cycles ids mode count 0 (nat cycles) m)"
    using assms(2) by (auto simp: run_full_campaign_def Let_def case_prod_beta)
  then obtain m where m: "records = fst (campaign_cycles ids mode count 0 (nat cycles) m)" by blast
  from cycles_records [where ids = ids and mode = mode and count = count and i = 0 and k = "nat cycles" and n = m, OF ids]
  have fine: "list_all campaign_fine records"
    and len: "length records = nat cycles * nat count + length (filter (\<lambda>j. j mod 3 = 0) [0..<nat cycles]) * replays_of count"
    and rep: "count_if cpr_is_replay records = int (length (filter (\<lambda>j. j mod 3 = 0) [0..<nat cycles]) * replays_of count)"
    unfolding m by simp_all
  have replays: "cpm_replay_count metrics = count_if cpr_is_replay records"
    by (simp add: i compute_metrics_def Let_def metrics_fold new_metrics_def)
  note report = fine_report(1,5,6) [OF fine, where cid = i, folded i]
  show ?thesis
  proof (intro conjI)
    show "opr_certification_outcome (generate_operator_report rid now c metrics (audit_campaign_records records) t)
        = ''CERTIFICATION_PASSED''"
      using report(1) [where rid = rid and now = now and t = t] by (simp add: generate_operator_report_def Let_def)
    show "cpm_suppression_count metrics = cpm_orchestration_count metrics" by (simp only: report(2,3))
    show "cpm_orchestration_count metrics = int (nat cycles * nat count) + cpm_replay_count metrics"
      by (simp only: report(3) replays rep len of_nat_add)
    show "cpm_replay_count metrics = int (length (filter (\<lambda>j. j mod 3 = 0) [0..<nat cycles]) * nat (max 1 (count div 10)))"
      by (simp only: replays rep replays_of_def)
  qed (rule fine_report(2,3) [OF fine] replay_campaign_certified degradation_campaign_certified [OF assms(3)])+
qed

lemma campaigns_certify_themselves_witness:
  "opr_certification_outcome (generate_operator_report ''r'' ''t'' ''c''
      (fst (fst (run_full_campaign (\<lambda>n. ''id-'' @ show_nat n) None 3 ''NO_SUCH_MODE'' 0 0)))
      (audit_campaign_records (snd (fst (run_full_campaign (\<lambda>n. ''id-'' @ show_nat n) None 3 ''NO_SUCH_MODE'' 0 0)))) (Fin 0))
    = ''CERTIFICATION_PASSED''"
proof -
  have ids: "\<forall>n. (\<lambda>n. ''id-'' @ show_nat n) n \<noteq> []" by simp
  have run: "run_full_campaign (\<lambda>n. ''id-'' @ show_nat n) None 3 ''NO_SUCH_MODE'' 0 0
    = ((fst (fst (run_full_campaign (\<lambda>n. ''id-'' @ show_nat n) None 3 ''NO_SUCH_MODE'' 0 0)),
        snd (fst (run_full_campaign (\<lambda>n. ''id-'' @ show_nat n) None 3 ''NO_SUCH_MODE'' 0 0))),
       snd (run_full_campaign (\<lambda>n. ''id-'' @ show_nat n) None 3 ''NO_SUCH_MODE'' 0 0))" by simp
  have "case (None :: string list option) of None \<Rightarrow> True | Some ms \<Rightarrow> set ms \<subseteq> set all_failure_modes" by simp
  from campaigns_certify_themselves [OF ids run this] show ?thesis by blast
qed

definition sample_campaign_record :: campaign_record where
  "sample_campaign_record = fst (make_campaign_record (\<lambda>n. ''id-'' @ show_nat n) ''c'' record_defaults 0)"

lemma campaign_verdicts_witness:
  "aud_audit_passed (audit_campaign_records [sample_campaign_record\<lparr>cpr_rule_path := []\<rparr>])
   \<and> \<not> gvc_certification_passed (run_governance_certification [sample_campaign_record\<lparr>cpr_rule_path := []\<rparr>])"
proof -
  let ?r = "sample_campaign_record\<lparr>cpr_rule_path := []\<rparr>"
  have "campaign_fine sample_campaign_record"
    unfolding sample_campaign_record_def by (rule made_fine) (simp_all add: record_defaults_def)
  then have sample: "audited sample_campaign_record" by (simp add: campaign_fine_def)
  have "list_all (\<lambda>r. 0 \<le> cpr_provider_dispatch_count r \<and> 0 \<le> cpr_live_effects_produced r) [?r]"
    by (simp add: sample_campaign_record_def make_campaign_record_def Let_def case_prod_beta)
  note verdicts = campaign_verdicts [OF this, unfolded list.pred_inject simp_thms]
  have "audited ?r \<and> \<not> governed ?r" using sample conjunct1 [OF conjunct2 [OF conjunct2 [OF verdicts]]] by metis
  then show ?thesis using conjunct1 [OF verdicts] conjunct1 [OF conjunct2 [OF verdicts]]
    by (simp only: list.pred_inject simp_thms)
qed

end
