(* ===== verification/MessageSync.thy ===== *)
theory MessageSync
  imports Warehouse
begin

text \<open>
  The synchronization of provider messages, \<^verbatim>\<open>services/ghl_sync.py\<close>: the lookup of a contact
  by phone, its conversation and messages, and the upsert into the table of messages. The answers of
  the provider are a function of the request; the text of compound values, the parsing of
  timestamps and what the database accepts are parameters. Log lines are left out.
\<close>

section \<open>Values of the provider\<close>

fun json_truthy :: "json \<Rightarrow> bool" where
  "json_truthy (JCell c) = cell_truthy c"
| "json_truthy (JList js) = (js \<noteq> [])"
| "json_truthy (JObj kvs) = (kvs \<noteq> [])"

abbreviation JNull :: json where "JNull \<equiv> JCell CNull"

abbreviation jtext :: "string \<Rightarrow> json" where "jtext s \<equiv> JCell (CText s)"

abbreviation jint :: "int \<Rightarrow> json" where "jint n \<equiv> JCell (CInt n)"

definition json_or :: "json \<Rightarrow> json \<Rightarrow> json" where
  "json_or a b = (if json_truthy a then a else b)"

text \<open>\<^verbatim>\<open>v.get(k, d)\<close>: only objects have the method.\<close>

fun obj_get :: "json \<Rightarrow> string \<Rightarrow> json \<Rightarrow> json call_res" where
  "obj_get (JObj kvs) k d = Inr (case map_of kvs k of None \<Rightarrow> d | Some v \<Rightarrow> v)"
| "obj_get _ k d = Inl AttributeError"

text \<open>\<^verbatim>\<open>v[0]\<close> of a value that is not empty\<close>

fun first_of :: "json \<Rightarrow> json call_res" where
  "first_of (JList (x # xs)) = Inr x"
| "first_of (JObj kvs) = Inl (Py KeyError)"
| "first_of (JCell (CText (c # s))) = Inr (jtext [c])"
| "first_of _ = Inl (Py TypeError)"

text \<open>A request and its answer: a response with its body, when that is JSON, and its text, or a failure.\<close>

datatype ghl_request = ContactLookup string | ConversationSearch json | MessagesFetch json

datatype ghl_answer = Received int "json option" string | NetworkError string

record ghl_message =
  gm_ghl_message_id :: string
  gm_user_id :: int
  gm_direction :: string
  gm_channel :: string
  gm_body :: json
  gm_status :: string
  gm_ghl_created_at :: "int option"
  gm_synced_at :: int

record message_env =
  ge_api_key :: string
  ge_shadow :: bool
  ge_http :: "ghl_request \<Rightarrow> ghl_answer"
  ge_str :: "json \<Rightarrow> string"
  ge_fromiso :: "string \<Rightarrow> int option"
  ge_iso :: "int \<Rightarrow> string"
  ge_accepts :: "ghl_message \<Rightarrow> bool"
  ge_now :: int

text \<open>\<^verbatim>\<open>str(v)\<close>\<close>

definition json_str :: "message_env \<Rightarrow> json \<Rightarrow> string" where
  "json_str env v =
    (case v of
       JCell (CText s) \<Rightarrow> s
     | JCell (CInt n) \<Rightarrow> show_int n
     | JCell (CBool b) \<Rightarrow> (if b then ''True'' else ''False'')
     | JCell CNull \<Rightarrow> ''None''
     | _ \<Rightarrow> ge_str env v)"

section \<open>Helpers\<close>

definition channel_type_map :: "(string \<times> string) list" where
  "channel_type_map = [(''1'', ''SMS''), (''2'', ''EMAIL''), (''3'', ''CALL''), (''4'', ''WHATSAPP''),
     (''TYPE_SMS'', ''SMS''), (''TYPE_EMAIL'', ''EMAIL''), (''TYPE_CALL'', ''CALL''), (''TYPE_WHATSAPP'', ''WHATSAPP'')]"

definition phone_digit :: "char \<Rightarrow> bool" where
  "phone_digit c \<longleftrightarrow> 48 \<le> (of_char c :: nat) \<and> (of_char c :: nat) \<le> 57"

definition normalize_phone :: "string \<Rightarrow> string" where
  "normalize_phone raw =
    (let digits = filter phone_digit raw
     in ''+'' @ (if length digits = 10 then ''1'' @ digits else digits))"

text \<open>The parser of timestamps; whatever is not a text, or not one it reads, counts as missing.\<close>

definition parse_ts :: "message_env \<Rightarrow> json \<Rightarrow> int option" where
  "parse_ts env raw =
    (if \<not> json_truthy raw then None
     else case raw of
        JCell (CText s) \<Rightarrow> ge_fromiso env (concat (map (\<lambda>c. if c = CHR ''Z'' then ''+00:00'' else [c]) s))
      | _ \<Rightarrow> None)"

text \<open>The body or the text of the error; a body that is not JSON raises.\<close>

definition ghl_get :: "message_env \<Rightarrow> ghl_request \<Rightarrow> (json option \<times> string option) call_res" where
  "ghl_get env req =
    (case ge_http env req of
       Received status body text \<Rightarrow>
         (if status < 200 \<or> 300 \<le> status then Inr (None, Some (''HTTP '' @ show_int status @ '': '' @ take 200 text))
          else case body of None \<Rightarrow> Inl (Py ValueError) | Some j \<Rightarrow> Inr (Some j, None))
     | NetworkError msg \<Rightarrow> Inr (None, Some msg))"

text \<open>\<^verbatim>\<open>(data or {}).get(k, [])\<close>\<close>

definition data_get :: "json option \<Rightarrow> string \<Rightarrow> json call_res" where
  "data_get data k =
    (case data of
       None \<Rightarrow> Inr (JList [])
     | Some j \<Rightarrow> (if json_truthy j then obj_get j k (JList []) else Inr (JList [])))"

text \<open>The identifier of the first entry of a list, \<open>JNull\<close> when there is none.\<close>

definition first_id :: "json \<Rightarrow> json call_res" where
  "first_id v =
    (if \<not> json_truthy v then Inr JNull
     else bind_call (first_of v) (\<lambda>x. obj_get x ''id'' JNull))"

definition lookup_contact_by_phone :: "message_env \<Rightarrow> string \<Rightarrow> (json \<times> string option) call_res" where
  "lookup_contact_by_phone env phone_e164 =
     bind_call (ghl_get env (ContactLookup phone_e164)) (\<lambda>(data, err).
       if given err then Inr (JNull, err)
       else bind_call (data_get data ''contacts'') (\<lambda>contacts.
            bind_call (first_id contacts) (\<lambda>contact_id. Inr (contact_id, None))))"

definition get_conversation_id :: "message_env \<Rightarrow> json \<Rightarrow> (json \<times> string option) call_res" where
  "get_conversation_id env contact_id =
     bind_call (ghl_get env (ConversationSearch contact_id)) (\<lambda>(data, err).
       if given err then Inr (JNull, err)
       else bind_call (data_get data ''conversations'') (\<lambda>conversations.
            bind_call (first_id conversations) (\<lambda>conv_id. Inr (conv_id, None))))"

definition fetch_messages :: "message_env \<Rightarrow> json \<Rightarrow> (json \<times> string option) call_res" where
  "fetch_messages env conv_id =
     bind_call (ghl_get env (MessagesFetch conv_id)) (\<lambda>(data, err).
       if given err then Inr (JList [], err)
       else bind_call (data_get data ''messages'') (\<lambda>messages. Inr (messages, None)))"

section \<open>Persistence\<close>

text \<open>\<^verbatim>\<open>msg.get(k) or msg.get(k')\<close>\<close>

definition get_or :: "json \<Rightarrow> string \<Rightarrow> string \<Rightarrow> json call_res" where
  "get_or m k k' = bind_call (obj_get m k JNull) (\<lambda>a. bind_call (obj_get m k' JNull) (\<lambda>b. Inr (json_or a b)))"

definition message_direction :: "message_env \<Rightarrow> json \<Rightarrow> string" where
  "message_direction env raw_dir =
    (if lower (json_str env raw_dir) \<in> {''outbound'', ''1''} then ''OUTBOUND'' else ''INBOUND'')"

definition message_channel :: "message_env \<Rightarrow> json \<Rightarrow> string" where
  "message_channel env ty = (case map_of channel_type_map (json_str env ty) of None \<Rightarrow> ''UNKNOWN'' | Some c \<Rightarrow> c)"

text \<open>\<^verbatim>\<open>v[:2000]\<close>\<close>

fun sliced :: "json \<Rightarrow> json call_res" where
  "sliced (JCell (CText s)) = Inr (jtext (take 2000 s))"
| "sliced (JList js) = Inr (JList (take 2000 js))"
| "sliced _ = Inl (Py TypeError)"

definition message_row :: "message_env \<Rightarrow> int \<Rightarrow> json \<Rightarrow> json \<Rightarrow> ghl_message call_res" where
  "message_row env user_id ghl_id msg =
     bind_call (obj_get msg ''direction'' (jtext [])) (\<lambda>raw_dir.
     bind_call (obj_get msg ''type'' (jtext [])) (\<lambda>ty.
     bind_call (get_or msg ''dateAdded'' ''createdAt'') (\<lambda>added.
     bind_call (get_or msg ''body'' ''message'') (\<lambda>body.
     bind_call (sliced (json_or body (jtext []))) (\<lambda>text.
     bind_call (obj_get msg ''status'' JNull) (\<lambda>status.
       Inr \<lparr>gm_ghl_message_id = json_str env ghl_id, gm_user_id = user_id, gm_direction = message_direction env raw_dir,
            gm_channel = message_channel env ty, gm_body = text,
            gm_status = json_str env (json_or status (jtext ''unknown'')), gm_ghl_created_at = parse_ts env added,
            gm_synced_at = ge_now env\<rparr>))))))"

text \<open>A row that was added reaches the database before the next query, or with the commit.\<close>

definition stored :: "ghl_message list \<Rightarrow> string \<Rightarrow> bool" where
  "stored rows k \<longleftrightarrow> k \<in> gm_ghl_message_id ` set rows"

definition flush_message :: "message_env \<Rightarrow> ghl_message list \<Rightarrow> ghl_message option \<Rightarrow> ghl_message list call_res" where
  "flush_message env rows pending =
    (case pending of
       None \<Rightarrow> Inr rows
     | Some r \<Rightarrow> (if ge_accepts env r \<and> \<not> stored rows (gm_ghl_message_id r) then Inr (rows @ [r]) else Inl DatabaseError))"

fun upsert_loop ::
  "message_env \<Rightarrow> int \<Rightarrow> json list \<Rightarrow> ghl_message list \<Rightarrow> ghl_message option \<Rightarrow> int \<Rightarrow> (ghl_message list \<times> int) call_res" where
  "upsert_loop env user_id [] rows pending synced =
     bind_call (flush_message env rows pending) (\<lambda>rows. Inr (rows, synced))"
| "upsert_loop env user_id (msg # msgs) rows pending synced =
     bind_call (get_or msg ''id'' ''messageId'') (\<lambda>ghl_id.
       if \<not> json_truthy ghl_id then upsert_loop env user_id msgs rows pending synced
       else bind_call (flush_message env rows pending) (\<lambda>rows.
         if stored rows (json_str env ghl_id) then upsert_loop env user_id msgs rows None synced
         else bind_call (message_row env user_id ghl_id msg) (\<lambda>r.
              upsert_loop env user_id msgs rows (Some r) (synced + 1))))"

text \<open>What a loop over a value visits, and its length.\<close>

fun iterated :: "json \<Rightarrow> json list call_res" where
  "iterated (JList js) = Inr js"
| "iterated (JObj kvs) = Inr (map (jtext \<circ> fst) kvs)"
| "iterated (JCell (CText s)) = Inr (map (\<lambda>c. jtext [c]) s)"
| "iterated (JCell _) = Inl (Py TypeError)"

text \<open>An exception leaves the table as it was: nothing has been committed.\<close>

definition upsert_messages :: "message_env \<Rightarrow> json \<Rightarrow> int \<Rightarrow> ghl_message list \<Rightarrow> (int \<times> int) call_res \<times> ghl_message list" where
  "upsert_messages env messages user_id rows =
    (case bind_call (iterated messages) (\<lambda>msgs.
            bind_call (upsert_loop env user_id msgs rows None 0) (\<lambda>(rows', n). Inr (rows', n, int (length msgs)))) of
       Inl e \<Rightarrow> (Inl e, rows)
     | Inr (rows', n, len) \<Rightarrow> (Inr (n, len), rows'))"

section \<open>Public functions\<close>

type_synonym sync_result = "(string \<times> json) list"

definition failed_step :: "string option \<Rightarrow> string \<Rightarrow> sync_result" where
  "failed_step err step = [(''status'', jtext ''error''), (''error'', jtext (the err)), (''step'', jtext step),
     (''synced'', jint 0), (''total_ghl'', jint 0)]"

definition resolve_conversation ::
  "message_env \<Rightarrow> string \<Rightarrow> (sync_result + json \<times> json) call_res" where
  "resolve_conversation env phone_e164 =
     bind_call (lookup_contact_by_phone env phone_e164) (\<lambda>(contact_id, err).
       if given err then Inr (Inl (failed_step err ''contact_lookup''))
       else if \<not> json_truthy contact_id then
         Inr (Inl [(''status'', jtext ''not_found''), (''message'', jtext (''No GHL contact for phone '' @ phone_e164)),
              (''synced'', jint 0), (''total_ghl'', jint 0)])
       else bind_call (get_conversation_id env contact_id) (\<lambda>(conv_id, err).
         if given err then Inr (Inl (failed_step err ''conversation_search''))
         else if \<not> json_truthy conv_id then
           Inr (Inl [(''status'', jtext ''no_conversation''), (''contact_id'', contact_id), (''synced'', jint 0),
                (''total_ghl'', jint 0)])
         else Inr (Inr (contact_id, conv_id))))"

definition sync_by_phone ::
  "message_env \<Rightarrow> int \<Rightarrow> string \<Rightarrow> ghl_message list \<Rightarrow> sync_result call_res \<times> ghl_message list" where
  "sync_by_phone env user_id phone rows =
    (if ge_api_key env = [] then
       (Inr [(''status'', jtext ''not_configured''), (''synced'', jint 0), (''total_ghl'', jint 0), (''phone'', jtext phone)], rows)
     else if strip phone = [] then
       (Inr [(''status'', jtext ''no_phone''), (''synced'', jint 0), (''total_ghl'', jint 0), (''phone'', JNull)], rows)
     else
       let phone_e164 = normalize_phone (strip phone)
       in case resolve_conversation env phone_e164 of
            Inl e \<Rightarrow> (Inl e, rows)
          | Inr (Inl r) \<Rightarrow> (Inr r, rows)
          | Inr (Inr (contact_id, conv_id)) \<Rightarrow>
              (case fetch_messages env conv_id of
                 Inl e \<Rightarrow> (Inl e, rows)
               | Inr (messages, err) \<Rightarrow>
                   if given err then (Inr (failed_step err ''messages_fetch''), rows)
                   else case upsert_messages env messages user_id rows of
                      (Inl e, rows') \<Rightarrow> (Inl e, rows')
                    | (Inr (synced, len), rows') \<Rightarrow>
                        (Inr [(''status'', jtext ''success''), (''phone_e164'', jtext phone_e164), (''contact_id'', contact_id),
                           (''conversation_id'', conv_id), (''synced'', jint synced), (''total_ghl'', jint len),
                           (''already_stored'', jint (len - synced))], rows')))"

text \<open>A student of the mirror: the identifier and the phone number.\<close>

type_synonym phone_book = "(int \<times> string option) list"

definition sync_student_by_user_id ::
  "message_env \<Rightarrow> phone_book \<Rightarrow> int \<Rightarrow> ghl_message list \<Rightarrow> sync_result call_res \<times> ghl_message list" where
  "sync_student_by_user_id env book user_id rows =
    (case map_of book user_id of
       None \<Rightarrow> (Inr [(''status'', jtext ''error''),
                 (''error'', jtext (''Student '' @ show_int user_id @ '' not in local mirror. Run SQL Server sync first.''))], rows)
     | Some phone \<Rightarrow>
         if \<not> given phone then
           (Inr [(''status'', jtext ''no_phone''),
              (''error'', jtext (''Student '' @ show_int user_id @ '' has no PhoneNumber in the mirror.''))], rows)
         else sync_by_phone env user_id (the phone) rows)"

definition synced_of :: "sync_result \<Rightarrow> int" where
  "synced_of r = (case map_of r ''synced'' of Some (JCell (CInt n)) \<Rightarrow> n | _ \<Rightarrow> 0)"

fun sync_loop ::
  "message_env \<Rightarrow> (int \<times> string) list \<Rightarrow> ghl_message list \<Rightarrow> (int \<times> json list) call_res \<times> ghl_message list" where
  "sync_loop env [] rows = (Inr (0, []), rows)"
| "sync_loop env ((user_id, phone) # students) rows =
    (case sync_by_phone env user_id phone rows of
       (Inl e, rows1) \<Rightarrow> (Inl e, rows1)
     | (Inr r, rows1) \<Rightarrow>
         (case sync_loop env students rows1 of
            (Inl e, rows2) \<Rightarrow> (Inl e, rows2)
          | (Inr (n, rs), rows2) \<Rightarrow> (Inr (synced_of r + n, JObj ((''user_id'', jint user_id) # r) # rs), rows2)))"

definition students_with_phone :: "phone_book \<Rightarrow> nat \<Rightarrow> (int \<times> string) list" where
  "students_with_phone book limit = take limit (map (map_prod id the) (filter (\<lambda>(u, p). p \<noteq> None) book))"

definition sync_all_students ::
  "message_env \<Rightarrow> phone_book \<Rightarrow> nat \<Rightarrow> ghl_message list \<Rightarrow> sync_result call_res \<times> ghl_message list" where
  "sync_all_students env book limit rows =
    (if ge_api_key env = [] then
       (Inr [(''status'', jtext ''not_configured''), (''total_synced'', jint 0), (''students_processed'', jint 0)], rows)
     else let students = students_with_phone book limit
          in case sync_loop env students rows of
               (Inl e, rows') \<Rightarrow> (Inl e, rows')
             | (Inr (n, results), rows') \<Rightarrow>
                 (Inr [(''status'', jtext ''success''), (''students_processed'', jint (int (length students))),
                    (''total_synced'', jint n), (''results'', JList results)], rows'))"

definition get_sync_status :: "message_env \<Rightarrow> ghl_message list \<Rightarrow> sync_result" where
  "get_sync_status env rows =
    [(''ghl_configured'', JCell (CBool (ge_api_key env \<noteq> []))), (''total_messages_stored'', jint (int (length rows))),
     (''latest_sync_at'', if rows = [] then JNull else jtext (ge_iso env (Max (gm_synced_at ` set rows)))),
     (''shadow_mode'', JCell (CBool (ge_shadow env))),
     (''note'', jtext ''GHL reads always permitted (read-only). Writes gated by SHADOW mode.'')]"

end
