(* ===== verification/MessageSyncProps.thy ===== *)
theory MessageSyncProps
  imports MessageSync
begin

text \<open>
  Properties of the message synchronization: phone numbers have a normal form, a repeated
  synchronization stores nothing, and failures without a text are not reported as failures.
\<close>

section \<open>Phone numbers\<close>

lemma normalized_digits:
  "filter phone_digit (normalize_phone raw) =
    (if length (filter phone_digit raw) = 10 then ''1'' @ filter phone_digit raw else filter phone_digit raw)"
  by (simp add: normalize_phone_def Let_def phone_digit_def)

lemma normalize_phone_idem: "normalize_phone (normalize_phone raw) = normalize_phone raw"
  using normalized_digits [of raw] by (simp add: normalize_phone_def Let_def)

section \<open>The upsert\<close>

definition messages_distinct :: "ghl_message list \<Rightarrow> bool" where
  "messages_distinct rows \<longleftrightarrow> distinct (map gm_ghl_message_id rows)"

lemma flush_cases:
  assumes "flush_message env rows pending = Inr rows'" and "messages_distinct rows"
  shows "messages_distinct rows' \<and> rows' = rows @ (case pending of None \<Rightarrow> [] | Some r \<Rightarrow> [r])"
  using assms by (auto simp: flush_message_def messages_distinct_def stored_def split: option.splits if_splits)

lemma row_id: "message_row env u ghl_id msg = Inr r \<Longrightarrow> gm_ghl_message_id r = json_str env ghl_id \<and> gm_user_id r = u \<and> gm_synced_at r = ge_now env"
  by (auto simp: message_row_def bind_call_Inr)

text \<open>The rows a loop ends with: those it started from, the pending one, and one for every addition.\<close>

lemma upsert_loop_rows:
  assumes "upsert_loop env u msgs rows pending n = Inr (rows', n')" and "messages_distinct rows"
  shows "messages_distinct rows' \<and> (\<exists>new. rows' = rows @ (case pending of None \<Rightarrow> [] | Some r \<Rightarrow> [r]) @ new
     \<and> int (length new) = n' - n \<and> (\<forall>r \<in> set new. gm_user_id r = u \<and> gm_synced_at r = ge_now env))"
  using assms
proof (induction msgs arbitrary: rows pending n)
  case Nil
  then show ?case using flush_cases [of env rows pending rows'] by (auto simp: bind_call_Inr)
next
  case (Cons msg msgs)
  let ?p = "case pending of None \<Rightarrow> [] | Some r \<Rightarrow> [r]"
  obtain ghl_id where id: "get_or msg ''id'' ''messageId'' = Inr ghl_id" using Cons.prems(1) by (auto simp: bind_call_Inr)
  show ?case
  proof (cases "json_truthy ghl_id")
    case False
    with Cons.prems id show ?thesis by (intro Cons.IH) simp_all
  next
    case True
    then obtain rows1 where fl: "flush_message env rows pending = Inr rows1" using Cons.prems(1) id by (auto simp: bind_call_Inr)
    note rows1 = flush_cases [OF fl Cons.prems(2)]
    show ?thesis
    proof (cases "stored rows1 (json_str env ghl_id)")
      case stored: True
      then have "upsert_loop env u msgs rows1 None n = Inr (rows', n')" using Cons.prems(1) id True fl by simp
      from Cons.IH [OF this conjunct1 [OF rows1]] show ?thesis unfolding conjunct2 [OF rows1] by simp
    next
      case new: False
      then obtain r where r: "message_row env u ghl_id msg = Inr r" "upsert_loop env u msgs rows1 (Some r) (n + 1) = Inr (rows', n')"
        using Cons.prems(1) id True fl by (auto simp: bind_call_Inr)
      from Cons.IH [OF r(2)] rows1 obtain extra where extra: "messages_distinct rows'" "rows' = rows1 @ [r] @ extra"
        "int (length extra) = n' - (n + 1)" "\<forall>r \<in> set extra. gm_user_id r = u \<and> gm_synced_at r = ge_now env" by auto
      show ?thesis
        using extra rows1 row_id [OF r(1)] by (intro conjI exI [of _ "r # extra"]) simp_all
    qed
  qed
qed

text \<open>Every message with an identifier is stored in the end.\<close>

lemma stored_append: "stored rows k \<Longrightarrow> stored (rows @ extra) k"
  by (auto simp: stored_def)

lemma upsert_loop_stored:
  assumes "upsert_loop env u msgs rows pending n = Inr (rows', n')" and "messages_distinct rows"
    and "msg \<in> set msgs" and "get_or msg ''id'' ''messageId'' = Inr k" and "json_truthy k"
  shows "stored rows' (json_str env k)"
  using assms(1-3)
proof (induction msgs arbitrary: rows pending n)
  case (Cons m msgs)
  obtain ghl_id where id: "get_or m ''id'' ''messageId'' = Inr ghl_id" using Cons.prems(1) by (auto simp: bind_call_Inr)
  show ?case
  proof (cases "json_truthy ghl_id")
    case False
    with id assms(4,5) have "m \<noteq> msg" by auto
    with False Cons.prems id show ?thesis by (intro Cons.IH) auto
  next
    case True
    then obtain rows1 where fl: "flush_message env rows pending = Inr rows1" using Cons.prems(1) id by (auto simp: bind_call_Inr)
    note rows1 = flush_cases [OF fl Cons.prems(2)]
    obtain p n1 where rest: "upsert_loop env u msgs rows1 p n1 = Inr (rows', n')"
      and mine: "stored rows1 (json_str env ghl_id) \<or> (\<exists>r. p = Some r \<and> gm_ghl_message_id r = json_str env ghl_id)"
      using Cons.prems(1) id True fl row_id by (auto simp: bind_call_Inr split: if_splits)
    show ?thesis
    proof (cases "m = msg")
      case True
      then have "ghl_id = k" using id assms(4) by simp
      then show ?thesis using upsert_loop_rows [OF rest] rows1 mine by (auto simp: stored_def)
    next
      case False
      then have "msg \<in> set msgs" using Cons.prems(3) by auto
      with Cons.IH [OF rest conjunct1 [OF rows1]] show ?thesis by blast
    qed
  qed
qed simp

text \<open>A loop over messages that are all stored changes nothing.\<close>

lemma upsert_loop_settled:
  assumes "\<And>msg. msg \<in> set msgs \<Longrightarrow> \<exists>k. get_or msg ''id'' ''messageId'' = Inr k \<and> (json_truthy k \<longrightarrow> stored rows (json_str env k))"
  shows "upsert_loop env u msgs rows None n = Inr (rows, n)"
  using assms
proof (induction msgs)
  case (Cons m msgs)
  obtain k where k: "get_or m ''id'' ''messageId'' = Inr k" "json_truthy k \<longrightarrow> stored rows (json_str env k)"
    using Cons.prems by auto
  with Cons show ?case by (simp add: flush_message_def)
qed (simp add: flush_message_def)

lemma upsert_loop_readable:
  assumes "upsert_loop env u msgs rows pending n = Inr (rows', n')" and "msg \<in> set msgs"
  shows "\<exists>k. get_or msg ''id'' ''messageId'' = Inr k"
  using assms
proof (induction msgs arbitrary: rows pending n)
  case (Cons m msgs)
  then obtain k where k: "get_or m ''id'' ''messageId'' = Inr k" by (auto simp: bind_call_Inr)
  with Cons.prems(1) obtain rows1 p n1 where "upsert_loop env u msgs rows1 p n1 = Inr (rows', n')"
    by (auto simp: bind_call_Inr split: if_splits)
  from Cons.IH [OF this] k Cons.prems(2) show ?case by auto
qed simp

text \<open>The upsert with other parameters of the clock: same answers, same reading of identifiers.\<close>

lemma upsert_again:
  assumes "upsert_messages env messages u rows = (Inr (n, len), rows')" and "messages_distinct rows"
    and "ge_str env' = ge_str env"
  shows "upsert_messages env' messages u' rows' = (Inr (0, len), rows')"
proof -
  obtain msgs where msgs: "iterated messages = Inr msgs" "upsert_loop env u msgs rows None 0 = Inr (rows', n)" "len = int (length msgs)"
    using assms(1) by (auto simp: upsert_messages_def bind_call_Inr split: sum.splits)
  have str: "json_str env' k = json_str env k" for k using assms(3) by (simp add: json_str_def split: json.split cell.split)
  have "upsert_loop env' u' msgs rows' None 0 = Inr (rows', 0)"
  proof (rule upsert_loop_settled)
    fix msg assume m: "msg \<in> set msgs"
    from upsert_loop_readable [OF msgs(2) m] obtain k where "get_or msg ''id'' ''messageId'' = Inr k" by blast
    with upsert_loop_stored [OF msgs(2) assms(2) m] str
    show "\<exists>k. get_or msg ''id'' ''messageId'' = Inr k \<and> (json_truthy k \<longrightarrow> stored rows' (json_str env' k))" by auto
  qed
  with msgs(1,3) show ?thesis by (simp add: upsert_messages_def)
qed

section \<open>Synchronization of a student\<close>

text \<open>A run that reaches the messages.\<close>

lemma sync_success:
  assumes "sync_by_phone env u phone rows = (Inr r, rows')" and "rows' \<noteq> rows \<or> map_of r ''status'' = Some (jtext ''success'')"
  obtains contact conv messages err n len where "ge_api_key env \<noteq> []" "strip phone \<noteq> []"
    "resolve_conversation env (normalize_phone (strip phone)) = Inr (Inr (contact, conv))"
    "fetch_messages env conv = Inr (messages, err)" "\<not> given err" "upsert_messages env messages u rows = (Inr (n, len), rows')"
    "r = [(''status'', jtext ''success''), (''phone_e164'', jtext (normalize_phone (strip phone))), (''contact_id'', contact),
       (''conversation_id'', conv), (''synced'', jint n), (''total_ghl'', jint len), (''already_stored'', jint (len - n))]"
proof -
  have no_failure: "map_of (failed_step err step) ''status'' \<noteq> Some (jtext ''success'')" for err step
    by (simp add: failed_step_def)
  have inner: "map_of q ''status'' \<noteq> Some (jtext ''success'')"
    if "resolve_conversation env p = Inr (Inl q)" for p q
    using that no_failure by (auto simp: resolve_conversation_def bind_call_Inr split: if_splits)
  show thesis
    using assms that no_failure inner
    by (auto simp: sync_by_phone_def Let_def split: if_splits sum.splits prod.splits)
qed

text \<open>The provider's answers do not depend on the clock or on the database.\<close>

lemma provider_answers:
  fixes env :: message_env
  defines "env' \<equiv> \<lambda>now accepts. env\<lparr>ge_now := now, ge_accepts := accepts\<rparr>"
  shows "resolve_conversation (env' now accepts) p = resolve_conversation env p"
    and "fetch_messages (env' now accepts) c = fetch_messages env c"
proof -
  have get: "ghl_get (env' now accepts) = ghl_get env" by (simp add: fun_eq_iff ghl_get_def env'_def)
  have conv: "get_conversation_id (env' now accepts) = get_conversation_id env"
    by (simp add: fun_eq_iff get_conversation_id_def get)
  show "resolve_conversation (env' now accepts) p = resolve_conversation env p"
    unfolding resolve_conversation_def lookup_contact_by_phone_def get conv ..
  show "fetch_messages (env' now accepts) c = fetch_messages env c" by (simp add: fetch_messages_def get)
qed

text \<open>
  C31. Synchronizing the messages of a student keeps what is stored and never stores an identifier
  twice: the table grows at its end, by as many messages of the student as the result reports, with
  distinct identifiers. With the same answers of the provider a second run, whatever its clock,
  stores nothing and reports the rest as already stored, also messages without an identifier, which
  are never stored. An exception leaves the table as it was.
\<close>

theorem message_sync_repeatable:
  assumes "messages_distinct rows"
  shows "case sync_by_phone env u phone rows of
      (Inl e, rows') \<Rightarrow> rows' = rows
    | (Inr r, rows') \<Rightarrow> messages_distinct rows'
        \<and> (\<exists>new. rows' = rows @ new \<and> int (length new) = synced_of r \<and> (\<forall>x \<in> set new. gm_user_id x = u))
        \<and> (\<forall>now accepts. map_of r ''status'' = Some (jtext ''success'')
             \<longrightarrow> (\<exists>r'. sync_by_phone (env\<lparr>ge_now := now, ge_accepts := accepts\<rparr>) u phone rows' = (Inr r', rows')
                 \<and> synced_of r' = 0 \<and> map_of r' ''already_stored'' = map_of r' ''total_ghl''))"
proof (cases "sync_by_phone env u phone rows")
  case (Pair res rows')
  show ?thesis
  proof (cases res)
    case (Inl e)
    have "rows' = rows"
      using Pair Inl by (auto simp: sync_by_phone_def upsert_messages_def Let_def split: if_splits sum.splits prod.splits)
    with Pair Inl show ?thesis by simp
  next
    case (Inr r)
    have run: "sync_by_phone env u phone rows = (Inr r, rows')" using Pair Inr by simp
    show ?thesis
    proof (cases "rows' \<noteq> rows \<or> map_of r ''status'' = Some (jtext ''success'')")
      case True
      from sync_success [OF run True] obtain contact conv messages err n len where s:
        "ge_api_key env \<noteq> []" "strip phone \<noteq> []"
        "resolve_conversation env (normalize_phone (strip phone)) = Inr (Inr (contact, conv))"
        "fetch_messages env conv = Inr (messages, err)" "\<not> given err" "upsert_messages env messages u rows = (Inr (n, len), rows')"
        "r = [(''status'', jtext ''success''), (''phone_e164'', jtext (normalize_phone (strip phone))), (''contact_id'', contact),
           (''conversation_id'', conv), (''synced'', jint n), (''total_ghl'', jint len), (''already_stored'', jint (len - n))]"
        by metis
      obtain msgs where "upsert_loop env u msgs rows None 0 = Inr (rows', n)"
        using s(6) by (auto simp: upsert_messages_def bind_call_Inr split: sum.splits)
      from upsert_loop_rows [OF this assms] obtain new where new: "messages_distinct rows'" "rows' = rows @ new"
        "int (length new) = n" "\<forall>x \<in> set new. gm_user_id x = u" by auto
      have again: "\<exists>r'. sync_by_phone (env\<lparr>ge_now := now, ge_accepts := accepts\<rparr>) u phone rows' = (Inr r', rows')
          \<and> synced_of r' = 0 \<and> map_of r' ''already_stored'' = map_of r' ''total_ghl''" for now accepts
      proof -
        let ?env = "env\<lparr>ge_now := now, ge_accepts := accepts\<rparr>"
        have again: "upsert_messages ?env messages u rows' = (Inr (0, len), rows')"
          by (rule upsert_again [OF s(6) assms]) simp
        then show ?thesis
          using s(1-5) by (simp add: sync_by_phone_def Let_def synced_of_def provider_answers)
      qed
      have "synced_of r = n" by (simp add: s(7) synced_of_def)
      with Pair Inr new again show ?thesis by auto
    next
      case False
      then have "rows' = rows" "map_of r ''status'' \<noteq> Some (jtext ''success'')" by auto
      moreover have "synced_of r = 0"
        using run False by (auto simp: sync_by_phone_def resolve_conversation_def failed_step_def synced_of_def Let_def
            bind_call_Inr split: if_splits sum.splits prod.splits)
      ultimately show ?thesis using Pair Inr assms by simp
    qed
  qed
qed

text \<open>A student with a contact, a conversation and three messages: one stored, one new, one without identifier.\<close>

definition answering :: "ghl_answer \<Rightarrow> ghl_answer \<Rightarrow> ghl_answer \<Rightarrow> message_env" where
  "answering contacts conversations messages =
    \<lparr>ge_api_key = ''key'', ge_shadow = True,
     ge_http = (\<lambda>req. case req of ContactLookup _ \<Rightarrow> contacts | ConversationSearch _ \<Rightarrow> conversations | MessagesFetch _ \<Rightarrow> messages),
     ge_str = (\<lambda>_. ''?''), ge_fromiso = (\<lambda>_. None), ge_iso = (\<lambda>_. []), ge_accepts = (\<lambda>_. True), ge_now = 7\<rparr>"

definition one_entry :: "string \<Rightarrow> string \<Rightarrow> ghl_answer" where
  "one_entry k v = Received 200 (Some (JObj [(k, JList [JObj [(''id'', jtext v)]])])) []"

definition three_messages :: ghl_answer where
  "three_messages = Received 200 (Some (JObj [(''messages'', JList
     [JObj [(''id'', jtext ''m1'')], JObj [(''messageId'', jtext ''m2''), (''direction'', jint 1), (''type'', jtext ''TYPE_SMS'')],
      JObj [(''body'', jtext ''lost'')]])])) []"

definition stored_m1 :: ghl_message where
  "stored_m1 = \<lparr>gm_ghl_message_id = ''m1'', gm_user_id = 5, gm_direction = ''INBOUND'', gm_channel = ''UNKNOWN'', gm_body = jtext [],
     gm_status = ''unknown'', gm_ghl_created_at = None, gm_synced_at = 1\<rparr>"

lemma message_sync_repeatable_witness:
  "messages_distinct [stored_m1]
   \<and> (case sync_by_phone (answering (one_entry ''contacts'' ''c'') (one_entry ''conversations'' ''v'') three_messages) 5 ''555-123-4567'' [stored_m1] of
       (Inl e, rows') \<Rightarrow> False
     | (Inr r, rows') \<Rightarrow> messages_distinct rows' \<and> map gm_ghl_message_id rows' = [''m1'', ''m2''] \<and> synced_of r = 1
         \<and> map_of r ''already_stored'' = Some (jint 2) \<and> map_of r ''phone_e164'' = Some (jtext ''+15551234567''))"
proof -
  have d: "messages_distinct [stored_m1]" by (simp add: messages_distinct_def)
  have c: "case sync_by_phone (answering (one_entry ''contacts'' ''c'') (one_entry ''conversations'' ''v'') three_messages) 5 ''555-123-4567'' [stored_m1] of
       (Inl e, rows') \<Rightarrow> False
     | (Inr r, rows') \<Rightarrow> map gm_ghl_message_id rows' = [''m1'', ''m2''] \<and> synced_of r = 1
         \<and> map_of r ''already_stored'' = Some (jint 2) \<and> map_of r ''phone_e164'' = Some (jtext ''+15551234567'')"
    by code_simp
  from message_sync_repeatable [OF d, where env = "answering (one_entry ''contacts'' ''c'') (one_entry ''conversations'' ''v'') three_messages"
      and u = 5 and phone = "''555-123-4567''"] d c
  show ?thesis by (auto split: prod.splits sum.splits)
qed

section \<open>Failures without a text\<close>

definition with_answers :: "message_env \<Rightarrow> ghl_answer \<Rightarrow> ghl_answer \<Rightarrow> ghl_answer \<Rightarrow> message_env" where
  "with_answers env contacts conversations messages = env\<lparr>ge_http := (\<lambda>req. case req of
     ContactLookup _ \<Rightarrow> contacts | ConversationSearch _ \<Rightarrow> conversations | MessagesFetch _ \<Rightarrow> messages)\<rparr>"

text \<open>
  Whether a step of the synchronization failed is read off the text of the failure. With a text
  the result is an error that names the step; a failure of the transport whose text is empty (as a
  timeout can have) counts as an empty answer: at the lookup of the contact the student is reported
  as unknown to the provider, at the conversation as without one, and at the messages the
  synchronization is reported as a success with no messages. Whatever the answers are, a response
  outside of 200 to 299 is an error and nothing is stored.
\<close>

theorem textless_failures_hidden:
  assumes "ge_api_key env \<noteq> []" and "strip phone \<noteq> []" and "c \<noteq> []" and "v \<noteq> []" and "status < 200 \<or> 300 \<le> status"
  shows "sync_by_phone (with_answers env (NetworkError msg) conversations messages) u phone rows =
      (Inr (if msg \<noteq> [] then failed_step (Some msg) ''contact_lookup''
            else [(''status'', jtext ''not_found''), (''message'', jtext (''No GHL contact for phone '' @ normalize_phone (strip phone))),
              (''synced'', jint 0), (''total_ghl'', jint 0)]), rows)
    \<and> sync_by_phone (with_answers env (one_entry ''contacts'' c) (NetworkError msg) messages) u phone rows =
      (Inr (if msg \<noteq> [] then failed_step (Some msg) ''conversation_search''
            else [(''status'', jtext ''no_conversation''), (''contact_id'', jtext c), (''synced'', jint 0), (''total_ghl'', jint 0)]), rows)
    \<and> sync_by_phone (with_answers env (one_entry ''contacts'' c) (one_entry ''conversations'' v) (NetworkError msg)) u phone rows =
      (Inr (if msg \<noteq> [] then failed_step (Some msg) ''messages_fetch''
            else [(''status'', jtext ''success''), (''phone_e164'', jtext (normalize_phone (strip phone))), (''contact_id'', jtext c),
              (''conversation_id'', jtext v), (''synced'', jint 0), (''total_ghl'', jint 0), (''already_stored'', jint 0)]), rows)
    \<and> sync_by_phone (with_answers env (Received status body text) conversations messages) u phone rows =
      (Inr (failed_step (Some (''HTTP '' @ show_int status @ '': '' @ take 200 text)) ''contact_lookup''), rows)"
proof -
  note steps = sync_by_phone_def with_answers_def resolve_conversation_def lookup_contact_by_phone_def get_conversation_id_def
    fetch_messages_def ghl_get_def data_get_def first_id_def one_entry_def upsert_messages_def flush_message_def Let_def
  show ?thesis
    using assms by (intro conjI; cases msg; simp add: steps)
qed

lemma textless_failures_hidden_witness:
  "sync_by_phone (with_answers (answering three_messages three_messages three_messages) (one_entry ''contacts'' ''c'')
       (one_entry ''conversations'' ''v'') (NetworkError [])) 5 '' 5551234567'' [stored_m1] =
    (Inr [(''status'', jtext ''success''), (''phone_e164'', jtext ''+15551234567''), (''contact_id'', jtext ''c''),
       (''conversation_id'', jtext ''v''), (''synced'', jint 0), (''total_ghl'', jint 0), (''already_stored'', jint 0)], [stored_m1])"
proof -
  have "ge_api_key (answering three_messages three_messages three_messages) \<noteq> []" by (simp add: answering_def)
  moreover have "normalize_phone (strip '' 5551234567'') = ''+15551234567''" and "strip '' 5551234567'' \<noteq> []" by code_simp+
  ultimately show ?thesis
    using textless_failures_hidden [where env = "answering three_messages three_messages three_messages" and phone = "'' 5551234567''"
        and c = "''c''" and v = "''v''" and status = 500 and msg = "[]" and u = 5 and rows = "[stored_m1]"]
    by simp
qed

end
