(* ===== verification/RetoolImport.thy ===== *)
theory RetoolImport
  imports Cells SqlSchema
begin

text \<open>
  The import of historical outreach, \<^verbatim>\<open>scripts/import_retool_outreach.py\<close>: rows of three
  tables of SQL Server are inserted into the campaign activities, each under a key that is remembered.
  The results of the queries are arguments. Texts of values, the digest, the time zone of naive
  times, the columns of the table and what the driver accepts are parameters; log lines are left out.
\<close>

section \<open>The source tables\<close>

record table_spec =
  sp_channel :: string
  sp_activity_type :: string
  sp_label_col :: string
  sp_subject_col :: "string option"
  sp_body_col :: string

definition table_specs :: "(string \<times> table_spec) list" where
  "table_specs =
    [(''RETOOLCALLENGAGEMENT'', \<lparr>sp_channel = ''CALL'', sp_activity_type = ''call'', sp_label_col = ''CallType'',
        sp_subject_col = None, sp_body_col = ''Notes''\<rparr>),
     (''RetoolEmailEngagement'', \<lparr>sp_channel = ''EMAIL'', sp_activity_type = ''email'', sp_label_col = ''EmailOutcome'',
        sp_subject_col = Some ''Subject'', sp_body_col = ''EmailBody''\<rparr>),
     (''RetoolNoteEngagement'', \<lparr>sp_channel = ''NOTE'', sp_activity_type = ''note'', sp_label_col = ''NoteType'',
        sp_subject_col = None, sp_body_col = ''NoteText''\<rparr>)]"

definition retool_fetch :: "bool \<Rightarrow> (string + row list) \<Rightarrow> row list \<times> string option" where
  "retool_fetch configured query =
    (if \<not> configured then ([], Some ''SQL Server not configured'')
     else case query of Inl msg \<Rightarrow> ([], Some msg) | Inr rows \<Rightarrow> (rows, None))"

section \<open>The insertion\<close>

record import_env =
  ie_digest :: "string \<Rightarrow> string"
  ie_str :: "cell \<Rightarrow> string"
  ie_aware :: "string \<Rightarrow> string"
  ie_columns :: "(string \<times> column) list"
  ie_accepts :: "row \<Rightarrow> bool"
  ie_correlation_id :: string

definition import_key :: "import_env \<Rightarrow> string \<Rightarrow> row \<Rightarrow> string" where
  "import_key env table r =
     take 48 (ie_digest env (table @ ''|'' @ ie_str env (get r ''UserID'') @ ''|'' @ ie_str env (get r ''CreateDate'')))"

text \<open>
  The values of the statement, with the constants it names. The table of activities has no unique
  columns but the numbered key, so \<^verbatim>\<open>ON CONFLICT\<close> never applies.
\<close>

definition statement_values :: "import_env \<Rightarrow> table_spec \<Rightarrow> row \<Rightarrow> int \<Rightarrow> row" where
  "statement_values env spec r uid =
    [(''student_user_id'', CInt uid),
     (''activity_date'', case get r ''CreateDate'' of CTime t \<Rightarrow> CTime (ie_aware env t) | _ \<Rightarrow> CNull),
     (''activity_type'', CText (sp_activity_type spec)), (''activity_label'', get r (sp_label_col spec)),
     (''channel'', CText (sp_channel spec)),
     (''subject'', case sp_subject_col spec of None \<Rightarrow> CNull | Some c \<Rightarrow> get r c),
     (''message_body'', get r (sp_body_col spec)), (''source'', CText ''retool_import''),
     (''created_by'', CText (ie_str env (or_cell (get r ''CreatedBy'') (CText ''retool'')))),
     (''execution_mode'', CText ''SHADOW''), (''shadow_only'', CBool True),
     (''correlation_id'', CText (ie_correlation_id env)), (''governance_scope'', CText ''SHADOW_ONLY''),
     (''is_replay'', CBool False), (''attribution_complete'', CBool True)]"

text \<open>A statement names columns that exist, and a column that may not be null needs a value, a default, or to be numbered.\<close>

definition names_known :: "(string \<times> column) list \<Rightarrow> string list \<Rightarrow> bool" where
  "names_known cols cs \<longleftrightarrow> list_all (\<lambda>c. c \<in> fst ` set cols) cs"

definition unfilled :: "(string \<times> column) list \<Rightarrow> string list \<Rightarrow> string list" where
  "unfilled cols cs = map fst (filter (\<lambda>(c, co). \<not> co_nullable co \<and> c \<noteq> ''id'' \<and> c \<notin> set cs \<and> co_default co = None) cols)"

definition nulls_fit :: "(string \<times> column) list \<Rightarrow> row \<Rightarrow> bool" where
  "nulls_fit cols vs \<longleftrightarrow> list_all (\<lambda>(c, v). v = CNull \<longrightarrow> (case map_of cols c of None \<Rightarrow> True | Some co \<Rightarrow> co_nullable co)) vs"

definition insert_accepted :: "import_env \<Rightarrow> row \<Rightarrow> bool" where
  "insert_accepted env vs \<longleftrightarrow> names_known (ie_columns env) (map fst vs) \<and> unfilled (ie_columns env) (map fst vs) = []
     \<and> nulls_fit (ie_columns env) vs \<and> ie_accepts env vs"

section \<open>The import of a table\<close>

text \<open>The keys are \<open>None\<close> until their table exists.\<close>

record import_db =
  ib_activities :: "row list"
  ib_keys :: "string list option"

record import_counts =
  ic_fetched :: int
  ic_inserted :: int
  ic_skipped :: int
  ic_errors :: int

definition known_key :: "import_db \<Rightarrow> string \<Rightarrow> bool" where
  "known_key db k \<longleftrightarrow> (case ib_keys db of None \<Rightarrow> False | Some ks \<Rightarrow> k \<in> set ks)"

definition create_keys :: "import_db \<Rightarrow> import_db" where
  "create_keys db = db\<lparr>ib_keys := Some (case ib_keys db of None \<Rightarrow> [] | Some ks \<Rightarrow> ks)\<rparr>"

text \<open>The body of the \<^verbatim>\<open>try\<close> block: the row to insert, \<open>None\<close> when it raises.\<close>

definition planned_insert :: "import_env \<Rightarrow> table_spec \<Rightarrow> row \<Rightarrow> row option" where
  "planned_insert env spec r =
    (case cell_int (get r ''UserID'') of
       Inl e \<Rightarrow> None
     | Inr uid \<Rightarrow> (let vs = statement_values env spec r uid in if insert_accepted env vs then Some vs else None))"

definition import_row ::
  "import_env \<Rightarrow> string \<Rightarrow> table_spec \<Rightarrow> bool \<Rightarrow> row \<Rightarrow> import_counts \<times> import_db \<Rightarrow> import_counts \<times> import_db" where
  "import_row env table spec dry_run r st =
    (case st of (c, db) \<Rightarrow>
       let ikey = import_key env table r
       in if known_key db ikey then (c\<lparr>ic_skipped := ic_skipped c + 1\<rparr>, db)
          else if dry_run then (c\<lparr>ic_inserted := ic_inserted c + 1\<rparr>, db)
          else if \<not> cell_truthy (get r ''UserID'') then (c\<lparr>ic_skipped := ic_skipped c + 1\<rparr>, db)
          else case planned_insert env spec r of
                 None \<Rightarrow> (c\<lparr>ic_errors := ic_errors c + 1\<rparr>, db)
               | Some vs \<Rightarrow> (c\<lparr>ic_inserted := ic_inserted c + 1\<rparr>,
                   db\<lparr>ib_activities := ib_activities db @ [vs], ib_keys := map_option (\<lambda>ks. ks @ [ikey]) (ib_keys db)\<rparr>))"

definition import_table ::
  "import_env \<Rightarrow> string \<Rightarrow> table_spec \<Rightarrow> bool \<Rightarrow> row list \<times> string option \<Rightarrow> import_db \<Rightarrow> import_counts \<times> import_db" where
  "import_table env table spec dry_run fetched db =
    (let (rows, err) = fetched
     in if given err then (\<lparr>ic_fetched = 0, ic_inserted = 0, ic_skipped = 0, ic_errors = 1\<rparr>, db)
        else fold (import_row env table spec dry_run) rows
               (\<lparr>ic_fetched = int (length rows), ic_inserted = 0, ic_skipped = 0, ic_errors = 0\<rparr>, create_keys db))"

section \<open>The script\<close>

definition add_counts :: "import_counts \<Rightarrow> import_counts \<Rightarrow> import_counts" where
  "add_counts a b = \<lparr>ic_fetched = ic_fetched a + ic_fetched b, ic_inserted = ic_inserted a + ic_inserted b,
     ic_skipped = ic_skipped a + ic_skipped b, ic_errors = ic_errors a + ic_errors b\<rparr>"

definition import_step ::
  "import_env \<Rightarrow> bool \<Rightarrow> (string \<Rightarrow> row list \<times> string option) \<Rightarrow> string \<Rightarrow> import_counts \<times> import_db \<Rightarrow> import_counts \<times> import_db" where
  "import_step env dry_run fetched table st =
    (case map_of table_specs table of
       None \<Rightarrow> st
     | Some spec \<Rightarrow>
         (case import_table env table spec dry_run (fetched table) (snd st) of (c, db) \<Rightarrow> (add_counts (fst st) c, db)))"

text \<open>The totals are those of the last log line.\<close>

definition run_retool_import ::
  "import_env \<Rightarrow> string list option \<Rightarrow> bool \<Rightarrow> (string \<Rightarrow> row list \<times> string option) \<Rightarrow> import_db \<Rightarrow> import_counts \<times> import_db" where
  "run_retool_import env tables dry_run fetched db =
    (let target_tables = (case tables of None \<Rightarrow> map fst table_specs | Some ts \<Rightarrow> if ts = [] then map fst table_specs else ts)
     in fold (import_step env dry_run fetched) target_tables
          (\<lparr>ic_fetched = 0, ic_inserted = 0, ic_skipped = 0, ic_errors = 0\<rparr>, db))"

definition import_main ::
  "import_env \<Rightarrow> string option \<Rightarrow> bool \<Rightarrow> (string \<Rightarrow> row list \<times> string option) \<Rightarrow> import_db \<Rightarrow> import_counts \<times> import_db" where
  "import_main env table dry_run fetched =
     run_retool_import env (case table of None \<Rightarrow> None | Some t \<Rightarrow> Some [t]) dry_run fetched"

end
