(* ===== verification/RetoolImportProps.thy ===== *)
theory RetoolImportProps
  imports RetoolImport Installations
begin

text \<open>
  Properties of the import of historical outreach: what is inserted once is never inserted again, and
  which installations accept the statement at all.
\<close>

section \<open>Counts and keys\<close>

definition keys_of :: "import_db \<Rightarrow> string list" where
  "keys_of db = (case ib_keys db of None \<Rightarrow> [] | Some ks \<Rightarrow> ks)"

lemma known_key_iff: "known_key db k \<longleftrightarrow> k \<in> set (keys_of db)"
  by (simp add: known_key_def keys_of_def split: option.split)

lemma create_keys_simps [simp]:
  "ib_activities (create_keys db) = ib_activities db" "keys_of (create_keys db) = keys_of db" "ib_keys (create_keys db) \<noteq> None"
  "ib_keys (create_keys db) = Some (keys_of db)" "create_keys (create_keys db) = create_keys db"
  by (simp_all add: create_keys_def keys_of_def)

text \<open>What happens to a row.\<close>

lemma import_row_cases:
  obtains (known) "known_key db (import_key env t r)"
      "import_row env t spec False r (c, db) = (c\<lparr>ic_skipped := ic_skipped c + 1\<rparr>, db)"
    | (anonymous) "\<not> known_key db (import_key env t r)" "\<not> cell_truthy (get r ''UserID'')"
      "import_row env t spec False r (c, db) = (c\<lparr>ic_skipped := ic_skipped c + 1\<rparr>, db)"
    | (refused) "\<not> known_key db (import_key env t r)" "cell_truthy (get r ''UserID'')" "planned_insert env spec r = None"
      "import_row env t spec False r (c, db) = (c\<lparr>ic_errors := ic_errors c + 1\<rparr>, db)"
    | (inserted) vs where "\<not> known_key db (import_key env t r)" "cell_truthy (get r ''UserID'')" "planned_insert env spec r = Some vs"
      "import_row env t spec False r (c, db) = (c\<lparr>ic_inserted := ic_inserted c + 1\<rparr>,
         db\<lparr>ib_activities := ib_activities db @ [vs], ib_keys := map_option (\<lambda>ks. ks @ [import_key env t r]) (ib_keys db)\<rparr>)"
proof (cases "known_key db (import_key env t r)")
  case True
  with known show thesis by (simp add: import_row_def Let_def)
next
  case new: False
  show thesis
  proof (cases "cell_truthy (get r ''UserID'')")
    case False
    with anonymous new show thesis by (simp add: import_row_def Let_def)
  next
    case True
    show thesis
    proof (cases "planned_insert env spec r")
      case None
      with refused new True show thesis by (simp add: import_row_def Let_def)
    next
      case (Some vs)
      with inserted new True show thesis by (simp add: import_row_def Let_def)
    qed
  qed
qed

definition grown_by :: "import_counts \<times> import_db \<Rightarrow> import_counts \<times> import_db \<Rightarrow> row list \<Rightarrow> string list \<Rightarrow> bool" where
  "grown_by a b new ks \<longleftrightarrow> ib_activities (snd b) = ib_activities (snd a) @ new \<and> ib_keys (snd b) = Some (keys_of (snd a) @ ks)
     \<and> distinct (keys_of (snd b)) \<and> length ks = length new \<and> ic_inserted (fst b) = ic_inserted (fst a) + int (length new)
     \<and> ic_fetched (fst b) = ic_fetched (fst a)"

definition handled :: "import_counts \<Rightarrow> int" where
  "handled c = ic_inserted c + ic_skipped c + ic_errors c"

lemma import_rows_grow:
  assumes "ib_keys (snd st) \<noteq> None" and "distinct (keys_of (snd st))"
  shows "\<exists>new ks. grown_by st (fold (import_row env t spec False) rows st) new ks \<and> set ks \<subseteq> import_key env t ` set rows
    \<and> handled (fst (fold (import_row env t spec False) rows st)) = handled (fst st) + int (length rows)"
  using assms
proof (induction rows arbitrary: st)
  case Nil
  then show ?case by (intro exI [of _ "[]"]) (auto simp: grown_by_def keys_of_def)
next
  case (Cons r rows)
  obtain c db where st: "st = (c, db)" by (cases st)
  let ?st1 = "import_row env t spec False r st"
  have step: "\<exists>new ks. grown_by st ?st1 new ks \<and> set ks \<subseteq> {import_key env t r} \<and> handled (fst ?st1) = handled (fst st) + 1"
  proof (cases rule: import_row_cases [of db env t r spec c])
    case known
    with Cons.prems st show ?thesis by (intro exI [of _ "[]"]) (auto simp: grown_by_def handled_def keys_of_def)
  next
    case anonymous
    with Cons.prems st show ?thesis by (intro exI [of _ "[]"]) (auto simp: grown_by_def handled_def keys_of_def)
  next
    case refused
    with Cons.prems st show ?thesis by (intro exI [of _ "[]"]) (auto simp: grown_by_def handled_def keys_of_def)
  next
    case (inserted vs)
    with Cons.prems st show ?thesis
      by (intro exI [of _ "[vs]"] exI [of _ "[import_key env t r]"]) (auto simp: grown_by_def handled_def known_key_iff keys_of_def)
  qed
  then obtain new ks where one: "grown_by st ?st1 new ks" "set ks \<subseteq> {import_key env t r}" "handled (fst ?st1) = handled (fst st) + 1"
    by blast
  then have "ib_keys (snd ?st1) \<noteq> None" "distinct (keys_of (snd ?st1))" by (simp_all add: grown_by_def)
  from Cons.IH [OF this] obtain new' ks' where rest:
    "grown_by ?st1 (fold (import_row env t spec False) rows ?st1) new' ks'" "set ks' \<subseteq> import_key env t ` set rows"
    "handled (fst (fold (import_row env t spec False) rows ?st1)) = handled (fst ?st1) + int (length rows)" by blast
  have "keys_of (snd ?st1) = keys_of (snd st) @ ks" using one(1) by (simp add: grown_by_def keys_of_def)
  with one rest have "grown_by st (fold (import_row env t spec False) rows ?st1) (new @ new') (ks @ ks')" by (simp add: grown_by_def)
  with one rest show ?case by (intro exI [of _ "new @ new'"] exI [of _ "ks @ ks'"]) auto
qed

text \<open>Errors only accumulate; without one every row with a user is stored.\<close>

lemma errors_grow: "ic_errors (fst st) \<le> ic_errors (fst (fold (import_row env t spec False) rows st))"
proof (induction rows arbitrary: st)
  case (Cons r rows)
  obtain c db where st: "st = (c, db)" by (cases st)
  have "ic_errors (fst st) \<le> ic_errors (fst (import_row env t spec False r st))"
    by (cases rule: import_row_cases [of db env t r spec c]) (simp_all add: st)
  also have "\<dots> \<le> ic_errors (fst (fold (import_row env t spec False) rows (import_row env t spec False r st)))" by (rule Cons.IH)
  finally show ?case by simp
qed simp

lemma import_rows_store:
  assumes "ib_keys (snd st) \<noteq> None" and "distinct (keys_of (snd st))" and "r \<in> set rows" and "cell_truthy (get r ''UserID'')"
    and "ic_errors (fst (fold (import_row env t spec False) rows st)) = ic_errors (fst st)"
  shows "known_key (snd (fold (import_row env t spec False) rows st)) (import_key env t r)"
  using assms(1-3,5)
proof (induction rows arbitrary: st)
  case (Cons q rows)
  obtain c db where st: "st = (c, db)" by (cases st)
  let ?st1 = "import_row env t spec False q st"
  from import_rows_grow [of st env t spec "[q]"] Cons.prems(1,2) obtain new ks where one: "grown_by st ?st1 new ks" by auto
  then have ok: "ib_keys (snd ?st1) \<noteq> None" "distinct (keys_of (snd ?st1))" by (simp_all add: grown_by_def)
  have "ic_errors (fst st) \<le> ic_errors (fst ?st1)" using errors_grow [of st env t spec "[q]"] by simp
  with errors_grow [of ?st1 env t spec rows] Cons.prems(4) have
    e: "ic_errors (fst ?st1) = ic_errors (fst st)" "ic_errors (fst (fold (import_row env t spec False) rows ?st1)) = ic_errors (fst ?st1)"
    by simp_all
  show ?case
  proof (cases "q = r")
    case True
    have "known_key (snd ?st1) (import_key env t r)"
      using Cons.prems(1) e(1) assms(4) True
      by (cases rule: import_row_cases [of db env t q spec c]) (auto simp: st known_key_iff keys_of_def)
    moreover from import_rows_grow [OF ok, of env t spec rows] obtain new' ks' where
      "grown_by ?st1 (fold (import_row env t spec False) rows ?st1) new' ks'" by blast
    ultimately show ?thesis by (simp add: grown_by_def known_key_iff keys_of_def)
  next
    case False
    with Cons.IH [OF ok _ e(2)] Cons.prems(3) show ?thesis by simp
  qed
qed simp

lemma import_rows_settled:
  assumes "\<And>r. r \<in> set rows \<Longrightarrow> cell_truthy (get r ''UserID'') \<Longrightarrow> known_key db (import_key env t r)"
  shows "fold (import_row env t spec False) rows (c, db) = (c\<lparr>ic_skipped := ic_skipped c + int (length rows)\<rparr>, db)"
  using assms
proof (induction rows arbitrary: c)
  case (Cons r rows)
  have "import_row env t spec False r (c, db) = (c\<lparr>ic_skipped := ic_skipped c + 1\<rparr>, db)"
    using Cons.prems [of r] by (cases rule: import_row_cases [of db env t r spec c]) auto
  with Cons show ?case by simp
qed simp

lemma dry_rows:
  "fold (import_row env t spec True) rows (c, db) =
    (c\<lparr>ic_inserted := ic_inserted c + int (length (filter (\<lambda>r. \<not> known_key db (import_key env t r)) rows)),
       ic_skipped := ic_skipped c + int (length (filter (\<lambda>r. known_key db (import_key env t r)) rows))\<rparr>, db)"
  by (induction rows arbitrary: c) (simp_all add: import_row_def Let_def)

text \<open>
  C32. The import of a table counts every fetched row once, adds as many activities as it reports with
  as many new keys, all different, and so at most one activity for a user and a creation time,
  whatever else the rows hold. When no row failed, a later import of any of the rows, under any
  correlation identifier and whatever the database accepts, changes nothing. A dry run changes no
  activity and no key, but counts every row without a known key as inserted, also rows without a
  user, rows the database refuses and repeated keys.
\<close>

theorem retool_import_once:
  assumes "distinct (keys_of db)"
  shows "case import_table env t spec False (rows, None) db of (c, db') \<Rightarrow>
    ic_fetched c = ic_inserted c + ic_skipped c + ic_errors c \<and> distinct (keys_of db')
    \<and> (\<exists>new ks. ib_activities db' = ib_activities db @ new \<and> keys_of db' = keys_of db @ ks \<and> length ks = length new
         \<and> int (length new) = ic_inserted c
         \<and> length new \<le> card ((\<lambda>r. (get r ''UserID'', get r ''CreateDate'')) ` set rows))
    \<and> (ic_errors c = 0 \<longrightarrow> (\<forall>env' rows'. ie_digest env' = ie_digest env \<and> ie_str env' = ie_str env \<and> set rows' \<subseteq> set rows \<longrightarrow>
         import_table env' t spec False (rows', None) db' =
           (\<lparr>ic_fetched = int (length rows'), ic_inserted = 0, ic_skipped = int (length rows'), ic_errors = 0\<rparr>, db')))
    \<and> (let (dc, ddb) = import_table env t spec True (rows, None) db
       in ib_activities ddb = ib_activities db \<and> keys_of ddb = keys_of db
          \<and> ic_inserted dc = int (length (filter (\<lambda>r. \<not> known_key db (import_key env t r)) rows)))"
proof -
  let ?zero = "\<lparr>ic_fetched = int (length rows), ic_inserted = 0, ic_skipped = 0, ic_errors = 0\<rparr>"
  let ?st = "(?zero, create_keys db)"
  let ?last = "fold (import_row env t spec False) rows ?st"
  obtain c db' where run: "?last = (c, db')" by (cases ?last)
  have start: "ib_keys (snd ?st) \<noteq> None" "distinct (keys_of (snd ?st))" using assms by simp_all
  from import_rows_grow [OF start, of env t spec rows] obtain new ks where grow: "grown_by ?st ?last new ks"
    "set ks \<subseteq> import_key env t ` set rows" "handled (fst ?last) = handled (fst ?st) + int (length rows)" by blast
  from grow(1) run have facts: "ib_activities db' = ib_activities db @ new" "ib_keys db' = Some (keys_of db @ ks)"
    "distinct (keys_of db @ ks)" "length ks = length new" "ic_inserted c = int (length new)" "ic_fetched c = int (length rows)"
    by (auto simp: grown_by_def keys_of_def split: option.splits)
  have "length new = card (set ks)" using facts(3,4) distinct_card [of ks] by simp
  also have "\<dots> \<le> card (import_key env t ` set rows)" using grow(2) by (intro card_mono) auto
  also have "import_key env t ` set rows = (\<lambda>(u, d). take 48 (ie_digest env (t @ ''|'' @ ie_str env u @ ''|'' @ ie_str env d)))
      ` (\<lambda>r. (get r ''UserID'', get r ''CreateDate'')) ` set rows"
    by (simp add: image_image import_key_def)
  also have "card \<dots> \<le> card ((\<lambda>r. (get r ''UserID'', get r ''CreateDate'')) ` set rows)" by (intro card_image_le) simp
  finally have few: "length new \<le> card ((\<lambda>r. (get r ''UserID'', get r ''CreateDate'')) ` set rows)" .
  have keys: "keys_of db' = keys_of db @ ks" "create_keys db' = db'" using facts(2) by (simp_all add: keys_of_def create_keys_def)
  have again: "import_table env' t spec False (rows', None) db' =
      (\<lparr>ic_fetched = int (length rows'), ic_inserted = 0, ic_skipped = int (length rows'), ic_errors = 0\<rparr>, db')"
    if e: "ic_errors c = 0" and same: "ie_digest env' = ie_digest env" "ie_str env' = ie_str env" and sub: "set rows' \<subseteq> set rows" for env' rows'
  proof -
    have "known_key db' (import_key env' t r)" if "r \<in> set rows'" "cell_truthy (get r ''UserID'')" for r
      using import_rows_store [OF start, of r rows env t spec] that sub e same run by (auto simp: import_key_def)
    from import_rows_settled [of rows' db' env' t spec, OF this] show ?thesis by (simp add: import_table_def keys)
  qed
  have dry: "let (dc, ddb) = import_table env t spec True (rows, None) db
       in ib_activities ddb = ib_activities db \<and> keys_of ddb = keys_of db
          \<and> ic_inserted dc = int (length (filter (\<lambda>r. \<not> known_key db (import_key env t r)) rows))"
    by (simp add: import_table_def dry_rows known_key_iff)
  have "ic_fetched c = ic_inserted c + ic_skipped c + ic_errors c" using grow(3) facts(6) run by (simp add: handled_def)
  with run facts keys few again dry show ?thesis by (simp add: import_table_def)
qed

text \<open>Texts of cells and a digest for the examples.\<close>

fun shown_cell :: "cell \<Rightarrow> string" where
  "shown_cell (CInt n) = show_int n"
| "shown_cell (CText s) = s"
| "shown_cell (CTime s) = s"
| "shown_cell _ = ''None''"

definition import_example :: "(string \<times> column) list \<Rightarrow> import_env" where
  "import_example cols = \<lparr>ie_digest = (\<lambda>s. s), ie_str = shown_cell, ie_aware = (\<lambda>t. t @ ''Z''), ie_columns = cols,
     ie_accepts = (\<lambda>_. True), ie_correlation_id = ''run-1''\<rparr>"

definition two_calls :: "row list" where
  "two_calls = [[(''UserID'', CInt 7), (''CreateDate'', CTime ''t1''), (''CallType'', CText ''first'')],
     [(''UserID'', CInt 7), (''CreateDate'', CTime ''t1''), (''CallType'', CText ''second'')]]"

definition fresh_import :: import_db where
  "fresh_import = \<lparr>ib_activities = [], ib_keys = None\<rparr>"

definition call_spec :: table_spec where
  "call_spec = the (map_of table_specs ''RETOOLCALLENGAGEMENT'')"

definition insert_names :: "string list" where
  "insert_names = [''student_user_id'', ''activity_date'', ''activity_type'', ''activity_label'', ''channel'', ''subject'',
     ''message_body'', ''source'', ''created_by'', ''execution_mode'', ''shadow_only'', ''correlation_id'', ''governance_scope'',
     ''is_replay'', ''attribution_complete'']"

lemma retool_import_once_witness:
  "(let env = import_example (map (\<lambda>c. (c, optional SText)) insert_names);
        (c, db') = import_table env ''RETOOLCALLENGAGEMENT'' call_spec False (two_calls, None) fresh_import
    in c = \<lparr>ic_fetched = 2, ic_inserted = 1, ic_skipped = 1, ic_errors = 0\<rparr> \<and> length (ib_activities db') = 1
       \<and> import_table env ''RETOOLCALLENGAGEMENT'' call_spec False (rev two_calls, None) db' =
           (\<lparr>ic_fetched = 2, ic_inserted = 0, ic_skipped = 2, ic_errors = 0\<rparr>, db')
       \<and> ic_inserted (fst (import_table env ''RETOOLCALLENGAGEMENT'' call_spec True (two_calls, None) fresh_import)) = 2)"
proof -
  define env where "env = import_example (map (\<lambda>c. (c, optional SText)) insert_names)"
  obtain c db' where run: "import_table env ''RETOOLCALLENGAGEMENT'' call_spec False (two_calls, None) fresh_import = (c, db')"
    by (cases "import_table env ''RETOOLCALLENGAGEMENT'' call_spec False (two_calls, None) fresh_import")
  have c: "fst (import_table env ''RETOOLCALLENGAGEMENT'' call_spec False (two_calls, None) fresh_import)
      = \<lparr>ic_fetched = 2, ic_inserted = 1, ic_skipped = 1, ic_errors = 0\<rparr>"
    unfolding env_def by code_simp
  have new: "length (filter (\<lambda>r. \<not> known_key fresh_import (import_key env ''RETOOLCALLENGAGEMENT'' r)) two_calls) = 2"
    unfolding env_def by code_simp
  have d: "distinct (keys_of fresh_import)" by code_simp
  have two: "length two_calls = 2" by (simp add: two_calls_def)
  have none: "ib_activities fresh_import = []" by (simp add: fresh_import_def)
  from retool_import_once [OF d, where env = env and t = "''RETOOLCALLENGAGEMENT''" and spec = call_spec and rows = two_calls] c new two none show ?thesis
    unfolding env_def [symmetric] Let_def run by (auto split: prod.splits)
qed

section \<open>Installations\<close>

definition activity_table :: tname where
  "activity_table = pub ''student_campaign_activity''"

lemma statement_names: "map fst (statement_values env spec r uid) = insert_names"
  by (simp add: statement_values_def insert_names_def)

definition planned_table :: "ddl list \<Rightarrow> (string \<times> column) list" where
  "planned_table ops = the (table_after ops activity_table)"

lemma planned_started: "planned_table init_db = tb_columns orm_student_campaign_activity"
  by code_simp

lemma started_unfilled: "unfilled (tb_columns orm_student_campaign_activity) insert_names = [''execution_type'']"
  by code_simp

lemma planned_head: "planned_table upgrade_head = tb_columns v1_student_campaign_activity"
  by (simp add: planned_table_def activity_table_def table_after_def upgrade_head_def revisions_def upgrade_simps)

lemma head_unknown: "\<not> names_known (tb_columns v1_student_campaign_activity) insert_names"
  by code_simp

lemma migrated_fits:
  "names_known (planned_table (upgrade_head @ init_db)) insert_names \<and> unfilled (planned_table (upgrade_head @ init_db)) insert_names = []
   \<and> list_all (\<lambda>c. case map_of (planned_table (upgrade_head @ init_db)) c of None \<Rightarrow> False | Some co \<Rightarrow> co_nullable co)
       [''activity_date'', ''activity_label'', ''subject'', ''message_body'']"
  by code_simp

lemma statement_nulls:
  assumes "list_all (\<lambda>c. case map_of cols c of None \<Rightarrow> False | Some co \<Rightarrow> co_nullable co)
       [''activity_date'', ''activity_label'', ''subject'', ''message_body'']"
  shows "nulls_fit cols (statement_values env spec r uid)"
  using assms by (auto simp: nulls_fit_def statement_values_def split: option.splits)

lemma refused_rows:
  assumes "\<And>r. planned_insert env spec r = None"
  shows "ib_activities (snd (fold (import_row env t spec False) rows (c, db))) = ib_activities db
    \<and> ic_inserted (fst (fold (import_row env t spec False) rows (c, db))) = ic_inserted c"
proof (induction rows arbitrary: c)
  case (Cons r rows)
  show ?case
    using assms Cons.IH by (cases rule: import_row_cases [of db env t r spec c]) simp_all
qed simp

text \<open>
  Whether the import works depends on how the platform was installed. Where the tables come from
  the models, the start-up leaves the execution type of the activities without a default and the
  statement does not name it: every row is refused, nothing is imported, and only the error count
  says so. Where only the migrations ran, the statement names columns that do not exist, with the
  same result. After migrations and start-up a row with a numeric user is inserted whenever the
  driver accepts its values, and left out otherwise.
\<close>

theorem retool_import_needs_defaults:
  assumes "exec_all upgrade_head (empty_database roles) = Some head" and "exec_all init_db head = Some migrated"
    and "exec_all init_db (empty_database roles) = Some started"
  shows "(\<forall>d \<in> {head, started}. \<forall>env t spec rows db. columns_in activity_table d = Some (ie_columns env) \<longrightarrow>
        ib_activities (snd (import_table env t spec False (rows, None) db)) = ib_activities db
        \<and> ic_inserted (fst (import_table env t spec False (rows, None) db)) = 0)
    \<and> (\<forall>env t spec r uid db. columns_in activity_table migrated = Some (ie_columns env) \<longrightarrow>
        get r ''UserID'' = CInt uid \<and> uid \<noteq> 0 \<and> \<not> known_key db (import_key env t r) \<longrightarrow>
        ib_activities (snd (import_table env t spec False ([r], None) db)) = ib_activities db
          @ (if ie_accepts env (statement_values env spec r uid) then [statement_values env spec r uid] else []))
    \<and> (\<exists>a b c. columns_in activity_table head = Some a \<and> columns_in activity_table started = Some b
        \<and> columns_in activity_table migrated = Some c)"
proof -
  have run: "exec_all (upgrade_head @ init_db) (empty_database roles) = Some migrated"
    using assms(1,2) by (simp add: exec_all_append)
  have head: "columns_in activity_table head = table_after upgrade_head activity_table"
    and started: "columns_in activity_table started = table_after init_db activity_table"
    and migrated: "columns_in activity_table migrated = table_after (upgrade_head @ init_db) activity_table"
    using installed_columns [OF assms(1)] installed_columns [OF assms(3)] installed_columns [OF run] constructive by simp_all
  have there: "table_after init_db activity_table \<noteq> None \<and> table_after upgrade_head activity_table \<noteq> None
      \<and> table_after (upgrade_head @ init_db) activity_table \<noteq> None"
    by code_simp
  have refused: "planned_insert env spec r = None"
    if "d \<in> {head, started}" "columns_in activity_table d = Some (ie_columns env)" for d env spec r
  proof -
    have "ie_columns env = planned_table upgrade_head \<or> ie_columns env = planned_table init_db"
      using that head started by (auto simp: planned_table_def)
    then have "\<not> insert_accepted env (statement_values env spec r uid)" for uid
      using head_unknown started_unfilled
      by (auto simp: insert_accepted_def statement_names planned_head planned_started)
    then show ?thesis by (simp add: planned_insert_def Let_def split: sum.split)
  qed
  have accepted: "insert_accepted env (statement_values env spec r uid) = ie_accepts env (statement_values env spec r uid)"
    if "columns_in activity_table migrated = Some (ie_columns env)" for env spec r uid
  proof -
    have "ie_columns env = planned_table (upgrade_head @ init_db)" using that migrated by (simp add: planned_table_def)
    with migrated_fits statement_nulls show ?thesis by (simp add: insert_accepted_def statement_names)
  qed
  show ?thesis
  proof (intro conjI ballI allI impI)
    fix d t spec rows db and env :: import_env
    assume "d \<in> {head, started}" "columns_in activity_table d = Some (ie_columns env)"
    from refused_rows [OF refused [OF this]]
    show "ib_activities (snd (import_table env t spec False (rows, None) db)) = ib_activities db"
      and "ic_inserted (fst (import_table env t spec False (rows, None) db)) = 0"
      by (simp_all add: import_table_def)
  next
    fix t spec r uid db and env :: import_env
    assume cols: "columns_in activity_table migrated = Some (ie_columns env)"
      and r: "get r ''UserID'' = CInt uid \<and> uid \<noteq> 0 \<and> \<not> known_key db (import_key env t r)"
    then show "ib_activities (snd (import_table env t spec False ([r], None) db)) = ib_activities db
          @ (if ie_accepts env (statement_values env spec r uid) then [statement_values env spec r uid] else [])"
      by (simp add: import_table_def import_row_def planned_insert_def Let_def accepted [OF cols] known_key_iff)
  next
    show "\<exists>a b c. columns_in activity_table head = Some a \<and> columns_in activity_table started = Some b
        \<and> columns_in activity_table migrated = Some c"
      using there by (auto simp: head started migrated)
  qed
qed

lemma retool_import_needs_defaults_witness:
  "\<exists>head migrated started env. exec_all upgrade_head (empty_database []) = Some head \<and> exec_all init_db head = Some migrated
    \<and> exec_all init_db (empty_database []) = Some started
    \<and> columns_in activity_table migrated = Some (ie_columns env)
    \<and> length (ib_activities (snd (import_table env ''RETOOLCALLENGAGEMENT'' call_spec False (take 1 two_calls, None) fresh_import))) = 1
    \<and> (\<forall>cols. columns_in activity_table started = Some cols \<longrightarrow>
        ib_activities (snd (import_table (env\<lparr>ie_columns := cols\<rparr>) ''RETOOLCALLENGAGEMENT'' call_spec False (two_calls, None) fresh_import)) = [])"
proof -
  obtain head migrated started where runs: "exec_all upgrade_head (empty_database []) = Some head" "exec_all init_db head = Some migrated"
    "exec_all init_db (empty_database []) = Some started" using migrated_runs started_runs by metis
  note claim = retool_import_needs_defaults [OF runs]
  then obtain cols where cols: "columns_in activity_table migrated = Some cols" by blast
  define env where "env = import_example cols"
  have env: "columns_in activity_table migrated = Some (ie_columns env)" using cols by (simp add: env_def import_example_def)
  have first: "take 1 two_calls = [hd two_calls]" "get (hd two_calls) ''UserID'' = CInt 7" by code_simp+
  have new: "\<not> known_key fresh_import k" for k by (simp add: known_key_def fresh_import_def)
  have "ie_accepts env v" for v by (simp add: env_def import_example_def)
  with claim env first new have
    "ib_activities (snd (import_table env ''RETOOLCALLENGAGEMENT'' call_spec False (take 1 two_calls, None) fresh_import))
      = ib_activities fresh_import @ [statement_values env call_spec (hd two_calls) 7]" by auto
  then have "length (ib_activities (snd (import_table env ''RETOOLCALLENGAGEMENT'' call_spec False (take 1 two_calls, None) fresh_import))) = 1"
    by (simp add: fresh_import_def)
  moreover have "ib_activities (snd (import_table (env\<lparr>ie_columns := cols'\<rparr>) ''RETOOLCALLENGAGEMENT'' call_spec False (two_calls, None) fresh_import)) = []"
    if "columns_in activity_table started = Some cols'" for cols'
    using claim that by (simp add: fresh_import_def)
  ultimately show ?thesis using runs env by blast
qed

end
