(* ===== verification/WorkQueue.thy ===== *)
theory WorkQueue
  imports Warehouse Priority
begin

text \<open>
  The work queues of \<^verbatim>\<open>routers/work_queue.py\<close>: the counts of the seven queues, and the
  pages of one queue, sorted by the display score. The mirrored students and the outreach cases are
  lists in the order in which the database returns them; texts of values and of instants are
  parameters.
\<close>

section \<open>Students\<close>

type_synonym mirror_rows = "(int \<times> student) list"

definition text_or_empty :: "(cell \<Rightarrow> string) \<Rightarrow> cell \<Rightarrow> string" where
  "text_or_empty str v = cell_text str (or_cell v (CText []))"

definition full_name :: "(cell \<Rightarrow> string) \<Rightarrow> student \<Rightarrow> string" where
  "full_name str s = strip (text_or_empty str (attr s ''FirstName'') @ '' '' @ text_or_empty str (attr s ''LastName''))"

definition shown_name :: "(cell \<Rightarrow> string) \<Rightarrow> int \<Rightarrow> student \<Rightarrow> string" where
  "shown_name str uid s = (let n = full_name str s in if n \<noteq> [] then n else ''#'' @ show_int uid)"

text \<open>A value of a column as the score compares it: only numbers can be compared with numbers.\<close>

fun cell_val :: "cell \<Rightarrow> pyval" where
  "cell_val CNull = VNone"
| "cell_val (CBool b) = VBool b"
| "cell_val (CInt n) = VInt n"
| "cell_val (CFloat f) = VFloat f"
| "cell_val (CDecimal q) = VFloat (Fin q)"
| "cell_val (CText s) = VStr s"
| "cell_val (CTime t) = VStr t"
| "cell_val (CJson d) = VDict []"

text \<open>The fields of the row that the score reads.\<close>

definition score_fields :: "student \<Rightarrow> pydict" where
  "score_fields s = map (\<lambda>k. (k, cell_val (attr s k))) [''HWsBehind'', ''LastActivityDays'', ''AvgEffRating'', ''PaymentBalance'']"

section \<open>Counts\<close>

definition VALID_QUEUES :: "string list" where
  "VALID_QUEUES = [''all_source'', ''untracked'', ''eligible'', ''contacted'', ''intervention'', ''retry_due'', ''resolved_closed'']"

definition count_state :: "tracking_row list \<Rightarrow> string \<Rightarrow> int" where
  "count_state cases st = int (length (filter (\<lambda>t. tr_state t = st) cases))"

definition retry_due :: "int \<Rightarrow> tracking_row \<Rightarrow> bool" where
  "retry_due now t \<longleftrightarrow> tr_state t = ''NO_RESPONSE'' \<and> (case tr_next_retry_at t of None \<Rightarrow> False | Some x \<Rightarrow> x < now)"

definition tracked_ids :: "tracking_row list \<Rightarrow> int list" where
  "tracked_ids cases = remdups (map tr_user_id cases)"

definition work_queue_summary :: "int \<Rightarrow> mirror_rows \<Rightarrow> tracking_row list \<Rightarrow> (string \<times> int) list" where
  "work_queue_summary now students cases =
    (let total_source = int (length students)
     in [(''all_source'', total_source), (''untracked'', total_source - int (length (tracked_ids cases))),
         (''eligible'', count_state cases ''ELIGIBLE'' + count_state cases ''QUEUED'' + count_state cases ''RETRY''),
         (''contacted'', count_state cases ''CONTACTED''), (''intervention'', count_state cases ''INTERVENTION_REQUIRED''),
         (''retry_due'', int (length (filter (retry_due now) cases))),
         (''resolved_closed'', count_state cases ''RESOLVED'' + count_state cases ''CLOSED'')])"

section \<open>A queue\<close>

record queue_row =
  qr_user_id :: int
  qr_name :: string
  qr_path :: cell
  qr_hws_behind :: cell
  qr_eff_rating :: cell
  qr_inactivity_days :: cell
  qr_score :: student_score
  qr_state :: "string option"
  qr_attempts :: int
  qr_last_contact_at :: "string option"
  qr_next_retry_at :: "string option"
  qr_checkpoint_type :: cell

text \<open>\<^verbatim>\<open>rows.sort(key=..., reverse=True)\<close> keeps the order of equal rows.\<close>

definition by_score :: "queue_row list \<Rightarrow> queue_row list" where
  "by_score rows = rev (sort_key (sc_score \<circ> qr_score) (rev rows))"

record queue_page =
  qp_queue :: string
  qp_total :: int
  qp_rows :: "queue_row list"

definition queue_page_of :: "string \<Rightarrow> nat \<Rightarrow> nat \<Rightarrow> queue_row list \<Rightarrow> queue_page" where
  "queue_page_of queue most offset rows =
     \<lparr>qp_queue = queue, qp_total = int (length rows), qp_rows = take most (drop offset (by_score rows))\<rparr>"

text \<open>A list of rows each of which may raise.\<close>

fun each_res :: "('a \<Rightarrow> 'b res) \<Rightarrow> 'a list \<Rightarrow> 'b list res" where
  "each_res f [] = Inr []"
| "each_res f (x # xs) = bind_res (f x) (\<lambda>y. bind_res (each_res f xs) (\<lambda>ys. Inr (y # ys)))"

definition on_path :: "string option \<Rightarrow> student \<Rightarrow> bool" where
  "on_path path s \<longleftrightarrow> \<not> given path \<or> attr s ''PathName'' = CText (the path)"

definition source_row :: "(cell \<Rightarrow> string) \<Rightarrow> int \<times> student \<Rightarrow> queue_row res" where
  "source_row str x =
    (case x of (uid, s) \<Rightarrow> bind_res (score_student (score_fields s) None) (\<lambda>p.
       Inr \<lparr>qr_user_id = uid, qr_name = shown_name str uid s, qr_path = attr s ''PathName'',
         qr_hws_behind = attr s ''HWsBehind'', qr_eff_rating = attr s ''AvgEffRating'',
         qr_inactivity_days = attr s ''LastActivityDays'', qr_score = p, qr_state = None, qr_attempts = 0,
         qr_last_contact_at = None, qr_next_retry_at = None, qr_checkpoint_type = attr s ''PathName''\<rparr>))"

definition source_queue ::
  "(cell \<Rightarrow> string) \<Rightarrow> mirror_rows \<Rightarrow> tracking_row list \<Rightarrow> string \<Rightarrow> string option \<Rightarrow> nat \<Rightarrow> nat \<Rightarrow> queue_page res" where
  "source_queue str students cases queue path most offset =
    (let all_students = filter (\<lambda>(uid, s). on_path path s) students;
         chosen = (if queue = ''untracked'' then filter (\<lambda>(uid, s). uid \<notin> set (tracked_ids cases)) all_students else all_students)
     in bind_res (each_res (source_row str) chosen) (\<lambda>rows. Inr (queue_page_of queue most offset rows)))"

definition in_queue :: "int \<Rightarrow> string \<Rightarrow> tracking_row \<Rightarrow> bool" where
  "in_queue now queue t \<longleftrightarrow>
    (if queue = ''eligible'' then tr_state t \<in> {''ELIGIBLE'', ''QUEUED'', ''RETRY''}
     else if queue = ''contacted'' then tr_state t = ''CONTACTED''
     else if queue = ''intervention'' then tr_state t = ''INTERVENTION_REQUIRED''
     else if queue = ''retry_due'' then retry_due now t
     else if queue = ''resolved_closed'' then tr_state t \<in> {''RESOLVED'', ''CLOSED''} else True)"

definition tracking_queue_row ::
  "(cell \<Rightarrow> string) \<Rightarrow> (int \<Rightarrow> string) \<Rightarrow> mirror_rows \<Rightarrow> tracking_row \<Rightarrow> queue_row res" where
  "tracking_queue_row str itext students t =
    (let source = map_of students (tr_user_id t);
         d = (case source of None \<Rightarrow> [] | Some s \<Rightarrow> score_fields s);
         column = (\<lambda>k. case source of None \<Rightarrow> CNull | Some s \<Rightarrow> attr s k)
     in bind_res (score_student d (Some [(''state'', VStr (tr_state t)), (''current_attempt'', VInt (tr_current_attempt t))])) (\<lambda>p.
       Inr \<lparr>qr_user_id = tr_user_id t,
         qr_name = (case source of None \<Rightarrow> ''#'' @ show_int (tr_user_id t) | Some s \<Rightarrow> full_name str s),
         qr_path = (case source of None \<Rightarrow> CText (tr_checkpoint_type t) | Some s \<Rightarrow> attr s ''PathName''),
         qr_hws_behind = column ''HWsBehind'', qr_eff_rating = column ''AvgEffRating'',
         qr_inactivity_days = column ''LastActivityDays'', qr_score = p, qr_state = Some (tr_state t),
         qr_attempts = tr_current_attempt t, qr_last_contact_at = map_option itext (tr_last_contact_at t),
         qr_next_retry_at = map_option itext (tr_next_retry_at t), qr_checkpoint_type = CText (tr_checkpoint_type t)\<rparr>))"

definition tracking_queue ::
  "(cell \<Rightarrow> string) \<Rightarrow> (int \<Rightarrow> string) \<Rightarrow> int \<Rightarrow> mirror_rows \<Rightarrow> tracking_row list \<Rightarrow> string \<Rightarrow> string option \<Rightarrow> nat \<Rightarrow> nat
   \<Rightarrow> queue_page res" where
  "tracking_queue str itext now students cases queue path most offset =
    (let chosen = filter (in_queue now queue) cases
     in if chosen = [] then Inr \<lparr>qp_queue = queue, qp_total = 0, qp_rows = []\<rparr>
        else bind_res (each_res (tracking_queue_row str itext students)
               (filter (\<lambda>t. \<not> given path \<or> (case map_of students (tr_user_id t) of None \<Rightarrow> False | Some s \<Rightarrow> on_path path s)) chosen))
             (\<lambda>rows. Inr (queue_page_of queue most offset rows)))"

text \<open>\<open>None\<close> is the answer that the queue is not valid.\<close>

definition work_queue_detail ::
  "(cell \<Rightarrow> string) \<Rightarrow> (int \<Rightarrow> string) \<Rightarrow> int \<Rightarrow> mirror_rows \<Rightarrow> tracking_row list \<Rightarrow> string \<Rightarrow> string option \<Rightarrow> nat \<Rightarrow> nat
   \<Rightarrow> queue_page option res" where
  "work_queue_detail str itext now students cases queue path most offset =
    (if queue \<notin> set VALID_QUEUES then Inr None
     else bind_res
       (if queue \<in> {''all_source'', ''untracked''} then source_queue str students cases queue path most offset
        else tracking_queue str itext now students cases queue path most offset) (\<lambda>p. Inr (Some p)))"

end
