(* ===== verification/WorkQueueProps.thy ===== *)
theory WorkQueueProps
  imports WorkQueue PriorityProps "HOL-Library.Multiset"
begin

text \<open>
  Properties of the work queues: the pages of a queue are the queue, and the counts of the summary
  are the lengths of the queues but for students that are tracked and not mirrored.
\<close>

section \<open>Rows\<close>

lemma each_res_length: "each_res f xs = Inr ys \<Longrightarrow> length ys = length xs"
  by (induction xs arbitrary: ys) (auto simp: bind_res_Inr_iff)

lemma each_res_map: "each_res f xs = Inr ys \<Longrightarrow> (\<And>x y. x \<in> set xs \<Longrightarrow> f x = Inr y \<Longrightarrow> g y = h x) \<Longrightarrow> map g ys = map h xs"
  by (induction xs arbitrary: ys) (auto simp: bind_res_Inr_iff)

lemma each_res_total: "(\<And>x. x \<in> set xs \<Longrightarrow> \<exists>y. f x = Inr y) \<Longrightarrow> \<exists>ys. each_res f xs = Inr ys"
proof (induction xs)
  case (Cons x xs)
  then obtain y ys where "f x = Inr y" "each_res f xs = Inr ys" by (metis list.set_intros(1,2))
  then show ?case by simp
qed simp

lemma by_score_perm: "mset (by_score rows) = mset rows"
  by (simp add: by_score_def)

lemma by_score_length [simp]: "length (by_score rows) = length rows"
  using by_score_perm by (metis size_mset)

lemma by_score_sorted: "sorted_wrt (\<lambda>a b. sc_score (qr_score b) \<le> sc_score (qr_score a)) (by_score rows)"
proof -
  have "sorted (map (sc_score \<circ> qr_score) (sort_key (sc_score \<circ> qr_score) (rev rows)))" by (rule sorted_sort_key)
  then show ?thesis by (simp add: by_score_def sorted_wrt_rev sorted_wrt_map)
qed

section \<open>Pages\<close>

lemma pages_join: "concat (map (\<lambda>i. take n (drop (i * n) xs)) [0..<k]) = take (k * n) xs"
proof (induction k)
  case (Suc k)
  have "take (Suc k * n) xs = take (k * n) xs @ take n (drop (k * n) xs)"
    by (metis add.commute mult_Suc take_add)
  with Suc show ?case by simp
qed simp

section \<open>Numeric students\<close>

text \<open>Columns the score compares hold numbers, as the types of the columns demand.\<close>

definition number_column :: "cell \<Rightarrow> bool" where
  "number_column c \<longleftrightarrow> c = CNull \<or> real_column c"

definition numeric_student :: "student \<Rightarrow> bool" where
  "numeric_student s \<longleftrightarrow> list_all (\<lambda>k. number_column (attr s k)) [''HWsBehind'', ''LastActivityDays'', ''AvgEffRating'', ''PaymentBalance'']"

lemma numeric_scorable:
  assumes "numeric_student s"
  shows "scorable (score_fields s)"
proof -
  have num: "is_num (or_zero (cell_val c)) \<and> num_or_none (cell_val c)" if "number_column c" for c
    using that by (cases c) (auto simp: number_column_def or_zero_def num_or_none_def is_num_def)
  show ?thesis using assms num by (simp add: numeric_student_def scorable_def score_fields_def)
qed

lemma scored: "numeric_student s \<Longrightarrow> \<exists>p. score_student (score_fields s) tracking = Inr p"
  using score_student_total numeric_scorable by blast

lemma scored_empty: "\<exists>p. score_student [] tracking = Inr p"
  by (rule score_student_total) (simp add: scorable_def or_zero_def is_num_def num_or_none_def)

section \<open>The members of a queue\<close>

definition queue_members :: "int \<Rightarrow> mirror_rows \<Rightarrow> tracking_row list \<Rightarrow> string \<Rightarrow> string option \<Rightarrow> int list" where
  "queue_members now students cases queue path =
    (if queue \<in> {''all_source'', ''untracked''}
     then map fst (filter (\<lambda>(u, s). on_path path s \<and> (queue = ''untracked'' \<longrightarrow> u \<notin> tr_user_id ` set cases)) students)
     else map tr_user_id (filter (\<lambda>t. in_queue now queue t \<and> (given path \<longrightarrow>
        (case map_of students (tr_user_id t) of None \<Rightarrow> False | Some s \<Rightarrow> on_path path s))) cases))"

lemma source_rows:
  assumes "list_all (numeric_student \<circ> snd) students"
  shows "\<exists>rows. each_res (source_row str) students = Inr rows \<and> map qr_user_id rows = map fst students"
proof -
  have one: "\<exists>y. source_row str x = Inr y" if "x \<in> set students" for x
  proof -
    obtain p where "score_student (score_fields (snd x)) None = Inr p"
      using scored assms \<open>x \<in> set students\<close> unfolding list_all_iff comp_def by blast
    then show ?thesis by (cases x) (simp add: source_row_def)
  qed
  have id: "qr_user_id y = fst x" if "source_row str x = Inr y" for x y
    using that by (cases x) (auto simp: source_row_def bind_res_Inr_iff)
  from each_res_total [of students "source_row str", OF one] obtain rows where rows: "each_res (source_row str) students = Inr rows" by blast
  from each_res_map [OF rows, of qr_user_id fst] id rows show ?thesis by blast
qed

lemma tracking_rows:
  assumes "list_all (numeric_student \<circ> snd) students"
  shows "\<exists>rows. each_res (tracking_queue_row str itext students) cases = Inr rows \<and> map qr_user_id rows = map tr_user_id cases"
proof -
  have one: "\<exists>y. tracking_queue_row str itext students t = Inr y" if "t \<in> set cases" for t
  proof (cases "map_of students (tr_user_id t)")
    case None
    with scored_empty [of "Some [(''state'', VStr (tr_state t)), (''current_attempt'', VInt (tr_current_attempt t))]"]
    show ?thesis by (auto simp: tracking_queue_row_def Let_def)
  next
    case (Some s)
    then have "(tr_user_id t, s) \<in> set students" by (rule map_of_SomeD)
    then have "numeric_student s" using assms by (auto simp: list_all_iff)
    then obtain p where
      "score_student (score_fields s) (Some [(''state'', VStr (tr_state t)), (''current_attempt'', VInt (tr_current_attempt t))]) = Inr p" using scored by blast
    with Some show ?thesis by (simp add: tracking_queue_row_def Let_def)
  qed
  have id: "qr_user_id y = tr_user_id t" if "tracking_queue_row str itext students t = Inr y" for t y
    using that by (auto simp: tracking_queue_row_def bind_res_Inr_iff Let_def)
  from each_res_total [of cases "tracking_queue_row str itext students", OF one] obtain rows where
    rows: "each_res (tracking_queue_row str itext students) cases = Inr rows" by blast
  from each_res_map [OF rows, of qr_user_id tr_user_id] id rows show ?thesis by blast
qed

text \<open>A valid queue has rows that do not depend on the page asked for.\<close>

lemma queue_rows:
  assumes "list_all (numeric_student \<circ> snd) students" and "queue \<in> set VALID_QUEUES"
  obtains rows where "map qr_user_id rows = queue_members now students cases queue path"
    "\<And>most offset. work_queue_detail str itext now students cases queue path most offset = Inr (Some (queue_page_of queue most offset rows))"
proof (cases "queue \<in> {''all_source'', ''untracked''}")
  case True
  define chosen where "chosen = filter (\<lambda>(u, s). on_path path s \<and> (queue = ''untracked'' \<longrightarrow> u \<notin> tr_user_id ` set cases)) students"
  have "list_all (numeric_student \<circ> snd) chosen" using assms(1) by (auto simp: chosen_def list_all_iff)
  from source_rows [OF this] obtain rows where rows: "each_res (source_row str) chosen = Inr rows" "map qr_user_id rows = map fst chosen" by blast
  have "source_queue str students cases queue path most offset = Inr (queue_page_of queue most offset rows)" for most offset
  proof -
    have "(if queue = ''untracked'' then filter (\<lambda>(uid, s). uid \<notin> set (tracked_ids cases)) (filter (\<lambda>(uid, s). on_path path s) students)
        else filter (\<lambda>(uid, s). on_path path s) students) = chosen"
      by (auto simp: chosen_def tracked_ids_def case_prod_unfold conj_commute)
    with rows(1) show ?thesis by (simp add: source_queue_def Let_def)
  qed
  with assms(2) True have "work_queue_detail str itext now students cases queue path most offset
      = Inr (Some (queue_page_of queue most offset rows))" for most offset by (simp add: work_queue_detail_def)
  moreover have "map qr_user_id rows = queue_members now students cases queue path"
    using rows(2) True by (simp add: queue_members_def chosen_def)
  ultimately show thesis using that by blast
next
  case False
  define chosen where "chosen = filter (\<lambda>t. \<not> given path \<or> (case map_of students (tr_user_id t) of None \<Rightarrow> False | Some s \<Rightarrow> on_path path s))
    (filter (in_queue now queue) cases)"
  from tracking_rows [OF assms(1)] obtain rows where rows: "each_res (tracking_queue_row str itext students) chosen = Inr rows"
    "map qr_user_id rows = map tr_user_id chosen" by blast
  have "tracking_queue str itext now students cases queue path most offset = Inr (queue_page_of queue most offset rows)" for most offset
  proof (cases "filter (in_queue now queue) cases = []")
    case True
    then have "rows = []" using rows(1) by (simp add: chosen_def)
    with True show ?thesis by (simp add: tracking_queue_def queue_page_of_def by_score_def)
  next
    case False
    with rows(1) show ?thesis by (simp add: tracking_queue_def chosen_def Let_def)
  qed
  with assms(2) False have "work_queue_detail str itext now students cases queue path most offset
      = Inr (Some (queue_page_of queue most offset rows))" for most offset by (simp add: work_queue_detail_def)
  moreover have "map qr_user_id rows = queue_members now students cases queue path"
    using rows(2) False by (simp add: queue_members_def chosen_def)
  ultimately show thesis using that by blast
qed

section \<open>An example\<close>

definition queue_student :: "string \<Rightarrow> int \<Rightarrow> student" where
  "queue_student name behind = [''FirstName'' \<mapsto> CText name, ''HWsBehind'' \<mapsto> CInt behind, ''PathName'' \<mapsto> CText ''AI'']"

definition queue_students :: mirror_rows where
  "queue_students = [(1, queue_student ''Ann'' 0), (2, queue_student ''Bob'' 4), (3, queue_student ''Cy'' 1)]"

definition queue_case :: "int \<Rightarrow> string \<Rightarrow> tracking_row" where
  "queue_case uid state = \<lparr>tr_id = uid, tr_user_id = uid, tr_checkpoint_type = ''DAY_7'', tr_state = state, tr_current_attempt = 1,
     tr_last_contact_at = None, tr_next_retry_at = Some 5, tr_correlation_id = None, tr_execution_mode = ''SHADOW'',
     tr_created_at = 0, tr_updated_at = 0\<rparr>"

text \<open>One mirrored student and two students that are not mirrored have cases.\<close>

definition queue_cases :: "tracking_row list" where
  "queue_cases = [queue_case 2 ''NO_RESPONSE'', queue_case 8 ''CONTACTED'', queue_case 9 ''RESOLVED'']"

lemma queue_students_numeric: "list_all (numeric_student \<circ> snd) queue_students"
  by code_simp

text \<open>
  C33. The pages of a valid queue are the queue. For students with numeric columns every page
  returns, all pages report the same total, and consecutive pages joined hold exactly one row for
  each member of the queue, sorted by falling score.
\<close>

theorem work_queue_pages:
  assumes "list_all (numeric_student \<circ> snd) students" and "queue \<in> set VALID_QUEUES"
    and "length (queue_members now students cases queue path) \<le> k * n"
  shows "\<exists>page. (\<forall>i. work_queue_detail str itext now students cases queue path n (i * n) = Inr (Some (page i))
        \<and> qp_total (page i) = int (length (queue_members now students cases queue path)))
    \<and> (let rows = concat (map (qp_rows \<circ> page) [0..<k])
       in mset (map qr_user_id rows) = mset (queue_members now students cases queue path)
          \<and> sorted_wrt (\<lambda>a b. sc_score (qr_score b) \<le> sc_score (qr_score a)) rows)"
proof -
  obtain rows where rows: "map qr_user_id rows = queue_members now students cases queue path"
    "\<And>most offset. work_queue_detail str itext now students cases queue path most offset = Inr (Some (queue_page_of queue most offset rows))"
    using queue_rows [OF assms(1,2)] by blast
  have len: "length (queue_members now students cases queue path) = length rows" using arg_cong [OF rows(1), of length] by simp
  let ?page = "\<lambda>i. queue_page_of queue n (i * n) rows"
  have "concat (map (qp_rows \<circ> ?page) [0..<k]) = take (k * n) (by_score rows)"
    by (simp add: queue_page_of_def comp_def pages_join)
  also have "\<dots> = by_score rows" using assms(3) len by simp
  finally have joined: "concat (map (qp_rows \<circ> ?page) [0..<k]) = by_score rows" .
  have "mset (map qr_user_id (by_score rows)) = mset (queue_members now students cases queue path)"
    by (simp add: by_score_perm flip: rows(1))
  with joined by_score_sorted rows(2) len show ?thesis
    by (intro exI [of _ ?page]) (simp add: queue_page_of_def)
qed

lemma work_queue_pages_witness:
  "\<exists>page. (\<forall>i. work_queue_detail (\<lambda>_. []) (\<lambda>_. []) 9 queue_students queue_cases ''all_source'' None 2 (i * 2) = Inr (Some (page i)))
    \<and> mset (map qr_user_id (qp_rows (page 0) @ qp_rows (page 1))) = mset [1, 2, 3]"
proof -
  have members: "queue_members 9 queue_students queue_cases ''all_source'' None = [1, 2, 3]" by code_simp
  have "length (queue_members 9 queue_students queue_cases ''all_source'' None) \<le> 2 * 2" by (simp add: members)
  from work_queue_pages [OF queue_students_numeric _ this, of "\<lambda>_. []" "\<lambda>_. []"] show ?thesis
    by (auto simp: VALID_QUEUES_def members Let_def numeral_2_eq_2)
qed

section \<open>The summary\<close>

lemma count_states:
  assumes "distinct ss"
  shows "int (length (filter (\<lambda>t. tr_state t \<in> set ss) cases)) = sum_list (map (count_state cases) ss)"
  using assms
proof (induction ss)
  case (Cons a ss)
  have "length (filter (\<lambda>t. tr_state t \<in> set (a # ss)) cases)
      = length (filter (\<lambda>t. tr_state t = a) cases) + length (filter (\<lambda>t. tr_state t \<in> set ss) cases)"
    using Cons.prems by (induction cases) auto
  with Cons show ?case by (simp add: count_state_def)
qed simp

lemma count_state_length: "int (length (filter (\<lambda>t. tr_state t = st) cases)) = count_state cases st"
  by (simp add: count_state_def)

lemma members_summary:
  assumes "queue \<in> set VALID_QUEUES" and "queue \<noteq> ''untracked''"
  shows "map_of (work_queue_summary now students cases) queue = Some (int (length (queue_members now students cases queue None)))"
proof -
  let ?P = "\<lambda>q. map_of (work_queue_summary now students cases) q = Some (int (length (queue_members now students cases q None)))"
  note defs = work_queue_summary_def queue_members_def in_queue_def Let_def
  have "?P ''all_source''" by (simp add: defs on_path_def case_prod_unfold)
  moreover have "?P ''contacted''" "?P ''intervention''" by (simp_all add: defs count_state_length)
  moreover have "?P ''retry_due''" by (simp add: defs)
  moreover have "?P ''eligible''" using count_states [of "[''ELIGIBLE'', ''QUEUED'', ''RETRY'']" cases] by (simp add: defs)
  moreover have "?P ''resolved_closed''" using count_states [of "[''RESOLVED'', ''CLOSED'']" cases] by (simp add: defs)
  moreover have "queue = ''all_source'' \<or> queue = ''eligible'' \<or> queue = ''contacted'' \<or> queue = ''intervention''
      \<or> queue = ''retry_due'' \<or> queue = ''resolved_closed''"
    using assms by (simp add: VALID_QUEUES_def)
  ultimately show ?thesis by metis
qed

lemma untracked_students:
  assumes "distinct (map fst students)"
  shows "int (length (filter (\<lambda>(u, s). u \<notin> tr_user_id ` set cases) students))
    = int (length students) - int (length (tracked_ids cases)) + int (card (tr_user_id ` set cases - fst ` set students))"
proof -
  let ?T = "tr_user_id ` set cases" and ?S = "fst ` set students"
  have "length (filter (\<lambda>(u, s). u \<notin> ?T) students) = length (map fst (filter (\<lambda>(u, s). u \<notin> ?T) students))" by simp
  also have "\<dots> = card (set (map fst (filter (\<lambda>(u, s). u \<notin> ?T) students)))"
    using assms by (intro distinct_card [symmetric]) (simp add: distinct_map_filter)
  also have "set (map fst (filter (\<lambda>(u, s). u \<notin> ?T) students)) = ?S - ?T" by force
  finally have a: "length (filter (\<lambda>(u, s). u \<notin> ?T) students) = card (?S - ?T)" .
  have b: "length students = card ?S" using assms distinct_card [of "map fst students"] by simp
  have c: "length (tracked_ids cases) = card ?T" by (simp add: tracked_ids_def length_remdups_card_conv)
  have "card (?S - ?T) + card (?S \<inter> ?T) = card ?S" using card_Diff_subset_Int [of ?S ?T] card_mono [of ?S "?S \<inter> ?T"] by auto
  moreover have "card (?T - ?S) + card (?S \<inter> ?T) = card ?T"
    using card_Diff_subset_Int [of ?T ?S] card_mono [of ?T "?T \<inter> ?S"] by (simp add: Int_commute)
  ultimately show ?thesis unfolding a b c by linarith
qed

text \<open>
  The summary counts what the queues hold: without a filter the total of every queue is its
  count in the summary, except for the untracked students. That count subtracts all tracked users
  from all mirrored students, so it misses one student for every tracked user that is not mirrored
  and can fall below zero.
\<close>

theorem queue_counts:
  assumes "distinct (map fst students)" and "list_all (numeric_student \<circ> snd) students" and "queue \<in> set VALID_QUEUES"
  shows "\<exists>page. work_queue_detail str itext now students cases queue None most offset = Inr (Some page)
    \<and> map_of (work_queue_summary now students cases) queue = Some (qp_total page
        - (if queue = ''untracked'' then int (card (tr_user_id ` set cases - fst ` set students)) else 0))"
proof -
  obtain rows where rows: "map qr_user_id rows = queue_members now students cases queue None"
    "\<And>most offset. work_queue_detail str itext now students cases queue None most offset = Inr (Some (queue_page_of queue most offset rows))"
    using queue_rows [OF assms(2,3)] by blast
  have len: "length rows = length (queue_members now students cases queue None)" using arg_cong [OF rows(1), of length] by simp
  have "map_of (work_queue_summary now students cases) queue = Some (int (length (queue_members now students cases queue None))
        - (if queue = ''untracked'' then int (card (tr_user_id ` set cases - fst ` set students)) else 0))"
  proof (cases "queue = ''untracked''")
    case True
    have "length (queue_members now students cases queue None) = length (filter (\<lambda>(u, s). u \<notin> tr_user_id ` set cases) students)"
      using True by (simp add: queue_members_def on_path_def)
    with True untracked_students [OF assms(1), of cases] show ?thesis by (simp add: work_queue_summary_def Let_def)
  next
    case False
    with members_summary [OF assms(3)] show ?thesis by simp
  qed
  with rows(2) len show ?thesis by (simp add: queue_page_of_def)
qed

lemma queue_counts_witness:
  "\<exists>page. work_queue_detail (\<lambda>_. []) (\<lambda>_. []) 9 queue_students queue_cases ''untracked'' None 50 0 = Inr (Some page)
    \<and> map_of (work_queue_summary 9 queue_students queue_cases) ''untracked'' = Some (qp_total page - 2)"
proof -
  have "distinct (map fst queue_students)" by code_simp
  from queue_counts [OF this queue_students_numeric, of "''untracked''" "\<lambda>_. []" "\<lambda>_. []" 9 queue_cases 50]
  show ?thesis by (auto simp: VALID_QUEUES_def queue_cases_def queue_students_def queue_case_def)
qed

end
