(* ===== verification/AdminPipeline.thy ===== *)
theory AdminPipeline
  imports ScheduledJobs
begin

text \<open>
  The two pipeline endpoints of \<^verbatim>\<open>routers/admin.py\<close>: the synchronizations and the assembly
  of snapshots, and the backfill of narratives with the generation of all reports. The start of the
  narrative batch in the background is part of the answer; its effect is that of \<open>Narratives\<close>. The log
  lines of the endpoints are left out.
\<close>

section \<open>Finalizing reports\<close>

text \<open>\<^verbatim>\<open>COALESCE(a, b)\<close>\<close>

definition coalesce :: "'a option \<Rightarrow> 'a option \<Rightarrow> 'a option" where
  "coalesce a b = (case a of None \<Rightarrow> b | Some x \<Rightarrow> Some x)"

definition latest_narrative :: "platform_tables \<Rightarrow> int \<Rightarrow> string \<Rightarrow> string option" where
  "latest_narrative src sid column =
     Option.bind (map_of narrative_columns column) (\<lambda>t. Option.bind (finalized_insight src sid t) ci_content_text)"

definition backfill_row :: "platform_tables \<Rightarrow> int \<Rightarrow> narrative_copy \<Rightarrow> narrative_copy" where
  "backfill_row src sid n = n\<lparr>na_texts := map (\<lambda>(c, t). (c, coalesce t (latest_narrative src sid c))) (na_texts n)\<rparr>"

text \<open>The update joins the snapshots of all months. A row without a missing text stays as it is.\<close>

definition backfill_narratives :: "platform_tables \<Rightarrow> warehouse \<Rightarrow> warehouse" where
  "backfill_narratives src wh = wh\<lparr>wh_narratives := map (\<lambda>n.
     case find (\<lambda>s. ss_id s = na_snapshot_id n) (wh_snapshots wh) of
       None \<Rightarrow> n
     | Some s \<Rightarrow> if list_ex (\<lambda>(c, t). t = None) (na_texts n) then backfill_row src (ss_student_id s) n else n)
     (wh_narratives wh)\<rparr>"

definition missing_summaries :: "warehouse \<Rightarrow> int" where
  "missing_summaries wh = int (length (filter (\<lambda>n. map_of (na_texts n) ''risk_summary_text'' \<in> {None, Some None}) (wh_narratives wh)))"

fun segment_reports ::
  "(nat \<Rightarrow> nat \<Rightarrow> snapshot_env) \<Rightarrow> platform_tables \<Rightarrow> month \<Rightarrow> string \<Rightarrow> nat \<Rightarrow> string list \<Rightarrow> warehouse
   \<Rightarrow> pydict call_res \<times> warehouse" where
  "segment_reports envs src ym execution_mode k [] wh = (Inr [], wh)"
| "segment_reports envs src ym execution_mode k (seg # segs) wh =
    (case generate_cohort_report (envs k) src seg ym execution_mode wh of
       (Inl e, wh') \<Rightarrow> (Inl e, wh')
     | (Inr r, wh') \<Rightarrow>
         (case segment_reports envs src ym execution_mode (Suc k) segs wh' of
            (Inl e, wh'') \<Rightarrow> (Inl e, wh'')
          | (Inr rs, wh'') \<Rightarrow> (Inr ((seg, VDict r) # rs), wh'')))"

definition finalize_segments :: "string list" where
  "finalize_segments = [''NEWCOMERS'', ''ENGAGEMENT'', ''CAP_HOPEFULS'', ''LAUNCH_HOPEFULS'', ''PLACEMENT_HOPEFULS'']"

definition finalize_reports ::
  "(nat \<Rightarrow> nat \<Rightarrow> snapshot_env) \<Rightarrow> platform_tables \<Rightarrow> month \<Rightarrow> string \<Rightarrow> warehouse \<Rightarrow> pydict call_res \<times> warehouse" where
  "finalize_reports envs src ym execution_mode wh =
    (case first_day ym of
       Inl e \<Rightarrow> (Inl (Py e), wh)
     | Inr _ \<Rightarrow>
         let wh1 = backfill_narratives src wh;
             count_after = missing_summaries wh1
         in case segment_reports envs src ym execution_mode 0 finalize_segments wh1 of
              (Inl e, wh2) \<Rightarrow> (Inl e, wh2)
            | (Inr results, wh2) \<Rightarrow>
                (Inr [(''status'', VStr ''complete''), (''report_month'', VStr (month_text ym)),
                   (''narratives_backfilled'', VInt (missing_summaries wh - count_after)),
                   (''narratives_still_null'', VInt count_after), (''reports'', VDict results)], wh2))"

section \<open>Running the pipeline\<close>

record pipeline_fetches =
  pf_students :: fetched
  pf_ipbc :: fetched
  pf_payments :: fetched
  pf_plans :: fetched
  pf_plan_students :: fetched
  pf_now :: string

definition pipeline_steps ::
  "source_lib \<Rightarrow> float_lib \<Rightarrow> pipeline_fetches \<Rightarrow> (string \<times> (sync_state \<Rightarrow> pydict call_res \<times> sync_state)) list" where
  "pipeline_steps lib L f =
     [(''jrp'', sync_from_mssql lib (pf_students f)), (''ipbc'', sync_ipbc_students lib (pf_now f) (pf_ipbc f)),
      (''payments'', sync_payments lib L (pf_payments f)),
      (''ipbc_plans'', sync_ipbc_payment_plans lib L (pf_plans f) (pf_plan_students f))]"

definition pipeline_answer :: "(string \<times> pydict) list \<Rightarrow> pydict \<Rightarrow> pydict" where
  "pipeline_answer results snapshots =
    (let r = (\<lambda>k. case map_of results k of None \<Rightarrow> [] | Some d \<Rightarrow> d)
     in [(''status'', VStr ''pipeline_running''),
         (''students_synced'', VInt (int_field (r ''jrp'') ''rows_scanned'' + int_field (r ''ipbc'') ''rows_scanned'')),
         (''jrp_scanned'', VInt (int_field (r ''jrp'') ''rows_scanned'')),
         (''ipbc_scanned'', VInt (int_field (r ''ipbc'') ''rows_scanned'')),
         (''ipbc_plans_updated'', VInt (int_field (r ''ipbc_plans'') ''updated'')), (''snapshots'', VDict snapshots),
         (''ai_narratives'', VStr ''generating_in_background'')])"

text \<open>The students of the snapshots are those of the mirror after the synchronizations.\<close>

definition run_pipeline ::
  "source_lib \<Rightarrow> float_lib \<Rightarrow> pipeline_fetches \<Rightarrow> (nat \<Rightarrow> snapshot_env) \<Rightarrow> platform_tables \<Rightarrow> (sync_db \<Rightarrow> int list) \<Rightarrow> month \<Rightarrow> string
   \<Rightarrow> sync_state \<times> warehouse \<Rightarrow> pydict call_res \<times> sync_state \<times> warehouse" where
  "run_pipeline lib L f envs src students ym execution_mode st =
    (case st of (sy, wh) \<Rightarrow>
     case first_day ym of
       Inl e \<Rightarrow> (Inl (Py e), sy, wh)
     | Inr _ \<Rightarrow>
         (case sync_steps (pipeline_steps lib L f) sy of
            (Inl e, sy') \<Rightarrow> (Inl e, sy', wh)
          | (Inr results, sy') \<Rightarrow>
              (case assemble_all_active_snapshots envs (src\<lparr>pl_db := sy_db sy'\<rparr>) (students (sy_db sy')) ym execution_mode None wh of
                 (Inl e, wh') \<Rightarrow> (Inl e, sy', wh')
               | (Inr snapshots, wh') \<Rightarrow> (Inr (pipeline_answer results snapshots), sy', wh'))))"

end
