(* ===== verification/AdminPipelineProps.thy ===== *)
theory AdminPipelineProps
  imports AdminPipeline ReportProps
begin

text \<open>
  Properties of the pipeline endpoints: what the backfill changes in the frozen narratives, and what
  the answer of the pipeline says about its steps.
\<close>

section \<open>Backfill\<close>

lemma find_distinct: "distinct (map f xs) \<Longrightarrow> n < length xs \<Longrightarrow> find (\<lambda>x. f x = f (xs ! n)) xs = Some (xs ! n)"
proof (induction xs arbitrary: n)
  case (Cons x xs)
  show ?case
  proof (cases n)
    case (Suc m)
    with Cons.prems have "f (xs ! m) \<in> f ` set xs" "f x \<notin> f ` set xs" by simp_all
    then have "f x \<noteq> f (xs ! m)" by metis
    with Suc Cons show ?thesis by simp
  qed simp
qed simp

lemma nothing_missing: "\<not> list_ex (\<lambda>(c, t). t = None) xs \<Longrightarrow> map (\<lambda>(c, t). (c, coalesce t (f c))) xs = xs"
  by (induction xs) (auto simp: coalesce_def split: option.split)

definition filled_texts :: "platform_tables \<Rightarrow> int \<Rightarrow> (string \<times> string option) list \<Rightarrow> (string \<times> string option) list" where
  "filled_texts src sid = map (\<lambda>(c, t). (c, coalesce t (latest_narrative src sid c)))"

lemma filled_twice: "filled_texts src sid (filled_texts src sid ts) = filled_texts src sid ts"
  by (simp add: filled_texts_def coalesce_def comp_def case_prod_unfold split: option.split)

lemma backfill_nth:
  assumes "wf_snapshots wh" and "n < length (wh_snapshots wh)"
  shows "wh_narratives (backfill_narratives src wh) ! n
    = (wh_narratives wh ! n)\<lparr>na_texts := filled_texts src (ss_student_id (wh_snapshots wh ! n)) (na_texts (wh_narratives wh ! n))\<rparr>"
proof -
  have ids: "map na_snapshot_id (wh_narratives wh) = map ss_id (wh_snapshots wh)" and d: "distinct (map ss_id (wh_snapshots wh))"
    using assms(1) by (simp_all add: wf_snapshots_def)
  have len: "length (wh_narratives wh) = length (wh_snapshots wh)" using arg_cong [OF ids, of length] by simp
  have "na_snapshot_id (wh_narratives wh ! n) = ss_id (wh_snapshots wh ! n)"
    using arg_cong [OF ids, of "\<lambda>xs. xs ! n"] assms(2) len by simp
  with find_distinct [OF d assms(2)]
  have f: "find (\<lambda>s. ss_id s = na_snapshot_id (wh_narratives wh ! n)) (wh_snapshots wh) = Some (wh_snapshots wh ! n)" by simp
  have same: "m\<lparr>na_texts := filled_texts src sid (na_texts m)\<rparr> = m" if "\<not> list_ex (\<lambda>(c, t). t = None) (na_texts m)" for m sid
    using nothing_missing [OF that, of "latest_narrative src sid"] by (simp add: filled_texts_def)
  have "wh_narratives (backfill_narratives src wh) ! n = (if list_ex (\<lambda>(c, t). t = None) (na_texts (wh_narratives wh ! n))
      then backfill_row src (ss_student_id (wh_snapshots wh ! n)) (wh_narratives wh ! n) else wh_narratives wh ! n)"
    using assms(2) len f by (simp add: backfill_narratives_def)
  with same [of "wh_narratives wh ! n" "ss_student_id (wh_snapshots wh ! n)"] show ?thesis
    by (simp add: backfill_row_def filled_texts_def)
qed

lemma backfill_frame:
  "wh_snapshots (backfill_narratives src wh) = wh_snapshots wh" "wh_reports (backfill_narratives src wh) = wh_reports wh"
  "map na_snapshot_id (wh_narratives (backfill_narratives src wh)) = map na_snapshot_id (wh_narratives wh)"
proof -
  have id: "na_snapshot_id (backfill_row src sid n) = na_snapshot_id n" for sid n by (simp add: backfill_row_def)
  show "map na_snapshot_id (wh_narratives (backfill_narratives src wh)) = map na_snapshot_id (wh_narratives wh)"
    by (simp add: backfill_narratives_def id comp_def if_distrib [of na_snapshot_id] option.case_distrib [of na_snapshot_id]
        cong: if_cong option.case_cong) (simp add: split: option.split)
qed (simp_all add: backfill_narratives_def)

lemma backfill_wf:
  assumes "wf_snapshots wh" and "wf_reports H wh"
  shows "wf_snapshots (backfill_narratives src wh) \<and> wf_reports H (backfill_narratives src wh)"
  using assms by (simp add: wf_snapshots_def wf_reports_def backfill_frame)

lemma map_of_values: "map_of (map (\<lambda>(c, t). (c, g c t)) xs) c = map_option (g c) (map_of xs c)"
  by (induction xs) auto

definition no_summary :: "narrative_copy \<Rightarrow> bool" where
  "no_summary n \<longleftrightarrow> map_of (na_texts n) ''risk_summary_text'' \<in> {None, Some None}"

lemma backfill_row_summary:
  assumes "no_summary (backfill_row src sid n)"
  shows "no_summary n"
proof -
  have "map_of (na_texts (backfill_row src sid n)) c = map_option (\<lambda>t. coalesce t (latest_narrative src sid c)) (map_of (na_texts n) c)" for c
    by (simp add: backfill_row_def map_of_values)
  with assms show ?thesis
    by (cases "map_of (na_texts n) ''risk_summary_text''") (auto simp: no_summary_def coalesce_def split: option.split_asm)
qed

lemma filter_map_fewer: "(\<And>n. P (g n) \<Longrightarrow> P n) \<Longrightarrow> length (filter P (map g ns)) \<le> length (filter P ns)"
  by (induction ns) (auto intro: le_SucI)

lemma backfill_fewer: "missing_summaries (backfill_narratives src wh) \<le> missing_summaries wh"
proof -
  define g where "g = (\<lambda>n. case find (\<lambda>s. ss_id s = na_snapshot_id n) (wh_snapshots wh) of None \<Rightarrow> n
    | Some s \<Rightarrow> if list_ex (\<lambda>(c, t). t = None) (na_texts n) then backfill_row src (ss_student_id s) n else n)"
  have "no_summary n" if "no_summary (g n)" for n
    using that backfill_row_summary unfolding g_def by (cases "find (\<lambda>s. ss_id s = na_snapshot_id n) (wh_snapshots wh)") (auto split: if_splits)
  from filter_map_fewer [of no_summary g, OF this] show ?thesis
    unfolding missing_summaries_def backfill_narratives_def no_summary_def [symmetric] g_def by simp
qed

lemma segment_reports_keep:
  assumes "segment_reports envs src ym mode k segs wh = (r, wh')"
    and "wf_snapshots wh" and "wf_reports H wh" and "\<And>k i. se_sha256 (envs k i) = H"
  shows "wf_snapshots wh' \<and> wf_reports H wh' \<and> wh_snapshots wh' = wh_snapshots wh \<and> wh_narratives wh' = wh_narratives wh"
  using assms(1-3)
proof (induction segs arbitrary: k wh r)
  case (Cons seg segs)
  obtain r1 wh1 where one: "generate_cohort_report (envs k) src seg ym mode wh = (r1, wh1)"
    by (cases "generate_cohort_report (envs k) src seg ym mode wh")
  then obtain c where "cohort_loop (envs k) src ym mode 0 (cohort_students seg ym wh) ((0, 0), wh) = (c, wh1)"
    by (auto simp: generate_cohort_report_def Let_def split: prod.split_asm sum.split_asm)
  from cohort_loop_keeps [OF this Cons.prems(2,3)] assms(4) have "job_keeps H wh wh1" by simp
  then have keeps: "wf_snapshots wh1" "wf_reports H wh1" "wh_snapshots wh1 = wh_snapshots wh" "grows wh wh1"
    by (simp_all add: job_keeps_def)
  have "length (wh_narratives wh1) = length (wh_narratives wh)"
    using keeps(1,3) Cons.prems(2) unfolding wf_snapshots_def by (metis length_map)
  with keeps(4) have same: "wh_narratives wh1 = wh_narratives wh" by (auto simp: grows_def)
  show ?case
  proof (cases r1)
    case (Inl e)
    with Cons.prems(1) one keeps same show ?thesis by simp
  next
    case (Inr d)
    obtain r2 wh2 where two: "segment_reports envs src ym mode (Suc k) segs wh1 = (r2, wh2)"
      by (cases "segment_reports envs src ym mode (Suc k) segs wh1")
    have "wh2 = wh'" using Cons.prems(1) one two Inr by (auto split: sum.split_asm)
    with Cons.IH [of "Suc k" wh1 r2] two keeps(1-3) same show ?thesis by simp
  qed
qed simp

text \<open>
  C34. Finalizing reports fills in the narratives of every month: a text that is there stays, and a
  missing text of a snapshot becomes the newest finalized insight of its student and type, whatever
  month the snapshot is of. So the snapshots of a student that lack a text get the same one. Nothing
  else of the snapshots changes, also when a report raises, and a second run, for any month, fills in
  nothing more.
\<close>

theorem finalize_backfills_all_months:
  assumes "finalize_reports envs src ym mode wh = (res, wh')" and "valid_month ym"
    and "wf_snapshots wh" and "wf_reports H wh" and "\<And>k i. se_sha256 (envs k i) = H"
  shows "wf_snapshots wh' \<and> wf_reports H wh' \<and> wh_snapshots wh' = wh_snapshots wh
    \<and> (\<forall>n < length (wh_snapshots wh). let s = wh_snapshots wh ! n; old = wh_narratives wh ! n; new = wh_narratives wh' ! n
         in na_snapshot_id new = ss_id s
            \<and> na_texts new = map (\<lambda>(c, t). (c, coalesce t (latest_narrative src (ss_student_id s) c))) (na_texts old))
    \<and> wh_narratives (backfill_narratives src wh') = wh_narratives wh'
    \<and> (\<forall>ans. res = Inr ans \<longrightarrow> (\<exists>b a. dict_get ans ''narratives_backfilled'' = VInt b \<and> dict_get ans ''narratives_still_null'' = VInt a
         \<and> 0 \<le> b \<and> b + a = missing_summaries wh \<and> a = missing_summaries wh'))"
proof -
  let ?wh1 = "backfill_narratives src wh"
  obtain d where "first_day ym = Inr d" using assms(2) by (auto simp: first_day_def)
  obtain rs where seg: "segment_reports envs src ym mode 0 finalize_segments ?wh1 = (rs, wh')"
    and res: "res = (case rs of Inl e \<Rightarrow> Inl e | Inr results \<Rightarrow> Inr [(''status'', VStr ''complete''), (''report_month'', VStr (month_text ym)),
        (''narratives_backfilled'', VInt (missing_summaries wh - missing_summaries ?wh1)),
        (''narratives_still_null'', VInt (missing_summaries ?wh1)), (''reports'', VDict results)])"
    using assms(1) \<open>first_day ym = Inr d\<close> by (auto simp: finalize_reports_def Let_def split: prod.splits sum.splits)
  note wf1 = backfill_wf [OF assms(3,4), of src]
  from segment_reports_keep [OF seg conjunct1 [OF wf1] conjunct2 [OF wf1] assms(5)] have keeps:
    "wf_snapshots wh'" "wf_reports H wh'" "wh_snapshots wh' = wh_snapshots wh" "wh_narratives wh' = wh_narratives ?wh1"
    by (simp_all add: backfill_frame)
  have ids: "map na_snapshot_id (wh_narratives wh) = map ss_id (wh_snapshots wh)" using assms(3) by (simp add: wf_snapshots_def)
  have len: "length (wh_narratives wh) = length (wh_snapshots wh)" using arg_cong [OF ids, of length] by simp
  have row: "wh_narratives wh' ! n = (wh_narratives wh ! n)\<lparr>na_texts := filled_texts src (ss_student_id (wh_snapshots wh ! n)) (na_texts (wh_narratives wh ! n))\<rparr>"
    if "n < length (wh_snapshots wh)" for n using backfill_nth [OF assms(3) that] keeps(4) by simp
  have id: "na_snapshot_id (wh_narratives wh ! n) = ss_id (wh_snapshots wh ! n)" if "n < length (wh_snapshots wh)" for n
    using arg_cong [OF ids, of "\<lambda>xs. xs ! n"] that len by simp
  have len': "length (wh_narratives wh') = length (wh_snapshots wh)"
    using arg_cong [OF backfill_frame(3) [of src wh], of length] len keeps(4) by simp
  have "wh_narratives (backfill_narratives src wh') ! n = wh_narratives wh' ! n" if "n < length (wh_snapshots wh)" for n
    using backfill_nth [OF keeps(1), of n src] that keeps(3) row [OF that] by (simp add: filled_twice)
  then have again: "wh_narratives (backfill_narratives src wh') = wh_narratives wh'"
    using len' arg_cong [OF backfill_frame(3) [of src wh'], of length] by (intro nth_equalityI) simp_all
  have counts: "missing_summaries wh' = missing_summaries ?wh1" using keeps(4) by (simp add: missing_summaries_def)
  have "\<exists>b a. dict_get ans ''narratives_backfilled'' = VInt b \<and> dict_get ans ''narratives_still_null'' = VInt a
         \<and> 0 \<le> b \<and> b + a = missing_summaries wh \<and> a = missing_summaries wh'" if "res = Inr ans" for ans
    using that res backfill_fewer [of src wh] by (auto simp: counts split: sum.split_asm)
  with keeps(1-3) again row id show ?thesis by (simp add: filled_texts_def Let_def)
qed

definition spring_months :: warehouse where
  "spring_months = empty_warehouse\<lparr>wh_snapshots := [sample_snapshot, sample_snapshot\<lparr>ss_id := 2, ss_month := (2024, 3)\<rparr>],
     wh_narratives := [\<lparr>na_snapshot_id = 1, na_texts = [(''risk_summary_text'', None)]\<rparr>,
       \<lparr>na_snapshot_id = 2, na_texts = [(''risk_summary_text'', Some ''kept'')]\<rparr>]\<rparr>"

definition one_insight :: cached_insight where
  "one_insight = \<lparr>ci_id = 1, ci_user_id = 7, ci_insight_type = ''risk_summary'', ci_content_text = Some ''new'', ci_model_used = None,
     ci_is_finalized = True, ci_correlation_id = None, ci_execution_mode = ''SHADOW'', ci_execution_type = ''original'',
     ci_governance_scope = ''SHADOW_ONLY'', ci_origin_source = None, ci_origin_authority = None, ci_is_replay = False,
     ci_created_at = 100, ci_expires_at = None\<rparr>"

definition insight_tables :: platform_tables where
  "insight_tables = (sample_tables Map.empty)\<lparr>pl_insights := [one_insight]\<rparr>"

lemma spring_months_wf: "wf_snapshots spring_months" "wf_reports id spring_months"
  by (simp_all add: spring_months_def wf_snapshots_def wf_reports_def wf_snapshot_def sample_snapshot_def well_typed_cells_def
      sample_row_def get_def segment_values_def risk_values_def mode_fits_def empty_warehouse_def)

lemma finalize_backfills_all_months_witness:
  "map na_texts (wh_narratives (snd (finalize_reports (\<lambda>_ _. sample_snapshot_env) insight_tables (2024, 3) ''SHADOW'' spring_months)))
    = [[(''risk_summary_text'', Some ''new'')], [(''risk_summary_text'', Some ''kept'')]]"
proof -
  obtain res wh' where run: "finalize_reports (\<lambda>_ _. sample_snapshot_env) insight_tables (2024, 3) ''SHADOW'' spring_months = (res, wh')"
    by (cases "finalize_reports (\<lambda>_ _. sample_snapshot_env) insight_tables (2024, 3) ''SHADOW'' spring_months")
  have m: "valid_month (2024, 3)" by (simp add: valid_month_def)
  have sha: "se_sha256 sample_snapshot_env = id" by (simp add: sample_snapshot_env_def id_def)
  have found: "latest_narrative insight_tables 7 ''risk_summary_text'' = Some ''new''" by code_simp
  note claim = finalize_backfills_all_months [OF run m spring_months_wf sha]
  then have ids: "map na_snapshot_id (wh_narratives wh') = map ss_id (wh_snapshots spring_months)"
    by (simp add: wf_snapshots_def)
  then obtain a b where ab: "wh_narratives wh' = [a, b]" by (auto simp: spring_months_def)
  from claim have "na_texts (wh_narratives wh' ! n) = map (\<lambda>(c, t). (c, coalesce t (latest_narrative insight_tables
      (ss_student_id (wh_snapshots spring_months ! n)) c))) (na_texts (wh_narratives spring_months ! n))" if "n < 2" for n
    using that by (simp add: spring_months_def Let_def)
  from this [of 0] this [of 1] have "na_texts a = [(''risk_summary_text'', Some ''new'')]" "na_texts b = [(''risk_summary_text'', Some ''kept'')]"
    by (simp_all add: ab spring_months_def sample_snapshot_def found coalesce_def)
  then show ?thesis by (simp add: run ab)
qed

section \<open>The pipeline\<close>

lemma ipbc_no_scanned: "sync_ipbc_students lib now f st = (Inr r, st') \<Longrightarrow> int_field r ''rows_scanned'' = 0"
  by (auto simp: sync_ipbc_students_def fetch_failed_def run_import_def int_field_def Let_def split: prod.split_asm if_split_asm sum.split_asm)

lemma sync_steps_Cons:
  assumes "sync_steps ((k, run) # steps) st = (Inr rs, st')"
  obtains r st1 rs' where "run st = (Inr r, st1)" "sync_steps steps st1 = (Inr rs', st')" "rs = (k, r) # rs'"
  using assms by (auto split: prod.split_asm sum.split_asm)

text \<open>
  The answer of the pipeline does not say whether its steps worked. It always counts no IPBC
  students, because the result it reads has no such field. When every fetch fails with a message,
  the mirror stays as it was, nothing is counted, and the snapshots are assembled from the old data
  under the status of a running pipeline.
\<close>

theorem pipeline_hides_failures:
  "case run_pipeline lib L f envs src students ym mode (sy, wh) of
     (Inl e, sy', wh') \<Rightarrow> True
   | (Inr ans, sy', wh') \<Rightarrow> dict_get ans ''status'' = VStr ''pipeline_running'' \<and> dict_get ans ''ipbc_scanned'' = VInt 0
       \<and> dict_get ans ''students_synced'' = dict_get ans ''jrp_scanned''
       \<and> ((\<forall>g \<in> {pf_students f, pf_ipbc f, pf_payments f, pf_plans f}. given (snd g)) \<longrightarrow>
            sy_db sy' = sy_db sy \<and> dict_get ans ''students_synced'' = VInt 0
            \<and> (\<exists>snaps. assemble_all_active_snapshots envs (src\<lparr>pl_db := sy_db sy\<rparr>) (students (sy_db sy)) ym mode None wh = (Inr snaps, wh')
                 \<and> dict_get ans ''snapshots'' = VDict snaps))"
proof (cases "run_pipeline lib L f envs src students ym mode (sy, wh)")
  case (fields res sy' wh')
  show ?thesis
  proof (cases res)
    case (Inl e)
    with fields show ?thesis by simp
  next
    case (Inr ans)
    have run: "run_pipeline lib L f envs src students ym mode (sy, wh) = (Inr ans, sy', wh')" using fields Inr by simp
    then obtain results snaps where steps: "sync_steps (pipeline_steps lib L f) sy = (Inr results, sy')"
      and snaps: "assemble_all_active_snapshots envs (src\<lparr>pl_db := sy_db sy'\<rparr>) (students (sy_db sy')) ym mode None wh = (Inr snaps, wh')"
      and ans: "ans = pipeline_answer results snaps"
      by (auto simp: run_pipeline_def split: sum.split_asm prod.split_asm)
    from steps obtain r1 s1 rs1 where one: "sync_from_mssql lib (pf_students f) sy = (Inr r1, s1)" "results = (''jrp'', r1) # rs1"
      "sync_steps [(''ipbc'', sync_ipbc_students lib (pf_now f) (pf_ipbc f)), (''payments'', sync_payments lib L (pf_payments f)),
         (''ipbc_plans'', sync_ipbc_payment_plans lib L (pf_plans f) (pf_plan_students f))] s1 = (Inr rs1, sy')"
      unfolding pipeline_steps_def by (rule sync_steps_Cons)
    from one(3) obtain r2 s2 rs2 where two: "sync_ipbc_students lib (pf_now f) (pf_ipbc f) s1 = (Inr r2, s2)" "rs1 = (''ipbc'', r2) # rs2"
      "sync_steps [(''payments'', sync_payments lib L (pf_payments f)),
         (''ipbc_plans'', sync_ipbc_payment_plans lib L (pf_plans f) (pf_plan_students f))] s2 = (Inr rs2, sy')"
      by (rule sync_steps_Cons)
    from two(3) obtain r3 s3 rs3 where three: "sync_payments lib L (pf_payments f) s2 = (Inr r3, s3)" "rs2 = (''payments'', r3) # rs3"
      "sync_steps [(''ipbc_plans'', sync_ipbc_payment_plans lib L (pf_plans f) (pf_plan_students f))] s3 = (Inr rs3, sy')"
      by (rule sync_steps_Cons)
    from three(3) obtain r4 where four: "sync_ipbc_payment_plans lib L (pf_plans f) (pf_plan_students f) s3 = (Inr r4, sy')"
      by (rule sync_steps_Cons) auto
    note zero = ipbc_no_scanned [OF two(1)]
    have failing: "sy_db sy' = sy_db sy \<and> int_field r1 ''rows_scanned'' = 0"
      if "\<forall>g \<in> {pf_students f, pf_ipbc f, pf_payments f, pf_plans f}. given (snd g)"
    proof -
      have "sy_db s1 = sy_db sy \<and> int_field r1 ''rows_scanned'' = 0"
        using one(1) that by (auto simp: sync_from_mssql_def fetch_failed_def failed_result_def int_field_def case_prod_unfold Let_def)
      moreover have "sy_db s2 = sy_db s1"
        using two(1) that by (auto simp: sync_ipbc_students_def fetch_failed_def case_prod_unfold Let_def)
      moreover have "sy_db s3 = sy_db s2"
        using three(1) that by (auto simp: sync_payments_def payment_failed_def case_prod_unfold Let_def)
      moreover have "sy_db sy' = sy_db s3"
        using four that by (auto simp: sync_ipbc_payment_plans_def payment_failed_def case_prod_unfold Let_def)
      ultimately show ?thesis by simp
    qed
    have jrp: "dict_get ans ''jrp_scanned'' = VInt (int_field r1 ''rows_scanned'')" and ipbc: "dict_get ans ''ipbc_scanned'' = VInt 0"
      and sum: "dict_get ans ''students_synced'' = VInt (int_field r1 ''rows_scanned'')"
      and status: "dict_get ans ''status'' = VStr ''pipeline_running''" and sn: "dict_get ans ''snapshots'' = VDict snaps"
      using zero by (simp_all add: ans pipeline_answer_def one(2) two(2) Let_def)
    show ?thesis using fields Inr jrp ipbc sum status sn failing snaps by auto
  qed
qed

definition failing_fetches :: pipeline_fetches where
  "failing_fetches = \<lparr>pf_students = ([], Some ''down''), pf_ipbc = ([], Some ''down''), pf_payments = ([], Some ''down''),
     pf_plans = ([], Some ''down''), pf_plan_students = ([], Some ''down''), pf_now = ''now''\<rparr>"

lemma pipeline_hides_failures_witness:
  "\<forall>lib L envs src sy wh. \<exists>ans sy' wh'. run_pipeline lib L failing_fetches envs src (\<lambda>_. []) (2024, 2) ''SHADOW'' (sy, wh) = (Inr ans, sy', wh')
     \<and> dict_get ans ''status'' = VStr ''pipeline_running'' \<and> sy_db sy' = sy_db sy"
proof (intro allI)
  fix lib L envs src sy wh
  have "\<exists>ans sy' wh'. run_pipeline lib L failing_fetches envs src (\<lambda>_. []) (2024, 2) ''SHADOW'' (sy, wh) = (Inr ans, sy', wh')"
    by (simp add: run_pipeline_def first_day_def valid_month_def pipeline_steps_def failing_fetches_def sync_from_mssql_def
        sync_ipbc_students_def sync_payments_def sync_ipbc_payment_plans_def fetch_failed_def payment_failed_def
        assemble_all_active_snapshots_def Let_def)
  then obtain ans sy' wh' where run: "run_pipeline lib L failing_fetches envs src (\<lambda>_. []) (2024, 2) ''SHADOW'' (sy, wh) = (Inr ans, sy', wh')"
    by blast
  have "\<forall>g \<in> {pf_students failing_fetches, pf_ipbc failing_fetches, pf_payments failing_fetches, pf_plans failing_fetches}. given (snd g)"
    by (simp add: failing_fetches_def)
  with pipeline_hides_failures [where lib = lib and L = L and f = failing_fetches and envs = envs and src = src and students = "\<lambda>_. []"
      and ym = "(2024, 2)" and mode = "''SHADOW''" and sy = sy and wh = wh] run show "\<exists>ans sy' wh'. run_pipeline lib L failing_fetches envs src (\<lambda>_. []) (2024, 2) ''SHADOW'' (sy, wh) = (Inr ans, sy', wh')
     \<and> dict_get ans ''status'' = VStr ''pipeline_running'' \<and> sy_db sy' = sy_db sy"
    by auto
qed

end
