(* ===== verification/Lifecycle.thy ===== *)
theory Lifecycle
  imports WorkQueue
begin

text \<open>
  The lifecycle tabs of \<^verbatim>\<open>routers/lifecycle.py\<close>: which mirrored students a tab shows,
  the latest campaign activity and note of each, and the derived columns. A row is a map from column
  names to cells, like a student; a query returns rows in the order of the lists. Instants of
  timestamps are a parameter, the conversions are those of \<open>Dates\<close>; log lines are left out.
\<close>

section \<open>Latest entries\<close>

record campaign_row =
  cg_student_user_id :: int
  cg_created_at :: int
  cg_activity_date :: cell
  cg_activity_type :: "string option"
  cg_activity_label :: "string option"

record note_row =
  nt_user_id :: int
  nt_created_at :: int
  nt_content :: string

text \<open>\<^verbatim>\<open>ORDER BY user, created_at DESC\<close>, then the first row of each user.\<close>

definition by_user_newest :: "('a \<Rightarrow> int) \<Rightarrow> ('a \<Rightarrow> int) \<Rightarrow> 'a list \<Rightarrow> 'a list" where
  "by_user_newest user time xs = sort_key user (rev (sort_key time (rev xs)))"

definition first_seen :: "('a \<Rightarrow> int) \<Rightarrow> 'a list \<Rightarrow> int \<rightharpoonup> 'a" where
  "first_seen user xs = fold (\<lambda>a seen. if seen (user a) = None then seen(user a \<mapsto> a) else seen) xs Map.empty"

definition latest_map :: "('a \<Rightarrow> int) \<Rightarrow> ('a \<Rightarrow> int) \<Rightarrow> int list \<Rightarrow> 'a list \<Rightarrow> int \<rightharpoonup> 'a" where
  "latest_map user time user_ids xs =
    (if user_ids = [] then Map.empty
     else first_seen user (by_user_newest user time (filter (\<lambda>a. user a \<in> set user_ids) xs)))"

definition activity_map :: "int list \<Rightarrow> campaign_row list \<Rightarrow> int \<rightharpoonup> campaign_row" where
  "activity_map = latest_map cg_student_user_id cg_created_at"

definition note_map :: "int list \<Rightarrow> note_row list \<Rightarrow> int \<rightharpoonup> note_row" where
  "note_map = latest_map nt_user_id nt_created_at"

section \<open>Rows\<close>

definition text_option :: "string option \<Rightarrow> cell" where
  "text_option s = (case s of None \<Rightarrow> CNull | Some t \<Rightarrow> CText t)"

definition put :: "string \<Rightarrow> cell \<Rightarrow> student \<Rightarrow> student" where
  "put k v r = r(k \<mapsto> v)"

definition merge_activity ::
  "date_env \<Rightarrow> (int \<rightharpoonup> campaign_row) \<Rightarrow> (int \<rightharpoonup> note_row) \<Rightarrow> int \<times> student \<Rightarrow> int \<times> student" where
  "merge_activity env acts notes x =
    (case x of (uid, r) \<Rightarrow>
       let a = acts uid;
           content = (case notes uid of None \<Rightarrow> CNull | Some n \<Rightarrow> CText (nt_content n))
       in (uid, (put ''last_campaign_activity_date'' (case a of None \<Rightarrow> CNull | Some c \<Rightarrow> text_option (to_isostr env (cg_activity_date c)))
          \<circ> put ''last_campaign_activity_type'' (case a of None \<Rightarrow> CNull | Some c \<Rightarrow> text_option (cg_activity_type c))
          \<circ> put ''last_campaign_activity'' (case a of None \<Rightarrow> CNull | Some c \<Rightarrow> text_option (cg_activity_label c))
          \<circ> put ''campaign_notes'' content \<circ> put ''notes'' content) r))"

text \<open>\<^verbatim>\<open>r.setdefault(k, None)\<close>\<close>

definition null_if_absent :: "string \<Rightarrow> student \<Rightarrow> student" where
  "null_if_absent k r = (if r k = None then put k CNull r else r)"

definition unsourced_fields :: "string list" where
  "unsourced_fields =
    [''mentor_name'', ''mentor_email'', ''super_mentor_name'', ''super_mentor_email'', ''instructor_name'',
     ''instructor_email'', ''mm_user_id'', ''days_to_market'', ''plan_name'', ''agreement_signed'', ''certified_date'',
     ''ssis_start_date'', ''days_old'', ''months_back_ssis'', ''ssis_completion_days'', ''last_interview'',
     ''last_interview_days_ago'', ''recruiter_interview_count'', ''technical_interview_count'',
     ''recruiter_to_technical_ratio'', ''avg_interview_prep_score'', ''avg_interview_score'', ''chat_gpt_prompt'']"

text \<open>\<^verbatim>\<open>serialize_datetime_fields\<close>\<close>

definition serialize_datetime_fields :: "string list \<Rightarrow> student \<Rightarrow> student" where
  "serialize_datetime_fields ks r =
     fold (\<lambda>k r. case attr r k of CTime t \<Rightarrow> put k (CText t) r | _ \<Rightarrow> r) ks r"

definition compute_row :: "date_env \<Rightarrow> nat \<Rightarrow> int \<times> student \<Rightarrow> (int \<times> student) call_res" where
  "compute_row env i x =
    (case x of (uid, r) \<Rightarrow>
       bind_call (weeks_in_program env (or_cell (attr r ''IPBCStartDate'') (attr r ''StudentStartDate''))) (\<lambda>weeks.
       let derived = put ''row_id'' (CInt (int i + 1)) r;
           derived = put ''student_name'' (CText (shown_name (de_str env) uid r)) derived;
           derived = put ''weeks_in_program'' (int_cell weeks) derived;
           derived = put ''last_hw_submitted_days''
             (int_cell (hw_submitted_days env (attr r ''LastSubmitted'') (whole (attr r ''LastActivityDays'')))) derived;
           derived = put ''active_student'' (CInt (active_student_flag env (attr r ''ActiveStatus''))) derived;
           derived = fold null_if_absent unsourced_fields derived;
           derived = put ''down_payment'' (attr r ''down_payment_amt'') derived
       in Inr (uid, serialize_datetime_fields [''IPBCStartDate'', ''StudentStartDate'', ''ClassStartDate''] derived)))"

fun compute_rows :: "date_env \<Rightarrow> nat \<Rightarrow> mirror_rows \<Rightarrow> mirror_rows call_res" where
  "compute_rows env i [] = Inr []"
| "compute_rows env i (x # xs) =
     bind_call (compute_row env i x) (\<lambda>y. bind_call (compute_rows env (i + 1) xs) (\<lambda>ys. Inr (y # ys)))"

section \<open>Tabs\<close>

text \<open>\<^verbatim>\<open>v > q\<close> in the database: null is not, and the float that is not a number is greater than any.\<close>

definition sql_above :: "cell \<Rightarrow> rat \<Rightarrow> bool" where
  "sql_above v q = (case cell_number v of Inl e \<Rightarrow> False | Inr x \<Rightarrow> x = NaN \<or> fgt x (Fin q))"

definition ilike :: "cell \<Rightarrow> string \<Rightarrow> bool" where
  "ilike v p = (case v of CText s \<Rightarrow> contains (lower p) (lower s) | _ \<Rightarrow> False)"

definition since :: "(string \<Rightarrow> int) \<Rightarrow> int \<Rightarrow> cell \<Rightarrow> bool" where
  "since instant cutoff v = (case v of CTime t \<Rightarrow> cutoff \<le> instant t | _ \<Rightarrow> False)"

datatype tab = Newcomers | Engagement | HwRisk | CapHopefuls | LaunchHopefuls | PlacementHopefuls

fun tab_name :: "tab \<Rightarrow> string" where
  "tab_name Newcomers = ''newcomers''"
| "tab_name Engagement = ''engagement''"
| "tab_name HwRisk = ''hw_risk''"
| "tab_name CapHopefuls = ''cap_hopefuls''"
| "tab_name LaunchHopefuls = ''launch_hopefuls''"
| "tab_name PlacementHopefuls = ''placement_hopefuls''"

text \<open>The cutoff is the instant ninety days ago.\<close>

fun on_tab :: "(string \<Rightarrow> int) \<Rightarrow> int \<Rightarrow> tab \<Rightarrow> student \<Rightarrow> bool" where
  "on_tab instant cutoff Newcomers s =
     (attr s ''IPBCStartDate'' \<noteq> CNull \<and> since instant cutoff (attr s ''IPBCStartDate'')
      \<or> attr s ''IPBCStartDate'' = CNull \<and> attr s ''StudentStartDate'' \<noteq> CNull \<and> since instant cutoff (attr s ''StudentStartDate''))"
| "on_tab instant cutoff Engagement s = True"
| "on_tab instant cutoff HwRisk s = True"
| "on_tab instant cutoff CapHopefuls s =
     (attr s ''AttendancePercentage'' \<noteq> CNull \<and> sql_above (attr s ''AttendancePercentage'') 50)"
| "on_tab instant cutoff LaunchHopefuls s =
     (attr s ''IPBCStartDate'' \<noteq> CNull \<and> sql_above (attr s ''AttendancePercentage'') 70
      \<and> ilike (attr s ''LastActivitySection'') ''CAP Project'')"
| "on_tab instant cutoff PlacementHopefuls s =
     (attr s ''IPBCStartDate'' \<noteq> CNull \<and> sql_above (attr s ''AttendancePercentage'') 70
      \<and> ilike (attr s ''LastActivitySection'') ''Launch'')"

definition tab_students :: "(string \<Rightarrow> int) \<Rightarrow> int \<Rightarrow> tab \<Rightarrow> nat \<Rightarrow> mirror_rows \<Rightarrow> mirror_rows" where
  "tab_students instant cutoff tab most students = take most (filter (\<lambda>(uid, s). on_tab instant cutoff tab s) students)"

record tab_answer =
  ta_tab :: string
  ta_total :: int
  ta_rows :: mirror_rows

definition tab_endpoint ::
  "date_env \<Rightarrow> (string \<Rightarrow> int) \<Rightarrow> int \<Rightarrow> tab \<Rightarrow> nat \<Rightarrow> mirror_rows \<Rightarrow> campaign_row list \<Rightarrow> note_row list \<Rightarrow> tab_answer call_res" where
  "tab_endpoint env instant cutoff tab most students activities notes =
    (let rows = tab_students instant cutoff tab most students;
         user_ids = map fst rows;
         merged = map (merge_activity env (activity_map user_ids activities) (note_map user_ids notes)) rows
     in bind_call (compute_rows env 0 merged) (\<lambda>computed.
        Inr \<lparr>ta_tab = tab_name tab, ta_total = int (length computed), ta_rows = computed\<rparr>))"

end
