(* ===== verification/LifecycleProps.thy ===== *)
theory LifecycleProps
  imports Lifecycle Segmentation Snapshot
begin

text \<open>
  Properties of the lifecycle tabs: the rows of a tab, the latest activity and note, and how the tabs
  relate to the other two definitions of the cohorts.
\<close>

section \<open>Latest entries\<close>

lemma first_seen_find: "first_seen user xs u = find (\<lambda>a. user a = u) xs"
proof -
  have "fold (\<lambda>a seen. if seen (user a) = None then seen(user a \<mapsto> a) else seen) xs m u
      = (case m u of None \<Rightarrow> find (\<lambda>a. user a = u) xs | Some a \<Rightarrow> Some a)" for m
    by (induction xs arbitrary: m) (auto split: option.split)
  then show ?thesis by (simp add: first_seen_def)
qed

lemma find_filter: "find P xs = (case filter P xs of [] \<Rightarrow> None | a # as \<Rightarrow> Some a)"
  by (induction xs) auto

lemma newest_of_user: "filter (\<lambda>a. user a = u) (by_user_newest user time xs) = rev (sort_key time (rev (filter (\<lambda>a. user a = u) xs)))"
  by (simp add: by_user_newest_def sort_key_stable filter_sort flip: rev_filter)

lemma head_newest:
  assumes "rev (sort_key time ys) = a # as"
  shows "a \<in> set ys \<and> (\<forall>b \<in> set ys. time b \<le> time a)"
proof -
  have s: "sort_key time ys = rev as @ [a]" using arg_cong [OF assms, of rev] by simp
  have "sorted (map time (rev as @ [a]))" using sorted_sort_key [of time ys] by (simp add: s)
  then have "\<forall>b \<in> set (rev as @ [a]). time b \<le> time a" by (auto simp: sorted_append)
  moreover have "set (rev as @ [a]) = set ys" by (metis s set_sort)
  ultimately show ?thesis by auto
qed

lemma latest_map_newest:
  "case latest_map user time uids xs u of
     None \<Rightarrow> \<not> (u \<in> set uids \<and> (\<exists>b \<in> set xs. user b = u))
   | Some a \<Rightarrow> u \<in> set uids \<and> a \<in> set xs \<and> user a = u \<and> (\<forall>b \<in> set xs. user b = u \<longrightarrow> time b \<le> time a)"
proof (cases "uids = []")
  case False
  let ?mine = "filter (\<lambda>a. user a = u) (filter (\<lambda>a. user a \<in> set uids) xs)"
  have eq: "latest_map user time uids xs u = (case rev (sort_key time (rev ?mine)) of [] \<Rightarrow> None | a # as \<Rightarrow> Some a)"
    using False by (simp add: latest_map_def first_seen_find find_filter newest_of_user)
  show ?thesis
  proof (cases "rev (sort_key time (rev ?mine))")
    case Nil
    then have "?mine = []" by (metis length_0_conv length_rev length_sort)
    then show ?thesis unfolding eq Nil by (auto simp: filter_empty_conv)
  next
    case (Cons a as)
    from head_newest [OF Cons] show ?thesis unfolding eq Cons by auto
  qed
qed (simp add: latest_map_def)

text \<open>The value of the newest entry of a student, and null when there is none.\<close>

definition newest_value :: "('a \<Rightarrow> int) \<Rightarrow> ('a \<Rightarrow> int) \<Rightarrow> ('a \<Rightarrow> cell) \<Rightarrow> 'a list \<Rightarrow> int \<Rightarrow> cell \<Rightarrow> bool" where
  "newest_value user time value xs u v \<longleftrightarrow>
    (if \<exists>a \<in> set xs. user a = u
     then \<exists>a \<in> set xs. user a = u \<and> v = value a \<and> (\<forall>b \<in> set xs. user b = u \<longrightarrow> time b \<le> time a)
     else v = CNull)"

lemma newest_value_latest:
  assumes "u \<in> set uids"
  shows "newest_value user time value xs u (case latest_map user time uids xs u of None \<Rightarrow> CNull | Some a \<Rightarrow> value a)"
proof (cases "latest_map user time uids xs u")
  case None
  then show ?thesis using assms latest_map_newest [where user = user and time = time and uids = uids and xs = xs and u = u] by (simp add: newest_value_def)
next
  case (Some a)
  then show ?thesis using latest_map_newest [where user = user and time = time and uids = uids and xs = xs and u = u] by (auto simp: newest_value_def)
qed

section \<open>The rows of a tab\<close>

text \<open>The start dates are times or missing, as the types of the columns demand.\<close>

definition dated :: "student \<Rightarrow> bool" where
  "dated s \<longleftrightarrow> (\<forall>k \<in> {''IPBCStartDate'', ''StudentStartDate''}. attr s k = CNull \<or> (\<exists>t. attr s k = CTime t))"

definition derived_fields :: "string list" where
  "derived_fields = [''row_id'', ''student_name'', ''weeks_in_program'', ''last_hw_submitted_days'', ''active_student'', ''down_payment'',
     ''last_campaign_activity_date'', ''last_campaign_activity_type'', ''last_campaign_activity'', ''campaign_notes'', ''notes'',
     ''IPBCStartDate'', ''StudentStartDate'', ''ClassStartDate''] @ unsourced_fields"

lemma attr_put: "attr (put k v r) k' = (if k' = k then v else attr r k')"
  by (simp add: attr_def put_def)

lemma attr_null_if_absent: "attr (null_if_absent k r) k' = attr r k'"
  by (simp add: null_if_absent_def attr_put) (simp add: attr_def)

lemma attr_null_fields: "attr (fold null_if_absent ks r) k = attr r k"
  by (induction ks arbitrary: r) (simp_all add: attr_null_if_absent)

lemma attr_serialize: "k \<notin> set ks \<Longrightarrow> attr (serialize_datetime_fields ks r) k = attr r k"
proof -
  assume "k \<notin> set ks"
  then have "attr (fold (\<lambda>k r. case attr r k of CTime t \<Rightarrow> put k (CText t) r | _ \<Rightarrow> r) ks r) k = attr r k"
    by (induction ks arbitrary: r) (auto simp: attr_put split: cell.split)
  then show ?thesis by (simp add: serialize_datetime_fields_def)
qed

lemma compute_row_total:
  assumes "dated (snd x)"
  shows "\<exists>r. compute_row env i x = Inr (fst x, r)"
proof -
  obtain uid s where x: "x = (uid, s)" by (cases x)
  have "or_cell (attr s ''IPBCStartDate'') (attr s ''StudentStartDate'') = CNull
      \<or> (\<exists>t. or_cell (attr s ''IPBCStartDate'') (attr s ''StudentStartDate'') = CTime t)"
    using assms by (auto simp: x dated_def or_cell_def)
  then obtain w where "weeks_in_program env (or_cell (attr s ''IPBCStartDate'') (attr s ''StudentStartDate'')) = Inr w"
    by (auto simp: weeks_in_program_def)
  then show ?thesis by (simp add: x compute_row_def Let_def)
qed

lemma compute_row_fields:
  assumes "compute_row env i (uid, s) = Inr (uid', r)"
  shows "uid' = uid \<and> attr r ''row_id'' = CInt (int i + 1) \<and> attr r ''student_name'' = CText (shown_name (de_str env) uid s)
    \<and> attr r ''down_payment'' = attr s ''down_payment_amt''
    \<and> (\<forall>k. k \<notin> {''row_id'', ''student_name'', ''weeks_in_program'', ''last_hw_submitted_days'', ''active_student'', ''down_payment'',
          ''IPBCStartDate'', ''StudentStartDate'', ''ClassStartDate''} \<longrightarrow> attr r k = attr s k)"
proof -
  obtain w where r: "r = serialize_datetime_fields [''IPBCStartDate'', ''StudentStartDate'', ''ClassStartDate'']
      (let derived = put ''row_id'' (CInt (int i + 1)) s;
           derived = put ''student_name'' (CText (shown_name (de_str env) uid s)) derived;
           derived = put ''weeks_in_program'' (int_cell w) derived;
           derived = put ''last_hw_submitted_days''
             (int_cell (hw_submitted_days env (attr s ''LastSubmitted'') (whole (attr s ''LastActivityDays'')))) derived;
           derived = put ''active_student'' (CInt (active_student_flag env (attr s ''ActiveStatus''))) derived;
           derived = fold null_if_absent unsourced_fields derived
       in put ''down_payment'' (attr s ''down_payment_amt'') derived)" and "uid' = uid"
    using assms by (auto simp: compute_row_def bind_call_Inr Let_def)
  then show ?thesis by (simp add: attr_serialize attr_put attr_null_fields Let_def)
qed

lemma compute_rows_fields:
  assumes "list_all (dated \<circ> snd) xs"
  shows "\<exists>ys. compute_rows env i xs = Inr ys \<and> map fst ys = map fst xs
    \<and> (\<forall>n < length xs. compute_row env (i + n) (xs ! n) = Inr (ys ! n))"
  using assms
proof (induction xs arbitrary: i)
  case (Cons x xs)
  then obtain r where r: "compute_row env i x = Inr (fst x, r)" using compute_row_total by fastforce
  from Cons.prems Cons.IH [of "i + 1"] obtain ys where ys: "compute_rows env (i + 1) xs = Inr ys" "map fst ys = map fst xs"
    "\<forall>n < length xs. compute_row env (i + 1 + n) (xs ! n) = Inr (ys ! n)" by (simp only: list.pred_inject) blast
  have "compute_row env (i + n) ((x # xs) ! n) = Inr (((fst x, r) # ys) ! n)" if "n < length (x # xs)" for n
    using that r ys(3) by (cases n) auto
  with r ys(1,2) show ?case by (intro exI [of _ "(fst x, r) # ys"]) simp
qed simp

lemma merge_fields:
  "fst (merge_activity env acts notes (uid, s)) = uid"
  "attr (snd (merge_activity env acts notes (uid, s))) ''last_campaign_activity'' =
     (case acts uid of None \<Rightarrow> CNull | Some c \<Rightarrow> text_option (cg_activity_label c))"
  "attr (snd (merge_activity env acts notes (uid, s))) ''notes'' = (case notes uid of None \<Rightarrow> CNull | Some n \<Rightarrow> CText (nt_content n))"
  "k \<notin> {''last_campaign_activity_date'', ''last_campaign_activity_type'', ''last_campaign_activity'', ''campaign_notes'', ''notes''}
    \<Longrightarrow> attr (snd (merge_activity env acts notes (uid, s))) k = attr s k"
  by (simp_all add: merge_activity_def Let_def attr_put)

text \<open>
  A tab shows, in the order of the query, the first matching students up to its limit, one row
  each. Rows are numbered from one, a row shows the label of the newest campaign activity of the
  student and the content of the newest note, or null when there is none, and every column that is
  not derived is the column of the mirror.
\<close>

theorem lifecycle_rows:
  fixes instant :: "string \<Rightarrow> int" and cutoff :: int and tab :: tab and most :: nat
  assumes "list_all (dated \<circ> snd) students"
  defines "shown \<equiv> take most (filter (\<lambda>(uid, s). on_tab instant cutoff tab s) students)"
  shows "\<exists>ans. tab_endpoint env instant cutoff tab most students activities note_rows = Inr ans
    \<and> ta_total ans = int (length shown) \<and> map fst (ta_rows ans) = map fst shown
    \<and> (\<forall>n < length shown. let (uid, s) = shown ! n; r = snd (ta_rows ans ! n)
         in attr r ''row_id'' = CInt (int n + 1)
            \<and> (\<forall>k. k \<notin> set derived_fields \<longrightarrow> attr r k = attr s k)
            \<and> newest_value cg_student_user_id cg_created_at (text_option \<circ> cg_activity_label) activities uid (attr r ''last_campaign_activity'')
            \<and> newest_value nt_user_id nt_created_at (CText \<circ> nt_content) note_rows uid (attr r ''notes''))"
proof -
  let ?rows = shown
  let ?acts = "activity_map (map fst ?rows) activities" and ?notes = "note_map (map fst ?rows) note_rows"
  let ?merged = "map (merge_activity env ?acts ?notes) ?rows"
  have same: "dated (snd (merge_activity env ?acts ?notes x)) = dated (snd x)" for x
    by (cases x) (simp add: dated_def merge_fields)
  have "list_all (dated \<circ> snd) ?rows"
    using assms(1) by (auto simp: shown_def list_all_iff dest!: in_set_takeD)
  then have "list_all (dated \<circ> snd) ?merged" by (simp add: list_all_iff same)
  from compute_rows_fields [OF this, of env 0] obtain ys where ys: "compute_rows env 0 ?merged = Inr ys" "map fst ys = map fst ?merged"
    "\<forall>n < length ?merged. compute_row env (0 + n) (?merged ! n) = Inr (ys ! n)" by blast
  have fsts: "map fst ?merged = map fst ?rows" by (simp add: comp_def) (metis (mono_tags, lifting) merge_fields(1) prod.collapse)
  have len: "length ys = length ?rows" using arg_cong [OF ys(2), of length] by simp
  have row: "let (uid, s) = ?rows ! n; r = snd (ys ! n)
         in attr r ''row_id'' = CInt (int n + 1)
            \<and> (\<forall>k. k \<notin> set derived_fields \<longrightarrow> attr r k = attr s k)
            \<and> attr r ''last_campaign_activity'' = (case ?acts uid of None \<Rightarrow> CNull | Some c \<Rightarrow> text_option (cg_activity_label c))
            \<and> attr r ''notes'' = (case ?notes uid of None \<Rightarrow> CNull | Some n \<Rightarrow> CText (nt_content n)) \<and> uid \<in> set (map fst ?rows)"
    if n: "n < length ?rows" for n
  proof -
    obtain uid s where x: "?rows ! n = (uid, s)" by (cases "?rows ! n")
    obtain m where m: "merge_activity env ?acts ?notes (uid, s) = (uid, m)" by (metis merge_fields(1) prod.collapse)
    obtain r where r: "ys ! n = (uid, r)" "compute_row env n (uid, m) = Inr (uid, r)"
      using ys(3) n x m compute_row_fields [of env n uid m] by (cases "ys ! n") fastforce
    note f = compute_row_fields [OF r(2)] and g = merge_fields(2,3) [of env ?acts ?notes uid s, unfolded m snd_conv] and h = merge_fields(4) [of _ env ?acts ?notes uid s, unfolded m snd_conv]
    have "uid \<in> set (map fst ?rows)" using n x by (metis fst_conv length_map nth_map nth_mem)
    moreover have "attr r k = attr s k" if "k \<notin> set derived_fields" for k
      using that f h [of k] by (simp add: derived_fields_def)
    ultimately show ?thesis using f g by (simp add: x r(1))
  qed
  have ans: "tab_endpoint env instant cutoff tab most students activities note_rows
      = Inr \<lparr>ta_tab = tab_name tab, ta_total = int (length ys), ta_rows = ys\<rparr>"
    using ys(1) by (simp add: tab_endpoint_def tab_students_def shown_def Let_def)
  have "let (uid, s) = ?rows ! n; r = snd (ys ! n)
         in attr r ''row_id'' = CInt (int n + 1)
            \<and> (\<forall>k. k \<notin> set derived_fields \<longrightarrow> attr r k = attr s k)
            \<and> newest_value cg_student_user_id cg_created_at (text_option \<circ> cg_activity_label) activities uid (attr r ''last_campaign_activity'')
            \<and> newest_value nt_user_id nt_created_at (CText \<circ> nt_content) note_rows uid (attr r ''notes'')"
    if n: "n < length ?rows" for n
  proof -
    obtain uid s where x: "?rows ! n = (uid, s)" by (cases "?rows ! n")
    from row [OF n] have f: "attr (snd (ys ! n)) ''row_id'' = CInt (int n + 1)"
      "\<forall>k. k \<notin> set derived_fields \<longrightarrow> attr (snd (ys ! n)) k = attr s k"
      "attr (snd (ys ! n)) ''last_campaign_activity'' = (case ?acts uid of None \<Rightarrow> CNull | Some c \<Rightarrow> text_option (cg_activity_label c))"
      "attr (snd (ys ! n)) ''notes'' = (case ?notes uid of None \<Rightarrow> CNull | Some n \<Rightarrow> CText (nt_content n))" "uid \<in> set (map fst ?rows)"
      by (simp_all add: x Let_def)
    note a = newest_value_latest [OF f(5), of cg_student_user_id cg_created_at "text_option \<circ> cg_activity_label" activities, unfolded o_apply]
    note b = newest_value_latest [OF f(5), of nt_user_id nt_created_at "CText \<circ> nt_content" note_rows, unfolded o_apply]
    show ?thesis using f(1,2) a b by (simp add: x Let_def f(3,4) activity_map_def note_map_def comp_def)
  qed
  with ans ys(2) fsts len show ?thesis by (intro exI [of _ "\<lparr>ta_tab = tab_name tab, ta_total = int (length ys), ta_rows = ys\<rparr>"]) simp
qed

theorem lifecycle_rows_witness:
  "\<forall>env. \<exists>ans. tab_endpoint env (\<lambda>t. 100) 50 Newcomers 5 [(7, [''IPBCStartDate'' \<mapsto> CTime ''2026-05-01'', ''FirstName'' \<mapsto> CText ''Ann'']),
      (8, Map.empty)] [] [\<lparr>nt_user_id = 7, nt_created_at = 1, nt_content = ''old''\<rparr>, \<lparr>nt_user_id = 7, nt_created_at = 2, nt_content = ''new''\<rparr>] = Inr ans
    \<and> ta_total ans = 1 \<and> attr (snd (ta_rows ans ! 0)) ''notes'' = CText ''new''"
proof
  fix env
  let ?students = "[(7, [''IPBCStartDate'' \<mapsto> CTime ''2026-05-01'', ''FirstName'' \<mapsto> CText ''Ann'']), (8, Map.empty)]"
  have dates: "list_all (dated \<circ> snd) ?students" by (simp add: dated_def attr_def)
  have shown: "take 5 (filter (\<lambda>(uid, s). on_tab (\<lambda>t. 100) 50 Newcomers s) ?students) = take 1 ?students"
    by (simp add: attr_def since_def)
  show "\<exists>ans. tab_endpoint env (\<lambda>t. 100) 50 Newcomers 5 ?students [] [\<lparr>nt_user_id = 7, nt_created_at = 1, nt_content = ''old''\<rparr>,
        \<lparr>nt_user_id = 7, nt_created_at = 2, nt_content = ''new''\<rparr>] = Inr ans
    \<and> ta_total ans = 1 \<and> attr (snd (ta_rows ans ! 0)) ''notes'' = CText ''new''"
    using lifecycle_rows [OF dates, where instant = "\<lambda>t. 100" and cutoff = 50 and tab = Newcomers and most = 5 and env = env and activities = "[]"
        and note_rows = "[\<lparr>nt_user_id = 7, nt_created_at = 1, nt_content = ''old''\<rparr>, \<lparr>nt_user_id = 7, nt_created_at = 2, nt_content = ''new''\<rparr>]",
        unfolded shown]
    by (fastforce simp: newest_value_def)
qed

section \<open>The cohorts\<close>

lemma contains_lower: "contains p s \<Longrightarrow> contains (lower p) (lower s)"
  unfolding contains_iff lower_def by (metis map_append)

lemma float_of_zero: "float_of_int 0 = Inr (Fin 0)"
  by (simp add: float_of_int_def round53_def bitlen.simps)

lemma attendance_field: "attr s ''AttendancePercentage'' = CFloat f \<Longrightarrow> float_field L s ''AttendancePercentage'' = Inr f"
  using float_of_zero by (cases "f = Fin 0") (simp_all add: float_field_def or_cell_def)

lemma attendance_above: "attr s ''AttendancePercentage'' = CFloat f \<Longrightarrow> f \<noteq> NaN \<Longrightarrow> sql_above (attr s ''AttendancePercentage'') q = fgt f (Fin q)"
  by (simp add: sql_above_def)

text \<open>
  C35. The platform has three definitions of its cohorts. For a student with a numeric attendance the
  tab of the CAP hopefuls shows exactly those the segmentation classifies so. The tabs of the launch
  and placement hopefuls show whoever the segmentation classifies so, provided a start date and the
  section of the last activity are there, and nobody without a start date, which the segmentation
  does not ask for; they show nobody else whose section has the words in this case. The snapshots
  decide by the current section alone, with any attendance, so one student can be in different
  cohorts of the tab, the segments and the report.
\<close>

theorem cohorts_related:
  assumes "attr s ''AttendancePercentage'' = CFloat f" and "f \<noteq> NaN" and "classify_student env s = Inr segs"
  shows "(on_tab instant cutoff CapHopefuls s \<longleftrightarrow> ''CAP_HOPEFULS'' \<in> set segs)
    \<and> (\<forall>sec. attr s ''LastActivitySection'' = CText sec \<and> sec \<noteq> [] \<and> attr s ''IPBCStartDate'' \<noteq> CNull \<longrightarrow>
        (''LAUNCH_HOPEFULS'' \<in> set segs \<longrightarrow> on_tab instant cutoff LaunchHopefuls s)
        \<and> (''PLACEMENT_HOPEFULS'' \<in> set segs \<longrightarrow> on_tab instant cutoff PlacementHopefuls s)
        \<and> (on_tab instant cutoff LaunchHopefuls s \<and> contains ''CAP Project'' sec \<longrightarrow> ''LAUNCH_HOPEFULS'' \<in> set segs)
        \<and> (on_tab instant cutoff PlacementHopefuls s \<and> contains ''Launch'' sec \<longrightarrow> ''PLACEMENT_HOPEFULS'' \<in> set segs))
    \<and> (attr s ''IPBCStartDate'' = CNull \<longrightarrow> \<not> on_tab instant cutoff LaunchHopefuls s \<and> \<not> on_tab instant cutoff PlacementHopefuls s)
    \<and> (\<forall>senv cs. attr s ''CurrentSection'' = CText cs \<longrightarrow>
        (classify_segment senv s = Inr ''PLACEMENT_HOPEFULS'' \<longleftrightarrow> contains ''launch'' (lower cs)))"
proof -
  note att = attendance_field [OF assms(1), of "sg_floats env"] and above = attendance_above [OF assms(1,2)]
  have segs: "k \<in> set segs \<longleftrightarrow> k \<in> set ALL_SEGMENTS \<and> in_segment env s k" for k
    using classified_in_segment [OF assms(3)] by simp
  have cap: "''CAP_HOPEFULS'' \<in> set segs \<longleftrightarrow> fgt f (Fin 50)"
    and launch: "''LAUNCH_HOPEFULS'' \<in> set segs \<longleftrightarrow> fgt f (Fin 70) \<and> contains ''CAP Project'' (section_of env s)"
    and placement: "''PLACEMENT_HOPEFULS'' \<in> set segs \<longleftrightarrow> fgt f (Fin 70) \<and> contains ''Launch'' (section_of env s)"
    by (simp_all add: segs in_segment_def ALL_SEGMENTS_def att)
  have sec: "section_of env s = sec" if "attr s ''LastActivitySection'' = CText sec" "sec \<noteq> []" for sec
    using that by (simp add: section_of_def or_cell_def cell_text_def)
  have snap: "classify_segment senv s = Inr ''PLACEMENT_HOPEFULS'' \<longleftrightarrow> contains ''launch'' (lower cs)"
    if "attr s ''CurrentSection'' = CText cs" for senv cs
    using that by (auto simp: classify_segment_def cell_lower_def or_cell_def bind_call_Inr split: if_split_asm)
  show ?thesis
  proof (intro conjI allI impI)
    show "on_tab instant cutoff CapHopefuls s \<longleftrightarrow> ''CAP_HOPEFULS'' \<in> set segs" using above [of 50] by (simp add: cap) (simp add: assms(1))
  next
    fix sec' assume a: "attr s ''LastActivitySection'' = CText sec' \<and> sec' \<noteq> [] \<and> attr s ''IPBCStartDate'' \<noteq> CNull" and b: "''LAUNCH_HOPEFULS'' \<in> set segs"
    from b launch sec a have "fgt f (Fin 70)" "contains ''CAP Project'' sec'" by auto
    with contains_lower [of "''CAP Project''" sec'] a show "on_tab instant cutoff LaunchHopefuls s" by (simp add: above ilike_def)
  next
    fix sec' assume a: "attr s ''LastActivitySection'' = CText sec' \<and> sec' \<noteq> [] \<and> attr s ''IPBCStartDate'' \<noteq> CNull" and b: "''PLACEMENT_HOPEFULS'' \<in> set segs"
    from b placement sec a have "fgt f (Fin 70)" "contains ''Launch'' sec'" by auto
    with contains_lower [of "''Launch''" sec'] a show "on_tab instant cutoff PlacementHopefuls s" by (simp add: above ilike_def)
  next
    fix sec' assume a: "attr s ''LastActivitySection'' = CText sec' \<and> sec' \<noteq> [] \<and> attr s ''IPBCStartDate'' \<noteq> CNull"
      and b: "on_tab instant cutoff LaunchHopefuls s \<and> contains ''CAP Project'' sec'"
    with sec show "''LAUNCH_HOPEFULS'' \<in> set segs" by (simp add: launch above)
  next
    fix sec' assume a: "attr s ''LastActivitySection'' = CText sec' \<and> sec' \<noteq> [] \<and> attr s ''IPBCStartDate'' \<noteq> CNull"
      and b: "on_tab instant cutoff PlacementHopefuls s \<and> contains ''Launch'' sec'"
    with sec show "''PLACEMENT_HOPEFULS'' \<in> set segs" by (simp add: placement above)
  next
    fix senv cs assume "attr s ''CurrentSection'' = CText cs"
    from snap [OF this] show "classify_segment senv s = Inr ''PLACEMENT_HOPEFULS'' \<longleftrightarrow> contains ''launch'' (lower cs)" .
  qed simp_all
qed

theorem cohorts_related_witness:
  "\<forall>L senv. let s = [''AttendancePercentage'' \<mapsto> CFloat (Fin 80), ''LastActivitySection'' \<mapsto> CText ''CAP Project'',
        ''CurrentSection'' \<mapsto> CText ''Launch Prep'', ''IPBCStartDate'' \<mapsto> CTime ''2026-05-01''];
      env = \<lparr>sg_days_since = (\<lambda>t. 30), sg_parse_iso = (\<lambda>t. None), sg_str = (\<lambda>c. []), sg_floats = L\<rparr>
   in on_tab (\<lambda>t. 0) 0 LaunchHopefuls s \<and> \<not> on_tab (\<lambda>t. 0) 0 PlacementHopefuls s
      \<and> classify_student env s = Inr [''NEWCOMERS'', ''CAP_HOPEFULS'', ''LAUNCH_HOPEFULS'']
      \<and> classify_segment senv s = Inr ''PLACEMENT_HOPEFULS''"
proof (intro allI)
  fix L senv
  let ?s = "[''AttendancePercentage'' \<mapsto> CFloat (Fin 80), ''LastActivitySection'' \<mapsto> CText ''CAP Project'',
        ''CurrentSection'' \<mapsto> CText ''Launch Prep'', ''IPBCStartDate'' \<mapsto> CTime ''2026-05-01''] :: student"
  let ?env = "\<lparr>sg_days_since = (\<lambda>t. 30), sg_parse_iso = (\<lambda>t. None), sg_str = (\<lambda>c. []), sg_floats = L\<rparr> :: segment_env"
  have a: "attr ?s ''AttendancePercentage'' = CFloat (Fin 80)" "Fin 80 \<noteq> NaN" by (simp_all add: attr_def)
  have sections: "contains ''CAP Project'' ''CAP Project''" "\<not> contains ''Launch'' ''CAP Project''"
    "contains ''launch'' (lower ''Launch Prep'')" "\<not> contains (lower ''Launch'') (lower ''CAP Project'')" by code_simp+
  have sec: "section_of ?env ?s = ''CAP Project''" by (simp add: section_of_def attr_def or_cell_def cell_text_def)
  have c: "classify_student ?env ?s = Inr [''NEWCOMERS'', ''CAP_HOPEFULS'', ''LAUNCH_HOPEFULS'']"
    by (simp add: classify_student_def newcomer_def sec sections attendance_field [OF a(1)] Let_def fgt_def)
       (simp add: attr_def or_cell_def float_field_def float_of_zero bind_call_def lift_call_def code_if_def)
  from cohorts_related [OF a c, where instant = "\<lambda>t. 0" and cutoff = 0] sections
  show "let s = ?s; env = ?env in on_tab (\<lambda>t. 0) 0 LaunchHopefuls s \<and> \<not> on_tab (\<lambda>t. 0) 0 PlacementHopefuls s
      \<and> classify_student env s = Inr [''NEWCOMERS'', ''CAP_HOPEFULS'', ''LAUNCH_HOPEFULS''] \<and> classify_segment senv s = Inr ''PLACEMENT_HOPEFULS''"
    unfolding Let_def using c by (simp add: attr_def ilike_def)
qed

end
