(* ===== verification/StudentPages.thy ===== *)
theory StudentPages
  imports CaseActions Payment Segmentation WorkQueue
begin

text \<open>
  The pages of students: \<^verbatim>\<open>routers/students.py\<close>, \<^verbatim>\<open>routers/segments.py\<close>,
  \<^verbatim>\<open>routers/payment.py\<close> and \<^verbatim>\<open>routers/source.py\<close>. The mirrored students are
  rows with their identifiers, in the order in which the database returns them. The rounded sum and the
  rounding of floats, the collation of the database and the texts of values are parameters.
\<close>

type_synonym mirror_list = "(int \<times> row) list"

record page_lib =
  pg_segments :: segment_env
  pg_sum2 :: "pyfloat list \<Rightarrow> pyfloat"
  pg_round2 :: "pyfloat \<Rightarrow> pyfloat"
  pg_text :: "cell \<Rightarrow> string"
  pg_collate :: "string list \<Rightarrow> string list"

section \<open>Segments\<close>

text \<open>The condition of \<open>filter_by_role\<close> on one student\<close>

definition role_allows :: "segment_env \<Rightarrow> string option \<Rightarrow> string option \<Rightarrow> student \<Rightarrow> bool" where
  "role_allows env role sec s \<longleftrightarrow> filter_by_role env [s] role sec \<noteq> []"

definition segments_summary :: "segment_env \<Rightarrow> student list \<Rightarrow> string option \<Rightarrow> (int \<times> segment_counts) call_res" where
  "segments_summary env students role =
    (let filtered = filter_by_role env students role None
     in bind_call (segment_summary env filtered) (\<lambda>counts. Inr (int (length filtered), counts)))"

record enriched =
  en_student :: student
  en_score :: student_score
  en_segments :: "string list"
  en_name :: string

definition iso_start :: "student \<Rightarrow> student" where
  "iso_start s = (case attr s ''IPBCStartDate'' of CTime t \<Rightarrow> s(''IPBCStartDate'' \<mapsto> CText t) | _ \<Rightarrow> s)"

definition enrich :: "page_lib \<Rightarrow> int \<times> student \<Rightarrow> enriched call_res" where
  "enrich P x =
    (case x of (uid, s) \<Rightarrow>
       bind_call (lift_call (score_student (score_fields s) None)) (\<lambda>p.
       bind_call (classify_student (pg_segments P) s) (\<lambda>segs.
       Inr \<lparr>en_student = iso_start s, en_score = p, en_segments = segs, en_name = shown_name (pg_text P) uid s\<rparr>)))"

fun each_call :: "('a \<Rightarrow> 'b call_res) \<Rightarrow> 'a list \<Rightarrow> 'b list call_res" where
  "each_call f [] = Inr []"
| "each_call f (x # xs) = bind_call (f x) (\<lambda>y. bind_call (each_call f xs) (\<lambda>ys. Inr (y # ys)))"

text \<open>\<open>None\<close> is the answer for an invalid segment.\<close>

definition segment_detail ::
  "page_lib \<Rightarrow> mirror_rows \<Rightarrow> string \<Rightarrow> string option \<Rightarrow> string option \<Rightarrow> nat \<Rightarrow> nat \<Rightarrow> (string \<times> int \<times> enriched list) option call_res" where
  "segment_detail P students segment_name role sec most offset =
    (let seg_upper = upper segment_name
     in if seg_upper \<notin> set ALL_SEGMENTS then Inr None
        else bind_call (each_call (enrich P) students) (\<lambda>enriched.
          let members = filter (\<lambda>r. seg_upper \<in> set (en_segments r)) enriched;
              filtered = filter (\<lambda>r. role_allows (pg_segments P) role sec (en_student r)) members
          in Inr (Some (seg_upper, int (length filtered), take most (drop offset filtered)))))"

section \<open>Payments\<close>

definition balance_of :: "row \<Rightarrow> pyfloat" where
  "balance_of r = (case attr (map_of r) ''actual_balance'' of CFloat b \<Rightarrow> b | _ \<Rightarrow> NaN)"

text \<open>
  \<^verbatim>\<open>rows.sort(key=actual_balance, reverse=True)\<close>: largest first, equal ones in their order. Where
  a balance is not a number the order of the code is that of its sorting algorithm, and this is not it.
\<close>

fun insert_balance :: "row \<Rightarrow> row list \<Rightarrow> row list" where
  "insert_balance r [] = [r]"
| "insert_balance r (x # xs) = (if fgt (balance_of r) (balance_of x) then r # x # xs else x # insert_balance r xs)"

definition by_balance :: "row list \<Rightarrow> row list" where
  "by_balance rows = fold insert_balance rows []"

record payment_table =
  pt_total :: int
  pt_total_outstanding_balance :: pyfloat
  pt_bundle_deal_students :: int
  pt_high_risk_count :: int
  pt_clear_count :: int
  pt_rows :: "row list"

definition rows_with :: "string \<Rightarrow> cell \<Rightarrow> row list \<Rightarrow> int" where
  "rows_with k v rows = int (length (filter (\<lambda>r. attr (map_of r) k = v) rows))"

definition payment_reconciliation ::
  "page_lib \<Rightarrow> mirror_list \<Rightarrow> string option \<Rightarrow> string option \<Rightarrow> nat \<Rightarrow> nat \<Rightarrow> payment_table call_res" where
  "payment_reconciliation P students role risk most offset =
    bind_call (each_call (\<lambda>(uid, d). lift_call (build_payment_row (sg_floats (pg_segments P)) (pg_text P) d)) students) (\<lambda>all_rows.
    let allowed = filter (\<lambda>r. role_allows (pg_segments P) role None (map_of r)) all_rows;
        rows = (if given risk then filter (\<lambda>r. attr (map_of r) ''payment_risk'' = CText (upper (the risk))) allowed else allowed)
    in Inr \<lparr>pt_total = int (length rows), pt_total_outstanding_balance = pg_sum2 P (map balance_of rows),
         pt_bundle_deal_students = rows_with ''is_bundle_deal'' (CBool True) rows,
         pt_high_risk_count = rows_with ''payment_risk'' (CText ''HIGH'') rows,
         pt_clear_count = rows_with ''payment_risk'' (CText ''CLEAR'') rows,
         pt_rows = take most (drop offset (by_balance rows))\<rparr>)"

definition student_payment :: "page_lib \<Rightarrow> mirror_list \<Rightarrow> int \<Rightarrow> row option call_res" where
  "student_payment P students uid =
    (case map_of students uid of
       None \<Rightarrow> Inr None
     | Some d \<Rightarrow> bind_call (lift_call (build_payment_row (sg_floats (pg_segments P)) (pg_text P) d)) (\<lambda>r. Inr (Some r)))"

section \<open>Sources\<close>

definition source_paths :: "page_lib \<Rightarrow> student list \<Rightarrow> string list" where
  "source_paths P students =
     filter (\<lambda>p. p \<noteq> []) (pg_collate P (remdups (List.map_filter (\<lambda>s. case attr s ''PathName'' of CText p \<Rightarrow> Some p | _ \<Rightarrow> None) students)))"

record path_entry =
  pe_total :: int
  pe_tracked :: int
  pe_untracked :: int
  pe_risk :: "(string \<times> int) list"

definition new_entry :: path_entry where
  "new_entry = \<lparr>pe_total = 0, pe_tracked = 0, pe_untracked = 0,
     pe_risk = [(''URGENT'', 0), (''HIGH'', 0), (''MEDIUM'', 0), (''LOW'', 0)]\<rparr>"

text \<open>\<^verbatim>\<open>entry["risk"][level] += 1\<close> raises for a level that is not a key.\<close>

definition count_risk :: "string \<Rightarrow> (string \<times> int) list \<Rightarrow> (string \<times> int) list call_res" where
  "count_risk level risk = (case map_of risk level of None \<Rightarrow> Inl (Py KeyError) | Some n \<Rightarrow> Inr (AList.update level (n + 1) risk))"

definition source_path :: "page_lib \<Rightarrow> student \<Rightarrow> string" where
  "source_path P s = cell_text (pg_text P) (or_cell (attr s ''PathName'') (CText ''UNKNOWN''))"

definition count_source :: "page_lib \<Rightarrow> int list \<Rightarrow> int \<times> student \<Rightarrow> (string \<times> path_entry) list \<Rightarrow> (string \<times> path_entry) list call_res" where
  "count_source P tracked x by_path =
    (case x of (uid, s) \<Rightarrow>
       let path = source_path P s;
           entry = (case map_of by_path path of None \<Rightarrow> new_entry | Some e \<Rightarrow> e);
           counted = entry\<lparr>pe_total := pe_total entry + 1,
             pe_tracked := pe_tracked entry + (if uid \<in> set tracked then 1 else 0),
             pe_untracked := pe_untracked entry + (if uid \<in> set tracked then 0 else 1)\<rparr>
       in bind_call (lift_call (score_student (score_fields s) None)) (\<lambda>priority.
          bind_call (count_risk (sc_level priority) (pe_risk entry)) (\<lambda>risk.
          Inr (AList.update path (counted\<lparr>pe_risk := risk\<rparr>) by_path))))"

fun count_sources ::
  "page_lib \<Rightarrow> int list \<Rightarrow> mirror_rows \<Rightarrow> (string \<times> path_entry) list \<Rightarrow> (string \<times> path_entry) list call_res" where
  "count_sources P tracked [] by_path = Inr by_path"
| "count_sources P tracked (x # xs) by_path = bind_call (count_source P tracked x by_path) (count_sources P tracked xs)"

record source_totals =
  so_total_source :: int
  so_total_tracked :: int
  so_total_untracked :: int
  so_by_path :: "(string \<times> path_entry) list"

definition source_summary :: "page_lib \<Rightarrow> mirror_rows \<Rightarrow> tracking_row list \<Rightarrow> source_totals call_res" where
  "source_summary P students cases =
    bind_call (count_sources P (tracked_ids cases) students []) (\<lambda>by_path.
    let paths = rev (sort_key (pe_total \<circ> snd) (rev by_path));
        total_source = sum_list (map (pe_total \<circ> snd) paths);
        total_tracked = sum_list (map (pe_tracked \<circ> snd) paths)
    in Inr \<lparr>so_total_source = total_source, so_total_tracked = total_tracked,
         so_total_untracked = total_source - total_tracked, so_by_path = paths\<rparr>)"

section \<open>One student\<close>

text \<open>The page of a student with a case; rows of the logs come with the time of their creation.\<close>

record student_page =
  sp_case :: tracking_row
  sp_profile :: "(string \<times> cell) list"
  sp_risk_level :: string
  sp_history :: "history_row list"
  sp_transitions :: "transition_row list"

datatype page_answer = NoRecord int governance_meta | Page student_page governance_meta

definition columns_of :: "(string \<times> string) list \<Rightarrow> student option \<Rightarrow> (string \<times> cell) list" where
  "columns_of ks s = map (\<lambda>(shown, column). (shown, case s of None \<Rightarrow> CNull | Some t \<Rightarrow> attr t column)) ks"

definition profile_columns :: "(string \<times> string) list" where
  "profile_columns =
    [(''first_name'', ''FirstName''), (''last_name'', ''LastName''), (''email'', ''Email''), (''phone'', ''PhoneNumber''),
     (''path'', ''PathName''), (''hws_behind'', ''HWsBehind''), (''avg_eff_rating'', ''AvgEffRating''),
     (''last_activity_days'', ''LastActivityDays'')]"

fun whole_number :: "cell \<Rightarrow> int option" where
  "whole_number (CInt n) = Some n"
| "whole_number _ = None"

definition display_of :: "student \<Rightarrow> display_profile" where
  "display_of s = \<lparr>dp_HWsBehind = whole_number (attr s ''HWsBehind''), dp_LastActivityDays = whole_number (attr s ''LastActivityDays'')\<rparr>"

definition oldest_first :: "('a \<Rightarrow> bool) \<Rightarrow> (int \<times> 'a) list \<Rightarrow> 'a list" where
  "oldest_first P rows = map snd (sort_key fst (filter (P \<circ> snd) rows))"

definition get_student ::
  "settings \<Rightarrow> runtime \<Rightarrow> headers \<Rightarrow> int \<Rightarrow> mirror_rows \<Rightarrow> tracking_row list \<Rightarrow> (int \<times> history_row) list
   \<Rightarrow> (int \<times> transition_row) list \<Rightarrow> page_answer res" where
  "get_student st rt h uid students cases history transitions =
    (let meta = make_governance_meta rt (build_request_attribution st (extract_correlation_id rt h) (extract_causation_id h) ''original'' None None);
         profile = map_of students uid
     in case filter (\<lambda>t. tr_user_id t = uid) cases of
          [] \<Rightarrow> Inr (NoRecord uid meta)
        | [t] \<Rightarrow> Inr (Page \<lparr>sp_case = t, sp_profile = columns_of profile_columns profile,
            sp_risk_level = risk_level_for_display (map_option display_of profile),
            sp_history = oldest_first (\<lambda>r. oh_user_id r = uid) history,
            sp_transitions = oldest_first (\<lambda>r. st_user_id r = uid) transitions\<rparr> meta)
        | _ \<Rightarrow> Inl MultipleResultsFound)"

definition get_student_mentorship :: "(int \<rightharpoonup> student) \<Rightarrow> int \<Rightarrow> (string \<times> cell) list option" where
  "get_student_mentorship assignments uid =
    (case assignments uid of
       None \<Rightarrow> None
     | Some a \<Rightarrow> Some (map (\<lambda>k. (k, attr a k))
         [''synced_at'', ''mm_mentor'', ''mentor_email'', ''supermentor'', ''supermentor_email'', ''ipbc_instructor'', ''ipbc_instructor_email'']))"

definition get_interview_prep :: "(int \<rightharpoonup> student) \<Rightarrow> int \<Rightarrow> (cell \<times> cell) option" where
  "get_interview_prep preps uid = map_option (\<lambda>p. (attr p ''synced_at'', attr p ''raw_data'')) (preps uid)"

section \<open>The drawer\<close>

record payment_card =
  py_class_value :: pyfloat
  py_total_payments :: pyfloat
  py_total_credits :: pyfloat
  py_payment_balance_stored :: pyfloat
  py_actual_balance :: pyfloat
  py_is_bundle_deal :: bool
  py_fee_paid :: cell
  py_class_fees_paid :: cell
  py_payment_risk :: string

record drawer_profile =
  dr_user_id :: int
  dr_display_name :: string
  dr_columns :: "(string \<times> cell) list"
  dr_risk_level :: string
  dr_segments :: "string list"

record drawer =
  dw_profile :: "drawer_profile option"
  dw_payment :: "payment_card option"
  dw_segments :: "string list"
  dw_outreach :: "tracking_row list"
  dw_interview_prep :: "(cell \<times> cell) option"

definition drawer_columns :: "(string \<times> string) list" where
  "drawer_columns =
    [(''email'', ''Email''), (''phone'', ''PhoneNumber''), (''path'', ''PathName''), (''current_section'', ''CurrentSection''),
     (''hws_behind'', ''HWsBehind''), (''avg_eff_rating'', ''AvgEffRating''), (''last_activity_days'', ''LastActivityDays''),
     (''attendance_pct'', ''AttendancePercentage''), (''past_10_days_logon'', ''Past10DaysLogon''), (''ipbc_start_date'', ''IPBCStartDate'')]"

definition drawer_payment :: "page_lib \<Rightarrow> student \<Rightarrow> payment_card call_res" where
  "drawer_payment P s =
    (let L = sg_floats (pg_segments P); number = (\<lambda>k. lift_call (float_field L s k))
     in bind_call (lift_call (compute_balance L s)) (\<lambda>actual_balance.
        bind_call (number ''Total_Payments'') (\<lambda>total_payments.
        bind_call (number ''Total_Credits'') (\<lambda>total_credits.
        bind_call (number ''ClassValue'') (\<lambda>class_value.
        bind_call (number ''PaymentBalance'') (\<lambda>stored_balance.
        Inr \<lparr>py_class_value = class_value, py_total_payments = total_payments, py_total_credits = total_credits,
          py_payment_balance_stored = stored_balance, py_actual_balance = pg_round2 P actual_balance,
          py_is_bundle_deal = is_bundle total_credits stored_balance class_value, py_fee_paid = attr s ''FeePaid'',
          py_class_fees_paid = attr s ''ClassFeesPaid'', py_payment_risk = payment_risk_label actual_balance\<rparr>))))))"

definition drawer_profile_of :: "page_lib \<Rightarrow> int \<Rightarrow> student \<Rightarrow> string list \<Rightarrow> drawer_profile" where
  "drawer_profile_of P uid s segs =
     \<lparr>dr_user_id = uid, dr_display_name = shown_name (pg_text P) uid s, dr_columns = columns_of drawer_columns (Some s),
      dr_risk_level = risk_level_for_display (Some (display_of s)), dr_segments = segs\<rparr>"

definition get_student_drawer ::
  "page_lib \<Rightarrow> mirror_rows \<Rightarrow> tracking_row list \<Rightarrow> (int \<rightharpoonup> student) \<Rightarrow> int \<Rightarrow> drawer call_res" where
  "get_student_drawer P students cases preps uid =
    (let outreach = filter (\<lambda>t. tr_user_id t = uid) cases; prep = get_interview_prep preps uid
     in case map_of students uid of
          None \<Rightarrow> Inr \<lparr>dw_profile = None, dw_payment = None, dw_segments = [], dw_outreach = outreach, dw_interview_prep = prep\<rparr>
        | Some row \<Rightarrow>
            let s = iso_start row
            in bind_call (classify_student (pg_segments P) s) (\<lambda>segs.
               bind_call (drawer_payment P s) (\<lambda>payment.
               Inr \<lparr>dw_profile = Some (drawer_profile_of P uid s segs), dw_payment = Some payment, dw_segments = segs,
                 dw_outreach = outreach, dw_interview_prep = prep\<rparr>)))"

end
