(* ===== verification/Dashboards.thy ===== *)
theory Dashboards
  imports CaseActionsProps StudentPages
begin

text \<open>
  The aggregates of \<^verbatim>\<open>routers/dashboard.py\<close> and \<^verbatim>\<open>routers/metrics.py\<close> over
  the cases and the history of outreach: performance of the channels, the funnel with its rates, the
  recent activity, and the extended indicators over the mirrored students. The rounded quotient and
  the rounded mean of floats are parameters. The execution mode, which the answers repeat, is left out.
\<close>

section \<open>Channels\<close>

definition number_where :: "('a \<Rightarrow> bool) \<Rightarrow> 'a list \<Rightarrow> int" where
  "number_where P xs = int (length (filter P xs))"

text \<open>\<^verbatim>\<open>round(a / b, 4) if b else 0.0\<close>\<close>

definition rate :: "(int \<Rightarrow> int \<Rightarrow> pyfloat) \<Rightarrow> int \<Rightarrow> int \<Rightarrow> pyfloat" where
  "rate round4 a b = (if b \<noteq> 0 then round4 a b else Fin 0)"

record channel_stats =
  ch_channel :: string
  ch_attempts :: int
  ch_shadow_count :: int
  ch_responses :: int
  ch_no_response :: int
  ch_success_rate :: pyfloat
  ch_simulated :: bool

definition channel_stats_of :: "settings \<Rightarrow> (int \<Rightarrow> int \<Rightarrow> pyfloat) \<Rightarrow> string \<Rightarrow> history_row list \<Rightarrow> channel_stats" where
  "channel_stats_of st round4 channel rows =
    (let attempts = int (length rows);
         responses = number_where (\<lambda>r. oh_state_after r \<in> {Some ''RESPONDED'', Some ''ANALYZED'', Some ''RESOLVED''}) rows
     in \<lparr>ch_channel = channel, ch_attempts = attempts, ch_shadow_count = number_where (\<lambda>r. oh_execution_mode r = ''SHADOW'') rows,
         ch_responses = responses, ch_no_response = number_where (\<lambda>r. oh_state_after r = Some ''NO_RESPONSE'') rows,
         ch_success_rate = rate round4 responses attempts, ch_simulated = is_shadow st\<rparr>)"

text \<open>One entry for each channel that occurs.\<close>

definition channel_performance :: "settings \<Rightarrow> (int \<Rightarrow> int \<Rightarrow> pyfloat) \<Rightarrow> history_row list \<Rightarrow> channel_stats list" where
  "channel_performance st round4 history =
     map (\<lambda>c. channel_stats_of st round4 c (filter (\<lambda>r. oh_channel r = Some c) history))
       (remdups (List.map_filter oh_channel history))"

section \<open>The funnel\<close>

text \<open>The states that occur, with the number of their cases.\<close>

definition by_state :: "tracking_row list \<Rightarrow> (string \<times> int) list" where
  "by_state cases = map (\<lambda>s. (s, number_where (\<lambda>t. tr_state t = s) cases)) (remdups (map tr_state cases))"

definition state_count :: "(string \<times> int) list \<Rightarrow> string \<Rightarrow> int" where
  "state_count counts s = (case map_of counts s of None \<Rightarrow> 0 | Some n \<Rightarrow> n)"

record funnel =
  fn_tracked :: int
  fn_contacted :: int
  fn_responded :: int
  fn_no_response :: int
  fn_intervention_required :: int
  fn_resolved :: int
  fn_closed :: int
  fn_shadow_executions :: int

record dashboard =
  da_by_state :: "(string \<times> int) list"
  da_total_attempts :: int
  da_funnel :: funnel
  da_contacted_rate :: pyfloat
  da_response_rate :: pyfloat
  da_resolution_rate :: pyfloat

definition dashboard_summary :: "(int \<Rightarrow> int \<Rightarrow> pyfloat) \<Rightarrow> tracking_row list \<Rightarrow> history_row list \<Rightarrow> dashboard" where
  "dashboard_summary round4 cases history =
    (let counts = by_state cases;
         total_tracked = sum_list (map snd counts);
         ever_contacted = number_where (\<lambda>t. 0 < tr_current_attempt t) cases;
         responded = state_count counts ''RESPONDED'' + state_count counts ''ANALYZED'' + state_count counts ''RESOLVED'';
         intervention = state_count counts ''INTERVENTION_REQUIRED'';
         resolved = state_count counts ''RESOLVED''
     in \<lparr>da_by_state = counts, da_total_attempts = int (length history),
         da_funnel = \<lparr>fn_tracked = total_tracked, fn_contacted = ever_contacted, fn_responded = responded,
           fn_no_response = state_count counts ''NO_RESPONSE'', fn_intervention_required = intervention, fn_resolved = resolved,
           fn_closed = state_count counts ''CLOSED'',
           fn_shadow_executions = number_where (\<lambda>r. oh_execution_mode r = ''SHADOW'') history\<rparr>,
         da_contacted_rate = rate round4 ever_contacted total_tracked,
         da_response_rate = rate round4 responded ever_contacted,
         da_resolution_rate = rate round4 resolved (intervention + resolved)\<rparr>)"

text \<open>The metrics endpoint reports the same funnel and two more rates.\<close>

definition get_metrics :: "(int \<Rightarrow> int \<Rightarrow> pyfloat) \<Rightarrow> tracking_row list \<Rightarrow> history_row list \<Rightarrow> dashboard \<times> pyfloat \<times> pyfloat" where
  "get_metrics round4 cases history =
    (let d = dashboard_summary round4 cases history
     in (d, rate round4 (fn_responded (da_funnel d)) (fn_tracked (da_funnel d)),
         rate round4 (fn_resolved (da_funnel d)) (fn_tracked (da_funnel d))))"

section \<open>Recent activity\<close>

text \<open>\<^verbatim>\<open>ORDER BY created_at DESC LIMIT ...\<close> on rows with the time of their creation\<close>

definition newest_first :: "(int \<times> 'a) list \<Rightarrow> (int \<times> 'a) list" where
  "newest_first rows = rev (sort_key fst (rev rows))"

definition recent_activity :: "int \<Rightarrow> (int \<times> history_row) list \<Rightarrow> (int \<times> history_row) list" where
  "recent_activity most rows = take (nat (max 1 (min most 100))) (newest_first rows)"

section \<open>Extended indicators\<close>

record kpi_lib =
  kp_segments :: segment_env
  kp_mean :: "nat \<Rightarrow> pyfloat list \<Rightarrow> pyfloat"
  kp_text :: "cell \<Rightarrow> string"

record kpi =
  kp_total_students :: int
  kp_averages :: "pyfloat \<times> pyfloat \<times> pyfloat"
  kp_high_engagement :: int
  kp_low_engagement :: int
  kp_hyper_active :: int
  kp_with_balance :: int
  kp_fully_paid :: int
  kp_segment_counts :: segment_counts
  kp_sections :: "(string \<times> int) list"

definition float_values :: "kpi_lib \<Rightarrow> string \<Rightarrow> student list \<Rightarrow> pyfloat list call_res" where
  "float_values K k = each_call (\<lambda>s. lift_call (float_field (sg_floats (kp_segments K)) s k))"

definition int_values :: "string \<Rightarrow> student list \<Rightarrow> int list call_res" where
  "int_values k = each_call (\<lambda>s. lift_call (cell_int (or_cell (attr s k) (CInt 0))))"

definition section_name :: "kpi_lib \<Rightarrow> student \<Rightarrow> string" where
  "section_name K s = cell_text (kp_text K)
     (or_cell (or_cell (attr s ''CurrentSection'') (attr s ''PathName'')) (CText ''Unknown''))"

text \<open>\<^verbatim>\<open>d[k] = d.get(k, 0) + 1\<close>\<close>

fun tally_name :: "string \<Rightarrow> (string \<times> int) list \<Rightarrow> (string \<times> int) list" where
  "tally_name k [] = [(k, 1)]"
| "tally_name k ((k', n) # d) = (if k' = k then (k', n + 1) # d else (k', n) # tally_name k d)"

text \<open>\<open>None\<close> is the answer for an empty mirror. The mean of whole numbers is that of the floats they are.\<close>

definition kpi_extended :: "kpi_lib \<Rightarrow> student list \<Rightarrow> kpi option call_res" where
  "kpi_extended K students =
    (if students = [] then Inr None
     else
       bind_call (float_values K ''AttendancePercentage'' students) (\<lambda>attendance_vals.
       bind_call (float_values K ''AvgEffRating'' students) (\<lambda>eff_vals.
       bind_call (int_values ''HWsBehind'' students) (\<lambda>hw_vals.
       bind_call (int_values ''Past10DaysLogon'' students) (\<lambda>login_vals.
       bind_call (float_values K ''PaymentBalance'' students) (\<lambda>balance_vals.
       bind_call (segment_summary (kp_segments K) students) (\<lambda>seg_counts.
       Inr (Some \<lparr>kp_total_students = int (length students),
         kp_averages = (kp_mean K 1 attendance_vals, kp_mean K 1 eff_vals, kp_mean K 2 (map (\<lambda>n. Fin (of_int n)) hw_vals)),
         kp_high_engagement = number_where (\<lambda>v. 7 \<le> v) login_vals, kp_low_engagement = number_where (\<lambda>v. v < 3) login_vals,
         kp_hyper_active = state_count seg_counts ''HYPER_ACTIVE'', kp_with_balance = number_where (\<lambda>b. fgt b (Fin 0)) balance_vals,
         kp_fully_paid = number_where (\<lambda>b. b = Fin 0) balance_vals, kp_segment_counts = seg_counts,
         kp_sections = fold (\<lambda>s. tally_name (section_name K s)) students []\<rparr>))))))))"

end
