(* ===== verification/StudentPagesProps.thy ===== *)
theory StudentPagesProps
  imports StudentPages "HOL-Library.Multiset"
begin

text \<open>
  Properties of the pages of students: the segment pages and their counts, the payment table, the
  summary by source, and the agreement of the drawer with the tables.
\<close>

section \<open>Rows\<close>

lemma each_call_map: "each_call f xs = Inr ys \<Longrightarrow> length ys = length xs \<and> (\<forall>i < length xs. f (xs ! i) = Inr (ys ! i))"
proof (induction xs arbitrary: ys)
  case (Cons x xs)
  then obtain y zs where y: "f x = Inr y" "each_call f xs = Inr zs" "ys = y # zs" by (auto simp: bind_call_Inr)
  with Cons.IH [OF y(2)] show ?case by (auto simp: nth_Cons split: nat.split)
qed simp

lemma each_call_filter:
  assumes "each_call f xs = Inr ys" and "\<And>x y. x \<in> set xs \<Longrightarrow> f x = Inr y \<Longrightarrow> g y = h x \<and> P y = Q x"
  shows "map g (filter P ys) = map h (filter Q xs)"
  using assms
proof (induction xs arbitrary: ys)
  case (Cons x xs)
  then obtain y zs where y: "f x = Inr y" "each_call f xs = Inr zs" "ys = y # zs" by (auto simp: bind_call_Inr)
  have "map g (filter P zs) = map h (filter Q xs)" by (rule Cons.IH [OF y(2)]) (use Cons.prems(2) in auto)
  with Cons.prems(2) [of x y] y show ?case by simp
qed simp

lemma filter_by_role_allows: "filter_by_role env xs role sec = filter (role_allows env role sec) xs"
  by (induction xs) (auto simp: filter_by_role_def role_allows_def)

lemma attr_iso_start: "k \<noteq> ''IPBCStartDate'' \<Longrightarrow> attr (iso_start s) k = attr s k"
  by (auto simp: iso_start_def attr_def split: cell.split)

lemma section_iso_start [simp]: "section_of env (iso_start s) = section_of env s"
  by (simp add: section_of_def attr_iso_start)

lemma role_allows_iso_start [simp]: "role_allows env role sec (iso_start s) = role_allows env role sec s"
  by (simp add: role_allows_def filter_by_role_def)

lemma float_field_iso_start: "k \<noteq> ''IPBCStartDate'' \<Longrightarrow> float_field L (iso_start s) k = float_field L s k"
  by (simp add: float_field_def attr_iso_start)

section \<open>Segments\<close>

lemma enrich_fields:
  assumes "enrich P (uid, s) = Inr e"
  shows "en_student e = iso_start s \<and> classify_student (pg_segments P) s = Inr (en_segments e) \<and> en_name e = shown_name (pg_text P) uid s"
  using assms by (auto simp: enrich_def bind_call_Inr)

lemma summary_counts:
  assumes "segment_summary env students = Inr counts" and "k \<in> set ALL_SEGMENTS"
  shows "map_of counts k = Some (int (length (filter (\<lambda>s. in_segment env s k) students)))"
proof -
  have "distinct (map fst (map (\<lambda>k. (k, 0 :: int)) ALL_SEGMENTS))" by (simp add: ALL_SEGMENTS_def)
  from summarize_counts [OF assms(1) [unfolded segment_summary_def] this, of k] assms(2) show ?thesis
    by (auto simp: ALL_SEGMENTS_def)
qed

lemma enriched_members:
  assumes "each_call (enrich P) students = Inr es" and "k \<in> set ALL_SEGMENTS"
  shows "map en_student (filter (\<lambda>r. k \<in> set (en_segments r) \<and> role_allows (pg_segments P) role sec (en_student r)) es)
    = map (iso_start \<circ> snd) (filter (\<lambda>(uid, s). in_segment (pg_segments P) s k \<and> role_allows (pg_segments P) role sec s) students)"
proof (rule each_call_filter [OF assms(1)])
  fix x e assume "x \<in> set students" "enrich P x = Inr e"
  then obtain uid s where x: "x = (uid, s)" and e: "enrich P (uid, s) = Inr e" by (metis prod.exhaust)
  note f = enrich_fields [OF e]
  then have "k \<in> set (en_segments e) \<longleftrightarrow> in_segment (pg_segments P) s k"
    using classified_in_segment [of "pg_segments P" s "en_segments e"] assms(2) by auto
  with f show "en_student e = (iso_start \<circ> snd) x \<and> (k \<in> set (en_segments e) \<and> role_allows (pg_segments P) role sec (en_student e))
      = (case x of (uid, s) \<Rightarrow> in_segment (pg_segments P) s k \<and> role_allows (pg_segments P) role sec s)" by (simp add: x)
qed

text \<open>
  C38. The page of a segment and the summary agree: for each segment and role the total of the page is
  the count of the summary, and the pages show, in the order of the query, exactly the students the
  segment table puts into it and the role may see. Any other segment name, in any case, is refused.
\<close>

theorem segment_pages_match_summary:
  assumes "segments_summary (pg_segments P) (map snd students) role = Inr (n, counts)"
    and "segment_detail P students name role None most offset = Inr ans"
  shows "(upper name \<notin> set ALL_SEGMENTS \<and> ans = None)
    \<or> (\<exists>rows. ans = Some (upper name, the (map_of counts (upper name)), rows)
        \<and> map en_student rows = take most (drop offset (map (iso_start \<circ> snd)
            (filter (\<lambda>(uid, s). in_segment (pg_segments P) s (upper name) \<and> role_allows (pg_segments P) role None s) students)))
        \<and> (\<forall>r \<in> set rows. upper name \<in> set (en_segments r)) \<and> the (map_of counts (upper name)) \<le> n)"
proof (cases "upper name \<in> set ALL_SEGMENTS")
  case False
  then show ?thesis using assms(2) by (simp add: segment_detail_def Let_def)
next
  case True
  let ?k = "upper name" and ?env = "pg_segments P"
  let ?in = "\<lambda>s. in_segment ?env s ?k \<and> role_allows ?env role None s"
  from True assms(2) obtain es where es: "each_call (enrich P) students = Inr es"
    and ans: "ans = Some (?k, int (length (filter (\<lambda>r. ?k \<in> set (en_segments r) \<and> role_allows ?env role None (en_student r)) es)),
      take most (drop offset (filter (\<lambda>r. ?k \<in> set (en_segments r) \<and> role_allows ?env role None (en_student r)) es)))"
    by (auto simp: segment_detail_def Let_def bind_call_Inr conj_commute)
  note members = enriched_members [OF es True, of role None]
  have split: "filter (\<lambda>(uid, s). ?in s) students = filter (?in \<circ> snd) students"
    by (rule arg_cong [of _ _ "\<lambda>P. filter P students"]) auto
  from assms(1) have c: "segment_summary ?env (filter (role_allows ?env role None) (map snd students)) = Inr counts"
    and n: "n = int (length (filter (role_allows ?env role None) (map snd students)))"
    by (auto simp: segments_summary_def Let_def bind_call_Inr filter_by_role_allows)
  have "map_of counts ?k = Some (int (length (filter ?in (map snd students))))"
    using summary_counts [OF c True] by (simp add: conj_commute)
  also have "length (filter ?in (map snd students)) = length (filter (\<lambda>r. ?k \<in> set (en_segments r) \<and> role_allows ?env role None (en_student r)) es)"
    using arg_cong [OF members, of length] by (simp add: split filter_map)
  finally have total: "the (map_of counts ?k) = int (length (filter (\<lambda>r. ?k \<in> set (en_segments r) \<and> role_allows ?env role None (en_student r)) es))"
    by simp
  have le: "the (map_of counts ?k) \<le> n"
    unfolding n summary_counts [OF c True] option.sel of_nat_le_iff by (rule length_filter_le)
  have page: "map en_student (take most (drop offset (filter (\<lambda>r. ?k \<in> set (en_segments r) \<and> role_allows ?env role None (en_student r)) es)))
      = take most (drop offset (map (iso_start \<circ> snd) (filter (\<lambda>(uid, s). ?in s) students)))"
    unfolding members [symmetric] by (simp add: take_map drop_map)
  have mem: "\<forall>r \<in> set (take most (drop offset (filter (\<lambda>r. ?k \<in> set (en_segments r) \<and> role_allows ?env role None (en_student r)) es))). ?k \<in> set (en_segments r)"
    by (auto dest!: in_set_takeD in_set_dropD)
  have "ans = Some (?k, the (map_of counts ?k), take most (drop offset (filter (\<lambda>r. ?k \<in> set (en_segments r) \<and> role_allows ?env role None (en_student r)) es)))"
    using ans total by simp
  with page mem le show ?thesis by blast
qed

definition sample_pages :: page_lib where
  "sample_pages = \<lparr>pg_segments = sample_env, pg_sum2 = (\<lambda>xs. Fin 0), pg_round2 = (\<lambda>x. x), pg_text = (\<lambda>c. []), pg_collate = (\<lambda>xs. xs)\<rparr>"

lemma float_zero_int: "float_of_int 0 = Inr (Fin 0)"
  by (simp add: float_of_int_def round53_def bitlen.simps)

theorem segment_pages_match_summary_witness:
  "\<exists>e. segments_summary sample_env [[''AttendancePercentage'' \<mapsto> CFloat (Fin 60)]] None
      = Inr (1, [(''NEWCOMERS'', 0), (''HYPER_ACTIVE'', 0), (''CAP_HOPEFULS'', 1), (''LAUNCH_HOPEFULS'', 0), (''PLACEMENT_HOPEFULS'', 0)])
    \<and> segment_detail sample_pages [(7, [''AttendancePercentage'' \<mapsto> CFloat (Fin 60)])] ''cap_hopefuls'' None None 5 0 = Inr (Some (''CAP_HOPEFULS'', 1, [e]))
    \<and> en_student e = [''AttendancePercentage'' \<mapsto> CFloat (Fin 60)]"
proof -
  let ?s = "[''AttendancePercentage'' \<mapsto> CFloat (Fin 60)] :: student"
  let ?counts = "[(''NEWCOMERS'', 0), (''HYPER_ACTIVE'', 0), (''CAP_HOPEFULS'', 1), (''LAUNCH_HOPEFULS'', 0), (''PLACEMENT_HOPEFULS'', 0)]"
  have up: "upper ''cap_hopefuls'' = ''CAP_HOPEFULS''" by code_simp
  have sec: "section_of sample_env ?s = []" by (simp add: section_of_def attr_def or_cell_def cell_text_def)
  have segs: "classify_student sample_env ?s = Inr [''CAP_HOPEFULS'']"
    by (simp add: classify_student_def newcomer_def sec attr_def or_cell_def float_field_def float_zero_int lift_call_def code_if_def)
  have sum: "segments_summary (pg_segments sample_pages) (map snd [(7, ?s)]) None = Inr (1, ?counts)"
    by (simp add: segments_summary_def filter_by_role_def segment_summary_def sample_pages_def segs ALL_SEGMENTS_def bump_def)
  obtain p where p: "score_student (score_fields ?s) None = Inr p"
    by (simp add: score_fields_def attr_def score_student_def or_zero_def val_cmp_def tracking_points_def dict_get_def)
  then obtain ans where ans: "segment_detail sample_pages [(7, ?s)] ''cap_hopefuls'' None None 5 0 = Inr ans"
    unfolding segment_detail_def up Let_def
    by (simp add: ALL_SEGMENTS_def enrich_def lift_call_def segs sample_pages_def)
  from segment_pages_match_summary [OF sum ans] obtain rows where rows: "ans = Some (''CAP_HOPEFULS'', 1, rows)"
    "map en_student rows = take 5 (map (iso_start \<circ> snd) (filter (\<lambda>(uid, s). in_segment (pg_segments sample_pages) s ''CAP_HOPEFULS''
       \<and> role_allows (pg_segments sample_pages) None None s) [(7, ?s)]))"
    unfolding up by (auto simp: ALL_SEGMENTS_def)
  have "in_segment sample_env ?s ''CAP_HOPEFULS''" by (simp add: in_segment_def float_field_def attr_def or_cell_def)
  with rows(2) have "map en_student rows = [?s]"
    by (simp add: sample_pages_def role_allows_def filter_by_role_def iso_start_def attr_def)
  then obtain e where "rows = [e]" "en_student e = ?s" by (auto simp: map_eq_Cons_conv)
  with sum ans rows(1) show ?thesis by (intro exI [of _ e]) (simp add: sample_pages_def)
qed

section \<open>Sources\<close>

lemma sum_update:
  "sum_list (map (f \<circ> snd) (AList.update k v al)) = (sum_list (map (f \<circ> snd) al) :: int)
     - (case map_of al k of None \<Rightarrow> 0 | Some w \<Rightarrow> f w) + f v"
  by (induction al) auto

lemma set_update: "distinct (map fst al) \<Longrightarrow> (k', w) \<in> set (AList.update k v al) \<Longrightarrow> w = v \<or> (k', w) \<in> set al"
  by (induction al) (auto split: if_split_asm)

lemma scored_as: "score_student x t = Inr r \<Longrightarrow> \<exists>a c. r = student_priority_score a c"
  by (auto simp: score_student_def Let_def bind_res_Inr_iff case_prod_unfold)

lemma critical_iff:
  assumes "score_student x t = Inr r"
  shows "sc_level r \<in> {''CRITICAL'', ''HIGH'', ''MEDIUM'', ''LOW''} \<and> (sc_level r = ''CRITICAL'' \<longleftrightarrow> 60 \<le> sc_score r)"
proof -
  obtain a c where r: "r = student_priority_score a c" using scored_as [OF assms] by blast
  show ?thesis
    by (cases "60 \<le> a"; cases "40 \<le> a"; cases "20 \<le> a") (simp_all add: r student_priority_score_def)
qed

text \<open>An entry whose counts agree and that counts no urgent student.\<close>

definition entry_adds_up :: "path_entry \<Rightarrow> bool" where
  "entry_adds_up e \<longleftrightarrow> map fst (pe_risk e) = [''URGENT'', ''HIGH'', ''MEDIUM'', ''LOW''] \<and> map_of (pe_risk e) ''URGENT'' = Some 0
     \<and> pe_total e = pe_tracked e + pe_untracked e \<and> sum_list (map snd (pe_risk e)) = pe_total e"

lemma new_entry_adds_up [simp]: "entry_adds_up new_entry"
  by (simp add: entry_adds_up_def new_entry_def)

lemma count_risk_Inr:
  assumes "entry_adds_up e" and "level \<in> {''CRITICAL'', ''HIGH'', ''MEDIUM'', ''LOW''}"
  shows "if level = ''CRITICAL'' then count_risk level (pe_risk e) = Inl (Py KeyError)
    else \<exists>risk. count_risk level (pe_risk e) = Inr risk \<and> map fst risk = map fst (pe_risk e) \<and> map_of risk ''URGENT'' = Some 0
      \<and> sum_list (map snd risk) = sum_list (map snd (pe_risk e)) + 1"
proof -
  from assms(1) obtain h m l where r: "pe_risk e = [(''URGENT'', 0), (''HIGH'', h), (''MEDIUM'', m), (''LOW'', l)]"
    unfolding entry_adds_up_def by (auto simp: map_eq_Cons_conv)
  show ?thesis using assms(2) by (auto simp: count_risk_def r)
qed

lemma count_source_step:
  assumes "score_student (score_fields s) None = Inr p" and "\<forall>(k, e) \<in> set by_path. entry_adds_up e" and "distinct (map fst by_path)"
  shows "if 60 \<le> sc_score p then count_source P tracked (uid, s) by_path = Inl (Py KeyError)
    else \<exists>by_path'. count_source P tracked (uid, s) by_path = Inr by_path' \<and> (\<forall>(k, e) \<in> set by_path'. entry_adds_up e) \<and> distinct (map fst by_path')
      \<and> sum_list (map (pe_total \<circ> snd) by_path') = sum_list (map (pe_total \<circ> snd) by_path) + 1
      \<and> sum_list (map (pe_tracked \<circ> snd) by_path') = sum_list (map (pe_tracked \<circ> snd) by_path) + (if uid \<in> set tracked then 1 else 0)"
proof -
  let ?path = "source_path P s"
  let ?entry = "case map_of by_path ?path of None \<Rightarrow> new_entry | Some e \<Rightarrow> e"
  let ?counted = "\<lambda>risk. ?entry\<lparr>pe_total := pe_total ?entry + 1, pe_tracked := pe_tracked ?entry + (if uid \<in> set tracked then 1 else 0),
    pe_untracked := pe_untracked ?entry + (if uid \<in> set tracked then 0 else 1), pe_risk := risk\<rparr>"
  have ok: "entry_adds_up ?entry" using assms(2) by (auto split: option.split dest: map_of_SomeD)
  have step: "count_source P tracked (uid, s) by_path = bind_call (count_risk (sc_level p) (pe_risk ?entry)) (\<lambda>risk. Inr (AList.update ?path (?counted risk) by_path))"
    by (simp add: count_source_def Let_def assms(1) lift_call_def)
  have level: "sc_level p \<in> {''CRITICAL'', ''HIGH'', ''MEDIUM'', ''LOW''}" "sc_level p = ''CRITICAL'' \<longleftrightarrow> 60 \<le> sc_score p"
    using critical_iff [OF assms(1)] by auto
  note risk = count_risk_Inr [OF ok level(1)]
  show ?thesis
  proof (cases "60 \<le> sc_score p")
    case True
    with risk level(2) step show ?thesis by simp
  next
    case False
    with risk level(2) obtain r where r: "count_risk (sc_level p) (pe_risk ?entry) = Inr r" "map fst r = map fst (pe_risk ?entry)"
      "map_of r ''URGENT'' = Some 0" "sum_list (map snd r) = sum_list (map snd (pe_risk ?entry)) + 1" by auto
    have new: "entry_adds_up (?counted r)" using ok r(2-4) unfolding entry_adds_up_def by simp
    have "\<forall>(k, e) \<in> set (AList.update ?path (?counted r) by_path). entry_adds_up e"
      using set_update [OF assms(3)] assms(2) new by blast
    moreover have "distinct (map fst (AList.update ?path (?counted r) by_path))" using assms(3) by (rule distinct_update)
    moreover have "sum_list (map (f \<circ> snd) (AList.update ?path (?counted r) by_path)) = sum_list (map (f \<circ> snd) by_path) + f (?counted r) - f ?entry"
      if "f new_entry = 0" for f :: "path_entry \<Rightarrow> int" using that by (simp add: sum_update split: option.split)
    note this [of pe_total] this [of pe_tracked]
    ultimately show ?thesis using False step r(1) by (simp add: new_entry_def)
  qed
qed

text \<open>The scores of the columns of the mirror, which are numbers or missing, can be computed.\<close>

definition scorable :: "student \<Rightarrow> bool" where
  "scorable s \<longleftrightarrow> (\<exists>p. score_student (score_fields s) None = Inr p)"

definition critical :: "student \<Rightarrow> bool" where
  "critical s \<longleftrightarrow> (\<exists>p. score_student (score_fields s) None = Inr p \<and> 60 \<le> sc_score p)"

lemma count_sources_steps:
  assumes "\<forall>(uid, s) \<in> set students. scorable s" and "\<forall>(k, e) \<in> set by_path. entry_adds_up e" and "distinct (map fst by_path)"
  shows "if \<exists>(uid, s) \<in> set students. critical s then count_sources P tracked students by_path = Inl (Py KeyError)
    else \<exists>by_path'. count_sources P tracked students by_path = Inr by_path' \<and> (\<forall>(k, e) \<in> set by_path'. entry_adds_up e)
      \<and> sum_list (map (pe_total \<circ> snd) by_path') = sum_list (map (pe_total \<circ> snd) by_path) + int (length students)
      \<and> sum_list (map (pe_tracked \<circ> snd) by_path') = sum_list (map (pe_tracked \<circ> snd) by_path)
          + int (length (filter (\<lambda>(uid, s). uid \<in> set tracked) students))"
  using assms
proof (induction students arbitrary: by_path)
  case Nil
  then show ?case by simp
next
  case (Cons x xs)
  obtain uid s where x: "x = (uid, s)" by (cases x)
  with Cons.prems(1) obtain p where p: "score_student (score_fields s) None = Inr p" by (auto simp: scorable_def)
  then have crit: "critical s \<longleftrightarrow> 60 \<le> sc_score p" by (simp add: critical_def)
  note step = count_source_step [OF p Cons.prems(2,3), of P tracked uid]
  show ?case
  proof (cases "60 \<le> sc_score p")
    case True
    with step crit show ?thesis by (simp add: x)
  next
    case False
    with step obtain by_path' where s: "count_source P tracked (uid, s) by_path = Inr by_path'"
      "\<forall>(k, e) \<in> set by_path'. entry_adds_up e" "distinct (map fst by_path')"
      "sum_list (map (pe_total \<circ> snd) by_path') = sum_list (map (pe_total \<circ> snd) by_path) + 1"
      "sum_list (map (pe_tracked \<circ> snd) by_path') = sum_list (map (pe_tracked \<circ> snd) by_path) + (if uid \<in> set tracked then 1 else 0)"
      by auto
    have "\<forall>(uid, s) \<in> set xs. scorable s" using Cons.prems(1) by simp
    from Cons.IH [OF this s(2,3)] s(1,4,5) False crit show ?thesis by (auto simp: x comp_def)
  qed
qed

text \<open>
  C37. The summary by source breaks as soon as one mirrored student has a critical score: the level has
  no counter, and the request ends with a key error. Otherwise it counts every student once: the totals
  of the paths sum to the mirrored students and the tracked among them, an entry is the sum of its
  tracked and untracked students and of its levels, and the urgent level it lists is always zero.
\<close>

theorem source_summary_breaks_on_critical:
  assumes "\<forall>(uid, s) \<in> set students. scorable s"
  shows "if \<exists>(uid, s) \<in> set students. critical s then source_summary P students cases = Inl (Py KeyError)
    else \<exists>so. source_summary P students cases = Inr so \<and> so_total_source so = int (length students)
      \<and> so_total_tracked so = int (length (filter (\<lambda>(uid, s). uid \<in> tr_user_id ` set cases) students))
      \<and> so_total_untracked so = int (length (filter (\<lambda>(uid, s). uid \<notin> tr_user_id ` set cases) students))
      \<and> sorted (rev (map (pe_total \<circ> snd) (so_by_path so)))
      \<and> (\<forall>(k, e) \<in> set (so_by_path so). pe_total e = pe_tracked e + pe_untracked e
           \<and> sum_list (map snd (pe_risk e)) = pe_total e \<and> map_of (pe_risk e) ''URGENT'' = Some 0)"
proof -
  let ?t = "\<lambda>x. case x of (uid, s) \<Rightarrow> uid \<in> tr_user_id ` set cases"
  have ids: "set (tracked_ids cases) = tr_user_id ` set cases" by (simp add: tracked_ids_def)
  have split: "length students = length (filter ?t students) + length (filter (\<lambda>(uid, s). uid \<notin> tr_user_id ` set cases) students)"
    by (induction students) auto
  have perm: "sum_list (map (f \<circ> snd) (rev (sort_key (pe_total \<circ> snd) (rev by_path)))) = sum_list (map (f \<circ> snd) by_path)"
    for f :: "path_entry \<Rightarrow> int" and by_path :: "(string \<times> path_entry) list"
    by (rule sum_mset_sum_list [symmetric, THEN trans]) (simp add: sum_mset_sum_list [symmetric] del: sum_mset_sum_list)
  note steps = count_sources_steps [OF assms, of "[]" P "tracked_ids cases", unfolded ids]
  show ?thesis
  proof (cases "\<exists>(uid, s) \<in> set students. critical s")
    case True
    with steps show ?thesis by (simp add: source_summary_def)
  next
    case False
    with steps obtain by_path where b: "count_sources P (tracked_ids cases) students [] = Inr by_path"
      "\<forall>(k, e) \<in> set by_path. entry_adds_up e" "sum_list (map (pe_total \<circ> snd) by_path) = int (length students)"
      "sum_list (map (pe_tracked \<circ> snd) by_path) = int (length (filter ?t students))" by auto
    have "sorted (map (pe_total \<circ> snd) (sort_key (pe_total \<circ> snd) (rev by_path)))" by (rule sorted_sort_key)
    with False b split show ?thesis by (auto simp: source_summary_def Let_def perm rev_map entry_adds_up_def)
  qed
qed

theorem source_summary_breaks_on_critical_witness:
  "\<forall>P. source_summary P [(7, [''HWsBehind'' \<mapsto> CInt 4, ''LastActivityDays'' \<mapsto> CInt 20])] [] = Inl (Py KeyError)"
proof
  fix P
  let ?s = "[''HWsBehind'' \<mapsto> CInt 4, ''LastActivityDays'' \<mapsto> CInt 20] :: student"
  have p: "\<exists>p. score_student (score_fields ?s) None = Inr p \<and> 60 \<le> sc_score p"
    by (simp add: score_fields_def attr_def score_student_def or_zero_def val_cmp_def tracking_points_def student_priority_score_def dict_get_def)
  then show "source_summary P [(7, ?s)] [] = Inl (Py KeyError)"
    using source_summary_breaks_on_critical [of "[(7, ?s)]" P "[]"] by (auto simp: scorable_def critical_def)
qed

section \<open>The drawer\<close>

text \<open>The text of a timestamp, as the code writes it, is read back as the timestamp.\<close>

definition reads_back :: "segment_env \<Rightarrow> student \<Rightarrow> bool" where
  "reads_back env s \<longleftrightarrow> (\<forall>t. attr s ''IPBCStartDate'' = CTime t \<longrightarrow> t \<noteq> [] \<and> sg_parse_iso env t = Some t)"

lemma newcomer_iso_start: "reads_back env s \<Longrightarrow> newcomer env (iso_start s) = newcomer env s"
  by (cases "attr s ''IPBCStartDate''")
    (auto simp: newcomer_def reads_back_def iso_start_def attr_def or_cell_def split: cell.splits)

lemma classify_iso_start: "reads_back env s \<Longrightarrow> classify_student env (iso_start s) = classify_student env s"
  by (simp add: classify_student_def newcomer_iso_start attr_iso_start float_field_iso_start)

lemma balance_iso_start: "compute_balance L (iso_start s) = compute_balance L s"
  by (simp add: compute_balance_def float_field_iso_start)

lemma drawer_payment_fields:
  assumes "drawer_payment P (iso_start s) = Inr c"
  shows "\<exists>b tc sb cv. compute_balance (sg_floats (pg_segments P)) s = Inr b \<and> float_field (sg_floats (pg_segments P)) s ''Total_Credits'' = Inr tc
    \<and> float_field (sg_floats (pg_segments P)) s ''PaymentBalance'' = Inr sb \<and> float_field (sg_floats (pg_segments P)) s ''ClassValue'' = Inr cv
    \<and> py_actual_balance c = pg_round2 P b \<and> py_is_bundle_deal c = is_bundle tc sb cv \<and> py_payment_risk c = payment_risk_label b"
proof -
  have "drawer_payment P (iso_start s) = Inr c \<Longrightarrow> ?thesis"
    unfolding drawer_payment_def Let_def bind_call_Inr lift_call_Inr
    by (auto simp: balance_iso_start float_field_iso_start)
  with assms show ?thesis by blast
qed



end
