(* ===== verification/DashboardsProps.thy ===== *)
theory DashboardsProps
  imports Dashboards StudentPagesProps
begin

text \<open>
  Properties of the aggregates: the counts of the states add up, the funnel narrows, the indicators
  agree with the segments, and the case operations never count as a contact.
\<close>

section \<open>Counts\<close>

lemma number_where_le: "(\<And>x. x \<in> set xs \<Longrightarrow> P x \<Longrightarrow> Q x) \<Longrightarrow> number_where P xs \<le> number_where Q xs"
proof -
  assume "\<And>x. x \<in> set xs \<Longrightarrow> P x \<Longrightarrow> Q x"
  then have "length (filter P xs) \<le> length (filter Q xs)"
  proof (induction xs)
    case (Cons x xs)
    then have "length (filter P xs) \<le> length (filter Q xs)" by simp
    with Cons.prems [of x] show ?case by (auto simp: le_SucI)
  qed simp
  then show ?thesis by (simp add: number_where_def)
qed

lemma number_where_nonneg [simp]: "0 \<le> number_where P xs"
  by (simp add: number_where_def)

lemma number_where_True: "number_where (\<lambda>x. True) xs = int (length xs)"
  by (simp add: number_where_def)

lemma number_where_disj:
  assumes "\<And>x. P x \<Longrightarrow> \<not> Q x"
  shows "number_where (\<lambda>x. P x \<or> Q x) xs = number_where P xs + number_where Q xs"
  using assms by (induction xs) (auto simp: number_where_def)

lemma number_where_in:
  "distinct ks \<Longrightarrow> (\<Sum>k \<leftarrow> ks. number_where (\<lambda>x. f x = k) xs) = number_where (\<lambda>x. f x \<in> set ks) xs"
proof (induction ks)
  case (Cons k ks)
  then have "number_where (\<lambda>x. f x = k \<or> f x \<in> set ks) xs = number_where (\<lambda>x. f x = k) xs + number_where (\<lambda>x. f x \<in> set ks) xs"
    by (intro number_where_disj) auto
  with Cons show ?case by simp
qed (simp add: number_where_def)

lemma number_where_sum:
  assumes "distinct ks" and "\<forall>x \<in> set xs. f x \<in> set ks"
  shows "(\<Sum>k \<leftarrow> ks. number_where (\<lambda>x. f x = k) xs) = int (length xs)"
  using number_where_in [OF assms(1), of f xs] assms(2) by (simp add: number_where_def filter_id_conv)

lemma tracked_all: "sum_list (map snd (by_state cases)) = int (length cases)"
  using number_where_sum [of "remdups (map tr_state cases)" cases tr_state]
  by (simp add: by_state_def comp_def)

lemma state_count_by_state: "state_count (by_state cases) s = number_where (\<lambda>t. tr_state t = s) cases"
proof (cases "s \<in> tr_state ` set cases")
  case True
  then have "map_of (by_state cases) s = Some (number_where (\<lambda>t. tr_state t = s) cases)"
    by (simp add: by_state_def map_of_map_restrict image_iff restrict_map_def)
  then show ?thesis by (simp add: state_count_def)
next
  case False
  then have "map_of (by_state cases) s = None" by (auto simp: by_state_def map_of_eq_None_iff)
  moreover from False have "number_where (\<lambda>t. tr_state t = s) cases = 0"
    by (auto simp: number_where_def filter_empty_conv)
  ultimately show ?thesis by (simp add: state_count_def)
qed

lemma funnel_counts:
  "da_funnel (dashboard_summary round4 cases history) =
    \<lparr>fn_tracked = int (length cases), fn_contacted = number_where (\<lambda>t. 0 < tr_current_attempt t) cases,
     fn_responded = number_where (\<lambda>t. tr_state t = ''RESPONDED'') cases + number_where (\<lambda>t. tr_state t = ''ANALYZED'') cases
       + number_where (\<lambda>t. tr_state t = ''RESOLVED'') cases,
     fn_no_response = number_where (\<lambda>t. tr_state t = ''NO_RESPONSE'') cases,
     fn_intervention_required = number_where (\<lambda>t. tr_state t = ''INTERVENTION_REQUIRED'') cases,
     fn_resolved = number_where (\<lambda>t. tr_state t = ''RESOLVED'') cases, fn_closed = number_where (\<lambda>t. tr_state t = ''CLOSED'') cases,
     fn_shadow_executions = number_where (\<lambda>r. oh_execution_mode r = ''SHADOW'') history\<rparr>"
  by (simp add: dashboard_summary_def Let_def tracked_all state_count_by_state)

section \<open>Attempts\<close>

abbreviation attempts :: "database \<Rightarrow> int list" where
  "attempts d \<equiv> map tr_current_attempt (db_tracking d)"

lemma set_tracking_attempts:
  assumes ids: "distinct (map tr_id (db_tracking d))" and t: "t \<in> set (db_tracking d)"
    and t': "tr_id t' = tr_id t" "tr_current_attempt t' = tr_current_attempt t"
  shows "attempts (set_tracking t' d) = attempts d"
proof -
  have "r = t" if "r \<in> set (db_tracking d)" "tr_id r = tr_id t" for r
    using ids t that by (metis distinct_map inj_onD)
  then show ?thesis using t' by (auto simp: set_tracking_def)
qed

lemma manual_attempts:
  assumes "distinct (map tr_id (db_tracking d))"
  shows "attempts (snd (execute_manual_action st rs uid act notes d)) = attempts d"
proof (cases "map_of ACTION_TYPE_TO_STATE act")
  case None
  then show ?thesis by (simp add: execute_manual_action_def)
next
  case target: (Some target)
  show ?thesis
  proof (cases "latest (filter (\<lambda>r. tr_user_id r = uid) (db_tracking d))")
    case None
    with target show ?thesis by (simp add: execute_manual_action_def)
  next
    case (Some t)
    then have "t \<in> set (db_tracking d)" using latest_in by fastforce
    with Some target assms show ?thesis
      by (simp add: execute_manual_action_def Let_def set_tracking_attempts)
  qed
qed

lemma webhook_apply_attempts:
  assumes "distinct (map tr_id (db_tracking d))" and "t \<in> set (db_tracking d)"
  shows "attempts (snd (webhook_apply st we rs a meta raw p uid t d)) = attempts d"
proof -
  have "attempts (snd (webhook_move st rs uid et target t d)) = attempts d" for rs et target
    using assms by (auto simp: webhook_move_def log_transition_def set_tracking_attempts split: option.split)
  then show ?thesis by (simp add: webhook_apply_def Let_def case_prod_unfold)
qed

lemma webhook_process_attempts:
  "distinct (map tr_id (db_tracking d)) \<Longrightarrow> attempts (snd (webhook_process st we rs a meta raw d)) = attempts d"
  by (metis webhook_apply_attempts webhook_process_cases)

lemma ghl_webhook_attempts:
  assumes "distinct (map tr_id (db_tracking d))"
  shows "attempts (snd (ghl_webhook st we rs h raw d)) = attempts d"
proof -
  have "attempts (snd (webhook_process st we rs a meta raw (snd (record_processed_event rt x et u a raw' d)))) = attempts d"
    for rs a meta rt x et u raw'
    using webhook_process_attempts [of "snd (record_processed_event rt x et u a raw' d)"] assms by simp
  then show ?thesis by (simp add: ghl_webhook_def Let_def case_prod_unfold)
qed

lemma case_reaches_attempts:
  assumes "case_reaches st d d'" and "distinct (map tr_id (db_tracking d))"
  shows "attempts d' = attempts d"
  using assms
proof (induction rule: case_reaches.induct)
  case (step d d' d'')
  have "distinct (map tr_id (db_tracking d'))"
    using case_reaches_follows [OF step.hyps(1) step.prems] step.prems by (simp add: follows_def)
  with step.hyps(2) have "attempts d'' = attempts d'"
    by (cases rule: case_step.cases) (simp_all add: manual_attempts webhook_process_attempts ghl_webhook_attempts)
  with step show ?case by simp
qed simp

lemma contacted_attempts: "number_where (\<lambda>t. 0 < tr_current_attempt t) cases = number_where (\<lambda>n. 0 < n) (map tr_current_attempt cases)"
  by (induction cases) (auto simp: number_where_def)

lemma number_where_pointwise:
  assumes "length ys = length xs" and "\<forall>i < length xs. P (xs ! i) \<longrightarrow> Q (ys ! i)"
  shows "number_where P xs \<le> number_where Q ys"
proof -
  have "card {i. i < length xs \<and> P (xs ! i)} \<le> card {i. i < length ys \<and> Q (ys ! i)}"
    by (rule card_mono) (use assms in auto)
  then show ?thesis by (simp add: number_where_def length_filter_conv_card)
qed

section \<open>Indicators\<close>

lemma tally_sum: "sum_list (map snd (tally_name k d)) = sum_list (map snd d) + 1"
  by (induction k d rule: tally_name.induct) auto

lemma tally_all: "sum_list (map snd (fold (\<lambda>s. tally_name (f s)) xs d)) = sum_list (map snd d) + int (length xs)"
  by (induction xs arbitrary: d) (simp_all add: tally_sum)

lemma hyper_active_count:
  assumes "segment_summary env students = Inr counts"
  shows "state_count counts ''HYPER_ACTIVE'' = number_where (\<lambda>s. in_segment env s ''HYPER_ACTIVE'') students"
proof -
  have "distinct (map fst (map (\<lambda>k. (k, 0 :: int)) ALL_SEGMENTS))" by (simp add: ALL_SEGMENTS_def)
  from summarize_counts [OF assms [unfolded segment_summary_def] this, of "''HYPER_ACTIVE''"] show ?thesis
    by (simp add: ALL_SEGMENTS_def state_count_def number_where_def)
qed

section \<open>Properties\<close>

text \<open>
  The funnel adds up: every case is counted in exactly one state, so the counts of the states
  sum to the tracked cases; the contacted cases are among the tracked, the resolved among the
  responded, and the responded, silent, intervened and closed ones together exceed no total.
\<close>

theorem funnel_adds_up:
  "let d = dashboard_summary round4 cases history; f = da_funnel d
   in fn_tracked f = int (length cases) \<and> sum_list (map snd (da_by_state d)) = fn_tracked f
    \<and> 0 \<le> fn_contacted f \<and> fn_contacted f \<le> fn_tracked f \<and> 0 \<le> fn_resolved f \<and> fn_resolved f \<le> fn_responded f
    \<and> fn_responded f + fn_no_response f + fn_intervention_required f + fn_closed f \<le> fn_tracked f
    \<and> 0 \<le> fn_shadow_executions f \<and> fn_shadow_executions f \<le> da_total_attempts d"
proof -
  let ?n = "\<lambda>s. number_where (\<lambda>t. tr_state t = s) cases"
  let ?ks = "[''RESPONDED'', ''ANALYZED'', ''RESOLVED'', ''NO_RESPONSE'', ''INTERVENTION_REQUIRED'', ''CLOSED'']"
  have "distinct ?ks" by simp
  then have "sum_list (map ?n ?ks) = number_where (\<lambda>t. tr_state t \<in> set ?ks) cases" by (rule number_where_in)
  also have "\<dots> \<le> int (length cases)" by (simp add: number_where_def)
  finally have states: "sum_list (map ?n ?ks) \<le> int (length cases)" .
  have each: "da_by_state (dashboard_summary round4 cases history) = by_state cases"
    and all: "da_total_attempts (dashboard_summary round4 cases history) = int (length history)"
    by (simp_all add: dashboard_summary_def Let_def)
  show ?thesis
    using states number_where_le [of cases "\<lambda>t. 0 < tr_current_attempt t" "\<lambda>t. True"]
      number_where_le [of history "\<lambda>r. oh_execution_mode r = ''SHADOW''" "\<lambda>t. True"]
    by (simp add: funnel_counts each all Let_def tracked_all number_where_True)
qed

text \<open>
  C36. No operation of the platform counts as a contact. Whatever manual actions, webhooks and
  repository writes happen, the numbers of tracked and of contacted cases stay what they were, while
  the closed cases only grow; so where no case is contacted, the response rate stays zero however
  many cases have responded.
\<close>

theorem funnel_never_contacts:
  fixes round4 :: "int \<Rightarrow> int \<Rightarrow> pyfloat"
  assumes "case_reaches st d d'" and "distinct (map tr_id (db_tracking d))"
  defines "before \<equiv> dashboard_summary round4 (db_tracking d) (db_history d)"
    and "after \<equiv> dashboard_summary round4 (db_tracking d') (db_history d')"
  shows "fn_tracked (da_funnel after) = fn_tracked (da_funnel before)
    \<and> fn_contacted (da_funnel after) = fn_contacted (da_funnel before)
    \<and> fn_closed (da_funnel before) \<le> fn_closed (da_funnel after)
    \<and> da_contacted_rate after = da_contacted_rate before
    \<and> (fn_contacted (da_funnel before) = 0 \<longrightarrow> da_response_rate after = Fin 0)"
proof -
  have a: "attempts d' = attempts d" by (rule case_reaches_attempts [OF assms(1,2)])
  then have len: "length (db_tracking d') = length (db_tracking d)" by (rule map_eq_imp_length_eq)
  have f: "follows (db_tracking d) (db_tracking d')" by (rule case_reaches_follows [OF assms(1,2)])
  have contacted: "number_where (\<lambda>t. 0 < tr_current_attempt t) (db_tracking d') = number_where (\<lambda>t. 0 < tr_current_attempt t) (db_tracking d)"
    by (simp add: contacted_attempts a)
  have closed: "number_where (\<lambda>t. tr_state t = ''CLOSED'') (db_tracking d) \<le> number_where (\<lambda>t. tr_state t = ''CLOSED'') (db_tracking d')"
    using f len by (intro number_where_pointwise) (auto simp: follows_def dest: reaches_from_closed)
  have "da_contacted_rate (dashboard_summary round4 cs hs) = rate round4 (number_where (\<lambda>t. 0 < tr_current_attempt t) cs) (int (length cs))"
    and "number_where (\<lambda>t. 0 < tr_current_attempt t) cs = 0 \<Longrightarrow> da_response_rate (dashboard_summary round4 cs hs) = Fin 0" for cs hs
    by (simp_all add: dashboard_summary_def Let_def tracked_all rate_def)
  then show ?thesis using contacted closed len by (simp add: before_def after_def funnel_counts)
qed

text \<open>An uncontacted case is closed: the closed cases grow by one, no case counts as contacted.\<close>

definition uncontacted_db :: database where
  "uncontacted_db = (empty_database 9)\<lparr>db_tracking := [sample_case\<lparr>tr_current_attempt := 0\<rparr>]\<rparr>"

lemma uncontacted_closed:
  "map tr_state (db_tracking uncontacted_db) = [''CONTACTED'']"
  "map tr_state (db_tracking (sample_action ''CLOSE_CASE'' uncontacted_db)) = [''CLOSED'']"
  by code_simp+

theorem funnel_never_contacts_witness:
  "\<forall>round4. let before = dashboard_summary round4 (db_tracking uncontacted_db) (db_history uncontacted_db);
       d' = sample_action ''CLOSE_CASE'' uncontacted_db;
       after = dashboard_summary round4 (db_tracking d') (db_history d')
   in fn_closed (da_funnel before) = 0 \<and> fn_closed (da_funnel after) = 1
      \<and> fn_tracked (da_funnel after) = 1 \<and> fn_contacted (da_funnel after) = 0 \<and> da_response_rate after = Fin 0"
proof (rule allI)
  fix round4
  let ?before = "dashboard_summary round4 (db_tracking uncontacted_db) (db_history uncontacted_db)"
    and ?after = "dashboard_summary round4 (db_tracking (sample_action ''CLOSE_CASE'' uncontacted_db))
      (db_history (sample_action ''CLOSE_CASE'' uncontacted_db))"
  have "case_reaches sample_settings uncontacted_db (sample_action ''CLOSE_CASE'' uncontacted_db)"
    by (intro sample_action_reaches case_reaches.start)
  note kept = funnel_never_contacts [OF this, of round4]
  have before: "db_tracking uncontacted_db = [sample_case\<lparr>tr_current_attempt := 0\<rparr>]" by (simp add: uncontacted_db_def)
  obtain t where t: "db_tracking (sample_action ''CLOSE_CASE'' uncontacted_db) = [t]" "tr_state t = ''CLOSED''"
    using uncontacted_closed(2) by auto
  then have "fn_closed (da_funnel ?after) = 1" by (simp add: funnel_counts number_where_def)
  moreover have "fn_closed (da_funnel ?before) = 0" "fn_tracked (da_funnel ?before) = 1" "fn_contacted (da_funnel ?before) = 0"
    unfolding before by (simp_all add: funnel_counts number_where_def sample_case_def)
  ultimately show "let before = ?before; d' = sample_action ''CLOSE_CASE'' uncontacted_db;
       after = dashboard_summary round4 (db_tracking d') (db_history d')
   in fn_closed (da_funnel before) = 0 \<and> fn_closed (da_funnel after) = 1
      \<and> fn_tracked (da_funnel after) = 1 \<and> fn_contacted (da_funnel after) = 0 \<and> da_response_rate after = Fin 0"
    using kept before unfolding Let_def by simp
qed

text \<open>
  The extended indicators agree with each other: students of high and low engagement are disjoint,
  so are those with a balance and the paid ones, the sections count every student once, and every
  hyper active student of the segments is one of high engagement.
\<close>

theorem kpi_indicators:
  assumes "kpi_extended K students = Inr (Some k)"
  shows "kp_total_students k = int (length students)
    \<and> kp_high_engagement k + kp_low_engagement k \<le> kp_total_students k
    \<and> kp_with_balance k + kp_fully_paid k \<le> kp_total_students k
    \<and> sum_list (map snd (kp_sections k)) = kp_total_students k
    \<and> 0 \<le> kp_hyper_active k \<and> kp_hyper_active k \<le> kp_high_engagement k"
proof -
  have "students \<noteq> []" using assms by (auto simp: kpi_extended_def)
  with assms obtain logins balances counts where l: "int_values ''Past10DaysLogon'' students = Inr logins"
    and b: "float_values K ''PaymentBalance'' students = Inr balances"
    and c: "segment_summary (kp_segments K) students = Inr counts"
    and k: "kp_total_students k = int (length students)" "kp_high_engagement k = number_where (\<lambda>v. 7 \<le> v) logins"
      "kp_low_engagement k = number_where (\<lambda>v. v < 3) logins" "kp_with_balance k = number_where (\<lambda>b. fgt b (Fin 0)) balances"
      "kp_fully_paid k = number_where (\<lambda>b. b = Fin 0) balances" "kp_hyper_active k = state_count counts ''HYPER_ACTIVE''"
      "kp_sections k = fold (\<lambda>s. tally_name (section_name K s)) students []"
    unfolding kpi_extended_def bind_call_Inr by (simp only: if_False bind_call_Inr) auto
  note lv = each_call_map [OF l [unfolded int_values_def]] and bv = each_call_map [OF b [unfolded float_values_def]]
  have disj: "number_where P xs + number_where Q xs \<le> int (length xs)" if "\<And>x. P x \<Longrightarrow> \<not> Q x" for P Q and xs :: "'a list"
    using number_where_disj [of P Q xs, OF that] number_where_le [of xs "\<lambda>x. P x \<or> Q x" "\<lambda>x. True"] by (simp add: number_where_True)
  have "number_where (\<lambda>s. in_segment (kp_segments K) s ''HYPER_ACTIVE'') students \<le> number_where (\<lambda>v. 7 \<le> v) logins"
    by (rule number_where_pointwise) (use lv in \<open>auto simp: in_segment_def lift_call_def split: sum.split_asm\<close>)
  moreover have "number_where (\<lambda>v. 7 \<le> v) logins + number_where (\<lambda>v. v < 3) logins \<le> int (length logins)"
    by (rule disj) simp
  moreover have "number_where (\<lambda>b. fgt b (Fin 0)) balances + number_where (\<lambda>b. b = Fin 0) balances \<le> int (length balances)"
    by (rule disj) auto
  ultimately show ?thesis using k lv bv by (simp add: hyper_active_count [OF c] tally_all)
qed

end
