(* ===== verification/OperatorLog.thy ===== *)
theory OperatorLog
  imports LifecycleProps CaseActionsProps
begin

text \<open>
  What operators enter: notes (\<^verbatim>\<open>routers/notes.py\<close>), quick actions
  (\<^verbatim>\<open>routers/quick_actions.py\<close>) and the endpoint of the manual action
  (\<^verbatim>\<open>routers/actions.py\<close>). The tables are lists in the order of insertion, with the clock of
  the database and the next identifier of each; log lines and the texts of messages are left out. An entry is
  shown on the tabs of \<open>Lifecycle\<close> at once.
\<close>

section \<open>Tables\<close>

record note_entry =
  ne_id :: int
  ne_user_id :: int
  ne_author :: string
  ne_content :: string
  ne_is_ai_generated :: bool
  ne_created_at :: int

record attributed =
  at_execution_mode :: string
  at_correlation_id :: string
  at_causation_id :: "string option"
  at_execution_type :: string
  at_governance_scope :: string
  at_is_replay :: bool

record quick_log =
  ql_id :: int
  ql_student_user_id :: int
  ql_action_key :: string
  ql_action_label :: string
  ql_tab_name :: string
  ql_status :: string
  ql_payload_json :: "pydict option"
  ql_created_by :: string
  ql_attribution :: attributed
  ql_created_at :: int

record activity_entry =
  ae_id :: int
  ae_student_user_id :: int
  ae_activity_type :: string
  ae_activity_label :: string
  ae_channel :: string
  ae_source :: string
  ae_created_by :: string
  ae_shadow_only :: bool
  ae_attribution :: attributed
  ae_created_at :: int

record operator_db =
  od_notes :: "note_entry list"
  od_logs :: "quick_log list"
  od_activities :: "activity_entry list"
  od_next_note :: int
  od_next_log :: int
  od_next_activity :: int
  od_now :: int

section \<open>Notes\<close>

record note_request =
  nr_user_id :: int
  nr_content :: string
  nr_author :: string
  nr_is_ai_generated :: bool

text \<open>\<open>None\<close> is the answer for an empty note.\<close>

definition create_note :: "note_request \<Rightarrow> operator_db \<Rightarrow> note_entry option \<times> operator_db" where
  "create_note req db =
    (if strip (nr_content req) = [] then (None, db)
     else
       let note = \<lparr>ne_id = od_next_note db, ne_user_id = nr_user_id req, ne_author = take 100 (nr_author req),
             ne_content = take 4000 (nr_content req), ne_is_ai_generated = nr_is_ai_generated req, ne_created_at = od_now db\<rparr>
       in (Some note, db\<lparr>od_notes := od_notes db @ [note], od_next_note := od_next_note db + 1\<rparr>))"

text \<open>\<^verbatim>\<open>ORDER BY created_at DESC\<close>\<close>

definition newest_entries :: "('a \<Rightarrow> int) \<Rightarrow> 'a list \<Rightarrow> 'a list" where
  "newest_entries time xs = rev (sort_key time (rev xs))"

definition list_notes :: "int \<Rightarrow> operator_db \<Rightarrow> note_entry list" where
  "list_notes uid db = newest_entries ne_created_at (filter (\<lambda>n. ne_user_id n = uid) (od_notes db))"

section \<open>Quick actions\<close>

record quick_request =
  qa_student_user_id :: int
  qa_action_key :: string
  qa_action_label :: string
  qa_tab_name :: string
  qa_created_by :: string
  qa_payload_json :: "pydict option"

record quick_answer =
  qn_id :: int
  qn_shadow_mode :: bool
  qn_execution_mode :: string
  qn_meta :: governance_meta

definition attributed_as :: "settings \<Rightarrow> attribution_fields \<Rightarrow> attributed" where
  "attributed_as st a =
     \<lparr>at_execution_mode = enum_value (EXECUTION_MODE st), at_correlation_id = af_correlation_id a, at_causation_id = af_causation_id a,
      at_execution_type = af_execution_type a, at_governance_scope = af_governance_scope a, at_is_replay = af_is_replay a\<rparr>"

text \<open>The lengths of the columns, which the database checks.\<close>

definition quick_fits :: "quick_request \<Rightarrow> attribution_fields \<Rightarrow> bool" where
  "quick_fits req a \<longleftrightarrow> length (qa_action_key req) \<le> 100 \<and> length (qa_action_label req) \<le> 200 \<and> length (qa_tab_name req) \<le> 50
     \<and> length (qa_created_by req) \<le> 100 \<and> length (af_correlation_id a) \<le> 36
     \<and> (case af_causation_id a of None \<Rightarrow> True | Some c \<Rightarrow> length c \<le> 36)"

definition log_quick_action ::
  "settings \<Rightarrow> runtime \<Rightarrow> headers \<Rightarrow> quick_request \<Rightarrow> operator_db \<Rightarrow> quick_answer call_res \<times> operator_db" where
  "log_quick_action st rt h req db =
    (let a = build_request_attribution st (extract_correlation_id rt h) (extract_causation_id h) ''original'' None None;
         meta = make_governance_meta rt a;
         record = \<lparr>ql_id = od_next_log db, ql_student_user_id = qa_student_user_id req, ql_action_key = qa_action_key req,
           ql_action_label = qa_action_label req, ql_tab_name = qa_tab_name req, ql_status = ''LOGGED'',
           ql_payload_json = qa_payload_json req, ql_created_by = qa_created_by req, ql_attribution = attributed_as st a, ql_created_at = od_now db\<rparr>;
         activity = \<lparr>ae_id = od_next_activity db, ae_student_user_id = qa_student_user_id req, ae_activity_type = upper (qa_tab_name req),
           ae_activity_label = qa_action_label req, ae_channel = ''OPERATOR'', ae_source = ''operator'', ae_created_by = qa_created_by req,
           ae_shadow_only = is_shadow st, ae_attribution = attributed_as st a, ae_created_at = od_now db\<rparr>
     in if \<not> quick_fits req a then (Inl DatabaseError, db)
        else (Inr \<lparr>qn_id = ql_id record, qn_shadow_mode = is_shadow st, qn_execution_mode = str_of_mode (EXECUTION_MODE st), qn_meta = meta\<rparr>,
              db\<lparr>od_logs := od_logs db @ [record], od_activities := od_activities db @ [activity],
                 od_next_log := od_next_log db + 1, od_next_activity := od_next_activity db + 1\<rparr>))"

definition page_limit :: "int \<Rightarrow> nat" where
  "page_limit n = nat (max 1 (min n 200))"

definition get_campaign_activity :: "int \<Rightarrow> int \<Rightarrow> operator_db \<Rightarrow> activity_entry list" where
  "get_campaign_activity uid most db =
     take (page_limit most) (newest_entries ae_created_at (filter (\<lambda>a. ae_student_user_id a = uid) (od_activities db)))"

definition get_quick_action_log :: "int \<Rightarrow> int \<Rightarrow> operator_db \<Rightarrow> quick_log list" where
  "get_quick_action_log uid most db =
     take (page_limit most) (newest_entries ql_created_at (filter (\<lambda>l. ql_student_user_id l = uid) (od_logs db)))"

section \<open>What the tabs read\<close>

definition note_row_of :: "note_entry \<Rightarrow> note_row" where
  "note_row_of n = \<lparr>nt_user_id = ne_user_id n, nt_created_at = ne_created_at n, nt_content = ne_content n\<rparr>"

text \<open>A quick action sets no date of the activity.\<close>

definition campaign_row_of :: "activity_entry \<Rightarrow> campaign_row" where
  "campaign_row_of a = \<lparr>cg_student_user_id = ae_student_user_id a, cg_created_at = ae_created_at a, cg_activity_date = CNull,
     cg_activity_type = Some (ae_activity_type a), cg_activity_label = Some (ae_activity_label a)\<rparr>"

section \<open>The manual action\<close>

datatype manual_answer =
    Failed string governance_meta
  | Done manual_result governance_meta

text \<open>
  The answers of the endpoint: the code of the failure, or the result. \<^verbatim>\<open>execute_manual_action\<close>
  has no result of status \<^verbatim>\<open>max_attempts_reached\<close>, the branch for it is never taken.
\<close>

definition manual_action ::
  "settings \<Rightarrow> (nat \<Rightarrow> runtime) \<Rightarrow> headers \<Rightarrow> int \<Rightarrow> string \<Rightarrow> string option \<Rightarrow> database \<Rightarrow> manual_answer \<times> database" where
  "manual_action st rs h uid action_type notes d =
    (let meta = make_governance_meta (rs 0)
           (build_request_attribution st (extract_correlation_id (rs 0) h) (extract_causation_id h) ''original'' None None);
         (result, d') = execute_manual_action st (\<lambda>n. rs (n + 1)) uid action_type notes d
     in (case result of
           NotFound u \<Rightarrow> Failed ''NOT_FOUND'' meta
         | InvalidTransition f g \<Rightarrow> Failed ''INVALID_TRANSITION'' meta
         | InvalidAction a \<Rightarrow> Failed ''INVALID_ACTION'' meta
         | ManualOk u a f g tid corr \<Rightarrow> Done result meta, d'))"

lemma newest_value_added:
  assumes "newest_value user time value (xs @ [x]) u v" and "user x = u" and "\<forall>y \<in> set xs. user y = u \<longrightarrow> time y < time x"
  shows "v = value x"
proof -
  from assms(1,2) obtain a where a: "a \<in> set (xs @ [x])" "user a = u" "v = value a" "\<forall>b \<in> set (xs @ [x]). user b = u \<longrightarrow> time b \<le> time a"
    unfolding newest_value_def by (metis in_set_conv_decomp)
  have "time x \<le> time a" using a(4) assms(2) by simp
  with assms(3) a(1,2) have "a = x" by fastforce
  with a(3) show ?thesis by simp
qed

lemma request_scope: "af_governance_scope (build_request_attribution st c k e v None) = ''LIVE_AUTHORIZED''"
  by (simp add: build_request_attribution_def governance_scope_for_mode_def str_of_mode_def)

lemma request_suppression: "gm_suppression_codes (make_governance_meta rt (build_request_attribution st c k e v None)) = []"
  by (simp add: make_governance_meta_def build_request_attribution_def str_of_mode_def Let_def)

lemma create_note_some:
  assumes "create_note req db = (Some note, db')"
  shows "db' = db\<lparr>od_notes := od_notes db @ [note], od_next_note := od_next_note db + 1\<rparr>" and "ne_user_id note = nr_user_id req"
    and "ne_content note = take 4000 (nr_content req)" and "ne_created_at note = od_now db"
  using assms by (auto simp: create_note_def Let_def split: if_split_asm)

lemma log_quick_action_ok:
  assumes "log_quick_action st rt h req db = (Inr ans, db')"
  obtains l a where "od_logs db' = od_logs db @ [l]" and "od_activities db' = od_activities db @ [a]" and "od_notes db' = od_notes db"
    and "ae_student_user_id a = qa_student_user_id req" and "ae_activity_label a = qa_action_label req" and "ae_created_at a = od_now db"
    and "at_governance_scope (ql_attribution l) = ''LIVE_AUTHORIZED''" and "at_governance_scope (ae_attribution a) = ''LIVE_AUTHORIZED''"
    and "ae_shadow_only a \<longleftrightarrow> is_shadow st" and "gm_suppression_codes (qn_meta ans) = []"
  using assms by (auto simp: log_quick_action_def Let_def attributed_as_def request_scope request_suppression split: if_split_asm)

text \<open>
  What is refused leaves no trace: an empty note, or a quick action with a text too long for a column,
  changes nothing; and every list of entries has the length its limit allows.
\<close>

lemma refused_entries:
  "fst (create_note nreq db) = None \<Longrightarrow> snd (create_note nreq db) = db"
  "fst (log_quick_action st rt h qreq db) = Inl e \<Longrightarrow> snd (log_quick_action st rt h qreq db) = db"
  "length (get_quick_action_log uid most db) \<le> 200" "length (get_campaign_activity uid most db) \<le> 200"
  by (auto simp: create_note_def log_quick_action_def Let_def get_quick_action_log_def get_campaign_activity_def page_limit_def
      split: if_split_asm)

text \<open>
  C40. What an operator enters is shown at once: after a note and a quick action for a student, with no
  entry of the same or a later time, every tab that shows the student shows the first 4000 characters of
  the note and the label of the action in its row. The action is stored as one log and one activity, and
  both claim a scope authorized for live effects, with no suppression in the answer, in any mode.
\<close>

theorem operator_entries_shown:
  fixes instant :: "string \<Rightarrow> int" and cutoff :: int and tab :: tab and most :: nat and env :: date_env
  assumes "list_all (dated \<circ> snd) students"
    and "n < length (tab_students instant cutoff tab most students)" and "fst (tab_students instant cutoff tab most students ! n) = uid"
    and "\<forall>x \<in> set (od_notes db). ne_user_id x = uid \<longrightarrow> ne_created_at x < od_now db"
    and "\<forall>x \<in> set (od_activities db). ae_student_user_id x = uid \<longrightarrow> ae_created_at x < od_now db"
    and "create_note nreq db = (Some note, db1)" and "nr_user_id nreq = uid"
    and "log_quick_action st rt h qreq db1 = (Inr ans, db2)" and "qa_student_user_id qreq = uid"
  shows "(\<exists>ta. tab_endpoint env instant cutoff tab most students (map campaign_row_of (od_activities db2)) (map note_row_of (od_notes db2)) = Inr ta
      \<and> attr (snd (ta_rows ta ! n)) ''notes'' = CText (take 4000 (nr_content nreq))
      \<and> attr (snd (ta_rows ta ! n)) ''last_campaign_activity'' = CText (qa_action_label qreq))
    \<and> (\<exists>l a. od_logs db2 = od_logs db @ [l] \<and> od_activities db2 = od_activities db @ [a] \<and> ae_shadow_only a = is_shadow st
      \<and> at_governance_scope (ql_attribution l) = ''LIVE_AUTHORIZED'' \<and> at_governance_scope (ae_attribution a) = ''LIVE_AUTHORIZED'')
    \<and> gm_suppression_codes (qn_meta ans) = []"
proof -
  note made = create_note_some [OF assms(6)]
  obtain l a where q: "od_logs db2 = od_logs db1 @ [l]" "od_activities db2 = od_activities db1 @ [a]" "od_notes db2 = od_notes db1"
    "ae_student_user_id a = qa_student_user_id qreq" "ae_activity_label a = qa_action_label qreq" "ae_created_at a = od_now db1"
    "at_governance_scope (ql_attribution l) = ''LIVE_AUTHORIZED''" "at_governance_scope (ae_attribution a) = ''LIVE_AUTHORIZED''"
    "ae_shadow_only a \<longleftrightarrow> is_shadow st" "gm_suppression_codes (qn_meta ans) = []"
    by (rule log_quick_action_ok [OF assms(8)])
  let ?acts = "map campaign_row_of (od_activities db2)" and ?notes = "map note_row_of (od_notes db2)"
  have acts: "?acts = map campaign_row_of (od_activities db) @ [campaign_row_of a]" and ntes: "?notes = map note_row_of (od_notes db) @ [note_row_of note]"
    by (simp_all add: q(2,3) made(1))
  obtain s where shown: "tab_students instant cutoff tab most students ! n = (uid, s)" using assms(3) by (metis prod.collapse)
  from lifecycle_rows [OF assms(1), where instant = instant and cutoff = cutoff and tab = tab and most = most and env = env
      and activities = ?acts and note_rows = ?notes] assms(2) shown
  obtain ta where ta: "tab_endpoint env instant cutoff tab most students ?acts ?notes = Inr ta"
    "newest_value cg_student_user_id cg_created_at (text_option \<circ> cg_activity_label) ?acts uid (attr (snd (ta_rows ta ! n)) ''last_campaign_activity'')"
    "newest_value nt_user_id nt_created_at (CText \<circ> nt_content) ?notes uid (attr (snd (ta_rows ta ! n)) ''notes'')"
    unfolding tab_students_def by (fastforce simp: Let_def)
  have "attr (snd (ta_rows ta ! n)) ''last_campaign_activity'' = (text_option \<circ> cg_activity_label) (campaign_row_of a)"
    by (rule newest_value_added [OF ta(2) [unfolded acts]])
      (use assms(5,9) q(4,6) made(1) in \<open>auto simp: campaign_row_of_def\<close>)
  moreover have "attr (snd (ta_rows ta ! n)) ''notes'' = (CText \<circ> nt_content) (note_row_of note)"
    by (rule newest_value_added [OF ta(3) [unfolded ntes]])
      (use assms(4,7) made(2,4) in \<open>auto simp: note_row_of_def\<close>)
  ultimately show ?thesis
    using ta(1) q made(1,3) by (auto simp: campaign_row_of_def note_row_of_def text_option_def)
qed

definition sample_operator_db :: operator_db where
  "sample_operator_db = \<lparr>od_notes = [\<lparr>ne_id = 1, ne_user_id = 7, ne_author = ''op'', ne_content = ''old'', ne_is_ai_generated = False, ne_created_at = 3\<rparr>],
     od_logs = [], od_activities = [], od_next_note = 2, od_next_log = 1, od_next_activity = 1, od_now = 9\<rparr>"

definition sample_note :: note_request where
  "sample_note = \<lparr>nr_user_id = 7, nr_content = ''called'', nr_author = ''op'', nr_is_ai_generated = False\<rparr>"

definition sample_quick :: quick_request where
  "sample_quick = \<lparr>qa_student_user_id = 7, qa_action_key = ''call'', qa_action_label = ''Call'', qa_tab_name = ''newcomers'',
     qa_created_by = ''op'', qa_payload_json = None\<rparr>"

theorem operator_entries_shown_witness:
  "\<forall>env. let (note, db1) = create_note sample_note sample_operator_db; (ans, db2) = log_quick_action sample_settings (sample_runtime 0) [] sample_quick db1
   in \<exists>ta. tab_endpoint env (\<lambda>t. 0) 0 Engagement 5 [(7, Map.empty)] (map campaign_row_of (od_activities db2)) (map note_row_of (od_notes db2)) = Inr ta
      \<and> attr (snd (ta_rows ta ! 0)) ''notes'' = CText ''called'' \<and> attr (snd (ta_rows ta ! 0)) ''last_campaign_activity'' = CText ''Call''"
proof
  fix env
  have "strip ''called'' \<noteq> []" by code_simp
  then obtain entry db1 where n: "create_note sample_note sample_operator_db = (Some entry, db1)"
    by (simp add: create_note_def sample_note_def Let_def)
  obtain ans db2 where q: "log_quick_action sample_settings (sample_runtime 0) [] sample_quick db1 = (Inr ans, db2)"
    by (simp add: log_quick_action_def quick_fits_def sample_quick_def build_request_attribution_def extract_correlation_id_def
      extract_causation_id_def header_def sample_runtime_def show_nat.simps Let_def)
  have dates: "list_all (dated \<circ> snd) [(7, Map.empty)]" by (simp add: dated_def attr_def)
  have row: "tab_students (\<lambda>t. 0) 0 Engagement 5 [(7, Map.empty)] = [(7, Map.empty)]" by (simp add: tab_students_def)
  have "0 < length (tab_students (\<lambda>t. 0) 0 Engagement 5 [(7, Map.empty)])" "fst (tab_students (\<lambda>t. 0) 0 Engagement 5 [(7, Map.empty)] ! 0) = 7"
    by (simp_all add: row)
  note shown = operator_entries_shown [OF dates this _ _ n _ q, where env = env]
  have "\<exists>ta. tab_endpoint env (\<lambda>t. 0) 0 Engagement 5 [(7, Map.empty)] (map campaign_row_of (od_activities db2)) (map note_row_of (od_notes db2)) = Inr ta
      \<and> attr (snd (ta_rows ta ! 0)) ''notes'' = CText ''called'' \<and> attr (snd (ta_rows ta ! 0)) ''last_campaign_activity'' = CText ''Call''"
    using shown by (simp add: sample_operator_db_def sample_note_def sample_quick_def)
  with n q show "let (note, db1) = create_note sample_note sample_operator_db; (ans, db2) = log_quick_action sample_settings (sample_runtime 0) [] sample_quick db1
   in \<exists>ta. tab_endpoint env (\<lambda>t. 0) 0 Engagement 5 [(7, Map.empty)] (map campaign_row_of (od_activities db2)) (map note_row_of (od_notes db2)) = Inr ta
      \<and> attr (snd (ta_rows ta ! 0)) ''notes'' = CText ''called'' \<and> attr (snd (ta_rows ta ! 0)) ''last_campaign_activity'' = CText ''Call''"
    by simp
qed

end
