(* ===== verification/ReportEndpoints.thy ===== *)
theory ReportEndpoints
  imports AdminPipeline InsightCache
begin

text \<open>
  The endpoints of \<^verbatim>\<open>routers/reports.py\<close> and \<^verbatim>\<open>routers/ai_insights.py\<close>: snapshots,
  reports and narratives on demand, and the insights of a student. The texts of messages and the start of
  the narrative batch, whose effect is that of \<open>Narratives\<close>, are left out.
\<close>

section \<open>Snapshots and reports\<close>

definition assemble_student_snapshot ::
  "snapshot_env \<Rightarrow> platform_tables \<Rightarrow> int \<Rightarrow> month \<Rightarrow> string \<Rightarrow> string option \<Rightarrow> warehouse \<Rightarrow> pydict call_res \<times> warehouse" where
  "assemble_student_snapshot env src sid ym execution_mode cfg wh =
    (case first_day ym of
       Inl e \<Rightarrow> (Inl (Py e), wh)
     | Inr _ \<Rightarrow> assemble_snapshot env src sid ym execution_mode cfg None wh)"

definition assemble_all_snapshots ::
  "(nat \<Rightarrow> snapshot_env) \<Rightarrow> platform_tables \<Rightarrow> int list \<Rightarrow> month \<Rightarrow> string \<Rightarrow> string option \<Rightarrow> warehouse
   \<Rightarrow> pydict call_res \<times> warehouse" where
  "assemble_all_snapshots envs src user_ids ym execution_mode cfg wh =
    (case first_day ym of
       Inl e \<Rightarrow> (Inl (Py e), wh)
     | Inr _ \<Rightarrow> assemble_all_active_snapshots envs src user_ids ym execution_mode cfg wh)"

text \<open>\<open>None\<close> is the answer that no report is published.\<close>

definition get_monthly_report :: "snapshot_env \<Rightarrow> int \<Rightarrow> int \<Rightarrow> int \<Rightarrow> warehouse \<Rightarrow> (pydict \<times> json) option res" where
  "get_monthly_report env sid year month_no wh = get_report_content env sid year month_no wh"

datatype report_answer = SnapshotMissing pyval | Generated pydict "json option"

definition generate_monthly_report ::
  "snapshot_env \<Rightarrow> platform_tables \<Rightarrow> int \<Rightarrow> month \<Rightarrow> string \<Rightarrow> warehouse \<Rightarrow> report_answer call_res \<times> warehouse" where
  "generate_monthly_report env src sid ym execution_mode wh =
    (case first_day ym of
       Inl e \<Rightarrow> (Inl (Py e), wh)
     | Inr _ \<Rightarrow>
         (case generate_student_report env src sid ym execution_mode None wh of
            (Inl e, wh') \<Rightarrow> (Inl e, wh')
          | (Inr (result, content), wh') \<Rightarrow>
              (Inr (if dict_get result ''status'' = VStr ''error'' then SnapshotMissing (dict_get result ''error'')
                    else Generated result content), wh')))"

definition generate_all_monthly_reports ::
  "(nat \<Rightarrow> nat \<Rightarrow> snapshot_env) \<Rightarrow> platform_tables \<Rightarrow> month \<Rightarrow> string \<Rightarrow> string option \<Rightarrow> warehouse \<Rightarrow> pydict call_res \<times> warehouse" where
  "generate_all_monthly_reports envs src ym execution_mode cohort_id wh =
    (case first_day ym of
       Inl e \<Rightarrow> (Inl (Py e), wh)
     | Inr _ \<Rightarrow>
         if given cohort_id then generate_cohort_report (envs 0) src (the cohort_id) ym execution_mode wh
         else
           (case segment_reports envs src ym execution_mode 0 finalize_segments wh of
              (Inl e, wh') \<Rightarrow> (Inl e, wh')
            | (Inr _, wh') \<Rightarrow>
                (Inr [(''report_month'', VStr (month_text ym)), (''status'', VStr ''completed_all_segments'')], wh')))"

definition backfill_endpoint :: "platform_tables \<Rightarrow> warehouse \<Rightarrow> pydict \<times> warehouse" where
  "backfill_endpoint src wh =
    (let wh' = backfill_narratives src wh; count_after = missing_summaries wh'
     in ([(''status'', VStr ''ok''), (''snapshots_backfilled'', VInt (missing_summaries wh - count_after)),
          (''snapshots_still_null'', VInt count_after)], wh'))"

section \<open>Insights\<close>

definition INSIGHT_TYPES :: "string list" where
  "INSIGHT_TYPES = [''OUTREACH_DRAFT'', ''INTERVENTION'', ''RISK_EXPLANATION'', ''INTERVIEW_COACHING'']"

text \<open>
  The student handed to the generation is the mirrored row, or the identifier alone. \<open>None\<close> is the answer
  for an invalid type.
\<close>

definition get_insight ::
  "insight_env \<Rightarrow> (int \<rightharpoonup> pydict) \<Rightarrow> int \<Rightarrow> string \<Rightarrow> cached_insight list \<Rightarrow> insight_view option \<times> cached_insight list" where
  "get_insight env students user_id insight_type rows =
    (let t = upper insight_type
     in if t \<notin> set INSIGHT_TYPES then (None, rows)
        else
          let student = (case students user_id of Some s \<Rightarrow> s | None \<Rightarrow> [(''UserID'', VInt user_id)]);
              (view, rows') = get_or_generate env user_id t student rows
          in (Some view, rows'))"

text \<open>
  The three groups of fields the items of a response share. The columns of cause and configuration version are
  never set, an insight has neither the column \<^verbatim>\<open>attribution_complete\<close> nor
  \<^verbatim>\<open>replay_context\<close>; \<open>fin\<close> is the text of the time an insight was finalized.
\<close>

definition build_finalized_protection_fields :: "(cached_insight \<Rightarrow> string option) \<Rightarrow> cached_insight \<Rightarrow> pydict" where
  "build_finalized_protection_fields fin i =
    [(''is_finalized'', VBool (ci_is_finalized i)), (''finalized_at'', opt_val (fin i)),
     (''mutation_permitted'', VBool (\<not> ci_is_finalized i)),
     (''lineage_classification'', VStr (if ci_is_finalized i then ''FINALIZED_READ_ONLY'' else ''ACTIVE''))]"

definition build_governance_attribution_fields :: "cached_insight \<Rightarrow> pydict" where
  "build_governance_attribution_fields i =
    [(''correlation_id'', opt_val (ci_correlation_id i)), (''causation_id'', VNone), (''config_version_id'', VNone),
     (''execution_mode'', VStr (ci_execution_mode i)), (''execution_type'', VStr (ci_execution_type i)),
     (''governance_scope'', VStr (ci_governance_scope i)), (''is_replay'', VBool (ci_is_replay i)), (''attribution_complete'', VBool False)]"

definition replay_visibility_fields :: "cached_insight \<Rightarrow> pydict" where
  "replay_visibility_fields i = [(''is_replay'', VBool (ci_is_replay i)), (''replay_context'', VNone)]"

text \<open>\<^verbatim>\<open>{**a, **b}\<close>\<close>

definition dict_merge :: "pydict \<Rightarrow> pydict \<Rightarrow> pydict" where
  "dict_merge d e = foldl (\<lambda>acc (k, v). dict_put k v acc) d e"

definition insight_item :: "(int \<Rightarrow> string) \<Rightarrow> (cached_insight \<Rightarrow> string option) \<Rightarrow> cached_insight \<Rightarrow> pydict" where
  "insight_item fmt fin i = foldl dict_merge
    [(''id'', VInt (ci_id i)), (''insight_type'', VStr (ci_insight_type i)), (''content'', opt_val (ci_content_text i)),
     (''model'', opt_val (ci_model_used i)), (''created_at'', VStr (fmt (ci_created_at i))),
     (''expires_at'', opt_val (map_option fmt (ci_expires_at i)))]
    [build_finalized_protection_fields fin i, build_governance_attribution_fields i, replay_visibility_fields i]"

record insight_page =
  ip_user_id :: int
  ip_count :: int
  ip_finalized_count :: int
  ip_insights :: "pydict list"

definition all_insights :: "(int \<Rightarrow> string) \<Rightarrow> (cached_insight \<Rightarrow> string option) \<Rightarrow> int \<Rightarrow> cached_insight list \<Rightarrow> insight_page" where
  "all_insights fmt fin user_id rows =
    (let items = rev (sort_key ci_created_at (rev (filter (\<lambda>i. ci_user_id i = user_id) rows)))
     in \<lparr>ip_user_id = user_id, ip_count = int (length items), ip_finalized_count = int (length (filter ci_is_finalized items)),
         ip_insights = map (insight_item fmt fin) items\<rparr>)"

section \<open>Facts\<close>

text \<open>
  The two ways to finish a month agree: finalizing reports leaves the same warehouse as the backfill of
  narratives followed by the reports of all segments, and both end with the same exception if one raises.
  A backfill needs no valid month, and its counts are those of the first step.
\<close>

theorem finalize_is_backfill_then_generate:
  assumes "valid_month ym"
  shows "snd (finalize_reports envs src ym mode wh)
      = snd (generate_all_monthly_reports envs src ym mode None (snd (backfill_endpoint src wh)))
    \<and> (\<forall>e. fst (finalize_reports envs src ym mode wh) = Inl e
        \<longleftrightarrow> fst (generate_all_monthly_reports envs src ym mode None (snd (backfill_endpoint src wh))) = Inl e)
    \<and> (\<forall>ans. fst (finalize_reports envs src ym mode wh) = Inr ans \<longrightarrow>
        dict_get ans ''narratives_backfilled'' = dict_get (fst (backfill_endpoint src wh)) ''snapshots_backfilled''
        \<and> dict_get ans ''narratives_still_null'' = dict_get (fst (backfill_endpoint src wh)) ''snapshots_still_null'')"
proof (cases "segment_reports envs src ym mode 0 finalize_segments (backfill_narratives src wh)")
  case (Pair res wh2)
  then show ?thesis using assms
    by (cases res) (auto simp: finalize_reports_def generate_all_monthly_reports_def backfill_endpoint_def first_day_def Let_def given_iff)
qed

text \<open>
  An item says the same of the replay in both groups, permits changes exactly when the insight is not
  finalized, and always claims an incomplete attribution; a page counts the items that permit no change.
\<close>

lemma insight_item_fields:
  "dict_get (insight_item fmt fin i) ''mutation_permitted'' = VBool (\<not> ci_is_finalized i)"
  "dict_get (insight_item fmt fin i) ''is_replay'' = VBool (ci_is_replay i)"
  "dict_get (insight_item fmt fin i) ''attribution_complete'' = VBool False"
  "dict_get (insight_item fmt fin i) ''content'' = opt_val (ci_content_text i)"
  by (simp_all add: insight_item_def dict_merge_def build_finalized_protection_fields_def build_governance_attribution_fields_def
      replay_visibility_fields_def)

lemma insight_pages:
  "ip_count (all_insights fmt fin uid rows) = int (length (filter (\<lambda>i. ci_user_id i = uid) rows))"
  "ip_finalized_count (all_insights fmt fin uid rows)
    = int (length (filter (\<lambda>d. dict_get d ''mutation_permitted'' = VBool False) (ip_insights (all_insights fmt fin uid rows))))"
  by (simp_all add: all_insights_def Let_def insight_item_fields filter_map comp_def)

end
