(* ===== verification/Transports.thy ===== *)
theory Transports
  imports GhlProps AiInsights Worker
begin

text \<open>
  The transports beside the one of \<open>Worker\<close>: SMS, email and calls
  (\<^verbatim>\<open>integrations/sms.py\<close>, \<^verbatim>\<open>email.py\<close>,
  \<^verbatim>\<open>synthflow.py\<close>) and the analysis of transcripts
  (\<^verbatim>\<open>integrations/llm.py\<close>). The texts of values and the phone number of the
  settings are parameters; no dispatch is sent and no transcript is analyzed;
  the live call \<^verbatim>\<open>_live_synthflow_dispatch\<close>, which nothing calls, is left out.
\<close>

section \<open>Results and log lines\<close>

definition assessment_fields :: "provider_assessment \<Rightarrow> pydict" where
  "assessment_fields a =
    [(''governance_scope'', VStr (go_governance_scope a)), (''provider_event_type'', opt_val (go_provider_event_type a)),
     (''outbound_suppressed'', VBool (go_outbound_suppressed a)), (''correlation_id'', opt_val (go_correlation_id a)),
     (''causation_id'', opt_val (go_causation_id a)), (''origin_source'', opt_val (go_origin_source a)),
     (''origin_authority'', opt_val (go_origin_authority a)), (''execution_mode'', VStr (go_execution_mode a)),
     (''execution_type'', VStr (go_execution_type a)), (''is_replay'', VBool (go_is_replay a)),
     (''config_version_id'', opt_val (go_config_version_id a)), (''degraded'', VBool (go_degraded a)),
     (''degradation_cause'', opt_val (go_degradation_cause a)), (''provider_blocked'', VBool (go_provider_blocked a)),
     (''blocking_reason'', opt_val (go_blocking_reason a))]"

definition int_val :: "int option \<Rightarrow> pyval" where
  "int_val n = (case n of None \<Rightarrow> VNone | Some k \<Rightarrow> VInt k)"

text \<open>\<^verbatim>\<open>_make_sms_result\<close>, \<^verbatim>\<open>_make_email_result\<close> and \<^verbatim>\<open>_make_call_result\<close>\<close>

definition make_sms_result :: "provider_assessment \<Rightarrow> string \<Rightarrow> int option \<Rightarrow> pydict" where
  "make_sms_result a outcome code = assessment_fields a @
     [(''channel'', VStr ''sms''), (''outcome'', VStr outcome), (''reason_codes'', str_list (go_reason_codes a)),
      (''provider_response_code'', int_val code)]"

definition make_email_result :: "provider_assessment \<Rightarrow> string \<Rightarrow> int option \<Rightarrow> pydict" where
  "make_email_result a outcome code = assessment_fields a @
     [(''channel'', VStr ''email''), (''outcome'', VStr outcome), (''reason_codes'', str_list (go_reason_codes a)),
      (''provider_response_code'', int_val code)]"

definition make_call_result :: "provider_assessment \<Rightarrow> string \<Rightarrow> int option \<Rightarrow> string option \<Rightarrow> pydict" where
  "make_call_result a outcome code call_id = assessment_fields a @
     [(''channel'', VStr ''call''), (''outcome'', VStr outcome), (''reason_codes'', str_list (go_reason_codes a)),
      (''provider_response_code'', int_val code), (''call_id'', opt_val call_id)]"

text \<open>The line of a dispatch: service, event and channel differ.\<close>

definition transport_line :: "string \<Rightarrow> string \<Rightarrow> string \<Rightarrow> runtime \<Rightarrow> provider_assessment \<Rightarrow> string \<Rightarrow> int option \<Rightarrow> log_line" where
  "transport_line service event channel rt a outcome code =
    (let level = (if go_degraded a \<or> go_provider_blocked a then ''warning'' else ''info'')
     in LogJson level
      [(''timestamp'', VStr (rt_now_iso rt)), (''level'', VStr level), (''service'', VStr service), (''event'', VStr event),
       (''channel'', VStr channel), (''governance_scope'', VStr (go_governance_scope a)),
       (''provider_event_type'', opt_val (go_provider_event_type a)), (''outbound_suppressed'', VBool (go_outbound_suppressed a)),
       (''correlation_id'', opt_val (go_correlation_id a)), (''origin_source'', opt_val (go_origin_source a)),
       (''origin_authority'', opt_val (go_origin_authority a)), (''execution_mode'', VStr (go_execution_mode a)),
       (''execution_type'', VStr (go_execution_type a)), (''is_replay'', VBool (go_is_replay a)),
       (''config_version_id'', opt_val (go_config_version_id a)), (''provider_blocked'', VBool (go_provider_blocked a)),
       (''degraded'', VBool (go_degraded a)), (''degradation_cause'', opt_val (go_degradation_cause a)),
       (''outcome'', VStr outcome), (''reason_codes'', str_list (go_reason_codes a)), (''provider_response_code'', int_val code)])"

definition emit_sms_log :: "runtime \<Rightarrow> provider_assessment \<Rightarrow> string \<Rightarrow> int option \<Rightarrow> log_line" where
  "emit_sms_log = transport_line ''sms_transport'' ''sms_dispatch_result'' ''sms''"

definition emit_email_log :: "runtime \<Rightarrow> provider_assessment \<Rightarrow> string \<Rightarrow> int option \<Rightarrow> log_line" where
  "emit_email_log = transport_line ''email_transport'' ''email_dispatch_result'' ''email''"

definition emit_call_log :: "runtime \<Rightarrow> provider_assessment \<Rightarrow> string \<Rightarrow> int option \<Rightarrow> log_line" where
  "emit_call_log = transport_line ''synthflow_transport'' ''call_dispatch_result'' ''call''"

text \<open>The warning in place of a live dispatch\<close>

definition phase12_line :: "string \<Rightarrow> runtime \<Rightarrow> provider_assessment \<Rightarrow> log_line" where
  "phase12_line service rt a =
     LogJson ''warning''
      [(''timestamp'', VStr (rt_now_iso rt)), (''level'', VStr ''warning''), (''service'', VStr service),
       (''event'', VStr ''live_dispatch_phase12_gate''), (''governance_scope'', VStr (go_governance_scope a)),
       (''correlation_id'', opt_val (go_correlation_id a)), (''execution_mode'', VStr (go_execution_mode a)),
       (''reason_codes'', str_list [''LIVE_SCOPE_REQUIRES_PHASE12_CERT''])]"

section \<open>Dispatch\<close>

definition held_back :: "provider_assessment \<Rightarrow> bool" where
  "held_back a \<longleftrightarrow> go_governance_scope a \<in> transport_suppressed_scopes \<or> go_outbound_suppressed a \<or> go_provider_blocked a"

definition held_outcome :: "provider_assessment \<Rightarrow> string" where
  "held_outcome a = (case map_of SCOPE_OUTCOME_MAP (go_governance_scope a) of None \<Rightarrow> ''shadow_only'' | Some x \<Rightarrow> x)"

definition certificate_codes :: "provider_assessment \<Rightarrow> pyval" where
  "certificate_codes a = str_list (go_reason_codes a @ [''LIVE_SCOPE_REQUIRES_PHASE12_CERT''])"

definition execute_sms_dispatch :: "runtime \<Rightarrow> provider_assessment \<Rightarrow> pydict \<Rightarrow> pydict \<times> log_line" where
  "execute_sms_dispatch rt a payload =
    (if held_back a then (make_sms_result a (held_outcome a) None, emit_sms_log rt a (held_outcome a) None)
     else (dict_put ''reason_codes'' (certificate_codes a) (make_sms_result a ''shadow_only'' None), phase12_line ''sms_transport'' rt a))"

definition execute_email_dispatch :: "runtime \<Rightarrow> provider_assessment \<Rightarrow> pydict \<Rightarrow> pydict \<times> log_line" where
  "execute_email_dispatch rt a payload =
    (if held_back a then (make_email_result a (held_outcome a) None, emit_email_log rt a (held_outcome a) None)
     else (dict_put ''reason_codes'' (certificate_codes a) (make_email_result a ''shadow_only'' None), phase12_line ''email_transport'' rt a))"

definition execute_call_dispatch :: "runtime \<Rightarrow> provider_assessment \<Rightarrow> pydict \<Rightarrow> pydict \<times> log_line" where
  "execute_call_dispatch rt a payload =
    (if held_back a then (make_call_result a (held_outcome a) None None, emit_call_log rt a (held_outcome a) None)
     else (dict_put ''reason_codes'' (certificate_codes a) (make_call_result a ''shadow_only'' None None), phase12_line ''synthflow_transport'' rt a))"

section \<open>Payloads\<close>

text \<open>\<^verbatim>\<open>d.get(k, default)\<close>\<close>

definition get_or :: "pydict \<Rightarrow> string \<Rightarrow> pyval \<Rightarrow> pyval" where
  "get_or d k v = (if has_key d k then dict_get d k else v)"

definition dispatch_metadata :: "pydict \<Rightarrow> int \<Rightarrow> pydict" where
  "dispatch_metadata student attempt =
     [(''user_id'', dict_get student ''UserID''), (''attempt'', VInt attempt), (''checkpoint'', dict_get student ''PathName'')]"

definition build_sms_payload :: "(pyval \<Rightarrow> string) \<Rightarrow> pydict \<Rightarrow> int \<Rightarrow> pydict" where
  "build_sms_payload text_of student attempt =
    (let first = text_of (get_or student ''FirstName'' (VStr [])); hws = text_of (get_or student ''HWsBehind'' (VInt 0))
     in [(''to'', dict_get student ''PhoneNumber''),
         (''body'', VStr (''Hi '' @ first @ '', this is your student success advisor. I noticed you'' @ [char_of (39 :: nat)] @ ''re '' @ hws
           @ '' assignment(s) behind. Reply YES to schedule a quick check-in call.'')),
         (''metadata'', VDict (dispatch_metadata student attempt))])"

text \<open>The dash and the apostrophes of the texts as their bytes\<close>

definition build_email_payload :: "(pyval \<Rightarrow> string) \<Rightarrow> pydict \<Rightarrow> int \<Rightarrow> pydict" where
  "build_email_payload text_of student attempt =
    (let first = text_of (get_or student ''FirstName'' (VStr [])); hws = text_of (get_or student ''HWsBehind'' (VInt 0));
         newline = [char_of (10 :: nat)]; quote = [char_of (39 :: nat)];
         dash = [char_of (226 :: nat), char_of (128 :: nat), char_of (148 :: nat)]
     in [(''to'', dict_get student ''Email''), (''subject'', VStr (''Checking in '' @ dash @ '' '' @ first)),
         (''body'', VStr (''Hi '' @ first @ '','' @ newline @ newline
           @ ''Your student success advisor noticed you may need some support. You currently have '' @ hws @ '' assignment(s) behind. We''
           @ quote @ ''d love to connect and help you get back on track.'' @ newline @ newline
           @ ''Please reply to this email or book a time at your convenience.'' @ newline @ newline
           @ ''Best,'' @ newline @ ''Student Success Team'')),
         (''metadata'', VDict (dispatch_metadata student attempt))])"

definition build_call_payload :: "string \<Rightarrow> pydict \<Rightarrow> int \<Rightarrow> pydict" where
  "build_call_payload phone_number student attempt =
     [(''to'', dict_get student ''PhoneNumber''), (''from'', VStr phone_number),
      (''metadata'', VDict (dispatch_metadata student attempt
         @ [(''hws_behind'', dict_get student ''HWsBehind''), (''avg_eff_rating'', dict_get student ''AvgEffRating'')]))]"

section \<open>Transcripts\<close>

definition transcript_student :: "int \<Rightarrow> string option" where
  "transcript_student user_id = (if user_id \<noteq> 0 then Some (show_int user_id) else None)"

text \<open>The context of an analysis with the attribution the webhook leaves at its defaults\<close>

definition transcript_context :: "string \<Rightarrow> int \<Rightarrow> ai_context" where
  "transcript_context cid user_id =
     \<lparr>ng_config_version_id = Some UNKNOWN_V0, ng_execution_mode = ''SHADOW'', ng_execution_type = ''original'',
      ng_correlation_id = Some cid, ng_config_rule_set = None, ng_causation_id = None, ng_upstream_intent_id = None,
      ng_idempotency_key = None, ng_compliance_hold_flag = False, ng_origin_source = Some ''ghl_webhook'',
      ng_origin_authority = Some ''platform_supplementary'', ng_actor_identity = Some ''webhook_handler'',
      ng_attribution_timestamp = None, ng_upstream_correlation_id = None, ng_ai_insight_id = None, ng_ai_insight_state = None,
      ng_ai_insight_version = None, ng_ai_generated_at = None, ng_ai_confidence_score = None, ng_ai_prompt_version = None,
      ng_ai_model_used = None, ng_ai_finalized_copy = False, ng_ai_risk_summary = None, ng_ai_recommended_intervention = None,
      ng_ai_sentiment = None, ng_circuit_breaker_state = ''UNKNOWN'', ng_historical_config_version_id = None,
      ng_source_artifact_id = None, ng_student_id_opaque = transcript_student user_id\<rparr>"

definition transcript_line :: "runtime \<Rightarrow> ai_assessment \<Rightarrow> int \<Rightarrow> int \<Rightarrow> string \<Rightarrow> log_line" where
  "transcript_line rt r user_id attempt checkpoint =
    (let level = (if na_degraded r \<or> na_ai_blocked r then ''warning'' else ''info'')
     in LogJson level
      [(''timestamp'', VStr (rt_now_iso rt)), (''level'', VStr level), (''service'', VStr ''llm_transport''),
       (''event'', VStr ''transcript_analysis_assessed''), (''ai_governance_tier'', VStr (na_ai_governance_tier r)),
       (''advisory_scope'', VStr (na_advisory_scope r)), (''execution_mode'', VStr (na_execution_mode r)),
       (''execution_type'', VStr (na_execution_type r)), (''is_replay'', VBool (na_is_replay r)),
       (''live_inference_suppressed'', VBool (na_live_inference_suppressed r)), (''correlation_id'', opt_val (na_correlation_id r)),
       (''config_version_id'', opt_val (na_config_version_id r)), (''student_id_opaque'', opt_val (transcript_student user_id)),
       (''attempt'', VInt attempt), (''checkpoint'', VStr checkpoint), (''degraded'', VBool (na_degraded r)),
       (''degradation_cause'', opt_val (na_degradation_cause r)), (''ai_blocked'', VBool (na_ai_blocked r)),
       (''reason_codes'', str_list (na_reason_codes r)), (''outcome'', VStr (na_outcome r))])"

definition analyze_transcript ::
  "(nat \<Rightarrow> ai_runtime) \<Rightarrow> string \<Rightarrow> int \<Rightarrow> int \<Rightarrow> string \<Rightarrow> store \<Rightarrow> pydict res \<times> store" where
  "analyze_transcript rs transcript user_id attempt checkpoint s =
    (case assess_ai_orchestration (rs 1) (transcript_context (rt_uuid (rs 0)) user_id) s of
       (Inl e, s') \<Rightarrow> (Inl e, s')
     | (Inr r, s') \<Rightarrow>
         (Inr [(''status'', VStr ''governance_assessed''), (''ai_governance_tier'', VStr (na_ai_governance_tier r)),
            (''advisory_scope'', VStr (na_advisory_scope r)), (''sentiment'', opt_val (na_advisory_sentiment r)),
            (''recommended_action'', opt_val (na_advisory_recommended_intervention r)), (''confidence'', opt_score (na_confidence_score r)),
            (''execution_mode'', VStr (na_execution_mode r)), (''governance_scope'', VStr (na_advisory_scope r)),
            (''correlation_id'', opt_val (na_correlation_id r)), (''config_version_id'', opt_val (na_config_version_id r)),
            (''degraded'', VBool (na_degraded r)), (''degradation_cause'', opt_val (na_degradation_cause r)),
            (''reason_codes'', str_list (na_reason_codes r)), (''ai_blocked'', VBool (na_ai_blocked r))],
          emit (transcript_line (runtime.truncate (rs 2)) r user_id attempt checkpoint) s'))"

section \<open>Dispatches\<close>

lemma held_outcome_known: "held_outcome a \<in> {''shadow_only'', ''suppressed_replay'', ''blocked'', ''unavailable'', ''duplicate_suppressed''}"
  by (auto simp: held_outcome_def SCOPE_OUTCOME_MAP_def split: option.split)

text \<open>What a result says, apart from its channel.\<close>

definition not_sent :: "provider_assessment \<Rightarrow> pydict \<Rightarrow> bool" where
  "not_sent a d \<longleftrightarrow> take 15 d = assessment_fields a \<and> dict_get d ''provider_response_code'' = VNone
     \<and> dict_get d ''outcome'' = VStr (if held_back a then held_outcome a else ''shadow_only'')
     \<and> dict_get d ''reason_codes'' = (if held_back a then str_list (go_reason_codes a) else certificate_codes a)"

text \<open>
  No transport sends anything: the result of an SMS, email or call dispatch carries the attribution of
  the assessment unchanged and no response of a provider, its outcome is that of the scope, and the
  payload is never looked at. Dispatches of assessments that the provider service returns are held back
  with the reason codes of the assessment.
\<close>

theorem transports_never_send:
  "not_sent a (fst (execute_sms_dispatch rt a p)) \<and> not_sent a (fst (execute_email_dispatch rt a p)) \<and> not_sent a (fst (execute_call_dispatch rt a p))
   \<and> execute_sms_dispatch rt a p = execute_sms_dispatch rt a p' \<and> execute_email_dispatch rt a p = execute_email_dispatch rt a p'
   \<and> execute_call_dispatch rt a p = execute_call_dispatch rt a p'
   \<and> (\<forall>ctx s s'. assess_provider_orchestration rt ctx s = (Inr a, s') \<longrightarrow> held_back a)"
proof (intro conjI)
  show "not_sent a (fst (execute_sms_dispatch rt a p))"
    by (simp add: not_sent_def execute_sms_dispatch_def make_sms_result_def assessment_fields_def int_val_def)
  show "not_sent a (fst (execute_email_dispatch rt a p))"
    by (simp add: not_sent_def execute_email_dispatch_def make_email_result_def assessment_fields_def int_val_def)
  show "not_sent a (fst (execute_call_dispatch rt a p))"
    by (simp add: not_sent_def execute_call_dispatch_def make_call_result_def assessment_fields_def int_val_def)
  have "held_back a" if "assess_provider_orchestration rt ctx s = (Inr a, s')" for ctx s s'
    using provider_always_contained [where rt = rt and ctx = ctx and s = s] that by (simp add: held_back_def)
  then show "\<forall>ctx s s'. assess_provider_orchestration rt ctx s = (Inr a, s') \<longrightarrow> held_back a" by blast
qed (simp_all add: execute_sms_dispatch_def execute_email_dispatch_def execute_call_dispatch_def)

section \<open>Transcripts\<close>

lemma transcript_unavailable:
  "\<exists>r. assess_ai_orchestration rt (transcript_context cid uid) s = (Inr r, emit (emit_ai_event_log rt r (transcript_student uid)) s)
    \<and> na_ai_governance_tier r = ''UNAVAILABLE'' \<and> na_advisory_scope r = ''UNAVAILABLE'' \<and> na_advisory_sentiment r = None
    \<and> na_advisory_recommended_intervention r = None \<and> na_confidence_score r = None"
  by (auto simp: assess_ai_orchestration_def Let_def transcript_context_def ai_evaluate_def ai_replay_types_def case_prod_unfold
      make_blocked_ai_assessment_def make_unavailable_ai_assessment_def)

text \<open>
  No transcript is ever analyzed: the analysis returns for every transcript the same result, of the tier
  and scope UNAVAILABLE, without sentiment, recommendation and confidence; it keeps the key set of the
  service and logs two lines, neither of which depends on the transcript.
\<close>

theorem transcript_never_analyzed:
  "\<exists>d l l'. analyze_transcript rs transcript uid attempt checkpoint s = (Inr d, emit l' (emit l s))
    \<and> dict_get d ''ai_governance_tier'' = VStr ''UNAVAILABLE'' \<and> dict_get d ''advisory_scope'' = VStr ''UNAVAILABLE''
    \<and> dict_get d ''sentiment'' = VNone \<and> dict_get d ''recommended_action'' = VNone \<and> dict_get d ''confidence'' = VNone
    \<and> (\<forall>other. analyze_transcript rs other uid attempt checkpoint s = (Inr d, emit l' (emit l s)))"
proof -
  obtain r where r: "assess_ai_orchestration (rs 1) (transcript_context (rt_uuid (rs 0)) uid) s
      = (Inr r, emit (emit_ai_event_log (rs 1) r (transcript_student uid)) s)"
    and f: "na_ai_governance_tier r = ''UNAVAILABLE''" "na_advisory_scope r = ''UNAVAILABLE''" "na_advisory_sentiment r = None"
      "na_advisory_recommended_intervention r = None" "na_confidence_score r = None"
    using transcript_unavailable by blast
  show ?thesis unfolding analyze_transcript_def r by (simp add: f) blast
qed

end
