(* ===== verification/Spec2Isabelle.thy ===== *)
theory Spec2Isabelle
  imports CaseActionsProps DecisionProps EligibilityProps ChannelProps PriorityProps GhlProps
    WorkerProps AlertsProps SchedulerProps AiInsightsProps InsightCacheProps TimelineProps
    SyncProps MirrorSyncProps CorrelationProps Payment Segmentation PaymentSync Narratives SnapshotProps ReportProps
    Accounts ConfigRegistryProps CampaignProps MessageSyncProps RetoolImportProps WorkQueueProps
    AdminPipelineProps LifecycleProps DashboardsProps StudentPagesProps
    OperatorLog ReportEndpoints Transports
begin

text \<open>
  A verification development for the Student Success Intelligence Platform, the FastAPI service
  under \<^verbatim>\<open>src/app\<close>. The platform mirrors student data, decides which students to
  contact, and records every step with attribution. Its core is a chain of governance services:
  each takes a context, passes a precondition gate, walks numbered rules, and returns an advisory
  record that it logs; the worker composes them over a batch of students, and only the manual
  action and the webhook change the state of an outreach case.

  \<^bold>\<open>Theories and code.\<close>
  \<^item> \<open>Prelude\<close>: Python values, errors, conversions, clock and identifier readings, the state of a
    service module (key set and log), reason-code lists, rule chains.
  \<^item> \<open>IdempotentService\<close>: the contract of the services that keep a key set, as two locales.
    \<open>Priority\<close> and \<open>Coordination\<close> interpret the strict one, \<open>GhlProvider\<close> the weak one.
  \<^item> \<open>StateMachine\<close> (\<^verbatim>\<open>state_machine.py\<close>): lifecycle table, step relation, reachability.
  \<^item> \<open>Repository\<close>, \<open>RepositoryProps\<close> (\<^verbatim>\<open>repositories/\<close>): the persistence gate and the four
    operations over an explicit database.
  \<^item> \<open>CaseActions\<close>, \<open>CaseActionsProps\<close> (\<^verbatim>\<open>services/outreach.py\<close>,
    \<^verbatim>\<open>routers/webhook.py\<close>, \<^verbatim>\<open>routers/_router_helpers.py\<close>): the
    two writers of a case and the attribution of a request.
  \<^item> \<open>DecisionEngine\<close>, \<open>Eligibility\<close>, \<open>ChannelSelector\<close> and their \<open>Props\<close> theories
    (\<^verbatim>\<open>decision_engine.py\<close>, \<^verbatim>\<open>eligibility.py\<close>,
    \<^verbatim>\<open>channel_selector.py\<close> with types and helpers): one definition per rule,
    chained in the order of the code.
  \<^item> \<open>Priority\<close>, \<open>PriorityProps\<close> (\<^verbatim>\<open>priority.py\<close> with types and helpers).
  \<^item> \<open>Coordination\<close>, \<open>CoordinationProps\<close> (\<^verbatim>\<open>coordinate_orchestration_cycle\<close> of
    \<^verbatim>\<open>outreach.py\<close> with types and helpers).
  \<^item> \<open>GhlProvider\<close>, \<open>GhlProps\<close> (\<^verbatim>\<open>ghl.py\<close> with types and helpers).
  \<^item> \<open>Worker\<close>, \<open>WorkerProps\<close> (\<^verbatim>\<open>worker.py\<close> with types and helpers, the transport
    boundary \<^verbatim>\<open>integrations/ghl.py\<close>, and the batch entry points).
  \<^item> \<open>Alerts\<close>, \<open>AlertsProps\<close> (\<^verbatim>\<open>alerts.py\<close>), \<open>AiInsights\<close>, \<open>AiInsightsProps\<close> and \<open>InsightCache\<close>,
    \<open>InsightCacheProps\<close> (\<^verbatim>\<open>ai_insights.py\<close>), \<open>Timeline\<close>, \<open>TimelineProps\<close>
    (\<^verbatim>\<open>timeline.py\<close>), \<open>Bootstrap\<close> (\<^verbatim>\<open>app/bootstrap/\<close>), \<open>Scheduler\<close>,
    \<open>SchedulerProps\<close> (\<^verbatim>\<open>scheduler.py\<close>), each with its types and helpers.
  \<^item> \<open>SyncCoordination\<close>, \<open>SyncProps\<close> (\<^verbatim>\<open>coordinate_sync_cycle\<close> of \<^verbatim>\<open>sync.py\<close>);
    \<open>CellStore\<close> and \<open>Cells\<close>, tables of cells with upserts, below \<open>MirrorSync\<close>,
    \<open>MirrorSyncProps\<close> (the imports of \<^verbatim>\<open>sync.py\<close>) and \<open>PaymentSync\<close>
    (\<^verbatim>\<open>payment_sync.py\<close>).
  \<^item> \<open>Correlation\<close>, \<open>CorrelationProps\<close> (\<^verbatim>\<open>app/middleware/\<close>), \<open>Payment\<close>
    (\<^verbatim>\<open>payment.py\<close>), \<open>Segmentation\<close> (\<^verbatim>\<open>segmentation.py\<close>),
    \<open>Narratives\<close> (\<^verbatim>\<open>_narrative_generation.py\<close>), \<open>Dates\<close>
    (\<^verbatim>\<open>date_utils.py\<close>).
  \<^item> \<open>Warehouse\<close>, the tables of revision 0002 as rows; \<open>Snapshot\<close>, \<open>SnapshotProps\<close>
    (\<^verbatim>\<open>snapshot.py\<close>); \<open>ReportSections\<close>, \<open>Report\<close>, \<open>ReportProps\<close> (\<^verbatim>\<open>report.py\<close>,
    \<^verbatim>\<open>_report_helpers.py\<close>); \<open>ScheduledJobs\<close> (\<^verbatim>\<open>_scheduled_jobs.py\<close>).
  \<^item> \<open>SqlSchema\<close>, a database schema as data with the statements that change it; \<open>Migrations\<close>
    (\<^verbatim>\<open>alembic/versions/\<close>), \<open>OrmModels\<close> (\<^verbatim>\<open>models.py\<close> and \<^verbatim>\<open>init_db\<close>
    of \<^verbatim>\<open>database.py\<close>), \<open>SchemaProps\<close> and \<open>Installations\<close>, in which columns,
    defaults, constraints and indexes the two ways to install the platform differ; \<open>Accounts\<close>, the privileges of the database accounts against
    the statements of the services.
  \<^item> \<open>ConfigRegistry\<close>, \<open>ConfigRegistryProps\<close>: the rows and constraints of revision 0003, the statements
    of its administrator, and the start-up of \<^verbatim>\<open>main.py\<close>: \<^verbatim>\<open>init_db\<close>, the check and
    the loader of \<^verbatim>\<open>database.py\<close>, bootstrap, registration of the jobs, and every line
    they log. A failure of any of these steps is a value of the model.
  \<^item> \<open>Campaign\<close>, \<open>CampaignProps\<close>: the shadow campaigns of \<^verbatim>\<open>src/shadow_campaign\<close>.
  \<^item> \<open>MessageSync\<close>, \<open>MessageSyncProps\<close> (\<^verbatim>\<open>ghl_sync.py\<close>): provider messages into
    their table. \<open>RetoolImport\<close>, \<open>RetoolImportProps\<close>
    (\<^verbatim>\<open>scripts/import_retool_outreach.py\<close>): historical activities, against the columns
    the installations of \<open>Installations\<close> have.
  \<^item> \<open>WorkQueue\<close>, \<open>WorkQueueProps\<close> (\<^verbatim>\<open>routers/work_queue.py\<close>): the queues of the
    operators, scored by \<open>Priority\<close>. \<open>Lifecycle\<close>, \<open>LifecycleProps\<close>
    (\<^verbatim>\<open>routers/lifecycle.py\<close>): the tabs of the cohorts, against the segments and the
    snapshots. \<open>StudentPages\<close>, \<open>StudentPagesProps\<close> (\<^verbatim>\<open>routers/students.py\<close>,
    \<^verbatim>\<open>segments.py\<close>, \<^verbatim>\<open>payment.py\<close>, \<^verbatim>\<open>source.py\<close>):
    the pages of a student, segment pages, payment table and summary by source. \<open>Dashboards\<close>,
    \<open>DashboardsProps\<close> (\<^verbatim>\<open>routers/dashboard.py\<close>, \<^verbatim>\<open>metrics.py\<close>):
    funnel and indicators, over the cases that \<open>CaseActions\<close> changes.
  \<^item> \<open>AdminPipeline\<close>, \<open>AdminPipelineProps\<close> (\<^verbatim>\<open>routers/admin.py\<close>): the pipeline
    that runs the imports and the snapshots, and the one that completes narratives and reports.
    \<open>ReportEndpoints\<close> (\<^verbatim>\<open>routers/reports.py\<close>, \<^verbatim>\<open>ai_insights.py\<close>): the same steps on
    demand, and the insights of a student.
  \<^item> \<open>OperatorLog\<close> (\<^verbatim>\<open>routers/notes.py\<close>,
    \<^verbatim>\<open>quick_actions.py\<close>, \<^verbatim>\<open>actions.py\<close>): what operators enter, and the rows
    that \<open>Lifecycle\<close> reads from it. \<open>Transports\<close>
    (\<^verbatim>\<open>integrations/\<close>): SMS, email, calls and transcripts, on assessments of
    \<open>GhlProvider\<close> and \<open>AiInsights\<close>.

  \<^bold>\<open>Correspondence.\<close> A dataclass is a record, with a prefix per component; a constant is a
  string; a mutated module-level set is the \<open>keys\<close> of a \<open>store\<close>; a log call appends a line. A
  function that can raise returns \<open>py_error + 'a\<close>, one constructor per exception class. Loops
  are structural recursions over the list they iterate, so no fuel is used anywhere. Integers
  are unbounded as in Python; floats are exact rationals with infinities and NaN, so that
  comparisons with configured thresholds are exact; conversions of text to floats and ages of
  timestamps are fields of \<open>runtime\<close>, parameters of every statement.

  \<^bold>\<open>What the lemmas show.\<close> Safety (no component authorizes a dispatch or an outbound effect;
  contact intents only for open cases), refinement of decision tables and rankings, invariants
  over all sequences of operations (keys, audit rows, lifecycle), totality and the exceptions
  that escape, and equivalences that record where the code ignores an input.

  The tables of the mirror and the warehouse are covered by invariants and round trips (imports and
  snapshots can be repeated up to time stamps and the identifiers of re-inserted activities, a
  published report is read back), the schema by the reversibility of
  each revision and the comparison of the two installations.

  \<^bold>\<open>Not modelled.\<close> The execution of SQL queries and their transport, provider HTTP calls, the
  scheduler library beyond its list of jobs, the health checks, the endpoints that only hand a request to a service, and the
  HTML front end: they are I/O or glue, and their results are arguments of the definitions that use
  them. A query whose filter, order or limit matters is written out over the rows of its table.
\<close>

section \<open>No service has authority of its own\<close>

text \<open>
  A call is contained: its record authorizes nothing, suppresses live effects, has no AUTHORIZED
  scope and is logged by one line; an exception that escapes is one of the given ones, and is not
  logged.
\<close>

fun contained_call ::
  "('r \<Rightarrow> bool) \<Rightarrow> ('r \<Rightarrow> bool) \<Rightarrow> ('r \<Rightarrow> string) \<Rightarrow> py_error set \<Rightarrow> store \<Rightarrow> 'r res \<times> store \<Rightarrow> bool" where
  "contained_call authorized suppressed scope_of errs s (Inl e, s') =
     (e \<in> errs \<and> events s' = events s)"
| "contained_call authorized suppressed scope_of errs s (Inr r, s') =
     (\<not> authorized r \<and> suppressed r \<and> scope_of r \<noteq> ''AUTHORIZED''
      \<and> (\<exists>l. events s' = events s @ [l]))"

text \<open>
  C16. No governance service has authority of its own: every call of prioritization, coordination,
  provider assessment, alerting, timeline lineage and synchronization, in any mode and from any
  state, returns a record without authorization and with live effects suppressed, never of scope
  AUTHORIZED, and logs exactly one line; only an overflow of a threshold conversion (coordination,
  provider, synchronization) or a type error of a threshold comparison (alerts) escapes, unlogged.
\<close>

theorem services_without_authority:
  "contained_call po_scoring_emit_authorized po_live_effects_suppressed po_governance_scope {} s
     (map_prod Inr id (assess_orchestration_priority rt pri s))
   \<and> contained_call oo_dispatch_authorized oo_live_effects_suppressed oo_governance_scope
     {OverflowError} s (coordinate_orchestration_cycle rt out s)
   \<and> contained_call (\<lambda>r. \<not> go_outbound_blocked r) go_outbound_suppressed go_governance_scope
     {OverflowError} s (assess_provider_orchestration rt ghl s)
   \<and> contained_call ao_alert_emit_authorized ao_live_effects_suppressed ao_governance_scope
     {TypeError} s (classify_degradation_alert rt alert s)
   \<and> contained_call to_lineage_emit_authorized to_live_effects_suppressed to_governance_scope {} s
     (map_prod Inr id (classify_timeline_event rt event s))
   \<and> contained_call yo_dispatch_authorized yo_live_effects_suppressed yo_governance_scope
     {OverflowError} s (coordinate_sync_cycle rt sync s)"
proof (intro conjI)
  show "contained_call po_scoring_emit_authorized po_live_effects_suppressed po_governance_scope {} s
     (map_prod Inr id (assess_orchestration_priority rt pri s))"
    using priority_without_authority [where rt = rt and ctx = pri and s = s] by (auto split: if_split_asm prod.split_asm)
  show "contained_call oo_dispatch_authorized oo_live_effects_suppressed oo_governance_scope
     {OverflowError} s (coordinate_orchestration_cycle rt out s)"
    using coordination_never_dispatches [where rt = rt and ctx = out and s = s]
    by (cases "coordinate_orchestration_cycle rt out s") (auto split: if_split_asm sum.split_asm)
  show "contained_call (\<lambda>r. \<not> go_outbound_blocked r) go_outbound_suppressed go_governance_scope
     {OverflowError} s (assess_provider_orchestration rt ghl s)"
    using provider_always_contained [where rt = rt and ctx = ghl and s = s]
    by (cases "assess_provider_orchestration rt ghl s") (auto simp: ghl_scope_def split: sum.split_asm if_split_asm)
  show "contained_call ao_alert_emit_authorized ao_live_effects_suppressed ao_governance_scope
     {TypeError} s (classify_degradation_alert rt alert s)"
    using alerts_visible_without_authority [where rt = rt and ctx = alert and s = s]
    by (cases "classify_degradation_alert rt alert s") (auto split: if_split_asm sum.split_asm)
  show "contained_call to_lineage_emit_authorized to_live_effects_suppressed to_governance_scope {} s
     (map_prod Inr id (classify_timeline_event rt event s))"
    using lineage_without_authority [where rt = rt and ctx = event and s = s]
    by (auto simp: timeline_scope_def split: if_split_asm prod.split_asm)
  show "contained_call yo_dispatch_authorized yo_live_effects_suppressed yo_governance_scope
     {OverflowError} s (coordinate_sync_cycle rt sync s)"
    using sync_without_authority [where rt = rt and ctx = sync and s = s]
    by (cases "coordinate_sync_cycle rt sync s")
      (auto simp: sync_scope_def split: if_split_asm sum.split_asm)
qed

end
